(* ===== verification/Json.thy ===== *)
theory Json
  imports Prelude
begin

text \<open>
  JSON documents and the two functions of Python's \<open>json\<close> module the manager
  uses: \<open>json.loads\<close> (a lexer followed by a pushdown machine over tokens) and
  \<open>json.dumps\<close> in its compact canonical form and its indented form.

  \<^item> A \<open>dict\<close> is an association list; a repeated key keeps its first position and
    takes the last value.
  \<^item> A number with a fraction or an exponent keeps its literal (\<open>JReal\<close>); an
    escape above code point 255 is outside the string model and is refused.
  \<^item> \<open>loads_dumps\<close>: reading back what was written gives the value that was written,
    with its keys sorted when the text was written with \<open>sort_keys\<close>.
\<close>

datatype json =
    JNull
  | JBool bool
  | JInt int
  | JReal string
  | JStr string
  | JArr "json list"
  | JObj "(string \<times> json) list"

section \<open>Access and comparison\<close>

fun as_obj :: "json \<Rightarrow> (string \<times> json) list option" where
  "as_obj (JObj kvs) = Some kvs"
| "as_obj _ = None"

fun as_arr :: "json \<Rightarrow> json list option" where
  "as_arr (JArr xs) = Some xs"
| "as_arr _ = None"

fun as_str :: "json \<Rightarrow> string option" where
  "as_str (JStr s) = Some s"
| "as_str _ = None"

text \<open>\<open>isinstance(v, int) and not isinstance(v, bool)\<close>.\<close>

fun as_int :: "json \<Rightarrow> int option" where
  "as_int (JInt i) = Some i"
| "as_int _ = None"

fun as_bool :: "json \<Rightarrow> bool option" where
  "as_bool (JBool b) = Some b"
| "as_bool _ = None"

definition jget :: "json \<Rightarrow> string \<Rightarrow> json option" where
  "jget v k = (case as_obj v of None \<Rightarrow> None | Some kvs \<Rightarrow> map_of kvs k)"

lemma jget_JObj [simp]: "jget (JObj kvs) k = map_of kvs k"
  by (simp add: jget_def)

text \<open>\<open>d.get(k)\<close> of an object: \<open>None\<close> is the JSON null.\<close>

definition jget_or_null :: "json \<Rightarrow> string \<Rightarrow> json" where
  "jget_or_null v k = (case jget v k of None \<Rightarrow> JNull | Some x \<Rightarrow> x)"

text \<open>\<open>v == i\<close> for a literal integer: Python equates \<open>True\<close> with 1 and
  \<open>1.0\<close> with 1.\<close>

definition real_eq_int :: "string \<Rightarrow> int \<Rightarrow> bool" where
  "real_eq_int lit i =
     (let neg = (lit \<noteq> [] \<and> hd lit = CHR ''-'');
          body = (if neg then tl lit else lit);
          ip = takeWhile is_digit body;
          r1 = dropWhile is_digit body;
          fp = (if r1 \<noteq> [] \<and> hd r1 = CHR ''.'' then takeWhile is_digit (tl r1) else []);
          r2 = (if r1 \<noteq> [] \<and> hd r1 = CHR ''.'' then dropWhile is_digit (tl r1) else r1);
          es = (if r2 = [] then [] else tl r2);
          eneg = (es \<noteq> [] \<and> hd es = CHR ''-'');
          ed = filter is_digit es;
          e = (if eneg then - int (read_nat ed) else int (read_nat ed)) - int (length fp);
          m = (if neg then - int (read_nat (ip @ fp)) else int (read_nat (ip @ fp)))
      in ip \<noteq> [] \<and>
         (if e \<ge> 0 then m * 10 ^ nat e = i else m = i * 10 ^ nat (- e)))"

fun eq_int :: "json \<Rightarrow> int \<Rightarrow> bool" where
  "eq_int (JInt j) i = (j = i)"
| "eq_int (JBool b) i = ((if b then 1 else 0) = i)"
| "eq_int (JReal r) i = real_eq_int r i"
| "eq_int _ i = False"

section \<open>Writing\<close>

definition hex_digit :: "nat \<Rightarrow> char" where
  "hex_digit d = (if d < 10 then digit_char d else char_of (87 + d))"

definition escape_char :: "char \<Rightarrow> string" where
  "escape_char c =
     (if c = CHR 0x22 then [CHR 0x5C, CHR 0x22]
      else if c = CHR 0x5C then [CHR 0x5C, CHR 0x5C]
      else if c = CHR 0x0A then [CHR 0x5C, CHR ''n'']
      else if c = CHR 0x0D then [CHR 0x5C, CHR ''r'']
      else if c = CHR 0x09 then [CHR 0x5C, CHR ''t'']
      else if c = CHR 0x0C then [CHR 0x5C, CHR ''f'']
      else if c = CHR 0x08 then [CHR 0x5C, CHR ''b'']
      else if code_of c < 32 then
        [CHR 0x5C, CHR ''u'', CHR ''0'', CHR ''0'',
         hex_digit (code_of c div 16), hex_digit (code_of c mod 16)]
      else [c])"

definition dump_string :: "string \<Rightarrow> string" where
  "dump_string s = CHR 0x22 # concat (map escape_char s) @ [CHR 0x22]"

text \<open>
  \<open>nl lvl\<close> is the white space written before an item at nesting level \<open>lvl\<close>,
  \<open>ks\<close> the white space after the colon of a key.
\<close>

fun dumps_with :: "(nat \<Rightarrow> string) \<Rightarrow> string \<Rightarrow> nat \<Rightarrow> json \<Rightarrow> string" where
  "dumps_with nl ks lvl JNull = ''null''"
| "dumps_with nl ks lvl (JBool b) = (if b then ''true'' else ''false'')"
| "dumps_with nl ks lvl (JInt i) = show_int i"
| "dumps_with nl ks lvl (JReal r) = r"
| "dumps_with nl ks lvl (JStr s) = dump_string s"
| "dumps_with nl ks lvl (JArr xs) =
     (if xs = [] then ''[]''
      else CHR ''['' # nl (Suc lvl) @
        join_with (CHR '','' # nl (Suc lvl)) (map (dumps_with nl ks (Suc lvl)) xs) @
        nl lvl @ '']'')"
| "dumps_with nl ks lvl (JObj kvs) =
     (if kvs = [] then ''{}''
      else CHR ''{'' # nl (Suc lvl) @
        join_with (CHR '','' # nl (Suc lvl))
          (map (\<lambda>(k, x). dump_string k @ CHR '':'' # ks @ dumps_with nl ks (Suc lvl) x) kvs) @
        nl lvl @ ''}'')"

text \<open>\<open>sort_keys=True\<close>, at every level.\<close>

fun jsort :: "json \<Rightarrow> json" where
  "jsort (JArr xs) = JArr (map jsort xs)"
| "jsort (JObj kvs) = JObj (sort_by fst (map (\<lambda>(k, x). (k, jsort x)) kvs))"
| "jsort v = v"

definition dumps_compact :: "json \<Rightarrow> string" where
  "dumps_compact v = dumps_with (\<lambda>_. []) [] 0 (jsort v)"

definition dumps_indent2 :: "json \<Rightarrow> string" where
  "dumps_indent2 v =
     dumps_with (\<lambda>lvl. newline @ replicate (2 * lvl) CHR '' '') '' '' 0 (jsort v)"

section \<open>Reading\<close>

datatype token =
    TLBrace | TRBrace | TLBrack | TRBrack | TColon | TComma
  | TStr string
  | TAtom json

definition json_ws :: "char \<Rightarrow> bool" where
  "json_ws c \<longleftrightarrow> c = CHR '' '' \<or> c = CHR 0x09 \<or> c = CHR 0x0A \<or> c = CHR 0x0D"

definition hex_val :: "char \<Rightarrow> nat option" where
  "hex_val c =
     (let n = code_of c in
      if 48 \<le> n \<and> n \<le> 57 then Some (n - 48)
      else if 97 \<le> n \<and> n \<le> 102 then Some (n - 87)
      else if 65 \<le> n \<and> n \<le> 70 then Some (n - 55)
      else None)"

definition hex4 :: "char \<Rightarrow> char \<Rightarrow> char \<Rightarrow> char \<Rightarrow> nat option" where
  "hex4 a b c d =
     (case (hex_val a, hex_val b, hex_val c, hex_val d) of
        (Some w, Some x, Some y, Some z) \<Rightarrow> Some (((w * 16 + x) * 16 + y) * 16 + z)
      | _ \<Rightarrow> None)"

definition simple_escape :: "char \<Rightarrow> char option" where
  "simple_escape e =
     (if e = CHR 0x22 then Some (CHR 0x22)
      else if e = CHR 0x5C then Some (CHR 0x5C)
      else if e = CHR ''/'' then Some (CHR ''/'')
      else if e = CHR ''n'' then Some (CHR 0x0A)
      else if e = CHR ''r'' then Some (CHR 0x0D)
      else if e = CHR ''t'' then Some (CHR 0x09)
      else if e = CHR ''f'' then Some (CHR 0x0C)
      else if e = CHR ''b'' then Some (CHR 0x08)
      else None)"

definition cons_fst :: "'a \<Rightarrow> ('a list \<times> 'b) option \<Rightarrow> ('a list \<times> 'b) option" where
  "cons_fst x r = map_option (\<lambda>(xs, y). (x # xs, y)) r"

fun scan_string :: "string \<Rightarrow> (string \<times> string) option" where
  "scan_string [] = None"
| "scan_string (c # s) =
     (if c = CHR 0x22 then Some ([], s)
      else if c = CHR 0x5C then
        (case s of
           [] \<Rightarrow> None
         | e # s1 \<Rightarrow>
             if e = CHR ''u'' then
               (case s1 of
                  x1 # x2 # x3 # x4 # s2 \<Rightarrow>
                    (case hex4 x1 x2 x3 x4 of
                       None \<Rightarrow> None
                     | Some n \<Rightarrow> if n < 256 then cons_fst (char_of n) (scan_string s2) else None)
                | _ \<Rightarrow> None)
             else (case simple_escape e of
                     None \<Rightarrow> None
                   | Some x \<Rightarrow> cons_fst x (scan_string s1)))
      else if code_of c < 32 then None
      else cons_fst c (scan_string s))"

text \<open>The longest match of \<open>-?(0|[1-9][0-9]*)(.[0-9]+)?([eE][-+]?[0-9]+)?\<close>.\<close>

definition scan_frac :: "string \<Rightarrow> string \<times> string" where
  "scan_frac s =
     (case s of
        d # r \<Rightarrow> (if d = CHR ''.'' \<and> takeWhile is_digit r \<noteq> []
                  then (CHR ''.'' # takeWhile is_digit r, dropWhile is_digit r) else ([], s))
      | [] \<Rightarrow> ([], s))"

definition scan_exp :: "string \<Rightarrow> string \<times> string" where
  "scan_exp s =
     (case s of
        d # r \<Rightarrow>
          (if d = CHR ''e'' \<or> d = CHR ''E'' then
             (let sg = (if r \<noteq> [] \<and> (hd r = CHR ''-'' \<or> hd r = CHR ''+'') then [hd r] else []);
                  r1 = drop (length sg) r
              in if takeWhile is_digit r1 \<noteq> []
                 then (d # sg @ takeWhile is_digit r1, dropWhile is_digit r1) else ([], s))
           else ([], s))
      | [] \<Rightarrow> ([], s))"

definition scan_number :: "string \<Rightarrow> (json \<times> string) option" where
  "scan_number s =
     (let neg = (s \<noteq> [] \<and> hd s = CHR ''-'');
          s1 = (if neg then tl s else s);
          ds = takeWhile is_digit s1
      in if ds = [] then None
         else
           (let ip = (if hd ds = CHR ''0'' then ''0'' else ds);
                r1 = drop (length ip) s1;
                (fr, r2) = scan_frac r1;
                (ex, r3) = scan_exp r2
            in if fr = [] \<and> ex = []
               then Some (JInt (if neg then - int (read_nat ip) else int (read_nat ip)), r3)
               else Some (JReal ((if neg then ''-'' else []) @ ip @ fr @ ex), r3)))"

definition scan_word :: "string \<Rightarrow> (json \<times> string) option" where
  "scan_word s =
     (if prefix ''null'' s then Some (JNull, drop 4 s)
      else if prefix ''true'' s then Some (JBool True, drop 4 s)
      else if prefix ''false'' s then Some (JBool False, drop 5 s)
      else if prefix ''NaN'' s then Some (JReal ''nan'', drop 3 s)
      else if prefix ''Infinity'' s then Some (JReal ''inf'', drop 8 s)
      else if prefix ''-Infinity'' s then Some (JReal ''-inf'', drop 9 s)
      else scan_number s)"

lemma scan_string_shorter: "scan_string s = Some (r, t) \<Longrightarrow> length t < length s"
proof (induction s arbitrary: r t rule: scan_string.induct)
  case (2 c s)
  have cons: "cons_fst x y = Some (r, t) \<Longrightarrow> \<exists>r'. y = Some (r', t)" for x and y :: "(string \<times> string) option"
    by (auto simp: cons_fst_def)
  from "2.prems" consider (quote) "t = s"
    | (uni) x1 x2 x3 x4 s2 n r' where "c \<noteq> CHR 0x22" "c = CHR 0x5C" "s = CHR ''u'' # x1 # x2 # x3 # x4 # s2"
        "hex4 x1 x2 x3 x4 = Some n" "n < 256" "scan_string s2 = Some (r', t)"
    | (esc) e s1 x r' where "c \<noteq> CHR 0x22" "c = CHR 0x5C" "s = e # s1" "e \<noteq> CHR ''u''"
        "simple_escape e = Some x" "scan_string s1 = Some (r', t)"
    | (plain) r' where "c \<noteq> CHR 0x22" "c \<noteq> CHR 0x5C" "\<not> code_of c < 32" "scan_string s = Some (r', t)"
    by (auto dest!: cons split: if_splits list.splits option.splits)
  then show ?case
  proof cases
    case uni
    then have "length t < length s2" by (intro "2.IH"(1)) auto
    with uni show ?thesis by simp
  next
    case esc
    then have "length t < length s1" by (intro "2.IH"(2)) auto
    with esc show ?thesis by simp
  next
    case plain
    then have "length t < length s" by (intro "2.IH"(3)) auto
    then show ?thesis by simp
  qed simp
qed simp

lemma scan_frac_shorter: "scan_frac s = (f, t) \<Longrightarrow> length t \<le> length s"
  using length_dropWhile_le [of is_digit "tl s"]
  by (auto simp: scan_frac_def split: list.splits if_splits)

lemma scan_exp_shorter: "scan_exp s = (f, t) \<Longrightarrow> length t \<le> length s"
  by (auto simp: scan_exp_def Let_def split: list.splits if_splits
      intro: le_SucI order_trans [OF length_dropWhile_le])

lemma scan_number_shorter: "scan_number s = Some (v, t) \<Longrightarrow> length t < length s"
proof -
  assume a: "scan_number s = Some (v, t)"
  define s1 where "s1 = (if s \<noteq> [] \<and> hd s = CHR ''-'' then tl s else s)"
  define ds where "ds = takeWhile is_digit s1"
  define ip where "ip = (if hd ds = CHR ''0'' then ''0'' else ds)"
  define r1 where "r1 = drop (length ip) s1"
  obtain fr r2 where f: "scan_frac r1 = (fr, r2)" by fastforce
  obtain ex r3 where e: "scan_exp r2 = (ex, r3)" by fastforce
  from a have ne: "ds \<noteq> []"
    by (auto simp: scan_number_def Let_def ds_def s1_def split: if_splits)
  with a f e have t: "t = r3"
    by (auto simp: scan_number_def Let_def ds_def s1_def ip_def r1_def split: if_splits)
  have "length s1 \<le> length s" by (simp add: s1_def)
  moreover have "s1 \<noteq> []" using ne by (auto simp: ds_def)
  moreover have "ip \<noteq> []" using ne by (auto simp: ip_def)
  ultimately have "length r1 < length s" by (cases ip; cases s1) (auto simp: r1_def)
  with scan_frac_shorter [OF f] scan_exp_shorter [OF e] t show ?thesis by simp
qed

lemma scan_word_shorter:
  assumes "scan_word s = Some (v, t)"
  shows "length t < length s"
proof -
  from assms have "s \<noteq> []"
    by (cases s) (auto simp: scan_word_def scan_number_def Let_def)
  then have *: "0 < n \<Longrightarrow> length s - n < length s" for n
    by (cases s) auto
  from assms show ?thesis
    by (auto simp: scan_word_def * split: if_splits intro: scan_number_shorter)
qed

definition cons_opt :: "'a \<Rightarrow> 'a list option \<Rightarrow> 'a list option" where
  "cons_opt x r = map_option (Cons x) r"

function lex :: "string \<Rightarrow> token list option" where
  "lex [] = Some []"
| "lex (c # s) =
     (if json_ws c then lex s
      else if c = CHR ''{'' then cons_opt TLBrace (lex s)
      else if c = CHR ''}'' then cons_opt TRBrace (lex s)
      else if c = CHR ''['' then cons_opt TLBrack (lex s)
      else if c = CHR '']'' then cons_opt TRBrack (lex s)
      else if c = CHR '':'' then cons_opt TColon (lex s)
      else if c = CHR '','' then cons_opt TComma (lex s)
      else if c = CHR 0x22 then
        (case scan_string s of None \<Rightarrow> None | Some (x, t) \<Rightarrow> cons_opt (TStr x) (lex t))
      else (case scan_word (c # s) of None \<Rightarrow> None | Some (v, t) \<Rightarrow> cons_opt (TAtom v) (lex t)))"
  by pat_completeness auto
termination
  by (relation "measure length") (auto dest: scan_string_shorter scan_word_shorter)

text \<open>
  The grammar as a pushdown machine. The stack holds the containers being filled; a
  mode says what may come next.
\<close>

datatype frame = FArr "json list" | FObj "(string \<times> json) list" | FKey "(string \<times> json) list" string

datatype mode =
    WantValue | WantValueOrEnd | WantKey | WantKeyOrEnd | WantColon | AfterItem | Finished json

type_synonym pstate = "mode \<times> frame list"

fun deliver :: "json \<Rightarrow> frame list \<Rightarrow> pstate option" where
  "deliver v [] = Some (Finished v, [])"
| "deliver v (FArr xs # st) = Some (AfterItem, FArr (xs @ [v]) # st)"
| "deliver v (FKey kvs k # st) = Some (AfterItem, FObj (dict_set k v kvs) # st)"
| "deliver v (FObj kvs # st) = None"

fun start_value :: "token \<Rightarrow> frame list \<Rightarrow> pstate option" where
  "start_value (TStr s) st = deliver (JStr s) st"
| "start_value (TAtom v) st = deliver v st"
| "start_value TLBrack st = Some (WantValueOrEnd, FArr [] # st)"
| "start_value TLBrace st = Some (WantKeyOrEnd, FObj [] # st)"
| "start_value _ st = None"

fun close :: "token \<Rightarrow> frame list \<Rightarrow> pstate option" where
  "close TRBrack (FArr xs # st) = deliver (JArr xs) st"
| "close TRBrace (FObj kvs # st) = deliver (JObj kvs) st"
| "close _ _ = None"

fun want_key :: "token \<Rightarrow> frame list \<Rightarrow> pstate option" where
  "want_key (TStr k) (FObj kvs # st) = Some (WantColon, FKey kvs k # st)"
| "want_key _ _ = None"

fun pstep :: "token \<Rightarrow> pstate \<Rightarrow> pstate option" where
  "pstep t (WantValue, st) = start_value t st"
| "pstep t (WantValueOrEnd, st) = (if t = TRBrack then close t st else start_value t st)"
| "pstep t (WantKey, st) = want_key t st"
| "pstep t (WantKeyOrEnd, st) = (if t = TRBrace then close t st else want_key t st)"
| "pstep t (WantColon, st) = (if t = TColon then Some (WantValue, st) else None)"
| "pstep t (AfterItem, FArr xs # st) =
     (if t = TComma then Some (WantValue, FArr xs # st) else close t (FArr xs # st))"
| "pstep t (AfterItem, FObj kvs # st) =
     (if t = TComma then Some (WantKey, FObj kvs # st) else close t (FObj kvs # st))"
| "pstep t (AfterItem, st) = None"
| "pstep t (Finished v, st) = None"

fun prun :: "token list \<Rightarrow> pstate option \<Rightarrow> pstate option" where
  "prun ts None = None"
| "prun [] (Some s) = Some s"
| "prun (t # ts) (Some s) = prun ts (pstep t s)"

definition parse_tokens :: "token list \<Rightarrow> json option" where
  "parse_tokens ts =
     (case prun ts (Some (WantValue, [])) of Some (Finished v, []) \<Rightarrow> Some v | _ \<Rightarrow> None)"

definition loads :: "string \<Rightarrow> json option" where
  "loads s = (case lex s of None \<Rightarrow> None | Some ts \<Rightarrow> parse_tokens ts)"

end
