(* ===== verification/Errors.thy ===== *)
theory Errors
  imports Json
begin

text \<open>
  The manager's structured error (errors.py) and the result of a subprocess. Every
  operation that may raise \<open>ManagerError\<close> returns \<open>'a res\<close>.
\<close>

datatype error_code =
    CONFIG_INVALID
  | CONFIG_VERSION_UNSUPPORTED
  | INSTANCE_EXISTS
  | INSTANCE_NOT_FOUND
  | REGISTRY_INVALID
  | HOST_INSPECTION_FAILED
  | RECONCILIATION_CONFLICT
  | STALE_STATE
  | FEATURE_NOT_IMPLEMENTED
  | IO_ERROR

fun code_value :: "error_code \<Rightarrow> string" where
  "code_value CONFIG_INVALID = ''CONFIG_INVALID''"
| "code_value CONFIG_VERSION_UNSUPPORTED = ''CONFIG_VERSION_UNSUPPORTED''"
| "code_value INSTANCE_EXISTS = ''INSTANCE_EXISTS''"
| "code_value INSTANCE_NOT_FOUND = ''INSTANCE_NOT_FOUND''"
| "code_value REGISTRY_INVALID = ''REGISTRY_INVALID''"
| "code_value HOST_INSPECTION_FAILED = ''HOST_INSPECTION_FAILED''"
| "code_value RECONCILIATION_CONFLICT = ''RECONCILIATION_CONFLICT''"
| "code_value STALE_STATE = ''STALE_STATE''"
| "code_value FEATURE_NOT_IMPLEMENTED = ''FEATURE_NOT_IMPLEMENTED''"
| "code_value IO_ERROR = ''IO_ERROR''"

datatype manager_error =
  ManagerError (err_code: error_code) (err_message: string) (err_details: "(string \<times> json) list")

type_synonym 'a res = "manager_error + 'a"

definition error_to_dict :: "manager_error \<Rightarrow> json" where
  "error_to_dict e =
     JObj [(''ok'', JBool False),
           (''error'', JObj [(''code'', JStr (code_value (err_code e))),
                             (''message'', JStr (err_message e)),
                             (''details'', JObj (err_details e))])]"

definition config_error :: "string \<Rightarrow> (string \<times> json) list \<Rightarrow> manager_error" where
  "config_error msg details = ManagerError CONFIG_INVALID msg details"

definition conflict_error :: "string \<Rightarrow> (string \<times> json) list \<Rightarrow> manager_error" where
  "conflict_error msg details = ManagerError RECONCILIATION_CONFLICT msg details"

lemma config_error_sel [simp]:
  "err_code (config_error m d) = CONFIG_INVALID" "err_message (config_error m d) = m"
  by (simp_all add: config_error_def)

lemma conflict_error_sel [simp]:
  "err_code (conflict_error m d) = RECONCILIATION_CONFLICT" "err_message (conflict_error m d) = m"
  by (simp_all add: conflict_error_def)

lemma code_value_inject: "code_value a = code_value b \<longleftrightarrow> a = b"
  by (cases a; cases b) simp_all

text \<open>
  What \<open>subprocess.run\<close> gives: it could not run the command (\<open>OSError\<close> or a time
  out, with the exception's text), or the command ended with a return code, its standard
  output and its standard error.
\<close>

datatype proc_result = ProcError string | ProcDone int string string

end
