(* ===== verification/Paths.thy ===== *)
theory Paths
  imports Errors
begin

text \<open>
  Lexical paths: \<open>os.path.normpath\<close>, the part of \<open>pathlib.PurePosixPath\<close> the
  manager uses, and the manager's path layout (paths.py). A path is its root
  (\<open>''\<close>, \<open>/\<close> or \<open>//\<close>) and its parts. \<open>wf_path\<close> is what parsing
  establishes; on it printing is injective (\<open>path_of_str\<close>).
\<close>

section \<open>PurePosixPath\<close>

datatype ppath = PPath (pp_root: string) (pp_parts: "string list")

definition leading_slashes :: "string \<Rightarrow> nat" where
  "leading_slashes s = length (takeWhile (\<lambda>c. c = CHR ''/'') s)"

definition root_of :: "string \<Rightarrow> string" where
  "root_of s =
     (if leading_slashes s = 0 then []
      else if leading_slashes s = 2 then ''//'' else ''/'')"

definition clean_parts :: "string \<Rightarrow> string list" where
  "clean_parts s = filter (\<lambda>p. p \<noteq> [] \<and> p \<noteq> ''.'') (split_on CHR ''/'' s)"

definition path_of :: "string \<Rightarrow> ppath" where
  "path_of s = PPath (root_of s) (clean_parts s)"

definition path_str :: "ppath \<Rightarrow> string" where
  "path_str p =
     (let s = pp_root p @ join_with ''/'' (pp_parts p) in if s = [] then ''.'' else s)"

definition path_is_absolute :: "ppath \<Rightarrow> bool" where
  "path_is_absolute p \<longleftrightarrow> pp_root p \<noteq> []"

text \<open>\<open>p / s\<close>: an absolute right operand replaces the left one.\<close>

definition path_div :: "ppath \<Rightarrow> string \<Rightarrow> ppath" where
  "path_div p s =
     (if root_of s \<noteq> [] then path_of s else PPath (pp_root p) (pp_parts p @ clean_parts s))"

definition path_name :: "ppath \<Rightarrow> string" where
  "path_name p = (if pp_parts p = [] then [] else last (pp_parts p))"

definition path_parent :: "ppath \<Rightarrow> ppath" where
  "path_parent p = PPath (pp_root p) (butlast (pp_parts p))"

definition path_parents :: "ppath \<Rightarrow> ppath list" where
  "path_parents p =
     map (\<lambda>n. PPath (pp_root p) (take n (pp_parts p))) (rev [0..<length (pp_parts p)])"

definition path_stem :: "ppath \<Rightarrow> string" where
  "path_stem p =
     (case rpartition_on CHR ''.'' (path_name p) of
        Some (a, b) \<Rightarrow> if a \<noteq> [] \<and> b \<noteq> [] then a else path_name p
      | None \<Rightarrow> path_name p)"

definition wf_part :: "string \<Rightarrow> bool" where
  "wf_part s \<longleftrightarrow> s \<noteq> [] \<and> s \<noteq> ''.'' \<and> CHR ''/'' \<notin> set s"

definition wf_path :: "ppath \<Rightarrow> bool" where
  "wf_path p \<longleftrightarrow> pp_root p \<in> {[], ''/'', ''//''} \<and> list_all wf_part (pp_parts p)"

lemma clean_parts_wf: "list_all wf_part (clean_parts s)"
  by (auto simp: list_all_iff clean_parts_def wf_part_def dest: split_on_no_sep)

lemma wf_path_of [simp]: "wf_path (path_of s)"
  by (simp add: wf_path_def path_of_def root_of_def clean_parts_wf)

lemma wf_path_div [simp]: "wf_path p \<Longrightarrow> wf_path (path_div p s)"
  by (auto simp: path_div_def wf_path_def path_of_def root_of_def clean_parts_wf)

lemma wf_path_parent [simp]: "wf_path p \<Longrightarrow> wf_path (path_parent p)"
  by (auto simp: wf_path_def path_parent_def list_all_iff dest: in_set_butlastD)

lemma clean_parts_part [simp]: "wf_part s \<Longrightarrow> clean_parts s = [s]"
  by (simp add: clean_parts_def wf_part_def split_on_single)

lemma root_of_part [simp]: "wf_part s \<Longrightarrow> root_of s = []"
  by (cases s) (auto simp: root_of_def leading_slashes_def wf_part_def)

lemma path_div_part: "wf_part s \<Longrightarrow> path_div p s = PPath (pp_root p) (pp_parts p @ [s])"
  by (simp add: path_div_def)

lemma path_parent_div [simp]: "wf_part s \<Longrightarrow> path_parent (path_div p s) = p"
  by (cases p) (simp add: path_div_part path_parent_def)

lemma path_name_div [simp]: "wf_part s \<Longrightarrow> path_name (path_div p s) = s"
  by (simp add: path_div_part path_name_def)

lemma path_div_inject:
  "wf_part s \<Longrightarrow> wf_part t \<Longrightarrow> path_div p s = path_div q t \<longleftrightarrow> p = q \<and> s = t"
  by (cases p; cases q) (auto simp: path_div_part)

lemma split_on_cons_sep: "split_on c (c # s) = [] # split_on c s"
  by simp

lemma clean_parts_join:
  assumes "list_all wf_part ps"
  shows "clean_parts (join_with ''/'' ps) = ps"
proof (cases "ps = []")
  case True
  then show ?thesis by (simp add: clean_parts_def)
next
  case False
  with assms have "split_on CHR ''/'' (join_with ''/'' ps) = ps"
    by (intro split_join) (auto simp: list_all_iff wf_part_def)
  then show ?thesis
    using assms by (simp add: clean_parts_def list_all_iff wf_part_def filter_id_conv)
qed

lemma clean_parts_slash [simp]: "clean_parts (CHR ''/'' # s) = clean_parts s"
  by (simp add: clean_parts_def)

lemma leading_join:
  assumes "list_all wf_part ps"
  shows "leading_slashes (join_with ''/'' ps) = 0"
proof (cases ps)
  case (Cons p qs)
  with assms obtain c s where "p = c # s" "c \<noteq> CHR ''/''"
    by (cases p) (auto simp: wf_part_def)
  then show ?thesis using Cons by (cases qs) (auto simp: leading_slashes_def)
qed (simp add: leading_slashes_def)

lemma leading_cons: "leading_slashes (CHR ''/'' # s) = Suc (leading_slashes s)"
  by (simp add: leading_slashes_def)

lemma path_of_str [simp]:
  assumes "wf_path p"
  shows "path_of (path_str p) = p"
proof -
  obtain r ps where p: "p = PPath r ps" by (cases p)
  from assms p have ps: "list_all wf_part ps" by (simp add: wf_path_def)
  have dot: "path_of ''.'' = PPath [] []"
    by (simp add: path_of_def root_of_def leading_slashes_def clean_parts_def)
  from assms p consider "r = []" | "r = ''/''" | "r = ''//''" by (auto simp: wf_path_def)
  then show ?thesis
  proof cases
    case 1
    show ?thesis
    proof (cases "join_with ''/'' ps = []")
      case True
      with ps have "ps = []" by (auto simp: join_with_eq_Nil wf_part_def)
      with 1 p dot show ?thesis by (simp add: path_str_def)
    next
      case False
      with 1 p ps show ?thesis
        by (simp add: path_str_def Let_def path_of_def root_of_def leading_join clean_parts_join)
    qed
  qed (use p ps in \<open>simp_all add: path_str_def Let_def path_of_def root_of_def leading_cons
        leading_join clean_parts_join\<close>)
qed

lemma path_str_inject: "wf_path p \<Longrightarrow> wf_path q \<Longrightarrow> path_str p = path_str q \<longleftrightarrow> p = q"
  by (metis path_of_str)

lemma in_path_parents:
  "q \<in> set (path_parents p) \<longleftrightarrow>
     pp_root q = pp_root p \<and> (\<exists>t. t \<noteq> [] \<and> pp_parts p = pp_parts q @ t)"
proof
  assume "q \<in> set (path_parents p)"
  then obtain n where n: "n < length (pp_parts p)" "q = PPath (pp_root p) (take n (pp_parts p))"
    by (auto simp: path_parents_def)
  have "pp_parts p = take n (pp_parts p) @ drop n (pp_parts p)" by simp
  with n show "pp_root q = pp_root p \<and> (\<exists>t. t \<noteq> [] \<and> pp_parts p = pp_parts q @ t)"
    by (intro conjI exI [of _ "drop n (pp_parts p)"]) auto
next
  assume "pp_root q = pp_root p \<and> (\<exists>t. t \<noteq> [] \<and> pp_parts p = pp_parts q @ t)"
  then obtain t where t: "pp_root q = pp_root p" "t \<noteq> []" "pp_parts p = pp_parts q @ t" by blast
  then have "q = PPath (pp_root p) (take (length (pp_parts q)) (pp_parts p))" by (cases q) simp
  moreover have "length (pp_parts q) < length (pp_parts p)" using t by (cases t) auto
  ultimately show "q \<in> set (path_parents p)"
    unfolding path_parents_def by (intro image_eqI [of _ _ "length (pp_parts q)"] | simp)+
qed

section \<open>os.path.normpath\<close>

fun norm_comps :: "bool \<Rightarrow> string list \<Rightarrow> string list \<Rightarrow> string list" where
  "norm_comps ab acc [] = rev acc"
| "norm_comps ab acc (c # cs) =
     (if c = [] \<or> c = ''.'' then norm_comps ab acc cs
      else if c \<noteq> ''..'' \<or> (\<not> ab \<and> acc = []) \<or> (acc \<noteq> [] \<and> hd acc = ''..'')
      then norm_comps ab (c # acc) cs
      else norm_comps ab (tl acc) cs)"

definition normpath :: "string \<Rightarrow> string" where
  "normpath s =
     (if s = [] then ''.''
      else
        (let slashes = (if leading_slashes s = 2 then 2 else min 1 (leading_slashes s));
             comps = norm_comps (slashes \<noteq> 0) [] (split_on CHR ''/'' s);
             path = replicate slashes CHR ''/'' @ join_with ''/'' comps
         in if path = [] then ''.'' else path))"

definition wf_comp :: "string \<Rightarrow> bool" where
  "wf_comp s \<longleftrightarrow> wf_part s \<and> s \<noteq> ''..''"

lemma norm_comps_wf:
  "list_all wf_comp acc \<Longrightarrow> (\<And>c. c \<in> set cs \<Longrightarrow> CHR ''/'' \<notin> set c) \<Longrightarrow>
    list_all wf_comp (norm_comps True acc cs)"
proof (induction True acc cs rule: norm_comps.induct)
  case (2 acc c cs)
  have tl: "list_all wf_comp (tl acc)" using 2(4) by (cases acc) auto
  have hd: "acc \<noteq> [] \<Longrightarrow> hd acc \<noteq> ''..''" using 2(4) by (cases acc) (auto simp: wf_comp_def)
  show ?case
    using 2 tl hd by (auto simp: wf_comp_def wf_part_def)
qed simp

lemma norm_comps_id:
  "list_all wf_comp cs \<Longrightarrow> norm_comps ab acc cs = rev acc @ cs"
  by (induction cs arbitrary: acc) (auto simp: wf_comp_def wf_part_def)

lemma norm_comps_empties: "norm_comps ab acc (replicate n [] @ cs) = norm_comps ab acc cs"
  by (induction n) auto

lemma split_on_slashes:
  "split_on CHR ''/'' (replicate n CHR ''/'' @ s) = replicate n [] @ split_on CHR ''/'' s"
  by (induction n) auto

text \<open>An absolute path is normalised to its root followed by clean components.\<close>

lemma normpath_absolute:
  assumes "leading_slashes s > 0"
  obtains r cs where "r = ''/'' \<or> r = ''//''" and "list_all wf_comp cs"
    and "normpath s = r @ join_with ''/'' cs" and "root_of s = r"
proof -
  define n where "n = (if leading_slashes s = 2 then 2 else min 1 (leading_slashes s))"
  define cs where "cs = norm_comps True [] (split_on CHR ''/'' s)"
  have n: "n \<noteq> 0" using assms by (simp add: n_def)
  have ne: "s \<noteq> []" using assms by (auto simp: leading_slashes_def)
  have "normpath s = replicate n CHR ''/'' @ join_with ''/'' cs"
    using n ne by (simp add: normpath_def n_def [symmetric] cs_def Let_def)
  moreover have "list_all wf_comp cs"
    unfolding cs_def by (rule norm_comps_wf) (auto dest: split_on_no_sep)
  moreover have "replicate n CHR ''/'' = root_of s"
    using assms by (auto simp: n_def root_of_def numeral_2_eq_2 min_def)
  moreover have "root_of s = ''/'' \<or> root_of s = ''//''"
    using assms by (auto simp: root_of_def)
  ultimately show ?thesis
    using that [of "root_of s" cs] by metis
qed

lemma wf_comp_part: "list_all wf_comp cs \<Longrightarrow> list_all wf_part cs"
  by (auto simp: list_all_iff wf_comp_def)

lemma root_of_normal:
  assumes "r = ''/'' \<or> r = ''//''" and "list_all wf_part cs"
  shows "root_of (r @ join_with ''/'' cs) = r"
  using assms by (auto simp: root_of_def leading_cons leading_join)

lemma path_of_normpath:
  assumes "leading_slashes s > 0"
  shows "path_str (path_of (normpath s)) = normpath s"
proof -
  obtain r cs where r: "r = ''/'' \<or> r = ''//''" and cs: "list_all wf_comp cs"
    and n: "normpath s = r @ join_with ''/'' cs"
    by (rule normpath_absolute [OF assms])
  have "path_of (normpath s) = PPath r cs"
    using r wf_comp_part [OF cs]
    by (auto simp: path_of_def n root_of_normal clean_parts_join root_of_def leading_cons leading_join)
  then show ?thesis using r by (auto simp: path_str_def n)
qed

lemma normpath_idem:
  assumes "leading_slashes s > 0"
  shows "normpath (normpath s) = normpath s" and "leading_slashes (normpath s) > 0"
proof -
  obtain r cs where r: "r = ''/'' \<or> r = ''//''" and cs: "list_all wf_comp cs"
    and n: "normpath s = r @ join_with ''/'' cs"
    by (rule normpath_absolute [OF assms])
  note parts = wf_comp_part [OF cs]
  have lead: "leading_slashes (normpath s) = length r"
    using r parts by (auto simp: n leading_cons leading_join)
  with r show "leading_slashes (normpath s) > 0" by auto
  have split: "norm_comps True [] (split_on CHR ''/'' (join_with ''/'' cs)) = cs"
  proof (cases "cs = []")
    case False
    then have "split_on CHR ''/'' (join_with ''/'' cs) = cs"
      using parts by (intro split_join) (auto simp: list_all_iff wf_part_def)
    with cs show ?thesis by (simp add: norm_comps_id)
  qed simp
  have two: "replicate 2 CHR ''/'' = ''//''" by (simp add: numeral_2_eq_2)
  from r have "normpath (r @ join_with ''/'' cs) = r @ join_with ''/'' cs"
  proof
    assume r1: "r = ''/''"
    with lead n have "leading_slashes (CHR ''/'' # join_with ''/'' cs) = 1" by simp
    with split show ?thesis by (simp add: r1 normpath_def Let_def)
  next
    assume r2: "r = ''//''"
    with lead n have "leading_slashes (CHR ''/'' # CHR ''/'' # join_with ''/'' cs) = 2" by simp
    with split two show ?thesis by (simp add: r2 normpath_def Let_def)
  qed
  then show "normpath (normpath s) = normpath s" by (simp add: n)
qed

section \<open>Absolute, already normalised paths\<close>

definition is_abs :: "string \<Rightarrow> bool" where
  "is_abs s \<longleftrightarrow> path_is_absolute (path_of s)"

lemma is_abs_iff: "is_abs s \<longleftrightarrow> leading_slashes s > 0"
  by (simp add: is_abs_def path_is_absolute_def path_of_def root_of_def)

definition normal_abs :: "string \<Rightarrow> bool" where
  "normal_abs s \<longleftrightarrow> is_abs s \<and> normpath s = s"

lemma normal_abs_normpath: "is_abs s \<Longrightarrow> normal_abs (normpath s)"
  by (simp add: normal_abs_def is_abs_iff normpath_idem)

lemma normal_abs_str: "normal_abs s \<Longrightarrow> path_str (path_of s) = s"
  using path_of_normpath [of s] by (simp add: normal_abs_def is_abs_iff)

lemma normal_abs_inject: "normal_abs s \<Longrightarrow> normal_abs t \<Longrightarrow> path_of s = path_of t \<longleftrightarrow> s = t"
  by (metis normal_abs_str)

section \<open>The manager's paths (paths.py)\<close>

record manager_paths =
  account_home :: ppath
  config_root :: ppath
  registry_dir :: ppath
  state_root :: ppath
  user_unit_dir :: ppath
  tunnel_profile_dir :: ppath
  manager_executable :: ppath

definition wf_paths :: "manager_paths \<Rightarrow> bool" where
  "wf_paths ps \<longleftrightarrow>
     wf_path (account_home ps) \<and> wf_path (config_root ps) \<and> wf_path (registry_dir ps) \<and>
     wf_path (state_root ps) \<and> wf_path (user_unit_dir ps) \<and> wf_path (tunnel_profile_dir ps) \<and>
     wf_path (manager_executable ps)"

text \<open>
  The home \<open>systemctl --user show-environment\<close> reports: the first absolute
  \<open>HOME=\<close> entry. \<open>which\<close> says whether \<open>systemctl\<close> is on the path and
  \<open>shown\<close> is the result of running it.
\<close>

fun first_home :: "string list \<Rightarrow> ppath option" where
  "first_home [] = None"
| "first_home (l # ls) =
     (if \<not> prefix ''HOME='' l then first_home ls
      else if path_is_absolute (path_of (drop 5 l)) then Some (path_of (drop 5 l))
      else first_home ls)"

definition systemd_manager_home :: "bool \<Rightarrow> proc_result \<Rightarrow> ppath option" where
  "systemd_manager_home which shown =
     (if \<not> which then None
      else (case shown of
              ProcError e \<Rightarrow> None
            | ProcDone rc out err \<Rightarrow> if rc \<noteq> 0 then None else first_home (lines_of out)))"

text \<open>\<open>passwd\<close> is the home field of the account's password entry, if it can be read.\<close>

definition current_account_home :: "string option \<Rightarrow> bool \<Rightarrow> proc_result \<Rightarrow> ppath res" where
  "current_account_home passwd which shown =
     (case passwd of
        Some d \<Rightarrow> Inr (path_of d)
      | None \<Rightarrow>
          (case systemd_manager_home which shown of
             Some h \<Rightarrow> Inr h
           | None \<Rightarrow> Inl (ManagerError HOST_INSPECTION_FAILED
               ''cannot resolve the real Unix account home; passwd lookup is unavailable and user-systemd exposes no HOME'' [])))"

text \<open>
  \<open>override\<close> is the resolved registry override, \<open>release\<close> the root of the
  executing distribution; its fourth ancestor is the installation prefix (\<open>None\<close>:
  the path is too short, an \<open>IndexError\<close>).
\<close>

definition paths_for_current_user :: "ppath \<Rightarrow> ppath option \<Rightarrow> ppath option \<Rightarrow> manager_paths option" where
  "paths_for_current_user home override release =
     (let config = path_div (path_div home ''.config'') ''workspace-mcp-manager'';
          registry = (case override of Some r \<Rightarrow> r | None \<Rightarrow> path_div config ''instances'');
          state = path_div (path_div (path_div home ''.local'') ''state'') ''workspace-mcp-manager'';
          pre = (case release of
                   None \<Rightarrow> Some (path_div home ''.local'')
                 | Some r \<Rightarrow> (if length (path_parents r) > 3 then Some (path_parents r ! 3) else None))
      in map_option (\<lambda>p.
           \<lparr>account_home = home,
            config_root = config,
            registry_dir = registry,
            state_root = state,
            user_unit_dir = path_div (path_div (path_div home ''.config'') ''systemd'') ''user'',
            tunnel_profile_dir = path_div config ''tunnel-profiles'',
            manager_executable = path_div (path_div p ''bin'') ''workspace-mcp-manager''\<rparr>) pre)"

lemma wf_path_parents: "wf_path p \<Longrightarrow> q \<in> set (path_parents p) \<Longrightarrow> wf_path q"
  unfolding in_path_parents by (auto simp: wf_path_def)

lemma wf_paths_for_current_user:
  assumes "wf_path home" and "\<And>r. override = Some r \<Longrightarrow> wf_path r"
    and "\<And>r. release = Some r \<Longrightarrow> wf_path r"
    and "paths_for_current_user home override release = Some ps"
  shows "wf_paths ps"
  using assms wf_path_parents
  by (auto simp: paths_for_current_user_def Let_def wf_paths_def split: option.splits if_splits)

end
