(* ===== verification/Json_Roundtrip.thy ===== *)
theory Json_Roundtrip
  imports Json
begin

text \<open>
  \<open>loads\<close> inverts \<open>dumps_with\<close>, whatever white space the writer inserts: the lexer
  of a written document gives the document's tokens (\<open>lex_dumps\<close>), and the pushdown
  machine rebuilds the document from them (\<open>prun_tokens\<close>).
\<close>

section \<open>Documents the writer is applied to\<close>

fun jplain :: "json \<Rightarrow> bool" where
  "jplain (JReal r) = False"
| "jplain (JArr xs) = list_all jplain xs"
| "jplain (JObj kvs) = (distinct (map fst kvs) \<and> list_all (\<lambda>(k, x). jplain x) kvs)"
| "jplain _ = True"

fun tokens :: "json \<Rightarrow> token list" where
  "tokens (JStr s) = [TStr s]"
| "tokens (JArr xs) = TLBrack # join_with [TComma] (map tokens xs) @ [TRBrack]"
| "tokens (JObj kvs) =
     TLBrace # join_with [TComma] (map (\<lambda>(k, x). TStr k # TColon # tokens x) kvs) @ [TRBrace]"
| "tokens v = [TAtom v]"

section \<open>The lexer on written text\<close>

declare lex.simps [simp del]

lemma lex_Nil [simp]: "lex [] = Some []"
  by (simp add: lex.simps)

lemma lex_struct [simp]:
  "lex (CHR ''{'' # s) = cons_opt TLBrace (lex s)"
  "lex (CHR ''}'' # s) = cons_opt TRBrace (lex s)"
  "lex (CHR ''['' # s) = cons_opt TLBrack (lex s)"
  "lex (CHR '']'' # s) = cons_opt TRBrack (lex s)"
  "lex (CHR '':'' # s) = cons_opt TColon (lex s)"
  "lex (CHR '','' # s) = cons_opt TComma (lex s)"
  by (subst lex.simps; simp add: json_ws_def)+

lemma lex_white: "list_all json_ws w \<Longrightarrow> lex (w @ s) = lex s"
  by (induction w) (auto simp: lex.simps)

lemma cons_opt_append:
  "cons_opt t (map_option (append ts) r) = map_option (append (t # ts)) r"
  by (cases r) (auto simp: cons_opt_def)

lemma cons_opt_alt: "cons_opt t r = map_option (append [t]) r"
  by (cases r) (auto simp: cons_opt_def)

lemma map_option_append2:
  "map_option (append xs) (map_option (append ys) r) = map_option (append (xs @ ys)) r"
  by (cases r) auto

subsection \<open>Strings\<close>

lemma code_of_inject: "code_of c = code_of d \<longleftrightarrow> c = d"
  by (simp add: code_of_def)

lemma code_of_less [simp]: "code_of c < 256"
  by (simp add: code_of_def)

lemma char_of_code_of [simp]: "char_of (code_of c) = c"
  by (simp add: code_of_def)

lemma hex_val_hex_digit: "d < 16 \<Longrightarrow> hex_val (hex_digit d) = Some d"
  by (auto simp: hex_val_def hex_digit_def digit_char_def Let_def)

lemma scan_control:
  assumes "code_of c < 32"
  shows "scan_string (CHR 0x5C # CHR ''u'' # CHR ''0'' # CHR ''0'' #
      hex_digit (code_of c div 16) # hex_digit (code_of c mod 16) # t) = cons_fst c (scan_string t)"
proof -
  have z: "hex_val (CHR ''0'') = Some 0"
    by (simp add: hex_val_def code_of_def)
  have "code_of c div 16 < 16" using assms by simp
  then have "hex4 (CHR ''0'') (CHR ''0'') (hex_digit (code_of c div 16)) (hex_digit (code_of c mod 16))
      = Some (code_of c)"
    by (simp add: hex4_def z hex_val_hex_digit)
  then show ?thesis by simp
qed

lemma scan_simple:
  "simple_escape e = Some x \<Longrightarrow> e \<noteq> CHR ''u'' \<Longrightarrow>
    scan_string (CHR 0x5C # e # t) = cons_fst x (scan_string t)"
  by simp

lemma scan_plain:
  "c \<noteq> CHR 0x22 \<Longrightarrow> c \<noteq> CHR 0x5C \<Longrightarrow> \<not> code_of c < 32 \<Longrightarrow>
    scan_string (c # t) = cons_fst c (scan_string t)"
  by simp

lemma scan_escape: "scan_string (escape_char c @ t) = cons_fst c (scan_string t)"
proof -
  have q: "simple_escape (CHR 0x22) = Some (CHR 0x22)" "simple_escape (CHR 0x5C) = Some (CHR 0x5C)"
    "simple_escape (CHR ''n'') = Some (CHR 0x0A)" "simple_escape (CHR ''r'') = Some (CHR 0x0D)"
    "simple_escape (CHR ''t'') = Some (CHR 0x09)" "simple_escape (CHR ''f'') = Some (CHR 0x0C)"
    "simple_escape (CHR ''b'') = Some (CHR 0x08)"
    by (simp_all add: simple_escape_def)
  consider "c = CHR 0x22" | "c = CHR 0x5C" | "c = CHR 0x0A" | "c = CHR 0x0D" | "c = CHR 0x09"
    | "c = CHR 0x0C" | "c = CHR 0x08"
    | (other) "c \<noteq> CHR 0x22" "c \<noteq> CHR 0x5C" "c \<noteq> CHR 0x0A" "c \<noteq> CHR 0x0D" "c \<noteq> CHR 0x09"
        "c \<noteq> CHR 0x0C" "c \<noteq> CHR 0x08"
    by blast
  then show ?thesis
  proof cases
    case other
    show ?thesis
    proof (cases "code_of c < 32")
      case True
      with other have "escape_char c = [CHR 0x5C, CHR ''u'', CHR ''0'', CHR ''0'',
          hex_digit (code_of c div 16), hex_digit (code_of c mod 16)]"
        by (simp only: escape_char_def if_False if_True)
      then show ?thesis by (simp only: append.simps scan_control [OF True])
    next
      case False
      with other have "escape_char c = [c]" by (simp only: escape_char_def if_False)
      with other False scan_plain [of c t] show ?thesis by (simp del: scan_string.simps(2))
    qed
  qed (simp_all add: escape_char_def scan_simple q del: scan_string.simps(2))
qed

lemma scan_dumped: "scan_string (concat (map escape_char s) @ CHR 0x22 # t) = Some (s, t)"
  by (induction s) (auto simp: scan_escape cons_fst_def simp del: scan_string.simps(2),
      simp)

lemma lex_dump_string: "lex (dump_string s @ t) = cons_opt (TStr s) (lex t)"
  by (simp add: dump_string_def scan_dumped lex.simps json_ws_def)

subsection \<open>Numbers and words\<close>

definition num_stop :: "string \<Rightarrow> bool" where
  "num_stop t \<longleftrightarrow> (t = [] \<or> (\<not> is_digit (hd t) \<and> hd t \<notin> {CHR ''.'', CHR ''e'', CHR ''E''}))"

lemma num_stop_simps [simp]:
  "num_stop []" "num_stop (CHR '','' # t)" "num_stop (CHR '']'' # t)" "num_stop (CHR ''}'' # t)"
  by (simp_all add: num_stop_def is_digit_def code_of_def)

lemma num_stop_white: "list_all json_ws w \<Longrightarrow> num_stop t \<Longrightarrow> num_stop (w @ t)"
  by (cases w) (auto simp: num_stop_def json_ws_def is_digit_def code_of_def)

lemma takeWhile_digits: "num_stop t \<Longrightarrow> (\<And>c. c \<in> set ds \<Longrightarrow> is_digit c) \<Longrightarrow>
    takeWhile is_digit (ds @ t) = ds \<and> dropWhile is_digit (ds @ t) = t"
  by (cases t) (auto simp: num_stop_def takeWhile_append2 dropWhile_append2)

lemma show_nat_lead_zero: "hd (show_nat n) = CHR ''0'' \<Longrightarrow> n = 0"
proof (induction n rule: show_nat.induct)
  case (1 n)
  show ?case
  proof (cases "n < 10")
    case True
    then have "show_nat n = [digit_char n]" by (subst show_nat.simps) simp
    with "1.prems" have "code_of (digit_char n) = 48" by (simp add: code_of_def)
    with True show ?thesis by (simp add: digit_char_def)
  next
    case False
    then have "hd (show_nat n) = hd (show_nat (n div 10))"
      by (subst show_nat.simps) simp
    with False "1.IH" "1.prems" have "n div 10 = 0" by simp
    with False show ?thesis by simp
  qed
qed

lemma scan_frac_stop: "num_stop t \<Longrightarrow> scan_frac t = ([], t)"
  by (cases t) (auto simp: scan_frac_def num_stop_def)

lemma scan_exp_stop: "num_stop t \<Longrightarrow> scan_exp t = ([], t)"
  by (cases t) (auto simp: scan_exp_def num_stop_def)

lemma digit_char_0: "digit_char 0 = CHR ''0''"
  by code_simp

lemma show_nat_0: "show_nat 0 = ''0''"
  by (subst show_nat.simps) (simp add: digit_char_0)

lemma hd_show_nat_digit: "is_digit (hd (show_nat n))"
  using show_nat_digits [of "hd (show_nat n)" n] by simp

lemma scan_digits:
  assumes "num_stop t"
  shows "takeWhile is_digit (show_nat n @ t) = show_nat n"
    and "(if hd (show_nat n) = CHR ''0'' then ''0'' else show_nat n) = show_nat n"
    and "drop (length (show_nat n)) (show_nat n @ t) = t"
  using takeWhile_digits [OF assms] show_nat_digits show_nat_lead_zero [of n] show_nat_0
  by (auto split: if_splits)

lemma scan_number_nat:
  assumes "num_stop t"
  shows "scan_number (show_nat n @ t) = Some (JInt (int n), t)"
proof -
  have "hd (show_nat n @ t) \<noteq> CHR ''-''"
    using hd_show_nat_digit [of n] by (auto simp: is_digit_def code_of_def)
  then have "(show_nat n @ t \<noteq> [] \<and> hd (show_nat n @ t) = CHR ''-'') = False" by simp
  then show ?thesis
    unfolding scan_number_def Let_def
    by (simp only: scan_digits [OF assms] if_False)
      (simp add: scan_digits [OF assms] scan_frac_stop [OF assms] scan_exp_stop [OF assms])
qed

lemma scan_number_neg:
  assumes "num_stop t"
  shows "scan_number (CHR ''-'' # show_nat n @ t) = Some (JInt (- int n), t)"
  unfolding scan_number_def Let_def
  by (simp only: list.sel list.distinct if_True simp_thms scan_digits [OF assms])
    (simp add: scan_digits [OF assms] scan_frac_stop [OF assms] scan_exp_stop [OF assms])

lemma scan_number_int: "num_stop t \<Longrightarrow> scan_number (show_int i @ t) = Some (JInt i, t)"
  by (auto simp: show_int_def scan_number_nat scan_number_neg)

lemma show_int_head:
  "\<exists>c s. show_int i = c # s \<and> (c = CHR ''-'' \<and> s \<noteq> [] \<and> is_digit (hd s) \<or> is_digit c)"
proof (cases "i < 0")
  case True
  then show ?thesis by (simp add: show_int_def hd_show_nat_digit)
next
  case False
  then show ?thesis
    using hd_show_nat_digit [of "nat i"]
    by (cases "show_nat (nat i)") (auto simp: show_int_def)
qed

lemma lex_int:
  assumes "num_stop t"
  shows "lex (show_int i @ t) = cons_opt (TAtom (JInt i)) (lex t)"
proof -
  obtain c s where cs: "show_int i = c # s"
    and c: "c = CHR ''-'' \<and> s \<noteq> [] \<and> is_digit (hd s) \<or> is_digit c"
    using show_int_head by blast
  have digit: "is_digit x \<Longrightarrow> x \<notin> {CHR ''n'', CHR ''t'', CHR ''f'', CHR ''N'', CHR ''I'', CHR ''{'',
      CHR ''}'', CHR ''['', CHR '']'', CHR '':'', CHR '','', CHR 0x22, CHR ''-''} \<and> \<not> json_ws x" for x
    by (auto simp: is_digit_def code_of_def json_ws_def)
  have "scan_word (c # s @ t) = scan_number (c # s @ t)"
  proof (cases "is_digit c")
    case True
    with digit [of c] show ?thesis by (auto simp: scan_word_def)
  next
    case False
    with c obtain x s' where "c = CHR ''-''" "s = x # s'" "is_digit x" by (cases s) auto
    with digit [of x] show ?thesis by (auto simp: scan_word_def)
  qed
  then have w: "scan_word (c # s @ t) = Some (JInt i, t)"
    using scan_number_int [OF assms, of i] cs by simp
  have "c \<notin> {CHR ''{'', CHR ''}'', CHR ''['', CHR '']'', CHR '':'', CHR '','', CHR 0x22} \<and> \<not> json_ws c"
    using c
  proof (elim disjE conjE)
    assume "c = CHR ''-''"
    then show ?thesis by (simp add: json_ws_def)
  next
    assume "is_digit c"
    with digit [of c] show ?thesis by simp
  qed
  then have "lex (c # s @ t) = (case scan_word (c # s @ t) of None \<Rightarrow> None
      | Some (v, u) \<Rightarrow> cons_opt (TAtom v) (lex u))"
    by (simp only: lex.simps insert_iff de_Morgan_disj if_False simp_thms)
  with w show ?thesis by (simp add: cs)
qed

lemma lex_words:
  "lex (''null'' @ t) = cons_opt (TAtom JNull) (lex t)"
  "lex (''true'' @ t) = cons_opt (TAtom (JBool True)) (lex t)"
  "lex (''false'' @ t) = cons_opt (TAtom (JBool False)) (lex t)"
  by (simp_all add: lex.simps scan_word_def json_ws_def)

subsection \<open>Whole documents\<close>

lemma lex_joined:
  assumes "\<And>p u. p \<in> set ps \<Longrightarrow> num_stop u \<Longrightarrow> lex (f p @ u) = map_option (append (g p)) (lex u)"
    and "list_all json_ws w" and "num_stop t"
  shows "lex (join_with (CHR '','' # w) (map f ps) @ t) =
    map_option (append (join_with [TComma] (map g ps))) (lex t)"
  using assms(1)
proof (induction "[TComma]" "map g ps" arbitrary: ps rule: join_with.induct)
  case 1
  then show ?case by (cases "lex t") auto
next
  case (2 x)
  then obtain p where "ps = [p]" by auto
  with 2(2) [of p t] assms(3) show ?case by simp
next
  case (3 x y zs)
  from 3(2) obtain p q rs where ps: "ps = p # q # rs"
    by (cases ps; cases "tl ps") auto
  have IH: "lex (join_with (CHR '','' # w) (map f (q # rs)) @ t) =
      map_option (append (join_with [TComma] (map g (q # rs)))) (lex t)"
    by (rule 3(1)) (use 3(2,3) ps in auto)
  have "lex (join_with (CHR '','' # w) (map f ps) @ t) =
      map_option (append (g p)) (lex (CHR '','' # w @ join_with (CHR '','' # w) (map f (q # rs)) @ t))"
    using 3(3) [of p] ps by simp
  also have "\<dots> = map_option (append (g p)) (cons_opt TComma
      (lex (join_with (CHR '','' # w) (map f (q # rs)) @ t)))"
    by (simp only: lex_struct lex_white [OF assms(2)])
  also have "\<dots> = map_option (append (join_with [TComma] (map g ps))) (lex t)"
    unfolding IH by (simp add: ps cons_opt_append map_option_append2)
  finally show ?case .
qed

lemma lex_dumps:
  "(\<And>l. list_all json_ws (nl l)) \<Longrightarrow> list_all json_ws ks \<Longrightarrow> jplain v \<Longrightarrow> num_stop t \<Longrightarrow>
    lex (dumps_with nl ks lvl v @ t) = map_option (append (tokens v)) (lex t)"
proof (induction nl ks lvl v arbitrary: t rule: dumps_with.induct)
  case (6 nl ks lvl xs)
  note white = "6.prems"(1,2)
  show ?case
  proof (cases "xs = []")
    case True
    then show ?thesis by (cases "lex t") (auto simp: cons_opt_def)
  next
    case False
    have items: "lex (join_with (CHR '','' # nl (Suc lvl)) (map (dumps_with nl ks (Suc lvl)) xs) @
        nl lvl @ CHR '']'' # t) =
      map_option (append (join_with [TComma] (map tokens xs))) (lex (nl lvl @ CHR '']'' # t))"
    proof (rule lex_joined)
      fix p u assume "p \<in> set xs" "num_stop u"
      with "6.IH" [OF False] "6.prems"
      show "lex (dumps_with nl ks (Suc lvl) p @ u) = map_option (append (tokens p)) (lex u)"
        by (auto simp: list_all_iff)
    qed (use white in \<open>auto intro: num_stop_white\<close>)
    show ?thesis
      using False white by (cases "lex t") (simp_all add: items lex_white cons_opt_def)
  qed
next
  case (7 nl ks lvl kvs)
  note white = "7.prems"(1,2)
  show ?case
  proof (cases "kvs = []")
    case True
    then show ?thesis by (cases "lex t") (auto simp: cons_opt_def)
  next
    case False
    have items: "lex (join_with (CHR '','' # nl (Suc lvl))
        (map (\<lambda>(k, x). dump_string k @ CHR '':'' # ks @ dumps_with nl ks (Suc lvl) x) kvs) @
        nl lvl @ CHR ''}'' # t) =
      map_option (append (join_with [TComma] (map (\<lambda>(k, x). TStr k # TColon # tokens x) kvs)))
        (lex (nl lvl @ CHR ''}'' # t))"
    proof (rule lex_joined)
      fix p u assume p: "p \<in> set kvs" "num_stop u"
      obtain k x where kx: "p = (k, x)" by (cases p)
      have "jplain x" using "7.prems"(3) p kx by (auto simp: list_all_iff)
      then have "lex (dumps_with nl ks (Suc lvl) x @ u) = map_option (append (tokens x)) (lex u)"
        using "7.IH" [OF False] "7.prems"(1,2) p kx by auto
      then show "lex ((case p of (k, x) \<Rightarrow> dump_string k @ CHR '':'' # ks @ dumps_with nl ks (Suc lvl) x) @ u)
          = map_option (append (case p of (k, x) \<Rightarrow> TStr k # TColon # tokens x)) (lex u)"
        using white by (simp add: kx lex_dump_string lex_white cons_opt_append)
    qed (use white in \<open>auto intro: num_stop_white\<close>)
    show ?thesis
      using False white by (cases "lex t") (simp_all add: items lex_white cons_opt_def)
  qed
qed (simp_all add: lex_words [simplified] lex_int lex_dump_string cons_opt_alt)

section \<open>The pushdown machine on a document's tokens\<close>

lemma prun_append: "prun (ts @ us) s = prun us (prun ts s)"
  by (induction ts s rule: prun.induct) auto

lemma tokens_nonempty [simp]: "tokens v \<noteq> []"
  by (cases v) auto

lemma hd_tokens_not_close: "hd (tokens v) \<noteq> TRBrack"
  by (cases v) auto

lemma prun_value_or_end:
  "prun (tokens v @ ts) (Some (WantValueOrEnd, st)) = prun (tokens v @ ts) (Some (WantValue, st))"
  using hd_tokens_not_close [of v] by (cases "tokens v") auto

lemma dict_set_new: "k \<notin> fst ` set kvs \<Longrightarrow> dict_set k v kvs = kvs @ [(k, v)]"
  by (induction kvs) auto

lemma prun_items:
  assumes "\<And>x st ts. x \<in> set xs \<Longrightarrow>
      prun (tokens x @ ts) (Some (WantValue, st)) = prun ts (deliver x st)" and "xs \<noteq> []"
  shows "prun (join_with [TComma] (map tokens xs) @ TRBrack # ts) (Some (WantValue, FArr acc # st)) =
    prun ts (deliver (JArr (acc @ xs)) st)"
  using assms
proof (induction xs arbitrary: acc)
  case (Cons x xs)
  show ?case
  proof (cases xs)
    case Nil
    with Cons.prems(1) [of x "TRBrack # ts"] show ?thesis by simp
  next
    case (Cons y ys)
    have "prun (join_with [TComma] (map tokens (x # xs)) @ TRBrack # ts) (Some (WantValue, FArr acc # st))
        = prun (join_with [TComma] (map tokens xs) @ TRBrack # ts) (Some (WantValue, FArr (acc @ [x]) # st))"
      using Cons.prems(1) [of x] Cons by simp
    also have "\<dots> = prun ts (deliver (JArr ((acc @ [x]) @ xs)) st)"
      by (rule Cons.IH) (use Cons.prems Cons in auto)
    finally show ?thesis by simp
  qed
qed simp

lemma prun_members:
  assumes "\<And>k x st ts. (k, x) \<in> set kvs \<Longrightarrow>
      prun (tokens x @ ts) (Some (WantValue, st)) = prun ts (deliver x st)"
    and "kvs \<noteq> []" and "distinct (map fst (acc @ kvs))" and "m = WantKey \<or> m = WantKeyOrEnd"
  shows "prun (join_with [TComma] (map (\<lambda>(k, x). TStr k # TColon # tokens x) kvs) @ TRBrace # ts)
      (Some (m, FObj acc # st)) = prun ts (deliver (JObj (acc @ kvs)) st)"
  using assms
proof (induction kvs arbitrary: acc m)
  case (Cons p kvs)
  obtain k x where p: "p = (k, x)" by (cases p)
  have new: "dict_set k x acc = acc @ [(k, x)]"
    using Cons.prems(3) p by (intro dict_set_new) auto
  have head: "prun (TStr k # TColon # tokens x @ us) (Some (m, FObj acc # st)) =
      prun us (Some (AfterItem, FObj (acc @ [(k, x)]) # st))" for us
    using Cons.prems(1) [of k x us] Cons.prems(4) p new by auto
  show ?case
  proof (cases kvs)
    case Nil
    then show ?thesis by (simp add: p head [simplified])
  next
    case (Cons q qs)
    have "prun (join_with [TComma] (map (\<lambda>(k, x). TStr k # TColon # tokens x) (p # kvs)) @ TRBrace # ts)
        (Some (m, FObj acc # st))
      = prun (join_with [TComma] (map (\<lambda>(k, x). TStr k # TColon # tokens x) kvs) @ TRBrace # ts)
        (Some (WantKey, FObj (acc @ [(k, x)]) # st))"
      using Cons by (simp add: p head [simplified])
    also have "\<dots> = prun ts (deliver (JObj ((acc @ [(k, x)]) @ kvs)) st)"
      by (rule Cons.IH) (use Cons.prems Cons p in auto)
    finally show ?thesis by (simp add: p)
  qed
qed simp

lemma prun_tokens:
  "jplain v \<Longrightarrow> prun (tokens v @ ts) (Some (WantValue, st)) = prun ts (deliver v st)"
proof (induction v arbitrary: st ts)
  case (JArr xs)
  show ?case
  proof (cases xs)
    case (Cons y ys)
    have "prun (join_with [TComma] (map tokens xs) @ TRBrack # ts) (Some (WantValue, FArr [] # st)) =
        prun ts (deliver (JArr ([] @ xs)) st)"
      by (rule prun_items) (use JArr Cons in \<open>auto simp: list_all_iff\<close>)
    moreover have "prun (join_with [TComma] (map tokens xs) @ TRBrack # ts) (Some (WantValueOrEnd, FArr [] # st))
        = prun (join_with [TComma] (map tokens xs) @ TRBrack # ts) (Some (WantValue, FArr [] # st))"
      using Cons prun_value_or_end [of y] by (cases ys) auto
    ultimately show ?thesis by simp
  qed simp
next
  case (JObj kvs)
  show ?case
  proof (cases kvs)
    case (Cons q qs)
    have "prun (join_with [TComma] (map (\<lambda>(k, x). TStr k # TColon # tokens x) kvs) @ TRBrace # ts)
        (Some (WantKeyOrEnd, FObj [] # st)) = prun ts (deliver (JObj ([] @ kvs)) st)"
    proof (rule prun_members)
      fix k x st' ts' assume m: "(k, x) \<in> set kvs"
      then have "jplain x" using JObj.prems by (auto simp: list_all_iff)
      with JObj.IH m show "prun (tokens x @ ts') (Some (WantValue, st')) = prun ts' (deliver x st')"
        by (metis snd_conv snds.intros)
    qed (use JObj.prems Cons in auto)
    then show ?thesis by simp
  qed simp
qed auto

section \<open>The round trip\<close>

lemma num_stop_blank: "list_all json_ws w \<Longrightarrow> num_stop w"
  using num_stop_white [of w "[]"] by simp

text \<open>White space may follow the document.\<close>

theorem loads_dumps_white:
  assumes "\<And>l. list_all json_ws (nl l)" and "list_all json_ws ks" and "jplain v"
    and "list_all json_ws w"
  shows "loads (dumps_with nl ks lvl v @ w) = Some v"
proof -
  have "lex (dumps_with nl ks lvl v @ w) = map_option (append (tokens v)) (lex w)"
    by (rule lex_dumps) (use assms num_stop_blank in auto)
  moreover have "lex w = Some []" using lex_white [of w "[]"] assms(4) by simp
  moreover have "prun (tokens v @ []) (Some (WantValue, [])) = prun [] (deliver v [])"
    by (rule prun_tokens) (rule assms)
  ultimately show ?thesis by (simp add: loads_def parse_tokens_def)
qed

lemma loads_dumps_with:
  "(\<And>l. list_all json_ws (nl l)) \<Longrightarrow> list_all json_ws ks \<Longrightarrow> jplain v \<Longrightarrow>
    loads (dumps_with nl ks lvl v) = Some v"
  using loads_dumps_white [of nl ks v "[]"] by simp

lemma jplain_jsort: "jplain v \<Longrightarrow> jplain (jsort v)"
proof (induction v)
  case (JObj kvs)
  have "map fst (map (\<lambda>(k, x). (k, jsort x)) kvs) = map fst kvs"
    by (simp add: case_prod_beta comp_def)
  moreover have "distinct (map fst kvs)" using JObj.prems by simp
  ultimately have "distinct (map fst (sort_by fst (map (\<lambda>(k, x). (k, jsort x)) kvs)))"
    by (simp only: distinct_map_sort_by)
  moreover have "list_all (\<lambda>(k, x). jplain x) (sort_by fst (map (\<lambda>(k, x). (k, jsort x)) kvs))"
    using JObj by (fastforce simp: list_all_iff)
  ultimately show ?case by simp
qed (auto simp: list_all_iff)

lemma loads_dumps_compact: "jplain v \<Longrightarrow> loads (dumps_compact v) = Some (jsort v)"
  unfolding dumps_compact_def by (rule loads_dumps_with) (simp_all add: jplain_jsort)

lemma loads_indent2_newline: "jplain v \<Longrightarrow> loads (dumps_indent2 v @ newline) = Some (jsort v)"
  unfolding dumps_indent2_def
  by (rule loads_dumps_white) (simp_all add: jplain_jsort json_ws_def newline_def list_all_iff)

lemma loads_dumps_indent2: "jplain v \<Longrightarrow> loads (dumps_indent2 v) = Some (jsort v)"
  unfolding dumps_indent2_def
  by (rule loads_dumps_with) (simp_all add: jplain_jsort json_ws_def newline_def list_all_iff)

end
