(* ===== verification/Domain.thy ===== *)
theory Domain
  imports Paths Json_Roundtrip
begin

text \<open>
  The desired-state declaration of an instance (domain.py): its enumerations and records,
  the strict parser \<open>from_dict\<close>, the printer \<open>to_dict\<close>, the canonical JSON text and
  the fingerprint.

  A parser is a function from a JSON document to \<open>'a res\<close>, with the code's checks in
  the code's order. \<open>InstanceId\<close> is represented by its string. The text of a
  \<open>CONFIG_VERSION_UNSUPPORTED\<close> message shows a number with a fraction by its literal.
\<close>

section \<open>Enumerations\<close>

datatype permission_mode = SAFE | TRUSTED | DANGEROUS
datatype shell_env_inherit = ENV_CORE | ENV_ALL | ENV_NONE
datatype deployment_target = PRESENT | ABSENT
datatype runtime_target = RUNNING | STOPPED
datatype github_mode = GH_DISABLED | GH_EXTERNAL | GH_MANAGED
datatype git_protocol = PROTO_SSH | PROTO_HTTPS_GH
datatype agent_mode = AGENT_NONE | AGENT_EXTERNAL | AGENT_MANAGED

definition permission_modes :: "(string \<times> permission_mode) list" where
  "permission_modes = [(''safe'', SAFE), (''trusted'', TRUSTED), (''dangerous'', DANGEROUS)]"

definition shell_env_inherits :: "(string \<times> shell_env_inherit) list" where
  "shell_env_inherits = [(''core'', ENV_CORE), (''all'', ENV_ALL), (''none'', ENV_NONE)]"

definition deployment_targets :: "(string \<times> deployment_target) list" where
  "deployment_targets = [(''present'', PRESENT), (''absent'', ABSENT)]"

definition runtime_targets :: "(string \<times> runtime_target) list" where
  "runtime_targets = [(''running'', RUNNING), (''stopped'', STOPPED)]"

definition github_modes :: "(string \<times> github_mode) list" where
  "github_modes = [(''disabled'', GH_DISABLED), (''external'', GH_EXTERNAL), (''managed'', GH_MANAGED)]"

definition git_protocols :: "(string \<times> git_protocol) list" where
  "git_protocols = [(''ssh'', PROTO_SSH), (''https-gh'', PROTO_HTTPS_GH)]"

definition agent_modes :: "(string \<times> agent_mode) list" where
  "agent_modes = [(''none'', AGENT_NONE), (''external'', AGENT_EXTERNAL),
                  (''managed-ssh-agent'', AGENT_MANAGED)]"

text \<open>\<open>item.value\<close> of a member.\<close>

definition enum_value :: "(string \<times> 'a) list \<Rightarrow> 'a \<Rightarrow> string" where
  "enum_value tab x = (case find (\<lambda>p. snd p = x) tab of Some p \<Rightarrow> fst p | None \<Rightarrow> [])"

section \<open>Python's repr\<close>

definition repr_char :: "char \<Rightarrow> char \<Rightarrow> string" where
  "repr_char q c =
     (if c = q \<or> c = CHR 0x5C then [CHR 0x5C, c]
      else if c = CHR 0x0A then [CHR 0x5C, CHR ''n'']
      else if c = CHR 0x0D then [CHR 0x5C, CHR ''r'']
      else if c = CHR 0x09 then [CHR 0x5C, CHR ''t'']
      else if code_of c < 32 \<or> (127 \<le> code_of c \<and> code_of c \<le> 160) \<or> code_of c = 173
      then [CHR 0x5C, CHR ''x'', hex_digit (code_of c div 16), hex_digit (code_of c mod 16)]
      else [c])"

definition repr_str :: "string \<Rightarrow> string" where
  "repr_str s =
     (let q = (if CHR 0x27 \<in> set s \<and> CHR 0x22 \<notin> set s then CHR 0x22 else CHR 0x27)
      in q # concat (map (repr_char q) s) @ [q])"

fun repr_json :: "json \<Rightarrow> string" where
  "repr_json JNull = ''None''"
| "repr_json (JBool b) = (if b then ''True'' else ''False'')"
| "repr_json (JInt i) = show_int i"
| "repr_json (JReal r) = r"
| "repr_json (JStr s) = repr_str s"
| "repr_json (JArr xs) = ''['' @ join_with '', '' (map repr_json xs) @ '']''"
| "repr_json (JObj kvs) =
     ''{'' @ join_with '', '' (map (\<lambda>(k, v). repr_str k @ '': '' @ repr_json v) kvs) @ ''}''"

definition repr_strs :: "string list \<Rightarrow> string" where
  "repr_strs xs = ''['' @ join_with '', '' (map repr_str xs) @ '']''"

section \<open>Validators\<close>

definition strs :: "string list \<Rightarrow> json" where
  "strs xs = JArr (map JStr xs)"

text \<open>\<open>d[k]\<close> of an object whose keys were checked.\<close>

definition jitem :: "json \<Rightarrow> string \<Rightarrow> json" where
  "jitem d k = jget_or_null d k"

definition strict_object ::
  "json \<Rightarrow> string \<Rightarrow> string list \<Rightarrow> string list \<Rightarrow> json res" where
  "strict_object v field required optional =
     (case v of
        JObj kvs \<Rightarrow>
          (let keys = map fst kvs;
               unknown = sort (remdups (filter (\<lambda>k. k \<notin> set required \<and> k \<notin> set optional) keys));
               missing = sort (remdups (filter (\<lambda>k. k \<notin> set keys) required))
           in require (unknown = [])
                (config_error (field @ '' contains unknown fields'') [(''fields'', strs unknown)])
              (require (missing = [])
                (config_error (field @ '' is missing required fields'') [(''fields'', strs missing)])
              (Inr v)))
      | _ \<Rightarrow> Inl (config_error (field @ '' must be an object'') []))"

definition clean_text :: "string \<Rightarrow> bool" where
  "clean_text s \<longleftrightarrow> s \<noteq> [] \<and> CHR 0x00 \<notin> set s \<and> CHR 0x0A \<notin> set s \<and> CHR 0x0D \<notin> set s"

definition nonempty_string :: "json \<Rightarrow> string \<Rightarrow> string res" where
  "nonempty_string v field =
     (case v of
        JStr s \<Rightarrow>
          require (s \<noteq> []) (config_error (field @ '' must be a non-empty string'') [])
          (require (CHR 0x00 \<notin> set s \<and> CHR 0x0A \<notin> set s \<and> CHR 0x0D \<notin> set s)
             (config_error (field @ '' contains an unsupported control character'') [])
          (Inr s))
      | _ \<Rightarrow> Inl (config_error (field @ '' must be a non-empty string'') []))"

definition absolute_path :: "json \<Rightarrow> string \<Rightarrow> string res" where
  "absolute_path v field =
     rbind (nonempty_string v field) (\<lambda>raw.
     require (is_abs raw) (config_error (field @ '' must be an absolute POSIX path'') [])
       (Inr (normpath raw)))"

definition optional_path :: "json \<Rightarrow> string \<Rightarrow> string option res" where
  "optional_path v field =
     (if v = JNull then Inr None else rbind (absolute_path v field) (\<lambda>p. Inr (Some p)))"

definition port_ok :: "int \<Rightarrow> bool" where
  "port_ok p \<longleftrightarrow> 1 \<le> p \<and> p \<le> 65535"

definition port_of :: "json \<Rightarrow> string \<Rightarrow> int res" where
  "port_of v field =
     (case v of
        JInt i \<Rightarrow> require (port_ok i)
          (config_error (field @ '' must be an integer between 1 and 65535'') []) (Inr i)
      | _ \<Rightarrow> Inl (config_error (field @ '' must be an integer between 1 and 65535'') []))"

definition positive_int :: "json \<Rightarrow> string \<Rightarrow> int res" where
  "positive_int v field =
     (case v of
        JInt i \<Rightarrow> require (1 \<le> i) (config_error (field @ '' must be a positive integer'') []) (Inr i)
      | _ \<Rightarrow> Inl (config_error (field @ '' must be a positive integer'') []))"

definition boolean_of :: "json \<Rightarrow> string \<Rightarrow> bool res" where
  "boolean_of v field =
     (case v of JBool b \<Rightarrow> Inr b | _ \<Rightarrow> Inl (config_error (field @ '' must be boolean'') []))"

definition enum_of :: "(string \<times> 'a) list \<Rightarrow> json \<Rightarrow> string \<Rightarrow> 'a res" where
  "enum_of tab v field =
     (case (case v of JStr s \<Rightarrow> map_of tab s | _ \<Rightarrow> None) of
        Some x \<Rightarrow> Inr x
      | None \<Rightarrow> Inl (config_error (field @ '' must be one of '' @ repr_strs (map fst tab)) []))"

section \<open>Patterns\<close>

text \<open>
  The module's regular expressions, all used with \<open>fullmatch\<close>. A pattern of runs
  separated by single separators is a split into non-empty runs.
\<close>

definition runs_of :: "(char \<Rightarrow> bool) \<Rightarrow> string list \<Rightarrow> bool" where
  "runs_of p parts \<longleftrightarrow> list_all (\<lambda>s. s \<noteq> [] \<and> list_all p s) parts"

definition alnum :: "char \<Rightarrow> bool" where
  "alnum c \<longleftrightarrow> is_letter c \<or> is_digit c"

definition instance_id_re :: "string \<Rightarrow> bool" where
  "instance_id_re s \<longleftrightarrow> runs_of (\<lambda>c. is_lower c \<or> is_digit c) (split_on CHR ''-'' s)"

definition access_alias_re :: "string \<Rightarrow> bool" where
  "access_alias_re s \<longleftrightarrow>
     runs_of alnum (split_on CHR ''-'' (map (\<lambda>c. if c = CHR ''_'' then CHR ''-'' else c) s))"

definition tunnel_id_re :: "string \<Rightarrow> bool" where
  "tunnel_id_re s \<longleftrightarrow>
     prefix ''tunnel_'' s \<and> drop 7 s \<noteq> [] \<and> list_all alnum (drop 7 s)"

definition profile_re :: "string \<Rightarrow> bool" where
  "profile_re s \<longleftrightarrow>
     s \<noteq> [] \<and> alnum (hd s) \<and>
     list_all (\<lambda>c. alnum c \<or> c = CHR ''.'' \<or> c = CHR ''_'' \<or> c = CHR ''-'') (tl s)"

definition git_remote_re :: "string \<Rightarrow> bool" where
  "git_remote_re s \<longleftrightarrow>
     s \<noteq> [] \<and> alnum (hd s) \<and>
     list_all (\<lambda>c. alnum c \<or> c = CHR ''.'' \<or> c = CHR ''_'' \<or> c = CHR ''-'') (tl s)"

section \<open>Instance identity\<close>

definition instance_id_ok :: "string \<Rightarrow> bool" where
  "instance_id_ok s \<longleftrightarrow> instance_id_re s \<and> length s \<le> 63"

definition instance_id_of :: "string \<Rightarrow> string res" where
  "instance_id_of s =
     require (instance_id_ok s)
       (config_error ''instance_id must use lowercase letters, digits, and single hyphens''
          [(''value'', JStr s)])
     (Inr s)"

section \<open>Records\<close>

record lifecycle_intent =
  li_deployment :: deployment_target
  li_runtime :: runtime_target

record mcp_config =
  mcp_binary :: string
  mcp_host :: string
  mcp_port :: int
  mcp_permission_mode :: permission_mode
  mcp_shell_env_inherit :: shell_env_inherit
  mcp_exec_path :: string
  mcp_external_roots :: "string list"

record tunnel_config =
  tun_binary :: string
  tun_id :: string
  tun_profile :: string
  tun_health_host :: string
  tun_health_port :: int
  tun_env_file :: string

record access_folder =
  af_alias :: string
  af_path :: string

record access_config =
  ac_read_only :: "access_folder list"
  ac_read_write :: "access_folder list"
  ac_read_execute :: "access_folder list"
  ac_read_write_execute :: "access_folder list"

record github_config =
  gh_mode :: github_mode
  gh_config_dir :: "string option"
  gh_binary :: "string option"

record git_identity =
  gid_name :: string
  gid_email :: string

record git_remote =
  gr_name :: string
  gr_protocol :: git_protocol

record git_config =
  git_identity_of :: "git_identity option"
  git_remote_of :: "git_remote option"

record agent_config =
  ag_mode :: agent_mode
  ag_ssh_auth_sock :: "string option"

record recovery_policy =
  rp_guard_enabled :: bool
  rp_interval :: int
  rp_cooldown :: int

record desired_instance =
  di_version :: int
  di_id :: string
  di_workspace :: string
  di_lifecycle :: lifecycle_intent
  di_mcp :: mcp_config
  di_tunnel :: tunnel_config
  di_access :: access_config
  di_github :: github_config
  di_git :: git_config
  di_agent :: agent_config
  di_recovery :: recovery_policy

end
