(* ===== verification/Domain_Parse.thy ===== *)
theory Domain_Parse
  imports Domain
begin

text \<open>
  The strict parsers and printers of domain.py, one pair per record, and
  \<open>DesiredInstance.from_dict\<close>, \<open>from_json\<close>, \<open>to_dict\<close>, \<open>canonical_json\<close>
  and \<open>fingerprint\<close>. The digest function is a parameter of \<open>fingerprint\<close>.
  The position (line, column) of a syntax error is not kept in its details.
\<close>

section \<open>Lifecycle\<close>

definition lifecycle_of :: "json \<Rightarrow> lifecycle_intent res" where
  "lifecycle_of v =
     rbind (strict_object v ''lifecycle'' [''deployment'', ''runtime''] []) (\<lambda>data.
     rbind (enum_of deployment_targets (jitem data ''deployment'') ''lifecycle.deployment'') (\<lambda>deployment.
     rbind (enum_of runtime_targets (jitem data ''runtime'') ''lifecycle.runtime'') (\<lambda>runtime.
     require (\<not> (deployment = ABSENT \<and> runtime = RUNNING))
       (config_error ''lifecycle.runtime cannot be running when deployment is absent'' [])
     (Inr \<lparr>li_deployment = deployment, li_runtime = runtime\<rparr>))))"

definition lifecycle_dict :: "lifecycle_intent \<Rightarrow> json" where
  "lifecycle_dict l =
     JObj [(''deployment'', JStr (enum_value deployment_targets (li_deployment l))),
           (''runtime'', JStr (enum_value runtime_targets (li_runtime l)))]"

section \<open>MCP endpoint\<close>

definition indexed_field :: "string \<Rightarrow> nat \<Rightarrow> string" where
  "indexed_field field i = field @ ''['' @ show_nat i @ '']''"

definition exec_entry_ok :: "string \<Rightarrow> bool" where
  "exec_entry_ok s \<longleftrightarrow> s \<noteq> [] \<and> is_abs s"

text \<open>The first bad entry of the search path stops the loop.\<close>

definition check_exec_path :: "string \<Rightarrow> unit res" where
  "check_exec_path s =
     (case find (\<lambda>p. \<not> exec_entry_ok (snd p)) (indexed (split_on CHR '':'' s)) of
        None \<Rightarrow> Inr ()
      | Some (i, e) \<Rightarrow>
          Inl (config_error ''mcp.exec_path must contain only non-empty absolute path entries''
                 [(''index'', JInt (int i))]))"

definition array_of :: "json \<Rightarrow> string \<Rightarrow> json list res" where
  "array_of v field =
     (case v of JArr xs \<Rightarrow> Inr xs | _ \<Rightarrow> Inl (config_error (field @ '' must be an array'') []))"

definition mcp_of :: "json \<Rightarrow> mcp_config res" where
  "mcp_of v =
     rbind (strict_object v ''mcp''
       [''binary'', ''host'', ''port'', ''permission_mode'', ''shell_env_inherit'', ''exec_path'',
        ''external_roots''] []) (\<lambda>data.
     rbind (nonempty_string (jitem data ''exec_path'') ''mcp.exec_path'') (\<lambda>exec_path.
     rbind (check_exec_path exec_path) (\<lambda>_.
     rbind (array_of (jitem data ''external_roots'') ''mcp.external_roots'') (\<lambda>raw.
     rbind (traverse (\<lambda>(i, x). absolute_path x (indexed_field ''mcp.external_roots'' i)) (indexed raw)) (\<lambda>roots.
     require (distinct roots) (config_error ''mcp.external_roots contains duplicate paths'' [])
     (rbind (absolute_path (jitem data ''binary'') ''mcp.binary'') (\<lambda>binary.
      rbind (nonempty_string (jitem data ''host'') ''mcp.host'') (\<lambda>host.
      rbind (port_of (jitem data ''port'') ''mcp.port'') (\<lambda>port.
      rbind (enum_of permission_modes (jitem data ''permission_mode'') ''mcp.permission_mode'') (\<lambda>mode.
      rbind (enum_of shell_env_inherits (jitem data ''shell_env_inherit'') ''mcp.shell_env_inherit'') (\<lambda>env.
      Inr \<lparr>mcp_binary = binary, mcp_host = host, mcp_port = port, mcp_permission_mode = mode,
           mcp_shell_env_inherit = env, mcp_exec_path = exec_path,
           mcp_external_roots = roots\<rparr>)))))))))))"

definition mcp_dict :: "mcp_config \<Rightarrow> json" where
  "mcp_dict m =
     JObj [(''binary'', JStr (mcp_binary m)),
           (''host'', JStr (mcp_host m)),
           (''port'', JInt (mcp_port m)),
           (''permission_mode'', JStr (enum_value permission_modes (mcp_permission_mode m))),
           (''shell_env_inherit'', JStr (enum_value shell_env_inherits (mcp_shell_env_inherit m))),
           (''exec_path'', JStr (mcp_exec_path m)),
           (''external_roots'', strs (mcp_external_roots m))]"

section \<open>Tunnel\<close>

definition tunnel_of :: "json \<Rightarrow> tunnel_config res" where
  "tunnel_of v =
     rbind (strict_object v ''tunnel''
       [''binary'', ''id'', ''profile'', ''health_host'', ''health_port'', ''env_file''] []) (\<lambda>data.
     rbind (nonempty_string (jitem data ''id'') ''tunnel.id'') (\<lambda>tid.
     require (tunnel_id_re tid)
       (config_error ''tunnel.id must start with tunnel_ and contain only letters/digits after the prefix'' [])
     (rbind (nonempty_string (jitem data ''profile'') ''tunnel.profile'') (\<lambda>profile.
     require (profile_re profile) (config_error ''tunnel.profile contains unsupported characters'' [])
     (rbind (absolute_path (jitem data ''binary'') ''tunnel.binary'') (\<lambda>binary.
      rbind (nonempty_string (jitem data ''health_host'') ''tunnel.health_host'') (\<lambda>host.
      rbind (port_of (jitem data ''health_port'') ''tunnel.health_port'') (\<lambda>port.
      rbind (absolute_path (jitem data ''env_file'') ''tunnel.env_file'') (\<lambda>env.
      Inr \<lparr>tun_binary = binary, tun_id = tid, tun_profile = profile, tun_health_host = host,
           tun_health_port = port, tun_env_file = env\<rparr>)))))))))"

definition tunnel_dict :: "tunnel_config \<Rightarrow> json" where
  "tunnel_dict t =
     JObj [(''binary'', JStr (tun_binary t)),
           (''id'', JStr (tun_id t)),
           (''profile'', JStr (tun_profile t)),
           (''health_host'', JStr (tun_health_host t)),
           (''health_port'', JInt (tun_health_port t)),
           (''env_file'', JStr (tun_env_file t))]"

section \<open>Access folders\<close>

definition access_folder_of :: "json \<Rightarrow> string \<Rightarrow> access_folder res" where
  "access_folder_of v field =
     rbind (strict_object v field [''alias'', ''path''] []) (\<lambda>data.
     rbind (nonempty_string (jitem data ''alias'') (field @ ''.alias'')) (\<lambda>alias.
     require (access_alias_re alias)
       (config_error (field @ ''.alias must use letters, digits, and single hyphens or underscores'') [])
     (rbind (absolute_path (jitem data ''path'') (field @ ''.path'')) (\<lambda>path.
     require (CHR '':'' \<notin> set path)
       (config_error (field @ ''.path must not contain '' @ repr_str '':'') [])
     (Inr \<lparr>af_alias = alias, af_path = path\<rparr>)))))"

definition access_folder_dict :: "access_folder \<Rightarrow> json" where
  "access_folder_dict f = JObj [(''alias'', JStr (af_alias f)), (''path'', JStr (af_path f))]"

definition normalized_alias :: "access_folder \<Rightarrow> string" where
  "normalized_alias f = replace_char CHR ''-'' ''_'' (lower_string (af_alias f))"

text \<open>\<open>ACCESS_MODES\<close> and \<open>groups()\<close>: mode names in order, with their group.\<close>

definition access_modes :: "(string \<times> string) list" where
  "access_modes = [(''ro'', ''read_only''), (''rx'', ''read_execute''), (''rw'', ''read_write''),
                   (''rwx'', ''read_write_execute'')]"

definition access_groups :: "access_config \<Rightarrow> (string \<times> access_folder list) list" where
  "access_groups a = [(''ro'', ac_read_only a), (''rx'', ac_read_execute a),
                      (''rw'', ac_read_write a), (''rwx'', ac_read_write_execute a)]"

definition access_folders :: "access_config \<Rightarrow> access_folder list" where
  "access_folders a = concat (map snd (access_groups a))"

definition access_group_of :: "json \<Rightarrow> string \<Rightarrow> access_folder list res" where
  "access_group_of data mode =
     rbind (case jget data mode of
              None \<Rightarrow> Inr []
            | Some raw \<Rightarrow> array_of raw (''access.'' @ mode)) (\<lambda>raw.
     traverse (\<lambda>(i, x). access_folder_of x (indexed_field (''access.'' @ mode) i)) (indexed raw))"

definition overlaps :: "string \<Rightarrow> string \<Rightarrow> bool" where
  "overlaps s w \<longleftrightarrow>
     (let source = path_of s; workspace = path_of w
      in source = workspace \<or> workspace \<in> set (path_parents source) \<or>
         source \<in> set (path_parents workspace))"

definition check_overlap :: "string \<Rightarrow> access_folder list \<Rightarrow> unit res" where
  "check_overlap workspace folders =
     (case find (\<lambda>f. overlaps (af_path f) workspace) folders of
        None \<Rightarrow> Inr ()
      | Some f \<Rightarrow> Inl (config_error ''access folder source must not overlap workspace_path''
                          [(''alias'', JStr (af_alias f)), (''path'', JStr (af_path f))]))"

definition access_of :: "json \<Rightarrow> string \<Rightarrow> access_config res" where
  "access_of v workspace =
     rbind (strict_object v ''access'' [''read_only'', ''read_write'']
              [''read_execute'', ''read_write_execute'']) (\<lambda>data.
     rbind (access_group_of data ''read_only'') (\<lambda>ro.
     rbind (access_group_of data ''read_execute'') (\<lambda>rx.
     rbind (access_group_of data ''read_write'') (\<lambda>rw.
     rbind (access_group_of data ''read_write_execute'') (\<lambda>rwx.
     let folders = ro @ rx @ rw @ rwx
     in require (distinct (map normalized_alias folders))
          (config_error ''access folder aliases collide after normalization'' [])
        (require (distinct (map af_path folders))
          (config_error ''access folder source paths must be unique'' [])
        (rbind (check_overlap workspace folders) (\<lambda>_.
         Inr \<lparr>ac_read_only = ro, ac_read_write = rw, ac_read_execute = rx,
              ac_read_write_execute = rwx\<rparr>))))))))"

definition access_dict :: "access_config \<Rightarrow> json" where
  "access_dict a =
     JObj ([(''read_only'', JArr (map access_folder_dict (ac_read_only a))),
            (''read_write'', JArr (map access_folder_dict (ac_read_write a)))] @
           (if ac_read_execute a \<noteq> []
            then [(''read_execute'', JArr (map access_folder_dict (ac_read_execute a)))] else []) @
           (if ac_read_write_execute a \<noteq> []
            then [(''read_write_execute'', JArr (map access_folder_dict (ac_read_write_execute a)))]
            else []))"

section \<open>GitHub, git and agent providers\<close>

definition opt_str :: "string option \<Rightarrow> json" where
  "opt_str x = (case x of None \<Rightarrow> JNull | Some s \<Rightarrow> JStr s)"

definition github_of :: "json \<Rightarrow> int \<Rightarrow> github_config res" where
  "github_of v version =
     (if version = 1 then
        rbind (strict_object v ''github'' [''config_dir''] []) (\<lambda>data.
        if jitem data ''config_dir'' = JNull
        then Inr \<lparr>gh_mode = GH_DISABLED, gh_config_dir = None, gh_binary = None\<rparr>
        else rbind (absolute_path (jitem data ''config_dir'') ''github.config_dir'') (\<lambda>d.
             Inr \<lparr>gh_mode = GH_EXTERNAL, gh_config_dir = Some d, gh_binary = None\<rparr>))
      else
        rbind (strict_object v ''github'' [''mode'', ''config_dir'', ''binary''] []) (\<lambda>data.
        rbind (enum_of github_modes (jitem data ''mode'') ''github.mode'') (\<lambda>mode.
        rbind (optional_path (jitem data ''config_dir'') ''github.config_dir'') (\<lambda>dir.
        rbind (optional_path (jitem data ''binary'') ''github.binary'') (\<lambda>binary.
        require (\<not> (mode = GH_DISABLED \<and> dir \<noteq> None))
          (config_error ''github.mode=disabled requires github.config_dir=null'' [])
        (require (\<not> (mode = GH_EXTERNAL \<and> dir = None))
          (config_error ''github.mode=external requires github.config_dir'' [])
        (require (\<not> (mode = GH_MANAGED \<and> dir = None))
          (config_error ''github.mode=managed requires explicit github.config_dir'' [])
        (Inr \<lparr>gh_mode = mode, gh_config_dir = dir, gh_binary = binary\<rparr>))))))))"

definition github_dict :: "github_config \<Rightarrow> int \<Rightarrow> json" where
  "github_dict g version =
     (if version = 1 then JObj [(''config_dir'', opt_str (gh_config_dir g))]
      else JObj [(''mode'', JStr (enum_value github_modes (gh_mode g))),
                 (''config_dir'', opt_str (gh_config_dir g)),
                 (''binary'', opt_str (gh_binary g))])"

definition git_identity_parse :: "json \<Rightarrow> git_identity res" where
  "git_identity_parse v =
     rbind (strict_object v ''git.identity'' [''name'', ''email''] []) (\<lambda>data.
     rbind (nonempty_string (jitem data ''name'') ''git.identity.name'') (\<lambda>name.
     rbind (nonempty_string (jitem data ''email'') ''git.identity.email'') (\<lambda>email.
     Inr \<lparr>gid_name = name, gid_email = email\<rparr>)))"

definition git_identity_dict :: "git_identity \<Rightarrow> json" where
  "git_identity_dict g = JObj [(''name'', JStr (gid_name g)), (''email'', JStr (gid_email g))]"

definition git_remote_parse :: "json \<Rightarrow> git_remote res" where
  "git_remote_parse v =
     rbind (strict_object v ''git.remote'' [''name'', ''protocol''] []) (\<lambda>data.
     rbind (nonempty_string (jitem data ''name'') ''git.remote.name'') (\<lambda>name.
     require (git_remote_re name) (config_error ''git.remote.name contains unsupported characters'' [])
     (rbind (enum_of git_protocols (jitem data ''protocol'') ''git.remote.protocol'') (\<lambda>protocol.
     Inr \<lparr>gr_name = name, gr_protocol = protocol\<rparr>))))"

definition git_remote_dict :: "git_remote \<Rightarrow> json" where
  "git_remote_dict g =
     JObj [(''name'', JStr (gr_name g)), (''protocol'', JStr (enum_value git_protocols (gr_protocol g)))]"

definition optional_of :: "(json \<Rightarrow> 'a res) \<Rightarrow> json \<Rightarrow> 'a option res" where
  "optional_of p v = (if v = JNull then Inr None else rbind (p v) (\<lambda>x. Inr (Some x)))"

definition git_empty :: git_config where
  "git_empty = \<lparr>git_identity_of = None, git_remote_of = None\<rparr>"

definition git_of :: "json \<Rightarrow> git_config res" where
  "git_of v =
     rbind (strict_object v ''git'' [''identity'', ''remote''] []) (\<lambda>data.
     rbind (optional_of git_identity_parse (jitem data ''identity'')) (\<lambda>identity.
     rbind (optional_of git_remote_parse (jitem data ''remote'')) (\<lambda>remote.
     Inr \<lparr>git_identity_of = identity, git_remote_of = remote\<rparr>)))"

definition optional_dict :: "('a \<Rightarrow> json) \<Rightarrow> 'a option \<Rightarrow> json" where
  "optional_dict f x = (case x of None \<Rightarrow> JNull | Some y \<Rightarrow> f y)"

definition git_dict :: "git_config \<Rightarrow> json" where
  "git_dict g =
     JObj [(''identity'', optional_dict git_identity_dict (git_identity_of g)),
           (''remote'', optional_dict git_remote_dict (git_remote_of g))]"

definition agent_none :: agent_config where
  "agent_none = \<lparr>ag_mode = AGENT_NONE, ag_ssh_auth_sock = None\<rparr>"

definition agent_of :: "json \<Rightarrow> agent_config res" where
  "agent_of v =
     rbind (strict_object v ''agent'' [''mode'', ''ssh_auth_sock''] []) (\<lambda>data.
     rbind (enum_of agent_modes (jitem data ''mode'') ''agent.mode'') (\<lambda>mode.
     rbind (optional_path (jitem data ''ssh_auth_sock'') ''agent.ssh_auth_sock'') (\<lambda>socket.
     require (\<not> (mode = AGENT_NONE \<and> socket \<noteq> None))
       (config_error ''agent.mode=none requires agent.ssh_auth_sock=null'' [])
     (require (\<not> (mode = AGENT_MANAGED \<and> socket \<noteq> None))
       (config_error ''agent.mode=managed-ssh-agent requires agent.ssh_auth_sock=null'' [])
     (require (\<not> (mode = AGENT_EXTERNAL \<and> socket = None))
       (config_error ''agent.mode=external requires agent.ssh_auth_sock'' [])
     (Inr \<lparr>ag_mode = mode, ag_ssh_auth_sock = socket\<rparr>))))))"

definition agent_dict :: "agent_config \<Rightarrow> json" where
  "agent_dict a =
     JObj [(''mode'', JStr (enum_value agent_modes (ag_mode a))),
           (''ssh_auth_sock'', opt_str (ag_ssh_auth_sock a))]"

section \<open>Recovery policy\<close>

definition recovery_of :: "json \<Rightarrow> recovery_policy res" where
  "recovery_of v =
     rbind (strict_object v ''recovery''
       [''admission_guard_enabled'', ''guard_interval_seconds'', ''recovery_cooldown_seconds''] []) (\<lambda>data.
     rbind (boolean_of (jitem data ''admission_guard_enabled'') ''recovery.admission_guard_enabled'') (\<lambda>enabled.
     rbind (positive_int (jitem data ''guard_interval_seconds'') ''recovery.guard_interval_seconds'') (\<lambda>iv.
     rbind (positive_int (jitem data ''recovery_cooldown_seconds'') ''recovery.recovery_cooldown_seconds'') (\<lambda>cd.
     Inr \<lparr>rp_guard_enabled = enabled, rp_interval = iv, rp_cooldown = cd\<rparr>))))"

definition recovery_dict :: "recovery_policy \<Rightarrow> json" where
  "recovery_dict r =
     JObj [(''admission_guard_enabled'', JBool (rp_guard_enabled r)),
           (''guard_interval_seconds'', JInt (rp_interval r)),
           (''recovery_cooldown_seconds'', JInt (rp_cooldown r))]"

section \<open>The declaration\<close>

definition supported_versions :: "int list" where
  "supported_versions = [1, 2]"

definition version_of :: "json \<Rightarrow> int res" where
  "version_of v =
     (case v of
        JObj kvs \<Rightarrow>
          (case jget v ''config_version'' of
             None \<Rightarrow> Inl (config_error ''instance missing required fields''
                            [(''fields'', strs [''config_version''])])
           | Some ver \<Rightarrow>
               (case as_int ver of
                  Some n \<Rightarrow>
                    if n \<in> set supported_versions then Inr n
                    else Inl (ManagerError CONFIG_VERSION_UNSUPPORTED
                      (''unsupported config_version: '' @ repr_json ver)
                      [(''supported'', JArr (map JInt supported_versions))])
                | None \<Rightarrow> Inl (ManagerError CONFIG_VERSION_UNSUPPORTED
                      (''unsupported config_version: '' @ repr_json ver)
                      [(''supported'', JArr (map JInt supported_versions))])))
      | _ \<Rightarrow> Inl (config_error ''instance must be an object'' []))"

definition instance_required :: "int \<Rightarrow> string list" where
  "instance_required version =
     [''config_version'', ''instance_id'', ''workspace_path'', ''lifecycle'', ''mcp'', ''tunnel'',
      ''access'', ''github'', ''recovery''] @ (if version = 2 then [''git'', ''agent''] else [])"

definition same_endpoint :: "mcp_config \<Rightarrow> tunnel_config \<Rightarrow> bool" where
  "same_endpoint m t \<longleftrightarrow> mcp_host m = tun_health_host t \<and> mcp_port m = tun_health_port t"

definition remote_uses :: "git_config \<Rightarrow> git_protocol \<Rightarrow> bool" where
  "remote_uses g p \<longleftrightarrow> (case git_remote_of g of None \<Rightarrow> False | Some r \<Rightarrow> gr_protocol r = p)"

text \<open>The cross-record checks of \<open>DesiredInstance.from_dict\<close> on the providers.\<close>

definition check_providers :: "git_config \<Rightarrow> agent_config \<Rightarrow> github_config \<Rightarrow> unit res" where
  "check_providers git agent github =
     require (\<not> (remote_uses git PROTO_SSH \<and> ag_mode agent = AGENT_NONE))
       (config_error ''git.remote.protocol=ssh requires an agent provider'' [])
     (require (\<not> (remote_uses git PROTO_HTTPS_GH \<and> gh_config_dir github = None))
       (config_error ''git.remote.protocol=https-gh requires github.config_dir'' [])
     (require (\<not> (remote_uses git PROTO_HTTPS_GH \<and> gh_binary github = None))
       (config_error ''git.remote.protocol=https-gh requires github.binary'' [])
     (Inr ())))"

definition from_dict :: "json \<Rightarrow> desired_instance res" where
  "from_dict v =
     rbind (version_of v) (\<lambda>version.
     rbind (strict_object v ''instance'' (instance_required version) []) (\<lambda>data.
     rbind (absolute_path (jitem data ''workspace_path'') ''workspace_path'') (\<lambda>workspace.
     rbind (mcp_of (jitem data ''mcp'')) (\<lambda>mcp.
     rbind (tunnel_of (jitem data ''tunnel'')) (\<lambda>tunnel.
     require (\<not> same_endpoint mcp tunnel)
       (config_error ''mcp.port and tunnel.health_port collide on the same host'' [])
     (rbind (github_of (jitem data ''github'') version) (\<lambda>github.
      rbind (if version = 1 then Inr git_empty else git_of (jitem data ''git'')) (\<lambda>git.
      rbind (if version = 1 then Inr agent_none else agent_of (jitem data ''agent'')) (\<lambda>agent.
      rbind (check_providers git agent github) (\<lambda>_.
      rbind (rbind (nonempty_string (jitem data ''instance_id'') ''instance_id'') instance_id_of) (\<lambda>iid.
      rbind (lifecycle_of (jitem data ''lifecycle'')) (\<lambda>lifecycle.
      rbind (access_of (jitem data ''access'') workspace) (\<lambda>access.
      rbind (recovery_of (jitem data ''recovery'')) (\<lambda>recovery.
      Inr \<lparr>di_version = version, di_id = iid, di_workspace = workspace, di_lifecycle = lifecycle,
           di_mcp = mcp, di_tunnel = tunnel, di_access = access, di_github = github, di_git = git,
           di_agent = agent, di_recovery = recovery\<rparr>))))))))))))))"

definition from_json :: "string \<Rightarrow> desired_instance res" where
  "from_json text =
     (case loads text of
        None \<Rightarrow> Inl (config_error ''instance declaration is not valid JSON'' [])
      | Some v \<Rightarrow> from_dict v)"

definition to_dict :: "desired_instance \<Rightarrow> json" where
  "to_dict d =
     JObj ([(''config_version'', JInt (di_version d)),
            (''instance_id'', JStr (di_id d)),
            (''workspace_path'', JStr (di_workspace d)),
            (''lifecycle'', lifecycle_dict (di_lifecycle d)),
            (''mcp'', mcp_dict (di_mcp d)),
            (''tunnel'', tunnel_dict (di_tunnel d)),
            (''access'', access_dict (di_access d)),
            (''github'', github_dict (di_github d) (di_version d)),
            (''recovery'', recovery_dict (di_recovery d))] @
           (if di_version d \<ge> 2
            then [(''git'', git_dict (di_git d)), (''agent'', agent_dict (di_agent d))] else []))"

definition canonical_json :: "desired_instance \<Rightarrow> string" where
  "canonical_json d = dumps_compact (to_dict d)"

definition fingerprint :: "(string \<Rightarrow> string) \<Rightarrow> desired_instance \<Rightarrow> string" where
  "fingerprint H d = H (canonical_json d)"

end
