(* ===== verification/Domain_Roundtrip.thy ===== *)
theory Domain_Roundtrip
  imports Domain_Valid
begin

text \<open>
  For every record of a declaration: what its parser accepts is valid, and its parser reads
  back what its printer wrote.
\<close>

section \<open>Leaves\<close>

lemma set_norm_comps: "p \<in> set (norm_comps ab acc cs) \<Longrightarrow> p \<in> set acc \<or> p \<in> set cs"
proof (induction ab acc cs rule: norm_comps.induct)
  case (2 ab acc c cs)
  have "q \<in> set (tl acc) \<Longrightarrow> q \<in> set acc" for q by (cases acc) auto
  with 2 show ?case by (auto split: if_splits)
qed simp

lemma set_split_on: "p \<in> set (split_on c s) \<Longrightarrow> set p \<subseteq> set s"
  by (induction s arbitrary: p) (auto split: if_splits list.splits, force)

lemma set_join_with: "set (join_with sep ps) \<subseteq> set sep \<union> (\<Union>p \<in> set ps. set p)"
  by (induction sep ps rule: join_with.induct) auto

lemma set_normpath: "set (normpath s) \<subseteq> set s \<union> {CHR ''/'', CHR ''.''}"
proof -
  have "set (join_with ''/'' (norm_comps ab [] (split_on CHR ''/'' s))) \<subseteq> set s \<union> {CHR ''/''}" for ab
    using set_join_with [of "''/''" "norm_comps ab [] (split_on CHR ''/'' s)"] set_norm_comps
      set_split_on by fastforce
  then show ?thesis by (auto simp: normpath_def Let_def split: if_splits)
qed

lemma clean_normpath: "clean_text s \<Longrightarrow> is_abs s \<Longrightarrow> clean_text (normpath s)"
  using set_normpath [of s] normpath_idem(2) [of s]
  by (auto simp: clean_text_def is_abs_iff leading_slashes_def)

lemma nonempty_string_eq: "nonempty_string v f = Inr s \<longleftrightarrow> v = JStr s \<and> clean_text s"
  by (cases v) (auto simp: nonempty_string_def clean_text_def res_simps)

lemma nonempty_string_print [simp]: "clean_text s \<Longrightarrow> nonempty_string (JStr s) f = Inr s"
  by (simp add: nonempty_string_eq)

lemma absolute_path_valid: "absolute_path v f = Inr p \<Longrightarrow> valid_path p"
  by (auto simp: absolute_path_def nonempty_string_eq res_simps valid_path_def clean_normpath
      normal_abs_normpath)

lemma absolute_path_print [simp]: "valid_path p \<Longrightarrow> absolute_path (JStr p) f = Inr p"
  by (simp add: absolute_path_def valid_path_def normal_abs_def)

lemma optional_path_valid: "optional_path v f = Inr x \<Longrightarrow> valid_opt_path x"
  by (auto simp: optional_path_def valid_opt_path_def res_simps absolute_path_valid split: if_splits)

lemma optional_path_print [simp]: "valid_opt_path x \<Longrightarrow> optional_path (opt_str x) f = Inr x"
  by (cases x) (simp_all add: optional_path_def opt_str_def valid_opt_path_def)

lemma port_of_eq [simp]: "port_of v f = Inr p \<longleftrightarrow> v = JInt p \<and> port_ok p"
  by (cases v) (auto simp: port_of_def res_simps)

lemma positive_int_eq [simp]: "positive_int v f = Inr p \<longleftrightarrow> v = JInt p \<and> 1 \<le> p"
  by (cases v) (auto simp: positive_int_def res_simps)

lemma boolean_of_print [simp]: "boolean_of (JBool b) f = Inr b"
  by (simp add: boolean_of_def)

lemma port_of_print [simp]: "port_ok p \<Longrightarrow> port_of (JInt p) f = Inr p"
  and positive_int_print [simp]: "1 \<le> p \<Longrightarrow> positive_int (JInt p) f = Inr p"
  by (simp_all only: port_of_eq positive_int_eq)

lemma enum_print [simp]:
  "enum_of permission_modes (JStr (enum_value permission_modes a)) f = Inr a"
  "enum_of shell_env_inherits (JStr (enum_value shell_env_inherits b)) f = Inr b"
  "enum_of deployment_targets (JStr (enum_value deployment_targets c)) f = Inr c"
  "enum_of runtime_targets (JStr (enum_value runtime_targets d)) f = Inr d"
  "enum_of github_modes (JStr (enum_value github_modes e)) f = Inr e"
  "enum_of git_protocols (JStr (enum_value git_protocols p)) f = Inr p"
  "enum_of agent_modes (JStr (enum_value agent_modes m)) f = Inr m"
  subgoal by (cases a) (simp_all add: enum_of_def enum_value_def permission_modes_def)
  subgoal by (cases b) (simp_all add: enum_of_def enum_value_def shell_env_inherits_def)
  subgoal by (cases c) (simp_all add: enum_of_def enum_value_def deployment_targets_def)
  subgoal by (cases d) (simp_all add: enum_of_def enum_value_def runtime_targets_def)
  subgoal by (cases e) (simp_all add: enum_of_def enum_value_def github_modes_def)
  subgoal by (cases p) (simp_all add: enum_of_def enum_value_def git_protocols_def)
  subgoal by (cases m) (simp_all add: enum_of_def enum_value_def agent_modes_def)
  done

lemma traverse_indexed_print:
  "(\<And>i x. x \<in> set xs \<Longrightarrow> g (i, h x) = Inr x) \<Longrightarrow> traverse g (indexed (map h xs)) = Inr xs"
proof -
  assume a: "\<And>i x. x \<in> set xs \<Longrightarrow> g (i, h x) = Inr x"
  have "indexed (map h xs) = map (\<lambda>(i, x). (i, h x)) (indexed xs)"
    by (simp add: indexed_def zip_map2)
  then have "traverse g (indexed (map h xs)) = traverse (\<lambda>p. g (case p of (i, x) \<Rightarrow> (i, h x))) (indexed xs)"
    by (simp only: traverse_map comp_def)
  also have "(\<lambda>p. g (case p of (i, x) \<Rightarrow> (i, h x))) = (\<lambda>(i, x). g (i, h x))"
    by (simp add: fun_eq_iff)
  also have "traverse \<dots> (indexed xs) = Inr (map snd (indexed xs))"
    using a set_indexed_snd by (intro traverse_all_Inr) fastforce
  finally show ?thesis by simp
qed

lemma strict_object_eq: "strict_object v f r opt = Inr d \<Longrightarrow> d = v"
  by (cases v) (auto simp: strict_object_def Let_def res_simps)

lemma strict_object_exact: "map fst kvs = r \<Longrightarrow> strict_object (JObj kvs) f r opt = Inr (JObj kvs)"
  by (auto simp: strict_object_def Let_def)

lemma jitem_JObj [simp]:
  "jitem (JObj kvs) k = (case map_of kvs k of None \<Rightarrow> JNull | Some x \<Rightarrow> x)"
  by (simp add: jitem_def jget_or_null_def)

section \<open>Records\<close>

lemma check_exec_path_eq:
  "check_exec_path s = Inr u \<longleftrightarrow> list_all exec_entry_ok (split_on CHR '':'' s)"
proof -
  have "list_all exec_entry_ok (map snd (indexed ps)) = list_all (\<lambda>p. exec_entry_ok (snd p)) (indexed ps)" for ps
    by (simp only: list.pred_map comp_def)
  then have "find (\<lambda>p. \<not> exec_entry_ok (snd p)) (indexed ps) = None \<longleftrightarrow> list_all exec_entry_ok ps" for ps
    unfolding find_None_iff by (auto simp: list_all_iff)
  from this [of "split_on CHR '':'' s"] show ?thesis
    by (cases "find (\<lambda>p. \<not> exec_entry_ok (snd p)) (indexed (split_on CHR '':'' s))")
       (auto simp: check_exec_path_def split: prod.splits)
qed

lemma array_of_eq [simp]: "array_of v f = Inr xs \<longleftrightarrow> v = JArr xs"
  by (cases v) (auto simp: array_of_def)

lemma check_exec_path_print:
  "list_all exec_entry_ok (split_on CHR '':'' s) \<Longrightarrow> check_exec_path s = Inr ()"
  by (simp add: check_exec_path_eq)

lemma paths_valid:
  "traverse (\<lambda>(i, x). absolute_path x (f i)) xs = Inr ps \<Longrightarrow> list_all valid_path ps"
  by (auto simp: list_all_iff dest!: traverse_eq_InrD dest: absolute_path_valid)

lemma paths_print:
  "list_all valid_path ps \<Longrightarrow>
    traverse (\<lambda>(i, x). absolute_path x (f i)) (indexed (map JStr ps)) = Inr ps"
  by (rule traverse_indexed_print) (simp add: list_all_iff)

lemma mcp_valid: "mcp_of v = Inr m \<Longrightarrow> valid_mcp m"
  by (auto simp: mcp_of_def res_simps nonempty_string_eq check_exec_path_eq valid_mcp_def
      dest: absolute_path_valid paths_valid)

lemma mcp_print: "valid_mcp m \<Longrightarrow> mcp_of (mcp_dict m) = Inr m"
  by (simp add: mcp_of_def mcp_dict_def strict_object_exact check_exec_path_print
      valid_mcp_def strs_def array_of_def paths_print)

lemma tunnel_valid: "tunnel_of v = Inr t \<Longrightarrow> valid_tunnel t"
  by (auto simp: tunnel_of_def res_simps nonempty_string_eq valid_tunnel_def
      dest: absolute_path_valid)

lemma tunnel_print: "valid_tunnel t \<Longrightarrow> tunnel_of (tunnel_dict t) = Inr t"
  by (simp add: tunnel_of_def tunnel_dict_def strict_object_exact valid_tunnel_def)

lemma folder_valid: "access_folder_of v f = Inr a \<Longrightarrow> valid_folder a"
  by (auto simp: access_folder_of_def res_simps nonempty_string_eq valid_folder_def
      dest: absolute_path_valid)

lemma folder_print: "valid_folder a \<Longrightarrow> access_folder_of (access_folder_dict a) f = Inr a"
  by (simp add: access_folder_of_def access_folder_dict_def strict_object_exact valid_folder_def)

lemma group_valid: "access_group_of v m = Inr fs \<Longrightarrow> list_all valid_folder fs"
  by (auto simp: access_group_of_def res_simps list_all_iff dest!: traverse_eq_InrD
      dest: folder_valid)

lemma group_print:
  "list_all valid_folder fs \<Longrightarrow> jget v m = Some (JArr (map access_folder_dict fs)) \<Longrightarrow>
    access_group_of v m = Inr fs"
  by (simp add: access_group_of_def array_of_def list_all_iff traverse_indexed_print folder_print)

lemma group_absent: "jget v m = None \<Longrightarrow> access_group_of v m = Inr []"
  by (simp add: access_group_of_def indexed_def)

lemma check_overlap_eq:
  "check_overlap w fs = Inr u \<longleftrightarrow> list_all (\<lambda>f. \<not> overlaps (af_path f) w) fs"
proof -
  have "find (\<lambda>f. overlaps (af_path f) w) fs = None \<longleftrightarrow> list_all (\<lambda>f. \<not> overlaps (af_path f) w) fs"
    by (auto simp: find_None_iff list_all_iff)
  then show ?thesis
    by (cases "find (\<lambda>f. overlaps (af_path f) w) fs") (auto simp: check_overlap_def)
qed

lemma access_valid:
  assumes "access_of v w = Inr a" shows "valid_access a w"
proof -
  from assms obtain d ro rx rw rwx where g: "access_group_of d ''read_only'' = Inr ro"
      "access_group_of d ''read_execute'' = Inr rx" "access_group_of d ''read_write'' = Inr rw"
      "access_group_of d ''read_write_execute'' = Inr rwx"
    and c: "distinct (map normalized_alias (ro @ rx @ rw @ rwx))"
      "distinct (map af_path (ro @ rx @ rw @ rwx))"
      "check_overlap w (ro @ rx @ rw @ rwx) = Inr ()"
    and a: "a = \<lparr>ac_read_only = ro, ac_read_write = rw, ac_read_execute = rx,
              ac_read_write_execute = rwx\<rparr>"
    unfolding access_of_def Let_def res_simps by (elim exE conjE) (simp add: Inr_inject)
  have f: "access_folders a = ro @ rx @ rw @ rwx"
    by (simp add: a access_folders_def access_groups_def)
  with c g [THEN group_valid] show ?thesis
    by (simp only: valid_access_def f list_all_append check_overlap_eq simp_thms)
qed

lemma access_print:
  assumes "valid_access a w" shows "access_of (access_dict a) w = Inr a"
proof -
  have rx: "access_group_of (access_dict a) ''read_execute'' = Inr (ac_read_execute a)"
    using assms by (cases "ac_read_execute a = []")
      (simp_all add: group_absent group_print access_dict_def valid_access_def access_folders_def
        access_groups_def)
  have rwx: "access_group_of (access_dict a) ''read_write_execute'' = Inr (ac_read_write_execute a)"
    using assms by (cases "ac_read_write_execute a = []")
      (simp_all add: group_absent group_print access_dict_def valid_access_def access_folders_def
        access_groups_def)
  have ro: "access_group_of (access_dict a) ''read_only'' = Inr (ac_read_only a)"
    and rw: "access_group_of (access_dict a) ''read_write'' = Inr (ac_read_write a)"
    using assms by (simp_all add: group_print access_dict_def valid_access_def access_folders_def
        access_groups_def)
  have "strict_object (access_dict a) ''access'' [''read_only'', ''read_write'']
      [''read_execute'', ''read_write_execute''] = Inr (access_dict a)"
    by (simp add: access_dict_def strict_object_def)
  moreover have f: "access_folders a =
      ac_read_only a @ ac_read_execute a @ ac_read_write a @ ac_read_write_execute a"
    by (simp add: access_folders_def access_groups_def)
  moreover have "check_overlap w (access_folders a) = Inr ()"
    using assms by (simp add: valid_access_def check_overlap_eq)
  ultimately show ?thesis
    using assms rx rwx ro rw unfolding valid_access_def
    by (simp only: access_of_def rbind_Inr Let_def require_True) simp
qed

lemma github_mode_rest: "m \<noteq> GH_EXTERNAL \<Longrightarrow> m \<noteq> GH_MANAGED \<Longrightarrow> m = GH_DISABLED"
  by (cases m) auto

lemma agent_mode_rest: "m \<noteq> AGENT_NONE \<Longrightarrow> m \<noteq> AGENT_MANAGED \<Longrightarrow> m = AGENT_EXTERNAL"
  by (cases m) auto

lemma github_valid: "github_of v n = Inr g \<Longrightarrow> valid_github g n"
proof -
  assume a: "github_of v n = Inr g"
  show ?thesis
  proof (cases "n = 1")
    case True
    with a show ?thesis
      by (auto simp: github_of_def res_simps valid_github_def valid_opt_path_def
          dest: absolute_path_valid split: if_splits)
  next
    case False
    with a show ?thesis
      by (auto simp: github_of_def res_simps valid_github_def dest: optional_path_valid intro: github_mode_rest)
  qed
qed

lemma github_print:
  assumes "valid_github g n" shows "github_of (github_dict g n) n = Inr g"
proof (cases "n = 1")
  case True
  with assms show ?thesis
    by (cases g; cases "gh_mode g"; cases "gh_config_dir g")
       (auto simp: github_of_def github_dict_def strict_object_exact valid_github_def
         valid_opt_path_def opt_str_def)
next
  case False
  with assms show ?thesis
    by (auto simp: github_of_def github_dict_def strict_object_exact valid_github_def)
qed

lemma git_valid: "git_of v = Inr g \<Longrightarrow> valid_git g"
  by (auto simp: git_of_def res_simps optional_of_def valid_git_def git_identity_parse_def
      git_remote_parse_def nonempty_string_eq split: if_splits)

lemma git_print:
  assumes "valid_git g" shows "git_of (git_dict g) = Inr g"
proof -
  have "optional_of git_identity_parse (optional_dict git_identity_dict (git_identity_of g)) =
      Inr (git_identity_of g)"
    using assms by (cases "git_identity_of g") (auto simp: optional_of_def optional_dict_def
        git_identity_parse_def git_identity_dict_def strict_object_exact valid_git_def)
  moreover have "optional_of git_remote_parse (optional_dict git_remote_dict (git_remote_of g)) =
      Inr (git_remote_of g)"
    using assms by (cases "git_remote_of g") (auto simp: optional_of_def optional_dict_def
        git_remote_parse_def git_remote_dict_def strict_object_exact valid_git_def)
  ultimately show ?thesis
    by (simp add: git_of_def git_dict_def strict_object_exact)
qed

lemma agent_valid: "agent_of v = Inr a \<Longrightarrow> valid_agent a"
  by (auto simp: agent_of_def res_simps valid_agent_def dest: optional_path_valid intro: agent_mode_rest)

lemma agent_print: "valid_agent a \<Longrightarrow> agent_of (agent_dict a) = Inr a"
  by (auto simp: agent_of_def agent_dict_def strict_object_exact valid_agent_def)

lemma recovery_valid: "recovery_of v = Inr r \<Longrightarrow> 1 \<le> rp_interval r \<and> 1 \<le> rp_cooldown r"
  by (auto simp: recovery_of_def res_simps)

lemma recovery_print:
  "1 \<le> rp_interval r \<Longrightarrow> 1 \<le> rp_cooldown r \<Longrightarrow> recovery_of (recovery_dict r) = Inr r"
  by (simp add: recovery_of_def recovery_dict_def strict_object_exact)

lemma lifecycle_valid:
  "lifecycle_of v = Inr l \<Longrightarrow> \<not> (li_deployment l = ABSENT \<and> li_runtime l = RUNNING)"
  by (auto simp: lifecycle_of_def res_simps)

lemma lifecycle_print:
  "\<not> (li_deployment l = ABSENT \<and> li_runtime l = RUNNING) \<Longrightarrow> lifecycle_of (lifecycle_dict l) = Inr l"
  by (auto simp: lifecycle_of_def lifecycle_dict_def strict_object_exact)

end
