(* ===== verification/Declaration.thy ===== *)
theory Declaration
  imports Domain_Roundtrip
begin

text \<open>
  Soundness of the parser of declarations (a parsed declaration is valid), the round trip
  through documents and through text, and what the fingerprint identifies.
\<close>

section \<open>Declarations\<close>

lemma from_dict_valid:
  assumes "from_dict v = Inr d" shows "valid_instance d"
proof -
  from assms obtain version data workspace mcp tunnel github git agent u iid lifecycle access recovery
    where v: "version_of v = Inr version"
      and w: "absolute_path (jitem data ''workspace_path'') ''workspace_path'' = Inr workspace"
      and m: "mcp_of (jitem data ''mcp'') = Inr mcp" and t: "tunnel_of (jitem data ''tunnel'') = Inr tunnel"
      and e: "\<not> same_endpoint mcp tunnel"
      and g: "github_of (jitem data ''github'') version = Inr github"
      and gi: "(if version = 1 then Inr git_empty else git_of (jitem data ''git'')) = Inr git"
      and ag: "(if version = 1 then Inr agent_none else agent_of (jitem data ''agent'')) = Inr agent"
      and p: "check_providers git agent github = Inr u"
      and i: "rbind (nonempty_string (jitem data ''instance_id'') ''instance_id'') instance_id_of = Inr iid"
      and l: "lifecycle_of (jitem data ''lifecycle'') = Inr lifecycle"
      and a: "access_of (jitem data ''access'') workspace = Inr access"
      and r: "recovery_of (jitem data ''recovery'') = Inr recovery"
      and d: "Inr \<lparr>di_version = version, di_id = iid, di_workspace = workspace,
           di_lifecycle = lifecycle, di_mcp = mcp, di_tunnel = tunnel, di_access = access,
           di_github = github, di_git = git, di_agent = agent, di_recovery = recovery\<rparr> = (Inr d :: desired_instance res)"
    unfolding from_dict_def rbind_eq_Inr [where y = d] require_eq_Inr
    by (elim exE conjE) (rule that, assumption+)
  from i have iid: "clean_text iid \<and> instance_id_ok iid"
    by (auto simp: res_simps nonempty_string_eq instance_id_of_def)
  from v have ver: "version = 1 \<or> version = 2"
    by (cases v) (auto simp: version_of_def supported_versions_def split: option.splits if_splits)
  have "if version = 1 then git = git_empty \<and> agent = agent_none else valid_git git \<and> valid_agent agent"
    using gi ag by (auto intro: git_valid agent_valid split: if_splits)
  with ver absolute_path_valid [OF w] mcp_valid [OF m] tunnel_valid [OF t] e github_valid [OF g] p iid
    lifecycle_valid [OF l] access_valid [OF a] recovery_valid [OF r]
  show ?thesis
    using d by (auto simp: valid_instance_def)
qed

lemma map_fst_to_dict: "di_version d \<in> {1, 2} \<Longrightarrow>
    map fst (the (as_obj (to_dict d))) = instance_required (di_version d)"
  by (auto simp: to_dict_def instance_required_def)

lemma version_of_to_dict:
  "di_version d \<in> {1, 2} \<Longrightarrow> version_of (to_dict d) = Inr (di_version d)"
  by (auto simp: version_of_def to_dict_def supported_versions_def)

lemma strict_to_dict:
  assumes "di_version d \<in> {1, 2}"
  shows "strict_object (to_dict d) f (instance_required (di_version d)) [] = Inr (to_dict d)"
  using strict_object_exact [OF map_fst_to_dict [OF assms]] by (simp add: to_dict_def)

lemma items_to_dict [simp]:
  "jitem (to_dict d) ''workspace_path'' = JStr (di_workspace d)"
  "jitem (to_dict d) ''instance_id'' = JStr (di_id d)"
  "jitem (to_dict d) ''lifecycle'' = lifecycle_dict (di_lifecycle d)"
  "jitem (to_dict d) ''mcp'' = mcp_dict (di_mcp d)"
  "jitem (to_dict d) ''tunnel'' = tunnel_dict (di_tunnel d)"
  "jitem (to_dict d) ''access'' = access_dict (di_access d)"
  "jitem (to_dict d) ''github'' = github_dict (di_github d) (di_version d)"
  "jitem (to_dict d) ''recovery'' = recovery_dict (di_recovery d)"
  "di_version d \<ge> 2 \<Longrightarrow> jitem (to_dict d) ''git'' = git_dict (di_git d)"
  "di_version d \<ge> 2 \<Longrightarrow> jitem (to_dict d) ''agent'' = agent_dict (di_agent d)"
  by (simp_all add: to_dict_def)

lemma from_dict_print:
  assumes "valid_instance d" shows "from_dict (to_dict d) = Inr d"
proof -
  note parts = mcp_print tunnel_print github_print lifecycle_print access_print recovery_print
    version_of_to_dict strict_to_dict instance_id_of_def
  show ?thesis
  proof (cases "di_version d = 1")
    case True
    then have "strict_object (to_dict d) f (instance_required 1) [] = Inr (to_dict d)" for f
      using strict_to_dict [of d f] by simp
    moreover from True assms have "check_providers git_empty agent_none (di_github d) = Inr ()"
      by (auto simp: valid_instance_def)
    ultimately show ?thesis
      using True assms by (simp add: from_dict_def valid_instance_def parts)
  next
    case False
    with assms have v: "di_version d = 2" by (simp add: valid_instance_def)
    then have "strict_object (to_dict d) f (instance_required 2) [] = Inr (to_dict d)" for f
      using strict_to_dict [of d f] by simp
    with v assms show ?thesis
      by (simp add: from_dict_def valid_instance_def parts git_print agent_print)
  qed
qed

section \<open>Text and fingerprints\<close>

lemma jplain_strs [simp]: "jplain (strs xs)"
  by (simp add: strs_def list_all_iff)

lemma jplain_opt_str [simp]: "jplain (opt_str x)"
  by (cases x) (simp_all add: opt_str_def)

lemma jplain_folders: "list_all jplain (map access_folder_dict fs)"
  by (simp add: access_folder_dict_def list_all_iff)

lemma jplain_records:
  "jplain (lifecycle_dict l)" "jplain (mcp_dict m)" "jplain (tunnel_dict t)" "jplain (access_dict a)"
  "jplain (github_dict g n)" "jplain (recovery_dict r)" "jplain (agent_dict ag)"
  by (simp_all add: lifecycle_dict_def mcp_dict_def tunnel_dict_def access_dict_def github_dict_def
      recovery_dict_def agent_dict_def jplain_folders)

lemma jplain_git: "jplain (git_dict g)"
  by (cases "git_identity_of g"; cases "git_remote_of g")
     (simp_all add: git_dict_def git_identity_dict_def git_remote_dict_def optional_dict_def)

lemma jplain_to_dict: "jplain (to_dict d)"
  by (cases "di_version d \<ge> 2") (simp_all add: to_dict_def jplain_records jplain_git)

lemma from_json_canonical: "valid_instance d \<Longrightarrow> from_json (canonical_json d) = Inr d"
  by (simp add: from_json_def canonical_json_def loads_dumps_compact jplain_to_dict
      from_dict_jsort from_dict_print)

lemma from_json_indented: "valid_instance d \<Longrightarrow> from_json (dumps_indent2 (to_dict d)) = Inr d"
  by (simp add: from_json_def loads_dumps_indent2 jplain_to_dict from_dict_jsort from_dict_print)

lemma canonical_json_inject:
  "valid_instance d \<Longrightarrow> valid_instance d' \<Longrightarrow> canonical_json d = canonical_json d' \<longleftrightarrow> d = d'"
  by (metis from_json_canonical sum.inject(2))

lemma fingerprint_eq:
  "valid_instance d \<Longrightarrow> valid_instance d' \<Longrightarrow>
    inj_on H {canonical_json d, canonical_json d'} \<Longrightarrow>
    fingerprint H d = fingerprint H d' \<longleftrightarrow> d = d'"
  by (auto simp: fingerprint_def canonical_json_inject)

section \<open>A concrete declaration\<close>

text \<open>The declaration the witnesses of the components are evaluated on.\<close>

definition sample_mcp :: mcp_config where
  "sample_mcp = \<lparr>mcp_binary = ''/o/mcp'', mcp_host = ''127.0.0.1'', mcp_port = 8000,
     mcp_permission_mode = SAFE, mcp_shell_env_inherit = ENV_CORE, mcp_exec_path = ''/bin'',
     mcp_external_roots = []\<rparr>"

definition sample_tunnel :: tunnel_config where
  "sample_tunnel = \<lparr>tun_binary = ''/o/tc'', tun_id = ''tunnel_a1'', tun_profile = ''p'',
     tun_health_host = ''127.0.0.1'', tun_health_port = 8001, tun_env_file = ''/e''\<rparr>"

definition sample_folder :: access_folder where
  "sample_folder = \<lparr>af_alias = ''docs'', af_path = ''/d''\<rparr>"

definition sample_access :: access_config where
  "sample_access = \<lparr>ac_read_only = [sample_folder], ac_read_write = [], ac_read_execute = [],
     ac_read_write_execute = []\<rparr>"

definition sample_recovery :: recovery_policy where
  "sample_recovery = \<lparr>rp_guard_enabled = True, rp_interval = 30, rp_cooldown = 300\<rparr>"

definition sample_instance :: desired_instance where
  "sample_instance = \<lparr>di_version = 2, di_id = ''a-1'', di_workspace = ''/w'',
     di_lifecycle = \<lparr>li_deployment = PRESENT, li_runtime = RUNNING\<rparr>,
     di_mcp = sample_mcp, di_tunnel = sample_tunnel, di_access = sample_access,
     di_github = \<lparr>gh_mode = GH_DISABLED, gh_config_dir = None, gh_binary = None\<rparr>,
     di_git = git_empty, di_agent = agent_none, di_recovery = sample_recovery\<rparr>"

lemma sample_valid: "valid_instance sample_instance"
  by code_simp

definition double_slash_instance :: desired_instance where
  "double_slash_instance = sample_instance
     \<lparr>di_access := sample_access\<lparr>ac_read_only := [sample_folder\<lparr>af_path := ''//w/sub''\<rparr>]\<rparr>\<rparr>"

lemma double_slash_valid: "valid_instance double_slash_instance"
  by code_simp

section \<open>Properties\<close>

text \<open>C26: the declarations a document can denote for the parser are exactly those of \<open>valid_instance\<close>:
  the version is 1 or 2; every path is absolute, normalised and free of control characters;
  identifiers, aliases, profiles and remote names match their patterns; ports are in range, the
  two endpoints differ and the intervals are positive; an absent deployment is stopped; the folders'
  aliases and sources are distinct and none, compared part by part with its root, is the
  workspace, inside it or around it; the modes of GitHub and of the agent agree with their paths, the git remote
  has the provider it needs, and version 1 has none of the settings of version 2. What depends on the
  host, such as the profile path of a managed GitHub configuration, is checked by the planner and not
  here.\<close>

theorem parser_yields_exactly_valid:
  "(\<exists>v. from_dict v = Inr d) \<longleftrightarrow> valid_instance d"
  using from_dict_valid from_dict_print by blast

text \<open>C27: the document, the canonical text and the indented text written for a valid declaration
  all read back as the same declaration.\<close>

theorem declaration_roundtrip:
  assumes "valid_instance d"
  shows "from_dict (to_dict d) = Inr d \<and> from_json (canonical_json d) = Inr d \<and>
    from_json (dumps_indent2 (to_dict d)) = Inr d"
  using assms by (simp add: from_dict_print from_json_canonical from_json_indented)

theorem declaration_roundtrip_witness:
  "from_json (canonical_json sample_instance) = Inr sample_instance"
  using declaration_roundtrip [OF sample_valid] by simp

text \<open>C28: the fingerprint identifies the declaration: two valid declarations with the same
  canonical text are equal, so that two different ones have the same fingerprint only where the
  digest collides on their two texts.\<close>

theorem fingerprint_identifies:
  assumes "valid_instance d" and "valid_instance d'"
  shows "(canonical_json d = canonical_json d' \<longleftrightarrow> d = d') \<and>
    (inj_on H {canonical_json d, canonical_json d'} \<longrightarrow>
      (fingerprint H d = fingerprint H d' \<longleftrightarrow> d = d'))"
  using assms by (simp add: canonical_json_inject fingerprint_eq)

theorem fingerprint_identifies_witness:
  "canonical_json sample_instance \<noteq> canonical_json double_slash_instance \<and>
   fingerprint rev sample_instance \<noteq> fingerprint rev double_slash_instance"
proof -
  have "sample_instance \<noteq> double_slash_instance"
    by (simp add: sample_instance_def double_slash_instance_def sample_access_def sample_folder_def)
  with fingerprint_identifies [OF sample_valid double_slash_valid, of rev]
  show ?thesis by (simp add: inj_on_def)
qed

text \<open>C17: an accepted access folder is not the workspace, nor inside it, nor around it, when both
  are written with the same root.\<close>

theorem accepted_folder_disjoint:
  assumes "from_dict v = Inr d" and "f \<in> set (access_folders (di_access d))"
    and "pp_root (path_of (af_path f)) = pp_root (path_of (di_workspace d))"
  shows "\<not> prefix (pp_parts (path_of (af_path f))) (pp_parts (path_of (di_workspace d))) \<and>
    \<not> prefix (pp_parts (path_of (di_workspace d))) (pp_parts (path_of (af_path f)))"
proof -
  have "\<not> overlaps (af_path f) (di_workspace d)"
    using from_dict_valid [OF assms(1)] assms(2)
    by (auto simp: valid_instance_def valid_access_def list_all_iff)
  then have "\<not> (\<exists>t. pp_parts (path_of (af_path f)) = pp_parts (path_of (di_workspace d)) @ t)"
    "\<not> (\<exists>t. pp_parts (path_of (di_workspace d)) = pp_parts (path_of (af_path f)) @ t)"
    using assms(3)
    by (auto simp: overlaps_def Let_def in_path_parents) (metis append_Nil2 ppath.expand)+
  then show ?thesis by (auto simp: prefix_def)
qed

theorem accepted_folder_disjoint_witness:
  "\<not> prefix (pp_parts (path_of ''/d'')) (pp_parts (path_of ''/w'')) \<and>
   \<not> prefix (pp_parts (path_of ''/w'')) (pp_parts (path_of ''/d''))"
proof -
  have "sample_folder \<in> set (access_folders (di_access sample_instance))"
    by (simp add: sample_instance_def sample_access_def access_folders_def access_groups_def)
  moreover have "pp_root (path_of (af_path sample_folder)) = pp_root (path_of (di_workspace sample_instance))"
    by code_simp
  ultimately have "\<not> prefix (pp_parts (path_of (af_path sample_folder)))
        (pp_parts (path_of (di_workspace sample_instance))) \<and>
      \<not> prefix (pp_parts (path_of (di_workspace sample_instance)))
        (pp_parts (path_of (af_path sample_folder)))"
    using accepted_folder_disjoint [OF from_dict_print [OF sample_valid]] by blast
  then show ?thesis by (simp add: sample_folder_def sample_instance_def)
qed

text \<open>The overlap check can be passed by a doubled leading slash: \<open>normpath\<close> keeps it
  and path comparison takes \<open>//\<close> for another root, so a declaration whose workspace is
  \<open>/w\<close> and whose read-only folder is \<open>//w/sub\<close>, a directory inside it, is accepted.\<close>

theorem double_slash_overlap_accepted:
  "from_dict (to_dict double_slash_instance) = Inr double_slash_instance \<and>
   di_workspace double_slash_instance = ''/w'' \<and>
   map af_path (access_folders (di_access double_slash_instance)) = [''//w/sub'']"
  by (simp add: from_dict_print double_slash_valid)
     (simp add: double_slash_instance_def sample_instance_def sample_access_def sample_folder_def
       access_folders_def access_groups_def)

end
