(* ===== verification/Endpoint.thy ===== *)
theory Endpoint
  imports Errors Declaration
begin

text \<open>
  Listening endpoints (endpoint_projection.py): normalisation of bind addresses, overlap of
  two endpoints, and the listeners reported by \<open>ss -H -ltn\<close>.

  IP addresses follow the standard library's \<open>ipaddress\<close>: an IPv4 address is its four
  octets, an IPv6 address its eight 16-bit groups and an optional scope. A port text is
  compared with the ASCII digits.
\<close>

section \<open>IPv4 addresses\<close>

definition parse_octet :: "string \<Rightarrow> nat option" where
  "parse_octet s =
     (if s = [] \<or> \<not> list_all is_digit s \<or> length s > 3 \<or> (hd s = CHR ''0'' \<and> length s > 1) then None
      else if read_nat s > 255 then None else Some (read_nat s))"

fun all_some :: "'a option list \<Rightarrow> 'a list option" where
  "all_some [] = Some []"
| "all_some (x # xs) =
     (case x of None \<Rightarrow> None | Some y \<Rightarrow> map_option (Cons y) (all_some xs))"

definition parse_ipv4 :: "string \<Rightarrow> nat list option" where
  "parse_ipv4 s =
     (let parts = split_on CHR ''.'' s
      in if length parts = 4 then all_some (map parse_octet parts) else None)"

definition show_ipv4 :: "nat list \<Rightarrow> string" where
  "show_ipv4 os = join_with ''.'' (map show_nat os)"

section \<open>IPv6 addresses\<close>

fun hex_acc :: "nat \<Rightarrow> string \<Rightarrow> nat option" where
  "hex_acc n [] = Some n"
| "hex_acc n (c # s) = (case hex_val c of None \<Rightarrow> None | Some d \<Rightarrow> hex_acc (16 * n + d) s)"

definition parse_hextet :: "string \<Rightarrow> nat option" where
  "parse_hextet s = (if s = [] \<or> length s > 4 then None else hex_acc 0 s)"

definition show_hex :: "nat \<Rightarrow> string" where
  "show_hex n =
     (let ds = [hex_digit (n div 4096 mod 16), hex_digit (n div 256 mod 16),
                hex_digit (n div 16 mod 16), hex_digit (n mod 16)]
      in if n = 0 then ''0'' else dropWhile (\<lambda>c. c = CHR ''0'') ds)"

text \<open>The positions of the empty inner parts, from index 1 to the one before the last.\<close>

definition empty_inner :: "string list \<Rightarrow> nat list" where
  "empty_inner parts = filter (\<lambda>i. parts ! i = []) [1..<length parts - 1]"

text \<open>A trailing dotted IPv4 part counts as two groups.\<close>

definition expand_tail :: "string list \<Rightarrow> string list option" where
  "expand_tail parts =
     (if CHR ''.'' \<in> set (last parts) then
        (case parse_ipv4 (last parts) of
           Some [a, b, c, d] \<Rightarrow> Some (butlast parts @ [show_hex (256 * a + b), show_hex (256 * c + d)])
         | _ \<Rightarrow> None)
      else Some parts)"

definition parse_groups :: "string list \<Rightarrow> nat list option" where
  "parse_groups parts =
     (case empty_inner parts of
        [] \<Rightarrow>
          if length parts \<noteq> 8 \<or> hd parts = [] \<or> last parts = [] then None
          else all_some (map parse_hextet parts)
      | [i] \<Rightarrow>
          let hi = (if hd parts = [] then i - 1 else i);
              rest = length parts - i - 1;
              lo = (if last parts = [] then rest - 1 else rest)
          in if (hd parts = [] \<and> hi \<noteq> 0) \<or> (last parts = [] \<and> lo \<noteq> 0) \<or> hi + lo > 7 then None
             else (case (all_some (map parse_hextet (take hi parts)),
                         all_some (map parse_hextet (drop (length parts - lo) parts))) of
                     (Some hs, Some ls) \<Rightarrow> Some (hs @ replicate (8 - (hi + lo)) 0 @ ls)
                   | _ \<Rightarrow> None)
      | _ \<Rightarrow> None)"

definition parse_ipv6_addr :: "string \<Rightarrow> nat list option" where
  "parse_ipv6_addr s =
     (let parts = split_on CHR '':'' s
      in if CHR ''/'' \<in> set s \<or> length parts < 3 then None
         else (case expand_tail parts of
                 None \<Rightarrow> None
               | Some ps \<Rightarrow> if length ps > 9 then None else parse_groups ps))"

definition parse_ipv6 :: "string \<Rightarrow> (nat list \<times> string option) option" where
  "parse_ipv6 s =
     (case partition_on CHR ''%'' s of
        None \<Rightarrow> map_option (\<lambda>g. (g, None)) (parse_ipv6_addr s)
      | Some (a, scope) \<Rightarrow>
          if scope = [] \<or> CHR ''%'' \<in> set scope then None
          else map_option (\<lambda>g. (g, Some scope)) (parse_ipv6_addr a))"

text \<open>
  The text form replaces the first longest run of at least two zero groups by \<open>::\<close>.
  \<open>best_run\<close> gives its start and length.
\<close>

fun run_length :: "nat list \<Rightarrow> nat" where
  "run_length [] = 0"
| "run_length (g # gs) = (if g = 0 then Suc (run_length gs) else 0)"

fun best_run :: "nat \<Rightarrow> nat list \<Rightarrow> nat \<times> nat" where
  "best_run i [] = (i, 0)"
| "best_run i (g # gs) =
     (let here = run_length (g # gs); (j, n) = best_run (Suc i) gs
      in if here \<ge> n then (i, here) else (j, n))"

definition show_ipv6_addr :: "nat list \<Rightarrow> string" where
  "show_ipv6_addr gs =
     (let hs = map show_hex gs; (i, n) = best_run 0 gs
      in if n > 1 then
           join_with '':'' ((if i = 0 then [[]] else []) @ take i hs @ [[]] @ drop (i + n) hs @
             (if i + n = length hs then [[]] else []))
         else join_with '':'' hs)"

section \<open>Addresses of both families\<close>

datatype ip = V4 "nat list" | V6 "nat list" "string option"

definition parse_ip :: "string \<Rightarrow> ip option" where
  "parse_ip s =
     (case parse_ipv4 s of
        Some os \<Rightarrow> Some (V4 os)
      | None \<Rightarrow> map_option (\<lambda>(g, sc). V6 g sc) (parse_ipv6 s))"

fun show_ip :: "ip \<Rightarrow> string" where
  "show_ip (V4 os) = show_ipv4 os"
| "show_ip (V6 gs None) = show_ipv6_addr gs"
| "show_ip (V6 gs (Some sc)) = show_ipv6_addr gs @ ''%'' @ sc"

definition ipv4_mapped :: "nat list \<Rightarrow> nat list option" where
  "ipv4_mapped gs =
     (if take 6 gs = [0, 0, 0, 0, 0, 65535] \<and> length gs = 8
      then Some [gs ! 6 div 256, gs ! 6 mod 256, gs ! 7 div 256, gs ! 7 mod 256] else None)"

definition bare_host :: "string \<Rightarrow> string" where
  "bare_host host =
     (let v = lower_string (strip host)
      in if prefix ''['' v \<and> suffix '']'' v then butlast (tl v) else v)"

definition normalized_ip :: "string \<Rightarrow> ip option" where
  "normalized_ip host =
     (let v = bare_host host
      in if v = ''*'' then None
         else (case parse_ip v of
                 Some (V6 gs sc) \<Rightarrow>
                   (case ipv4_mapped gs of Some os \<Rightarrow> Some (V4 os) | None \<Rightarrow> Some (V6 gs sc))
               | r \<Rightarrow> r))"

definition normalized_host :: "string \<Rightarrow> string" where
  "normalized_host host =
     (let v = bare_host host
      in if v = ''*'' then ''0.0.0.0''
         else (case normalized_ip v of Some a \<Rightarrow> show_ip a | None \<Rightarrow> v))"

section \<open>Endpoints\<close>

record endpoint =
  ep_host :: string
  ep_port :: int
  ep_purpose :: string
  ep_source :: string
  ep_instance_id :: "string option"
  ep_attribution :: "string option"
  ep_dual_stack_unknown :: bool

definition endpoint_dict :: "endpoint \<Rightarrow> json" where
  "endpoint_dict e =
     JObj [(''bind_address'', JStr (ep_host e)), (''port'', JInt (ep_port e)),
           (''source'', JStr (ep_source e)), (''purpose'', JStr (ep_purpose e)),
           (''instance_id'', opt_str (ep_instance_id e)),
           (''attribution'', opt_str (ep_attribution e)),
           (''collision_relevance'', JBool True)]"

fun is_v4 :: "ip \<Rightarrow> bool" where
  "is_v4 (V4 _) = True"
| "is_v4 (V6 _ _) = False"

definition endpoint_overlap :: "endpoint \<Rightarrow> endpoint \<Rightarrow> bool option" where
  "endpoint_overlap l r =
     (if ep_port l \<noteq> ep_port r then Some False
      else
        (let lh = normalized_host (ep_host l); rh = normalized_host (ep_host r)
         in if lh = rh then Some True
            else
              (case (normalized_ip lh, normalized_ip rh) of
                 (Some a, Some b) \<Rightarrow>
                   if is_v4 a \<and> is_v4 b then Some (show_ip a = ''0.0.0.0'' \<or> show_ip b = ''0.0.0.0'')
                   else if \<not> is_v4 a \<and> \<not> is_v4 b then Some (show_ip a = ''::'' \<or> show_ip b = ''::'')
                   else
                     (let e6 = (if \<not> is_v4 a then l else r); i6 = (if \<not> is_v4 a then a else b)
                      in Some (show_ip i6 = ''::'' \<and> ep_dual_stack_unknown e6))
               | _ \<Rightarrow> None)))"

fun endpoint_conflicts :: "endpoint \<Rightarrow> endpoint list \<Rightarrow> endpoint list \<times> bool" where
  "endpoint_conflicts c [] = ([], False)"
| "endpoint_conflicts c (x # xs) =
     (let (cs, unknown) = endpoint_conflicts c xs
      in (case endpoint_overlap c x of
            Some True \<Rightarrow> (x # cs, unknown)
          | Some False \<Rightarrow> (cs, unknown)
          | None \<Rightarrow> (cs, True)))"

section \<open>Observed listeners\<close>

datatype listener_state = LS_AVAILABLE | LS_PARTIAL | LS_UNAVAILABLE

fun listener_state_value :: "listener_state \<Rightarrow> string" where
  "listener_state_value LS_AVAILABLE = ''available''"
| "listener_state_value LS_PARTIAL = ''partial''"
| "listener_state_value LS_UNAVAILABLE = ''unavailable''"

record listener_observation =
  lo_state :: listener_state
  lo_endpoints :: "endpoint list"
  lo_reason :: "string option"

definition listener_dict :: "listener_observation \<Rightarrow> json" where
  "listener_dict l =
     JObj [(''state'', JStr (listener_state_value (lo_state l))),
           (''reason'', opt_str (lo_reason l)),
           (''listeners'', JArr (map endpoint_dict (lo_endpoints l)))]"

text \<open>\<open>text.rfind(']:')\<close>: the text before and after the last occurrence.\<close>

fun split_bracket :: "string \<Rightarrow> (string \<times> string) option" where
  "split_bracket [] = None"
| "split_bracket (c # s) =
     (case split_bracket s of
        Some (a, b) \<Rightarrow> Some (c # a, b)
      | None \<Rightarrow> if prefix '']:'' (c # s) then Some ([], drop 1 s) else None)"

definition split_ss_local :: "string \<Rightarrow> (string \<times> int) option" where
  "split_ss_local value =
     (let t = strip value
      in if t = [] then None
         else
           (case (if prefix ''['' t then map_option (\<lambda>(a, b). (tl a, b)) (split_bracket t)
                  else rpartition_on CHR '':'' t) of
              None \<Rightarrow> None
            | Some (host, port_text) \<Rightarrow>
                if port_text = [] \<or> \<not> list_all is_digit port_text then None
                else if \<not> port_ok (int (read_nat port_text)) then None
                else Some (if host = [] then ''*'' else host, int (read_nat port_text))))"

text \<open>One line of the output: \<open>None\<close> is a line that was not understood.\<close>

definition listener_of_line :: "string \<Rightarrow> endpoint option" where
  "listener_of_line line =
     (let fields = words_of line
      in if length fields < 4 then None
         else map_option (\<lambda>(host, port).
                \<lparr>ep_host = normalized_host host, ep_port = port, ep_purpose = ''Unknown'',
                 ep_source = ''observed'', ep_instance_id = None, ep_attribution = None,
                 ep_dual_stack_unknown = (normalized_host host = ''::'')\<rparr>)
              (split_ss_local (fields ! 3)))"

definition observe_tcp_listeners :: "proc_result \<Rightarrow> listener_observation" where
  "observe_tcp_listeners run =
     (case run of
        ProcError e \<Rightarrow> \<lparr>lo_state = LS_UNAVAILABLE, lo_endpoints = [],
                        lo_reason = Some (''ss unavailable: '' @ e)\<rparr>
      | ProcDone rc out err \<Rightarrow>
          if rc \<noteq> 0 then
            \<lparr>lo_state = LS_UNAVAILABLE, lo_endpoints = [],
             lo_reason = Some (let d = take 512 (strip err)
                               in if d = [] then ''ss exited '' @ show_int rc else d)\<rparr>
          else
            (let parsed = map listener_of_line (filter (\<lambda>l. strip l \<noteq> []) (lines_of out));
                 eps = List.map_filter id parsed;
                 malformed = length (filter (\<lambda>x. x = None) parsed)
             in if malformed > 0 then
                  \<lparr>lo_state = LS_PARTIAL, lo_endpoints = eps,
                   lo_reason = Some (''parsed '' @ show_nat (length eps) @ '' listener(s); '' @
                     show_nat malformed @ '' line(s) were not understood'')\<rparr>
                else \<lparr>lo_state = LS_AVAILABLE, lo_endpoints = eps, lo_reason = None\<rparr>))"

text \<open>A set of strings, as the list of its members.\<close>

definition listener_strings :: "listener_observation \<Rightarrow> string list" where
  "listener_strings l =
     map (\<lambda>e. let h = normalized_host (ep_host e)
              in (if CHR '':'' \<in> set h then ''['' @ h @ '']:'' else h @ '':'') @ show_int (ep_port e))
       (lo_endpoints l)"

end
