(* ===== verification/Endpoint_Props.thy ===== *)
theory Endpoint_Props
  imports Endpoint
begin

text \<open>
  The dotted form of an IPv4 address is canonical, overlap of endpoints is a symmetric
  relation that contains equality and is exact on IPv4 addresses, and the listeners
  observed on the host are well formed.
\<close>

section \<open>Decimal octets\<close>

lemma digit_char_val: "is_digit c \<Longrightarrow> digit_char (digit_val c) = c"
  unfolding digit_char_def digit_val_def is_digit_def by (simp add: char_of_code_of)

lemma digit_val_less: "is_digit c \<Longrightarrow> digit_val c < 10"
  by (auto simp: is_digit_def digit_val_def)

lemma show_read_nat:
  "s \<noteq> [] \<Longrightarrow> list_all is_digit s \<Longrightarrow> (hd s = CHR ''0'' \<Longrightarrow> length s = 1) \<Longrightarrow> show_nat (read_nat s) = s"
proof (induction s rule: rev_induct)
  case (snoc c t)
  have c: "is_digit c" using snoc.prems by simp
  show ?case
  proof (cases "t = []")
    case True
    then show ?thesis
      using c digit_val_less [OF c] by (subst show_nat.simps) (simp add: read_nat_def digit_char_val)
  next
    case False
    with snoc.prems have h: "hd t \<noteq> CHR ''0''" by auto
    with snoc False have IH: "show_nat (read_nat t) = t" by simp
    with h have "read_nat t \<noteq> 0" using show_nat_0 by (metis list.sel(1))
    with digit_val_less [OF c] have "\<not> 10 * read_nat t + digit_val c < 10"
      "(10 * read_nat t + digit_val c) div 10 = read_nat t"
      "(10 * read_nat t + digit_val c) mod 10 = digit_val c" by auto
    then show ?thesis
      using IH c by (subst show_nat.simps) (simp add: read_nat_snoc digit_char_val)
  qed
qed simp

lemma length_show_nat: "n < 1000 \<Longrightarrow> length (show_nat n) \<le> 3"
  by (subst show_nat.simps) (auto simp: show_nat.simps [of "n div 10"] show_nat.simps [of "n div 10 div 10"])

lemma parse_octet_eq: "parse_octet s = Some n \<longleftrightarrow> n \<le> 255 \<and> s = show_nat n"
proof
  assume "parse_octet s = Some n"
  then have *: "s \<noteq> []" "list_all is_digit s" "hd s = CHR ''0'' \<Longrightarrow> \<not> length s > 1" "read_nat s = n" "n \<le> 255"
    by (auto simp: parse_octet_def split: if_splits)
  then have "hd s = CHR ''0'' \<Longrightarrow> length s = 1" by (cases s) auto
  with * show "n \<le> 255 \<and> s = show_nat n" using show_read_nat [of s] by auto
next
  assume n: "n \<le> 255 \<and> s = show_nat n"
  then have "hd s = CHR ''0'' \<Longrightarrow> length s = 1"
    using show_nat_lead_zero [of n] show_nat_0 by auto
  moreover have "list_all is_digit (show_nat n)" using show_nat_digits by (auto simp: list_all_iff)
  ultimately show "parse_octet s = Some n"
    using n length_show_nat [of n] by (auto simp: parse_octet_def)
qed

lemma all_some_eq: "all_some xs = Some ys \<longleftrightarrow> xs = map Some ys"
  by (induction xs arbitrary: ys) (auto split: option.splits)

definition ipv4_ok :: "nat list \<Rightarrow> bool" where
  "ipv4_ok os \<longleftrightarrow> length os = 4 \<and> list_all (\<lambda>n. n \<le> 255) os"

lemma dot_not_digit: "CHR ''.'' \<notin> set (show_nat n)"
  using show_nat_digits [of "CHR ''.''" n] by (auto simp: is_digit_def code_of_def)

lemma map_eq_all2: "map f xs = map g ys \<Longrightarrow> list_all2 (\<lambda>x y. f x = g y) xs ys"
  by (induction xs arbitrary: ys) (auto simp: Cons_eq_map_conv list_all2_Cons1)

lemma parse_ipv4_eq: "parse_ipv4 s = Some os \<longleftrightarrow> ipv4_ok os \<and> s = show_ipv4 os"
proof
  assume "parse_ipv4 s = Some os"
  then have l: "length (split_on CHR ''.'' s) = 4" and m: "map parse_octet (split_on CHR ''.'' s) = map Some os"
    by (auto simp: parse_ipv4_def Let_def all_some_eq split: if_splits)
  from m have "list_all2 (\<lambda>p n. parse_octet p = Some n) (split_on CHR ''.'' s) os"
    by (rule map_eq_all2)
  then have "split_on CHR ''.'' s = map show_nat os \<and> list_all (\<lambda>n. n \<le> 255) os"
    by (induction rule: list_all2_induct) (auto simp: parse_octet_eq)
  moreover from this have "s = show_ipv4 os"
    using join_split [of "CHR ''.''" s] by (simp add: show_ipv4_def)
  ultimately show "ipv4_ok os \<and> s = show_ipv4 os"
    using l by (simp add: ipv4_ok_def)
next
  assume a: "ipv4_ok os \<and> s = show_ipv4 os"
  then have "split_on CHR ''.'' s = map show_nat os"
    using dot_not_digit by (auto simp: show_ipv4_def ipv4_ok_def intro!: split_join)
  with a show "parse_ipv4 s = Some os"
    by (auto simp: parse_ipv4_def ipv4_ok_def all_some_eq parse_octet_eq list_all_iff)
qed

section \<open>Normalisation\<close>

definition dotted_char :: "char \<Rightarrow> bool" where
  "dotted_char c \<longleftrightarrow> is_digit c \<or> c = CHR ''.''"

lemma dotted_show_ipv4: "list_all dotted_char (show_ipv4 os)"
  using set_join_with [of "''.''" "map show_nat os"] show_nat_digits
  by (fastforce simp: show_ipv4_def list_all_iff dotted_char_def)

lemma dotted_plain:
  "dotted_char c \<Longrightarrow> \<not> is_space c \<and> to_lower c = c \<and> c \<noteq> CHR ''['' \<and> c \<noteq> CHR ''*''"
  by (auto simp: dotted_char_def is_digit_def is_space_def to_lower_def Let_def code_of_def)

lemma dropWhile_none: "\<forall>c \<in> set s. \<not> p c \<Longrightarrow> dropWhile p s = s"
  by (cases s) auto

lemma strip_plain: "\<forall>c \<in> set s. \<not> is_space c \<Longrightarrow> strip s = s"
  by (simp add: strip_def dropWhile_none)

lemma bare_dotted:
  assumes "list_all dotted_char s" shows "bare_host s = s" and "s \<noteq> ''*''"
proof -
  have c: "c \<in> set s \<Longrightarrow> \<not> is_space c \<and> to_lower c = c \<and> c \<noteq> CHR ''['' \<and> c \<noteq> CHR ''*''" for c
    using assms dotted_plain by (auto simp: list_all_iff)
  then have "strip s = s" by (intro strip_plain) blast
  moreover have "lower_string s = s"
    unfolding lower_string_def using c by (intro map_idI) blast
  moreover have "\<not> prefix ''['' s"
    using c by (cases s) auto
  ultimately show "bare_host s = s" by (simp add: bare_host_def)
  show "s \<noteq> ''*''" using c by (cases s) auto
qed

lemma normalized_ipv4:
  assumes "ipv4_ok os"
  shows "normalized_ip (show_ipv4 os) = Some (V4 os)" and "normalized_host (show_ipv4 os) = show_ipv4 os"
proof -
  have "parse_ipv4 (show_ipv4 os) = Some os" using assms by (simp add: parse_ipv4_eq)
  with bare_dotted [OF dotted_show_ipv4] show 1: "normalized_ip (show_ipv4 os) = Some (V4 os)"
    by (simp add: normalized_ip_def parse_ip_def)
  with bare_dotted [OF dotted_show_ipv4] show "normalized_host (show_ipv4 os) = show_ipv4 os"
    by (simp add: normalized_host_def)
qed

lemma show_ipv4_inject: "ipv4_ok os \<Longrightarrow> ipv4_ok os' \<Longrightarrow> show_ipv4 os = show_ipv4 os' \<longleftrightarrow> os = os'"
  by (metis parse_ipv4_eq option.inject)

lemma show_ipv4_any: "show_ipv4 [0, 0, 0, 0] = ''0.0.0.0''"
  by (simp add: show_ipv4_def show_nat_0)

section \<open>Overlap\<close>

lemma overlap_sym: "endpoint_overlap l r = endpoint_overlap r l"
  by (auto simp: endpoint_overlap_def Let_def split: option.splits)

lemma overlap_refl: "endpoint_overlap e e = Some True"
  by (simp add: endpoint_overlap_def)

lemma overlap_ipv4:
  assumes "ipv4_ok os" "ipv4_ok os'" "ep_host l = show_ipv4 os" "ep_host r = show_ipv4 os'"
  shows "endpoint_overlap l r =
    Some (ep_port l = ep_port r \<and> (os = os' \<or> os = [0, 0, 0, 0] \<or> os' = [0, 0, 0, 0]))"
proof -
  have any: "ipv4_ok [0, 0, 0, 0]" by (simp add: ipv4_ok_def)
  then have "show_ipv4 os = ''0.0.0.0'' \<longleftrightarrow> os = [0, 0, 0, 0]"
    "show_ipv4 os' = ''0.0.0.0'' \<longleftrightarrow> os' = [0, 0, 0, 0]"
    using assms show_ipv4_inject show_ipv4_any by metis+
  with assms show ?thesis
    by (simp add: endpoint_overlap_def normalized_ipv4 show_ipv4_inject)
qed

lemma conflicts_filter:
  "endpoint_conflicts c xs =
    (filter (\<lambda>x. endpoint_overlap c x = Some True) xs, \<exists>x \<in> set xs. endpoint_overlap c x = None)"
  by (induction xs) (auto split: option.splits bool.splits)

section \<open>Observed listeners\<close>

lemma listener_of_line_ok:
  assumes "listener_of_line l = Some e"
  shows "port_ok (ep_port e) \<and> (\<exists>h. ep_host e = normalized_host h) \<and>
    (ep_dual_stack_unknown e \<longleftrightarrow> ep_host e = ''::'')"
  using assms
  by (auto simp: listener_of_line_def split_ss_local_def Let_def split: if_splits option.splits)

lemma observed_listener_ok:
  assumes "e \<in> set (lo_endpoints (observe_tcp_listeners run))"
  shows "port_ok (ep_port e) \<and> (\<exists>h. ep_host e = normalized_host h) \<and>
    (ep_dual_stack_unknown e \<longleftrightarrow> ep_host e = ''::'')"
proof -
  from assms obtain l where "listener_of_line l = Some e"
    by (auto simp: observe_tcp_listeners_def Let_def List.map_filter_def
        split: proc_result.splits if_splits)
  then show ?thesis by (rule listener_of_line_ok)
qed

section \<open>Properties\<close>

text \<open>the dotted text of an IPv4 address is canonical: the parser accepts exactly the
  texts the printer writes for four octets of at most 255, and reads the octets back.\<close>

theorem ipv4_text_canonical:
  "parse_ipv4 s = Some os \<longleftrightarrow>
    length os = 4 \<and> list_all (\<lambda>n. n \<le> 255) os \<and> s = show_ipv4 os"
  by (simp add: parse_ipv4_eq ipv4_ok_def)

text \<open>overlap is symmetric and holds of an endpoint and itself, so the answer does not
  depend on which of two instances is examined.\<close>

theorem endpoint_overlap_symmetric:
  "endpoint_overlap l r = endpoint_overlap r l \<and> endpoint_overlap e e = Some True"
  by (simp add: overlap_sym [of l r] overlap_refl)

text \<open>on IPv4 addresses overlap is exact and always known: the ports are equal and the
  addresses are equal or one of them is the wildcard.\<close>

theorem ipv4_overlap_exact:
  assumes "ipv4_ok os" and "ipv4_ok os'"
    and "ep_host l = show_ipv4 os" and "ep_host r = show_ipv4 os'"
  shows "endpoint_overlap l r =
    Some (ep_port l = ep_port r \<and> (os = os' \<or> os = [0, 0, 0, 0] \<or> os' = [0, 0, 0, 0]))"
  by (rule overlap_ipv4 [OF assms])

theorem ipv4_overlap_exact_witness:
  "endpoint_overlap
     \<lparr>ep_host = show_ipv4 [127, 0, 0, 1], ep_port = 80, ep_purpose = [], ep_source = [],
      ep_instance_id = None, ep_attribution = None, ep_dual_stack_unknown = False\<rparr>
     \<lparr>ep_host = show_ipv4 [0, 0, 0, 0], ep_port = 80, ep_purpose = [], ep_source = [],
      ep_instance_id = None, ep_attribution = None, ep_dual_stack_unknown = False\<rparr> = Some True"
  by (subst ipv4_overlap_exact [of "[127, 0, 0, 1]" "[0, 0, 0, 0]"]) (simp_all add: ipv4_ok_def)

end
