(* ===== verification/Files.thy ===== *)
theory Files
  imports Paths
begin

text \<open>
  The part of a POSIX file system the registry works on: what a path is, with symbolic links
  carrying what they resolve to, and the tests and reads of \<open>pathlib\<close>. A file system is an
  association list from paths, which can be listed.
\<close>

datatype fnode = FText string | FUnreadable | FDir | FLink "fnode option"

type_synonym files = "(ppath \<times> fnode) list"

text \<open>What the path resolves to, links followed.\<close>

fun follow :: "fnode option \<Rightarrow> fnode option" where
  "follow (Some (FLink t)) = follow t"
| "follow n = n"

definition f_exists :: "files \<Rightarrow> ppath \<Rightarrow> bool" where
  "f_exists fs p \<longleftrightarrow> follow (map_of fs p) \<noteq> None"

definition f_is_symlink :: "files \<Rightarrow> ppath \<Rightarrow> bool" where
  "f_is_symlink fs p \<longleftrightarrow> (case map_of fs p of Some (FLink _) \<Rightarrow> True | _ \<Rightarrow> False)"

definition f_is_file :: "files \<Rightarrow> ppath \<Rightarrow> bool" where
  "f_is_file fs p \<longleftrightarrow>
     (case follow (map_of fs p) of Some (FText _) \<Rightarrow> True | Some FUnreadable \<Rightarrow> True | _ \<Rightarrow> False)"

text \<open>\<open>read_text\<close>: the text, \<open>FileNotFoundError\<close>, or another \<open>OSError\<close> or \<open>UnicodeError\<close>.\<close>

datatype read_result = ReadText string | ReadMissing | ReadFailed

definition f_read :: "files \<Rightarrow> ppath \<Rightarrow> read_result" where
  "f_read fs p =
     (case follow (map_of fs p) of
        None \<Rightarrow> ReadMissing
      | Some (FText t) \<Rightarrow> ReadText t
      | Some _ \<Rightarrow> ReadFailed)"

text \<open>\<open>os.replace(temporary, p)\<close>: refused on a directory, otherwise the entry itself is replaced.\<close>

definition f_replace :: "files \<Rightarrow> ppath \<Rightarrow> string \<Rightarrow> files option" where
  "f_replace fs p t = (if map_of fs p = Some FDir then None else Some (dict_set p (FText t) fs))"

lemma f_read_replaced:
  "f_replace fs p t = Some fs' \<Longrightarrow> f_read fs' p = ReadText t"
  by (auto simp: f_replace_def f_read_def split: if_splits)

lemma f_replace_other:
  "f_replace fs p t = Some fs' \<Longrightarrow> q \<noteq> p \<Longrightarrow> map_of fs' q = map_of fs q"
  by (auto simp: f_replace_def split: if_splits)

lemma f_read_other:
  "f_replace fs p t = Some fs' \<Longrightarrow> q \<noteq> p \<Longrightarrow> f_read fs' q = f_read fs q"
  by (simp add: f_read_def f_replace_other)

lemma f_exists_read: "f_exists fs p \<longleftrightarrow> f_read fs p \<noteq> ReadMissing"
  by (auto simp: f_exists_def f_read_def split: option.splits fnode.splits)

lemma f_is_file_text: "f_read fs p = ReadText t \<Longrightarrow> f_is_file fs p"
  by (auto simp: f_read_def f_is_file_def split: option.splits fnode.splits)

end
