(* ===== verification/Generation.thy ===== *)
theory Generation
  imports Declaration Files
begin

text \<open>
  The resources generated for a declaration (generation.py): the state directory, the tunnel
  profile, the launcher, the systemd units and the access mounts, with their exact contents,
  and the parts of development_environment.py and the import policy they depend on.

  A generator carries the manager's paths, the path of \<open>curl\<close> and the process's user id.
  Contents are built line by line, as the code builds them.
\<close>

section \<open>Quoting\<close>

definition sq :: string where "sq = [CHR 0x27]"
definition dq :: string where "dq = [CHR 0x22]"
definition bs :: string where "bs = [CHR 0x5C]"

definition systemd_quote :: "string \<Rightarrow> string" where
  "systemd_quote v =
     dq @ replace_char CHR 0x22 (bs @ dq) (replace_char CHR 0x5C (bs @ bs) (replace_char CHR ''%'' ''%%'' v)) @ dq"

definition systemd_path :: "string \<Rightarrow> string res" where
  "systemd_path v =
     require (prefix ''/'' v) (config_error (''systemd path must be absolute: '' @ v) [])
     (require (\<not> list_ex (\<lambda>c. is_space c \<or> code_of c < 32) v)
       (config_error (''systemd path contains whitespace or control characters: '' @ v) [])
     (require (\<not> list_ex (\<lambda>c. c = CHR 0x22 \<or> c = CHR 0x27 \<or> c = CHR 0x5C) v)
       (config_error (''systemd path contains unsupported quoting characters: '' @ v) [])
     (Inr (replace_char CHR ''%'' ''%%'' v))))"

text \<open>\<open>shlex.quote\<close>.\<close>

definition shell_safe :: "char \<Rightarrow> bool" where
  "shell_safe c \<longleftrightarrow> is_letter c \<or> is_digit c \<or> c \<in> set ''_@%+=:,./-''"

definition shell_quote :: "string \<Rightarrow> string" where
  "shell_quote s =
     (if s = [] then sq @ sq
      else if list_all shell_safe s then s
      else sq @ replace_char CHR 0x27 (sq @ dq @ sq @ dq @ sq) s @ sq)"

text \<open>\<open>json.dumps\<close> with its default \<open>ensure_ascii\<close>: applied to the whole text, since
  characters beyond ASCII only occur inside strings.\<close>

definition ascii_char :: "char \<Rightarrow> string" where
  "ascii_char c =
     (if code_of c < 127 then [c]
      else bs @ ''u00'' @ [hex_digit (code_of c div 16), hex_digit (code_of c mod 16)])"

definition ascii_text :: "string \<Rightarrow> string" where
  "ascii_text s = concat (map ascii_char s)"

section \<open>Resources\<close>

datatype resource_kind = DIRECTORY | FILE | SYSTEMD_UNIT | TUNNEL_PROFILE

fun kind_value :: "resource_kind \<Rightarrow> string" where
  "kind_value DIRECTORY = ''directory''"
| "kind_value FILE = ''file''"
| "kind_value SYSTEMD_UNIT = ''systemd-unit''"
| "kind_value TUNNEL_PROFILE = ''tunnel-profile''"

record resource =
  r_id :: string
  r_kind :: resource_kind
  r_path :: string
  r_mode :: nat
  r_content :: "string option"
  r_token :: "string option"
  r_marker_path :: "string option"
  r_unit :: "string option"
  r_enable :: bool
  r_active :: bool
  r_remove :: bool

text \<open>The constructor with the class's defaults.\<close>

definition mk_resource :: "string \<Rightarrow> resource_kind \<Rightarrow> string \<Rightarrow> nat \<Rightarrow> resource" where
  "mk_resource rid k p m =
     \<lparr>r_id = rid, r_kind = k, r_path = p, r_mode = m, r_content = None, r_token = None,
      r_marker_path = None, r_unit = None, r_enable = False, r_active = False, r_remove = True\<rparr>"

definition resource_payload :: "resource \<Rightarrow> json" where
  "resource_payload r =
     JObj [(''schema_version'', JInt 1),
           (''resource_id'', JStr (r_id r)),
           (''kind'', JStr (kind_value (r_kind r))),
           (''path'', JStr (r_path r)),
           (''mode'', JInt (int (r_mode r))),
           (''content'', opt_str (r_content r)),
           (''ownership_token'', opt_str (r_token r)),
           (''ownership_marker_path'', opt_str (r_marker_path r)),
           (''unit_name'', opt_str (r_unit r)),
           (''enable_when_present'', JBool (r_enable r)),
           (''active_when_running'', JBool (r_active r)),
           (''remove_when_absent'', JBool (r_remove r))]"

definition resource_fingerprint :: "(string \<Rightarrow> string) \<Rightarrow> resource \<Rightarrow> string" where
  "resource_fingerprint H r = H (ascii_text (dumps_compact (resource_payload r)))"

fun oct_digits :: "nat \<Rightarrow> string" where
  "oct_digits n = (if n < 8 then [digit_char n] else oct_digits (n div 8) @ [digit_char (n mod 8)])"

declare oct_digits.simps [simp del]

definition resource_dict :: "(string \<Rightarrow> string) \<Rightarrow> bool \<Rightarrow> resource \<Rightarrow> json" where
  "resource_dict H include_content r =
     JObj ([(''resource_id'', JStr (r_id r)),
            (''kind'', JStr (kind_value (r_kind r))),
            (''path'', JStr (r_path r)),
            (''mode'', JStr (''0o'' @ oct_digits (r_mode r))),
            (''fingerprint'', JStr (resource_fingerprint H r)),
            (''unit_name'', opt_str (r_unit r)),
            (''enable_when_present'', JBool (r_enable r)),
            (''active_when_running'', JBool (r_active r)),
            (''remove_when_absent'', JBool (r_remove r)),
            (''ownership_token'', opt_str (r_token r)),
            (''ownership_marker_path'', opt_str (r_marker_path r))] @
           (if include_content then [(''content'', opt_str (r_content r))] else []))"

record gen_bundle =
  b_instance :: string
  b_fingerprint :: string
  b_resources :: "resource list"

definition bundle_dict :: "(string \<Rightarrow> string) \<Rightarrow> bool \<Rightarrow> gen_bundle \<Rightarrow> json" where
  "bundle_dict H include_content b =
     JObj [(''schema_version'', JInt 1),
           (''instance_id'', JStr (b_instance b)),
           (''desired_fingerprint'', JStr (b_fingerprint b)),
           (''resources'', JArr (map (resource_dict H include_content) (b_resources b)))]"

section \<open>Names and paths\<close>

record generator =
  gen_paths :: manager_paths
  gen_curl :: string
  gen_uid :: nat

definition owner_prefix :: string where
  "owner_prefix = ''workspace-mcp-manager-instance=''"

text \<open>\<open>_owner_marker(iid).rstrip\<close>: the comment line that names the owner.\<close>

definition owner_comment :: "string \<Rightarrow> string" where
  "owner_comment iid = ''# '' @ owner_prefix @ iid"

definition mcp_unit_name :: "string \<Rightarrow> string" where
  "mcp_unit_name iid = ''coding-tools-mcp-'' @ iid @ ''.service''"

definition tunnel_unit_name :: "string \<Rightarrow> string" where
  "tunnel_unit_name iid = ''tunnel-client-'' @ iid @ ''.service''"

definition agent_unit_name :: "string \<Rightarrow> string" where
  "agent_unit_name iid = ''workspace-mcp-ssh-agent-'' @ iid @ ''.service''"

definition guard_unit_name :: "string \<Rightarrow> string" where
  "guard_unit_name iid = ''workspace-mcp-admission-guard-'' @ iid @ ''.service''"

definition guard_timer_name :: "string \<Rightarrow> string" where
  "guard_timer_name iid = ''workspace-mcp-admission-guard-'' @ iid @ ''.timer''"

definition state_dir :: "manager_paths \<Rightarrow> string \<Rightarrow> ppath" where
  "state_dir ps iid = path_div (path_div (state_root ps) ''instances'') iid"

definition profile_path :: "generator \<Rightarrow> desired_instance \<Rightarrow> ppath" where
  "profile_path g d = path_div (tunnel_profile_dir (gen_paths g)) (tun_profile (di_tunnel d) @ ''.yaml'')"

definition unit_path :: "manager_paths \<Rightarrow> string \<Rightarrow> ppath" where
  "unit_path ps name = path_div (user_unit_dir ps) name"

definition launcher_path :: "generator \<Rightarrow> desired_instance \<Rightarrow> ppath" where
  "launcher_path g d =
     path_div (path_div (path_div (account_home (gen_paths g)) ''.local'') ''bin'') (di_id d @ ''-mcp'')"

definition github_cli_helper_path :: "manager_paths \<Rightarrow> desired_instance \<Rightarrow> ppath" where
  "github_cli_helper_path ps d =
     path_div (path_div (path_div (account_home ps) ''.local'') ''bin'') (di_id d @ ''-git-credential-github'')"

definition managed_github_profile_path :: "manager_paths \<Rightarrow> desired_instance \<Rightarrow> ppath" where
  "managed_github_profile_path ps d = path_div (path_div (config_root ps) ''github'') (di_id d)"

definition access_root :: "desired_instance \<Rightarrow> ppath" where
  "access_root d = path_div (path_of (di_workspace d)) ''.workspace-mcp-access''"

section \<open>The development environment of an instance\<close>

definition managed_github_env_remove :: "string list" where
  "managed_github_env_remove =
     [''GH_TOKEN'', ''GITHUB_TOKEN'', ''GH_ENTERPRISE_TOKEN'', ''GITHUB_ENTERPRISE_TOKEN'',
      ''GH_HOST'', ''GH_DEBUG'', ''GH_FORCE_TTY'', ''GH_REPO'', ''GH_PATH'']"

definition managed_agent_runtime_dir :: "nat \<Rightarrow> desired_instance \<Rightarrow> ppath" where
  "managed_agent_runtime_dir uid d =
     path_div (path_of (''/run/user/'' @ show_nat uid)) (''workspace-mcp-manager-'' @ di_id d)"

definition managed_ssh_auth_sock :: "nat \<Rightarrow> desired_instance \<Rightarrow> ppath" where
  "managed_ssh_auth_sock uid d = path_div (managed_agent_runtime_dir uid d) ''ssh-agent.sock''"

definition effective_ssh_auth_sock :: "nat \<Rightarrow> desired_instance \<Rightarrow> string option" where
  "effective_ssh_auth_sock uid d =
     (case ag_mode (di_agent d) of
        AGENT_MANAGED \<Rightarrow> Some (path_str (managed_ssh_auth_sock uid d))
      | AGENT_EXTERNAL \<Rightarrow> ag_ssh_auth_sock (di_agent d)
      | AGENT_NONE \<Rightarrow> None)"

definition managed_github :: "desired_instance \<Rightarrow> bool" where
  "managed_github d \<longleftrightarrow> di_version d \<ge> 2 \<and> gh_mode (di_github d) = GH_MANAGED"

section \<open>Contents\<close>

definition lines_text :: "string list \<Rightarrow> string" where
  "lines_text ls = join_with newline ls"

definition launcher_lines :: "generator \<Rightarrow> desired_instance \<Rightarrow> string list" where
  "launcher_lines g d = (let iid = di_id d in
     [''#!/bin/sh'',
      owner_comment iid,
      ''set -eu'',
      ''MANAGER='' @ shell_quote (path_str (manager_executable (gen_paths g))),
      ''REGISTRY='' @ shell_quote (path_str (registry_dir (gen_paths g))),
      ''INSTANCE='' @ shell_quote iid,
      ''usage() {'',
      ''  cat <<EOF'',
      ''Usage: '' @ iid @ ''-mcp <command> [args]'',
      ''Commands:'',
      ''  show render plan status logs git diagnose apply start stop restart remove'',
      ''  access <list|add-ro|add-rw|add-rx|add-rwx|remove|update> ...'',
      ''  codex <start|status|output|cancel> ...'',
      ''EOF'',
      ''}'',
      ''command=${1-}'',
      ''case '' @ dq @ ''$command'' @ dq @ '' in'',
      ''  '' @ sq @ sq @ ''|-h|--help|help)'',
      ''    usage'',
      ''    exit 0'',
      ''    ;;'',
      ''  show|render|plan|status|logs|git|diagnose|apply|start|stop|restart|remove)'',
      ''    shift'',
      ''    exec '' @ dq @ ''$MANAGER'' @ dq @ '' --registry-dir '' @ dq @ ''$REGISTRY'' @ dq @ '' instance '' @ dq @ ''$command'' @ dq @ '' '' @ dq @ ''$INSTANCE'' @ dq @ '' '' @ dq @ ''$@'' @ dq,
      ''    ;;'',
      ''  access)'',
      ''    shift'',
      ''    action=${1-}'',
      ''    case '' @ dq @ ''$action'' @ dq @ '' in list|add-ro|add-rw|add-rx|add-rwx|remove|update) ;; *) usage >&2; exit 2 ;; esac'',
      ''    shift'',
      ''    exec '' @ dq @ ''$MANAGER'' @ dq @ '' --registry-dir '' @ dq @ ''$REGISTRY'' @ dq @ '' access '' @ dq @ ''$action'' @ dq @ '' '' @ dq @ ''$INSTANCE'' @ dq @ '' '' @ dq @ ''$@'' @ dq,
      ''    ;;'',
      ''  codex)'',
      ''    shift'',
      ''    action=${1-}'',
      ''    case '' @ dq @ ''$action'' @ dq @ '' in start|status|output|cancel) ;; *) usage >&2; exit 2 ;; esac'',
      ''    shift'',
      ''    exec '' @ dq @ ''$MANAGER'' @ dq @ '' --registry-dir '' @ dq @ ''$REGISTRY'' @ dq @ '' codex '' @ dq @ ''$action'' @ dq @ '' '' @ dq @ ''$INSTANCE'' @ dq @ '' '' @ dq @ ''$@'' @ dq,
      ''    ;;'',
      ''  *)'',
      ''    printf '' @ sq @ ''%s'' @ bs @ ''n'' @ sq @ '' '' @ sq @ iid @ ''-mcp: unsupported command'' @ sq @ '' >&2'',
      ''    usage >&2'',
      ''    exit 2'',
      ''    ;;'',
      ''esac'',
      []])"

definition quoted :: "string list \<Rightarrow> string" where
  "quoted vs = join_with '' '' (map systemd_quote vs)"

definition runtime_command :: "generator \<Rightarrow> desired_instance \<Rightarrow> string \<Rightarrow> string" where
  "runtime_command g d action =
     quoted [path_str (manager_executable (gen_paths g)), ''--registry-dir'',
             path_str (registry_dir (gen_paths g)), ''_runtime'', action, di_id d]"

definition json_text :: "string \<Rightarrow> string" where
  "json_text s = ascii_text (dump_string s)"

definition profile_lines :: "desired_instance \<Rightarrow> string list" where
  "profile_lines d =
     [owner_comment (di_id d),
      ''config_version: 1'',
      ''control_plane:'',
      ''  base_url: '' @ dq @ ''https://api.openai.com'' @ dq,
      ''  tunnel_id: '' @ json_text (tun_id (di_tunnel d)),
      ''  api_key: '' @ dq @ ''env:CONTROL_PLANE_API_KEY'' @ dq,
      ''health:'',
      ''  listen_addr: '' @ json_text (tun_health_host (di_tunnel d) @ '':'' @ show_int (tun_health_port (di_tunnel d))),
      ''admin_ui:'',
      ''  open_browser: false'',
      ''log:'',
      ''  level: info'',
      ''  format: json'',
      ''mcp:'',
      ''  server_urls:'',
      ''    - channel: main'',
      ''      url: '' @ json_text (''http://'' @ mcp_host (di_mcp d) @ '':'' @ show_int (mcp_port (di_mcp d)) @ ''/mcp''),
      []]"

text \<open>\<open>if x not in roots: roots.append(x)\<close>\<close>

definition add_root :: "string \<Rightarrow> string list \<Rightarrow> string list" where
  "add_root x roots = (if x \<in> set roots then roots else roots @ [x])"

definition effective_external_roots :: "nat \<Rightarrow> desired_instance \<Rightarrow> string list" where
  "effective_external_roots uid d =
     (let r0 = mcp_external_roots (di_mcp d);
          r1 = fold (\<lambda>f. add_root (af_path f))
                 (ac_read_execute (di_access d) @ ac_read_write_execute (di_access d)) r0;
          r2 = (case gh_config_dir (di_github d) of Some c \<Rightarrow> add_root c r1 | None \<Rightarrow> r1)
      in (case effective_ssh_auth_sock uid d of
            Some s \<Rightarrow> add_root (path_str (path_parent (path_of s))) r2
          | None \<Rightarrow> r2))"

definition mcp_exec_start :: "desired_instance \<Rightarrow> string" where
  "mcp_exec_start d =
     (let m = di_mcp d in
      quoted [mcp_binary m, ''--workspace'', di_workspace d, ''--host'', mcp_host m, ''--port'',
              show_int (mcp_port m), ''--permission-mode'',
              enum_value permission_modes (mcp_permission_mode m), ''--shell-env-inherit'',
              enum_value shell_env_inherits (mcp_shell_env_inherit m)])"

definition environment_line :: "string \<Rightarrow> string" where
  "environment_line v = ''Environment='' @ systemd_quote v"

definition environment_lines :: "nat \<Rightarrow> desired_instance \<Rightarrow> string list" where
  "environment_lines uid d =
     (let roots = effective_external_roots uid d in
      [''Environment='' @ dq @ ''PYTHONUNBUFFERED=1'' @ dq,
       environment_line (''PATH='' @ mcp_exec_path (di_mcp d))] @
      (if managed_github d
       then [''UnsetEnvironment='' @ join_with '' '' managed_github_env_remove] else []) @
      (if roots \<noteq> []
       then [environment_line (''CODING_TOOLS_MCP_EXEC_ALLOW_ROOTS='' @ join_with '':'' roots)] else []) @
      (case gh_config_dir (di_github d) of
         Some c \<Rightarrow> [environment_line (''GH_CONFIG_DIR='' @ c)] | None \<Rightarrow> []) @
      (case effective_ssh_auth_sock uid d of
         Some s \<Rightarrow> [environment_line (''SSH_AUTH_SOCK='' @ s)] | None \<Rightarrow> []))"

definition bind_line :: "desired_instance \<Rightarrow> access_folder \<times> bool \<Rightarrow> string res" where
  "bind_line d fr =
     rbind (systemd_path (af_path (fst fr))) (\<lambda>source.
     rbind (systemd_path (path_str (path_div (access_root d) (af_alias (fst fr))))) (\<lambda>target.
     Inr ((if snd fr then ''BindReadOnlyPaths'' else ''BindPaths'') @ ''='' @ source @ '':'' @ target @ '':rbind'')))"

definition no_exec_line :: "desired_instance \<Rightarrow> access_folder \<Rightarrow> string res" where
  "no_exec_line d f =
     rbind (systemd_path (path_str (path_div (access_root d) (af_alias f)))) (\<lambda>t.
     Inr (''NoExecPaths='' @ t))"

definition access_lines :: "desired_instance \<Rightarrow> string list res" where
  "access_lines d =
     (let a = di_access d in
      rbind (traverse (bind_line d)
        (map (\<lambda>f. (f, True)) (ac_read_only a @ ac_read_execute a) @
         map (\<lambda>f. (f, False)) (ac_read_write a @ ac_read_write_execute a))) (\<lambda>binds.
      rbind (traverse (no_exec_line d) (ac_read_only a @ ac_read_write a)) (\<lambda>noexec.
      Inr (binds @ noexec))))"

definition mcp_unit_lines :: "generator \<Rightarrow> desired_instance \<Rightarrow> string list res" where
  "mcp_unit_lines g d = (let iid = di_id d in
     rbind (access_lines d) (\<lambda>access.
     rbind (systemd_path (di_workspace d)) (\<lambda>work.
     rbind (systemd_path (path_str (path_div (state_dir (gen_paths g) iid) ''mcp.log''))) (\<lambda>log.
     Inr ([owner_comment iid,
            ''# workspace-mcp-manager-port='' @ show_int (mcp_port (di_mcp d)),
            ''[Unit]'',
            ''Description=Coding Tools MCP - '' @ iid,
            ''After=network.target''] @
           (if ag_mode (di_agent d) = AGENT_MANAGED
            then [''Requires='' @ agent_unit_name iid, ''After='' @ agent_unit_name iid] else []) @
           [[],
            ''[Service]'',
            ''Type=simple'',
            ''WorkingDirectory='' @ work] @
           environment_lines (gen_uid g) d @
           (if access \<noteq> [] then ''PrivateUsers=true'' # access else []) @
           [''ExecStart='' @ mcp_exec_start d,
            ''Restart=on-failure'',
            ''SuccessExitStatus=143'',
            ''RestartSec=2'',
            ''TimeoutStopSec=10'',
            ''KillMode=mixed'',
            ''StandardOutput=append:'' @ log,
            ''StandardError=append:'' @ log,
            [],
            ''[Install]'',
            ''WantedBy=default.target'',
            []])))))"

definition helper_lines :: "generator \<Rightarrow> desired_instance \<Rightarrow> string list res" where
  "helper_lines g d = (let iid = di_id d in
     case (gh_config_dir (di_github d), gh_binary (di_github d)) of
       (Some dir, Some gh) \<Rightarrow> Inr
         [''#!/bin/sh'',
          owner_comment iid,
          ''set -eu'',
          ''unset '' @ join_with '' '' managed_github_env_remove,
          ''HOME='' @ shell_quote (path_str (account_home (gen_paths g))),
          ''PATH='' @ shell_quote (mcp_exec_path (di_mcp d)),
          ''GH_CONFIG_DIR='' @ shell_quote dir,
          ''GIT_TERMINAL_PROMPT=0'',
          ''GH_PROMPT_DISABLED=1'',
          ''GH_NO_UPDATE_NOTIFIER=1'',
          ''export HOME PATH GH_CONFIG_DIR GIT_TERMINAL_PROMPT GH_PROMPT_DISABLED GH_NO_UPDATE_NOTIFIER'',
          ''exec '' @ shell_quote gh @ '' auth git-credential '' @ dq @ ''$@'' @ dq,
          []]
     | _ \<Rightarrow> Inl (config_error ''https-gh helper requires github.config_dir and github.binary'' []))"

definition agent_unit_lines :: "generator \<Rightarrow> desired_instance \<Rightarrow> string list res" where
  "agent_unit_lines g d = (let iid = di_id d in
     rbind (systemd_path (path_str (managed_ssh_auth_sock (gen_uid g) d))) (\<lambda>socket.
     Inr [owner_comment iid,
           ''[Unit]'',
           ''Description=Workspace MCP SSH agent - '' @ iid,
           [],
           ''[Service]'',
           ''Type=simple'',
           ''RuntimeDirectory=workspace-mcp-manager-'' @ iid,
           ''RuntimeDirectoryMode=0700'',
           ''ExecStart=/usr/bin/ssh-agent -D -a '' @ socket,
           ''Restart=on-failure'',
           ''RestartSec=2'',
           [],
           ''[Install]'',
           ''WantedBy=default.target'',
           []]))"

definition tunnel_probe :: "generator \<Rightarrow> desired_instance \<Rightarrow> string" where
  "tunnel_probe g d =
     quoted [gen_curl g, ''--fail'', ''--silent'', ''--show-error'', ''--retry'', ''30'', ''--retry-delay'',
             ''1'', ''--retry-connrefused'', ''--retry-max-time'', ''30'', ''--connect-timeout'', ''1'',
             ''http://'' @ mcp_host (di_mcp d) @ '':'' @ show_int (mcp_port (di_mcp d)) @ ''/.well-known/mcp.json'']"

definition tunnel_unit_lines :: "generator \<Rightarrow> desired_instance \<Rightarrow> string list res" where
  "tunnel_unit_lines g d = (let iid = di_id d in
     rbind (systemd_path (path_str (account_home (gen_paths g)))) (\<lambda>home.
     rbind (systemd_path (path_str (path_div (state_dir (gen_paths g) iid) ''tunnel-supervisor.log''))) (\<lambda>log.
     Inr [owner_comment iid,
           ''# workspace-mcp-manager-profile='' @ tun_profile (di_tunnel d),
           ''# workspace-mcp-manager-health-port='' @ show_int (tun_health_port (di_tunnel d)),
           ''# workspace-mcp-manager-tunnel-id='' @ tun_id (di_tunnel d),
           ''[Unit]'',
           ''Description=OpenAI MCP Tunnel - '' @ iid,
           ''Requires='' @ mcp_unit_name iid,
           ''After='' @ mcp_unit_name iid,
           [],
           ''[Service]'',
           ''Type=simple'',
           ''WorkingDirectory='' @ home,
           ''UMask=0077'',
           ''ExecStartPre='' @ tunnel_probe g d,
           ''ExecStart='' @ runtime_command g d ''tunnel'',
           ''Restart=always'',
           ''RestartSec=5'',
           ''TimeoutStopSec=15'',
           ''KillMode=mixed'',
           ''StandardOutput=append:'' @ log,
           ''StandardError=append:'' @ log,
           [],
           ''[Install]'',
           ''WantedBy=default.target'',
           []])))"

definition guard_unit_lines :: "generator \<Rightarrow> desired_instance \<Rightarrow> string list res" where
  "guard_unit_lines g d = (let iid = di_id d in
     rbind (systemd_path (path_str (path_div (state_dir (gen_paths g) iid) ''admission-guard.log''))) (\<lambda>log.
     Inr [owner_comment iid,
           ''[Unit]'',
           ''Description=Workspace MCP admission recovery guard - '' @ iid,
           ''After='' @ mcp_unit_name iid,
           [],
           ''[Service]'',
           ''Type=oneshot'',
           ''ExecStart='' @ runtime_command g d ''admission-guard'',
           ''StandardOutput=append:'' @ log,
           ''StandardError=append:'' @ log,
           []]))"

definition guard_timer_lines :: "desired_instance \<Rightarrow> string list" where
  "guard_timer_lines d = (let iid = di_id d; iv = rp_interval (di_recovery d) in
     [owner_comment iid,
      ''[Unit]'',
      ''Description=Workspace MCP admission recovery timer - '' @ iid,
      [],
      ''[Timer]'',
      ''OnBootSec='' @ show_int iv @ ''s'',
      ''OnUnitActiveSec='' @ show_int iv @ ''s'',
      ''AccuracySec=1s'',
      ''Unit='' @ guard_unit_name iid,
      [],
      ''[Install]'',
      ''WantedBy=timers.target'',
      []])"

section \<open>The bundle\<close>

definition owned_dir :: "string \<Rightarrow> string \<Rightarrow> string \<Rightarrow> string \<Rightarrow> resource" where
  "owned_dir marker rid p owner =
     (mk_resource rid DIRECTORY p 448)\<lparr>r_token := Some marker, r_marker_path := Some owner\<rparr>"

definition owned_file :: "string \<Rightarrow> string \<Rightarrow> resource_kind \<Rightarrow> string \<Rightarrow> nat \<Rightarrow> string \<Rightarrow> resource" where
  "owned_file marker rid k p m content =
     (mk_resource rid k p m)\<lparr>r_content := Some content, r_token := Some marker\<rparr>"

definition unit_resource :: "string \<Rightarrow> string \<Rightarrow> string \<Rightarrow> string \<Rightarrow> string \<Rightarrow> bool \<Rightarrow> resource" where
  "unit_resource marker rid p name content boot =
     (owned_file marker rid SYSTEMD_UNIT p 384 content)
       \<lparr>r_unit := Some name, r_enable := boot, r_active := boot\<rparr>"

definition base_resources :: "generator \<Rightarrow> desired_instance \<Rightarrow> resource list" where
  "base_resources g d =
     (let iid = di_id d; marker = owner_prefix @ iid; sd = state_dir (gen_paths g) iid;
          owner = path_str (path_div sd ''.owner'')
      in [owned_dir marker ''state-dir'' (path_str sd) owner,
          owned_file marker ''state-owner'' FILE owner 384 (owner_prefix @ iid @ newline),
          (mk_resource ''tunnel-profile-dir'' DIRECTORY (path_str (tunnel_profile_dir (gen_paths g))) 448)
            \<lparr>r_remove := False\<rparr>,
          owned_file marker ''tunnel-profile'' TUNNEL_PROFILE (path_str (profile_path g d)) 384
            (lines_text (profile_lines d)),
          owned_file marker ''launcher'' FILE (path_str (launcher_path g d)) 493
            (lines_text (launcher_lines g d))])"

definition core_units :: "generator \<Rightarrow> desired_instance \<Rightarrow> resource list res" where
  "core_units g d =
     (let iid = di_id d; marker = owner_prefix @ iid; ps = gen_paths g in
      rbind (mcp_unit_lines g d) (\<lambda>mcp.
      rbind (tunnel_unit_lines g d) (\<lambda>tunnel.
      Inr [unit_resource marker ''mcp-unit'' (path_str (unit_path ps (mcp_unit_name iid)))
             (mcp_unit_name iid) (lines_text mcp) True,
           unit_resource marker ''tunnel-unit'' (path_str (unit_path ps (tunnel_unit_name iid)))
             (tunnel_unit_name iid) (lines_text tunnel) True])))"

definition github_resources :: "generator \<Rightarrow> desired_instance \<Rightarrow> resource list res" where
  "github_resources g d =
     (if managed_github d then
        (case gh_config_dir (di_github d) of
           None \<Rightarrow> Inl (config_error ''managed GitHub profile requires github.config_dir'' [])
         | Some dir \<Rightarrow>
             let iid = di_id d; marker = owner_prefix @ iid; profile = path_of dir;
                 owner = path_str (path_div profile ''.owner'')
             in Inr
               [(mk_resource ''github-profile-root'' DIRECTORY
                   (path_str (path_div (config_root (gen_paths g)) ''github'')) 448)\<lparr>r_remove := False\<rparr>,
                (owned_dir marker ''github-profile-dir'' (path_str profile) owner)\<lparr>r_remove := False\<rparr>,
                (owned_file marker ''github-profile-owner'' FILE owner 384 (owner_prefix @ iid @ newline))
                  \<lparr>r_remove := False\<rparr>])
      else Inr [])"

definition uses_https_gh :: "desired_instance \<Rightarrow> bool" where
  "uses_https_gh d \<longleftrightarrow> di_version d \<ge> 2 \<and> remote_uses (di_git d) PROTO_HTTPS_GH"

definition helper_resources :: "generator \<Rightarrow> desired_instance \<Rightarrow> resource list res" where
  "helper_resources g d =
     (if uses_https_gh d then
        rbind (helper_lines g d) (\<lambda>ls.
        Inr [owned_file (owner_prefix @ di_id d) ''github-cli-helper'' FILE
               (path_str (github_cli_helper_path (gen_paths g) d)) 493 (lines_text ls)])
      else Inr [])"

definition managed_agent :: "desired_instance \<Rightarrow> bool" where
  "managed_agent d \<longleftrightarrow> di_version d \<ge> 2 \<and> ag_mode (di_agent d) = AGENT_MANAGED"

definition agent_resources :: "generator \<Rightarrow> desired_instance \<Rightarrow> resource list res" where
  "agent_resources g d =
     (if managed_agent d then
        rbind (agent_unit_lines g d) (\<lambda>ls.
        Inr [unit_resource (owner_prefix @ di_id d) ''ssh-agent-unit''
               (path_str (unit_path (gen_paths g) (agent_unit_name (di_id d))))
               (agent_unit_name (di_id d)) (lines_text ls) True])
      else Inr [])"

definition mount_id :: "string \<Rightarrow> access_folder \<Rightarrow> string" where
  "mount_id mode f = ''access-'' @ mode @ ''-'' @ af_alias f"

definition mounts :: "desired_instance \<Rightarrow> (access_folder \<times> string) list" where
  "mounts d = concat (map (\<lambda>(mode, fs). map (\<lambda>f. (f, mode)) fs) (access_groups (di_access d)))"

definition access_resources :: "desired_instance \<Rightarrow> resource list" where
  "access_resources d =
     (let folders = mounts d; iid = di_id d; marker = owner_prefix @ iid; root = access_root d;
          owner = path_str (path_div root ''.owner'')
      in if folders = [] then []
         else
           [owned_dir marker ''access-root'' (path_str root) owner,
            owned_file marker ''access-owner'' FILE owner 384 (owner_prefix @ iid @ newline),
            (owned_file marker ''access-ignore'' FILE (path_str (path_div root ''.gitignore'')) 384 (''*'' @ newline))
              \<lparr>r_marker_path := Some owner\<rparr>] @
           map (\<lambda>(f, mode). owned_dir marker (mount_id mode f) (path_str (path_div root (af_alias f))) owner)
             folders)"

definition guard_resources :: "generator \<Rightarrow> desired_instance \<Rightarrow> resource list res" where
  "guard_resources g d =
     (if rp_guard_enabled (di_recovery d) then
        (let iid = di_id d; marker = owner_prefix @ iid; ps = gen_paths g in
         rbind (guard_unit_lines g d) (\<lambda>ls.
         Inr [unit_resource marker ''admission-guard-unit'' (path_str (unit_path ps (guard_unit_name iid)))
                (guard_unit_name iid) (lines_text ls) False,
              unit_resource marker ''admission-guard-timer'' (path_str (unit_path ps (guard_timer_name iid)))
                (guard_timer_name iid) (lines_text (guard_timer_lines d)) True]))
      else Inr [])"

text \<open>
  The enablement policy an import left behind: the receipt when there is one, otherwise the
  pending journal; \<open>None\<close> when neither exists.
\<close>

definition f_present :: "files \<Rightarrow> ppath \<Rightarrow> bool" where
  "f_present fs p \<longleftrightarrow> f_exists fs p \<or> f_is_symlink fs p"

fun bool_entries :: "(string \<times> json) list \<Rightarrow> (string \<times> bool) list option" where
  "bool_entries [] = Some []"
| "bool_entries ((k, v) # kvs) =
     (case v of JBool b \<Rightarrow> map_option (Cons (k, b)) (bool_entries kvs) | _ \<Rightarrow> None)"

definition policy_of :: "string \<Rightarrow> json \<Rightarrow> (string \<times> bool) list option" where
  "policy_of iid v =
     (case as_obj v of
        None \<Rightarrow> None
      | Some _ \<Rightarrow>
          if jget v ''instance_id'' \<noteq> Some (JStr iid) then None
          else (case jget v ''unit_enablement'' of
                  None \<Rightarrow> Some []
                | Some (JObj kvs) \<Rightarrow> bool_entries kvs
                | Some _ \<Rightarrow> None))"

definition import_policy :: "generator \<Rightarrow> files \<Rightarrow> string \<Rightarrow> (string \<times> bool) list option res" where
  "import_policy g fs iid =
     (let imports = path_div (state_root (gen_paths g)) ''imports'';
          receipt = path_div (path_div imports ''receipts'') (iid @ ''.json'');
          path = (if f_present fs receipt then receipt else path_div imports (iid @ ''.json''))
      in if \<not> f_present fs path then Inr None
         else
           (case (if f_is_symlink fs path then None
                  else (case f_read fs path of
                          ReadText t \<Rightarrow> (case loads t of Some v \<Rightarrow> policy_of iid v | None \<Rightarrow> None)
                        | _ \<Rightarrow> None)) of
              Some p \<Rightarrow> Inr (Some p)
            | None \<Rightarrow> Inl (config_error ''cannot read imported service enablement policy'' [])))"

definition apply_policy :: "(string \<times> bool) list \<Rightarrow> resource \<Rightarrow> resource" where
  "apply_policy p r =
     (case r_unit r of
        None \<Rightarrow> r
      | Some u \<Rightarrow> (case map_of p u of Some b \<Rightarrow> r\<lparr>r_enable := b\<rparr> | None \<Rightarrow> r))"

definition all_resources :: "generator \<Rightarrow> desired_instance \<Rightarrow> resource list res" where
  "all_resources g d =
     rbind (core_units g d) (\<lambda>units.
     rbind (github_resources g d) (\<lambda>github.
     rbind (helper_resources g d) (\<lambda>helper.
     rbind (agent_resources g d) (\<lambda>agent.
     rbind (guard_resources g d) (\<lambda>guard.
     Inr (base_resources g d @ units @ github @ helper @ agent @ access_resources d @ guard))))))"

definition generate ::
  "(string \<Rightarrow> string) \<Rightarrow> generator \<Rightarrow> files \<Rightarrow> desired_instance \<Rightarrow> gen_bundle res" where
  "generate H g fs d =
     rbind (all_resources g d) (\<lambda>rs.
     rbind (import_policy g fs (di_id d)) (\<lambda>policy.
     Inr \<lparr>b_instance = di_id d, b_fingerprint = fingerprint H d,
          b_resources = (case policy of None \<Rightarrow> rs | Some p \<Rightarrow> map (apply_policy p) rs)\<rparr>))"

end
