(* ===== verification/Generation_Props.thy ===== *)
theory Generation_Props
  imports Generation
begin

text \<open>
  Facts on generated resources: quoting can be undone by the reader, no value of a declaration
  can add a line to a unit, resource identifiers are distinct, and everything that may ever be
  removed carries evidence of its owner.
\<close>

section \<open>Quoting\<close>

definition quote_char :: "char \<Rightarrow> string" where
  "quote_char c =
     (if c = CHR ''%'' then ''%%'' else if c = CHR 0x5C then bs @ bs
      else if c = CHR 0x22 then bs @ dq else [c])"

lemma replace_char_append [simp]: "replace_char c r (a @ b) = replace_char c r a @ replace_char c r b"
  by (simp add: replace_char_def)

lemma replace_char_Nil [simp]: "replace_char c r [] = []"
  by (simp add: replace_char_def)

lemma replace_char_Cons: "replace_char c r (x # s) = (if x = c then r else [x]) @ replace_char c r s"
  by (simp add: replace_char_def)

lemma systemd_quote_alt: "systemd_quote v = dq @ concat (map quote_char v) @ dq"
  unfolding systemd_quote_def append_same_eq same_append_eq
  by (induction v) (auto simp: replace_char_Cons quote_char_def bs_def dq_def)

text \<open>How systemd reads one quoted argument: doubled percent signs and backslash escapes.\<close>

fun systemd_read :: "string \<Rightarrow> string option" where
  "systemd_read [] = None"
| "systemd_read [c] = (if c = CHR 0x22 then Some [] else None)"
| "systemd_read (c # e # s) =
     (if c = CHR 0x22 then None
      else if c = CHR 0x5C then
        (if e = CHR 0x5C \<or> e = CHR 0x22 then map_option (Cons e) (systemd_read s) else None)
      else if c = CHR ''%'' then (if e = c then map_option (Cons c) (systemd_read s) else None)
      else map_option (Cons c) (systemd_read (e # s)))"

definition systemd_unquote :: "string \<Rightarrow> string option" where
  "systemd_unquote s = (case s of [] \<Rightarrow> None | c # t \<Rightarrow> if c = CHR 0x22 then systemd_read t else None)"

lemma systemd_read_plain:
  "c \<noteq> CHR 0x22 \<Longrightarrow> c \<noteq> CHR 0x5C \<Longrightarrow> c \<noteq> CHR ''%'' \<Longrightarrow> s \<noteq> [] \<Longrightarrow>
    systemd_read (c # s) = map_option (Cons c) (systemd_read s)"
  by (cases s) simp_all

lemma systemd_read_quoted: "systemd_read (concat (map quote_char v) @ dq) = Some v"
proof (induction v)
  case (Cons c v)
  have "concat (map quote_char v) @ dq \<noteq> []" by (simp add: dq_def)
  with Cons show ?case
    by (auto simp: quote_char_def bs_def dq_def systemd_read_plain)
qed (simp add: dq_def)

lemma systemd_unquote_quote: "systemd_unquote (systemd_quote v) = Some v"
  using systemd_read_quoted [of v] by (simp add: systemd_unquote_def systemd_quote_alt dq_def)

section \<open>One line is one line\<close>

definition one_line :: "string \<Rightarrow> bool" where
  "one_line s \<longleftrightarrow> CHR 0x0A \<notin> set s"

named_theorems line_simps \<open>texts without a line break\<close>

lemma one_line_append [line_simps]: "one_line (s @ t) \<longleftrightarrow> one_line s \<and> one_line t"
  by (auto simp: one_line_def)

lemma one_line_Cons [line_simps]: "one_line (c # s) \<longleftrightarrow> c \<noteq> CHR 0x0A \<and> one_line s"
  by (auto simp: one_line_def)

lemma one_line_Nil [line_simps]: "one_line []"
  by (simp add: one_line_def)

lemma one_line_quotes [line_simps]: "one_line sq" "one_line dq" "one_line bs"
  by (simp_all add: one_line_def sq_def dq_def bs_def)

lemma one_line_concat: "(\<And>c. c \<in> set s \<Longrightarrow> one_line (f c)) \<Longrightarrow> one_line (concat (map f s))"
  by (auto simp: one_line_def)

lemma one_line_replace [line_simps]: "one_line s \<Longrightarrow> one_line r \<Longrightarrow> one_line (replace_char c r s)"
  by (auto simp: one_line_def replace_char_def)

lemma one_line_quote [line_simps]: "one_line s \<Longrightarrow> one_line (systemd_quote s)"
  by (simp add: systemd_quote_def line_simps)

lemma one_line_shell [line_simps]: "one_line s \<Longrightarrow> one_line (shell_quote s)"
  by (simp add: shell_quote_def line_simps)

lemma one_line_join [line_simps]:
  "one_line sep \<Longrightarrow> (\<And>p. p \<in> set ps \<Longrightarrow> one_line p) \<Longrightarrow> one_line (join_with sep ps)"
  using set_join_with [of sep ps] by (force simp: one_line_def)

lemma one_line_quoted: "(\<And>v. v \<in> set vs \<Longrightarrow> one_line v) \<Longrightarrow> one_line (quoted vs)"
  unfolding quoted_def by (rule one_line_join) (auto simp: line_simps)

lemma one_line_digits [line_simps]: "one_line (show_nat n)" "one_line (show_int i)"
  using show_nat_digits [of "CHR 0x0A"]
  by (auto simp: one_line_def show_int_def is_digit_def code_of_def)

lemma one_line_clean [line_simps]: "clean_text s \<Longrightarrow> one_line s"
  by (simp add: clean_text_def one_line_def)

lemma code_of_hex_digit: "d < 16 \<Longrightarrow> code_of (hex_digit d) = (if d < 10 then 48 + d else 87 + d)"
  by (simp add: hex_digit_def digit_char_def)

lemma hex_digit_not_newline: "d < 16 \<Longrightarrow> hex_digit d \<noteq> CHR 0x0A"
  using code_of_hex_digit [of d] by (auto simp: code_of_def split: if_splits)

lemma code_nibble: "code_of c div 16 < 16"
  by (rule less_mult_imp_div_less) simp

lemma escape_char_one_line: "one_line (escape_char c)"
  using hex_digit_not_newline [OF code_nibble [of c]] hex_digit_not_newline [of "code_of c mod 16"]
  by (auto simp: escape_char_def line_simps)

lemma one_line_json [line_simps]: "one_line (json_text s)"
proof -
  have d: "one_line (dump_string s)"
    unfolding dump_string_def using escape_char_one_line by (simp add: line_simps one_line_concat)
  have a: "c \<noteq> CHR 0x0A \<Longrightarrow> one_line (ascii_char c)" for c
    using hex_digit_not_newline [OF code_nibble [of c]] hex_digit_not_newline [of "code_of c mod 16"]
    by (auto simp: ascii_char_def line_simps)
  show ?thesis
    unfolding json_text_def ascii_text_def
  proof (rule one_line_concat, rule a)
    fix c assume "c \<in> set (dump_string s)"
    with d show "c \<noteq> CHR 0x0A" unfolding one_line_def by blast
  qed
qed

lemma one_line_enum [line_simps]:
  "one_line (enum_value permission_modes m)" "one_line (enum_value shell_env_inherits e)"
  subgoal by (cases m) (simp_all add: enum_value_def permission_modes_def line_simps)
  subgoal by (cases e) (simp_all add: enum_value_def shell_env_inherits_def line_simps)
  done

section \<open>Paths on one line\<close>

lemma set_path_str: "set (path_str p) \<subseteq> set (pp_root p) \<union> (\<Union>q \<in> set (pp_parts p). set q) \<union> {CHR ''/'', CHR ''.''}"
proof -
  have "set (join_with ''/'' (pp_parts p)) \<subseteq> {CHR ''/''} \<union> (\<Union>q \<in> set (pp_parts p). set q)"
    using set_join_with [of "''/''" "pp_parts p"] by simp
  then have "set (pp_root p @ join_with ''/'' (pp_parts p)) \<subseteq>
      set (pp_root p) \<union> (\<Union>q \<in> set (pp_parts p). set q) \<union> {CHR ''/'', CHR ''.''}"
    by auto
  then show ?thesis by (simp add: path_str_def Let_def split: if_splits)
qed

definition path_line :: "ppath \<Rightarrow> bool" where
  "path_line p \<longleftrightarrow> one_line (pp_root p) \<and> list_all one_line (pp_parts p)"

lemma path_line_str [line_simps]: "path_line p \<Longrightarrow> one_line (path_str p)"
  using set_path_str [of p] by (fastforce simp: path_line_def one_line_def list_all_iff)

lemma one_line_parts: "one_line s \<Longrightarrow> list_all one_line (clean_parts s)"
  using set_split_on by (fastforce simp: clean_parts_def list_all_iff one_line_def)

lemma one_line_root: "one_line (root_of s)"
  by (simp add: root_of_def line_simps)

lemma path_line_of [line_simps]: "one_line s \<Longrightarrow> path_line (path_of s)"
  by (simp add: path_line_def path_of_def one_line_parts one_line_root)

lemma path_line_div [line_simps]: "path_line p \<Longrightarrow> one_line s \<Longrightarrow> path_line (path_div p s)"
  by (simp add: path_line_def path_div_def path_of_def one_line_parts one_line_root)

lemma path_line_parent [line_simps]: "path_line p \<Longrightarrow> path_line (path_parent p)"
  by (auto simp: path_line_def path_parent_def list_all_iff dest: in_set_butlastD)

definition clean_generator :: "generator \<Rightarrow> bool" where
  "clean_generator g \<longleftrightarrow>
     one_line (gen_curl g) \<and> path_line (account_home (gen_paths g)) \<and>
     path_line (state_root (gen_paths g)) \<and> path_line (registry_dir (gen_paths g)) \<and>
     path_line (manager_executable (gen_paths g))"

lemma systemd_path_eq:
  "systemd_path v = Inr t \<longleftrightarrow>
    prefix ''/'' v \<and> list_all (\<lambda>c. \<not> is_space c \<and> \<not> code_of c < 32) v \<and>
    list_all (\<lambda>c. c \<noteq> CHR 0x22 \<and> c \<noteq> CHR 0x27 \<and> c \<noteq> CHR 0x5C) v \<and> t = replace_char CHR ''%'' ''%%'' v"
  by (auto simp: systemd_path_def res_simps list_all_iff list_ex_iff)

lemma systemd_path_line:
  assumes "systemd_path v = Inr t" shows "one_line t"
proof -
  from assms have v: "\<forall>c \<in> set v. \<not> is_space c" and t: "t = replace_char CHR ''%'' ''%%'' v"
    by (simp_all add: systemd_path_eq list_all_iff)
  have "is_space (CHR 0x0A)" by code_simp
  with v have "one_line v" by (auto simp: one_line_def)
  then show ?thesis by (simp add: t line_simps)
qed

section \<open>Every line of a content is one line\<close>

lemma valid_lines [line_simps]:
  assumes "valid_instance d"
  shows "one_line (di_id d)" "one_line (di_workspace d)" "one_line (mcp_binary (di_mcp d))"
    "one_line (mcp_host (di_mcp d))" "one_line (mcp_exec_path (di_mcp d))"
    "one_line (tun_profile (di_tunnel d))" "one_line (tun_id (di_tunnel d))"
    "one_line (tun_health_host (di_tunnel d))"
    "r \<in> set (mcp_external_roots (di_mcp d)) \<Longrightarrow> one_line r"
    "f \<in> set (access_folders (di_access d)) \<Longrightarrow> one_line (af_path f) \<and> one_line (af_alias f)"
    "gh_config_dir (di_github d) = Some p \<Longrightarrow> one_line p"
    "gh_binary (di_github d) = Some p \<Longrightarrow> one_line p"
    "ag_ssh_auth_sock (di_agent d) = Some p \<Longrightarrow> one_line p"
  using assms
  by (auto simp: valid_instance_def valid_mcp_def valid_tunnel_def valid_access_def valid_folder_def
      valid_path_def valid_github_def valid_agent_def valid_opt_path_def agent_none_def list_all_iff
      intro: one_line_clean split: if_splits)

lemma one_line_names [line_simps]:
  "one_line iid \<Longrightarrow> one_line (owner_comment iid)" "one_line iid \<Longrightarrow> one_line (mcp_unit_name iid)"
  "one_line iid \<Longrightarrow> one_line (agent_unit_name iid)" "one_line iid \<Longrightarrow> one_line (guard_unit_name iid)"
  by (simp_all add: owner_comment_def owner_prefix_def mcp_unit_name_def agent_unit_name_def
      guard_unit_name_def line_simps)

lemma path_line_sock: "valid_instance d \<Longrightarrow> path_line (managed_ssh_auth_sock uid d)"
  by (simp add: managed_ssh_auth_sock_def managed_agent_runtime_dir_def line_simps)

lemma one_line_sock: "valid_instance d \<Longrightarrow> effective_ssh_auth_sock uid d = Some s \<Longrightarrow> one_line s"
  by (auto simp: effective_ssh_auth_sock_def path_line_str path_line_sock valid_lines
      split: agent_mode.splits)

lemma set_add_root [simp]: "set (add_root x roots) = insert x (set roots)"
  by (auto simp: add_root_def)

lemma set_fold_add_root: "set (fold (\<lambda>f. add_root (p f)) fs roots) = set roots \<union> p ` set fs"
  by (induction fs arbitrary: roots) auto

lemma roots_lines:
  assumes v: "valid_instance d" and r: "r \<in> set (effective_external_roots uid d)"
  shows "one_line r"
proof -
  from r consider "r \<in> set (mcp_external_roots (di_mcp d))"
    | f where "f \<in> set (access_folders (di_access d))" "r = af_path f"
    | "gh_config_dir (di_github d) = Some r"
    | s where "effective_ssh_auth_sock uid d = Some s" "r = path_str (path_parent (path_of s))"
    by (auto simp: effective_external_roots_def Let_def set_fold_add_root access_folders_def
        access_groups_def split: option.splits)
  then show ?thesis
    by cases (use v in \<open>auto simp: valid_lines line_simps dest: one_line_sock\<close>)
qed

lemma environment_lines_ok:
  assumes v: "valid_instance d" shows "list_all one_line (environment_lines uid d)"
proof -
  have "one_line (join_with '':'' (effective_external_roots uid d))"
    by (rule one_line_join) (simp_all add: line_simps roots_lines [OF v])
  moreover have "one_line (join_with '' '' managed_github_env_remove)"
    by (rule one_line_join) (auto simp: managed_github_env_remove_def line_simps)
  ultimately show ?thesis
    using v by (auto simp: environment_lines_def environment_line_def Let_def line_simps valid_lines
        dest: one_line_sock split: option.splits)
qed

lemma access_lines_ok:
  assumes "access_lines d = Inr ls" shows "list_all one_line ls"
proof -
  have b: "bind_line d fr = Inr l \<Longrightarrow> one_line l" for fr l
    by (auto simp: bind_line_def res_simps line_simps dest!: systemd_path_line)
  have n: "no_exec_line d f = Inr l \<Longrightarrow> one_line l" for f l
    by (auto simp: no_exec_line_def res_simps line_simps dest!: systemd_path_line)
  from assms show ?thesis
    by (auto simp: access_lines_def res_simps Let_def list_all_iff dest!: traverse_eq_InrD
        dest: b n)
qed

lemma exec_start_line: "valid_instance d \<Longrightarrow> one_line (mcp_exec_start d)"
  unfolding mcp_exec_start_def Let_def
  by (rule one_line_quoted) (auto simp: line_simps valid_lines)

lemma runtime_command_line:
  "valid_instance d \<Longrightarrow> clean_generator g \<Longrightarrow> one_line a \<Longrightarrow> one_line (runtime_command g d a)"
  unfolding runtime_command_def
  by (rule one_line_quoted) (auto simp: line_simps valid_lines clean_generator_def)

lemma tunnel_probe_line:
  "valid_instance d \<Longrightarrow> clean_generator g \<Longrightarrow> one_line (tunnel_probe g d)"
  unfolding tunnel_probe_def
  by (rule one_line_quoted) (auto simp: line_simps valid_lines clean_generator_def)

lemma mcp_unit_lines_ok:
  assumes "valid_instance d" and "mcp_unit_lines g d = Inr ls" shows "list_all one_line ls"
  using assms
  by (auto simp: mcp_unit_lines_def res_simps Let_def line_simps valid_lines environment_lines_ok
      access_lines_ok exec_start_line dest!: systemd_path_line)

lemma tunnel_unit_lines_ok:
  assumes "valid_instance d" and "clean_generator g" and "tunnel_unit_lines g d = Inr ls"
  shows "list_all one_line ls"
  using assms
  by (auto simp: tunnel_unit_lines_def res_simps Let_def line_simps valid_lines runtime_command_line
      tunnel_probe_line dest!: systemd_path_line)

lemma guard_unit_lines_ok:
  assumes "valid_instance d" and "clean_generator g" and "guard_unit_lines g d = Inr ls"
  shows "list_all one_line ls"
  using assms
  by (auto simp: guard_unit_lines_def res_simps Let_def line_simps valid_lines runtime_command_line
      dest!: systemd_path_line)

lemma agent_unit_lines_ok:
  assumes "valid_instance d" and "agent_unit_lines g d = Inr ls" shows "list_all one_line ls"
  using assms
  by (auto simp: agent_unit_lines_def res_simps Let_def line_simps valid_lines dest!: systemd_path_line)

lemma guard_timer_lines_ok: "valid_instance d \<Longrightarrow> list_all one_line (guard_timer_lines d)"
  by (simp add: guard_timer_lines_def Let_def line_simps valid_lines)

lemma profile_lines_ok: "valid_instance d \<Longrightarrow> list_all one_line (profile_lines d)"
  by (simp add: profile_lines_def line_simps valid_lines)

lemma launcher_lines_ok:
  "valid_instance d \<Longrightarrow> clean_generator g \<Longrightarrow> list_all one_line (launcher_lines g d)"
  by (simp add: launcher_lines_def Let_def line_simps valid_lines clean_generator_def)

lemma helper_lines_ok:
  assumes "valid_instance d" and "clean_generator g" and "helper_lines g d = Inr ls"
  shows "list_all one_line ls"
proof -
  have "one_line (join_with '' '' managed_github_env_remove)"
    by (rule one_line_join) (auto simp: managed_github_env_remove_def line_simps)
  with assms show ?thesis
    by (auto simp: helper_lines_def Let_def line_simps valid_lines clean_generator_def split: option.splits)
qed

lemma lines_of_text:
  "ls \<noteq> [] \<Longrightarrow> list_all one_line ls \<Longrightarrow> split_on CHR 0x0A (lines_text ls) = ls"
  unfolding lines_text_def newline_def by (rule split_join) (auto simp: list_all_iff one_line_def)

section \<open>Identifiers\<close>

lemma distinct_map_determines:
  "distinct (map g xs) \<Longrightarrow> (\<And>x y. x \<in> set xs \<Longrightarrow> y \<in> set xs \<Longrightarrow> h x = h y \<Longrightarrow> g x = g y) \<Longrightarrow>
    distinct (map h xs)"
  unfolding distinct_map inj_on_def by blast

lemma mounts_alt:
  "mounts d = map (\<lambda>f. (f, ''ro'')) (ac_read_only (di_access d)) @
     map (\<lambda>f. (f, ''rx'')) (ac_read_execute (di_access d)) @
     map (\<lambda>f. (f, ''rw'')) (ac_read_write (di_access d)) @
     map (\<lambda>f. (f, ''rwx'')) (ac_read_write_execute (di_access d))"
  by (simp add: mounts_def access_groups_def)

definition mode_names :: "string set" where
  "mode_names = {''ro'', ''rx'', ''rw'', ''rwx''}"

lemma mount_modes: "x \<in> set (mounts d) \<Longrightarrow> snd x \<in> mode_names"
  by (auto simp: mounts_alt mode_names_def)

lemma map_fst_mounts: "map fst (mounts d) = access_folders (di_access d)"
  by (simp add: mounts_alt access_folders_def access_groups_def comp_def)

lemma mount_id_alias:
  "m \<in> mode_names \<Longrightarrow> m' \<in> mode_names \<Longrightarrow> mount_id m f = mount_id m' f' \<Longrightarrow> af_alias f = af_alias f'"
  by (auto simp: mount_id_def mode_names_def)

lemma distinct_aliases:
  assumes "valid_instance d" shows "distinct (map af_alias (access_folders (di_access d)))"
proof -
  have "distinct (map normalized_alias (access_folders (di_access d)))"
    using assms by (simp add: valid_instance_def valid_access_def)
  then show ?thesis
    by (rule distinct_map_determines) (simp add: normalized_alias_def)
qed

lemma distinct_mount_ids:
  assumes "valid_instance d" shows "distinct (map (\<lambda>(f, mode). mount_id mode f) (mounts d))"
proof -
  have "distinct (map (\<lambda>x. af_alias (fst x)) (mounts d))"
    using distinct_aliases [OF assms] by (simp add: map_fst_mounts [symmetric] comp_def)
  then show ?thesis
  proof (rule distinct_map_determines)
    fix x y assume x: "x \<in> set (mounts d)" and y: "y \<in> set (mounts d)"
    assume "(case x of (f, mode) \<Rightarrow> mount_id mode f) = (case y of (f, mode) \<Rightarrow> mount_id mode f)"
    then have "mount_id (snd x) (fst x) = mount_id (snd y) (fst y)" by (simp only: case_prod_beta)
    then show "af_alias (fst x) = af_alias (fst y)"
      by (rule mount_id_alias [OF mount_modes [OF x] mount_modes [OF y]])
  qed
qed

definition fixed_ids :: "string list" where
  "fixed_ids = [''state-dir'', ''state-owner'', ''tunnel-profile-dir'', ''tunnel-profile'', ''launcher'',
     ''mcp-unit'', ''tunnel-unit'', ''github-profile-root'', ''github-profile-dir'',
     ''github-profile-owner'', ''github-cli-helper'', ''ssh-agent-unit'', ''access-root'',
     ''access-owner'', ''access-ignore'', ''admission-guard-unit'', ''admission-guard-timer'']"

lemma mount_not_fixed: "m \<in> mode_names \<Longrightarrow> mount_id m f \<notin> set fixed_ids"
  by (auto simp: mount_id_def fixed_ids_def mode_names_def)

lemma mk_resource_sel [simp]:
  "r_id (mk_resource i k p m) = i" "r_kind (mk_resource i k p m) = k"
  "r_path (mk_resource i k p m) = p" "r_mode (mk_resource i k p m) = m"
  "r_content (mk_resource i k p m) = None" "r_token (mk_resource i k p m) = None"
  "r_marker_path (mk_resource i k p m) = None" "r_unit (mk_resource i k p m) = None"
  "r_enable (mk_resource i k p m) = False" "r_active (mk_resource i k p m) = False"
  "r_remove (mk_resource i k p m) = True"
  by (simp_all add: mk_resource_def)

lemmas resource_defs = owned_dir_def owned_file_def unit_resource_def

lemma group_ids:
  "map r_id (base_resources g d) = [''state-dir'', ''state-owner'', ''tunnel-profile-dir'', ''tunnel-profile'', ''launcher'']"
  "core_units g d = Inr rs \<Longrightarrow> map r_id rs = [''mcp-unit'', ''tunnel-unit'']"
  "github_resources g d = Inr rs \<Longrightarrow> map r_id rs \<in> {[], [''github-profile-root'', ''github-profile-dir'', ''github-profile-owner'']}"
  "helper_resources g d = Inr rs \<Longrightarrow> map r_id rs \<in> {[], [''github-cli-helper'']}"
  "agent_resources g d = Inr rs \<Longrightarrow> map r_id rs \<in> {[], [''ssh-agent-unit'']}"
  "guard_resources g d = Inr rs \<Longrightarrow> map r_id rs \<in> {[], [''admission-guard-unit'', ''admission-guard-timer'']}"
  by (auto simp: base_resources_def core_units_def github_resources_def helper_resources_def
      agent_resources_def guard_resources_def resource_defs Let_def res_simps
      split: if_splits option.splits)

lemma access_ids:
  "map r_id (access_resources d) =
    (if mounts d = [] then []
     else [''access-root'', ''access-owner'', ''access-ignore''] @ map (\<lambda>(f, mode). mount_id mode f) (mounts d))"
  by (simp add: access_resources_def resource_defs Let_def comp_def case_prod_beta)

lemma mount_ids_not_fixed:
  "set (map (\<lambda>(f, mode). mount_id mode f) (mounts d)) \<inter> set fixed_ids = {}"
proof -
  have "(case x of (f, mode) \<Rightarrow> mount_id mode f) \<notin> set fixed_ids" if "x \<in> set (mounts d)" for x
    using mount_not_fixed [OF mount_modes [OF that], of "fst x"] by (simp only: case_prod_beta) simp
  then show ?thesis unfolding set_map by blast
qed

lemma access_head_ids:
  "set [''access-root'', ''access-owner'', ''access-ignore''] \<subseteq> set fixed_ids"
  "distinct [''access-root'', ''access-owner'', ''access-ignore'']"
  by (simp_all add: fixed_ids_def)

lemma distinct_access_ids:
  assumes "valid_instance d" shows "distinct (map r_id (access_resources d))"
proof (cases "mounts d = []")
  case False
  then show ?thesis
    unfolding access_ids if_not_P [OF False] distinct_append
    using distinct_mount_ids [OF assms] mount_ids_not_fixed [of d] access_head_ids by blast
qed (simp add: access_ids)

definition plain_list :: "string list" where
  "plain_list = [''state-dir'', ''state-owner'', ''tunnel-profile-dir'', ''tunnel-profile'', ''launcher''] @
     [''mcp-unit'', ''tunnel-unit''] @
     [''github-profile-root'', ''github-profile-dir'', ''github-profile-owner''] @
     [''github-cli-helper''] @ [''ssh-agent-unit''] @ [''admission-guard-unit'', ''admission-guard-timer'']"

lemma distinct_plain_list: "distinct plain_list"
  by (simp add: plain_list_def)

definition plain_ids :: "string set" where
  "plain_ids = set plain_list"

lemma plain_ids_fixed:
  "plain_ids \<subseteq> set fixed_ids" "set [''access-root'', ''access-owner'', ''access-ignore''] \<inter> plain_ids = {}"
  by (simp_all add: plain_ids_def plain_list_def fixed_ids_def)

lemma access_ids_not_plain: "set (map r_id (access_resources d)) \<inter> plain_ids = {}"
proof (cases "mounts d = []")
  case False
  then show ?thesis
    unfolding access_ids if_not_P [OF False] set_append
    using mount_ids_not_fixed [of d] plain_ids_fixed by blast
qed (simp add: access_ids)

lemma all_resources_groups:
  assumes "all_resources g d = Inr rs"
  obtains units github helper agent guard where
    "core_units g d = Inr units" "github_resources g d = Inr github" "helper_resources g d = Inr helper"
    "agent_resources g d = Inr agent" "guard_resources g d = Inr guard"
    "rs = base_resources g d @ units @ github @ helper @ agent @ access_resources d @ guard"
  using assms by (auto simp: all_resources_def res_simps)

lemma subseq_distinct_set: "subseq xs ys \<Longrightarrow> distinct ys \<Longrightarrow> distinct xs \<and> set xs \<subseteq> set ys"
proof (induction rule: list_emb.induct)
  case (list_emb_Cons2 x y xs ys)
  then show ?case by auto
qed auto

lemma distinct_insert_middle:
  "distinct (xs @ zs) \<Longrightarrow> distinct ys \<Longrightarrow> set ys \<inter> set (xs @ zs) = {} \<Longrightarrow> distinct (xs @ ys @ zs)"
  by auto

lemma all_ids_distinct:
  assumes v: "valid_instance d" and a: "all_resources g d = Inr rs"
  shows "distinct (map r_id rs)"
proof -
  from a obtain units github helper agent guard where
    c: "core_units g d = Inr units" and h: "github_resources g d = Inr github"
    and p: "helper_resources g d = Inr helper" and ag: "agent_resources g d = Inr agent"
    and gd: "guard_resources g d = Inr guard"
    and rs: "rs = base_resources g d @ units @ github @ helper @ agent @ access_resources d @ guard"
    by (rule all_resources_groups)
  note ids = group_ids(1) [of g d] group_ids(2) [OF c] group_ids(3) [OF h] group_ids(4) [OF p]
    group_ids(5) [OF ag] group_ids(6) [OF gd]
  let ?fixed = "map r_id (base_resources g d) @ map r_id units @ map r_id github @ map r_id helper @
      map r_id agent @ map r_id guard"
  have i1: "map r_id (base_resources g d) \<in> {[], [''state-dir'', ''state-owner'', ''tunnel-profile-dir'',
      ''tunnel-profile'', ''launcher'']}" and i2: "map r_id units \<in> {[], [''mcp-unit'', ''tunnel-unit'']}"
    by (simp_all only: ids(1,2) insert_iff simp_thms)
  have sub: "xs \<in> {[], ys} \<Longrightarrow> subseq xs ys" for xs ys :: "string list" by auto
  have "subseq ?fixed plain_list"
    unfolding plain_list_def
    by (rule list_emb_append_mono [OF sub [OF i1] list_emb_append_mono [OF sub [OF i2]
          list_emb_append_mono [OF sub [OF ids(3)] list_emb_append_mono [OF sub [OF ids(4)]
          list_emb_append_mono [OF sub [OF ids(5)] sub [OF ids(6)]]]]]])
  then have "distinct ?fixed \<and> set ?fixed \<subseteq> plain_ids"
    using subseq_distinct_set [OF _ distinct_plain_list] unfolding plain_ids_def by blast
  then have f: "distinct ?fixed" and "set (map r_id (access_resources d)) \<inter> set ?fixed = {}"
    using access_ids_not_plain [of d] by blast+
  then show ?thesis
    using distinct_insert_middle [of "map r_id (base_resources g d) @ map r_id units @ map r_id github @
        map r_id helper @ map r_id agent" "map r_id guard", OF _ distinct_access_ids [OF v]] f
    by (simp only: rs map_append append_assoc)
qed

lemma apply_policy_sel [simp]:
  "r_id (apply_policy p r) = r_id r" "r_token (apply_policy p r) = r_token r"
  "r_content (apply_policy p r) = r_content r" "r_marker_path (apply_policy p r) = r_marker_path r"
  "r_remove (apply_policy p r) = r_remove r" "r_path (apply_policy p r) = r_path r"
  "r_unit (apply_policy p r) = r_unit r" "r_kind (apply_policy p r) = r_kind r"
  "r_mode (apply_policy p r) = r_mode r" "r_active (apply_policy p r) = r_active r"
  by (simp_all add: apply_policy_def split: option.splits)

lemma generate_resources:
  assumes "generate H g fs d = Inr b"
  obtains rs p where "all_resources g d = Inr rs" and "b_resources b = map (apply_policy p) rs"
    and "b_instance b = di_id d" and "b_fingerprint b = fingerprint H d"
proof -
  from assms obtain rs policy where rs: "all_resources g d = Inr rs"
    and b: "b_resources b = (case policy of None \<Rightarrow> rs | Some p \<Rightarrow> map (apply_policy p) rs)"
      "b_instance b = di_id d" "b_fingerprint b = fingerprint H d"
    by (auto simp: generate_def res_simps)
  have "map (apply_policy []) rs = rs"
    by (rule map_idI) (simp add: apply_policy_def split: option.splits)
  with b(1) have "b_resources b = map (apply_policy (case policy of None \<Rightarrow> [] | Some p \<Rightarrow> p)) rs"
    by (simp split: option.splits)
  with rs b that show ?thesis by blast
qed

lemma generated_ids:
  assumes "valid_instance d" and "generate H g fs d = Inr b"
  shows "distinct (map r_id (b_resources b))"
  using assms(2)
proof (rule generate_resources)
  fix rs p assume "all_resources g d = Inr rs" "b_resources b = map (apply_policy p) rs"
  with all_ids_distinct [OF assms(1)] show ?thesis by (simp add: comp_def)
qed

section \<open>Evidence of the owner\<close>

text \<open>
  A resource is evidenced in a bundle when its own content names the owner, or the file its
  marker path names is a resource of the bundle whose content does.
\<close>

definition names_owner :: "string \<Rightarrow> resource \<Rightarrow> bool" where
  "names_owner marker r \<longleftrightarrow> (\<exists>c. r_content r = Some c \<and> contains marker c)"

definition evidenced :: "string \<Rightarrow> resource list \<Rightarrow> resource \<Rightarrow> bool" where
  "evidenced marker rs r \<longleftrightarrow>
     r_token r = Some marker \<and>
     (case r_marker_path r of
        None \<Rightarrow> names_owner marker r
      | Some p \<Rightarrow> (\<exists>r' \<in> set rs. r_path r' = p \<and> names_owner marker r'))"

lemma contains_marker: "contains (owner_prefix @ iid) (owner_comment iid)"
  unfolding owner_comment_def by (rule contains_append2) simp

lemma contains_lines: "l \<in> set ls \<Longrightarrow> contains p l \<Longrightarrow> contains p (lines_text ls)"
proof (induction ls)
  case (Cons x ls)
  then show ?case
    by (cases ls) (auto simp: lines_text_def intro: contains_append1 contains_append2)
qed simp

lemma content_marker:
  "contains (owner_prefix @ di_id d) (lines_text (profile_lines d))"
  "contains (owner_prefix @ di_id d) (lines_text (launcher_lines g d))"
  "contains (owner_prefix @ di_id d) (lines_text (guard_timer_lines d))"
  "mcp_unit_lines g d = Inr ls \<Longrightarrow> contains (owner_prefix @ di_id d) (lines_text ls)"
  "tunnel_unit_lines g d = Inr ls \<Longrightarrow> contains (owner_prefix @ di_id d) (lines_text ls)"
  "guard_unit_lines g d = Inr ls \<Longrightarrow> contains (owner_prefix @ di_id d) (lines_text ls)"
  "agent_unit_lines g d = Inr ls \<Longrightarrow> contains (owner_prefix @ di_id d) (lines_text ls)"
  "helper_lines g d = Inr ls \<Longrightarrow> contains (owner_prefix @ di_id d) (lines_text ls)"
  by (rule contains_lines [OF _ contains_marker];
      force simp: profile_lines_def launcher_lines_def guard_timer_lines_def mcp_unit_lines_def
        tunnel_unit_lines_def guard_unit_lines_def agent_unit_lines_def helper_lines_def Let_def
        res_simps split: option.splits)+

lemma contains_owner_file: "contains (owner_prefix @ iid) (owner_prefix @ iid @ newline)"
  using contains_append1 [OF contains_refl, of "owner_prefix @ iid" newline] by simp

lemma all_evidenced:
  assumes a: "all_resources g d = Inr rs" and r: "r \<in> set rs" and t: "r_remove r \<or> r_token r \<noteq> None"
  shows "evidenced (owner_prefix @ di_id d) rs r"
proof -
  from a obtain units github helper agent guard where
    c: "core_units g d = Inr units" and h: "github_resources g d = Inr github"
    and p: "helper_resources g d = Inr helper" and ag: "agent_resources g d = Inr agent"
    and gd: "guard_resources g d = Inr guard"
    and rs: "rs = base_resources g d @ units @ github @ helper @ agent @ access_resources d @ guard"
    by (rule all_resources_groups)
  let ?m = "owner_prefix @ di_id d"
  have step: "evidenced ?m rs r" if "evidenced ?m xs r" "set xs \<subseteq> set rs" for xs
    using that by (auto simp: evidenced_def split: option.splits)
  have 1: "r \<in> set (base_resources g d) \<Longrightarrow> evidenced ?m (base_resources g d) r"
    using t content_marker(1-3) [of d] content_marker(2) [of d g] contains_owner_file
    by (auto simp: base_resources_def Let_def resource_defs evidenced_def names_owner_def)
  have 2: "r \<in> set units \<Longrightarrow> evidenced ?m units r"
    using c content_marker(4,5) [of g d]
    by (auto simp: core_units_def Let_def res_simps resource_defs evidenced_def names_owner_def)
  have 3: "r \<in> set github \<Longrightarrow> evidenced ?m github r"
    using h t contains_owner_file
    by (auto simp: github_resources_def Let_def resource_defs evidenced_def names_owner_def
        split: if_splits option.splits)
  have 4: "r \<in> set helper \<Longrightarrow> evidenced ?m helper r"
    using p content_marker(8) [of g d]
    by (auto simp: helper_resources_def res_simps resource_defs evidenced_def names_owner_def
        split: if_splits)
  have 5: "r \<in> set agent \<Longrightarrow> evidenced ?m agent r"
    using ag content_marker(7) [of g d]
    by (auto simp: agent_resources_def res_simps resource_defs evidenced_def names_owner_def
        split: if_splits)
  have 6: "r \<in> set (access_resources d) \<Longrightarrow> evidenced ?m (access_resources d) r"
    using contains_owner_file
    by (auto simp: access_resources_def Let_def resource_defs evidenced_def names_owner_def
        split: if_splits)
  have 7: "r \<in> set guard \<Longrightarrow> evidenced ?m guard r"
    using gd content_marker(3) [of d] content_marker(6) [of g d]
    by (auto simp: guard_resources_def Let_def res_simps resource_defs evidenced_def names_owner_def
        split: if_splits)
  from r 1 2 3 4 5 6 7 step show ?thesis
    unfolding rs by fastforce
qed

lemma evidenced_policy:
  "evidenced m rs r \<Longrightarrow> evidenced m (map (apply_policy p) rs) (apply_policy p r)"
  by (auto simp: evidenced_def names_owner_def split: option.splits)

lemma generated_evidenced:
  assumes "generate H g fs d = Inr b" and "r \<in> set (b_resources b)" and "r_remove r \<or> r_token r \<noteq> None"
  shows "evidenced (owner_prefix @ di_id d) (b_resources b) r"
  using assms(1)
proof (rule generate_resources)
  fix rs p assume a: "all_resources g d = Inr rs" and b: "b_resources b = map (apply_policy p) rs"
  with assms(2) obtain r0 where r0: "r0 \<in> set rs" "r = apply_policy p r0" by auto
  with assms(3) have "r_remove r0 \<or> r_token r0 \<noteq> None" by simp
  from evidenced_policy [OF all_evidenced [OF a r0(1) this], of p] r0 b show ?thesis by simp
qed

section \<open>A concrete bundle\<close>

definition sample_paths :: manager_paths where
  "sample_paths = \<lparr>account_home = path_of ''/h'', config_root = path_of ''/h/c'',
     registry_dir = path_of ''/h/c/i'', state_root = path_of ''/h/s'', user_unit_dir = path_of ''/h/u'',
     tunnel_profile_dir = path_of ''/h/c/t'', manager_executable = path_of ''/h/b/m''\<rparr>"

definition sample_generator :: generator where
  "sample_generator = \<lparr>gen_paths = sample_paths, gen_curl = ''/usr/bin/curl'', gen_uid = 1000\<rparr>"

lemma sample_clean: "clean_generator sample_generator"
  by code_simp

lemma sample_systemd_paths:
  "\<not> is_err (systemd_path ''/w'')" "\<not> is_err (systemd_path ''/d'')" "\<not> is_err (systemd_path ''/h'')"
  "\<not> is_err (systemd_path (path_str (path_div (access_root sample_instance) ''docs'')))"
  "\<not> is_err (systemd_path (path_str (path_div (state_dir sample_paths ''a-1'') ''mcp.log'')))"
  "\<not> is_err (systemd_path (path_str (path_div (state_dir sample_paths ''a-1'') ''tunnel-supervisor.log'')))"
  "\<not> is_err (systemd_path (path_str (path_div (state_dir sample_paths ''a-1'') ''admission-guard.log'')))"
  by code_simp+

lemma not_is_errD: "\<not> is_err r \<Longrightarrow> \<exists>x. r = Inr x"
  by (cases r) (auto simp: is_err_def)

lemma sample_id: "di_id sample_instance = ''a-1''"
  by (simp add: sample_instance_def)

lemma rbind_ok: "\<exists>x. m = Inr x \<Longrightarrow> (\<And>x. \<exists>y. f x = Inr y) \<Longrightarrow> \<exists>y. rbind m f = Inr y"
  by auto

lemma sample_lines:
  "\<exists>ls. mcp_unit_lines sample_generator sample_instance = Inr ls"
  "\<exists>ls. tunnel_unit_lines sample_generator sample_instance = Inr ls"
  "\<exists>ls. guard_unit_lines sample_generator sample_instance = Inr ls"
proof -
  note ok = sample_systemd_paths [THEN not_is_errD]
  have ac: "di_access sample_instance = sample_access" "di_workspace sample_instance = ''/w''"
    by (simp_all add: sample_instance_def)
  have h: "path_str (account_home sample_paths) = ''/h''" by code_simp
  have "\<exists>ls. access_lines sample_instance = Inr ls"
    using ok(2,4) by (auto simp: access_lines_def bind_line_def no_exec_line_def ac sample_access_def
        sample_folder_def)
  moreover have "\<exists>t. systemd_path (di_workspace sample_instance) = Inr t" using ok(1) ac by simp
  ultimately show "\<exists>ls. mcp_unit_lines sample_generator sample_instance = Inr ls"
    unfolding mcp_unit_lines_def Let_def using ok(5)
    by (intro rbind_ok) (simp_all add: sample_id sample_generator_def)
  show "\<exists>ls. tunnel_unit_lines sample_generator sample_instance = Inr ls"
    unfolding tunnel_unit_lines_def Let_def using ok(3,6)
    by (intro rbind_ok) (simp_all add: sample_id sample_generator_def h)
  show "\<exists>ls. guard_unit_lines sample_generator sample_instance = Inr ls"
    unfolding guard_unit_lines_def Let_def using ok(7)
    by (intro rbind_ok) (simp_all add: sample_id sample_generator_def)
qed

lemma sample_resources: "\<exists>rs. all_resources sample_generator sample_instance = Inr rs"
proof -
  have "\<not> managed_github sample_instance" "\<not> uses_https_gh sample_instance" "\<not> managed_agent sample_instance"
    by code_simp+
  moreover obtain us where "core_units sample_generator sample_instance = Inr us"
    using sample_lines(1,2) by (auto simp: core_units_def Let_def)
  moreover have "\<exists>gs. guard_resources sample_generator sample_instance = Inr gs"
    using sample_lines(3) by (auto simp: guard_resources_def Let_def)
  ultimately show ?thesis
    by (auto simp: all_resources_def github_resources_def helper_resources_def agent_resources_def)
qed

lemma sample_generate: "\<exists>b. generate H sample_generator [] sample_instance = Inr b"
proof -
  obtain rs where "all_resources sample_generator sample_instance = Inr rs"
    using sample_resources by blast
  moreover have "import_policy sample_generator [] (di_id sample_instance) = Inr None"
    by code_simp
  ultimately show ?thesis by (simp add: generate_def)
qed

section \<open>Properties\<close>

text \<open>systemd reads every quoted argument back as the value that was quoted, whatever
  percent signs, backslashes and quotes it contains.\<close>

theorem systemd_quote_read_back:
  "systemd_unquote (systemd_quote v) = Some v"
  by (rule systemd_unquote_quote)

text \<open>C33: no value of a valid declaration can add, split or remove a line of a generated file:
  the lines of the text written are the lines the renderer listed, for every unit, the profile,
  the launcher and the credential helper.\<close>

theorem generated_text_has_listed_lines:
  assumes "valid_instance d" and "clean_generator g"
  shows "split_on CHR 0x0A (lines_text (launcher_lines g d)) = launcher_lines g d \<and>
    split_on CHR 0x0A (lines_text (profile_lines d)) = profile_lines d \<and>
    split_on CHR 0x0A (lines_text (guard_timer_lines d)) = guard_timer_lines d \<and>
    (\<forall>ls. Inr ls \<in> {mcp_unit_lines g d, tunnel_unit_lines g d, guard_unit_lines g d,
        agent_unit_lines g d, helper_lines g d} \<longrightarrow>
      split_on CHR 0x0A (lines_text ls) = ls)"
proof -
  have ne: "launcher_lines g d \<noteq> []" "profile_lines d \<noteq> []" "guard_timer_lines d \<noteq> []"
    by (simp_all add: launcher_lines_def profile_lines_def guard_timer_lines_def Let_def)
  have "ls \<noteq> [] \<and> list_all one_line ls" if "Inr ls \<in> {mcp_unit_lines g d, tunnel_unit_lines g d,
      guard_unit_lines g d, agent_unit_lines g d, helper_lines g d}" for ls
  proof
    have "mcp_unit_lines g d \<noteq> Inr []" "tunnel_unit_lines g d \<noteq> Inr []" "guard_unit_lines g d \<noteq> Inr []"
      "agent_unit_lines g d \<noteq> Inr []" "helper_lines g d \<noteq> Inr []"
      by (auto simp: mcp_unit_lines_def tunnel_unit_lines_def guard_unit_lines_def agent_unit_lines_def
          helper_lines_def Let_def res_simps split: option.splits)
    with that show "ls \<noteq> []" by auto
    from that show "list_all one_line ls"
      using mcp_unit_lines_ok [OF assms(1), of g ls] tunnel_unit_lines_ok [OF assms, of ls]
        guard_unit_lines_ok [OF assms, of ls] agent_unit_lines_ok [OF assms(1), of g ls]
        helper_lines_ok [OF assms, of ls] by auto
  qed
  then show ?thesis
    using lines_of_text [OF ne(1) launcher_lines_ok [OF assms]] lines_of_text [OF ne(2) profile_lines_ok [OF assms(1)]]
      lines_of_text [OF ne(3) guard_timer_lines_ok [OF assms(1)]] lines_of_text by blast
qed

theorem generated_text_has_listed_lines_witness:
  "\<exists>ls. mcp_unit_lines sample_generator sample_instance = Inr ls \<and> split_on CHR 0x0A (lines_text ls) = ls"
proof -
  obtain ls where "mcp_unit_lines sample_generator sample_instance = Inr ls"
    using sample_lines(1) by blast
  with generated_text_has_listed_lines [OF sample_valid sample_clean] show ?thesis by auto
qed

text \<open>the identifiers of the resources generated for a valid declaration are distinct, so
  that applied state can be keyed by them.\<close>

theorem generated_ids_distinct:
  assumes "valid_instance d" and "generate H g fs d = Inr b"
  shows "distinct (map r_id (b_resources b))"
  by (rule generated_ids [OF assms])

theorem generated_ids_distinct_witness:
  "\<exists>b. generate rev sample_generator [] sample_instance = Inr b \<and> distinct (map r_id (b_resources b))"
  using generated_ids_distinct [OF sample_valid, of rev sample_generator "[]"] sample_generate by blast

text \<open>C34: everything a bundle may ever remove carries the owner's token, and the evidence is part
  of the bundle: the resource's own content names the owner, or the marker file it points to is a
  generated file whose content does.\<close>

theorem removable_resources_evidenced:
  assumes "generate H g fs d = Inr b" and "r \<in> set (b_resources b)" and "r_remove r"
  shows "r_token r = Some (owner_prefix @ di_id d) \<and>
    (case r_marker_path r of
       None \<Rightarrow> \<exists>c. r_content r = Some c \<and> contains (owner_prefix @ di_id d) c
     | Some p \<Rightarrow> \<exists>r' \<in> set (b_resources b). r_path r' = p \<and>
         (\<exists>c. r_content r' = Some c \<and> contains (owner_prefix @ di_id d) c))"
  using generated_evidenced [OF assms(1,2)] assms(3)
  unfolding evidenced_def names_owner_def by blast

theorem removable_resources_evidenced_witness:
  "\<exists>b r. generate rev sample_generator [] sample_instance = Inr b \<and> r \<in> set (b_resources b) \<and>
     r_id r = ''state-dir'' \<and> r_token r = Some (owner_prefix @ ''a-1'')"
proof -
  obtain b where b: "generate rev sample_generator [] sample_instance = Inr b"
    using sample_generate by blast
  then obtain rs p where rs: "all_resources sample_generator sample_instance = Inr rs"
    "b_resources b = map (apply_policy p) rs" by (rule generate_resources)
  from rs(1) obtain zs where "rs = base_resources sample_generator sample_instance @ zs"
    by (rule all_resources_groups) auto
  then have "hd (base_resources sample_generator sample_instance) \<in> set rs"
    by (simp add: base_resources_def Let_def)
  moreover have "r_id (hd (base_resources sample_generator sample_instance)) = ''state-dir''"
    "r_remove (hd (base_resources sample_generator sample_instance))"
    by (simp_all add: base_resources_def Let_def resource_defs)
  ultimately obtain r where r: "r \<in> set rs" "r_id r = ''state-dir''" "r_remove r" by blast
  let ?r = "apply_policy p r"
  have m: "?r \<in> set (b_resources b)" using rs(2) r(1) by simp
  have "r_token ?r = Some (owner_prefix @ ''a-1'')"
    using removable_resources_evidenced [OF b m] r(3) by (simp only: apply_policy_sel sample_id)
  with b m r(2) show ?thesis by (metis apply_policy_sel(1))
qed

end
