(* ===== verification/Applied.thy ===== *)
theory Applied
  imports Generation_Props
begin

text \<open>
  What the manager reads of the host (paths, texts) and the resources an earlier apply left
  behind: the applied state file is evidence of what was installed, and an obsolete access,
  admission-guard or development resource is only returned when that evidence, and for units
  the installed file, agree (access.py, admission_recovery.py).

  An entry whose identity is a JSON array or object, which Python cannot look up in a set,
  counts as one that is not listed.
\<close>

section \<open>Answers of the host\<close>

datatype file_type = T_DIR | T_REG | T_LINK | T_SOCK | T_OTHER

text \<open>\<open>stat\<close> and \<open>lstat\<close>; the mode is the permission part. The texts are the exceptions'.\<close>

datatype stat_result = StatMissing | StatDenied | StatError string | StatOk file_type nat

datatype text_result =
    TextMissing string | TextDenied string | TextUndecodable | TextError string | TextOk string

record host =
  h_lstat :: "ppath \<Rightarrow> stat_result"
  h_stat :: "ppath \<Rightarrow> stat_result"
  h_text :: "ppath \<Rightarrow> text_result"
  h_executable :: "ppath \<Rightarrow> bool"
  h_writable :: "ppath \<Rightarrow> bool"
  h_unit_show :: "string \<Rightarrow> proc_result"
  h_unit_list :: proc_result
  h_unit_cat :: "string \<Rightarrow> proc_result"
  h_unit_exec :: "string \<Rightarrow> proc_result"
  h_listeners :: proc_result
  h_entries :: "ppath \<Rightarrow> string list option"

section \<open>The applied state file\<close>

definition applied_path :: "manager_paths \<Rightarrow> string \<Rightarrow> ppath" where
  "applied_path ps iid = path_div (path_div (state_root ps) ''applied'') (iid @ ''.json'')"

definition path_detail :: "ppath \<Rightarrow> (string \<times> json) list" where
  "path_detail p = [(''path'', JStr (path_str p))]"

text \<open>The header checks shared by both readers.\<close>

definition applied_owned :: "string \<Rightarrow> json \<Rightarrow> json res" where
  "applied_owned iid payload =
     (case payload of
        JObj _ \<Rightarrow>
          require (eq_int (jget_or_null payload ''schema_version'') 1)
            (conflict_error ''unsupported applied ownership schema'' [])
          (require (jget payload ''instance_id'' = Some (JStr iid))
            (conflict_error ''applied ownership instance identity mismatch'' [])
          (Inr (jget_or_null payload ''owned_resources'')))
      | _ \<Rightarrow> Inl (conflict_error ''applied ownership state must be an object'' []))"

definition is_str :: "json \<Rightarrow> bool" where
  "is_str v \<longleftrightarrow> as_str v \<noteq> None"

definition is_obj :: "json \<Rightarrow> bool" where
  "is_obj v \<longleftrightarrow> as_obj v \<noteq> None"

definition load_applied :: "manager_paths \<Rightarrow> host \<Rightarrow> desired_instance \<Rightarrow> json list res" where
  "load_applied ps h d =
     (let path = applied_path ps (di_id d);
          unreadable = conflict_error
            ''cannot safely read applied ownership state for admission-guard cleanup'' (path_detail path)
      in case h_text h path of
           TextMissing _ \<Rightarrow> Inr []
         | TextOk t \<Rightarrow>
             (case loads t of
                None \<Rightarrow> Inl unreadable
              | Some payload \<Rightarrow>
                  rbind (applied_owned (di_id d) payload) (\<lambda>owned.
                  case owned of
                    JArr items \<Rightarrow>
                      require (list_all is_obj items)
                        (conflict_error ''applied ownership resources are malformed'' []) (Inr items)
                  | _ \<Rightarrow> Inl (conflict_error ''applied ownership resources are malformed'' [])))
         | _ \<Rightarrow> Inl unreadable)"

section \<open>Obsolete access resources\<close>

definition access_prefixes :: "string list" where
  "access_prefixes = [''access-ro-'', ''access-rw-'', ''access-rx-'', ''access-rwx-'']"

definition is_access_id :: "string \<Rightarrow> bool" where
  "is_access_id rid \<longleftrightarrow>
     rid \<in> set [''access-root'', ''access-owner'', ''access-ignore''] \<or>
     list_ex (\<lambda>p. prefix p rid) access_prefixes"

definition check_alias :: "string \<Rightarrow> string res" where
  "check_alias alias =
     require (clean_text alias)
       (config_error ''access alias must be a non-empty single-line string'' [])
     (require (access_alias_re alias)
       (config_error ''access alias must use letters, digits, and single hyphens or underscores'' [])
     (Inr (replace_char CHR ''-'' ''_'' (lower_string alias))))"

definition access_resource_for :: "desired_instance \<Rightarrow> string \<Rightarrow> resource res" where
  "access_resource_for d rid =
     (let marker = owner_prefix @ di_id d; root = access_root d; owner = path_str (path_div root ''.owner'')
      in if rid = ''access-root'' then Inr (owned_dir marker rid (path_str root) owner)
         else if rid = ''access-owner''
         then Inr (owned_file marker rid FILE owner 384 (owner_prefix @ di_id d @ newline))
         else if rid = ''access-ignore''
         then Inr ((owned_file marker rid FILE (path_str (path_div root ''.gitignore'')) 384 (''*'' @ newline))
                     \<lparr>r_marker_path := Some owner\<rparr>)
         else
           (case find (\<lambda>p. prefix p rid) access_prefixes of
              None \<Rightarrow> Inl (conflict_error ''unsupported applied access resource'' [])
            | Some p \<Rightarrow>
                let alias = drop (length p) rid
                in rbind (check_alias alias) (\<lambda>_.
                   Inr (owned_dir marker rid (path_str (path_div root alias)) owner))))"

definition reconstruct_access :: "(string \<Rightarrow> string) \<Rightarrow> desired_instance \<Rightarrow> json \<Rightarrow> resource res" where
  "reconstruct_access H d entry =
     (case jget entry ''resource_id'' of
        Some (JStr rid) \<Rightarrow>
          require (is_access_id rid) (conflict_error ''invalid applied access resource identity'' [])
          (case (jget entry ''path'', jget entry ''fingerprint'') of
             (Some (JStr path), Some (JStr fp)) \<Rightarrow>
               rbind (access_resource_for d rid) (\<lambda>r.
               require (r_path r = path)
                 (conflict_error ''applied access resource path is outside the current managed namespace''
                    [(''resource_id'', JStr rid), (''path'', JStr path)])
               (require (resource_fingerprint H r = fp)
                 (conflict_error ''applied access resource fingerprint is invalid''
                    [(''resource_id'', JStr rid)])
               (Inr r)))
           | _ \<Rightarrow> Inl (conflict_error ''malformed applied access resource evidence'' []))
      | _ \<Rightarrow> Inl (conflict_error ''invalid applied access resource identity'' []))"

text \<open>One entry of the loop: nothing, or a resource that is no longer wanted.\<close>

definition stale_access_entry ::
  "(string \<Rightarrow> string) \<Rightarrow> desired_instance \<Rightarrow> resource list \<Rightarrow> json \<Rightarrow> resource option res" where
  "stale_access_entry H d current entry =
     (if \<not> is_obj entry then Inl (conflict_error ''applied ownership resource is malformed'' [])
      else
        (case jget entry ''resource_id'' of
           Some (JStr rid) \<Rightarrow>
             if \<not> is_access_id rid \<or> rid \<in> r_id ` set current then Inr None
             else rbind (reconstruct_access H d entry) (\<lambda>r.
                  Inr (if r_path r \<in> r_path ` set current then None else Some r))
         | _ \<Rightarrow> Inr None))"

definition stale_access ::
  "(string \<Rightarrow> string) \<Rightarrow> manager_paths \<Rightarrow> host \<Rightarrow> desired_instance \<Rightarrow> gen_bundle \<Rightarrow> resource list res" where
  "stale_access H ps h d b =
     (let path = applied_path ps (di_id d) in
      case h_text h path of
        TextMissing _ \<Rightarrow> Inr []
      | TextOk t \<Rightarrow>
          (case loads t of
             None \<Rightarrow> Inl (conflict_error ''applied ownership state is not valid JSON'' (path_detail path))
           | Some payload \<Rightarrow>
               rbind (applied_owned (di_id d) payload) (\<lambda>owned.
               case owned of
                 JArr items \<Rightarrow>
                   rbind (traverse (stale_access_entry H d (b_resources b)) items) (\<lambda>rs.
                   Inr (sort_by r_id (List.map_filter id rs)))
               | _ \<Rightarrow> Inl (conflict_error ''applied ownership resources are malformed'' [])))
      | _ \<Rightarrow> Inl (conflict_error ''cannot safely read applied ownership state for access cleanup''
               (path_detail path)))"

section \<open>Obsolete guard units\<close>

definition id_detail :: "string \<Rightarrow> (string \<times> json) list" where
  "id_detail rid = [(''resource_id'', JStr rid)]"

definition guard_ids :: "string list" where
  "guard_ids = [''admission-guard-unit'', ''admission-guard-timer'']"

definition guard_identity :: "manager_paths \<Rightarrow> desired_instance \<Rightarrow> string \<Rightarrow> (ppath \<times> string) res" where
  "guard_identity ps d rid =
     (if rid = ''admission-guard-unit''
      then Inr (unit_path ps (guard_unit_name (di_id d)), guard_unit_name (di_id d))
      else if rid = ''admission-guard-timer''
      then Inr (unit_path ps (guard_timer_name (di_id d)), guard_timer_name (di_id d))
      else Inl (conflict_error ''invalid applied admission-guard resource identity'' []))"

text \<open>
  The installed text of an obsolete unit: \<open>Inr None\<close> when nothing is left on disk. The
  messages differ by the kind of resource.
\<close>

definition installed_text ::
  "host \<Rightarrow> ppath \<Rightarrow> string \<Rightarrow> (string \<times> json) list \<Rightarrow> (string \<times> json) list \<Rightarrow> (nat \<times> string) option res" where
  "installed_text h path what inspect_details type_details =
     (case h_lstat h path of
        StatMissing \<Rightarrow> Inr None
      | StatOk ty mode \<Rightarrow>
          require (ty = T_REG)
            (conflict_error (''applied '' @ what @ '' resource has unexpected filesystem type'') type_details)
          (case h_text h path of
             TextOk t \<Rightarrow> Inr (Some (mode, t))
           | _ \<Rightarrow> Inl (conflict_error (''cannot read applied '' @ what @ '' resource'') type_details))
      | _ \<Rightarrow> Inl (conflict_error (''cannot inspect applied '' @ what @ '' resource'') inspect_details))"

definition stale_guard_entry ::
  "(string \<Rightarrow> string) \<Rightarrow> manager_paths \<Rightarrow> host \<Rightarrow> desired_instance \<Rightarrow> resource list \<Rightarrow> json \<Rightarrow> resource option res" where
  "stale_guard_entry H ps h d current entry =
     (case jget entry ''resource_id'' of
        Some (JStr rid) \<Rightarrow>
          if rid \<notin> set guard_ids \<or> rid \<in> r_id ` set current then Inr None
          else
            rbind (guard_identity ps d rid) (\<lambda>(path, unit).
            require (jget entry ''kind'' = Some (JStr (kind_value SYSTEMD_UNIT)))
              (conflict_error ''applied admission-guard resource kind is invalid'' (id_detail rid))
            (require (jget entry ''path'' = Some (JStr (path_str path)) \<and>
                      is_str (jget_or_null entry ''fingerprint''))
              (conflict_error ''applied admission-guard resource is outside the managed namespace'' (id_detail rid))
            (rbind (installed_text h path ''admission-guard''
                      (id_detail rid @ path_detail path) (id_detail rid @ path_detail path)) (\<lambda>inst.
             case inst of
               None \<Rightarrow> Inr None
             | Some (mode, content) \<Rightarrow>
                 require (contains (owner_prefix @ di_id d) content)
                   (conflict_error ''applied admission-guard ownership marker is absent'' (id_detail rid))
                 (let r = (unit_resource (owner_prefix @ di_id d) rid (path_str path) unit content
                             (rid = ''admission-guard-timer''))\<lparr>r_mode := mode\<rparr>
                  in require (mode = 384 \<and> jget entry ''fingerprint'' = Some (JStr (resource_fingerprint H r)))
                       (conflict_error
                          ''installed admission-guard resource does not match applied ownership evidence'' (id_detail rid))
                     (Inr (Some r)))))))
      | _ \<Rightarrow> Inr None)"

definition stale_guard ::
  "(string \<Rightarrow> string) \<Rightarrow> manager_paths \<Rightarrow> host \<Rightarrow> desired_instance \<Rightarrow> gen_bundle \<Rightarrow> resource list res" where
  "stale_guard H ps h d b =
     rbind (load_applied ps h d) (\<lambda>items.
     rbind (traverse (stale_guard_entry H ps h d (b_resources b)) items) (\<lambda>rs.
     Inr (sort_by (\<lambda>r. (if r_id r = ''admission-guard-timer'' then 0 else 1 :: nat, r_id r))
            (List.map_filter id rs))))"

section \<open>Obsolete development resources\<close>

definition development_ids :: "string list" where
  "development_ids = [''github-cli-helper'', ''ssh-agent-unit'']"

definition stale_development_entry ::
  "(string \<Rightarrow> string) \<Rightarrow> manager_paths \<Rightarrow> host \<Rightarrow> desired_instance \<Rightarrow> resource list \<Rightarrow> json \<Rightarrow> resource option res" where
  "stale_development_entry H ps h d current entry =
     (case jget entry ''resource_id'' of
        Some (JStr rid) \<Rightarrow>
          if rid \<notin> set development_ids \<or> rid \<in> r_id ` set current then Inr None
          else
            (let helper = (rid = ''github-cli-helper'');
                 path = (if helper then github_cli_helper_path ps d
                         else unit_path ps (agent_unit_name (di_id d)));
                 kind = (if helper then FILE else SYSTEMD_UNIT);
                 expected_mode = (if helper then 493 else 384);
                 marker = owner_prefix @ di_id d
             in require (jget entry ''kind'' = Some (JStr (kind_value kind)) \<and>
                         jget entry ''path'' = Some (JStr (path_str path)))
                  (conflict_error ''applied development resource identity is invalid'' (id_detail rid))
                (rbind (installed_text h path ''development'' (id_detail rid) (id_detail rid)) (\<lambda>inst.
                 case inst of
                   None \<Rightarrow> Inr None
                 | Some (mode, content) \<Rightarrow>
                     require (contains marker content)
                       (conflict_error ''applied development ownership marker is absent'' (id_detail rid))
                     (let r = (owned_file marker rid kind (path_str path) mode content)
                                \<lparr>r_unit := (if helper then None else Some (agent_unit_name (di_id d))),
                                 r_enable := \<not> helper, r_active := \<not> helper\<rparr>
                      in require (mode = expected_mode \<and> is_str (jget_or_null entry ''fingerprint''))
                           (conflict_error ''applied development resource metadata is invalid'' (id_detail rid))
                         (require (jget entry ''fingerprint'' = Some (JStr (resource_fingerprint H r)))
                           (conflict_error
                              ''installed development resource fingerprint differs from applied evidence'' (id_detail rid))
                         (Inr (Some r)))))))
      | _ \<Rightarrow> Inr None)"

definition stale_development ::
  "(string \<Rightarrow> string) \<Rightarrow> manager_paths \<Rightarrow> host \<Rightarrow> desired_instance \<Rightarrow> gen_bundle \<Rightarrow> resource list res" where
  "stale_development H ps h d b =
     rbind (load_applied ps h d) (\<lambda>items.
     rbind (traverse (stale_development_entry H ps h d (b_resources b)) items) (\<lambda>rs.
     Inr (List.map_filter id rs)))"

end
