(* ===== verification/Effects.thy ===== *)
theory Effects
  imports Errors
begin

text \<open>
  Computations that change a state and may raise: a state is given, a result or an exception and
  the state left by it are returned. An exception keeps the changes made before it. The lemmas
  lift a reflexive and transitive relation between states from the parts of a computation to the
  whole of it.
\<close>

type_synonym ('s, 'e, 'a) em = "'s \<Rightarrow> ('e + 'a) \<times> 's"

definition ebind :: "('s, 'e, 'a) em \<Rightarrow> ('a \<Rightarrow> ('s, 'e, 'b) em) \<Rightarrow> ('s, 'e, 'b) em" where
  "ebind m f s = (case m s of (Inl e, s') \<Rightarrow> (Inl e, s') | (Inr x, s') \<Rightarrow> f x s')"

definition eread :: "('s \<Rightarrow> 'e + 'a) \<Rightarrow> ('s, 'e, 'a) em" where
  "eread f s = (f s, s)"

definition ereturn :: "'a \<Rightarrow> ('s, 'e, 'a) em" where
  "ereturn x s = (Inr x, s)"

definition eraise :: "'e \<Rightarrow> ('s, 'e, 'a) em" where
  "eraise e s = (Inl e, s)"

definition emodify :: "('s \<Rightarrow> 's) \<Rightarrow> ('s, 'e, unit) em" where
  "emodify f s = (Inr (), f s)"

text \<open>\<open>try: m except: h\<close>, the handler sees the state the exception left.\<close>

definition ecatch :: "('s, 'e, 'a) em \<Rightarrow> ('e \<Rightarrow> ('s, 'f, 'a) em) \<Rightarrow> ('s, 'f, 'a) em" where
  "ecatch m h s = (case m s of (Inl e, s') \<Rightarrow> h e s' | (Inr x, s') \<Rightarrow> (Inr x, s'))"

definition eseq :: "('s, 'e, unit) em \<Rightarrow> ('s, 'e, 'b) em \<Rightarrow> ('s, 'e, 'b) em" where
  "eseq m k = ebind m (\<lambda>_. k)"

definition ewhen :: "bool \<Rightarrow> ('s, 'e, unit) em \<Rightarrow> ('s, 'e, unit) em" where
  "ewhen c m = (if c then m else ereturn ())"

fun each_e :: "('a \<Rightarrow> ('s, 'e, unit) em) \<Rightarrow> 'a list \<Rightarrow> ('s, 'e, unit) em" where
  "each_e f [] = ereturn ()"
| "each_e f (x # xs) = ebind (f x) (\<lambda>_. each_e f xs)"

section \<open>Results\<close>

named_theorems em_simps "what a computation returns"

lemma ebind_Inr: "ebind m f s = (Inr x, s') \<longleftrightarrow> (\<exists>y t. m s = (Inr y, t) \<and> f y t = (Inr x, s'))"
  by (auto simp: ebind_def split: prod.splits sum.splits)

lemma ebind_Inl: "ebind m f s = (Inl e, s') \<longleftrightarrow>
    m s = (Inl e, s') \<or> (\<exists>y t. m s = (Inr y, t) \<and> f y t = (Inl e, s'))"
  by (auto simp: ebind_def split: prod.splits sum.splits)

lemma ebind_cases:
  assumes "ebind m f s = (r, s')"
  obtains (raised) e where "m s = (Inl e, s')" and "r = Inl e"
    | (went_on) x t where "m s = (Inr x, t)" and "f x t = (r, s')"
  using assms by (auto simp: ebind_def split: prod.splits sum.splits)

lemma eseq_Inr: "eseq m k s = (Inr x, s') \<longleftrightarrow> (\<exists>t. m s = (Inr (), t) \<and> k t = (Inr x, s'))"
  by (simp add: eseq_def ebind_Inr)

lemma eread_Inr: "eread f s = (Inr x, s') \<longleftrightarrow> f s = Inr x \<and> s' = s"
  by (auto simp: eread_def)

lemma ereturn_Inr: "ereturn y s = (Inr x, s') \<longleftrightarrow> x = y \<and> s' = s"
  by (auto simp: ereturn_def)

lemma eraise_Inr: "\<not> eraise e s = (Inr x, s')"
  by (simp add: eraise_def)

lemma emodify_Inr: "emodify f s = (Inr u, s') \<longleftrightarrow> s' = f s"
  by (auto simp: emodify_def)

lemma ewhen_Inr: "ewhen c m s = (Inr u, s') \<longleftrightarrow> (if c then m s = (Inr u, s') else s' = s)"
  by (auto simp: ewhen_def ereturn_def)

lemmas em_Inr = ebind_Inr eseq_Inr eread_Inr ereturn_Inr eraise_Inr emodify_Inr ewhen_Inr

lemma each_e_append: "each_e f (xs @ ys) = eseq (each_e f xs) (each_e f ys)"
proof (induction xs)
  case Nil
  show ?case by (simp add: eseq_def ebind_def ereturn_def fun_eq_iff)
next
  case (Cons x xs)
  then show ?case by (auto simp: eseq_def ebind_def fun_eq_iff split: prod.splits sum.splits)
qed

section \<open>Relations between the states before and after\<close>

definition keeps :: "('s \<Rightarrow> 's \<Rightarrow> bool) \<Rightarrow> ('s, 'e, 'a) em \<Rightarrow> bool" where
  "keeps R m \<longleftrightarrow> (\<forall>s r s'. m s = (r, s') \<longrightarrow> R s s')"

lemma keepsI: "(\<And>s r s'. m s = (r, s') \<Longrightarrow> R s s') \<Longrightarrow> keeps R m"
  by (simp add: keeps_def)

lemma keepsD: "keeps R m \<Longrightarrow> m s = (r, s') \<Longrightarrow> R s s'"
  by (auto simp: keeps_def)

lemma keeps_mono: "keeps R m \<Longrightarrow> (\<And>s s'. R s s' \<Longrightarrow> Q s s') \<Longrightarrow> keeps Q m"
  by (auto simp: keeps_def)

lemma keeps_conj: "keeps R m \<Longrightarrow> keeps Q m \<Longrightarrow> keeps (\<lambda>s s'. R s s' \<and> Q s s') m"
  by (auto simp: keeps_def)

lemma keeps_if: "(c \<Longrightarrow> keeps R m) \<Longrightarrow> (\<not> c \<Longrightarrow> keeps R n) \<Longrightarrow> keeps R (if c then m else n)"
  by simp

lemma keeps_option:
  "(v = None \<Longrightarrow> keeps R m) \<Longrightarrow> (\<And>x. v = Some x \<Longrightarrow> keeps R (f x)) \<Longrightarrow>
    keeps R (case v of None \<Rightarrow> m | Some x \<Rightarrow> f x)"
  by (cases v) auto

lemma keeps_sum:
  "(\<And>e. v = Inl e \<Longrightarrow> keeps R (f e)) \<Longrightarrow> (\<And>x. v = Inr x \<Longrightarrow> keeps R (g x)) \<Longrightarrow>
    keeps R (case v of Inl e \<Rightarrow> f e | Inr x \<Rightarrow> g x)"
  by (cases v) auto

text \<open>
  A relation that holds between any two states of a run: it is reflexive and transitive, so it
  is kept by a computation as soon as it is kept by its primitive steps.
\<close>

locale state_order =
  fixes R :: "'s \<Rightarrow> 's \<Rightarrow> bool"
  assumes refl: "R s s"
    and trans: "R s t \<Longrightarrow> R t u \<Longrightarrow> R s u"
begin

lemma keeps_bind:
  assumes "keeps R m" and "\<And>x. keeps R (f x)" shows "keeps R (ebind m f)"
proof (rule keepsI)
  fix s r s' assume "ebind m f s = (r, s')"
  then show "R s s'"
  proof (cases rule: ebind_cases)
    case (raised e)
    with assms(1) show ?thesis by (auto dest: keepsD)
  next
    case (went_on x t)
    with assms trans show ?thesis by (blast dest: keepsD)
  qed
qed

lemma keeps_seq: "keeps R m \<Longrightarrow> keeps R k \<Longrightarrow> keeps R (eseq m k)"
  unfolding eseq_def by (rule keeps_bind)

lemma keeps_pure: "keeps R (eread f)" "keeps R (ereturn x)" "keeps R (eraise e)"
  by (auto simp: keeps_def eread_def ereturn_def eraise_def refl)

lemma keeps_modify: "(\<And>s. R s (f s)) \<Longrightarrow> keeps R (emodify f)"
  by (simp add: keeps_def emodify_def)

lemma keeps_when: "(c \<Longrightarrow> keeps R m) \<Longrightarrow> keeps R (ewhen c m)"
  by (auto simp: ewhen_def keeps_pure)

lemma keeps_catch:
  assumes "keeps R m" and "\<And>e. keeps R (h e)" shows "keeps R (ecatch m h)"
proof (rule keepsI)
  fix s r s' assume c: "ecatch m h s = (r, s')"
  obtain q t where m: "m s = (q, t)" by fastforce
  show "R s s'"
  proof (cases q)
    case (Inl e)
    with c m have "h e t = (r, s')" by (simp add: ecatch_def)
    with m assms trans show ?thesis by (blast dest: keepsD)
  next
    case (Inr x)
    with c m assms(1) show ?thesis by (auto simp: ecatch_def dest: keepsD)
  qed
qed

lemma keeps_each: "(\<And>x. x \<in> set xs \<Longrightarrow> keeps R (f x)) \<Longrightarrow> keeps R (each_e f xs)"
  by (induction xs) (auto intro: keeps_bind keeps_pure)

lemmas keeps_rules = keeps_bind keeps_seq keeps_pure keeps_when keeps_catch keeps_each keeps_if keeps_option
  keeps_sum

end

section \<open>Conditions before and after\<close>

text \<open>
  \<open>carries P m Q\<close>: from a state with \<open>P\<close> the computation leaves a state with \<open>Q\<close>, also when it
  raises.
\<close>

definition carries :: "('s \<Rightarrow> bool) \<Rightarrow> ('s, 'e, 'a) em \<Rightarrow> ('s \<Rightarrow> bool) \<Rightarrow> bool" where
  "carries P m Q \<longleftrightarrow> (\<forall>s r s'. P s \<longrightarrow> m s = (r, s') \<longrightarrow> Q s')"

lemma carriesI: "(\<And>s r s'. P s \<Longrightarrow> m s = (r, s') \<Longrightarrow> Q s') \<Longrightarrow> carries P m Q"
  by (simp add: carries_def)

lemma carriesD: "carries P m Q \<Longrightarrow> P s \<Longrightarrow> m s = (r, s') \<Longrightarrow> Q s'"
  by (auto simp: carries_def)

lemma carries_weaken:
  "carries P m Q \<Longrightarrow> (\<And>s. P' s \<Longrightarrow> P s) \<Longrightarrow> (\<And>s. Q s \<Longrightarrow> Q' s) \<Longrightarrow> carries P' m Q'"
  unfolding carries_def by blast

lemma carries_conj: "carries P m Q \<Longrightarrow> carries P m Q' \<Longrightarrow> carries P m (\<lambda>s. Q s \<and> Q' s)"
  unfolding carries_def by blast

lemma carries_bind:
  assumes "carries P m P" and "\<And>x. carries P (f x) Q" and "\<And>s. P s \<Longrightarrow> Q s"
  shows "carries P (ebind m f) Q"
proof (rule carriesI)
  fix s r s' assume P: "P s" and b: "ebind m f s = (r, s')"
  from b show "Q s'"
  proof (cases rule: ebind_cases)
    case (raised e)
    with assms(1,3) P show ?thesis by (blast dest: carriesD)
  next
    case (went_on x t)
    with assms(1,2) P show ?thesis by (blast dest: carriesD)
  qed
qed

lemma carries_bind_mid:
  assumes "carries P m M" and "\<And>x. carries M (f x) Q" and "\<And>s. M s \<Longrightarrow> Q s"
  shows "carries P (ebind m f) Q"
proof (rule carriesI)
  fix s r s' assume P: "P s" and b: "ebind m f s = (r, s')"
  from b show "Q s'"
  proof (cases rule: ebind_cases)
    case (raised e)
    with assms(1,3) P show ?thesis by (blast dest: carriesD)
  next
    case (went_on x t)
    with assms(1,2) P show ?thesis by (blast dest: carriesD)
  qed
qed

lemma carries_seq: "carries P m P \<Longrightarrow> carries P k Q \<Longrightarrow> (\<And>s. P s \<Longrightarrow> Q s) \<Longrightarrow> carries P (eseq m k) Q"
  unfolding eseq_def by (rule carries_bind)

lemma carries_seq_mid: "carries P m M \<Longrightarrow> carries M k Q \<Longrightarrow> (\<And>s. M s \<Longrightarrow> Q s) \<Longrightarrow> carries P (eseq m k) Q"
  unfolding eseq_def by (rule carries_bind_mid)

lemma carries_pure: "carries P (eread f) P" "carries P (ereturn x) P" "carries P (eraise e) P"
  by (auto simp: carries_def eread_def ereturn_def eraise_def)

lemma carries_modify: "(\<And>s. P s \<Longrightarrow> Q (f s)) \<Longrightarrow> carries P (emodify f) Q"
  by (simp add: carries_def emodify_def)

lemma carries_when: "(c \<Longrightarrow> carries P m P) \<Longrightarrow> carries P (ewhen c m) P"
  by (auto simp: ewhen_def carries_pure)

lemma carries_if: "(c \<Longrightarrow> carries P m Q) \<Longrightarrow> (\<not> c \<Longrightarrow> carries P n Q) \<Longrightarrow> carries P (if c then m else n) Q"
  by simp

lemma carries_option:
  "(v = None \<Longrightarrow> carries P m Q) \<Longrightarrow> (\<And>x. v = Some x \<Longrightarrow> carries P (f x) Q) \<Longrightarrow>
    carries P (case v of None \<Rightarrow> m | Some x \<Rightarrow> f x) Q"
  by (cases v) auto

lemma carries_each: "(\<And>x. x \<in> set xs \<Longrightarrow> carries P (f x) P) \<Longrightarrow> carries P (each_e f xs) P"
  by (induction xs) (auto intro: carries_bind carries_pure)

lemma carries_at: "(\<And>s. P s \<Longrightarrow> carries P (m s) Q) \<Longrightarrow> carries P (\<lambda>s. m s s) Q"
  unfolding carries_def by blast

lemma keeps_carries: "keeps R m \<Longrightarrow> (\<And>s s'. P s \<Longrightarrow> R s s' \<Longrightarrow> Q s') \<Longrightarrow> carries P m Q"
  by (auto simp: carries_def dest: keepsD)

lemmas carries_rules = carries_seq carries_bind carries_pure carries_when carries_each carries_if carries_option

end
