(* ===== verification/Redaction.thy ===== *)
theory Redaction
  imports Json
begin

text \<open>
  Redaction of secrets (redaction.py): the environment given to subprocesses, and the texts and
  documents that are logged or journaled. The two regular expressions are matched at each
  position as \<open>re.sub\<close> does: from the left, without overlap, with the boundary test on the
  character before the position.
\<close>

section \<open>Environments\<close>

definition secret_env_keys :: "string list" where
  "secret_env_keys =
     [''CONTROL_PLANE_API_KEY'', ''OPENAI_API_KEY'', ''GITHUB_TOKEN'', ''GH_TOKEN'',
      ''GITHUB_ENTERPRISE_TOKEN'', ''GH_ENTERPRISE_TOKEN'', ''GIT_ASKPASS'']"

type_synonym env = "(string \<times> string) list"

definition sanitized_subprocess_env :: "env \<Rightarrow> env" where
  "sanitized_subprocess_env source =
     (let r = filter (\<lambda>p. fst p \<notin> set secret_env_keys) source
      in if map_of r ''LC_ALL'' = None then r @ [(''LC_ALL'', ''C'')] else r)"

section \<open>Texts\<close>

text \<open>\<open>\w\<close> on the characters of the model.\<close>

definition word_char :: "char \<Rightarrow> bool" where
  "word_char c \<longleftrightarrow>
     is_letter c \<or> is_digit c \<or> c = CHR ''_'' \<or>
     (let n = code_of c in
      n \<in> {170, 178, 179, 181, 185, 186, 188, 189, 190} \<or> 192 \<le> n \<and> n \<noteq> 215 \<and> n \<noteq> 247)"

text \<open>
  \<open>re.sub\<close> with a pattern that begins with a boundary and a letter: \<open>m\<close> gives the
  replacement and the length of a match at the beginning of a text, \<open>skip\<close> counts the characters
  of a match that are still to be passed over.
\<close>

fun re_sub :: "(string \<Rightarrow> (string \<times> nat) option) \<Rightarrow> bool \<Rightarrow> nat \<Rightarrow> string \<Rightarrow> string" where
  "re_sub m after_word skip [] = []"
| "re_sub m after_word skip (c # cs) =
     (if skip > 0 then re_sub m (word_char c) (skip - 1) cs
      else (case (if after_word then None else m (c # cs)) of
              Some (new, n) \<Rightarrow> new @ re_sub m (word_char c) (n - 1) cs
            | None \<Rightarrow> c # re_sub m (word_char c) 0 cs))"

definition starts_with_ci :: "string \<Rightarrow> string \<Rightarrow> bool" where
  "starts_with_ci k s \<longleftrightarrow> length k \<le> length s \<and> lower_string (take (length k) s) = lower_string k"

definition assignment_keys :: "string list" where
  "assignment_keys =
     [''CONTROL_PLANE_API_KEY'', ''OPENAI_API_KEY'', ''GITHUB_TOKEN'', ''GH_TOKEN'',
      ''GITHUB_ENTERPRISE_TOKEN'', ''GH_ENTERPRISE_TOKEN'']"

definition redacted :: string where
  "redacted = ''<REDACTED>''"

definition match_assignment :: "string \<Rightarrow> (string \<times> nat) option" where
  "match_assignment s =
     (case find (\<lambda>k. starts_with_ci k s) assignment_keys of
        None \<Rightarrow> None
      | Some k \<Rightarrow>
          (case dropWhile is_space (drop (length k) s) of
             [] \<Rightarrow> None
           | c # r \<Rightarrow>
               if c \<noteq> CHR ''='' then None
               else
                 (let value = dropWhile is_space r;
                      rest = dropWhile (\<lambda>x. \<not> is_space x) value
                  in if value = [] then None
                     else Some (take (length k) s @ ''='' @ redacted, length s - length rest))))"

definition bearer_char :: "char \<Rightarrow> bool" where
  "bearer_char c \<longleftrightarrow> is_letter c \<or> is_digit c \<or> c \<in> set ''._~+/=-''"

definition match_bearer :: "string \<Rightarrow> (string \<times> nat) option" where
  "match_bearer s =
     (if \<not> starts_with_ci ''Bearer'' s then None
      else
        (let r = drop 6 s; value = dropWhile is_space r; rest = dropWhile bearer_char value in
         if length value = length r \<or> length rest = length value then None
         else Some (''Bearer '' @ redacted, length s - length rest)))"

definition redact_text :: "string \<Rightarrow> string" where
  "redact_text s = re_sub match_bearer False 0 (re_sub match_assignment False 0 s)"

section \<open>Documents\<close>

text \<open>\<open>str.upper\<close>, as far as it can give an ASCII letter.\<close>

definition to_upper :: "char \<Rightarrow> string" where
  "to_upper c =
     (if is_lower c then [char_of (code_of c - 32)] else if code_of c = 223 then ''SS'' else [c])"

definition secret_key :: "string \<Rightarrow> bool" where
  "secret_key k \<longleftrightarrow> concat (map to_upper k) \<in> set secret_env_keys"

fun is_bool :: "json \<Rightarrow> bool" where
  "is_bool (JBool b) = True"
| "is_bool v = False"

fun redact_object :: "json \<Rightarrow> json" where
  "redact_object (JStr s) = JStr (redact_text s)"
| "redact_object (JObj kvs) =
     JObj (map (\<lambda>(k, x). (k, if secret_key k then (if is_bool x then x else JStr redacted)
                             else redact_object x)) kvs)"
| "redact_object (JArr xs) = JArr (map redact_object xs)"
| "redact_object v = v"

end
