(* ===== verification/DevEnv.thy ===== *)
theory DevEnv
  imports Applied Effects Redaction
begin

text \<open>
  The development environment of an instance (development_environment.py): subprocess
  environments, host preconditions, GitHub remote URLs, and the reconciler of the
  repository-local Git identity and remote.

  Git is outside the repository. Its local configuration is a list of values per key, with
  the documented behaviour of \<open>git config --local\<close>: \<open>--get\<close> prints the last value,
  \<open>--replace-all\<close> leaves one value, \<open>--unset-all\<close> none. Whether git and the working
  tree exist, whether the configuration can be read, which keys refuse a write and how
  \<open>url.*.insteadOf\<close> rewrites an address are parameters of the state. A URL whose
  brackets are unbalanced, on which \<open>urlparse\<close> raises, counts as unsupported.
\<close>

section \<open>Environments\<close>

definition env_pop :: "string \<Rightarrow> env \<Rightarrow> env" where
  "env_pop k e = filter (\<lambda>p. fst p \<noteq> k) e"

definition env_opt :: "string \<Rightarrow> string option \<Rightarrow> env \<Rightarrow> env" where
  "env_opt k v e =
     (case v of
        Some x \<Rightarrow> if x = [] then env_pop k e else dict_set k x e
      | None \<Rightarrow> env_pop k e)"

definition development_subprocess_env :: "generator \<Rightarrow> env \<Rightarrow> desired_instance \<Rightarrow> env" where
  "development_subprocess_env g source d =
     (let e0 = sanitized_subprocess_env source;
          e1 = (if managed_github d then fold env_pop managed_github_env_remove e0 else e0);
          e2 = dict_set ''HOME'' (path_str (account_home (gen_paths g))) e1;
          e3 = dict_set ''PATH'' (mcp_exec_path (di_mcp d)) e2;
          e4 = dict_set ''GIT_TERMINAL_PROMPT'' ''0'' e3;
          e5 = env_opt ''GH_CONFIG_DIR'' (gh_config_dir (di_github d)) e4
      in env_opt ''SSH_AUTH_SOCK'' (effective_ssh_auth_sock (gen_uid g) d) e5)"

definition managed_github_subprocess_env ::
  "generator \<Rightarrow> desired_instance \<Rightarrow> env \<Rightarrow> bool \<Rightarrow> env res" where
  "managed_github_subprocess_env g d source include_sock =
     (let expected = path_str (managed_github_profile_path (gen_paths g) d) in
      require (managed_github d)
        (config_error ''managed GitHub environment requires github.mode=managed'' [])
      (require (gh_config_dir (di_github d) = Some expected)
        (config_error ''managed GitHub profile path is not manager-authoritative''
           [(''instance_id'', JStr (di_id d)), (''expected'', JStr expected)])
      (let e0 = fold env_pop managed_github_env_remove (sanitized_subprocess_env source);
           e1 = dict_set ''HOME'' (path_str (account_home (gen_paths g))) e0;
           e2 = dict_set ''PATH'' (mcp_exec_path (di_mcp d)) e1;
           e3 = dict_set ''GH_CONFIG_DIR'' expected e2;
           e4 = dict_set ''GIT_TERMINAL_PROMPT'' ''0'' e3;
           e5 = dict_set ''GH_PROMPT_DISABLED'' ''1'' e4;
           e6 = dict_set ''GH_NO_UPDATE_NOTIFIER'' ''1'' e5
       in Inr (env_opt ''SSH_AUTH_SOCK''
                 (if include_sock then effective_ssh_auth_sock (gen_uid g) d else None) e6))))"

section \<open>Host preconditions\<close>

definition is_regular :: "stat_result \<Rightarrow> bool" where
  "is_regular r \<longleftrightarrow> (case r of StatOk T_REG _ \<Rightarrow> True | _ \<Rightarrow> False)"

definition runnable :: "host \<Rightarrow> ppath \<Rightarrow> bool" where
  "runnable h p \<longleftrightarrow> is_regular (h_stat h p) \<and> h_executable h p"

definition validate_pm1 :: "generator \<Rightarrow> host \<Rightarrow> desired_instance \<Rightarrow> string list" where
  "validate_pm1 g h d =
     (if di_version d < 2 then []
      else
        (let expected = path_str (managed_github_profile_path (gen_paths g) d) in
         (if gh_mode (di_github d) = GH_MANAGED \<and> gh_config_dir (di_github d) \<noteq> Some expected
          then [''managed GitHub profile path must be '' @ expected] else []) @
         (case gh_binary (di_github d) of
            Some b \<Rightarrow> (if runnable h (path_of b) then []
                       else [''configured GitHub CLI executable is unavailable''])
          | None \<Rightarrow> []) @
         (if remote_uses (di_git d) PROTO_SSH \<and> \<not> runnable h (path_of ''/usr/bin/ssh'')
          then [''/usr/bin/ssh is unavailable''] else []) @
         (case ag_mode (di_agent d) of
            AGENT_MANAGED \<Rightarrow>
              (if runnable h (path_of ''/usr/bin/ssh-agent'') then []
               else [''/usr/bin/ssh-agent is unavailable''])
          | AGENT_EXTERNAL \<Rightarrow>
              (case h_stat h (path_of (case ag_ssh_auth_sock (di_agent d) of Some s \<Rightarrow> s | None \<Rightarrow> [])) of
                 StatOk ty _ \<Rightarrow> (if ty = T_SOCK then [] else [''external SSH_AUTH_SOCK is not a Unix socket''])
               | _ \<Rightarrow> [''external SSH_AUTH_SOCK is unavailable''])
          | AGENT_NONE \<Rightarrow> [])))"

section \<open>GitHub remote addresses\<close>

record url =
  u_scheme :: string
  u_netloc :: string
  u_path :: string

definition take_until :: "string \<Rightarrow> string \<Rightarrow> string \<times> string" where
  "take_until stops s = (takeWhile (\<lambda>c. c \<notin> set stops) s, dropWhile (\<lambda>c. c \<notin> set stops) s)"

definition before_char :: "char \<Rightarrow> string \<Rightarrow> string" where
  "before_char c s = takeWhile (\<lambda>x. x \<noteq> c) s"

definition scheme_char :: "char \<Rightarrow> bool" where
  "scheme_char c \<longleftrightarrow> alnum c \<or> c = CHR ''+'' \<or> c = CHR ''-'' \<or> c = CHR ''.''"

text \<open>\<open>;parameters\<close> of the last path segment, for the schemes that have them.\<close>

definition drop_params :: "string \<Rightarrow> string" where
  "drop_params p =
     (case rpartition_on CHR ''/'' p of
        Some (a, b) \<Rightarrow> a @ ''/'' @ before_char CHR '';'' b
      | None \<Rightarrow> before_char CHR '';'' p)"

definition urlparse :: "string \<Rightarrow> url option" where
  "urlparse raw =
     (let s = filter (\<lambda>c. c \<notin> {CHR 0x09, CHR 0x0A, CHR 0x0D}) (dropWhile (\<lambda>c. code_of c \<le> 32) raw);
          (scheme, rest) =
            (case partition_on CHR '':'' s of
               Some (a, b) \<Rightarrow>
                 if a \<noteq> [] \<and> is_letter (hd a) \<and> list_all scheme_char a then (lower_string a, b) else ([], s)
             | None \<Rightarrow> ([], s));
          (netloc, tail) =
            (if prefix ''//'' rest then take_until ''/?#'' (drop 2 rest) else ([], rest));
          path = before_char CHR ''?'' (before_char CHR ''#'' tail)
      in if (CHR ''['' \<in> set netloc) \<noteq> (CHR '']'' \<in> set netloc) then None
         else Some \<lparr>u_scheme = scheme, u_netloc = netloc,
                    u_path = (if scheme \<in> {''http'', ''https'', []} then drop_params path else path)\<rparr>)"

definition u_userinfo :: "url \<Rightarrow> string option" where
  "u_userinfo u = map_option fst (rpartition_on CHR ''@'' (u_netloc u))"

definition u_username :: "url \<Rightarrow> string option" where
  "u_username u = map_option (before_char CHR '':'') (u_userinfo u)"

definition u_password :: "url \<Rightarrow> string option" where
  "u_password u =
     (case u_userinfo u of None \<Rightarrow> None | Some i \<Rightarrow> map_option snd (partition_on CHR '':'' i))"

definition u_hostname :: "url \<Rightarrow> string" where
  "u_hostname u =
     (let info = (case rpartition_on CHR ''@'' (u_netloc u) of Some (_, b) \<Rightarrow> b | None \<Rightarrow> u_netloc u)
      in lower_string
           (case partition_on CHR ''['' info of
              Some (_, b) \<Rightarrow> before_char CHR '']'' b
            | None \<Rightarrow> before_char CHR '':'' info))"

definition repo_of_path :: "string \<Rightarrow> string option" where
  "repo_of_path p =
     (let path = (if suffix ''.git'' p then take (length p - 4) p else p);
          pieces = split_on CHR ''/'' path
      in if length pieces \<noteq> 2 \<or> [] \<in> set pieces \<or> ''.'' \<in> set pieces \<or> ''..'' \<in> set pieces
         then None else Some path)"

definition ssh_prefix :: string where
  "ssh_prefix = ''git@github.com:''"

definition github_repo_path :: "string \<Rightarrow> string option" where
  "github_repo_path raw =
     (let v = strip raw in
      if v = [] then None
      else if prefix ssh_prefix v then repo_of_path (drop (length ssh_prefix) v)
      else if contains ''://'' v then
        (case urlparse v of
           None \<Rightarrow> None
         | Some u \<Rightarrow>
             if u_hostname u \<noteq> ''github.com'' \<or> u_password u \<noteq> None then None
             else if u_scheme u = ''https'' \<and> u_username u \<noteq> None then None
             else if u_scheme u = ''ssh'' \<and> u_username u \<notin> {None, Some ''git''} then None
             else if u_scheme u \<notin> {''https'', ''ssh''} then None
             else repo_of_path (dropWhile (\<lambda>c. c = CHR ''/'') (u_path u)))
      else None)"

definition github_remote_protocol :: "string \<Rightarrow> git_protocol option" where
  "github_remote_protocol raw =
     (let v = strip raw in
      if github_repo_path v = None then None
      else if prefix ssh_prefix v then Some PROTO_SSH
      else (case urlparse v of
              None \<Rightarrow> None
            | Some u \<Rightarrow> if u_scheme u = ''ssh'' then Some PROTO_SSH
                        else if u_scheme u = ''https'' then Some PROTO_HTTPS_GH else None))"

definition canonical_github_url :: "string \<Rightarrow> git_protocol \<Rightarrow> string" where
  "canonical_github_url repo p =
     (if p = PROTO_SSH then ssh_prefix @ repo @ ''.git'' else ''https://github.com/'' @ repo @ ''.git'')"

definition git_ssh_command :: "nat \<Rightarrow> desired_instance \<Rightarrow> string res" where
  "git_ssh_command uid d =
     (case effective_ssh_auth_sock uid d of
        Some s \<Rightarrow>
          require (s \<noteq> []) (config_error ''SSH Git transport requires an agent socket'' [])
            (Inr (''/usr/bin/ssh -o BatchMode=yes -o '' @ shell_quote (''IdentityAgent='' @ s)))
      | None \<Rightarrow> Inl (config_error ''SSH Git transport requires an agent socket'' []))"

definition transport_is_requested :: "desired_instance \<Rightarrow> bool" where
  "transport_is_requested d \<longleftrightarrow>
     li_deployment (di_lifecycle d) = PRESENT \<and> git_remote_of (di_git d) \<noteq> None"

section \<open>The repository-local configuration\<close>

record git_state =
  g_found :: bool
  g_tree :: bool
  g_readable :: bool
  g_config :: "(string \<times> string list) list"
  g_refuses :: "string list"
  g_rewrite :: "string \<Rightarrow> string"

definition g_values :: "git_state \<Rightarrow> string \<Rightarrow> string list" where
  "g_values s k = (case map_of (g_config s) k of None \<Rightarrow> [] | Some vs \<Rightarrow> vs)"

definition drop_newlines :: "string \<Rightarrow> string" where
  "drop_newlines s = rev (dropWhile (\<lambda>c. c = CHR 0x0A) (rev s))"

definition git_missing :: manager_error where
  "git_missing = conflict_error ''Git executable is unavailable on mcp.exec_path'' []"

definition cannot_inspect :: "string \<Rightarrow> manager_error" where
  "cannot_inspect k = conflict_error (''cannot inspect local Git key '' @ k) []"

definition repository_present :: "git_state \<Rightarrow> bool" where
  "repository_present s \<longleftrightarrow> g_found s \<and> g_tree s"

definition g_get :: "git_state \<Rightarrow> string \<Rightarrow> string option res" where
  "g_get s k =
     require (g_found s) git_missing
     (require (g_readable s) (cannot_inspect k)
     (Inr (if g_values s k = [] then None else Some (drop_newlines (last (g_values s k) @ newline)))))"

definition g_get_all :: "git_state \<Rightarrow> string \<Rightarrow> string list res" where
  "g_get_all s k =
     require (g_found s) git_missing
     (require (g_readable s) (cannot_inspect k)
     (Inr (lines_of (drop_newlines (concat (map (\<lambda>v. v @ newline) (g_values s k)))))))"

definition remote_key :: "string \<Rightarrow> string" where
  "remote_key name = ''remote.'' @ name @ ''.url''"

definition g_remote_url :: "git_state \<Rightarrow> string \<Rightarrow> string option res" where
  "g_remote_url s name =
     require (g_found s) git_missing
     (Inr (if g_readable s \<and> g_values s (remote_key name) \<noteq> [] then
             (let out = g_rewrite s (hd (g_values s (remote_key name))) @ newline
              in if strip out = [] then None else Some (drop_newlines out))
           else None))"

type_synonym 'a gm = "(git_state, manager_error, 'a) em"

definition g_set :: "string \<Rightarrow> string \<Rightarrow> unit gm" where
  "g_set k v s =
     (if \<not> g_found s then (Inl git_missing, s)
      else if k \<in> set (g_refuses s) then (Inl (conflict_error (''cannot set local Git key '' @ k) []), s)
      else (Inr (), s\<lparr>g_config := dict_set k [v] (g_config s)\<rparr>))"

definition g_unset :: "string \<Rightarrow> unit gm" where
  "g_unset k s =
     (case g_get_all s k of
        Inl e \<Rightarrow> (Inl e, s)
      | Inr vs \<Rightarrow>
          if vs = [] then (Inr (), s)
          else if k \<in> set (g_refuses s) then (Inl (conflict_error (''cannot unset local Git key '' @ k) []), s)
          else (Inr (), s\<lparr>g_config := filter (\<lambda>p. fst p \<noteq> k) (g_config s)\<rparr>))"

section \<open>Observation\<close>

datatype obs_status = O_ABSENT | O_EXACT | O_DIFFERENT | O_FOREIGN | O_UNVERIFIED

fun obs_status_value :: "obs_status \<Rightarrow> string" where
  "obs_status_value O_ABSENT = ''absent''"
| "obs_status_value O_EXACT = ''exact''"
| "obs_status_value O_DIFFERENT = ''different''"
| "obs_status_value O_FOREIGN = ''foreign''"
| "obs_status_value O_UNVERIFIED = ''unverified''"

record observation =
  ob_status :: obs_status
  ob_detail :: string

definition obs :: "obs_status \<Rightarrow> string \<Rightarrow> observation res" where
  "obs st detail = Inr \<lparr>ob_status = st, ob_detail = detail\<rparr>"

definition k_id_owner :: string where "k_id_owner = ''workspaceMcpManager.identityOwner''"
definition k_id_version :: string where "k_id_version = ''workspaceMcpManager.identityVersion''"
definition k_id_origin :: string where "k_id_origin = ''workspaceMcpManager.identityOrigin''"
definition k_id_name :: string where "k_id_name = ''workspaceMcpManager.identityOriginalName''"
definition k_id_email :: string where "k_id_email = ''workspaceMcpManager.identityOriginalEmail''"
definition k_re_owner :: string where "k_re_owner = ''workspaceMcpManager.remoteOwner''"
definition k_re_version :: string where "k_re_version = ''workspaceMcpManager.remoteVersion''"
definition k_re_name :: string where "k_re_name = ''workspaceMcpManager.remoteName''"
definition k_re_url :: string where "k_re_url = ''workspaceMcpManager.remoteOriginalUrl''"
definition k_helper :: string where "k_helper = ''credential.https://github.com.helper''"
definition k_ssh :: string where "k_ssh = ''core.sshCommand''"
definition k_name :: string where "k_name = ''user.name''"
definition k_email :: string where "k_email = ''user.email''"

definition requested_identity :: "desired_instance \<Rightarrow> git_identity option" where
  "requested_identity d =
     (if li_deployment (di_lifecycle d) = PRESENT then git_identity_of (di_git d) else None)"

definition requested_remote :: "desired_instance \<Rightarrow> git_remote option" where
  "requested_remote d =
     (if li_deployment (di_lifecycle d) = PRESENT then git_remote_of (di_git d) else None)"

text \<open>The check of the origin marker: \<open>None\<close> when the metadata is complete.\<close>

definition origin_problem :: "git_state \<Rightarrow> string option res" where
  "origin_problem s =
     rbind (g_get s k_id_origin) (\<lambda>origin.
     if origin \<noteq> Some ''created'' \<and> origin \<noteq> Some ''adopted''
     then Inr (Some ''Git identity ownership metadata is incomplete'')
     else if origin = Some ''adopted'' then
       rbind (g_get s k_id_name) (\<lambda>n.
       if n = None then Inr (Some ''adopted Git identity original values are missing'')
       else rbind (g_get s k_id_email) (\<lambda>e.
            Inr (if e = None then Some ''adopted Git identity original values are missing'' else None)))
     else Inr None)"

definition observe_identity :: "desired_instance \<Rightarrow> git_state \<Rightarrow> observation res" where
  "observe_identity d s =
     (if di_version d < 2 then obs O_EXACT ''v1 has no managed Git identity''
      else if \<not> repository_present s then
        (if git_identity_of (di_git d) = None \<or> li_deployment (di_lifecycle d) = ABSENT
         then obs O_EXACT ''Git identity management is not requested''
         else obs O_UNVERIFIED ''workspace is not a Git working tree'')
      else
        rbind (g_get s k_id_owner) (\<lambda>owner.
        rbind (g_get s k_id_version) (\<lambda>version.
        rbind (g_get s k_name) (\<lambda>name.
        rbind (g_get s k_email) (\<lambda>email.
        case requested_identity d of
          None \<Rightarrow>
            if owner = Some (di_id d) \<and> version \<noteq> Some ''1''
            then obs O_FOREIGN ''Git identity ownership version is unsupported''
            else if owner = Some (di_id d) then
              rbind (origin_problem s) (\<lambda>problem.
              case problem of
                Some p \<Rightarrow> obs O_FOREIGN p
              | None \<Rightarrow> obs O_DIFFERENT ''manager-owned Git identity must be released'')
            else obs O_EXACT ''Git identity is not manager-owned''
        | Some want \<Rightarrow>
            if owner = None \<and> version = None then
              (if name = None \<and> email = None then obs O_ABSENT ''Git identity is absent''
               else if name = Some (gid_name want) \<and> email = Some (gid_email want)
               then obs O_ABSENT ''exact existing Git identity may be adopted''
               else obs O_FOREIGN ''existing Git identity differs from desired state'')
            else if owner \<noteq> Some (di_id d) \<or> version \<noteq> Some ''1''
            then obs O_FOREIGN ''Git identity ownership marker is foreign or unsupported''
            else
              rbind (origin_problem s) (\<lambda>problem.
              case problem of
                Some p \<Rightarrow> obs O_FOREIGN p
              | None \<Rightarrow>
                  if name = Some (gid_name want) \<and> email = Some (gid_email want)
                  then obs O_EXACT ''manager-owned Git identity matches desired state''
                  else obs O_DIFFERENT ''manager-owned Git identity differs from desired state''))))))"

definition repo_of_opt :: "string option \<Rightarrow> string option" where
  "repo_of_opt u = github_repo_path (case u of Some x \<Rightarrow> x | None \<Rightarrow> [])"

definition protocol_of_opt :: "string option \<Rightarrow> git_protocol option" where
  "protocol_of_opt u = github_remote_protocol (case u of Some x \<Rightarrow> x | None \<Rightarrow> [])"

text \<open>The transport settings a protocol calls for.\<close>

definition wanted_helpers :: "manager_paths \<Rightarrow> desired_instance \<Rightarrow> git_protocol \<Rightarrow> string list" where
  "wanted_helpers ps d p =
     (if p = PROTO_HTTPS_GH then [path_str (github_cli_helper_path ps d)] else [])"

definition wanted_ssh :: "nat \<Rightarrow> desired_instance \<Rightarrow> git_protocol \<Rightarrow> string list res" where
  "wanted_ssh uid d p =
     (if p = PROTO_SSH then rbind (git_ssh_command uid d) (\<lambda>c. Inr [c]) else Inr [])"

definition observe_requested_remote ::
  "generator \<Rightarrow> desired_instance \<Rightarrow> git_remote \<Rightarrow> string option \<Rightarrow> string option \<Rightarrow> git_state \<Rightarrow> observation res" where
  "observe_requested_remote g d want owner version s =
     rbind (g_get s (remote_key (gr_name want))) (\<lambda>url.
     case url of
       None \<Rightarrow> obs O_FOREIGN ''configured Git remote does not exist''
     | Some u \<Rightarrow>
       (case github_repo_path u of
          None \<Rightarrow> obs O_FOREIGN ''configured remote is not a supported GitHub URL''
        | Some repo \<Rightarrow>
          rbind (g_remote_url s (gr_name want)) (\<lambda>effective.
          if repo_of_opt effective \<noteq> Some repo
          then obs O_FOREIGN ''effective Git remote resolves to a different or unsupported repository''
          else
            (let wanted_url = canonical_github_url repo (gr_protocol want) in
             rbind (g_get_all s k_helper) (\<lambda>helpers.
             rbind (g_get_all s k_ssh) (\<lambda>ssh.
             rbind (wanted_ssh (gen_uid g) d (gr_protocol want)) (\<lambda>ssh_wanted.
             if owner = None \<and> version = None then
               (if protocol_of_opt effective \<noteq> Some (gr_protocol want)
                then obs O_FOREIGN ''existing Git remote protocol differs from desired state''
                else if helpers \<noteq> [] \<or> ssh \<noteq> []
                then obs O_FOREIGN ''existing repository-local Git transport settings are foreign''
                else obs O_ABSENT
                  (if u = wanted_url \<and> effective = Some wanted_url
                   then ''exact existing Git remote may be adopted''
                   else ''semantically equivalent effective Git remote may be adopted''))
             else if owner \<noteq> Some (di_id d) \<or> version \<noteq> Some ''1''
             then obs O_FOREIGN ''Git remote ownership marker is foreign or unsupported''
             else
               rbind (g_get s k_re_name) (\<lambda>rname.
               if rname \<noteq> Some (gr_name want)
               then obs O_FOREIGN ''Git remote ownership metadata names a different remote''
               else rbind (g_get s k_re_url) (\<lambda>original.
                 if original = None then obs O_FOREIGN ''Git remote original URL metadata is missing''
                 else if u = wanted_url \<and> helpers = wanted_helpers (gen_paths g) d (gr_protocol want) \<and>
                         ssh = ssh_wanted
                 then obs O_EXACT ''manager-owned Git remote matches desired state''
                 else obs O_DIFFERENT ''manager-owned Git remote differs from desired state'')))))))))"

definition observe_transport :: "generator \<Rightarrow> desired_instance \<Rightarrow> git_state \<Rightarrow> observation res" where
  "observe_transport g d s =
     (if di_version d < 2 then obs O_EXACT ''v1 has no managed Git remote''
      else if \<not> repository_present s then
        (if git_remote_of (di_git d) = None \<or> li_deployment (di_lifecycle d) = ABSENT
         then obs O_EXACT ''Git remote management is not requested''
         else obs O_UNVERIFIED ''workspace is not a Git working tree'')
      else
        rbind (g_get s k_re_owner) (\<lambda>owner.
        rbind (g_get s k_re_version) (\<lambda>version.
        case requested_remote d of
          None \<Rightarrow>
            if owner = Some (di_id d) \<and> version \<noteq> Some ''1''
            then obs O_FOREIGN ''Git transport ownership version is unsupported''
            else if owner = Some (di_id d) then
              rbind (g_get s k_re_name) (\<lambda>n.
              if n = None then obs O_FOREIGN ''Git transport ownership metadata is incomplete''
              else rbind (g_get s k_re_url) (\<lambda>u.
                if u = None then obs O_FOREIGN ''Git transport ownership metadata is incomplete''
                else obs O_DIFFERENT ''manager-owned Git remote settings must be released''))
            else obs O_EXACT ''Git remote is not manager-owned''
        | Some want \<Rightarrow> observe_requested_remote g d want owner version s)))"

section \<open>Convergence\<close>

definition release_identity :: "unit gm" where
  "release_identity =
     ebind (eread (\<lambda>s. g_get s k_id_origin)) (\<lambda>origin.
     ebind
       (if origin = Some ''adopted'' then
          ebind (eread (\<lambda>s. g_get s k_id_name)) (\<lambda>n.
          ebind (eread (\<lambda>s. g_get s k_id_email)) (\<lambda>e.
          case (n, e) of
            (Some name, Some email) \<Rightarrow> ebind (g_set k_name name) (\<lambda>_. g_set k_email email)
          | _ \<Rightarrow> eraise (conflict_error ''adopted Git identity is missing original values'' [])))
        else if origin = Some ''created'' then ebind (g_unset k_name) (\<lambda>_. g_unset k_email)
        else eraise (conflict_error ''Git identity origin marker is invalid'' []))
     (\<lambda>_. each_e g_unset [k_id_owner, k_id_version, k_id_origin, k_id_name, k_id_email]))"

definition claim_identity :: "desired_instance \<Rightarrow> git_identity \<Rightarrow> unit gm" where
  "claim_identity d want =
     ebind (eread (\<lambda>s. g_get s k_name)) (\<lambda>name.
     ebind (eread (\<lambda>s. g_get s k_email)) (\<lambda>email.
     ebind
       (if name = None \<and> email = None then ereturn ''created''
        else if name = Some (gid_name want) \<and> email = Some (gid_email want) then
          ebind (g_set k_id_name (gid_name want)) (\<lambda>_.
          ebind (g_set k_id_email (gid_email want)) (\<lambda>_. ereturn ''adopted''))
        else eraise (conflict_error ''refusing to replace foreign Git identity'' []))
     (\<lambda>origin.
       ebind (g_set k_id_origin origin) (\<lambda>_.
       ebind (g_set k_id_owner (di_id d)) (\<lambda>_. g_set k_id_version ''1'')))))"

definition converge_identity :: "desired_instance \<Rightarrow> unit gm" where
  "converge_identity d =
     ebind (eread (\<lambda>s. g_get s k_id_owner)) (\<lambda>owner.
     case requested_identity d of
       None \<Rightarrow> if owner \<noteq> Some (di_id d) then ereturn () else release_identity
     | Some want \<Rightarrow>
         ebind (if owner = None then claim_identity d want else ereturn ()) (\<lambda>_.
         ebind (g_set k_name (gid_name want)) (\<lambda>_. g_set k_email (gid_email want))))"

definition release_transport :: "unit gm" where
  "release_transport =
     ebind (eread (\<lambda>s. g_get s k_re_url)) (\<lambda>original.
     ebind (eread (\<lambda>s. g_get s k_re_name)) (\<lambda>managed.
     case (original, managed) of
       (Some u, Some n) \<Rightarrow>
         ebind (g_set (remote_key n) u) (\<lambda>_.
         ebind (g_unset k_helper) (\<lambda>_.
         ebind (g_unset k_ssh) (\<lambda>_.
         each_e g_unset [k_re_owner, k_re_version, k_re_name, k_re_url])))
     | _ \<Rightarrow> eraise (conflict_error ''managed Git transport is missing reversible ownership metadata'' [])))"

definition claim_transport :: "desired_instance \<Rightarrow> git_remote \<Rightarrow> string \<Rightarrow> string option \<Rightarrow> unit gm" where
  "claim_transport d want current effective =
     ebind
       (if protocol_of_opt effective \<noteq> Some (gr_protocol want) then ereturn True
        else
          ebind (eread (\<lambda>s. g_get_all s k_helper)) (\<lambda>hs.
          if hs \<noteq> [] then ereturn True
          else ebind (eread (\<lambda>s. g_get_all s k_ssh)) (\<lambda>ss. ereturn (ss \<noteq> []))))
     (\<lambda>foreign.
       if foreign then eraise (conflict_error ''refusing to replace foreign Git remote settings'' [])
       else
         ebind (g_set k_re_url current) (\<lambda>_.
         ebind (g_set k_re_name (gr_name want)) (\<lambda>_.
         ebind (g_set k_re_owner (di_id d)) (\<lambda>_. g_set k_re_version ''1''))))"

definition install_transport :: "generator \<Rightarrow> desired_instance \<Rightarrow> git_remote \<Rightarrow> string \<Rightarrow> unit gm" where
  "install_transport g d want repo =
     ebind (g_set (remote_key (gr_name want)) (canonical_github_url repo (gr_protocol want))) (\<lambda>_.
     if gr_protocol want = PROTO_HTTPS_GH then
       ebind (g_set k_helper (path_str (github_cli_helper_path (gen_paths g) d))) (\<lambda>_. g_unset k_ssh)
     else
       ebind (g_unset k_helper) (\<lambda>_.
       ebind (eread (\<lambda>_. git_ssh_command (gen_uid g) d)) (\<lambda>c. g_set k_ssh c)))"

definition converge_transport :: "generator \<Rightarrow> desired_instance \<Rightarrow> unit gm" where
  "converge_transport g d =
     ebind (eread (\<lambda>s. g_get s k_re_owner)) (\<lambda>owner.
     case requested_remote d of
       None \<Rightarrow> if owner \<noteq> Some (di_id d) then ereturn () else release_transport
     | Some want \<Rightarrow>
         ebind (eread (\<lambda>s. g_get s (remote_key (gr_name want)))) (\<lambda>current.
         case current of
           None \<Rightarrow> eraise (conflict_error ''configured Git remote does not exist'' [])
         | Some u \<Rightarrow>
           (case github_repo_path u of
              None \<Rightarrow> eraise (conflict_error ''configured Git remote is not a supported GitHub URL'' [])
            | Some repo \<Rightarrow>
              ebind (eread (\<lambda>s. g_remote_url s (gr_name want))) (\<lambda>effective.
              if repo_of_opt effective \<noteq> Some repo
              then eraise (conflict_error
                ''effective Git remote resolves to a different or unsupported repository'' [])
              else
                ebind (if owner = None then claim_transport d want u effective else ereturn ()) (\<lambda>_.
                install_transport g d want repo)))))"

end
