(* ===== verification/Registry.thy ===== *)
theory Registry
  imports Files Declaration
begin

text \<open>
  The registry of declarations (registry.py): one JSON file per instance, created and
  updated under the instance lock, with optimistic concurrency on the fingerprint, and
  frozen while maintenance or an upgrade is pending.

  An operation holds the instance's exclusive lock for its whole run, so it is one atomic
  transition of the state. Creating the registry and lock directories is taken to succeed;
  \<open>write_ok\<close> says whether the temporary file can be written and renamed.
\<close>

section \<open>State\<close>

record registry_state =
  rs_directory :: ppath
  rs_files :: files
  rs_import_locks :: "string list"
  rs_import_authority :: "string list"
  rs_upgrade_authority :: "(ppath \<times> string option) list"

text \<open>
  \<open>rs_import_locks\<close>: instances whose import lock another process holds exclusively;
  \<open>rs_import_authority\<close> and \<open>rs_upgrade_authority\<close>: the capabilities held by
  this process (context variables).
\<close>

definition child :: "ppath \<Rightarrow> string list \<Rightarrow> ppath" where
  "child p parts = foldl path_div p parts"

definition state_root_of :: "ppath \<Rightarrow> ppath" where
  "state_root_of directory =
     child (path_parent (path_parent (path_parent directory)))
       [''.local'', ''state'', ''workspace-mcp-manager'']"

definition is_canonical :: "ppath \<Rightarrow> bool" where
  "is_canonical directory \<longleftrightarrow>
     path_name directory = ''instances'' \<and>
     path_name (path_parent directory) = ''workspace-mcp-manager'' \<and>
     path_name (path_parent (path_parent directory)) = ''.config''"

section \<open>Guards\<close>

definition upgrade_authorized :: "registry_state \<Rightarrow> ppath \<Rightarrow> string option \<Rightarrow> bool" where
  "upgrade_authorized s root iid \<longleftrightarrow> (root, iid) \<in> set (rs_upgrade_authority s)"

text \<open>The pending transaction is an uninstallation, read from its journal.\<close>

definition journal_uninstall :: "files \<Rightarrow> ppath \<Rightarrow> bool" where
  "journal_uninstall fs journal \<longleftrightarrow>
     \<not> f_is_symlink fs journal \<and>
     (case f_read fs journal of
        ReadText t \<Rightarrow>
          (case loads t of Some v \<Rightarrow> jget v ''operation'' = Some (JStr ''uninstall'') | None \<Rightarrow> False)
      | _ \<Rightarrow> False)"

definition assert_maintenance_allows :: "registry_state \<Rightarrow> ppath \<Rightarrow> bool \<Rightarrow> string option \<Rightarrow> unit res" where
  "assert_maintenance_allows s root removing iid =
     (let fs = rs_files s;
          upgrade = path_div root ''instance-upgrade.json'';
          journal = path_div root ''maintenance-transaction.json''
      in require (\<not> ((f_exists fs upgrade \<or> f_is_symlink fs upgrade) \<and> \<not> upgrade_authorized s root iid))
           (conflict_error ''instance upgrade is pending; resume it before changing instances'' [])
         (if \<not> f_exists fs journal \<and> \<not> f_is_symlink fs journal then Inr ()
          else if removing \<and> journal_uninstall fs journal then Inr ()
          else Inl (conflict_error
            ''distribution maintenance is pending; recover or finish it before changing instances'' [])))"

definition removal_request :: "desired_instance \<Rightarrow> bool" where
  "removal_request d \<longleftrightarrow>
     li_deployment (di_lifecycle d) = ABSENT \<and> li_runtime (di_lifecycle d) = STOPPED"

definition maintenance_guard :: "registry_state \<Rightarrow> desired_instance option \<Rightarrow> unit res" where
  "maintenance_guard s desired =
     (if is_canonical (rs_directory s) then
        assert_maintenance_allows s (state_root_of (rs_directory s))
          (case desired of None \<Rightarrow> False | Some d \<Rightarrow> removal_request d)
          (map_option di_id desired)
      else Inr ())"

definition import_coordination :: "registry_state \<Rightarrow> ppath \<Rightarrow> string \<Rightarrow> unit res" where
  "import_coordination s root iid =
     (let fs = rs_files s;
          journal = child root [''imports'', iid @ ''.json'']
      in if iid \<in> set (rs_import_authority s) then Inr ()
         else
           require (\<not> (f_is_symlink fs root \<or> f_is_symlink fs (path_div root ''import-locks'')))
             (conflict_error ''unsafe import coordination path'' [])
           (require (iid \<notin> set (rs_import_locks s))
             (conflict_error (''instance import is in progress: '' @ iid) [])
           (require (\<not> (f_exists fs journal \<or> f_is_symlink fs journal))
             (conflict_error (''recover the pending import: '' @ iid) [])
           (Inr ()))))"

definition instance_lock :: "registry_state \<Rightarrow> string \<Rightarrow> unit res" where
  "instance_lock s iid =
     (if is_canonical (rs_directory s)
      then import_coordination s (state_root_of (rs_directory s)) iid else Inr ())"

section \<open>Reading\<close>

definition path_for :: "registry_state \<Rightarrow> string \<Rightarrow> ppath res" where
  "path_for s iid = rbind (instance_id_of iid) (\<lambda>i. Inr (path_div (rs_directory s) (i @ ''.json'')))"

definition read_instance :: "registry_state \<Rightarrow> ppath \<Rightarrow> desired_instance res" where
  "read_instance s path =
     (case f_read (rs_files s) path of
        ReadMissing \<Rightarrow> Inl (ManagerError INSTANCE_NOT_FOUND
          (''instance declaration not found: '' @ path_stem path) [])
      | ReadFailed \<Rightarrow> Inl (ManagerError IO_ERROR
          (''cannot read instance declaration: '' @ path_str path) [])
      | ReadText t \<Rightarrow>
          rbind (from_json t) (\<lambda>d.
          require (di_id d = path_stem path)
            (ManagerError REGISTRY_INVALID ''registry filename does not match instance_id''
               [(''path'', JStr (path_str path)), (''instance_id'', JStr (di_id d))])
          (Inr d)))"

definition get :: "registry_state \<Rightarrow> string \<Rightarrow> desired_instance res" where
  "get s iid = rbind (path_for s iid) (read_instance s)"

text \<open>
  \<open>list\<close>: the files with suffix \<open>.json\<close> in name order. \<open>can_list\<close> says whether the
  directory can be enumerated.
\<close>

definition json_children :: "registry_state \<Rightarrow> ppath list" where
  "json_children s =
     sort_by path_name
       (filter (\<lambda>p. path_parent p = rs_directory s \<and> p \<noteq> rs_directory s \<and>
                    suffix ''.json'' (path_name p))
         (remdups (map fst (rs_files s))))"

definition list_instances :: "registry_state \<Rightarrow> bool \<Rightarrow> desired_instance list res" where
  "list_instances s can_list =
     (if \<not> f_exists (rs_files s) (rs_directory s) then Inr []
      else if \<not> can_list then
        Inl (ManagerError IO_ERROR (''cannot list registry: '' @ path_str (rs_directory s)) [])
      else traverse (read_instance s) (json_children s))"

section \<open>Writing\<close>

definition payload :: "desired_instance \<Rightarrow> string" where
  "payload d = dumps_indent2 (to_dict d) @ newline"

definition write_instance ::
  "bool \<Rightarrow> registry_state \<Rightarrow> ppath \<Rightarrow> desired_instance \<Rightarrow> unit res \<times> registry_state" where
  "write_instance write_ok s path d =
     (case (if write_ok then f_replace (rs_files s) path (payload d) else None) of
        None \<Rightarrow> (Inl (ManagerError IO_ERROR
          (''cannot write instance declaration: '' @ path_str path) []), s)
      | Some fs \<Rightarrow> (Inr (), s\<lparr>rs_files := fs\<rparr>))"

definition finish_write :: "ppath \<Rightarrow> unit res \<times> registry_state \<Rightarrow> ppath res \<times> registry_state" where
  "finish_write path r = (rbind (fst r) (\<lambda>_. Inr path), snd r)"

definition create ::
  "bool \<Rightarrow> registry_state \<Rightarrow> desired_instance \<Rightarrow> ppath res \<times> registry_state" where
  "create write_ok s d =
     (let checked =
        rbind (path_for s (di_id d)) (\<lambda>path.
        rbind (instance_lock s (di_id d)) (\<lambda>_.
        rbind (maintenance_guard s None) (\<lambda>_.
        require (\<not> f_exists (rs_files s) path)
          (ManagerError INSTANCE_EXISTS (''instance already exists: '' @ di_id d) [])
        (Inr path))))
      in case checked of
           Inl e \<Rightarrow> (Inl e, s)
         | Inr path \<Rightarrow> finish_write path (write_instance write_ok s path d))"

definition check_current ::
  "(string \<Rightarrow> string) \<Rightarrow> desired_instance \<Rightarrow> string option \<Rightarrow> desired_instance \<Rightarrow> unit res" where
  "check_current H d expected current =
     require (case expected of None \<Rightarrow> True | Some f \<Rightarrow> fingerprint H current = f)
       (ManagerError STALE_STATE (''stale declaration for '' @ di_id d)
          [(''instance_id'', JStr (di_id d)),
           (''expected_current_fingerprint'', opt_str expected),
           (''current_fingerprint'', JStr (fingerprint H current))])
     (require (\<not> di_version d < di_version current)
       (ManagerError CONFIG_VERSION_UNSUPPORTED ''instance config_version downgrade is not supported''
          [(''current'', JInt (di_version current)), (''requested'', JInt (di_version d))])
     (Inr ()))"

definition update ::
  "(string \<Rightarrow> string) \<Rightarrow> bool \<Rightarrow> registry_state \<Rightarrow> desired_instance \<Rightarrow> string option \<Rightarrow>
     ppath res \<times> registry_state" where
  "update H write_ok s d expected =
     (let checked =
        rbind (path_for s (di_id d)) (\<lambda>path.
        rbind (instance_lock s (di_id d)) (\<lambda>_.
        rbind (maintenance_guard s (Some d)) (\<lambda>_.
        require (f_is_file (rs_files s) path)
          (ManagerError INSTANCE_NOT_FOUND (''instance declaration not found: '' @ di_id d) [])
        (rbind (read_instance s path) (\<lambda>current.
         rbind (check_current H d expected current) (\<lambda>_. Inr path))))))
      in case checked of
           Inl e \<Rightarrow> (Inl e, s)
         | Inr path \<Rightarrow> finish_write path (write_instance write_ok s path d))"

end
