(* ===== verification/Observer.thy ===== *)
theory Observer
  imports DevEnv Endpoint Registry
begin

text \<open>
  Observation of the host by the planner (planning.py, \<open>HostResourceObserver\<close>): the state of
  a path, of a generated resource, of a systemd unit, and the identities of the managed units
  installed by anyone. \<open>H\<close> is the digest whose prefix is shown for a file that differs.
\<close>

section \<open>Paths and resources\<close>

definition mk_obs :: "obs_status \<Rightarrow> string \<Rightarrow> observation" where
  "mk_obs st detail = \<lparr>ob_status = st, ob_detail = detail\<rparr>"

datatype path_kind = WantDirectory | WantFile

definition check_path :: "host \<Rightarrow> string \<Rightarrow> path_kind \<Rightarrow> bool \<Rightarrow> bool \<Rightarrow> observation" where
  "check_path h path expected executable writable =
     (let p = path_of path in
      case h_stat h p of
        StatMissing \<Rightarrow> mk_obs O_ABSENT ''path does not exist''
      | StatDenied \<Rightarrow> mk_obs O_UNVERIFIED ''current execution context cannot inspect path''
      | StatError e \<Rightarrow> mk_obs O_UNVERIFIED (''cannot inspect path: '' @ e)
      | StatOk ty _ \<Rightarrow>
          if expected = WantDirectory \<and> ty \<noteq> T_DIR then mk_obs O_FOREIGN ''expected directory''
          else if expected = WantFile \<and> ty \<noteq> T_REG then mk_obs O_FOREIGN ''expected regular file''
          else if executable \<and> \<not> h_executable h p then mk_obs O_DIFFERENT ''path is not executable''
          else if writable \<and> \<not> h_writable h p
          then mk_obs O_DIFFERENT ''directory is not read/write/search accessible''
          else mk_obs O_EXACT ''path satisfies requirement'')"

definition show_mode :: "nat \<Rightarrow> string" where
  "show_mode m = ''0o'' @ oct_digits m"

definition token_in :: "string option \<Rightarrow> string \<Rightarrow> bool" where
  "token_in token t \<longleftrightarrow> (case token of None \<Rightarrow> True | Some k \<Rightarrow> k = [] \<or> contains k t)"

text \<open>The check of the marker file: \<open>None\<close> when the resource may be examined further.\<close>

definition marker_problem :: "host \<Rightarrow> resource \<Rightarrow> observation option" where
  "marker_problem h r =
     (case r_marker_path r of
        None \<Rightarrow> None
      | Some m \<Rightarrow>
          (let mp = path_of m; shown = path_str mp in
           case h_text h mp of
             TextMissing _ \<Rightarrow> Some (mk_obs O_FOREIGN (''ownership marker is missing: '' @ shown))
           | TextDenied _ \<Rightarrow> Some (mk_obs O_UNVERIFIED
               (''current execution context cannot read ownership marker: '' @ shown))
           | TextUndecodable \<Rightarrow> Some (mk_obs O_FOREIGN (''ownership marker is not valid UTF-8: '' @ shown))
           | TextError e \<Rightarrow> Some (mk_obs O_UNVERIFIED
               (''cannot read ownership marker '' @ shown @ '': '' @ e))
           | TextOk t \<Rightarrow>
               if token_in (r_token r) t then None
               else Some (mk_obs O_FOREIGN
                 (''ownership marker does not identify this instance: '' @ shown))))"

definition observe_directory :: "resource \<Rightarrow> file_type \<Rightarrow> nat \<Rightarrow> observation" where
  "observe_directory r ty mode =
     (if ty \<noteq> T_DIR then mk_obs O_FOREIGN ''expected directory but found another file type''
      else if mode \<noteq> r_mode r
      then mk_obs O_DIFFERENT (''directory mode is '' @ show_mode mode @ '', expected '' @ show_mode (r_mode r))
      else mk_obs O_EXACT ''directory exists with expected mode'')"

definition observe_file :: "(string \<Rightarrow> string) \<Rightarrow> host \<Rightarrow> resource \<Rightarrow> file_type \<Rightarrow> nat \<Rightarrow> observation" where
  "observe_file H h r ty mode =
     (if ty \<noteq> T_REG then mk_obs O_FOREIGN ''expected regular file but found another file type''
      else
        (case h_text h (path_of (r_path r)) of
           TextDenied _ \<Rightarrow> mk_obs O_UNVERIFIED ''current execution context cannot safely read file''
         | TextUndecodable \<Rightarrow> mk_obs O_FOREIGN ''managed text file is not valid UTF-8''
         | TextMissing e \<Rightarrow> mk_obs O_UNVERIFIED (''cannot read file: '' @ e)
         | TextError e \<Rightarrow> mk_obs O_UNVERIFIED (''cannot read file: '' @ e)
         | TextOk t \<Rightarrow>
             if r_marker_path r = None \<and> \<not> token_in (r_token r) t
             then mk_obs O_FOREIGN ''ownership marker is absent''
             else if t = (case r_content r of Some c \<Rightarrow> c | None \<Rightarrow> []) \<and> mode = r_mode r
             then mk_obs O_EXACT ''content and mode match''
             else mk_obs O_DIFFERENT (''owned resource differs (content_sha256_prefix='' @
               take 12 (H t) @ '', mode='' @ show_mode mode @ '')'')))"

definition observe_resource :: "(string \<Rightarrow> string) \<Rightarrow> host \<Rightarrow> resource \<Rightarrow> observation" where
  "observe_resource H h r =
     (case h_lstat h (path_of (r_path r)) of
        StatMissing \<Rightarrow> mk_obs O_ABSENT ''path does not exist''
      | StatDenied \<Rightarrow> mk_obs O_UNVERIFIED ''current execution context cannot inspect path''
      | StatError e \<Rightarrow> mk_obs O_UNVERIFIED (''cannot inspect path: '' @ e)
      | StatOk ty mode \<Rightarrow>
          (case marker_problem h r of
             Some o' \<Rightarrow> o'
           | None \<Rightarrow> if r_kind r = DIRECTORY then observe_directory r ty mode
                     else observe_file H h r ty mode))"

section \<open>Units\<close>

record unit_observation =
  uo_loaded :: bool
  uo_enabled :: bool
  uo_active :: bool
  uo_detail :: "string option"

text \<open>The \<open>KEY=VALUE\<close> lines of \<open>systemctl show\<close>; the last value of a key counts.\<close>

definition property_lines :: "string \<Rightarrow> (string \<times> string) list" where
  "property_lines out = List.map_filter (partition_on CHR ''='') (lines_of out)"

definition property_or :: "(string \<times> string) list \<Rightarrow> string \<Rightarrow> string \<Rightarrow> string" where
  "property_or ps k dflt = (case map_of (rev ps) k of Some v \<Rightarrow> v | None \<Rightarrow> dflt)"

definition observe_unit :: "host \<Rightarrow> string \<Rightarrow> unit_observation" where
  "observe_unit h unit =
     (case h_unit_show h unit of
        ProcError e \<Rightarrow> \<lparr>uo_loaded = False, uo_enabled = False, uo_active = False,
                       uo_detail = Some (''systemctl unavailable: '' @ e)\<rparr>
      | ProcDone rc out err \<Rightarrow>
          if rc \<noteq> 0 then
            \<lparr>uo_loaded = False, uo_enabled = False, uo_active = False,
             uo_detail = Some (if strip err = [] then ''unit query failed'' else strip err)\<rparr>
          else
            (let ps = property_lines out in
             \<lparr>uo_loaded = (property_or ps ''LoadState'' ''not-found'' = ''loaded''),
              uo_enabled = (property_or ps ''UnitFileState'' [] \<in>
                set [''enabled'', ''enabled-runtime'', ''linked'', ''linked-runtime'']),
              uo_active = (property_or ps ''ActiveState'' ''inactive'' \<in>
                set [''active'', ''activating'', ''reloading'']),
              uo_detail = None\<rparr>))"

section \<open>Identities of managed units\<close>

type_synonym identity = "(string \<times> string) list"

definition marker_map :: "(string \<times> string) list" where
  "marker_map =
     [(''# workspace-mcp-port='', ''mcp_port''),
      (''# workspace-mcp-manager-port='', ''mcp_port''),
      (''# workspace-mcp-profile='', ''tunnel_profile''),
      (''# workspace-mcp-manager-profile='', ''tunnel_profile''),
      (''# workspace-mcp-health-port='', ''tunnel_health_port''),
      (''# workspace-mcp-manager-health-port='', ''tunnel_health_port''),
      (''# workspace-mcp-tunnel-id='', ''tunnel_id''),
      (''# workspace-mcp-manager-tunnel-id='', ''tunnel_id''),
      (''# workspace-mcp-instance='', ''instance_id''),
      (''# '' @ owner_prefix, ''instance_id'')]"

definition read_marker :: "string \<Rightarrow> string \<times> string \<Rightarrow> identity \<Rightarrow> identity" where
  "read_marker stripped m rec =
     (if prefix (fst m) stripped then dict_set (snd m) (strip (drop (length (fst m)) stripped)) rec else rec)"

definition read_markers :: "string \<Rightarrow> identity \<Rightarrow> identity" where
  "read_markers out rec = fold (\<lambda>line. fold (read_marker (strip line)) marker_map) (lines_of out) rec"

text \<open>
  The value after an option word: \<open>(?:^|\s)--host\s+(\S+)(?:\s|$)\<close> matches the first
  occurrence of the word that is followed by an acceptable word.
\<close>

fun word_after :: "string \<Rightarrow> (string \<Rightarrow> bool) \<Rightarrow> string list \<Rightarrow> string option" where
  "word_after opt ok (w # v # ws) =
     (if w = opt \<and> ok v then Some v else word_after opt ok (v # ws))"
| "word_after opt ok _ = None"

definition set_opt :: "string \<Rightarrow> string option \<Rightarrow> identity \<Rightarrow> identity" where
  "set_opt k v rec = (case v of Some x \<Rightarrow> dict_set k x rec | None \<Rightarrow> rec)"

definition read_exec_property :: "string \<times> string \<Rightarrow> identity \<Rightarrow> identity" where
  "read_exec_property kv rec =
     (if fst kv = ''WorkingDirectory'' \<and> strip (snd kv) \<noteq> []
      then dict_set ''workspace_path'' (strip (snd kv)) rec
      else if fst kv = ''ExecStart'' then
        set_opt ''mcp_port'' (word_after ''--port'' (list_all is_digit) (words_of (snd kv)))
          (set_opt ''mcp_host'' (word_after ''--host'' (\<lambda>_. True) (words_of (snd kv))) rec)
      else rec)"

definition ok_output :: "proc_result \<Rightarrow> string option" where
  "ok_output r = (case r of ProcDone rc out err \<Rightarrow> if rc = 0 then Some out else None | _ \<Rightarrow> None)"

definition unit_identity :: "host \<Rightarrow> string \<Rightarrow> identity" where
  "unit_identity h unit =
     (let r0 = [(''unit_name'', unit)];
          r1 = (case ok_output (h_unit_cat h unit) of Some out \<Rightarrow> read_markers out r0 | None \<Rightarrow> r0)
      in if prefix ''coding-tools-mcp-'' unit then
           (case ok_output (h_unit_exec h unit) of
              Some out \<Rightarrow> fold read_exec_property (property_lines out) r1
            | None \<Rightarrow> r1)
         else r1)"

definition managed_identities :: "host \<Rightarrow> identity list" where
  "managed_identities h =
     (case h_unit_list h of
        ProcError _ \<Rightarrow> []
      | ProcDone rc out err \<Rightarrow>
          map (unit_identity h)
            (filter (suffix ''.service'')
              (List.map_filter (\<lambda>l. case words_of l of [] \<Rightarrow> None | w # _ \<Rightarrow> Some w) (lines_of out))))"

definition id_get :: "identity \<Rightarrow> string \<Rightarrow> string option" where
  "id_get rec k = map_of rec k"

definition unit_of :: "identity \<Rightarrow> string" where
  "unit_of rec = (case id_get rec ''unit_name'' of Some u \<Rightarrow> u | None \<Rightarrow> [])"

definition required_metadata :: "string \<Rightarrow> string list" where
  "required_metadata unit =
     (if prefix ''coding-tools-mcp-'' unit then [''workspace_path'', ''mcp_port'']
      else if prefix ''tunnel-client-'' unit then [''tunnel_profile'', ''tunnel_health_port'', ''tunnel_id'']
      else [])"

definition incomplete_units :: "identity list \<Rightarrow> string list" where
  "incomplete_units recs =
     sort (map unit_of
       (filter (\<lambda>r. \<not> list_all (\<lambda>k. id_get r k \<noteq> None) (required_metadata (unit_of r))) recs))"

end
