(* ===== verification/Planning.thy ===== *)
theory Planning
  imports Observer
begin

text \<open>
  The reconciliation planner (planning.py, \<open>ReconciliationPlanner\<close>): conflicts with other
  instances and with the host, the file, unit and git operations that lead to the desired
  state, and the removal of resources an earlier apply left behind. The planner only reads: a
  plan is a function of the registry, of the host's answers and of the git configuration.
\<close>

section \<open>Plans\<close>

datatype plan_op = P_CREATE | P_UPDATE | P_ENABLE | P_DISABLE | P_START | P_STOP | P_RESTART
  | P_REMOVE | P_NOOP | P_CONFLICT

fun plan_op_value :: "plan_op \<Rightarrow> string" where
  "plan_op_value P_CREATE = ''CREATE''"
| "plan_op_value P_UPDATE = ''UPDATE''"
| "plan_op_value P_ENABLE = ''ENABLE''"
| "plan_op_value P_DISABLE = ''DISABLE''"
| "plan_op_value P_START = ''START''"
| "plan_op_value P_STOP = ''STOP''"
| "plan_op_value P_RESTART = ''RESTART''"
| "plan_op_value P_REMOVE = ''REMOVE''"
| "plan_op_value P_NOOP = ''NOOP''"
| "plan_op_value P_CONFLICT = ''CONFLICT''"

record plan_item =
  pi_op :: plan_op
  pi_target :: string
  pi_reason :: string
  pi_rid :: "string option"

definition item :: "plan_op \<Rightarrow> string \<Rightarrow> string \<Rightarrow> string \<Rightarrow> plan_item" where
  "item op target reason rid =
     \<lparr>pi_op = op, pi_target = target, pi_reason = reason, pi_rid = Some rid\<rparr>"

definition item_dict :: "plan_item \<Rightarrow> json" where
  "item_dict i =
     JObj [(''operation'', JStr (plan_op_value (pi_op i))), (''target'', JStr (pi_target i)),
           (''reason'', JStr (pi_reason i)), (''resource_id'', opt_str (pi_rid i))]"

record plan =
  pl_instance :: string
  pl_fingerprint :: string
  pl_valid :: bool
  pl_items :: "plan_item list"
  pl_warnings :: "string list"

definition plan_dict :: "plan \<Rightarrow> json" where
  "plan_dict p =
     JObj [(''instance_id'', JStr (pl_instance p)),
           (''desired_fingerprint'', JStr (pl_fingerprint p)),
           (''valid'', JBool (pl_valid p)),
           (''warnings'', strs (pl_warnings p)),
           (''operations'', JArr (map item_dict (pl_items p)))]"

section \<open>Conflicts with declared instances\<close>

definition mk_endpoint :: "string \<Rightarrow> int \<Rightarrow> string \<Rightarrow> string \<Rightarrow> string option \<Rightarrow> endpoint" where
  "mk_endpoint host port purpose source iid =
     \<lparr>ep_host = host, ep_port = port, ep_purpose = purpose, ep_source = source,
      ep_instance_id = iid, ep_attribution = None, ep_dual_stack_unknown = False\<rparr>"

definition endpoints_of :: "string \<Rightarrow> desired_instance \<Rightarrow> endpoint list" where
  "endpoints_of source d =
     [mk_endpoint (mcp_host (di_mcp d)) (mcp_port (di_mcp d)) ''MCP'' source (Some (di_id d)),
      mk_endpoint (tun_health_host (di_tunnel d)) (tun_health_port (di_tunnel d)) ''Tunnel health''
        source (Some (di_id d))]"

definition host_port :: "string \<Rightarrow> int \<Rightarrow> string" where
  "host_port host port = host @ '':'' @ show_int port"

definition internal_conflict :: "desired_instance \<Rightarrow> plan_item list" where
  "internal_conflict d =
     (case endpoint_overlap (endpoints_of ''candidate'' d ! 0) (endpoints_of ''candidate'' d ! 1) of
        Some False \<Rightarrow> []
      | ov \<Rightarrow>
        [item P_CONFLICT (host_port (mcp_host (di_mcp d)) (mcp_port (di_mcp d)))
           (if ov = Some True then ''candidate MCP and tunnel-health endpoints overlap''
            else ''cannot prove candidate MCP and tunnel-health endpoints are disjoint without network resolution'')
           ''endpoint''])"

definition identity_collision :: "desired_instance \<Rightarrow> desired_instance \<Rightarrow> string \<times> string \<times> string \<Rightarrow> plan_item list" where
  "identity_collision d other c =
     (case c of (left, right, label) \<Rightarrow>
        if left = right then
          [\<lparr>pi_op = P_CONFLICT, pi_target = di_id d,
            pi_reason = label @ '' collides with declared instance '' @ di_id other, pi_rid = None\<rparr>]
        else [])"

definition endpoint_collision :: "desired_instance \<Rightarrow> endpoint \<Rightarrow> endpoint \<Rightarrow> plan_item list" where
  "endpoint_collision other left right =
     (case endpoint_overlap left right of
        Some False \<Rightarrow> []
      | ov \<Rightarrow>
        [item P_CONFLICT (host_port (ep_host left) (ep_port left))
           (if ov = Some True then
              ep_purpose left @ '' endpoint collides with '' @ lower_string (ep_purpose right) @
                '' endpoint of declared instance '' @ di_id other
            else
              ''cannot prove '' @ ep_purpose left @ '' endpoint is disjoint from '' @
                lower_string (ep_purpose right) @ '' endpoint of declared instance '' @ di_id other @
                '' without network resolution'')
           ''endpoint''])"

definition conflicts_with :: "desired_instance \<Rightarrow> desired_instance \<Rightarrow> plan_item list" where
  "conflicts_with d other =
     (if di_id other = di_id d then []
      else
        concat (map (identity_collision d other)
          [(di_workspace d, di_workspace other, ''workspace path''),
           (tun_id (di_tunnel d), tun_id (di_tunnel other), ''tunnel ID''),
           (tun_profile (di_tunnel d), tun_profile (di_tunnel other), ''tunnel profile'')]) @
        concat (map (\<lambda>left. concat (map (endpoint_collision other left) (endpoints_of ''declared'' other)))
          (endpoints_of ''candidate'' d)))"

definition registry_conflicts :: "registry_state \<Rightarrow> desired_instance \<Rightarrow> plan_item list res" where
  "registry_conflicts reg d =
     rbind (list_instances reg True) (\<lambda>others.
     Inr (internal_conflict d @ concat (map (conflicts_with d) others)))"

section \<open>Host preconditions\<close>

definition precondition_checks :: "generator \<Rightarrow> desired_instance \<Rightarrow> (string \<times> string \<times> path_kind \<times> bool \<times> bool) list" where
  "precondition_checks g d =
     [(di_workspace d, ''workspace'', WantDirectory, False, True),
      (mcp_binary (di_mcp d), ''MCP binary'', WantFile, True, False),
      (tun_binary (di_tunnel d), ''tunnel binary'', WantFile, True, False),
      (tun_env_file (di_tunnel d), ''tunnel environment file'', WantFile, False, False),
      (path_str (manager_executable (gen_paths g)), ''manager runtime executable'', WantFile, True, False),
      (gen_curl g, ''curl binary'', WantFile, True, False)] @
     map (\<lambda>f. (af_path f, ''RO access source '' @ af_alias f, WantDirectory, False, False))
       (ac_read_only (di_access d) @ ac_read_execute (di_access d)) @
     map (\<lambda>f. (af_path f, ''RW access source '' @ af_alias f, WantDirectory, False, True))
       (ac_read_write (di_access d) @ ac_read_write_execute (di_access d))"

definition precondition_item :: "host \<Rightarrow> string \<times> string \<times> path_kind \<times> bool \<times> bool \<Rightarrow> plan_item list" where
  "precondition_item h c =
     (case c of (path, label, expected, executable, writable) \<Rightarrow>
        let o' = check_path h path expected executable writable
        in if ob_status o' = O_EXACT then []
           else [item P_CONFLICT path (label @ '' precondition failed: '' @ ob_detail o') ''precondition''])"

definition host_preconditions :: "generator \<Rightarrow> host \<Rightarrow> desired_instance \<Rightarrow> plan_item list" where
  "host_preconditions g h d =
     concat (map (precondition_item h) (precondition_checks g d)) @
     map (\<lambda>p. item P_CONFLICT (di_id d) (''PM1 precondition failed: '' @ p) ''pm1-precondition'')
       (validate_pm1 g h d)"

section \<open>Conflicts with installed units\<close>

definition target_units :: "desired_instance \<Rightarrow> string list" where
  "target_units d = [mcp_unit_name (di_id d), tunnel_unit_name (di_id d)]"

definition identity_fields :: "desired_instance \<Rightarrow> (string \<times> string \<times> string) list" where
  "identity_fields d =
     [(''workspace_path'', di_workspace d, ''workspace path''),
      (''mcp_port'', show_int (mcp_port (di_mcp d)), ''MCP port''),
      (''tunnel_profile'', tun_profile (di_tunnel d), ''tunnel profile''),
      (''tunnel_health_port'', show_int (tun_health_port (di_tunnel d)), ''tunnel health port''),
      (''tunnel_id'', tun_id (di_tunnel d), ''tunnel ID'')]"

text \<open>The pairs (unit, field) already reported are not reported again.\<close>

fun collision_items ::
  "(string \<times> string) list \<Rightarrow> (string \<times> string \<times> string \<times> identity) list \<Rightarrow> plan_item list" where
  "collision_items seen [] = []"
| "collision_items seen ((key, expected, label, rec) # cs) =
     (if id_get rec key \<noteq> Some expected \<or> (unit_of rec, key) \<in> set seen then collision_items seen cs
      else item P_CONFLICT expected (label @ '' collides with existing managed unit '' @ unit_of rec) ''host-identity''
             # collision_items ((unit_of rec, key) # seen) cs)"

definition managed_host_conflicts :: "host \<Rightarrow> desired_instance \<Rightarrow> plan_item list" where
  "managed_host_conflicts h d =
     (let recs = managed_identities h;
          foreign = filter (\<lambda>u. u \<notin> set (target_units d)) (incomplete_units recs);
          others = filter (\<lambda>r. unit_of r \<notin> set (target_units d)) recs
      in map (\<lambda>u. item P_CONFLICT u
           ''collision-sensitive identity metadata cannot be fully verified from the current execution context''
           ''host-identity'') foreign @
         collision_items []
           (concat (map (\<lambda>r. map (\<lambda>(k, e, l). (k, e, l, r)) (identity_fields d)) others)))"

section \<open>Conflicts with listeners\<close>

definition listener_checks :: "desired_instance \<Rightarrow> (string \<times> string \<times> int \<times> string) list" where
  "listener_checks d =
     [(''mcp-unit'', mcp_host (di_mcp d), mcp_port (di_mcp d), ''MCP listener''),
      (''tunnel-unit'', tun_health_host (di_tunnel d), tun_health_port (di_tunnel d), ''tunnel health listener'')]"

definition resource_by_id :: "resource list \<Rightarrow> string \<Rightarrow> resource option" where
  "resource_by_id rs rid = find (\<lambda>r. r_id r = rid) rs"

definition unit_name_of :: "resource \<Rightarrow> string" where
  "unit_name_of r = (case r_unit r of Some u \<Rightarrow> u | None \<Rightarrow> [])"

definition has_unit :: "resource \<Rightarrow> bool" where
  "has_unit r \<longleftrightarrow> unit_name_of r \<noteq> []"

definition owned_listener ::
  "(string \<Rightarrow> string) \<Rightarrow> host \<Rightarrow> desired_instance \<Rightarrow> resource \<Rightarrow> string \<Rightarrow> int \<Rightarrow> bool" where
  "owned_listener H h d r host port \<longleftrightarrow>
     (let unit = observe_unit h (unit_name_of r); st = ob_status (observe_resource H h r)
      in uo_loaded unit \<and> uo_active unit \<and>
         (st = O_EXACT \<or>
          (r_id r = ''mcp-unit'' \<and> st = O_DIFFERENT \<and>
           (case find (\<lambda>i. unit_of i = unit_name_of r) (rev (managed_identities h)) of
              None \<Rightarrow> False
            | Some i \<Rightarrow> id_get i ''instance_id'' = Some (di_id d) \<and>
                id_get i ''mcp_host'' = Some host \<and> id_get i ''mcp_port'' = Some (show_int port)))))"

text \<open>The endpoint is the one the registry already declares for this instance.\<close>

definition endpoint_unchanged :: "registry_state \<Rightarrow> desired_instance \<Rightarrow> string \<Rightarrow> bool res" where
  "endpoint_unchanged reg d rid =
     (case get reg (di_id d) of
        Inl e \<Rightarrow> if err_code e = INSTANCE_NOT_FOUND then Inr False else Inl e
      | Inr c \<Rightarrow> Inr
          (if rid = ''mcp-unit''
           then mcp_host (di_mcp c) = mcp_host (di_mcp d) \<and> mcp_port (di_mcp c) = mcp_port (di_mcp d)
           else tun_health_host (di_tunnel c) = tun_health_host (di_tunnel d) \<and>
                tun_health_port (di_tunnel c) = tun_health_port (di_tunnel d)))"

definition listener_item ::
  "(string \<Rightarrow> string) \<Rightarrow> registry_state \<Rightarrow> host \<Rightarrow> desired_instance \<Rightarrow> resource list \<Rightarrow> listener_observation \<Rightarrow>
     string \<times> string \<times> int \<times> string \<Rightarrow> plan_item list res" where
  "listener_item H reg h d rs seen c =
     (case c of (rid, host, port, label) \<Rightarrow>
        (let candidate = mk_endpoint host port label ''candidate'' (Some (di_id d));
             overlapping = list_ex (\<lambda>e. endpoint_overlap candidate e = Some True) (lo_endpoints seen);
             owned = (case resource_by_id (filter has_unit rs) rid of Some r \<Rightarrow> owned_listener H h d r host port | None \<Rightarrow> False);
             occupied = (if overlapping \<and> \<not> owned then
               [item P_CONFLICT (host_port host port)
                  (label @ '' is already occupied without verified ownership by '' @ di_id d) rid] else [])
         in if lo_state seen = LS_AVAILABLE then Inr occupied
            else
              rbind (endpoint_unchanged reg d rid) (\<lambda>same.
              Inr (occupied @
                (if same then []
                 else [item P_CONFLICT (host_port host port)
                   (label @ '' collision evidence is '' @ listener_state_value (lo_state seen) @
                    ''; endpoint-sensitive mutation fails closed'') rid])))))"

definition listener_conflicts ::
  "(string \<Rightarrow> string) \<Rightarrow> registry_state \<Rightarrow> host \<Rightarrow> desired_instance \<Rightarrow> resource list \<Rightarrow> plan_item list res" where
  "listener_conflicts H reg h d rs =
     rbind (traverse (listener_item H reg h d rs (observe_tcp_listeners (h_listeners h))) (listener_checks d))
       (\<lambda>xs. Inr (concat xs))"

section \<open>File operations\<close>

definition is_present :: "desired_instance \<Rightarrow> bool" where
  "is_present d \<longleftrightarrow> li_deployment (di_lifecycle d) = PRESENT"

definition is_running :: "desired_instance \<Rightarrow> bool" where
  "is_running d \<longleftrightarrow> li_runtime (di_lifecycle d) = RUNNING"

definition removal_rank :: "resource \<Rightarrow> nat \<times> string" where
  "removal_rank r =
     (if r_unit r \<noteq> None \<or> r_kind r = TUNNEL_PROFILE then 10
      else if r_id r = ''access-ignore'' then 20
      else if prefix ''access-'' (r_id r) \<and> r_kind r = DIRECTORY then 30
      else if r_id r = ''access-root'' then 40
      else if r_id r = ''access-owner'' then 50
      else if r_id r = ''state-dir'' then 60
      else if r_id r = ''state-owner'' then 70
      else 25, r_id r)"

definition present_item :: "resource \<Rightarrow> observation \<Rightarrow> plan_item" where
  "present_item r ob =
     (case ob_status ob of
        O_ABSENT \<Rightarrow> item P_CREATE (r_path r) ''managed resource is absent'' (r_id r)
      | O_EXACT \<Rightarrow> item P_NOOP (r_path r) ''managed resource matches desired state'' (r_id r)
      | O_DIFFERENT \<Rightarrow> item P_UPDATE (r_path r) (ob_detail ob) (r_id r)
      | O_FOREIGN \<Rightarrow> item P_CONFLICT (r_path r) (ob_detail ob) (r_id r)
      | O_UNVERIFIED \<Rightarrow> item P_CONFLICT (r_path r)
          (''resource cannot be safely reconciled: '' @ ob_detail ob) (r_id r))"

definition absent_item :: "resource \<Rightarrow> observation \<Rightarrow> plan_item" where
  "absent_item r ob =
     (case ob_status ob of
        O_ABSENT \<Rightarrow> item P_NOOP (r_path r) ''resource is already absent'' (r_id r)
      | O_EXACT \<Rightarrow> item P_REMOVE (r_path r) ''owned resource must be absent'' (r_id r)
      | O_DIFFERENT \<Rightarrow> item P_REMOVE (r_path r) ''owned resource must be absent'' (r_id r)
      | O_FOREIGN \<Rightarrow> item P_CONFLICT (r_path r) (ob_detail ob) (r_id r)
      | O_UNVERIFIED \<Rightarrow> item P_CONFLICT (r_path r)
          (''resource cannot be safely reconciled: '' @ ob_detail ob) (r_id r))"

definition file_item :: "(string \<Rightarrow> string) \<Rightarrow> host \<Rightarrow> bool \<Rightarrow> resource \<Rightarrow> plan_item" where
  "file_item H h present r =
     (if \<not> present \<and> \<not> r_remove r
      then item P_NOOP (r_path r) ''shared resource is retained when one instance is absent'' (r_id r)
      else if present then present_item r (observe_resource H h r)
      else absent_item r (observe_resource H h r))"

definition file_operations :: "(string \<Rightarrow> string) \<Rightarrow> host \<Rightarrow> desired_instance \<Rightarrow> resource list \<Rightarrow> plan_item list" where
  "file_operations H h d rs =
     map (file_item H h (is_present d)) (if is_present d then rs else sort_by removal_rank rs)"

definition changed_ids :: "plan_item list \<Rightarrow> string list" where
  "changed_ids items =
     List.map_filter pi_rid (filter (\<lambda>i. pi_op i \<in> {P_CREATE, P_UPDATE, P_REMOVE}) items)"

section \<open>Resources an earlier apply left behind\<close>

definition applied_conflict :: "manager_paths \<Rightarrow> desired_instance \<Rightarrow> manager_error \<Rightarrow> string \<Rightarrow> plan_item list" where
  "applied_conflict ps d e rid =
     [item P_CONFLICT (path_str (applied_path ps (di_id d))) (err_message e) rid]"

definition stale_access_item :: "(string \<Rightarrow> string) \<Rightarrow> host \<Rightarrow> resource \<Rightarrow> plan_item" where
  "stale_access_item H h r =
     (let ob = observe_resource H h r in
      case ob_status ob of
        O_ABSENT \<Rightarrow> item P_NOOP (r_path r) ''obsolete applied access resource is already absent'' (r_id r)
      | O_EXACT \<Rightarrow> item P_REMOVE (r_path r) ''obsolete manager-owned access resource must be removed'' (r_id r)
      | O_DIFFERENT \<Rightarrow> item P_REMOVE (r_path r) ''obsolete manager-owned access resource must be removed'' (r_id r)
      | _ \<Rightarrow> item P_CONFLICT (r_path r)
          (''obsolete access resource cannot be safely removed: '' @ ob_detail ob) (r_id r))"

definition stale_access_operations ::
  "(string \<Rightarrow> string) \<Rightarrow> manager_paths \<Rightarrow> host \<Rightarrow> desired_instance \<Rightarrow> gen_bundle \<Rightarrow> plan_item list" where
  "stale_access_operations H ps h d b =
     (case stale_access H ps h d b of
        Inl e \<Rightarrow> applied_conflict ps d e ''access-ownership''
      | Inr rs \<Rightarrow> map (stale_access_item H h) rs)"

text \<open>\<open>kind\<close> is \<open>admission-guard\<close> or \<open>development\<close>.\<close>

definition retire_unit :: "host \<Rightarrow> string \<Rightarrow> resource \<Rightarrow> plan_item list" where
  "retire_unit h kind r =
     (let u = observe_unit h (unit_name_of r)
      in (if uo_active u then [item P_STOP (unit_name_of r)
            (''obsolete '' @ kind @ '' unit must stop before removal'') (r_id r)] else []) @
         (if uo_enabled u then [item P_DISABLE (unit_name_of r)
            (''obsolete '' @ kind @ '' unit must be disabled before removal'') (r_id r)] else []))"

definition stale_guard_item :: "(string \<Rightarrow> string) \<Rightarrow> host \<Rightarrow> resource \<Rightarrow> plan_item list" where
  "stale_guard_item H h r =
     (let ob = observe_resource H h r in
      if ob_status ob = O_ABSENT
      then [item P_NOOP (r_path r) ''obsolete admission-guard resource is already absent'' (r_id r)]
      else if ob_status ob \<noteq> O_EXACT
      then [item P_CONFLICT (r_path r)
             (''obsolete admission-guard resource cannot be safely removed: '' @ ob_detail ob) (r_id r)]
      else if unit_name_of r = []
      then [item P_CONFLICT (r_path r) ''obsolete admission-guard resource has no systemd unit identity'' (r_id r)]
      else retire_unit h ''admission-guard'' r @
        [item P_REMOVE (r_path r) ''obsolete manager-owned admission-guard resource must be removed'' (r_id r)])"

definition stale_guard_operations ::
  "(string \<Rightarrow> string) \<Rightarrow> manager_paths \<Rightarrow> host \<Rightarrow> desired_instance \<Rightarrow> gen_bundle \<Rightarrow> plan_item list" where
  "stale_guard_operations H ps h d b =
     (case stale_guard H ps h d b of
        Inl e \<Rightarrow> applied_conflict ps d e ''admission-guard-ownership''
      | Inr rs \<Rightarrow> concat (map (stale_guard_item H h) rs))"

definition stale_development_item :: "(string \<Rightarrow> string) \<Rightarrow> host \<Rightarrow> resource \<Rightarrow> plan_item list" where
  "stale_development_item H h r =
     (let ob = observe_resource H h r in
      if ob_status ob = O_ABSENT
      then [item P_NOOP (r_path r) ''obsolete development resource is already absent'' (r_id r)]
      else if ob_status ob \<noteq> O_EXACT
      then [item P_CONFLICT (r_path r)
             (''obsolete development resource cannot be safely removed: '' @ ob_detail ob) (r_id r)]
      else (if unit_name_of r = [] then [] else retire_unit h ''development'' r) @
        [item P_REMOVE (r_path r) ''obsolete manager-owned development resource must be removed'' (r_id r)])"

definition stale_development_operations ::
  "(string \<Rightarrow> string) \<Rightarrow> manager_paths \<Rightarrow> host \<Rightarrow> desired_instance \<Rightarrow> gen_bundle \<Rightarrow> plan_item list" where
  "stale_development_operations H ps h d b =
     (case stale_development H ps h d b of
        Inl e \<Rightarrow> applied_conflict ps d e ''development-ownership''
      | Inr rs \<Rightarrow> concat (map (stale_development_item H h) rs))"

section \<open>Unit operations\<close>

definition stop_priority :: "resource \<Rightarrow> nat \<times> string" where
  "stop_priority r =
     (if r_id r = ''admission-guard-timer'' then 0
      else if r_id r = ''tunnel-unit'' then 1
      else if r_id r = ''mcp-unit'' then 2
      else if r_id r = ''admission-guard-unit'' then 3
      else 10, r_id r)"

definition present_unit_items :: "host \<Rightarrow> bool \<Rightarrow> string list \<Rightarrow> resource \<Rightarrow> plan_item list" where
  "present_unit_items h running changed r =
     (let u = observe_unit h (unit_name_of r); name = unit_name_of r
      in (if r_enable r \<and> \<not> uo_enabled u then [item P_ENABLE name ''unit must be enabled'' (r_id r)] else []) @
         (if r_active r \<and> running then
            (if uo_active u \<and> r_id r \<in> set changed
             then [item P_RESTART name ''active unit resource changed'' (r_id r)]
             else if \<not> uo_active u then [item P_START name ''unit must be active'' (r_id r)]
             else [])
          else if uo_active u then [item P_STOP name ''unit must be stopped'' (r_id r)]
          else []))"

definition absent_unit_items :: "host \<Rightarrow> resource \<Rightarrow> plan_item list" where
  "absent_unit_items h r =
     (let u = observe_unit h (unit_name_of r); name = unit_name_of r
      in (if uo_active u then [item P_STOP name ''deployment target is absent'' (r_id r)] else []) @
         (if uo_enabled u then [item P_DISABLE name ''deployment target is absent'' (r_id r)] else []))"

text \<open>The tunnel depends on the MCP server and is restarted with it.\<close>

definition dependent_restart :: "host \<Rightarrow> resource list \<Rightarrow> plan_item list \<Rightarrow> plan_item list" where
  "dependent_restart h units ops =
     (case resource_by_id units ''tunnel-unit'' of
        None \<Rightarrow> []
      | Some t \<Rightarrow>
          if list_ex (\<lambda>i. pi_rid i = Some ''tunnel-unit'' \<and> pi_op i \<in> {P_START, P_RESTART}) ops then []
          else if uo_active (observe_unit h (unit_name_of t))
          then [item P_RESTART (unit_name_of t) ''MCP dependency is restarting'' (r_id t)]
          else [])"

definition unit_operations :: "host \<Rightarrow> desired_instance \<Rightarrow> resource list \<Rightarrow> string list \<Rightarrow> plan_item list" where
  "unit_operations h d rs changed =
     (let units = filter has_unit rs in
      if is_present d then
        (let ops = concat (map (present_unit_items h (is_running d) changed) units)
         in ops @ (if is_running d \<and> ''mcp-unit'' \<in> set changed then dependent_restart h units ops else []))
      else concat (map (absent_unit_items h) (sort_by stop_priority units)))"

section \<open>Git operations\<close>

definition dev_operation :: "observation \<Rightarrow> bool \<Rightarrow> plan_op" where
  "dev_operation ob requested =
     (case ob_status ob of
        O_EXACT \<Rightarrow> P_NOOP
      | O_ABSENT \<Rightarrow> P_CREATE
      | O_DIFFERENT \<Rightarrow> (if requested then P_UPDATE else P_REMOVE)
      | _ \<Rightarrow> P_CONFLICT)"

definition development_git_operations :: "generator \<Rightarrow> desired_instance \<Rightarrow> git_state \<Rightarrow> plan_item list res" where
  "development_git_operations g d git =
     (if di_version d < 2 then Inr []
      else
        rbind (observe_identity d git) (\<lambda>i.
        rbind (observe_transport g d git) (\<lambda>t.
        Inr [item (dev_operation i (is_present d \<and> git_identity_of (di_git d) \<noteq> None))
               (di_workspace d @ ''::dev-git-identity'')
               (''repository-local Git identity: '' @ ob_detail i) ''dev-git-identity'',
             item (dev_operation t (transport_is_requested d))
               (di_workspace d @ ''::dev-git-transport'')
               (''repository-local Git transport: '' @ ob_detail t) ''dev-git-transport''])))"

section \<open>The plan\<close>

definition is_conflict :: "plan_item \<Rightarrow> bool" where
  "is_conflict i \<longleftrightarrow> pi_op i = P_CONFLICT"

definition finish_plan :: "(string \<Rightarrow> string) \<Rightarrow> desired_instance \<Rightarrow> plan_item list \<Rightarrow> plan" where
  "finish_plan H d items =
     \<lparr>pl_instance = di_id d, pl_fingerprint = fingerprint H d,
      pl_valid = (\<not> list_ex is_conflict items), pl_items = items, pl_warnings = []\<rparr>"

definition plan_for ::
  "(string \<Rightarrow> string) \<Rightarrow> generator \<Rightarrow> registry_state \<Rightarrow> host \<Rightarrow> git_state \<Rightarrow> desired_instance \<Rightarrow> plan res" where
  "plan_for H g reg h git d =
     rbind (generate H g (rs_files reg) d) (\<lambda>b.
     rbind (registry_conflicts reg d) (\<lambda>declared.
     rbind (if is_present d then
              rbind (listener_conflicts H reg h d (b_resources b)) (\<lambda>ls.
              Inr (host_preconditions g h d @ managed_host_conflicts h d @ ls))
            else Inr []) (\<lambda>checks.
     rbind (development_git_operations g d git) (\<lambda>git_ops.
     let files = file_operations H h d (b_resources b);
         units = unit_operations h d (b_resources b) (changed_ids files);
         stale = stale_guard_operations H (gen_paths g) h d b @
                 stale_development_operations H (gen_paths g) h d b @
                 stale_access_operations H (gen_paths g) h d b
     in Inr (finish_plan H d
          (declared @ checks @
           (if is_present d then files @ git_ops @ units else units @ git_ops @ files) @ stale))))))"

end
