(* ===== verification/RecoveryPlan.thy ===== *)
theory RecoveryPlan
  imports Planning
begin

text \<open>
  Recovery of a failed first apply (recovery_planning.py): a state directory without its owner
  marker is a conflict, unless the journal of a failed transaction proves that the manager
  created both and only runtime logs are left. \<open>exists()\<close> is false where the path cannot be
  examined.
\<close>

definition runtime_state_files :: "string list" where
  "runtime_state_files =
     [''mcp.log'', ''tunnel.log'', ''tunnel-supervisor.log'', ''admission-guard.log'', ''admission-recovery.json'']"

definition p_exists :: "host \<Rightarrow> ppath \<Rightarrow> bool" where
  "p_exists h p \<longleftrightarrow> (case h_stat h p of StatOk _ _ \<Rightarrow> True | _ \<Rightarrow> False)"

definition p_is_dir :: "host \<Rightarrow> ppath \<Rightarrow> bool" where
  "p_is_dir h p \<longleftrightarrow> (case h_stat h p of StatOk T_DIR _ \<Rightarrow> True | _ \<Rightarrow> False)"

definition p_is_file :: "host \<Rightarrow> ppath \<Rightarrow> bool" where
  "p_is_file h p \<longleftrightarrow> is_regular (h_stat h p)"

definition p_is_symlink :: "host \<Rightarrow> ppath \<Rightarrow> bool" where
  "p_is_symlink h p \<longleftrightarrow> (case h_lstat h p of StatOk T_LINK _ \<Rightarrow> True | _ \<Rightarrow> False)"

definition p_mode :: "host \<Rightarrow> ppath \<Rightarrow> nat option" where
  "p_mode h p = (case h_stat h p of StatOk _ m \<Rightarrow> Some m | _ \<Rightarrow> None)"

text \<open>\<open>str(item.get('target'))\<close> of the entries that record a creation.\<close>

definition created_targets :: "json list \<Rightarrow> string list" where
  "created_targets executed =
     List.map_filter (\<lambda>i.
       if is_obj i \<and> jget i ''operation'' = Some (JStr ''CREATE'')
       then Some (case jget i ''target'' of Some (JStr t) \<Rightarrow> t | Some v \<Rightarrow> repr_json v | None \<Rightarrow> ''None'')
       else None) executed"

definition proves_creation :: "host \<Rightarrow> string \<Rightarrow> string \<Rightarrow> string \<Rightarrow> ppath \<Rightarrow> bool" where
  "proves_creation h iid sd owner p \<longleftrightarrow>
     (case h_text h p of
        TextOk t \<Rightarrow>
          (case loads t of
             Some pl \<Rightarrow>
               is_obj pl \<and> jget pl ''status'' = Some (JStr ''failed'') \<and>
               jget pl ''instance_id'' = Some (JStr iid) \<and>
               (case jget pl ''executed'' of
                  Some (JArr executed) \<Rightarrow> {sd, owner} \<subseteq> set (created_targets executed)
                | _ \<Rightarrow> False)
           | None \<Rightarrow> False)
      | _ \<Rightarrow> False)"

definition transaction_dir :: "manager_paths \<Rightarrow> string \<Rightarrow> ppath" where
  "transaction_dir ps iid = path_div (path_div (state_root ps) ''transactions'') iid"

definition supporting_transaction :: "manager_paths \<Rightarrow> host \<Rightarrow> string \<Rightarrow> string \<Rightarrow> string \<Rightarrow> string option" where
  "supporting_transaction ps h iid sd owner =
     (let dir = transaction_dir ps iid in
      if \<not> p_is_dir h dir then None
      else
        (case h_entries h dir of
           None \<Rightarrow> None
         | Some names \<Rightarrow>
             find (\<lambda>n. proves_creation h iid sd owner (path_div dir n))
               (rev (sort (filter (suffix ''.json'') names)))))"

record residue =
  re_state_dir :: string
  re_owner_path :: string
  re_transaction :: string
  re_runtime_files :: "string list"

definition residue_of :: "manager_paths \<Rightarrow> host \<Rightarrow> desired_instance \<Rightarrow> gen_bundle \<Rightarrow> residue option" where
  "residue_of ps h d b =
     (case (resource_by_id (rev (b_resources b)) ''state-dir'', resource_by_id (rev (b_resources b)) ''state-owner'') of
        (Some sr, Some owner_r) \<Rightarrow>
          (let sd = path_of (r_path sr); op = path_of (r_path owner_r) in
           if p_exists h (applied_path ps (di_id d)) then None
           else if \<not> p_exists h sd \<or> p_exists h op then None
           else if p_is_symlink h sd \<or> \<not> p_is_dir h sd then None
           else if p_mode h sd \<noteq> Some (r_mode sr) then None
           else
             (case supporting_transaction ps h (di_id d) (path_str sd) (path_str op) of
                None \<Rightarrow> None
              | Some tx \<Rightarrow>
                  (case h_entries h sd of
                     None \<Rightarrow> None
                   | Some names \<Rightarrow>
                       if list_all (\<lambda>n. n \<in> set runtime_state_files \<and>
                            \<not> p_is_symlink h (path_div sd n) \<and> p_is_file h (path_div sd n)) names
                       then Some \<lparr>re_state_dir = path_str sd, re_owner_path = path_str op,
                                  re_transaction = tx, re_runtime_files = sort names\<rparr>
                       else None)))
      | _ \<Rightarrow> None)"

definition recoverable_residue :: "manager_paths \<Rightarrow> host \<Rightarrow> desired_instance \<Rightarrow> gen_bundle \<Rightarrow> residue option" where
  "recoverable_residue ps h d b = (if is_present d then residue_of ps h d b else None)"

definition is_owner_create :: "residue \<Rightarrow> plan_item \<Rightarrow> bool" where
  "is_owner_create re i \<longleftrightarrow>
     pi_op i = P_CREATE \<and> pi_rid i = Some ''state-owner'' \<and> pi_target i = re_owner_path re"

definition is_missing_marker :: "residue \<Rightarrow> plan_item \<Rightarrow> bool" where
  "is_missing_marker re i \<longleftrightarrow>
     pi_op i = P_CONFLICT \<and> pi_rid i = Some ''state-dir'' \<and> pi_target i = re_state_dir re \<and>
     contains ''ownership marker is missing'' (pi_reason i)"

definition restored_item :: "residue \<Rightarrow> plan_item" where
  "restored_item re =
     item P_NOOP (re_state_dir re)
       ''journal-proven failed-first-apply state will have ownership restored before normal apply mutation''
       ''state-dir''"

text \<open>Only the first matching conflict is replaced: \<open>None\<close> when there is none.\<close>

fun replace_first :: "('a \<Rightarrow> bool) \<Rightarrow> 'a \<Rightarrow> 'a list \<Rightarrow> 'a list option" where
  "replace_first p y [] = None"
| "replace_first p y (x # xs) =
     (if p x then Some (y # xs) else map_option (Cons x) (replace_first p y xs))"

definition project_recoverable :: "manager_paths \<Rightarrow> host \<Rightarrow> desired_instance \<Rightarrow> gen_bundle \<Rightarrow> plan \<Rightarrow> plan" where
  "project_recoverable ps h d b p =
     (if pl_valid p then p
      else
        (case recoverable_residue ps h d b of
           None \<Rightarrow> p
         | Some re \<Rightarrow>
             if \<not> list_ex (is_owner_create re) (pl_items p) then p
             else
               (case replace_first (is_missing_marker re) (restored_item re) (pl_items p) of
                  None \<Rightarrow> p
                | Some items \<Rightarrow>
                    p\<lparr>pl_valid := \<not> list_ex is_conflict items, pl_items := items,
                      pl_warnings := pl_warnings p @
                        [''recoverable failed-first-apply residue detected; ownership restoration is supported by '' @
                         ''transaction '' @ re_transaction re @ '' and preserves known runtime logs'']\<rparr>)))"

end
