(* ===== verification/Plan_Parts.thy ===== *)
theory Plan_Parts
  imports RecoveryPlan
begin

text \<open>
  The parts of a plan: the contract the four resource policies share, the evidence of the
  owner behind everything that is touched, and the operations each part can ask for.
\<close>

section \<open>The contract of the resource policies\<close>

text \<open>
  Four parts of the planner decide on a resource from its observed status: the present and
  the absent file operations and the treatment of obsolete resources. They share a contract:
  what is updated or removed was observed as owned, and what is foreign or cannot be examined
  becomes a conflict. \<open>examined\<close> are the resources the part looks at.
\<close>

locale resource_policy =
  fixes items :: "resource \<Rightarrow> plan_item list"
    and status :: "resource \<Rightarrow> obs_status"
    and examined :: "resource \<Rightarrow> bool"
  assumes touched: "i \<in> set (items r) \<Longrightarrow> pi_op i \<in> {P_UPDATE, P_REMOVE} \<Longrightarrow>
      examined r \<and> status r \<in> {O_EXACT, O_DIFFERENT} \<and> pi_target i = r_path r \<and> pi_rid i = Some (r_id r)"
    and unsafe: "examined r \<Longrightarrow> status r \<in> {O_FOREIGN, O_UNVERIFIED} \<Longrightarrow> \<exists>i \<in> set (items r). is_conflict i"
begin

definition all_items :: "resource list \<Rightarrow> plan_item list" where
  "all_items rs = concat (map items rs)"

lemma touched_resource:
  assumes "i \<in> set (all_items rs)" and "pi_op i \<in> {P_UPDATE, P_REMOVE}"
  obtains r where "r \<in> set rs" and "examined r" and "status r \<in> {O_EXACT, O_DIFFERENT}"
    and "pi_target i = r_path r" and "pi_rid i = Some (r_id r)"
  using assms touched by (auto simp: all_items_def)

lemma conflict_free_known:
  assumes "\<not> list_ex is_conflict (all_items rs)" and "r \<in> set rs" and "examined r"
  shows "status r \<in> {O_ABSENT, O_EXACT, O_DIFFERENT}"
proof -
  have "\<not> (\<exists>i \<in> set (items r). is_conflict i)"
    using assms(1,2) by (auto simp: all_items_def list_ex_iff)
  with unsafe assms(3) show ?thesis by (cases "status r") auto
qed

end

definition seen_status :: "(string \<Rightarrow> string) \<Rightarrow> host \<Rightarrow> resource \<Rightarrow> obs_status" where
  "seen_status H h r = ob_status (observe_resource H h r)"

lemma item_sel [simp]:
  "pi_op (item op t m r) = op" "pi_target (item op t m r) = t" "pi_reason (item op t m r) = m"
  "pi_rid (item op t m r) = Some r"
  by (simp_all add: item_def)

lemma is_conflict_item [simp]: "is_conflict (item op t m r) \<longleftrightarrow> op = P_CONFLICT"
  by (simp add: is_conflict_def)

interpretation file_policy: resource_policy "\<lambda>r. [file_item H h present r]" "seen_status H h"
  "\<lambda>r. present \<or> r_remove r" for H h present
  by unfold_locales
    (auto simp: file_item_def present_item_def absent_item_def seen_status_def
      split: if_splits obs_status.splits)

interpretation access_policy: resource_policy "\<lambda>r. [stale_access_item H h r]" "seen_status H h"
  "\<lambda>r. True" for H h
  by unfold_locales
    (auto simp: stale_access_item_def Let_def seen_status_def split: obs_status.splits)

interpretation guard_policy: resource_policy "stale_guard_item H h" "seen_status H h" "\<lambda>r. True" for H h
  by unfold_locales
    (auto simp: stale_guard_item_def retire_unit_def Let_def seen_status_def split: if_splits)

interpretation development_policy: resource_policy "stale_development_item H h" "seen_status H h"
  "\<lambda>r. True" for H h
  by unfold_locales
    (auto simp: stale_development_item_def retire_unit_def Let_def seen_status_def split: if_splits)

lemma file_operations_alt:
  "file_operations H h d rs =
     file_policy.all_items H h (is_present d) (if is_present d then rs else sort_by removal_rank rs)"
  by (simp add: file_operations_def file_policy.all_items_def concat_map_singleton)

section \<open>Evidence of the owner\<close>

text \<open>
  What the planner has seen of a resource it touches: an entry of the right type, not a
  symbolic link, and the marker in the marker file or in the file itself.
\<close>

definition owner_evidence :: "string \<Rightarrow> host \<Rightarrow> resource \<Rightarrow> bool" where
  "owner_evidence m h r \<longleftrightarrow>
     (\<exists>mode. h_lstat h (path_of (r_path r)) = StatOk (if r_kind r = DIRECTORY then T_DIR else T_REG) mode) \<and>
     (\<exists>t. h_text h (path_of (case r_marker_path r of Some p \<Rightarrow> p | None \<Rightarrow> r_path r)) = TextOk t \<and>
          contains m t)"

definition anchored :: "string \<Rightarrow> resource \<Rightarrow> bool" where
  "anchored m r \<longleftrightarrow> r_token r = Some m \<and> m \<noteq> [] \<and> (r_kind r = DIRECTORY \<longrightarrow> r_marker_path r \<noteq> None)"

lemma mk_obs_sel [simp]: "ob_status (mk_obs st t) = st" "ob_detail (mk_obs st t) = t"
  by (simp_all add: mk_obs_def)

lemma marker_problem_None:
  "marker_problem h r = None \<longleftrightarrow>
     (\<forall>m. r_marker_path r = Some m \<longrightarrow> (\<exists>t. h_text h (path_of m) = TextOk t \<and> token_in (r_token r) t))"
  by (auto simp: marker_problem_def Let_def split: option.splits text_result.splits)

lemma marker_problem_status:
  "marker_problem h r = Some ob \<Longrightarrow> ob_status ob \<in> {O_FOREIGN, O_UNVERIFIED}"
  by (auto simp: marker_problem_def Let_def split: option.splits text_result.splits if_splits)

lemma token_in_Some: "m \<noteq> [] \<Longrightarrow> token_in (Some m) t \<longleftrightarrow> contains m t"
  by (simp add: token_in_def)

lemma observe_file_owned:
  assumes "ob_status (observe_file H h r ty mode) \<in> {O_EXACT, O_DIFFERENT}"
  shows "ty = T_REG \<and> (\<exists>t. h_text h (path_of (r_path r)) = TextOk t \<and>
     (r_marker_path r = None \<longrightarrow> token_in (r_token r) t))"
  using assms by (auto simp: observe_file_def split: if_splits text_result.splits)

lemma observe_directory_type:
  "ob_status (observe_directory r ty mode) \<in> {O_EXACT, O_DIFFERENT} \<Longrightarrow> ty = T_DIR"
  by (auto simp: observe_directory_def split: if_splits)

lemma seen_evidence:
  assumes "seen_status H h r \<in> {O_EXACT, O_DIFFERENT}" and "anchored m r"
  shows "owner_evidence m h r"
proof -
  from assms(1) obtain ty mode where l: "h_lstat h (path_of (r_path r)) = StatOk ty mode"
    by (auto simp: seen_status_def observe_resource_def split: stat_result.splits)
  have "marker_problem h r = None"
  proof (rule ccontr)
    assume "marker_problem h r \<noteq> None"
    then obtain ob where "marker_problem h r = Some ob" by blast
    with l assms(1) marker_problem_status [OF this] show False
      by (auto simp: seen_status_def observe_resource_def)
  qed
  with l assms(1) have st: "ob_status (if r_kind r = DIRECTORY then observe_directory r ty mode
      else observe_file H h r ty mode) \<in> {O_EXACT, O_DIFFERENT}"
    by (simp add: seen_status_def observe_resource_def)
  have mk: "r_marker_path r = Some q \<Longrightarrow> \<exists>t. h_text h (path_of q) = TextOk t \<and> contains m t" for q
    using \<open>marker_problem h r = None\<close> assms(2)
    by (auto simp: marker_problem_None anchored_def token_in_Some)
  show ?thesis
  proof (cases "r_kind r = DIRECTORY")
    case True
    with st have "ty = T_DIR" using observe_directory_type by simp
    with True l mk assms(2) show ?thesis by (auto simp: owner_evidence_def anchored_def)
  next
    case False
    with st have "ty = T_REG \<and> (\<exists>t. h_text h (path_of (r_path r)) = TextOk t \<and>
        (r_marker_path r = None \<longrightarrow> token_in (r_token r) t))"
      using observe_file_owned by simp
    with False l mk assms(2) show ?thesis
      by (cases "r_marker_path r") (auto simp: owner_evidence_def anchored_def token_in_Some)
  qed
qed

lemma marker_nonempty [simp]: "owner_prefix \<noteq> []"
  by (simp add: owner_prefix_def)

lemma directories_empty:
  assumes "all_resources g d = Inr rs" and "r \<in> set rs" and "r_kind r = DIRECTORY"
  shows "r_content r = None"
proof -
  from assms(1) obtain units github helper agent guard where
    "core_units g d = Inr units" "github_resources g d = Inr github"
    "helper_resources g d = Inr helper" "agent_resources g d = Inr agent"
    "guard_resources g d = Inr guard"
    "rs = base_resources g d @ units @ github @ helper @ agent @ access_resources d @ guard"
    by (rule all_resources_groups)
  note gs = this
  have "r \<in> set (base_resources g d) \<Longrightarrow> ?thesis"
    using assms(3) by (auto simp: base_resources_def Let_def resource_defs)
  moreover have "r \<in> set units \<Longrightarrow> ?thesis"
    using gs(1) assms(3) by (auto simp: core_units_def Let_def res_simps resource_defs)
  moreover have "r \<in> set github \<Longrightarrow> ?thesis"
    using gs(2) assms(3) by (auto simp: github_resources_def Let_def resource_defs split: if_splits option.splits)
  moreover have "r \<in> set helper \<Longrightarrow> ?thesis"
    using gs(3) assms(3) by (auto simp: helper_resources_def res_simps resource_defs split: if_splits)
  moreover have "r \<in> set agent \<Longrightarrow> ?thesis"
    using gs(4) assms(3) by (auto simp: agent_resources_def res_simps resource_defs split: if_splits)
  moreover have "r \<in> set (access_resources d) \<Longrightarrow> ?thesis"
    using assms(3) by (auto simp: access_resources_def Let_def resource_defs split: if_splits)
  moreover have "r \<in> set guard \<Longrightarrow> ?thesis"
    using gs(5) assms(3) by (auto simp: guard_resources_def Let_def res_simps resource_defs split: if_splits)
  ultimately show ?thesis using gs(6) assms(2) by auto
qed

lemma generated_anchored:
  assumes "generate H g fs d = Inr b" and "r \<in> set (b_resources b)" and "r_remove r \<or> r_token r \<noteq> None"
  shows "anchored (owner_prefix @ di_id d) r"
proof -
  have e: "evidenced (owner_prefix @ di_id d) (b_resources b) r"
    by (rule generated_evidenced [OF assms])
  have "r_kind r = DIRECTORY \<longrightarrow> r_content r = None"
    using assms(1)
  proof (rule generate_resources)
    fix rs p assume "all_resources g d = Inr rs" and b: "b_resources b = map (apply_policy p) rs"
    with assms(2) directories_empty show ?thesis by auto
  qed
  with e show ?thesis
    by (auto simp: anchored_def evidenced_def names_owner_def split: option.splits)
qed

lemma unmarked_directories:
  assumes "all_resources g d = Inr rs" and "r \<in> set rs" and "r_token r = None"
  shows "r_kind r = DIRECTORY \<and> r_marker_path r = None"
proof -
  from assms(1) obtain units github helper agent guard where
    "core_units g d = Inr units" "github_resources g d = Inr github"
    "helper_resources g d = Inr helper" "agent_resources g d = Inr agent"
    "guard_resources g d = Inr guard"
    "rs = base_resources g d @ units @ github @ helper @ agent @ access_resources d @ guard"
    by (rule all_resources_groups)
  note gs = this
  have "r \<in> set (base_resources g d) \<Longrightarrow> ?thesis"
    using assms(3) by (auto simp: base_resources_def Let_def resource_defs)
  moreover have "r \<in> set units \<Longrightarrow> ?thesis"
    using gs(1) assms(3) by (auto simp: core_units_def Let_def res_simps resource_defs)
  moreover have "r \<in> set github \<Longrightarrow> ?thesis"
    using gs(2) assms(3) by (auto simp: github_resources_def Let_def resource_defs split: if_splits option.splits)
  moreover have "r \<in> set helper \<Longrightarrow> ?thesis"
    using gs(3) assms(3) by (auto simp: helper_resources_def res_simps resource_defs split: if_splits)
  moreover have "r \<in> set agent \<Longrightarrow> ?thesis"
    using gs(4) assms(3) by (auto simp: agent_resources_def res_simps resource_defs split: if_splits)
  moreover have "r \<in> set (access_resources d) \<Longrightarrow> ?thesis"
    using assms(3) by (auto simp: access_resources_def Let_def resource_defs split: if_splits)
  moreover have "r \<in> set guard \<Longrightarrow> ?thesis"
    using gs(5) assms(3) by (auto simp: guard_resources_def Let_def res_simps resource_defs split: if_splits)
  ultimately show ?thesis using gs(6) assms(2) by auto
qed

lemma in_map_filter: "y \<in> set (List.map_filter f xs) \<longleftrightarrow> (\<exists>x \<in> set xs. f x = Some y)"
  by (force simp: List.map_filter_def)

lemma stale_access_anchored:
  assumes "stale_access H ps h d b = Inr rs" and "r \<in> set rs"
  shows "anchored (owner_prefix @ di_id d) r"
proof -
  have "\<exists>entry. stale_access_entry H d (b_resources b) entry = Inr (Some r)"
  proof (cases "h_text h (applied_path ps (di_id d))")
    case (TextOk t)
    with assms(1) obtain j v where v: "loads t = Some j" "applied_owned (di_id d) j = Inr v"
        "(case v of JArr items \<Rightarrow> rbind (traverse (stale_access_entry H d (b_resources b)) items) (\<lambda>rs.
            Inr (sort_by r_id (List.map_filter id rs)))
          | _ \<Rightarrow> Inl (conflict_error ''applied ownership resources are malformed'' [])) = Inr rs"
      by (auto simp: stale_access_def Let_def res_simps split: option.splits)
    then obtain items xs where "traverse (stale_access_entry H d (b_resources b)) items = Inr xs"
        "rs = sort_by r_id (List.map_filter id xs)"
      by (cases v) (auto simp: res_simps)
    with assms(2) show ?thesis by (auto simp: in_map_filter dest!: traverse_eq_InrD)
  qed (use assms in \<open>auto simp: stale_access_def Let_def\<close>)
  then obtain entry where "stale_access_entry H d (b_resources b) entry = Inr (Some r)" by blast
  then obtain rid where "access_resource_for d rid = Inr r"
    by (auto simp: stale_access_entry_def reconstruct_access_def res_simps
        split: if_splits option.splits json.splits)
  then show ?thesis
    by (auto simp: access_resource_for_def Let_def res_simps resource_defs anchored_def
        split: if_splits option.splits)
qed

lemma stale_guard_anchored:
  assumes "stale_guard H ps h d b = Inr rs" and "r \<in> set rs"
  shows "anchored (owner_prefix @ di_id d) r"
proof -
  obtain entry where "stale_guard_entry H ps h d (b_resources b) entry = Inr (Some r)"
    using assms by (auto simp: stale_guard_def res_simps in_map_filter dest!: traverse_eq_InrD)
  then show ?thesis
    by (auto simp: stale_guard_entry_def Let_def res_simps resource_defs anchored_def
        split: if_splits option.splits json.splits)
qed

lemma stale_development_anchored:
  assumes "stale_development H ps h d b = Inr rs" and "r \<in> set rs"
  shows "anchored (owner_prefix @ di_id d) r"
proof -
  obtain entry where "stale_development_entry H ps h d (b_resources b) entry = Inr (Some r)"
    using assms by (auto simp: stale_development_def res_simps in_map_filter dest!: traverse_eq_InrD)
  then show ?thesis
    by (auto simp: stale_development_entry_def Let_def res_simps resource_defs anchored_def
        split: if_splits option.splits json.splits)
qed

section \<open>The parts of a plan\<close>

lemma plan_for_Inr:
  assumes "plan_for H g reg h git d = Inr p"
  obtains b declared checks git_ops where "generate H g (rs_files reg) d = Inr b"
    and "registry_conflicts reg d = Inr declared"
    and "development_git_operations g d git = Inr git_ops"
    and "is_present d \<Longrightarrow> \<exists>ls. listener_conflicts H reg h d (b_resources b) = Inr ls \<and>
           checks = host_preconditions g h d @ managed_host_conflicts h d @ ls"
    and "\<not> is_present d \<Longrightarrow> checks = []"
    and "p = finish_plan H d
          (declared @ checks @
           (let files = file_operations H h d (b_resources b);
                units = unit_operations h d (b_resources b) (changed_ids files)
            in if is_present d then files @ git_ops @ units else units @ git_ops @ files) @
           stale_guard_operations H (gen_paths g) h d b @
           stale_development_operations H (gen_paths g) h d b @
           stale_access_operations H (gen_paths g) h d b)"
  using assms by (cases "is_present d") (auto simp: plan_for_def res_simps Let_def)

lemma finish_plan_sel [simp]:
  "pl_items (finish_plan H d is) = is" "pl_instance (finish_plan H d is) = di_id d"
  "pl_valid (finish_plan H d is) = (\<not> list_ex is_conflict is)" "pl_warnings (finish_plan H d is) = []"
  by (simp_all add: finish_plan_def)

text \<open>Which operations each part can ask for.\<close>

definition only :: "plan_op set \<Rightarrow> plan_item list \<Rightarrow> bool" where
  "only A is \<longleftrightarrow> (\<forall>i \<in> set is. pi_op i \<in> A)"

lemma only_simps [simp]:
  "only A []" "only A (i # is) \<longleftrightarrow> pi_op i \<in> A \<and> only A is"
  "only A (is @ js) \<longleftrightarrow> only A is \<and> only A js"
  by (auto simp: only_def)

lemma only_concat: "(\<And>x. x \<in> set xs \<Longrightarrow> only A (f x)) \<Longrightarrow> only A (concat (map f xs))"
  by (auto simp: only_def)

lemma only_map: "(\<And>x. x \<in> set xs \<Longrightarrow> pi_op (f x) \<in> A) \<Longrightarrow> only A (map f xs)"
  by (auto simp: only_def)

lemma only_mono: "only A is \<Longrightarrow> A \<subseteq> B \<Longrightarrow> only B is"
  by (auto simp: only_def)

lemma only_registry:
  assumes "registry_conflicts reg d = Inr is" shows "only {P_CONFLICT} is"
proof -
  have "only {P_CONFLICT} (endpoint_collision other left right)" for other left right
    by (auto simp: endpoint_collision_def split: option.splits bool.splits)
  moreover have "only {P_CONFLICT} (identity_collision d other c)" for other c
    by (auto simp: identity_collision_def split: prod.splits)
  ultimately have "only {P_CONFLICT} (conflicts_with d other)" for other
    unfolding conflicts_with_def by (simp add: only_concat)
  moreover have "only {P_CONFLICT} (internal_conflict d)"
    by (auto simp: internal_conflict_def split: option.splits bool.splits)
  ultimately show ?thesis
    using assms by (auto simp: registry_conflicts_def res_simps intro!: only_concat)
qed

lemma only_collisions: "only {P_CONFLICT} (collision_items seen cs)"
  by (induction seen cs rule: collision_items.induct) auto

lemma only_preconditions: "only {P_CONFLICT} (host_preconditions g h d)"
  by (auto simp: host_preconditions_def precondition_item_def Let_def intro!: only_concat only_map
      split: prod.splits)

lemma only_managed: "only {P_CONFLICT} (managed_host_conflicts h d)"
  by (auto simp: managed_host_conflicts_def Let_def only_collisions intro!: only_map)

lemma only_listeners:
  assumes "listener_conflicts H reg h d rs = Inr is" shows "only {P_CONFLICT} is"
proof -
  have "listener_item H reg h d rs seen c = Inr x \<Longrightarrow> only {P_CONFLICT} x" for seen c x
    by (auto simp: listener_item_def Let_def res_simps split: prod.splits if_splits)
  then show ?thesis
    using assms by (fastforce simp: listener_conflicts_def res_simps only_def dest: traverse_eq_InrD)
qed

lemma only_present_files: "is_present d \<Longrightarrow> only {P_CREATE, P_UPDATE, P_NOOP, P_CONFLICT} (file_operations H h d rs)"
  by (auto simp: file_operations_def file_item_def present_item_def split: obs_status.splits if_splits intro!: only_map)

lemma only_absent_files: "\<not> is_present d \<Longrightarrow> only {P_REMOVE, P_NOOP, P_CONFLICT} (file_operations H h d rs)"
  by (auto simp: file_operations_def file_item_def absent_item_def split: obs_status.splits if_splits intro!: only_map)

lemma only_present_units:
  "is_present d \<Longrightarrow> only {P_ENABLE, P_START, P_RESTART, P_STOP} (unit_operations h d rs changed)"
  by (auto simp: unit_operations_def present_unit_items_def dependent_restart_def Let_def
      intro!: only_concat split: option.splits)

lemma only_absent_units: "\<not> is_present d \<Longrightarrow> only {P_STOP, P_DISABLE} (unit_operations h d rs changed)"
  by (auto simp: unit_operations_def absent_unit_items_def Let_def intro!: only_concat)

lemma only_stale:
  "only {P_REMOVE, P_NOOP, P_CONFLICT} (stale_access_operations H ps h d b)"
  "only {P_STOP, P_DISABLE, P_REMOVE, P_NOOP, P_CONFLICT} (stale_guard_operations H ps h d b)"
  "only {P_STOP, P_DISABLE, P_REMOVE, P_NOOP, P_CONFLICT} (stale_development_operations H ps h d b)"
  by (auto simp: stale_access_operations_def stale_guard_operations_def stale_development_operations_def
      stale_access_item_def stale_guard_item_def stale_development_item_def retire_unit_def
      applied_conflict_def Let_def intro!: only_concat only_map split: sum.splits obs_status.splits)

text \<open>The items on resources, and the rest, which touch no file.\<close>

definition git_rids :: "string list" where
  "git_rids = [''dev-git-identity'', ''dev-git-transport'']"

lemma git_items_rid:
  "development_git_operations g d git = Inr is \<Longrightarrow> i \<in> set is \<Longrightarrow> pi_rid i \<in> Some ` set git_rids"
  by (auto simp: development_git_operations_def res_simps git_rids_def split: if_splits)

lemma only_member: "only A is \<Longrightarrow> i \<in> set is \<Longrightarrow> pi_op i \<notin> A \<Longrightarrow> thesis"
  by (auto simp: only_def)

text \<open>
  A directory the instance does not own, of which a plan may correct the mode: it was seen as a real
  directory with another mode, and is never removed.
\<close>

definition shared_directory :: "host \<Rightarrow> resource \<Rightarrow> bool" where
  "shared_directory h r \<longleftrightarrow> r_kind r = DIRECTORY \<and> r_token r = None \<and> \<not> r_remove r \<and>
     (\<exists>mode. h_lstat h (path_of (r_path r)) = StatOk T_DIR mode \<and> mode \<noteq> r_mode r)"

lemma shared_seen:
  assumes "generate H g fs d = Inr b" and "r \<in> set (b_resources b)" and "r_token r = None" and "\<not> r_remove r"
    and "seen_status H h r = O_DIFFERENT"
  shows "shared_directory h r"
proof -
  have "r_kind r = DIRECTORY \<and> r_marker_path r = None"
    using assms(1)
  proof (rule generate_resources)
    fix rs p assume "all_resources g d = Inr rs" and b: "b_resources b = map (apply_policy p) rs"
    with assms(2,3) unmarked_directories show ?thesis by auto
  qed
  with assms(3-5) show ?thesis
    by (auto simp: shared_directory_def seen_status_def observe_resource_def marker_problem_def observe_directory_def
        split: stat_result.splits if_splits)
qed

lemma updated_file:
  assumes "i \<in> set (file_operations H h d rs)" and "pi_op i = P_UPDATE"
  obtains r where "r \<in> set rs" and "is_present d" and "seen_status H h r = O_DIFFERENT"
    and "pi_target i = r_path r" and "pi_rid i = Some (r_id r)"
proof -
  from assms(1) obtain r where "r \<in> set rs" "i = file_item H h (is_present d) r"
    by (auto simp: file_operations_def split: if_splits)
  with assms(2) that show ?thesis
    by (auto simp: file_item_def present_item_def absent_item_def seen_status_def split: if_splits obs_status.splits)
qed

lemma touched_file:
  assumes "generate H g fs d = Inr b" and "i \<in> set (file_operations H h d (b_resources b))"
    and "pi_op i \<in> {P_UPDATE, P_REMOVE}"
  shows "\<exists>r \<in> set (b_resources b). pi_target i = r_path r \<and> pi_rid i = Some (r_id r) \<and>
    (owner_evidence (owner_prefix @ di_id d) h r \<or> pi_op i = P_UPDATE \<and> shared_directory h r)"
proof (cases "pi_op i = P_UPDATE")
  case True
  with updated_file [OF assms(2)] obtain r where r: "r \<in> set (b_resources b)" "seen_status H h r = O_DIFFERENT"
    "pi_target i = r_path r" "pi_rid i = Some (r_id r)" by metis
  show ?thesis
  proof (cases "r_remove r \<or> r_token r \<noteq> None")
    case True
    with generated_anchored [OF assms(1) r(1)] seen_evidence [of H h r] r show ?thesis by auto
  next
    case False
    with shared_seen [OF assms(1) r(1) _ _ r(2)] r True show ?thesis by auto
  qed
next
  case False
  from assms(2,3) obtain r where r: "r \<in> set (b_resources b)" "is_present d \<or> r_remove r"
    "seen_status H h r \<in> {O_EXACT, O_DIFFERENT}" "pi_target i = r_path r" "pi_rid i = Some (r_id r)"
    unfolding file_operations_alt by (auto elim!: file_policy.touched_resource split: if_splits)
  have "\<not> is_present d"
    using False assms(2,3) only_present_files [of d H h "b_resources b"] by (fastforce simp: only_def)
  with generated_anchored [OF assms(1) r(1)] seen_evidence [OF r(3)] r show ?thesis by blast
qed

text \<open>What an earlier apply of the instance left behind and the declaration no longer asks for.\<close>

definition retired_resources ::
  "(string \<Rightarrow> string) \<Rightarrow> manager_paths \<Rightarrow> host \<Rightarrow> desired_instance \<Rightarrow> gen_bundle \<Rightarrow> resource list" where
  "retired_resources H ps h d b =
     concat (map (\<lambda>x. case x of Inl e \<Rightarrow> [] | Inr rs \<Rightarrow> rs)
       [stale_guard H ps h d b, stale_development H ps h d b, stale_access H ps h d b])"

lemma touched_stale:
  assumes "i \<in> set (stale_guard_operations H ps h d b @ stale_development_operations H ps h d b @
      stale_access_operations H ps h d b)" and "pi_op i \<in> {P_UPDATE, P_REMOVE}"
  shows "pi_op i = P_REMOVE \<and> (\<exists>r \<in> set (retired_resources H ps h d b). pi_target i = r_path r \<and>
    pi_rid i = Some (r_id r) \<and> owner_evidence (owner_prefix @ di_id d) h r)"
proof -
  have op: "pi_op i = P_REMOVE"
    using assms by (auto simp: stale_guard_operations_def stale_development_operations_def stale_access_operations_def
        applied_conflict_def stale_guard_item_def stale_development_item_def stale_access_item_def retire_unit_def Let_def
        split: sum.splits if_splits obs_status.splits)
  have found: ?thesis if "set rs \<subseteq> set (retired_resources H ps h d b)" "r \<in> set rs" "seen_status H h r \<in> {O_EXACT, O_DIFFERENT}"
    "anchored (owner_prefix @ di_id d) r" "pi_target i = r_path r" "pi_rid i = Some (r_id r)" for rs r
    using that op seen_evidence [OF that(3,4)] by blast
  from assms(1) consider "i \<in> set (stale_guard_operations H ps h d b)"
    | "i \<in> set (stale_development_operations H ps h d b)" | "i \<in> set (stale_access_operations H ps h d b)"
    by auto
  then show ?thesis
  proof cases
    case 1
    with assms(2) obtain rs where rs: "stale_guard H ps h d b = Inr rs" "i \<in> set (guard_policy.all_items H h rs)"
      by (auto simp: stale_guard_operations_def applied_conflict_def guard_policy.all_items_def split: sum.splits)
    then have "set rs \<subseteq> set (retired_resources H ps h d b)" by (auto simp: retired_resources_def)
    from guard_policy.touched_resource [OF rs(2) assms(2)] found [OF this] stale_guard_anchored [OF rs(1)] show ?thesis by metis
  next
    case 2
    with assms(2) obtain rs where rs: "stale_development H ps h d b = Inr rs"
      "i \<in> set (development_policy.all_items H h rs)"
      by (auto simp: stale_development_operations_def applied_conflict_def development_policy.all_items_def
          split: sum.splits)
    then have "set rs \<subseteq> set (retired_resources H ps h d b)" by (auto simp: retired_resources_def)
    from development_policy.touched_resource [OF rs(2) assms(2)] found [OF this] stale_development_anchored [OF rs(1)] show ?thesis by metis
  next
    case 3
    with assms(2) obtain rs where rs: "stale_access H ps h d b = Inr rs" "i \<in> set (access_policy.all_items H h rs)"
      by (auto simp: stale_access_operations_def applied_conflict_def access_policy.all_items_def split: sum.splits)
    then have "set rs \<subseteq> set (retired_resources H ps h d b)" by (auto simp: retired_resources_def)
    from access_policy.touched_resource [OF rs(2) assms(2)] found [OF this] stale_access_anchored [OF rs(1)] show ?thesis by metis
  qed
qed

end
