(* ===== verification/Registry_Props.thy ===== *)
theory Registry_Props
  imports Registry
begin

text \<open>
  The registry as a store with optimistic concurrency: what a client reads after a write,
  that a stale writer is refused, that a failed operation changes nothing, and that along any
  run declarations are neither lost nor downgraded.
\<close>

section \<open>The contract\<close>

text \<open>
  A store of keyed records whose update names the fingerprint of the record it replaces.
\<close>

locale optimistic_store =
  fixes lookup :: "'s \<Rightarrow> 'k \<Rightarrow> 'e + 'd"
    and modify :: "'s \<Rightarrow> 'd \<Rightarrow> string option \<Rightarrow> ('e + 'p) \<times> 's"
    and key :: "'d \<Rightarrow> 'k"
    and fp :: "'d \<Rightarrow> string"
    and ok :: "'d \<Rightarrow> bool"
  assumes modify_same: "ok d \<Longrightarrow> modify s d x = (Inr p, s') \<Longrightarrow> lookup s' (key d) = Inr d"
    and modify_other: "modify s d x = (Inr p, s') \<Longrightarrow> k \<noteq> key d \<Longrightarrow> lookup s' k = lookup s k"
    and modify_failed: "modify s d x = (Inl e, s') \<Longrightarrow> s' = s"
    and modify_checked: "modify s d (Some f) = (Inr p, s') \<Longrightarrow> \<exists>c. lookup s (key d) = Inr c \<and> fp c = f"
begin

lemma second_writer_refused:
  assumes "ok d1" and "modify s d1 x = (Inr p, s1)" and "fp d1 \<noteq> f" and "key d2 = key d1"
  shows "\<exists>e. modify s1 d2 (Some f) = (Inl e, s1)"
proof -
  have "lookup s1 (key d2) = Inr d1" using modify_same assms by metis
  with assms(3) have "\<nexists>p s'. modify s1 d2 (Some f) = (Inr p, s')"
    using modify_checked by fastforce
  then obtain e s' where "modify s1 d2 (Some f) = (Inl e, s')"
    by (metis obj_sumE prod.collapse)
  with modify_failed show ?thesis by metis
qed

text \<open>A sequence of conditional updates; \<open>accepted\<close> lists the ones that took effect.\<close>

fun accepted :: "'s \<Rightarrow> ('d \<times> string) list \<Rightarrow> ('d \<times> string) list" where
  "accepted s [] = []"
| "accepted s ((d, f) # us) =
     (case modify s d (Some f) of
        (Inl e, s') \<Rightarrow> accepted s' us
      | (Inr p, s') \<Rightarrow> (d, f) # accepted s' us)"

fun chained :: "string \<Rightarrow> ('d \<times> string) list \<Rightarrow> bool" where
  "chained f [] = True"
| "chained f ((d, g) # us) = (g = f \<and> chained (fp d) us)"

text \<open>The accepted updates of one key form a linear history.\<close>

lemma accepted_chained:
  assumes "lookup s k = Inr c" and "\<forall>u \<in> set us. ok (fst u) \<and> key (fst u) = k"
  shows "chained (fp c) (accepted s us)"
  using assms
proof (induction us arbitrary: s c)
  case (Cons u us)
  obtain d f where u: "u = (d, f)" by fastforce
  with Cons.prems have d: "ok d" "key d = k" by auto
  show ?case
  proof (cases "modify s d (Some f)")
    case (Pair r s')
    show ?thesis
    proof (cases r)
      case (Inl e)
      with Pair have "s' = s" using modify_failed by blast
      with Inl Pair u Cons show ?thesis by simp
    next
      case (Inr p)
      with Pair have m: "modify s d (Some f) = (Inr p, s')" by simp
      from modify_checked [OF m] d Cons.prems(1) have f: "fp c = f" by auto
      from modify_same [OF d(1) m] d have "lookup s' k = Inr d" by simp
      with Cons have "chained (fp d) (accepted s' us)" by simp
      with f m u show ?thesis by simp
    qed
  qed
qed simp

end

section \<open>File names\<close>

lemma instance_id_chars:
  assumes "instance_id_ok s" and "c \<in> set s"
  shows "is_lower c \<or> is_digit c \<or> c = CHR ''-''"
proof -
  have "c \<in> set (join_with ''-'' (split_on CHR ''-'' s))" using assms(2) by simp
  then have "c = CHR ''-'' \<or> (\<exists>p \<in> set (split_on CHR ''-'' s). c \<in> set p)"
    using set_join_with by fastforce
  moreover have "p \<in> set (split_on CHR ''-'' s) \<Longrightarrow> c \<in> set p \<Longrightarrow> is_lower c \<or> is_digit c" for p
    using assms(1) by (simp add: instance_id_ok_def instance_id_re_def runs_of_def list_all_iff)
  ultimately show ?thesis by blast
qed

lemma instance_id_nonempty: "instance_id_ok s \<Longrightarrow> s \<noteq> []"
  by (auto simp: instance_id_ok_def instance_id_re_def runs_of_def)

lemma id_no_sep:
  assumes "instance_id_ok s" shows "CHR ''/'' \<notin> set s" "CHR ''.'' \<notin> set s"
  using instance_id_chars [OF assms] by (force simp: is_lower_def is_digit_def code_of_def)+

lemma wf_part_json: "instance_id_ok s \<Longrightarrow> wf_part (s @ ''.json'')"
  using id_no_sep [of s] by (auto simp: wf_part_def)

lemma path_stem_json: "instance_id_ok s \<Longrightarrow> path_stem (path_div p (s @ ''.json'')) = s"
  using id_no_sep(2) [of s] instance_id_nonempty [of s]
  by (simp add: path_stem_def wf_part_json rpartition_on_def partition_on_append [of _ "rev ''json''", simplified])

definition file_of :: "registry_state \<Rightarrow> string \<Rightarrow> ppath" where
  "file_of s iid = path_div (rs_directory s) (iid @ ''.json'')"

lemma path_for_eq: "path_for s iid = Inr p \<longleftrightarrow> instance_id_ok iid \<and> p = file_of s iid"
  by (auto simp: path_for_def instance_id_of_def res_simps file_of_def)

lemma path_for_ok: "instance_id_ok iid \<Longrightarrow> path_for s iid = Inr (file_of s iid)"
  by (simp add: path_for_eq)

lemma file_of_update [simp]: "file_of (s\<lparr>rs_files := fs\<rparr>) i = file_of s i"
  by (simp add: file_of_def)

lemma file_of_inject:
  "instance_id_ok i \<Longrightarrow> instance_id_ok j \<Longrightarrow> file_of s i = file_of s j \<longleftrightarrow> i = j"
  by (simp add: file_of_def path_div_inject wf_part_json)

lemma valid_instance_id: "valid_instance d \<Longrightarrow> instance_id_ok (di_id d)"
  by (simp add: valid_instance_def)

section \<open>Writing and reading back\<close>

lemma from_json_payload: "valid_instance d \<Longrightarrow> from_json (payload d) = Inr d"
  by (simp add: from_json_def payload_def loads_indent2_newline jplain_to_dict from_dict_jsort
      from_dict_print)

lemma write_instance_Inr:
  assumes "write_instance w s p d = (Inr u, s')"
  obtains fs where "f_replace (rs_files s) p (payload d) = Some fs" and "s' = s\<lparr>rs_files := fs\<rparr>"
  using assms by (auto simp: write_instance_def split: option.splits if_splits)

lemma write_instance_Inl: "write_instance w s p d = (Inl e, s') \<Longrightarrow> s' = s"
  by (auto simp: write_instance_def split: option.splits)

lemma finish_write_eq:
  "finish_write path r = (Inr p, s') \<longleftrightarrow> p = path \<and> (\<exists>u. r = (Inr u, s'))"
  "finish_write path r = (Inl e, s') \<longleftrightarrow> r = (Inl e, s')"
  by (cases r; cases "fst r"; auto simp: finish_write_def)+

text \<open>A successful write of \<open>d\<close> is read back, and no other instance is touched.\<close>

definition wrote :: "registry_state \<Rightarrow> desired_instance \<Rightarrow> registry_state \<Rightarrow> bool" where
  "wrote s d s' \<longleftrightarrow>
     instance_id_ok (di_id d) \<and>
     (\<exists>fs. f_replace (rs_files s) (file_of s (di_id d)) (payload d) = Some fs \<and>
           s' = s\<lparr>rs_files := fs\<rparr>)"

lemma get_wrote_same:
  assumes "wrote s d s'" and "valid_instance d" shows "get s' (di_id d) = Inr d"
proof -
  from assms(1) obtain fs where fs: "f_replace (rs_files s) (file_of s (di_id d)) (payload d) = Some fs"
    and s': "s' = s\<lparr>rs_files := fs\<rparr>" and i: "instance_id_ok (di_id d)"
    by (auto simp: wrote_def)
  have "path_for s' (di_id d) = Inr (file_of s (di_id d))"
    using i by (simp add: path_for_ok s')
  moreover have "path_stem (file_of s (di_id d)) = di_id d"
    using i by (simp add: file_of_def path_stem_json)
  ultimately show ?thesis
    using assms(2) f_read_replaced [OF fs]
    by (simp add: get_def read_instance_def s' from_json_payload)
qed

lemma get_wrote_other:
  assumes "wrote s d s'" and "j \<noteq> di_id d" shows "get s' j = get s j"
proof (cases "instance_id_ok j")
  case True
  from assms(1) obtain fs where fs: "f_replace (rs_files s) (file_of s (di_id d)) (payload d) = Some fs"
    and s': "s' = s\<lparr>rs_files := fs\<rparr>" and i: "instance_id_ok (di_id d)"
    by (auto simp: wrote_def)
  have "file_of s j \<noteq> file_of s (di_id d)"
    using True i assms(2) file_of_inject by blast
  from f_read_other [OF fs this] show ?thesis
    using True by (simp add: get_def read_instance_def s' path_for_ok)
next
  case False
  then show ?thesis by (simp add: get_def path_for_def instance_id_of_def)
qed

lemma create_Inr:
  assumes "create w s d = (Inr p, s')"
  shows "p = file_of s (di_id d) \<and> \<not> f_exists (rs_files s) p \<and> wrote s d s' \<and>
    maintenance_guard s None = Inr () \<and> instance_lock s (di_id d) = Inr ()"
  using assms
  by (auto simp: create_def Let_def finish_write_eq path_for_eq res_simps wrote_def
      split: sum.splits elim!: write_instance_Inr)

lemma create_Inl: "create w s d = (Inl e, s') \<Longrightarrow> s' = s"
  by (auto simp: create_def Let_def finish_write_eq split: sum.splits dest: write_instance_Inl)

lemma update_Inr:
  assumes "update H w s d x = (Inr p, s')"
  obtains c where "p = file_of s (di_id d)" and "wrote s d s'" and "get s (di_id d) = Inr c"
    and "check_current H d x c = Inr ()" and "maintenance_guard s (Some d) = Inr ()"
proof -
  from assms obtain c where "p = file_of s (di_id d)" "wrote s d s'" "instance_id_ok (di_id d)"
      "read_instance s (file_of s (di_id d)) = Inr c" "check_current H d x c = Inr ()"
      "maintenance_guard s (Some d) = Inr ()"
    by (auto simp: update_def Let_def finish_write_eq path_for_eq res_simps wrote_def
        split: sum.splits elim!: write_instance_Inr)
  moreover from this have "get s (di_id d) = Inr c"
    by (simp add: get_def path_for_ok)
  ultimately show ?thesis using that by blast
qed

lemma update_Inl: "update H w s d x = (Inl e, s') \<Longrightarrow> s' = s"
  by (auto simp: update_def Let_def finish_write_eq split: sum.splits dest: write_instance_Inl)

lemma check_current_eq:
  "check_current H d x c = Inr u \<longleftrightarrow>
    (x = None \<or> x = Some (fingerprint H c)) \<and> di_version c \<le> di_version d"
  by (auto simp: check_current_def res_simps split: option.splits)

text \<open>The registry keeps the contract, for every digest and every outcome of the write.\<close>

interpretation reg: optimistic_store get "update H w" di_id "fingerprint H" valid_instance
  for H w
proof
  show "valid_instance d \<Longrightarrow> update H w s d x = (Inr p, s') \<Longrightarrow> get s' (di_id d) = Inr d" for d s x p s'
    by (elim update_Inr) (rule get_wrote_same)
  show "update H w s d x = (Inr p, s') \<Longrightarrow> k \<noteq> di_id d \<Longrightarrow> get s' k = get s k" for s d x p s' k
    by (elim update_Inr) (rule get_wrote_other)
  show "update H w s d x = (Inl e, s') \<Longrightarrow> s' = s" for s d x e s'
    by (rule update_Inl)
  show "update H w s d (Some f) = (Inr p, s') \<Longrightarrow> \<exists>c. get s (di_id d) = Inr c \<and> fingerprint H c = f" for s d f p s'
    by (elim update_Inr) (auto simp: check_current_eq)
qed

section \<open>Runs\<close>

text \<open>
  The registry and its environment. Other programs may take and release locks and
  capabilities and may write files outside the registry directory, such as the journals.
\<close>

definition same_entries :: "registry_state \<Rightarrow> registry_state \<Rightarrow> bool" where
  "same_entries s s' \<longleftrightarrow>
     rs_directory s' = rs_directory s \<and>
     (\<forall>i. map_of (rs_files s') (file_of s i) = map_of (rs_files s) (file_of s i))"

inductive reg_step :: "(string \<Rightarrow> string) \<Rightarrow> registry_state \<Rightarrow> registry_state \<Rightarrow> bool" for H where
  created: "valid_instance d \<Longrightarrow> create w s d = (r, s') \<Longrightarrow> reg_step H s s'"
| updated: "valid_instance d \<Longrightarrow> update H w s d x = (r, s') \<Longrightarrow> reg_step H s s'"
| environment: "same_entries s s' \<Longrightarrow> reg_step H s s'"

inductive reg_run :: "(string \<Rightarrow> string) \<Rightarrow> registry_state \<Rightarrow> registry_state \<Rightarrow> bool" for H where
  stay: "reg_run H s s"
| move: "reg_run H s s' \<Longrightarrow> reg_step H s' s'' \<Longrightarrow> reg_run H s s''"

lemma get_same_entries: "same_entries s s' \<Longrightarrow> get s' i = get s i"
  by (cases "instance_id_ok i")
     (auto simp: get_def read_instance_def same_entries_def path_for_ok f_read_def file_of_def
       path_for_def instance_id_of_def)

lemma get_exists:
  assumes "get s i = Inr d" shows "di_id d = i \<and> f_exists (rs_files s) (file_of s i)"
  using assms path_stem_json [of i "rs_directory s"]
  by (auto simp: get_def res_simps path_for_eq read_instance_def f_exists_read file_of_def
      split: read_result.splits)

lemma reg_step_keeps:
  assumes "reg_step H s s'" and "get s i = Inr d"
  shows "\<exists>d'. get s' i = Inr d' \<and> di_version d \<le> di_version d'"
  using assms(1)
proof (cases rule: reg_step.cases)
  case (created d0 w r)
  show ?thesis
  proof (cases r)
    case (Inr p)
    with created have c: "p = file_of s (di_id d0)" "\<not> f_exists (rs_files s) p" "wrote s d0 s'"
      using create_Inr by blast+
    then have "i \<noteq> di_id d0" using get_exists [OF assms(2)] by auto
    with c assms(2) show ?thesis using get_wrote_other by fastforce
  qed (use created create_Inl assms in blast)
next
  case (updated d0 w x r)
  show ?thesis
  proof (cases r)
    case (Inr p)
    with updated obtain c where c: "wrote s d0 s'" "get s (di_id d0) = Inr c" "check_current H d0 x c = Inr ()"
      using update_Inr by blast
    show ?thesis
    proof (cases "i = di_id d0")
      case True
      with c assms(2) updated show ?thesis using get_wrote_same by (auto simp: check_current_eq)
    qed (use c assms(2) get_wrote_other in fastforce)
  qed (use updated update_Inl assms in blast)
next
  case environment
  with assms(2) show ?thesis using get_same_entries by fastforce
qed

lemma reg_run_keeps:
  "reg_run H s s' \<Longrightarrow> get s i = Inr d \<Longrightarrow> \<exists>d'. get s' i = Inr d' \<and> di_version d \<le> di_version d'"
proof (induction rule: reg_run.induct)
  case (move s s' s'')
  then show ?case using reg_step_keeps by (meson order_trans)
qed auto

section \<open>Maintenance\<close>

definition maintenance_pending :: "registry_state \<Rightarrow> bool" where
  "maintenance_pending s \<longleftrightarrow>
     (let journal = path_div (state_root_of (rs_directory s)) ''maintenance-transaction.json''
      in f_exists (rs_files s) journal \<or> f_is_symlink (rs_files s) journal)"

lemma guard_pending:
  assumes "is_canonical (rs_directory s)" and "maintenance_pending s"
    and "maintenance_guard s x = Inr u"
  shows "\<exists>d. x = Some d \<and> removal_request d \<and>
    journal_uninstall (rs_files s) (path_div (state_root_of (rs_directory s)) ''maintenance-transaction.json'')"
  using assms
  by (auto simp: maintenance_guard_def assert_maintenance_allows_def maintenance_pending_def Let_def
      res_simps split: if_splits option.splits)

lemma create_frozen:
  assumes "is_canonical (rs_directory s)" and "maintenance_pending s"
  shows "\<exists>e. create w s d = (Inl e, s)"
proof -
  obtain r s' where c: "create w s d = (r, s')" by fastforce
  show ?thesis
  proof (cases r)
    case (Inl e)
    with c create_Inl show ?thesis by blast
  next
    case (Inr p)
    with c create_Inr have "maintenance_guard s None = Inr ()" by blast
    with guard_pending [OF assms] show ?thesis by fastforce
  qed
qed

lemma update_frozen:
  assumes "is_canonical (rs_directory s)" and "maintenance_pending s"
  shows "(\<exists>e. update H w s d x = (Inl e, s)) \<or>
    removal_request d \<and>
      journal_uninstall (rs_files s) (path_div (state_root_of (rs_directory s)) ''maintenance-transaction.json'')"
proof -
  obtain r s' where c: "update H w s d x = (r, s')" by fastforce
  show ?thesis
  proof (cases r)
    case (Inl e)
    with c update_Inl show ?thesis by blast
  next
    case (Inr p)
    with c obtain c' where "maintenance_guard s (Some d) = Inr ()"
      by (blast elim: update_Inr)
    with guard_pending [OF assms] show ?thesis by fastforce
  qed
qed

section \<open>Properties\<close>

definition sample_registry :: registry_state where
  "sample_registry = \<lparr>rs_directory = path_of ''/h/.config/workspace-mcp-manager/instances'',
     rs_files = [], rs_import_locks = [], rs_import_authority = [], rs_upgrade_authority = []\<rparr>"

definition stored_registry :: registry_state where
  "stored_registry = snd (create True sample_registry sample_instance)"

lemma sample_create:
  "create True sample_registry sample_instance = (Inr (file_of sample_registry ''a-1''), stored_registry)"
proof -
  have "path_for sample_registry (di_id sample_instance) = Inr (file_of sample_registry ''a-1'')"
    by code_simp
  moreover have "instance_lock sample_registry (di_id sample_instance) = Inr ()"
    "maintenance_guard sample_registry None = Inr ()" by code_simp+
  ultimately show ?thesis
    by (simp add: create_def stored_registry_def finish_write_def write_instance_def f_replace_def
        f_exists_def sample_registry_def)
qed

text \<open>what was created or updated is read back, and every other instance reads as before.\<close>

theorem registry_read_your_write:
  assumes "create w s d = (Inr p, s') \<or> update H w s d x = (Inr p, s')" and "valid_instance d"
  shows "get s' (di_id d) = Inr d \<and> (\<forall>j. j \<noteq> di_id d \<longrightarrow> get s' j = get s j)"
proof -
  from assms(1) have "wrote s d s'" using create_Inr by (blast elim: update_Inr)
  with assms(2) show ?thesis by (simp add: get_wrote_same get_wrote_other)
qed

theorem registry_read_your_write_witness:
  "get stored_registry ''a-1'' = Inr sample_instance"
  using registry_read_your_write [OF disjI1 [OF sample_create] sample_valid]
  by (simp add: sample_instance_def)

text \<open>C31: an operation that reports an error leaves the registry as it was, whatever the cause:
  a bad identifier, a pending import, upgrade or maintenance, an existing or missing file, a stale
  fingerprint, a downgrade, or a failed write. Creation never replaces a declaration.\<close>

theorem registry_errors_change_nothing:
  "(fst (create w s d) = Inl e \<longrightarrow> snd (create w s d) = s) \<and>
   (fst (update H w s d x) = Inl e \<longrightarrow> snd (update H w s d x) = s) \<and>
   (f_exists (rs_files s) (file_of s (di_id d)) \<longrightarrow> snd (create w s d) = s)"
proof -
  have "snd (create w s d) = s" if "f_exists (rs_files s) (file_of s (di_id d))"
  proof (cases "fst (create w s d)")
    case (Inl e)
    then show ?thesis using create_Inl by (metis prod.collapse)
  next
    case (Inr p)
    with that create_Inr show ?thesis by (metis prod.collapse)
  qed
  then show ?thesis using create_Inl update_Inl by (metis prod.collapse)
qed

theorem registry_errors_change_nothing_witness:
  "snd (create True stored_registry sample_instance) = stored_registry"
proof -
  have "f_exists (rs_files stored_registry) (file_of stored_registry (di_id sample_instance))"
    using get_exists [of stored_registry "''a-1''" sample_instance]
      get_wrote_same [of sample_registry sample_instance stored_registry] create_Inr [OF sample_create]
      sample_valid by (simp add: sample_instance_def)
  with registry_errors_change_nothing show ?thesis by blast
qed

text \<open>C4: of two writers that read the same declaration, the second is refused once the first
  has changed it, whatever it asks for, and the registry keeps the first writer's declaration.\<close>

theorem registry_stale_writer_refused:
  assumes "valid_instance d1" and "update H w s d1 x = (Inr p, s1)"
    and "fingerprint H d1 \<noteq> f" and "di_id d2 = di_id d1"
  shows "\<exists>e. update H w s1 d2 (Some f) = (Inl e, s1)"
  by (rule reg.second_writer_refused [OF assms])

theorem registry_stale_writer_refused_witness:
  "\<exists>p s1. update id True stored_registry sample_instance None = (Inr p, s1) \<and>
     (\<exists>e. update id True s1 sample_instance (Some []) = (Inl e, s1))"
proof -
  have g: "get stored_registry ''a-1'' = Inr sample_instance"
    using get_wrote_same [of sample_registry sample_instance stored_registry]
      create_Inr [OF sample_create] sample_valid by (simp add: sample_instance_def)
  have i: "instance_id_ok ''a-1''" by code_simp
  have "wrote sample_registry sample_instance stored_registry"
    using create_Inr [OF sample_create] by blast
  then obtain fs where fs: "stored_registry = sample_registry\<lparr>rs_files := fs\<rparr>" and
      rep: "f_replace (rs_files sample_registry) (file_of sample_registry (di_id sample_instance))
        (payload sample_instance) = Some fs"
    unfolding wrote_def by blast
  have iid: "di_id sample_instance = ''a-1''" by (simp add: sample_instance_def)
  have d: "rs_directory stored_registry = rs_directory sample_registry"
    by (simp add: fs)
  have t: "rs_files stored_registry = [(file_of sample_registry ''a-1'', FText (payload sample_instance))]"
    using rep unfolding iid by (auto simp: fs f_replace_def sample_registry_def)
  define journals where "journals = [path_div (state_root_of (rs_directory sample_registry)) ''instance-upgrade.json'',
      path_div (state_root_of (rs_directory sample_registry)) ''maintenance-transaction.json'',
      state_root_of (rs_directory sample_registry),
      path_div (state_root_of (rs_directory sample_registry)) ''import-locks'',
      child (state_root_of (rs_directory sample_registry)) [''imports'', ''a-1'' @ ''.json'']]"
  have "list_all (\<lambda>j. j \<noteq> file_of sample_registry ''a-1'') journals"
    unfolding journals_def by code_simp
  then have n: "map_of (rs_files stored_registry) j = None" if "j \<in> set journals" for j
    using that by (auto simp: t list_all_iff)
  have "rs_import_locks stored_registry = []" "rs_import_authority stored_registry = []"
    by (simp_all add: fs sample_registry_def)
  with n have l: "instance_lock stored_registry ''a-1'' = Inr ()"
    and m: "maintenance_guard stored_registry (Some sample_instance) = Inr ()"
    by (simp_all add: instance_lock_def import_coordination_def maintenance_guard_def
        assert_maintenance_allows_def d journals_def f_exists_def f_is_symlink_def Let_def)
  have "read_instance stored_registry (file_of stored_registry ''a-1'') = Inr sample_instance"
    using g i by (simp add: get_def path_for_ok)
  moreover have "f_is_file (rs_files stored_registry) (file_of stored_registry ''a-1'')"
    by (simp add: f_is_file_def t file_of_def d)
  ultimately have "\<exists>p s1. update id True stored_registry sample_instance None = (Inr p, s1)"
    using i l m
    by (simp add: update_def path_for_ok sample_instance_def check_current_def finish_write_def
        write_instance_def f_replace_def t file_of_def d)
  then obtain p s1 where u: "update id True stored_registry sample_instance None = (Inr p, s1)"
    by blast
  have "fingerprint id sample_instance \<noteq> []"
    by (simp add: fingerprint_def canonical_json_def to_dict_def dumps_compact_def)
  with registry_stale_writer_refused [OF sample_valid u] u show ?thesis by blast
qed

text \<open>C32: while a maintenance transaction is pending the canonical registry is frozen: creation and every
  update fail and change nothing, with one exception, an update that marks a declaration as absent and
  stopped while the pending journal on disk is that of an uninstallation.\<close>

theorem registry_frozen_by_maintenance:
  assumes "is_canonical (rs_directory s)" and "maintenance_pending s"
  shows "(\<exists>e. create w s d = (Inl e, s)) \<and>
    ((\<exists>e. update H w s d x = (Inl e, s)) \<or>
     removal_request d \<and>
       journal_uninstall (rs_files s) (path_div (state_root_of (rs_directory s)) ''maintenance-transaction.json''))"
  using create_frozen [OF assms] update_frozen [OF assms] by blast

theorem registry_frozen_by_maintenance_witness:
  "\<exists>e. create True (sample_registry\<lparr>rs_files :=
       [(path_of ''/h/.local/state/workspace-mcp-manager/maintenance-transaction.json'', FText [])]\<rparr>)
     sample_instance =
   (Inl e, sample_registry\<lparr>rs_files :=
       [(path_of ''/h/.local/state/workspace-mcp-manager/maintenance-transaction.json'', FText [])]\<rparr>)"
  (is "\<exists>e. create True ?s _ = (Inl e, ?s)")
proof -
  have "is_canonical (rs_directory ?s)" "maintenance_pending ?s" by code_simp+
  from registry_frozen_by_maintenance [OF this] show ?thesis by blast
qed

end
