(* ===== verification/Planning_Props.thy ===== *)
theory Planning_Props
  imports Plan_Parts Registry_Props
begin

text \<open>
  What a plan guarantees: nothing without evidence of its owner is updated or removed, a
  valid plan has no collision with another declared instance and no unmet precondition, an
  absent instance only ever loses things, and a plan has nothing to do exactly when the host
  is as declared.
\<close>

section \<open>Nothing to do\<close>

definition unit_settled :: "host \<Rightarrow> bool \<Rightarrow> resource \<Rightarrow> bool" where
  "unit_settled h running r \<longleftrightarrow>
     (r_enable r \<longrightarrow> uo_enabled (observe_unit h (unit_name_of r))) \<and>
     (uo_active (observe_unit h (unit_name_of r)) \<longleftrightarrow> r_active r \<and> running)"

definition git_settled :: "generator \<Rightarrow> desired_instance \<Rightarrow> git_state \<Rightarrow> bool" where
  "git_settled g d git \<longleftrightarrow> di_version d < 2 \<or>
     (\<exists>i t. observe_identity d git = Inr i \<and> ob_status i = O_EXACT \<and>
            observe_transport g d git = Inr t \<and> ob_status t = O_EXACT)"

definition gone :: "(string \<Rightarrow> string) \<Rightarrow> host \<Rightarrow> resource list res \<Rightarrow> bool" where
  "gone H h r \<longleftrightarrow> (\<exists>rs. r = Inr rs \<and> (\<forall>x \<in> set rs. seen_status H h x = O_ABSENT))"

definition settled :: "(string \<Rightarrow> string) \<Rightarrow> generator \<Rightarrow> host \<Rightarrow> git_state \<Rightarrow> desired_instance \<Rightarrow> gen_bundle \<Rightarrow> bool" where
  "settled H g h git d b \<longleftrightarrow>
     (\<forall>r \<in> set (b_resources b). seen_status H h r = O_EXACT) \<and>
     (\<forall>r \<in> set (b_resources b). has_unit r \<longrightarrow> unit_settled h (is_running d) r) \<and>
     git_settled g d git \<and>
     gone H h (stale_guard H (gen_paths g) h d b) \<and>
     gone H h (stale_development H (gen_paths g) h d b) \<and>
     gone H h (stale_access H (gen_paths g) h d b)"

lemma only_disjoint: "only A is \<Longrightarrow> A \<inter> B = {} \<Longrightarrow> only B is \<longleftrightarrow> is = []"
  by (cases "is") (auto simp: only_def)

lemma only_concat_iff: "only A (concat (map f xs)) \<longleftrightarrow> (\<forall>x \<in> set xs. only A (f x))"
  by (auto simp: only_def)

lemma only_map_iff: "only A (map f xs) \<longleftrightarrow> (\<forall>x \<in> set xs. pi_op (f x) \<in> A)"
  by (auto simp: only_def)

lemma not_conflict_iff: "\<not> list_ex is_conflict is \<longleftrightarrow> only (- {P_CONFLICT}) is"
  by (auto simp: list_ex_iff only_def is_conflict_def)

lemma noop_file_item: "pi_op (file_item H h True r) = P_NOOP \<longleftrightarrow> seen_status H h r = O_EXACT"
  by (simp add: file_item_def present_item_def seen_status_def split: obs_status.split)

lemma noop_files:
  "is_present d \<Longrightarrow> only {P_NOOP} (file_operations H h d rs) \<longleftrightarrow> (\<forall>r \<in> set rs. seen_status H h r = O_EXACT)"
  by (simp add: file_operations_def only_map_iff noop_file_item)

lemma noop_dev: "dev_operation ob req = P_NOOP \<longleftrightarrow> ob_status ob = O_EXACT"
  by (simp add: dev_operation_def split: obs_status.split)

lemma noop_git:
  assumes "development_git_operations g d git = Inr is"
  shows "only {P_NOOP} is \<longleftrightarrow> git_settled g d git"
proof (cases "di_version d < 2")
  case True
  with assms show ?thesis by (simp add: development_git_operations_def git_settled_def)
next
  case False
  with assms obtain i t where i: "observe_identity d git = Inr i" and t: "observe_transport g d git = Inr t"
    and "is": "Inr [item (dev_operation i (is_present d \<and> git_identity_of (di_git d) \<noteq> None))
           (di_workspace d @ ''::dev-git-identity'')
           (''repository-local Git identity: '' @ ob_detail i) ''dev-git-identity'',
         item (dev_operation t (transport_is_requested d)) (di_workspace d @ ''::dev-git-transport'')
           (''repository-local Git transport: '' @ ob_detail t) ''dev-git-transport''] = Inr is"
    unfolding development_git_operations_def by (auto simp only: if_False rbind_eq_Inr)
  have "only {P_NOOP} is \<longleftrightarrow> ob_status i = O_EXACT \<and> ob_status t = O_EXACT"
    using "is" [THEN sum.inject(2) [THEN iffD1], symmetric]
    by (simp only: only_simps item_sel singleton_iff noop_dev simp_thms)
  with False i t show ?thesis by (simp add: git_settled_def)
qed

lemma noop_units:
  assumes "is_present d"
  shows "unit_operations h d rs [] = [] \<longleftrightarrow> (\<forall>r \<in> set rs. has_unit r \<longrightarrow> unit_settled h (is_running d) r)"
proof -
  have "present_unit_items h (is_running d) [] r = [] \<longleftrightarrow> unit_settled h (is_running d) r" for r
    by (auto simp: present_unit_items_def unit_settled_def Let_def)
  with assms show ?thesis by (auto simp: unit_operations_def Let_def)
qed

lemma noop_stale:
  "only {P_NOOP} (stale_access_operations H ps h d b) \<longleftrightarrow> gone H h (stale_access H ps h d b)"
  "only {P_NOOP} (stale_guard_operations H ps h d b) \<longleftrightarrow> gone H h (stale_guard H ps h d b)"
  "only {P_NOOP} (stale_development_operations H ps h d b) \<longleftrightarrow> gone H h (stale_development H ps h d b)"
proof -
  have 1: "pi_op (stale_access_item H h r) = P_NOOP \<longleftrightarrow> seen_status H h r = O_ABSENT" for r
    by (auto simp: stale_access_item_def Let_def seen_status_def split: obs_status.splits)
  have 2: "only {P_NOOP} (stale_guard_item H h r) \<longleftrightarrow> seen_status H h r = O_ABSENT" for r
    by (auto simp: stale_guard_item_def Let_def seen_status_def)
  have 3: "only {P_NOOP} (stale_development_item H h r) \<longleftrightarrow> seen_status H h r = O_ABSENT" for r
    by (auto simp: stale_development_item_def Let_def seen_status_def)
  show "only {P_NOOP} (stale_access_operations H ps h d b) \<longleftrightarrow> gone H h (stale_access H ps h d b)"
    by (auto simp: stale_access_operations_def applied_conflict_def gone_def only_map_iff 1 split: sum.splits)
  show "only {P_NOOP} (stale_guard_operations H ps h d b) \<longleftrightarrow> gone H h (stale_guard H ps h d b)"
    by (auto simp: stale_guard_operations_def applied_conflict_def gone_def only_concat_iff 2 split: sum.splits)
  show "only {P_NOOP} (stale_development_operations H ps h d b) \<longleftrightarrow> gone H h (stale_development H ps h d b)"
    by (auto simp: stale_development_operations_def applied_conflict_def gone_def only_concat_iff 3
        split: sum.splits)
qed

lemma changed_ids_noop: "only {P_NOOP, P_CONFLICT} is \<Longrightarrow> changed_ids is = []"
proof -
  assume "only {P_NOOP, P_CONFLICT} is"
  then have "filter (\<lambda>i. pi_op i \<in> {P_CREATE, P_UPDATE, P_REMOVE}) is = []"
    by (auto simp: only_def filter_empty_conv)
  then show ?thesis by (simp add: changed_ids_def)
qed

lemma plan_noop_iff:
  assumes p: "plan_for H g reg h git d = Inr p" and b: "generate H g (rs_files reg) d = Inr b"
    and d: "is_present d"
  shows "only {P_NOOP} (pl_items p) \<longleftrightarrow> pl_valid p \<and> settled H g h git d b"
  using p
proof (rule plan_for_Inr)
  fix b' declared checks git_ops
  let ?files = "file_operations H h d (b_resources b)"
  let ?units = "unit_operations h d (b_resources b) (changed_ids ?files)"
  let ?stale = "stale_guard_operations H (gen_paths g) h d b @
    stale_development_operations H (gen_paths g) h d b @ stale_access_operations H (gen_paths g) h d b"
  assume b': "generate H g (rs_files reg) d = Inr b'" and dc: "registry_conflicts reg d = Inr declared"
    and git: "development_git_operations g d git = Inr git_ops"
    and ch: "is_present d \<Longrightarrow> \<exists>ls. listener_conflicts H reg h d (b_resources b') = Inr ls \<and>
           checks = host_preconditions g h d @ managed_host_conflicts h d @ ls"
    and p': "p = finish_plan H d (declared @ checks @
       (let files = file_operations H h d (b_resources b');
            units = unit_operations h d (b_resources b') (changed_ids files)
        in if is_present d then files @ git_ops @ units else units @ git_ops @ files) @
       stale_guard_operations H (gen_paths g) h d b' @
       stale_development_operations H (gen_paths g) h d b' @
       stale_access_operations H (gen_paths g) h d b')"
  with b d have items: "pl_items p = declared @ checks @ ?files @ git_ops @ ?units @ ?stale"
    and v: "pl_valid p \<longleftrightarrow> only (- {P_CONFLICT}) (pl_items p)"
    by (simp_all add: Let_def not_conflict_iff)
  have dcl: "only {P_CONFLICT} declared" by (rule only_registry [OF dc])
  from ch [OF d] have chk: "only {P_CONFLICT} checks"
    by (auto simp: only_preconditions only_managed intro: only_listeners)
  have un: "only {P_ENABLE, P_START, P_RESTART, P_STOP} ?units" by (rule only_present_units [OF d])
  have st: "only {P_NOOP} ?stale \<longleftrightarrow> gone H h (stale_guard H (gen_paths g) h d b) \<and>
      gone H h (stale_development H (gen_paths g) h d b) \<and> gone H h (stale_access H (gen_paths g) h d b)"
    by (simp add: noop_stale)
  have "only {P_NOOP} (pl_items p) \<longleftrightarrow> declared = [] \<and> checks = [] \<and> only {P_NOOP} ?files \<and>
      only {P_NOOP} git_ops \<and> ?units = [] \<and> only {P_NOOP} ?stale"
    using only_disjoint [OF dcl, of "{P_NOOP}"] only_disjoint [OF chk, of "{P_NOOP}"]
      only_disjoint [OF un, of "{P_NOOP}"] by (simp add: items)
  moreover have "pl_valid p \<longleftrightarrow> declared = [] \<and> checks = []"
    if "only {P_NOOP} ?files" "only {P_NOOP} git_ops" "?units = []" "only {P_NOOP} ?stale"
    using that only_disjoint [OF dcl, of "- {P_CONFLICT}"] only_disjoint [OF chk, of "- {P_CONFLICT}"]
    by (auto simp: v items elim: only_mono)
  moreover have "?units = [] \<longleftrightarrow> (\<forall>r \<in> set (b_resources b). has_unit r \<longrightarrow> unit_settled h (is_running d) r)"
    if "only {P_NOOP} ?files"
    using noop_units [OF d] changed_ids_noop [OF only_mono [OF that]] by simp
  ultimately show ?thesis
    using noop_files [OF d] noop_git [OF git] st unfolding settled_def by blast
qed

section \<open>A fresh host\<close>

definition sample_host :: host where
  "sample_host = \<lparr>h_lstat = \<lambda>_. StatMissing,
     h_stat = \<lambda>p. if p = path_of ''/w'' \<or> p = path_of ''/d'' then StatOk T_DIR 493 else StatOk T_REG 493,
     h_text = \<lambda>_. TextMissing [], h_executable = \<lambda>_. True, h_writable = \<lambda>_. True,
     h_unit_show = \<lambda>_. ProcError [], h_unit_list = ProcError [], h_unit_cat = \<lambda>_. ProcError [],
     h_unit_exec = \<lambda>_. ProcError [], h_listeners = ProcDone 0 [] [], h_entries = \<lambda>_. None\<rparr>"

definition sample_git :: git_state where
  "sample_git = \<lparr>g_found = True, g_tree = False, g_readable = True, g_config = [], g_refuses = [],
     g_rewrite = \<lambda>u. u\<rparr>"

definition absent_instance :: desired_instance where
  "absent_instance = sample_instance\<lparr>di_lifecycle := \<lparr>li_deployment = ABSENT, li_runtime = STOPPED\<rparr>\<rparr>"

text \<open>The host of an instance whose state directory is left.\<close>

definition owned_host :: host where
  "owned_host = sample_host
     \<lparr>h_lstat := \<lambda>p. if p = state_dir sample_paths ''a-1'' then StatOk T_DIR 448 else StatMissing,
      h_text := \<lambda>p. if p = path_div (state_dir sample_paths ''a-1'') ''.owner''
        then TextOk (owner_prefix @ ''a-1'' @ newline) else TextMissing []\<rparr>"

text \<open>The resources do not depend on the lifecycle.\<close>

lemma fields_lifecycle:
  "di_id (d\<lparr>di_lifecycle := l\<rparr>) = di_id d" "di_version (d\<lparr>di_lifecycle := l\<rparr>) = di_version d"
  "di_workspace (d\<lparr>di_lifecycle := l\<rparr>) = di_workspace d" "di_mcp (d\<lparr>di_lifecycle := l\<rparr>) = di_mcp d"
  "di_tunnel (d\<lparr>di_lifecycle := l\<rparr>) = di_tunnel d" "di_access (d\<lparr>di_lifecycle := l\<rparr>) = di_access d"
  "di_github (d\<lparr>di_lifecycle := l\<rparr>) = di_github d" "di_git (d\<lparr>di_lifecycle := l\<rparr>) = di_git d"
  "di_agent (d\<lparr>di_lifecycle := l\<rparr>) = di_agent d" "di_recovery (d\<lparr>di_lifecycle := l\<rparr>) = di_recovery d"
  by simp_all

lemma lines_lifecycle:
  "mcp_unit_lines g (d\<lparr>di_lifecycle := l\<rparr>) = mcp_unit_lines g d"
  "tunnel_unit_lines g (d\<lparr>di_lifecycle := l\<rparr>) = tunnel_unit_lines g d"
  "guard_unit_lines g (d\<lparr>di_lifecycle := l\<rparr>) = guard_unit_lines g d"
  "agent_unit_lines g (d\<lparr>di_lifecycle := l\<rparr>) = agent_unit_lines g d"
  "helper_lines g (d\<lparr>di_lifecycle := l\<rparr>) = helper_lines g d"
  "launcher_lines g (d\<lparr>di_lifecycle := l\<rparr>) = launcher_lines g d"
  "profile_lines (d\<lparr>di_lifecycle := l\<rparr>) = profile_lines d"
  "guard_timer_lines (d\<lparr>di_lifecycle := l\<rparr>) = guard_timer_lines d"
  by (simp_all only: mcp_unit_lines_def tunnel_unit_lines_def guard_unit_lines_def agent_unit_lines_def
      helper_lines_def launcher_lines_def profile_lines_def guard_timer_lines_def access_lines_def
      bind_line_def [abs_def] no_exec_line_def [abs_def] access_root_def environment_lines_def managed_github_def
      effective_external_roots_def effective_ssh_auth_sock_def managed_ssh_auth_sock_def
      managed_agent_runtime_dir_def mcp_exec_start_def tunnel_probe_def runtime_command_def
      fields_lifecycle)

lemma groups_lifecycle:
  "base_resources g (d\<lparr>di_lifecycle := l\<rparr>) = base_resources g d"
  "core_units g (d\<lparr>di_lifecycle := l\<rparr>) = core_units g d"
  "github_resources g (d\<lparr>di_lifecycle := l\<rparr>) = github_resources g d"
  "helper_resources g (d\<lparr>di_lifecycle := l\<rparr>) = helper_resources g d"
  "agent_resources g (d\<lparr>di_lifecycle := l\<rparr>) = agent_resources g d"
  "access_resources (d\<lparr>di_lifecycle := l\<rparr>) = access_resources d"
  "guard_resources g (d\<lparr>di_lifecycle := l\<rparr>) = guard_resources g d"
  by (simp_all add: base_resources_def core_units_def github_resources_def helper_resources_def
      agent_resources_def access_resources_def guard_resources_def lines_lifecycle mounts_def
      access_root_def profile_path_def launcher_path_def github_cli_helper_path_def
      managed_github_def uses_https_gh_def managed_agent_def Let_def cong: option.case_cong)

lemma all_resources_lifecycle: "all_resources g (d\<lparr>di_lifecycle := l\<rparr>) = all_resources g d"
  by (simp add: all_resources_def groups_lifecycle)

lemma absent_generate: "\<exists>b. generate H sample_generator [] absent_instance = Inr b"
proof -
  obtain rs where "all_resources sample_generator sample_instance = Inr rs"
    using sample_resources by blast
  then have "all_resources sample_generator absent_instance = Inr rs"
    by (simp add: absent_instance_def all_resources_lifecycle)
  moreover have "import_policy sample_generator [] (di_id absent_instance) = Inr None"
    by code_simp
  ultimately show ?thesis by (simp add: generate_def)
qed

lemma plan_for_ok:
  assumes "generate H g (rs_files reg) d = Inr b" and "registry_conflicts reg d = Inr declared"
    and "is_present d \<Longrightarrow> lo_state (observe_tcp_listeners (h_listeners h)) = LS_AVAILABLE"
    and "development_git_operations g d git = Inr git_ops"
  shows "\<exists>p. plan_for H g reg h git d = Inr p"
proof -
  have "is_present d \<Longrightarrow> \<exists>ls. listener_conflicts H reg h d (b_resources b) = Inr ls"
    using assms(3) by (auto simp: listener_conflicts_def listener_checks_def listener_item_def Let_def)
  with assms show ?thesis by (cases "is_present d") (auto simp: plan_for_def Let_def)
qed

lemma settled_git_ok:
  assumes "git_settled g d git"
  shows "\<exists>x. development_git_operations g d git = Inr x \<and> only {P_NOOP} x"
proof -
  from assms have "\<exists>x. development_git_operations g d git = Inr x"
    unfolding development_git_operations_def git_settled_def
    by (elim disjE exE conjE) (simp_all only: if_True rbind_Inr if_False sum.inject ex_simps simp_thms split: if_split)
  with noop_git assms show ?thesis by blast
qed

lemma sample_parts:
  "registry_conflicts sample_registry sample_instance = Inr []"
  "registry_conflicts sample_registry absent_instance = Inr []"
  "rs_files sample_registry = []" "is_present sample_instance" "\<not> is_present absent_instance"
  "\<exists>x. development_git_operations sample_generator sample_instance sample_git = Inr x \<and> only {P_NOOP} x"
  "\<exists>x. development_git_operations sample_generator absent_instance sample_git = Inr x \<and> only {P_NOOP} x"
  "lo_state (observe_tcp_listeners (h_listeners sample_host)) = LS_AVAILABLE"
  "lo_endpoints (observe_tcp_listeners (h_listeners sample_host)) = []"
  "host_preconditions sample_generator sample_host sample_instance = []"
  "managed_host_conflicts sample_host sample_instance = []"
proof -
  have "list_instances sample_registry True = Inr []"
    by (simp add: list_instances_def sample_registry_def f_exists_def)
  moreover have "internal_conflict sample_instance = []" "internal_conflict absent_instance = []"
    by code_simp+
  ultimately show "registry_conflicts sample_registry sample_instance = Inr []"
    "registry_conflicts sample_registry absent_instance = Inr []"
    by (simp_all add: registry_conflicts_def)
  show "rs_files sample_registry = []" "is_present sample_instance" "\<not> is_present absent_instance"
    by code_simp+
  have g: "git_settled sample_generator sample_instance sample_git"
    "git_settled sample_generator absent_instance sample_git"
    by (auto simp: git_settled_def observe_identity_def observe_transport_def sample_git_def obs_def
        repository_present_def sample_instance_def absent_instance_def git_empty_def)
  show "\<exists>x. development_git_operations sample_generator sample_instance sample_git = Inr x \<and> only {P_NOOP} x"
    by (rule settled_git_ok [OF g(1)])
  show "\<exists>x. development_git_operations sample_generator absent_instance sample_git = Inr x \<and> only {P_NOOP} x"
    by (rule settled_git_ok [OF g(2)])
  show "lo_state (observe_tcp_listeners (h_listeners sample_host)) = LS_AVAILABLE"
    "lo_endpoints (observe_tcp_listeners (h_listeners sample_host)) = []"
    by code_simp+
  show "host_preconditions sample_generator sample_host sample_instance = []"
    by code_simp
  have "managed_identities sample_host = []"
    by (simp add: managed_identities_def sample_host_def)
  then show "managed_host_conflicts sample_host sample_instance = []"
    by (simp add: managed_host_conflicts_def incomplete_units_def)
qed

lemma no_stale:
  assumes "\<And>p. h_text h p = TextMissing []"
  shows "stale_access H ps h d b = Inr []" "stale_guard H ps h d b = Inr []"
    "stale_development H ps h d b = Inr []"
  using assms
  by (simp_all add: stale_access_def stale_guard_def stale_development_def load_applied_def Let_def
      sort_by_def List.map_filter_def)

lemma no_stale_operations:
  assumes "\<And>p. h_text h p = TextMissing []"
  shows "stale_guard_operations H ps h d b @ stale_development_operations H ps h d b @
    stale_access_operations H ps h d b = []"
  by (simp add: no_stale [OF assms] stale_access_operations_def stale_guard_operations_def
      stale_development_operations_def)

lemma fresh_files: "file_operations H sample_host sample_instance rs =
    map (\<lambda>r. item P_CREATE (r_path r) ''managed resource is absent'' (r_id r)) rs"
  by (simp add: file_operations_def sample_parts file_item_def present_item_def observe_resource_def
      sample_host_def)

lemma sample_listeners:
  "listener_conflicts H reg sample_host sample_instance rs = Inr []"
  using sample_parts(8,9)
  by (simp add: listener_conflicts_def listener_checks_def listener_item_def Let_def)

lemma fresh_plan:
  assumes "generate H sample_generator (rs_files reg) sample_instance = Inr b"
    and "registry_conflicts reg sample_instance = Inr []"
  shows "\<exists>p. plan_for H sample_generator reg sample_host sample_git sample_instance = Inr p \<and> pl_valid p"
proof -
  obtain gs where g: "development_git_operations sample_generator sample_instance sample_git = Inr gs"
    "only {P_NOOP} gs" using sample_parts(6) by blast
  have ns: "stale_guard_operations H (gen_paths sample_generator) sample_host sample_instance b @
      stale_development_operations H (gen_paths sample_generator) sample_host sample_instance b @
      stale_access_operations H (gen_paths sample_generator) sample_host sample_instance b = []"
    by (rule no_stale_operations) (simp add: sample_host_def)
  let ?files = "file_operations H sample_host sample_instance (b_resources b)"
  let ?units = "unit_operations sample_host sample_instance (b_resources b) (changed_ids ?files)"
  have "plan_for H sample_generator reg sample_host sample_git sample_instance =
      Inr (finish_plan H sample_instance (?files @ gs @ ?units))"
    using ns by (simp add: plan_for_def assms sample_parts g sample_listeners Let_def)
  moreover have "only (- {P_CONFLICT}) (?files @ gs @ ?units)"
    using only_mono [OF g(2), of "- {P_CONFLICT}"]
      only_mono [OF only_present_units [OF sample_parts(4)], of "- {P_CONFLICT}"]
    by (simp add: fresh_files only_map_iff)
  ultimately show ?thesis by (simp add: not_conflict_iff)
qed

lemma base_in_bundle:
  assumes "generate H g fs d = Inr b" and "r \<in> set (base_resources g d)"
  shows "r \<in> set (b_resources b)"
proof (rule generate_resources [OF assms(1)])
  fix rs q assume a: "all_resources g d = Inr rs" and b: "b_resources b = map (apply_policy q) rs"
  have "r \<in> set rs" by (rule all_resources_groups [OF a]) (use assms(2) in auto)
  moreover have "apply_policy q r = r"
    using assms(2) by (auto simp: apply_policy_def base_resources_def Let_def resource_defs mk_resource_def)
  ultimately show ?thesis by (force simp: b)
qed

lemma owned_removal:
  assumes "generate H sample_generator [] absent_instance = Inr b"
    and "h_lstat h = h_lstat owned_host" and "h_text h = h_text owned_host"
  shows "\<exists>p i. plan_for H sample_generator sample_registry h sample_git absent_instance = Inr p \<and>
    i \<in> set (pl_items p) \<and> pi_op i = P_REMOVE \<and> pi_rid i = Some ''state-dir''"
proof -
  let ?sd = "state_dir sample_paths ''a-1''"
  have "\<exists>x. development_git_operations sample_generator absent_instance sample_git = Inr x"
    using sample_parts(7) by blast
  then obtain p where p: "plan_for H sample_generator sample_registry h sample_git absent_instance = Inr p"
    using plan_for_ok [of H sample_generator sample_registry absent_instance b] assms(1) sample_parts(2,3,5)
    by metis
  let ?r = "hd (base_resources sample_generator absent_instance)"
  have r: "?r \<in> set (b_resources b)" "r_kind ?r = DIRECTORY" "r_path ?r = path_str ?sd"
      "r_remove ?r" "r_id ?r = ''state-dir''" "r_marker_path ?r = Some (path_str (path_div ?sd ''.owner''))"
      "r_token ?r = Some (owner_prefix @ ''a-1'')" "r_mode ?r = 448"
    by (rule base_in_bundle [OF assms(1)])
      (simp_all add: base_resources_def Let_def resource_defs absent_instance_def sample_instance_def
        sample_generator_def)
  have "path_of (path_str ?sd) = ?sd" "path_of (path_str (path_div ?sd ''.owner'')) = path_div ?sd ''.owner''"
    by code_simp+
  with r(2-) have "seen_status H h ?r = O_EXACT"
    by (simp add: seen_status_def observe_resource_def owned_host_def marker_problem_def token_in_def
        observe_directory_def contains_owner_file [of "''a-1''", simplified] assms(2,3))
  with r sample_parts(5) have i: "pi_op (file_item H h False ?r) = P_REMOVE"
      "pi_rid (file_item H h False ?r) = Some ''state-dir''"
    by (simp_all add: file_item_def absent_item_def seen_status_def)
  have "file_item H h False ?r \<in> set (file_operations H h absent_instance (b_resources b))"
    using r(1) sample_parts(5) by (simp add: file_operations_def)
  then have "file_item H h False ?r \<in> set (pl_items p)"
    using p by (rule_tac plan_for_Inr) (use assms(1) sample_parts(3,5) in \<open>auto simp: Let_def\<close>)
  with p i show ?thesis by blast
qed

section \<open>A registry with another instance\<close>

definition other_instance :: desired_instance where
  "other_instance = sample_instance\<lparr>di_id := ''b-2'', di_workspace := ''/x'',
     di_mcp := sample_mcp\<lparr>mcp_port := 9000\<rparr>,
     di_tunnel := sample_tunnel\<lparr>tun_id := ''tunnel_b2'', tun_profile := ''q'', tun_health_port := 9001\<rparr>\<rparr>"

definition other_registry :: registry_state where
  "other_registry = sample_registry\<lparr>rs_files :=
     [(rs_directory sample_registry, FDir),
      (file_of sample_registry ''b-2'', FText (payload other_instance))]\<rparr>"

lemma other_valid: "valid_instance other_instance"
  by code_simp

lemma other_listed: "list_instances other_registry True = Inr [other_instance]"
proof -
  have "json_children other_registry = [file_of sample_registry ''b-2'']"
    by (simp add: json_children_def other_registry_def; code_simp)
  moreover have "read_instance other_registry (file_of sample_registry ''b-2'') = Inr other_instance"
  proof -
    have "path_stem (file_of sample_registry ''b-2'') = ''b-2''" by code_simp
    moreover have "rs_directory sample_registry \<noteq> file_of sample_registry ''b-2''" by code_simp
    ultimately show ?thesis
      using from_json_payload [OF other_valid]
      by (simp add: read_instance_def f_read_def other_registry_def)
        (simp add: other_instance_def)
  qed
  moreover have "f_exists (rs_files other_registry) (rs_directory other_registry)"
    by (simp add: f_exists_def other_registry_def)
  ultimately show ?thesis by (simp add: list_instances_def)
qed

lemma other_conflicts: "registry_conflicts other_registry sample_instance = Inr []"
proof -
  have "internal_conflict sample_instance = []" "conflicts_with sample_instance other_instance = []"
    by code_simp+
  then show ?thesis by (simp add: registry_conflicts_def other_listed)
qed

lemma other_generate: "\<exists>b. generate H sample_generator (rs_files other_registry) sample_instance = Inr b"
proof -
  obtain rs where "all_resources sample_generator sample_instance = Inr rs"
    using sample_resources by blast
  moreover have "import_policy sample_generator (rs_files other_registry) (di_id sample_instance) = Inr None"
  proof -
    let ?i = "path_div (state_root sample_paths) ''imports''"
    let ?r = "path_div (path_div ?i ''receipts'') ''a-1.json''"
    have "?r \<noteq> rs_directory sample_registry" "?r \<noteq> file_of sample_registry ''b-2''"
      "path_div ?i ''a-1.json'' \<noteq> rs_directory sample_registry"
      "path_div ?i ''a-1.json'' \<noteq> file_of sample_registry ''b-2''"
      by code_simp+
    then have "\<not> f_present (rs_files other_registry) ?r"
      "\<not> f_present (rs_files other_registry) (path_div ?i ''a-1.json'')"
      by (simp_all add: f_present_def f_exists_def f_is_symlink_def other_registry_def)
    then show ?thesis
      by (simp add: import_policy_def Let_def sample_generator_def sample_instance_def)
  qed
  ultimately show ?thesis by (simp add: generate_def)
qed

lemma other_plan:
  "\<exists>b p. generate H sample_generator (rs_files other_registry) sample_instance = Inr b \<and>
    plan_for H sample_generator other_registry sample_host sample_git sample_instance = Inr p \<and> pl_valid p"
proof -
  obtain b where b: "generate H sample_generator (rs_files other_registry) sample_instance = Inr b"
    using other_generate by blast
  with fresh_plan [OF b other_conflicts] show ?thesis by blast
qed

section \<open>Properties\<close>

lemma plan_for_items:
  assumes "plan_for H g reg h git d = Inr p"
  obtains b declared checks git_ops files units stale where "generate H g (rs_files reg) d = Inr b"
    and "registry_conflicts reg d = Inr declared" and "development_git_operations g d git = Inr git_ops"
    and "is_present d \<Longrightarrow> \<exists>ls. listener_conflicts H reg h d (b_resources b) = Inr ls \<and>
           checks = host_preconditions g h d @ managed_host_conflicts h d @ ls"
    and "\<not> is_present d \<Longrightarrow> checks = []"
    and "files = file_operations H h d (b_resources b)"
    and "units = unit_operations h d (b_resources b) (changed_ids files)"
    and "stale = stale_guard_operations H (gen_paths g) h d b @
           stale_development_operations H (gen_paths g) h d b @ stale_access_operations H (gen_paths g) h d b"
    and "set (pl_items p) = set declared \<union> set checks \<union> set files \<union> set git_ops \<union> set units \<union> set stale"
    and "pl_valid p \<longleftrightarrow> only (- {P_CONFLICT}) (pl_items p)"
  using assms
  by (rule plan_for_Inr) (rule that, assumption+, auto simp: Let_def not_conflict_iff)

lemma present_plan_items:
  assumes "plan_for H g reg h git d = Inr p" and "is_present d" and "generate H g (rs_files reg) d = Inr b"
  obtains ls where "listener_conflicts H reg h d (b_resources b) = Inr ls"
    and "set (host_preconditions g h d @ managed_host_conflicts h d @ ls) \<subseteq> set (pl_items p)"
    and "set (file_operations H h d (b_resources b)) \<subseteq> set (pl_items p)"
    and "set (unit_operations h d (b_resources b) (changed_ids (file_operations H h d (b_resources b))))
           \<subseteq> set (pl_items p)"
    and "pl_valid p \<longleftrightarrow> only (- {P_CONFLICT}) (pl_items p)"
proof (rule plan_for_items [OF assms(1)])
  fix b' declared checks git_ops files units stale
  assume b: "generate H g (rs_files reg) d = Inr b'"
    and ch: "is_present d \<Longrightarrow> \<exists>ls. listener_conflicts H reg h d (b_resources b') = Inr ls \<and>
           checks = host_preconditions g h d @ managed_host_conflicts h d @ ls"
    and f: "files = file_operations H h d (b_resources b')"
    and u: "units = unit_operations h d (b_resources b') (changed_ids files)"
    and items: "set (pl_items p) = set declared \<union> set checks \<union> set files \<union> set git_ops \<union> set units \<union> set stale"
    and v: "pl_valid p \<longleftrightarrow> only (- {P_CONFLICT}) (pl_items p)"
  from b assms(3) have [simp]: "b' = b" by simp
  from ch [OF assms(2)] obtain ls where "listener_conflicts H reg h d (b_resources b) = Inr ls"
    "checks = host_preconditions g h d @ managed_host_conflicts h d @ ls" by auto
  with v show ?thesis by (rule_tac that) (use items f u in auto)
qed

text \<open>C3: whatever file or directory a plan updates or removes is a resource of the instance that was
  seen, in the same observation, as a real file or directory (never a symbolic link) whose marker file, or
  whose own text when it has none, contains the text of this instance's marker; an update concerns a
  resource of the generated bundle, a removal one of the bundle or one an earlier apply recorded. The
  one exception is a directory of the bundle that no instance owns, seen as a real directory with
  another mode: its mode is corrected, and it is never removed. Git settings carry their own ownership
  keys and are excluded (Transport_Props); that the marker is a part of the text, not the
  whole of a line, is the code's test.\<close>

theorem plan_touches_only_owned:
  assumes "plan_for H g reg h git d = Inr p" and "i \<in> set (pl_items p)"
    and "pi_op i \<in> {P_UPDATE, P_REMOVE}" and "pi_rid i \<notin> Some ` set git_rids"
  shows "\<exists>b r. generate H g (rs_files reg) d = Inr b \<and> pi_target i = r_path r \<and> pi_rid i = Some (r_id r) \<and>
    (r \<in> set (b_resources b) \<and>
       (owner_evidence (owner_prefix @ di_id d) h r \<or> pi_op i = P_UPDATE \<and> shared_directory h r) \<or>
     r \<in> set (retired_resources H (gen_paths g) h d b) \<and> pi_op i = P_REMOVE \<and>
       owner_evidence (owner_prefix @ di_id d) h r)"
  using assms(1)
proof (rule plan_for_items)
  fix b declared checks git_ops files units stale
  assume b: "generate H g (rs_files reg) d = Inr b" and dc: "registry_conflicts reg d = Inr declared"
    and git: "development_git_operations g d git = Inr git_ops"
    and ch: "is_present d \<Longrightarrow> \<exists>ls. listener_conflicts H reg h d (b_resources b) = Inr ls \<and>
           checks = host_preconditions g h d @ managed_host_conflicts h d @ ls"
    and ab: "\<not> is_present d \<Longrightarrow> checks = []"
    and f: "files = file_operations H h d (b_resources b)"
    and u: "units = unit_operations h d (b_resources b) (changed_ids files)"
    and st: "stale = stale_guard_operations H (gen_paths g) h d b @
           stale_development_operations H (gen_paths g) h d b @ stale_access_operations H (gen_paths g) h d b"
    and items: "set (pl_items p) = set declared \<union> set checks \<union> set files \<union> set git_ops \<union> set units \<union> set stale"
  have "only {P_CONFLICT} checks"
    using ch ab by (cases "is_present d") (auto simp: only_preconditions only_managed intro: only_listeners)
  moreover have "only {P_ENABLE, P_START, P_RESTART, P_STOP, P_DISABLE} units"
    unfolding u by (cases "is_present d") (auto intro: only_mono only_present_units only_absent_units)
  ultimately have "i \<notin> set declared \<union> set checks \<union> set units"
    using only_registry [OF dc] assms(3) by (auto simp: only_def)
  moreover have "i \<notin> set git_ops" using git_items_rid [OF git] assms(4) by blast
  ultimately consider "i \<in> set files" | "i \<in> set stale" using items assms(2) by blast
  then show ?thesis
  proof cases
    case 1
    with touched_file [OF b, of i h] assms(3) b show ?thesis unfolding f by blast
  next
    case 2
    with touched_stale [of i H "gen_paths g" h d b] assms(3) b show ?thesis unfolding st by blast
  qed
qed

theorem plan_touches_only_owned_witness:
  "\<exists>p i r. plan_for rev sample_generator sample_registry owned_host sample_git absent_instance = Inr p \<and>
    i \<in> set (pl_items p) \<and> pi_op i = P_REMOVE \<and> pi_target i = r_path r \<and>
    owner_evidence (owner_prefix @ di_id absent_instance) owned_host r"
proof -
  obtain b where "generate rev sample_generator [] absent_instance = Inr b"
    using absent_generate by blast
  from owned_removal [OF this refl refl] obtain p i where
    p: "plan_for rev sample_generator sample_registry owned_host sample_git absent_instance = Inr p"
    and i: "i \<in> set (pl_items p)" "pi_op i = P_REMOVE" "pi_rid i = Some ''state-dir''"
    by blast
  have "pi_rid i \<notin> Some ` set git_rids" by (simp add: i(3) git_rids_def)
  with plan_touches_only_owned [OF p i(1)] i(2) obtain r where
    "pi_target i = r_path r" "owner_evidence (owner_prefix @ di_id absent_instance) owned_host r" by auto
  with p i(1,2) show ?thesis by blast
qed

text \<open>C5: when a plan is valid, every other declared instance has another workspace, tunnel and
  tunnel profile, each of its endpoints is provably disjoint from each endpoint of this instance
  (an undecided comparison is a conflict), and the two endpoints of this instance are disjoint.\<close>

theorem valid_plan_no_collision:
  assumes "plan_for H g reg h git d = Inr p" and "pl_valid p"
    and "list_instances reg True = Inr others" and "other \<in> set others" and "di_id other \<noteq> di_id d"
  shows "di_workspace d \<noteq> di_workspace other \<and> tun_id (di_tunnel d) \<noteq> tun_id (di_tunnel other) \<and>
    tun_profile (di_tunnel d) \<noteq> tun_profile (di_tunnel other) \<and>
    (\<forall>e \<in> set (endpoints_of ''candidate'' d). \<forall>e' \<in> set (endpoints_of ''declared'' other).
       endpoint_overlap e e' = Some False) \<and>
    endpoint_overlap (endpoints_of ''candidate'' d ! 0) (endpoints_of ''candidate'' d ! 1) = Some False"
proof -
  from assms(1) obtain declared where dc: "registry_conflicts reg d = Inr declared"
    and sub: "set declared \<subseteq> set (pl_items p)" and v: "only (- {P_CONFLICT}) (pl_items p)"
    using assms(2) by (auto elim!: plan_for_items)
  have "only (- {P_CONFLICT}) declared" using sub v by (auto simp: only_def)
  with only_disjoint [OF only_registry [OF dc], of "- {P_CONFLICT}"] have "declared = []" by simp
  with dc assms(3) have 1: "internal_conflict d = []" and 2: "conflicts_with d other = []"
    using assms(4) by (auto simp: registry_conflicts_def)
  have ov: "endpoint_overlap l r = Some False" if "endpoint_collision other l r = []" for l r
    using that by (auto simp: endpoint_collision_def split: option.splits bool.splits)
  show ?thesis
    using 1 2 assms(5) ov
    by (auto simp: internal_conflict_def conflicts_with_def identity_collision_def
        split: option.splits bool.splits if_splits)
qed

theorem valid_plan_no_collision_witness:
  "list_instances other_registry True = Inr [other_instance] \<and>
    tun_id (di_tunnel sample_instance) \<noteq> tun_id (di_tunnel other_instance) \<and>
    endpoint_overlap (endpoints_of ''candidate'' sample_instance ! 0) (endpoints_of ''declared'' other_instance ! 1)
      = Some False"
proof -
  obtain p where "plan_for rev sample_generator other_registry sample_host sample_git sample_instance = Inr p"
    "pl_valid p" using other_plan by blast
  moreover have "di_id other_instance \<noteq> di_id sample_instance" by code_simp
  ultimately show ?thesis
    using valid_plan_no_collision [OF _ _ other_listed, of rev sample_generator sample_host sample_git sample_instance p
        other_instance] other_listed by (simp add: endpoints_of_def)
qed

text \<open>C30: when a plan to deploy is valid, every host precondition holds as observed (workspace and
  access sources are accessible directories, every program is an executable regular file, the
  version-2 development environment is usable), nothing at a managed path is foreign or
  unreadable, and no unit installed by anyone else claims the workspace, ports, profile or tunnel.\<close>

theorem valid_plan_preconditions:
  assumes "plan_for H g reg h git d = Inr p" and "pl_valid p" and "is_present d"
    and "generate H g (rs_files reg) d = Inr b"
  shows "(\<forall>(path, label, expected, executable, writable) \<in> set (precondition_checks g d).
      ob_status (check_path h path expected executable writable) = O_EXACT) \<and>
    validate_pm1 g h d = [] \<and>
    (\<forall>r \<in> set (b_resources b). seen_status H h r \<in> {O_ABSENT, O_EXACT, O_DIFFERENT}) \<and>
    set (incomplete_units (managed_identities h)) \<subseteq> set (target_units d) \<and>
    (\<forall>rec \<in> set (managed_identities h). unit_of rec \<notin> set (target_units d) \<longrightarrow>
      (\<forall>(key, val, label) \<in> set (identity_fields d). id_get rec key \<noteq> Some val))"
proof -
  have no_collision: "collision_items seen cs = [] \<Longrightarrow> (key, val, label, rec) \<in> set cs \<Longrightarrow>
      id_get rec key = Some val \<Longrightarrow> (unit_of rec, key) \<in> set seen" for seen cs key val label rec
    by (induction seen cs rule: collision_items.induct) (auto split: if_splits)
  let ?files = "file_operations H h d (b_resources b)"
  from assms obtain ls where ls: "listener_conflicts H reg h d (b_resources b) = Inr ls"
    and sub: "set (host_preconditions g h d @ managed_host_conflicts h d @ ls) \<subseteq> set (pl_items p)"
      "set ?files \<subseteq> set (pl_items p)"
    and v: "only (- {P_CONFLICT}) (pl_items p)"
    using present_plan_items by metis
  have chk: "only (- {P_CONFLICT}) (host_preconditions g h d @ managed_host_conflicts h d @ ls)"
    and fl: "only (- {P_CONFLICT}) ?files"
    using sub v by (auto simp only: only_def)
  have "only {P_CONFLICT} (host_preconditions g h d @ managed_host_conflicts h d @ ls)"
    using only_listeners [OF ls] by (simp add: only_preconditions only_managed)
  from only_disjoint [OF this, of "- {P_CONFLICT}"] chk
  have pre: "host_preconditions g h d = []" and man: "managed_host_conflicts h d = []" by auto
  from fl have "\<not> list_ex is_conflict (file_policy.all_items H h True (b_resources b))"
    using assms(3) by (simp add: file_operations_alt not_conflict_iff)
  with file_policy.conflict_free_known have
    "\<forall>r \<in> set (b_resources b). seen_status H h r \<in> {O_ABSENT, O_EXACT, O_DIFFERENT}" by blast
  moreover have "\<forall>(path, label, expected, executable, writable) \<in> set (precondition_checks g d).
      ob_status (check_path h path expected executable writable) = O_EXACT" "validate_pm1 g h d = []"
    using pre by (auto simp: host_preconditions_def precondition_item_def Let_def split: if_splits)
  moreover have "set (incomplete_units (managed_identities h)) \<subseteq> set (target_units d)"
    using man by (auto simp: managed_host_conflicts_def Let_def filter_empty_conv)
  moreover have "id_get rec key \<noteq> Some val"
    if "rec \<in> set (managed_identities h)" "unit_of rec \<notin> set (target_units d)"
      "(key, val, label) \<in> set (identity_fields d)" for rec key val label
  proof
    assume "id_get rec key = Some val"
    let ?cs = "concat (map (\<lambda>r. map (\<lambda>(k, e, l). (k, e, l, r)) (identity_fields d))
      (filter (\<lambda>r. unit_of r \<notin> set (target_units d)) (managed_identities h)))"
    have "collision_items [] ?cs = []" using man by (simp add: managed_host_conflicts_def Let_def)
    moreover have "(key, val, label, rec) \<in> set ?cs" using that by (auto intro!: exI [of _ rec] image_eqI [of _ _ "(key, val, label)"])
    ultimately show False using no_collision [of "[]"] \<open>id_get rec key = Some val\<close> by fastforce
  qed
  ultimately show ?thesis by blast
qed

theorem valid_plan_preconditions_witness:
  "\<exists>b. generate rev sample_generator [] sample_instance = Inr b \<and>
    validate_pm1 sample_generator sample_host sample_instance = [] \<and>
    (\<forall>r \<in> set (b_resources b). seen_status rev sample_host r \<in> {O_ABSENT, O_EXACT, O_DIFFERENT})"
proof -
  obtain b where b: "generate rev sample_generator [] sample_instance = Inr b"
    using sample_generate by blast
  with fresh_plan [of rev sample_registry b] sample_parts(1,3) obtain p where
    "plan_for rev sample_generator sample_registry sample_host sample_git sample_instance = Inr p" "pl_valid p"
    by auto
  from valid_plan_preconditions [OF this sample_parts(4), of b] b sample_parts(3) show ?thesis
    by fastforce
qed

text \<open>C29: a plan to deploy has nothing but NOOP operations exactly when it is valid and the host is
  as declared: every generated resource is in place with its content and mode, every unit is
  enabled and active as wanted, the git settings match, and nothing obsolete is left.\<close>

theorem plan_settled_iff_noop:
  assumes "plan_for H g reg h git d = Inr p" and "generate H g (rs_files reg) d = Inr b" and "is_present d"
  shows "(\<forall>i \<in> set (pl_items p). pi_op i = P_NOOP) \<longleftrightarrow> pl_valid p \<and> settled H g h git d b"
  using plan_noop_iff [OF assms] by (simp add: only_def)

theorem plan_settled_iff_noop_witness:
  "\<exists>b p. plan_for rev sample_generator sample_registry sample_host sample_git sample_instance = Inr p \<and>
    ((\<forall>i \<in> set (pl_items p). pi_op i = P_NOOP) \<longleftrightarrow>
      pl_valid p \<and> settled rev sample_generator sample_host sample_git sample_instance b)"
proof -
  obtain b where b: "generate rev sample_generator [] sample_instance = Inr b"
    using sample_generate by blast
  with fresh_plan [of rev sample_registry b] sample_parts(1,3) obtain p where
    p: "plan_for rev sample_generator sample_registry sample_host sample_git sample_instance = Inr p"
    by auto
  with plan_settled_iff_noop [OF p _ sample_parts(4), of b] b sample_parts(3) show ?thesis by auto
qed

end
