(* ===== verification/Planning_Effects.thy ===== *)
theory Planning_Effects
  imports Planning_Props
begin

text \<open>
  The order and extent of a plan: an absent instance only loses things and its units stop
  before anything is removed, the tunnel follows a changed MCP server, and how far the marker
  test reaches.
\<close>

section \<open>Plans to remove an instance\<close>

lemma absent_plan_parts:
  assumes "plan_for H g reg h git d = Inr p" and "\<not> is_present d" and "generate H g (rs_files reg) d = Inr b"
  obtains declared git_ops stale where "registry_conflicts reg d = Inr declared"
    and "development_git_operations g d git = Inr git_ops"
    and "pl_items p = declared @ unit_operations h d (b_resources b) (changed_ids (file_operations H h d (b_resources b))) @
           git_ops @ file_operations H h d (b_resources b) @ stale"
    and "only {P_STOP, P_DISABLE, P_REMOVE, P_NOOP, P_CONFLICT} stale"
proof (rule plan_for_Inr [OF assms(1)])
  fix b' declared checks git_ops
  assume "generate H g (rs_files reg) d = Inr b'" and dc: "registry_conflicts reg d = Inr declared"
    and git: "development_git_operations g d git = Inr git_ops" and ch: "\<not> is_present d \<Longrightarrow> checks = []"
    and p: "p = finish_plan H d
          (declared @ checks @
           (let files = file_operations H h d (b_resources b');
                units = unit_operations h d (b_resources b') (changed_ids files)
            in if is_present d then files @ git_ops @ units else units @ git_ops @ files) @
           stale_guard_operations H (gen_paths g) h d b' @
           stale_development_operations H (gen_paths g) h d b' @
           stale_access_operations H (gen_paths g) h d b')"
  with assms(3) have [simp]: "b' = b" by simp
  let ?stale = "stale_guard_operations H (gen_paths g) h d b @
    stale_development_operations H (gen_paths g) h d b @ stale_access_operations H (gen_paths g) h d b"
  have "only {P_STOP, P_DISABLE, P_REMOVE, P_NOOP, P_CONFLICT} ?stale"
    using only_stale [of H "gen_paths g" h d b] by (auto simp: only_def)
  with dc git show ?thesis
    by (rule_tac stale = ?stale in that) (use assms(2) ch in \<open>simp_all add: p Let_def\<close>)
qed

text \<open>The statuses an observation can have, by its branches.\<close>

definition yields :: "obs_status set \<Rightarrow> observation res \<Rightarrow> bool" where
  "yields S m \<longleftrightarrow> (\<forall>ob. m = Inr ob \<longrightarrow> ob_status ob \<in> S)"

lemma yieldsI:
  "st \<in> S \<Longrightarrow> yields S (obs st t)"
  "(\<And>x. yields S (f x)) \<Longrightarrow> yields S (rbind m f)"
  "(c \<Longrightarrow> yields S m1) \<Longrightarrow> (\<not> c \<Longrightarrow> yields S m2) \<Longrightarrow> yields S (if c then m1 else m2)"
  "yields S m1 \<Longrightarrow> (\<And>x. yields S (k x)) \<Longrightarrow> yields S (case v of None \<Rightarrow> m1 | Some x \<Rightarrow> k x)"
  by (auto simp: yields_def obs_def res_simps split: option.splits)

lemma observe_absent:
  assumes "\<not> is_present d"
  shows "yields {O_EXACT, O_FOREIGN, O_DIFFERENT, O_UNVERIFIED} (observe_identity d git)"
    and "yields {O_EXACT, O_FOREIGN, O_DIFFERENT, O_UNVERIFIED} (observe_transport g d git)"
proof -
  have none: "requested_identity d = None" "requested_remote d = None"
    using assms by (simp_all add: requested_identity_def requested_remote_def is_present_def)
  show "yields {O_EXACT, O_FOREIGN, O_DIFFERENT, O_UNVERIFIED} (observe_identity d git)"
    unfolding observe_identity_def none option.case by (intro yieldsI) simp_all
  show "yields {O_EXACT, O_FOREIGN, O_DIFFERENT, O_UNVERIFIED} (observe_transport g d git)"
    unfolding observe_transport_def none option.case by (intro yieldsI) simp_all
qed

lemma only_absent_git:
  assumes "development_git_operations g d git = Inr is" and "\<not> is_present d"
  shows "only {P_REMOVE, P_NOOP, P_CONFLICT} is"
proof (cases "di_version d < 2")
  case True
  with assms show ?thesis by (simp add: development_git_operations_def)
next
  case False
  with assms(1) obtain i t where i: "observe_identity d git = Inr i" and t: "observe_transport g d git = Inr t"
    and "is": "Inr [item (dev_operation i (is_present d \<and> git_identity_of (di_git d) \<noteq> None))
           (di_workspace d @ ''::dev-git-identity'')
           (''repository-local Git identity: '' @ ob_detail i) ''dev-git-identity'',
         item (dev_operation t (transport_is_requested d)) (di_workspace d @ ''::dev-git-transport'')
           (''repository-local Git transport: '' @ ob_detail t) ''dev-git-transport''] = Inr is"
    unfolding development_git_operations_def by (auto simp only: if_False rbind_eq_Inr)
  have op: "ob_status ob \<noteq> O_ABSENT \<Longrightarrow> dev_operation ob False \<in> {P_REMOVE, P_NOOP, P_CONFLICT}" for ob
    by (cases "ob_status ob") (simp_all add: dev_operation_def)
  have "\<not> transport_is_requested d"
    using assms(2) by (simp add: transport_is_requested_def is_present_def)
  then show ?thesis
    using "is" [THEN sum.inject(2) [THEN iffD1], symmetric] assms(2)
      op [of i] op [of t] observe_absent(1) [OF assms(2), of git] observe_absent(2) [OF assms(2), of g git] i t unfolding yields_def
    by (fastforce simp: only_simps)
qed

lemma position_after:
  assumes "only A xs" and "pi_op ((xs @ ys) ! j) \<notin> A" shows "length xs \<le> j"
proof (rule ccontr)
  assume "\<not> length xs \<le> j"
  with assms show False by (auto simp: only_def nth_append)
qed

section \<open>Restarts\<close>

lemma tunnel_resource:
  assumes "valid_instance d" and "generate H g fs d = Inr b"
  obtains t where "resource_by_id (filter has_unit (b_resources b)) ''tunnel-unit'' = Some t"
    and "t \<in> set (b_resources b)" and "r_id t = ''tunnel-unit''"
    and "unit_name_of t = tunnel_unit_name (di_id d)" and "r_active t"
proof (rule generate_resources [OF assms(2)])
  fix rs p assume a: "all_resources g d = Inr rs" and b: "b_resources b = map (apply_policy p) rs"
  from a obtain u where u: "u \<in> set rs" "r_id u = ''tunnel-unit''"
    "r_unit u = Some (tunnel_unit_name (di_id d))" "r_active u"
    by (rule all_resources_groups) (fastforce simp: core_units_def Let_def res_simps resource_defs)
  let ?t = "apply_policy p u"
  have t: "?t \<in> set (filter has_unit (b_resources b))" "r_id ?t = ''tunnel-unit''"
    "unit_name_of ?t = tunnel_unit_name (di_id d)" "r_active ?t"
    using u by (auto simp: b has_unit_def unit_name_of_def tunnel_unit_name_def)
  from t(1,2) have "resource_by_id (filter has_unit (b_resources b)) ''tunnel-unit'' \<noteq> None"
    unfolding resource_by_id_def find_None_iff by blast
  then obtain s where s: "resource_by_id (filter has_unit (b_resources b)) ''tunnel-unit'' = Some s" by blast
  then have "s \<in> set (b_resources b)" "r_id s = ''tunnel-unit''"
    by (auto simp: resource_by_id_def find_Some_iff) (metis filter_is_subset nth_mem subsetD)
  with t generated_ids [OF assms] have "s = ?t"
    using \<open>s \<in> set (b_resources b)\<close> by (auto simp: distinct_map inj_on_def)
  with s t show ?thesis by (intro that [of ?t]) auto
qed

lemma tunnel_restart_planned:
  assumes units: "resource_by_id (filter has_unit rs) ''tunnel-unit'' = Some t"
    and t: "t \<in> set rs" "r_id t = ''tunnel-unit''" "has_unit t" "r_active t"
    and d: "is_present d" "is_running d" and c: "''mcp-unit'' \<in> set changed"
    and u: "uo_active (observe_unit h (unit_name_of t))"
    and unique: "\<And>r. r \<in> set rs \<Longrightarrow> r_id r = ''tunnel-unit'' \<Longrightarrow> r = t"
  shows "\<exists>i \<in> set (unit_operations h d rs changed). pi_op i = P_RESTART \<and> pi_target i = unit_name_of t"
proof -
  let ?ops = "concat (map (present_unit_items h (is_running d) changed) (filter has_unit rs))"
  have ops: "unit_operations h d rs changed = ?ops @ dependent_restart h (filter has_unit rs) ?ops"
    using d c by (simp add: unit_operations_def Let_def)
  show ?thesis
  proof (cases "''tunnel-unit'' \<in> set changed")
    case True
    with t d u have "item P_RESTART (unit_name_of t) ''active unit resource changed'' ''tunnel-unit''
        \<in> set (present_unit_items h (is_running d) changed t)"
      by (simp add: present_unit_items_def Let_def)
    with t(1,3) have "item P_RESTART (unit_name_of t) ''active unit resource changed'' ''tunnel-unit'' \<in> set ?ops"
      by force
    then show ?thesis unfolding ops by (intro bexI) auto
  next
    case False
    show ?thesis
    proof (cases "list_ex (\<lambda>i. pi_rid i = Some ''tunnel-unit'' \<and> pi_op i \<in> {P_START, P_RESTART}) ?ops")
      case True
      then obtain i r where r: "r \<in> set rs" "has_unit r" "i \<in> set (present_unit_items h (is_running d) changed r)"
        "pi_rid i = Some ''tunnel-unit''" "pi_op i \<in> {P_START, P_RESTART}"
        by (auto simp: list_ex_iff)
      then have "r_id r = ''tunnel-unit''"
        by (auto simp: present_unit_items_def Let_def split: if_splits)
      with unique r(1) have "r = t" by blast
      with r False u have False
        by (auto simp: present_unit_items_def Let_def t(2) split: if_splits)
      then show ?thesis ..
    next
      case False
      with units u have "dependent_restart h (filter has_unit rs) ?ops =
          [item P_RESTART (unit_name_of t) ''MCP dependency is restarting'' (r_id t)]"
        by (simp add: dependent_restart_def)
      then show ?thesis unfolding ops by simp
    qed
  qed
qed

lemma mcp_resource:
  assumes "generate H g fs d = Inr b"
  obtains m where "m \<in> set (b_resources b)" and "r_id m = ''mcp-unit''"
    and "unit_name_of m = mcp_unit_name (di_id d)"
proof (rule generate_resources [OF assms])
  fix rs p assume a: "all_resources g d = Inr rs" and b: "b_resources b = map (apply_policy p) rs"
  from a obtain u where "u \<in> set rs" "r_id u = ''mcp-unit''" "r_unit u = Some (mcp_unit_name (di_id d))"
    by (rule all_resources_groups) (fastforce simp: core_units_def Let_def res_simps resource_defs)
  then have "apply_policy p u \<in> set (b_resources b)" "r_id (apply_policy p u) = ''mcp-unit''"
    "unit_name_of (apply_policy p u) = mcp_unit_name (di_id d)"
    by (auto simp: b unit_name_of_def)
  then show ?thesis by (rule that)
qed

text \<open>A host on which every unit is enabled and active.\<close>

definition activated :: "host \<Rightarrow> host" where
  "activated h = h\<lparr>h_unit_show := \<lambda>_. ProcDone 0
     (''LoadState=loaded'' @ newline @ ''UnitFileState=enabled'' @ newline @ ''ActiveState=active'') []\<rparr>"

lemma activated_active: "uo_active (observe_unit (activated h) u)"
proof -
  have "property_or (property_lines (''LoadState=loaded'' @ newline @ ''UnitFileState=enabled'' @ newline @
      ''ActiveState=active'')) ''ActiveState'' ''inactive'' = ''active''"
    by code_simp
  then show ?thesis by (simp add: observe_unit_def activated_def Let_def)
qed

section \<open>Properties\<close>

text \<open>a plan to remove an instance asks for nothing but stopping, disabling and removing: it
  creates, updates, enables and starts nothing, on disk, in systemd or in the git configuration,
  and it leaves every shared resource alone.\<close>

theorem absent_plan_only_retires:
  assumes "plan_for H g reg h git d = Inr p" and "\<not> is_present d"
    and "generate H g (rs_files reg) d = Inr b"
  shows "(\<forall>i \<in> set (pl_items p). pi_op i \<in> {P_STOP, P_DISABLE, P_REMOVE, P_NOOP, P_CONFLICT}) \<and>
    (\<forall>r \<in> set (b_resources b). \<not> r_remove r \<longrightarrow> pi_op (file_item H h False r) = P_NOOP)"
proof -
  from assms obtain declared git_ops stale where dc: "registry_conflicts reg d = Inr declared"
    and git: "development_git_operations g d git = Inr git_ops"
    and items: "pl_items p = declared @ unit_operations h d (b_resources b)
          (changed_ids (file_operations H h d (b_resources b))) @
           git_ops @ file_operations H h d (b_resources b) @ stale"
    and st: "only {P_STOP, P_DISABLE, P_REMOVE, P_NOOP, P_CONFLICT} stale"
    by (rule absent_plan_parts)
  have "only {P_STOP, P_DISABLE, P_REMOVE, P_NOOP, P_CONFLICT} (pl_items p)"
    unfolding items only_simps
    using st only_mono [OF only_registry [OF dc]] only_mono [OF only_absent_git [OF git assms(2)]]
      only_mono [OF only_absent_units [OF assms(2)]] only_mono [OF only_absent_files [OF assms(2)]]
    by simp
  then show ?thesis by (simp add: only_def file_item_def)
qed

theorem absent_plan_only_retires_witness:
  "\<exists>p. plan_for rev sample_generator sample_registry owned_host sample_git absent_instance = Inr p \<and>
    (\<exists>i \<in> set (pl_items p). pi_op i = P_REMOVE) \<and>
    (\<forall>i \<in> set (pl_items p). pi_op i \<in> {P_STOP, P_DISABLE, P_REMOVE, P_NOOP, P_CONFLICT})"
proof -
  obtain b where b: "generate rev sample_generator [] absent_instance = Inr b"
    using absent_generate by blast
  from owned_removal [OF this refl refl] obtain p i where
    p: "plan_for rev sample_generator sample_registry owned_host sample_git absent_instance = Inr p"
    and i: "i \<in> set (pl_items p)" "pi_op i = P_REMOVE" by blast
  with absent_plan_only_retires [OF p sample_parts(5), of b] b sample_parts(3) show ?thesis by auto
qed

text \<open>C39: in a plan to remove an instance every active unit of the instance is stopped before
  anything whatever is removed.\<close>

theorem units_stop_before_removal:
  assumes "plan_for H g reg h git d = Inr p" and "\<not> is_present d"
    and "generate H g (rs_files reg) d = Inr b" and "r \<in> set (b_resources b)" and "has_unit r"
    and "uo_active (observe_unit h (unit_name_of r))"
    and "j < length (pl_items p)" and "pi_op (pl_items p ! j) = P_REMOVE"
  shows "\<exists>i < j. pi_op (pl_items p ! i) = P_STOP \<and> pi_target (pl_items p ! i) = unit_name_of r"
proof -
  let ?units = "unit_operations h d (b_resources b) (changed_ids (file_operations H h d (b_resources b)))"
  from assms(1-3) obtain declared git_ops stale where dc: "registry_conflicts reg d = Inr declared"
    and items: "pl_items p = declared @ ?units @ git_ops @ file_operations H h d (b_resources b) @ stale"
    by (rule absent_plan_parts)
  let ?stop = "item P_STOP (unit_name_of r) ''deployment target is absent'' (r_id r)"
  have "?stop \<in> set (absent_unit_items h r)"
    using assms(6) by (simp add: absent_unit_items_def Let_def)
  then have "?stop \<in> set ?units"
    using assms(2,4,5) by (force simp: unit_operations_def Let_def)
  then obtain k where k: "k < length ?units" "?units ! k = ?stop" by (auto simp: in_set_conv_nth)
  have "only {P_CONFLICT, P_STOP, P_DISABLE} (declared @ ?units)"
    using only_mono [OF only_registry [OF dc]] only_mono [OF only_absent_units [OF assms(2)]] by simp
  then have "length (declared @ ?units) \<le> j"
    by (rule position_after [where ys = "git_ops @ file_operations H h d (b_resources b) @ stale"])
      (simp_all add: assms(8) items [symmetric])
  with k have "length declared + k < j \<and> pl_items p ! (length declared + k) = ?stop"
    by (simp add: items nth_append)
  then show ?thesis by auto
qed

theorem units_stop_before_removal_witness:
  "\<exists>p i j. plan_for rev sample_generator sample_registry (activated owned_host) sample_git absent_instance = Inr p \<and>
    i < j \<and> j < length (pl_items p) \<and> pi_op (pl_items p ! j) = P_REMOVE \<and>
    pi_op (pl_items p ! i) = P_STOP \<and> pi_target (pl_items p ! i) = mcp_unit_name ''a-1''"
proof -
  let ?h = "activated owned_host"
  obtain b where b: "generate rev sample_generator [] absent_instance = Inr b"
    using absent_generate by blast
  have "h_lstat ?h = h_lstat owned_host" "h_text ?h = h_text owned_host"
    by (simp_all add: activated_def)
  from owned_removal [OF b this] obtain p x where
    p: "plan_for rev sample_generator sample_registry ?h sample_git absent_instance = Inr p"
    and x: "x \<in> set (pl_items p)" "pi_op x = P_REMOVE" by blast
  then obtain j where j: "j < length (pl_items p)" "pi_op (pl_items p ! j) = P_REMOVE"
    by (auto simp: in_set_conv_nth)
  obtain r where "r \<in> set (b_resources b)" "unit_name_of r = mcp_unit_name ''a-1''"
    using mcp_resource [OF b] by (auto simp: absent_instance_def sample_instance_def)
  then have "\<exists>i < j. pi_op (pl_items p ! i) = P_STOP \<and> pi_target (pl_items p ! i) = mcp_unit_name ''a-1''"
    using units_stop_before_removal [OF p sample_parts(5) _ _ _ _ j, of b r] b sample_parts(3)
    by (simp add: has_unit_def mcp_unit_name_def activated_active)
  with p j show ?thesis by blast
qed

text \<open>C40: when the MCP server's unit changes while the instance is to run, an active tunnel is
  restarted with it, whether or not its own unit changed.\<close>

theorem tunnel_restarted_with_mcp:
  assumes "plan_for H g reg h git d = Inr p" and "valid_instance d" and "is_present d" and "is_running d"
    and "generate H g (rs_files reg) d = Inr b" and "m \<in> set (b_resources b)" and "r_id m = ''mcp-unit''"
    and "seen_status H h m \<in> {O_ABSENT, O_DIFFERENT}"
    and "uo_active (observe_unit h (tunnel_unit_name (di_id d)))"
  shows "\<exists>i \<in> set (pl_items p). pi_op i = P_RESTART \<and> pi_target i = tunnel_unit_name (di_id d)"
proof -
  let ?files = "file_operations H h d (b_resources b)"
  from assms(2,5) obtain t where t: "resource_by_id (filter has_unit (b_resources b)) ''tunnel-unit'' = Some t"
    "t \<in> set (b_resources b)" "r_id t = ''tunnel-unit''" "unit_name_of t = tunnel_unit_name (di_id d)" "r_active t"
    by (rule tunnel_resource)
  have m: "file_item H h True m \<in> set ?files" using assms(3,6) by (simp add: file_operations_def)
  have "pi_op (file_item H h True m) \<in> {P_CREATE, P_UPDATE}" "pi_rid (file_item H h True m) = Some ''mcp-unit''"
    using assms(7,8) by (auto simp: file_item_def present_item_def seen_status_def)
  with m have "''mcp-unit'' \<in> set (changed_ids ?files)"
    by (fastforce simp: changed_ids_def in_map_filter)
  moreover have "r = t" if "r \<in> set (b_resources b)" "r_id r = ''tunnel-unit''" for r
    using generated_ids [OF assms(2,5)] that t(2,3) by (auto simp: distinct_map inj_on_def)
  moreover have "has_unit t" using t(4) by (simp add: has_unit_def tunnel_unit_name_def)
  ultimately have "\<exists>i \<in> set (unit_operations h d (b_resources b) (changed_ids ?files)).
      pi_op i = P_RESTART \<and> pi_target i = tunnel_unit_name (di_id d)"
    using tunnel_restart_planned [OF t(1,2,3) _ t(5) assms(3,4)] assms(9) t(4) by simp
  moreover obtain ls where "set (unit_operations h d (b_resources b) (changed_ids ?files)) \<subseteq> set (pl_items p)"
    using present_plan_items [OF assms(1,3,5)] by metis
  ultimately show ?thesis by blast
qed

theorem tunnel_restarted_with_mcp_witness:
  "\<exists>p i. plan_for rev sample_generator sample_registry (activated sample_host) sample_git sample_instance = Inr p \<and>
    i \<in> set (pl_items p) \<and> pi_op i = P_RESTART \<and> pi_target i = tunnel_unit_name ''a-1''"
proof -
  let ?h = "activated sample_host"
  obtain b where b: "generate rev sample_generator [] sample_instance = Inr b"
    using sample_generate by blast
  have "\<exists>x. development_git_operations sample_generator sample_instance sample_git = Inr x"
    using sample_parts(6) by blast
  moreover have "lo_state (observe_tcp_listeners (h_listeners ?h)) = LS_AVAILABLE"
    using sample_parts(8) by (simp add: activated_def)
  ultimately obtain p where p: "plan_for rev sample_generator sample_registry ?h sample_git sample_instance = Inr p"
    using plan_for_ok [of rev sample_generator sample_registry sample_instance b] b sample_parts(1,3) by metis
  obtain m where m: "m \<in> set (b_resources b)" "r_id m = ''mcp-unit''"
    using mcp_resource [OF b] by blast
  have "seen_status rev ?h m = O_ABSENT"
    by (simp add: seen_status_def observe_resource_def activated_def sample_host_def)
  moreover have "is_running sample_instance" by code_simp
  ultimately show ?thesis
    using tunnel_restarted_with_mcp [OF p sample_valid sample_parts(4) _ _ m] b p sample_parts(3)
    by (fastforce simp: activated_active sample_id)
qed

text \<open>the ownership test looks for the marker anywhere in the text. A file of another
  instance whose identifier extends this instance's identifier passes it: it is reported as
  owned, hence updated or removed, instead of as foreign.\<close>

theorem owner_test_accepts_extension:
  assumes "generate H g fs d = Inr b" and "r \<in> set (b_resources b)" and "r_kind r \<noteq> DIRECTORY"
    and "r_token r \<noteq> None" and "r_marker_path r = None"
    and "h_lstat h (path_of (r_path r)) = StatOk T_REG mode"
    and "h_text h (path_of (r_path r)) = TextOk (owner_comment (di_id d @ extension) @ newline @ rest)"
  shows "seen_status H h r \<in> {O_EXACT, O_DIFFERENT}"
proof -
  have "r_token r = Some (owner_prefix @ di_id d)"
    using generated_anchored [OF assms(1,2)] assms(4) by (simp add: anchored_def)
  moreover have "contains (owner_prefix @ di_id d) (owner_comment (di_id d @ extension) @ newline @ rest)"
    using contains_append1 [OF contains_marker, of "di_id d" "extension @ newline @ rest"]
    by (simp add: owner_comment_def)
  ultimately show ?thesis
    using assms(3,5-7)
    by (simp add: seen_status_def observe_resource_def marker_problem_def observe_file_def token_in_def)
qed

theorem owner_test_accepts_extension_witness:
  "\<exists>b r. generate rev sample_generator [] sample_instance = Inr b \<and> r \<in> set (b_resources b) \<and>
    r_id r = ''state-owner'' \<and>
    seen_status rev (sample_host\<lparr>h_lstat := \<lambda>_. StatOk T_REG 384,
      h_text := \<lambda>_. TextOk (owner_comment ''a-1-other'' @ newline)\<rparr>) r \<in> {O_EXACT, O_DIFFERENT}"
proof -
  let ?r = "base_resources sample_generator sample_instance ! 1"
  obtain b where b: "generate rev sample_generator [] sample_instance = Inr b"
    using sample_generate by blast
  have r: "?r \<in> set (b_resources b)" "r_kind ?r \<noteq> DIRECTORY" "r_token ?r \<noteq> None" "r_marker_path ?r = None"
    "r_id ?r = ''state-owner''"
    by (rule base_in_bundle [OF b]) (simp_all add: base_resources_def Let_def resource_defs)
  have "owner_comment ''a-1-other'' @ newline = owner_comment (di_id sample_instance @ ''-other'') @ newline @ []"
    by (simp add: sample_id)
  then have "seen_status rev (sample_host\<lparr>h_lstat := \<lambda>_. StatOk T_REG 384,
      h_text := \<lambda>_. TextOk (owner_comment ''a-1-other'' @ newline)\<rparr>) ?r \<in> {O_EXACT, O_DIFFERENT}"
    by (intro owner_test_accepts_extension [OF b r(1-4), of _ 384 "''-other''" "[]"]) simp_all
  with r b show ?thesis by blast
qed

end
