(* ===== verification/DevEnv_Props.thy ===== *)
theory DevEnv_Props
  imports DevEnv
begin

text \<open>
  The git reconciler: what an operation can touch, that a completed convergence is observed as
  exact, and that releasing what was claimed restores the repository's own settings.
\<close>

section \<open>Values of keys\<close>

definition ready :: "git_state \<Rightarrow> bool" where
  "ready s \<longleftrightarrow> g_found s \<and> g_tree s \<and> g_readable s"

definition val :: "git_state \<Rightarrow> string \<Rightarrow> string option" where
  "val s k = (if g_values s k = [] then None else Some (drop_newlines (last (g_values s k) @ newline)))"

text \<open>Texts git returns as they were stored, and lists of values \<open>_get_all\<close> takes for none.\<close>

definition tidy :: "string \<Rightarrow> bool" where
  "tidy v \<longleftrightarrow> v \<noteq> [] \<and> last v \<noteq> CHR 0x0A"

definition blank :: "string list \<Rightarrow> bool" where
  "blank vs \<longleftrightarrow> lines_of (drop_newlines (concat (map (\<lambda>v. v @ newline) vs))) = []"

lemma newline_alt: "newline = [CHR 0x0A]"
  by (simp add: newline_def)

lemma drop_newlines_line: "drop_newlines (v @ newline) = drop_newlines v"
  by (simp add: drop_newlines_def newline_alt)

lemma drop_newlines_tidy: "tidy v \<Longrightarrow> drop_newlines v = v"
  unfolding tidy_def drop_newlines_def
  by (cases v rule: rev_cases) auto

lemma lines_acc_Nil: "lines_acc acc s = [] \<longleftrightarrow> acc = [] \<and> s = []"
  by (induction acc s rule: lines_acc.induct) (auto split: if_splits)

lemma blank_Nil [simp]: "blank []"
  by (simp add: blank_def drop_newlines_def lines_of_def lines_acc_Nil)

lemma blank_newlines: "blank vs \<longleftrightarrow> (\<forall>v \<in> set vs. \<forall>c \<in> set v. c = CHR 0x0A)"
  by (auto simp: blank_def lines_of_def lines_acc_Nil drop_newlines_def dropWhile_eq_Nil_conv newline_alt)

lemma not_blank: "val s k = Some v \<Longrightarrow> tidy v \<Longrightarrow> \<not> blank (g_values s k)"
proof -
  assume v: "val s k = Some v" and t: "tidy v"
  let ?l = "last (g_values s k)"
  have ne: "g_values s k \<noteq> []" and d: "drop_newlines ?l = v"
    using v by (auto simp: val_def drop_newlines_line split: if_splits)
  have "last v \<in> set ?l"
    using d t unfolding tidy_def drop_newlines_def
    by (metis last_in_set set_dropWhileD set_rev)
  with t ne show ?thesis by (auto simp: blank_newlines tidy_def intro!: bexI [of _ ?l])
qed

lemma g_get_ready: "ready s \<Longrightarrow> g_get s k = Inr (val s k)"
  by (simp add: g_get_def ready_def val_def)

lemma g_get_all_blank: "ready s \<Longrightarrow> g_get_all s k = Inr [] \<longleftrightarrow> blank (g_values s k)"
  by (simp add: g_get_all_def ready_def blank_def)

section \<open>What an operation touches\<close>

definition same_setup :: "git_state \<Rightarrow> git_state \<Rightarrow> bool" where
  "same_setup s s' \<longleftrightarrow> g_found s' = g_found s \<and> g_tree s' = g_tree s \<and> g_readable s' = g_readable s \<and>
     g_refuses s' = g_refuses s \<and> g_rewrite s' = g_rewrite s"

definition only_keys :: "string set \<Rightarrow> git_state \<Rightarrow> git_state \<Rightarrow> bool" where
  "only_keys K s s' \<longleftrightarrow> same_setup s s' \<and> (\<forall>k. k \<notin> K \<longrightarrow> g_values s' k = g_values s k)"

abbreviation touches :: "string set \<Rightarrow> 'a gm \<Rightarrow> bool" where
  "touches K \<equiv> keeps (only_keys K)"

interpretation key_order: state_order "only_keys K" for K
  by unfold_locales (auto simp: only_keys_def same_setup_def)

lemma touches_def: "touches K m \<longleftrightarrow> (\<forall>s r s'. m s = (r, s') \<longrightarrow>
     same_setup s s' \<and> (\<forall>k. k \<notin> K \<longrightarrow> g_values s' k = g_values s k))"
  by (simp add: keeps_def only_keys_def)

lemma same_setup_refl [simp]: "same_setup s s"
  by (simp add: same_setup_def)

lemma same_setup_ready: "same_setup s s' \<Longrightarrow> ready s' = ready s"
  by (simp add: same_setup_def ready_def)

lemma touches_ready: "touches K m \<Longrightarrow> m s = (r, s') \<Longrightarrow> ready s' = ready s"
  using same_setup_ready by (auto simp: touches_def)

lemma g_values_set: "g_values (s\<lparr>g_config := dict_set k vs (g_config s)\<rparr>) k' = (if k' = k then vs else g_values s k')"
  by (simp add: g_values_def map_of_dict_set)

lemma map_of_without: "map_of (filter (\<lambda>p. fst p \<noteq> k) c) k' = (if k' = k then None else map_of c k')"
  by (induction c) auto

lemma set_ready: "g_set k v s = (r, s') \<Longrightarrow> ready s' = ready s"
  by (auto simp: g_set_def ready_def split: if_splits)

lemma g_values_unset:
  "g_values (s\<lparr>g_config := filter (\<lambda>p. fst p \<noteq> k) (g_config s)\<rparr>) k' = (if k' = k then [] else g_values s k')"
  by (simp add: g_values_def map_of_without)

lemma touches_set: "k \<in> K \<Longrightarrow> touches K (g_set k v)"
  by (auto simp: touches_def g_set_def g_values_set same_setup_def split: if_splits)

lemma touches_unset: "k \<in> K \<Longrightarrow> touches K (g_unset k)"
  by (auto simp: touches_def g_unset_def g_values_unset same_setup_def split: if_splits sum.splits)

lemmas touchesI = touches_set touches_unset key_order.keeps_rules

definition id_keys :: "string set" where
  "id_keys = {k_name, k_email, k_id_owner, k_id_version, k_id_origin, k_id_name, k_id_email}"

definition re_keys :: "string set" where
  "re_keys = range remote_key \<union> {k_helper, k_ssh, k_re_owner, k_re_version, k_re_name, k_re_url}"

lemma touches_identity: "touches id_keys (converge_identity d)"
  unfolding converge_identity_def release_identity_def claim_identity_def
  by (intro touchesI) (auto simp: id_keys_def intro: touchesI)

lemma touches_transport: "touches re_keys (converge_transport g d)"
  unfolding converge_transport_def release_transport_def claim_transport_def install_transport_def
  by (intro touchesI) (auto simp: re_keys_def intro!: touchesI split: option.splits)

section \<open>Running the operations\<close>

lemma g_set_Inr:
  "g_set k v s = (Inr u, s') \<longleftrightarrow> g_found s \<and> k \<notin> set (g_refuses s) \<and>
     s' = s\<lparr>g_config := dict_set k [v] (g_config s)\<rparr>"
  by (auto simp: g_set_def)

text \<open>What a completed \<open>_set\<close> or \<open>_unset\<close> leaves, key by key.\<close>

definition left_by_unset :: "string list \<Rightarrow> string list" where
  "left_by_unset vs = (if blank vs then vs else [])"

lemma g_set_values:
  "g_set k v s = (Inr u, s') \<Longrightarrow> same_setup s s' \<and> g_values s' = (g_values s)(k := [v])"
  by (auto simp: g_set_Inr same_setup_def g_values_set fun_eq_iff)

lemma g_unset_values:
  assumes "ready s" and "g_unset k s = (Inr u, s')"
  shows "same_setup s s' \<and> g_values s' = (g_values s)(k := left_by_unset (g_values s k))"
  using assms g_get_all_blank [of s k]
  by (auto simp: g_unset_def left_by_unset_def g_values_unset same_setup_def fun_eq_iff
      split: sum.splits if_splits)

text \<open>The transition of the values through a list of keys to unset.\<close>

lemma g_each_unset_values:
  assumes "ready s" and "each_e g_unset ks s = (Inr u, s')"
  shows "same_setup s s' \<and>
    g_values s' = (\<lambda>k. if k \<in> set ks then left_by_unset (g_values s k) else g_values s k)"
  using assms
proof (induction ks arbitrary: s)
  case Nil
  then show ?case by (simp add: ereturn_def)
next
  case (Cons k ks)
  then obtain y t where t: "g_unset k s = (Inr y, t)" "each_e g_unset ks t = (Inr u, s')"
    by (auto simp: ebind_Inr)
  from g_unset_values [OF Cons.prems(1) t(1)]
  have st: "same_setup s t" "g_values t = (g_values s)(k := left_by_unset (g_values s k))" by auto
  with Cons.prems(1) have "ready t" by (simp add: same_setup_ready)
  from Cons.IH [OF this t(2)] st show ?case
    by (auto simp: same_setup_def left_by_unset_def fun_eq_iff)
qed

lemma val_of_values: "g_values s k = [v] \<Longrightarrow> tidy v \<Longrightarrow> val s k = Some v"
  by (simp add: val_def drop_newlines_line drop_newlines_tidy)

lemma val_None: "val s k = None \<longleftrightarrow> g_values s k = []"
  by (simp add: val_def)

lemma val_cong: "g_values s k = g_values s' k \<Longrightarrow> val s k = val s' k"
  by (simp add: val_def)

lemma key_neq [simp]:
  "k_name \<noteq> k_email" "k_id_owner \<noteq> k_name" "k_id_owner \<noteq> k_email" "k_id_version \<noteq> k_name"
  "k_id_version \<noteq> k_email" "k_id_origin \<noteq> k_name" "k_id_origin \<noteq> k_email" "k_id_name \<noteq> k_name"
  "k_id_name \<noteq> k_email" "k_id_email \<noteq> k_name" "k_id_email \<noteq> k_email"
  "k_id_owner \<noteq> k_id_version" "k_id_owner \<noteq> k_id_origin" "k_id_owner \<noteq> k_id_name"
  "k_id_owner \<noteq> k_id_email" "k_id_version \<noteq> k_id_origin" "k_id_version \<noteq> k_id_name"
  "k_id_version \<noteq> k_id_email" "k_id_origin \<noteq> k_id_name" "k_id_origin \<noteq> k_id_email" "k_id_name \<noteq> k_id_email"
  by (simp_all add: k_name_def k_email_def k_id_owner_def k_id_version_def k_id_origin_def k_id_name_def
      k_id_email_def)

lemmas key_neq_sym [simp] = key_neq [symmetric]

section \<open>The identity\<close>

lemma claim_identity_values:
  assumes r: "ready s" and c: "claim_identity d want s = (Inr u, s')"
  shows "same_setup s s' \<and> g_values s' k_id_owner = [di_id d] \<and> g_values s' k_id_version = [''1''] \<and>
    (g_values s k_name = [] \<and> g_values s k_email = [] \<and> g_values s' k_id_origin = [''created''] \<and>
       g_values s' k_id_name = g_values s k_id_name \<and> g_values s' k_id_email = g_values s k_id_email \<or>
     val s k_name = Some (gid_name want) \<and> val s k_email = Some (gid_email want) \<and>
       g_values s' k_id_origin = [''adopted''] \<and> g_values s' k_id_name = [gid_name want] \<and>
       g_values s' k_id_email = [gid_email want]) \<and>
    g_values s' k_name = g_values s k_name \<and> g_values s' k_email = g_values s k_email"
proof -
  from c obtain origin t1 t2 t3 where
    o1: "(if val s k_name = None \<and> val s k_email = None then ereturn ''created''
        else if val s k_name = Some (gid_name want) \<and> val s k_email = Some (gid_email want) then
          ebind (g_set k_id_name (gid_name want)) (\<lambda>_.
          ebind (g_set k_id_email (gid_email want)) (\<lambda>_. ereturn ''adopted''))
        else eraise (conflict_error ''refusing to replace foreign Git identity'' [])) s = (Inr origin, t1)"
    and o2: "g_set k_id_origin origin t1 = (Inr (), t2)" and o3: "g_set k_id_owner (di_id d) t2 = (Inr (), t3)"
    and o4: "g_set k_id_version ''1'' t3 = (Inr u, s')"
    unfolding claim_identity_def ebind_Inr eread_Inr by (auto simp: g_get_ready [OF r])
  note vals = g_set_values [OF o2] g_set_values [OF o3] g_set_values [OF o4]
  show ?thesis
  proof (cases "val s k_name = None \<and> val s k_email = None")
    case True
    with o1 have "origin = ''created''" "t1 = s" by (simp_all add: ereturn_Inr)
    with vals True show ?thesis by (auto simp: same_setup_def val_None)
  next
    case False
    with o1 have w: "val s k_name = Some (gid_name want)" "val s k_email = Some (gid_email want)"
      by (auto simp: eraise_Inr split: if_splits)
    with o1 obtain t where t: "g_set k_id_name (gid_name want) s = (Inr (), t)"
      "g_set k_id_email (gid_email want) t = (Inr (), t1)" and "origin = ''adopted''"
      by (auto simp: ebind_Inr ereturn_Inr)
    with vals w g_set_values [OF t(1)] g_set_values [OF t(2)] show ?thesis
      by (auto simp: same_setup_def)
  qed
qed

definition manageable :: "obs_status \<Rightarrow> bool" where
  "manageable st \<longleftrightarrow> st \<in> {O_ABSENT, O_DIFFERENT, O_EXACT}"

lemma ready_present: "ready s \<Longrightarrow> repository_present s"
  by (simp add: ready_def repository_present_def)

text \<open>The observation of the identity on a state that can be read.\<close>

definition origin_ok :: "git_state \<Rightarrow> bool" where
  "origin_ok s \<longleftrightarrow> val s k_id_origin = Some ''created'' \<or>
     val s k_id_origin = Some ''adopted'' \<and> val s k_id_name \<noteq> None \<and> val s k_id_email \<noteq> None"

lemma origin_problem_ready: "ready s \<Longrightarrow> \<exists>p. origin_problem s = Inr p \<and> (p = None \<longleftrightarrow> origin_ok s)"
  by (auto simp: origin_problem_def g_get_ready origin_ok_def)

lemma observe_identity_ready:
  assumes "ready s" and "di_version d \<ge> 2"
  shows "\<exists>ob. observe_identity d s = Inr ob \<and> ob_status ob =
    (case requested_identity d of
       None \<Rightarrow> if val s k_id_owner \<noteq> Some (di_id d) then O_EXACT
               else if val s k_id_version = Some ''1'' \<and> origin_ok s then O_DIFFERENT else O_FOREIGN
     | Some want \<Rightarrow>
         let same = val s k_name = Some (gid_name want) \<and> val s k_email = Some (gid_email want) in
         if val s k_id_owner = None \<and> val s k_id_version = None then
           (if val s k_name = None \<and> val s k_email = None \<or> same then O_ABSENT else O_FOREIGN)
         else if val s k_id_owner \<noteq> Some (di_id d) \<or> val s k_id_version \<noteq> Some ''1'' \<or> \<not> origin_ok s then O_FOREIGN
         else if same then O_EXACT else O_DIFFERENT)"
proof -
  obtain p where p: "origin_problem s = Inr p" "p = None \<longleftrightarrow> origin_ok s"
    using origin_problem_ready [OF assms(1)] by blast
  show ?thesis
    using assms ready_present [OF assms(1)] p
    by (cases p; cases "requested_identity d")
      (simp_all add: observe_identity_def g_get_ready obs_def Let_def)
qed

lemma release_identity_values:
  assumes r: "ready s" and c: "release_identity s = (Inr u, s')"
  shows "same_setup s s' \<and>
    (val s k_id_origin = Some ''adopted'' \<and>
       (\<exists>n e. val s k_id_name = Some n \<and> val s k_id_email = Some e \<and>
          g_values s' k_name = [n] \<and> g_values s' k_email = [e]) \<or>
     val s k_id_origin = Some ''created'' \<and> g_values s' k_name = left_by_unset (g_values s k_name) \<and>
       g_values s' k_email = left_by_unset (g_values s k_email)) \<and>
    (\<forall>k \<in> {k_id_owner, k_id_version, k_id_origin, k_id_name, k_id_email}.
       g_values s' k = left_by_unset (g_values s k))"
proof -
  let ?ks = "[k_id_owner, k_id_version, k_id_origin, k_id_name, k_id_email]"
  from c obtain t1 where
    t1: "(if val s k_id_origin = Some ''adopted'' then
          ebind (eread (\<lambda>s. g_get s k_id_name)) (\<lambda>n.
          ebind (eread (\<lambda>s. g_get s k_id_email)) (\<lambda>e.
          case (n, e) of
            (Some name, Some email) \<Rightarrow> ebind (g_set k_name name) (\<lambda>_. g_set k_email email)
          | _ \<Rightarrow> eraise (conflict_error ''adopted Git identity is missing original values'' [])))
        else if val s k_id_origin = Some ''created'' then ebind (g_unset k_name) (\<lambda>_. g_unset k_email)
        else eraise (conflict_error ''Git identity origin marker is invalid'' [])) s = (Inr (), t1)"
    and t2: "each_e g_unset ?ks t1 = (Inr u, s')"
    unfolding release_identity_def ebind_Inr eread_Inr by (auto simp: g_get_ready [OF r])
  show ?thesis
  proof (cases "val s k_id_origin = Some ''adopted''")
    case True
    with t1 obtain n e where ne: "val s k_id_name = Some n" "val s k_id_email = Some e"
      and "ebind (g_set k_name n) (\<lambda>_. g_set k_email e) s = (Inr (), t1)"
      by (auto simp: ebind_Inr eread_Inr g_get_ready [OF r] eraise_Inr split: option.splits)
    then obtain t where t: "g_set k_name n s = (Inr (), t)" "g_set k_email e t = (Inr (), t1)"
      by (auto simp: ebind_Inr)
    from g_set_values [OF t(1)] g_set_values [OF t(2)]
    have v: "same_setup s t1" "g_values t1 = (g_values s)(k_name := [n], k_email := [e])"
      by (auto simp: same_setup_def)
    then have "ready t1" using r by (simp add: same_setup_ready)
    from g_each_unset_values [OF this t2] v ne True show ?thesis
      by (auto simp: same_setup_def)
  next
    case False
    with t1 have cr: "val s k_id_origin = Some ''created''" by (auto simp: eraise_Inr split: if_splits)
    with t1 obtain t where t: "g_unset k_name s = (Inr (), t)" "g_unset k_email t = (Inr (), t1)"
      by (auto simp: ebind_Inr)
    from g_unset_values [OF r t(1)]
    have 1: "same_setup s t" "g_values t = (g_values s)(k_name := left_by_unset (g_values s k_name))" by auto
    then have "ready t" using r by (simp add: same_setup_ready)
    from g_unset_values [OF this t(2)] 1
    have v: "same_setup s t1" "g_values t1 = (g_values s)(k_name := left_by_unset (g_values s k_name),
        k_email := left_by_unset (g_values s k_email))"
      by (auto simp: same_setup_def)
    then have "ready t1" using r by (simp add: same_setup_ready)
    from g_each_unset_values [OF this t2] v cr show ?thesis
      by (auto simp: same_setup_def)
  qed
qed

lemma tidy_clean: "clean_text v \<Longrightarrow> tidy v"
  by (auto simp: tidy_def clean_text_def) (metis last_in_set)

lemma tidy_words [simp]: "tidy ''1''" "tidy ''created''" "tidy ''adopted''"
  by (simp_all add: tidy_def)

lemma converge_identity_present:
  assumes r: "ready s" and w: "requested_identity d = Some want"
    and c: "converge_identity d s = (Inr u, s')"
  obtains t where "(if val s k_id_owner = None then claim_identity d want s = (Inr (), t) else t = s)"
    and "same_setup t s'" and "g_values s' = (g_values t)(k_name := [gid_name want], k_email := [gid_email want])"
proof -
  from c w obtain t t1 where
    t: "(if val s k_id_owner = None then claim_identity d want else ereturn ()) s = (Inr (), t)"
    and s1: "g_set k_name (gid_name want) t = (Inr (), t1)" and s2: "g_set k_email (gid_email want) t1 = (Inr u, s')"
    unfolding converge_identity_def ebind_Inr eread_Inr by (auto simp: g_get_ready [OF r] ebind_Inr)
  from g_set_values [OF s1] g_set_values [OF s2]
  have "same_setup t s'" "g_values s' = (g_values t)(k_name := [gid_name want], k_email := [gid_email want])"
    by (auto simp: same_setup_def)
  with t show ?thesis by (intro that [of t]) (auto simp: ereturn_Inr split: if_splits)
qed

lemma identity_settles:
  assumes v: "valid_instance d" and n: "di_version d \<ge> 2" and r: "ready s"
    and o0: "observe_identity d s = Inr ob" and m: "manageable (ob_status ob)"
    and c: "converge_identity d s = (Inr u, s')"
  shows "\<exists>ob'. observe_identity d s' = Inr ob' \<and> ob_status ob' = O_EXACT"
proof -
  have iid: "tidy (di_id d)" using v by (simp add: valid_instance_def tidy_clean)
  have r': "ready s'"
    using touches_ready [OF touches_identity c] r by simp
  note ob = observe_identity_ready [OF r n, unfolded o0]
  show ?thesis
  proof (cases "requested_identity d")
    case None
    show ?thesis
    proof (cases "val s k_id_owner = Some (di_id d)")
      case True
      with c None have "release_identity s = (Inr u, s')"
        unfolding converge_identity_def ebind_Inr eread_Inr by (simp add: g_get_ready [OF r])
      from release_identity_values [OF r this] not_blank [OF True iid]
      have "val s' k_id_owner = None" by (simp add: val_None left_by_unset_def)
      with None observe_identity_ready [OF r' n] show ?thesis by simp
    next
      case False
      with c None have "s' = s"
        unfolding converge_identity_def ebind_Inr eread_Inr by (simp add: g_get_ready [OF r] ereturn_Inr)
      with False None observe_identity_ready [OF r n] show ?thesis by simp
    qed
  next
    case (Some want)
    then have cl: "tidy (gid_name want)" "tidy (gid_email want)"
      using v by (auto simp: requested_identity_def valid_instance_def valid_git_def tidy_clean
          git_empty_def split: if_splits)
    from converge_identity_present [OF r Some c] obtain t where
      t: "if val s k_id_owner = None then claim_identity d want s = (Inr (), t) else t = s"
      and s': "g_values s' = (g_values t)(k_name := [gid_name want], k_email := [gid_email want])" by metis
    have same: "val s' k_name = Some (gid_name want)" "val s' k_email = Some (gid_email want)"
      using s' cl by (simp_all add: val_of_values)
    have "val s' k_id_owner = Some (di_id d) \<and> val s' k_id_version = Some ''1'' \<and> origin_ok s'"
    proof (cases "val s k_id_owner = None")
      case True
      with t claim_identity_values [OF r] have "g_values t k_id_owner = [di_id d]"
        "g_values t k_id_version = [''1'']" "g_values t k_id_origin = [''created''] \<or>
         g_values t k_id_origin = [''adopted''] \<and> g_values t k_id_name = [gid_name want] \<and>
         g_values t k_id_email = [gid_email want]" by (auto split: if_splits)
      with s' iid cl show ?thesis by (auto simp: val_of_values origin_ok_def)
    next
      case False
      have "val s' k = val s k" if "k \<noteq> k_name" "k \<noteq> k_email" for k
        using t s' False that by (simp add: val_def)
      moreover have "val s k_id_owner = Some (di_id d) \<and> val s k_id_version = Some ''1'' \<and> origin_ok s"
        using ob m False Some by (auto simp: manageable_def Let_def split: if_splits)
      ultimately show ?thesis by (simp add: origin_ok_def)
    qed
    with same Some observe_identity_ready [OF r' n] show ?thesis by simp
  qed
qed

text \<open>Claiming and releasing.\<close>

definition unclaimed :: "git_state \<Rightarrow> bool" where
  "unclaimed s \<longleftrightarrow> (\<forall>k \<in> {k_id_owner, k_id_version, k_id_origin, k_id_name, k_id_email}. g_values s k = []) \<and>
     (\<forall>k \<in> {k_name, k_email}. \<forall>v \<in> set (g_values s k). g_values s k = [v] \<and> tidy v)"

lemma blank_single [simp]: "tidy v \<Longrightarrow> \<not> blank [v]"
  by (auto simp: blank_newlines tidy_def dest: last_in_set)

lemma left_single: "tidy v \<Longrightarrow> left_by_unset [v] = []"
  by (simp add: left_by_unset_def)

lemma identity_roundtrip:
  assumes v: "valid_instance d" and r: "ready s" and un: "unclaimed s"
    and w: "requested_identity d = Some want" and c1: "converge_identity d s = (Inr u, s1)"
    and w': "requested_identity d' = None" "di_id d' = di_id d" and c2: "converge_identity d' s1 = (Inr u', s2)"
  shows "g_values s2 = g_values s"
proof -
  have iid: "tidy (di_id d)" using v by (simp add: valid_instance_def tidy_clean)
  have cl: "tidy (gid_name want)" "tidy (gid_email want)"
    using v w by (auto simp: requested_identity_def valid_instance_def valid_git_def tidy_clean git_empty_def
        split: if_splits)
  have none: "val s k_id_owner = None" using un by (simp add: unclaimed_def val_None)
  from converge_identity_present [OF r w c1] none obtain t where
    t: "claim_identity d want s = (Inr (), t)"
    and s1: "g_values s1 = (g_values t)(k_name := [gid_name want], k_email := [gid_email want])" by metis
  note cv = claim_identity_values [OF r t]
  have r1: "ready s1" using touches_ready [OF touches_identity c1] r by simp
  have own: "val s1 k_id_owner = Some (di_id d)"
    using cv s1 iid by (simp add: val_of_values)
  with c2 w' have "release_identity s1 = (Inr u', s2)"
    unfolding converge_identity_def ebind_Inr eread_Inr by (simp add: g_get_ready [OF r1])
  note rel = release_identity_values [OF r1 this]
  have meta: "g_values s2 k = g_values s k" if "k \<in> {k_id_owner, k_id_version, k_id_origin, k_id_name, k_id_email}" for k
  proof -
    have "g_values s1 k = [] \<or> (\<exists>v. tidy v \<and> g_values s1 k = [v])"
      using that cv s1 un iid cl by (auto simp: unclaimed_def)
    then have "left_by_unset (g_values s1 k) = []" by (auto simp: left_single left_by_unset_def)
    with rel that un show ?thesis by (auto simp: unclaimed_def)
  qed
  have ident: "g_values s2 k_name = g_values s k_name \<and> g_values s2 k_email = g_values s k_email"
  proof (cases "g_values s k_name = [] \<and> g_values s k_email = []")
    case True
    with cv have "g_values s1 k_id_origin = [''created'']"
      using s1 by (auto simp: val_def)
    from val_of_values [OF this tidy_words(2)] have "val s1 k_id_origin = Some ''created''" .
    with rel True s1 cl show ?thesis by (auto simp: left_single)
  next
    case False
    with cv have a: "val s k_name = Some (gid_name want)" "val s k_email = Some (gid_email want)"
      "g_values s1 k_id_origin = [''adopted'']" "g_values s1 k_id_name = [gid_name want]"
      "g_values s1 k_id_email = [gid_email want]" using s1 by auto
    then have "val s1 k_id_origin = Some ''adopted''" "val s1 k_id_name = Some (gid_name want)"
      "val s1 k_id_email = Some (gid_email want)" using cl by (simp_all add: val_of_values)
    with rel have "g_values s2 k_name = [gid_name want]" "g_values s2 k_email = [gid_email want]" by auto
    moreover have "g_values s k = [v]" if "val s k = Some v" "k \<in> {k_name, k_email}" for k v
    proof -
      from that(1) have "g_values s k \<noteq> []" by (auto simp: val_def split: if_splits)
      then have "hd (g_values s k) \<in> set (g_values s k)" by simp
      with un that(2) obtain x where "g_values s k = [x]" "tidy x"
        unfolding unclaimed_def by blast
      with that(1) show ?thesis by (simp add: val_of_values)
    qed
    ultimately show ?thesis using a by simp
  qed
  have out: "g_values s2 k = g_values s k" if "k \<notin> id_keys" for k
    using touches_identity [of d] touches_identity [of d'] c1 c2 that by (auto simp: touches_def)
  have "g_values s2 k = g_values s k" for k
  proof -
    consider "k = k_name" | "k = k_email" | "k \<in> {k_id_owner, k_id_version, k_id_origin, k_id_name, k_id_email}"
      | "k \<notin> id_keys" unfolding id_keys_def by blast
    then show ?thesis by cases (use ident in simp, use ident in simp, rule meta, assumption, rule out)
  qed
  then show ?thesis by (rule ext)
qed

end
