(* ===== verification/Transport_Props.thy ===== *)
theory Transport_Props
  imports DevEnv_Props Generation_Props
begin

text \<open>
  The transport half of the git reconciler: what its operations leave, that a completed convergence is
  observed as exact, and that releasing a claimed remote restores it; then the properties of both halves.
\<close>

section \<open>The transport\<close>

lemma re_key_neq [simp]:
  "k_re_owner \<noteq> k_re_version" "k_re_owner \<noteq> k_re_name" "k_re_owner \<noteq> k_re_url" "k_re_version \<noteq> k_re_name"
  "k_re_version \<noteq> k_re_url" "k_re_name \<noteq> k_re_url" "k_helper \<noteq> k_ssh"
  "k_helper \<noteq> k_re_owner" "k_helper \<noteq> k_re_version" "k_helper \<noteq> k_re_name" "k_helper \<noteq> k_re_url"
  "k_ssh \<noteq> k_re_owner" "k_ssh \<noteq> k_re_version" "k_ssh \<noteq> k_re_name" "k_ssh \<noteq> k_re_url"
  "remote_key n \<noteq> k_helper" "remote_key n \<noteq> k_ssh" "remote_key n \<noteq> k_re_owner"
  "remote_key n \<noteq> k_re_version" "remote_key n \<noteq> k_re_name" "remote_key n \<noteq> k_re_url"
  by (simp_all add: k_re_owner_def k_re_version_def k_re_name_def k_re_url_def k_helper_def k_ssh_def
      remote_key_def)

lemmas re_key_neq_sym [simp] = re_key_neq [symmetric]

lemma remote_key_inject [simp]: "remote_key m = remote_key n \<longleftrightarrow> m = n"
  by (simp add: remote_key_def)

text \<open>A text that \<open>_get_all\<close> returns as one value.\<close>

definition one_value :: "string \<Rightarrow> bool" where
  "one_value v \<longleftrightarrow> tidy v \<and> lines_of v = [v]"

lemma g_get_all_single: "ready s \<Longrightarrow> g_values s k = [v] \<Longrightarrow> one_value v \<Longrightarrow> g_get_all s k = Inr [v]"
  by (simp add: g_get_all_def ready_def one_value_def drop_newlines_line drop_newlines_tidy)

lemma g_get_all_ready: "ready s \<Longrightarrow> \<exists>vs. g_get_all s k = Inr vs \<and> (vs = [] \<longleftrightarrow> blank (g_values s k))"
  by (simp add: g_get_all_def ready_def blank_def)

lemma blank_left [simp]: "blank (left_by_unset vs)"
  by (simp add: left_by_unset_def)

definition effective :: "git_state \<Rightarrow> string \<Rightarrow> string option" where
  "effective s name =
     (if g_values s (remote_key name) = [] then None
      else let out = g_rewrite s (hd (g_values s (remote_key name))) @ newline
           in if strip out = [] then None else Some (drop_newlines out))"

lemma g_remote_url_ready: "ready s \<Longrightarrow> g_remote_url s name = Inr (effective s name)"
  by (simp add: g_remote_url_def ready_def effective_def Let_def)

section \<open>Canonical addresses\<close>

definition plain_repository :: "string \<Rightarrow> bool" where
  "plain_repository repo \<longleftrightarrow> list_all (\<lambda>c. alnum c \<or> c \<in> set ''-_./'') repo"

lemma repo_of_path_pieces:
  assumes "repo_of_path p = Some repo"
  shows "length (split_on CHR ''/'' repo) = 2" and "[] \<notin> set (split_on CHR ''/'' repo)"
    and "''.'' \<notin> set (split_on CHR ''/'' repo)" and "''..'' \<notin> set (split_on CHR ''/'' repo)"
  using assms by (auto simp: repo_of_path_def Let_def split: if_splits)

lemma repo_of_address: "github_repo_path u = Some repo \<Longrightarrow> \<exists>p. repo_of_path p = Some repo"
  by (auto simp: github_repo_path_def Let_def split: if_splits option.splits)

lemma repo_of_git: assumes "repo_of_path p = Some repo" shows "repo_of_path (repo @ ''.git'') = Some repo"
proof -
  have "suffix ''.git'' (repo @ ''.git'')" by (simp only: suffix_def) blast
  with repo_of_path_pieces [OF assms] show ?thesis by (simp add: repo_of_path_def Let_def)
qed

lemma repo_head:
  assumes "repo_of_path p = Some repo" obtains c s where "repo = c # s" and "c \<noteq> CHR ''/''"
proof (cases repo)
  case Nil
  with repo_of_path_pieces(1) [OF assms] show ?thesis by (simp add: split_on_single)
next
  case (Cons c s)
  with repo_of_path_pieces(2) [OF assms] that show ?thesis by (cases "c = CHR ''/''") auto
qed

lemma plain_chars:
  assumes "plain_repository repo"
  shows "set repo \<inter> {CHR ''?'', CHR ''#'', CHR '';'', CHR 0x09, CHR 0x0A, CHR 0x0D} = {}"
proof -
  have "\<not> (alnum c \<or> c \<in> set ''-_./'')" if "c \<in> set [CHR ''?'', CHR ''#'', CHR '';'', CHR 0x09, CHR 0x0A, CHR 0x0D]" for c
  proof -
    have "list_all (\<lambda>c. \<not> (alnum c \<or> c \<in> set ''-_./'')) [CHR ''?'', CHR ''#'', CHR '';'', CHR 0x09, CHR 0x0A, CHR 0x0D]" by code_simp
    with that show ?thesis unfolding list_all_iff by blast
  qed
  with assms show ?thesis unfolding plain_repository_def list_all_iff by auto
qed

lemma drop_params_plain: "CHR '';'' \<notin> set p \<Longrightarrow> drop_params p = p"
proof -
  assume p: "CHR '';'' \<notin> set p"
  have before: "before_char CHR '';'' q = q" if "CHR '';'' \<notin> set q" for q
    using that unfolding before_char_def by (simp add: takeWhile_eq_all_conv) metis
  show ?thesis
  proof (cases "rpartition_on CHR ''/'' p")
    case None
    with p before show ?thesis by (simp add: drop_params_def)
  next
    case (Some ab)
    then obtain a b where ab: "rpartition_on CHR ''/'' p = Some (a, b)" by (cases ab) auto
    then have "p = a @ CHR ''/'' # b"
      using partition_on_SomeD [of "CHR ''/''" "rev p"] by (auto simp: rpartition_on_def rev_swap split: option.splits)
    with p ab before show ?thesis by (simp add: drop_params_def)
  qed
qed

lemma strip_both: assumes "\<not> is_space (hd s)" "\<not> is_space (last s)" "s \<noteq> []" shows "strip s = s"
proof -
  have "dropWhile is_space s = s" using assms by (cases s) auto
  moreover have "dropWhile is_space (rev s) = rev s" using assms by (cases s rule: rev_cases) auto
  ultimately show ?thesis by (simp add: strip_def)
qed

lemma https_parsed:
  assumes "plain_repository repo" and "repo_of_path p = Some repo"
  shows "urlparse (''https://github.com/'' @ repo @ ''.git'') =
    Some \<lparr>u_scheme = ''https'', u_netloc = ''github.com'', u_path = ''/'' @ repo @ ''.git''\<rparr>"
proof -
  let ?u = "''https://github.com/'' @ repo @ ''.git''" and ?path = "''/'' @ repo @ ''.git''"
  note plain = plain_chars [OF assms(1)]
  have "CHR 0x09 \<notin> set ?u \<and> CHR 0x0A \<notin> set ?u \<and> CHR 0x0D \<notin> set ?u" using plain by auto
  then have filt: "filter (\<lambda>c. c \<notin> {CHR 0x09, CHR 0x0A, CHR 0x0D}) ?u = ?u" by (intro filter_True) auto
  have "dropWhile (\<lambda>c. code_of c \<le> 32) ?u = ?u" by (simp add: code_of_def)
  with filt have s: "filter (\<lambda>c. c \<notin> {CHR 0x09, CHR 0x0A, CHR 0x0D}) (dropWhile (\<lambda>c. code_of c \<le> 32) ?u) = ?u" by simp
  have colon: "partition_on CHR '':'' ?u = Some (''https'', ''//github.com'' @ ?path)" by simp
  have scheme: "is_letter (hd ''https'') \<and> list_all scheme_char ''https'' \<and> lower_string ''https'' = ''https''" by code_simp
  have net: "take_until ''/?#'' (drop 2 (''//github.com'' @ ?path)) = (''github.com'', ?path)"
    by (simp add: take_until_def)
  have before: "before_char CHR ''?'' (before_char CHR ''#'' ?path) = ?path"
  proof -
    have "CHR ''?'' \<notin> set ?path" "CHR ''#'' \<notin> set ?path" using plain by auto
    then have "\<forall>x \<in> set ?path. x \<noteq> CHR ''#''" "\<forall>x \<in> set ?path. x \<noteq> CHR ''?''" by metis+
    then show ?thesis unfolding before_char_def by (simp only: takeWhile_eq_all_conv [THEN iffD2])
  qed
  have "CHR '';'' \<notin> set ?path" using plain by auto
  then have params: "drop_params ?path = ?path" by (rule drop_params_plain)
  have "CHR ''['' \<notin> set ''github.com'' \<and> CHR '']'' \<notin> set ''github.com''" by simp
  moreover have "prefix ''//'' (''//github.com'' @ ?path)" by simp
  ultimately show ?thesis unfolding urlparse_def Let_def s colon using scheme net before params by simp
qed

lemma canonical_denotes:
  assumes "plain_repository repo" and "repo_of_path p = Some repo"
  shows "github_repo_path (canonical_github_url repo proto) = Some repo"
proof (cases "proto = PROTO_SSH")
  case True
  let ?c = "ssh_prefix @ repo @ ''.git''"
  have "strip ?c = ?c" by (rule strip_both) (simp_all add: ssh_prefix_def is_space_def code_of_def)
  with True repo_of_git [OF assms(2)] show ?thesis
    by (simp add: canonical_github_url_def github_repo_path_def Let_def ssh_prefix_def)
next
  case False
  let ?c = "''https://github.com/'' @ repo @ ''.git''"
  have strip: "strip ?c = ?c" by (rule strip_both) (simp_all add: is_space_def code_of_def)
  obtain c s where repo: "repo = c # s" "c \<noteq> CHR ''/''" by (rule repo_head [OF assms(2)])
  let ?u = "\<lparr>u_scheme = ''https'', u_netloc = ''github.com'', u_path = ''/'' @ repo @ ''.git''\<rparr>"
  have "u_hostname ?u = ''github.com''" "u_password ?u = None" "u_username ?u = None" by code_simp+
  moreover have "contains ''://'' ?c" by (simp add: contains_iff) (metis append_Cons append_Nil)
  moreover have "dropWhile (\<lambda>c. c = CHR ''/'') (u_path ?u) = repo @ ''.git''" using repo by simp
  ultimately show ?thesis
    using False https_parsed [OF assms] repo_of_git [OF assms(2)] strip
    by (simp add: canonical_github_url_def github_repo_path_def Let_def ssh_prefix_def)
qed

lemma canonical_tidy: "tidy (canonical_github_url repo p)"
  by (simp add: tidy_def canonical_github_url_def ssh_prefix_def)

lemma strip_some: "\<not> is_space (hd s) \<Longrightarrow> s \<noteq> [] \<Longrightarrow> strip (s @ t) \<noteq> []"
  by (cases s) (auto simp: strip_def dropWhile_eq_Nil_conv)

text \<open>
  Assumptions on the surroundings of a wanted remote: the name of its repository is made of letters,
  digits, hyphens, underscores and dots, no \<open>insteadOf\<close> of the user's git configuration rewrites the
  canonical address of that repository, and the two settings are single lines.
\<close>

definition regular_remote :: "generator \<Rightarrow> desired_instance \<Rightarrow> git_remote \<Rightarrow> git_state \<Rightarrow> bool" where
  "regular_remote g d want s \<longleftrightarrow>
     (\<forall>u repo. val s (remote_key (gr_name want)) = Some u \<longrightarrow> github_repo_path u = Some repo \<longrightarrow>
        plain_repository repo \<and>
        g_rewrite s (canonical_github_url repo (gr_protocol want)) = canonical_github_url repo (gr_protocol want)) \<and>
     one_value (path_str (github_cli_helper_path (gen_paths g) d)) \<and>
     (\<forall>c. git_ssh_command (gen_uid g) d = Inr c \<longrightarrow> one_value c)"

lemma regular_canonical:
  assumes "regular_remote g d want s" and "val s (remote_key (gr_name want)) = Some u" and "github_repo_path u = Some repo"
  defines "c \<equiv> canonical_github_url repo (gr_protocol want)"
  shows "tidy c" and "github_repo_path c = Some repo" and "strip (g_rewrite s c @ newline) \<noteq> []"
    and "github_repo_path (drop_newlines (g_rewrite s c @ newline)) = Some repo"
proof -
  from assms(1-3) have c: "plain_repository repo" "g_rewrite s c = c" by (simp_all add: regular_remote_def c_def)
  show t: "tidy c" unfolding c_def by (rule canonical_tidy)
  from repo_of_address [OF assms(3)] show d: "github_repo_path c = Some repo"
    unfolding c_def using canonical_denotes [OF c(1)] by blast
  have "c \<noteq> [] \<and> \<not> is_space (hd c)"
    by (simp add: c_def canonical_github_url_def ssh_prefix_def is_space_def code_of_def)
  then show "strip (g_rewrite s c @ newline) \<noteq> []" unfolding c(2) by (intro strip_some) auto
  show "github_repo_path (drop_newlines (g_rewrite s c @ newline)) = Some repo"
    unfolding c(2) drop_newlines_line drop_newlines_tidy [OF t] by (rule d)
qed

lemma install_transport_values:
  assumes r: "ready s" and c: "install_transport g d want repo s = (Inr u, s')"
  shows "same_setup s s' \<and>
    g_values s' (remote_key (gr_name want)) = [canonical_github_url repo (gr_protocol want)] \<and>
    (gr_protocol want = PROTO_HTTPS_GH \<and>
       g_values s' k_helper = [path_str (github_cli_helper_path (gen_paths g) d)] \<and>
       g_values s' k_ssh = left_by_unset (g_values s k_ssh) \<or>
     gr_protocol want \<noteq> PROTO_HTTPS_GH \<and> g_values s' k_helper = left_by_unset (g_values s k_helper) \<and>
       (\<exists>cmd. git_ssh_command (gen_uid g) d = Inr cmd \<and> g_values s' k_ssh = [cmd])) \<and>
    (\<forall>k. k \<notin> {remote_key (gr_name want), k_helper, k_ssh} \<longrightarrow> g_values s' k = g_values s k)"
proof -
  from c obtain t where
    t: "g_set (remote_key (gr_name want)) (canonical_github_url repo (gr_protocol want)) s = (Inr (), t)"
    and c': "(if gr_protocol want = PROTO_HTTPS_GH then
       ebind (g_set k_helper (path_str (github_cli_helper_path (gen_paths g) d))) (\<lambda>_. g_unset k_ssh)
     else
       ebind (g_unset k_helper) (\<lambda>_.
       ebind (eread (\<lambda>_. git_ssh_command (gen_uid g) d)) (\<lambda>c. g_set k_ssh c))) t = (Inr u, s')"
    unfolding install_transport_def ebind_Inr by auto
  note 1 = g_set_values [OF t]
  have rt: "ready t" using set_ready [OF t] r by simp
  show ?thesis
  proof (cases "gr_protocol want = PROTO_HTTPS_GH")
    case True
    with c' obtain t2 where t2: "g_set k_helper (path_str (github_cli_helper_path (gen_paths g) d)) t = (Inr (), t2)"
      "g_unset k_ssh t2 = (Inr u, s')" by (auto simp: ebind_Inr)
    from set_ready [OF t2(1)] rt have "ready t2" by simp
    from g_unset_values [OF this t2(2)] g_set_values [OF t2(1)] 1 True show ?thesis
      by (auto simp: same_setup_def)
  next
    case False
    with c' obtain t2 cmd where t2: "g_unset k_helper t = (Inr (), t2)"
      "git_ssh_command (gen_uid g) d = Inr cmd" "g_set k_ssh cmd t2 = (Inr u, s')"
      by (auto simp: ebind_Inr eread_Inr)
    from g_unset_values [OF rt t2(1)] g_set_values [OF t2(3)] t2(2) 1 False show ?thesis
      by (auto simp: same_setup_def)
  qed
qed

lemma claim_transport_values:
  assumes r: "ready s" and c: "claim_transport d want current eff s = (Inr u, s')"
  shows "same_setup s s' \<and> protocol_of_opt eff = Some (gr_protocol want) \<and>
    blank (g_values s k_helper) \<and> blank (g_values s k_ssh) \<and>
    g_values s' = (g_values s)(k_re_url := [current], k_re_name := [gr_name want], k_re_owner := [di_id d],
      k_re_version := [''1''])"
proof -
  from c obtain foreign t where
    f: "(if protocol_of_opt eff \<noteq> Some (gr_protocol want) then ereturn True
        else
          ebind (eread (\<lambda>s. g_get_all s k_helper)) (\<lambda>hs.
          if hs \<noteq> [] then ereturn True
          else ebind (eread (\<lambda>s. g_get_all s k_ssh)) (\<lambda>ss. ereturn (ss \<noteq> [])))) s = (Inr foreign, t)"
    and c': "(if foreign then eraise (conflict_error ''refusing to replace foreign Git remote settings'' [])
       else
         ebind (g_set k_re_url current) (\<lambda>_.
         ebind (g_set k_re_name (gr_name want)) (\<lambda>_.
         ebind (g_set k_re_owner (di_id d)) (\<lambda>_. g_set k_re_version ''1'')))) t = (Inr u, s')"
    unfolding claim_transport_def ebind_Inr by auto
  from c' have nf: "\<not> foreign" by (auto simp: eraise_Inr split: if_splits)
  obtain hs ss where hs: "g_get_all s k_helper = Inr hs" "hs = [] \<longleftrightarrow> blank (g_values s k_helper)"
    and ss: "g_get_all s k_ssh = Inr ss" "ss = [] \<longleftrightarrow> blank (g_values s k_ssh)"
    using g_get_all_ready [OF r] by metis
  from f nf hs ss have "protocol_of_opt eff = Some (gr_protocol want)" "hs = []" "ss = []" "t = s"
    by (auto simp: ereturn_Inr ebind_Inr eread_Inr split: if_splits)
  moreover from c' nf obtain t1 t2 t3 where "g_set k_re_url current t = (Inr (), t1)"
    "g_set k_re_name (gr_name want) t1 = (Inr (), t2)" "g_set k_re_owner (di_id d) t2 = (Inr (), t3)"
    "g_set k_re_version ''1'' t3 = (Inr u, s')" by (auto simp: ebind_Inr)
  note this [THEN g_set_values]
  ultimately show ?thesis using hs ss by (auto simp: same_setup_def)
qed

lemma converge_transport_present:
  assumes r: "ready s" and w: "requested_remote d = Some want"
    and c: "converge_transport g d s = (Inr u, s')"
  obtains cur repo t where "val s (remote_key (gr_name want)) = Some cur" and "github_repo_path cur = Some repo"
    and "repo_of_opt (effective s (gr_name want)) = Some repo"
    and "if val s k_re_owner = None then claim_transport d want cur (effective s (gr_name want)) s = (Inr (), t) else t = s"
    and "install_transport g d want repo t = (Inr u, s')"
proof -
  from c w obtain cur repo where cur: "val s (remote_key (gr_name want)) = Some cur" "github_repo_path cur = Some repo"
    and c': "(if repo_of_opt (effective s (gr_name want)) \<noteq> Some repo
              then eraise (conflict_error
                ''effective Git remote resolves to a different or unsupported repository'' [])
              else
                ebind (if val s k_re_owner = None then claim_transport d want cur (effective s (gr_name want))
                       else ereturn ()) (\<lambda>_. install_transport g d want repo)) s = (Inr u, s')"
    unfolding converge_transport_def ebind_Inr eread_Inr
    by (auto simp: g_get_ready [OF r] g_remote_url_ready [OF r] ebind_Inr eread_Inr eraise_Inr
        split: option.splits)
  then have rp: "repo_of_opt (effective s (gr_name want)) = Some repo"
    by (auto simp: eraise_Inr split: if_splits)
  with c' obtain t where "(if val s k_re_owner = None then claim_transport d want cur (effective s (gr_name want))
      else ereturn ()) s = (Inr (), t)" "install_transport g d want repo t = (Inr u, s')"
    by (auto simp: ebind_Inr)
  with cur rp show ?thesis by (intro that) (auto simp: ereturn_Inr split: if_splits)
qed

lemma release_transport_values:
  assumes r: "ready s" and c: "release_transport s = (Inr u, s')"
  shows "same_setup s s' \<and>
    (\<exists>a n. val s k_re_url = Some a \<and> val s k_re_name = Some n \<and>
      g_values s' = (\<lambda>k. if k = remote_key n then [a]
        else if k \<in> {k_helper, k_ssh, k_re_owner, k_re_version, k_re_name, k_re_url}
        then left_by_unset (g_values s k) else g_values s k))"
proof -
  from c obtain a n where an: "val s k_re_url = Some a" "val s k_re_name = Some n"
    and c': "ebind (g_set (remote_key n) a) (\<lambda>_.
         ebind (g_unset k_helper) (\<lambda>_.
         ebind (g_unset k_ssh) (\<lambda>_.
         each_e g_unset [k_re_owner, k_re_version, k_re_name, k_re_url]))) s = (Inr u, s')"
    unfolding release_transport_def ebind_Inr eread_Inr
    by (auto simp: g_get_ready [OF r] eread_Inr ebind_Inr eraise_Inr split: option.splits)
  from c' obtain t1 t2 t3 where t: "g_set (remote_key n) a s = (Inr (), t1)" "g_unset k_helper t1 = (Inr (), t2)"
    "g_unset k_ssh t2 = (Inr (), t3)" "each_e g_unset [k_re_owner, k_re_version, k_re_name, k_re_url] t3 = (Inr u, s')"
    by (auto simp: ebind_Inr)
  note 1 = g_set_values [OF t(1)]
  with r have r1: "ready t1" using same_setup_ready by blast
  note 2 = g_unset_values [OF r1 t(2)]
  with r1 have r2: "ready t2" using same_setup_ready by blast
  note 3 = g_unset_values [OF r2 t(3)]
  with r2 have "ready t3" using same_setup_ready by blast
  note 4 = g_each_unset_values [OF this t(4)]
  from 1 2 3 4 have "same_setup s s'" by (simp add: same_setup_def)
  moreover from 1 2 3 4 have "g_values s' = (\<lambda>k. if k = remote_key n then [a]
        else if k \<in> {k_helper, k_ssh, k_re_owner, k_re_version, k_re_name, k_re_url}
        then left_by_unset (g_values s k) else g_values s k)" by (simp add: fun_eq_iff)
  ultimately show ?thesis using an by blast
qed

text \<open>What a manageable observation of a wanted remote says of the ownership keys.\<close>

lemma managed_remote:
  assumes "observe_requested_remote g d want owner version s = Inr ob" and "manageable (ob_status ob)"
    and "ready s" and "owner \<noteq> None"
  shows "owner = Some (di_id d)" and "version = Some ''1''" and "val s k_re_name = Some (gr_name want)"
    and "val s k_re_url \<noteq> None"
proof -
  have "owner = Some (di_id d) \<and> version = Some ''1'' \<and> val s k_re_name = Some (gr_name want) \<and> val s k_re_url \<noteq> None"
    using assms
    by (auto simp: observe_requested_remote_def g_get_ready g_remote_url_ready obs_def manageable_def Let_def
        rbind_eq_Inr split: option.splits if_splits)
  then show "owner = Some (di_id d)" and "version = Some ''1''" and "val s k_re_name = Some (gr_name want)"
    and "val s k_re_url \<noteq> None" by simp_all
qed

lemma exact_remote:
  assumes "ready s" and "di_version d \<ge> 2" and "requested_remote d = Some want"
    and "val s k_re_owner = Some (di_id d)" and "val s k_re_version = Some ''1''"
    and "val s k_re_name = Some (gr_name want)" and "val s k_re_url \<noteq> None"
    and "val s (remote_key (gr_name want)) = Some (canonical_github_url repo (gr_protocol want))"
    and "github_repo_path (canonical_github_url repo (gr_protocol want)) = Some repo"
    and "repo_of_opt (effective s (gr_name want)) = Some repo"
    and "g_get_all s k_helper = Inr (wanted_helpers (gen_paths g) d (gr_protocol want))"
    and "g_get_all s k_ssh = Inr cmds" and "wanted_ssh (gen_uid g) d (gr_protocol want) = Inr cmds"
  shows "\<exists>ob. observe_transport g d s = Inr ob \<and> ob_status ob = O_EXACT"
  using assms ready_present [OF assms(1)]
  by (simp add: observe_transport_def observe_requested_remote_def g_get_ready g_remote_url_ready obs_def Let_def)

lemma installed_settings:
  assumes r: "ready s" and reg: "regular_remote g d want s" and v: "val s (remote_key (gr_name want)) = Some cur"
    and rp: "github_repo_path cur = Some repo" and ss: "same_setup s t"
    and i: "install_transport g d want repo t = (Inr u, s')"
  defines "c \<equiv> canonical_github_url repo (gr_protocol want)"
  shows "ready s'" and "val s' (remote_key (gr_name want)) = Some c" and "github_repo_path c = Some repo"
    and "repo_of_opt (effective s' (gr_name want)) = Some repo"
    and "g_get_all s' k_helper = Inr (wanted_helpers (gen_paths g) d (gr_protocol want))"
    and "\<exists>cmds. g_get_all s' k_ssh = Inr cmds \<and> wanted_ssh (gen_uid g) d (gr_protocol want) = Inr cmds"
proof -
  have rt: "ready t" using r ss by (simp add: same_setup_ready)
  note iv = install_transport_values [OF rt i]
  then have ss': "same_setup s s'" using ss by (auto simp: same_setup_def)
  then show r': "ready s'" using r by (simp add: same_setup_ready)
  have k: "tidy c" "github_repo_path c = Some repo" "strip (g_rewrite s c @ newline) \<noteq> []"
      "github_repo_path (drop_newlines (g_rewrite s c @ newline)) = Some repo"
    unfolding c_def by (rule regular_canonical [OF reg v rp])+
  have vc: "g_values s' (remote_key (gr_name want)) = [c]" using iv by (simp add: c_def)
  then show "val s' (remote_key (gr_name want)) = Some c" using k by (simp add: val_of_values)
  show "github_repo_path c = Some repo" by (fact k)
  have "g_rewrite s' = g_rewrite s" using ss' by (simp add: same_setup_def)
  then show "repo_of_opt (effective s' (gr_name want)) = Some repo"
    using vc k by (simp add: effective_def repo_of_opt_def Let_def)
  have h: "one_value (path_str (github_cli_helper_path (gen_paths g) d))"
    and cmd: "\<And>c. git_ssh_command (gen_uid g) d = Inr c \<Longrightarrow> one_value c"
    using reg by (simp_all add: regular_remote_def)
  have bl: "g_get_all s' q = Inr []" if "g_values s' q = left_by_unset vs" for q vs
    using that by (simp add: g_get_all_blank [OF r'])
  from iv consider (https) "gr_protocol want = PROTO_HTTPS_GH"
      "g_values s' k_helper = [path_str (github_cli_helper_path (gen_paths g) d)]"
      "g_values s' k_ssh = left_by_unset (g_values t k_ssh)"
    | (ssh) x where "gr_protocol want \<noteq> PROTO_HTTPS_GH" "g_values s' k_helper = left_by_unset (g_values t k_helper)"
      "git_ssh_command (gen_uid g) d = Inr x" "g_values s' k_ssh = [x]" by blast
  then have "g_get_all s' k_helper = Inr (wanted_helpers (gen_paths g) d (gr_protocol want)) \<and>
    (\<exists>cmds. g_get_all s' k_ssh = Inr cmds \<and> wanted_ssh (gen_uid g) d (gr_protocol want) = Inr cmds)"
  proof cases
    case https
    with bl g_get_all_single [OF r' _ h] show ?thesis
      by (simp add: wanted_helpers_def wanted_ssh_def)
  next
    case ssh
    then have "gr_protocol want = PROTO_SSH" by (cases "gr_protocol want") simp_all
    with bl ssh g_get_all_single [OF r' _ cmd [OF ssh(3)]] show ?thesis
      by (simp add: wanted_helpers_def wanted_ssh_def)
  qed
  then show "g_get_all s' k_helper = Inr (wanted_helpers (gen_paths g) d (gr_protocol want))"
    and "\<exists>cmds. g_get_all s' k_ssh = Inr cmds \<and> wanted_ssh (gen_uid g) d (gr_protocol want) = Inr cmds" by auto
qed

lemma transport_settles:
  assumes v: "valid_instance d" and n: "di_version d \<ge> 2" and r: "ready s"
    and reg: "\<And>want. requested_remote d = Some want \<Longrightarrow> tidy (gr_name want) \<and> regular_remote g d want s"
    and o0: "observe_transport g d s = Inr ob" and m: "manageable (ob_status ob)"
    and c: "converge_transport g d s = (Inr u, s')"
  shows "\<exists>ob'. observe_transport g d s' = Inr ob' \<and> ob_status ob' = O_EXACT"
proof -
  have iid: "tidy (di_id d)" using v by (simp add: valid_instance_def tidy_clean)
  have r': "ready s'" using touches_ready [OF touches_transport c] r by simp
  have none: "\<exists>ob'. observe_transport g d s' = Inr ob' \<and> ob_status ob' = O_EXACT"
    if "requested_remote d = None" "val s' k_re_owner \<noteq> Some (di_id d)"
    using that n by (simp add: observe_transport_def g_get_ready [OF r'] ready_present [OF r'] obs_def)
  show ?thesis
  proof (cases "requested_remote d")
    case None
    show ?thesis
    proof (cases "val s k_re_owner = Some (di_id d)")
      case True
      with c None have "release_transport s = (Inr u, s')"
        unfolding converge_transport_def ebind_Inr eread_Inr by (simp add: g_get_ready [OF r])
      from release_transport_values [OF r this] not_blank [OF True iid]
      have "val s' k_re_owner = None" by (auto simp: val_None left_by_unset_def)
      with none None show ?thesis by simp
    next
      case False
      with c None have "s' = s"
        unfolding converge_transport_def ebind_Inr eread_Inr by (simp add: g_get_ready [OF r] ereturn_Inr)
      with False none None show ?thesis by simp
    qed
  next
    case (Some want)
    with reg have nm: "tidy (gr_name want)" and reg': "regular_remote g d want s" by auto
    from converge_transport_present [OF r Some c] obtain cur repo t where
      cur: "val s (remote_key (gr_name want)) = Some cur" "github_repo_path cur = Some repo"
      and t: "if val s k_re_owner = None then claim_transport d want cur (effective s (gr_name want)) s = (Inr (), t)
              else t = s"
      and i: "install_transport g d want repo t = (Inr u, s')" by metis
    have ss: "same_setup s t"
      using t claim_transport_values [OF r] by (auto split: if_splits)
    note inst = installed_settings [OF r reg' cur ss i]
    have rt: "ready t" using r ss by (simp add: same_setup_ready)
    have keep: "val s' k = val t k" if "k \<in> {k_re_owner, k_re_version, k_re_name, k_re_url}" for k
      using install_transport_values [OF rt i] that by (auto intro!: val_cong)
    have "val t k_re_owner = Some (di_id d) \<and> val t k_re_version = Some ''1'' \<and>
      val t k_re_name = Some (gr_name want) \<and> val t k_re_url \<noteq> None"
    proof (cases "val s k_re_owner = None")
      case True
      with t claim_transport_values [OF r] have "g_values t = (g_values s)(k_re_url := [cur],
        k_re_name := [gr_name want], k_re_owner := [di_id d], k_re_version := [''1''])" by simp
      with iid nm show ?thesis by (simp add: val_of_values val_None)
    next
      case False
      from o0 n Some have "observe_requested_remote g d want (val s k_re_owner) (val s k_re_version) s = Inr ob"
        by (simp add: observe_transport_def g_get_ready [OF r] ready_present [OF r])
      from managed_remote [OF this m r False] t False show ?thesis by simp
    qed
    with keep have own: "val s' k_re_owner = Some (di_id d)" "val s' k_re_version = Some ''1''"
      "val s' k_re_name = Some (gr_name want)" "val s' k_re_url \<noteq> None" by simp_all
    from inst(6) obtain cmds where "g_get_all s' k_ssh = Inr cmds"
      "wanted_ssh (gen_uid g) d (gr_protocol want) = Inr cmds" by blast
    with exact_remote [OF r' n Some own inst(2-5)] show ?thesis by blast
  qed
qed

text \<open>A repository whose transport nobody manages: one address of the remote and no settings.\<close>

definition plain_remote :: "string \<Rightarrow> git_state \<Rightarrow> bool" where
  "plain_remote name s \<longleftrightarrow>
     (\<forall>k \<in> {k_helper, k_ssh, k_re_owner, k_re_version, k_re_name, k_re_url}. g_values s k = []) \<and>
     (\<exists>cur. tidy cur \<and> g_values s (remote_key name) = [cur])"

lemma transport_restored:
  assumes v: "valid_instance d" and r: "ready s" and w: "requested_remote d = Some want"
    and nm: "tidy (gr_name want)" and reg: "regular_remote g d want s" and pl: "plain_remote (gr_name want) s"
    and c1: "converge_transport g d s = (Inr u, s1)"
    and w': "requested_remote d' = None" "di_id d' = di_id d" and c2: "converge_transport g d' s1 = (Inr u', s2)"
  shows "g_values s2 = g_values s"
proof -
  have iid: "tidy (di_id d)" using v by (simp add: valid_instance_def tidy_clean)
  have cl: "\<And>k. k \<in> {k_helper, k_ssh, k_re_owner, k_re_version, k_re_name, k_re_url} \<Longrightarrow> g_values s k = []"
    using pl unfolding plain_remote_def by blast
  then have none: "val s k_re_owner = None" by (simp add: val_None)
  obtain cur where cur: "tidy cur" "g_values s (remote_key (gr_name want)) = [cur]"
    using pl by (auto simp: plain_remote_def)
  then have vcur: "val s (remote_key (gr_name want)) = Some cur" by (simp add: val_of_values)
  from converge_transport_present [OF r w c1] vcur none obtain repo t where
    t: "claim_transport d want cur (effective s (gr_name want)) s = (Inr (), t)"
    and i: "install_transport g d want repo t = (Inr u, s1)" by (metis option.inject)
  note ct = claim_transport_values [OF r t]
  then have rt: "ready t" using r same_setup_ready by blast
  note iv = install_transport_values [OF rt i]
  have r1: "ready s1" using touches_ready [OF touches_transport c1] r by simp
  have own: "g_values s1 k_re_owner = [di_id d]" "g_values s1 k_re_version = [''1'']"
    "g_values s1 k_re_name = [gr_name want]" "g_values s1 k_re_url = [cur]"
    using iv ct by simp_all
  have "val s1 k_re_owner = Some (di_id d)" using own iid by (simp add: val_of_values)
  with c2 w' have rl: "release_transport s1 = (Inr u', s2)"
    unfolding converge_transport_def ebind_Inr eread_Inr by (simp add: g_get_ready [OF r1])
  have "val s1 k_re_url = Some cur" "val s1 k_re_name = Some (gr_name want)"
    using own cur nm by (simp_all add: val_of_values)
  moreover obtain a n where "val s1 k_re_url = Some a" "val s1 k_re_name = Some n"
    and "g_values s2 = (\<lambda>k. if k = remote_key n then [a]
        else if k \<in> {k_helper, k_ssh, k_re_owner, k_re_version, k_re_name, k_re_url}
        then left_by_unset (g_values s1 k) else g_values s1 k)"
    using release_transport_values [OF r1 rl] by blast
  ultimately have rel: "g_values s2 = (\<lambda>k. if k = remote_key (gr_name want) then [cur]
        else if k \<in> {k_helper, k_ssh, k_re_owner, k_re_version, k_re_name, k_re_url}
        then left_by_unset (g_values s1 k) else g_values s1 k)"
    by (simp only: option.inject)
  have settings: "left_by_unset (g_values s1 k) = []" if "k = k_helper \<or> k = k_ssh" for k
  proof -
    have "g_values t k_helper = []" "g_values t k_ssh = []" using ct cl by simp_all
    with iv that have "g_values s1 k = [] \<or> g_values s1 k = [path_str (github_cli_helper_path (gen_paths g) d)] \<or>
        (\<exists>cmd. git_ssh_command (gen_uid g) d = Inr cmd \<and> g_values s1 k = [cmd])"
      by (elim disjE conjE) (simp_all add: left_by_unset_def)
    with reg show ?thesis
      by (auto simp: regular_remote_def one_value_def left_single) (simp add: left_by_unset_def)
  qed
  have "g_values s2 k = g_values s k" for k
  proof -
    consider "k = remote_key (gr_name want)" | "k = k_helper \<or> k = k_ssh"
      | "k \<in> {k_re_owner, k_re_version, k_re_name, k_re_url}" | "k \<notin> {remote_key (gr_name want), k_helper, k_ssh,
          k_re_owner, k_re_version, k_re_name, k_re_url}" by blast
    then show ?thesis
    proof cases
      case 1
      then show ?thesis using rel cur by simp
    next
      case 2
      then have "g_values s2 k = left_by_unset (g_values s1 k)" by (elim disjE) (simp_all add: rel)
      moreover have "g_values s k = []" using 2 by (intro cl) blast
      ultimately show ?thesis by (simp add: settings [OF 2])
    next
      case 3
      then have "g_values s2 k = left_by_unset (g_values s1 k)" by (auto simp: rel)
      moreover have "left_by_unset (g_values s1 k) = []"
        using 3 own iid nm cur by (auto simp: left_single)
      moreover have "g_values s k = []" using 3 by (intro cl) blast
      ultimately show ?thesis by simp
    next
      case 4
      then show ?thesis using rel iv ct by simp
    qed
  qed
  then show ?thesis by (rule ext)
qed

section \<open>Reconcilers of disjoint keys\<close>

text \<open>
  A reconciler of some keys of the repository's configuration: it writes no other key, what it observes
  depends on no other key, and a completed convergence from a manageable state is observed as exact.
\<close>

locale key_reconciler =
  fixes keys :: "string set" and observe :: "git_state \<Rightarrow> observation res" and converge :: "unit gm"
    and good :: "git_state \<Rightarrow> bool"
  assumes frame: "touches keys converge"
    and reads_only: "same_setup s s' \<Longrightarrow> (\<And>k. k \<in> keys \<Longrightarrow> g_values s' k = g_values s k) \<Longrightarrow> observe s' = observe s"
    and good_local: "same_setup s s' \<Longrightarrow> (\<And>k. k \<in> keys \<Longrightarrow> g_values s' k = g_values s k) \<Longrightarrow> good s \<Longrightarrow> good s'"
    and settles: "ready s \<Longrightarrow> good s \<Longrightarrow> observe s = Inr ob \<Longrightarrow> manageable (ob_status ob) \<Longrightarrow>
      converge s = (Inr u, s') \<Longrightarrow> \<exists>ob'. observe s' = Inr ob' \<and> ob_status ob' = O_EXACT"
begin

lemma undisturbed:
  assumes "touches K m" and "K \<inter> keys = {}" and "m s = (r, s')"
  shows "observe s' = observe s" and "good s \<Longrightarrow> good s'"
proof -
  have "same_setup s s'" and "\<And>k. k \<in> keys \<Longrightarrow> g_values s' k = g_values s k"
    using assms unfolding touches_def by blast+
  then show "observe s' = observe s" and "good s \<Longrightarrow> good s'" using reads_only good_local by blast+
qed

end

locale reconciler_pair =
  first: key_reconciler keys1 observe1 converge1 good1 + second: key_reconciler keys2 observe2 converge2 good2
  for keys1 observe1 converge1 good1 keys2 observe2 converge2 good2 +
  assumes disjoint: "keys1 \<inter> keys2 = {}"
begin

lemma both_settle:
  assumes r: "ready s" and g: "good1 s" "good2 s"
    and o: "observe1 s = Inr a" "manageable (ob_status a)" "observe2 s = Inr b" "manageable (ob_status b)"
    and c1: "converge1 s = (Inr u, s1)" and c2: "converge2 s1 = (Inr u', s2)"
  shows "\<exists>a' b'. observe1 s2 = Inr a' \<and> ob_status a' = O_EXACT \<and> observe2 s2 = Inr b' \<and> ob_status b' = O_EXACT"
proof -
  have d: "keys2 \<inter> keys1 = {}" using disjoint by blast
  from second.undisturbed [OF first.frame disjoint c1] o g
  have "observe2 s1 = Inr b" "good2 s1" by simp_all
  moreover have "ready s1" using touches_ready [OF first.frame c1] r by simp
  ultimately have 2: "\<exists>b'. observe2 s2 = Inr b' \<and> ob_status b' = O_EXACT"
    using second.settles o(4) c2 by blast
  from first.settles [OF r g(1) o(1,2) c1] first.undisturbed(1) [OF second.frame d c2]
  have "\<exists>a'. observe1 s2 = Inr a' \<and> ob_status a' = O_EXACT" by simp
  with 2 show ?thesis by blast
qed

end

lemma g_get_local: "same_setup s s' \<Longrightarrow> g_values s' k = g_values s k \<Longrightarrow> g_get s' k = g_get s k"
  by (simp add: g_get_def same_setup_def)

lemma g_get_all_local: "same_setup s s' \<Longrightarrow> g_values s' k = g_values s k \<Longrightarrow> g_get_all s' k = g_get_all s k"
  by (simp add: g_get_all_def same_setup_def)

lemma g_remote_url_local:
  "same_setup s s' \<Longrightarrow> g_values s' (remote_key n) = g_values s (remote_key n) \<Longrightarrow> g_remote_url s' n = g_remote_url s n"
  by (simp add: g_remote_url_def same_setup_def)

lemma repository_present_local: "same_setup s s' \<Longrightarrow> repository_present s' = repository_present s"
  by (simp add: repository_present_def same_setup_def)

lemma observe_identity_local:
  assumes "same_setup s s'" and "\<And>k. k \<in> id_keys \<Longrightarrow> g_values s' k = g_values s k"
  shows "observe_identity d s' = observe_identity d s"
proof -
  have "g_get s' k = g_get s k" if "k \<in> id_keys" for k using g_get_local assms that by blast
  then have g: "g_get s' k_name = g_get s k_name" "g_get s' k_email = g_get s k_email"
    "g_get s' k_id_owner = g_get s k_id_owner" "g_get s' k_id_version = g_get s k_id_version"
    "g_get s' k_id_origin = g_get s k_id_origin" "g_get s' k_id_name = g_get s k_id_name"
    "g_get s' k_id_email = g_get s k_id_email" by (simp_all add: id_keys_def)
  show ?thesis
    by (simp only: observe_identity_def origin_problem_def g repository_present_local [OF assms(1)])
qed

lemma observe_transport_local:
  assumes "same_setup s s'" and "\<And>k. k \<in> re_keys \<Longrightarrow> g_values s' k = g_values s k"
  shows "observe_transport g d s' = observe_transport g d s"
proof -
  have r: "\<And>n. remote_key n \<in> re_keys" "k_helper \<in> re_keys" "k_ssh \<in> re_keys" "k_re_owner \<in> re_keys"
    "k_re_version \<in> re_keys" "k_re_name \<in> re_keys" "k_re_url \<in> re_keys" by (simp_all add: re_keys_def)
  note get = r [THEN assms(2), THEN g_get_local [OF assms(1)]]
  note all = r [THEN assms(2), THEN g_get_all_local [OF assms(1)]]
  note url = g_remote_url_local [OF assms(1) assms(2) [OF r(1)]]
  show ?thesis
    by (simp only: observe_transport_def observe_requested_remote_def get all url
        repository_present_local [OF assms(1)])
qed

lemma regular_remote_local:
  assumes "same_setup s s'" and "g_values s' (remote_key (gr_name want)) = g_values s (remote_key (gr_name want))"
  shows "regular_remote g d want s' = regular_remote g d want s"
  using assms val_cong [OF assms(2)] by (simp add: regular_remote_def same_setup_def)

definition identity_good :: "desired_instance \<Rightarrow> git_state \<Rightarrow> bool" where
  "identity_good d s \<longleftrightarrow> valid_instance d \<and> di_version d \<ge> 2"

definition transport_good :: "generator \<Rightarrow> desired_instance \<Rightarrow> git_state \<Rightarrow> bool" where
  "transport_good g d s \<longleftrightarrow> valid_instance d \<and> di_version d \<ge> 2 \<and>
     (\<forall>want. requested_remote d = Some want \<longrightarrow> tidy (gr_name want) \<and> regular_remote g d want s)"

interpretation git_identity: key_reconciler id_keys "observe_identity d" "converge_identity d" "identity_good d" for d
proof (unfold_locales, goal_cases)
  case 1
  show ?case by (rule touches_identity)
next
  case (2 s s')
  then show ?case by (rule observe_identity_local)
next
  case (3 s s')
  then show ?case by (simp add: identity_good_def)
next
  case (4 s ob u s')
  then show ?case unfolding identity_good_def using identity_settles by blast
qed

interpretation git_transport: key_reconciler re_keys "observe_transport g d" "converge_transport g d"
  "transport_good g d" for g d
proof (unfold_locales, goal_cases)
  case 1
  show ?case by (rule touches_transport)
next
  case (2 s s')
  then show ?case by (rule observe_transport_local)
next
  case (3 s s')
  then have "regular_remote g d want s' = regular_remote g d want s" for want
    by (intro regular_remote_local) (simp_all add: re_keys_def)
  with 3 show ?case by (simp add: transport_good_def)
next
  case (4 s ob u s')
  then show ?case unfolding transport_good_def using transport_settles by blast
qed

lemma git_keys_disjoint: "id_keys \<inter> re_keys = {}"
  unfolding id_keys_def re_keys_def
  by (auto simp: k_name_def k_email_def k_id_owner_def k_id_version_def k_id_origin_def k_id_name_def
      k_id_email_def k_re_owner_def k_re_version_def k_re_name_def k_re_url_def k_helper_def k_ssh_def remote_key_def)

interpretation git_pair: reconciler_pair id_keys "observe_identity d" "converge_identity d" "identity_good d"
  re_keys "observe_transport g d" "converge_transport g d" "transport_good g d" for g d
  by unfold_locales (rule git_keys_disjoint)

section \<open>The properties\<close>

lemma remote_name_tidy: "valid_instance d \<Longrightarrow> requested_remote d = Some want \<Longrightarrow> tidy (gr_name want)"
  by (auto simp: requested_remote_def valid_instance_def valid_git_def tidy_clean git_empty_def split: if_splits)

definition git_sample :: desired_instance where
  "git_sample = sample_instance\<lparr>di_github := \<lparr>gh_mode = GH_MANAGED, gh_config_dir = Some ''/h/gh'', gh_binary = Some ''/usr/bin/gh''\<rparr>,
     di_git :=
     \<lparr>git_identity_of = Some \<lparr>gid_name = ''n'', gid_email = ''e''\<rparr>,
      git_remote_of = Some \<lparr>gr_name = ''origin'', gr_protocol = PROTO_HTTPS_GH\<rparr>\<rparr>\<rparr>"

definition git_sample_absent :: desired_instance where
  "git_sample_absent = git_sample\<lparr>di_lifecycle := \<lparr>li_deployment = ABSENT, li_runtime = STOPPED\<rparr>\<rparr>"

definition repo_sample :: "(string \<times> string list) list \<Rightarrow> git_state" where
  "repo_sample extra = \<lparr>g_found = True, g_tree = True, g_readable = True,
     g_config = extra @ [(remote_key ''origin'', [''https://github.com/o/r''])], g_refuses = [], g_rewrite = (\<lambda>u. u)\<rparr>"

definition origin_remote :: git_remote where
  "origin_remote = \<lparr>gr_name = ''origin'', gr_protocol = PROTO_HTTPS_GH\<rparr>"

lemma git_sample_facts:
  "valid_instance git_sample" "di_version git_sample = 2" "requested_remote git_sample = Some origin_remote"
  "requested_identity git_sample = Some \<lparr>gid_name = ''n'', gid_email = ''e''\<rparr>"
  "requested_remote git_sample_absent = None" "requested_identity git_sample_absent = None"
  "di_id git_sample_absent = di_id git_sample"
  by code_simp+

lemma repo_sample_ready: "ready (repo_sample extra)"
  by (simp add: ready_def repo_sample_def)

lemma repo_sample_regular: "regular_remote sample_generator git_sample origin_remote (repo_sample [])"
proof -
  have v: "val (repo_sample []) (remote_key ''origin'') = Some ''https://github.com/o/r''"
    and rp: "github_repo_path ''https://github.com/o/r'' = Some ''o/r''" and pl: "plain_repository ''o/r''"
    and h: "one_value (path_str (github_cli_helper_path (gen_paths sample_generator) git_sample))"
    and e: "is_err (git_ssh_command (gen_uid sample_generator) git_sample)"
    by code_simp+
  from e have "git_ssh_command (gen_uid sample_generator) git_sample \<noteq> Inr cmd" for cmd by (auto simp: is_err_def)
  with v rp pl h show ?thesis
    by (simp add: regular_remote_def origin_remote_def repo_sample_def)
qed

text \<open>C25: the two halves of the git reconciler compose. Let the repository of the wanted remote have a plain
  name (letters, digits, hyphens, underscores, dots), let no \<open>insteadOf\<close> rewrite its canonical address, and let the helper's path and
  the ssh command be single lines (\<open>regular_remote\<close>). If identity and transport both observe as manageable
  and both convergences complete, in this order, then both observe as exact afterwards: a second run has
  nothing to do.\<close>

theorem git_settings_converge:
  assumes "valid_instance d" and "di_version d \<ge> 2" and "ready s"
    and "\<And>want. requested_remote d = Some want \<Longrightarrow> regular_remote g d want s"
    and "observe_identity d s = Inr a" and "manageable (ob_status a)"
    and "observe_transport g d s = Inr b" and "manageable (ob_status b)"
    and "converge_identity d s = (Inr (), s1)" and "converge_transport g d s1 = (Inr (), s2)"
  shows "\<exists>a' b'. observe_identity d s2 = Inr a' \<and> ob_status a' = O_EXACT \<and>
           observe_transport g d s2 = Inr b' \<and> ob_status b' = O_EXACT"
proof -
  have "identity_good d s" and "transport_good g d s"
    using assms(1,2,4) remote_name_tidy by (simp_all add: identity_good_def transport_good_def)
  from git_pair.both_settle [OF assms(3) this assms(5-10)] show ?thesis .
qed

text \<open>C35: in a repository that no instance has claimed and where \<open>user.name\<close> and \<open>user.email\<close> have at most one
  value each, not empty and not ending in a newline (\<open>unclaimed\<close>), releasing an identity that was claimed restores every
  configuration value the repository had, whether the identity was created or adopted.\<close>

theorem git_identity_restored:
  assumes "valid_instance d" and "ready s" and "unclaimed s" and "requested_identity d = Some want"
    and "converge_identity d s = (Inr (), s1)"
    and "requested_identity d' = None" and "di_id d' = di_id d" and "converge_identity d' s1 = (Inr (), s2)"
  shows "g_values s2 = g_values s"
  using identity_roundtrip [OF assms] .

text \<open>releasing a remote that was claimed restores its address and removes the settings and the
  ownership keys, for a repository with one address of the remote and no transport settings.\<close>

theorem git_transport_restored:
  assumes "valid_instance d" and "ready s" and "requested_remote d = Some want"
    and "regular_remote g d want s" and "plain_remote (gr_name want) s"
    and "converge_transport g d s = (Inr (), s1)"
    and "requested_remote d' = None" and "di_id d' = di_id d" and "converge_transport g d' s1 = (Inr (), s2)"
  shows "g_values s2 = g_values s"
  using transport_restored [OF assms(1-3) remote_name_tidy [OF assms(1,3)] assms(4-9)] .

text \<open>An empty value of the helper setting, git's way to reset the helpers inherited from the user's
  configuration, is taken for no value: the remote is claimed over it and a release does not bring it back.\<close>

definition reset_repo :: git_state where
  "reset_repo = repo_sample [(k_helper, [[]])]"

theorem reset_helper_lost:
  "\<exists>s1 s2. converge_transport sample_generator git_sample reset_repo = (Inr (), s1) \<and>
     converge_transport sample_generator git_sample_absent s1 = (Inr (), s2) \<and>
     g_values reset_repo k_helper = [[]] \<and> g_values s2 k_helper = []"
proof -
  let ?s1 = "snd (converge_transport sample_generator git_sample reset_repo)"
  let ?s2 = "snd (converge_transport sample_generator git_sample_absent ?s1)"
  have "fst (converge_transport sample_generator git_sample reset_repo) = Inr ()"
    "fst (converge_transport sample_generator git_sample_absent ?s1) = Inr ()"
    "g_values reset_repo k_helper = [[]]" "g_values ?s2 k_helper = []" by code_simp+
  then show ?thesis by (intro exI [of _ ?s1] exI [of _ ?s2]) (simp add: prod_eq_iff)
qed

text \<open>Of several values of \<open>user.name\<close>, adoption keeps the last and a release does not bring the others back.\<close>

theorem earlier_identity_values_lost:
  "\<exists>s1 s2. converge_identity git_sample (repo_sample [(''user.name'', [''x'', ''n'']), (''user.email'', [''e''])]) = (Inr (), s1) \<and>
     converge_identity git_sample_absent s1 = (Inr (), s2) \<and> g_values s2 ''user.name'' = [''n'']"
proof -
  let ?s = "repo_sample [(''user.name'', [''x'', ''n'']), (''user.email'', [''e''])]"
  let ?s1 = "snd (converge_identity git_sample ?s)"
  let ?s2 = "snd (converge_identity git_sample_absent ?s1)"
  have "fst (converge_identity git_sample ?s) = Inr ()" "fst (converge_identity git_sample_absent ?s1) = Inr ()"
    "g_values ?s2 ''user.name'' = [''n'']" by code_simp+
  then show ?thesis by (intro exI [of _ ?s1] exI [of _ ?s2]) (simp add: prod_eq_iff)
qed

text \<open>
  A claim does not ask whether git rewrites the canonical address it sets: with an \<open>insteadOf\<close> for that
  address, a remote that observes as ready to be claimed observes as foreign once it is claimed.
\<close>

definition mirrored_repo :: git_state where
  "mirrored_repo = (repo_sample [])\<lparr>g_rewrite := \<lambda>u. if prefix ''https://github.com/o/r.git'' u then ''https://mirror/o/r.git'' else u\<rparr>"

theorem claimed_remote_turns_foreign:
  "\<exists>s1. map_sum id ob_status (observe_transport sample_generator git_sample mirrored_repo) = Inr O_ABSENT \<and>
     converge_transport sample_generator git_sample mirrored_repo = (Inr (), s1) \<and>
     map_sum id ob_status (observe_transport sample_generator git_sample s1) = Inr O_FOREIGN"
proof -
  let ?s1 = "snd (converge_transport sample_generator git_sample mirrored_repo)"
  have "map_sum id ob_status (observe_transport sample_generator git_sample mirrored_repo) = Inr O_ABSENT"
    "fst (converge_transport sample_generator git_sample mirrored_repo) = Inr ()"
    "map_sum id ob_status (observe_transport sample_generator git_sample ?s1) = Inr O_FOREIGN" by code_simp+
  then show ?thesis by (intro exI [of _ ?s1]) (simp add: prod_eq_iff)
qed

section \<open>Witnesses\<close>

lemma git_settings_converge_witness:
  "\<exists>s1 s2 a b. converge_identity git_sample (repo_sample []) = (Inr (), s1) \<and>
     converge_transport sample_generator git_sample s1 = (Inr (), s2) \<and>
     observe_identity git_sample s2 = Inr a \<and> ob_status a = O_EXACT \<and>
     observe_transport sample_generator git_sample s2 = Inr b \<and> ob_status b = O_EXACT"
proof -
  let ?s = "repo_sample []"
  let ?s1 = "snd (converge_identity git_sample ?s)"
  let ?s2 = "snd (converge_transport sample_generator git_sample ?s1)"
  have "fst (converge_identity git_sample ?s) = Inr ()" "fst (converge_transport sample_generator git_sample ?s1) = Inr ()"
    by code_simp+
  then have c: "converge_identity git_sample ?s = (Inr (), ?s1)"
    "converge_transport sample_generator git_sample ?s1 = (Inr (), ?s2)" by (simp_all add: prod_eq_iff)
  have "map_sum id ob_status (observe_identity git_sample ?s) = Inr O_ABSENT"
    "map_sum id ob_status (observe_transport sample_generator git_sample ?s) = Inr O_ABSENT" by code_simp+
  then obtain a b where o: "observe_identity git_sample ?s = Inr a" "ob_status a = O_ABSENT"
    "observe_transport sample_generator git_sample ?s = Inr b" "ob_status b = O_ABSENT"
    by (auto split: sum.splits simp: map_sum_def)
  have m: "manageable O_ABSENT" by (simp add: manageable_def)
  have reg: "regular_remote sample_generator git_sample want ?s" if "requested_remote git_sample = Some want" for want
    using that repo_sample_regular by (simp add: git_sample_facts(3))
  show ?thesis
    using git_settings_converge [OF git_sample_facts(1) _ repo_sample_ready reg o(1) _ o(3) _ c] c o m
    by (simp add: git_sample_facts(2)) blast
qed

lemma git_identity_restored_witness:
  "\<exists>s1 s2. converge_identity git_sample (repo_sample []) = (Inr (), s1) \<and>
     converge_identity git_sample_absent s1 = (Inr (), s2) \<and> g_values s2 = g_values (repo_sample [])"
proof -
  let ?s = "repo_sample []"
  let ?s1 = "snd (converge_identity git_sample ?s)"
  let ?s2 = "snd (converge_identity git_sample_absent ?s1)"
  have "fst (converge_identity git_sample ?s) = Inr ()" "fst (converge_identity git_sample_absent ?s1) = Inr ()"
    by code_simp+
  then have c: "converge_identity git_sample ?s = (Inr (), ?s1)"
    "converge_identity git_sample_absent ?s1 = (Inr (), ?s2)" by (simp_all add: prod_eq_iff)
  have "unclaimed ?s" by code_simp
  from git_identity_restored [OF git_sample_facts(1) repo_sample_ready this git_sample_facts(4) c(1)
      git_sample_facts(6,7) c(2)] c show ?thesis by blast
qed

lemma git_transport_restored_witness:
  "\<exists>s1 s2. converge_transport sample_generator git_sample (repo_sample []) = (Inr (), s1) \<and>
     converge_transport sample_generator git_sample_absent s1 = (Inr (), s2) \<and> g_values s2 = g_values (repo_sample [])"
proof -
  let ?s = "repo_sample []"
  let ?s1 = "snd (converge_transport sample_generator git_sample ?s)"
  let ?s2 = "snd (converge_transport sample_generator git_sample_absent ?s1)"
  have "fst (converge_transport sample_generator git_sample ?s) = Inr ()"
    "fst (converge_transport sample_generator git_sample_absent ?s1) = Inr ()" by code_simp+
  then have c: "converge_transport sample_generator git_sample ?s = (Inr (), ?s1)"
    "converge_transport sample_generator git_sample_absent ?s1 = (Inr (), ?s2)" by (simp_all add: prod_eq_iff)
  have "g_values ?s (remote_key ''origin'') = [''https://github.com/o/r'']" "tidy ''https://github.com/o/r''"
    by code_simp+
  moreover have "\<forall>k \<in> set [k_helper, k_ssh, k_re_owner, k_re_version, k_re_name, k_re_url]. g_values ?s k = []"
    by code_simp
  ultimately have "plain_remote (gr_name origin_remote) ?s"
    by (auto simp: plain_remote_def origin_remote_def)
  from git_transport_restored [OF git_sample_facts(1) repo_sample_ready git_sample_facts(3) repo_sample_regular
      this c(1) git_sample_facts(5,7) c(2)] c show ?thesis by blast
qed

end
