(* ===== verification/HostFs.thy ===== *)
theory HostFs
  imports Applied Effects DevEnv
begin

text \<open>
  The machine the host-side operations change. Its file system maps paths to regular files with
  mode and content, directories with mode, and symbolic links with what they resolve to (what lies
  under a link is not modelled: listing a link fails). A content is a text, or bytes that are not
  UTF-8. Paths on which the kernel refuses a change (permissions, full or read-only file systems)
  are listed in the state; the text of an operating-system exception is reduced to the path it names.
  The operations are those of \<open>pathlib\<close> and \<open>os\<close> the manager uses,
  with what they raise, and the manager's own \<open>_atomic_write\<close>.
\<close>

section \<open>Files\<close>

datatype content = Text string | Bytes

datatype entry = EFile nat content | EDir nat | ELink "entry option"

type_synonym fs = "(ppath \<times> entry) list"

definition x_lookup :: "fs \<Rightarrow> ppath \<Rightarrow> entry option" where
  "x_lookup fs p = (if pp_parts p = [] then Some (EDir 493) else map_of fs p)"

fun x_follow :: "entry option \<Rightarrow> entry option" where
  "x_follow (Some (ELink t)) = x_follow t"
| "x_follow e = e"

definition x_exists :: "fs \<Rightarrow> ppath \<Rightarrow> bool" where
  "x_exists fs p \<longleftrightarrow> x_follow (x_lookup fs p) \<noteq> None"

definition x_is_dir :: "fs \<Rightarrow> ppath \<Rightarrow> bool" where
  "x_is_dir fs p \<longleftrightarrow> (case x_follow (x_lookup fs p) of Some (EDir m) \<Rightarrow> True | _ \<Rightarrow> False)"

definition x_is_file :: "fs \<Rightarrow> ppath \<Rightarrow> bool" where
  "x_is_file fs p \<longleftrightarrow> (case x_follow (x_lookup fs p) of Some (EFile m c) \<Rightarrow> True | _ \<Rightarrow> False)"

definition x_is_symlink :: "fs \<Rightarrow> ppath \<Rightarrow> bool" where
  "x_is_symlink fs p \<longleftrightarrow> (case x_lookup fs p of Some (ELink t) \<Rightarrow> True | _ \<Rightarrow> False)"

definition x_put :: "ppath \<Rightarrow> entry \<Rightarrow> fs \<Rightarrow> fs" where
  "x_put p e fs = dict_set p e fs"

definition x_delete :: "ppath \<Rightarrow> fs \<Rightarrow> fs" where
  "x_delete p fs = filter (\<lambda>q. fst q \<noteq> p) fs"

text \<open>The names in a directory, in the order of the directory.\<close>

definition x_children :: "fs \<Rightarrow> ppath \<Rightarrow> string list" where
  "x_children fs p =
     map path_name (filter (\<lambda>q. pp_parts q \<noteq> [] \<and> path_parent q = p) (remdups (map fst fs)))"

text \<open>\<open>read_text\<close> turns every line ending into a newline.\<close>

fun universal_newlines :: "string \<Rightarrow> string" where
  "universal_newlines [] = []"
| "universal_newlines [c] = (if c = CHR 0x0D then [CHR 0x0A] else [c])"
| "universal_newlines (c # d # s) =
     (if c = CHR 0x0D then
        (if d = CHR 0x0A then CHR 0x0A # universal_newlines s else CHR 0x0A # universal_newlines (d # s))
      else c # universal_newlines (d # s))"

section \<open>The machine\<close>

datatype exn = Managed manager_error | Raised string

definition io_error :: "string \<Rightarrow> (string \<times> json) list \<Rightarrow> manager_error" where
  "io_error msg details = ManagerError IO_ERROR msg details"

record machine =
  mc_fs :: fs
  mc_umask :: "nat \<Rightarrow> nat"
  mc_refuses :: "ppath list"
  mc_git :: git_state
  mc_active :: "string list"
  mc_enabled :: "string list"
  mc_clock :: nat

type_synonym 'a mm = "(machine, exn, 'a) em"

definition managed :: "'a res \<Rightarrow> exn + 'a" where
  "managed r = (case r of Inl e \<Rightarrow> Inl (Managed e) | Inr x \<Rightarrow> Inr x)"

definition m_read :: "(fs \<Rightarrow> 'a) \<Rightarrow> 'a mm" where
  "m_read f = eread (\<lambda>m. Inr (f (mc_fs m)))"

definition m_fs :: "(fs \<Rightarrow> fs) \<Rightarrow> unit mm" where
  "m_fs f = emodify (\<lambda>m. m\<lparr>mc_fs := f (mc_fs m)\<rparr>)"

text \<open>A change of an entry, refused on some paths.\<close>

definition m_change :: "ppath \<Rightarrow> (fs \<Rightarrow> fs) \<Rightarrow> unit mm" where
  "m_change p f m = (if p \<in> set (mc_refuses m) then (Inl (Raised (path_str p)), m) else m_fs f m)"

definition os_mkdir :: "ppath \<Rightarrow> nat \<Rightarrow> unit mm" where
  "os_mkdir p mode m =
     (if x_lookup (mc_fs m) p \<noteq> None \<or> \<not> x_is_dir (mc_fs m) (path_parent p) then (Inl (Raised (path_str p)), m)
      else m_change p (x_put p (EDir (mc_umask m mode))) m)"

text \<open>\<open>mkdir(parents=True)\<close>: missing ancestors get the default mode.\<close>

definition m_mkdir :: "ppath \<Rightarrow> bool \<Rightarrow> nat \<Rightarrow> unit mm" where
  "m_mkdir p exist_ok mode =
     eseq (each_e (\<lambda>q m. if x_exists (mc_fs m) q then (Inr (), m) else os_mkdir q 511 m) (rev (path_parents p)))
       (\<lambda>m. if x_exists (mc_fs m) p then
               (if exist_ok \<and> x_is_dir (mc_fs m) p then (Inr (), m) else (Inl (Raised (path_str p)), m))
             else os_mkdir p mode m)"

fun with_mode :: "nat \<Rightarrow> entry \<Rightarrow> entry" where
  "with_mode k (EFile m c) = EFile k c"
| "with_mode k (EDir m) = EDir k"
| "with_mode k (ELink t) = ELink (map_option (with_mode k) t)"

definition m_chmod :: "ppath \<Rightarrow> nat \<Rightarrow> unit mm" where
  "m_chmod p mode m =
     (case x_lookup (mc_fs m) p of
        None \<Rightarrow> (Inl (Raised (path_str p)), m)
      | Some e \<Rightarrow>
          if x_exists (mc_fs m) p then m_change p (x_put p (with_mode mode e)) m
          else (Inl (Raised (path_str p)), m))"

definition m_unlink :: "ppath \<Rightarrow> unit mm" where
  "m_unlink p m =
     (case x_lookup (mc_fs m) p of
        None \<Rightarrow> (Inl (Raised (path_str p)), m)
      | Some (EDir k) \<Rightarrow> (Inl (Raised (path_str p)), m)
      | Some e \<Rightarrow> m_change p (x_delete p) m)"

definition m_rmdir :: "ppath \<Rightarrow> unit mm" where
  "m_rmdir p m =
     (case x_lookup (mc_fs m) p of
        Some (EDir k) \<Rightarrow>
          if x_children (mc_fs m) p = [] then m_change p (x_delete p) m else (Inl (Raised (path_str p)), m)
      | _ \<Rightarrow> (Inl (Raised (path_str p)), m))"

definition m_iterdir :: "ppath \<Rightarrow> string list mm" where
  "m_iterdir p m =
     (case x_lookup (mc_fs m) p of
        Some (EDir k) \<Rightarrow> (Inr (x_children (mc_fs m) p), m)
      | _ \<Rightarrow> (Inl (Raised (path_str p)), m))"

text \<open>
  \<open>_atomic_write\<close>: the parent is made first; then a temporary file replaces the entry. A refusal
  removes the temporary file and is reported as \<open>IO_ERROR\<close>.
\<close>

definition cannot_write :: "ppath \<Rightarrow> manager_error" where
  "cannot_write p = io_error (''cannot atomically write '' @ path_str p @ '': '' @ path_str p) []"

definition atomic_write :: "ppath \<Rightarrow> string \<Rightarrow> nat \<Rightarrow> unit mm" where
  "atomic_write p t mode =
     eseq (m_mkdir (path_parent p) True 448)
       (\<lambda>m. if p \<in> set (mc_refuses m) \<or> (case x_lookup (mc_fs m) p of Some (EDir k) \<Rightarrow> True | _ \<Rightarrow> False)
             then (Inl (Managed (cannot_write p)), m)
             else m_fs (x_put p (EFile mode (Text t))) m)"

section \<open>What the observers see\<close>

definition x_stat :: "entry option \<Rightarrow> stat_result" where
  "x_stat e =
     (case e of
        None \<Rightarrow> StatMissing
      | Some (EFile m c) \<Rightarrow> StatOk T_REG m
      | Some (EDir m) \<Rightarrow> StatOk T_DIR m
      | Some (ELink t) \<Rightarrow> StatOk T_LINK 511)"

definition x_text :: "entry option \<Rightarrow> text_result" where
  "x_text e =
     (case e of
        None \<Rightarrow> TextMissing ''No such file or directory''
      | Some (EFile m (Text t)) \<Rightarrow> TextOk (universal_newlines t)
      | Some (EFile m Bytes) \<Rightarrow> TextUndecodable
      | Some _ \<Rightarrow> TextError ''Is a directory'')"

text \<open>
  \<open>view\<close> gives the answers that do not come from the file system: access rights, systemd and the
  table of listeners.
\<close>

definition host_of :: "(machine \<Rightarrow> host) \<Rightarrow> machine \<Rightarrow> host" where
  "host_of view m =
     (view m)\<lparr>h_lstat := \<lambda>p. x_stat (x_lookup (mc_fs m) p),
       h_stat := \<lambda>p. x_stat (x_follow (x_lookup (mc_fs m) p)),
       h_text := \<lambda>p. x_text (x_follow (x_lookup (mc_fs m) p)),
       h_entries := \<lambda>p. if x_is_dir (mc_fs m) p then Some (x_children (mc_fs m) p) else None\<rparr>"

end
