(* ===== verification/Operator.thy ===== *)
theory Operator
  imports Planning
begin

text \<open>
  What operators and their tools are shown (operator_contracts.py): the fingerprint of a reviewed
  plan with the observations it rests on, the labels of operations, the template of a new
  declaration, and the state derived from a declaration and a status document.
\<close>

section \<open>The reviewed plan\<close>

definition observed_input :: "(string \<Rightarrow> string) \<Rightarrow> host \<Rightarrow> resource \<Rightarrow> json" where
  "observed_input H h r =
     (let ob = observe_resource H h r; u = observe_unit h (unit_name_of r) in
      JObj ([(''resource_id'', JStr (r_id r)), (''status'', JStr (obs_status_value (ob_status ob))),
             (''detail'', JStr (ob_detail ob))] @
            (if has_unit r then
               [(''unit'', JObj [(''loaded'', JBool (uo_loaded u)), (''enabled'', JBool (uo_enabled u)),
                                 (''active'', JBool (uo_active u)), (''detail'', opt_str (uo_detail u))])]
             else [])))"

definition observed_plan_inputs :: "(string \<Rightarrow> string) \<Rightarrow> host \<Rightarrow> gen_bundle \<Rightarrow> json list" where
  "observed_plan_inputs H h b = map (observed_input H h) (sort_by r_id (b_resources b))"

definition plan_payload :: "(string \<Rightarrow> string) \<Rightarrow> plan \<Rightarrow> gen_bundle \<Rightarrow> json list \<Rightarrow> json" where
  "plan_payload H p b observed =
     JObj [(''contract_version'', JInt 1), (''execution_precondition_version'', JInt 1),
           (''instance_id'', JStr (pl_instance p)), (''desired_fingerprint'', JStr (pl_fingerprint p)),
           (''valid'', JBool (pl_valid p)),
           (''operations'', JArr (map (\<lambda>i. JObj
              [(''operation'', JStr (plan_op_value (pi_op i))), (''target'', JStr (pi_target i)),
               (''resource_id'', opt_str (pi_rid i))]) (pl_items p))),
           (''desired_resources'', JArr (map (\<lambda>r. JObj
              [(''resource_id'', JStr (r_id r)), (''kind'', JStr (kind_value (r_kind r))),
               (''path'', JStr (r_path r)), (''fingerprint'', JStr (resource_fingerprint H r))])
              (sort_by r_id (b_resources b)))),
           (''observed_inputs'', JArr observed)]"

definition plan_fingerprint :: "(string \<Rightarrow> string) \<Rightarrow> plan \<Rightarrow> gen_bundle \<Rightarrow> json list \<Rightarrow> string" where
  "plan_fingerprint H p b observed = H (dumps_compact (plan_payload H p b observed))"

section \<open>Labels\<close>

definition label_table :: "(string \<times> string) list" where
  "label_table =
     [(''mcp-unit'', ''MCP service''), (''tunnel-unit'', ''Tunnel service''),
      (''admission-guard-unit'', ''recovery guard service''), (''state-dir'', ''instance state directory''),
      (''state-owner'', ''instance ownership marker''), (''access-root'', ''access root''),
      (''access-owner'', ''access ownership marker''), (''access-ignore'', ''access ignore policy''),
      (''dev-git-identity'', ''Git identity''), (''dev-git-transport'', ''Git transport'')]"

definition access_label :: "string \<Rightarrow> string option" where
  "access_label rid =
     (case find (\<lambda>m. prefix (''access-'' @ fst m @ ''-'') rid)
        [(''ro'', ''RO''), (''rx'', ''RX''), (''rw'', ''RW''), (''rwx'', ''RWX'')] of
        None \<Rightarrow> None
      | Some (m, up) \<Rightarrow>
          Some (up @ '' access '' @ dq @ drop (length (''access-'' @ m @ ''-'')) rid @ dq))"

definition resource_label :: "string option \<Rightarrow> string \<Rightarrow> string" where
  "resource_label rid target =
     (case rid of
        None \<Rightarrow> target
      | Some k \<Rightarrow>
          (case access_label k of
             Some l \<Rightarrow> l
           | None \<Rightarrow>
               (case map_of label_table k of
                  Some l \<Rightarrow> l
                | None \<Rightarrow> map (\<lambda>c. if c = CHR ''-'' then CHR '' '' else c) k)))"

fun op_verb :: "plan_op \<Rightarrow> string" where
  "op_verb P_CREATE = ''Add''"
| "op_verb P_UPDATE = ''Update''"
| "op_verb P_ENABLE = ''Enable''"
| "op_verb P_DISABLE = ''Disable''"
| "op_verb P_START = ''Start''"
| "op_verb P_STOP = ''Stop''"
| "op_verb P_RESTART = ''Restart''"
| "op_verb P_REMOVE = ''Remove''"
| "op_verb P_NOOP = ''No change''"
| "op_verb P_CONFLICT = ''Blocked''"

definition semantic_plan_operations :: "plan \<Rightarrow> json" where
  "semantic_plan_operations p =
     JArr (map (\<lambda>i. JObj
       [(''operation'', JStr (plan_op_value (pi_op i))), (''resource_id'', opt_str (pi_rid i)),
        (''target'', JStr (pi_target i)),
        (''description'', JStr (op_verb (pi_op i) @ '' '' @ resource_label (pi_rid i) (pi_target i)))])
       (pl_items p))"

section \<open>The template\<close>

text \<open>The two runtimes are those of the running distribution (distribution_runtime.py).\<close>

definition template_defaults :: "manager_paths \<Rightarrow> string \<Rightarrow> string \<Rightarrow> json" where
  "template_defaults ps mcp_runtime tunnel_runtime =
     (let home = path_str (account_home ps) in
      JObj
       [(''config_version'', JInt 2), (''instance_id'', JStr []), (''workspace_path'', JStr []),
        (''lifecycle'', JObj [(''deployment'', JStr ''present''), (''runtime'', JStr ''stopped'')]),
        (''mcp'', JObj
          [(''binary'', JStr mcp_runtime), (''host'', JStr ''127.0.0.1''), (''port'', JNull),
           (''permission_mode'', JStr ''trusted''), (''shell_env_inherit'', JStr ''all''),
           (''exec_path'', JStr (home @ ''/.local/bin:/usr/local/bin:/usr/bin:/bin'')),
           (''external_roots'', JArr [])]),
        (''tunnel'', JObj
          [(''binary'', JStr tunnel_runtime), (''id'', JStr []), (''profile'', JStr []),
           (''health_host'', JStr ''127.0.0.1''), (''health_port'', JNull),
           (''env_file'', JStr (path_str (path_div (path_div (path_div (account_home ps) ''.config'')
              ''tunnel-client'') ''runtime.env'')))]),
        (''access'', JObj [(''read_only'', JArr []), (''read_write'', JArr [])]),
        (''github'', JObj [(''mode'', JStr ''disabled''), (''config_dir'', JNull), (''binary'', JNull)]),
        (''git'', JObj [(''identity'', JNull), (''remote'', JNull)]),
        (''agent'', JObj [(''mode'', JStr ''none''), (''ssh_auth_sock'', JNull)]),
        (''recovery'', JObj [(''admission_guard_enabled'', JBool False), (''guard_interval_seconds'', JInt 30),
                             (''recovery_cooldown_seconds'', JInt 120)])])"

definition required_operator_fields :: "string list" where
  "required_operator_fields =
     [''instance_id'', ''workspace_path'', ''mcp.port'', ''tunnel.id'', ''tunnel.health_port'']"

definition operator_template :: "manager_paths \<Rightarrow> string \<Rightarrow> string \<Rightarrow> json" where
  "operator_template ps mcp_runtime tunnel_runtime =
     JObj [(''ok'', JBool True), (''template_version'', JInt 3), (''config_version'', JInt 2),
           (''defaults'', template_defaults ps mcp_runtime tunnel_runtime),
           (''required_operator_fields'', strs required_operator_fields)]"

section \<open>The derived state\<close>

text \<open>\<open>v.get(k)\<close>, \<open>str(v.get(k, ''))\<close>, truth, and the list a key holds.\<close>

definition text_of :: "json \<Rightarrow> string \<Rightarrow> string" where
  "text_of v k = (case jget v k of Some (JStr s) \<Rightarrow> s | Some x \<Rightarrow> repr_json x | None \<Rightarrow> [])"

fun truthy :: "json \<Rightarrow> bool" where
  "truthy JNull = False"
| "truthy (JBool b) = b"
| "truthy (JInt i) = (i \<noteq> 0)"
| "truthy (JReal r) = (\<not> real_eq_int r 0)"
| "truthy (JStr s) = (s \<noteq> [])"
| "truthy (JArr xs) = (xs \<noteq> [])"
| "truthy (JObj kvs) = (kvs \<noteq> [])"

definition list_at :: "json \<Rightarrow> string \<Rightarrow> json list option" where
  "list_at v k = (case jget v k of Some (JArr xs) \<Rightarrow> Some xs | _ \<Rightarrow> None)"

text \<open>A mapping under a key, or the empty one.\<close>

definition object_at :: "json \<Rightarrow> string \<Rightarrow> json" where
  "object_at v k = (case jget v k of Some (JObj kvs) \<Rightarrow> JObj kvs | _ \<Rightarrow> JObj [])"

definition unit_runtime :: "json option \<Rightarrow> string" where
  "unit_runtime unit =
     (case unit of
        Some (JObj kvs) \<Rightarrow>
          (let v = JObj kvs; code = jget v ''query_exit_code'';
               load = text_of v ''LoadState''; active = text_of v ''ActiveState''; sub = text_of v ''SubState'' in
           if \<not> (code = Some (JStr ''0'') \<or> (\<exists>x \<in> set_option code. eq_int x 0)) then ''Unknown''
           else if load \<in> {''not-found'', ''masked''} then ''Stopped''
           else if active = ''failed'' then ''Failed''
           else if active = ''active'' \<and> sub \<notin> {''dead'', ''failed''} then ''Running''
           else if active = ''inactive'' \<or> sub = ''dead'' then ''Stopped''
           else ''Unknown'')
      | _ \<Rightarrow> ''Unknown'')"

definition probe_state :: "bool \<Rightarrow> json option \<Rightarrow> string" where
  "probe_state readiness probe =
     (case probe of
        Some (JObj kvs) \<Rightarrow>
          (case jget (JObj kvs) ''http_status'' of
             Some (JInt i) \<Rightarrow>
               if 200 \<le> i \<and> i < 300 then (if readiness then ''Ready'' else ''Healthy'')
               else (if readiness then ''Not ready'' else ''Failed'')
           | _ \<Rightarrow> ''Unknown'')
      | _ \<Rightarrow> ''Unknown'')"

definition is_noop :: "json \<Rightarrow> bool" where
  "is_noop i \<longleftrightarrow> is_obj i \<and> jget i ''operation'' = Some (JStr ''NOOP'')"

definition reconciliation :: "json \<Rightarrow> string" where
  "reconciliation status =
     (case jget status ''plan'' of
        Some (JObj kvs) \<Rightarrow>
          (let p = JObj kvs in
           if jget p ''valid'' = Some (JBool False) then ''Blocked''
           else if jget p ''valid'' \<noteq> Some (JBool True) then ''Unknown''
           else (case list_at p ''operations'' of
                   None \<Rightarrow> ''Unknown''
                 | Some ops \<Rightarrow> if list_all is_noop ops then ''Applied'' else ''Pending''))
      | _ \<Rightarrow> ''Unknown'')"

definition has_residual :: "json \<Rightarrow> bool" where
  "has_residual status \<longleftrightarrow>
     (case list_at (object_at status ''plan'') ''operations'' of
        Some ops \<Rightarrow> list_ex (\<lambda>i. is_obj i \<and> jget i ''operation'' \<noteq> Some (JStr ''NOOP'')) ops
      | None \<Rightarrow> False) \<or>
     (case jget status ''units'' of
        Some (JObj kvs) \<Rightarrow> list_ex (\<lambda>(_, u). unit_runtime (Some u) \<in> {''Running'', ''Failed''}) kvs
      | _ \<Rightarrow> False)"

definition recovery_state :: "bool \<Rightarrow> json \<Rightarrow> string" where
  "recovery_state absent_clean status =
     (if absent_clean then ''Not applicable''
      else if (case jget (object_at status ''applied'') ''error'' of Some e \<Rightarrow> truthy e | None \<Rightarrow> False)
      then ''Required''
      else
        (case list_at status ''recent_transaction_evidence'' of
           None \<Rightarrow> ''Unknown''
         | Some txs \<Rightarrow>
             if txs = [] then ''Clean''
             else
               (let latest = last txs in
                if \<not> is_obj latest then ''Unknown''
                else if (case jget latest ''error'' of Some e \<Rightarrow> truthy e | None \<Rightarrow> False) then ''Required''
                else
                  (case jget latest ''status'' of
                     None \<Rightarrow> ''Clean''
                   | Some st \<Rightarrow>
                       if st = JStr ''running'' then ''In progress''
                       else if st = JStr ''failed'' then ''Required''
                       else if st \<notin> {JStr ''succeeded'', JNull} then ''Unknown''
                       else ''Clean''))))"

record operator_state =
  os_desired :: string
  os_runtime :: string
  os_health :: string
  os_tunnel :: string
  os_reconciliation :: string
  os_recovery :: string
  os_attention :: "string list"

definition desired_absent :: "desired_instance \<Rightarrow> bool" where
  "desired_absent d \<longleftrightarrow> li_deployment (di_lifecycle d) = ABSENT"

definition desired_running :: "desired_instance \<Rightarrow> bool" where
  "desired_running d \<longleftrightarrow> is_present d \<and> li_runtime (di_lifecycle d) = RUNNING"

definition desired_stopped :: "desired_instance \<Rightarrow> bool" where
  "desired_stopped d \<longleftrightarrow> is_present d \<and> li_runtime (di_lifecycle d) = STOPPED"

definition mcp_health :: "bool \<Rightarrow> string \<Rightarrow> json \<Rightarrow> string" where
  "mcp_health running runtime endpoints =
     (if runtime = ''Failed'' then ''Failed''
      else if runtime = ''Stopped'' \<and> running then ''Degraded''
      else if runtime = ''Running'' then probe_state False (jget endpoints ''mcp_discovery'')
      else ''Unknown'')"

definition attention_reasons :: "desired_instance \<Rightarrow> bool \<Rightarrow> operator_state \<Rightarrow> string list" where
  "attention_reasons d residual s =
     (if desired_running d \<and> os_runtime s \<noteq> ''Running''
      then [''Expected running; observed '' @ lower_string (os_runtime s)] else []) @
     (if desired_stopped d \<and> os_runtime s = ''Running''
      then [''Unexpected runtime: desired stopped but observed running''] else []) @
     (if desired_absent d \<and> residual
      then [''Residual runtime/resources remain for absent deployment''] else []) @
     (if desired_running d \<and> os_health s \<in> {''Degraded'', ''Failed'', ''Unknown''}
      then [''MCP health is '' @ lower_string (os_health s)] else []) @
     (if desired_running d \<and> os_tunnel s \<noteq> ''Ready''
      then [''Tunnel is '' @ lower_string (os_tunnel s)] else []) @
     (if os_reconciliation s = ''Pending'' then [''Pending reconciliation'']
      else if os_reconciliation s = ''Blocked'' then [''Reconciliation blocked'']
      else if os_reconciliation s = ''Unknown'' then [''Reconciliation state unknown''] else []) @
     (if os_recovery s = ''Required'' then [''Recovery required'']
      else if os_recovery s = ''In progress'' then [''Recovery in progress'']
      else if os_recovery s = ''Unknown'' then [''Recovery state unknown''] else [])"

definition derive_operator_state :: "desired_instance \<Rightarrow> json \<Rightarrow> operator_state" where
  "derive_operator_state d status =
     (let residual = has_residual status;
          progress = reconciliation status;
          absent_clean = desired_absent d \<and> \<not> residual \<and> progress = ''Applied'';
          runtime = (if absent_clean then ''Not applicable''
                     else unit_runtime (jget (object_at status ''units'') ''mcp-unit''));
          endpoints = object_at status ''endpoints'';
          quiet = absent_clean \<or> desired_stopped d \<and> runtime = ''Stopped'';
          s = \<lparr>os_desired = (if desired_absent d then ''Absent''
                            else if desired_running d then ''Present + Running'' else ''Present + Stopped''),
               os_runtime = runtime,
               os_health = (if quiet then ''Not applicable'' else mcp_health (desired_running d) runtime endpoints),
               os_tunnel = (if quiet then ''Not applicable''
                            else probe_state True (jget endpoints ''tunnel_ready'')),
               os_reconciliation = progress, os_recovery = recovery_state absent_clean status, os_attention = []\<rparr>
      in s\<lparr>os_attention := attention_reasons d residual s\<rparr>)"

end
