(* ===== verification/Systemd.thy ===== *)
theory Systemd
  imports HostFs Redaction Operator
begin

text \<open>
  The adapter to the user's systemd (host_apply.py, \<open>SystemdUserAdapter\<close>, \<open>_run\<close>). Systemd, the
  journal, the network and the passing of time are outside the repository: their answers are the
  fields of a record the operations take. Only \<open>systemctl\<close> verbs and the time spent sleeping
  change the machine; a clock in milliseconds advances by at least the time slept.
\<close>

record systemd =
  sd_run :: "string list \<Rightarrow> machine \<Rightarrow> proc_result \<times> machine"
  sd_active :: "string \<Rightarrow> machine \<Rightarrow> proc_result"
  sd_show :: "string \<Rightarrow> machine \<Rightarrow> proc_result"
  sd_journal :: "string \<Rightarrow> int \<Rightarrow> machine \<Rightarrow> proc_result"
  sd_verify :: "(string \<times> string) list \<Rightarrow> machine \<Rightarrow> proc_result"
  sd_transient :: "string list \<Rightarrow> machine \<Rightarrow> proc_result"
  sd_http :: "string \<Rightarrow> machine \<Rightarrow> int option"
  sd_pass :: "machine \<Rightarrow> machine"
  sd_late :: "machine \<Rightarrow> nat"
  sd_view :: "machine \<Rightarrow> host"
  sd_now :: "machine \<Rightarrow> string"

definition tail_of :: "nat \<Rightarrow> string \<Rightarrow> string" where
  "tail_of n s = drop (length s - n) s"

definition first_text :: "string \<Rightarrow> string \<Rightarrow> string" where
  "first_text a b = (if a \<noteq> [] then a else b)"

definition proc_detail :: "string \<Rightarrow> string \<Rightarrow> string" where
  "proc_detail out err = tail_of 2000 (redact_text (strip (first_text err out)))"

text \<open>\<open>_run\<close>: a command that cannot be run raises, one that fails only with \<open>check\<close>.\<close>

definition run_result :: "string \<Rightarrow> proc_result \<Rightarrow> exn + (int \<times> string \<times> string)" where
  "run_result argv0 r =
     (case r of
        ProcError e \<Rightarrow> Inl (Managed (io_error (''command failed to execute: '' @ argv0 @ '': '' @ e) []))
      | ProcDone rc out err \<Rightarrow> Inr (rc, out, err))"

definition run_checked :: "string list \<Rightarrow> proc_result \<Rightarrow> exn + (int \<times> string \<times> string)" where
  "run_checked argv r =
     rbind (run_result (hd argv) r) (\<lambda>(rc, out, err).
     if rc \<noteq> 0 then
       Inl (Managed (io_error (''command failed: '' @ join_with '' '' (take 3 argv))
         [(''exit_code'', JInt rc), (''detail'', JStr (proc_detail out err))]))
     else Inr (rc, out, err))"

definition systemctl :: "systemd \<Rightarrow> string list \<Rightarrow> (int \<times> string \<times> string) mm" where
  "systemctl E args m = (case sd_run E args m of (r, m') \<Rightarrow> (run_result ''systemctl'' r, m'))"

definition daemon_reload :: "systemd \<Rightarrow> unit mm" where
  "daemon_reload E =
     ebind (systemctl E [''daemon-reload'']) (\<lambda>(rc, out, err).
     if rc \<noteq> 0 then
       eraise (Managed (io_error ''systemd user daemon-reload failed''
         [(''exit_code'', JInt rc), (''detail'', JStr (proc_detail out err))]))
     else ereturn ())"

definition unit_snapshot :: "systemd \<Rightarrow> string \<Rightarrow> json mm" where
  "unit_snapshot E u =
     eread (\<lambda>m. rbind (run_result ''systemctl'' (sd_show E u m)) (\<lambda>(rc, out, err).
       let values = fold (\<lambda>(k, v). dict_set k (JStr v)) (property_lines out)
             [(''unit'', JStr u), (''query_exit_code'', JInt rc)]
       in Inr (JObj (if rc \<noteq> 0 \<and> strip err \<noteq> []
                     then dict_set ''error'' (JStr (tail_of 1000 (redact_text (strip err)))) values else values))))"

definition journal_tail :: "systemd \<Rightarrow> string \<Rightarrow> int \<Rightarrow> string mm" where
  "journal_tail E u lines =
     eread (\<lambda>m. rbind (run_result ''journalctl'' (sd_journal E u (max 1 (min lines 500)) m)) (\<lambda>(rc, out, err).
       Inr (tail_of 20000 (redact_text (strip (first_text out err))))))"

definition unit_action :: "systemd \<Rightarrow> string \<Rightarrow> string \<Rightarrow> unit mm" where
  "unit_action E verb u =
     ebind (systemctl E [verb, u]) (\<lambda>(rc, out, err).
     if rc = 0 then ereturn ()
     else ebind (unit_snapshot E u) (\<lambda>snapshot.
          ebind (journal_tail E u 80) (\<lambda>log.
          eraise (Managed (io_error (''systemctl --user '' @ verb @ '' failed for '' @ u)
            [(''action'', JStr verb), (''unit'', JStr u), (''exit_code'', JInt rc),
             (''detail'', JStr (proc_detail out err)), (''unit_status'', snapshot), (''journal'', JStr log)])))))"

definition is_active :: "systemd \<Rightarrow> string \<Rightarrow> bool mm" where
  "is_active E u = eread (\<lambda>m. rbind (run_result ''systemctl'' (sd_active E u m)) (\<lambda>(rc, out, err). Inr (rc = 0)))"

text \<open>
  The staging directory is made in the state root; the temporary directory in it is gone when the
  operation ends and is not part of the model.
\<close>

definition staging_parent :: "generator \<Rightarrow> ppath" where
  "staging_parent g = path_div (state_root (gen_paths g)) ''staging''"

definition is_unit_file :: "resource \<Rightarrow> bool" where
  "is_unit_file r \<longleftrightarrow> r_kind r = SYSTEMD_UNIT"

definition verify_generated_units :: "systemd \<Rightarrow> generator \<Rightarrow> gen_bundle \<Rightarrow> unit mm" where
  "verify_generated_units E g b =
     (let units = filter is_unit_file (b_resources b) in
      if units = [] then ereturn ()
      else
        eseq (m_mkdir (staging_parent g) True 448)
        (case find (\<lambda>r. r_content r = None) units of
           Some r \<Rightarrow> eraise (Managed (io_error (''generated systemd resource has no content: '' @ r_id r) []))
         | None \<Rightarrow>
             eread (\<lambda>m. rbind
               (run_checked [''systemd-analyze'', ''--user'', ''verify'']
                 (sd_verify E (map (\<lambda>r. (path_name (path_of (r_path r)),
                    case r_content r of Some t \<Rightarrow> t | None \<Rightarrow> [])) units) m))
               (\<lambda>_. Inr ()))))"

definition bind_folders :: "desired_instance \<Rightarrow> (access_folder \<times> bool) list" where
  "bind_folders d =
     map (\<lambda>f. (f, True)) (ac_read_only (di_access d) @ ac_read_execute (di_access d)) @
     map (\<lambda>f. (f, False)) (ac_read_write (di_access d) @ ac_read_write_execute (di_access d))"

text \<open>
  The arguments of \<open>systemd-run\<close> after the name of the transient unit, which is random; \<open>root\<close> is
  the directory of the mount points.
\<close>

definition preflight_argv :: "desired_instance \<Rightarrow> ppath \<Rightarrow> string list" where
  "preflight_argv d root =
     map (\<lambda>(f, ro). ''--property='' @ (if ro then ''BindReadOnlyPaths'' else ''BindPaths'') @ ''='' @ af_path f @
            '':'' @ path_str (path_div root (af_alias f)) @ '':rbind'') (bind_folders d) @
     map (\<lambda>f. ''--property=NoExecPaths='' @ path_str (path_div root (af_alias f)))
       (ac_read_only (di_access d) @ ac_read_write (di_access d)) @
     [''/usr/bin/true'']"

definition preflight_run :: "systemd \<Rightarrow> desired_instance \<Rightarrow> ppath \<Rightarrow> unit mm" where
  "preflight_run E d root =
     eread (\<lambda>m. rbind (run_result ''systemd-run'' (sd_transient E (preflight_argv d root) m)) (\<lambda>(rc, out, err).
       if rc \<noteq> 0 then
         Inl (Managed (conflict_error ''access namespace preflight failed''
           [(''instance_id'', JStr (di_id d)), (''exit_code'', JInt rc), (''detail'', JStr (proc_detail out err))]))
       else Inr ()))"

definition plain_directory :: "fs \<Rightarrow> ppath \<Rightarrow> bool" where
  "plain_directory fs p \<longleftrightarrow> \<not> x_is_symlink fs p \<and> x_is_dir fs p"

definition check_mount_points :: "desired_instance \<Rightarrow> ppath \<Rightarrow> unit mm" where
  "check_mount_points d root =
     eread (\<lambda>m.
       if \<not> plain_directory (mc_fs m) root then
         Inl (Managed (conflict_error ''access namespace target root is not a directory''
           [(''path'', JStr (path_str root))]))
       else
         (case find (\<lambda>(f, ro). \<not> plain_directory (mc_fs m) (path_div root (af_alias f))) (bind_folders d) of
            Some (f, ro) \<Rightarrow>
              Inl (Managed (conflict_error ''access namespace target mountpoint is not a directory''
                [(''alias'', JStr (af_alias f)), (''path'', JStr (path_str (path_div root (af_alias f))))]))
          | None \<Rightarrow> Inr ()))"

definition preflight_access_namespace ::
  "systemd \<Rightarrow> generator \<Rightarrow> string \<Rightarrow> desired_instance \<Rightarrow> ppath option \<Rightarrow> unit mm" where
  "preflight_access_namespace E g temporary d target =
     (if bind_folders d = [] then ereturn ()
      else
        (case target of
           Some root \<Rightarrow> eseq (check_mount_points d root) (preflight_run E d root)
         | None \<Rightarrow> eseq (m_mkdir (staging_parent g) True 448)
                     (preflight_run E d (path_div (staging_parent g) temporary))))"

text \<open>\<open>time.sleep\<close>.\<close>

definition sleep_ms :: "systemd \<Rightarrow> nat \<Rightarrow> machine \<Rightarrow> machine" where
  "sleep_ms E ms m = (sd_pass E m)\<lparr>mc_clock := mc_clock m + ms + sd_late E m\<rparr>"

end
