(* ===== verification/Transaction.thy ===== *)
theory Transaction
  imports Systemd RecoveryPlan
begin

text \<open>
  The state of an apply in progress (host_apply.py): the machine, the journal the process keeps in
  memory and writes at every step, and the rollback state (\<open>_RollbackState\<close>) that undoes the steps
  taken so far. Backups are copies in a temporary directory that nothing else uses; they are kept in
  the rollback state itself.
\<close>

section \<open>State\<close>

record journal =
  jn_path :: ppath
  jn_head :: "(string \<times> json) list"
  jn_status :: string
  jn_attempted :: "json list"
  jn_executed :: "json list"
  jn_tail :: "(string \<times> json) list"

text \<open>
  A backup: a file with its content and mode, or the git configuration of the workspace. After
  \<open>discard\<close> the copies are gone.
\<close>

datatype saved = SavedFile ppath content nat | SavedConfig "(string \<times> string list) list" | SavedLost

record rollback =
  rb_backups :: "saved list"
  rb_created :: "ppath list"
  rb_state_dirs :: "ppath list"
  rb_removed :: "(ppath \<times> nat) list"
  rb_started :: "string list"
  rb_enabled :: "string list"

definition no_rollback :: rollback where
  "no_rollback = \<lparr>rb_backups = [], rb_created = [], rb_state_dirs = [], rb_removed = [], rb_started = [],
     rb_enabled = []\<rparr>"

record run =
  rn_mc :: machine
  rn_journal :: journal
  rn_rb :: rollback

type_synonym 'a rm = "(run, exn, 'a) em"

definition on_mc :: "'a mm \<Rightarrow> 'a rm" where
  "on_mc c s = (case c (rn_mc s) of (r, m) \<Rightarrow> (r, s\<lparr>rn_mc := m\<rparr>))"

definition note_rb :: "(rollback \<Rightarrow> rollback) \<Rightarrow> unit rm" where
  "note_rb f = emodify (\<lambda>s. s\<lparr>rn_rb := f (rn_rb s)\<rparr>)"

definition on_fs :: "(fs \<Rightarrow> 'a rm) \<Rightarrow> 'a rm" where
  "on_fs f s = f (mc_fs (rn_mc s)) s"

section \<open>The journal\<close>

definition json_text_of :: "json \<Rightarrow> string" where
  "json_text_of v = dumps_indent2 (redact_object v) @ newline"

definition journal_json :: "journal \<Rightarrow> json" where
  "journal_json j =
     JObj (jn_head j @ [(''status'', JStr (jn_status j)), (''attempted'', JArr (jn_attempted j)),
                        (''executed'', JArr (jn_executed j))] @ jn_tail j)"

definition write_journal :: "unit rm" where
  "write_journal s = on_mc (atomic_write (jn_path (rn_journal s)) (json_text_of (journal_json (rn_journal s))) 384) s"

definition journal_entry :: "string \<Rightarrow> string \<Rightarrow> string \<Rightarrow> json" where
  "journal_entry op target at_time =
     JObj [(''operation'', JStr op), (''target'', JStr target), (''at'', JStr at_time)]"

definition note_attempt :: "json \<Rightarrow> run \<Rightarrow> run" where
  "note_attempt e s = s\<lparr>rn_journal := rn_journal s\<lparr>jn_attempted := jn_attempted (rn_journal s) @ [e]\<rparr>\<rparr>"

definition note_executed :: "json \<Rightarrow> run \<Rightarrow> run" where
  "note_executed e s = s\<lparr>rn_journal := rn_journal s\<lparr>jn_executed := jn_executed (rn_journal s) @ [e]\<rparr>\<rparr>"

definition attempt :: "systemd \<Rightarrow> string \<Rightarrow> string \<Rightarrow> unit rm" where
  "attempt E op target s =
     eseq (emodify (note_attempt (journal_entry op target (sd_now E (rn_mc s))))) write_journal s"

definition record_done :: "systemd \<Rightarrow> string \<Rightarrow> string \<Rightarrow> unit rm" where
  "record_done E op target s =
     eseq (emodify (note_executed (journal_entry op target (sd_now E (rn_mc s))))) write_journal s"

definition journaled :: "systemd \<Rightarrow> string \<Rightarrow> string \<Rightarrow> unit rm \<Rightarrow> unit rm" where
  "journaled E op target m = eseq (attempt E op target) (eseq m (record_done E op target))"

section \<open>The rollback state\<close>

definition backup :: "ppath \<Rightarrow> unit rm" where
  "backup p = on_fs (\<lambda>fs.
     if \<not> x_exists fs p \<or> x_is_dir fs p then ereturn ()
     else
       (case x_follow (x_lookup fs p) of
          Some (EFile m c) \<Rightarrow> note_rb (\<lambda>r. r\<lparr>rb_backups := rb_backups r @ [SavedFile p c m]\<rparr>)
        | _ \<Rightarrow> ereturn ()))"

definition note_created :: "ppath \<Rightarrow> unit rm" where
  "note_created p = note_rb (\<lambda>r. r\<lparr>rb_created := rb_created r @ [p]\<rparr>)"

definition note_state_dir :: "ppath \<Rightarrow> unit rm" where
  "note_state_dir p = note_rb (\<lambda>r. r\<lparr>rb_state_dirs := rb_state_dirs r @ [p]\<rparr>)"

definition note_removed :: "ppath \<Rightarrow> nat \<Rightarrow> unit rm" where
  "note_removed p mode = note_rb (\<lambda>r. r\<lparr>rb_removed := rb_removed r @ [(p, mode)]\<rparr>)"

text \<open>
  \<open>restore\<close>, in the order of the code: backups last first, directories, the runtime files of
  state directories this transaction made, and the paths it made, last first. A backup that is not
  UTF-8 raises and ends the whole restoration.
\<close>

definition restore_backup :: "saved \<Rightarrow> unit mm" where
  "restore_backup b =
     (case b of
        SavedFile p (Text t) mode \<Rightarrow>
          eseq (m_mkdir (path_parent p) True 448) (atomic_write p (universal_newlines t) mode)
      | SavedFile p Bytes mode \<Rightarrow> eseq (m_mkdir (path_parent p) True 448) (eraise (Raised (path_str p)))
      | SavedConfig c \<Rightarrow> emodify (\<lambda>m. m\<lparr>mc_git := mc_git m\<lparr>g_config := c\<rparr>\<rparr>)
      | SavedLost \<Rightarrow> eraise (Raised ''backup''))"

definition discard :: "unit rm" where
  "discard = note_rb (\<lambda>r. r\<lparr>rb_backups := map (\<lambda>_. SavedLost) (rb_backups r)\<rparr>)"

definition restore_directory :: "ppath \<times> nat \<Rightarrow> unit mm" where
  "restore_directory d m =
     (case d of (p, mode) \<Rightarrow> if x_exists (mc_fs m) p then (Inr (), m) else m_mkdir p False mode m)"

definition plain_file :: "fs \<Rightarrow> ppath \<Rightarrow> bool" where
  "plain_file fs p \<longleftrightarrow> \<not> x_is_symlink fs p \<and> x_is_file fs p"

text \<open>A child of such a state directory: does it keep the directory's owner marker?\<close>

definition clear_child :: "ppath \<Rightarrow> string \<Rightarrow> machine \<Rightarrow> bool \<times> machine" where
  "clear_child dir name m =
     (if name = ''.owner'' then (False, m)
      else if name \<notin> set runtime_state_files \<or> \<not> plain_file (mc_fs m) (path_div dir name) then (True, m)
      else (case m_unlink (path_div dir name) m of (Inl _, m') \<Rightarrow> (True, m') | (Inr _, m') \<Rightarrow> (False, m')))"

fun clear_children :: "ppath \<Rightarrow> string list \<Rightarrow> machine \<Rightarrow> bool \<times> machine" where
  "clear_children dir [] m = (False, m)"
| "clear_children dir (n # ns) m =
     (case clear_child dir n m of (k, m1) \<Rightarrow>
        (case clear_children dir ns m1 of (k', m2) \<Rightarrow> (k \<or> k', m2)))"

fun clear_state_dirs :: "ppath list \<Rightarrow> machine \<Rightarrow> ppath list \<times> machine" where
  "clear_state_dirs [] m = ([], m)"
| "clear_state_dirs (dir # dirs) m =
     (case (if plain_directory (mc_fs m) dir
            then clear_children dir (x_children (mc_fs m) dir) m else (False, m)) of
        (k, m1) \<Rightarrow>
          (case clear_state_dirs dirs m1 of (keep, m2) \<Rightarrow> ((if k then dir # keep else keep), m2)))"

definition drop_created :: "ppath list \<Rightarrow> ppath \<Rightarrow> unit mm" where
  "drop_created keep p m =
     (if path_name p = ''.owner'' \<and> path_parent p \<in> set keep then (Inr (), m)
      else if plain_directory (mc_fs m) p then
        (if x_children (mc_fs m) p = [] then (Inr (), snd (m_rmdir p m)) else (Inr (), m))
      else (Inr (), snd (m_unlink p m)))"

definition restore :: "rollback \<Rightarrow> unit mm" where
  "restore rb =
     eseq (each_e restore_backup (rev (rb_backups rb)))
     (eseq (each_e restore_directory (rev (rb_removed rb)))
     (\<lambda>m. case clear_state_dirs (rb_state_dirs rb) m of
            (keep, m1) \<Rightarrow> each_e (drop_created keep) (rev (rb_created rb)) m1))"

text \<open>\<open>_rollback\<close>: every part is tried, and what each raises is reported.\<close>

fun exn_text :: "exn \<Rightarrow> string" where
  "exn_text (Managed e) = err_message e"
| "exn_text (Raised t) = t"

definition best_effort :: "string \<Rightarrow> unit mm \<Rightarrow> machine \<Rightarrow> string list \<times> machine" where
  "best_effort what c m =
     (case c m of
        (Inl e, m') \<Rightarrow> ([redact_text (what @ '': '' @ exn_text e)], m')
      | (Inr _, m') \<Rightarrow> ([], m'))"

fun best_efforts :: "(string \<times> unit mm) list \<Rightarrow> machine \<Rightarrow> string list \<times> machine" where
  "best_efforts [] m = ([], m)"
| "best_efforts ((what, c) # cs) m =
     (case best_effort what c m of (errs, m1) \<Rightarrow>
        (case best_efforts cs m1 of (errs', m2) \<Rightarrow> (errs @ errs', m2)))"

definition rollback_steps :: "systemd \<Rightarrow> rollback \<Rightarrow> (string \<times> unit mm) list" where
  "rollback_steps E rb =
     map (\<lambda>u. (''stop '' @ u, unit_action E ''stop'' u)) (rev (rb_started rb)) @
     map (\<lambda>u. (''disable '' @ u, unit_action E ''disable'' u)) (rev (rb_enabled rb)) @
     [(''restore resources'', restore rb), (''daemon-reload'', daemon_reload E)]"

definition roll_back :: "systemd \<Rightarrow> rollback \<Rightarrow> machine \<Rightarrow> json \<times> machine" where
  "roll_back E rb m =
     (case best_efforts (rollback_steps E rb) m of
        (errs, m') \<Rightarrow> (JObj [(''ok'', JBool (errs = [])), (''errors'', strs errs)], m'))"

end
