(* ===== verification/HostApply.thy ===== *)
theory HostApply
  imports Transaction
begin

text \<open>
  The execution of a plan on the host (host_apply.py, \<open>HostApplyService\<close>): resources, git settings
  and units are changed in the order of the code, each step journaled before and after, and the
  result is qualified. The transaction around it and the service are in the theory Apply.
\<close>

section \<open>Resources by identifier\<close>

type_synonym resource_map = "(string \<times> resource) list"

definition set_default :: "resource \<Rightarrow> resource_map \<Rightarrow> resource_map" where
  "set_default r rs = (if map_of rs (r_id r) = None then rs @ [(r_id r, r)] else rs)"

definition resource_map :: "gen_bundle \<Rightarrow> resource list \<Rightarrow> resource_map" where
  "resource_map b stale = fold set_default stale (fold (\<lambda>r. dict_set (r_id r) r) (b_resources b) [])"

definition rid_text :: "plan_item \<Rightarrow> string" where
  "rid_text i = (case pi_rid i of Some k \<Rightarrow> k | None \<Rightarrow> [])"

definition unknown_resource :: "plan_item \<Rightarrow> manager_error" where
  "unknown_resource i =
     io_error (''plan references unknown generated resource: '' @
       (case pi_rid i of Some k \<Rightarrow> k | None \<Rightarrow> ''None'')) []"

definition resource_of :: "resource_map \<Rightarrow> plan_item \<Rightarrow> resource res" where
  "resource_of rs i = (case map_of rs (rid_text i) of None \<Rightarrow> Inl (unknown_resource i) | Some r \<Rightarrow> Inr r)"

definition is_unit_item :: "resource_map \<Rightarrow> plan_item \<Rightarrow> bool" where
  "is_unit_item rs i \<longleftrightarrow>
     (case pi_rid i of
        None \<Rightarrow> False
      | Some k \<Rightarrow> (case map_of rs k of Some r \<Rightarrow> is_unit_file r | None \<Rightarrow> False))"

section \<open>Creating and updating\<close>

definition make_directory :: "resource \<Rightarrow> ppath \<Rightarrow> unit rm" where
  "make_directory r p =
     eseq
       (on_fs (\<lambda>fs.
          if x_exists fs p then ereturn ()
          else
            eseq (on_mc (m_mkdir p False (r_mode r)))
            (eseq (note_created p) (ewhen (r_id r = ''state-dir'') (note_state_dir p)))))
       (on_mc (m_chmod p (r_mode r)))"

definition write_file :: "resource \<Rightarrow> ppath \<Rightarrow> unit rm" where
  "write_file r p =
     (case r_content r of
        None \<Rightarrow> eraise (Managed (io_error (''generated resource has no content: '' @ r_id r) []))
      | Some t \<Rightarrow>
          eseq (on_fs (\<lambda>fs. ewhen (\<not> x_exists fs p) (note_created p)))
            (on_mc (atomic_write p t (r_mode r))))"

definition apply_resource :: "systemd \<Rightarrow> resource_map \<Rightarrow> plan_item \<Rightarrow> unit rm" where
  "apply_resource E rs i =
     ebind (eread (\<lambda>_. managed (resource_of rs i))) (\<lambda>r.
     let p = path_of (r_path r) in
     eseq (on_fs (\<lambda>fs. ewhen (pi_op i = P_UPDATE \<and> x_exists fs p) (backup p)))
       (journaled E (plan_op_value (pi_op i)) (path_str p)
          (if r_kind r = DIRECTORY then make_directory r p else write_file r p)))"

section \<open>Removing\<close>

definition no_destruction :: "string \<Rightarrow> (string \<times> json) list \<Rightarrow> exn" where
  "no_destruction msg details = Managed (conflict_error msg details)"

text \<open>
  \<open>_validate_destructive_operations\<close>: units are only stopped for resources that are removed, every
  removed resource still carries its owner, and a state directory holds nothing but its marker and
  the known runtime files. The guard that should skip kept resources reads an attribute no resource
  has and never applies.
\<close>

definition check_unit_owned :: "plan_item list \<Rightarrow> plan_item \<Rightarrow> exn + unit" where
  "check_unit_owned removals i =
     (if pi_op i \<in> {P_STOP, P_DISABLE} \<and> pi_rid i \<notin> set (map pi_rid removals) then
        Inl (no_destruction (''refusing to mutate unit without verified manager ownership: '' @ pi_target i)
          [(''operation'', JStr (plan_op_value (pi_op i))), (''unit'', JStr (pi_target i)),
           (''resource_id'', opt_str (pi_rid i))])
      else Inr ())"

definition check_removable :: "(string \<Rightarrow> string) \<Rightarrow> host \<Rightarrow> resource_map \<Rightarrow> plan_item \<Rightarrow> exn + unit" where
  "check_removable H h rs i =
     rbind (managed (resource_of rs i)) (\<lambda>r.
     let ob = observe_resource H h r in
     if ob_status ob \<in> {O_EXACT, O_DIFFERENT} then Inr ()
     else Inl (no_destruction
       (''refusing destructive operation without current ownership evidence: '' @ r_path r)
       [(''resource_id'', JStr (r_id r)), (''observation'', JStr (obs_status_value (ob_status ob))),
        (''detail'', JStr (ob_detail ob))]))"

definition check_state_child :: "fs \<Rightarrow> ppath \<Rightarrow> string \<Rightarrow> exn + unit" where
  "check_state_child fs dir name =
     (let p = path_div dir name in
      if name = ''.owner'' then
        (if plain_file fs p then Inr ()
         else Inl (no_destruction (''refusing removal with unexpected ownership-marker type: '' @ path_str p) []))
      else if name \<notin> set runtime_state_files then
        Inl (no_destruction (''refusing removal with unknown manager-state content: '' @ path_str p) [])
      else if plain_file fs p then Inr ()
      else Inl (no_destruction (''refusing removal with unexpected runtime-state type: '' @ path_str p) []))"

definition check_state_directory :: "resource_map \<Rightarrow> plan_item list \<Rightarrow> machine \<Rightarrow> exn + unit" where
  "check_state_directory rs removals m =
     (if \<not> list_ex (\<lambda>i. pi_rid i = Some ''state-dir'') removals then Inr ()
      else
        (case map_of rs ''state-dir'' of
           None \<Rightarrow> Inr ()
         | Some r \<Rightarrow>
             (let dir = path_of (r_path r) in
              case fst (m_iterdir dir m) of
                Inl e \<Rightarrow> Inl (no_destruction
                  (''cannot verify manager state directory before removal: '' @ path_str dir)
                  [(''detail'', JStr (redact_text (exn_text e)))])
              | Inr names \<Rightarrow>
                  rbind (traverse (check_state_child (mc_fs m) dir) names) (\<lambda>_. Inr ()))))"

definition validate_destructive ::
  "systemd \<Rightarrow> (string \<Rightarrow> string) \<Rightarrow> resource_map \<Rightarrow> plan_item list \<Rightarrow> unit mm" where
  "validate_destructive E H rs items =
     (let removals = filter (\<lambda>i. pi_op i = P_REMOVE) items in
      eread (\<lambda>m.
        rbind (traverse (check_unit_owned removals) items) (\<lambda>_.
        rbind (traverse (check_removable H (host_of (sd_view E) m) rs) removals) (\<lambda>_.
        check_state_directory rs removals m))))"

definition remove_runtime_file :: "ppath \<Rightarrow> string \<Rightarrow> unit rm" where
  "remove_runtime_file dir name =
     (let p = path_div dir name in
      if name \<notin> set runtime_state_files then ereturn ()
      else on_fs (\<lambda>fs.
        if \<not> plain_file fs p then
          eraise (no_destruction (''refusing to remove unexpected runtime-state type: '' @ path_str p) [])
        else eseq (backup p) (on_mc (m_unlink p))))"

definition remove_known_runtime_state :: "ppath \<Rightarrow> unit rm" where
  "remove_known_runtime_state dir = ebind (on_mc (m_iterdir dir)) (each_e (remove_runtime_file dir))"

definition remove_directory :: "resource \<Rightarrow> ppath \<Rightarrow> unit rm" where
  "remove_directory r p = on_fs (\<lambda>fs.
     if \<not> plain_directory fs p then
       eraise (no_destruction (''refusing to remove non-directory '' @ path_str p) [])
     else
       eseq (ewhen (r_id r = ''state-dir'') (remove_known_runtime_state p))
       (ebind (on_mc (m_iterdir p)) (\<lambda>names.
        if names \<noteq> [] then
          eraise (no_destruction (''refusing to remove non-empty directory '' @ path_str p) [])
        else eseq (on_mc (m_rmdir p)) (note_removed p (r_mode r)))))"

definition remove_resource :: "systemd \<Rightarrow> plan_item \<times> resource \<Rightarrow> unit rm" where
  "remove_resource E ir =
     (case ir of (i, r) \<Rightarrow>
        let p = path_of (r_path r) in
        on_fs (\<lambda>fs.
          if \<not> x_exists fs p \<and> \<not> x_is_symlink fs p then ereturn ()
          else
            journaled E (plan_op_value (pi_op i)) (path_str p)
              (if r_kind r = DIRECTORY then remove_directory r p
               else eseq (backup p) (on_mc (m_unlink p)))))"

text \<open>Files first, then the deepest directories.\<close>

definition path_depth :: "ppath \<Rightarrow> nat" where
  "path_depth p = length (pp_parts p) + (if pp_root p = [] then 0 else 1)"

definition removal_key :: "resource \<Rightarrow> nat \<times> int" where
  "removal_key r = ((if r_kind r = DIRECTORY then 1 else 0), - int (path_depth (path_of (r_path r))))"

definition removal_order :: "resource_map \<Rightarrow> plan_item list \<Rightarrow> (plan_item \<times> resource) list res" where
  "removal_order rs items =
     rbind (traverse (\<lambda>i. rbind (resource_of rs i) (\<lambda>r. Inr (i, r))) items) (\<lambda>pairs.
     Inr (sort_by (\<lambda>ir. removal_key (snd ir)) pairs))"

definition remove_resources :: "systemd \<Rightarrow> resource_map \<Rightarrow> plan_item list \<Rightarrow> unit rm" where
  "remove_resources E rs items =
     ebind (eread (\<lambda>_. managed (removal_order rs items))) (each_e (remove_resource E))"

section \<open>Git settings\<close>

definition git_resource_ids :: "string list" where
  "git_resource_ids = [''dev-git-identity'', ''dev-git-transport'']"

definition is_git_item :: "plan_item \<Rightarrow> bool" where
  "is_git_item i \<longleftrightarrow> pi_rid i \<in> set (map Some git_resource_ids)"

definition on_git :: "unit gm \<Rightarrow> unit mm" where
  "on_git c m = (case c (mc_git m) of (r, gs) \<Rightarrow> (managed r, m\<lparr>mc_git := gs\<rparr>))"

text \<open>The configuration file the backup is taken of can be resolved.\<close>

definition config_resolved :: "git_state \<Rightarrow> unit res" where
  "config_resolved gs =
     require (g_found gs) git_missing
     (require (g_tree gs) (conflict_error ''cannot resolve repository-local Git config path'' []) (Inr ()))"

definition save_config :: "unit rm" where
  "save_config s =
     (case config_resolved (mc_git (rn_mc s)) of
        Inl e \<Rightarrow> (Inl (Managed e), s)
      | Inr _ \<Rightarrow> note_rb (\<lambda>r. r\<lparr>rb_backups := rb_backups r @ [SavedConfig (g_config (mc_git (rn_mc s)))]\<rparr>) s)"

definition apply_git_item :: "systemd \<Rightarrow> generator \<Rightarrow> desired_instance \<Rightarrow> plan_item \<Rightarrow> unit rm" where
  "apply_git_item E g d i =
     journaled E (plan_op_value (pi_op i)) (pi_target i)
       (on_mc (on_git (if pi_rid i = Some ''dev-git-identity'' then converge_identity d
                       else converge_transport g d)))"

definition apply_development :: "systemd \<Rightarrow> generator \<Rightarrow> desired_instance \<Rightarrow> plan_item list \<Rightarrow> unit rm" where
  "apply_development E g d items =
     (let pending = filter (\<lambda>i. is_git_item i \<and> pi_op i \<noteq> P_NOOP) items in
      if pending = [] then ereturn ()
      else eseq save_config (each_e (apply_git_item E g d) pending))"

section \<open>Units\<close>

definition unit_priority :: "bool \<Rightarrow> string \<Rightarrow> nat \<times> string" where
  "unit_priority start u =
     ((if start then
         (if prefix ''workspace-mcp-ssh-agent-'' u then 5
          else if prefix ''coding-tools-mcp-'' u then 10
          else if contains ''admission-guard'' u then 20
          else if prefix ''tunnel-client-'' u then 30 else 50)
       else
         (if prefix ''tunnel-client-'' u then 10
          else if contains ''admission-guard'' u then 20
          else if prefix ''coding-tools-mcp-'' u then 30
          else if prefix ''workspace-mcp-ssh-agent-'' u then 40 else 50)), u)"

definition ordered_unit_ops :: "bool \<Rightarrow> plan_op list \<Rightarrow> plan_item list \<Rightarrow> plan_item list" where
  "ordered_unit_ops start accepted items =
     sort_by (\<lambda>i. unit_priority start (pi_target i)) (filter (\<lambda>i. pi_op i \<in> set accepted) items)"

definition note_started :: "string \<Rightarrow> unit rm" where
  "note_started u = note_rb (\<lambda>r. r\<lparr>rb_started := rb_started r @ [u]\<rparr>)"

definition note_enabled :: "string \<Rightarrow> unit rm" where
  "note_enabled u = note_rb (\<lambda>r. r\<lparr>rb_enabled := rb_enabled r @ [u]\<rparr>)"

definition reload_units :: "systemd \<Rightarrow> unit rm" where
  "reload_units E = journaled E ''DAEMON_RELOAD'' ''systemd --user'' (on_mc (daemon_reload E))"

definition enable_unit :: "systemd \<Rightarrow> plan_item \<Rightarrow> unit rm" where
  "enable_unit E i =
     journaled E (plan_op_value (pi_op i)) (pi_target i)
       (eseq (on_mc (unit_action E ''enable'' (pi_target i))) (note_enabled (pi_target i)))"

definition run_unit :: "systemd \<Rightarrow> string \<Rightarrow> string \<Rightarrow> string \<Rightarrow> unit rm" where
  "run_unit E op verb u =
     ebind (on_mc (is_active E u)) (\<lambda>was_active.
     journaled E op u
       (eseq (on_mc (unit_action E verb u)) (ewhen (\<not> was_active) (note_started u))))"

definition start_unit :: "systemd \<Rightarrow> plan_item \<Rightarrow> unit rm" where
  "start_unit E i =
     run_unit E (plan_op_value (pi_op i)) (if pi_op i = P_START then ''start'' else ''restart'') (pi_target i)"

definition retire :: "systemd \<Rightarrow> string \<Rightarrow> plan_item \<Rightarrow> unit rm" where
  "retire E verb i =
     journaled E (plan_op_value (pi_op i)) (pi_target i) (on_mc (unit_action E verb (pi_target i)))"

definition retire_units :: "systemd \<Rightarrow> plan_item list \<Rightarrow> unit rm" where
  "retire_units E items =
     eseq (each_e (retire E ''stop'') (ordered_unit_ops False [P_STOP] items))
       (each_e (retire E ''disable'') (ordered_unit_ops False [P_DISABLE] items))"

definition core_runtime_units :: "gen_bundle \<Rightarrow> string list" where
  "core_runtime_units b =
     List.map_filter
       (\<lambda>k. case find (\<lambda>r. r_id r = k) (rev (b_resources b)) of
              Some r \<Rightarrow> (if unit_name_of r = [] then None else Some (unit_name_of r))
            | None \<Rightarrow> None)
       [''mcp-unit'', ''tunnel-unit'']"

section \<open>The plan\<close>

definition file_items :: "plan_item list \<Rightarrow> plan_item list" where
  "file_items items = filter (\<lambda>i. pi_op i \<in> {P_CREATE, P_UPDATE}) (filter (\<lambda>i. \<not> is_git_item i) items)"

definition access_items :: "plan_item list \<Rightarrow> plan_item list" where
  "access_items items = filter (\<lambda>i. prefix ''access-'' (rid_text i)) (file_items items)"

definition removals_of :: "plan_item list \<Rightarrow> plan_item list" where
  "removals_of items = filter (\<lambda>i. pi_op i = P_REMOVE) (filter (\<lambda>i. \<not> is_git_item i) items)"

definition execute_files ::
  "systemd \<Rightarrow> generator \<Rightarrow> string \<Rightarrow> desired_instance \<Rightarrow> resource_map \<Rightarrow> plan_item list \<Rightarrow> unit rm" where
  "execute_files E g temporary d rs items =
     eseq (each_e (apply_resource E rs) (access_items items))
     (eseq (ewhen (bind_folders d \<noteq> [])
              (on_mc (preflight_access_namespace E g temporary d (Some (access_root d)))))
       (each_e (apply_resource E rs)
          (filter (\<lambda>i. i \<notin> set (access_items items)) (file_items items))))"

definition execute_removals ::
  "systemd \<Rightarrow> (string \<Rightarrow> string) \<Rightarrow> resource_map \<Rightarrow> plan_item list \<Rightarrow> unit rm" where
  "execute_removals E H rs removals =
     (if removals = [] then ereturn ()
      else
        eseq (on_mc (validate_destructive E H rs removals))
        (eseq (remove_resources E rs removals)
          (ewhen (list_ex (is_unit_item rs) removals) (reload_units E))))"

definition execute_present ::
  "systemd \<Rightarrow> (string \<Rightarrow> string) \<Rightarrow> generator \<Rightarrow> string \<Rightarrow> desired_instance \<Rightarrow> gen_bundle \<Rightarrow> bool \<Rightarrow> resource_map \<Rightarrow>
     string list \<Rightarrow> string list \<Rightarrow> plan_item list \<Rightarrow> unit rm" where
  "execute_present E H g temporary d b force rs gids dids items =
     eseq (execute_files E g temporary d rs items)
     (eseq (apply_development E g d items)
     (eseq (ewhen (list_ex (is_unit_item rs) (file_items items)) (reload_units E))
     (eseq (each_e (enable_unit E) (ordered_unit_ops True [P_ENABLE] items))
     (eseq (each_e (start_unit E) (ordered_unit_ops True [P_START, P_RESTART] items))
     (eseq (ewhen (force \<and> li_runtime (di_lifecycle d) = RUNNING)
              (each_e (run_unit E ''FORCE_RESTART'' ''restart'') (core_runtime_units b)))
     (eseq (retire_units E (filter (\<lambda>i. pi_rid i \<in> set (map Some gids)) items))
     (eseq (retire_units E (filter (\<lambda>i. pi_rid i \<in> set (map Some dids)) items))
       (execute_removals E H rs (removals_of items)))))))))"

definition execute_absent ::
  "systemd \<Rightarrow> (string \<Rightarrow> string) \<Rightarrow> generator \<Rightarrow> desired_instance \<Rightarrow> resource_map \<Rightarrow> plan_item list \<Rightarrow> unit rm" where
  "execute_absent E H g d rs items =
     (let resource_items = filter (\<lambda>i. \<not> is_git_item i) items in
      eseq (on_mc (validate_destructive E H rs resource_items))
      (eseq (retire_units E resource_items)
      (eseq (apply_development E g d items)
      (eseq (remove_resources E rs (removals_of items))
        (ewhen (list_ex (is_unit_item rs) (removals_of items)) (reload_units E))))))"

definition stale_resources ::
  "systemd \<Rightarrow> (string \<Rightarrow> string) \<Rightarrow> generator \<Rightarrow> desired_instance \<Rightarrow> gen_bundle \<Rightarrow>
     (resource list \<times> resource list \<times> resource list) mm" where
  "stale_resources E H g d b =
     eread (\<lambda>m. let h = host_of (sd_view E) m in
       managed (rbind (stale_access H (gen_paths g) h d b) (\<lambda>access.
         rbind (stale_guard H (gen_paths g) h d b) (\<lambda>guard.
         rbind (stale_development H (gen_paths g) h d b) (\<lambda>development.
         Inr (access, guard, development))))))"

text \<open>\<open>_execute\<close> of the base service, and of the service the lifecycle commands use (lifecycle.py).\<close>

definition execute_base ::
  "systemd \<Rightarrow> (string \<Rightarrow> string) \<Rightarrow> generator \<Rightarrow> string \<Rightarrow> desired_instance \<Rightarrow> gen_bundle \<Rightarrow> bool \<Rightarrow> plan \<Rightarrow> unit rm" where
  "execute_base E H g temporary d b force p =
     ebind (on_mc (stale_resources E H g d b)) (\<lambda>(access, guard, development).
     let rs = resource_map b (access @ guard @ development) in
     if is_present d then
       execute_present E H g temporary d b force rs (map r_id guard) (map r_id development) (pl_items p)
     else execute_absent E H g d rs (pl_items p))"

definition execute ::
  "systemd \<Rightarrow> (string \<Rightarrow> string) \<Rightarrow> generator \<Rightarrow> string \<Rightarrow> desired_instance \<Rightarrow> gen_bundle \<Rightarrow> bool \<Rightarrow> plan \<Rightarrow> unit rm" where
  "execute E H g temporary d b force p =
     eseq (ewhen (is_present d) (each_e (retire E ''stop'') (ordered_unit_ops False [P_STOP] (pl_items p))))
       (execute_base E H g temporary d b force p)"

end
