(* ===== verification/Apply.thy ===== *)
theory Apply
  imports HostApply
begin

text \<open>
  The apply service (host_apply.py, \<open>HostApplyService.apply\<close>) with the override of lifecycle.py:
  locks and maintenance, verification, review of the plan, recovery of a failed first apply, and the
  journaled transaction with its qualification, its evidence file and its rollback. The registry's
  files are kept apart from those of the resources, as in the planner. Random names and the limit on
  waiting are parameters.
\<close>

record names =
  nm_transaction :: string
  nm_recovery :: string
  nm_temporary :: string

section \<open>Qualification\<close>

definition http_url :: "string \<Rightarrow> int \<Rightarrow> string \<Rightarrow> string" where
  "http_url host port path = ''http://'' @ host @ '':'' @ show_int port @ path"

definition opt_int :: "int option \<Rightarrow> json" where
  "opt_int v = (case v of Some i \<Rightarrow> JInt i | None \<Rightarrow> JNull)"

definition managed_agent_unit :: "desired_instance \<Rightarrow> string option" where
  "managed_agent_unit d = (if ag_mode (di_agent d) = AGENT_MANAGED then Some (agent_unit_name (di_id d)) else None)"

text \<open>One observation of the loop: is the instance ready, and what was seen.\<close>

definition readiness :: "systemd \<Rightarrow> desired_instance \<Rightarrow> machine \<Rightarrow> exn + (bool \<times> json)" where
  "readiness E d m =
     rbind (fst (is_active E (mcp_unit_name (di_id d)) m)) (\<lambda>mcp.
     rbind (fst (is_active E (tunnel_unit_name (di_id d)) m)) (\<lambda>tunnel.
     rbind (case managed_agent_unit d of None \<Rightarrow> Inr True | Some u \<Rightarrow> fst (is_active E u m)) (\<lambda>agent.
     let discovery = sd_http E (http_url (mcp_host (di_mcp d)) (mcp_port (di_mcp d)) ''/.well-known/mcp.json'') m;
         base = http_url (tun_health_host (di_tunnel d)) (tun_health_port (di_tunnel d));
         health = sd_http E (base ''/healthz'') m;
         ready = sd_http E (base ''/readyz'') m
     in Inr (mcp \<and> tunnel \<and> agent \<and> discovery = Some 200 \<and> health = Some 200 \<and> ready = Some 200,
          JObj [(''mcp_unit_active'', JBool mcp), (''tunnel_unit_active'', JBool tunnel),
                (''agent_unit_active'', JBool agent), (''discovery'', opt_int discovery),
                (''health'', opt_int health), (''ready'', opt_int ready)]))))"

text \<open>The loop ends because the clock passes the deadline: every round sleeps half a second.\<close>

function wait_ready ::
  "systemd \<Rightarrow> (machine \<Rightarrow> exn + (bool \<times> json)) \<Rightarrow> nat \<Rightarrow> json \<Rightarrow> json option mm" where
  "wait_ready E probe deadline seen m =
     (if mc_clock m < deadline then
        (case probe m of
           Inl e \<Rightarrow> (Inl e, m)
         | Inr (True, now) \<Rightarrow> (Inr None, m)
         | Inr (False, now) \<Rightarrow> wait_ready E probe deadline now (sleep_ms E 500 m))
      else (Inr (Some seen), m))"
  by pat_completeness auto
termination
  by (relation "measure (\<lambda>(E, probe, deadline, seen, m). deadline - mc_clock m)") (auto simp: sleep_ms_def)

declare wait_ready.simps [simp del]

definition not_ready :: "systemd \<Rightarrow> desired_instance \<Rightarrow> json \<Rightarrow> unit mm" where
  "not_ready E d seen =
     (let mcp = mcp_unit_name (di_id d); tunnel = tunnel_unit_name (di_id d) in
      ebind (unit_snapshot E mcp) (\<lambda>s1. ebind (unit_snapshot E tunnel) (\<lambda>s2.
      ebind (journal_tail E mcp 80) (\<lambda>j1. ebind (journal_tail E tunnel 80) (\<lambda>j2.
      eraise (Managed (conflict_error ''instance did not become ready before timeout''
        [(''last_observation'', seen), (''unit_status'', JObj [(mcp, s1), (tunnel, s2)]),
         (''unit_journals'', JObj [(mcp, JStr j1), (tunnel, JStr j2)])])))))))"

definition qualify :: "systemd \<Rightarrow> nat \<Rightarrow> desired_instance \<Rightarrow> unit mm" where
  "qualify E patience d =
     (if \<not> is_present d \<or> li_runtime (di_lifecycle d) \<noteq> RUNNING then
        ebind (case managed_agent_unit d of None \<Rightarrow> ereturn False | Some u \<Rightarrow> is_active E u) (\<lambda>agent.
        ebind (is_active E (tunnel_unit_name (di_id d))) (\<lambda>tunnel.
        ebind (if tunnel then ereturn True else is_active E (mcp_unit_name (di_id d))) (\<lambda>either_one.
        if either_one \<or> agent
        then eraise (Managed (conflict_error ''runtime units remain active after stop/remove'' []))
        else ereturn ())))
      else
        (\<lambda>m. ebind (wait_ready E (readiness E d) (mc_clock m + patience) (JObj []))
               (\<lambda>seen. case seen of None \<Rightarrow> ereturn () | Some s \<Rightarrow> not_ready E d s) m))"

section \<open>Evidence\<close>

definition owned_entry :: "(string \<Rightarrow> string) \<Rightarrow> resource \<Rightarrow> json" where
  "owned_entry H r =
     JObj [(''resource_id'', JStr (r_id r)), (''kind'', JStr (kind_value (r_kind r))),
           (''path'', JStr (r_path r)), (''fingerprint'', JStr (resource_fingerprint H r))]"

definition applied_payload ::
  "(string \<Rightarrow> string) \<Rightarrow> desired_instance \<Rightarrow> gen_bundle \<Rightarrow> string \<Rightarrow> string \<Rightarrow> json" where
  "applied_payload H d b tx now =
     JObj [(''schema_version'', JInt 1), (''instance_id'', JStr (di_id d)),
           (''desired_fingerprint'', JStr (fingerprint H d)), (''transaction_id'', JStr tx),
           (''last_successful_apply_at'', JStr now),
           (''deployment'', jitem (lifecycle_dict (di_lifecycle d)) ''deployment''),
           (''runtime'', jitem (lifecycle_dict (di_lifecycle d)) ''runtime''),
           (''owned_resources'', JArr (if is_present d then map (owned_entry H) (b_resources b) else []))]"

definition write_applied ::
  "systemd \<Rightarrow> (string \<Rightarrow> string) \<Rightarrow> generator \<Rightarrow> desired_instance \<Rightarrow> gen_bundle \<Rightarrow> string \<Rightarrow> unit mm" where
  "write_applied E H g d b tx m =
     atomic_write (applied_path (gen_paths g) (di_id d)) (json_text_of (applied_payload H d b tx (sd_now E m))) 384 m"

section \<open>The transaction\<close>

definition journal_path :: "generator \<Rightarrow> string \<Rightarrow> string \<Rightarrow> ppath" where
  "journal_path g iid tx = path_div (transaction_dir (gen_paths g) iid) (tx @ ''.json'')"

definition plan_conflict :: "plan \<Rightarrow> exn" where
  "plan_conflict p =
     Managed (conflict_error (''reconciliation plan is not valid for '' @ pl_instance p)
       [(''plan'', plan_dict p), (''conflicts'', JArr (map item_dict (filter is_conflict (pl_items p))))])"

definition planned ::
  "systemd \<Rightarrow> (string \<Rightarrow> string) \<Rightarrow> generator \<Rightarrow> registry_state \<Rightarrow> desired_instance \<Rightarrow> plan mm" where
  "planned E H g reg d = eread (\<lambda>m. managed (plan_for H g reg (host_of (sd_view E) m) (mc_git m) d))"

definition close_journal :: "string \<Rightarrow> (string \<times> json) list \<Rightarrow> journal \<Rightarrow> journal" where
  "close_journal status extra j =
     j\<lparr>jn_status := status, jn_tail := fold (\<lambda>(k, v). dict_set k v) extra (jn_tail j)\<rparr>"

definition finish_journal :: "string \<Rightarrow> (string \<times> json) list \<Rightarrow> unit rm" where
  "finish_journal status extra =
     eseq (emodify (\<lambda>s. s\<lparr>rn_journal := close_journal status extra (rn_journal s)\<rparr>)) write_journal"

definition remaining_items :: "plan \<Rightarrow> plan_item list" where
  "remaining_items p = filter (\<lambda>i. pi_op i \<noteq> P_NOOP) (pl_items p)"

definition check_converged :: "plan \<Rightarrow> unit rm" where
  "check_converged p =
     (if \<not> pl_valid p then eraise (plan_conflict p)
      else if remaining_items p \<noteq> [] then
        eraise (Managed (conflict_error ''post-apply observation is not converged''
          [(''remaining_operations'', JArr (map item_dict (remaining_items p)))]))
      else ereturn ())"

definition transaction_body ::
  "systemd \<Rightarrow> (string \<Rightarrow> string) \<Rightarrow> generator \<Rightarrow> registry_state \<Rightarrow> names \<Rightarrow> nat \<Rightarrow> desired_instance \<Rightarrow> gen_bundle \<Rightarrow>
     bool \<Rightarrow> plan \<Rightarrow> unit rm" where
  "transaction_body E H g reg nm patience d b force p =
     eseq (execute E H g (nm_temporary nm) d b force p)
     (eseq (on_mc (qualify E patience d))
     (ebind (on_mc (planned E H g reg d)) (\<lambda>final.
      eseq (check_converged final)
      (eseq (journaled E ''WRITE_APPLIED'' (path_str (applied_path (gen_paths g) (di_id d)))
              (on_mc (write_applied E H g d b (nm_transaction nm))))
      (eseq discard
        (\<lambda>s. finish_journal ''succeeded''
           [(''completed_at'', JStr (sd_now E (rn_mc s))), (''post_plan'', plan_dict final)] s))))))"

text \<open>The last twenty entries are quoted in the error.\<close>

definition last_entries :: "json list \<Rightarrow> json list" where
  "last_entries xs = drop (length xs - 20) xs"

definition with_transaction :: "names \<Rightarrow> json \<Rightarrow> run \<Rightarrow> exn \<Rightarrow> exn" where
  "with_transaction nm outcome s e =
     (let evidence = redact_object (JObj
            [(''transaction_id'', JStr (nm_transaction nm)), (''journal'', JStr (path_str (jn_path (rn_journal s)))),
             (''attempted'', JArr (last_entries (jn_attempted (rn_journal s)))),
             (''executed'', JArr (last_entries (jn_executed (rn_journal s)))), (''rollback'', outcome)])
      in case e of
           Managed me \<Rightarrow>
             Managed (ManagerError (err_code me) (err_message me)
               (dict_set ''transaction'' evidence (err_details me)))
         | Raised t \<Rightarrow> Managed (io_error (''apply failed: '' @ redact_text t) [(''transaction'', evidence)]))"

definition fail_transaction :: "systemd \<Rightarrow> names \<Rightarrow> exn \<Rightarrow> 'a rm" where
  "fail_transaction E nm e s =
     (case roll_back E (rn_rb s) (rn_mc s) of
        (outcome, m) \<Rightarrow>
          eseq (finish_journal ''failed''
                 [(''completed_at'', JStr (sd_now E m)), (''error'', JStr (redact_text (exn_text e))),
                  (''rollback'', outcome)])
            (\<lambda>s'. (Inl (with_transaction nm outcome s' e), s')) (s\<lparr>rn_mc := m\<rparr>))"

definition new_journal ::
  "systemd \<Rightarrow> (string \<Rightarrow> string) \<Rightarrow> generator \<Rightarrow> string \<Rightarrow> string \<Rightarrow> desired_instance \<Rightarrow> plan \<Rightarrow> machine \<Rightarrow> journal" where
  "new_journal E H g tx action d p m =
     \<lparr>jn_path = journal_path g (di_id d) tx,
      jn_head = [(''schema_version'', JInt 1), (''transaction_id'', JStr tx), (''instance_id'', JStr (di_id d)),
                 (''action'', JStr action), (''desired_fingerprint'', JStr (fingerprint H d)),
                 (''started_at'', JStr (sd_now E m)), (''plan'', plan_dict p)],
      jn_status = ''running'', jn_attempted = [], jn_executed = [], jn_tail = []\<rparr>"

definition transact ::
  "systemd \<Rightarrow> (string \<Rightarrow> string) \<Rightarrow> generator \<Rightarrow> registry_state \<Rightarrow> names \<Rightarrow> nat \<Rightarrow> desired_instance \<Rightarrow> gen_bundle \<Rightarrow>
     bool \<Rightarrow> plan \<Rightarrow> unit rm" where
  "transact E H g reg nm patience d b force p =
     eseq write_journal
       (ecatch (transaction_body E H g reg nm patience d b force p) (fail_transaction E nm))"

section \<open>Recovery of a failed first apply\<close>

definition recovery_journal :: "systemd \<Rightarrow> generator \<Rightarrow> names \<Rightarrow> desired_instance \<Rightarrow> residue \<Rightarrow> machine \<Rightarrow> journal" where
  "recovery_journal E g nm d re m =
     \<lparr>jn_path = journal_path g (di_id d) (nm_recovery nm),
      jn_head = [(''schema_version'', JInt 1), (''transaction_id'', JStr (nm_recovery nm)),
                 (''instance_id'', JStr (di_id d)), (''action'', JStr ''recover-failed-first-apply''),
                 (''started_at'', JStr (sd_now E m)),
                 (''supporting_failed_transaction'', JStr (re_transaction re)),
                 (''retained_runtime_files'', strs (re_runtime_files re)),
                 (''plan'', JObj [(''valid'', JBool True), (''operations'', JArr [JObj
                    [(''operation'', JStr ''CREATE''), (''target'', JStr (re_owner_path re)),
                     (''reason'', JStr ''restore journal-proven ownership after failed first apply''),
                     (''resource_id'', JStr ''state-owner'')]])])],
      jn_status = ''running'', jn_attempted = [], jn_executed = [], jn_tail = []\<rparr>"

definition restore_owner :: "systemd \<Rightarrow> resource \<Rightarrow> residue \<Rightarrow> unit rm" where
  "restore_owner E owner re =
     eseq write_journal
     (eseq (ecatch
        (journaled E ''CREATE'' (re_owner_path re)
          (on_mc (atomic_write (path_of (r_path owner))
             (case r_content owner of Some t \<Rightarrow> t | None \<Rightarrow> []) (r_mode owner))))
        (\<lambda>e s. eseq (finish_journal ''failed''
                 [(''completed_at'', JStr (sd_now E (rn_mc s))), (''error'', JStr (redact_text (exn_text e)))])
               (\<lambda>s'. (Inl (Managed (io_error ''failed to restore manager ownership for residual first-apply state''
                  [(''state_dir'', JStr (re_state_dir re)),
                   (''recovery_journal'', JStr (path_str (jn_path (rn_journal s'))))])), s')) s))
       (\<lambda>s. finish_journal ''succeeded'' [(''completed_at'', JStr (sd_now E (rn_mc s)))] s))"

text \<open>
  The residue is recognised as in the projection of the plan, for any lifecycle; the result is the
  document of the recovery when the owner marker was restored.
\<close>

definition recovery_result :: "residue \<Rightarrow> ppath \<Rightarrow> json" where
  "recovery_result re journal =
     JObj [(''recovered'', JBool True), (''state_dir'', JStr (re_state_dir re)),
           (''restored_owner'', JStr (re_owner_path re)),
           (''retained_runtime_files'', strs (re_runtime_files re)),
           (''supporting_failed_transaction'', JStr (re_transaction re)),
           (''recovery_journal'', JStr (path_str journal))]"

definition recover_failed_first_apply ::
  "systemd \<Rightarrow> generator \<Rightarrow> names \<Rightarrow> desired_instance \<Rightarrow> gen_bundle \<Rightarrow> json option mm" where
  "recover_failed_first_apply E g nm d b m =
     (case (residue_of (gen_paths g) (host_of (sd_view E) m) d b, resource_by_id (rev (b_resources b)) ''state-owner'') of
        (Some re, Some owner) \<Rightarrow>
          (if r_content owner = None then (Inr None, m)
           else
             (case restore_owner E owner re
                \<lparr>rn_mc = m, rn_journal = recovery_journal E g nm d re m, rn_rb = no_rollback\<rparr> of
                (Inl e, s) \<Rightarrow> (Inl e, rn_mc s)
              | (Inr _, s) \<Rightarrow> (Inr (Some (recovery_result re (jn_path (rn_journal s)))), rn_mc s)))
      | _ \<Rightarrow> (Inr None, m))"

section \<open>The service\<close>

text \<open>
  The lock of the instance: its directory and file are made, an existing file is kept (the link of a
  dangling symbolic link is filled). Waiting for the lock is not modelled.
\<close>

definition lock_root :: "generator \<Rightarrow> ppath" where
  "lock_root g = path_div (state_root (gen_paths g)) ''locks''"

fun opened :: "nat \<Rightarrow> entry option \<Rightarrow> entry" where
  "opened mode None = EFile mode (Text [])"
| "opened mode (Some (ELink t)) = ELink (Some (opened mode t))"
| "opened mode (Some e) = e"

definition m_open :: "ppath \<Rightarrow> unit mm" where
  "m_open p m =
     (if x_is_dir (mc_fs m) p then (Inl (Raised (path_str p)), m)
      else m_change p (x_put p (opened (mc_umask m 438) (x_lookup (mc_fs m) p))) m)"

definition take_lock :: "generator \<Rightarrow> string \<Rightarrow> unit mm" where
  "take_lock g iid =
     (let p = path_div (lock_root g) (iid @ ''.lock'') in
      eseq (m_mkdir (lock_root g) True 448) (eseq (m_open p) (m_chmod p 384)))"

definition admitted :: "generator \<Rightarrow> registry_state \<Rightarrow> string \<Rightarrow> string \<Rightarrow> desired_instance mm" where
  "admitted g reg action iid =
     eseq (eread (\<lambda>_. managed (import_coordination reg (state_root (gen_paths g)) iid)))
     (eseq (take_lock g iid)
       (eread (\<lambda>_. managed
          (rbind (get reg iid) (\<lambda>d.
           rbind (assert_maintenance_allows reg (state_root (gen_paths g))
                    (action = ''remove'' \<and> \<not> is_present d) (Some iid)) (\<lambda>_.
           Inr d))))))"

definition reviewed_fingerprint ::
  "systemd \<Rightarrow> (string \<Rightarrow> string) \<Rightarrow> generator \<Rightarrow> desired_instance \<Rightarrow> gen_bundle \<Rightarrow> plan \<Rightarrow> machine \<Rightarrow> string" where
  "reviewed_fingerprint E H g d b p m =
     (let h = host_of (sd_view E) m in
      plan_fingerprint H (project_recoverable (gen_paths g) h d b p) b (observed_plan_inputs H h b))"

definition check_review ::
  "systemd \<Rightarrow> (string \<Rightarrow> string) \<Rightarrow> generator \<Rightarrow> desired_instance \<Rightarrow> gen_bundle \<Rightarrow> string option \<Rightarrow> plan \<Rightarrow> unit mm" where
  "check_review E H g d b expected p m =
     (let current = reviewed_fingerprint E H g d b p m in
      if (case expected of Some e \<Rightarrow> current \<noteq> e | None \<Rightarrow> False) then
        (Inl (Managed (ManagerError STALE_STATE (''reviewed reconciliation is stale for '' @ di_id d)
           [(''instance_id'', JStr (di_id d)), (''expected_plan_fingerprint'', opt_str expected),
            (''current_plan_fingerprint'', JStr current),
            (''current_plan'', plan_dict (project_recoverable (gen_paths g) (host_of (sd_view E) m) d b p))])), m)
      else (Inr (), m))"

definition require_valid :: "plan \<Rightarrow> unit mm" where
  "require_valid p = (if pl_valid p then ereturn () else eraise (plan_conflict p))"

definition recover_or_keep ::
  "systemd \<Rightarrow> (string \<Rightarrow> string) \<Rightarrow> generator \<Rightarrow> registry_state \<Rightarrow> names \<Rightarrow> desired_instance \<Rightarrow> gen_bundle \<Rightarrow> plan \<Rightarrow>
     (json option \<times> plan) mm" where
  "recover_or_keep E H g reg nm d b p =
     (if pl_valid p then ereturn (None, p)
      else ebind (recover_failed_first_apply E g nm d b) (\<lambda>recovery.
           if recovery = None then ereturn (None, p)
           else ebind (planned E H g reg d) (\<lambda>p'. ereturn (recovery, p'))))"

definition prepare ::
  "systemd \<Rightarrow> (string \<Rightarrow> string) \<Rightarrow> generator \<Rightarrow> registry_state \<Rightarrow> names \<Rightarrow> string option \<Rightarrow> desired_instance \<Rightarrow>
     gen_bundle \<Rightarrow> (json option \<times> plan) mm" where
  "prepare E H g reg nm expected d b =
     eseq (ewhen (is_present d) (verify_generated_units E g b))
     (ebind (planned E H g reg d) (\<lambda>initial.
      eseq (check_review E H g d b expected initial)
      (ebind (recover_or_keep E H g reg nm d b initial) (\<lambda>(recovery, recovered).
       eseq (require_valid recovered)
       (ebind (planned E H g reg d) (\<lambda>p.
        eseq (require_valid p)
        (eseq (ewhen (is_present d \<and> bind_folders d \<noteq> [])
                (preflight_access_namespace E g (nm_temporary nm) d None))
          (ereturn (recovery, p)))))))))"

definition apply_result ::
  "(string \<Rightarrow> string) \<Rightarrow> generator \<Rightarrow> names \<Rightarrow> string \<Rightarrow> desired_instance \<Rightarrow> json option \<Rightarrow> json" where
  "apply_result H g nm action d recovery =
     JObj [(''ok'', JBool True), (''action'', JStr action), (''instance_id'', JStr (di_id d)),
           (''transaction_id'', JStr (nm_transaction nm)), (''desired_fingerprint'', JStr (fingerprint H d)),
           (''journal'', JStr (path_str (journal_path g (di_id d) (nm_transaction nm)))),
           (''residual_recovery'', case recovery of None \<Rightarrow> JNull | Some r \<Rightarrow> r)]"

definition start_transaction ::
  "systemd \<Rightarrow> (string \<Rightarrow> string) \<Rightarrow> generator \<Rightarrow> registry_state \<Rightarrow> names \<Rightarrow> nat \<Rightarrow> string \<Rightarrow> desired_instance \<Rightarrow>
     gen_bundle \<Rightarrow> bool \<Rightarrow> plan \<Rightarrow> unit mm" where
  "start_transaction E H g reg nm patience action d b force p m =
     (case transact E H g reg nm patience d b force p
        \<lparr>rn_mc = m, rn_journal = new_journal E H g (nm_transaction nm) action d p m, rn_rb = no_rollback\<rparr> of
        (r, s) \<Rightarrow> (r, rn_mc s))"

definition apply_instance ::
  "systemd \<Rightarrow> (string \<Rightarrow> string) \<Rightarrow> generator \<Rightarrow> registry_state \<Rightarrow> names \<Rightarrow> nat \<Rightarrow> string \<Rightarrow> bool \<Rightarrow> string option \<Rightarrow>
     string \<Rightarrow> json mm" where
  "apply_instance E H g reg nm patience action force expected iid =
     ebind (admitted g reg action iid) (\<lambda>d.
     ebind (eread (\<lambda>_. managed (generate H g (rs_files reg) d))) (\<lambda>b.
     ebind (prepare E H g reg nm expected d b) (\<lambda>(recovery, p).
     eseq (start_transaction E H g reg nm patience action d b force p)
       (ereturn (apply_result H g nm action d recovery)))))"

end
