(* ===== verification/Lifecycle.thy ===== *)
theory Lifecycle
  imports Apply
begin

text \<open>
  The services above the apply transaction (host_apply.py, lifecycle.py): the worker that turns a
  lifecycle command into a new declaration and an apply, the status and log documents, and the answer
  of a worker process as its caller reads it.
\<close>

section \<open>The lifecycle worker\<close>

record manager =
  mg_registry :: registry_state
  mg_machine :: machine

type_synonym 'a sm = "(manager, exn, 'a) em"

definition on_machine :: "'a mm \<Rightarrow> 'a sm" where
  "on_machine c s = (case c (mg_machine s) of (r, m) \<Rightarrow> (r, s\<lparr>mg_machine := m\<rparr>))"

definition with_intent :: "deployment_target \<Rightarrow> runtime_target \<Rightarrow> desired_instance \<Rightarrow> desired_instance" where
  "with_intent dep run d = d\<lparr>di_lifecycle := \<lparr>li_deployment = dep, li_runtime = run\<rparr>\<rparr>"

text \<open>What the command writes to the registry (\<open>None\<close>: nothing), and whether it forces a restart.\<close>

definition intended :: "string \<Rightarrow> desired_instance \<Rightarrow> (desired_instance option \<times> bool) res" where
  "intended action d =
     (let absent = (li_deployment (di_lifecycle d) = ABSENT) in
      if action = ''apply'' then Inr (None, False)
      else if action = ''start'' then
        (if absent then Inl (conflict_error
           ''cannot start an instance whose deployment target is absent; update/create the desired declaration first'' [])
         else Inr (Some (with_intent PRESENT RUNNING d), False))
      else if action = ''stop'' then Inr (Some (with_intent (li_deployment (di_lifecycle d)) STOPPED d), False)
      else if action = ''restart'' then
        (if absent then Inl (conflict_error ''cannot restart an absent deployment'' [])
         else Inr (Some (with_intent PRESENT RUNNING d), True))
      else if action = ''remove'' then Inr (Some (with_intent ABSENT STOPPED d), False)
      else Inl (io_error (''unsupported lifecycle action: '' @ action) []))"

definition register :: "(string \<Rightarrow> string) \<Rightarrow> bool \<Rightarrow> desired_instance \<Rightarrow> desired_instance \<Rightarrow> unit sm" where
  "register H write_ok current d s =
     (case update H write_ok (mg_registry s) d (Some (fingerprint H current)) of
        (r, reg) \<Rightarrow> (managed (rbind r (\<lambda>_. Inr ())), s\<lparr>mg_registry := reg\<rparr>))"

definition run_lifecycle ::
  "systemd \<Rightarrow> (string \<Rightarrow> string) \<Rightarrow> generator \<Rightarrow> bool \<Rightarrow> names \<Rightarrow> nat \<Rightarrow> string \<Rightarrow> string \<Rightarrow> string option \<Rightarrow> json sm" where
  "run_lifecycle E H g write_ok nm patience action iid expected =
     ebind (eread (\<lambda>s. managed (get (mg_registry s) iid))) (\<lambda>d.
     ebind (eread (\<lambda>_. managed (intended action d))) (\<lambda>(new, force).
     eseq (case new of None \<Rightarrow> ereturn () | Some d' \<Rightarrow> register H write_ok d d')
       (\<lambda>s. on_machine (apply_instance E H g (mg_registry s) nm patience action force
               (if action = ''apply'' then expected else None) iid) s)))"

section \<open>Status\<close>

text \<open>The last ten files of the transactions, as evidence.\<close>

definition evidence_entry :: "host \<Rightarrow> ppath \<Rightarrow> string \<Rightarrow> json" where
  "evidence_entry h dir name =
     (let stem = path_stem (path_div dir name);
          broken = (\<lambda>why. JObj [(''transaction_id'', JStr stem), (''status'', JStr ''unknown''),
                                (''error'', JStr why)])
      in case h_text h (path_div dir name) of
           TextOk t \<Rightarrow>
             (case loads t of
                None \<Rightarrow> broken ''transaction evidence is unreadable''
              | Some v \<Rightarrow>
                  if \<not> is_obj v then broken ''transaction evidence is malformed''
                  else JObj [(''transaction_id'', case jget v ''transaction_id'' of Some x \<Rightarrow> x | None \<Rightarrow> JStr stem),
                             (''action'', jget_or_null v ''action''), (''status'', jget_or_null v ''status''),
                             (''desired_fingerprint'', jget_or_null v ''desired_fingerprint''),
                             (''completed_at'', jget_or_null v ''completed_at'')])
         | _ \<Rightarrow> broken ''transaction evidence is unreadable'')"

definition last_of :: "nat \<Rightarrow> 'a list \<Rightarrow> 'a list" where
  "last_of n xs = drop (length xs - n) xs"

definition transaction_files :: "host \<Rightarrow> ppath \<Rightarrow> string list" where
  "transaction_files h dir =
     (if p_is_dir h dir
      then (case h_entries h dir of None \<Rightarrow> [] | Some names \<Rightarrow> sort (filter (suffix ''.json'') names))
      else [])"

definition applied_document :: "host \<Rightarrow> ppath \<Rightarrow> json" where
  "applied_document h p =
     (if \<not> p_is_file h p then JNull
      else
        (case h_text h p of
           TextOk t \<Rightarrow>
             (case loads t of
                None \<Rightarrow> JObj [(''error'', JStr ''applied state is unreadable'')]
              | Some v \<Rightarrow> if is_obj v then v else JNull)
         | _ \<Rightarrow> JObj [(''error'', JStr ''applied state is unreadable'')]))"

definition endpoint_entry :: "systemd \<Rightarrow> machine \<Rightarrow> string \<Rightarrow> json" where
  "endpoint_entry E m url = JObj [(''url'', JStr url), (''http_status'', opt_int (sd_http E url m))]"

definition unit_entries :: "systemd \<Rightarrow> gen_bundle \<Rightarrow> machine \<Rightarrow> exn + (string \<times> json) list" where
  "unit_entries E b m =
     rbind (traverse (\<lambda>r. rbind (fst (unit_snapshot E (unit_name_of r) m)) (\<lambda>v. Inr (r_id r, v)))
              (filter (\<lambda>r. unit_name_of r \<noteq> []) (b_resources b)))
       (\<lambda>entries. Inr (fold (\<lambda>(k, v). dict_set k v) entries []))"

definition status_document ::
  "systemd \<Rightarrow> (string \<Rightarrow> string) \<Rightarrow> generator \<Rightarrow> desired_instance \<Rightarrow> gen_bundle \<Rightarrow> plan \<Rightarrow> (string \<times> json) list \<Rightarrow>
     machine \<Rightarrow> json" where
  "status_document E H g d b p units m =
     (let h = host_of (sd_view E) m; dir = transaction_dir (gen_paths g) (di_id d);
          names = last_of 10 (transaction_files h dir);
          health = http_url (tun_health_host (di_tunnel d)) (tun_health_port (di_tunnel d)) in
      JObj [(''ok'', JBool (pl_valid p)), (''instance_id'', JStr (di_id d)),
            (''desired_fingerprint'', JStr (fingerprint H d)),
            (''lifecycle'', lifecycle_dict (di_lifecycle d)), (''plan'', plan_dict p),
            (''plan_fingerprint'', JStr (plan_fingerprint H p b (observed_plan_inputs H h b))),
            (''units'', JObj units),
            (''endpoints'', JObj
               [(''mcp_discovery'', endpoint_entry E m
                   (http_url (mcp_host (di_mcp d)) (mcp_port (di_mcp d)) ''/.well-known/mcp.json'')),
                (''tunnel_health'', endpoint_entry E m (health ''/healthz'')),
                (''tunnel_ready'', endpoint_entry E m (health ''/readyz''))]),
            (''applied'', applied_document h (applied_path (gen_paths g) (di_id d))),
            (''recent_transactions'', strs names),
            (''recent_transaction_evidence'', JArr (map (evidence_entry h dir) names))])"

definition status_for ::
  "systemd \<Rightarrow> (string \<Rightarrow> string) \<Rightarrow> generator \<Rightarrow> registry_state \<Rightarrow> desired_instance \<Rightarrow> machine \<Rightarrow> exn + json" where
  "status_for E H g reg d m =
     rbind (managed (generate H g (rs_files reg) d)) (\<lambda>b.
     rbind (fst (planned E H g reg d m)) (\<lambda>p.
     rbind (unit_entries E b m) (\<lambda>units.
     Inr (status_document E H g d b
       (project_recoverable (gen_paths g) (host_of (sd_view E) m) d b p) units m))))"

definition status ::
  "systemd \<Rightarrow> (string \<Rightarrow> string) \<Rightarrow> generator \<Rightarrow> registry_state \<Rightarrow> string \<Rightarrow> machine \<Rightarrow> exn + json" where
  "status E H g reg iid m = rbind (managed (get reg iid)) (\<lambda>d. status_for E H g reg d m)"

section \<open>Logs\<close>

definition log_units :: "string \<Rightarrow> resource \<Rightarrow> bool" where
  "log_units category r \<longleftrightarrow> unit_name_of r \<noteq> [] \<and>
     (category = ''all'' \<or> category = ''mcp'' \<and> r_id r = ''mcp-unit'' \<or>
      category = ''tunnel'' \<and> r_id r = ''tunnel-unit'' \<or>
      category = ''recovery'' \<and> r_id r = ''admission-guard-unit'')"

definition log_files :: "string \<Rightarrow> string list" where
  "log_files category =
     filter (\<lambda>n. (category = ''mcp'' \<longrightarrow> n = ''mcp.log'') \<and>
                 (category = ''tunnel'' \<longrightarrow> n \<in> {''tunnel.log'', ''tunnel-supervisor.log''}) \<and>
                 (category = ''recovery'' \<longrightarrow> n = ''admission-guard.log''))
       [''mcp.log'', ''tunnel.log'', ''tunnel-supervisor.log'', ''admission-guard.log'']"

text \<open>\<open>clamp\<close>: at least one line, at most \<open>hi\<close>.\<close>

definition clamp :: "int \<Rightarrow> int \<Rightarrow> nat" where
  "clamp hi n = nat (max 1 (min n hi))"

text \<open>
  \<open>replaced\<close> is the text of a file read with undecodable bytes replaced, or what reading it raised;
  \<open>splitlines\<close> is the one of the Python library.
\<close>

definition log_text :: "(string \<Rightarrow> string list) \<Rightarrow> int \<Rightarrow> string + string \<Rightarrow> string" where
  "log_text splitlines n replaced =
     (case replaced of
        Inl e \<Rightarrow> ''<unreadable: '' @ e @ ''>''
      | Inr t \<Rightarrow> tail_of 20000 (redact_text (join_with newline (last_of (clamp 500 n) (splitlines t)))))"

definition recovery_entry :: "host \<Rightarrow> ppath \<Rightarrow> string \<Rightarrow> string \<times> json" where
  "recovery_entry h dir name =
     (name,
      case h_text h (path_div dir name) of
        TextOk t \<Rightarrow>
          (case loads t of
             None \<Rightarrow> JObj [(''status'', JStr ''unknown''), (''error'', JStr ''unreadable'')]
           | Some v \<Rightarrow> if is_obj v then redact_object v else JObj [(''status'', JStr ''unknown'')])
      | _ \<Rightarrow> JObj [(''status'', JStr ''unknown''), (''error'', JStr ''unreadable'')])"

definition logs ::
  "systemd \<Rightarrow> (string \<Rightarrow> string) \<Rightarrow> generator \<Rightarrow> (string \<Rightarrow> string list) \<Rightarrow> (ppath \<Rightarrow> string + string) \<Rightarrow>
     registry_state \<Rightarrow> string \<Rightarrow> int \<Rightarrow> string \<Rightarrow> machine \<Rightarrow> exn + json" where
  "logs E H g splitlines replaced reg iid n category m =
     (if category \<notin> {''all'', ''mcp'', ''tunnel'', ''recovery''} then
        Inl (Managed (ManagerError CONFIG_INVALID (''unsupported log category: '' @ category) []))
      else
        rbind (managed (get reg iid)) (\<lambda>d.
        rbind (managed (generate H g (rs_files reg) d)) (\<lambda>b.
        rbind (traverse (\<lambda>r. rbind (fst (journal_tail E (unit_name_of r) n m)) (\<lambda>t. Inr (unit_name_of r, JStr t)))
                 (filter (log_units category) (b_resources b))) (\<lambda>journals.
        let h = host_of (sd_view E) m; sd = state_dir (gen_paths g) iid; dir = transaction_dir (gen_paths g) iid
        in Inr (JObj
             [(''ok'', JBool True), (''instance_id'', JStr iid), (''lines'', JInt (max 1 (min n 500))),
              (''category'', JStr category),
              (''journals'', JObj (fold (\<lambda>(k, v). dict_set k v) journals [])),
              (''files'', JObj (map (\<lambda>f. (f, JStr (log_text splitlines n (replaced (path_div sd f)))))
                 (filter (\<lambda>f. p_is_file h (path_div sd f)) (log_files category)))),
              (''recovery'', JObj
                 (if category \<in> {''all'', ''recovery''}
                  then map (recovery_entry h dir) (last_of (clamp 20 n) (transaction_files h dir)) else []))])))))"

section \<open>The answer of a worker process\<close>

text \<open>
  \<open>splitlines\<close> as above. The first of the whole output and its lines from the last on that is a
  JSON object is the answer.
\<close>

definition worker_payload :: "(string \<Rightarrow> string list) \<Rightarrow> string \<Rightarrow> (string \<times> json) list option" where
  "worker_payload splitlines out =
     (if out = [] then None
      else
        (case List.map_filter (\<lambda>c. case loads c of Some (JObj kvs) \<Rightarrow> Some kvs | _ \<Rightarrow> None)
                (out # rev (splitlines out)) of
           [] \<Rightarrow> None
         | kvs # _ \<Rightarrow> Some kvs))"

text \<open>
  An \<open>error\<close> that is not a mapping makes the handler itself fail; \<open>details\<close> are kept as they are
  when they are a mapping.
\<close>

definition all_codes :: "error_code list" where
  "all_codes = [CONFIG_INVALID, CONFIG_VERSION_UNSUPPORTED, INSTANCE_EXISTS, INSTANCE_NOT_FOUND, REGISTRY_INVALID,
     HOST_INSPECTION_FAILED, RECONCILIATION_CONFLICT, STALE_STATE, FEATURE_NOT_IMPLEMENTED, IO_ERROR]"

definition str_json :: "json \<Rightarrow> string" where
  "str_json v = (case v of JStr s \<Rightarrow> s | _ \<Rightarrow> repr_json v)"

definition worker_error :: "json \<Rightarrow> exn" where
  "worker_error e =
     (if \<not> is_obj e then Raised ''get''
      else
        Managed (ManagerError
          (case find (\<lambda>c. jget e ''code'' = Some (JStr (code_value c))) all_codes of Some c \<Rightarrow> c | None \<Rightarrow> IO_ERROR)
          (case jget e ''message'' of None \<Rightarrow> ''host worker failed'' | Some v \<Rightarrow> str_json v)
          (case jget e ''details'' of Some (JObj kvs) \<Rightarrow> kvs | _ \<Rightarrow> [])))"

definition worker_answer :: "(string \<Rightarrow> string list) \<Rightarrow> int \<times> string \<times> string \<Rightarrow> exn + json" where
  "worker_answer splitlines r =
     (case r of (rc, out, err) \<Rightarrow>
        let answer = worker_payload splitlines (strip out) in
        if rc \<noteq> 0 then
          (case answer of
             Some kvs \<Rightarrow>
               (case jget (JObj kvs) ''error'' of
                  Some e \<Rightarrow>
                    if truthy e then Inl (worker_error e)
                    else Inl (Managed (io_error ''host worker failed''
                           [(''exit_code'', JInt rc), (''stderr'', JStr (tail_of 2000 (redact_text (strip err))))]))
                | None \<Rightarrow> Inl (Managed (io_error ''host worker failed''
                    [(''exit_code'', JInt rc), (''stderr'', JStr (tail_of 2000 (redact_text (strip err))))])))
           | None \<Rightarrow> Inl (Managed (io_error ''host worker failed''
               [(''exit_code'', JInt rc), (''stderr'', JStr (tail_of 2000 (redact_text (strip err))))])))
        else
          (case answer of
             None \<Rightarrow> Inl (Managed (io_error ''host worker returned no JSON result'' []))
           | Some kvs \<Rightarrow> Inr (JObj kvs)))"

definition safe_unit_fragment :: "string \<Rightarrow> string" where
  "safe_unit_fragment v =
     (let r = map (\<lambda>c. if alnum c \<or> c \<in> {CHR ''-'', CHR ''_''} then c else CHR ''-'') v;
          dash = (\<lambda>c. c = CHR ''-'');
          s = take 48 (rev (dropWhile dash (rev (dropWhile dash r))))
      in if s = [] then ''operation'' else s)"

end
