(* ===== verification/Journal_Props.thy ===== *)
theory Journal_Props
  imports Apply
begin

text \<open>
  The journal of an apply: every change is announced before it is made and recorded after it, in the
  same order, so that what is recorded is always a subsequence of what was announced; and the order
  in which an instance is retired.
\<close>

section \<open>Relations between the states of a run\<close>

definition entry_pair :: "json \<Rightarrow> json option \<times> json option" where
  "entry_pair e = (jget e ''operation'', jget e ''target'')"

abbreviation announced :: "run \<Rightarrow> (json option \<times> json option) list" where
  "announced s \<equiv> map entry_pair (jn_attempted (rn_journal s))"

abbreviation recorded :: "run \<Rightarrow> (json option \<times> json option) list" where
  "recorded s \<equiv> map entry_pair (jn_executed (rn_journal s))"

definition step_pair :: "string \<Rightarrow> string \<Rightarrow> json option \<times> json option" where
  "step_pair op target = (Some (JStr op), Some (JStr target))"

definition same_journal :: "run \<Rightarrow> run \<Rightarrow> bool" where
  "same_journal s s' \<longleftrightarrow> rn_journal s' = rn_journal s"

definition grows :: "run \<Rightarrow> run \<Rightarrow> bool" where
  "grows s s' \<longleftrightarrow> (subseq (recorded s) (announced s) \<longrightarrow> subseq (recorded s') (announced s')) \<and>
     prefix (announced s) (announced s') \<and> prefix (recorded s) (recorded s') \<and>
     jn_path (rn_journal s') = jn_path (rn_journal s)"

interpretation journal_frame: state_order same_journal
  by unfold_locales (auto simp: same_journal_def)

interpretation journal_order: state_order grows
  by unfold_locales (auto simp: grows_def dest: prefix_order.trans)

lemma same_journal_grows: "keeps same_journal m \<Longrightarrow> keeps grows m"
  by (erule keeps_mono) (simp add: same_journal_def grows_def)

lemma on_fs_keeps: "(\<And>fs. keeps R (f fs)) \<Longrightarrow> keeps R (on_fs f)"
  by (auto simp: keeps_def on_fs_def)

lemma entry_pair_entry [simp]: "entry_pair (journal_entry op target now) = step_pair op target"
  by (simp add: entry_pair_def journal_entry_def jget_def step_pair_def)

lemma on_mc_frame: "keeps same_journal (on_mc c)"
  by (auto simp: keeps_def on_mc_def same_journal_def split: prod.splits)

lemma note_frame: "keeps same_journal (note_rb f)"
  by (auto simp: note_rb_def keeps_def emodify_def same_journal_def)

lemma write_frame: "keeps same_journal write_journal"
  unfolding keeps_def write_journal_def using keepsD [OF on_mc_frame] by blast

lemma backup_frame: "keeps same_journal (backup p)"
  unfolding backup_def
  by (intro on_fs_keeps journal_frame.keeps_rules note_frame) (auto intro: note_frame journal_frame.keeps_rules split: option.splits entry.splits)

lemmas frame_rules = on_mc_frame note_frame write_frame backup_frame on_fs_keeps journal_frame.keeps_rules

lemma attempt_result:
  "attempt E op target s = (r, s') \<Longrightarrow> \<exists>e. entry_pair e = step_pair op target \<and>
     rn_journal s' = rn_journal (note_attempt e s)"
  using keepsD [OF write_frame]
  by (intro exI [of _ "journal_entry op target (sd_now E (rn_mc s))"])
    (auto simp: attempt_def eseq_def emodify_def ebind_def same_journal_def)

lemma record_result:
  "record_done E op target s = (r, s') \<Longrightarrow> \<exists>e. entry_pair e = step_pair op target \<and>
     rn_journal s' = rn_journal (note_executed e s)"
  using keepsD [OF write_frame]
  by (intro exI [of _ "journal_entry op target (sd_now E (rn_mc s))"])
    (auto simp: record_done_def eseq_def emodify_def ebind_def same_journal_def)

text \<open>A journaled step: what it leaves when it ends, and when it raises.\<close>

lemma journaled_result:
  assumes m: "keeps same_journal m" and j: "journaled E op target m s = (r, s')"
  shows "announced s' = announced s @ [step_pair op target] \<and>
    (recorded s' = recorded s @ [step_pair op target] \<or> recorded s' = recorded s \<and> (\<exists>e. r = Inl e)) \<and>
    jn_path (rn_journal s') = jn_path (rn_journal s)"
proof -
  from j show ?thesis unfolding journaled_def eseq_def
  proof (cases rule: ebind_cases)
    case (raised e)
    with attempt_result [OF raised(1)] show ?thesis by (auto simp: note_attempt_def)
  next
    case (went_on x t)
    from attempt_result [OF went_on(1)] have t: "announced t = announced s @ [step_pair op target]"
      "recorded t = recorded s" "jn_path (rn_journal t) = jn_path (rn_journal s)" by (auto simp: note_attempt_def)
    from went_on(2) show ?thesis
    proof (cases rule: ebind_cases)
      case (raised e)
      with t keepsD [OF m raised(1)] show ?thesis by (auto simp: same_journal_def)
    next
      case (went_on y v)
      with t keepsD [OF m went_on(1)] record_result [OF went_on(2)] show ?thesis
        by (auto simp: same_journal_def note_executed_def)
    qed
  qed
qed

lemma journaled_grows: "keeps same_journal m \<Longrightarrow> keeps grows (journaled E op target m)"
proof (rule keepsI)
  fix s r s' assume "keeps same_journal m" "journaled E op target m s = (r, s')"
  from journaled_result [OF this] show "grows s s'"
    by (auto simp: grows_def intro: list_emb_append_mono subseq_append' list_emb_append2)
qed

lemmas grow_rules = journaled_grows on_fs_keeps journal_order.keeps_rules

section \<open>The steps of a transaction\<close>

lemma frames:
  "keeps same_journal (make_directory r p)" "keeps same_journal (write_file r p)"
  "keeps same_journal (remove_directory r p)" "keeps same_journal save_config"
  unfolding make_directory_def write_file_def remove_directory_def remove_known_runtime_state_def
    remove_runtime_file_def Let_def note_created_def note_state_dir_def note_removed_def
  by (intro frame_rules; (intro frame_rules)?)+
    (auto simp: save_config_def keeps_def same_journal_def note_rb_def emodify_def split: sum.splits)

lemma discard_frame: "keeps same_journal discard"
  unfolding discard_def by (rule note_frame)

lemma grow_steps:
  "keeps grows (apply_resource E rs i)" "keeps grows (remove_resource E ir)"
  "keeps grows (apply_git_item E g d i)" "keeps grows (retire E verb i)" "keeps grows (reload_units E)"
  "keeps grows (enable_unit E i)" "keeps grows (run_unit E op verb u)" "keeps grows (start_unit E i)"
  unfolding apply_resource_def remove_resource_def apply_git_item_def retire_def reload_units_def enable_unit_def
    run_unit_def start_unit_def Let_def note_enabled_def note_started_def case_prod_beta
  by (intro grow_rules frames frame_rules same_journal_grows [OF on_mc_frame] same_journal_grows [OF backup_frame])+

lemma grow_phases:
  "keeps grows (remove_resources E rs items)" "keeps grows (apply_development E g d items)"
  "keeps grows (retire_units E items)" "keeps grows (execute_files E g temporary d rs items)"
  "keeps grows (execute_removals E H rs items)"
  unfolding remove_resources_def apply_development_def retire_units_def execute_files_def execute_removals_def Let_def
  by (intro grow_rules grow_steps same_journal_grows [OF on_mc_frame] same_journal_grows [OF frames(4)])+

lemma grow_remove_resources: "keeps grows (remove_resources E rs items)"
  by (rule grow_phases)

lemma grow_execute: "keeps grows (execute E H g temporary d b force p)"
  unfolding execute_def execute_base_def execute_present_def execute_absent_def Let_def case_prod_beta
  by (intro grow_rules grow_steps grow_phases same_journal_grows [OF on_mc_frame])+

lemma grow_finish: "keeps grows (finish_journal status extra)"
  unfolding finish_journal_def
  by (intro journal_order.keeps_seq journal_order.keeps_modify same_journal_grows [OF write_frame])
    (simp add: grows_def close_journal_def)

lemma grow_finish_at: "keeps grows (\<lambda>s. finish_journal (f s) (k s) s)"
  using grow_finish by (fastforce simp: keeps_def)

lemma grow_body: "keeps grows (transaction_body E H g reg nm patience d b force p)"
  unfolding transaction_body_def check_converged_def
  by (intro grow_rules grow_execute same_journal_grows [OF on_mc_frame] on_mc_frame
      same_journal_grows [OF discard_frame] grow_finish_at)+

section \<open>What a completed computation records\<close>





















end
