(* ===== verification/Layout.thy ===== *)
theory Layout
  imports Transaction
begin

text \<open>
  File operations under a layout: an assignment of kinds to paths in which everything above a path
  is a directory. While the file system fits the layout and nothing is refused, making a directory
  and writing a file succeed, and only the file written changes.
\<close>

datatype node_kind = KDir | KFile

type_synonym layout = "ppath \<Rightarrow> node_kind option"

definition tree :: "layout \<Rightarrow> bool" where
  "tree K \<longleftrightarrow> (\<forall>p q. K p \<noteq> None \<longrightarrow> q \<in> set (path_parents p) \<longrightarrow> K q = Some KDir) \<and>
     (\<forall>p. K p = Some KFile \<longrightarrow> pp_parts p \<noteq> [])"

fun kind_of :: "entry \<Rightarrow> node_kind option" where
  "kind_of (EFile m c) = Some KFile"
| "kind_of (EDir m) = Some KDir"
| "kind_of (ELink t) = None"

definition fits :: "layout \<Rightarrow> fs \<Rightarrow> bool" where
  "fits K fs \<longleftrightarrow> (\<forall>p e. map_of fs p = Some e \<longrightarrow> (\<exists>k. kind_of e = Some k \<and> K p = Some k))"

definition fview :: "fs \<Rightarrow> ppath \<Rightarrow> (nat \<times> content) option" where
  "fview fs p = (case map_of fs p of Some (EFile m c) \<Rightarrow> Some (m, c) | _ \<Rightarrow> None)"

text \<open>Nothing but directories is new, and nothing is gone.\<close>

definition only_dirs :: "fs \<Rightarrow> fs \<Rightarrow> bool" where
  "only_dirs fs fs' \<longleftrightarrow>
     (\<forall>p. map_of fs' p = map_of fs p \<or> map_of fs p = None \<and> (\<exists>m. map_of fs' p = Some (EDir m)))"

definition calm :: "layout \<Rightarrow> machine \<Rightarrow> bool" where
  "calm K m \<longleftrightarrow> mc_refuses m = [] \<and> fits K (mc_fs m)"

lemma only_dirs_refl [simp]: "only_dirs fs fs"
  by (simp add: only_dirs_def)

lemma only_dirs_trans: "only_dirs a b \<Longrightarrow> only_dirs b c \<Longrightarrow> only_dirs a c"
  unfolding only_dirs_def by metis

lemma only_dirs_view: "only_dirs fs fs' \<Longrightarrow> fview fs' p = fview fs p"
  unfolding only_dirs_def fview_def by (drule spec [of _ p]) auto

lemma only_dirs_kept: "only_dirs fs fs' \<Longrightarrow> map_of fs p \<noteq> None \<Longrightarrow> map_of fs' p \<noteq> None"
  by (auto simp: only_dirs_def) (metis option.distinct(1))

lemma put_lookup [simp]: "map_of (x_put p e fs) q = (if q = p then Some e else map_of fs q)"
  by (simp add: x_put_def map_of_dict_set)

lemma map_of_filter_key: "map_of (filter (\<lambda>q. fst q \<noteq> p) fs) q = (if q = p then None else map_of fs q)"
  by (induction fs) auto

lemma delete_lookup [simp]: "map_of (x_delete p fs) q = (if q = p then None else map_of fs q)"
  by (simp add: x_delete_def map_of_filter_key)

lemma fits_put: "fits K fs \<Longrightarrow> kind_of e = K p \<Longrightarrow> K p \<noteq> None \<Longrightarrow> fits K (x_put p e fs)"
  unfolding fits_def by (auto split: if_splits)

lemma fits_delete: "fits K fs \<Longrightarrow> fits K (x_delete p fs)"
  unfolding fits_def by (auto split: if_splits)

lemma fits_kind: "fits K fs \<Longrightarrow> map_of fs p = Some e \<Longrightarrow> kind_of e = K p"
  unfolding fits_def by force

lemma fits_cases:
  assumes "fits K fs"
  obtains (absent) "map_of fs p = None" | (dir) m where "map_of fs p = Some (EDir m)" "K p = Some KDir"
    | (reg) m c where "map_of fs p = Some (EFile m c)" "K p = Some KFile"
proof (cases "map_of fs p")
  case None
  then show ?thesis by (rule absent)
next
  case (Some e)
  with assms obtain k where "kind_of e = Some k" "K p = Some k" unfolding fits_def by blast
  with Some dir reg show ?thesis by (cases e) auto
qed

lemma fits_follow: "fits K fs \<Longrightarrow> x_follow (map_of fs p) = map_of fs p"
  by (cases rule: fits_cases [of K fs p]) auto

lemma fits_exists: "fits K fs \<Longrightarrow> pp_parts p \<noteq> [] \<Longrightarrow> x_exists fs p \<longleftrightarrow> map_of fs p \<noteq> None"
  by (simp add: x_exists_def x_lookup_def fits_follow)

lemma root_exists: "pp_parts p = [] \<Longrightarrow> x_exists fs p \<and> x_is_dir fs p"
  by (simp add: x_exists_def x_is_dir_def x_lookup_def)

lemma fits_is_dir: "fits K fs \<Longrightarrow> x_exists fs p \<Longrightarrow> K p = Some KDir \<Longrightarrow> x_is_dir fs p"
  by (cases rule: fits_cases [of K fs p]) (auto simp: x_exists_def x_is_dir_def x_lookup_def split: if_splits)

lemma fits_file:
  assumes "fits K fs" and "K p = Some KFile" and "pp_parts p \<noteq> []"
  shows "\<not> x_is_dir fs p" and "x_exists fs p \<longleftrightarrow> fview fs p \<noteq> None" and "\<not> x_is_symlink fs p"
    and "x_exists fs p \<longleftrightarrow> x_is_file fs p"
  using assms
  by (cases rule: fits_cases [of K fs p];
      simp add: x_exists_def x_is_dir_def x_lookup_def fview_def x_is_symlink_def x_is_file_def)+

lemma tree_parent: "tree K \<Longrightarrow> K p \<noteq> None \<Longrightarrow> q \<in> set (path_parents p) \<Longrightarrow> K q = Some KDir"
  by (auto simp: tree_def)

lemma path_parent_in: "pp_parts p \<noteq> [] \<Longrightarrow> path_parent p \<in> set (path_parents p)"
  by (cases p) (auto simp: in_path_parents path_parent_def intro!: exI [of _ "[last (pp_parts p)]"])

section \<open>Directories\<close>

lemma os_mkdir_ok:
  assumes c: "calm K m" and k: "K p = Some KDir" and n: "\<not> x_exists (mc_fs m) p"
    and par: "x_is_dir (mc_fs m) (path_parent p)"
  shows "os_mkdir p mode m = (Inr (), m\<lparr>mc_fs := x_put p (EDir (mc_umask m mode)) (mc_fs m)\<rparr>)"
    and "only_dirs (mc_fs m) (x_put p (EDir (mc_umask m mode)) (mc_fs m))"
    and "fits K (x_put p (EDir (mc_umask m mode)) (mc_fs m))"
proof -
  have r: "pp_parts p \<noteq> []" using n root_exists by blast
  with c n have nm: "map_of (mc_fs m) p = None" by (simp add: calm_def fits_exists [of K])
  with c par r show "os_mkdir p mode m = (Inr (), m\<lparr>mc_fs := x_put p (EDir (mc_umask m mode)) (mc_fs m)\<rparr>)"
    by (simp add: os_mkdir_def x_lookup_def m_change_def m_fs_def emodify_def calm_def)
  show "only_dirs (mc_fs m) (x_put p (EDir (mc_umask m mode)) (mc_fs m))"
    using nm by (auto simp: only_dirs_def)
  show "fits K (x_put p (EDir (mc_umask m mode)) (mc_fs m))"
    using c k by (simp add: calm_def fits_put)
qed

definition grown :: "layout \<Rightarrow> machine \<Rightarrow> machine \<Rightarrow> bool" where
  "grown K m m' \<longleftrightarrow> (\<exists>fs. m' = m\<lparr>mc_fs := fs\<rparr> \<and> only_dirs (mc_fs m) fs \<and> fits K fs)"

lemma grown_calm: "calm K m \<Longrightarrow> grown K m m' \<Longrightarrow> calm K m'"
  by (auto simp: grown_def calm_def)

lemma grown_trans:
  assumes "grown K a b" and "grown K b c" shows "grown K a c"
proof -
  from assms obtain f g where "b = a\<lparr>mc_fs := f\<rparr>" "only_dirs (mc_fs a) f" "c = b\<lparr>mc_fs := g\<rparr>"
    "only_dirs (mc_fs b) g" "fits K g" by (auto simp: grown_def)
  then have "c = a\<lparr>mc_fs := g\<rparr>" "only_dirs (mc_fs a) g" "fits K g" by (auto intro: only_dirs_trans)
  then show ?thesis unfolding grown_def by blast
qed

lemma grown_refl: "calm K m \<Longrightarrow> grown K m m"
  by (auto simp: grown_def calm_def intro!: exI [of _ "mc_fs m"])

text \<open>The ancestors, outermost first: each one's parent was made just before.\<close>

definition make_ancestor :: "ppath \<Rightarrow> unit mm" where
  "make_ancestor q m = (if x_exists (mc_fs m) q then (Inr (), m) else os_mkdir q 511 m)"

lemma make_ancestor_ok:
  assumes "calm K m" and "K q = Some KDir" and "pp_parts q = [] \<or> x_is_dir (mc_fs m) (path_parent q)"
  shows "\<exists>m'. make_ancestor q m = (Inr (), m') \<and> grown K m m' \<and> x_is_dir (mc_fs m') q \<and>
    (\<forall>p. p \<noteq> q \<longrightarrow> map_of (mc_fs m') p = map_of (mc_fs m) p)"
proof (cases "x_exists (mc_fs m) q")
  case True
  with assms show ?thesis
    by (auto simp: make_ancestor_def calm_def intro: grown_refl fits_is_dir)
next
  case False
  with assms root_exists have par: "x_is_dir (mc_fs m) (path_parent q)" by blast
  note ok = os_mkdir_ok [OF assms(1,2) False par, of 511]
  have "pp_parts q \<noteq> []" using False root_exists by blast
  with False ok show ?thesis
    by (auto simp: make_ancestor_def grown_def x_is_dir_def x_lookup_def)
qed

lemma rev_parents: "rev (path_parents p) = map (\<lambda>n. PPath (pp_root p) (take n (pp_parts p))) [0..<length (pp_parts p)]"
  by (simp add: path_parents_def rev_map)

lemma parent_take:
  "0 < n \<Longrightarrow> n \<le> length ps \<Longrightarrow> path_parent (PPath r (take n ps)) = PPath r (take (n - 1) ps)"
  by (simp add: path_parent_def butlast_take)

lemma make_ancestors_ok:
  assumes "calm K m" and "\<And>n. n < k \<Longrightarrow> K (PPath r (take n ps)) = Some KDir" and "k \<le> length ps"
  shows "\<exists>m'. each_e make_ancestor (map (\<lambda>n. PPath r (take n ps)) [0..<k]) m = (Inr (), m') \<and> grown K m m' \<and>
    (0 < k \<longrightarrow> x_is_dir (mc_fs m') (PPath r (take (k - 1) ps))) \<and>
    (\<forall>p. p \<notin> set (map (\<lambda>n. PPath r (take n ps)) [0..<k]) \<longrightarrow> map_of (mc_fs m') p = map_of (mc_fs m) p)"
  using assms(2,3)
proof (induction k)
  case 0
  from assms(1) show ?case by (auto simp: ereturn_def intro: grown_refl)
next
  case (Suc k)
  then obtain m1 where m1: "each_e make_ancestor (map (\<lambda>n. PPath r (take n ps)) [0..<k]) m = (Inr (), m1)"
    "grown K m m1" "0 < k \<longrightarrow> x_is_dir (mc_fs m1) (PPath r (take (k - 1) ps))"
    "\<And>p. p \<notin> set (map (\<lambda>n. PPath r (take n ps)) [0..<k]) \<Longrightarrow> map_of (mc_fs m1) p = map_of (mc_fs m) p" by auto
  have "pp_parts (PPath r (take k ps)) = [] \<or> x_is_dir (mc_fs m1) (path_parent (PPath r (take k ps)))"
    using m1(3) Suc.prems(2) by (cases k) (auto simp: parent_take)
  from make_ancestor_ok [OF grown_calm [OF assms(1) m1(2)] _ this] Suc.prems(1)
  obtain m2 where m2: "make_ancestor (PPath r (take k ps)) m1 = (Inr (), m2)" "grown K m1 m2"
    "x_is_dir (mc_fs m2) (PPath r (take k ps))"
    "\<And>p. p \<noteq> PPath r (take k ps) \<Longrightarrow> map_of (mc_fs m2) p = map_of (mc_fs m1) p" by auto
  have "each_e make_ancestor (map (\<lambda>n. PPath r (take n ps)) [0..<Suc k]) m = (Inr (), m2)"
    using m1(1) m2(1) by (simp add: each_e_append eseq_def ebind_def ereturn_def)
  moreover have "grown K m m2" using m1(2) m2(2) by (rule grown_trans)
  moreover have "map_of (mc_fs m2) p = map_of (mc_fs m) p"
    if "p \<notin> set (map (\<lambda>n. PPath r (take n ps)) [0..<Suc k])" for p
    using m1(4) [of p] m2(4) [of p] that by auto
  ultimately show ?case using m2(3) by simp
qed

lemma m_mkdir_ok:
  assumes c: "calm K m" and t: "tree K" and k: "K p = Some KDir"
    and e: "exist_ok \<or> \<not> x_exists (mc_fs m) p"
  shows "\<exists>m'. m_mkdir p exist_ok mode m = (Inr (), m') \<and> grown K m m' \<and> x_is_dir (mc_fs m') p"
proof -
  let ?k = "length (pp_parts p)"
  have anc: "K (PPath (pp_root p) (take n (pp_parts p))) = Some KDir" if "n < ?k" for n
    by (rule tree_parent [OF t, of p]) (use that k in \<open>auto simp: path_parents_def\<close>)
  obtain m1 where m1: "each_e make_ancestor (rev (path_parents p)) m = (Inr (), m1)" "grown K m m1"
    "0 < ?k \<longrightarrow> x_is_dir (mc_fs m1) (PPath (pp_root p) (take (?k - 1) (pp_parts p)))"
    "\<forall>q. q \<notin> set (rev (path_parents p)) \<longrightarrow> map_of (mc_fs m1) q = map_of (mc_fs m) q"
    using make_ancestors_ok [OF c anc] unfolding rev_parents by blast
  have calm1: "calm K m1" using grown_calm [OF c m1(2)] .
  have each: "each_e (\<lambda>q m. if x_exists (mc_fs m) q then (Inr (), m) else os_mkdir q 511 m) (rev (path_parents p)) m =
    (Inr (), m1)" using m1(1) unfolding make_ancestor_def .
  show ?thesis
  proof (cases "x_exists (mc_fs m1) p")
    case True
    have "x_is_dir (mc_fs m1) p" using calm1 True k by (auto simp: calm_def intro: fits_is_dir)
    moreover have "exist_ok"
    proof (rule ccontr)
      assume "\<not> exist_ok"
      with e have n: "\<not> x_exists (mc_fs m) p" by simp
      then have r: "pp_parts p \<noteq> []" using root_exists by blast
      have "p \<notin> set (path_parents p)" by (auto simp: in_path_parents)
      with m1(4) n c r have "map_of (mc_fs m1) p = None" by (simp add: calm_def fits_exists [of K])
      with True calm1 r show False by (simp add: calm_def fits_exists [of K])
    qed
    ultimately show ?thesis using True m1(2) each by (auto simp: m_mkdir_def eseq_def ebind_def)
  next
    case False
    then have r: "pp_parts p \<noteq> []" using root_exists by blast
    then have "path_parent p = PPath (pp_root p) (take (?k - 1) (pp_parts p))"
      by (simp add: path_parent_def butlast_conv_take)
    with m1(3) r have "x_is_dir (mc_fs m1) (path_parent p)" by simp
    note ok = os_mkdir_ok [OF calm1 k False this, of mode]
    then have "grown K m1 (m1\<lparr>mc_fs := x_put p (EDir (mc_umask m1 mode)) (mc_fs m1)\<rparr>)" by (auto simp: grown_def)
    with m1(2) grown_trans ok(1) each False r show ?thesis
      by (auto simp: m_mkdir_def eseq_def ebind_def x_is_dir_def x_lookup_def)
  qed
qed

section \<open>Effects on the files\<close>

type_synonym view = "ppath \<Rightarrow> (nat \<times> content) option"

definition sets :: "layout \<Rightarrow> (view \<Rightarrow> view) \<Rightarrow> machine \<Rightarrow> machine \<Rightarrow> bool" where
  "sets K f m m' \<longleftrightarrow> (\<exists>fs. m' = m\<lparr>mc_fs := fs\<rparr> \<and> fits K fs \<and> fview fs = f (fview (mc_fs m)))"

definition no_loss :: "machine \<Rightarrow> machine \<Rightarrow> bool" where
  "no_loss m m' \<longleftrightarrow> (\<forall>q. map_of (mc_fs m) q \<noteq> None \<longrightarrow> map_of (mc_fs m') q \<noteq> None)"

lemma setsI: "fits K fs \<Longrightarrow> fview fs = f (fview (mc_fs m)) \<Longrightarrow> sets K f m (m\<lparr>mc_fs := fs\<rparr>)"
  unfolding sets_def by blast

lemma calm_fits: "calm K m \<Longrightarrow> fits K (mc_fs m)"
  by (simp add: calm_def)

lemma view_delete: "fview (x_delete p fs) = (fview fs)(p := None)"
  by (auto simp: fview_def)

lemma view_put_dir: "fview fs p = None \<Longrightarrow> fview (x_put p (EDir mode) fs) = fview fs"
  by (auto simp: fview_def)

lemma view_kind: "fits K fs \<Longrightarrow> K p \<noteq> Some KFile \<Longrightarrow> fview fs p = None"
  by (cases rule: fits_cases [of K fs p]) (auto simp: fview_def)

lemma setsD:
  assumes "sets K f m m'"
  shows "fview (mc_fs m') = f (fview (mc_fs m))" and "calm K m \<Longrightarrow> calm K m'" and "mc_git m' = mc_git m"
    and "mc_clock m' = mc_clock m" and "mc_refuses m' = mc_refuses m" and "mc_umask m' = mc_umask m"
    and "fits K (mc_fs m')"
  using assms by (auto simp: sets_def calm_def)

lemma sets_trans: "sets K f a b \<Longrightarrow> sets K g b c \<Longrightarrow> sets K (g \<circ> f) a c"
  by (auto simp: sets_def)

lemma sets_refl: "calm K m \<Longrightarrow> sets K id m m"
  by (auto simp: sets_def calm_def intro!: exI [of _ "mc_fs m"])

lemma grown_sets: "grown K m m' \<Longrightarrow> sets K id m m' \<and> no_loss m m'"
  by (auto simp: grown_def sets_def no_loss_def only_dirs_view dest: only_dirs_kept intro!: ext)

lemma mkdir_sets:
  assumes "calm K m" and "tree K" and "K p = Some KDir" and "exist_ok \<or> \<not> x_exists (mc_fs m) p"
  shows "\<exists>m'. m_mkdir p exist_ok mode m = (Inr (), m') \<and> sets K id m m' \<and> no_loss m m' \<and> x_is_dir (mc_fs m') p"
  using m_mkdir_ok [OF assms, of mode] grown_sets by blast

lemma write_sets:
  assumes c: "calm K m" and t: "tree K" and k: "K p = Some KFile"
  shows "\<exists>m'. atomic_write p txt mode m = (Inr (), m') \<and>
    sets K (\<lambda>v. v(p := Some (mode, Text txt))) m m' \<and> no_loss m m'"
proof -
  have r: "pp_parts p \<noteq> []" using t k by (auto simp: tree_def)
  have "K (path_parent p) = Some KDir" using t k path_parent_in [OF r] by (auto simp: tree_def)
  from m_mkdir_ok [OF c t this, of True 448] obtain m1 where
    m1: "m_mkdir (path_parent p) True 448 m = (Inr (), m1)" "grown K m m1" by auto
  have c1: "calm K m1" using grown_calm [OF c m1(2)] .
  let ?m2 = "m1\<lparr>mc_fs := x_put p (EFile mode (Text txt)) (mc_fs m1)\<rparr>"
  have "\<not> (case map_of (mc_fs m1) p of Some (EDir k) \<Rightarrow> True | _ \<Rightarrow> False)"
    by (cases rule: fits_cases [OF calm_fits [OF c1], of p]) (use k in auto)
  with c1 r m1(1) have w: "atomic_write p txt mode m = (Inr (), ?m2)"
    by (simp add: atomic_write_def eseq_def ebind_def x_lookup_def calm_def m_fs_def emodify_def)
  have "fview (x_put p (EFile mode (Text txt)) (mc_fs m1)) = (fview (mc_fs m1))(p := Some (mode, Text txt))"
    by (auto simp: fview_def)
  then have "sets K (\<lambda>v. v(p := Some (mode, Text txt))) m1 ?m2"
    using c1 k by (intro setsI fits_put calm_fits) simp_all
  from sets_trans [OF conjunct1 [OF grown_sets [OF m1(2)]] this]
  have "sets K (\<lambda>v. v(p := Some (mode, Text txt))) m ?m2" by (auto simp: comp_def)
  moreover have "no_loss m ?m2" using grown_sets [OF m1(2)] by (auto simp: no_loss_def)
  ultimately show ?thesis using w by blast
qed

lemma chmod_dir_sets:
  assumes c: "calm K m" and k: "K p = Some KDir" and d: "x_is_dir (mc_fs m) p"
  shows "\<exists>m'. m_chmod p mode m = (Inr (), m') \<and> sets K id m m' \<and> no_loss m m'"
proof -
  let ?m = "m\<lparr>mc_fs := x_put p (EDir mode) (mc_fs m)\<rparr>"
  have "fview (mc_fs m) p = None" using view_kind [OF calm_fits [OF c]] k by simp
  then have ok: "sets K id m ?m" "no_loss m ?m"
    using c k by (auto simp: no_loss_def calm_fits view_put_dir intro!: setsI fits_put)
  have "m_chmod p mode m = (Inr (), ?m)"
  proof (cases "pp_parts p = []")
    case True
    with c show ?thesis
      by (simp add: m_chmod_def x_lookup_def root_exists m_change_def calm_def m_fs_def emodify_def)
  next
    case False
    have "\<exists>old. map_of (mc_fs m) p = Some (EDir old)"
      using d False k
      by (cases rule: fits_cases [OF calm_fits [OF c], of p]) (auto simp: x_is_dir_def x_lookup_def)
    with False c show ?thesis
      by (auto simp: m_chmod_def x_lookup_def x_exists_def m_change_def calm_def m_fs_def emodify_def)
  qed
  with ok show ?thesis by blast
qed

lemma unlink_sets:
  assumes c: "calm K m" and k: "K p = Some KFile" and t: "tree K" and e: "map_of (mc_fs m) p \<noteq> None"
  shows "\<exists>m'. m_unlink p m = (Inr (), m') \<and> sets K (\<lambda>v. v(p := None)) m m'"
proof -
  have r: "pp_parts p \<noteq> []" using t k by (auto simp: tree_def)
  have "\<exists>md x. map_of (mc_fs m) p = Some (EFile md x)"
    by (cases rule: fits_cases [OF calm_fits [OF c], of p]) (use k e in auto)
  with c r have "m_unlink p m = (Inr (), m\<lparr>mc_fs := x_delete p (mc_fs m)\<rparr>)"
    by (auto simp: m_unlink_def x_lookup_def m_change_def calm_def m_fs_def emodify_def)
  moreover have "sets K (\<lambda>v. v(p := None)) m (m\<lparr>mc_fs := x_delete p (mc_fs m)\<rparr>)"
    using c by (intro setsI fits_delete calm_fits view_delete)
  ultimately show ?thesis by blast
qed

lemma unlink_result:
  assumes c: "calm K m" and u: "m_unlink p m = (r, m')"
  shows "sets K id m m' \<or> sets K (\<lambda>v. v(p := None)) m m'"
proof -
  have "m' = m \<or> m' = m\<lparr>mc_fs := x_delete p (mc_fs m)\<rparr>"
    using u by (auto simp: m_unlink_def m_change_def m_fs_def emodify_def split: option.splits entry.splits if_splits)
  then show ?thesis
  proof
    assume "m' = m"
    with c show ?thesis by (simp add: sets_refl)
  next
    assume "m' = m\<lparr>mc_fs := x_delete p (mc_fs m)\<rparr>"
    with c have "sets K (\<lambda>v. v(p := None)) m m'"
      by (simp add: setsI fits_delete calm_fits view_delete)
    then show ?thesis ..
  qed
qed

lemma rmdir_sets:
  assumes c: "calm K m" and t: "tree K" and u: "m_rmdir p m = (r, m')" shows "sets K id m m'"
proof -
  have "m' = m \<or> m' = m\<lparr>mc_fs := x_delete p (mc_fs m)\<rparr> \<and> (\<exists>k. x_lookup (mc_fs m) p = Some (EDir k))"
    using u by (auto simp: m_rmdir_def m_change_def m_fs_def emodify_def split: option.splits entry.splits if_splits)
  then show ?thesis
  proof
    assume "m' = m"
    with c show ?thesis by (simp add: sets_refl)
  next
    assume d: "m' = m\<lparr>mc_fs := x_delete p (mc_fs m)\<rparr> \<and> (\<exists>k. x_lookup (mc_fs m) p = Some (EDir k))"
    have "fview (mc_fs m) p = None"
    proof (cases "pp_parts p = []")
      case True
      with t view_kind [OF calm_fits [OF c], of p] show ?thesis by (auto simp: tree_def)
    next
      case False
      with d show ?thesis by (auto simp: x_lookup_def fview_def)
    qed
    then have "fview (x_delete p (mc_fs m)) = id (fview (mc_fs m))" by (auto simp: view_delete)
    with c d show ?thesis by (auto intro!: setsI fits_delete calm_fits)
  qed
qed

end
