(* ===== verification/Apply_Props.thy ===== *)
theory Apply_Props
  imports Journal_Props Lifecycle Layout Registry_Props
begin

text \<open>
  What an apply guarantees: its journal is written ahead of every change and accounts for all of
  them, waiting for readiness is bounded, a success means a converged host with its evidence on disk,
  and a stale review changes nothing.
\<close>

section \<open>The journal on disk\<close>

definition on_disk :: "run \<Rightarrow> bool" where
  "on_disk s \<longleftrightarrow> map_of (mc_fs (rn_mc s)) (jn_path (rn_journal s)) =
     Some (EFile 384 (Text (json_text_of (journal_json (rn_journal s)))))"

lemma atomic_write_put:
  "atomic_write p t mode m = (Inr (), m') \<Longrightarrow> map_of (mc_fs m') p = Some (EFile mode (Text t))"
  by (auto simp: atomic_write_def eseq_Inr m_fs_def emodify_def x_put_def map_of_dict_set split: if_splits)

lemma write_journal_on_disk: "write_journal s = (Inr (), s') \<Longrightarrow> on_disk s' \<and> rn_journal s' = rn_journal s"
  by (auto simp: write_journal_def on_mc_def on_disk_def dest: atomic_write_put split: prod.splits)

section \<open>Nothing is left out\<close>

text \<open>A computation that ends normally has recorded all it announced.\<close>

definition settles :: "'a rm \<Rightarrow> bool" where
  "settles m \<longleftrightarrow> (\<forall>s u s'. m s = (Inr u, s') \<longrightarrow> announced s = recorded s \<longrightarrow> announced s' = recorded s')"

lemma settles_frame: "keeps same_journal m \<Longrightarrow> settles m"
  unfolding settles_def same_journal_def keeps_def by metis

lemma settles_bind: "settles m \<Longrightarrow> (\<And>x. settles (f x)) \<Longrightarrow> settles (ebind m f)"
  unfolding settles_def ebind_Inr by blast

lemma settles_seq: "settles m \<Longrightarrow> settles k \<Longrightarrow> settles (eseq m k)"
  unfolding eseq_def by (rule settles_bind)

lemma settles_when: "(c \<Longrightarrow> settles m) \<Longrightarrow> settles (ewhen c m)"
  by (auto simp: settles_def ewhen_Inr split: if_splits)

lemma settles_if: "(c \<Longrightarrow> settles m) \<Longrightarrow> (\<not> c \<Longrightarrow> settles n) \<Longrightarrow> settles (if c then m else n)"
  by simp

lemma settles_pure: "settles (eread f)" "settles (ereturn x)" "settles (eraise e)"
  by (auto simp: settles_def eread_def ereturn_def eraise_def)

lemma settles_each: "(\<And>x. settles (f x)) \<Longrightarrow> settles (each_e f xs)"
  by (induction xs) (simp_all add: settles_pure settles_bind)

lemma settles_on_fs: "(\<And>fs. settles (f fs)) \<Longrightarrow> settles (on_fs f)"
  by (simp add: settles_def on_fs_def)

lemma settles_journaled: "keeps same_journal m \<Longrightarrow> settles (journaled E op target m)"
  unfolding settles_def using journaled_result by fastforce

lemma settles_finish: "settles (\<lambda>s. finish_journal (f s) (k s) s)"
  using keepsD [OF write_frame]
  by (fastforce simp: settles_def finish_journal_def eseq_Inr emodify_Inr same_journal_def close_journal_def)

lemmas settles_rules = settles_journaled settles_on_fs settles_bind settles_seq settles_when settles_if
  settles_each settles_pure settles_finish

lemma settles_steps:
  "settles (apply_resource E rs i)" "settles (remove_resource E ir)" "settles (apply_git_item E g d i)"
  "settles (retire E verb i)" "settles (reload_units E)" "settles (enable_unit E i)"
  "settles (run_unit E op verb u)" "settles (start_unit E i)"
  unfolding apply_resource_def remove_resource_def apply_git_item_def retire_def reload_units_def enable_unit_def
    run_unit_def start_unit_def Let_def note_enabled_def note_started_def case_prod_beta
  by (intro settles_rules frames frame_rules settles_frame [OF on_mc_frame] settles_frame [OF backup_frame])+

lemma settles_phases:
  "settles (remove_resources E rs items)" "settles (apply_development E g d items)"
  "settles (retire_units E items)" "settles (execute_files E g temporary d rs items)"
  "settles (execute_removals E H rs items)"
  unfolding remove_resources_def apply_development_def retire_units_def execute_files_def execute_removals_def Let_def
  by (intro settles_rules settles_steps settles_frame [OF on_mc_frame] settles_frame [OF frames(4)])+

lemma settles_body: "settles (transaction_body E H g reg nm patience d b force p)"
  unfolding transaction_body_def check_converged_def execute_def execute_base_def execute_present_def
    execute_absent_def Let_def case_prod_beta
  by (intro settles_rules settles_steps settles_phases settles_frame [OF on_mc_frame] on_mc_frame
      settles_frame [OF discard_frame])+

section \<open>The journal of a transaction\<close>

lemma finish_journal_result:
  "finish_journal st extra s = (r, s') \<Longrightarrow> rn_journal s' = close_journal st extra (rn_journal s) \<and>
     (r = Inr () \<longrightarrow> on_disk s')"
  using keepsD [OF write_frame]
  by (auto simp: finish_journal_def eseq_def emodify_def ebind_def same_journal_def dest: write_journal_on_disk)

lemma body_success:
  assumes "transaction_body E H g reg nm patience d b force p s = (Inr u, s')"
  shows "jn_status (rn_journal s') = ''succeeded'' \<and> on_disk s'"
  using assms finish_journal_result
  by (fastforce simp: transaction_body_def eseq_Inr ebind_Inr close_journal_def)

definition started :: "systemd \<Rightarrow> (string \<Rightarrow> string) \<Rightarrow> generator \<Rightarrow> string \<Rightarrow> string \<Rightarrow> desired_instance \<Rightarrow> plan \<Rightarrow>
     machine \<Rightarrow> run" where
  "started E H g tx action d p m =
     \<lparr>rn_mc = m, rn_journal = new_journal E H g tx action d p m, rn_rb = no_rollback\<rparr>"

lemma started_fresh: "announced (started E H g tx action d p m) = []" "recorded (started E H g tx action d p m) = []"
  by (simp_all add: started_def new_journal_def)

lemma failed_result:
  assumes "fail_transaction E nm e s = (r, s')"
  shows "jn_status (rn_journal s') = ''failed'' \<and> (\<exists>e. r = Inl e) \<and> announced s' = announced s \<and> recorded s' = recorded s \<and>
    jn_path (rn_journal s') = jn_path (rn_journal s)"
proof -
  obtain out m where rb: "roll_back E (rn_rb s) (rn_mc s) = (out, m)" by fastforce
  define extra where "extra = [(''completed_at'', JStr (sd_now E m)), (''error'', JStr (redact_text (exn_text e))),
    (''rollback'', out)]"
  obtain q t where f: "finish_journal ''failed'' extra (s\<lparr>rn_mc := m\<rparr>) = (q, t)" by fastforce
  have t: "rn_journal t = close_journal ''failed'' extra (rn_journal s)" using finish_journal_result [OF f] by simp
  have "rn_journal s' = rn_journal t \<and> (\<exists>e. r = Inl e)"
    using assms rb f unfolding extra_def by (auto simp: fail_transaction_def eseq_def ebind_def split: sum.splits)
  with t show ?thesis by (simp add: close_journal_def)
qed

lemma transact_cases:
  assumes "transact E H g reg nm patience d b force p s = (r, s')"
  obtains (first) e where "write_journal s = (Inl e, s')" and "r = Inl e"
    | (completed) t where "write_journal s = (Inr (), t)"
        and "transaction_body E H g reg nm patience d b force p t = (Inr (), s')" and "r = Inr ()"
    | (failed) t e v where "write_journal s = (Inr (), t)"
        and "transaction_body E H g reg nm patience d b force p t = (Inl e, v)"
        and "fail_transaction E nm e v = (r, s')"
  using assms unfolding transact_def eseq_def
  by (auto simp: ecatch_def elim!: ebind_cases split: prod.splits sum.splits)

text \<open>C19: Whatever the outcome of a transaction, what its journal records as executed is a subsequence of
  what it announced. When it succeeds the two are equal, and the journal on disk is the final one with
  status succeeded; otherwise an error is returned and the journal is marked failed, or its first
  writing failed.
\<close>

theorem journal_is_write_ahead:
  "case transact E H g reg nm patience d b force p (started E H g tx action d p m) of (r, s') \<Rightarrow>
     subseq (recorded s') (announced s') \<and> jn_path (rn_journal s') = journal_path g (di_id d) tx \<and>
     (r = Inr () \<and> recorded s' = announced s' \<and> jn_status (rn_journal s') = ''succeeded'' \<and> on_disk s' \<or>
      (\<exists>e. r = Inl e) \<and> jn_status (rn_journal s') \<in> {''failed'', ''running''})"
proof -
  let ?s = "started E H g tx action d p m"
  obtain r s' where tr: "transact E H g reg nm patience d b force p ?s = (r, s')" by fastforce
  have start: "jn_status (rn_journal ?s) = ''running''" "jn_path (rn_journal ?s) = journal_path g (di_id d) tx"
    by (simp_all add: started_def new_journal_def)
  from tr show ?thesis
  proof (cases rule: transact_cases)
    case (first e)
    from keepsD [OF write_frame first(1)] tr first(2) start started_fresh [of E H g tx action d p m]
    show ?thesis by (simp add: same_journal_def)
  next
    case (completed t)
    from keepsD [OF write_frame completed(1)] have t: "rn_journal t = rn_journal ?s" by (simp add: same_journal_def)
    from settles_body completed(2) t have "announced s' = recorded s'"
      unfolding settles_def using started_fresh [of E H g tx action d p m] by metis
    moreover from keepsD [OF grow_body completed(2)] have "jn_path (rn_journal s') = jn_path (rn_journal ?s)"
      using t by (simp add: grows_def)
    ultimately show ?thesis using tr completed(3) body_success [OF completed(2)] start by simp
  next
    case (failed t e v)
    from keepsD [OF write_frame failed(1)] have t: "rn_journal t = rn_journal ?s" by (simp add: same_journal_def)
    from keepsD [OF grow_body failed(2)] t started_fresh [of E H g tx action d p m]
    have v: "subseq (recorded v) (announced v)" "jn_path (rn_journal v) = jn_path (rn_journal ?s)"
      by (simp_all add: grows_def)
    with v failed_result [OF failed(3)] tr start show ?thesis by auto
  qed
qed

section \<open>Waiting\<close>

lemma all_below: "list_all P [0..<n] \<longleftrightarrow> (\<forall>k<n. P k)"
  by (auto simp: list_all_iff)

text \<open>C36: Waiting for readiness ends after at most one round per half second that was left. All earlier
  observations were negative; the instance is reported ready only on an observation that says so before
  the deadline, and given up only once the deadline has passed.
\<close>

theorem waiting_is_bounded:
  "case wait_ready E probe deadline seen m of (r, m') \<Rightarrow>
     \<exists>n \<le> (deadline - mc_clock m + 499) div 500. m' = (sleep_ms E 500 ^^ n) m \<and>
       list_all (\<lambda>k. \<exists>now. probe ((sleep_ms E 500 ^^ k) m) = Inr (False, now)) [0..<n] \<and>
       ((\<exists>now. r = Inr None \<and> mc_clock m' < deadline \<and> probe m' = Inr (True, now)) \<or>
        (\<exists>e. r = Inl e \<and> probe m' = Inl e) \<or>
        (\<exists>last. r = Inr (Some last) \<and> deadline \<le> mc_clock m'))"
  unfolding all_below
proof (induction E probe deadline seen m rule: wait_ready.induct)
  case (1 E probe deadline seen m)
  show ?case
  proof (cases "mc_clock m < deadline \<and> (\<exists>now. probe m = Inr (False, now))")
    case False
    then show ?thesis
      by (subst wait_ready.simps) (auto intro!: exI [of _ 0] split: sum.splits bool.splits)
  next
    case True
    then obtain now where p: "mc_clock m < deadline" "probe m = Inr (False, now)" by blast
    let ?m = "sleep_ms E 500 m"
    obtain r m' where w: "wait_ready E probe deadline now ?m = (r, m')" by fastforce
    from 1 [OF p(1,2) refl refl] w obtain n where n: "n \<le> (deadline - mc_clock ?m + 499) div 500"
      "m' = (sleep_ms E 500 ^^ n) ?m" "\<forall>k<n. \<exists>now. probe ((sleep_ms E 500 ^^ k) ?m) = Inr (False, now)"
      and out: "(\<exists>now. r = Inr None \<and> mc_clock m' < deadline \<and> probe m' = Inr (True, now)) \<or>
        (\<exists>e. r = Inl e \<and> probe m' = Inl e) \<or> (\<exists>last. r = Inr (Some last) \<and> deadline \<le> mc_clock m')" by auto
    have "mc_clock ?m = mc_clock m + 500 + sd_late E m" by (simp add: sleep_ms_def)
    with n(1) p(1) have "Suc n \<le> (deadline - mc_clock m + 499) div 500"
      by (simp add: less_eq_div_iff_mult_less_eq) arith
    moreover have "m' = (sleep_ms E 500 ^^ Suc n) m" using n(2) by (simp add: funpow_swap1)
    moreover have "\<forall>k<Suc n. \<exists>now. probe ((sleep_ms E 500 ^^ k) m) = Inr (False, now)"
    proof (intro allI impI)
      fix k assume "k < Suc n"
      then show "\<exists>now. probe ((sleep_ms E 500 ^^ k) m) = Inr (False, now)"
        using p(2) n(3) by (cases k) (auto simp: funpow_swap1)
    qed
    moreover have "wait_ready E probe deadline seen m = (r, m')"
      using w p by (subst wait_ready.simps) simp
    ultimately show ?thesis using out by (simp only: prod.case) blast
  qed
qed

section \<open>Scope of a change\<close>

text \<open>Only entries in \<open>S\<close> differ; time may have passed, nothing else happened.\<close>

definition touches_only :: "ppath set \<Rightarrow> machine \<Rightarrow> machine \<Rightarrow> bool" where
  "touches_only S m m' \<longleftrightarrow>
     (\<exists>fs. m' = m\<lparr>mc_fs := fs\<rparr> \<and> (\<forall>p. p \<notin> S \<longrightarrow> map_of fs p = map_of (mc_fs m) p))"

interpretation scope: state_order "touches_only S" for S
proof
  show "touches_only S s s" for s by (auto simp: touches_only_def intro!: exI [of _ "mc_fs s"])
  show "touches_only S s u" if "touches_only S s t" "touches_only S t u" for s t u
    using that by (auto simp: touches_only_def)
qed

lemma touches_mono: "touches_only S m m' \<Longrightarrow> S \<subseteq> T \<Longrightarrow> touches_only T m m'"
  by (auto simp: touches_only_def)

lemma touch_fs: "(\<And>fs q. q \<notin> S \<Longrightarrow> map_of (f fs) q = map_of fs q) \<Longrightarrow> keeps (touches_only S) (m_fs f)"
  by (auto simp: keeps_def m_fs_def emodify_def touches_only_def)

lemma touch_change:
  "(\<And>fs q. q \<notin> S \<Longrightarrow> map_of (f fs) q = map_of fs q) \<Longrightarrow> keeps (touches_only S) (m_change p f)"
  using touch_fs [of S f] by (auto simp: keeps_def m_change_def scope.refl)

lemma touch_os_mkdir: assumes "q \<in> S" shows "keeps (touches_only S) (os_mkdir q mode)"
proof -
  have "keeps (touches_only S) (m_change q (x_put q (EDir k)))" for k
    by (rule touch_change) (use assms in auto)
  then show ?thesis by (auto simp: keeps_def os_mkdir_def scope.refl split: if_splits)
qed

lemma touch_mkdir: "set (path_parents p) \<subseteq> S \<Longrightarrow> p \<in> S \<Longrightarrow> keeps (touches_only S) (m_mkdir p exist_ok mode)"
proof -
  assume S: "set (path_parents p) \<subseteq> S" "p \<in> S"
  have 1: "keeps (touches_only S) (\<lambda>m. if x_exists (mc_fs m) q then (Inr (), m) else os_mkdir q 511 m)" if "q \<in> S" for q
    using keepsD [OF touch_os_mkdir [OF that, of 511]] by (auto simp: keeps_def scope.refl)
  have "keeps (touches_only S) (\<lambda>m. if x_exists (mc_fs m) p then
      (if exist_ok \<and> x_is_dir (mc_fs m) p then (Inr (), m) else (Inl (Raised (path_str p)), m))
      else os_mkdir p mode m)"
    using keepsD [OF touch_os_mkdir [OF S(2), of mode]] by (auto simp: keeps_def scope.refl)
  with S 1 show ?thesis unfolding m_mkdir_def by (intro scope.keeps_rules) auto
qed

definition with_above :: "ppath \<Rightarrow> ppath set" where
  "with_above p = insert p (set (path_parents p) \<union> insert (path_parent p) (set (path_parents (path_parent p))))"

lemma touch_write: "with_above p \<subseteq> S \<Longrightarrow> keeps (touches_only S) (atomic_write p t mode)"
proof -
  assume S: "with_above p \<subseteq> S"
  then have p: "p \<in> S" by (simp add: with_above_def)
  have "keeps (touches_only S) (m_fs (x_put p (EFile mode (Text t))))" by (rule touch_fs) (use p in auto)
  then have "keeps (touches_only S) (\<lambda>m.
      if p \<in> set (mc_refuses m) \<or> (case x_lookup (mc_fs m) p of Some (EDir k) \<Rightarrow> True | _ \<Rightarrow> False)
      then (Inl (Managed (cannot_write p)), m) else m_fs (x_put p (EFile mode (Text t))) m)"
    by (auto simp: keeps_def scope.refl)
  moreover have "keeps (touches_only S) (m_mkdir (path_parent p) True 448)"
    by (rule touch_mkdir) (use S in \<open>auto simp: with_above_def\<close>)
  ultimately show ?thesis unfolding atomic_write_def by (intro scope.keeps_rules)
qed

lemma touch_journal:
  assumes "write_journal s = (r, s')" shows "touches_only (with_above (jn_path (rn_journal s))) (rn_mc s) (rn_mc s')"
  using assms keepsD [OF touch_write [OF subset_refl]] by (auto simp: write_journal_def on_mc_def split: prod.splits)

lemma touch_attempt:
  "attempt E op target s = (r, s') \<Longrightarrow> touches_only (with_above (jn_path (rn_journal s))) (rn_mc s) (rn_mc s')"
  using touch_journal by (fastforce simp: attempt_def eseq_def emodify_def ebind_def note_attempt_def)

lemma touch_record:
  "record_done E op target s = (r, s') \<Longrightarrow> touches_only (with_above (jn_path (rn_journal s))) (rn_mc s) (rn_mc s')"
  using touch_journal by (fastforce simp: record_done_def eseq_def emodify_def ebind_def note_executed_def)

lemma touch_finish:
  "finish_journal st extra s = (r, s') \<Longrightarrow> touches_only (with_above (jn_path (rn_journal s))) (rn_mc s) (rn_mc s')"
  using touch_journal by (fastforce simp: finish_journal_def eseq_def emodify_def ebind_def close_journal_def)

section \<open>Success\<close>

lemma wait_ready_ready: "wait_ready E probe deadline seen m = (Inr None, m') \<Longrightarrow> \<exists>now. probe m' = Inr (True, now)"
proof (induction E probe deadline seen m rule: wait_ready.induct)
  case (1 E probe deadline seen m)
  show ?case
  proof (cases "mc_clock m < deadline \<and> (\<exists>now. probe m = Inr (False, now))")
    case False
    with 1(2) show ?thesis by (subst (asm) wait_ready.simps) (auto split: sum.splits bool.splits if_splits)
  next
    case True
    then obtain now where p: "mc_clock m < deadline" "probe m = Inr (False, now)" by blast
    with 1(2) have "wait_ready E probe deadline now (sleep_ms E 500 m) = (Inr None, m')"
      by (subst (asm) wait_ready.simps) simp
    with 1(1) [OF p refl refl] show ?thesis .
  qed
qed

text \<open>What \<open>qualify\<close> has seen when it lets an apply go on.\<close>

definition qualifies :: "systemd \<Rightarrow> desired_instance \<Rightarrow> machine \<Rightarrow> bool" where
  "qualifies E d m \<longleftrightarrow>
     (if is_present d \<and> li_runtime (di_lifecycle d) = RUNNING then \<exists>now. readiness E d m = Inr (True, now)
      else fst (is_active E (tunnel_unit_name (di_id d)) m) = Inr False \<and>
           fst (is_active E (mcp_unit_name (di_id d)) m) = Inr False \<and>
           (\<forall>u \<in> set_option (managed_agent_unit d). fst (is_active E u m) = Inr False))"

lemma is_active_pure: "is_active E u m = (r, m') \<Longrightarrow> m' = m"
  by (simp add: is_active_def eread_def)

lemma snapshot_raises: "\<not> not_ready E d seen m = (Inr (), m')"
  by (simp add: not_ready_def ebind_Inr eraise_Inr Let_def)

lemma qualify_qualifies: assumes "qualify E patience d m = (Inr (), m')" shows "qualifies E d m'"
proof (cases "is_present d \<and> li_runtime (di_lifecycle d) = RUNNING")
  case True
  with assms obtain seen t where w: "wait_ready E (readiness E d) (mc_clock m + patience) (JObj []) m = (Inr seen, t)"
    and k: "(case seen of None \<Rightarrow> ereturn () | Some s \<Rightarrow> not_ready E d s) t = (Inr (), m')"
    by (auto simp: qualify_def ebind_Inr)
  from k snapshot_raises have "seen = None" "t = m'" by (auto simp: ereturn_Inr split: option.splits)
  with w True show ?thesis using wait_ready_ready by (auto simp: qualifies_def)
next
  case False
  then have q: "\<not> is_present d \<or> li_runtime (di_lifecycle d) \<noteq> RUNNING" by blast
  from assms obtain agent t tunnel v either w where
    a: "(case managed_agent_unit d of None \<Rightarrow> ereturn False | Some u \<Rightarrow> is_active E u) m = (Inr agent, t)"
    and b: "is_active E (tunnel_unit_name (di_id d)) t = (Inr tunnel, v)"
    and c: "(if tunnel then ereturn True else is_active E (mcp_unit_name (di_id d))) v = (Inr either, w)"
    and e: "(if either \<or> agent
        then eraise (Managed (conflict_error ''runtime units remain active after stop/remove'' []))
        else ereturn ()) w = (Inr (), m')"
    unfolding qualify_def if_P [OF q] ebind_Inr by blast
  from e have none: "\<not> either" "\<not> agent" "w = m'" by (auto simp: eraise_def ereturn_Inr split: if_splits)
  from c none have "\<not> tunnel" by (auto simp: ereturn_Inr split: if_splits)
  with c have c': "is_active E (mcp_unit_name (di_id d)) v = (Inr either, w)" by simp
  have same: "v = w" "t = v" "m = t"
    using is_active_pure [OF c'] is_active_pure [OF b] a
    by (auto simp: ereturn_Inr dest: is_active_pure split: option.splits)
  with a b c' none \<open>\<not> tunnel\<close> False show ?thesis
    by (auto simp: qualifies_def ereturn_Inr split: option.splits)
qed

text \<open>C2: When a transaction succeeds, there was a moment after all its changes at which the host
  qualified, the planner found a valid plan with nothing left to do, and from which on only the
  evidence was written: the file of applied resources, with the declaration's resources as owned, and the journal.
\<close>

theorem success_means_converged:
  "case transact E H g reg nm patience d b force p s of (r, s') \<Rightarrow>
     (\<exists>e. r = Inl e) \<or>
     (\<exists>m1 final now m2. qualifies E d m1 \<and>
        plan_for H g reg (host_of (sd_view E) m1) (mc_git m1) d = Inr final \<and>
        pl_valid final \<and> list_all (\<lambda>i. pi_op i = P_NOOP) (pl_items final) \<and>
        map_of (mc_fs m2) (applied_path (gen_paths g) (di_id d)) =
          Some (EFile 384 (Text (json_text_of (applied_payload H d b (nm_transaction nm) now)))) \<and>
        touches_only (with_above (jn_path (rn_journal s)) \<union> with_above (applied_path (gen_paths g) (di_id d))) m1 m2 \<and>
        touches_only (with_above (jn_path (rn_journal s))) m2 (rn_mc s'))"
proof -
  obtain r s' where tr: "transact E H g reg nm patience d b force p s = (r, s')" by fastforce
  from tr show ?thesis
  proof (cases rule: transact_cases)
    case (first e)
    with tr show ?thesis by simp
  next
    case (failed t e v)
    with tr failed_result [OF failed(3)] show ?thesis by simp
  next
    case (completed t)
    let ?J = "with_above (jn_path (rn_journal s))" and ?A = "applied_path (gen_paths g) (di_id d)"
    from completed(2) obtain t1 t2 t3 final t4 t5 t6 where
      t1: "execute E H g (nm_temporary nm) d b force p t = (Inr (), t1)"
      and t2: "on_mc (qualify E patience d) t1 = (Inr (), t2)"
      and t3: "on_mc (planned E H g reg d) t2 = (Inr final, t3)"
      and t4: "check_converged final t3 = (Inr (), t4)"
      and t5: "journaled E ''WRITE_APPLIED'' (path_str ?A)
                 (on_mc (write_applied E H g d b (nm_transaction nm))) t4 = (Inr (), t5)"
      and t6: "discard t5 = (Inr (), t6)"
      and t7: "finish_journal ''succeeded''
           [(''completed_at'', JStr (sd_now E (rn_mc t6))), (''post_plan'', plan_dict final)] t6 = (Inr (), s')"
      by (auto simp: transaction_body_def eseq_Inr ebind_Inr)
    from t2 have q: "qualifies E d (rn_mc t2)" by (auto simp: on_mc_def intro: qualify_qualifies split: prod.splits)
    from t3 have pl: "plan_for H g reg (host_of (sd_view E) (rn_mc t2)) (mc_git (rn_mc t2)) d = Inr final"
      and m3: "rn_mc t3 = rn_mc t2"
      by (auto simp: on_mc_def planned_def eread_def managed_def split: sum.splits)
    from t4 have conv: "pl_valid final" "list_all (\<lambda>i. pi_op i = P_NOOP) (pl_items final)" "t4 = t3"
      by (auto simp: list_all_iff check_converged_def eraise_def ereturn_Inr remaining_items_def filter_empty_conv split: if_splits)
    from t5 obtain u v where u: "attempt E ''WRITE_APPLIED'' (path_str ?A) t4 = (Inr (), u)"
      and v: "on_mc (write_applied E H g d b (nm_transaction nm)) u = (Inr (), v)"
      and w: "record_done E ''WRITE_APPLIED'' (path_str ?A) v = (Inr (), t5)"
      by (auto simp: journaled_def eseq_Inr)
    from v have wr: "atomic_write ?A (json_text_of (applied_payload H d b (nm_transaction nm) (sd_now E (rn_mc u)))) 384
        (rn_mc u) = (Inr (), rn_mc v)" by (auto simp: on_mc_def write_applied_def split: prod.splits)
    have paths: "jn_path (rn_journal t4) = jn_path (rn_journal s)" "jn_path (rn_journal v) = jn_path (rn_journal s)"
      "jn_path (rn_journal t6) = jn_path (rn_journal s)"
      using keepsD [OF write_frame completed(1)] keepsD [OF grow_execute t1] keepsD [OF on_mc_frame t2]
        keepsD [OF on_mc_frame t3] conv(3) attempt_result [OF u] keepsD [OF on_mc_frame v] record_result [OF w]
        keepsD [OF discard_frame t6]
      by (auto simp: same_journal_def grows_def note_attempt_def note_executed_def)
    have "touches_only (?J \<union> with_above ?A) (rn_mc t2) (rn_mc v)"
      using touches_mono [OF touch_attempt [OF u], of "?J \<union> with_above ?A"] keepsD [OF touch_write wr] paths m3 conv(3)
      by (auto intro: scope.trans)
    moreover have "touches_only ?J (rn_mc v) (rn_mc s')"
    proof -
      have "rn_mc t6 = rn_mc t5" using t6 by (auto simp: discard_def note_rb_def emodify_def)
      then show ?thesis using touch_record [OF w] touch_finish [OF t7] paths by (auto intro: scope.trans)
    qed
    ultimately show ?thesis using tr q pl conv atomic_write_put [OF wr] by (simp only: prod.case) blast
  qed
qed

section \<open>Review\<close>

text \<open>What admission and preparation may touch: the lock of the instance and the staging directory.\<close>

definition preparation :: "generator \<Rightarrow> string \<Rightarrow> ppath set" where
  "preparation g iid =
     insert (path_div (lock_root g) (iid @ ''.lock'')) (insert (lock_root g) (set (path_parents (lock_root g)))) \<union>
     insert (staging_parent g) (set (path_parents (staging_parent g)))"

lemma touch_lock: "keeps (touches_only (preparation g iid)) (take_lock g iid)"
proof -
  let ?p = "path_div (lock_root g) (iid @ ''.lock'')"
  have p: "?p \<in> preparation g iid" by (simp add: preparation_def)
  have change: "keeps (touches_only (preparation g iid)) (m_change ?p (x_put ?p e))" for e
    by (rule touch_change) (use p in auto)
  have "keeps (touches_only (preparation g iid)) (m_open ?p)"
    using keepsD [OF change] by (auto simp: keeps_def m_open_def scope.refl)
  moreover have "keeps (touches_only (preparation g iid)) (m_chmod ?p k)" for k
    using keepsD [OF change] by (auto simp: keeps_def m_chmod_def scope.refl split: option.splits)
  moreover have "keeps (touches_only (preparation g iid)) (m_mkdir (lock_root g) True 448)"
    by (rule touch_mkdir) (auto simp: preparation_def)
  ultimately show ?thesis unfolding take_lock_def Let_def by (intro scope.keeps_rules)
qed

lemma touch_verify: "keeps (touches_only (preparation g iid)) (verify_generated_units E g b)"
proof -
  have "keeps (touches_only (preparation g iid)) (m_mkdir (staging_parent g) True 448)"
    by (rule touch_mkdir) (auto simp: preparation_def)
  then show ?thesis unfolding verify_generated_units_def Let_def by (intro scope.keeps_rules)
qed

lemma planned_result: "planned E H g reg d m = (r, m') \<Longrightarrow> m' = m \<and>
    (case r of Inl e \<Rightarrow> True | Inr p \<Rightarrow> plan_for H g reg (host_of (sd_view E) m) (mc_git m) d = Inr p)"
  by (auto simp: planned_def eread_def managed_def split: sum.splits)

text \<open>C6: An apply that was given the fingerprint of a reviewed plan changes nothing but its lock and the
  staging directory, and reports an error, unless it finds a plan with exactly that fingerprint on a
  host which so far differs only there.
\<close>

theorem review_is_binding:
  "case apply_instance E H g reg nm patience action force (Some f) iid m of (r, m') \<Rightarrow>
     (\<exists>e. r = Inl e) \<and> touches_only (preparation g iid) m m' \<or>
     (\<exists>d b p m1. get reg iid = Inr d \<and> generate H g (rs_files reg) d = Inr b \<and>
        plan_for H g reg (host_of (sd_view E) m1) (mc_git m1) d = Inr p \<and>
        reviewed_fingerprint E H g d b p m1 = f \<and> touches_only (preparation g iid) m m1)"
proof -
  let ?S = "preparation g iid"
  obtain r m' where ap: "apply_instance E H g reg nm patience action force (Some f) iid m = (r, m')" by fastforce
  have adm: "keeps (touches_only ?S) (admitted g reg action iid)"
    unfolding admitted_def by (intro scope.keeps_rules touch_lock)
  note steps = ap [unfolded apply_instance_def]
  from steps show ?thesis
  proof (cases rule: ebind_cases)
    case (raised e)
    with ap keepsD [OF adm raised(1)] show ?thesis by simp
  next
    case (went_on d m1)
    have t1: "touches_only ?S m m1" using keepsD [OF adm went_on(1)] .
    from went_on(1) have d: "get reg iid = Inr d"
      by (auto simp: admitted_def eseq_Inr eread_Inr managed_def res_simps split: sum.splits)
    from went_on(2) show ?thesis
    proof (cases rule: ebind_cases)
      case (raised e)
      with ap t1 show ?thesis by (simp add: eread_def)
    next
      case (went_on b m2)
      then have b: "generate H g (rs_files reg) d = Inr b" and m2: "m2 = m1"
        by (auto simp: eread_Inr managed_def split: sum.splits)
      have ver: "keeps (touches_only ?S) (ewhen (is_present d) (verify_generated_units E g b))"
        by (intro scope.keeps_when touch_verify)
      obtain q m3 where v: "ewhen (is_present d) (verify_generated_units E g b) m1 = (q, m3)" by fastforce
      have t3: "touches_only ?S m m3" using t1 keepsD [OF ver v] by (rule scope.trans)
      obtain q' m4 where pl: "planned E H g reg d m3 = (q', m4)" by fastforce
      from planned_result [OF pl] have m4: "m4 = m3" by simp
      show ?thesis
      proof (cases "\<exists>u p. q = Inr u \<and> q' = Inr p \<and> reviewed_fingerprint E H g d b p m3 = f")
        case True
        then obtain p where p: "q' = Inr p" "reviewed_fingerprint E H g d b p m3 = f" by blast
        with planned_result [OF pl] have "plan_for H g reg (host_of (sd_view E) m3) (mc_git m3) d = Inr p" by simp
        with d b t3 p(2) show ?thesis unfolding ap prod.case by blast
      next
        case False
        have "\<exists>e. prepare E H g reg nm (Some f) d b m1 = (Inl e, m3)"
          using False v pl m4 unfolding prepare_def eseq_def
          by (cases q; cases q') (auto simp: ebind_def check_review_def Let_def)
        then have "\<exists>e. r = Inl e \<and> m' = m3"
          using went_on(2) m2 by (auto simp: ebind_def)
        with t3 show ?thesis unfolding ap prod.case by blast
      qed
    qed
  qed
qed

section \<open>Lifecycle commands\<close>

lemma get_valid: assumes "get reg iid = Inr d" shows "valid_instance d" and "di_id d = iid"
proof -
  from assms obtain p where "read_instance reg p = Inr d" by (auto simp: get_def res_simps)
  then obtain t where "from_json t = Inr d"
    by (cases "f_read (rs_files reg) p") (auto simp: read_instance_def res_simps)
  then show "valid_instance d"
    by (auto simp: from_json_def dest: from_dict_valid split: option.splits)
  show "di_id d = iid" using get_exists [OF assms] by simp
qed

lemma with_intent_fields:
  "di_id (with_intent dep run d) = di_id d"
  "valid_instance d \<Longrightarrow> \<not> (dep = ABSENT \<and> run = RUNNING) \<Longrightarrow> valid_instance (with_intent dep run d)"
  by (simp_all add: with_intent_def valid_instance_def)

lemma intended_valid:
  "intended action d = Inr (Some d', force) \<Longrightarrow> valid_instance d \<Longrightarrow> valid_instance d' \<and> di_id d' = di_id d"
  by (simp add: intended_def Let_def split: if_splits)
    (elim conjE; hypsubst; simp add: with_intent_fields)+

lemma register_cases:
  assumes "register H w d d' s = (r, s')" and "valid_instance d'"
  shows "s' = s \<and> (\<exists>e. r = Inl e) \<or>
    r = Inr () \<and> mg_machine s' = mg_machine s \<and> get (mg_registry s') (di_id d') = Inr d' \<and>
      (\<forall>j. j \<noteq> di_id d' \<longrightarrow> get (mg_registry s') j = get (mg_registry s) j)"
proof -
  obtain q reg where u: "update H w (mg_registry s) d' (Some (fingerprint H d)) = (q, reg)" by fastforce
  show ?thesis
  proof (cases q)
    case (Inl e)
    with u assms(1) update_Inl [of H w "mg_registry s" d'] show ?thesis
      by (auto simp: register_def managed_def)
  next
    case (Inr x)
    with u obtain c where "wrote (mg_registry s) d' reg" by (blast elim: update_Inr)
    with u Inr assms show ?thesis
      by (auto simp: register_def managed_def get_wrote_same get_wrote_other)
  qed
qed

text \<open>The declaration a command leaves registered.\<close>

definition target_of :: "desired_instance \<Rightarrow> desired_instance option \<Rightarrow> desired_instance" where
  "target_of d new = (case new of None \<Rightarrow> d | Some d' \<Rightarrow> d')"

text \<open>C16: A lifecycle command on an unknown instance or an unsupported or unlawful command changes nothing.
  Otherwise the host is touched only after the registry holds the declaration the command intends, the
  declaration stays registered even if the apply fails, and no other instance's declaration changes.
\<close>

theorem lifecycle_registers_first:
  "case run_lifecycle E H g w nm patience action iid expected s of (r, s') \<Rightarrow>
     (\<forall>j. j = iid \<or> get (mg_registry s') j = get (mg_registry s) j) \<and>
     (s' = s \<and> (\<exists>e. r = Inl e) \<or>
      (\<exists>d new force. get (mg_registry s) iid = Inr d \<and> intended action d = Inr (new, force) \<and>
         get (mg_registry s') iid = Inr (target_of d new)))"
proof -
  obtain r s' where run: "run_lifecycle E H g w nm patience action iid expected s = (r, s')" by fastforce
  note steps = run [unfolded run_lifecycle_def]
  show ?thesis
  proof (cases "\<exists>d new force. get (mg_registry s) iid = Inr d \<and> intended action d = Inr (new, force)")
    case False
    then have "s' = s \<and> (\<exists>e. r = Inl e)"
      using steps by (auto simp: ebind_def eread_def managed_def split: sum.splits)
    then show ?thesis unfolding run prod.case by blast
  next
    case True
    then obtain d new force where d: "get (mg_registry s) iid = Inr d" and i: "intended action d = Inr (new, force)"
      by blast
    define last where "last = (\<lambda>s. on_machine (apply_instance E H g (mg_registry s) nm patience action force
      (if action = ''apply'' then expected else None) iid) s)"
    from steps d i have run': "eseq (case new of None \<Rightarrow> ereturn () | Some d' \<Rightarrow> register H w d d') last s = (r, s')"
      unfolding last_def by (simp add: ebind_def [of "eread _"] eread_def managed_def)
    have reg_last: "mg_registry v = mg_registry u" if "last u = (q, v)" for q u v
      using that by (auto simp: last_def on_machine_def split: prod.splits)
    show ?thesis
    proof (cases new)
      case None
      with run' reg_last have "mg_registry s' = mg_registry s" by (auto simp: eseq_def ebind_def ereturn_def)
      with d i None show ?thesis unfolding run prod.case by (auto simp: target_of_def)
    next
      case (Some d')
      from get_valid [OF d] intended_valid [OF i [unfolded Some]] have v: "valid_instance d'" "di_id d' = iid" by auto
      obtain q t where q: "register H w d d' s = (q, t)" by fastforce
      from register_cases [OF q v(1)] show ?thesis
      proof (elim disjE conjE exE)
        fix e assume "t = s" "q = Inl e"
        with run' Some q have "s' = s \<and> r = Inl e" by (simp add: eseq_def ebind_def)
        then show ?thesis unfolding run prod.case by blast
      next
        assume t: "q = Inr ()" "get (mg_registry t) (di_id d') = Inr d'"
          "\<forall>j. j \<noteq> di_id d' \<longrightarrow> get (mg_registry t) j = get (mg_registry s) j"
        with run' Some q have "last t = (r, s')" by (simp add: eseq_def ebind_def)
        from reg_last [OF this] t v(2) d i Some show ?thesis
          unfolding run prod.case by (auto simp: target_of_def)
      qed
    qed
  qed
qed

end
