(* ===== verification/Rollback.thy ===== *)
theory Rollback
  imports Layout Apply
begin

text \<open>
  The rollback of a failed transaction. A transaction runs on a ground: a layout of paths, the paths
  that are free to change (the journal and the runtime logs of the services), the machine as it was
  before, and a systemd that changes no other file. The invariant says that every other file is as it
  was, or was absent and is noted as created, or was saved as it was; so restoring puts it back.
\<close>

record ground =
  gr_systemd :: systemd
  gr_layout :: layout
  gr_free :: "ppath set"
  gr_before :: machine
  gr_journal :: ppath

definition decodable :: "fs \<Rightarrow> bool" where
  "decodable fs \<longleftrightarrow> (\<forall>q md. fview fs q \<noteq> Some (md, Bytes))"

definition sound :: "ground \<Rightarrow> machine \<Rightarrow> bool" where
  "sound G m \<longleftrightarrow> calm (gr_layout G) m \<and> decodable (mc_fs m)"

text \<open>A harmless step changes directories and free files only.\<close>

definition harmless :: "ground \<Rightarrow> machine \<Rightarrow> machine \<Rightarrow> bool" where
  "harmless G m m' \<longleftrightarrow> (sound G m \<longrightarrow> sound G m' \<and> mc_git m' = mc_git m \<and>
     (\<forall>q. q \<notin> gr_free G \<longrightarrow> fview (mc_fs m') q = fview (mc_fs m) q))"

definition grounded :: "ground \<Rightarrow> bool" where
  "grounded G \<longleftrightarrow> tree (gr_layout G) \<and> sound G (gr_before G) \<and> gr_journal G \<in> gr_free G \<and> gr_layout G (gr_journal G) = Some KFile \<and>
     (\<forall>args m. harmless G m (snd (sd_run (gr_systemd G) args m))) \<and> (\<forall>m. harmless G m (sd_pass (gr_systemd G) m))"

interpretation harm: state_order "harmless G" for G
  by unfold_locales (auto simp: harmless_def)

lemma sets_harmless:
  assumes "sets K f m m'" and "K = gr_layout G" and "decodable (mc_fs m) \<Longrightarrow> decodable (mc_fs m')"
    and "\<And>v q. q \<notin> gr_free G \<Longrightarrow> f v q = v q"
  shows "harmless G m m'"
  using setsD [OF assms(1)] assms(2-) by (auto simp: harmless_def sound_def)

lemma decodable_upd: "fview fs' = (fview fs)(p := v) \<Longrightarrow> decodable fs \<Longrightarrow> (\<And>md. v \<noteq> Some (md, Bytes)) \<Longrightarrow> decodable fs'"
  by (simp add: decodable_def)

lemma same_view_harmless: assumes "sets (gr_layout G) id m m'" shows "harmless G m m'"
proof (rule sets_harmless [OF assms refl])
  show "decodable (mc_fs m')" if "decodable (mc_fs m)"
    using that setsD(1) [OF assms] by (simp add: decodable_def)
qed simp

section \<open>Harmless operations\<close>

lemma harm_os_mkdir: assumes "gr_layout G q = Some KDir" shows "keeps (harmless G) (os_mkdir q mode)"
proof (rule keepsI)
  fix m r m' assume run: "os_mkdir q mode m = (r, m')"
  show "harmless G m m'"
  proof (cases "sound G m")
    case True
    then have c: "calm (gr_layout G) m" by (simp add: sound_def)
    have "m' = m \<or> m' = m\<lparr>mc_fs := x_put q (EDir (mc_umask m mode)) (mc_fs m)\<rparr>"
      using run by (auto simp: os_mkdir_def m_change_def m_fs_def emodify_def split: if_splits)
    moreover have "sets (gr_layout G) id m (m\<lparr>mc_fs := x_put q (EDir (mc_umask m mode)) (mc_fs m)\<rparr>)"
      using c assms view_kind [OF calm_fits [OF c], of q]
      by (intro setsI fits_put calm_fits) (simp_all add: view_put_dir)
    ultimately show ?thesis by (auto intro: same_view_harmless harm.refl)
  next
    case False
    then show ?thesis by (simp add: harmless_def)
  qed
qed

lemma harm_mkdir:
  assumes "grounded G" and "gr_layout G p = Some KDir" shows "keeps (harmless G) (m_mkdir p exist_ok mode)"
proof -
  have anc: "gr_layout G q = Some KDir" if "q \<in> set (path_parents p)" for q
    using assms that by (auto simp: grounded_def intro: tree_parent)
  have 1: "keeps (harmless G) (\<lambda>m. if x_exists (mc_fs m) q then (Inr (), m) else os_mkdir q 511 m)"
    if "gr_layout G q = Some KDir" for q
    using keepsD [OF harm_os_mkdir [OF that, of 511]] by (auto simp: keeps_def harm.refl)
  have "keeps (harmless G) (\<lambda>m. if x_exists (mc_fs m) p then
      (if exist_ok \<and> x_is_dir (mc_fs m) p then (Inr (), m) else (Inl (Raised (path_str p)), m))
      else os_mkdir p mode m)"
    using keepsD [OF harm_os_mkdir [OF assms(2), of mode]] by (auto simp: keeps_def harm.refl)
  with 1 anc show ?thesis unfolding m_mkdir_def by (intro harm.keeps_rules) auto
qed

lemma write_view:
  assumes "grounded G" and "gr_layout G p = Some KFile" and "sound G m"
  shows "\<exists>m'. atomic_write p t mode m = (Inr (), m') \<and> sound G m' \<and> mc_git m' = mc_git m \<and>
    fview (mc_fs m') = (fview (mc_fs m))(p := Some (mode, Text t))"
proof -
  from assms obtain m' where m': "atomic_write p t mode m = (Inr (), m')"
    "sets (gr_layout G) (\<lambda>v. v(p := Some (mode, Text t))) m m'"
    using write_sets by (fastforce simp: grounded_def sound_def)
  from setsD [OF m'(2)] assms(3) show ?thesis
    using m'(1) by (auto simp: sound_def intro: decodable_upd)
qed

lemma harm_write:
  assumes "grounded G" and "gr_layout G p = Some KFile" and "p \<in> gr_free G"
  shows "keeps (harmless G) (atomic_write p t mode)"
proof (rule keepsI)
  fix m r m' assume run: "atomic_write p t mode m = (r, m')"
  show "harmless G m m'"
  proof (cases "sound G m")
    case True
    from write_view [OF assms(1,2) True, of t mode] run assms(3) show ?thesis by (auto simp: harmless_def)
  next
    case False
    then show ?thesis by (simp add: harmless_def)
  qed
qed

lemma harm_chmod: assumes "gr_layout G p = Some KDir" shows "keeps (harmless G) (m_chmod p mode)"
proof (rule keepsI)
  fix m r m' assume run: "m_chmod p mode m = (r, m')"
  show "harmless G m m'"
  proof (cases "sound G m")
    case True
    then have c: "calm (gr_layout G) m" by (simp add: sound_def)
    show ?thesis
    proof (cases "x_is_dir (mc_fs m) p")
      case True
      from chmod_dir_sets [OF c assms True, of mode] run show ?thesis by (auto intro: same_view_harmless)
    next
      case False
      with fits_is_dir [OF calm_fits [OF c] _ assms] have "\<not> x_exists (mc_fs m) p" by blast
      with run show ?thesis by (auto simp: m_chmod_def harm.refl split: option.splits)
    qed
  next
    case False
    then show ?thesis by (simp add: harmless_def)
  qed
qed

lemma harm_rmdir: assumes "grounded G" shows "keeps (harmless G) (m_rmdir p)"
proof (rule keepsI)
  fix m r m' assume run: "m_rmdir p m = (r, m')"
  show "harmless G m m'"
  proof (cases "sound G m")
    case True
    then have "calm (gr_layout G) m" by (simp add: sound_def)
    from rmdir_sets [OF this _ run] assms show ?thesis by (auto simp: grounded_def intro: same_view_harmless)
  next
    case False
    then show ?thesis by (simp add: harmless_def)
  qed
qed

lemma harm_systemctl: assumes "grounded G" shows "keeps (harmless G) (systemctl (gr_systemd G) args)"
proof (rule keepsI)
  fix m r m' assume "systemctl (gr_systemd G) args m = (r, m')"
  then have "m' = snd (sd_run (gr_systemd G) args m)" by (auto simp: systemctl_def split: prod.splits)
  with assms show "harmless G m m'" by (simp add: grounded_def)
qed

lemma harm_units:
  assumes "grounded G"
  shows "keeps (harmless G) (unit_action (gr_systemd G) verb u)" "keeps (harmless G) (daemon_reload (gr_systemd G))"
  unfolding unit_action_def daemon_reload_def unit_snapshot_def journal_tail_def case_prod_beta
  by (intro harm.keeps_rules harm_systemctl [OF assms])+

lemma harm_sleep: assumes "grounded G" shows "harmless G m (sleep_ms (gr_systemd G) k m)"
proof -
  have "harmless G m (sd_pass (gr_systemd G) m)" using assms by (simp add: grounded_def)
  then show ?thesis by (simp add: harmless_def sleep_ms_def sound_def calm_def)
qed

section \<open>The invariant\<close>

fun first_saved :: "saved list \<Rightarrow> ppath \<Rightarrow> (nat \<times> content) option" where
  "first_saved [] q = None"
| "first_saved (SavedFile p c md # xs) q = (if p = q then Some (md, c) else first_saved xs q)"
| "first_saved (SavedConfig c # xs) q = first_saved xs q"
| "first_saved (SavedLost # xs) q = first_saved xs q"

fun first_config :: "saved list \<Rightarrow> (string \<times> string list) list option" where
  "first_config [] = None"
| "first_config (SavedConfig c # xs) = Some c"
| "first_config (SavedFile p c md # xs) = first_config xs"
| "first_config (SavedLost # xs) = first_config xs"

definition backup_ok :: "layout \<Rightarrow> saved \<Rightarrow> bool" where
  "backup_ok K b \<longleftrightarrow>
     (case b of SavedFile p c md \<Rightarrow> K p = Some KFile \<and> c \<noteq> Bytes | SavedConfig c \<Rightarrow> True | SavedLost \<Rightarrow> False)"

definition tracked :: "ground \<Rightarrow> run \<Rightarrow> ppath \<Rightarrow> bool" where
  "tracked G s q \<longleftrightarrow> q \<in> set (rb_created (rn_rb s)) \<or>
     (case first_saved (rb_backups (rn_rb s)) q of
        None \<Rightarrow> fview (mc_fs (rn_mc s)) q = fview (mc_fs (gr_before G)) q
      | Some v \<Rightarrow> fview (mc_fs (gr_before G)) q = Some v)"

definition git_tracked :: "ground \<Rightarrow> run \<Rightarrow> bool" where
  "git_tracked G s \<longleftrightarrow>
     (case first_config (rb_backups (rn_rb s)) of
        None \<Rightarrow> mc_git (rn_mc s) = mc_git (gr_before G)
      | Some c \<Rightarrow> c = g_config (mc_git (gr_before G)) \<and>
          (\<exists>c'. mc_git (rn_mc s) = (mc_git (gr_before G))\<lparr>g_config := c'\<rparr>))"

definition noted_ok :: "ground \<Rightarrow> rollback \<Rightarrow> bool" where
  "noted_ok G rb \<longleftrightarrow> list_all (backup_ok (gr_layout G)) (rb_backups rb) \<and>
     (\<forall>p \<in> set (rb_created rb). gr_layout G p \<noteq> None \<and> fview (mc_fs (gr_before G)) p = None) \<and>
     (\<forall>d \<in> set (rb_removed rb). gr_layout G (fst d) = Some KDir) \<and>
     (\<forall>d \<in> set (rb_state_dirs rb). \<forall>n \<in> set runtime_state_files. path_div d n \<in> gr_free G)"

definition restorable :: "ground \<Rightarrow> run \<Rightarrow> bool" where
  "restorable G s \<longleftrightarrow> grounded G \<and> sound G (rn_mc s) \<and> jn_path (rn_journal s) = gr_journal G \<and>
     noted_ok G (rn_rb s) \<and> git_tracked G s \<and> (\<forall>q. q \<notin> gr_free G \<longrightarrow> tracked G s q)"

text \<open>A steady step leaves the notes on files and the files that are not free.\<close>

definition steady :: "ground \<Rightarrow> run \<Rightarrow> run \<Rightarrow> bool" where
  "steady G s s' \<longleftrightarrow> (restorable G s \<longrightarrow> restorable G s' \<and>
     (\<forall>q. q \<notin> gr_free G \<longrightarrow> fview (mc_fs (rn_mc s')) q = fview (mc_fs (rn_mc s)) q) \<and>
     rb_backups (rn_rb s') = rb_backups (rn_rb s) \<and> rb_created (rn_rb s') = rb_created (rn_rb s))"

interpretation steady: state_order "steady G" for G
  by unfold_locales (auto simp: steady_def)

definition same_notes :: "rollback \<Rightarrow> rollback \<Rightarrow> bool" where
  "same_notes rb rb' \<longleftrightarrow> rb_backups rb' = rb_backups rb \<and> rb_created rb' = rb_created rb \<and>
     rb_removed rb' = rb_removed rb \<and> rb_state_dirs rb' = rb_state_dirs rb"

lemma same_notes_refl [simp]: "same_notes rb rb"
  by (simp add: same_notes_def)

lemma restorable_steady:
  assumes inv: "restorable G s" and h: "harmless G (rn_mc s) (rn_mc s')"
    and j: "jn_path (rn_journal s') = jn_path (rn_journal s)" and n: "same_notes (rn_rb s) (rn_rb s')"
  shows "restorable G s'"
    and "q \<notin> gr_free G \<Longrightarrow> fview (mc_fs (rn_mc s')) q = fview (mc_fs (rn_mc s)) q"
proof -
  from inv have "sound G (rn_mc s)" by (simp add: restorable_def)
  with h have m: "sound G (rn_mc s')" "mc_git (rn_mc s') = mc_git (rn_mc s)"
    and v: "\<And>q. q \<notin> gr_free G \<Longrightarrow> fview (mc_fs (rn_mc s')) q = fview (mc_fs (rn_mc s)) q"
    by (simp_all add: harmless_def)
  have "noted_ok G (rn_rb s')" using inv n by (simp add: restorable_def noted_ok_def same_notes_def)
  moreover have "git_tracked G s'" using inv n m(2)
    by (cases "first_config (rb_backups (rn_rb s))") (simp_all add: restorable_def git_tracked_def same_notes_def)
  moreover have "tracked G s' q" if "q \<notin> gr_free G" for q
  proof -
    from inv that have "tracked G s q" by (simp add: restorable_def)
    with v [OF that] n show ?thesis unfolding tracked_def same_notes_def
      by (cases "first_saved (rb_backups (rn_rb s)) q") simp_all
  qed
  ultimately show "restorable G s'" using inv m(1) j by (simp add: restorable_def)
  show "fview (mc_fs (rn_mc s')) q = fview (mc_fs (rn_mc s)) q" if "q \<notin> gr_free G" for q
    by (rule v [OF that])
qed

lemma steadyI:
  assumes "restorable G s \<Longrightarrow> harmless G (rn_mc s) (rn_mc s')"
    and "jn_path (rn_journal s') = jn_path (rn_journal s)" and "same_notes (rn_rb s) (rn_rb s')"
  shows "steady G s s'"
  using assms restorable_steady [OF _ _ assms(2,3)] by (auto simp: steady_def same_notes_def)

lemma steady_mc: assumes "keeps (harmless G) c" shows "keeps (steady G) (on_mc c)"
proof (rule keepsI)
  fix s r s' assume "on_mc c s = (r, s')"
  then obtain m where "c (rn_mc s) = (r, m)" "s' = s\<lparr>rn_mc := m\<rparr>" by (auto simp: on_mc_def split: prod.splits)
  with keepsD [OF assms] show "steady G s s'" by (intro steadyI) simp_all
qed

lemma steady_mc': assumes "grounded G \<Longrightarrow> keeps (harmless G) c" shows "keeps (steady G) (on_mc c)"
proof (cases "grounded G")
  case True
  with assms show ?thesis by (simp add: steady_mc)
next
  case False
  then show ?thesis by (simp add: keeps_def steady_def restorable_def)
qed

lemma steady_journal: "keeps (steady G) write_journal"
proof (rule keepsI)
  fix s r s' assume run: "write_journal s = (r, s')"
  show "steady G s s'"
  proof (cases "restorable G s")
    case True
    then have "keeps (harmless G) (atomic_write (jn_path (rn_journal s)) (json_text_of (journal_json (rn_journal s))) 384)"
      by (intro harm_write) (auto simp: restorable_def grounded_def)
    from keepsD [OF steady_mc [OF this]] run show ?thesis by (simp add: write_journal_def)
  next
    case False
    then show ?thesis by (simp add: steady_def)
  qed
qed

lemma steady_modify:
  assumes "\<And>s. rn_mc (f s) = rn_mc s" and "\<And>s. jn_path (rn_journal (f s)) = jn_path (rn_journal s)"
    and "\<And>s. rn_rb (f s) = rn_rb s"
  shows "keeps (steady G) (emodify f)"
  using assms by (auto simp: keeps_def emodify_def harm.refl intro!: steadyI)

lemma steady_entries: "keeps (steady G) (attempt E op target)" "keeps (steady G) (record_done E op target)"
proof -
  have "keeps (steady G) (eseq (emodify (note_attempt e)) write_journal)"
    "keeps (steady G) (eseq (emodify (note_executed e)) write_journal)" for e
    by (intro steady.keeps_rules steady_modify steady_journal; simp add: note_attempt_def note_executed_def)+
  then show "keeps (steady G) (attempt E op target)" "keeps (steady G) (record_done E op target)"
    unfolding attempt_def record_done_def keeps_def by blast+
qed

lemma steady_journaled: "keeps (steady G) m \<Longrightarrow> keeps (steady G) (journaled E op target m)"
  unfolding journaled_def by (intro steady.keeps_rules steady_entries)

lemma steady_notes: "keeps (steady G) (note_started u)" "keeps (steady G) (note_enabled u)"
  by (auto simp: keeps_def note_started_def note_enabled_def note_rb_def emodify_def harm.refl same_notes_def
      intro!: steadyI)

lemma steady_finish: "keeps (steady G) (finish_journal st extra)"
  unfolding finish_journal_def
  by (intro steady.keeps_rules steady_modify steady_journal; simp add: close_journal_def)

end
