(* ===== verification/Rollback_Run.thy ===== *)
theory Rollback_Run
  imports Rollback DevEnv_Props
begin

text \<open>
  Every step of a transaction keeps the invariant of the rollback: units and the journal leave the
  files alone, a file is saved before it is changed, and what is new is noted.
\<close>

section \<open>Steps on units\<close>

lemmas pure_defs = is_active_def unit_snapshot_def journal_tail_def check_mount_points_def preflight_run_def
  m_iterdir_def

lemma harm_pure: "(\<And>m. snd (c m) = m) \<Longrightarrow> keeps (harmless G) c"
  by (metis harm.refl keepsI snd_conv)

lemma harm_reads:
  "keeps (harmless G) (is_active E u)" "keeps (harmless G) (validate_destructive E H rs items)"
  "keeps (harmless G) (planned E H g reg d)" "keeps (harmless G) (m_iterdir p)"
  "keeps (harmless G) (stale_resources E H g d b)"
  "keeps (harmless G) (preflight_access_namespace E g temporary d (Some root))"
proof -
  show "keeps (harmless G) (m_iterdir p)"
    by (rule harm_pure) (simp add: m_iterdir_def split: option.splits entry.splits)
qed (simp_all add: is_active_def validate_destructive_def Let_def planned_def stale_resources_def
    preflight_access_namespace_def check_mount_points_def preflight_run_def harm.keeps_rules)

lemma steady_systemd:
  "keeps (steady G) (on_mc (unit_action (gr_systemd G) verb u))"
  "keeps (steady G) (on_mc (daemon_reload (gr_systemd G)))" "keeps (steady G) (on_mc (is_active E u))"
  by (rule steady_mc', erule harm_units)+ (rule steady_mc, rule harm_reads)

lemma steady_units:
  fixes G defines "E \<equiv> gr_systemd G"
  shows "keeps (steady G) (retire E verb i)" "keeps (steady G) (reload_units E)" "keeps (steady G) (enable_unit E i)"
    "keeps (steady G) (run_unit E op verb u)" "keeps (steady G) (start_unit E i)"
  unfolding retire_def reload_units_def enable_unit_def run_unit_def start_unit_def E_def
  by (intro steady_journaled steady.keeps_rules steady_notes steady_systemd)+

lemma steady_retire_units: "keeps (steady G) (retire_units (gr_systemd G) items)"
  unfolding retire_units_def by (intro steady.keeps_rules steady_units)

lemma harm_wait:
  assumes "grounded G" and "E = gr_systemd G"
  shows "wait_ready E probe deadline seen m = (r, m') \<Longrightarrow> harmless G m m'"
  using assms(2)
proof (induction E probe deadline seen m rule: wait_ready.induct)
  case (1 E probe deadline seen m)
  show ?case
  proof (cases "mc_clock m < deadline \<and> (\<exists>now. probe m = Inr (False, now))")
    case False
    with 1(2) show ?thesis
      by (subst (asm) wait_ready.simps) (auto simp: harm.refl split: sum.splits bool.splits if_splits)
  next
    case True
    then obtain now where p: "mc_clock m < deadline" "probe m = Inr (False, now)" by blast
    with 1(2) have "wait_ready E probe deadline now (sleep_ms E 500 m) = (r, m')"
      by (subst (asm) wait_ready.simps) simp
    from 1(1) [OF p refl refl this 1(3)] harm_sleep [OF assms(1), of m 500] 1(3) show ?thesis
      by (auto intro: harm.trans)
  qed
qed

lemma harm_qualify: assumes "grounded G" shows "keeps (harmless G) (qualify (gr_systemd G) patience d)"
proof -
  have pure: "keeps (harmless G) (unit_snapshot (gr_systemd G) u)" "keeps (harmless G) (journal_tail (gr_systemd G) u k)"
    for u k by (simp_all add: unit_snapshot_def journal_tail_def harm.keeps_rules)
  have "keeps (harmless G) (\<lambda>m. ebind (wait_ready (gr_systemd G) (readiness (gr_systemd G) d) (mc_clock m + patience) (JObj []))
      (\<lambda>seen. case seen of None \<Rightarrow> ereturn () | Some s \<Rightarrow> not_ready (gr_systemd G) d s) m)"
  proof (rule keepsI)
    fix m r m'
    assume run: "ebind (wait_ready (gr_systemd G) (readiness (gr_systemd G) d) (mc_clock m + patience) (JObj []))
      (\<lambda>seen. case seen of None \<Rightarrow> ereturn () | Some s \<Rightarrow> not_ready (gr_systemd G) d s) m = (r, m')"
    have w: "keeps (harmless G) (wait_ready (gr_systemd G) (readiness (gr_systemd G) d) (mc_clock m + patience) (JObj []))"
      using harm_wait [OF assms refl] by (blast intro: keepsI)
    have "keeps (harmless G) (ebind (wait_ready (gr_systemd G) (readiness (gr_systemd G) d) (mc_clock m + patience) (JObj []))
      (\<lambda>seen. case seen of None \<Rightarrow> ereturn () | Some s \<Rightarrow> not_ready (gr_systemd G) d s))"
      unfolding not_ready_def Let_def by (intro harm.keeps_rules w pure)
    from keepsD [OF this run] show "harmless G m m'" .
  qed
  then show ?thesis unfolding qualify_def by (intro harm.keeps_rules harm_reads)
qed

section \<open>Conditions that steady steps keep\<close>

definition guarded :: "ground \<Rightarrow> ppath \<Rightarrow> run \<Rightarrow> bool" where
  "guarded G p s \<longleftrightarrow> p \<in> gr_free G \<or> p \<in> set (rb_created (rn_rb s)) \<or>
     first_saved (rb_backups (rn_rb s)) p \<noteq> None"

definition covered :: "ground \<Rightarrow> ppath \<Rightarrow> run \<Rightarrow> bool" where
  "covered G p s \<longleftrightarrow> guarded G p s \<or> fview (mc_fs (rn_mc s)) p = None"

definition kept :: "ground \<Rightarrow> run \<Rightarrow> bool" where
  "kept G s \<longleftrightarrow> (\<forall>q. q \<notin> gr_free G \<longrightarrow> fview (mc_fs (rn_mc s)) q = None \<longrightarrow> fview (mc_fs (gr_before G)) q = None)"

definition stable :: "ground \<Rightarrow> (run \<Rightarrow> bool) \<Rightarrow> bool" where
  "stable G P \<longleftrightarrow> (\<forall>s s'. steady G s s' \<longrightarrow> restorable G s \<longrightarrow> P s \<longrightarrow> P s')"

lemma stable_rules:
  "stable G (guarded G p)" "stable G (covered G p)" "stable G (kept G)" "stable G (\<lambda>_. c)"
  "stable G P \<Longrightarrow> stable G Q \<Longrightarrow> stable G (\<lambda>s. P s \<and> Q s)"
  unfolding stable_def steady_def guarded_def covered_def kept_def by fastforce+

lemma carries_stable:
  assumes "stable G P" and "keeps (steady G) m"
  shows "carries (\<lambda>s. restorable G s \<and> P s) m (\<lambda>s. restorable G s \<and> P s)"
proof (rule carriesI)
  fix s r s' assume "restorable G s \<and> P s" "m s = (r, s')"
  with assms keepsD [OF assms(2)] show "restorable G s' \<and> P s'"
    unfolding stable_def by (metis steady_def)
qed

lemma carries_steady: "keeps (steady G) m \<Longrightarrow> carries (restorable G) m (restorable G)"
  using carries_stable [OF stable_rules(4) [of G True]] by simp

section \<open>Saving and noting\<close>

lemma first_saved_append:
  "first_saved (xs @ ys) q = (case first_saved xs q of None \<Rightarrow> first_saved ys q | Some v \<Rightarrow> Some v)"
  by (induction xs q rule: first_saved.induct) auto

lemma first_config_append:
  "first_config (xs @ ys) = (case first_config xs of None \<Rightarrow> first_config ys | Some v \<Rightarrow> Some v)"
  by (induction xs rule: first_config.induct) auto

lemma restorable_parts:
  assumes "restorable G s"
  shows "grounded G" "tree (gr_layout G)" "sound G (rn_mc s)" "calm (gr_layout G) (rn_mc s)"
    "fits (gr_layout G) (mc_fs (rn_mc s))" "fits (gr_layout G) (mc_fs (gr_before G))"
  using assms by (auto simp: restorable_def grounded_def sound_def calm_def)

lemma restorable_put:
  assumes inv: "restorable G s" and g: "guarded G p s" and m: "sound G m'" "mc_git m' = mc_git (rn_mc s)"
    and v: "fview (mc_fs m') = (fview (mc_fs (rn_mc s)))(p := x)"
  shows "restorable G (s\<lparr>rn_mc := m'\<rparr>)"
proof -
  have "tracked G (s\<lparr>rn_mc := m'\<rparr>) q" if q: "q \<notin> gr_free G" for q
  proof (cases "q = p")
    case True
    with inv g q show ?thesis by (auto simp: guarded_def tracked_def restorable_def split: option.splits)
  next
    case False
    with inv q v show ?thesis
      by (cases "first_saved (rb_backups (rn_rb s)) q") (auto simp: tracked_def restorable_def)
  qed
  moreover have "git_tracked G (s\<lparr>rn_mc := m'\<rparr>)"
    using inv m(2) by (cases "first_config (rb_backups (rn_rb s))") (auto simp: git_tracked_def restorable_def)
  ultimately show ?thesis using inv m(1) by (simp add: restorable_def)
qed

lemma restorable_save:
  assumes inv: "restorable G s" and f: "fview (mc_fs (rn_mc s)) p = Some (md, c)"
  defines "s' \<equiv> s\<lparr>rn_rb := rn_rb s\<lparr>rb_backups := rb_backups (rn_rb s) @ [SavedFile p c md]\<rparr>\<rparr>"
  shows "restorable G s'" and "guarded G p s'"
proof -
  have ok: "gr_layout G p = Some KFile" "c \<noteq> Bytes"
    using inv f view_kind [OF restorable_parts(5) [OF inv], of p]
    by (auto simp: restorable_def sound_def decodable_def)
  have "tracked G s' q" if q: "q \<notin> gr_free G" for q
  proof -
    from inv q have "tracked G s q" by (simp add: restorable_def)
    then show ?thesis
      using f by (cases "first_saved (rb_backups (rn_rb s)) q")
        (auto simp: tracked_def s'_def first_saved_append)
  qed
  moreover have "git_tracked G s'"
    using inv by (cases "first_config (rb_backups (rn_rb s))")
      (auto simp: restorable_def git_tracked_def s'_def first_config_append)
  moreover have "noted_ok G (rn_rb s')" using inv ok by (simp add: restorable_def noted_ok_def s'_def backup_ok_def)
  ultimately show "restorable G s'" using inv by (simp add: restorable_def s'_def)
  show "guarded G p s'" by (simp add: guarded_def s'_def first_saved_append split: option.splits)
qed

lemma backup_result:
  assumes inv: "restorable G s" and b: "backup p s = (r, s')"
  shows "r = Inr ()" and "rn_mc s' = rn_mc s" and "restorable G s'" and "covered G p s'" and "kept G s \<Longrightarrow> kept G s'"
proof -
  have "r = Inr () \<and> rn_mc s' = rn_mc s \<and> restorable G s' \<and> covered G p s'"
  proof (cases "pp_parts p = []")
    case True
    then have "s' = s" "r = Inr ()"
      using b root_exists [of p "mc_fs (rn_mc s)"] by (simp_all add: backup_def on_fs_def ereturn_def)
    moreover have "fview (mc_fs (rn_mc s)) p = None"
      using True restorable_parts(2) [OF inv] by (intro view_kind [OF restorable_parts(5) [OF inv]]) (auto simp: tree_def)
    ultimately show ?thesis using inv by (simp add: covered_def)
  next
    case False
    from restorable_parts(5) [OF inv] show ?thesis
    proof (cases rule: fits_cases [where p = p, consumes 1])
      case absent
      with b False have "s' = s" "r = Inr ()"
        by (auto simp: backup_def on_fs_def ereturn_def x_exists_def x_lookup_def)
      with absent inv show ?thesis by (simp add: covered_def fview_def)
    next
      case (dir m)
      with b False have "s' = s" "r = Inr ()"
        by (auto simp: backup_def on_fs_def ereturn_def x_is_dir_def x_lookup_def)
      with dir inv show ?thesis by (simp add: covered_def fview_def)
    next
      case (reg md c)
      with b False have "r = Inr ()" "s' = s\<lparr>rn_rb := rn_rb s\<lparr>rb_backups := rb_backups (rn_rb s) @ [SavedFile p c md]\<rparr>\<rparr>"
        by (auto simp: backup_def on_fs_def note_rb_def emodify_def x_is_dir_def x_lookup_def x_exists_def)
      moreover have "fview (mc_fs (rn_mc s)) p = Some (md, c)" using reg by (simp add: fview_def)
      ultimately show ?thesis using restorable_save [OF inv] by (simp add: covered_def)
    qed
  qed
  then show "r = Inr ()" "rn_mc s' = rn_mc s" "restorable G s'" "covered G p s'" by auto
  then show "kept G s \<Longrightarrow> kept G s'" by (simp add: kept_def)
qed

lemma restorable_created:
  assumes inv: "restorable G s" and k: "gr_layout G p \<noteq> None" and n: "fview (mc_fs (gr_before G)) p = None"
  defines "s' \<equiv> s\<lparr>rn_rb := rn_rb s\<lparr>rb_created := rb_created (rn_rb s) @ [p]\<rparr>\<rparr>"
  shows "restorable G s'" and "guarded G p s'"
proof -
  have "tracked G s' q" if q: "q \<notin> gr_free G" for q
    using inv q by (cases "first_saved (rb_backups (rn_rb s)) q") (auto simp: restorable_def tracked_def s'_def)
  moreover have "git_tracked G s'"
    using inv by (cases "first_config (rb_backups (rn_rb s))") (auto simp: restorable_def git_tracked_def s'_def)
  ultimately show "restorable G s'" using inv k n by (auto simp: restorable_def noted_ok_def s'_def)
  show "guarded G p s'" by (simp add: guarded_def s'_def)
qed

lemma restorable_removed:
  assumes inv: "restorable G s" and k: "gr_layout G p = Some KDir"
  shows "restorable G (s\<lparr>rn_rb := rn_rb s\<lparr>rb_removed := rb_removed (rn_rb s) @ [(p, mode)]\<rparr>\<rparr>)" (is "restorable G ?s")
proof -
  have "tracked G ?s q" if q: "q \<notin> gr_free G" for q
    using inv q by (cases "first_saved (rb_backups (rn_rb s)) q") (auto simp: restorable_def tracked_def)
  moreover have "git_tracked G ?s"
    using inv by (cases "first_config (rb_backups (rn_rb s))") (auto simp: restorable_def git_tracked_def)
  ultimately show ?thesis using inv k by (auto simp: restorable_def noted_ok_def)
qed

lemma restorable_state_dir:
  assumes inv: "restorable G s" and k: "\<forall>n \<in> set runtime_state_files. path_div p n \<in> gr_free G"
  shows "restorable G (s\<lparr>rn_rb := rn_rb s\<lparr>rb_state_dirs := rb_state_dirs (rn_rb s) @ [p]\<rparr>\<rparr>)" (is "restorable G ?s")
proof -
  have "tracked G ?s q" if q: "q \<notin> gr_free G" for q
    using inv q by (cases "first_saved (rb_backups (rn_rb s)) q") (auto simp: restorable_def tracked_def)
  moreover have "git_tracked G ?s"
    using inv by (cases "first_config (rb_backups (rn_rb s))") (auto simp: restorable_def git_tracked_def)
  ultimately show ?thesis using inv k by (auto simp: restorable_def noted_ok_def)
qed

section \<open>Creating and updating\<close>

definition intact :: "ground \<Rightarrow> run \<Rightarrow> bool" where
  "intact G s \<longleftrightarrow> restorable G s \<and> kept G s"

definition placed :: "ground \<Rightarrow> resource \<Rightarrow> bool" where
  "placed G r \<longleftrightarrow> path_of (r_path r) \<notin> gr_free G \<and>
     gr_layout G (path_of (r_path r)) = Some (if r_kind r = DIRECTORY then KDir else KFile) \<and>
     (r_id r = ''state-dir'' \<longrightarrow> (\<forall>n \<in> set runtime_state_files. path_div (path_of (r_path r)) n \<in> gr_free G))"

lemma carries_intact: "keeps (steady G) m \<Longrightarrow> carries (intact G) m (intact G)"
  using carries_stable [OF stable_rules(3)] unfolding intact_def by blast

lemma carries_covered:
  "keeps (steady G) m \<Longrightarrow> carries (\<lambda>s. intact G s \<and> covered G p s) m (\<lambda>s. intact G s \<and> covered G p s)"
  using carries_stable [OF stable_rules(5) [OF stable_rules(3,2)]] unfolding intact_def conj_assoc by blast

lemma file_exists:
  assumes "restorable G s" and "gr_layout G p = Some KFile"
  shows "fview (mc_fs (rn_mc s)) p = None \<longleftrightarrow> \<not> x_exists (mc_fs (rn_mc s)) p"
proof -
  have "pp_parts p \<noteq> []" using assms(2) restorable_parts(2) [OF assms(1)] by (auto simp: tree_def)
  from fits_file(2) [OF restorable_parts(5) [OF assms(1)] assms(2) this] show ?thesis by blast
qed

lemma covered_fresh:
  "restorable G s \<Longrightarrow> fview (mc_fs (gr_before G)) p = None \<Longrightarrow> covered G p s"
  by (cases "p \<in> gr_free G"; cases "first_saved (rb_backups (rn_rb s)) p")
    (auto simp: restorable_def covered_def guarded_def tracked_def)

lemma save_before_update:
  assumes "pi_op i = P_CREATE \<Longrightarrow> fview (mc_fs (gr_before G)) p = None" and "pi_op i \<in> {P_CREATE, P_UPDATE}"
    and "gr_layout G p = Some KFile"
  shows "carries (intact G) (on_fs (\<lambda>fs. ewhen (pi_op i = P_UPDATE \<and> x_exists fs p) (backup p)))
    (\<lambda>s. intact G s \<and> covered G p s)"
proof (rule carriesI)
  fix s r s' assume i: "intact G s"
    and run: "on_fs (\<lambda>fs. ewhen (pi_op i = P_UPDATE \<and> x_exists fs p) (backup p)) s = (r, s')"
  show "intact G s' \<and> covered G p s'"
  proof (cases "pi_op i = P_UPDATE \<and> x_exists (mc_fs (rn_mc s)) p")
    case True
    with run have "backup p s = (r, s')" by (simp add: on_fs_def ewhen_def)
    from backup_result [OF _ this] i show ?thesis by (simp add: intact_def)
  next
    case False
    with run have s: "s' = s" by (auto simp: on_fs_def ewhen_def ereturn_def)
    have "covered G p s"
    proof (cases "pi_op i = P_UPDATE")
      case True
      with False i assms(3) file_exists [of G s p] have "fview (mc_fs (rn_mc s)) p = None"
        by (auto simp: intact_def)
      then show ?thesis by (simp add: covered_def)
    next
      case False
      with assms(1,2) i covered_fresh [of G s p] show ?thesis by (auto simp: intact_def)
    qed
    with i s show ?thesis by simp
  qed
qed

lemma note_if_new:
  assumes "gr_layout G p = Some KFile" and "p \<notin> gr_free G"
  shows "carries (\<lambda>s. intact G s \<and> covered G p s) (on_fs (\<lambda>fs. ewhen (\<not> x_exists fs p) (note_created p)))
    (\<lambda>s. intact G s \<and> guarded G p s)"
proof (rule carriesI)
  fix s r s' assume i: "intact G s \<and> covered G p s"
    and run: "on_fs (\<lambda>fs. ewhen (\<not> x_exists fs p) (note_created p)) s = (r, s')"
  show "intact G s' \<and> guarded G p s'"
  proof (cases "x_exists (mc_fs (rn_mc s)) p")
    case True
    with run have "s' = s" by (auto simp: on_fs_def ewhen_def ereturn_def)
    with True i assms(1) file_exists [of G s p] show ?thesis by (auto simp: intact_def covered_def)
  next
    case False
    with run have s': "s' = s\<lparr>rn_rb := rn_rb s\<lparr>rb_created := rb_created (rn_rb s) @ [p]\<rparr>\<rparr>"
      by (auto simp: on_fs_def ewhen_def note_created_def note_rb_def emodify_def)
    from False i assms(1) file_exists [of G s p] have "fview (mc_fs (rn_mc s)) p = None" by (auto simp: intact_def)
    with i assms(2) have "fview (mc_fs (gr_before G)) p = None" by (auto simp: intact_def kept_def)
    from restorable_created [OF _ _ this, of s] assms(1) i s' show ?thesis by (simp add: intact_def kept_def)
  qed
qed

lemma write_intact:
  assumes "gr_layout G p = Some KFile"
  shows "carries (\<lambda>s. intact G s \<and> guarded G p s) (on_mc (atomic_write p t mode)) (intact G)"
proof (rule carriesI)
  fix s r s' assume i: "intact G s \<and> guarded G p s" and run: "on_mc (atomic_write p t mode) s = (r, s')"
  then have "restorable G s" by (simp add: intact_def)
  from write_view [OF restorable_parts(1) [OF this] assms restorable_parts(3) [OF this], of t mode]
  obtain m' where m': "atomic_write p t mode (rn_mc s) = (Inr (), m')" "sound G m'" "mc_git m' = mc_git (rn_mc s)"
    "fview (mc_fs m') = (fview (mc_fs (rn_mc s)))(p := Some (mode, Text t))" by blast
  with run have "s' = s\<lparr>rn_mc := m'\<rparr>" by (simp add: on_mc_def)
  with restorable_put [OF \<open>restorable G s\<close> _ m'(2-4)] i m'(4) show "intact G s'"
    by (simp add: intact_def kept_def)
qed

lemma write_file_intact:
  assumes "gr_layout G p = Some KFile" and "p \<notin> gr_free G"
  shows "carries (\<lambda>s. intact G s \<and> covered G p s) (write_file r p) (intact G)"
proof (cases "r_content r")
  case None
  then show ?thesis by (simp add: write_file_def carries_def eraise_def)
next
  case (Some t)
  have "carries (\<lambda>s. intact G s \<and> covered G p s)
      (eseq (on_fs (\<lambda>fs. ewhen (\<not> x_exists fs p) (note_created p))) (on_mc (atomic_write p t (r_mode r)))) (intact G)"
    by (rule carries_seq_mid [OF note_if_new [OF assms] write_intact [OF assms(1)]]) simp
  with Some show ?thesis by (simp add: write_file_def)
qed

lemma make_directory_intact:
  assumes k: "gr_layout G p = Some KDir"
    and sd: "r_id r = ''state-dir'' \<Longrightarrow> \<forall>n \<in> set runtime_state_files. path_div p n \<in> gr_free G"
  shows "carries (intact G) (make_directory r p) (intact G)"
proof -
  have note1: "carries (intact G) (note_created p) (intact G)"
    unfolding note_created_def note_rb_def
  proof (rule carries_modify)
    fix s assume i: "intact G s"
    then have "fview (mc_fs (gr_before G)) p = None"
      using k by (intro view_kind [OF restorable_parts(6)]) (auto simp: intact_def)
    from restorable_created [OF _ _ this, of s] i k
    show "intact G (s\<lparr>rn_rb := rn_rb s\<lparr>rb_created := rb_created (rn_rb s) @ [p]\<rparr>\<rparr>)"
      by (simp add: intact_def kept_def)
  qed
  have note2: "carries (intact G) (note_state_dir p) (intact G)" if "r_id r = ''state-dir''"
    unfolding note_state_dir_def note_rb_def
    by (rule carries_modify) (use restorable_state_dir [OF _ sd [OF that]] in \<open>simp add: intact_def kept_def\<close>)
  have dir: "carries (intact G) (on_mc (m_mkdir p False (r_mode r))) (intact G)"
    "carries (intact G) (on_mc (m_chmod p (r_mode r))) (intact G)"
    by (rule carries_intact, rule steady_mc', erule harm_mkdir [OF _ k])
      (rule carries_intact, rule steady_mc, rule harm_chmod [OF k])
  have "carries (intact G) (\<lambda>s. (if x_exists (mc_fs (rn_mc s)) p then ereturn ()
        else eseq (on_mc (m_mkdir p False (r_mode r)))
          (eseq (note_created p) (ewhen (r_id r = ''state-dir'') (note_state_dir p)))) s) (intact G)"
    by (rule carries_at) (intro carries_rules dir note1 note2; assumption?)
  then show ?thesis unfolding make_directory_def on_fs_def by (intro carries_rules dir)
qed

lemma read_known: "ebind (eread (\<lambda>_. Inr x)) f = f x"
  by (simp add: fun_eq_iff ebind_def eread_def)

lemma apply_resource_intact:
  assumes pl: "\<And>r. resource_of rs i = Inr r \<Longrightarrow> placed G r"
    and new: "\<And>r. resource_of rs i = Inr r \<Longrightarrow> pi_op i = P_CREATE \<Longrightarrow>
      fview (mc_fs (gr_before G)) (path_of (r_path r)) = None"
    and op: "pi_op i \<in> {P_CREATE, P_UPDATE}"
  shows "carries (intact G) (apply_resource E rs i) (intact G)"
proof (cases "resource_of rs i")
  case (Inl e)
  then show ?thesis by (auto simp: apply_resource_def ebind_def eread_def managed_def carries_def)
next
  case (Inr r)
  let ?p = "path_of (r_path r)"
  let ?save = "on_fs (\<lambda>fs. ewhen (pi_op i = P_UPDATE \<and> x_exists fs ?p) (backup ?p))"
  have "carries (intact G) (eseq ?save (journaled E (plan_op_value (pi_op i)) (path_str ?p)
      (if r_kind r = DIRECTORY then make_directory r ?p else write_file r ?p))) (intact G)"
  proof (cases "r_kind r = DIRECTORY")
    case True
    with pl [OF Inr] have k: "gr_layout G ?p = Some KDir"
      "r_id r = ''state-dir'' \<longrightarrow> (\<forall>n \<in> set runtime_state_files. path_div ?p n \<in> gr_free G)" by (auto simp: placed_def)
    have save: "carries (intact G) ?save (intact G)"
    proof (rule carriesI)
      fix s q s' assume i: "intact G s" and run: "?save s = (q, s')"
      show "intact G s'"
      proof (cases "pi_op i = P_UPDATE \<and> x_exists (mc_fs (rn_mc s)) ?p")
        case True
        with run have "backup ?p s = (q, s')" by (simp add: on_fs_def ewhen_def)
        from backup_result [OF _ this] i show ?thesis by (simp add: intact_def)
      next
        case False
        with run i show ?thesis by (simp only: on_fs_def ewhen_def if_False ereturn_def) simp
      qed
    qed
    have mk: "carries (intact G) (make_directory r ?p) (intact G)"
      by (rule make_directory_intact [OF k(1)]) (use k(2) in blast)
    have "carries (intact G) (journaled E (plan_op_value (pi_op i)) (path_str ?p) (make_directory r ?p)) (intact G)"
      unfolding journaled_def
      by (rule carries_seq [OF carries_intact [OF steady_entries(1)]
            carries_seq [OF mk carries_intact [OF steady_entries(2)]]]) assumption+
    with save True show ?thesis by (auto intro: carries_seq)
  next
    case False
    with pl [OF Inr] have k: "gr_layout G ?p = Some KFile" "?p \<notin> gr_free G" by (auto simp: placed_def)
    have "carries (\<lambda>s. intact G s \<and> covered G ?p s)
        (journaled E (plan_op_value (pi_op i)) (path_str ?p) (write_file r ?p)) (intact G)"
      unfolding journaled_def
      by (intro carries_seq_mid [OF carries_covered [OF steady_entries(1)]]
          carries_seq_mid [OF write_file_intact [OF k]] carries_intact [OF steady_entries(2)]) simp_all
    from carries_seq_mid [OF save_before_update [OF new [OF Inr] op k(1)] this] False show ?thesis by simp
  qed
  with Inr show ?thesis by (simp add: apply_resource_def read_known managed_def Let_def)
qed

section \<open>Removing\<close>

lemma restorable_unlink:
  "carries (\<lambda>s. restorable G s \<and> covered G p s) (on_mc (m_unlink p)) (restorable G)"
proof (rule carriesI)
  fix s r s' assume i: "restorable G s \<and> covered G p s" and run: "on_mc (m_unlink p) s = (r, s')"
  then obtain m' where m': "m_unlink p (rn_mc s) = (r, m')" "s' = s\<lparr>rn_mc := m'\<rparr>"
    by (auto simp: on_mc_def split: prod.splits)
  from i have inv: "restorable G s" by simp
  note parts = restorable_parts [OF inv]
  have same: "restorable G s'" if "sets (gr_layout G) id (rn_mc s) m'"
  proof -
    from same_view_harmless [OF that] restorable_steady(1) [OF inv, of s'] m'(2) show ?thesis by simp
  qed
  from unlink_result [OF parts(4) m'(1)] show "restorable G s'"
  proof
    assume "sets (gr_layout G) id (rn_mc s) m'"
    then show ?thesis by (rule same)
  next
    assume d: "sets (gr_layout G) (\<lambda>v. v(p := None)) (rn_mc s) m'"
    have v: "fview (mc_fs m') = (fview (mc_fs (rn_mc s)))(p := None)" using setsD(1) [OF d] by simp
    have snd: "sound G m'" using setsD(2) [OF d] parts(3,4) v by (simp add: sound_def decodable_def)
    show ?thesis
    proof (cases "guarded G p s")
      case True
      from restorable_put [OF inv True snd setsD(3) [OF d] v] m'(2) show ?thesis by simp
    next
      case False
      with i have "fview (mc_fs (rn_mc s)) p = None" by (simp add: covered_def)
      with v have "fview (mc_fs m') = id (fview (mc_fs (rn_mc s)))" by (auto simp: fun_eq_iff)
      with d have "sets (gr_layout G) id (rn_mc s) m'" by (auto simp: sets_def)
      then show ?thesis by (rule same)
    qed
  qed
qed

lemma restorable_backup: "carries (restorable G) (backup p) (\<lambda>s. restorable G s \<and> covered G p s)"
  by (rule carriesI) (use backup_result in blast)

lemma restorable_delete: "carries (restorable G) (eseq (backup p) (on_mc (m_unlink p))) (restorable G)"
  by (rule carries_seq_mid [OF restorable_backup restorable_unlink]) simp

lemma restorable_reads: "keeps (harmless G) c \<Longrightarrow> carries (restorable G) (on_mc c) (restorable G)"
  by (intro carries_steady steady_mc)

lemma restorable_runtime_file: "carries (restorable G) (remove_runtime_file dir name) (restorable G)"
proof -
  have "carries (restorable G) (\<lambda>s. (if \<not> plain_file (mc_fs (rn_mc s)) (path_div dir name) then
          eraise (no_destruction (''refusing to remove unexpected runtime-state type: '' @ path_str (path_div dir name)) [])
        else eseq (backup (path_div dir name)) (on_mc (m_unlink (path_div dir name)))) s) (restorable G)"
    by (rule carries_at) (intro carries_if carries_pure restorable_delete)
  then show ?thesis
    unfolding remove_runtime_file_def Let_def on_fs_def by (intro carries_if carries_pure)
qed

lemma restorable_remove_directory:
  assumes k: "gr_layout G p = Some KDir" shows "carries (restorable G) (remove_directory r p) (restorable G)"
proof -
  have note1: "carries (restorable G) (note_removed p mode) (restorable G)" for mode
    unfolding note_removed_def note_rb_def by (rule carries_modify) (rule restorable_removed [OF _ k])
  have rm: "carries (restorable G) (on_mc (m_rmdir p)) (restorable G)"
    by (rule carries_steady, rule steady_mc', rule harm_rmdir)
  have known: "carries (restorable G) (remove_known_runtime_state p) (restorable G)"
    unfolding remove_known_runtime_state_def
    by (intro carries_bind carries_each restorable_runtime_file restorable_reads harm_reads) assumption
  have "carries (restorable G) (\<lambda>s. (if \<not> plain_directory (mc_fs (rn_mc s)) p then
       eraise (no_destruction (''refusing to remove non-directory '' @ path_str p) [])
     else
       eseq (ewhen (r_id r = ''state-dir'') (remove_known_runtime_state p))
       (ebind (on_mc (m_iterdir p)) (\<lambda>names.
        if names \<noteq> [] then
          eraise (no_destruction (''refusing to remove non-empty directory '' @ path_str p) [])
        else eseq (on_mc (m_rmdir p)) (note_removed p (r_mode r))))) s) (restorable G)"
    by (rule carries_at)
      (intro carries_if carries_pure carries_seq carries_when known carries_bind restorable_reads harm_reads rm note1;
        assumption)
  then show ?thesis unfolding remove_directory_def on_fs_def .
qed

lemma restorable_remove_resource:
  assumes "placed G (snd ir)" shows "carries (restorable G) (remove_resource E ir) (restorable G)"
proof -
  obtain i r where ir: "ir = (i, r)" by fastforce
  let ?p = "path_of (r_path r)"
  have body: "carries (restorable G) (if r_kind r = DIRECTORY then remove_directory r ?p
      else eseq (backup ?p) (on_mc (m_unlink ?p))) (restorable G)"
    using assms ir by (intro carries_if restorable_remove_directory restorable_delete) (simp add: placed_def)
  have j: "carries (restorable G) (journaled E (plan_op_value (pi_op i)) (path_str ?p)
      (if r_kind r = DIRECTORY then remove_directory r ?p else eseq (backup ?p) (on_mc (m_unlink ?p)))) (restorable G)"
    unfolding journaled_def by (intro carries_seq body carries_steady steady_entries) assumption+
  have "carries (restorable G) (\<lambda>s. (if \<not> x_exists (mc_fs (rn_mc s)) ?p \<and> \<not> x_is_symlink (mc_fs (rn_mc s)) ?p
      then ereturn ()
      else journaled E (plan_op_value (pi_op i)) (path_str ?p)
        (if r_kind r = DIRECTORY then remove_directory r ?p
         else eseq (backup ?p) (on_mc (m_unlink ?p)))) s) (restorable G)"
    by (rule carries_at) (intro carries_if carries_pure j)
  then show ?thesis unfolding ir remove_resource_def prod.case Let_def on_fs_def .
qed

lemma restorable_remove_resources:
  assumes "\<And>i r. i \<in> set items \<Longrightarrow> resource_of rs i = Inr r \<Longrightarrow> placed G r"
  shows "carries (restorable G) (remove_resources E rs items) (restorable G)"
proof (cases "removal_order rs items")
  case (Inl e)
  then show ?thesis by (auto simp: remove_resources_def managed_def ebind_def eread_def carries_def)
next
  case (Inr pairs)
  have "placed G (snd ir)" if "ir \<in> set pairs" for ir
  proof -
    from Inr obtain ps where t: "traverse (\<lambda>i. rbind (resource_of rs i) (\<lambda>r. Inr (i, r))) items = Inr ps"
      and "pairs = sort_by (\<lambda>ir. removal_key (snd ir)) ps" by (auto simp: removal_order_def res_simps)
    with that have "ir \<in> set ps" by simp
    with traverse_eq_InrD [OF t] obtain i r where "i \<in> set items" "resource_of rs i = Inr r" "ir = (i, r)"
      by (fastforce simp: res_simps)
    with assms show ?thesis by simp
  qed
  with Inr show ?thesis
    by (simp add: remove_resources_def managed_def read_known carries_each restorable_remove_resource)
qed

section \<open>Git settings\<close>

definition config_saved :: "run \<Rightarrow> bool" where
  "config_saved s \<longleftrightarrow> first_config (rb_backups (rn_rb s)) \<noteq> None"

lemma stable_config: "stable G config_saved"
  by (simp add: stable_def steady_def config_saved_def)

lemma save_config_result:
  "carries (restorable G) save_config (\<lambda>s. restorable G s)"
  "restorable G s \<Longrightarrow> save_config s = (Inr u, s') \<Longrightarrow> config_saved s'"
proof -
  have ok: "restorable G (s\<lparr>rn_rb := rn_rb s\<lparr>rb_backups := rb_backups (rn_rb s) @
      [SavedConfig (g_config (mc_git (rn_mc s)))]\<rparr>\<rparr>)" (is "restorable G ?s") if inv: "restorable G s" for s
  proof -
    have "tracked G ?s q" if "q \<notin> gr_free G" for q
      using inv that by (cases "first_saved (rb_backups (rn_rb s)) q")
        (auto simp: restorable_def tracked_def first_saved_append)
    moreover have "git_tracked G ?s"
      using inv by (cases "first_config (rb_backups (rn_rb s))")
        (auto simp: restorable_def git_tracked_def first_config_append
          intro!: exI [of _ "g_config (mc_git (gr_before G))"])
    ultimately show ?thesis using inv by (simp add: restorable_def noted_ok_def backup_ok_def)
  qed
  show "carries (restorable G) save_config (\<lambda>s. restorable G s)"
    by (rule carriesI) (auto simp: save_config_def note_rb_def emodify_def ok split: sum.splits)
  show "config_saved s'" if "save_config s = (Inr u, s')" "restorable G s" for s u s'
    using that by (auto simp: save_config_def note_rb_def emodify_def config_saved_def first_config_append
        split: sum.splits option.splits)
qed

lemma git_step:
  assumes "keeps (only_keys ks) c"
  shows "carries (\<lambda>s. restorable G s \<and> config_saved s) (on_mc (on_git c)) (\<lambda>s. restorable G s \<and> config_saved s)"
proof (rule carriesI)
  fix s r s' assume i: "restorable G s \<and> config_saved s" and run: "on_mc (on_git c) s = (r, s')"
  from run obtain q gs where c: "c (mc_git (rn_mc s)) = (q, gs)" and s': "s' = s\<lparr>rn_mc := (rn_mc s)\<lparr>mc_git := gs\<rparr>\<rparr>"
    by (auto simp: on_mc_def on_git_def split: prod.splits)
  from keepsD [OF assms c] have "same_setup (mc_git (rn_mc s)) gs" by (simp add: only_keys_def)
  then have "gs = (mc_git (rn_mc s))\<lparr>g_config := g_config gs\<rparr>" by (simp add: same_setup_def)
  then obtain c2 where gs: "gs = (mc_git (rn_mc s))\<lparr>g_config := c2\<rparr>" by blast
  from i obtain cfg where cfg: "first_config (rb_backups (rn_rb s)) = Some cfg" "git_tracked G s"
    by (auto simp: config_saved_def restorable_def)
  then obtain c' where "mc_git (rn_mc s) = (mc_git (gr_before G))\<lparr>g_config := c'\<rparr>" "cfg = g_config (mc_git (gr_before G))"
    by (auto simp: git_tracked_def)
  with gs cfg s' have "git_tracked G s'" by (auto simp: git_tracked_def)
  moreover have "tracked G s' q" if "q \<notin> gr_free G" for q
    using i that s' by (cases "first_saved (rb_backups (rn_rb s)) q") (auto simp: restorable_def tracked_def)
  ultimately show "restorable G s' \<and> config_saved s'"
    using i s' by (auto simp: restorable_def config_saved_def sound_def calm_def)
qed

lemma restorable_development: "carries (restorable G) (apply_development E g d items) (restorable G)"
proof -
  let ?P = "\<lambda>s. restorable G s \<and> config_saved s"
  have item: "carries ?P (apply_git_item E g d i) ?P" for i
  proof -
    have "carries ?P (on_mc (on_git (if pi_rid i = Some ''dev-git-identity'' then converge_identity d
        else converge_transport g d))) ?P"
      using git_step [OF touches_identity] git_step [OF touches_transport] by (cases "pi_rid i = Some ''dev-git-identity''") simp_all
    then show ?thesis unfolding apply_git_item_def journaled_def
      by (rule carries_seq [OF carries_stable [OF stable_config steady_entries(1)]
            carries_seq [OF _ carries_stable [OF stable_config steady_entries(2)]]])
  qed
  have "carries (restorable G) (eseq save_config (each_e (apply_git_item E g d) xs)) (restorable G)" for xs
  proof (rule carriesI)
    fix s r s' assume i: "restorable G s" and run: "eseq save_config (each_e (apply_git_item E g d) xs) s = (r, s')"
    show "restorable G s'"
    proof (cases rule: ebind_cases [OF run [unfolded eseq_def]])
      case (1 e)
      with i save_config_result(1) show ?thesis by (blast dest: carriesD)
    next
      case (2 x t)
      with i save_config_result have "?P t" by (metis carriesD)
      with carriesD [OF carries_each [of xs ?P "apply_git_item E g d"] this 2(2)] item show ?thesis by blast
    qed
  qed
  then show ?thesis unfolding apply_development_def Let_def by (intro carries_if carries_pure)
qed

section \<open>The whole transaction\<close>

text \<open>The start: nothing is saved, nothing is noted, and the files are as they were.\<close>

definition at_start :: "ground \<Rightarrow> run \<Rightarrow> bool" where
  "at_start G s \<longleftrightarrow> rb_backups (rn_rb s) = [] \<and> rb_created (rn_rb s) = [] \<and>
     (\<forall>q. q \<notin> gr_free G \<longrightarrow> fview (mc_fs (rn_mc s)) q = fview (mc_fs (gr_before G)) q)"

lemma stable_start: "stable G (at_start G)"
  by (simp add: stable_def steady_def at_start_def)

lemma start_intact: "restorable G s \<Longrightarrow> at_start G s \<Longrightarrow> intact G s"
  by (simp add: intact_def kept_def at_start_def)

text \<open>
  The plan suits the ground: whatever obsolete resources the evidence on disk yields, the resources
  its items name lie in the layout, outside the free paths, and what is to be created is not there.
\<close>

definition suits :: "(string \<Rightarrow> string) \<Rightarrow> generator \<Rightarrow> desired_instance \<Rightarrow> gen_bundle \<Rightarrow> plan_item list \<Rightarrow> ground \<Rightarrow> bool" where
  "suits H g d b items G \<longleftrightarrow> (\<forall>m a k v i r.
     (\<forall>q. q \<notin> gr_free G \<longrightarrow> fview (mc_fs m) q = fview (mc_fs (gr_before G)) q) \<longrightarrow>
     fst (stale_resources (gr_systemd G) H g d b m) = Inr (a, k, v) \<longrightarrow> i \<in> set items \<longrightarrow>
     resource_of (resource_map b (a @ k @ v)) i = Inr r \<longrightarrow>
     placed G r \<and> (pi_op i = P_CREATE \<longrightarrow> fview (mc_fs (gr_before G)) (path_of (r_path r)) = None))"

lemma files_intact:
  assumes "\<And>i r. i \<in> set items \<Longrightarrow> resource_of rs i = Inr r \<Longrightarrow> placed G r \<and>
    (pi_op i = P_CREATE \<longrightarrow> fview (mc_fs (gr_before G)) (path_of (r_path r)) = None)"
  shows "carries (intact G) (execute_files E g temporary d rs items) (intact G)"
proof -
  have item: "carries (intact G) (apply_resource E rs i) (intact G)" if "i \<in> set (file_items items)" for i
    using that assms by (intro apply_resource_intact) (auto simp: file_items_def)
  have pre: "carries (intact G) (on_mc (preflight_access_namespace E g temporary d (Some (access_root d)))) (intact G)"
    by (intro carries_intact steady_mc harm_reads)
  have "carries (intact G) (each_e (apply_resource E rs) (access_items items)) (intact G)"
    "carries (intact G) (each_e (apply_resource E rs) (filter (\<lambda>i. i \<notin> set (access_items items)) (file_items items))) (intact G)"
    by (rule carries_each, rule item, simp add: access_items_def)+
  then show ?thesis unfolding execute_files_def by (intro carries_seq carries_when pre) assumption+
qed

lemma removals_restorable:
  assumes "\<And>i r. i \<in> set items \<Longrightarrow> resource_of rs i = Inr r \<Longrightarrow> placed G r"
  shows "carries (restorable G) (execute_removals (gr_systemd G) H rs (removals_of items)) (restorable G)"
proof -
  have "carries (restorable G) (remove_resources (gr_systemd G) rs (removals_of items)) (restorable G)"
    by (rule restorable_remove_resources) (auto simp: removals_of_def intro: assms)
  then show ?thesis unfolding execute_removals_def
    by (intro carries_if carries_pure carries_seq carries_when carries_steady [OF steady_mc [OF harm_reads(2)]]
        carries_steady [OF steady_units(2)]) assumption+
qed

lemma present_restorable:
  assumes "\<And>i r. i \<in> set items \<Longrightarrow> resource_of rs i = Inr r \<Longrightarrow> placed G r \<and>
    (pi_op i = P_CREATE \<longrightarrow> fview (mc_fs (gr_before G)) (path_of (r_path r)) = None)"
  shows "carries (intact G) (execute_present (gr_systemd G) H g temporary d b force rs gids dids items) (restorable G)"
proof -
  have each: "carries (restorable G) (each_e (enable_unit (gr_systemd G)) xs) (restorable G)"
    "carries (restorable G) (each_e (start_unit (gr_systemd G)) xs) (restorable G)"
    "carries (restorable G) (each_e (run_unit (gr_systemd G) op verb) us) (restorable G)" for xs us op verb
    by (intro carries_each carries_steady steady_units)+
  have rest: "carries (restorable G) (execute_removals (gr_systemd G) H rs (removals_of items)) (restorable G)"
    by (rule removals_restorable) (use assms in blast)
  show ?thesis unfolding execute_present_def
    by (rule carries_seq_mid [OF files_intact], rule assms, assumption+)
      (rule carries_weaken [where P = "restorable G" and Q = "restorable G"],
       intro carries_seq carries_when restorable_development each rest
         carries_steady [OF steady_units(2)] carries_steady [OF steady_retire_units],
       simp_all add: intact_def)
qed

lemma absent_restorable:
  assumes "\<And>i r. i \<in> set items \<Longrightarrow> resource_of rs i = Inr r \<Longrightarrow> placed G r"
  shows "carries (restorable G) (execute_absent (gr_systemd G) H g d rs items) (restorable G)"
proof -
  have "carries (restorable G) (remove_resources (gr_systemd G) rs (removals_of items)) (restorable G)"
    by (rule restorable_remove_resources) (auto simp: removals_of_def intro: assms)
  then show ?thesis unfolding execute_absent_def Let_def
    by (intro carries_seq carries_when restorable_development carries_steady [OF steady_mc [OF harm_reads(2)]]
        carries_steady [OF steady_units(2)] carries_steady [OF steady_retire_units]) assumption+
qed

lemma execute_restorable:
  assumes "suits H g d b (pl_items p) G"
  shows "carries (\<lambda>s. restorable G s \<and> at_start G s)
    (execute (gr_systemd G) H g temporary d b force p) (restorable G)"
proof -
  have base: "carries (\<lambda>s. restorable G s \<and> at_start G s)
    (execute_base (gr_systemd G) H g temporary d b force p) (restorable G)"
  proof (rule carriesI)
    fix s r s' assume i: "restorable G s \<and> at_start G s"
      and run: "execute_base (gr_systemd G) H g temporary d b force p s = (r, s')"
    obtain q where q: "on_mc (stale_resources (gr_systemd G) H g d b) s = (q, s)"
      "fst (stale_resources (gr_systemd G) H g d b (rn_mc s)) = q"
      by (simp add: on_mc_def stale_resources_def eread_def)
    show "restorable G s'"
    proof (cases q)
      case (Inl e)
      with run q(1) i show ?thesis by (simp add: execute_base_def ebind_def)
    next
      case (Inr akv)
      obtain a k v where akv: "akv = (a, k, v)" by (metis prod_cases3)
      let ?rs = "resource_map b (a @ k @ v)"
      have fits: "placed G r \<and> (pi_op i = P_CREATE \<longrightarrow> fview (mc_fs (gr_before G)) (path_of (r_path r)) = None)"
        if "i \<in> set (pl_items p)" "resource_of ?rs i = Inr r" for i r
        using assms i q(2) Inr akv that unfolding suits_def at_start_def by blast
      have run': "(if is_present d then
          execute_present (gr_systemd G) H g temporary d b force ?rs (map r_id k) (map r_id v) (pl_items p)
        else execute_absent (gr_systemd G) H g d ?rs (pl_items p)) s = (r, s')"
        using run q(1) Inr akv by (simp add: execute_base_def ebind_def Let_def)
      have "carries (intact G) (if is_present d then
          execute_present (gr_systemd G) H g temporary d b force ?rs (map r_id k) (map r_id v) (pl_items p)
        else execute_absent (gr_systemd G) H g d ?rs (pl_items p)) (restorable G)"
        using fits by (intro carries_if present_restorable carries_weaken [OF absent_restorable]) (auto simp: intact_def)
      from carriesD [OF this start_intact run'] i show ?thesis by blast
    qed
  qed
  show ?thesis unfolding execute_def
    by (rule carries_seq [OF carries_stable [OF stable_start] base])
      (intro steady.keeps_rules steady_units, simp)
qed

end
