(* ===== verification/Rollback_Props.thy ===== *)
theory Rollback_Props
  imports Rollback_Run Planning_Props Registry_Props
begin

text \<open>
  What the rollback of a failed transaction gives back on a host that refuses no file operation: every
  file that is not free has the mode it had before and, up to line endings, the content, and the git
  configuration is as it was. After the saved copies are discarded nothing is given back any more.
\<close>

section \<open>Restoring\<close>

lemma backup_ok_cases:
  assumes "backup_ok K b"
  obtains (config) c where "b = SavedConfig c" | (reg) p t md where "b = SavedFile p (Text t) md" and "K p = Some KFile"
proof (cases b)
  case (SavedFile p c md)
  with assms reg show ?thesis by (cases c) (auto simp: backup_ok_def)
qed (use assms config in \<open>auto simp: backup_ok_def\<close>)

definition read_back :: "content \<Rightarrow> content" where
  "read_back c = (case c of Text t \<Rightarrow> Text (universal_newlines t) | Bytes \<Rightarrow> Bytes)"

definition overlay :: "saved list \<Rightarrow> view \<Rightarrow> view" where
  "overlay bks v q = (case first_saved bks q of None \<Rightarrow> v q | Some (md, c) \<Rightarrow> Some (md, read_back c))"

definition reset_git :: "saved list \<Rightarrow> git_state \<Rightarrow> git_state" where
  "reset_git bks gs = (case first_config bks of None \<Rightarrow> gs | Some c \<Rightarrow> gs\<lparr>g_config := c\<rparr>)"

lemma restore_one:
  assumes G: "grounded G" and m: "sound G m" and b: "backup_ok (gr_layout G) b"
  shows "\<exists>m'. restore_backup b m = (Inr (), m') \<and> sound G m' \<and> mc_git m' = reset_git [b] (mc_git m) \<and>
    fview (mc_fs m') = overlay [b] (fview (mc_fs m))"
  using b
proof (cases rule: backup_ok_cases)
  case (config c)
  with m show ?thesis
    by (auto simp: restore_backup_def emodify_def reset_git_def overlay_def sound_def calm_def)
next
  case (reg p t md)
  have dir: "gr_layout G (path_parent p) = Some KDir"
    using G reg(2) path_parent_in [of p] by (auto simp: grounded_def tree_def)
  have c: "calm (gr_layout G) m" using m by (simp add: sound_def)
  from mkdir_sets [OF c _ dir, of True 448] G obtain m1 where
    m1: "m_mkdir (path_parent p) True 448 m = (Inr (), m1)" "sets (gr_layout G) id m m1"
    by (auto simp: grounded_def)
  from same_view_harmless [OF m1(2)] m have s1: "sound G m1" "mc_git m1 = mc_git m" by (auto simp: harmless_def)
  from write_view [OF G reg(2) s1(1), of "universal_newlines t" md] obtain m2 where
    m2: "atomic_write p (universal_newlines t) md m1 = (Inr (), m2)" "sound G m2" "mc_git m2 = mc_git m1"
      "fview (mc_fs m2) = (fview (mc_fs m1))(p := Some (md, Text (universal_newlines t)))" by blast
  have "fview (mc_fs m2) = overlay [b] (fview (mc_fs m))"
    using m2(4) setsD(1) [OF m1(2)] reg(1) by (auto simp: overlay_def read_back_def fun_eq_iff)
  with m1 m2 s1 reg(1) show ?thesis
    by (auto simp: restore_backup_def eseq_def ebind_def reset_git_def)
qed

lemma overlay_cons: "overlay [b] (overlay bks v) = overlay (b # bks) v"
proof -
  have "first_saved (b # bks) q = (case first_saved [b] q of None \<Rightarrow> first_saved bks q | Some x \<Rightarrow> Some x)" for q
    using first_saved_append [of "[b]" bks q] by simp
  then show ?thesis by (auto simp: overlay_def fun_eq_iff split: option.splits)
qed

lemma reset_cons: "reset_git [b] (reset_git bks gs) = reset_git (b # bks) gs"
proof -
  have "first_config (b # bks) = (case first_config [b] of None \<Rightarrow> first_config bks | Some x \<Rightarrow> Some x)"
    using first_config_append [of "[b]" bks] by simp
  then show ?thesis by (auto simp: reset_git_def split: option.splits)
qed

lemma restore_backups:
  assumes G: "grounded G" and m: "sound G m" and b: "list_all (backup_ok (gr_layout G)) bks"
  shows "\<exists>m'. each_e restore_backup (rev bks) m = (Inr (), m') \<and> sound G m' \<and> mc_git m' = reset_git bks (mc_git m) \<and>
    fview (mc_fs m') = overlay bks (fview (mc_fs m))"
  using b
proof (induction bks)
  case Nil
  with m show ?case by (auto simp: ereturn_def reset_git_def overlay_def fun_eq_iff)
next
  case (Cons b bks)
  then obtain m1 where m1: "each_e restore_backup (rev bks) m = (Inr (), m1)" "sound G m1"
    "mc_git m1 = reset_git bks (mc_git m)" "fview (mc_fs m1) = overlay bks (fview (mc_fs m))" by auto
  from restore_one [OF G m1(2), of b] Cons.prems obtain m2 where
    m2: "restore_backup b m1 = (Inr (), m2)" "sound G m2" "mc_git m2 = reset_git [b] (mc_git m1)"
      "fview (mc_fs m2) = overlay [b] (fview (mc_fs m1))" by auto
  have "each_e restore_backup (rev (b # bks)) m = (Inr (), m2)"
    using m1(1) m2(1) by (simp add: each_e_append eseq_def ebind_def ereturn_def)
  with m1 m2 show ?case by (auto simp: overlay_cons reset_cons)
qed

lemma restore_directories:
  assumes G: "grounded G" and m: "sound G m" and ds: "\<forall>d \<in> set ds. gr_layout G (fst d) = Some KDir"
  shows "\<exists>m'. each_e restore_directory ds m = (Inr (), m') \<and> sound G m' \<and> mc_git m' = mc_git m \<and>
    fview (mc_fs m') = fview (mc_fs m)"
  using m ds
proof (induction ds arbitrary: m)
  case Nil
  then show ?case by (auto simp: ereturn_def)
next
  case (Cons d ds)
  obtain p md where d: "d = (p, md)" by fastforce
  have "\<exists>m1. restore_directory d m = (Inr (), m1) \<and> sets (gr_layout G) id m m1"
  proof (cases "x_exists (mc_fs m) p")
    case True
    with Cons.prems d show ?thesis by (auto simp: restore_directory_def sound_def intro: sets_refl)
  next
    case False
    with Cons.prems d G mkdir_sets [of "gr_layout G" m p False md] show ?thesis
      by (auto simp: restore_directory_def sound_def grounded_def)
  qed
  then obtain m1 where m1: "restore_directory d m = (Inr (), m1)" "sets (gr_layout G) id m m1" by blast
  from same_view_harmless [OF m1(2)] Cons.prems have s1: "sound G m1" "mc_git m1 = mc_git m" by (auto simp: harmless_def)
  from Cons.IH [OF s1(1)] Cons.prems obtain m2 where "each_e restore_directory ds m1 = (Inr (), m2)" "sound G m2"
    "mc_git m2 = mc_git m1" "fview (mc_fs m2) = fview (mc_fs m1)" by auto
  with m1(1) s1(2) setsD(1) [OF m1(2)] show ?case by (auto simp: ebind_def)
qed

section \<open>Clearing what was created\<close>

lemma harm_unlink_free: assumes "grounded G" and "p \<in> gr_free G" shows "keeps (harmless G) (m_unlink p)"
proof (rule keepsI)
  fix m r m' assume run: "m_unlink p m = (r, m')"
  show "harmless G m m'"
  proof (cases "sound G m")
    case True
    then have c: "calm (gr_layout G) m" and "decodable (mc_fs m)" by (simp_all add: sound_def)
    from unlink_result [OF c run] show ?thesis
    proof
      assume d: "sets (gr_layout G) (\<lambda>v. v(p := None)) m m'"
      show ?thesis
        by (rule sets_harmless [OF d refl]) (use setsD(1) [OF d] assms(2) in \<open>auto simp: decodable_def\<close>)
    qed (rule same_view_harmless)
  next
    case False
    then show ?thesis by (simp add: harmless_def)
  qed
qed

lemma harm_clear_children:
  assumes "grounded G" and "\<forall>n \<in> set runtime_state_files. path_div dir n \<in> gr_free G"
  shows "clear_children dir ns m = (k, m') \<Longrightarrow> harmless G m m'"
proof (induction ns arbitrary: m k)
  case Nil
  then show ?case by (simp add: harm.refl)
next
  case (Cons n ns)
  obtain k1 m1 where c: "clear_child dir n m = (k1, m1)" by fastforce
  have "harmless G m m1"
  proof (cases "n \<in> set runtime_state_files")
    case True
    with keepsD [OF harm_unlink_free [OF assms(1)]] assms(2) c show ?thesis
      by (fastforce simp: clear_child_def harm.refl split: if_splits prod.splits sum.splits)
  next
    case False
    with c show ?thesis by (auto simp: clear_child_def harm.refl split: if_splits)
  qed
  with Cons c show ?case by (auto intro: harm.trans split: prod.splits)
qed

lemma harm_clear_dirs:
  assumes "grounded G" and "\<forall>d \<in> set dirs. \<forall>n \<in> set runtime_state_files. path_div d n \<in> gr_free G"
  shows "clear_state_dirs dirs m = (keep, m') \<Longrightarrow> harmless G m m' \<and> set keep \<subseteq> set dirs"
  using assms(2)
proof (induction dirs arbitrary: m keep m')
  case Nil
  then show ?case by (simp add: harm.refl)
next
  case (Cons dir dirs)
  let ?c = "if plain_directory (mc_fs m) dir then clear_children dir (x_children (mc_fs m) dir) m else (False, m)"
  obtain k m1 where c: "?c = (k, m1)" by fastforce
  have "harmless G m m1"
    using c harm_clear_children [OF assms(1), of dir] Cons.prems(2) by (auto simp: harm.refl split: if_splits)
  moreover obtain keep' m2 where rest: "clear_state_dirs dirs m1 = (keep', m2)" by fastforce
  ultimately show ?case
    using Cons.prems c Cons.IH [OF rest] by (cases k) (auto intro: harm.trans)
qed

definition left_marker :: "ppath list \<Rightarrow> ppath \<Rightarrow> bool" where
  "left_marker keep p \<longleftrightarrow> path_name p = ''.owner'' \<and> path_parent p \<in> set keep"

lemma drop_one:
  assumes G: "grounded G" and m: "sound G m" and k: "gr_layout G p \<noteq> None"
  shows "\<exists>m'. drop_created keep p m = (Inr (), m') \<and> sound G m' \<and> mc_git m' = mc_git m \<and>
    fview (mc_fs m') = (if left_marker keep p then fview (mc_fs m) else (fview (mc_fs m))(p := None))"
proof (cases "left_marker keep p")
  case True
  with m show ?thesis by (auto simp: drop_created_def left_marker_def)
next
  case unmarked: False
  have c: "calm (gr_layout G) m" and t: "tree (gr_layout G)" and dec: "decodable (mc_fs m)"
    using m G by (simp_all add: sound_def grounded_def)
  note fit = calm_fits [OF c]
  have step: "sound G m' \<and> mc_git m' = mc_git m \<and> fview (mc_fs m') = (fview (mc_fs m))(p := None)"
    if "sets (gr_layout G) id m m' \<and> fview (mc_fs m) p = None \<or> sets (gr_layout G) (\<lambda>v. v(p := None)) m m'" for m'
  proof -
    from that have v: "fview (mc_fs m') = (fview (mc_fs m))(p := None)"
      using setsD(1) by (auto simp: fun_eq_iff)
    from that c have "calm (gr_layout G) m'" "mc_git m' = mc_git m" using setsD(2,3) by blast+
    with v dec show ?thesis by (simp add: sound_def decodable_def)
  qed
  show ?thesis
  proof (cases "plain_directory (mc_fs m) p")
    case True
    then have "x_is_dir (mc_fs m) p" by (simp add: plain_directory_def)
    then have none: "fview (mc_fs m) p = None"
      using fits_file(1) [OF fit, of p] view_kind [OF fit, of p] t by (auto simp: tree_def)
    obtain q m' where r: "m_rmdir p m = (q, m')" by fastforce
    with step [of m'] step [of m] none rmdir_sets [OF c t r] sets_refl [OF c] True unmarked show ?thesis
      by (cases "x_children (mc_fs m) p = []") (simp_all add: drop_created_def left_marker_def)
  next
    case False
    obtain q m' where u: "m_unlink p m = (q, m')" by fastforce
    have "sets (gr_layout G) id m m' \<and> fview (mc_fs m) p = None \<or> sets (gr_layout G) (\<lambda>v. v(p := None)) m m'"
    proof (cases "fview (mc_fs m) p = None")
      case True
      with unlink_result [OF c u] show ?thesis by blast
    next
      case False
      with view_kind [OF fit, of p] have kfile: "gr_layout G p = Some KFile" by blast
      from False have there: "map_of (mc_fs m) p \<noteq> None"
        by (cases "map_of (mc_fs m) p") (simp_all add: fview_def)
      from unlink_sets [OF c kfile t there] u show ?thesis by auto
    qed
    with step [of m'] False unmarked u show ?thesis by (auto simp: drop_created_def left_marker_def)
  qed
qed

lemma drop_all:
  assumes G: "grounded G" and m: "sound G m" and k: "\<forall>p \<in> set ps. gr_layout G p \<noteq> None"
  shows "\<exists>m'. each_e (drop_created keep) ps m = (Inr (), m') \<and> sound G m' \<and> mc_git m' = mc_git m \<and>
    (\<forall>q. fview (mc_fs m') q = (if q \<in> set ps \<and> \<not> left_marker keep q then None else fview (mc_fs m) q))"
  using m k
proof (induction ps arbitrary: m)
  case Nil
  then show ?case by (auto simp: ereturn_def)
next
  case (Cons p ps)
  from drop_one [OF G Cons.prems(1), of p keep] Cons.prems(2) obtain m1 where
    m1: "drop_created keep p m = (Inr (), m1)" "sound G m1" "mc_git m1 = mc_git m"
      "fview (mc_fs m1) = (if left_marker keep p then fview (mc_fs m) else (fview (mc_fs m))(p := None))" by auto
  from Cons.IH [OF m1(2)] Cons.prems(2) obtain m2 where
    m2: "each_e (drop_created keep) ps m1 = (Inr (), m2)" "sound G m2" "mc_git m2 = mc_git m1"
      "\<forall>q. fview (mc_fs m2) q = (if q \<in> set ps \<and> \<not> left_marker keep q then None else fview (mc_fs m1) q)" by auto
  from m1 m2 show ?case by (intro exI [of _ m2]) (auto simp: ebind_def)
qed

section \<open>The rollback\<close>

text \<open>
  A file is as it was, up to the line endings when it was saved and written back; the owner marker of
  a state directory that could not be emptied is left.
\<close>

definition same_file :: "(nat \<times> content) option \<Rightarrow> (nat \<times> content) option \<Rightarrow> bool" where
  "same_file v w \<longleftrightarrow> w = v \<or> w = map_option (\<lambda>(mode, c). (mode, read_back c)) v"

definition restored :: "ground \<Rightarrow> rollback \<Rightarrow> machine \<Rightarrow> bool" where
  "restored G rb m \<longleftrightarrow> sound G m \<and> mc_git m = mc_git (gr_before G) \<and>
     (\<forall>q. q \<notin> gr_free G \<longrightarrow> same_file (fview (mc_fs (gr_before G)) q) (fview (mc_fs m) q) \<or>
        q \<in> set (rb_created rb) \<and> left_marker (rb_state_dirs rb) q)"

lemma restored_harmless: "restored G rb m \<Longrightarrow> harmless G m m' \<Longrightarrow> restored G rb m'"
  by (simp add: restored_def harmless_def)

lemma overlay_tracked:
  assumes "tracked G s q" and "q \<notin> set (rb_created (rn_rb s))"
  shows "same_file (fview (mc_fs (gr_before G)) q) (overlay (rb_backups (rn_rb s)) (fview (mc_fs (rn_mc s))) q)"
proof (cases "first_saved (rb_backups (rn_rb s)) q")
  case None
  with assms show ?thesis by (simp add: tracked_def overlay_def same_file_def)
next
  case (Some v)
  with assms show ?thesis by (cases v) (simp add: tracked_def overlay_def same_file_def)
qed

lemma restore_restored:
  assumes inv: "restorable G s"
  shows "\<exists>m'. restore (rn_rb s) (rn_mc s) = (Inr (), m') \<and> restored G (rn_rb s) m'"
proof -
  let ?rb = "rn_rb s" and ?b = "fview (mc_fs (gr_before G))"
  note parts = restorable_parts [OF inv]
  from inv have noted: "list_all (backup_ok (gr_layout G)) (rb_backups ?rb)"
    "\<forall>p \<in> set (rb_created ?rb). gr_layout G p \<noteq> None \<and> ?b p = None"
    "\<forall>d \<in> set (rb_removed ?rb). gr_layout G (fst d) = Some KDir"
    "\<forall>d \<in> set (rb_state_dirs ?rb). \<forall>n \<in> set runtime_state_files. path_div d n \<in> gr_free G"
    by (auto simp: restorable_def noted_ok_def)
  from restore_backups [OF parts(1,3) noted(1)] obtain m1 where
    m1: "each_e restore_backup (rev (rb_backups ?rb)) (rn_mc s) = (Inr (), m1)" "sound G m1"
      "mc_git m1 = reset_git (rb_backups ?rb) (mc_git (rn_mc s))"
      "fview (mc_fs m1) = overlay (rb_backups ?rb) (fview (mc_fs (rn_mc s)))" by blast
  from restore_directories [OF parts(1) m1(2), of "rev (rb_removed ?rb)"] noted(3) obtain m2 where
    m2: "each_e restore_directory (rev (rb_removed ?rb)) m1 = (Inr (), m2)" "sound G m2" "mc_git m2 = mc_git m1"
      "fview (mc_fs m2) = fview (mc_fs m1)" by auto
  obtain keep m3 where k: "clear_state_dirs (rb_state_dirs ?rb) m2 = (keep, m3)" by fastforce
  from harm_clear_dirs [OF parts(1) noted(4) k] m2(2) have
    m3: "sound G m3" "mc_git m3 = mc_git m2" "\<And>q. q \<notin> gr_free G \<Longrightarrow> fview (mc_fs m3) q = fview (mc_fs m2) q"
      "set keep \<subseteq> set (rb_state_dirs ?rb)" by (auto simp: harmless_def)
  from drop_all [OF parts(1) m3(1), of "rev (rb_created ?rb)" keep] noted(2) obtain m4 where
    m4: "each_e (drop_created keep) (rev (rb_created ?rb)) m3 = (Inr (), m4)" "sound G m4" "mc_git m4 = mc_git m3"
      "\<And>q. fview (mc_fs m4) q = (if q \<in> set (rb_created ?rb) \<and> \<not> left_marker keep q then None else fview (mc_fs m3) q)"
    by auto
  have run: "restore ?rb (rn_mc s) = (Inr (), m4)"
    using m1(1) m2(1) k m4(1) by (simp add: restore_def eseq_def ebind_def)
  have "mc_git m4 = mc_git (gr_before G)"
    using inv m1(3) m2(3) m3(2) m4(3)
    by (cases "first_config (rb_backups ?rb)") (auto simp: restorable_def git_tracked_def reset_git_def)
  moreover have "same_file (?b q) (fview (mc_fs m4) q) \<or> q \<in> set (rb_created ?rb) \<and> left_marker (rb_state_dirs ?rb) q"
    if q: "q \<notin> gr_free G" for q
  proof (cases "q \<in> set (rb_created ?rb)")
    case True
    with m4(4) [of q] noted(2) m3(4) show ?thesis by (auto simp: left_marker_def same_file_def)
  next
    case False
    from inv q have "tracked G s q" by (simp add: restorable_def)
    from overlay_tracked [OF this False] m1(4) m2(4) m3(3) [OF q] m4(4) [of q] False show ?thesis by simp
  qed
  ultimately show ?thesis using run m4(2) by (auto simp: restored_def)
qed

lemma best_efforts_append:
  "best_efforts (xs @ ys) m = (case best_efforts xs m of (e1, m1) \<Rightarrow>
     (case best_efforts ys m1 of (e2, m2) \<Rightarrow> (e1 @ e2, m2)))"
  by (induction xs arbitrary: m) (auto split: prod.splits)

lemma best_effort_run: "best_effort what c m = (errs, m') \<Longrightarrow> m' = snd (c m)"
  by (auto simp: best_effort_def split: prod.splits sum.splits)

lemma harm_best_efforts:
  assumes "\<And>what c. (what, c) \<in> set steps \<Longrightarrow> keeps (harmless G) c"
  shows "best_efforts steps m = (errs, m') \<Longrightarrow> harmless G m m'"
  using assms
proof (induction steps arbitrary: m errs m')
  case Nil
  then show ?case by (simp add: harm.refl)
next
  case (Cons st steps)
  obtain what c where st: "st = (what, c)" by fastforce
  obtain e1 m1 where b: "best_effort what c m = (e1, m1)" by fastforce
  have "keeps (harmless G) c" by (rule Cons.prems(2) [of what c]) (simp add: st)
  then have "harmless G m m1" using best_effort_run [OF b] by (metis keepsD prod.collapse)
  moreover obtain e2 m2 where r: "best_efforts steps m1 = (e2, m2)" by fastforce
  ultimately show ?case
    using Cons.IH [OF r] Cons.prems st b by (auto intro: harm.trans)
qed

lemma roll_back_restored:
  assumes inv: "restorable G s" and run: "roll_back (gr_systemd G) (rn_rb s) (rn_mc s) = (out, m')"
  shows "restored G (rn_rb s) m'"
proof -
  let ?E = "gr_systemd G" and ?rb = "rn_rb s"
  note G = restorable_parts(1) [OF inv]
  let ?units = "map (\<lambda>u. (''stop '' @ u, unit_action ?E ''stop'' u)) (rev (rb_started ?rb)) @
    map (\<lambda>u. (''disable '' @ u, unit_action ?E ''disable'' u)) (rev (rb_enabled ?rb))"
  obtain e1 m1 where u: "best_efforts ?units (rn_mc s) = (e1, m1)" by fastforce
  have "harmless G (rn_mc s) m1"
    by (rule harm_best_efforts [OF _ u]) (auto intro: harm_units [OF G])
  from restorable_steady(1) [OF inv, of "s\<lparr>rn_mc := m1\<rparr>"] this have "restorable G (s\<lparr>rn_mc := m1\<rparr>)" by simp
  from restore_restored [OF this] obtain m2 where
    m2: "restore ?rb m1 = (Inr (), m2)" "restored G ?rb m2" by auto
  have "m' = snd (daemon_reload ?E m2)"
  proof -
    have "rollback_steps ?E ?rb = ?units @ [(''restore resources'', restore ?rb), (''daemon-reload'', daemon_reload ?E)]"
      by (simp add: rollback_steps_def)
    with run u m2(1) best_effort_run show ?thesis
      by (auto simp: roll_back_def best_efforts_append best_effort_def split: prod.splits sum.splits)
  qed
  moreover have "harmless G m2 (snd (daemon_reload ?E m2))"
    using harm_units(2) [OF G] by (metis keepsD prod.collapse)
  ultimately show ?thesis using restored_harmless [OF m2(2)] by simp
qed

section \<open>The end of a transaction\<close>

text \<open>
  Once the observation has converged, nothing can fail: the journal and the applied evidence are
  regular files of the layout.
\<close>

definition apt :: "ground \<Rightarrow> run \<Rightarrow> bool" where
  "apt G s \<longleftrightarrow> grounded G \<and> sound G (rn_mc s) \<and> jn_path (rn_journal s) = gr_journal G"

definition succeeds :: "ground \<Rightarrow> 'a rm \<Rightarrow> bool" where
  "succeeds G c \<longleftrightarrow> (\<forall>s. apt G s \<longrightarrow> (\<exists>x s'. c s = (Inr x, s') \<and> apt G s'))"

lemma restorable_apt: "restorable G s \<Longrightarrow> apt G s"
  by (simp add: restorable_def apt_def)

lemma succeeds_seq: "succeeds G c \<Longrightarrow> succeeds G c' \<Longrightarrow> succeeds G (eseq c c')"
  unfolding succeeds_def eseq_def ebind_def by fastforce

lemma succeeds_modify:
  assumes "\<And>s. rn_mc (f s) = rn_mc s" and "\<And>s. jn_path (rn_journal (f s)) = jn_path (rn_journal s)"
  shows "succeeds G (emodify f)"
  using assms by (simp add: succeeds_def emodify_def apt_def)

lemma succeeds_local: "(\<And>s. \<exists>c'. c s = c' s \<and> succeeds G c') \<Longrightarrow> succeeds G c"
  unfolding succeeds_def by metis

lemma succeeds_write:
  assumes "gr_layout G p = Some KFile" shows "succeeds G (\<lambda>s. on_mc (atomic_write p (f s) mode) s)"
  unfolding succeeds_def
proof (intro allI impI)
  fix s assume "apt G s"
  then have a: "grounded G" "sound G (rn_mc s)" "jn_path (rn_journal s) = gr_journal G" by (simp_all add: apt_def)
  from write_view [OF a(1) assms a(2), of "f s" mode] obtain m' where
    "atomic_write p (f s) mode (rn_mc s) = (Inr (), m')" "sound G m'" by blast
  with a show "\<exists>x s'. on_mc (atomic_write p (f s) mode) s = (Inr x, s') \<and> apt G s'"
    by (simp add: on_mc_def apt_def)
qed

lemma succeeds_journal: "succeeds G write_journal"
  unfolding succeeds_def
proof (intro allI impI)
  fix s assume a: "apt G s"
  then have "gr_layout G (gr_journal G) = Some KFile" by (simp add: apt_def grounded_def)
  from succeeds_write [OF this, of "\<lambda>s. json_text_of (journal_json (rn_journal s))" 384] a
  show "\<exists>x s'. write_journal s = (Inr x, s') \<and> apt G s'" by (simp add: succeeds_def write_journal_def apt_def)
qed

lemma succeeds_attempt: "succeeds G (attempt E op target)" "succeeds G (record_done E op target)"
proof -
  have "succeeds G (eseq (emodify (note_attempt e)) write_journal)"
    "succeeds G (eseq (emodify (note_executed e)) write_journal)" for e
    by (intro succeeds_seq succeeds_modify succeeds_journal; simp add: note_attempt_def note_executed_def)+
  then show "succeeds G (attempt E op target)" "succeeds G (record_done E op target)"
    unfolding attempt_def record_done_def succeeds_def by blast+
qed

lemma succeeds_finish: "succeeds G (finish_journal status extra)"
  unfolding finish_journal_def
  by (intro succeeds_seq succeeds_modify succeeds_journal; simp add: close_journal_def)

lemma succeeds_applied:
  assumes "gr_layout G (applied_path (gen_paths g) (di_id d)) = Some KFile"
  shows "succeeds G (on_mc (write_applied E H g d b tx))"
  using succeeds_write [OF assms, of "\<lambda>s. json_text_of (applied_payload H d b tx (sd_now E (rn_mc s)))" 384]
  by (simp add: succeeds_def on_mc_def write_applied_def)

lemma succeeds_tail:
  assumes "gr_layout G (applied_path (gen_paths g) (di_id d)) = Some KFile"
  shows "succeeds G
     (eseq (journaled E ''WRITE_APPLIED'' target (on_mc (write_applied E H g d b tx)))
      (eseq discard (\<lambda>s. finish_journal ''succeeded'' (extra s) s)))"
proof -
  have "succeeds G (\<lambda>s. finish_journal ''succeeded'' (extra s) s)"
    using succeeds_finish unfolding succeeds_def by blast
  moreover have "succeeds G discard"
    unfolding discard_def note_rb_def by (rule succeeds_modify) simp_all
  ultimately show ?thesis unfolding journaled_def
    by (intro succeeds_seq succeeds_attempt succeeds_applied assms)
qed

text \<open>A computation that raises leaves a state with the second property.\<close>

definition breaks :: "(run \<Rightarrow> bool) \<Rightarrow> 'a rm \<Rightarrow> (run \<Rightarrow> bool) \<Rightarrow> bool" where
  "breaks P c Q \<longleftrightarrow> (\<forall>s e s'. P s \<longrightarrow> c s = (Inl e, s') \<longrightarrow> Q s')"

lemma breaks_bind:
  assumes "carries P m M" and "\<And>x. breaks M (f x) Q" and "\<And>s. M s \<Longrightarrow> Q s"
  shows "breaks P (ebind m f) Q"
  unfolding breaks_def ebind_Inl
proof (intro allI impI)
  fix s e s' assume P: "P s" and "m s = (Inl e, s') \<or> (\<exists>y t. m s = (Inr y, t) \<and> f y t = (Inl e, s'))"
  then show "Q s'"
  proof (elim disjE exE conjE)
    assume "m s = (Inl e, s')"
    with carriesD [OF assms(1) P] assms(3) show ?thesis by blast
  next
    fix y t assume "m s = (Inr y, t)" and f: "f y t = (Inl e, s')"
    with carriesD [OF assms(1) P] have "M t" by blast
    with assms(2) f show ?thesis unfolding breaks_def by blast
  qed
qed

lemma breaks_seq: "carries P m M \<Longrightarrow> breaks M k Q \<Longrightarrow> (\<And>s. M s \<Longrightarrow> Q s) \<Longrightarrow> breaks P (eseq m k) Q"
  unfolding eseq_def by (rule breaks_bind)

lemma succeeds_breaks: "succeeds G c \<Longrightarrow> breaks (restorable G) c Q"
  unfolding breaks_def succeeds_def using restorable_apt by fastforce

lemma body_breaks:
  assumes "suits H g d b (pl_items p) G" and "gr_layout G (applied_path (gen_paths g) (di_id d)) = Some KFile"
  shows "breaks (\<lambda>s. restorable G s \<and> at_start G s)
     (transaction_body (gr_systemd G) H g reg nm patience d b force p) (restorable G)"
  unfolding transaction_body_def
proof (rule breaks_seq [OF execute_restorable [OF assms(1)]])
  have q: "carries (restorable G) (on_mc (qualify (gr_systemd G) patience d)) (restorable G)"
    by (intro carries_steady steady_mc' harm_qualify)
  have o: "carries (restorable G) (on_mc (planned (gr_systemd G) H g reg d)) (restorable G)"
    by (intro carries_steady steady_mc harm_reads)
  have c: "carries (restorable G) (check_converged final) (restorable G)" for final
    unfolding check_converged_def by (intro carries_if carries_pure)
  show "breaks (restorable G) (eseq (on_mc (qualify (gr_systemd G) patience d))
      (ebind (on_mc (planned (gr_systemd G) H g reg d)) (\<lambda>final. eseq (check_converged final)
        (eseq (journaled (gr_systemd G) ''WRITE_APPLIED'' (path_str (applied_path (gen_paths g) (di_id d)))
           (on_mc (write_applied (gr_systemd G) H g d b (nm_transaction nm))))
         (eseq discard (\<lambda>s. finish_journal ''succeeded''
           [(''completed_at'', JStr (sd_now (gr_systemd G) (rn_mc s))), (''post_plan'', plan_dict final)] s))))))
     (restorable G)"
    by (rule breaks_seq [OF q breaks_bind [OF o breaks_seq [OF c succeeds_breaks [OF succeeds_tail [OF assms(2)]]]]])
qed

text \<open>What a failed transaction leaves.\<close>

lemma finish_harmless:
  assumes "grounded G \<and> jn_path (rn_journal s) = gr_journal G" and "finish_journal status extra s = (r, s')"
  shows "harmless G (rn_mc s) (rn_mc s')"
proof -
  have "keeps (harmless G) (atomic_write (gr_journal G) t 384)" for t
    using assms(1) by (intro harm_write) (auto simp: grounded_def)
  from keepsD [OF this] show ?thesis using assms
    by (auto simp: finish_journal_def eseq_def ebind_def emodify_def write_journal_def on_mc_def close_journal_def
        split: prod.splits)
qed

lemma transact_failure:
  assumes run: "transact (gr_systemd G) H g reg nm patience d b force p s = (Inl e, s')"
    and s: "restorable G s" "at_start G s" and fit: "suits H g d b (pl_items p) G"
    and applied: "gr_layout G (applied_path (gen_paths g) (di_id d)) = Some KFile"
  shows "\<exists>rb. noted_ok G rb \<and> restored G rb (rn_mc s')"
proof -
  from succeeds_journal [of G] restorable_apt [OF s(1)] obtain t where t: "write_journal s = (Inr (), t)"
    by (auto simp: succeeds_def)
  have t': "restorable G t \<and> at_start G t"
    using carriesD [OF carries_stable [OF stable_start steady_journal] _ t] s by blast
  from run t have "ecatch (transaction_body (gr_systemd G) H g reg nm patience d b force p)
      (fail_transaction (gr_systemd G) nm) t = (Inl e, s')"
    by (simp add: transact_def eseq_def ebind_def)
  then obtain e1 v where v: "transaction_body (gr_systemd G) H g reg nm patience d b force p t = (Inl e1, v)"
    and f: "fail_transaction (gr_systemd G) nm e1 v = (Inl e :: exn + unit, s')"
    by (auto simp: ecatch_def split: prod.splits sum.splits)
  have rv: "restorable G v"
    using body_breaks [OF fit applied, of reg nm patience force] t' v unfolding breaks_def by blast
  obtain out m where rb: "roll_back (gr_systemd G) (rn_rb v) (rn_mc v) = (out, m)" by fastforce
  from roll_back_restored [OF rv rb] have m: "restored G (rn_rb v) m" .
  obtain r w where w: "finish_journal ''failed'' [(''completed_at'', JStr (sd_now (gr_systemd G) m)),
      (''error'', JStr (redact_text (exn_text e1))), (''rollback'', out)] (v\<lparr>rn_mc := m\<rparr>) = (r, w)" by fastforce
  have "harmless G m (rn_mc w)" using finish_harmless [OF _ w] rv by (simp add: restorable_def)
  moreover have "s' = w" using f rb w by (auto simp: fail_transaction_def eseq_def ebind_def split: sum.splits)
  ultimately show ?thesis using restored_harmless [OF m] rv by (auto simp: restorable_def)
qed

text \<open>C1: on a host where no file operation is refused, no path involved is a link, every file is text
  and the commands of systemd change only free files and directories (\<open>grounded\<close>), and whose paths
  are files or directories as the resources of the plan ask (\<open>suits\<close>), a transaction that fails leaves every file
  outside the free set with the mode it had and the content it had, except that the line endings of a
  file that was saved and written back are newlines; it leaves the git configuration as it was, and no
  new file but the owner marker of a state directory whose runtime files were not all known. The free
  set holds the journal, the services' own runtime files and whatever else systemd may change.\<close>

theorem failed_apply_rolls_back:
  assumes "grounded G" and "suits H g d b (pl_items p) G"
    and "gr_layout G (applied_path (gen_paths g) (di_id d)) = Some KFile" and "jn_path j = gr_journal G"
    and "transact (gr_systemd G) H g reg nm patience d b force p
           \<lparr>rn_mc = gr_before G, rn_journal = j, rn_rb = no_rollback\<rparr> = (Inl e, s')"
  shows "mc_git (rn_mc s') = mc_git (gr_before G) \<and>
    (\<forall>q. q \<notin> gr_free G \<longrightarrow> same_file (fview (mc_fs (gr_before G)) q) (fview (mc_fs (rn_mc s')) q) \<or>
       path_name q = ''.owner'' \<and> fview (mc_fs (gr_before G)) q = None)"
proof -
  let ?s = "\<lparr>rn_mc = gr_before G, rn_journal = j, rn_rb = no_rollback\<rparr>"
  have "restorable G ?s" "at_start G ?s"
    using assms(1,4) by (simp_all add: restorable_def at_start_def noted_ok_def git_tracked_def tracked_def
        no_rollback_def grounded_def)
  from transact_failure [OF assms(5) this assms(2,3)] obtain rb where
    "noted_ok G rb" "restored G rb (rn_mc s')" by blast
  then show ?thesis by (auto simp: restored_def noted_ok_def left_marker_def)
qed

text \<open>
  Once the saved copies are discarded there is no way back: a restore fails at the first of them. The
  last write of the journal comes after the copies are discarded, so when that write fails the files an
  otherwise complete transaction changed stay changed, although its answer is a failure.
\<close>

lemma nothing_restored_after_discard:
  assumes "discard s = (Inr (), s')" and "rb_backups (rn_rb s) \<noteq> []"
  shows "\<exists>e. restore (rn_rb s') m = (Inl e, m)"
proof -
  have lost: "rb_backups (rn_rb s') = map (\<lambda>b. SavedLost) (rb_backups (rn_rb s))"
    using assms(1) by (auto simp: discard_def note_rb_def emodify_def)
  obtain bs b where "rb_backups (rn_rb s) = bs @ [b]" using assms(2) by (cases "rb_backups (rn_rb s)" rule: rev_cases) auto
  with lost show ?thesis by (simp add: restore_def eseq_def ebind_def restore_backup_def eraise_def)
qed

section \<open>An example\<close>

text \<open>The layout with the given files, their parents being directories.\<close>

definition layout_of :: "ppath list \<Rightarrow> layout" where
  "layout_of files q =
     (if q \<in> set files then Some KFile
      else if \<exists>f \<in> set files. q \<in> set (path_parents f) then Some KDir else None)"

lemma parents_trans: "q \<in> set (path_parents p) \<Longrightarrow> r \<in> set (path_parents q) \<Longrightarrow> r \<in> set (path_parents p)"
  by (auto simp: path_parents_def min_def)

lemma tree_layout_of:
  assumes "\<forall>f \<in> set files. pp_parts f \<noteq> [] \<and> set (path_parents f) \<inter> set files = {}"
  shows "tree (layout_of files)"
  using assms parents_trans unfolding tree_def layout_of_def
  by (fastforce split: if_splits)

definition example_file :: "string \<Rightarrow> string \<Rightarrow> resource" where
  "example_file name c =
     \<lparr>r_id = name, r_kind = FILE, r_path = ''/w/'' @ name, r_mode = 384, r_content = Some c, r_token = None,
      r_marker_path = None, r_unit = None, r_enable = False, r_active = False, r_remove = False\<rparr>"

definition example_bundle :: gen_bundle where
  "example_bundle = \<lparr>b_instance = ''a-1'', b_fingerprint = [],
     b_resources = [example_file ''a'' ''new'', example_file ''b'' ''new'']\<rparr>"

definition example_plan :: plan where
  "example_plan = \<lparr>pl_instance = ''a-1'', pl_fingerprint = [], pl_valid = True,
     pl_items = [item P_UPDATE ''/w/a'' [] ''a'', item P_CREATE ''/w/b'' [] ''b'', item P_START ''u.service'' [] ''a''],
     pl_warnings = []\<rparr>"

definition example_machine :: machine where
  "example_machine = \<lparr>mc_fs = [(path_of ''/w'', EDir 493), (path_of ''/w/a'', EFile 420 (Text ''old''))], mc_umask = id, mc_refuses = [],
     mc_git = sample_git, mc_active = [], mc_enabled = [], mc_clock = 0\<rparr>"

text \<open>A systemd that refuses every command.\<close>

definition refusing_systemd :: systemd where
  "refusing_systemd = \<lparr>sd_run = \<lambda>_ m. (ProcDone 1 [] ''refused'', m), sd_active = \<lambda>_ _. ProcDone 3 [] [],
     sd_show = \<lambda>_ _. ProcDone 0 [] [], sd_journal = \<lambda>_ _ _. ProcDone 0 [] [], sd_verify = \<lambda>_ _. ProcDone 0 [] [],
     sd_transient = \<lambda>_ _. ProcDone 0 [] [], sd_http = \<lambda>_ _. None, sd_pass = id, sd_late = \<lambda>_. 0,
     sd_view = \<lambda>_. sample_host, sd_now = \<lambda>_. ''now''\<rparr>"

definition example_journal :: journal where
  "example_journal = \<lparr>jn_path = path_of ''/h/s/j'', jn_head = [], jn_status = ''running'', jn_attempted = [],
     jn_executed = [], jn_tail = []\<rparr>"

definition example_ground :: ground where
  "example_ground = \<lparr>gr_systemd = refusing_systemd,
     gr_layout = layout_of [path_of ''/w/a'', path_of ''/w/b'', path_of ''/h/s/j'', path_of ''/h/s/applied/a-1.json''],
     gr_free = {path_of ''/h/s/j''}, gr_before = example_machine, gr_journal = path_of ''/h/s/j''\<rparr>"

definition example_names :: names where
  "example_names = \<lparr>nm_transaction = ''t'', nm_recovery = ''r'', nm_temporary = ''/t''\<rparr>"

lemma example_paths:
  "path_of ''/w'' = PPath ''/'' [''w'']" "path_of ''/w/a'' = PPath ''/'' [''w'', ''a'']" "path_of ''/w/b'' = PPath ''/'' [''w'', ''b'']"
  "path_of ''/h/s/j'' = PPath ''/'' [''h'', ''s'', ''j'']"
  "path_of ''/h/s/applied/a-1.json'' = PPath ''/'' [''h'', ''s'', ''applied'', ''a-1.json'']"
  by code_simp+

lemma parents_of:
  "set (path_parents (PPath r ps)) = (\<lambda>n. PPath r (take n ps)) ` {..<length ps}"
  by (auto simp: path_parents_def)

lemma example_grounded: "grounded example_ground"
proof -
  have w: "path_of ''/w'' \<in> set (path_parents (path_of ''/w/a''))" by code_simp
  have "tree (gr_layout example_ground)"
    unfolding example_ground_def by (simp add: example_paths) (rule tree_layout_of, code_simp)
  moreover have "fits (gr_layout example_ground) (mc_fs example_machine)"
    using w by (simp add: fits_def example_ground_def example_machine_def layout_of_def example_paths)
  moreover have "decodable (mc_fs example_machine)"
    by (simp add: decodable_def example_machine_def fview_def)
  ultimately show ?thesis
    by (simp add: grounded_def sound_def calm_def example_ground_def refusing_systemd_def harmless_def layout_of_def
        example_machine_def)
qed

lemma fold_default: "map_of rs k = Some r \<Longrightarrow> map_of (fold set_default stale rs) k = Some r"
  by (induction stale arbitrary: rs) (auto simp: set_default_def split: if_splits)

lemma example_resources:
  "map_of (resource_map example_bundle stale) ''a'' = Some (example_file ''a'' ''new'')"
  "map_of (resource_map example_bundle stale) ''b'' = Some (example_file ''b'' ''new'')"
  unfolding resource_map_def
  by (rule fold_default, simp add: example_bundle_def example_file_def)+

lemma example_suits: "suits H g d example_bundle (pl_items example_plan) example_ground"
proof -
  have a: "placed example_ground (example_file ''a'' ''new'')" and b: "placed example_ground (example_file ''b'' ''new'')"
    by (simp_all add: placed_def example_ground_def example_file_def layout_of_def example_paths)
  have new: "fview (mc_fs example_machine) (path_of ''/w/b'') = None"
    by (simp add: fview_def example_machine_def example_paths)
  have "placed example_ground r \<and> (pi_op i = P_CREATE \<longrightarrow> fview (mc_fs example_machine) (path_of (r_path r)) = None)"
    if "i \<in> set (pl_items example_plan)" "resource_of (resource_map example_bundle stale) i = Inr r" for stale i r
    using that a b new by (auto simp: example_plan_def item_def resource_of_def rid_text_def example_resources example_file_def)
  then show ?thesis unfolding suits_def by (simp add: example_ground_def)
qed

text \<open>Computations that always raise.\<close>

definition fails :: "('s, 'e, 'a) em \<Rightarrow> bool" where
  "fails c \<longleftrightarrow> (\<forall>s. isl (fst (c s)))"

lemma fails_first: "fails m \<Longrightarrow> fails (ebind m f)"
  by (auto simp: fails_def ebind_def split: prod.splits sum.splits) (metis fst_conv sum.disc(2))

lemma fails_rest: "(\<And>x. fails (f x)) \<Longrightarrow> fails (ebind m f)"
  by (auto simp: fails_def ebind_def split: prod.splits sum.splits)

lemma fails_seq: "fails m \<Longrightarrow> fails (eseq m k)" "fails k \<Longrightarrow> fails (eseq m k)"
  unfolding eseq_def by (auto intro: fails_first fails_rest)

lemma fails_catch:
  assumes m: "fails m" and h: "\<And>e. fails (h e)"
  shows "fails (ecatch m h)"
  unfolding fails_def
proof
  fix s from m obtain e t where "m s = (Inl e, t)" unfolding fails_def by (metis isl_def prod.collapse)
  with h show "isl (fst (ecatch m h s))" by (simp add: ecatch_def fails_def)
qed

lemma fails_mc: "fails c \<Longrightarrow> fails (on_mc c)"
  unfolding fails_def on_mc_def by (metis (mono_tags, lifting) case_prod_beta fst_conv)

lemma example_fails:
  "fails (transact refusing_systemd H g reg nm patience sample_instance example_bundle force example_plan)"
proof -
  let ?E = refusing_systemd
  have start: "fails (start_unit ?E i)" for i
  proof -
    have "fails (unit_action ?E verb u)" for verb u
    proof -
      have sys: "ebind (systemctl ?E args) f m = f (1, [], ''refused'') m" for args f m
        by (simp add: ebind_def systemctl_def run_result_def refusing_systemd_def)
      have "fails (ebind c1 (\<lambda>x. ebind (c2 x) (\<lambda>y. eraise (e x y))))" for c1 c2 e
        by (intro fails_rest) (simp add: fails_def eraise_def)
      then show ?thesis by (simp add: fails_def unit_action_def sys)
    qed
    then show ?thesis unfolding start_unit_def run_unit_def journaled_def
      by (intro fails_rest fails_seq(2) fails_seq(1) fails_mc)
  qed
  have "ordered_unit_ops True [P_START, P_RESTART] (pl_items example_plan) = [item P_START ''u.service'' [] ''a'']"
    by code_simp
  then have units: "fails (each_e (start_unit ?E) (ordered_unit_ops True [P_START, P_RESTART] (pl_items example_plan)))"
    using start by (simp add: fails_seq fails_first)
  have "is_present sample_instance" by code_simp
  then have "fails (execute ?E H g temporary sample_instance b force example_plan)" for temporary b
    unfolding execute_def execute_base_def execute_present_def
    by (intro fails_seq(2) fails_rest) (simp add: Let_def case_prod_beta fails_seq units)
  then have "fails (transaction_body ?E H g reg nm patience sample_instance example_bundle force example_plan)"
    unfolding transaction_body_def by (intro fails_seq(1))
  moreover have "fails (fail_transaction ?E nm e :: unit rm)" for e
    unfolding fails_def fail_transaction_def eseq_def by (auto simp: ebind_def split: prod.splits sum.splits)
  ultimately show ?thesis unfolding transact_def
    by (intro fails_seq(2) fails_catch)
qed

theorem failed_apply_rolls_back_witness:
  "\<exists>e s'. transact refusing_systemd (\<lambda>_. ''f'') sample_generator sample_registry example_names 0 sample_instance
      example_bundle False example_plan
      \<lparr>rn_mc = example_machine, rn_journal = example_journal, rn_rb = no_rollback\<rparr> = (Inl e, s') \<and>
    fview (mc_fs (rn_mc s')) (path_of ''/w/a'') = Some (420, Text ''old'') \<and>
    fview (mc_fs (rn_mc s')) (path_of ''/w/b'') = None"
proof -
  let ?t = "transact refusing_systemd (\<lambda>_. ''f'') sample_generator sample_registry example_names 0 sample_instance
      example_bundle False example_plan
      \<lparr>rn_mc = example_machine, rn_journal = example_journal, rn_rb = no_rollback\<rparr>"
  obtain e s' where run: "?t = (Inl e, s')"
    using example_fails unfolding fails_def by (metis isl_def prod.collapse)
  have "gr_layout example_ground (applied_path (gen_paths sample_generator) (di_id sample_instance)) = Some KFile"
    by code_simp
  then have "\<forall>q. q \<noteq> path_of ''/h/s/j'' \<longrightarrow>
      same_file (fview (mc_fs example_machine) q) (fview (mc_fs (rn_mc s')) q) \<or>
      path_name q = ''.owner'' \<and> fview (mc_fs example_machine) q = None"
    using failed_apply_rolls_back [OF example_grounded example_suits _ _, of sample_generator sample_instance
        example_journal "\<lambda>_. ''f''" sample_registry example_names 0 False e s'] run
    by (simp add: example_ground_def example_journal_def)
  from this [rule_format, of "path_of ''/w/a''"] this [rule_format, of "path_of ''/w/b''"]
  have "same_file (fview (mc_fs example_machine) (path_of ''/w/a'')) (fview (mc_fs (rn_mc s')) (path_of ''/w/a''))"
    "same_file (fview (mc_fs example_machine) (path_of ''/w/b'')) (fview (mc_fs (rn_mc s')) (path_of ''/w/b''))"
    by (simp_all add: example_paths path_name_def)
  moreover have "fview (mc_fs example_machine) (path_of ''/w/a'') = Some (420, Text ''old'')"
    "fview (mc_fs example_machine) (path_of ''/w/b'') = None"
    by (simp_all add: fview_def example_machine_def example_paths)
  moreover have "read_back (Text ''old'') = Text ''old''" by code_simp
  ultimately show ?thesis using run by (simp add: same_file_def)
qed

end
