(* ===== verification/Operator_Props.thy ===== *)
theory Operator_Props
  imports Operator
begin

text \<open>
  What operators and logs see: the operator state raises attention exactly when the host is not as
  declared, and documents that are journaled or shown carry no value under the name of a secret.
\<close>

section \<open>Attention\<close>

lemma probe_state_values:
  "probe_state True p \<in> {''Ready'', ''Not ready'', ''Unknown''}"
  "probe_state False p \<in> {''Healthy'', ''Failed'', ''Unknown''}"
  by (auto simp: probe_state_def split: option.splits json.splits)

lemma reconciliation_values: "reconciliation st \<in> {''Applied'', ''Pending'', ''Blocked'', ''Unknown''}"
  by (auto simp: reconciliation_def Let_def split: option.splits json.splits)

lemma recovery_values:
  "recovery_state c st \<in> {''Not applicable'', ''Required'', ''Unknown'', ''Clean'', ''In progress''}"
  unfolding recovery_state_def Let_def by (simp split: option.splits)

text \<open>C37: Nothing asks for the operator's attention exactly when the plan is applied, no recovery is
  required, running or unknown, and the observed service is what is declared: running, healthy and
  with its tunnel ready; or not running; or absent with nothing left.
\<close>

theorem attention_iff_deviation:
  "os_attention (derive_operator_state d st) = [] \<longleftrightarrow>
     reconciliation st = ''Applied'' \<and>
     os_recovery (derive_operator_state d st) \<in> {''Clean'', ''Not applicable''} \<and>
     (if desired_running d then
        unit_runtime (jget (object_at st ''units'') ''mcp-unit'') = ''Running'' \<and>
        probe_state False (jget (object_at st ''endpoints'') ''mcp_discovery'') = ''Healthy'' \<and>
        probe_state True (jget (object_at st ''endpoints'') ''tunnel_ready'') = ''Ready''
      else if desired_stopped d then
        unit_runtime (jget (object_at st ''units'') ''mcp-unit'') \<noteq> ''Running''
      else \<not> has_residual st)"
proof -
  let ?u = "unit_runtime (jget (object_at st ''units'') ''mcp-unit'')"
  note vals = probe_state_values reconciliation_values [of st] recovery_values
  consider (r) "desired_running d" "\<not> desired_stopped d" "\<not> desired_absent d"
    | (s) "\<not> desired_running d" "desired_stopped d" "\<not> desired_absent d"
    | (a) "\<not> desired_running d" "\<not> desired_stopped d" "desired_absent d"
    by (cases "li_deployment (di_lifecycle d)"; cases "li_runtime (di_lifecycle d)")
      (auto simp: desired_running_def desired_stopped_def desired_absent_def is_present_def)
  then show ?thesis
  proof cases
    case r
    then show ?thesis
      using vals(1) [of "jget (object_at st ''endpoints'') ''tunnel_ready''"]
        vals(2) [of "jget (object_at st ''endpoints'') ''mcp_discovery''"] vals(3) vals(4) [of False st]
      by (auto simp: derive_operator_state_def Let_def attention_reasons_def mcp_health_def)
  next
    case s
    with vals(3) vals(4) [of False st] show ?thesis
      by (auto simp: derive_operator_state_def Let_def attention_reasons_def)
  next
    case a
    with vals(3) vals(4) [of False st] vals(4) [of True st] show ?thesis
      by (auto simp: derive_operator_state_def Let_def attention_reasons_def)
  qed
qed

section \<open>Secrets\<close>

text \<open>A document in which the value of every secret key is a truth value or the placeholder.\<close>

fun hides_secrets :: "json \<Rightarrow> bool" where
  "hides_secrets (JObj kvs) \<longleftrightarrow>
     list_all (\<lambda>(k, x). if secret_key k then is_bool x \<or> x = JStr redacted else hides_secrets x) kvs"
| "hides_secrets (JArr xs) \<longleftrightarrow> list_all hides_secrets xs"
| "hides_secrets v \<longleftrightarrow> True"

text \<open>A redacted document hides every value under the name of a secret, at any depth, and the
  environment of a subprocess has none of the secret variables, every other variable, and a locale.
\<close>

theorem secrets_are_hidden:
  "hides_secrets (redact_object v) \<and>
   map_of (sanitized_subprocess_env env) k =
     (if k \<in> set secret_env_keys then None
      else if k = ''LC_ALL'' \<and> map_of env k = None then Some ''C'' else map_of env k)"
proof
  show "hides_secrets (redact_object v)"
    by (induction v rule: redact_object.induct) (auto simp: list_all_iff split: if_splits)
  have f: "map_of (filter (\<lambda>p. fst p \<notin> S) env) x = (if x \<in> S then None else map_of env x)"
    for S :: "string set" and x by (induction env) auto
  have ext: "map_of (xs @ [(l, c)]) x = (if x = l \<and> map_of xs x = None then Some c else map_of xs x)"
    for xs :: env and l c x by (induction xs) auto
  have lc: "''LC_ALL'' \<notin> set secret_env_keys" by code_simp
  have "map_of (if map_of xs l = None then xs @ [(l, c)] else xs) k =
      (if k = l \<and> map_of xs l = None then Some c else map_of xs k)" for xs :: env and l c
    by (simp add: ext del: map_of_append)
  from this [of "filter (\<lambda>p. fst p \<notin> set secret_env_keys) env" "''LC_ALL''" "''C''"] lc
  show "map_of (sanitized_subprocess_env env) k =
     (if k \<in> set secret_env_keys then None
      else if k = ''LC_ALL'' \<and> map_of env k = None then Some ''C'' else map_of env k)"
    unfolding sanitized_subprocess_env_def Let_def by (simp only: f) auto
qed

end
