(* ===== verification/Tunnel.thy ===== *)
theory Tunnel
  imports Generation Applied
begin

text \<open>
  The tunnel worker (runtime.py): reading its environment file, whose quoted values are split as
  \<open>shlex.split(posix=True, comments=False)\<close> splits them, and the program it becomes.
\<close>

section \<open>Shell words\<close>

text \<open>The state of the reader between characters: between words, in a word, in a quotation, after a backslash.\<close>

datatype shell_state = Between | In_word | In_quote char | Escaped "char option"

definition shell_space :: "char \<Rightarrow> bool" where
  "shell_space c \<longleftrightarrow> c = CHR '' '' \<or> c = CHR 0x09 \<or> c = CHR 0x0D \<or> c = CHR 0x0A"

definition is_quote :: "char \<Rightarrow> bool" where
  "is_quote c \<longleftrightarrow> c = CHR 0x27 \<or> c = CHR 0x22"

text \<open>A token that is empty and was not quoted is dropped.\<close>

definition emit :: "string \<Rightarrow> bool \<Rightarrow> string list \<Rightarrow> string list" where
  "emit token q rest = (if token \<noteq> [] \<or> q then token # rest else rest)"

text \<open>\<open>None\<close> stands for \<open>ValueError\<close>: no closing quotation, or nothing after a backslash.\<close>

fun shell_words :: "shell_state \<Rightarrow> string \<Rightarrow> bool \<Rightarrow> string \<Rightarrow> string list option" where
  "shell_words Between token q [] = Some (emit token q [])"
| "shell_words Between token q (c # s) =
     (if shell_space c then map_option (emit token q) (shell_words Between [] False s)
      else if c = CHR 0x5C then shell_words (Escaped None) token q s
      else if is_quote c then shell_words (In_quote c) token q s
      else shell_words In_word [c] q s)"
| "shell_words In_word token q [] = Some (emit token q [])"
| "shell_words In_word token q (c # s) =
     (if shell_space c then map_option (emit token q) (shell_words Between [] False s)
      else if is_quote c then shell_words (In_quote c) token q s
      else if c = CHR 0x5C then shell_words (Escaped None) token q s
      else shell_words In_word (token @ [c]) q s)"
| "shell_words (In_quote d) token q [] = None"
| "shell_words (In_quote d) token q (c # s) =
     (if c = d then shell_words In_word token True s
      else if c = CHR 0x5C \<and> d = CHR 0x22 then shell_words (Escaped (Some d)) token True s
      else shell_words (In_quote d) (token @ [c]) True s)"
| "shell_words (Escaped r) token q [] = None"
| "shell_words (Escaped None) token q (c # s) = shell_words In_word (token @ [c]) q s"
| "shell_words (Escaped (Some d)) token q (c # s) =
     shell_words (In_quote d) (token @ (if c \<noteq> CHR 0x5C \<and> c \<noteq> d then [CHR 0x5C] else []) @ [c]) q s"

definition shlex_split :: "string \<Rightarrow> string list option" where
  "shlex_split s = shell_words Between [] False s"

section \<open>The environment file\<close>

definition line_error :: "string \<Rightarrow> nat \<Rightarrow> string \<Rightarrow> manager_error" where
  "line_error what n key = config_error (what @ '' on line '' @ show_nat n @ '': '' @ key) []"

definition decode_environment_value :: "string \<Rightarrow> string \<Rightarrow> nat \<Rightarrow> string res" where
  "decode_environment_value raw key n =
     (if raw \<noteq> strip raw then Inl (line_error ''environment value has leading or trailing whitespace'' n key)
      else if raw = [] then Inr []
      else if is_quote (hd raw) then
        (case shlex_split raw of
           None \<Rightarrow> Inl (line_error ''invalid quoted environment value'' n key)
         | Some [v] \<Rightarrow> Inr v
         | Some _ \<Rightarrow> Inl (line_error ''invalid environment value'' n key))
      else Inr raw)"

definition environment_key :: "string \<Rightarrow> bool" where
  "environment_key k \<longleftrightarrow> k \<noteq> [] \<and> (is_letter (hd k) \<or> hd k = CHR ''_'') \<and>
     list_all (\<lambda>c. is_letter c \<or> is_digit c \<or> c = CHR ''_'') k"

text \<open>\<open>ENV_ASSIGNMENT_RE.fullmatch\<close>; a line has no newline in it.\<close>

definition match_environment :: "string \<Rightarrow> (string \<times> string) option" where
  "match_environment s =
     (case partition_on CHR ''='' s of
        Some (k, v) \<Rightarrow> if environment_key k \<and> CHR 0x0A \<notin> set v then Some (k, v) else None
      | None \<Rightarrow> None)"

fun environment_of :: "nat \<Rightarrow> string list \<Rightarrow> (string \<times> string) list \<Rightarrow> (string \<times> string) list res" where
  "environment_of n [] values = Inr values"
| "environment_of n (line # rest) values =
     (if line = [] \<or> hd line = CHR ''#'' then environment_of (Suc n) rest values
      else
        (case match_environment (if prefix ''export '' line then drop 7 line else line) of
           None \<Rightarrow> Inl (config_error (''invalid tunnel environment line '' @ show_nat n @
                         ''; expected KEY=VALUE or export KEY=VALUE'') [])
         | Some (k, raw) \<Rightarrow>
             if map_of values k \<noteq> None then
               Inl (config_error (''duplicate tunnel environment key on line '' @ show_nat n @ '': '' @ k) [])
             else rbind (decode_environment_value raw k n)
                    (\<lambda>v. environment_of (Suc n) rest (values @ [(k, v)]))))"

definition api_key :: string where
  "api_key = ''CONTROL_PLANE_API_KEY''"

definition parse_tunnel_environment :: "host \<Rightarrow> ppath \<Rightarrow> (string \<times> string) list res" where
  "parse_tunnel_environment h p =
     (case h_text h p of
        TextOk t \<Rightarrow>
          rbind (environment_of 1 (lines_of t) []) (\<lambda>values.
          if map_of values api_key \<in> {None, Some []} then
            Inl (config_error (api_key @ '' is missing or empty in '' @ path_str p) [])
          else Inr values)
      | _ \<Rightarrow> Inl (ManagerError IO_ERROR (''cannot read tunnel environment file: '' @ path_str p) []))"

section \<open>The worker\<close>

text \<open>\<open>os.execve\<close>: what the process becomes.\<close>

record exec_call =
  ex_binary :: string
  ex_argv :: "string list"
  ex_env :: "(string \<times> string) list"

definition run_tunnel ::
  "host \<Rightarrow> manager_paths \<Rightarrow> (string \<times> string) list \<Rightarrow> desired_instance \<Rightarrow> exec_call res" where
  "run_tunnel h ps environ d =
     (let tun = di_tunnel d; binary = path_of (tun_binary tun);
          profile = path_div (tunnel_profile_dir ps) (tun_profile tun @ ''.yaml'') in
      if \<not> (case h_stat h binary of StatOk T_REG _ \<Rightarrow> True | _ \<Rightarrow> False) \<or> \<not> h_executable h binary then
        Inl (ManagerError IO_ERROR (''tunnel binary is not executable: '' @ path_str binary) [])
      else if \<not> (case h_stat h profile of StatOk T_REG _ \<Rightarrow> True | _ \<Rightarrow> False) then
        Inl (ManagerError IO_ERROR (''tunnel profile is missing: '' @ path_str profile) [])
      else
        rbind (parse_tunnel_environment h (path_of (tun_env_file tun))) (\<lambda>values.
        Inr \<lparr>ex_binary = path_str binary,
             ex_argv = [path_str binary, ''run'', ''--profile'', tun_profile tun, ''--profile-dir'',
                        path_str (tunnel_profile_dir ps), ''--log.file'',
                        path_str (path_div (state_dir ps (di_id d)) ''tunnel.log'')],
             ex_env = dict_set ''CONTROL_PLANE_TUNNEL_ID'' (tun_id tun)
                        (fold (\<lambda>(k, v). dict_set k v) values environ)\<rparr>))"

section \<open>Reading what a shell would be given\<close>

text \<open>A single-quoted text with every quote written as \<open>'"'"'\<close> is read back as one word.\<close>

lemma quoted_words:
  assumes "shell_words In_word (token @ s) True rest = r"
  shows "shell_words (In_quote CHR 0x27) token True
     (replace_char CHR 0x27 (sq @ dq @ sq @ dq @ sq) s @ CHR 0x27 # rest) = r"
  using assms
  by (induction s arbitrary: token) (auto simp: replace_char_def sq_def dq_def is_quote_def shell_space_def)

lemma quoted_split: "shlex_split (sq @ replace_char CHR 0x27 (sq @ dq @ sq @ dq @ sq) v @ sq) = Some [v]"
proof -
  have "shell_words (In_quote CHR 0x27) [] False (c # s) = shell_words (In_quote CHR 0x27) [] True (c # s)" for c s
    by simp
  then have q: "shell_words (In_quote CHR 0x27) [] False (replace_char CHR 0x27 (sq @ dq @ sq @ dq @ sq) v @ [CHR 0x27]) =
      shell_words (In_quote CHR 0x27) [] True (replace_char CHR 0x27 (sq @ dq @ sq @ dq @ sq) v @ [CHR 0x27])"
    by (metis append_is_Nil_conv list.exhaust not_Cons_self2)
  have "shell_words In_word ([] @ v) True [] = Some [v]" by (simp add: emit_def)
  from quoted_words [OF this] q show ?thesis
    by (simp add: shlex_split_def sq_def shell_space_def is_quote_def)
qed

lemma strip_fixed: "s \<noteq> [] \<Longrightarrow> \<not> is_space (hd s) \<Longrightarrow> \<not> is_space (last s) \<Longrightarrow> strip s = s"
proof -
  assume s: "s \<noteq> []" "\<not> is_space (hd s)" "\<not> is_space (last s)"
  then have "dropWhile is_space s = s" by (simp add: dropWhile_eq_self_iff)
  moreover have "dropWhile is_space (rev s) = rev s" using s by (simp add: dropWhile_eq_self_iff hd_rev)
  ultimately show ?thesis by (simp add: strip_def)
qed

lemma safe_not_space: "shell_safe c \<Longrightarrow> \<not> is_space c \<and> \<not> is_quote c"
  by (auto simp: shell_safe_def is_space_def is_quote_def is_letter_def is_digit_def is_lower_def is_upper_def code_of_def Let_def)

text \<open>A value quoted as \<open>shlex.quote\<close> does is read back from the environment file as it was.\<close>

theorem environment_value_roundtrip: "decode_environment_value (shell_quote v) key n = Inr v"
proof -
  have sp: "\<not> is_space CHR 0x27" "is_quote CHR 0x27" by (simp_all add: is_space_def code_of_def is_quote_def)
  consider "v = []" | "v \<noteq> []" "list_all shell_safe v" | "v \<noteq> []" "\<not> list_all shell_safe v" by blast
  then show ?thesis
  proof cases
    case 1
    then show ?thesis using quoted_split [of "[]"] sp strip_fixed [of "sq @ sq"]
      by (simp add: shell_quote_def decode_environment_value_def sq_def replace_char_def)
  next
    case 2
    then have "shell_safe (hd v)" "shell_safe (last v)" by (simp_all add: list_all_iff)
    with 2 safe_not_space strip_fixed [of v] show ?thesis
      by (auto simp: shell_quote_def decode_environment_value_def)
  next
    case 3
    let ?s = "sq @ replace_char CHR 0x27 (sq @ dq @ sq @ dq @ sq) v @ sq"
    have "strip ?s = ?s" using sp by (intro strip_fixed) (simp_all add: sq_def)
    moreover have "is_quote (hd ?s)" "?s \<noteq> []" using sp by (simp_all add: sq_def)
    ultimately show ?thesis using 3 quoted_split [of v] by (simp add: shell_quote_def decode_environment_value_def)
  qed
qed

end
