(* ===== verification/Instant.thy ===== *)
theory Instant
  imports Prelude
begin

text \<open>
  Instants, as the runtime workers use \<open>datetime\<close>: microseconds since the beginning of year 1 in
  UTC, their ISO text (\<open>isoformat\<close> of an aware datetime in UTC) and its reading. \<open>iso_read_write\<close>:
  reading the text of an instant gives the instant.
\<close>

section \<open>The calendar\<close>

definition leap_year :: "nat \<Rightarrow> bool" where
  "leap_year y \<longleftrightarrow> y mod 4 = 0 \<and> (y mod 100 \<noteq> 0 \<or> y mod 400 = 0)"

definition month_lengths :: "nat \<Rightarrow> nat list" where
  "month_lengths y = [31, if leap_year y then 29 else 28, 31, 30, 31, 30, 31, 31, 30, 31, 30, 31]"

definition days_before_year :: "nat \<Rightarrow> nat" where
  "days_before_year y = (let k = y - 1 in k * 365 + k div 4 - k div 100 + k div 400)"

text \<open>The ordinal of a date; 1 January of year 1 has ordinal 1.\<close>

definition date_ordinal :: "nat \<Rightarrow> nat \<Rightarrow> nat \<Rightarrow> nat" where
  "date_ordinal y m d = days_before_year y + sum_list (take (m - 1) (month_lengths y)) + d"

function year_from :: "nat \<Rightarrow> nat \<Rightarrow> nat" where
  "year_from y n = (if y = 0 \<or> n \<le> days_before_year (Suc y) then y else year_from (Suc y) n)"
  by pat_completeness auto
termination
proof (relation "measure (\<lambda>(y, n). n - y)")
  fix y n :: nat assume "\<not> (y = 0 \<or> n \<le> days_before_year (Suc y))"
  moreover have "y \<le> days_before_year (Suc y)" by (simp add: days_before_year_def)
  ultimately have "y < n" by simp
  then show "((Suc y, n), (y, n)) \<in> measure (\<lambda>(y, n). n - y)" by simp
qed simp

declare year_from.simps [simp del]

fun month_from :: "nat list \<Rightarrow> nat \<Rightarrow> nat \<times> nat" where
  "month_from [] n = (1, n)"
| "month_from (k # ks) n = (if n \<le> k then (1, n) else (case month_from ks (n - k) of (m, d) \<Rightarrow> (Suc m, d)))"

definition ordinal_date :: "nat \<Rightarrow> nat \<times> nat \<times> nat" where
  "ordinal_date n =
     (let y = year_from ((n - 1) div 366 + 1) n;
          (m, d) = month_from (month_lengths y) (n - days_before_year y)
      in (y, m, d))"

definition valid_date :: "nat \<Rightarrow> nat \<Rightarrow> nat \<Rightarrow> bool" where
  "valid_date y m d \<longleftrightarrow> 1 \<le> y \<and> y \<le> 9999 \<and> 1 \<le> m \<and> m \<le> 12 \<and> 1 \<le> d \<and> d \<le> month_lengths y ! (m - 1)"

lemma year_step:
  fixes k a b c :: nat
  assumes "c \<le> b" and "y \<le> x"
  shows "Suc k * 365 + (b + x) - (c + y) + (a + z) = k * 365 + b - c + a + (365 + (x - y) + z)"
  using assms by auto

lemma year_length: "days_before_year (Suc y) = days_before_year y + sum_list (month_lengths y)" if "1 \<le> y"
proof -
  from that obtain k where k: "y = Suc k" by (cases y) auto
  define A where "A = (if Suc k mod 4 = 0 then 1 else 0 :: nat)"
  define B where "B = (if Suc k mod 100 = 0 then 1 else 0 :: nat)"
  define C where "C = (if Suc k mod 400 = 0 then 1 else 0 :: nat)"
  have imp: "Suc k mod 400 = 0 \<Longrightarrow> Suc k mod 100 = 0" "Suc k mod 100 = 0 \<Longrightarrow> Suc k mod 4 = 0"
    by (auto simp: mod_eq_0_iff_dvd intro: dvd_trans [rotated])
  have le: "k div 100 \<le> k div 4" by (rule div_le_mono2) simp_all
  have ba: "B \<le> A" using imp(2) by (simp add: A_def B_def)
  have "Suc k div 4 = k div 4 + A" "Suc k div 100 = k div 100 + B" "Suc k div 400 = k div 400 + C"
    by (simp_all add: A_def B_def C_def div_Suc)
  with year_step [OF le ba, of k "k div 400" C]
  have "days_before_year (Suc y) = days_before_year y + (365 + (A - B) + C)"
    by (simp only: days_before_year_def Let_def k diff_Suc_1)
  moreover have "sum_list (month_lengths y) = 365 + (A - B) + C"
    using imp by (cases "Suc k mod 100 = 0")
      (auto simp: month_lengths_def leap_year_def k A_def B_def C_def)
  ultimately show ?thesis by simp
qed

lemma year_mono: assumes "a \<le> b" shows "days_before_year a \<le> days_before_year b"
  using _ assms
proof (rule lift_Suc_mono_le)
  show "days_before_year n \<le> days_before_year (Suc n)" for n
  proof (cases "1 \<le> n")
    case True
    then show ?thesis by (simp add: year_length)
  next
    case False
    then have "n = 0" by simp
    then show ?thesis by (simp add: days_before_year_def)
  qed
qed

lemma year_from_correct:
  "1 \<le> y \<Longrightarrow> days_before_year y < n \<Longrightarrow>
     y \<le> year_from y n \<and> days_before_year (year_from y n) < n \<and> n \<le> days_before_year (Suc (year_from y n))"
proof (induction y n rule: year_from.induct)
  case (1 y n)
  then show ?case by (subst (1 2 3) year_from.simps) auto
qed

lemma month_from_correct:
  "1 \<le> n \<Longrightarrow> n \<le> sum_list ks \<Longrightarrow> month_from ks n = (m, d) \<Longrightarrow>
     1 \<le> m \<and> m \<le> length ks \<and> 1 \<le> d \<and> d \<le> ks ! (m - 1) \<and> sum_list (take (m - 1) ks) + d = n"
proof (induction ks arbitrary: n m)
  case Nil
  then show ?case by simp
next
  case (Cons k ks)
  show ?case
  proof (cases "n \<le> k")
    case True
    with Cons.prems show ?thesis by auto
  next
    case False
    obtain m' d' where r: "month_from ks (n - k) = (m', d')" by fastforce
    with False Cons.prems have "m = Suc m'" "d = d'" by simp_all
    have "1 \<le> n - k" "n - k \<le> sum_list ks" using False Cons.prems by auto
    from Cons.IH [OF this r [folded \<open>d = d'\<close>]] False \<open>m = Suc m'\<close> show ?thesis by (cases m') auto
  qed
qed

lemma ordinal_date_correct:
  assumes "1 \<le> n" and "n \<le> days_before_year 10000" and "ordinal_date n = (y, m, d)"
  shows "valid_date y m d \<and> date_ordinal y m d = n"
proof -
  let ?y = "(n - 1) div 366 + 1"
  have "days_before_year ?y \<le> (n - 1) div 366 * 366"
  proof -
    have "k * 365 + k div 4 - k div 100 + k div 400 \<le> k * 366" for k :: nat
      using div_le_mono2 [of 100 400 k] div_le_dividend [of k 4] by linarith
    then show ?thesis by (simp add: days_before_year_def Let_def)
  qed
  also have "\<dots> \<le> n - 1" by (rule div_times_less_eq_dividend)
  also have "\<dots> < n" using assms(1) by simp
  finally have yf: "year_from ?y n = y \<Longrightarrow> 1 \<le> y \<and> days_before_year y < n \<and> n \<le> days_before_year (Suc y)"
    using year_from_correct [of ?y n] by auto
  from assms(3) have y: "year_from ?y n = y" and m: "month_from (month_lengths y) (n - days_before_year y) = (m, d)"
    by (auto simp: ordinal_date_def Let_def split: prod.splits)
  note y = yf [OF y]
  have "y \<le> 9999"
  proof (rule ccontr)
    assume "\<not> y \<le> 9999"
    then have "days_before_year 10000 \<le> days_before_year y" using year_mono [of 10000 y] by simp
    with y assms(2) show False by simp
  qed
  moreover have "1 \<le> n - days_before_year y" "n - days_before_year y \<le> sum_list (month_lengths y)"
    using y year_length [of y] by linarith+
  note month_from_correct [OF this m]
  moreover have "length (month_lengths y) = 12" by (simp add: month_lengths_def)
  ultimately show ?thesis using y by (auto simp: valid_date_def date_ordinal_def)
qed

section \<open>Texts\<close>

definition padded :: "nat \<Rightarrow> nat \<Rightarrow> string" where
  "padded w n = replicate (w - length (show_nat n)) CHR ''0'' @ show_nat n"

definition day_micros :: nat where
  "day_micros = 86400000000"

definition instant_max :: nat where
  "instant_max = days_before_year 10000 * day_micros"

definition iso :: "nat \<Rightarrow> string" where
  "iso t =
     (let (y, m, d) = ordinal_date (t div day_micros + 1);
          r = t mod day_micros; s = r div 1000000; us = r mod 1000000
      in padded 4 y @ ''-'' @ padded 2 m @ ''-'' @ padded 2 d @ ''T'' @
         padded 2 (s div 3600) @ '':'' @ padded 2 (s div 60 mod 60) @ '':'' @ padded 2 (s mod 60) @
         (if us = 0 then [] else ''.'' @ padded 6 us) @ ''+00:00'')"

definition take_number :: "nat \<Rightarrow> string \<Rightarrow> (nat \<times> string) option" where
  "take_number w s =
     (if w \<le> length s \<and> list_all is_digit (take w s) then Some (read_nat (take w s), drop w s) else None)"

fun take_char :: "char \<Rightarrow> string \<Rightarrow> string option" where
  "take_char c [] = None"
| "take_char c (x # s) = (if x = c then Some s else None)"

text \<open>The texts that \<open>iso\<close> writes.\<close>

definition read_iso :: "string \<Rightarrow> nat option" where
  "read_iso s =
     Option.bind (take_number 4 s) (\<lambda>(y, s). Option.bind (take_char CHR ''-'' s) (\<lambda>s.
     Option.bind (take_number 2 s) (\<lambda>(m, s). Option.bind (take_char CHR ''-'' s) (\<lambda>s.
     Option.bind (take_number 2 s) (\<lambda>(d, s). Option.bind (take_char CHR ''T'' s) (\<lambda>s.
     Option.bind (take_number 2 s) (\<lambda>(hh, s). Option.bind (take_char CHR '':'' s) (\<lambda>s.
     Option.bind (take_number 2 s) (\<lambda>(mm, s). Option.bind (take_char CHR '':'' s) (\<lambda>s.
     Option.bind (take_number 2 s) (\<lambda>(ss, s).
     Option.bind (case take_char CHR ''.'' s of None \<Rightarrow> Some (0, s) | Some s' \<Rightarrow> take_number 6 s') (\<lambda>(us, s).
     if s = ''+00:00'' \<and> valid_date y m d \<and> hh < 24 \<and> mm < 60 \<and> ss < 60
     then Some ((date_ordinal y m d - 1) * day_micros + ((hh * 60 + mm) * 60 + ss) * 1000000 + us)
     else None))))))))))))"

lemma read_nat_zeros: "read_nat (replicate k CHR ''0'' @ s) = read_nat s"
proof -
  have "fold (\<lambda>c n. 10 * n + digit_val c) (replicate k CHR ''0'') 0 = 0"
    by (induction k) (simp_all add: digit_val_def code_of_def)
  then show ?thesis by (simp add: read_nat_def)
qed

lemma show_nat_length: "n < 10 ^ w \<Longrightarrow> 0 < w \<Longrightarrow> length (show_nat n) \<le> w"
proof (induction n arbitrary: w rule: show_nat.induct)
  case (1 n)
  show ?case
  proof (cases "n < 10")
    case True
    with 1 show ?thesis by (subst show_nat.simps) simp
  next
    case False
    obtain v where w: "w = Suc v" using "1.prems" by (cases w) auto
    have v: "w = Suc v" "0 < v" using w False "1.prems" by (cases v; simp)+
    with False "1.IH" [of v] "1.prems" show ?thesis by (subst show_nat.simps) auto
  qed
qed

lemma take_padded [simp]:
  assumes "n < 10 ^ w" and "0 < w"
  shows "take_number w (padded w n @ s) = Some (n, s)"
proof -
  have l: "length (padded w n) = w" using show_nat_length [OF assms] by (simp add: padded_def)
  have "list_all is_digit (padded w n)"
    using show_nat_digits by (auto simp: padded_def list_all_iff is_digit_def code_of_def)
  then show ?thesis using l by (simp add: take_number_def) (simp add: padded_def read_nat_zeros)
qed

lemma read_iso_parts:
  assumes "y < 10 ^ 4" "m < 10 ^ 2" "d < 10 ^ 2" "hh < 10 ^ 2" "mm < 10 ^ 2" "ss < 10 ^ 2" "us < 10 ^ 6"
    and "valid_date y m d" and "hh < 24" "mm < 60" "ss < 60"
  shows "read_iso (padded 4 y @ ''-'' @ padded 2 m @ ''-'' @ padded 2 d @ ''T'' @ padded 2 hh @ '':'' @
      padded 2 mm @ '':'' @ padded 2 ss @ (if us = 0 then [] else ''.'' @ padded 6 us) @ ''+00:00'') =
    Some ((date_ordinal y m d - 1) * day_micros + ((hh * 60 + mm) * 60 + ss) * 1000000 + us)"
proof -
  note number = take_padded [OF assms(1)] take_padded [OF assms(2)] take_padded [OF assms(3)] take_padded [OF assms(4)]
    take_padded [OF assms(5)] take_padded [OF assms(6)] take_padded [OF assms(7)]
  have parse: "\<And>f x. Option.bind (Some x) f = f x" "\<And>c s. take_char c ([c] @ s) = Some s" "\<And>s. [] @ s = s"
    "\<And>a b c. (a @ b) @ c = a @ (b @ c)" "\<And>f x y. (case (x, y) of (a, b) \<Rightarrow> f a b) = f x y"
    "\<And>x y f. (case None of None \<Rightarrow> x | Some z \<Rightarrow> y z) = x" "\<And>x y f. (case Some f of None \<Rightarrow> x | Some z \<Rightarrow> y z) = y f"
    by simp_all
  show ?thesis
  proof (cases "us = 0")
    case True
    have "take_char CHR ''.'' ''+00:00'' = None" by simp
    with True show ?thesis
      by (simp only: read_iso_def number parse assms if_True refl simp_thms)
  next
    case False
    then show ?thesis
      by (simp only: read_iso_def number parse assms if_False if_True refl simp_thms)
  qed
qed

lemma clock_sum: "(x div 3600 * 60 + x div 60 mod 60) * 60 + x mod 60 = (x::nat)"
proof -
  have "x div 3600 = x div 60 div 60" by (simp add: div_mult2_eq [symmetric])
  then show ?thesis by (simp only: div_mult_mod_eq)
qed

lemma iso_read_write:
  assumes "t < instant_max" shows "read_iso (iso t) = Some t"
proof -
  define n where "n = t div day_micros + 1"
  define r where "r = t mod day_micros"
  obtain y m d where o: "ordinal_date n = (y, m, d)" by (cases "ordinal_date n")
  have "n \<le> days_before_year 10000"
    using assms by (simp add: n_def instant_max_def day_micros_def less_mult_imp_div_less Suc_le_eq)
  from ordinal_date_correct [OF _ this o] have v: "valid_date y m d" "date_ordinal y m d = n" by (auto simp: n_def)
  have "month_lengths y ! (m - 1) \<le> 31" if "1 \<le> m" "m \<le> 12"
    using that by (auto simp: month_lengths_def nth_Cons' split: nat.splits)
  with v(1) have small: "y < 10 ^ 4" "m < 10 ^ 2" "d < 10 ^ 2" by (auto simp: valid_date_def)
  have "r < day_micros" by (simp add: r_def day_micros_def)
  then have s: "r div 1000000 < 86400" by (simp add: day_micros_def less_mult_imp_div_less)
  then have hms: "r div 1000000 div 3600 < 24" "r div 1000000 div 60 mod 60 < 60" "r div 1000000 mod 60 < 60"
    by (simp_all add: less_mult_imp_div_less)
  have sum: "((r div 1000000 div 3600 * 60 + r div 1000000 div 60 mod 60) * 60 + r div 1000000 mod 60) = r div 1000000"
    by (rule clock_sum)
  have "r div 1000000 * 1000000 + r mod 1000000 = r" by simp
  then have t: "(n - 1) * day_micros + r div 1000000 * 1000000 + r mod 1000000 = t"
    by (simp add: n_def r_def div_mult_mod_eq add.assoc)
  have us: "r mod 1000000 < 10 ^ 6" by simp
  have iso_eq: "iso t = padded 4 y @ ''-'' @ padded 2 m @ ''-'' @ padded 2 d @ ''T'' @
      padded 2 (r div 1000000 div 3600) @ '':'' @ padded 2 (r div 1000000 div 60 mod 60) @ '':'' @
      padded 2 (r div 1000000 mod 60) @
      (if r mod 1000000 = 0 then [] else ''.'' @ padded 6 (r mod 1000000)) @ ''+00:00''"
    unfolding iso_def Let_def n_def [symmetric] r_def [symmetric] o prod.case by (rule refl)
  have c: "r div 1000000 div 3600 < 10 ^ 2" "r div 1000000 div 60 mod 60 < 10 ^ 2" "r div 1000000 mod 60 < 10 ^ 2"
    by (rule less_le_trans [OF hms(1)], simp, rule less_le_trans [OF hms(2)], simp, rule less_le_trans [OF hms(3)], simp)
  from read_iso_parts [OF small c us v(1) hms] have "read_iso (iso t) = Some ((date_ordinal y m d - 1) * day_micros +
      ((r div 1000000 div 3600 * 60 + r div 1000000 div 60 mod 60) * 60 + r div 1000000 mod 60) * 1000000 +
      r mod 1000000)"
    by (subst iso_eq)
  then show ?thesis unfolding sum v(2) t .
qed

end
