(* ===== verification/Guard.thy ===== *)
theory Guard
  imports Systemd Instant
begin

text \<open>
  The admission guard (runtime.py, \<open>run_admission_guard\<close>): a timer runs it; it probes the service and,
  when the service reports exactly that its sessions are exhausted, restarts it, at most once per
  cool-down. Its evidence is a JSON document in the state directory, read at the beginning and written
  before and after a restart. The world gives the clock (microseconds), the answers of the service and
  the outcome of the restart.
\<close>

section \<open>The world\<close>

text \<open>The body of an error answer: its length, and its first 4096 bytes when they are UTF-8.\<close>

record http_body =
  hb_length :: nat
  hb_text :: "string option"

datatype http_reply = HttpOk int "string option" | HttpRefused int "http_body option" | HttpDown string

datatype time_reading = NotTime | NaiveTime | AwareTime nat | TimeOverflow

record guard_world =
  gw_wall :: "machine \<Rightarrow> nat"
  gw_post :: "string \<Rightarrow> string \<Rightarrow> machine \<Rightarrow> http_reply"
  gw_delete :: "string \<Rightarrow> string \<Rightarrow> machine \<Rightarrow> int option"
  gw_restart :: "string \<Rightarrow> machine \<Rightarrow> (string + int) \<times> machine"
  gw_other_time :: "string \<Rightarrow> time_reading"

text \<open>A worker process: the machine, the lines it printed, and the states in which it ran a restart.\<close>

record worker =
  wk_mc :: machine
  wk_printed :: "json list"
  wk_restarts :: "machine list"

type_synonym 'a wm = "(worker, exn, 'a) em"

definition on_host :: "'a mm \<Rightarrow> 'a wm" where
  "on_host c s = (case c (wk_mc s) of (r, m) \<Rightarrow> (r, s\<lparr>wk_mc := m\<rparr>))"

definition print_line :: "json \<Rightarrow> unit wm" where
  "print_line v = emodify (\<lambda>s. s\<lparr>wk_printed := wk_printed s @ [v]\<rparr>)"

section \<open>The evidence\<close>

definition admission_path :: "manager_paths \<Rightarrow> desired_instance \<Rightarrow> ppath" where
  "admission_path ps d = path_div (state_dir ps (di_id d)) ''admission-recovery.json''"

definition atomic_json :: "ppath \<Rightarrow> (string \<times> json) list \<Rightarrow> unit mm" where
  "atomic_json p kvs =
     eseq (m_mkdir (path_parent p) True 448)
       (\<lambda>m. if p \<in> set (mc_refuses m) \<or> (case x_lookup (mc_fs m) p of Some (EDir k) \<Rightarrow> True | _ \<Rightarrow> False)
             then (Inl (Managed (io_error (''cannot persist admission-recovery evidence: '' @ path_str p) [])), m)
             else m_fs (x_put p (EFile 384 (Text (dumps_indent2 (JObj kvs) @ newline)))) m)"

type_synonym evidence = "(string \<times> json) list"

definition new_recovery_state :: "desired_instance \<Rightarrow> evidence" where
  "new_recovery_state d =
     [(''schema_version'', JInt 1), (''instance_id'', JStr (di_id d)),
      (''guard_interval_seconds'', JInt (rp_interval (di_recovery d))),
      (''recovery_cooldown_seconds'', JInt (rp_cooldown (di_recovery d))),
      (''saturation_detection_count'', JInt 0), (''cooldown_suppression_count'', JInt 0),
      (''restart_attempt_count'', JInt 0), (''last_observation'', JNull), (''last_saturation_at'', JNull),
      (''last_saturation_signature'', JNull), (''last_cooldown_suppression_at'', JNull),
      (''last_restart_attempt_at'', JNull), (''last_restart_result'', JNull), (''cooldown_until'', JNull)]"

definition conflict :: "string \<Rightarrow> (string \<times> json) list \<Rightarrow> exn" where
  "conflict msg details = Managed (ManagerError RECONCILIATION_CONFLICT msg details)"

definition counter_of :: "evidence \<Rightarrow> string \<Rightarrow> nat option" where
  "counter_of kvs k = (case map_of kvs k of Some (JInt i) \<Rightarrow> if 0 \<le> i then Some (nat i) else None | _ \<Rightarrow> None)"

definition check_counter :: "string \<Rightarrow> evidence \<Rightarrow> exn + evidence" where
  "check_counter k kvs =
     (let kvs' = (if map_of kvs k = None \<and> k = ''cooldown_suppression_count'' then dict_set k (JInt 0) kvs else kvs)
      in if counter_of kvs' k = None then Inl (conflict (''invalid admission-recovery counter: '' @ k) [])
         else Inr kvs')"

definition counters :: "string list" where
  "counters = [''saturation_detection_count'', ''cooldown_suppression_count'', ''restart_attempt_count'']"

fun check_counters :: "string list \<Rightarrow> evidence \<Rightarrow> exn + evidence" where
  "check_counters [] kvs = Inr kvs"
| "check_counters (k # ks) kvs = rbind (check_counter k kvs) (check_counters ks)"

definition check_evidence :: "desired_instance \<Rightarrow> json \<Rightarrow> exn + evidence" where
  "check_evidence d v =
     (case v of
        JObj kvs \<Rightarrow>
          if \<not> (\<exists>x \<in> set_option (map_of kvs ''schema_version''). eq_int x 1) then
            Inl (conflict ''unsupported admission-recovery evidence schema'' [])
          else if map_of kvs ''instance_id'' \<noteq> Some (JStr (di_id d)) then
            Inl (conflict ''admission-recovery instance identity mismatch'' [])
          else check_counters counters kvs
      | _ \<Rightarrow> Inl (conflict ''admission-recovery evidence must be an object'' []))"

definition load_recovery_state :: "ppath \<Rightarrow> desired_instance \<Rightarrow> fs \<Rightarrow> exn + evidence" where
  "load_recovery_state p d fs =
     (if \<not> x_exists fs p then Inr (new_recovery_state d)
      else if x_is_symlink fs p \<or> \<not> x_is_file fs p then
        Inl (conflict ''admission-recovery evidence has unexpected filesystem type'' (path_detail p))
      else
        (case x_text (x_follow (x_lookup fs p)) of
           TextOk t \<Rightarrow>
             (case loads t of
                Some v \<Rightarrow> check_evidence d v
              | None \<Rightarrow> Inl (conflict ''admission-recovery evidence is unreadable or invalid'' (path_detail p)))
         | _ \<Rightarrow> Inl (conflict ''admission-recovery evidence is unreadable or invalid'' (path_detail p))))"

section \<open>The probe\<close>

definition saturation_body :: string where
  "saturation_body = ''maximum HTTP session count reached''"

definition read_bounded_response :: "http_body \<Rightarrow> string option \<times> bool" where
  "read_bounded_response b = (map_option strip (hb_text b), 4096 < hb_length b)"

definition error_message_of :: "http_body \<Rightarrow> string option" where
  "error_message_of b =
     (case read_bounded_response b of
        (Some t, False) \<Rightarrow>
          (case loads t of
             Some (JObj kvs) \<Rightarrow>
               (case map_of kvs ''error'' of
                  Some (JObj es) \<Rightarrow> (case map_of es ''message'' of Some (JStr s) \<Rightarrow> Some s | _ \<Rightarrow> None)
                | _ \<Rightarrow> None)
           | _ \<Rightarrow> None)
      | _ \<Rightarrow> None)"

definition exact_signature :: "int \<Rightarrow> http_body \<Rightarrow> bool" where
  "exact_signature code b \<longleftrightarrow> code = 503 \<and> error_message_of b = Some saturation_body"

definition observation_dict :: "string \<Rightarrow> json \<Rightarrow> bool \<Rightarrow> json \<Rightarrow> evidence" where
  "observation_dict classification status exact cleanup =
     [(''classification'', JStr classification), (''http_status'', status), (''exact_signature'', JBool exact),
      (''session_cleanup'', cleanup)]"

text \<open>What is asked: the initialisation of a session, which is deleted again.\<close>

definition probe_endpoint :: "desired_instance \<Rightarrow> string" where
  "probe_endpoint d = ''http://'' @ mcp_host (di_mcp d) @ '':'' @ show_int (mcp_port (di_mcp d)) @ ''/mcp''"

definition probe_body :: string where
  "probe_body = dumps_with (\<lambda>_. []) [] 0 (JObj
     [(''jsonrpc'', JStr ''2.0''), (''id'', JInt 1), (''method'', JStr ''initialize''),
      (''params'', JObj
         [(''protocolVersion'', JStr ''2025-11-25''), (''capabilities'', JObj []),
          (''clientInfo'', JObj [(''name'', JStr ''workspace-mcp-manager-admission-guard''), (''version'', JStr ''1'')])])])"

definition session_cleanup :: "guard_world \<Rightarrow> desired_instance \<Rightarrow> string option \<Rightarrow> machine \<Rightarrow> string" where
  "session_cleanup W d session m =
     (case session of
        Some sid \<Rightarrow>
          if sid = [] then ''not-required''
          else if gw_delete W (probe_endpoint d) sid m = Some 200 then ''deleted'' else ''delete-failed''
      | None \<Rightarrow> ''not-required'')"

definition probe_admission :: "guard_world \<Rightarrow> desired_instance \<Rightarrow> machine \<Rightarrow> exn + (bool \<times> evidence)" where
  "probe_admission W d m =
     (case gw_post W (probe_endpoint d) probe_body m of
        HttpOk status session \<Rightarrow>
          if status \<noteq> 200 then Inr (False, observation_dict ''http_error'' (JInt status) False JNull)
          else
            (let cleanup = session_cleanup W d session m in
             Inr (False, observation_dict (if cleanup = ''delete-failed'' then ''session_cleanup_error'' else ''healthy'')
                    (JInt status) False (JStr cleanup)))
      | HttpRefused code None \<Rightarrow> Inl (Raised ''read'')
      | HttpRefused code (Some b) \<Rightarrow>
          (let exact = exact_signature code b in
           Inr (exact, observation_dict (if exact then ''saturation'' else ''http_error'') (JInt code) exact JNull))
      | HttpDown err \<Rightarrow>
          Inr (False, observation_dict ''probe_error'' JNull False JNull @ [(''error_type'', JStr err)]))"

section \<open>Times\<close>

definition read_time :: "guard_world \<Rightarrow> string \<Rightarrow> time_reading" where
  "read_time W s = (case read_iso s of Some t \<Rightarrow> AwareTime t | None \<Rightarrow> gw_other_time W s)"

definition parse_restart_time :: "guard_world \<Rightarrow> json option \<Rightarrow> nat \<Rightarrow> exn + nat option" where
  "parse_restart_time W v now =
     (case v of
        None \<Rightarrow> Inr None
      | Some JNull \<Rightarrow> Inr None
      | Some (JStr s) \<Rightarrow>
          (case read_time W s of
             NotTime \<Rightarrow> Inl (conflict ''invalid admission-recovery restart timestamp'' [])
           | NaiveTime \<Rightarrow> Inl (conflict ''admission-recovery restart timestamp lacks timezone'' [])
           | TimeOverflow \<Rightarrow> Inl (Raised ''OverflowError'')
           | AwareTime t \<Rightarrow>
               if now < t then Inl (conflict ''admission-recovery restart timestamp is in the future'' [])
               else Inr (Some t))
      | Some _ \<Rightarrow> Inl (conflict ''invalid admission-recovery restart timestamp'' []))"

text \<open>\<open>timedelta(seconds=n)\<close> and its addition to an instant; both can leave their range.\<close>

definition cooldown_micros :: "desired_instance \<Rightarrow> exn + nat" where
  "cooldown_micros d =
     (let n = rp_cooldown (di_recovery d) in
      if n \<le> 86399999999999 then Inr (nat n * 1000000) else Inl (Raised ''OverflowError''))"

definition later :: "nat \<Rightarrow> nat \<Rightarrow> exn + nat" where
  "later t delta = (if t + delta < instant_max then Inr (t + delta) else Inl (Raised ''OverflowError''))"

section \<open>A run of the guard\<close>

definition set_all :: "evidence \<Rightarrow> evidence \<Rightarrow> evidence" where
  "set_all news kvs = fold (\<lambda>(k, v). dict_set k v) news kvs"

definition bump :: "string \<Rightarrow> evidence \<Rightarrow> evidence" where
  "bump k kvs = dict_set k (JInt (int (case counter_of kvs k of Some n \<Rightarrow> n | None \<Rightarrow> 0) + 1)) kvs"

definition printed_observation :: "desired_instance \<Rightarrow> evidence \<Rightarrow> json" where
  "printed_observation d seen = jsort (JObj (set_all seen [(''ok'', JBool True), (''instance_id'', JStr (di_id d))]))"

definition observed :: "desired_instance \<Rightarrow> evidence \<Rightarrow> evidence \<Rightarrow> evidence" where
  "observed d seen kvs =
     set_all [(''guard_interval_seconds'', JInt (rp_interval (di_recovery d))),
              (''recovery_cooldown_seconds'', JInt (rp_cooldown (di_recovery d))),
              (''last_observation'', JObj seen)] kvs"

definition saturated :: "nat \<Rightarrow> evidence \<Rightarrow> evidence" where
  "saturated now kvs =
     set_all [(''last_saturation_at'', JStr (iso now)), (''last_saturation_signature'', JStr (''503 '' @ saturation_body))]
       (bump ''saturation_detection_count'' kvs)"

text \<open>The seconds left, cut to a whole number; exact up to 285 years.\<close>

definition suppressed :: "nat \<Rightarrow> nat \<Rightarrow> evidence \<Rightarrow> evidence \<Rightarrow> evidence" where
  "suppressed now until seen kvs =
     set_all [(''last_cooldown_suppression_at'', JStr (iso now)), (''cooldown_until'', JStr (iso until)),
              (''last_observation'', JObj seen)] (bump ''cooldown_suppression_count'' kvs)"

definition cooldown_observation :: "nat \<Rightarrow> nat \<Rightarrow> evidence \<Rightarrow> evidence" where
  "cooldown_observation now until seen =
     set_all [(''classification'', JStr ''cooldown''),
              (''cooldown_remaining_seconds'', JInt (int (max 1 ((until - now) div 1000000))))] seen"

definition restart_result :: "desired_instance \<Rightarrow> nat \<Rightarrow> json \<Rightarrow> json \<Rightarrow> json" where
  "restart_result d t ok code =
     JObj [(''at'', JStr (iso t)), (''ok'', ok), (''exit_code'', code),
           (''unit'', JStr (mcp_unit_name (di_id d)))]"

definition attempted :: "desired_instance \<Rightarrow> nat \<Rightarrow> nat \<Rightarrow> evidence \<Rightarrow> evidence" where
  "attempted d now until kvs =
     set_all [(''last_restart_attempt_at'', JStr (iso now)), (''cooldown_until'', JStr (iso until)),
              (''last_restart_result'', restart_result d now JNull JNull)] (bump ''restart_attempt_count'' kvs)"

definition restart_mcp :: "guard_world \<Rightarrow> desired_instance \<Rightarrow> int wm" where
  "restart_mcp W d s =
     (case gw_restart W (mcp_unit_name (di_id d)) (wk_mc s) of
        (r, m) \<Rightarrow>
          ((case r of
              Inl err \<Rightarrow> Inl (Managed (io_error ''admission recovery could not execute MCP restart''
                                [(''unit'', JStr (mcp_unit_name (di_id d))), (''error_type'', JStr err)]))
            | Inr rc \<Rightarrow> Inr rc),
           s\<lparr>wk_mc := m, wk_restarts := wk_restarts s @ [wk_mc s]\<rparr>))"

definition restart_line :: "desired_instance \<Rightarrow> int \<Rightarrow> json" where
  "restart_line d rc =
     jsort (JObj [(''ok'', JBool (rc = 0)), (''instance_id'', JStr (di_id d)),
           (''classification'', JStr (if rc = 0 then ''restarted'' else ''restart_failed'')),
           (''exact_signature'', JBool True), (''http_status'', JInt 503), (''restart_exit_code'', JInt rc)])"

text \<open>The restart and the evidence of its outcome.\<close>

definition restart_and_record :: "guard_world \<Rightarrow> manager_paths \<Rightarrow> desired_instance \<Rightarrow> evidence \<Rightarrow> unit wm" where
  "restart_and_record W ps d kvs =
     (let path = admission_path ps d; unit = mcp_unit_name (di_id d);
          outcome = (\<lambda>ok code s. dict_set ''last_restart_result''
                        (restart_result d (gw_wall W (wk_mc s)) (JBool ok) code) kvs) in
      ebind (ecatch (restart_mcp W d)
               (\<lambda>e. case e of
                      Managed me \<Rightarrow> (\<lambda>s. eseq (on_host (atomic_json path (outcome False JNull s))) (eraise e) s)
                    | Raised t \<Rightarrow> eraise e)) (\<lambda>rc.
      (\<lambda>s. eseq (on_host (atomic_json path (outcome (rc = 0) (JInt rc) s)))
        (eseq (print_line (restart_line d rc))
          (if rc = 0 then ereturn ()
           else eraise (Managed (io_error ''admission recovery MCP restart failed''
                  [(''unit'', JStr unit), (''exit_code'', JInt rc)])))) s)))"

definition guard_saturated ::
  "guard_world \<Rightarrow> manager_paths \<Rightarrow> desired_instance \<Rightarrow> nat \<Rightarrow> evidence \<Rightarrow> evidence \<Rightarrow> unit wm" where
  "guard_saturated W ps d now seen kvs =
     (let path = admission_path ps d; kvs1 = saturated now kvs in
      ebind (eread (\<lambda>_. parse_restart_time W (map_of kvs1 ''last_restart_attempt_at'') now)) (\<lambda>previous.
      ebind (eread (\<lambda>_. cooldown_micros d)) (\<lambda>cooldown.
      if (case previous of Some t \<Rightarrow> now - t < cooldown | None \<Rightarrow> False) then
        ebind (eread (\<lambda>_. later (case previous of Some t \<Rightarrow> t | None \<Rightarrow> 0) cooldown)) (\<lambda>until.
        let seen' = cooldown_observation now until seen in
        eseq (on_host (atomic_json path (suppressed now until seen' kvs1)))
          (print_line (printed_observation d seen')))
      else
        ebind (eread (\<lambda>_. later now cooldown)) (\<lambda>until.
        let kvs2 = attempted d now until kvs1 in
        eseq (on_host (atomic_json path kvs2)) (restart_and_record W ps d kvs2)))))"

definition run_admission_guard :: "guard_world \<Rightarrow> manager_paths \<Rightarrow> desired_instance \<Rightarrow> unit wm" where
  "run_admission_guard W ps d =
     (if \<not> rp_guard_enabled (di_recovery d) then
        print_line (JObj [(''ok'', JBool True), (''instance_id'', JStr (di_id d)),
                          (''classification'', JStr ''disabled'')])
      else
        (let path = admission_path ps d in
         ebind (eread (\<lambda>s. load_recovery_state path d (mc_fs (wk_mc s)))) (\<lambda>kvs.
         ebind (eread (\<lambda>s. Inr (gw_wall W (wk_mc s)))) (\<lambda>now.
         ebind (eread (\<lambda>s. probe_admission W d (wk_mc s))) (\<lambda>(exact, observation).
         let seen = (''at'', JStr (iso now)) # observation; kvs1 = observed d seen kvs in
         if \<not> exact then
           eseq (on_host (atomic_json path kvs1)) (print_line (printed_observation d seen))
         else guard_saturated W ps d now seen kvs1)))))"

end
