(* ===== verification/Stored_Text.thy ===== *)
theory Stored_Text
  imports HostFs Redaction Json_Roundtrip Domain_Valid
begin

text \<open>
  Documents written to a file and read back: the printed text has no carriage return, so reading it
  with universal newlines gives the same text, and redaction keeps it printable.
\<close>

section \<open>Carriage returns\<close>

lemma universal_id: "CHR 0x0D \<notin> set s \<Longrightarrow> universal_newlines s = s"
  by (induction s rule: universal_newlines.induct) auto

lemma hex_digit_cr: "n < 16 \<Longrightarrow> hex_digit n \<noteq> CHR 0x0D"
proof
  assume "n < 16" and h: "hex_digit n = CHR 0x0D"
  then have "code_of (hex_digit n) = 13" by (simp add: code_of_def)
  with \<open>n < 16\<close> show False by (auto simp: hex_digit_def digit_char_def split: if_splits)
qed

lemma dump_string_cr: "CHR 0x0D \<notin> set (dump_string s)"
proof -
  have "code_of c div 16 < 16" for c using code_of_less [of c] by (simp add: less_mult_imp_div_less)
  then have "CHR 0x0D \<notin> set (escape_char c)" for c
    using hex_digit_cr by (auto simp: escape_char_def dest: sym)
  then show ?thesis by (auto simp: dump_string_def)
qed

lemma show_int_cr: "CHR 0x0D \<notin> set (show_int i)"
  using show_nat_digits [of "CHR 0x0D"] by (auto simp: show_int_def is_digit_def code_of_def)

lemma join_cr: "CHR 0x0D \<notin> set sep \<Longrightarrow> \<forall>x \<in> set xs. CHR 0x0D \<notin> set x \<Longrightarrow> CHR 0x0D \<notin> set (join_with sep xs)"
  by (induction sep xs rule: join_with.induct) auto

lemma dumps_cr:
  "(\<And>l. CHR 0x0D \<notin> set (nl l)) \<Longrightarrow> CHR 0x0D \<notin> set ks \<Longrightarrow> jplain v \<Longrightarrow> CHR 0x0D \<notin> set (dumps_with nl ks lvl v)"
proof (induction nl ks lvl v rule: dumps_with.induct)
  case (6 nl ks lvl xs)
  have "CHR 0x0D \<notin> set (join_with (CHR '','' # nl (Suc lvl)) (map (dumps_with nl ks (Suc lvl)) xs))"
  proof (rule join_cr)
    have "CHR 0x0D \<notin> set (dumps_with nl ks (Suc lvl) x)" if "x \<in> set xs" for x
    proof -
      from that have "xs \<noteq> []" by auto
      from "6.IH" [OF this that] "6.prems" that show ?thesis by (simp add: list_all_iff)
    qed
    then show "\<forall>x \<in> set (map (dumps_with nl ks (Suc lvl)) xs). CHR 0x0D \<notin> set x" by simp
  qed (use "6.prems" in simp)
  with "6.prems" show ?case by auto
next
  case (7 nl ks lvl kvs)
  have "CHR 0x0D \<notin> set (join_with (CHR '','' # nl (Suc lvl))
      (map (\<lambda>(k, x). dump_string k @ CHR '':'' # ks @ dumps_with nl ks (Suc lvl) x) kvs))"
  proof (rule join_cr)
    have "CHR 0x0D \<notin> set (dumps_with nl ks (Suc lvl) x)" if "(k, x) \<in> set kvs" for k x
    proof -
      from that have "kvs \<noteq> []" by auto
      moreover have "jplain x" using "7.prems"(3) that by (auto simp: list_all_iff)
      ultimately show ?thesis using "7.IH" [OF _ that refl] "7.prems"(1,2) by blast
    qed
    then show "\<forall>x \<in> set (map (\<lambda>(k, x). dump_string k @ CHR '':'' # ks @ dumps_with nl ks (Suc lvl) x) kvs).
        CHR 0x0D \<notin> set x"
      using dump_string_cr "7.prems"(2) by auto
  qed (use "7.prems" in simp)
  with "7.prems" show ?case by auto
qed (auto simp: dump_string_cr show_int_cr)

lemma written_text:
  assumes "jplain v" shows "universal_newlines (dumps_indent2 v @ newline) = dumps_indent2 v @ newline"
proof -
  have "CHR 0x0D \<notin> set (dumps_indent2 v)"
    unfolding dumps_indent2_def by (rule dumps_cr) (simp_all only: newline_def jplain_jsort [OF assms], auto)
  then show ?thesis by (intro universal_id) (simp add: newline_def)
qed

section \<open>Documents\<close>

lemma jplain_dict_set:
  assumes "jplain (JObj kvs)" and "jplain v" shows "jplain (JObj (dict_set k v kvs))"
proof -
  have "set (dict_set k v kvs) \<subseteq> insert (k, v) (set kvs)" for kvs by (induction k v kvs rule: dict_set.induct) auto
  with assms have "\<forall>p \<in> set (dict_set k v kvs). jplain (snd p)" by (fastforce simp: list_all_iff)
  with assms show ?thesis by (auto simp: list_all_iff distinct_dict_set)
qed

lemma jplain_redact: "jplain v \<Longrightarrow> jplain (redact_object v)"
proof (induction v rule: redact_object.induct)
  case (2 kvs)
  let ?f = "\<lambda>k x. if secret_key k then (if is_bool x then x else JStr redacted) else redact_object x"
  have "map (fst \<circ> (\<lambda>(k, x). (k, ?f k x))) kvs = map fst kvs" by (induction kvs) auto
  moreover have "jplain (?f k x)" if "(k, x) \<in> set kvs" for k x
  proof (cases "secret_key k")
    case True
    then show ?thesis using "2.prems" that by (auto simp: list_all_iff)
  next
    case False
    with 2 that show ?thesis by (fastforce simp: list_all_iff)
  qed
  ultimately show ?case using "2.prems" by (auto simp only: redact_object.simps jplain.simps map_map list_all_iff)
      (auto simp: list_all_iff)
qed (auto simp: list_all_iff)

text \<open>What a later reader finds under a key of a redacted document.\<close>

definition read_item :: "string \<Rightarrow> json \<Rightarrow> json" where
  "read_item k x = jsort (if secret_key k then (if is_bool x then x else JStr redacted) else redact_object x)"

lemma map_of_redacted:
  "map_of (map (\<lambda>(k, x). (k, if secret_key k then (if is_bool x then x else JStr redacted) else redact_object x)) kvs) k =
    map_option (\<lambda>x. if secret_key k then (if is_bool x then x else JStr redacted) else redact_object x) (map_of kvs k)"
  by (induction kvs) auto

lemma jget_read_back: "jget (jsort (redact_object (JObj kvs))) k = map_option (read_item k) (map_of kvs k)"
proof -
  have "jget (redact_object (JObj kvs)) k =
      map_option (\<lambda>x. if secret_key k then (if is_bool x then x else JStr redacted) else redact_object x) (map_of kvs k)"
    by (simp add: jget_def map_of_redacted)
  then show ?thesis unfolding jget_jsort by (simp only: option.map_comp comp_def read_item_def [abs_def])
qed

lemma read_item_plain: "\<not> secret_key k \<Longrightarrow> read_item k x = jsort (redact_object x)"
  by (simp add: read_item_def)

end
