(* ===== verification/Guard_Props.thy ===== *)
theory Guard_Props
  imports Guard Stored_Text Apply_Props Planning_Props
begin

text \<open>
  The admission guard restarts the service at most once per cool-down: every restart is recorded on
  disk before it is issued, what is recorded is read back as it was, and the next run compares with it.
\<close>

section \<open>Reading back the evidence\<close>

definition stored :: "ppath \<Rightarrow> evidence \<Rightarrow> fs \<Rightarrow> bool" where
  "stored p kvs fs \<longleftrightarrow> x_lookup fs p = Some (EFile 384 (Text (dumps_indent2 (JObj kvs) @ newline)))"

lemma load_stored:
  assumes "stored p kvs fs" and "jplain (JObj kvs)"
  shows "load_recovery_state p d fs = check_evidence d (jsort (JObj kvs))"
proof -
  let ?t = "dumps_indent2 (JObj kvs) @ newline"
  have "universal_newlines ?t = ?t" by (rule written_text [OF assms(2)])
  moreover have "loads ?t = Some (jsort (JObj kvs))" by (rule loads_indent2_newline [OF assms(2)])
  ultimately show ?thesis
    using assms(1) by (simp add: load_recovery_state_def stored_def x_exists_def x_is_symlink_def x_is_file_def x_text_def
        del: jsort.simps)
qed

section \<open>Good evidence\<close>

definition good_evidence :: "desired_instance \<Rightarrow> evidence \<Rightarrow> bool" where
  "good_evidence d kvs \<longleftrightarrow> (\<exists>x \<in> set_option (map_of kvs ''schema_version''). eq_int x 1) \<and>
     map_of kvs ''instance_id'' = Some (JStr (di_id d)) \<and> (\<forall>k \<in> set counters. counter_of kvs k \<noteq> None)"

definition attempt_in :: "evidence \<Rightarrow> nat option" where
  "attempt_in kvs = (case map_of kvs ''last_restart_attempt_at'' of Some (JStr s) \<Rightarrow> read_iso s | _ \<Rightarrow> None)"

definition idle :: "evidence \<Rightarrow> bool" where
  "idle kvs \<longleftrightarrow> map_of kvs ''last_restart_attempt_at'' = Some JNull"

lemma check_counters_good: "\<forall>k \<in> set ks. counter_of kvs k \<noteq> None \<Longrightarrow> check_counters ks kvs = Inr kvs"
proof (induction ks)
  case (Cons k ks)
  then have "check_counter k kvs = Inr kvs" by (auto simp: check_counter_def Let_def counter_of_def split: option.splits)
  with Cons show ?case by (simp add: rbind_def)
qed simp

lemma check_good: "good_evidence d kvs \<Longrightarrow> check_evidence d (JObj kvs) = Inr kvs"
  by (auto simp: check_evidence_def good_evidence_def check_counters_good)

lemma good_set:
  assumes "good_evidence d kvs" and "k \<notin> set (''schema_version'' # ''instance_id'' # counters)"
  shows "good_evidence d (dict_set k v kvs)"
  using assms by (auto simp: good_evidence_def counter_of_def counters_def map_of_dict_set)

lemma good_bump:
  assumes "good_evidence d kvs" and "k \<in> set counters"
  shows "good_evidence d (bump k kvs)"
  using assms by (auto simp: good_evidence_def counter_of_def counters_def map_of_dict_set bump_def)

lemma map_of_sorted:
  fixes kvs :: evidence
  shows "map_of (sort_by fst (map (\<lambda>(k, x). (k, jsort x)) kvs)) k = map_option jsort (map_of kvs k)"
  using jget_jsort [of "JObj kvs" k] by (simp add: jget_def)

lemma counter_sorted: "counter_of (sort_by fst (map (\<lambda>(k, x). (k, jsort x)) kvs)) k = counter_of kvs k"
  by (auto simp: counter_of_def map_of_sorted split: option.splits json.splits)

lemma eq_int_jsort: "eq_int (jsort v) i = eq_int v i"
  by (cases v) auto

lemma good_sorted: "good_evidence d kvs \<Longrightarrow> good_evidence d (sort_by fst (map (\<lambda>(k, x). (k, jsort x)) kvs))"
  by (auto simp: good_evidence_def counter_sorted map_of_sorted eq_int_jsort)

lemma attempt_sorted:
  "attempt_in (sort_by fst (map (\<lambda>(k, x). (k, jsort x)) kvs)) = attempt_in kvs"
  "idle (sort_by fst (map (\<lambda>(k, x). (k, jsort x)) kvs)) = idle kvs"
  by (auto simp: attempt_in_def idle_def map_of_sorted split: option.splits json.splits)

text \<open>What the guard may find in its evidence, and what it makes of it.\<close>

definition sane :: "desired_instance \<Rightarrow> nat list \<Rightarrow> evidence \<Rightarrow> bool" where
  "sane d ts kvs \<longleftrightarrow> jplain (JObj kvs) \<and> good_evidence d kvs \<and>
     (if ts = [] then idle kvs else map_of kvs ''last_restart_attempt_at'' = Some (JStr (iso (last ts))))"

lemma plain_dict_set:
  assumes "jplain (JObj kvs)" and "jplain v" shows "jplain (JObj (dict_set k v kvs))"
proof -
  have "list_all (\<lambda>(k, x). jplain x) kvs \<Longrightarrow> list_all (\<lambda>(k, x). jplain x) (dict_set k v kvs)"
    using assms(2) by (induction kvs) auto
  with assms(1) show ?thesis by (simp add: distinct_dict_set)
qed

lemma sane_set:
  assumes "sane d ts kvs" and "k \<notin> set (''schema_version'' # ''instance_id'' # ''last_restart_attempt_at'' # counters)"
    and "jplain v"
  shows "sane d ts (dict_set k v kvs)"
  using assms good_set [of d kvs k v] plain_dict_set [of kvs v k]
  by (auto simp: sane_def idle_def map_of_dict_set)

lemma sane_bump: assumes "sane d ts kvs" and "k \<in> set counters" shows "sane d ts (bump k kvs)"
proof -
  have "k \<noteq> ''last_restart_attempt_at''" using assms(2) by (auto simp: counters_def)
  moreover have "jplain (JObj (bump k kvs))"
    unfolding bump_def by (rule plain_dict_set) (use assms(1) in \<open>simp_all add: sane_def\<close>)
  ultimately show ?thesis using assms good_bump [OF _ assms(2)]
    by (auto simp: sane_def idle_def bump_def map_of_dict_set)
qed

lemma sane_attempt:
  assumes "sane d ts kvs" shows "sane d (ts @ [now]) (dict_set ''last_restart_attempt_at'' (JStr (iso now)) kvs)"
  using assms good_set [of d kvs "''last_restart_attempt_at''"] plain_dict_set [of kvs _ "''last_restart_attempt_at''"]
  by (auto simp: sane_def counters_def)

lemma sane_sorted: "sane d ts kvs \<Longrightarrow> sane d ts (sort_by fst (map (\<lambda>(k, x). (k, jsort x)) kvs))"
  using jplain_jsort [of "JObj kvs"] good_sorted [of d kvs]
  by (auto simp: sane_def attempt_sorted map_of_sorted simp del: jplain.simps)

lemma sane_new: "sane d [] (new_recovery_state d)"
  by (simp add: sane_def new_recovery_state_def good_evidence_def counters_def counter_of_def idle_def)

section \<open>The evidence on disk\<close>

definition held :: "desired_instance \<Rightarrow> ppath \<Rightarrow> nat list \<Rightarrow> machine \<Rightarrow> bool" where
  "held d p ts m \<longleftrightarrow> x_lookup (mc_fs m) p = None \<and> ts = [] \<or>
     (\<exists>kvs. stored p kvs (mc_fs m) \<and> sane d ts kvs)"

lemma load_held: "held d p ts m \<Longrightarrow> \<exists>kvs. load_recovery_state p d (mc_fs m) = Inr kvs \<and> sane d ts kvs"
  unfolding held_def
proof (elim disjE conjE exE)
  assume "x_lookup (mc_fs m) p = None" "ts = []"
  then show ?thesis using sane_new by (simp add: load_recovery_state_def x_exists_def)
next
  fix kvs assume s: "stored p kvs (mc_fs m)" "sane d ts kvs"
  then have "jplain (JObj kvs)" "good_evidence d (sort_by fst (map (\<lambda>(k, x). (k, jsort x)) kvs))"
    using good_sorted by (simp_all add: sane_def)
  with load_stored [OF s(1)] check_good sane_sorted [OF s(2)] show ?thesis by simp
qed

lemma below_root:
  assumes "pp_parts p \<noteq> []" shows "p \<notin> insert (path_parent p) (set (path_parents (path_parent p)))"
proof
  assume "p \<in> insert (path_parent p) (set (path_parents (path_parent p)))"
  then have "length (pp_parts p) \<le> length (pp_parts (path_parent p))" by (auto simp: in_path_parents)
  with assms show False by (cases "pp_parts p" rule: rev_cases) (simp_all add: path_parent_def)
qed

lemma atomic_json_result:
  assumes "pp_parts p \<noteq> []" and "atomic_json p kvs m = (r, m')"
  shows "r = Inr () \<and> stored p kvs (mc_fs m') \<or> (\<exists>e. r = Inl e) \<and> x_lookup (mc_fs m') p = x_lookup (mc_fs m) p"
proof -
  obtain q m1 where k: "m_mkdir (path_parent p) True 448 m = (q, m1)" by fastforce
  have "keeps (touches_only (insert (path_parent p) (set (path_parents (path_parent p)))))
      (m_mkdir (path_parent p) True 448)" by (rule touch_mkdir) auto
  from keepsD [OF this k] below_root [OF assms(1)] have "map_of (mc_fs m1) p = map_of (mc_fs m) p"
    by (auto simp: touches_only_def)
  then have "x_lookup (mc_fs m1) p = x_lookup (mc_fs m) p" by (simp add: x_lookup_def)
  with assms k show ?thesis
    by (auto simp: atomic_json_def eseq_def ebind_def m_fs_def emodify_def stored_def x_lookup_def x_put_def
        split: sum.splits if_splits)
qed

section \<open>The runs of a guard\<close>

text \<open>
  A declaration may name any positive number of seconds; beyond the range of \<open>timedelta\<close> the guard
  raises on every saturation, restarts nothing and records nothing.
\<close>

lemma huge_cooldown_raises:
  assumes "86399999999999 < rp_cooldown (di_recovery d)"
    and "parse_restart_time W (map_of (saturated now kvs) ''last_restart_attempt_at'') now = Inr previous"
  shows "guard_saturated W ps d now seen kvs s = (Inl (Raised ''OverflowError''), s)"
  using assms by (simp add: guard_saturated_def Let_def ebind_def eread_def cooldown_micros_def)

lemma admission_parts: "pp_parts (admission_path ps d) \<noteq> []"
proof -
  have "wf_part ''admission-recovery.json''" by code_simp
  then show ?thesis by (simp add: admission_path_def path_div_part)
qed

text \<open>When a restart was attempted, according to the evidence on the machine it was issued on.\<close>

definition attempt_on :: "manager_paths \<Rightarrow> desired_instance \<Rightarrow> machine \<Rightarrow> nat option" where
  "attempt_on ps d m =
     (case load_recovery_state (admission_path ps d) d (mc_fs m) of Inr kvs \<Rightarrow> attempt_in kvs | Inl _ \<Rightarrow> None)"

definition spaced :: "desired_instance \<Rightarrow> nat list \<Rightarrow> bool" where
  "spaced d ts \<longleftrightarrow> sorted_wrt (\<lambda>a b. int a + rp_cooldown (di_recovery d) * 1000000 \<le> int b) ts \<and>
     (\<forall>t \<in> set ts. t < instant_max)"

definition tracked_by :: "manager_paths \<Rightarrow> desired_instance \<Rightarrow> nat list \<Rightarrow> nat list \<Rightarrow> worker \<Rightarrow> bool" where
  "tracked_by ps d issued ts s \<longleftrightarrow> held d (admission_path ps d) ts (wk_mc s) \<and>
     map (attempt_on ps d) (wk_restarts s) = map Some issued \<and> spaced d ts"

lemma attempt_held:
  assumes "held d (admission_path ps d) ts m" and "ts \<noteq> []" and "spaced d ts"
  shows "attempt_on ps d m = Some (last ts)"
proof -
  from load_held [OF assms(1)] obtain kvs where
    "load_recovery_state (admission_path ps d) d (mc_fs m) = Inr kvs" "sane d ts kvs" by blast
  moreover have "last ts < instant_max" using assms(2,3) by (simp add: spaced_def)
  ultimately show ?thesis using assms(2) by (simp add: attempt_on_def attempt_in_def sane_def iso_read_write)
qed

lemma carries_evidence:
  assumes "sane d ts kvs"
  shows "carries (tracked_by ps d issued ts) (on_host (atomic_json (admission_path ps d) kvs)) (tracked_by ps d issued ts)"
proof (rule carriesI)
  fix s r s'
  assume t: "tracked_by ps d issued ts s" and run: "on_host (atomic_json (admission_path ps d) kvs) s = (r, s')"
  from run obtain m where m: "atomic_json (admission_path ps d) kvs (wk_mc s) = (r, m)" "s' = s\<lparr>wk_mc := m\<rparr>"
    by (auto simp: on_host_def split: prod.splits)
  from atomic_json_result [OF admission_parts m(1)] t assms show "tracked_by ps d issued ts s'"
    by (auto simp: tracked_by_def held_def stored_def m(2))
qed

lemma carries_print: "carries (tracked_by ps d issued ts) (print_line v) (tracked_by ps d issued ts)"
  unfolding print_line_def by (rule carries_modify) (simp add: tracked_by_def)

definition leaves_evidence :: "guard_world \<Rightarrow> ppath \<Rightarrow> bool" where
  "leaves_evidence W p \<longleftrightarrow> (\<forall>u m. x_lookup (mc_fs (snd (gw_restart W u m))) p = x_lookup (mc_fs m) p)"

lemma carries_restart:
  assumes "leaves_evidence W (admission_path ps d)" and "ts \<noteq> []"
  shows "carries (tracked_by ps d issued ts) (restart_mcp W d) (tracked_by ps d (issued @ [last ts]) ts)"
proof (rule carriesI)
  fix s r s' assume t: "tracked_by ps d issued ts s" and run: "restart_mcp W d s = (r, s')"
  from run have "s' = s\<lparr>wk_mc := snd (gw_restart W (mcp_unit_name (di_id d)) (wk_mc s)), wk_restarts := wk_restarts s @ [wk_mc s]\<rparr>"
    by (auto simp: restart_mcp_def split: prod.splits)
  moreover have "attempt_on ps d (wk_mc s) = Some (last ts)"
    using t assms(2) by (intro attempt_held) (simp_all add: tracked_by_def)
  ultimately show "tracked_by ps d (issued @ [last ts]) ts s'"
    using t assms(1) by (auto simp: tracked_by_def held_def stored_def leaves_evidence_def)
qed

lemma carries_catch:
  "carries P m M \<Longrightarrow> (\<And>e. carries M (h e) Q) \<Longrightarrow> (\<And>s. M s \<Longrightarrow> Q s) \<Longrightarrow> carries P (ecatch m h) Q"
  unfolding carries_def ecatch_def by (auto split: prod.splits sum.splits)

lemma carries_record:
  assumes "leaves_evidence W (admission_path ps d)" and "ts \<noteq> []" and "sane d ts kvs"
  shows "carries (tracked_by ps d issued ts) (restart_and_record W ps d kvs) (tracked_by ps d (issued @ [last ts]) ts)"
proof -
  let ?T = "tracked_by ps d (issued @ [last ts]) ts"
  have w: "carries ?T (on_host (atomic_json (admission_path ps d)
      (dict_set ''last_restart_result'' (restart_result d t ok code) kvs))) ?T" if "jplain ok" "jplain code" for t ok code
    using that by (intro carries_evidence sane_set [OF assms(3)]) (simp_all add: restart_result_def counters_def)
  have "carries ?T (case e of
         Managed me \<Rightarrow> (\<lambda>s. eseq (on_host (atomic_json (admission_path ps d)
            (dict_set ''last_restart_result'' (restart_result d (gw_wall W (wk_mc s)) (JBool False) JNull) kvs))) (eraise e) s)
       | Raised t \<Rightarrow> eraise e) ?T" for e :: exn
  proof (cases e)
    case (Managed me)
    show ?thesis unfolding Managed exn.case
      by (rule carries_at) (intro carries_seq [OF w] carries_pure; simp)
  qed (simp add: carries_pure)
  then have c: "carries (tracked_by ps d issued ts) (ecatch (restart_mcp W d)
      (\<lambda>e. case e of
         Managed me \<Rightarrow> (\<lambda>s. eseq (on_host (atomic_json (admission_path ps d)
            (dict_set ''last_restart_result'' (restart_result d (gw_wall W (wk_mc s)) (JBool False) JNull) kvs))) (eraise e) s)
       | Raised t \<Rightarrow> eraise e)) ?T"
    by (intro carries_catch [OF carries_restart [OF assms(1,2)]]) simp_all
  show ?thesis unfolding restart_and_record_def Let_def
  proof (rule carries_bind_mid [OF c])
    fix rc
    show "carries ?T (\<lambda>s. eseq (on_host (atomic_json (admission_path ps d)
          (dict_set ''last_restart_result'' (restart_result d (gw_wall W (wk_mc s)) (JBool (rc = 0)) (JInt rc)) kvs)))
        (eseq (print_line (restart_line d rc))
          (if rc = 0 then ereturn ()
           else eraise (Managed (io_error ''admission recovery MCP restart failed''
                  [(''unit'', JStr (mcp_unit_name (di_id d))), (''exit_code'', JInt rc)])))) s) ?T"
      by (rule carries_at) (intro carries_seq [OF w] carries_seq [OF carries_print] carries_if carries_pure; simp)
  qed simp
qed

text \<open>The invariant of the runs: what was issued is what the evidence says.\<close>

definition regular :: "manager_paths \<Rightarrow> desired_instance \<Rightarrow> worker \<Rightarrow> bool" where
  "regular ps d s \<longleftrightarrow> (\<exists>ts. tracked_by ps d ts ts s)"

lemma regularI: "tracked_by ps d ts ts s \<Longrightarrow> regular ps d s"
  by (auto simp: regular_def)

lemma previous_attempt:
  assumes "sane d ts kvs" and "spaced d ts"
    and "parse_restart_time W (map_of kvs ''last_restart_attempt_at'') now = Inr prev"
  shows "prev = (if ts = [] then None else Some (last ts)) \<and> (\<forall>t. prev = Some t \<longrightarrow> t \<le> now)"
proof (cases "ts = []")
  case True
  with assms(1,3) show ?thesis by (simp add: sane_def idle_def parse_restart_time_def)
next
  case False
  then have "last ts < instant_max" using assms(2) by (simp add: spaced_def)
  with False assms(1,3) show ?thesis
    by (auto simp: sane_def parse_restart_time_def read_time_def iso_read_write split: if_splits)
qed

lemma spaced_snoc:
  assumes "spaced d ts" and "now < instant_max" and "0 \<le> rp_cooldown (di_recovery d)"
    and "ts \<noteq> [] \<Longrightarrow> int (last ts) + rp_cooldown (di_recovery d) * 1000000 \<le> int now"
  shows "spaced d (ts @ [now])"
proof -
  have "int t + rp_cooldown (di_recovery d) * 1000000 \<le> int now" if t: "t \<in> set ts" for t
  proof -
    from t have ne: "ts \<noteq> []" by auto
    have "int t \<le> int (last ts)"
    proof (cases "t = last ts")
      case False
      with t have "t \<in> set (butlast ts)" using in_set_butlast_appendI by (metis append_butlast_last_id ne rotate1.simps(2) set_ConsD set_rotate1)
      moreover have "sorted_wrt (\<lambda>a b. int a + rp_cooldown (di_recovery d) * 1000000 \<le> int b) (butlast ts @ [last ts])"
        using assms(1) ne by (simp add: spaced_def)
      ultimately show ?thesis using assms(3) by (auto simp: sorted_wrt_append dest!: bspec)
    qed simp
    with assms(4) ne show ?thesis by simp
  qed
  with assms(1,2) show ?thesis by (auto simp: spaced_def sorted_wrt_append)
qed

lemma write_attempt:
  assumes "tracked_by ps d ts ts s" and "sane d us kvs" and "spaced d us"
    and "on_host (atomic_json (admission_path ps d) kvs) s = (q, s1)"
  shows "q = Inr () \<and> tracked_by ps d ts us s1 \<or> (\<exists>e. q = Inl e) \<and> tracked_by ps d ts ts s1"
proof -
  from assms(4) obtain m where m: "atomic_json (admission_path ps d) kvs (wk_mc s) = (q, m)" "s1 = s\<lparr>wk_mc := m\<rparr>"
    by (auto simp: on_host_def split: prod.splits)
  from atomic_json_result [OF admission_parts m(1)] assms(1-3) show ?thesis
    by (auto simp: tracked_by_def held_def stored_def m(2))
qed

lemma carries_saturated:
  assumes W: "leaves_evidence W (admission_path ps d)" and c: "0 \<le> rp_cooldown (di_recovery d)"
    and now: "now < instant_max" and k: "sane d ts kvs" and jp: "jplain (JObj seen)"
  shows "carries (tracked_by ps d ts ts) (guard_saturated W ps d now seen kvs) (regular ps d)"
proof (rule carriesI)
  fix s r s' assume s: "tracked_by ps d ts ts s" and run: "guard_saturated W ps d now seen kvs s = (r, s')"
  let ?k = "saturated now kvs"
  have k1: "sane d ts ?k" unfolding saturated_def set_all_def
    by (simp add: sane_set sane_bump [OF k] counters_def)
  from s have sp: "spaced d ts" by (simp add: tracked_by_def)
  note unf = guard_saturated_def Let_def ebind_def eread_def
  show "regular ps d s'"
  proof (cases "parse_restart_time W (map_of ?k ''last_restart_attempt_at'') now")
    case (Inl e)
    with run s show ?thesis by (simp add: unf regularI)
  next
    case p: (Inr prev)
    note prev = previous_attempt [OF k1 sp p]
    show ?thesis
    proof (cases "cooldown_micros d")
      case (Inl e)
      with run s p show ?thesis by (simp add: unf regularI)
    next
      case cd: (Inr cool)
      then have cool: "int cool = rp_cooldown (di_recovery d) * 1000000"
        using c by (auto simp: cooldown_micros_def Let_def split: if_splits)
      show ?thesis
      proof (cases "case prev of Some t \<Rightarrow> now - t < cool | None \<Rightarrow> False")
        case True
        show ?thesis
        proof (cases "later (case prev of Some t \<Rightarrow> t | None \<Rightarrow> 0) cool")
          case (Inl e)
          with run s p cd True show ?thesis by (simp add: unf regularI)
        next
          case (Inr until)
          let ?o = "cooldown_observation now until seen"
          have "jplain (JObj (dict_set a (JInt i) (dict_set b (JStr t) seen)))" for a b i t
            by (intro plain_dict_set jp) simp_all
          then have "jplain (JObj ?o)" unfolding cooldown_observation_def set_all_def
            by (simp del: jplain.simps)
          then have "sane d ts (suppressed now until ?o ?k)" unfolding suppressed_def set_all_def
            by (simp add: sane_set sane_bump [OF k1] counters_def)
          note c1 = carries_seq [OF carries_evidence [OF this] carries_print]
          from run p cd True Inr have "eseq (on_host (atomic_json (admission_path ps d) (suppressed now until ?o ?k)))
              (print_line (printed_observation d ?o)) s = (r, s')" by (simp add: unf)
          from carriesD [OF c1 s this] show ?thesis by (rule regularI)
        qed
      next
        case False
        show ?thesis
        proof (cases "later now cool")
          case (Inl e)
          with run s p cd False show ?thesis by (simp add: unf regularI)
        next
          case (Inr until)
          let ?k2 = "attempted d now until ?k" and ?us = "ts @ [now]"
          have k2: "sane d ?us ?k2" unfolding attempted_def set_all_def
            by (simp add: sane_set sane_attempt sane_bump [OF k1] counters_def restart_result_def)
          have sp2: "spaced d ?us" using False prev cool by (intro spaced_snoc [OF sp now c]) (auto split: if_splits)
          obtain q s1 where w: "on_host (atomic_json (admission_path ps d) ?k2) s = (q, s1)" by fastforce
          from write_attempt [OF s k2 sp2 w] show ?thesis
          proof (elim disjE conjE exE)
            fix e assume "q = Inl e" "tracked_by ps d ts ts s1"
            with run p cd False Inr w show ?thesis by (simp add: unf eseq_def regularI)
          next
            assume q: "q = Inr ()" and t1: "tracked_by ps d ts ?us s1"
            from run p cd False Inr w q have "restart_and_record W ps d ?k2 s1 = (r, s')"
              by (simp add: unf eseq_def)
            from carriesD [OF carries_record [OF W _ k2] t1 this] show ?thesis by (intro regularI) simp
          qed
        qed
      qed
    qed
  qed
qed

lemma regular_run:
  assumes W: "leaves_evidence W (admission_path ps d)" and c: "0 \<le> rp_cooldown (di_recovery d)"
    and clock: "\<And>m. gw_wall W m < instant_max"
  shows "carries (regular ps d) (run_admission_guard W ps d) (regular ps d)"
proof (rule carriesI)
  fix s r s' assume "regular ps d s" and run: "run_admission_guard W ps d s = (r, s')"
  then obtain ts where s: "tracked_by ps d ts ts s" by (auto simp: regular_def)
  show "regular ps d s'"
  proof (cases "rp_guard_enabled (di_recovery d)")
    case False
    with run carriesD [OF carries_print s] show ?thesis by (auto simp: run_admission_guard_def intro: regularI)
  next
    case True
    from s have "held d (admission_path ps d) ts (wk_mc s)" by (simp add: tracked_by_def)
    from load_held [OF this] obtain kvs where
      k: "load_recovery_state (admission_path ps d) d (mc_fs (wk_mc s)) = Inr kvs" "sane d ts kvs" by blast
    let ?now = "gw_wall W (wk_mc s)"
    show ?thesis
    proof (cases "probe_admission W d (wk_mc s)")
      case (Inl e)
      with run True k s show ?thesis
        by (simp add: run_admission_guard_def Let_def ebind_def eread_def regularI)
    next
      case (Inr po)
      obtain exact ob where po: "po = (exact, ob)" by fastforce
      let ?seen = "(''at'', JStr (iso ?now)) # ob" and ?k1 = "observed d ((''at'', JStr (iso ?now)) # ob) kvs"
      have jp: "jplain (JObj ?seen)"
        using Inr po by (auto simp: probe_admission_def observation_dict_def session_cleanup_def Let_def
            split: http_reply.splits option.splits if_splits)
      then have k1: "sane d ts ?k1" unfolding observed_def set_all_def
        by (simp add: sane_set k(2) counters_def)
      have rest: "(if \<not> exact then
           eseq (on_host (atomic_json (admission_path ps d) ?k1)) (print_line (printed_observation d ?seen))
         else guard_saturated W ps d ?now ?seen ?k1) s = (r, s')"
        using run True k Inr po by (simp add: run_admission_guard_def Let_def ebind_def eread_def)
      show ?thesis
      proof (cases exact)
        case True
        with rest carriesD [OF carries_saturated [OF W c clock k1 jp] s] show ?thesis by simp
      next
        case False
        with rest carriesD [OF carries_seq [OF carries_evidence [OF k1] carries_print] s] show ?thesis
          by (auto intro: regularI)
      qed
    qed
  qed
qed

text \<open>
  The life of an instance with its guard: runs of the guard, and anything else that happens to the
  machine without touching the evidence.
\<close>

inductive guard_life :: "guard_world \<Rightarrow> manager_paths \<Rightarrow> desired_instance \<Rightarrow> worker \<Rightarrow> bool"
  for W ps d where
    fresh: "x_lookup (mc_fs (wk_mc s)) (admission_path ps d) = None \<Longrightarrow> wk_restarts s = [] \<Longrightarrow>
      guard_life W ps d s"
  | ran: "guard_life W ps d s \<Longrightarrow> run_admission_guard W ps d s = (r, s') \<Longrightarrow> guard_life W ps d s'"
  | elsewhere: "guard_life W ps d s \<Longrightarrow>
      x_lookup (mc_fs m) (admission_path ps d) = x_lookup (mc_fs (wk_mc s)) (admission_path ps d) \<Longrightarrow>
      guard_life W ps d (s\<lparr>wk_mc := m\<rparr>)"

text \<open>C7: However often the guard runs, whatever the service answers, whether restarts succeed and
  whether evidence can be written: every restart it issued is recorded, with its time, in the evidence
  of the machine it was issued on, and the times of any two restarts are at least the cool-down apart.\<close>

theorem restarts_are_spaced:
  assumes "guard_life W ps d s" and "leaves_evidence W (admission_path ps d)"
    and "\<And>m. gw_wall W m < instant_max" and "0 \<le> rp_cooldown (di_recovery d)"
  shows "\<exists>times. map (attempt_on ps d) (wk_restarts s) = map Some times \<and>
    sorted_wrt (\<lambda>a b. int a + rp_cooldown (di_recovery d) * 1000000 \<le> int b) times"
proof -
  from assms(1) have "regular ps d s"
  proof induction
    case (fresh s)
    then have "tracked_by ps d [] [] s" by (simp add: tracked_by_def held_def spaced_def)
    then show ?case by (rule regularI)
  next
    case (ran s r s')
    from carriesD [OF regular_run [OF assms(2,4,3)] ran(3,2)] show ?case .
  next
    case (elsewhere s m)
    then show ?case by (auto simp: regular_def tracked_by_def held_def stored_def)
  qed
  then show ?thesis by (auto simp: regular_def tracked_by_def spaced_def)
qed

definition busy_world :: guard_world where
  "busy_world = \<lparr>gw_wall = \<lambda>_. 5000,
     gw_post = \<lambda>_ _ _. HttpRefused 503 (Some \<lparr>hb_length = 60, hb_text =
       Some (''{'' @ dump_string ''error'' @ '':{'' @ dump_string ''message'' @ '':'' @ dump_string saturation_body @ ''}}'')\<rparr>),
     gw_delete = \<lambda>_ _ _. None, gw_restart = \<lambda>_ m. (Inr 0, m), gw_other_time = \<lambda>_. NotTime\<rparr>"

definition idle_worker :: worker where
  "idle_worker = \<lparr>wk_mc = \<lparr>mc_fs = [], mc_umask = id, mc_refuses = [], mc_git = sample_git, mc_active = [],
     mc_enabled = [], mc_clock = 5\<rparr>, wk_printed = [], wk_restarts = []\<rparr>"

lemma busy_probe: "\<exists>ob. probe_admission busy_world d m = Inr (True, ob)"
proof -
  have "loads (''{'' @ dump_string ''error'' @ '':{'' @ dump_string ''message'' @ '':'' @ dump_string saturation_body @ ''}}'') =
      Some (JObj [(''error'', JObj [(''message'', JStr saturation_body)])])" by code_simp
  moreover have "strip (''{'' @ dump_string ''error'' @ '':{'' @ dump_string ''message'' @ '':'' @ dump_string saturation_body @ ''}}'') =
      ''{'' @ dump_string ''error'' @ '':{'' @ dump_string ''message'' @ '':'' @ dump_string saturation_body @ ''}}''" by code_simp
  ultimately show ?thesis
    by (simp add: probe_admission_def busy_world_def exact_signature_def error_message_of_def read_bounded_response_def Let_def)
qed

lemma idle_writes: "\<exists>m. atomic_json (admission_path sample_paths sample_instance) kvs (wk_mc idle_worker) = (Inr (), m)"
proof -
  let ?p = "admission_path sample_paths sample_instance"
  have "case m_mkdir (path_parent ?p) True 448 (wk_mc idle_worker) of (r, m) \<Rightarrow>
      r = Inr () \<and> map_of (mc_fs m) ?p = None \<and> mc_refuses m = []" by code_simp
  then obtain m where "m_mkdir (path_parent ?p) True 448 (wk_mc idle_worker) = (Inr (), m)"
    "map_of (mc_fs m) ?p = None" "mc_refuses m = []" by (auto split: prod.splits)
  with admission_parts [of sample_paths sample_instance] show ?thesis
    by (simp add: atomic_json_def eseq_def ebind_def m_fs_def emodify_def x_lookup_def)
qed

lemma record_restarts:
  "restart_and_record W ps d kvs s = (r, s') \<Longrightarrow> wk_restarts s' = wk_restarts s @ [wk_mc s]"
  by (auto simp: restart_and_record_def Let_def ebind_def ecatch_def eseq_def restart_mcp_def on_host_def print_line_def
      emodify_def ereturn_def eraise_def split: prod.splits sum.splits if_splits)

lemma busy_run: "length (wk_restarts (snd (run_admission_guard busy_world sample_paths sample_instance idle_worker))) = 1"
proof -
  let ?d = sample_instance and ?p = "admission_path sample_paths sample_instance"
  obtain ob where ob: "probe_admission busy_world sample_instance (wk_mc idle_worker) = Inr (True, ob)" using busy_probe by blast
  have load: "load_recovery_state ?p ?d (mc_fs (wk_mc idle_worker)) = Inr (new_recovery_state ?d)"
    using admission_parts [of sample_paths ?d]
    by (simp add: load_recovery_state_def x_exists_def x_lookup_def idle_worker_def)
  have on: "rp_guard_enabled (di_recovery ?d)" by code_simp
  let ?now = "gw_wall busy_world (wk_mc idle_worker)"
  let ?seen = "(''at'', JStr (iso ?now)) # ob"
  let ?k = "saturated ?now (observed ?d ?seen (new_recovery_state ?d))"
  have prev: "parse_restart_time busy_world (map_of ?k ''last_restart_attempt_at'') ?now = Inr None"
    by (simp add: saturated_def observed_def set_all_def bump_def new_recovery_state_def parse_restart_time_def)
  have cool: "cooldown_micros ?d = Inr 300000000"
    by (simp add: cooldown_micros_def sample_instance_def sample_recovery_def)
  have until: "later ?now 300000000 = Inr (?now + 300000000)"
    by (simp add: later_def busy_world_def idle_worker_def instant_max_def day_micros_def days_before_year_def)
  let ?k2 = "attempted ?d ?now (?now + 300000000) ?k"
  from idle_writes obtain m where w: "atomic_json ?p ?k2 (wk_mc idle_worker) = (Inr (), m)" by blast
  have "run_admission_guard busy_world sample_paths ?d idle_worker =
      restart_and_record busy_world sample_paths ?d ?k2 (idle_worker\<lparr>wk_mc := m\<rparr>)"
    using on load ob prev cool until w
    by (simp add: run_admission_guard_def guard_saturated_def Let_def ebind_def eread_def eseq_def on_host_def)
  moreover obtain r s' where "restart_and_record busy_world sample_paths ?d ?k2 (idle_worker\<lparr>wk_mc := m\<rparr>) = (r, s')"
    by fastforce
  ultimately show ?thesis using record_restarts by (fastforce simp: idle_worker_def)
qed

theorem restarts_are_spaced_witness:
  "\<exists>s times. guard_life busy_world sample_paths sample_instance s \<and> length times = 1 \<and>
     map (attempt_on sample_paths sample_instance) (wk_restarts s) = map Some times \<and>
     sorted_wrt (\<lambda>a b. int a + rp_cooldown (di_recovery sample_instance) * 1000000 \<le> int b) times"
proof -
  let ?s = "snd (run_admission_guard busy_world sample_paths sample_instance idle_worker)"
  have "guard_life busy_world sample_paths sample_instance idle_worker"
    using admission_parts [of sample_paths sample_instance]
    by (intro guard_life.fresh) (simp_all add: idle_worker_def x_lookup_def)
  then have life: "guard_life busy_world sample_paths sample_instance ?s"
    by (rule guard_life.ran) (rule prod.collapse [symmetric])
  have "leaves_evidence busy_world (admission_path sample_paths sample_instance)"
    by (simp add: leaves_evidence_def busy_world_def)
  moreover have "gw_wall busy_world m < instant_max" for m
    by (simp add: busy_world_def instant_max_def day_micros_def days_before_year_def)
  moreover have "0 \<le> rp_cooldown (di_recovery sample_instance)" by (simp add: sample_instance_def sample_recovery_def)
  ultimately obtain times where t: "map (attempt_on sample_paths sample_instance) (wk_restarts ?s) = map Some times"
    "sorted_wrt (\<lambda>a b. int a + rp_cooldown (di_recovery sample_instance) * 1000000 \<le> int b) times"
    using restarts_are_spaced [OF life] by blast
  from arg_cong [OF t(1), of length] busy_run have "length times = 1" by simp
  with life t show ?thesis by blast
qed

end
