(* ===== verification/Cleanup.thy ===== *)
theory Cleanup
  imports Systemd Registry
begin

text \<open>
  Removal of hand-made installations (cleanup.py): an audit decides, resource by resource, whether
  what is on the host belongs to the instance's old installation, and the removal audits again
  before each step. The answers of systemd are a function of the command and the machine.
\<close>

section \<open>Reading\<close>

datatype file_audit = FileAbsent | FileUnsafe string | FilePresent string

definition denied_text :: "ppath \<Rightarrow> string" where
  "denied_text p = ''[Errno 13] Permission denied: '' @ repr_str (path_str p)"

definition inspect_failure :: "string \<Rightarrow> string \<Rightarrow> string" where
  "inspect_failure what e = what @ '': '' @ redact_text e"

definition read_regular_text :: "host \<Rightarrow> ppath \<Rightarrow> file_audit" where
  "read_regular_text h p =
     (case h_lstat h p of
        StatMissing \<Rightarrow> FileAbsent
      | StatDenied \<Rightarrow> FileUnsafe (inspect_failure ''cannot inspect path'' (denied_text p))
      | StatError e \<Rightarrow> FileUnsafe (inspect_failure ''cannot inspect path'' e)
      | StatOk T_LINK _ \<Rightarrow> FileUnsafe ''path is a symlink''
      | StatOk T_REG _ \<Rightarrow>
          (case h_text h p of
             TextOk t \<Rightarrow> FilePresent t
           | TextUndecodable \<Rightarrow> FileUnsafe ''file is not valid UTF-8''
           | TextMissing e \<Rightarrow> FileUnsafe (inspect_failure ''cannot read file'' e)
           | TextDenied e \<Rightarrow> FileUnsafe (inspect_failure ''cannot read file'' e)
           | TextError e \<Rightarrow> FileUnsafe (inspect_failure ''cannot read file'' e))
      | StatOk _ _ \<Rightarrow> FileUnsafe ''expected regular file'')"

section \<open>Paths\<close>

definition legacy_config_dir :: "manager_paths \<Rightarrow> ppath" where
  "legacy_config_dir ps = path_div (path_div (account_home ps) ''.config'') ''workspace-mcp''"

definition legacy_profile_dir :: "manager_paths \<Rightarrow> ppath" where
  "legacy_profile_dir ps = path_div (path_div (account_home ps) ''.config'') ''tunnel-client''"

definition legacy_launcher_dir :: "manager_paths \<Rightarrow> ppath" where
  "legacy_launcher_dir ps = path_div (path_div (account_home ps) ''.local'') ''bin''"

definition legacy_state_root :: "manager_paths \<Rightarrow> ppath" where
  "legacy_state_root ps = path_div (path_div (path_div (account_home ps) ''.local'') ''state'') ''workspace-mcp''"

definition config_path :: "manager_paths \<Rightarrow> string \<Rightarrow> ppath" where
  "config_path ps iid = path_div (legacy_config_dir ps) (iid @ ''.conf'')"

definition config_backup_path :: "manager_paths \<Rightarrow> string \<Rightarrow> ppath" where
  "config_backup_path ps iid = path_div (legacy_config_dir ps) (iid @ ''.conf.bak'')"

definition legacy_profile_path :: "manager_paths \<Rightarrow> string \<Rightarrow> ppath" where
  "legacy_profile_path ps iid = path_div (legacy_profile_dir ps) (''workspace-mcp-'' @ iid @ ''.yaml'')"

definition mcp_unit_path :: "manager_paths \<Rightarrow> string \<Rightarrow> ppath" where
  "mcp_unit_path ps iid = path_div (user_unit_dir ps) (''coding-tools-mcp-'' @ iid @ ''.service'')"

definition mcp_dropin_dir :: "manager_paths \<Rightarrow> string \<Rightarrow> ppath" where
  "mcp_dropin_dir ps iid = path_div (user_unit_dir ps) (''coding-tools-mcp-'' @ iid @ ''.service.d'')"

definition tunnel_unit_path :: "manager_paths \<Rightarrow> string \<Rightarrow> ppath" where
  "tunnel_unit_path ps iid = path_div (user_unit_dir ps) (''tunnel-client-'' @ iid @ ''.service'')"

definition legacy_launcher_path :: "manager_paths \<Rightarrow> string \<Rightarrow> ppath" where
  "legacy_launcher_path ps iid = path_div (legacy_launcher_dir ps) (iid @ ''-mcp'')"

definition legacy_state_path :: "manager_paths \<Rightarrow> string \<Rightarrow> ppath" where
  "legacy_state_path ps iid = path_div (legacy_state_root ps) iid"

section \<open>Candidates\<close>

definition between :: "string \<Rightarrow> string \<Rightarrow> string \<Rightarrow> string option" where
  "between pre suf name =
     (if length pre + length suf \<le> length name \<and> prefix pre name \<and> suffix suf name
      then Some (take (length name - length pre - length suf) (drop (length pre) name)) else None)"

definition children_of :: "host \<Rightarrow> ppath \<Rightarrow> string list" where
  "children_of h p = (case h_entries h p of Some ns \<Rightarrow> ns | None \<Rightarrow> [])"

definition matching :: "host \<Rightarrow> ppath \<Rightarrow> string \<Rightarrow> string \<Rightarrow> string list" where
  "matching h dir pre suf = filter instance_id_ok (List.map_filter (between pre suf) (children_of h dir))"

definition legacy_marker :: "string \<Rightarrow> string" where
  "legacy_marker iid = ''# workspace-mcp-instance='' @ iid"

definition manager_marker :: "string \<Rightarrow> string" where
  "manager_marker iid = ''# workspace-mcp-manager-instance='' @ iid"

definition marked_units :: "manager_paths \<Rightarrow> host \<Rightarrow> string \<Rightarrow> string list" where
  "marked_units ps h pre =
     filter (\<lambda>iid. case read_regular_text h (path_div (user_unit_dir ps) (pre @ iid @ ''.service'')) of
                     FilePresent t \<Rightarrow> legacy_marker iid \<in> set (lines_of t) | _ \<Rightarrow> False)
       (matching h (user_unit_dir ps) pre ''.service'')"

definition discover_candidates :: "manager_paths \<Rightarrow> host \<Rightarrow> string list" where
  "discover_candidates ps h =
     sort_by id (remdups
       (matching h (legacy_config_dir ps) [] ''.conf'' @ matching h (legacy_config_dir ps) [] ''.conf.bak'' @
        matching h (legacy_profile_dir ps) ''workspace-mcp-'' ''.yaml'' @ matching h (legacy_launcher_dir ps) [] ''-mcp'' @
        matching h (legacy_state_root ps) [] [] @
        marked_units ps h ''coding-tools-mcp-'' @ marked_units ps h ''tunnel-client-'' @
        matching h (user_unit_dir ps) ''coding-tools-mcp-'' ''.service.d''))"

section \<open>The audit of one resource\<close>

datatype ownership = OwnAbsent | OwnLegacy | OwnForeign | OwnUnsafe

primrec ownership_value :: "ownership \<Rightarrow> string" where
  "ownership_value OwnAbsent = ''absent''"
| "ownership_value OwnLegacy = ''legacy-owned''"
| "ownership_value OwnForeign = ''foreign''"
| "ownership_value OwnUnsafe = ''unsafe''"

record audit =
  au_path :: ppath
  au_kind :: string
  au_owner :: ownership
  au_detail :: string

definition audit_dict :: "audit \<Rightarrow> json" where
  "audit_dict a =
     JObj [(''path'', JStr (path_str (au_path a))), (''kind'', JStr (au_kind a)),
           (''present'', JBool (au_owner a \<noteq> OwnAbsent)), (''ownership'', JStr (ownership_value (au_owner a))),
           (''detail'', JStr (au_detail a))]"

definition audit_of :: "ppath \<Rightarrow> string \<Rightarrow> ownership \<times> string \<Rightarrow> audit" where
  "audit_of p kind od = \<lparr>au_path = p, au_kind = kind, au_owner = fst od, au_detail = snd od\<rparr>"

definition audit_text :: "host \<Rightarrow> ppath \<Rightarrow> string \<Rightarrow> (string \<Rightarrow> ownership \<times> string) \<Rightarrow> audit" where
  "audit_text h p kind judge =
     audit_of p kind
       (case read_regular_text h p of
          FileAbsent \<Rightarrow> (OwnAbsent, ''path does not exist'')
        | FileUnsafe why \<Rightarrow> (OwnUnsafe, why)
        | FilePresent t \<Rightarrow> judge t)"

text \<open>\<open>CONFIG_ASSIGNMENT_RE\<close> and \<open>SYSTEMD_ENV_RE\<close>.\<close>

definition upper_key :: "string \<Rightarrow> bool" where
  "upper_key k \<longleftrightarrow> k \<noteq> [] \<and> is_upper (hd k) \<and> list_all (\<lambda>c. is_upper c \<or> is_digit c \<or> c = CHR ''_'') k"

definition match_config :: "string \<Rightarrow> (string \<times> string) option" where
  "match_config s =
     (case partition_on CHR ''='' s of
        Some (k, v) \<Rightarrow> if upper_key k \<and> CHR 0x0A \<notin> set v then Some (k, v) else None
      | None \<Rightarrow> None)"

definition match_systemd_env :: "string \<Rightarrow> (string \<times> string) option" where
  "match_systemd_env s = Option.bind (between (''Environment='' @ [CHR 0x22]) [CHR 0x22] s) match_config"

definition data_lines :: "string \<Rightarrow> string list" where
  "data_lines t = filter (\<lambda>l. l \<noteq> [] \<and> \<not> prefix ''#'' l) (map strip (lines_of t))"

definition config_values :: "string \<Rightarrow> string \<Rightarrow> string list" where
  "config_values key t = map snd (filter (\<lambda>kv. fst kv = key) (List.map_filter match_config (data_lines t)))"

definition judge_config :: "string \<Rightarrow> string \<Rightarrow> ownership \<times> string" where
  "judge_config iid t =
     (if list_ex (\<lambda>l. match_config l = None) (data_lines t) then
        (OwnForeign, ''legacy config contains malformed data lines'')
      else if config_values ''INSTANCE_ID'' t \<noteq> [iid] then
        (OwnForeign, ''INSTANCE_ID ownership evidence does not match'')
      else (OwnLegacy, ''INSTANCE_ID matches legacy candidate''))"

definition audit_config :: "manager_paths \<Rightarrow> host \<Rightarrow> string \<Rightarrow> audit" where
  "audit_config ps h iid = audit_text h (config_path ps iid) ''legacy-config'' (judge_config iid)"

definition audit_config_backup :: "manager_paths \<Rightarrow> host \<Rightarrow> string \<Rightarrow> audit" where
  "audit_config_backup ps h iid =
     audit_text h (config_backup_path ps iid) ''legacy-config-backup'' (judge_config iid)"

definition legacy_workspace_path :: "manager_paths \<Rightarrow> host \<Rightarrow> string \<Rightarrow> ppath option" where
  "legacy_workspace_path ps h iid =
     (case read_regular_text h (config_path ps iid) of
        FilePresent t \<Rightarrow>
          (case config_values ''WORKSPACE_PATH'' t of
             [v] \<Rightarrow> if path_is_absolute (path_of v) then Some (path_of v) else None
           | _ \<Rightarrow> None)
      | _ \<Rightarrow> None)"

section \<open>Drop-ins\<close>

definition legacy_gh_dir :: "manager_paths \<Rightarrow> string \<Rightarrow> ppath" where
  "legacy_gh_dir ps iid = path_div (legacy_config_dir ps) (iid @ ''-gh'')"

definition nvm_root :: "manager_paths \<Rightarrow> ppath" where
  "nvm_root ps = path_div (path_div (path_div (account_home ps) ''.nvm'') ''versions'') ''node''"

definition roots_of :: "string \<Rightarrow> ppath list" where
  "roots_of v = map path_of (filter (\<lambda>s. s \<noteq> []) (split_on CHR '':'' v))"

definition is_relative_to :: "ppath \<Rightarrow> ppath \<Rightarrow> bool" where
  "is_relative_to p q \<longleftrightarrow> pp_root p = pp_root q \<and> prefix (pp_parts q) (pp_parts p)"

fun judge_github :: "ppath \<Rightarrow> bool \<Rightarrow> string list \<Rightarrow> ownership \<times> string" where
  "judge_github gh seen [] =
     (if seen then (OwnLegacy, ''legacy GitHub profile drop-in contract matches'')
      else (OwnForeign, ''GitHub drop-in lacks exact legacy GH_CONFIG_DIR ownership evidence''))"
| "judge_github gh seen (l # ls) =
     (case match_systemd_env l of
        None \<Rightarrow> (OwnForeign, ''GitHub drop-in contains an unrecognized directive'')
      | Some (k, v) \<Rightarrow>
          if k = ''GH_CONFIG_DIR'' then
            (if v \<noteq> path_str gh then
               (OwnForeign, ''GH_CONFIG_DIR does not match the exact legacy instance profile'')
             else judge_github gh True ls)
          else if k = ''CODING_TOOLS_MCP_EXEC_ALLOW_ROOTS'' then
            (if roots_of v \<noteq> [gh] then
               (OwnForeign, ''GitHub drop-in exec roots do not match the exact legacy profile'')
             else judge_github gh seen ls)
          else (OwnForeign, ''GitHub drop-in contains an unrecognized environment key''))"

definition judge_exec_roots :: "ppath \<Rightarrow> ppath \<Rightarrow> string list \<Rightarrow> ownership \<times> string" where
  "judge_exec_roots gh nvm ls =
     (case ls of
        [l] \<Rightarrow>
          (case match_systemd_env l of
             Some (k, v) \<Rightarrow>
               if k \<noteq> ''CODING_TOOLS_MCP_EXEC_ALLOW_ROOTS'' then
                 (OwnForeign, ''exec-roots drop-in contract does not match'')
               else if gh \<notin> set (roots_of v) then
                 (OwnForeign, ''exec-roots drop-in lacks the exact legacy GitHub profile root'')
               else if list_ex (\<lambda>r. r \<noteq> gh \<and> \<not> is_relative_to r nvm) (roots_of v) then
                 (OwnForeign, ''exec-roots drop-in contains a root outside legacy GitHub/NVM paths'')
               else (OwnLegacy, ''legacy GitHub/NVM exec-roots drop-in contract matches'')
           | None \<Rightarrow> (OwnForeign, ''exec-roots drop-in contract does not match''))
      | _ \<Rightarrow> (OwnForeign, ''exec-roots drop-in must contain exactly one environment directive''))"

definition bind_value :: "string \<Rightarrow> string option" where
  "bind_value l =
     (if prefix ''BindPaths='' l then Some (drop 10 l)
      else if prefix ''BindReadOnlyPaths='' l then Some (drop 18 l) else None)"

definition bind_problem :: "ppath \<Rightarrow> string \<Rightarrow> string option" where
  "bind_problem root v =
     (let parts = split_on CHR '':'' v in
      if length parts \<notin> {2, 3} \<or> length parts = 3 \<and> parts ! 2 \<noteq> ''rbind'' then
        Some ''access drop-in bind syntax is not recognized''
      else if \<not> path_is_absolute (path_of (parts ! 0)) \<or> \<not> path_is_absolute (path_of (parts ! 1)) then
        Some ''access drop-in contains a non-absolute bind path''
      else if path_parent (path_of (parts ! 1)) \<noteq> root then
        Some ''access drop-in target is outside the exact legacy workspace access root''
      else None)"

fun judge_binds :: "ppath \<Rightarrow> bool \<Rightarrow> nat \<Rightarrow> string list \<Rightarrow> ownership \<times> string" where
  "judge_binds root private binds [] =
     (if \<not> private \<or> binds = 0 then (OwnForeign, ''access drop-in lacks the legacy PrivateUsers/bind contract'')
      else (OwnLegacy, ''legacy workspace access drop-in contract matches''))"
| "judge_binds root private binds (l # ls) =
     (if l = ''PrivateUsers=true'' then
        (if private then (OwnForeign, ''access drop-in repeats PrivateUsers=true'')
         else judge_binds root True binds ls)
      else
        (case bind_value l of
           None \<Rightarrow> (OwnForeign, ''access drop-in contains an unrecognized directive'')
         | Some v \<Rightarrow>
             (case bind_problem root v of
                Some why \<Rightarrow> (OwnForeign, why)
              | None \<Rightarrow> judge_binds root private (Suc binds) ls)))"

definition judge_access :: "ppath option \<Rightarrow> string list \<Rightarrow> ownership \<times> string" where
  "judge_access workspace ls =
     (case workspace of
        None \<Rightarrow> (OwnForeign, ''access drop-in cannot be tied to one legacy WORKSPACE_PATH'')
      | Some w \<Rightarrow>
          if ls = [] then (OwnForeign, ''access drop-in contains no bind directives'')
          else judge_binds (path_div w ''.workspace-mcp-access'') False 0 ls)"

definition audit_mcp_dropin_file :: "manager_paths \<Rightarrow> host \<Rightarrow> string \<Rightarrow> ppath \<Rightarrow> ownership \<times> string" where
  "audit_mcp_dropin_file ps h iid p =
     (case read_regular_text h p of
        FileAbsent \<Rightarrow> (OwnUnsafe, ''path does not exist'')
      | FileUnsafe why \<Rightarrow> (OwnUnsafe, why)
      | FilePresent t \<Rightarrow>
          (case data_lines t of
             [] \<Rightarrow> (OwnForeign, ''drop-in is not a single [Service] fragment'')
           | l # ls \<Rightarrow>
               if l \<noteq> ''[Service]'' \<or> list_ex (prefix ''['') ls then
                 (OwnForeign, ''drop-in is not a single [Service] fragment'')
               else if path_name p = ''github-access.conf'' then judge_github (legacy_gh_dir ps iid) False ls
               else if path_name p = ''zz-exec-roots.conf'' then
                 judge_exec_roots (legacy_gh_dir ps iid) (nvm_root ps) ls
               else if path_name p = ''workspace-mcp-manager-access.conf'' then
                 judge_access (legacy_workspace_path ps h iid) ls
               else (OwnForeign, ''drop-in filename is not in the recognized legacy set'')))"

definition known_dropins :: "string list" where
  "known_dropins = [''github-access.conf'', ''zz-exec-roots.conf'', ''workspace-mcp-manager-access.conf'']"

fun judge_dropins :: "manager_paths \<Rightarrow> host \<Rightarrow> string \<Rightarrow> string list \<Rightarrow> ownership \<times> string" where
  "judge_dropins ps h iid [] =
     (OwnLegacy, ''all legacy MCP drop-ins match recognized instance-owned contracts'')"
| "judge_dropins ps h iid (n # ns) =
     (if n \<notin> set known_dropins then (OwnForeign, ''unrecognized drop-in file: '' @ n)
      else
        (case audit_mcp_dropin_file ps h iid (path_div (mcp_dropin_dir ps iid) n) of
           (OwnLegacy, _) \<Rightarrow> judge_dropins ps h iid ns
         | (own, detail) \<Rightarrow> (own, n @ '': '' @ detail)))"

definition audit_mcp_dropins :: "manager_paths \<Rightarrow> host \<Rightarrow> string \<Rightarrow> audit" where
  "audit_mcp_dropins ps h iid =
     (let p = mcp_dropin_dir ps iid in
      audit_of p ''legacy-mcp-dropins''
        (case h_lstat h p of
           StatMissing \<Rightarrow> (OwnAbsent, ''path does not exist'')
         | StatDenied \<Rightarrow> (OwnUnsafe, inspect_failure ''cannot inspect drop-in directory'' (denied_text p))
         | StatError e \<Rightarrow> (OwnUnsafe, inspect_failure ''cannot inspect drop-in directory'' e)
         | StatOk T_DIR _ \<Rightarrow>
             (case h_entries h p of
                None \<Rightarrow> (OwnUnsafe, inspect_failure ''cannot enumerate drop-in directory'' (denied_text p))
              | Some [] \<Rightarrow> (OwnForeign, ''drop-in directory is empty and has no ownership evidence'')
              | Some ns \<Rightarrow> judge_dropins ps h iid (sort_by id ns))
         | StatOk _ _ \<Rightarrow> (OwnUnsafe, ''drop-in path is not a real directory'')))"

section \<open>Marked files, the launcher and the state\<close>

definition judge_marked :: "string \<Rightarrow> string \<Rightarrow> ownership \<times> string" where
  "judge_marked iid t =
     (if manager_marker iid \<in> set (lines_of t) then (OwnForeign, ''resource is workspace-mcp-manager owned'')
      else if legacy_marker iid \<notin> set (lines_of t) then (OwnForeign, ''legacy ownership marker is absent'')
      else (OwnLegacy, ''legacy ownership marker matches''))"

definition audit_marked_file :: "host \<Rightarrow> string \<Rightarrow> ppath \<Rightarrow> string \<Rightarrow> audit" where
  "audit_marked_file h iid p kind = audit_text h p kind (judge_marked iid)"

definition judge_launcher :: "ppath \<Rightarrow> string \<Rightarrow> ownership \<times> string" where
  "judge_launcher config t =
     (let execs = filter (prefix ''exec '') (map strip (lines_of t)) in
      if \<not> contains ''WORKSPACE_MCP_CONFIG='' t \<or> \<not> contains (path_str config) t then
        (OwnForeign, ''launcher does not reference exact legacy config'')
      else if \<not> contains ([CHR 0x22] @ ''$@'' @ [CHR 0x22]) t then
        (OwnForeign, ''launcher does not pass through argv'')
      else (case execs of
              [e] \<Rightarrow>
                if contains ''/workspace-mcp/workspace-mcp'' e then (OwnLegacy, ''legacy wrapper contract matches'')
                else (OwnForeign, ''launcher does not execute shared workspace-mcp binary'')
            | _ \<Rightarrow> (OwnForeign, ''launcher must contain exactly one exec line'')))"

definition audit_launcher :: "manager_paths \<Rightarrow> host \<Rightarrow> string \<Rightarrow> audit" where
  "audit_launcher ps h iid =
     audit_text h (legacy_launcher_path ps iid) ''legacy-launcher'' (judge_launcher (config_path ps iid))"

definition known_state_files :: "string list" where
  "known_state_files = [''mcp.log'', ''tunnel.log'', ''tunnel-supervisor.log'']"

fun judge_state :: "host \<Rightarrow> ppath \<Rightarrow> string list \<Rightarrow> ownership \<times> string" where
  "judge_state h p [] = (OwnLegacy, ''state directory contains only recognized legacy logs'')"
| "judge_state h p (n # ns) =
     (if n \<notin> set known_state_files then (OwnUnsafe, ''unknown state entry: '' @ n)
      else
        (case h_lstat h (path_div p n) of
           StatOk T_REG _ \<Rightarrow> judge_state h p ns
         | StatOk _ _ \<Rightarrow> (OwnUnsafe, ''unsafe state entry type: '' @ n)
         | StatMissing \<Rightarrow> (OwnUnsafe, inspect_failure ''cannot inspect state entry'' ''No such file or directory'')
         | StatDenied \<Rightarrow> (OwnUnsafe, inspect_failure ''cannot inspect state entry'' (denied_text (path_div p n)))
         | StatError e \<Rightarrow> (OwnUnsafe, inspect_failure ''cannot inspect state entry'' e)))"

definition audit_state :: "manager_paths \<Rightarrow> host \<Rightarrow> string \<Rightarrow> audit" where
  "audit_state ps h iid =
     (let p = legacy_state_path ps iid in
      audit_of p ''legacy-state''
        (case h_lstat h p of
           StatMissing \<Rightarrow> (OwnAbsent, ''path does not exist'')
         | StatDenied \<Rightarrow> (OwnUnsafe, inspect_failure ''cannot inspect state directory'' (denied_text p))
         | StatError e \<Rightarrow> (OwnUnsafe, inspect_failure ''cannot inspect state directory'' e)
         | StatOk T_LINK _ \<Rightarrow> (OwnUnsafe, ''state path is a symlink'')
         | StatOk T_DIR _ \<Rightarrow>
             (case h_entries h p of
                None \<Rightarrow> (OwnUnsafe, inspect_failure ''cannot enumerate state directory'' (denied_text p))
              | Some ns \<Rightarrow> judge_state h p ns)
         | StatOk _ _ \<Rightarrow> (OwnUnsafe, ''state path is not a directory'')))"

section \<open>The audit of an instance\<close>

datatype cleanup_state = Clean | Removable | Conflict

primrec cleanup_state_value :: "cleanup_state \<Rightarrow> string" where
  "cleanup_state_value Clean = ''clean''"
| "cleanup_state_value Removable = ''removable''"
| "cleanup_state_value Conflict = ''conflict''"

record candidate =
  ca_instance :: string
  ca_state :: cleanup_state
  ca_collision :: bool
  ca_resources :: "audit list"

definition candidate_dict :: "candidate \<Rightarrow> json" where
  "candidate_dict c =
     JObj [(''instance_id'', JStr (ca_instance c)), (''state'', JStr (cleanup_state_value (ca_state c))),
           (''manager_registry_collision'', JBool (ca_collision c)),
           (''resources'', JArr (map audit_dict (ca_resources c)))]"

definition audits :: "manager_paths \<Rightarrow> host \<Rightarrow> string \<Rightarrow> audit list" where
  "audits ps h iid =
     [audit_config ps h iid, audit_config_backup ps h iid,
      audit_marked_file h iid (legacy_profile_path ps iid) ''legacy-tunnel-profile'',
      audit_marked_file h iid (mcp_unit_path ps iid) ''legacy-mcp-unit'',
      audit_mcp_dropins ps h iid,
      audit_marked_file h iid (tunnel_unit_path ps iid) ''legacy-tunnel-unit'',
      audit_launcher ps h iid, audit_state ps h iid]"

definition audit_one :: "manager_paths \<Rightarrow> registry_state \<Rightarrow> host \<Rightarrow> string \<Rightarrow> candidate res" where
  "audit_one ps reg h iid =
     rbind (list_instances reg True) (\<lambda>known.
     let rs = audits ps h iid; collision = iid \<in> set (map di_id known);
         owners = map au_owner rs in
     Inr \<lparr>ca_instance = iid,
          ca_state = (if collision \<or> OwnForeign \<in> set owners \<or> OwnUnsafe \<in> set owners then Conflict
                      else if OwnLegacy \<in> set owners then Removable else Clean),
          ca_collision = collision, ca_resources = rs\<rparr>)"

definition audit_document :: "candidate list \<Rightarrow> json" where
  "audit_document cs =
     JObj [(''ok'', JBool (\<not> list_ex (\<lambda>c. ca_state c = Conflict) cs)), (''action'', JStr ''audit''),
           (''candidates'', JArr (map candidate_dict cs)), (''read_only'', JBool True)]"

definition cleanup_audit :: "manager_paths \<Rightarrow> registry_state \<Rightarrow> host \<Rightarrow> string option \<Rightarrow> json res" where
  "cleanup_audit ps reg h target =
     (case target of
        Some iid \<Rightarrow> rbind (instance_id_of iid) (\<lambda>iid. rbind (audit_one ps reg h iid) (\<lambda>c. Inr (audit_document [c])))
      | None \<Rightarrow> rbind (traverse (audit_one ps reg h) (discover_candidates ps h)) (\<lambda>cs. Inr (audit_document cs)))"

end
