(* ===== verification/Cleanup_Apply.thy ===== *)
theory Cleanup_Apply
  imports Cleanup
begin

text \<open>
  The removal itself (cleanup.py, \<open>LegacyCleanupService.apply\<close>): units are stopped and disabled, then
  drop-ins, units, the profile, the launcher, the configuration and the state directory are removed,
  each after an audit of its own; a last audit must find nothing.
\<close>

record cleaner =
  cl_mc :: machine
  cl_ops :: "(string \<times> string) list"

type_synonym 'a cm = "(cleaner, exn, 'a) em"

text \<open>The answers of commands, and what the observers see beyond the file system.\<close>

record cleanup_world =
  cw_run :: "string list \<Rightarrow> machine \<Rightarrow> proc_result \<times> machine"
  cw_view :: "machine \<Rightarrow> host"

definition cl_host :: "cleanup_world \<Rightarrow> cleaner \<Rightarrow> host" where
  "cl_host W s = host_of (cw_view W) (cl_mc s)"

definition on_cl :: "'a mm \<Rightarrow> 'a cm" where
  "on_cl c s = (case c (cl_mc s) of (r, m) \<Rightarrow> (r, s\<lparr>cl_mc := m\<rparr>))"

definition note_op :: "string \<Rightarrow> string \<Rightarrow> unit cm" where
  "note_op op target = emodify (\<lambda>s. s\<lparr>cl_ops := cl_ops s @ [(op, target)]\<rparr>)"

definition cl_run :: "cleanup_world \<Rightarrow> string list \<Rightarrow> (int \<times> string) mm" where
  "cl_run W argv m =
     (case cw_run W argv m of
        (ProcDone rc out err, m') \<Rightarrow> (Inr (rc, out), m')
      | (ProcError e, m') \<Rightarrow>
          (Inl (Managed (io_error (''cleanup host command failed: '' @ hd argv) [(''error'', JStr (redact_text e))])), m'))"

definition systemctl_path :: string where
  "systemctl_path = ''/usr/bin/systemctl''"

definition user_systemctl :: "cleanup_world \<Rightarrow> string list \<Rightarrow> (string \<times> (string \<times> json) list) \<Rightarrow> unit cm" where
  "user_systemctl W args failure =
     ebind (on_cl (cl_run W ([systemctl_path, ''--user''] @ args))) (\<lambda>(rc, out).
       if rc \<noteq> 0 then eraise (Managed (io_error (fst failure) (snd failure))) else ereturn ())"

definition changed_conflict :: "string \<Rightarrow> (string \<times> json) list \<Rightarrow> exn" where
  "changed_conflict msg details = Managed (ManagerError RECONCILIATION_CONFLICT msg details)"

section \<open>Observing units\<close>

type_synonym unit_facts = "(string \<times> string) list"

definition fact :: "unit_facts \<Rightarrow> string \<Rightarrow> string option" where
  "fact fs k = map_of (rev fs) k"

definition systemd_observation :: "cleanup_world \<Rightarrow> string \<Rightarrow> unit_facts mm" where
  "systemd_observation W unit =
     ebind (cl_run W [systemctl_path, ''--user'', ''show'', unit, ''-p'', ''LoadState'', ''-p'', ''ActiveState'',
              ''-p'', ''UnitFileState'', ''-p'', ''FragmentPath''])
       (\<lambda>(rc, out). ereturn (List.map_filter (partition_on CHR ''='') (lines_of out)))"

definition verify_unit_fragment :: "cleanup_world \<Rightarrow> string \<Rightarrow> string \<Rightarrow> ppath \<Rightarrow> string \<Rightarrow> unit_facts cm" where
  "verify_unit_fragment W iid unit expected kind =
     ebind (on_cl (systemd_observation W unit)) (\<lambda>facts.
     let fragment = (case fact facts ''FragmentPath'' of Some f \<Rightarrow> f | None \<Rightarrow> []) in
     if fragment \<noteq> [] \<and> path_of fragment \<noteq> expected then
       eraise (changed_conflict (''legacy '' @ kind @ '' installed unit path is foreign'')
         [(''unit'', JStr unit), (''fragment_path'', JStr fragment), (''expected_path'', JStr (path_str expected))])
     else
       ebind (eread (\<lambda>s. Inr (audit_marked_file (cl_host W s) iid expected kind))) (\<lambda>a.
       if au_owner a \<in> {OwnLegacy, OwnAbsent} then ereturn facts
       else eraise (changed_conflict (''legacy '' @ kind @ '' ownership changed before cleanup'')
              [(''path'', JStr (path_str expected)), (''detail'', JStr (au_detail a))])))"

definition is_up :: "unit_facts \<Rightarrow> bool" where
  "is_up facts \<longleftrightarrow> fact facts ''LoadState'' \<noteq> Some ''not-found'' \<and>
     fact facts ''ActiveState'' \<notin> {Some [], Some ''inactive'', Some ''failed''}"

definition is_enabled :: "unit_facts \<Rightarrow> bool" where
  "is_enabled facts \<longleftrightarrow>
     fact facts ''UnitFileState'' \<in> {Some ''enabled'', Some ''enabled-runtime'', Some ''linked'', Some ''linked-runtime''}"

definition stop_if_up :: "cleanup_world \<Rightarrow> string \<Rightarrow> unit_facts \<Rightarrow> string \<Rightarrow> unit cm" where
  "stop_if_up W unit facts failure =
     ewhen (is_up facts)
       (eseq (user_systemctl W [''stop'', unit] (failure, [(''unit'', JStr unit)])) (note_op ''STOP'' unit))"

definition disable_if_enabled :: "cleanup_world \<Rightarrow> string \<times> unit_facts \<Rightarrow> unit cm" where
  "disable_if_enabled W uf =
     ewhen (is_enabled (snd uf))
       (eseq (user_systemctl W [''disable'', fst uf] (''failed to disable legacy unit'', [(''unit'', JStr (fst uf))]))
             (note_op ''DISABLE'' (fst uf)))"

section \<open>Removing\<close>

definition unlink_noted :: "ppath \<Rightarrow> unit cm" where
  "unlink_noted p = eseq (on_cl (m_unlink p)) (note_op ''REMOVE'' (path_str p))"

definition rmdir_noted :: "ppath \<Rightarrow> unit cm" where
  "rmdir_noted p = eseq (on_cl (m_rmdir p)) (note_op ''REMOVE'' (path_str p))"

definition remove_dropin :: "cleanup_world \<Rightarrow> manager_paths \<Rightarrow> string \<Rightarrow> string \<Rightarrow> unit cm" where
  "remove_dropin W ps iid name =
     (let p = path_div (mcp_dropin_dir ps iid) name in
      ebind (eread (\<lambda>s. Inr (audit_mcp_dropin_file ps (cl_host W s) iid p))) (\<lambda>(own, detail).
      if own \<noteq> OwnLegacy then
        eraise (changed_conflict ''legacy MCP drop-in ownership changed before removal''
          [(''path'', JStr (path_str p)), (''detail'', JStr detail)])
      else unlink_noted p))"

text \<open>The result says whether something of systemd was removed.\<close>

definition remove_dropins :: "cleanup_world \<Rightarrow> manager_paths \<Rightarrow> string \<Rightarrow> bool cm" where
  "remove_dropins W ps iid =
     ebind (eread (\<lambda>s. Inr (audit_mcp_dropins ps (cl_host W s) iid))) (\<lambda>a.
     if au_owner a = OwnLegacy then
       ebind (on_cl (m_iterdir (mcp_dropin_dir ps iid))) (\<lambda>names.
       eseq (each_e (remove_dropin W ps iid) (sort_by id names))
         (eseq (rmdir_noted (mcp_dropin_dir ps iid)) (ereturn True)))
     else if au_owner a \<noteq> OwnAbsent then
       eraise (changed_conflict ''legacy MCP drop-in ownership changed before removal'' [])
     else ereturn False)"

definition remove_audited :: "(cleaner \<Rightarrow> audit) \<Rightarrow> ppath \<Rightarrow> string \<Rightarrow> bool cm" where
  "remove_audited auditor p kind =
     ebind (eread (\<lambda>s. Inr (auditor s))) (\<lambda>a.
     if au_owner a = OwnLegacy then eseq (unlink_noted p) (ereturn True)
     else if au_owner a \<noteq> OwnAbsent then
       eraise (changed_conflict (kind @ '' ownership changed before removal'') [])
     else ereturn False)"

definition remove_marked :: "cleanup_world \<Rightarrow> string \<Rightarrow> ppath \<Rightarrow> string \<Rightarrow> bool cm" where
  "remove_marked W iid p kind = remove_audited (\<lambda>s. audit_marked_file (cl_host W s) iid p kind) p kind"

definition remove_state :: "cleanup_world \<Rightarrow> manager_paths \<Rightarrow> string \<Rightarrow> unit cm" where
  "remove_state W ps iid =
     (let p = legacy_state_path ps iid in
      ebind (eread (\<lambda>s. Inr (audit_state ps (cl_host W s) iid))) (\<lambda>a.
      if au_owner a = OwnLegacy then
        ebind (on_cl (m_iterdir p)) (\<lambda>names.
        eseq (each_e (\<lambda>n. unlink_noted (path_div p n)) (sort_by id names)) (rmdir_noted p))
      else if au_owner a \<noteq> OwnAbsent then
        eraise (changed_conflict ''legacy state ownership changed before removal'' [])
      else ereturn ()))"

definition remove_units :: "cleanup_world \<Rightarrow> manager_paths \<Rightarrow> string \<Rightarrow> unit cm" where
  "remove_units W ps iid =
     ebind (remove_dropins W ps iid) (\<lambda>dropins.
     ebind (remove_marked W iid (tunnel_unit_path ps iid) ''legacy-tunnel-unit'') (\<lambda>tunnel.
     ebind (remove_marked W iid (mcp_unit_path ps iid) ''legacy-mcp-unit'') (\<lambda>mcp.
     ewhen (dropins \<or> tunnel \<or> mcp)
       (eseq (user_systemctl W [''daemon-reload'']
                (''systemd user daemon-reload failed during legacy cleanup'', []))
         (note_op ''DAEMON_RELOAD'' ''systemd --user'')))))"

definition remove_files :: "cleanup_world \<Rightarrow> manager_paths \<Rightarrow> string \<Rightarrow> unit cm" where
  "remove_files W ps iid =
     ebind (remove_marked W iid (legacy_profile_path ps iid) ''legacy-tunnel-profile'') (\<lambda>_.
     ebind (remove_audited (\<lambda>s. audit_launcher ps (cl_host W s) iid) (legacy_launcher_path ps iid) ''legacy-launcher'') (\<lambda>_.
     ebind (remove_audited (\<lambda>s. audit_config_backup ps (cl_host W s) iid) (config_backup_path ps iid)
              ''legacy-config-backup'') (\<lambda>_.
     ebind (remove_audited (\<lambda>s. audit_config ps (cl_host W s) iid) (config_path ps iid) ''legacy-config'') (\<lambda>_.
     remove_state W ps iid))))"

definition retire_legacy_units :: "cleanup_world \<Rightarrow> manager_paths \<Rightarrow> string \<Rightarrow> unit cm" where
  "retire_legacy_units W ps iid =
     (let mcp = mcp_unit_name iid; tunnel = tunnel_unit_name iid in
      ebind (verify_unit_fragment W iid mcp (mcp_unit_path ps iid) ''legacy-mcp-unit'') (\<lambda>mcp_facts.
      ebind (verify_unit_fragment W iid tunnel (tunnel_unit_path ps iid) ''legacy-tunnel-unit'') (\<lambda>tunnel_facts.
      eseq (stop_if_up W tunnel tunnel_facts ''failed to stop legacy tunnel unit'')
      (eseq (stop_if_up W mcp mcp_facts ''failed to stop legacy MCP unit'')
        (each_e (disable_if_enabled W) [(tunnel, tunnel_facts), (mcp, mcp_facts)])))))"

section \<open>The command\<close>

definition ops_json :: "(string \<times> string) list \<Rightarrow> json" where
  "ops_json ops = JArr (map (\<lambda>(op, t). JObj [(''operation'', JStr op), (''target'', JStr t)]) ops)"

definition cleanup_result :: "string \<Rightarrow> (string \<times> string) list \<Rightarrow> candidate \<Rightarrow> candidate \<Rightarrow> json" where
  "cleanup_result iid ops before final =
     JObj [(''ok'', JBool True), (''action'', JStr ''apply''), (''instance_id'', JStr iid),
           (''operations'', ops_json ops), (''before'', candidate_dict before), (''final'', candidate_dict final)]"

definition audited :: "cleanup_world \<Rightarrow> manager_paths \<Rightarrow> registry_state \<Rightarrow> string \<Rightarrow> candidate cm" where
  "audited W ps reg iid = eread (\<lambda>s. managed (audit_one ps reg (cl_host W s) iid))"

definition finish_cleanup :: "cleanup_world \<Rightarrow> manager_paths \<Rightarrow> registry_state \<Rightarrow> string \<Rightarrow> candidate \<Rightarrow> json cm" where
  "finish_cleanup W ps reg iid before =
     ebind (audited W ps reg iid) (\<lambda>final.
       if ca_state final \<noteq> Clean then
         (\<lambda>s. eraise (changed_conflict ''legacy cleanup did not converge to clean state''
            [(''instance_id'', JStr iid), (''final'', candidate_dict final), (''operations'', ops_json (cl_ops s))]) s)
       else (\<lambda>s. ereturn (cleanup_result iid (cl_ops s) before final) s))"

definition cleanup_apply :: "cleanup_world \<Rightarrow> manager_paths \<Rightarrow> registry_state \<Rightarrow> string \<Rightarrow> json cm" where
  "cleanup_apply W ps reg target =
     ebind (eread (\<lambda>_. managed (instance_id_of target))) (\<lambda>iid.
     ebind (audited W ps reg iid) (\<lambda>before.
     if ca_state before = Clean then ereturn (cleanup_result iid [] before before)
     else if ca_state before \<noteq> Removable then
       eraise (changed_conflict ''legacy cleanup target is not safely removable''
         [(''instance_id'', JStr iid), (''audit'', candidate_dict before)])
     else
       eseq (emodify (\<lambda>s. s\<lparr>cl_ops := []\<rparr>))
       (eseq (retire_legacy_units W ps iid)
       (eseq (remove_units W ps iid)
       (eseq (remove_files W ps iid) (finish_cleanup W ps reg iid before))))))"

end
