(* ===== verification/Cleanup_Props.thy ===== *)
theory Cleanup_Props
  imports Cleanup_Apply
begin

text \<open>
  What the removal of an old installation may do: run commands, and remove entries that at that
  moment carry the evidence of the installation. Done twice it does nothing more.
\<close>

section \<open>The specification\<close>

definition is_legacy :: "audit \<Rightarrow> bool" where
  "is_legacy a \<longleftrightarrow> au_owner a = OwnLegacy"

definition removable_entry :: "manager_paths \<Rightarrow> string \<Rightarrow> host \<Rightarrow> fs \<Rightarrow> ppath \<Rightarrow> bool" where
  "removable_entry ps iid h fs p \<longleftrightarrow>
     p = config_path ps iid \<and> is_legacy (audit_config ps h iid) \<or>
     p = config_backup_path ps iid \<and> is_legacy (audit_config_backup ps h iid) \<or>
     p = legacy_launcher_path ps iid \<and> is_legacy (audit_launcher ps h iid) \<or>
     p \<in> {legacy_profile_path ps iid, mcp_unit_path ps iid, tunnel_unit_path ps iid} \<and>
       is_legacy (audit_marked_file h iid p []) \<or>
     p \<in> path_div (mcp_dropin_dir ps iid) ` set known_dropins \<and> fst (audit_mcp_dropin_file ps h iid p) = OwnLegacy \<or>
     p \<in> path_div (legacy_state_path ps iid) ` set known_state_files \<and> (\<exists>m c. x_lookup fs p = Some (EFile m c)) \<or>
     p \<in> {mcp_dropin_dir ps iid, legacy_state_path ps iid} \<and> (\<exists>m. x_lookup fs p = Some (EDir m)) \<and> x_children fs p = []"

inductive cleanup_step :: "cleanup_world \<Rightarrow> manager_paths \<Rightarrow> string \<Rightarrow> machine \<Rightarrow> machine \<Rightarrow> bool"
  for W ps iid where
    command: "cleanup_step W ps iid m (snd (cw_run W argv m))"
  | removal: "removable_entry ps iid (host_of (cw_view W) m) (mc_fs m) p \<Longrightarrow>
      cleanup_step W ps iid m (m\<lparr>mc_fs := x_delete p (mc_fs m)\<rparr>)"

definition permitted :: "cleanup_world \<Rightarrow> manager_paths \<Rightarrow> string \<Rightarrow> cleaner \<Rightarrow> cleaner \<Rightarrow> bool" where
  "permitted W ps iid s s' \<longleftrightarrow> (cleanup_step W ps iid)\<^sup>*\<^sup>* (cl_mc s) (cl_mc s')"

interpretation permit: state_order "permitted W ps iid" for W ps iid
  by unfold_locales (auto simp: permitted_def)

section \<open>Commands\<close>

lemma permit_run: "keeps (permitted W ps iid) (on_cl (cl_run W argv))"
proof (rule keepsI)
  fix s r s' assume "on_cl (cl_run W argv) s = (r, s')"
  then have "cl_mc s' = snd (cw_run W argv (cl_mc s))"
    by (auto simp: on_cl_def cl_run_def split: prod.splits proc_result.splits)
  then show "permitted W ps iid s s'"
    using cleanup_step.command [of W ps iid "cl_mc s" argv] by (simp add: permitted_def)
qed

lemma permit_note: "keeps (permitted W ps iid) (note_op op t)"
  by (auto simp: keeps_def note_op_def emodify_def permitted_def)

lemma permit_systemctl: "keeps (permitted W ps iid) (user_systemctl W args failure)"
  unfolding user_systemctl_def case_prod_beta by (intro permit.keeps_rules permit_run)

lemma on_cl_bind: "on_cl (ebind c f) s = ebind (on_cl c) (\<lambda>x. on_cl (f x)) s"
  by (auto simp: on_cl_def ebind_def split: prod.splits sum.splits)

lemma permit_observation: "keeps (permitted W ps iid) (on_cl (systemd_observation W unit))"
proof -
  have "keeps (permitted W ps iid) (ebind (on_cl (cl_run W argv)) (\<lambda>x. on_cl (ereturn (f (snd x)))))"
    for argv and f :: "string \<Rightarrow> unit_facts"
    by (intro permit.keeps_bind permit_run) (auto simp: keeps_def on_cl_def ereturn_def permit.refl)
  then show ?thesis
    unfolding systemd_observation_def keeps_def on_cl_bind by (simp add: case_prod_beta)
qed

lemma permit_verify: "keeps (permitted W ps iid) (verify_unit_fragment W iid' unit expected kind)"
  unfolding verify_unit_fragment_def Let_def by (intro permit.keeps_rules permit_observation)

lemma permit_retire: "keeps (permitted W ps iid) (retire_legacy_units W ps iid)"
  unfolding retire_legacy_units_def stop_if_up_def disable_if_enabled_def Let_def
  by (intro permit.keeps_rules permit_verify permit_systemctl permit_note)

section \<open>Removals\<close>

lemma permit_delete:
  assumes "removable_entry ps iid (cl_host W s) (mc_fs (cl_mc s)) p"
    and "on_cl (m_change p (x_delete p)) s = (r, s')"
  shows "permitted W ps iid s s'"
proof -
  from assms(2) have "cl_mc s' = cl_mc s \<or> cl_mc s' = (cl_mc s)\<lparr>mc_fs := x_delete p (mc_fs (cl_mc s))\<rparr>"
    by (auto simp: on_cl_def m_change_def m_fs_def emodify_def split: if_splits prod.splits)
  with assms(1) show ?thesis
    using cleanup_step.removal [of ps iid W "cl_mc s" p] by (auto simp: permitted_def cl_host_def)
qed

lemma permit_same: "cl_mc s' = cl_mc s \<Longrightarrow> permitted W ps iid s s'"
  by (simp add: permitted_def)

lemma permit_unlink:
  assumes "removable_entry ps iid (cl_host W s) (mc_fs (cl_mc s)) p" and "on_cl (m_unlink p) s = (r, s')"
  shows "permitted W ps iid s s'"
proof (cases "cl_mc s' = cl_mc s")
  case False
  with assms(2) have "on_cl (m_change p (x_delete p)) s = (r, s')"
    by (auto simp: on_cl_def m_unlink_def split: option.splits entry.splits)
  with assms(1) show ?thesis by (rule permit_delete)
qed (rule permit_same)

lemma permit_unlink_noted:
  assumes "removable_entry ps iid (cl_host W s) (mc_fs (cl_mc s)) p" and "unlink_noted p s = (r, s')"
  shows "permitted W ps iid s s'"
  using assms(2) unfolding unlink_noted_def eseq_def
  by (cases rule: ebind_cases) (auto intro: permit_unlink [OF assms(1)] permit.trans keepsD [OF permit_note])

lemma permit_rmdir:
  assumes "p \<in> {mcp_dropin_dir ps iid, legacy_state_path ps iid}"
  shows "keeps (permitted W ps iid) (rmdir_noted p)"
proof -
  have "permitted W ps iid s s'" if run: "on_cl (m_rmdir p) s = (r, s')" for s r s'
  proof (cases "cl_mc s' = cl_mc s")
    case False
    with run have "on_cl (m_change p (x_delete p)) s = (r, s')"
      and "x_children (mc_fs (cl_mc s)) p = []" and "\<exists>k. x_lookup (mc_fs (cl_mc s)) p = Some (EDir k)"
      by (auto simp: on_cl_def m_rmdir_def split: option.splits entry.splits if_splits)
    then show ?thesis using assms by (intro permit_delete) (auto simp: removable_entry_def)
  qed (rule permit_same)
  then show ?thesis
    unfolding rmdir_noted_def by (intro permit.keeps_seq permit_note) (rule keepsI)
qed

lemma permit_audited:
  assumes "\<And>s. au_owner (auditor s) = OwnLegacy \<Longrightarrow>
      removable_entry ps iid (cl_host W s) (mc_fs (cl_mc s)) p"
  shows "keeps (permitted W ps iid) (remove_audited auditor p kind)"
proof (rule keepsI)
  fix s r s' assume run: "remove_audited auditor p kind s = (r, s')"
  show "permitted W ps iid s s'"
  proof (cases "au_owner (auditor s) = OwnLegacy")
    case True
    with run have "eseq (unlink_noted p) (ereturn True) s = (r, s')"
      by (simp add: remove_audited_def ebind_def eread_def)
    then obtain q where "unlink_noted p s = (q, s')"
      by (auto simp: eseq_def ereturn_def elim!: ebind_cases)
    with assms [OF True] show ?thesis by (rule permit_unlink_noted)
  next
    case False
    with run have "cl_mc s' = cl_mc s"
      by (auto simp: remove_audited_def ebind_def eread_def ereturn_def eraise_def split: if_splits)
    then show ?thesis by (rule permit_same)
  qed
qed

text \<open>The kind a marked file is reported under plays no part in the judgement.\<close>

lemma marked_kind: "au_owner (audit_marked_file h iid p kind) = au_owner (audit_marked_file h iid p [])"
  by (simp add: audit_marked_file_def audit_text_def audit_of_def)

lemma permit_marked:
  assumes "p \<in> {legacy_profile_path ps iid, mcp_unit_path ps iid, tunnel_unit_path ps iid}"
  shows "keeps (permitted W ps iid) (remove_marked W iid p kind)"
  unfolding remove_marked_def using assms
  by (intro permit_audited) (auto simp: removable_entry_def is_legacy_def marked_kind [of _ _ _ kind])

section \<open>Directories\<close>

lemma judged_dropins: "fst (judge_dropins ps h iid ns) = OwnLegacy \<Longrightarrow> set ns \<subseteq> set known_dropins"
  by (induction ns) (auto split: if_splits prod.splits ownership.splits)

lemma judged_state:
  "fst (judge_state h p ns) = OwnLegacy \<Longrightarrow>
    list_all (\<lambda>n. n \<in> set known_state_files \<and> (\<exists>k. h_lstat h (path_div p n) = StatOk T_REG k)) ns"
  by (induction ns) (auto split: if_splits stat_result.splits file_type.splits)

lemma entries_of_host:
  "h_entries (cl_host W s) p = (if x_is_dir (mc_fs (cl_mc s)) p then Some (x_children (mc_fs (cl_mc s)) p) else None)"
  by (simp add: cl_host_def host_of_def)

lemma legacy_dropin_names:
  assumes "au_owner (audit_mcp_dropins ps (cl_host W s) iid) = OwnLegacy"
    and "on_cl (m_iterdir (mcp_dropin_dir ps iid)) s = (Inr names, t)"
  shows "t = s \<and> set names \<subseteq> set known_dropins"
proof -
  from assms(2) have names: "t = s \<and> names = x_children (mc_fs (cl_mc s)) (mcp_dropin_dir ps iid)"
    by (auto simp: on_cl_def m_iterdir_def split: option.splits entry.splits)
  from assms(1) obtain ns where "h_entries (cl_host W s) (mcp_dropin_dir ps iid) = Some ns"
    and "fst (judge_dropins ps (cl_host W s) iid (sort_by id ns)) = OwnLegacy"
    by (auto simp: audit_mcp_dropins_def audit_of_def Let_def
        split: stat_result.splits file_type.splits option.splits list.splits)
  with names show ?thesis
    using judged_dropins [of ps "cl_host W s" iid "sort_by id ns"]
    by (auto simp: entries_of_host split: if_splits)
qed

lemma permit_dropin:
  assumes "name \<in> set known_dropins"
  shows "keeps (permitted W ps iid) (remove_dropin W ps iid name)"
proof (rule keepsI)
  fix s r s' assume run: "remove_dropin W ps iid name s = (r, s')"
  let ?a = "audit_mcp_dropin_file ps (cl_host W s) iid (path_div (mcp_dropin_dir ps iid) name)"
  show "permitted W ps iid s s'"
  proof (cases "fst ?a = OwnLegacy")
    case True
    with run have "unlink_noted (path_div (mcp_dropin_dir ps iid) name) s = (r, s')"
      by (simp add: remove_dropin_def ebind_def eread_def Let_def case_prod_beta)
    with True assms show ?thesis by (intro permit_unlink_noted) (auto simp: removable_entry_def)
  next
    case False
    with run show ?thesis
      by (intro permit_same) (simp add: remove_dropin_def ebind_def eread_def eraise_def Let_def case_prod_beta)
  qed
qed

lemma permit_dropins: "keeps (permitted W ps iid) (remove_dropins W ps iid)"
proof (rule keepsI)
  fix s r s' assume run: "remove_dropins W ps iid s = (r, s')"
  let ?d = "mcp_dropin_dir ps iid"
  show "permitted W ps iid s s'"
  proof (cases "au_owner (audit_mcp_dropins ps (cl_host W s) iid) = OwnLegacy")
    case True
    with run have "ebind (on_cl (m_iterdir ?d)) (\<lambda>names. eseq (each_e (remove_dropin W ps iid) (sort_by id names))
        (eseq (rmdir_noted ?d) (ereturn True))) s = (r, s')"
      by (simp add: remove_dropins_def ebind_def [of "eread _"] eread_def)
    then show ?thesis
    proof (cases rule: ebind_cases)
      case (raised e)
      then show ?thesis
        by (intro permit_same) (auto simp: on_cl_def m_iterdir_def split: option.splits entry.splits)
    next
      case (went_on names t)
      with True legacy_dropin_names have "t = s" and "set (sort_by id names) \<subseteq> set known_dropins"
        by fastforce+
      then have "keeps (permitted W ps iid) (eseq (each_e (remove_dropin W ps iid) (sort_by id names))
          (eseq (rmdir_noted ?d) (ereturn True)))"
        by (intro permit.keeps_rules permit_dropin permit_rmdir) auto
      with went_on \<open>t = s\<close> show ?thesis by (blast dest: keepsD)
    qed
  next
    case False
    with run show ?thesis
      by (intro permit_same)
        (auto simp: remove_dropins_def ebind_def eread_def eraise_def ereturn_def split: if_splits)
  qed
qed

text \<open>While the logs are removed, what is left of them are regular files.\<close>

definition only_logs :: "ppath \<Rightarrow> string list \<Rightarrow> cleaner \<Rightarrow> bool" where
  "only_logs p ns s \<longleftrightarrow>
     (\<forall>n\<in>set ns. x_lookup (mc_fs (cl_mc s)) (path_div p n) = None \<or>
        (\<exists>m c. x_lookup (mc_fs (cl_mc s)) (path_div p n) = Some (EFile m c)))"

lemma permit_log:
  assumes "n \<in> set known_state_files" and "only_logs (legacy_state_path ps iid) (n # ns) s"
    and run: "unlink_noted (path_div (legacy_state_path ps iid) n) s = (r, s')"
  shows "permitted W ps iid s s' \<and> only_logs (legacy_state_path ps iid) ns s'"
proof
  let ?p = "path_div (legacy_state_path ps iid) n"
  show "permitted W ps iid s s'"
  proof (cases "x_lookup (mc_fs (cl_mc s)) ?p")
    case None
    with run show ?thesis
      by (intro permit_same) (auto simp: unlink_noted_def eseq_def ebind_def on_cl_def m_unlink_def)
  next
    case (Some e)
    with assms have "removable_entry ps iid (cl_host W s) (mc_fs (cl_mc s)) ?p"
      by (auto simp: removable_entry_def only_logs_def)
    then show ?thesis using run by (rule permit_unlink_noted)
  qed
  have "mc_fs (cl_mc s') = mc_fs (cl_mc s) \<or> mc_fs (cl_mc s') = x_delete ?p (mc_fs (cl_mc s))"
    using run
    by (auto simp: unlink_noted_def eseq_def ebind_def on_cl_def m_unlink_def m_change_def m_fs_def emodify_def
        note_op_def split: option.splits entry.splits if_splits prod.splits sum.splits)
  moreover have "map_of (x_delete ?p fs) q = (if q = ?p then None else map_of fs q)" for q and fs :: fs
    by (induction fs) (auto simp: x_delete_def)
  then have "x_lookup (x_delete ?p fs) q = x_lookup fs q \<or> x_lookup (x_delete ?p fs) q = None" for q and fs :: fs
    by (simp add: x_lookup_def)
  ultimately show "only_logs (legacy_state_path ps iid) ns s'"
    using assms(2) unfolding only_logs_def by (metis list.set_intros(2))
qed

lemma permit_logs:
  assumes "set ns \<subseteq> set known_state_files" and "only_logs (legacy_state_path ps iid) ns s"
    and "each_e (\<lambda>n. unlink_noted (path_div (legacy_state_path ps iid) n)) ns s = (r, s')"
  shows "permitted W ps iid s s'"
  using assms
proof (induction ns arbitrary: s)
  case Nil
  then show ?case by (simp add: ereturn_def permit_same)
next
  case (Cons n ns)
  from Cons.prems(3) show ?case unfolding each_e.simps
  proof (cases rule: ebind_cases)
    case (raised e)
    with Cons.prems permit_log show ?thesis by (metis list.set_intros(1) subsetD)
  next
    case (went_on x t)
    with Cons.prems permit_log [of n ps iid ns s _ t W]
    have "permitted W ps iid s t" and "only_logs (legacy_state_path ps iid) ns t" by auto
    moreover from this Cons.prems(1) went_on(2) have "permitted W ps iid t s'" by (intro Cons.IH) auto
    ultimately show ?thesis by (blast intro: permit.trans)
  qed
qed

lemma legacy_log_names:
  assumes "au_owner (audit_state ps (cl_host W s) iid) = OwnLegacy"
    and "on_cl (m_iterdir (legacy_state_path ps iid)) s = (Inr names, t)"
  shows "t = s \<and> set names \<subseteq> set known_state_files \<and> only_logs (legacy_state_path ps iid) names s"
proof -
  let ?p = "legacy_state_path ps iid"
  from assms(2) have names: "t = s \<and> names = x_children (mc_fs (cl_mc s)) ?p"
    by (auto simp: on_cl_def m_iterdir_def split: option.splits entry.splits)
  from assms(1) obtain ns where "h_entries (cl_host W s) ?p = Some ns"
    and "fst (judge_state (cl_host W s) ?p ns) = OwnLegacy"
    by (auto simp: audit_state_def audit_of_def Let_def
        split: stat_result.splits file_type.splits option.splits)
  with names have "list_all (\<lambda>n. n \<in> set known_state_files \<and>
      (\<exists>k. h_lstat (cl_host W s) (path_div ?p n) = StatOk T_REG k)) names"
    using judged_state [of "cl_host W s" ?p ns] by (auto simp: entries_of_host split: if_splits)
  moreover have "h_lstat (cl_host W s) q = StatOk T_REG k \<Longrightarrow> \<exists>m c. x_lookup (mc_fs (cl_mc s)) q = Some (EFile m c)"
    for q k by (auto simp: cl_host_def host_of_def x_stat_def split: option.splits entry.splits)
  ultimately show ?thesis using names by (auto simp: only_logs_def list_all_iff)
qed

lemma permit_state: "keeps (permitted W ps iid) (remove_state W ps iid)"
proof (rule keepsI)
  fix s r s' assume run: "remove_state W ps iid s = (r, s')"
  let ?p = "legacy_state_path ps iid" and ?un = "\<lambda>n. unlink_noted (path_div (legacy_state_path ps iid) n)"
  show "permitted W ps iid s s'"
  proof (cases "au_owner (audit_state ps (cl_host W s) iid) = OwnLegacy")
    case True
    with run have "ebind (on_cl (m_iterdir ?p))
        (\<lambda>names. eseq (each_e ?un (sort_by id names)) (rmdir_noted ?p)) s = (r, s')"
      by (simp add: remove_state_def ebind_def [of "eread _"] eread_def Let_def)
    then show ?thesis
    proof (cases rule: ebind_cases)
      case (raised e)
      then show ?thesis
        by (intro permit_same) (auto simp: on_cl_def m_iterdir_def split: option.splits entry.splits)
    next
      case (went_on names t)
      with True legacy_log_names have t: "t = s" and known: "set (sort_by id names) \<subseteq> set known_state_files"
        and logs: "only_logs ?p (sort_by id names) s"
        by (fastforce simp: only_logs_def)+
      have removing: "permitted W ps iid s u" if "each_e ?un (sort_by id names) s = (q, u)" for q u
        using known logs that by (rule permit_logs)
      have last: "keeps (permitted W ps iid) (rmdir_noted ?p)" by (rule permit_rmdir) simp
      from went_on(2) [unfolded t eseq_def] show ?thesis
      proof (cases rule: ebind_cases)
        case (raised e)
        then show ?thesis by (blast intro: removing)
      next
        case (went_on x u)
        with removing last show ?thesis by (blast dest: keepsD intro: permit.trans)
      qed
    qed
  next
    case False
    with run show ?thesis
      by (intro permit_same)
        (auto simp: remove_state_def ebind_def eread_def eraise_def ereturn_def Let_def split: if_splits)
  qed
qed

section \<open>The command\<close>

lemma permit_units: "keeps (permitted W ps iid) (remove_units W ps iid)"
  unfolding remove_units_def
  by (intro permit.keeps_rules permit_dropins permit_marked permit_systemctl permit_note) auto

lemma permit_files: "keeps (permitted W ps iid) (remove_files W ps iid)"
  unfolding remove_files_def
  by (intro permit.keeps_rules permit_marked permit_audited permit_state)
    (auto simp: removable_entry_def is_legacy_def)

lemma permit_finish: "keeps (permitted W ps iid) (finish_cleanup W ps reg iid before)"
  unfolding finish_cleanup_def audited_def
  by (intro permit.keeps_rules) (auto simp: keeps_def eraise_def ereturn_def permit.refl)

lemma permit_apply: "keeps (permitted W ps target) (cleanup_apply W ps reg target)"
proof (cases "instance_id_of target")
  case (Inl e)
  then show ?thesis
    by (auto simp: cleanup_apply_def keeps_def ebind_def eread_def managed_def permit.refl)
next
  case (Inr iid)
  then have "iid = target" by (auto simp: instance_id_of_def require_def split: if_splits)
  with Inr have "cleanup_apply W ps reg target =
      ebind (audited W ps reg target) (\<lambda>before.
        if ca_state before = Clean then ereturn (cleanup_result target [] before before)
        else if ca_state before \<noteq> Removable then
          eraise (changed_conflict ''legacy cleanup target is not safely removable''
            [(''instance_id'', JStr target), (''audit'', candidate_dict before)])
        else
          eseq (emodify (\<lambda>s. s\<lparr>cl_ops := []\<rparr>))
          (eseq (retire_legacy_units W ps target)
          (eseq (remove_units W ps target)
          (eseq (remove_files W ps target) (finish_cleanup W ps reg target before)))))"
    by (simp add: cleanup_apply_def fun_eq_iff ebind_def [of "eread _"] eread_def managed_def)
  moreover have "keeps (permitted W ps target) (emodify (\<lambda>s. s\<lparr>cl_ops := []\<rparr>))"
    by (intro permit.keeps_modify permit_same) simp
  ultimately show ?thesis
    by (simp only:, unfold audited_def)
      (intro permit.keeps_rules permit_retire permit_units permit_files permit_finish)
qed

text \<open>C8:
  Removing an old installation only removes what is evidently its own. Whatever the command does,
  also when it stops with an error at any point, the machine it leaves is reached by steps of two
  kinds: a command run, or the removal of one entry that, at the moment it is removed, carries the
  evidence of the target's old installation (an audited configuration, launcher, profile, unit or
  drop-in, a known log that is a regular file, or a directory of it that is empty by then).
\<close>
theorem cleanup_removes_owned_only:
  "case cleanup_apply W ps reg target s of (r, s') \<Rightarrow> (cleanup_step W ps target)\<^sup>*\<^sup>* (cl_mc s) (cl_mc s')"
  using keepsD [OF permit_apply] by (auto simp: permitted_def split: prod.splits)

section \<open>Done twice\<close>

lemma clean_owners:
  assumes "audit_one ps reg h iid = Inr c" and "ca_state c = Clean"
  shows "list_all (\<lambda>a. au_owner a = OwnAbsent) (audits ps h iid)"
proof -
  from assms have "OwnForeign \<notin> set (map au_owner (audits ps h iid)) \<and>
      OwnUnsafe \<notin> set (map au_owner (audits ps h iid)) \<and> OwnLegacy \<notin> set (map au_owner (audits ps h iid))"
    by (cases "list_instances reg True") (auto simp: audit_one_def Let_def split: if_splits)
  then show ?thesis unfolding list_all_iff by (metis (full_types) imageI list.set_map ownership.exhaust)
qed

lemma finished_clean:
  assumes "cleanup_apply W ps reg target s = (Inr j, s')"
  shows "instance_id_of target = Inr target \<and> (\<exists>c. audit_one ps reg (cl_host W s') target = Inr c \<and> ca_state c = Clean)"
proof -
  have "instance_id_of target = Inr iid \<Longrightarrow> iid = target" for iid
    by (auto simp: instance_id_of_def require_def split: if_splits)
  with assms show ?thesis
    by (auto simp: cleanup_apply_def em_Inr finish_cleanup_def audited_def managed_def ereturn_def eraise_def
        split: if_splits sum.splits)
qed

text \<open>C20:
  A removal that reports success is complete and needs no repeat: none of the target's eight
  resources is on the host any more, and the same command run again reports a clean target with no
  operation and leaves the machine as it is, without running any command.
\<close>
theorem cleanup_is_complete:
  "case cleanup_apply W ps reg target s of
     (Inl e, s') \<Rightarrow> True
   | (Inr j, s') \<Rightarrow>
       list_all (\<lambda>a. au_owner a = OwnAbsent) (audits ps (cl_host W s') target) \<and>
       (\<exists>c. ca_state c = Clean \<and> cleanup_apply W ps reg target s' = (Inr (cleanup_result target [] c c), s'))"
proof (cases "cleanup_apply W ps reg target s")
  case (Pair r s')
  show ?thesis
  proof (cases r)
    case (Inr j)
    with Pair finished_clean obtain c where "instance_id_of target = Inr target"
      and "audit_one ps reg (cl_host W s') target = Inr c" and "ca_state c = Clean" by blast
    with Pair Inr clean_owners show ?thesis
      by (auto simp: cleanup_apply_def [of W ps reg target] ebind_def [of "eread _"] eread_def managed_def audited_def
          ereturn_def)
  qed (simp add: Pair)
qed

end
