(* ===== verification/Access_Manager.thy ===== *)
theory Access_Manager
  imports Registry_Props Generation
begin

text \<open>
  The access commands (access.py, \<open>AccessManager\<close>): list, add, remove and update the folders an
  instance may use, by editing the document of its declaration, parsing it again and updating the
  registry. Each command holds the instance's lock for its whole run, so it is one transition of the
  registry; making the lock file is taken to succeed, as in the registry.
\<close>

section \<open>Aliases\<close>

definition normalized_text :: "string \<Rightarrow> string res" where
  "normalized_text alias =
     require (alias \<noteq> [] \<and> list_all (\<lambda>c. c \<notin> {CHR 0x00, CHR 0x0A, CHR 0x0D}) alias)
       (config_error ''access alias must be a non-empty single-line string'' [])
     (require (access_alias_re alias)
       (config_error ''access alias must use letters, digits, and single hyphens or underscores'' [])
       (Inr (replace_char CHR ''-'' ''_'' (lower_string alias))))"

section \<open>The document a command answers\<close>

definition folder_entries :: "desired_instance \<Rightarrow> (string \<times> access_folder) list" where
  "folder_entries d = concat (map (\<lambda>(mode, fs). map (\<lambda>f. (mode, f)) fs) (access_groups (di_access d)))"

definition entry_doc :: "desired_instance \<Rightarrow> string \<times> access_folder \<Rightarrow> json" where
  "entry_doc d mf =
     JObj [(''alias'', JStr (af_alias (snd mf))), (''mode'', JStr (fst mf)), (''path'', JStr (af_path (snd mf))),
           (''mount_path'', JStr (path_str (path_div (access_root d) (af_alias (snd mf)))))]"

text \<open>Sorted by normalized alias, then mode, then path: three stable sorts, the last key first.\<close>

definition sorted_entries :: "(string \<times> string \<times> access_folder) list \<Rightarrow> (string \<times> string \<times> access_folder) list" where
  "sorted_entries es = sort_by fst (sort_by (fst \<circ> snd) (sort_by (af_path \<circ> snd \<circ> snd) es))"

definition access_payload :: "(string \<Rightarrow> string) \<Rightarrow> desired_instance \<Rightarrow> string \<Rightarrow> bool \<Rightarrow> (string \<times> json) list res" where
  "access_payload H d action apply_required =
     rbind (traverse (\<lambda>mf. rbind (normalized_text (af_alias (snd mf))) (\<lambda>n. Inr (n, mf))) (folder_entries d)) (\<lambda>es.
     Inr [(''ok'', JBool True), (''action'', JStr action), (''instance_id'', JStr (di_id d)),
          (''desired_fingerprint'', JStr (fingerprint H d)), (''access_root'', JStr (path_str (access_root d))),
          (''entries'', JArr (map (entry_doc d \<circ> snd) (sorted_entries es))),
          (''apply_required'', JBool apply_required)])"

definition access_list :: "(string \<Rightarrow> string) \<Rightarrow> registry_state \<Rightarrow> string \<Rightarrow> json res" where
  "access_list H s iid =
     rbind (get s iid) (\<lambda>d. rbind (access_payload H d ''list'' False) (\<lambda>doc. Inr (JObj doc)))"

section \<open>Editing the declaration's document\<close>

definition group_items :: "json \<Rightarrow> string \<Rightarrow> json list" where
  "group_items acc key = (case jget acc key of Some (JArr xs) \<Rightarrow> xs | _ \<Rightarrow> [])"

definition set_item :: "json \<Rightarrow> string \<Rightarrow> json \<Rightarrow> json" where
  "set_item v key x = (case v of JObj kvs \<Rightarrow> JObj (dict_set key x kvs) | _ \<Rightarrow> v)"

definition append_item :: "json \<Rightarrow> string \<Rightarrow> json \<Rightarrow> json" where
  "append_item acc key x = set_item acc key (JArr (group_items acc key @ [x]))"

definition folder_item :: "string \<Rightarrow> string \<Rightarrow> json" where
  "folder_item alias path = JObj [(''alias'', JStr alias), (''path'', JStr path)]"

text \<open>The items of a group without those of the alias, and the last folder that had it.\<close>

fun split_items :: "string \<Rightarrow> string \<Rightarrow> json list \<Rightarrow> (json list \<times> access_folder option) res" where
  "split_items n field [] = Inr ([], None)"
| "split_items n field (x # xs) =
     rbind (access_folder_of x field) (\<lambda>f.
     rbind (split_items n field xs) (\<lambda>(keep, hit).
       Inr (if normalized_alias f = n then (keep, Some (case hit of None \<Rightarrow> f | Some g \<Rightarrow> g)) else (x # keep, hit))))"

type_synonym removed_folder = "(string \<times> access_folder) option"

fun take_out :: "string \<Rightarrow> (string \<times> string) list \<Rightarrow> json \<Rightarrow> removed_folder \<Rightarrow> (json \<times> removed_folder) res" where
  "take_out n [] acc previous = Inr (acc, previous)"
| "take_out n ((mode, key) # ms) acc previous =
     rbind (split_items n (''access.'' @ key) (group_items acc key)) (\<lambda>(keep, hit).
       take_out n ms (set_item acc key (JArr keep))
         (case hit of None \<Rightarrow> previous | Some f \<Rightarrow> Some (mode, f)))"

definition removed_doc :: "string \<times> access_folder \<Rightarrow> json" where
  "removed_doc mf =
     JObj [(''alias'', JStr (af_alias (snd mf))), (''mode'', JStr (fst mf)), (''path'', JStr (af_path (snd mf)))]"

definition drop_item :: "string \<Rightarrow> string \<Rightarrow> json \<Rightarrow> (json \<times> (string \<times> access_folder)) res" where
  "drop_item alias n raw =
     rbind (take_out n access_modes (jitem raw ''access'') None) (\<lambda>(acc, hit).
       case hit of
         None \<Rightarrow> Inl (config_error ''access alias is not configured'' [(''alias'', JStr alias)])
       | Some mf \<Rightarrow> Inr (set_item raw ''access'' acc, mf))"

section \<open>The commands\<close>

definition require_expected :: "(string \<Rightarrow> string) \<Rightarrow> desired_instance \<Rightarrow> string option \<Rightarrow> unit res" where
  "require_expected H d expected =
     (case expected of
        None \<Rightarrow> Inr ()
      | Some f \<Rightarrow>
          require (fingerprint H d = f)
            (ManagerError STALE_STATE (''stale access state for '' @ di_id d)
               [(''instance_id'', JStr (di_id d)), (''expected_current_fingerprint'', JStr f),
                (''current_fingerprint'', JStr (fingerprint H d))]) (Inr ()))"

definition opened_declaration :: "(string \<Rightarrow> string) \<Rightarrow> registry_state \<Rightarrow> string \<Rightarrow> string option \<Rightarrow> desired_instance res" where
  "opened_declaration H s iid expected =
     rbind (get s iid) (\<lambda>d. rbind (require_expected H d expected) (\<lambda>_. Inr d))"

text \<open>The edited document becomes the declaration if it parses and nobody changed it meanwhile.\<close>

definition commit_document ::
  "(string \<Rightarrow> string) \<Rightarrow> bool \<Rightarrow> registry_state \<Rightarrow> desired_instance \<Rightarrow> json \<Rightarrow> desired_instance res \<times> registry_state" where
  "commit_document H w s d raw =
     (case from_dict raw of
        Inl e \<Rightarrow> (Inl e, s)
      | Inr u \<Rightarrow>
          (case update H w s u (Some (fingerprint H d)) of
             (Inl e, s') \<Rightarrow> (Inl e, s')
           | (Inr _, s') \<Rightarrow> (Inr u, s')))"

definition answer :: "(string \<Rightarrow> string) \<Rightarrow> string \<Rightarrow> (string \<times> json) list \<Rightarrow> desired_instance res \<times> registry_state \<Rightarrow> json res \<times> registry_state" where
  "answer H action extra r =
     (rbind (fst r) (\<lambda>u. rbind (access_payload H u action True) (\<lambda>doc. Inr (JObj (doc @ extra)))), snd r)"

definition mode_key :: "string \<Rightarrow> string res" where
  "mode_key mode =
     (case map_of access_modes mode of
        Some key \<Rightarrow> Inr key
      | None \<Rightarrow> Inl (config_error (''unsupported access mode: '' @ mode) []))"

definition access_add ::
  "(string \<Rightarrow> string) \<Rightarrow> bool \<Rightarrow> registry_state \<Rightarrow> string \<Rightarrow> string \<Rightarrow> string \<Rightarrow> string \<Rightarrow> string option \<Rightarrow>
     json res \<times> registry_state" where
  "access_add H w s iid mode alias path expected =
     (case rbind (mode_key mode) (\<lambda>key. rbind (opened_declaration H s iid expected) (\<lambda>d. Inr (key, d))) of
        Inl e \<Rightarrow> (Inl e, s)
      | Inr (key, d) \<Rightarrow>
          answer H (''add-'' @ mode) []
            (commit_document H w s d
               (set_item (to_dict d) ''access''
                  (append_item (jitem (to_dict d) ''access'') key (folder_item alias path)))))"

definition access_remove ::
  "(string \<Rightarrow> string) \<Rightarrow> bool \<Rightarrow> registry_state \<Rightarrow> string \<Rightarrow> string \<Rightarrow> string option \<Rightarrow> json res \<times> registry_state" where
  "access_remove H w s iid alias expected =
     (case rbind (normalized_text alias) (\<lambda>n.
           rbind (opened_declaration H s iid expected) (\<lambda>d.
           rbind (drop_item alias n (to_dict d)) (\<lambda>(raw, mf). Inr (d, raw, mf)))) of
        Inl e \<Rightarrow> (Inl e, s)
      | Inr (d, raw, mf) \<Rightarrow>
          answer H ''remove'' [(''removed'', removed_doc mf)] (commit_document H w s d raw))"

definition access_update ::
  "(string \<Rightarrow> string) \<Rightarrow> bool \<Rightarrow> registry_state \<Rightarrow> string \<Rightarrow> string \<Rightarrow> string \<Rightarrow> string \<Rightarrow> string \<Rightarrow> string option \<Rightarrow>
     json res \<times> registry_state" where
  "access_update H w s iid existing mode alias path expected =
     (case rbind (mode_key mode) (\<lambda>key.
           rbind (normalized_text existing) (\<lambda>n.
           rbind (opened_declaration H s iid expected) (\<lambda>d.
           rbind (drop_item existing n (to_dict d)) (\<lambda>(raw, mf). Inr (key, d, raw, mf))))) of
        Inl e \<Rightarrow> (Inl e, s)
      | Inr (key, d, raw, mf) \<Rightarrow>
          answer H ''update''
            [(''previous'', removed_doc mf),
             (''updated'', JObj [(''alias'', JStr alias), (''mode'', JStr mode), (''path'', JStr path)])]
            (commit_document H w s d
               (set_item raw ''access'' (append_item (jitem raw ''access'') key (folder_item alias path)))))"

end
