(* ===== verification/Access_Props.thy ===== *)
theory Access_Props
  imports Access_Manager
begin

text \<open>
  The access commands as operations on declarations: adding a folder to a group, dropping an alias.
  A command that fails leaves the registry as it is; one that succeeds does exactly the operation.
\<close>

section \<open>The specification\<close>

definition in_group :: "string \<Rightarrow> (access_folder list \<Rightarrow> access_folder list) \<Rightarrow> access_config \<Rightarrow> access_config" where
  "in_group mode g a =
     (if mode = ''ro'' then a\<lparr>ac_read_only := g (ac_read_only a)\<rparr>
      else if mode = ''rx'' then a\<lparr>ac_read_execute := g (ac_read_execute a)\<rparr>
      else if mode = ''rw'' then a\<lparr>ac_read_write := g (ac_read_write a)\<rparr>
      else if mode = ''rwx'' then a\<lparr>ac_read_write_execute := g (ac_read_write_execute a)\<rparr> else a)"

definition add_folder :: "string \<Rightarrow> string \<Rightarrow> string \<Rightarrow> desired_instance \<Rightarrow> desired_instance" where
  "add_folder mode alias path d =
     d\<lparr>di_access := in_group mode (\<lambda>fs. fs @ [\<lparr>af_alias = alias, af_path = normpath path\<rparr>]) (di_access d)\<rparr>"

definition without :: "string \<Rightarrow> access_folder list \<Rightarrow> access_folder list" where
  "without n fs = filter (\<lambda>f. normalized_alias f \<noteq> n) fs"

definition drop_alias :: "string \<Rightarrow> desired_instance \<Rightarrow> desired_instance" where
  "drop_alias n d = d\<lparr>di_access :=
     \<lparr>ac_read_only = without n (ac_read_only (di_access d)), ac_read_write = without n (ac_read_write (di_access d)),
      ac_read_execute = without n (ac_read_execute (di_access d)),
      ac_read_write_execute = without n (ac_read_write_execute (di_access d))\<rparr>\<rparr>"

definition alias_key :: "string \<Rightarrow> string" where
  "alias_key alias = replace_char CHR ''-'' ''_'' (lower_string alias)"

section \<open>Parsing an edited document\<close>

lemma jitem_set_item: "jitem (set_item (to_dict d) ''access'' acc) k = (if k = ''access'' then acc else jitem (to_dict d) k)"
  by (simp add: set_item_def to_dict_def map_of_dict_set)

lemma version_set_item:
  "di_version d \<in> {1, 2} \<Longrightarrow> version_of (set_item (to_dict d) ''access'' acc) = Inr (di_version d)"
  by (auto simp: version_of_def to_dict_def supported_versions_def set_item_def)

lemma strict_set_item:
  assumes "di_version d \<in> {1, 2}"
  shows "strict_object (set_item (to_dict d) ''access'' acc) f (instance_required (di_version d)) [] =
    Inr (set_item (to_dict d) ''access'' acc)"
proof -
  have "map fst (the (as_obj (set_item (to_dict d) ''access'' acc))) = instance_required (di_version d)"
    using assms by (auto simp: to_dict_def instance_required_def set_item_def)
  from strict_object_exact [OF this] show ?thesis by (simp add: to_dict_def set_item_def)
qed

lemma replaced_access:
  "d\<lparr>di_access := a\<rparr> =
    \<lparr>di_version = di_version d, di_id = di_id d, di_workspace = di_workspace d, di_lifecycle = di_lifecycle d,
     di_mcp = di_mcp d, di_tunnel = di_tunnel d, di_access = a, di_github = di_github d, di_git = di_git d,
     di_agent = di_agent d, di_recovery = di_recovery d\<rparr>"
  by (cases d) simp

lemma from_dict_set_item:
  assumes "valid_instance d"
  shows "from_dict (set_item (to_dict d) ''access'' acc) =
    rbind (access_of acc (di_workspace d)) (\<lambda>a. Inr (d\<lparr>di_access := a\<rparr>))"
proof -
  note parts = mcp_print tunnel_print github_print lifecycle_print recovery_print
    version_set_item strict_set_item instance_id_of_def jitem_set_item replaced_access
  show ?thesis
  proof (cases "di_version d = 1")
    case True
    then have "strict_object (set_item (to_dict d) ''access'' acc) f (instance_required 1) [] =
        Inr (set_item (to_dict d) ''access'' acc)" for f
      using strict_set_item [of d acc f] by simp
    moreover from True assms have "check_providers git_empty agent_none (di_github d) = Inr ()"
      by (auto simp: valid_instance_def)
    ultimately show ?thesis
      using True assms by (simp add: from_dict_def valid_instance_def parts)
  next
    case False
    with assms have v: "di_version d = 2" by (simp add: valid_instance_def)
    then have "strict_object (set_item (to_dict d) ''access'' acc) f (instance_required 2) [] =
        Inr (set_item (to_dict d) ''access'' acc)" for f
      using strict_set_item [of d acc f] by simp
    with v assms show ?thesis
      by (simp add: from_dict_def valid_instance_def parts git_print agent_print)
  qed
qed

section \<open>Groups of an edited document\<close>

text \<open>The document of the access part has, for every group, no entry or the array of its folders.\<close>

definition tells :: "json \<Rightarrow> access_config \<Rightarrow> bool" where
  "tells acc a \<longleftrightarrow> (\<exists>kvs. acc = JObj kvs) \<and>
     list_all (\<lambda>(key, fs). jget acc key = Some (JArr (map access_folder_dict fs)) \<or> jget acc key = None \<and> fs = [])
       [(''read_only'', ac_read_only a), (''read_execute'', ac_read_execute a), (''read_write'', ac_read_write a),
        (''read_write_execute'', ac_read_write_execute a)]"

lemma tells_dict: "tells (access_dict a) a"
  by (auto simp: tells_def access_dict_def)

lemma jget_set_item: "acc = JObj kvs \<Longrightarrow> jget (set_item acc key x) k = (if k = key then Some x else jget acc k)"
  by (simp add: set_item_def map_of_dict_set)

lemma group_of_told:
  assumes "list_all valid_folder fs"
    and "jget acc key = Some (JArr (map access_folder_dict fs)) \<or> jget acc key = None \<and> fs = []"
  shows "group_items acc key = map access_folder_dict fs \<and> access_group_of acc key = Inr fs"
  using assms by (auto simp: group_items_def group_print group_absent)

lemma access_of_groups:
  assumes "access_of v w = Inr a"
  shows "access_group_of v ''read_only'' = Inr (ac_read_only a)"
    "access_group_of v ''read_execute'' = Inr (ac_read_execute a)"
    "access_group_of v ''read_write'' = Inr (ac_read_write a)"
    "access_group_of v ''read_write_execute'' = Inr (ac_read_write_execute a)"
proof -
  from assms obtain ro rx rw rwx where g: "access_group_of v ''read_only'' = Inr ro"
      "access_group_of v ''read_execute'' = Inr rx" "access_group_of v ''read_write'' = Inr rw"
      "access_group_of v ''read_write_execute'' = Inr rwx"
    and a: "a = \<lparr>ac_read_only = ro, ac_read_write = rw, ac_read_execute = rx, ac_read_write_execute = rwx\<rparr>"
    unfolding access_of_def Let_def res_simps by (elim exE conjE) (auto dest: strict_object_eq)
  from g a show "access_group_of v ''read_only'' = Inr (ac_read_only a)"
    "access_group_of v ''read_execute'' = Inr (ac_read_execute a)"
    "access_group_of v ''read_write'' = Inr (ac_read_write a)"
    "access_group_of v ''read_write_execute'' = Inr (ac_read_write_execute a)" by simp_all
qed

lemma folder_item_parsed:
  "access_folder_of (folder_item alias path) f = Inr g \<Longrightarrow> g = \<lparr>af_alias = alias, af_path = normpath path\<rparr>"
  by (auto simp: access_folder_of_def folder_item_def strict_object_exact res_simps nonempty_string_eq absolute_path_def)

lemma traverse_snoc:
  "traverse f (xs @ [x]) = rbind (traverse f xs) (\<lambda>ys. rbind (f x) (\<lambda>y. Inr (ys @ [y])))"
  by (induction xs) (auto simp: rbind_def split: sum.splits)

lemma indexed_snoc: "indexed (xs @ [x]) = indexed xs @ [(length xs, x)]"
  by (simp add: indexed_def zip_append)

lemma group_of_appended:
  assumes "list_all valid_folder fs" and "jget acc key = Some (JArr (map access_folder_dict fs @ [folder_item alias path]))"
    and "access_group_of acc key = Inr gs"
  shows "gs = fs @ [\<lparr>af_alias = alias, af_path = normpath path\<rparr>]"
proof -
  have "traverse (\<lambda>(i, x). access_folder_of x (indexed_field (''access.'' @ key) i)) (indexed (map access_folder_dict fs)) = Inr fs"
    using assms(1) by (intro traverse_indexed_print) (simp add: list_all_iff folder_print)
  with assms(2,3) show ?thesis
    by (auto simp: access_group_of_def array_of_def indexed_snoc traverse_snoc res_simps dest: folder_item_parsed)
qed


section \<open>Adding\<close>

lemma groups_valid:
  assumes "valid_access a w"
  shows "list_all valid_folder (ac_read_only a)" "list_all valid_folder (ac_read_execute a)"
    "list_all valid_folder (ac_read_write a)" "list_all valid_folder (ac_read_write_execute a)"
  using assms by (simp_all add: valid_access_def access_folders_def access_groups_def)

lemma told_groups:
  assumes "tells acc a" and "valid_access a w"
  shows "access_group_of acc ''read_only'' = Inr (ac_read_only a)" "access_group_of acc ''read_execute'' = Inr (ac_read_execute a)"
    "access_group_of acc ''read_write'' = Inr (ac_read_write a)"
    "access_group_of acc ''read_write_execute'' = Inr (ac_read_write_execute a)"
    "group_items acc ''read_only'' = map access_folder_dict (ac_read_only a)"
    "group_items acc ''read_execute'' = map access_folder_dict (ac_read_execute a)"
    "group_items acc ''read_write'' = map access_folder_dict (ac_read_write a)"
    "group_items acc ''read_write_execute'' = map access_folder_dict (ac_read_write_execute a)"
  using assms groups_valid [OF assms(2)] by (auto simp: tells_def intro!: group_of_told [THEN conjunct1] group_of_told [THEN conjunct2])

lemma other_group: "acc = JObj kvs \<Longrightarrow> k \<noteq> key \<Longrightarrow> access_group_of (set_item acc key x) k = access_group_of acc k"
  by (simp add: access_group_of_def jget_set_item)

lemma mode_key_cases:
  assumes "map_of access_modes mode = Some key"
  obtains "mode = ''ro''" "key = ''read_only''" | "mode = ''rx''" "key = ''read_execute''"
    | "mode = ''rw''" "key = ''read_write''" | "mode = ''rwx''" "key = ''read_write_execute''"
  using assms by (auto simp: access_modes_def split: if_splits)

lemma snoc_group:
  assumes "acc = JObj kvs" and "group_items acc key = map access_folder_dict fs" and "list_all valid_folder fs"
    and "access_group_of (append_item acc key (folder_item alias path)) key = Inr gs"
  shows "gs = fs @ [\<lparr>af_alias = alias, af_path = normpath path\<rparr>]"
  using assms(2-4) by (intro group_of_appended [of fs "append_item acc key (folder_item alias path)" key])
    (simp_all add: append_item_def jget_set_item [OF assms(1)])

lemma appended_access:
  assumes "tells acc a" and "valid_access a w" and "map_of access_modes mode = Some key"
    and "access_of (append_item acc key (folder_item alias path)) w' = Inr b"
  shows "b = in_group mode (\<lambda>fs. fs @ [\<lparr>af_alias = alias, af_path = normpath path\<rparr>]) a"
proof -
  from assms(1) obtain kvs where o: "acc = JObj kvs" by (auto simp: tells_def)
  note told = told_groups [OF assms(1,2)] and new = access_of_groups [OF assms(4)]
    and valid = groups_valid [OF assms(2)] and snoc = snoc_group [OF o, of key _ "alias" path]
  have same: "access_group_of (append_item acc j x) k = access_group_of acc k" if "k \<noteq> j" for j k x
    using that by (simp add: append_item_def other_group [OF o])
  from assms(3) show ?thesis
  proof (cases rule: mode_key_cases)
    case 1
    with snoc told(5) valid(1) new(1) have "ac_read_only b = ac_read_only a @ [\<lparr>af_alias = alias, af_path = normpath path\<rparr>]"
      by simp
    moreover from 1 told(2-4) new(2-4) have "ac_read_execute b = ac_read_execute a"
      "ac_read_write b = ac_read_write a" "ac_read_write_execute b = ac_read_write_execute a" by (simp_all add: same)
    ultimately show ?thesis by (cases a; cases b) (simp add: in_group_def 1)
  next
    case 2
    with snoc told(6) valid(2) new(2) have "ac_read_execute b = ac_read_execute a @ [\<lparr>af_alias = alias, af_path = normpath path\<rparr>]"
      by simp
    moreover from 2 told(1,3,4) new(1,3,4) have "ac_read_only b = ac_read_only a"
      "ac_read_write b = ac_read_write a" "ac_read_write_execute b = ac_read_write_execute a" by (simp_all add: same)
    ultimately show ?thesis by (cases a; cases b) (simp add: in_group_def 2)
  next
    case 3
    with snoc told(7) valid(3) new(3) have "ac_read_write b = ac_read_write a @ [\<lparr>af_alias = alias, af_path = normpath path\<rparr>]"
      by simp
    moreover from 3 told(1,2,4) new(1,2,4) have "ac_read_only b = ac_read_only a"
      "ac_read_execute b = ac_read_execute a" "ac_read_write_execute b = ac_read_write_execute a" by (simp_all add: same)
    ultimately show ?thesis by (cases a; cases b) (simp add: in_group_def 3)
  next
    case 4
    with snoc told(8) valid(4) new(4) have "ac_read_write_execute b = ac_read_write_execute a @ [\<lparr>af_alias = alias, af_path = normpath path\<rparr>]"
      by simp
    moreover from 4 told(1-3) new(1-3) have "ac_read_only b = ac_read_only a"
      "ac_read_execute b = ac_read_execute a" "ac_read_write b = ac_read_write a" by (simp_all add: same)
    ultimately show ?thesis by (cases a; cases b) (simp add: in_group_def 4)
  qed
qed

section \<open>Dropping\<close>

lemma split_printed:
  assumes "list_all valid_folder fs"
  obtains hit where "split_items n field (map access_folder_dict fs) = Inr (map access_folder_dict (without n fs), hit)"
    and "hit = None \<longleftrightarrow> without n fs = fs"
    and "\<And>f. hit = Some f \<Longrightarrow> f \<in> set fs \<and> normalized_alias f = n"
proof -
  have "\<exists>hit. split_items n field (map access_folder_dict fs) = Inr (map access_folder_dict (without n fs), hit) \<and>
      (hit = None \<longleftrightarrow> without n fs = fs) \<and> (\<forall>f. hit = Some f \<longrightarrow> f \<in> set fs \<and> normalized_alias f = n)"
    using assms
  proof (induction fs)
    case (Cons f fs)
    then obtain hit where "split_items n field (map access_folder_dict fs) = Inr (map access_folder_dict (without n fs), hit)"
      and "hit = None \<longleftrightarrow> without n fs = fs" and "\<forall>f. hit = Some f \<longrightarrow> f \<in> set fs \<and> normalized_alias f = n" by auto
    moreover have "length (without n fs) \<le> length fs" by (simp add: without_def)
    then have "without n fs \<noteq> f # fs" by auto
    ultimately show ?case using Cons.prems
      by (cases "normalized_alias f = n") (auto simp: folder_print without_def split: option.splits)
  qed (simp add: without_def)
  then show ?thesis using that by blast
qed


lemma taken_access:
  assumes "tells acc a" and "valid_access a w" and "take_out n access_modes acc None = Inr (acc', hit)"
  shows "tells acc' (di_access (drop_alias n (d\<lparr>di_access := a\<rparr>))) \<and>
    (hit = None \<longleftrightarrow> di_access (drop_alias n (d\<lparr>di_access := a\<rparr>)) = a)"
proof -
  from assms(1) obtain kvs where o: "acc = JObj kvs" by (auto simp: tells_def)
  note told = told_groups(5-8) [OF assms(1,2)] and valid = groups_valid [OF assms(2)]
  have item: "group_items (set_item (JObj kvs) k (JArr xs)) j = (if j = k then xs else group_items (JObj kvs) j)" for kvs k xs j
    by (simp add: group_items_def set_item_def map_of_dict_set)
  have obj: "\<exists>kvs'. set_item (JObj kvs) k x = JObj kvs'" for kvs k x by (simp add: set_item_def)
  obtain h1 where h1: "split_items n ''access.read_only'' (map access_folder_dict (ac_read_only a)) =
      Inr (map access_folder_dict (without n (ac_read_only a)), h1)" "h1 = None \<longleftrightarrow> without n (ac_read_only a) = ac_read_only a"
    using split_printed [OF valid(1)] by metis
  obtain h2 where h2: "split_items n ''access.read_execute'' (map access_folder_dict (ac_read_execute a)) =
      Inr (map access_folder_dict (without n (ac_read_execute a)), h2)" "h2 = None \<longleftrightarrow> without n (ac_read_execute a) = ac_read_execute a"
    using split_printed [OF valid(2)] by metis
  obtain h3 where h3: "split_items n ''access.read_write'' (map access_folder_dict (ac_read_write a)) =
      Inr (map access_folder_dict (without n (ac_read_write a)), h3)" "h3 = None \<longleftrightarrow> without n (ac_read_write a) = ac_read_write a"
    using split_printed [OF valid(3)] by metis
  obtain h4 where h4: "split_items n ''access.read_write_execute'' (map access_folder_dict (ac_read_write_execute a)) =
      Inr (map access_folder_dict (without n (ac_read_write_execute a)), h4)"
      "h4 = None \<longleftrightarrow> without n (ac_read_write_execute a) = ac_read_write_execute a"
    using split_printed [OF valid(4)] by metis
  let ?dict = "\<lambda>fs. JArr (map access_folder_dict (without n fs))"
  let ?acc = "set_item (set_item (set_item (set_item acc ''read_only'' (?dict (ac_read_only a)))
      ''read_execute'' (?dict (ac_read_execute a))) ''read_write'' (?dict (ac_read_write a)))
      ''read_write_execute'' (?dict (ac_read_write_execute a))"
  have items: "group_items (set_item acc k (JArr xs)) j = (if j = k then xs else group_items acc j)"
    if "\<exists>kvs. acc = JObj kvs" for acc k xs j using that item by auto
  have objs: "\<exists>kvs'. set_item acc k x = JObj kvs'" if "\<exists>kvs. acc = JObj kvs" for acc k x using that obj by auto
  from o have "\<exists>kvs. acc = JObj kvs" by simp
  then have "acc' = ?acc \<and> (hit = None \<longleftrightarrow> h1 = None \<and> h2 = None \<and> h3 = None \<and> h4 = None)"
    using assms(3) told h1(1) h2(1) h3(1) h4(1)
    by (auto simp: access_modes_def items objs split: option.splits)
  moreover have "tells ?acc (di_access (drop_alias n (d\<lparr>di_access := a\<rparr>)))"
    by (simp add: o tells_def set_item_def drop_alias_def map_of_dict_set)
  moreover have "di_access (drop_alias n (d\<lparr>di_access := a\<rparr>)) = a \<longleftrightarrow>
      without n (ac_read_only a) = ac_read_only a \<and> without n (ac_read_execute a) = ac_read_execute a \<and>
      without n (ac_read_write a) = ac_read_write a \<and> without n (ac_read_write_execute a) = ac_read_write_execute a"
    by (cases a) (auto simp: drop_alias_def)
  ultimately show ?thesis using h1(2) h2(2) h3(2) h4(2) by simp
qed


lemma without_id: "without n fs = fs \<longleftrightarrow> list_all (\<lambda>f. normalized_alias f \<noteq> n) fs"
  by (simp add: without_def filter_id_conv list_all_iff)

lemma drop_alias_id:
  "drop_alias n d = d \<longleftrightarrow> list_all (\<lambda>f. normalized_alias f \<noteq> n) (access_folders (di_access d))"
proof -
  have "drop_alias n d = d \<longleftrightarrow> di_access (drop_alias n d) = di_access d"
    by (cases d) (simp add: drop_alias_def)
  also have "\<dots> \<longleftrightarrow> list_all (\<lambda>f. normalized_alias f \<noteq> n) (access_folders (di_access d))"
    by (cases "di_access d") (auto simp: drop_alias_def without_id access_folders_def access_groups_def)
  finally show ?thesis .
qed

lemma access_folders_drop: "access_folders (di_access (drop_alias n d)) = without n (access_folders (di_access d))"
  by (simp add: drop_alias_def access_folders_def access_groups_def without_def)

lemma valid_dropped:
  assumes "valid_access (di_access d) w" shows "valid_access (di_access (drop_alias n d)) w"
  using assms unfolding valid_access_def access_folders_drop without_def
  by (auto simp: list_all_iff distinct_map_filter)

lemma told_access:
  assumes "tells acc a" and "valid_access a w" and "access_of acc w' = Inr b" shows "b = a"
  using told_groups(1-4) [OF assms(1,2)] access_of_groups [OF assms(3)] by (cases a; cases b) simp

section \<open>Reading and writing the registry\<close>

lemma got: assumes "get s iid = Inr d" shows "valid_instance d" and "di_id d = iid"
proof -
  from assms obtain t where "instance_id_ok iid" and t: "from_json t = Inr d" and "di_id d = path_stem (file_of s iid)"
    by (auto simp: get_def read_instance_def path_for_eq res_simps split: read_result.splits)
  then show "di_id d = iid" by (simp add: file_of_def path_stem_json)
  from t show "valid_instance d" by (auto simp: from_json_def split: option.splits intro: from_dict_valid)
qed

lemma committed:
  assumes "commit_document H w s d raw = (Inr u, s')" and "from_dict raw = Inr v" and "di_id v = di_id d"
  shows "u = v \<and> get s' (di_id d) = Inr v \<and> (\<forall>i. i \<noteq> di_id d \<longrightarrow> get s' i = get s i)"
proof -
  from assms(1,2) obtain p where u: "u = v" and up: "update H w s v (Some (fingerprint H d)) = (Inr p, s')"
    by (auto simp: commit_document_def split: prod.splits sum.splits)
  from assms(2) have "valid_instance v" by (rule from_dict_valid)
  from reg.modify_same [OF this up] reg.modify_other [OF up] show ?thesis
    by (simp add: u assms(3))
qed

lemma not_committed: "commit_document H w s d raw = (Inl e, s') \<Longrightarrow> s' = s"
  by (auto simp: commit_document_def split: prod.splits sum.splits dest: update_Inl)

lemma normalized_folder:
  assumes "valid_folder f" shows "normalized_text (af_alias f) = Inr (normalized_alias f)"
proof -
  from assms have "af_alias f \<noteq> [] \<and> list_all (\<lambda>c. c \<notin> {CHR 0x00, CHR 0x0A, CHR 0x0D}) (af_alias f)"
    by (auto simp: valid_folder_def clean_text_def list_all_iff)
  with assms show ?thesis by (simp add: valid_folder_def normalized_text_def normalized_alias_def)
qed

lemma normalized_key: "normalized_text alias = Inr n \<Longrightarrow> n = alias_key alias"
  by (auto simp: normalized_text_def alias_key_def res_simps)

text \<open>The answer to an accepted change cannot fail.\<close>

lemma payload_total:
  assumes "valid_instance d" shows "\<exists>doc. access_payload H d action b = Inr doc"
proof -
  have "valid_folder (snd mf)" if "mf \<in> set (folder_entries d)" for mf
    using that assms
    by (auto simp: folder_entries_def access_groups_def valid_instance_def valid_access_def access_folders_def list_all_iff)
  then have "traverse (\<lambda>mf. rbind (normalized_text (af_alias (snd mf))) (\<lambda>n. Inr (n, mf))) (folder_entries d) =
      Inr (map (\<lambda>mf. (normalized_alias (snd mf), mf)) (folder_entries d))"
    by (intro traverse_all_Inr) (simp add: normalized_folder)
  then show ?thesis by (simp add: access_payload_def)
qed

lemma answered:
  assumes "answer H action extra (commit_document H w s d raw) = (r, s')"
  shows "(\<exists>e. r = Inl e) \<and> s' = s \<or> (\<exists>u doc. r = Inr doc \<and> commit_document H w s d raw = (Inr u, s'))"
proof (cases "commit_document H w s d raw")
  case (Pair q t)
  show ?thesis
  proof (cases q)
    case (Inl e)
    with Pair assms show ?thesis by (auto simp: answer_def dest: not_committed)
  next
    case (Inr u)
    with Pair have "from_dict raw = Inr u" by (auto simp: commit_document_def split: prod.splits sum.splits)
    then have "valid_instance u" by (rule from_dict_valid)
    then obtain doc where "access_payload H u action True = Inr doc" using payload_total by blast
    with Pair Inr assms show ?thesis by (auto simp: answer_def)
  qed
qed


section \<open>The commands\<close>

datatype access_command =
    Add string string string
  | Remove string
  | Update string string string string

fun run_access ::
  "(string \<Rightarrow> string) \<Rightarrow> bool \<Rightarrow> registry_state \<Rightarrow> string \<Rightarrow> string option \<Rightarrow> access_command \<Rightarrow> json res \<times> registry_state" where
  "run_access H w s iid expected (Add mode name path) = access_add H w s iid mode name path expected"
| "run_access H w s iid expected (Remove name) = access_remove H w s iid name expected"
| "run_access H w s iid expected (Update existing mode name path) =
     access_update H w s iid existing mode name path expected"

fun access_spec :: "access_command \<Rightarrow> desired_instance \<Rightarrow> desired_instance" where
  "access_spec (Add mode name path) d = add_folder mode name path d"
| "access_spec (Remove name) d = drop_alias (alias_key name) d"
| "access_spec (Update existing mode name path) d = add_folder mode name path (drop_alias (alias_key existing) d)"

fun names_folder :: "access_command \<Rightarrow> desired_instance \<Rightarrow> bool" where
  "names_folder (Add mode name path) d = True"
| "names_folder (Remove name) d = list_ex (\<lambda>f. normalized_alias f = alias_key name) (access_folders (di_access d))"
| "names_folder (Update existing mode name path) d =
     list_ex (\<lambda>f. normalized_alias f = alias_key existing) (access_folders (di_access d))"

lemma opened: "opened_declaration H s iid expected = Inr d \<longleftrightarrow>
    get s iid = Inr d \<and> expected \<in> {None, Some (fingerprint H d)}"
  by (auto simp: opened_declaration_def require_expected_def res_simps split: option.splits)

lemma dropped_item:
  assumes "valid_instance d" and "drop_item name n (to_dict d) = Inr (raw, mf)"
  obtains acc where "raw = set_item (to_dict d) ''access'' acc" and "tells acc (di_access (drop_alias n d))"
    and "list_ex (\<lambda>f. normalized_alias f = n) (access_folders (di_access d))"
proof -
  from assms(2) obtain acc where acc: "take_out n access_modes (access_dict (di_access d)) None = Inr (acc, Some mf)"
    and raw: "raw = set_item (to_dict d) ''access'' acc"
    by (auto simp: drop_item_def res_simps split: option.splits)
  from assms(1) have "valid_access (di_access d) (di_workspace d)" by (simp add: valid_instance_def)
  from taken_access [OF tells_dict this acc, of d] have "tells acc (di_access (drop_alias n d))"
    and "di_access (drop_alias n d) \<noteq> di_access d" by simp_all
  then show ?thesis using raw that drop_alias_id [of n d] by (auto simp: list_all_iff list_ex_iff)
qed

lemma parsed_edit:
  assumes "valid_instance d" and "from_dict (set_item (to_dict d) ''access'' acc) = Inr u"
  obtains a where "access_of acc (di_workspace d) = Inr a" and "u = d\<lparr>di_access := a\<rparr>"
  using assms by (auto simp: from_dict_set_item res_simps)

lemma committed_parse: "commit_document H w s d raw = (Inr u, s') \<Longrightarrow> from_dict raw = Inr u"
  by (auto simp: commit_document_def split: prod.splits sum.splits)

text \<open>What every accepted command has in common.\<close>

definition did :: "(string \<Rightarrow> string) \<Rightarrow> registry_state \<Rightarrow> string \<Rightarrow> string option \<Rightarrow> access_command \<Rightarrow> registry_state \<Rightarrow> bool" where
  "did H s iid expected c s' \<longleftrightarrow>
     (\<exists>d. get s iid = Inr d \<and> get s' iid = Inr (access_spec c d) \<and> names_folder c d \<and>
        expected \<in> {None, Some (fingerprint H d)} \<and> valid_instance (access_spec c d)) \<and>
     get s' = (get s)(iid := get s' iid)"

lemma did_commit:
  assumes "get s iid = Inr d" and "commit_document H w s d raw = (Inr u, s')" and "u = access_spec c d"
    and "di_id u = di_id d" and "names_folder c d" and "expected \<in> {None, Some (fingerprint H d)}"
  shows "did H s iid expected c s'"
proof -
  note p = committed_parse [OF assms(2)]
  from committed [OF assms(2) p assms(4)] got [OF assms(1)] from_dict_valid [OF p] assms show ?thesis
    by (auto simp: did_def fun_eq_iff)
qed

lemma added:
  assumes "access_add H w s iid mode name path expected = (r, s')"
  shows "(\<exists>e. r = Inl e) \<and> s' = s \<or> (\<exists>doc. r = Inr doc) \<and> did H s iid expected (Add mode name path) s'"
proof (cases "rbind (mode_key mode) (\<lambda>key. rbind (opened_declaration H s iid expected) (\<lambda>d. Inr (key, d)))")
  case (Inl e)
  with assms show ?thesis by (auto simp: access_add_def)
next
  case (Inr kd)
  then obtain key d where kd: "kd = (key, d)" and m: "map_of access_modes mode = Some key"
    and g: "get s iid = Inr d" and x: "expected \<in> {None, Some (fingerprint H d)}"
    by (auto simp: res_simps opened mode_key_def split: option.splits)
  note valid = got(1) [OF g]
  let ?acc = "append_item (access_dict (di_access d)) key (folder_item name path)"
  from assms Inr kd have "answer H (''add-'' @ mode) [] (commit_document H w s d (set_item (to_dict d) ''access'' ?acc)) = (r, s')"
    by (simp add: access_add_def)
  from answered [OF this] show ?thesis
  proof (elim disjE exE conjE)
    fix u doc assume r: "r = Inr doc" and c: "commit_document H w s d (set_item (to_dict d) ''access'' ?acc) = (Inr u, s')"
    from parsed_edit [OF valid committed_parse [OF c]] obtain a where a: "access_of ?acc (di_workspace d) = Inr a"
      and u: "u = d\<lparr>di_access := a\<rparr>" .
    from valid have "valid_access (di_access d) (di_workspace d)" by (simp add: valid_instance_def)
    from appended_access [OF tells_dict this m a] u have "u = add_folder mode name path d" by (simp add: add_folder_def)
    with did_commit [OF g c, of "Add mode name path"] u x r show ?thesis by simp
  qed simp
qed

lemma removed:
  assumes "access_remove H w s iid name expected = (r, s')"
  shows "(\<exists>e. r = Inl e) \<and> s' = s \<or> (\<exists>doc. r = Inr doc) \<and> did H s iid expected (Remove name) s'"
proof (cases "rbind (normalized_text name) (\<lambda>n. rbind (opened_declaration H s iid expected) (\<lambda>d.
    rbind (drop_item name n (to_dict d)) (\<lambda>(raw, mf). Inr (d, raw, mf))))")
  case (Inl e)
  with assms show ?thesis by (auto simp: access_remove_def)
next
  case (Inr x)
  then obtain d raw mf where x: "x = (d, raw, mf)" and g: "get s iid = Inr d"
    and ex: "expected \<in> {None, Some (fingerprint H d)}" and drop: "drop_item name (alias_key name) (to_dict d) = Inr (raw, mf)"
    by (auto simp: res_simps opened dest!: normalized_key)
  note valid = got(1) [OF g]
  from dropped_item [OF valid drop] obtain acc where raw: "raw = set_item (to_dict d) ''access'' acc"
    and tells: "tells acc (di_access (drop_alias (alias_key name) d))"
    and names: "list_ex (\<lambda>f. normalized_alias f = alias_key name) (access_folders (di_access d))" .
  from assms Inr x have "answer H ''remove'' [(''removed'', removed_doc mf)] (commit_document H w s d raw) = (r, s')"
    by (simp add: access_remove_def)
  from answered [OF this] show ?thesis
  proof (elim disjE exE conjE)
    fix u doc assume r: "r = Inr doc" and c: "commit_document H w s d raw = (Inr u, s')"
    from parsed_edit [OF valid committed_parse [OF c [unfolded raw]]] obtain a
      where a: "access_of acc (di_workspace d) = Inr a" and u: "u = d\<lparr>di_access := a\<rparr>" .
    from valid have "valid_access (di_access d) (di_workspace d)" by (simp add: valid_instance_def)
    from told_access [OF tells valid_dropped [OF this] a] u have "u = drop_alias (alias_key name) d"
      by (simp add: drop_alias_def)
    with did_commit [OF g c, of "Remove name"] u ex r names show ?thesis by simp
  qed simp
qed


lemma set_item_twice: "set_item (set_item (to_dict d) ''access'' x) ''access'' y = set_item (to_dict d) ''access'' y"
  by (simp add: set_item_def to_dict_def)

lemma updated:
  assumes "access_update H w s iid existing mode name path expected = (r, s')"
  shows "(\<exists>e. r = Inl e) \<and> s' = s \<or>
    (\<exists>doc. r = Inr doc) \<and> did H s iid expected (Update existing mode name path) s'"
proof (cases "rbind (mode_key mode) (\<lambda>key. rbind (normalized_text existing) (\<lambda>n.
    rbind (opened_declaration H s iid expected) (\<lambda>d.
    rbind (drop_item existing n (to_dict d)) (\<lambda>(raw, mf). Inr (key, d, raw, mf)))))")
  case (Inl e)
  with assms show ?thesis by (auto simp: access_update_def)
next
  case (Inr x)
  then obtain key d raw mf where x: "x = (key, d, raw, mf)" and m: "map_of access_modes mode = Some key"
    and g: "get s iid = Inr d" and ex: "expected \<in> {None, Some (fingerprint H d)}"
    and drop: "drop_item existing (alias_key existing) (to_dict d) = Inr (raw, mf)"
    by (auto simp: res_simps opened mode_key_def split: option.splits dest!: normalized_key)
  note valid = got(1) [OF g]
  let ?d = "drop_alias (alias_key existing) d"
  from dropped_item [OF valid drop] obtain acc where raw: "raw = set_item (to_dict d) ''access'' acc"
    and tells: "tells acc (di_access ?d)"
    and names: "list_ex (\<lambda>f. normalized_alias f = alias_key existing) (access_folders (di_access d))" .
  let ?acc = "append_item acc key (folder_item name path)"
  have "set_item raw ''access'' (append_item (jitem raw ''access'') key (folder_item name path)) =
      set_item (to_dict d) ''access'' ?acc"
    by (simp only: raw jitem_set_item set_item_twice if_True simp_thms)
  with assms Inr x obtain extra where
    "answer H ''update'' extra (commit_document H w s d (set_item (to_dict d) ''access'' ?acc)) = (r, s')"
    by (auto simp: access_update_def)
  from answered [OF this] show ?thesis
  proof (elim disjE exE conjE)
    fix u doc assume r: "r = Inr doc" and c: "commit_document H w s d (set_item (to_dict d) ''access'' ?acc) = (Inr u, s')"
    from parsed_edit [OF valid committed_parse [OF c]] obtain a
      where a: "access_of ?acc (di_workspace d) = Inr a" and u: "u = d\<lparr>di_access := a\<rparr>" .
    from valid have "valid_access (di_access d) (di_workspace d)" by (simp add: valid_instance_def)
    from appended_access [OF tells valid_dropped [OF this] m a] u
    have "u = add_folder mode name path ?d" by (simp add: add_folder_def drop_alias_def)
    with did_commit [OF g c, of "Update existing mode name path"] u ex r names show ?thesis by simp
  qed simp
qed

lemma ran: "run_access H w s iid expected c = (r, s') \<Longrightarrow>
    (\<exists>e. r = Inl e) \<and> s' = s \<or> (\<exists>doc. r = Inr doc) \<and> did H s iid expected c s'"
  by (cases c) (auto dest: added removed updated)

text \<open>C10:
  The access commands refine an edit of the declaration. A command that fails leaves the registry
  as it is. A command that is answered has replaced the instance's declaration, and no other, by
  the edited one: a folder appended to the group of its mode, the folders of an alias dropped, or
  both at once; the declaration it replaced is the one whose fingerprint the caller named, it had a
  folder of the alias to drop, and the result is a valid declaration.
\<close>
theorem access_commands_refine_edits:
  "case run_access H w s iid expected c of
     (Inl e, s') \<Rightarrow> s' = s
   | (Inr doc, s') \<Rightarrow>
       (\<exists>d. get s iid = Inr d \<and> get s' iid = Inr (access_spec c d) \<and> names_folder c d \<and>
          expected \<in> {None, Some (fingerprint H d)} \<and> valid_instance (access_spec c d)) \<and>
       get s' = (get s)(iid := get s' iid)"
proof (cases "run_access H w s iid expected c")
  case (Pair r s')
  from ran [OF Pair] Pair show ?thesis by (cases r) (auto simp: did_def)
qed

section \<open>Undoing an addition\<close>

lemma drop_added:
  assumes "valid_instance (add_folder mode name path d)" and "map_of access_modes mode = Some key"
  shows "drop_alias (alias_key name) (add_folder mode name path d) = d"
proof -
  let ?f = "\<lparr>af_alias = name, af_path = normpath path\<rparr>"
  from assms(1) have dist: "distinct (map normalized_alias (access_folders (di_access (add_folder mode name path d))))"
    by (simp add: valid_instance_def valid_access_def)
  have "normalized_alias ?f = alias_key name" by (simp add: normalized_alias_def alias_key_def)
  with assms(2) dist show ?thesis
    by (cases rule: mode_key_cases; cases d; cases "di_access d")
      (auto simp: add_folder_def in_group_def drop_alias_def access_folders_def access_groups_def without_def
        filter_id_conv image_iff)
qed

text \<open>
  Removing the alias of a folder that was just added restores the declaration exactly, so its
  fingerprint too.
\<close>
theorem access_add_undone:
  "case access_add H w s iid mode name path x of
     (Inl e, s1) \<Rightarrow> s1 = s
   | (Inr doc, s1) \<Rightarrow>
       (case access_remove H w' s1 iid name y of
          (Inl e, s2) \<Rightarrow> s2 = s1
        | (Inr doc', s2) \<Rightarrow> get s2 = get s)"
proof (cases "access_add H w s iid mode name path x")
  case add: (Pair r s1)
  show ?thesis
  proof (cases r)
    case (Inl e)
    with added [OF add] add show ?thesis by auto
  next
    case (Inr doc)
    obtain q s2 where rem: "access_remove H w' s1 iid name y = (q, s2)" by fastforce
    from added [OF add] Inr obtain d where d: "get s iid = Inr d" "get s1 iid = Inr (add_folder mode name path d)"
      "valid_instance (add_folder mode name path d)" "get s1 = (get s)(iid := get s1 iid)" by (auto simp: did_def)
    from add Inr obtain key where "map_of access_modes mode = Some key"
      by (auto simp: access_add_def mode_key_def split: option.splits)
    note restored = drop_added [OF d(3) this]
    show ?thesis
    proof (cases q)
      case gone: (Inl e)
      with removed [OF rem] have "s2 = s1" by simp
      with add Inr rem gone show ?thesis by simp
    next
      case gone: (Inr doc')
      with removed [OF rem] d(2) restored have "get s2 iid = Inr d" and "get s2 = (get s1)(iid := get s2 iid)"
        by (auto simp: did_def)
      moreover have "(get s)(iid := Inr d) = get s" using d(1) by (simp add: fun_upd_idem)
      ultimately have "get s2 = get s" using d(4) by (metis fun_upd_upd)
      with add Inr rem gone show ?thesis by simp
    qed
  qed
qed

end
