(* ===== verification/Projection.thy ===== *)
theory Projection
  imports Lifecycle Apply_Props
begin

text \<open>
  The read-only projections operators work with (operator_projection.py): the summary of an instance
  and of all instances, the preview of a candidate declaration and the plan under review. They read
  the registry and the machine and change neither.
\<close>

section \<open>Parts of a summary\<close>

definition access_summary :: "desired_instance \<Rightarrow> json" where
  "access_summary d =
     JObj (concat (map (\<lambda>((mode, fs), (_, key)).
        [(key @ ''_count'', JInt (int (length fs))), (key @ ''_aliases'', strs (map af_alias fs))])
        (zip (access_groups (di_access d)) access_modes)))"

definition object_or_empty :: "json option \<Rightarrow> json" where
  "object_or_empty v = (case v of Some (JObj kvs) \<Rightarrow> JObj kvs | _ \<Rightarrow> JObj [])"

definition object_item :: "json option \<Rightarrow> string \<Rightarrow> json" where
  "object_item v k = (case v of Some (JObj kvs) \<Rightarrow> jget_or_null (JObj kvs) k | _ \<Rightarrow> JNull)"

definition github_mode_shown :: "desired_instance \<Rightarrow> json \<Rightarrow> json" where
  "github_mode_shown d github =
     (if di_version d = 1 then
        (if truthy (jget_or_null github ''config_dir'') then JStr ''external'' else JStr ''disabled'')
      else (case jget github ''mode'' of Some m \<Rightarrow> m | None \<Rightarrow> JStr ''disabled''))"

definition git_summary :: "desired_instance \<Rightarrow> json" where
  "git_summary d =
     (let raw = to_dict d; github = object_or_empty (jget raw ''github''); git = object_or_empty (jget raw ''git'');
          identity = jget git ''identity''; remote = jget git ''remote''; agent = object_or_empty (jget raw ''agent'') in
      JObj [(''workspace'', JStr (di_workspace d)), (''github_mode'', github_mode_shown d github),
            (''identity_configured'', JBool (case identity of Some v \<Rightarrow> is_obj v | None \<Rightarrow> False)),
            (''remote_configured'', JBool (case remote of Some v \<Rightarrow> is_obj v | None \<Rightarrow> False)),
            (''remote_name'', object_item remote ''name''), (''remote_protocol'', object_item remote ''protocol''),
            (''agent_mode'', if di_version d \<ge> 2 then (case jget agent ''mode'' of Some m \<Rightarrow> m | None \<Rightarrow> JStr ''none'')
                           else JStr ''none''),
            (''authentication'', JStr ''external''), (''authentication_managed_by_manager'', JBool False)])"

definition lifecycle_label :: "desired_instance \<Rightarrow> string" where
  "lifecycle_label d =
     (if desired_absent d then ''Absent''
      else if li_runtime (di_lifecycle d) = RUNNING then ''Present + Running'' else ''Present + Stopped'')"

definition projection_head :: "(string \<Rightarrow> string) \<Rightarrow> desired_instance \<Rightarrow> (string \<times> json) list" where
  "projection_head H d =
     [(''ok'', JBool True), (''projection_version'', JInt 1), (''instance_id'', JStr (di_id d)),
      (''workspace_path'', JStr (di_workspace d)), (''config_version'', JInt (di_version d)),
      (''declaration_fingerprint'', JStr (fingerprint H d))]"

definition unavailable_summary :: "(string \<Rightarrow> string) \<Rightarrow> desired_instance \<Rightarrow> manager_error \<Rightarrow> json" where
  "unavailable_summary H d e =
     JObj (projection_head H d @
       [(''desired_lifecycle'', JStr (lifecycle_label d)), (''runtime'', JStr ''Unknown''), (''health'', JStr ''Unknown''),
        (''tunnel'', JStr ''Unknown''), (''reconciliation'', JStr ''Unknown''), (''recovery'', JStr ''Unknown''),
        (''plan_fingerprint'', JNull), (''access'', access_summary d), (''git'', git_summary d),
        (''attention_reasons'', strs [''Projection unavailable: '' @ err_message e]),
        (''projection_error'', jitem (error_to_dict e) ''error'')])"

definition state_summary :: "(string \<Rightarrow> string) \<Rightarrow> desired_instance \<Rightarrow> json \<Rightarrow> json" where
  "state_summary H d st =
     (let s = derive_operator_state d st in
      JObj (projection_head H d @
        [(''desired_lifecycle'', JStr (os_desired s)), (''runtime'', JStr (os_runtime s)), (''health'', JStr (os_health s)),
         (''tunnel'', JStr (os_tunnel s)), (''reconciliation'', JStr (os_reconciliation s)),
         (''recovery'', JStr (os_recovery s)), (''plan_fingerprint'', jget_or_null st ''plan_fingerprint''),
         (''access'', access_summary d), (''git'', git_summary d),
         (''attention_reasons'', strs (os_attention s))]))"

section \<open>Summaries\<close>

text \<open>A manager error of the status is shown in the summary, any other exception is not caught.\<close>

definition summary ::
  "systemd \<Rightarrow> (string \<Rightarrow> string) \<Rightarrow> generator \<Rightarrow> registry_state \<Rightarrow> string \<Rightarrow> machine \<Rightarrow> exn + json" where
  "summary E H g reg iid m =
     rbind (managed (get reg iid)) (\<lambda>d.
       case status_for E H g reg d m of
         Inl (Managed e) \<Rightarrow> Inr (unavailable_summary H d e)
       | Inl (Raised e) \<Rightarrow> Inl (Raised e)
       | Inr st \<Rightarrow> Inr (state_summary H d st))"

definition counted :: "(json \<Rightarrow> bool) \<Rightarrow> json list \<Rightarrow> json" where
  "counted p items = JInt (int (length (filter p items)))"

definition summaries ::
  "systemd \<Rightarrow> (string \<Rightarrow> string) \<Rightarrow> generator \<Rightarrow> registry_state \<Rightarrow> bool \<Rightarrow> machine \<Rightarrow> exn + json" where
  "summaries E H g reg can_list m =
     rbind (managed (list_instances reg can_list)) (\<lambda>ds.
     rbind (traverse (\<lambda>d. summary E H g reg (di_id d) m) ds) (\<lambda>items.
     Inr (JObj
       [(''ok'', JBool True), (''projection_version'', JInt 1), (''instances'', JArr items),
        (''counts'', JObj
           [(''instances'', JInt (int (length items))),
            (''attention'', counted (\<lambda>i. case jget i ''attention_reasons'' of Some v \<Rightarrow> truthy v | None \<Rightarrow> False) items),
            (''pending'', counted (\<lambda>i. jget i ''reconciliation'' = Some (JStr ''Pending'')) items),
            (''blocked'', counted (\<lambda>i. jget i ''reconciliation'' = Some (JStr ''Blocked'')) items),
            (''failed'', counted (\<lambda>i. jget i ''health'' = Some (JStr ''Failed'')) items),
            (''degraded'', counted (\<lambda>i. jget i ''health'' = Some (JStr ''Degraded'')) items)])])))"

section \<open>The preview of a candidate\<close>

definition collision_unknown :: "plan_item \<Rightarrow> bool" where
  "collision_unknown i \<longleftrightarrow>
     (contains ''collision evidence is'' (pi_reason i) \<or> contains ''cannot prove'' (pi_reason i)) \<and>
     pi_rid i \<in> {Some ''mcp-unit'', Some ''tunnel-unit'', Some ''endpoint''}"

definition collision_state :: "plan_item list \<Rightarrow> string" where
  "collision_state conflicts =
     (if list_ex (\<lambda>i. \<not> collision_unknown i) conflicts then ''conflict''
      else if conflicts \<noteq> [] then ''unknown'' else ''clear'')"

definition current_fingerprint :: "(string \<Rightarrow> string) \<Rightarrow> registry_state \<Rightarrow> string \<Rightarrow> json res" where
  "current_fingerprint H reg iid =
     (case get reg iid of
        Inr d \<Rightarrow> Inr (JStr (fingerprint H d))
      | Inl e \<Rightarrow> if err_code e = INSTANCE_NOT_FOUND then Inr JNull else Inl e)"

definition projected_plan ::
  "systemd \<Rightarrow> (string \<Rightarrow> string) \<Rightarrow> generator \<Rightarrow> registry_state \<Rightarrow> desired_instance \<Rightarrow> machine \<Rightarrow> exn + (gen_bundle \<times> plan)" where
  "projected_plan E H g reg d m =
     rbind (managed (generate H g (rs_files reg) d)) (\<lambda>b.
     rbind (fst (planned E H g reg d m)) (\<lambda>p.
     Inr (b, project_recoverable (gen_paths g) (host_of (sd_view E) m) d b p)))"

definition preview_document ::
  "systemd \<Rightarrow> (string \<Rightarrow> string) \<Rightarrow> desired_instance \<Rightarrow> gen_bundle \<Rightarrow> plan \<Rightarrow> json \<Rightarrow> machine \<Rightarrow> json" where
  "preview_document E H d b p current m =
     (let conflicts = filter is_conflict (pl_items p); state = collision_state conflicts in
      JObj [(''ok'', JBool True), (''projection_version'', JInt 1), (''instance_id'', JStr (di_id d)),
            (''effective_declaration'', to_dict d), (''candidate_fingerprint'', JStr (fingerprint H d)),
            (''current_authoritative_fingerprint'', current),
            (''validation'', JObj [(''valid'', JBool True), (''errors'', JArr [])]),
            (''collision_result'', JObj
               [(''state'', JStr state), (''clear'', JBool (state = ''clear'')),
                (''conflicts'', JArr (map item_dict conflicts))]),
            (''warnings'', strs (pl_warnings p)), (''errors'', strs (map pi_reason conflicts)),
            (''proposed_plan'', plan_dict p), (''semantic_operations'', semantic_plan_operations p),
            (''plan_fingerprint'', JStr (plan_fingerprint H p b (observed_plan_inputs H (host_of (sd_view E) m) b))),
            (''mutates_state'', JBool False)])"

definition preview ::
  "systemd \<Rightarrow> (string \<Rightarrow> string) \<Rightarrow> generator \<Rightarrow> registry_state \<Rightarrow> desired_instance \<Rightarrow> machine \<Rightarrow> exn + json" where
  "preview E H g reg d m =
     rbind (projected_plan E H g reg d m) (\<lambda>(b, p).
     rbind (managed (current_fingerprint H reg (di_id d))) (\<lambda>current.
     Inr (preview_document E H d b p current m)))"

section \<open>The plan under review\<close>

definition review_document ::
  "systemd \<Rightarrow> (string \<Rightarrow> string) \<Rightarrow> gen_bundle \<Rightarrow> plan \<Rightarrow> machine \<Rightarrow> json" where
  "review_document E H b p m =
     JObj [(''ok'', JBool (pl_valid p)), (''instance_id'', JStr (pl_instance p)),
           (''desired_fingerprint'', JStr (pl_fingerprint p)), (''valid'', JBool (pl_valid p)),
           (''warnings'', strs (pl_warnings p)), (''operations'', JArr (map item_dict (pl_items p))),
           (''plan_fingerprint'', JStr (plan_fingerprint H p b (observed_plan_inputs H (host_of (sd_view E) m) b))),
           (''semantic_operations'', semantic_plan_operations p)]"

definition review_plan ::
  "systemd \<Rightarrow> (string \<Rightarrow> string) \<Rightarrow> generator \<Rightarrow> registry_state \<Rightarrow> string \<Rightarrow> machine \<Rightarrow> exn + json" where
  "review_plan E H g reg iid m =
     rbind (managed (get reg iid)) (\<lambda>d.
     rbind (projected_plan E H g reg d m) (\<lambda>(b, p). Inr (review_document E H b p m)))"

section \<open>The views agree\<close>

text \<open>C22:
  What is reviewed is what is applied. Of an instance in one and the same state, the plan under
  review, the preview of its registered declaration and its status show the same plan, with the same
  fingerprint, and it is the fingerprint with which a reviewed apply started in that state passes the
  review check.
\<close>
theorem reviewed_plan_is_applied:
  "case (review_plan E H g reg iid m, rbind (managed (get reg iid)) (\<lambda>d. preview E H g reg d m), status E H g reg iid m) of
     (Inr r, Inr v, Inr s) \<Rightarrow>
       (\<exists>f d b p. jget r ''plan_fingerprint'' = Some (JStr f) \<and> jget v ''plan_fingerprint'' = Some (JStr f) \<and>
          jget s ''plan_fingerprint'' = Some (JStr f) \<and>
          jget v ''proposed_plan'' = jget s ''plan'' \<and> jget r ''operations'' = jget (jitem s ''plan'') ''operations'' \<and>
          get reg iid = Inr d \<and> generate H g (rs_files reg) d = Inr b \<and>
          planned E H g reg d m = (Inr p, m) \<and> check_review E H g d b (Some f) p m = (Inr (), m))
   | _ \<Rightarrow> True"
proof (cases "get reg iid")
  case (Inl e)
  then show ?thesis by (simp add: review_plan_def managed_def)
next
  case d: (Inr d)
  show ?thesis
  proof (cases "generate H g (rs_files reg) d")
    case (Inl e)
    with d show ?thesis by (simp add: review_plan_def projected_plan_def managed_def)
  next
    case b: (Inr b)
    show ?thesis
    proof (cases "planned E H g reg d m")
      case p: (Pair q m')
      then have m': "m' = m" by (auto dest: planned_result)
      show ?thesis
      proof (cases q)
        case (Inl e)
        with d b p show ?thesis by (simp add: review_plan_def projected_plan_def managed_def)
      next
        case (Inr pl)
        with d b p m' show ?thesis
          by (cases "unit_entries E b m"; cases "current_fingerprint H reg (di_id d)")
            (simp_all add: review_plan_def projected_plan_def managed_def preview_def status_def status_for_def
              review_document_def preview_document_def status_document_def Let_def check_review_def
              reviewed_fingerprint_def plan_dict_def)
      qed
    qed
  qed
qed

end
