(* ===== verification/Reboot.thy ===== *)
theory Reboot
  imports Systemd Registry
begin

text \<open>
  Host reboots (reboot.py): a request writes a checkpoint of what is expected to run before any
  command is started, asks for the reboot through a privileged bridge, and a check compares the
  boot identifier and the instances with the checkpoint.
\<close>

section \<open>The outside\<close>

datatype bridge_result = BridgeDone int string string | BridgeTimeout | BridgeFailed

datatype http_answer = HttpStatus int string | HttpError int "string option" | HttpNone

record reboot_world =
  rw_release :: "machine \<Rightarrow> text_result"
  rw_boot_text :: "machine \<Rightarrow> text_result"
  rw_now :: "machine \<Rightarrow> string"
  rw_checkpoint_id :: "machine \<Rightarrow> string"
  rw_executable :: "ppath \<Rightarrow> machine \<Rightarrow> bool"
  rw_bridge :: "string list \<Rightarrow> machine \<Rightarrow> bridge_result \<times> machine"
  rw_unit_active :: "string \<Rightarrow> machine \<Rightarrow> proc_result"
  rw_http :: "string \<Rightarrow> machine \<Rightarrow> http_answer"

text \<open>
  \<open>bt_runs\<close> lists the bridge commands that were started, each with whether it was the preflight and
  what reading the checkpoint gave at that moment.
\<close>

type_synonym checkpoint = "(string \<times> json) list"

record booter =
  bt_mc :: machine
  bt_runs :: "(bool \<times> (exn + checkpoint)) list"

type_synonym 'a bm = "(booter, exn, 'a) em"

definition on_boot :: "'a mm \<Rightarrow> 'a bm" where
  "on_boot c s = (case c (bt_mc s) of (r, m) \<Rightarrow> (r, s\<lparr>bt_mc := m\<rparr>))"

definition host_error :: "string \<Rightarrow> exn" where
  "host_error msg = Managed (ManagerError HOST_INSPECTION_FAILED msg [])"

section \<open>The platform and the boot identifier\<close>

definition is_wsl :: "reboot_world \<Rightarrow> machine \<Rightarrow> bool" where
  "is_wsl W m =
     (let lowered = lower_string (case rw_release W m of TextOk t \<Rightarrow> t | _ \<Rightarrow> [])
      in contains ''microsoft'' lowered \<or> contains ''wsl'' lowered)"

text \<open>\<open>s.replace(p, '')\<close>; the number counts what is left of an occurrence.\<close>

fun remove_all :: "string \<Rightarrow> nat \<Rightarrow> string \<Rightarrow> string" where
  "remove_all p k [] = []"
| "remove_all p (Suc k) (c # cs) = remove_all p k cs"
| "remove_all p 0 (c # cs) =
     (if prefix p (c # cs) then remove_all p (length p - 1) cs else c # remove_all p 0 cs)"

definition strip_braces :: "string \<Rightarrow> string" where
  "strip_braces s =
     (let brace = (\<lambda>c. c = CHR ''{'' \<or> c = CHR ''}'') in rev (dropWhile brace (rev (dropWhile brace s))))"

definition lower_hex :: "char \<Rightarrow> bool" where
  "lower_hex c \<longleftrightarrow> is_digit c \<or> c \<in> set ''abcdef''"

text \<open>What \<open>int(s, 16)\<close> reads, of a lower-case text: blanks around, a sign, \<open>0x\<close>, single underscores.\<close>

definition reads_hex :: "string \<Rightarrow> bool" where
  "reads_hex s =
     (let t = strip s;
          u = (case t of c # r \<Rightarrow> if c = CHR ''+'' then r else t | [] \<Rightarrow> []);
          v = (if prefix ''0x'' u then (if prefix ''0x_'' u then drop 3 u else drop 2 u) else u)
      in list_all (\<lambda>g. g \<noteq> [] \<and> list_all lower_hex g) (split_on CHR ''_'' v))"

definition uuid_reads :: "string \<Rightarrow> bool" where
  "uuid_reads t =
     (let h = remove_all ''-'' 0 (strip_braces (remove_all ''uuid:'' 0 (remove_all ''urn:'' 0 t)))
      in length h = 32 \<and> reads_hex h)"

definition canonical_uuid :: "string \<Rightarrow> bool" where
  "canonical_uuid t \<longleftrightarrow>
     length t = 36 \<and> list_all (\<lambda>(i, c). if i \<in> {8, 13, 18, 23} then c = CHR ''-'' else lower_hex c) (zip [0..<36] t)"

definition validate_boot_id :: "string \<Rightarrow> exn + string" where
  "validate_boot_id raw =
     (let t = lower_string (strip raw) in
      if canonical_uuid t then Inr t
      else if uuid_reads t then Inl (host_error ''host boot ID is not canonical UUID text'')
      else Inl (host_error ''host boot ID is invalid''))"

definition boot_id :: "reboot_world \<Rightarrow> machine \<Rightarrow> exn + string" where
  "boot_id W m =
     (case rw_boot_text W m of
        TextOk t \<Rightarrow> validate_boot_id t
      | _ \<Rightarrow> Inl (host_error ''cannot read host boot ID''))"

section \<open>The checkpoint\<close>

definition checkpoint_path :: "manager_paths \<Rightarrow> ppath" where
  "checkpoint_path ps = path_div (path_div (state_root ps) ''reboot'') ''checkpoint.json''"

definition bridge_path :: "manager_paths \<Rightarrow> ppath" where
  "bridge_path ps = path_div (path_parent (manager_executable ps)) ''workspace-mcp-reboot''"

definition checkpoint_text :: "checkpoint \<Rightarrow> string" where
  "checkpoint_text cp = dumps_indent2 (redact_object (JObj cp)) @ newline"

definition write_checkpoint :: "ppath \<Rightarrow> string \<Rightarrow> unit mm" where
  "write_checkpoint p t =
     eseq (m_mkdir (path_parent p) True 448)
     (eseq (ecatch (m_chmod (path_parent p) 448) (\<lambda>_. ereturn ()))
       (\<lambda>m. if p \<in> set (mc_refuses m) \<or> (case x_lookup (mc_fs m) p of Some (EDir k) \<Rightarrow> True | _ \<Rightarrow> False)
             then (Inl (Raised (path_str p)), m)
             else m_fs (x_put p (EFile 384 (Text t))) m))"

definition persist :: "reboot_world \<Rightarrow> manager_paths \<Rightarrow> checkpoint \<Rightarrow> checkpoint bm" where
  "persist W ps cp =
     ebind (eread (\<lambda>s. Inr (dict_set ''updated_at'' (JStr (rw_now W (bt_mc s))) cp))) (\<lambda>cp'.
     ebind (on_boot (ecatch (write_checkpoint (checkpoint_path ps) (checkpoint_text cp'))
              (\<lambda>_. eraise (Managed (io_error ''cannot persist reboot checkpoint'' [])))))
       (\<lambda>_. ereturn cp'))"

definition read_checkpoint :: "ppath \<Rightarrow> fs \<Rightarrow> exn + checkpoint" where
  "read_checkpoint p fs =
     (case x_text (x_follow (x_lookup fs p)) of
        TextMissing e \<Rightarrow>
          Inl (Managed (ManagerError INSTANCE_NOT_FOUND (''reboot checkpoint is missing: '' @ path_str p) []))
      | TextOk t \<Rightarrow>
          (case loads t of
             None \<Rightarrow> Inl (Managed (io_error (''cannot read reboot checkpoint: '' @ path_str p) []))
           | Some v \<Rightarrow>
               (case v of
                  JObj kvs \<Rightarrow>
                    if eq_int (jget_or_null v ''schema_version'') 1 then Inr kvs
                    else Inl (Managed (conflict_error ''reboot checkpoint schema is invalid'' []))
                | _ \<Rightarrow> Inl (Managed (conflict_error ''reboot checkpoint schema is invalid'' []))))
      | _ \<Rightarrow> Inl (Managed (io_error (''cannot read reboot checkpoint: '' @ path_str p) [])))"

definition cp_get :: "checkpoint \<Rightarrow> string \<Rightarrow> json" where
  "cp_get cp k = (case map_of cp k of Some v \<Rightarrow> v | None \<Rightarrow> JNull)"

definition public_keys :: "string list" where
  "public_keys = [''boot_id_before'', ''boot_id_after'', ''authorization'', ''request_result'',
     ''expected_instances'', ''reconciliation'', ''last_checked_at'']"

definition public :: "manager_paths \<Rightarrow> checkpoint \<Rightarrow> bool \<Rightarrow> string option \<Rightarrow> json" where
  "public ps cp ok state =
     redact_object (JObj
       ([(''ok'', JBool ok), (''action'', JStr (case state of None \<Rightarrow> ''reboot'' | Some _ \<Rightarrow> ''reboot-check'')),
         (''state'', case state of None \<Rightarrow> cp_get cp ''state'' | Some st \<Rightarrow> JStr st),
         (''checkpoint_id'', cp_get cp ''checkpoint_id''),
         (''checkpoint_path'', JStr (path_str (checkpoint_path ps)))] @
        map (\<lambda>k. (k, cp_get cp k)) public_keys))"

section \<open>Requesting\<close>

definition expected_instance :: "(string \<Rightarrow> string) \<Rightarrow> desired_instance \<Rightarrow> json" where
  "expected_instance H d =
     JObj [(''instance_id'', JStr (di_id d)), (''desired_fingerprint'', JStr (fingerprint H d)),
           (''workspace_path'', JStr (di_workspace d)),
           (''mcp_unit'', JStr (''coding-tools-mcp-'' @ di_id d @ ''.service'')),
           (''tunnel_unit'', JStr (''tunnel-client-'' @ di_id d @ ''.service'')),
           (''mcp_host'', JStr (mcp_host (di_mcp d))), (''mcp_port'', JInt (mcp_port (di_mcp d))),
           (''tunnel_health_host'', JStr (tun_health_host (di_tunnel d))),
           (''tunnel_health_port'', JInt (tun_health_port (di_tunnel d)))]"

definition expected_to_run :: "desired_instance \<Rightarrow> bool" where
  "expected_to_run d \<longleftrightarrow> li_deployment (di_lifecycle d) = PRESENT \<and> li_runtime (di_lifecycle d) = RUNNING"

definition capture_expected :: "(string \<Rightarrow> string) \<Rightarrow> registry_state \<Rightarrow> bool \<Rightarrow> exn + json list" where
  "capture_expected H reg can_list =
     managed (rbind (list_instances reg can_list) (\<lambda>ds. Inr (map (expected_instance H) (filter expected_to_run ds))))"

definition bounded_error :: "string \<Rightarrow> json" where
  "bounded_error t =
     (if t = [] then JNull
      else (let cleaned = redact_text (strip t) in if cleaned = [] then JNull else JStr (tail_of 2000 cleaned)))"

definition run_bridge :: "reboot_world \<Rightarrow> manager_paths \<Rightarrow> bool \<Rightarrow> (int \<times> string \<times> string) bm" where
  "run_bridge W ps check_only s =
     (case rw_bridge W (path_str (bridge_path ps) # (if check_only then [''--check''] else [])) (bt_mc s) of
        (answer, m) \<Rightarrow>
          ((case answer of
              BridgeDone rc out err \<Rightarrow> Inr (rc, out, err)
            | BridgeTimeout \<Rightarrow> Inl (Managed (io_error ''reboot bridge timed out synchronously'' []))
            | BridgeFailed \<Rightarrow> Inl (Managed (io_error ''cannot execute reboot bridge'' []))),
           s\<lparr>bt_mc := m, bt_runs := bt_runs s @ [(check_only, read_checkpoint (checkpoint_path ps) (mc_fs (bt_mc s)))]\<rparr>))"

text \<open>\<open>try\<close>: the manager's error as a value.\<close>

definition attempt_bridge :: "('s, exn, 'a) em \<Rightarrow> ('s, exn, manager_error + 'a) em" where
  "attempt_bridge c s =
     (case c s of
        (Inl (Managed e), s') \<Rightarrow> (Inr (Inl e), s')
      | (Inl (Raised e), s') \<Rightarrow> (Inl (Raised e), s')
      | (Inr x, s') \<Rightarrow> (Inr (Inr x), s'))"

definition outcome :: "json \<Rightarrow> json \<Rightarrow> json \<Rightarrow> json" where
  "outcome ok code err = JObj [(''ok'', ok), (''exit_code'', code), (''error'', err)]"

definition authorization :: "string \<Rightarrow> bool \<Rightarrow> json \<Rightarrow> json \<Rightarrow> json" where
  "authorization at ok code err =
     JObj [(''checked_at'', JStr at), (''ok'', JBool ok), (''exit_code'', code), (''error'', err)]"

definition conclude :: "reboot_world \<Rightarrow> manager_paths \<Rightarrow> checkpoint \<Rightarrow> bool \<Rightarrow> json bm" where
  "conclude W ps cp ok = ebind (persist W ps cp) (\<lambda>cp'. ereturn (public ps cp' ok None))"

definition unauthorized :: "reboot_world \<Rightarrow> manager_paths \<Rightarrow> checkpoint \<Rightarrow> json \<Rightarrow> json \<Rightarrow> string \<Rightarrow> json bm" where
  "unauthorized W ps cp auth code err =
     conclude W ps (dict_set ''request_result'' (outcome (JBool False) code (JStr err))
       (dict_set ''state'' (JStr ''authorization_failed'') (dict_set ''authorization'' auth cp))) False"

definition set_result :: "string \<Rightarrow> json \<Rightarrow> checkpoint \<Rightarrow> checkpoint" where
  "set_result state result cp = dict_set ''request_result'' result (dict_set ''state'' (JStr state) cp)"

definition request_failed :: "reboot_world \<Rightarrow> manager_paths \<Rightarrow> checkpoint \<Rightarrow> json \<Rightarrow> json \<Rightarrow> json bm" where
  "request_failed W ps cp code err =
     conclude W ps (set_result ''request_failed'' (outcome (JBool False) code err) cp) False"

definition ask_reboot :: "reboot_world \<Rightarrow> manager_paths \<Rightarrow> checkpoint \<Rightarrow> json bm" where
  "ask_reboot W ps cp =
     ebind (persist W ps (set_result ''requesting'' (outcome JNull JNull JNull) cp)) (\<lambda>cp.
     ebind (attempt_bridge (run_bridge W ps False)) (\<lambda>r. case r of
       Inl e \<Rightarrow> request_failed W ps cp JNull (bounded_error (err_message e))
     | Inr (rc, out, err) \<Rightarrow>
         if rc \<noteq> 0 then
           request_failed W ps cp (JInt rc)
             (if bounded_error (first_text err out) = JNull then JStr ''reboot bridge returned failure''
              else bounded_error (first_text err out))
         else conclude W ps (set_result ''request_accepted'' (outcome (JBool True) (JInt 0) JNull) cp) True))"

definition preflight :: "reboot_world \<Rightarrow> manager_paths \<Rightarrow> string \<Rightarrow> checkpoint \<Rightarrow> json bm" where
  "preflight W ps at cp =
     ebind (attempt_bridge (run_bridge W ps True)) (\<lambda>r. case r of
       Inl e \<Rightarrow>
         unauthorized W ps cp (authorization at False JNull (bounded_error (err_message e))) JNull
           ''reboot authorization preflight failed''
     | Inr (rc, out, err) \<Rightarrow>
         (let auth = authorization at (rc = 0) (JInt rc) (bounded_error (first_text err out)) in
          if rc \<noteq> 0 then unauthorized W ps cp auth (JInt rc) ''reboot authorization is unavailable''
          else ask_reboot W ps (dict_set ''authorization'' auth cp)))"

definition new_checkpoint :: "manager_paths \<Rightarrow> string \<Rightarrow> string \<Rightarrow> string \<Rightarrow> string \<Rightarrow> json list \<Rightarrow> checkpoint" where
  "new_checkpoint ps cid now boot reason expected =
     [(''schema_version'', JInt 1), (''checkpoint_id'', JStr cid), (''reason'', JStr (redact_text (strip reason))),
      (''requested_at'', JStr now), (''updated_at'', JStr now), (''state'', JStr ''prepared''),
      (''boot_id_before'', JStr boot), (''boot_id_after'', JNull), (''bridge_path'', JStr (path_str (bridge_path ps))),
      (''authorization'', JNull), (''request_result'', JNull), (''expected_instances'', JArr expected),
      (''reconciliation'', JNull), (''last_checked_at'', JNull)]"

definition bridge_ready :: "reboot_world \<Rightarrow> manager_paths \<Rightarrow> machine \<Rightarrow> bool" where
  "bridge_ready W ps m \<longleftrightarrow> x_is_file (mc_fs m) (bridge_path ps) \<and> rw_executable W (bridge_path ps) m"

definition check_reason :: "reboot_world \<Rightarrow> string \<Rightarrow> machine \<Rightarrow> exn + unit" where
  "check_reason W reason m =
     (if is_wsl W m then
        Inl (Managed (ManagerError FEATURE_NOT_IMPLEMENTED
          ''host reboot is unsupported on WSL; WSL restart via an external Windows listener is deferred''
          [(''platform'', JStr ''wsl''), (''reboot_supported'', JBool False)]))
      else if strip reason = [] then
        Inl (Managed (config_error ''reboot reason must be a non-empty string'' []))
      else if 512 < length reason then
        Inl (Managed (config_error ''reboot reason exceeds maximum length'' [(''max_chars'', JInt 512)]))
      else Inr ())"

definition request_reboot ::
  "reboot_world \<Rightarrow> (string \<Rightarrow> string) \<Rightarrow> manager_paths \<Rightarrow> registry_state \<Rightarrow> bool \<Rightarrow> string \<Rightarrow> json bm" where
  "request_reboot W H ps reg can_list reason =
     ebind (eread (\<lambda>s. check_reason W reason (bt_mc s))) (\<lambda>_.
     ebind (eread (\<lambda>s. boot_id W (bt_mc s))) (\<lambda>boot.
     ebind (eread (\<lambda>s. rbind (capture_expected H reg can_list) (\<lambda>expected.
        Inr (new_checkpoint ps (rw_checkpoint_id W (bt_mc s)) (rw_now W (bt_mc s)) boot reason expected)))) (\<lambda>cp.
     ebind (persist W ps cp) (\<lambda>cp.
     ebind (eread (\<lambda>s. Inr (rw_now W (bt_mc s), bridge_ready W ps (bt_mc s)))) (\<lambda>(at, ready).
       if \<not> ready then
         unauthorized W ps cp (authorization at False JNull (JStr ''workspace-mcp-reboot bridge is unavailable'')) JNull
           ''reboot authorization preflight did not run''
       else preflight W ps at cp)))))"

section \<open>Checking\<close>

definition unit_active :: "reboot_world \<Rightarrow> string \<Rightarrow> machine \<Rightarrow> bool" where
  "unit_active W unit m = (case rw_unit_active W unit m of ProcDone rc out err \<Rightarrow> rc = 0 | ProcError e \<Rightarrow> False)"

definition http_of :: "reboot_world \<Rightarrow> string \<Rightarrow> machine \<Rightarrow> int option \<times> string option" where
  "http_of W url m =
     (case rw_http W url m of
        HttpStatus st body \<Rightarrow> (Some st, Some (strip body))
      | HttpError st body \<Rightarrow> (Some st, map_option strip body)
      | HttpNone \<Rightarrow> (None, None))"

text \<open>\<open>str(item.get(k))\<close>.\<close>

definition shown :: "json \<Rightarrow> string \<Rightarrow> string" where
  "shown v k = (case jget_or_null v k of JStr s \<Rightarrow> s | x \<Rightarrow> repr_json x)"

definition probe_url :: "json \<Rightarrow> string \<Rightarrow> string \<Rightarrow> string \<Rightarrow> string" where
  "probe_url v host port path = ''http://'' @ shown v host @ '':'' @ shown v port @ path"

definition opt_int_json :: "int option \<Rightarrow> json" where
  "opt_int_json x = (case x of None \<Rightarrow> JNull | Some i \<Rightarrow> JInt i)"

definition plain_result :: "string \<Rightarrow> string \<Rightarrow> json" where
  "plain_result iid state = JObj [(''instance_id'', JStr iid), (''ok'', JBool False), (''state'', JStr state)]"

definition probe_instance :: "reboot_world \<Rightarrow> machine \<Rightarrow> json \<Rightarrow> string \<Rightarrow> bool \<times> json" where
  "probe_instance W m v iid =
     (let mcp = unit_active W (shown v ''mcp_unit'') m; tunnel = unit_active W (shown v ''tunnel_unit'') m;
          discovery = http_of W (probe_url v ''mcp_host'' ''mcp_port'' ''/.well-known/mcp.json'') m;
          health = http_of W (probe_url v ''tunnel_health_host'' ''tunnel_health_port'' ''/healthz'') m;
          ready = http_of W (probe_url v ''tunnel_health_host'' ''tunnel_health_port'' ''/readyz'') m;
          recovered = (mcp \<and> tunnel \<and> fst discovery = Some 200 \<and> health = (Some 200, Some ''live'') \<and>
                       ready = (Some 200, Some ''ready''))
      in (recovered, JObj
           [(''instance_id'', JStr iid), (''ok'', JBool recovered),
            (''state'', JStr (if recovered then ''recovered'' else ''waiting_recovery'')),
            (''mcp_active'', JBool mcp), (''tunnel_active'', JBool tunnel),
            (''mcp_discovery_status'', opt_int_json (fst discovery)),
            (''tunnel_health_status'', opt_int_json (fst health)), (''tunnel_health'', opt_str (snd health)),
            (''tunnel_ready_status'', opt_int_json (fst ready)), (''tunnel_ready'', opt_str (snd ready))]))"

definition reconcile_instance ::
  "reboot_world \<Rightarrow> (string \<Rightarrow> string) \<Rightarrow> registry_state \<Rightarrow> machine \<Rightarrow> json \<Rightarrow> exn + (bool \<times> json)" where
  "reconcile_instance W H reg m v =
     (case (v, jget v ''instance_id'') of
        (JObj _, Some (JStr iid)) \<Rightarrow>
          Inr (case get reg iid of
                 Inl e \<Rightarrow> (False, plain_result iid ''desired_missing'')
               | Inr d \<Rightarrow>
                   if jget v ''desired_fingerprint'' \<noteq> Some (JStr (fingerprint H d)) then
                     (False, plain_result iid ''desired_changed'')
                   else probe_instance W m v iid)
      | _ \<Rightarrow> Inl (Managed (conflict_error ''reboot checkpoint instance authority is invalid'' [])))"

definition reconcile_instances ::
  "reboot_world \<Rightarrow> (string \<Rightarrow> string) \<Rightarrow> registry_state \<Rightarrow> checkpoint \<Rightarrow> machine \<Rightarrow> exn + (bool \<times> json)" where
  "reconcile_instances W H reg cp m =
     (case cp_get cp ''expected_instances'' of
        JArr items \<Rightarrow>
          rbind (traverse (reconcile_instance W H reg m) items) (\<lambda>rs.
          let ok = list_all fst rs in
          Inr (ok, JObj [(''ok'', JBool ok), (''checked_at'', JStr (rw_now W m)), (''instances'', JArr (map snd rs))]))
      | _ \<Rightarrow> Inl (Managed (conflict_error ''reboot checkpoint expected_instances is invalid'' [])))"

definition same_boot :: "reboot_world \<Rightarrow> manager_paths \<Rightarrow> checkpoint \<Rightarrow> json bm" where
  "same_boot W ps cp =
     ebind (persist W ps cp) (\<lambda>cp.
       case cp_get cp ''state'' of
         JStr st \<Rightarrow>
           if st \<in> {''authorization_failed'', ''request_failed''} then ereturn (public ps cp False (Some st))
           else ereturn (public ps cp True (Some ''pending_no_boot_change''))
       | JArr _ \<Rightarrow> eraise (Raised ''unhashable type'')
       | JObj _ \<Rightarrow> eraise (Raised ''unhashable type'')
       | _ \<Rightarrow> ereturn (public ps cp True (Some ''pending_no_boot_change'')))"

definition new_boot ::
  "reboot_world \<Rightarrow> (string \<Rightarrow> string) \<Rightarrow> manager_paths \<Rightarrow> registry_state \<Rightarrow> string \<Rightarrow> checkpoint \<Rightarrow> json bm" where
  "new_boot W H ps reg boot cp =
     (let cp1 = dict_set ''state'' (JStr ''boot_observed'') (dict_set ''boot_id_after'' (JStr boot) cp) in
      ebind (eread (\<lambda>s. reconcile_instances W H reg cp1 (bt_mc s))) (\<lambda>(ok, doc).
      let state = (if ok then ''reconciled'' else ''boot_observed_waiting_recovery'') in
      ebind (persist W ps (dict_set ''state'' (JStr state) (dict_set ''reconciliation'' doc cp1))) (\<lambda>cp2.
      ereturn (public ps cp2 ok (Some state)))))"

definition check_reboot ::
  "reboot_world \<Rightarrow> (string \<Rightarrow> string) \<Rightarrow> manager_paths \<Rightarrow> registry_state \<Rightarrow> json bm" where
  "check_reboot W H ps reg =
     ebind (eread (\<lambda>s. Inr (x_is_file (mc_fs (bt_mc s)) (checkpoint_path ps)))) (\<lambda>present.
     if \<not> present then
       ereturn (JObj [(''ok'', JBool True), (''action'', JStr ''reboot-check''), (''state'', JStr ''no_checkpoint''),
                      (''checkpoint_path'', JStr (path_str (checkpoint_path ps)))])
     else
       ebind (eread (\<lambda>s. read_checkpoint (checkpoint_path ps) (mc_fs (bt_mc s)))) (\<lambda>cp.
       ebind (eread (\<lambda>s. boot_id W (bt_mc s))) (\<lambda>boot.
       ebind (eread (\<lambda>s. Inr (dict_set ''last_checked_at'' (JStr (rw_now W (bt_mc s))) cp))) (\<lambda>cp.
       case cp_get cp ''boot_id_before'' of
         JStr before \<Rightarrow> if boot = before then same_boot W ps cp else new_boot W H ps reg boot cp
       | _ \<Rightarrow> eraise (Managed (conflict_error ''reboot checkpoint boot_id_before is invalid'' []))))))"

section \<open>The bridge\<close>

definition bridge_main :: "bool \<Rightarrow> string list \<Rightarrow> (string list \<Rightarrow> int option) \<Rightarrow> int" where
  "bridge_main wsl args run =
     (if args \<noteq> [] \<and> args \<noteq> [''--check''] then 2
      else if wsl then 69
      else (case run (if args = [''--check''] then [''/usr/bin/sudo'', ''-n'', ''-l'', ''/usr/bin/systemctl'', ''reboot'']
                      else [''/usr/bin/sudo'', ''-n'', ''/usr/bin/systemctl'', ''reboot'']) of
              Some rc \<Rightarrow> rc | None \<Rightarrow> 127))"

end
