(* ===== verification/Reboot_Props.thy ===== *)
theory Reboot_Props
  imports Reboot Stored_Text
begin

text \<open>
  A reboot is write-ahead: no command of a request runs before the checkpoint that describes it is on
  disk, and what a request answers is what a later check reads.
\<close>

section \<open>Checkpoints on disk\<close>

definition good :: "checkpoint \<Rightarrow> bool" where
  "good cp \<longleftrightarrow> jplain (JObj cp) \<and> map_of cp ''schema_version'' = Some (JInt 1)"

definition read_now :: "manager_paths \<Rightarrow> booter \<Rightarrow> exn + checkpoint" where
  "read_now ps s = read_checkpoint (checkpoint_path ps) (mc_fs (bt_mc s))"

definition recorded_as :: "checkpoint \<Rightarrow> exn + checkpoint \<Rightarrow> bool" where
  "recorded_as cp a \<longleftrightarrow> (\<exists>kvs. a = Inr kvs \<and> (\<forall>k. map_of kvs k = map_option (read_item k) (map_of cp k)))"

lemma open_keys: "\<not> secret_key ''schema_version''" "\<not> secret_key ''state''" "\<not> secret_key ''authorization''"
    "\<not> secret_key ''ok''" "\<not> secret_key ''boot_id_before''"
  by code_simp+

lemma states_unredacted:
  "redact_text ''prepared'' = ''prepared''" "redact_text ''requesting'' = ''requesting''"
  "redact_text ''request_accepted'' = ''request_accepted''" "redact_text ''request_failed'' = ''request_failed''"
  "redact_text ''authorization_failed'' = ''authorization_failed''"
  by code_simp+

lemma good_written: "good cp \<Longrightarrow> jplain v \<Longrightarrow> k \<noteq> ''schema_version'' \<Longrightarrow> good (dict_set k v cp)"
  by (simp add: good_def map_of_dict_set jplain_dict_set del: jplain.simps)

lemma read_back:
  assumes "good cp" and "x_lookup fs p = Some (EFile k (Text (checkpoint_text cp)))"
  shows "recorded_as cp (read_checkpoint p fs)"
proof -
  let ?v = "redact_object (JObj cp)"
  from assms(1) have plain: "jplain ?v" by (intro jplain_redact) (simp add: good_def)
  obtain kvs where kvs: "jsort ?v = JObj kvs" by simp
  have items: "map_of kvs k = map_option (read_item k) (map_of cp k)" for k
    using jget_read_back [of cp k] unfolding kvs by (simp add: jget_def)
  have "read_item ''schema_version'' (JInt 1) = JInt 1" by (simp add: read_item_def open_keys)
  with items [of "''schema_version''"] assms(1) have "jget_or_null (JObj kvs) ''schema_version'' = JInt 1"
    by (simp add: good_def jget_or_null_def jget_def)
  with assms(2) kvs have "read_checkpoint p fs = Inr kvs"
    using written_text [OF plain] loads_indent2_newline [OF plain]
    by (simp add: read_checkpoint_def x_text_def checkpoint_text_def del: redact_object.simps jsort.simps)
  with items show ?thesis by (auto simp: recorded_as_def)
qed

lemma write_checkpoint_done:
  assumes "write_checkpoint p t m = (Inr u, m')" and "pp_parts p \<noteq> []"
  shows "x_lookup (mc_fs m') p = Some (EFile 384 (Text t))"
  using assms
  by (auto simp: write_checkpoint_def eseq_Inr ecatch_def m_fs_def emodify_def x_lookup_def x_put_def
      split: if_splits prod.splits sum.splits)

lemma checkpoint_parts: "pp_parts (checkpoint_path ps) \<noteq> []"
proof -
  have "wf_part ''checkpoint.json''" by code_simp
  then show ?thesis by (simp add: checkpoint_path_def path_div_part)
qed

lemma persist_done:
  assumes "persist W ps cp s = (r, s')"
  shows "bt_runs s' = bt_runs s \<and>
    (case r of Inl e \<Rightarrow> True
     | Inr cp' \<Rightarrow> (\<exists>at. cp' = dict_set ''updated_at'' (JStr at) cp) \<and>
         (if good cp then good cp' \<and> recorded_as cp' (read_now ps s') else True))"
proof (cases r)
  case (Inl e)
  with assms show ?thesis
    by (auto simp: persist_def ebind_Inl eread_def ereturn_def on_boot_def split: prod.splits)
next
  case (Inr cp')
  with assms have cp': "cp' = dict_set ''updated_at'' (JStr (rw_now W (bt_mc s))) cp" and runs: "bt_runs s' = bt_runs s"
    and "write_checkpoint (checkpoint_path ps) (checkpoint_text cp') (bt_mc s) = (Inr (), bt_mc s')"
    by (auto simp: persist_def ebind_Inr eread_def ereturn_def eraise_def on_boot_def ecatch_def
        split: prod.splits sum.splits)
  then have "x_lookup (mc_fs (bt_mc s')) (checkpoint_path ps) = Some (EFile 384 (Text (checkpoint_text cp')))"
    by (intro write_checkpoint_done checkpoint_parts) auto
  moreover have "good cp \<Longrightarrow> good cp'" unfolding cp' by (rule good_written) auto
  ultimately show ?thesis using Inr runs cp' read_back by (auto simp: read_now_def)
qed

section \<open>Requests\<close>

definition disk_state :: "exn + checkpoint \<Rightarrow> json option" where
  "disk_state a = (case a of Inr kvs \<Rightarrow> map_of kvs ''state'' | Inl e \<Rightarrow> None)"

definition authorized_on_disk :: "exn + checkpoint \<Rightarrow> bool" where
  "authorized_on_disk a =
     (case a of Inr kvs \<Rightarrow> jget (cp_get kvs ''authorization'') ''ok'' = Some (JBool True) | Inl e \<Rightarrow> False)"

definition answers_disk :: "manager_paths \<Rightarrow> exn + json \<Rightarrow> booter \<Rightarrow> bool" where
  "answers_disk ps r s =
     (case r of Inl e \<Rightarrow> True
      | Inr doc \<Rightarrow> \<exists>st. jget doc ''state'' = Some (JStr st) \<and> disk_state (read_now ps s) = Some (JStr st))"

lemma recorded_state:
  assumes "recorded_as cp a" and "map_of cp ''state'' = Some (JStr st)"
  shows "disk_state a = Some (JStr (redact_text st))"
  using assms by (auto simp: recorded_as_def disk_state_def read_item_plain open_keys)

lemma jget_public_state: "jget (public ps cp ok None) ''state'' = Some (redact_object (cp_get cp ''state''))"
  by (simp add: public_def jget_def open_keys)

lemma concluded:
  assumes "good cp" and "map_of cp ''state'' = Some (JStr st)" and "conclude W ps cp ok s = (r, s')"
  shows "bt_runs s' = bt_runs s \<and> answers_disk ps r s'"
  using assms(3) unfolding conclude_def
proof (cases rule: ebind_cases)
  case (raised e)
  with persist_done [OF raised(1)] show ?thesis by (simp add: answers_disk_def)
next
  case (went_on cp' t)
  from persist_done [OF went_on(1)] assms(1) obtain at where "bt_runs t = bt_runs s"
    and cp': "cp' = dict_set ''updated_at'' (JStr at) cp" and rec: "recorded_as cp' (read_now ps t)" by auto
  moreover from cp' assms(2) have "map_of cp' ''state'' = Some (JStr st)" by simp
  moreover from this rec recorded_state have "disk_state (read_now ps t) = Some (JStr (redact_text st))" by blast
  ultimately show ?thesis
    using went_on(2) by (auto simp: ereturn_def answers_disk_def jget_public_state cp_get_def)
qed

lemma refused:
  assumes "good cp" and "unauthorized W ps cp auth code err s = (r, s')" and "jplain auth" and "jplain code"
  shows "bt_runs s' = bt_runs s \<and> answers_disk ps r s'"
proof (rule concluded)
  let ?cp = "dict_set ''request_result'' (outcome (JBool False) code (JStr err))
      (dict_set ''state'' (JStr ''authorization_failed'') (dict_set ''authorization'' auth cp))"
  show "good ?cp" using assms by (intro good_written) (simp_all add: outcome_def)
  show "conclude W ps ?cp False s = (r, s')" using assms(2) by (simp add: unauthorized_def)
  show "map_of ?cp ''state'' = Some (JStr ''authorization_failed'')" by simp
qed

lemma result_good: "good cp \<Longrightarrow> jplain v \<Longrightarrow> good (set_result st v cp)"
  unfolding set_result_def by (intro good_written) simp_all

lemma result_state: "map_of (set_result st v cp) ''state'' = Some (JStr st)"
  by (simp add: set_result_def)

lemma failed:
  assumes "good cp" and "request_failed W ps cp code err s = (r, s')" and "jplain code" and "jplain err"
  shows "bt_runs s' = bt_runs s \<and> answers_disk ps r s'"
  using assms unfolding request_failed_def
  by (intro concluded [OF result_good result_state]) (simp_all add: outcome_def)

lemma jplain_bounded: "jplain (bounded_error t)"
  by (simp add: bounded_error_def Let_def)

lemma ran_bridge:
  assumes "attempt_bridge (run_bridge W ps chk) s = (r, t)"
  shows "\<exists>x. r = Inr x \<and> bt_runs t = bt_runs s @ [(chk, read_now ps s)]"
  using assms by (auto simp: attempt_bridge_def run_bridge_def read_now_def split: prod.splits sum.splits bridge_result.splits exn.splits)

lemma read_authorization:
  "jget (read_item ''authorization'' (authorization at True code err)) ''ok'' = Some (JBool True)"
  unfolding read_item_plain [OF open_keys(3)] authorization_def jget_read_back by (simp add: read_item_plain open_keys)

lemma asked:
  assumes "good cp" and "map_of cp ''authorization'' = Some (authorization at True code err)"
    and "ask_reboot W ps cp s = (r, s')"
  shows "answers_disk ps r s' \<and> (bt_runs s' = bt_runs s \<or>
    (\<exists>b. bt_runs s' = bt_runs s @ [(False, b)] \<and> disk_state b = Some (JStr ''requesting'') \<and> authorized_on_disk b))"
  using assms(3) unfolding ask_reboot_def
proof (cases rule: ebind_cases)
  case (raised e)
  with persist_done [OF raised(1)] show ?thesis by (simp add: answers_disk_def)
next
  case (went_on cp' t)
  let ?cp = "set_result ''requesting'' (outcome JNull JNull JNull) cp"
  have "good ?cp" using assms(1) by (intro result_good) (simp_all add: outcome_def)
  with persist_done [OF went_on(1)] obtain at' where runs: "bt_runs t = bt_runs s" and good: "good cp'"
    and cp': "cp' = dict_set ''updated_at'' (JStr at') ?cp" and rec: "recorded_as cp' (read_now ps t)" by auto
  from recorded_state [OF rec, of "''requesting''"] have st: "disk_state (read_now ps t) = Some (JStr ''requesting'')"
    by (simp add: cp' result_state states_unredacted)
  from rec obtain kvs where kvs: "read_now ps t = Inr kvs" "\<And>k. map_of kvs k = map_option (read_item k) (map_of cp' k)"
    by (auto simp: recorded_as_def)
  have "map_of cp' ''authorization'' = Some (authorization at True code err)"
    using assms(2) by (simp add: cp' set_result_def)
  with kvs(2) [of "''authorization''"] have "jget (cp_get kvs ''authorization'') ''ok'' = Some (JBool True)"
    by (simp add: cp_get_def read_authorization)
  then have auth: "authorized_on_disk (read_now ps t)" by (simp add: authorized_on_disk_def kvs(1))
  from went_on(2) obtain x u where u: "bt_runs u = bt_runs t @ [(False, read_now ps t)]"
    and rest: "(case x of Inl e \<Rightarrow> request_failed W ps cp' JNull (bounded_error (err_message e))
     | Inr (rc, out, err) \<Rightarrow>
         if rc \<noteq> 0 then
           request_failed W ps cp' (JInt rc)
             (if bounded_error (first_text err out) = JNull then JStr ''reboot bridge returned failure''
              else bounded_error (first_text err out))
         else conclude W ps (set_result ''request_accepted'' (outcome (JBool True) (JInt 0) JNull) cp') True) u = (r, s')"
    by (elim ebind_cases) (auto dest!: ran_bridge)
  have "bt_runs s' = bt_runs u \<and> answers_disk ps r s'"
  proof (cases x)
    case (Inl e)
    with rest failed [OF good] jplain_bounded show ?thesis by simp
  next
    case (Inr y)
    obtain rc out err where y: "y = (rc, out, err)" by (cases y)
    show ?thesis
    proof (cases "rc = 0")
      case True
      with rest Inr y
      have "conclude W ps (set_result ''request_accepted'' (outcome (JBool True) (JInt 0) JNull) cp') True u = (r, s')"
        by simp
      then show ?thesis by (rule concluded [OF result_good [OF good] result_state, rotated]) (simp add: outcome_def)
    next
      case False
      let ?err = "if bounded_error (first_text err out) = JNull then JStr ''reboot bridge returned failure''
          else bounded_error (first_text err out)"
      from False rest Inr y have "request_failed W ps cp' (JInt rc) ?err u = (r, s')" by simp
      then show ?thesis by (rule failed [OF good]) (simp_all add: jplain_bounded)
    qed
  qed
  then show ?thesis using u runs st auth by auto
qed

lemma preflighted:
  assumes "good cp" and "preflight W ps at cp s = (r, s')"
  shows "answers_disk ps r s' \<and> (bt_runs s' = bt_runs s @ [(True, read_now ps s)] \<or>
    (\<exists>b. bt_runs s' = bt_runs s @ [(True, read_now ps s), (False, b)] \<and>
       disk_state b = Some (JStr ''requesting'') \<and> authorized_on_disk b))"
proof -
  from assms(2) obtain x t where t: "bt_runs t = bt_runs s @ [(True, read_now ps s)]"
    and rest: "(case x of
       Inl e \<Rightarrow>
         unauthorized W ps cp (authorization at False JNull (bounded_error (err_message e))) JNull
           ''reboot authorization preflight failed''
     | Inr (rc, out, err) \<Rightarrow>
         (let auth = authorization at (rc = 0) (JInt rc) (bounded_error (first_text err out)) in
          if rc \<noteq> 0 then unauthorized W ps cp auth (JInt rc) ''reboot authorization is unavailable''
          else ask_reboot W ps (dict_set ''authorization'' auth cp))) t = (r, s')"
    unfolding preflight_def by (elim ebind_cases) (auto dest!: ran_bridge)
  have plain: "jplain (authorization at' ok code (bounded_error e))" if "jplain code" for at' ok code e
    using that jplain_bounded by (simp add: authorization_def)
  show ?thesis
  proof (cases x)
    case (Inl e)
    with rest refused [OF assms(1)] plain t show ?thesis by auto
  next
    case (Inr y)
    obtain rc out err where y: "y = (rc, out, err)" by (cases y)
    show ?thesis
    proof (cases "rc = 0")
      case True
      let ?auth = "authorization at True (JInt 0) (bounded_error (first_text err out))"
      from rest Inr y True have "ask_reboot W ps (dict_set ''authorization'' ?auth cp) t = (r, s')" by simp
      moreover have "good (dict_set ''authorization'' ?auth cp)" using assms(1) plain by (intro good_written) auto
      ultimately have "answers_disk ps r s' \<and> (bt_runs s' = bt_runs t \<or>
          (\<exists>b. bt_runs s' = bt_runs t @ [(False, b)] \<and> disk_state b = Some (JStr ''requesting'') \<and> authorized_on_disk b))"
        by (intro asked [of _ at "JInt 0" "bounded_error (first_text err out)"]) auto
      with t show ?thesis by auto
    next
      case False
      with rest Inr y refused [OF assms(1)] plain t show ?thesis by auto
    qed
  qed
qed

lemma plain_checkpoint: "good (new_checkpoint ps cid now boot reason (map (expected_instance H) ds))"
  by (auto simp: good_def new_checkpoint_def expected_instance_def list_all_iff)

text \<open>C11:
  A reboot request is write-ahead. It starts at most two commands: the preflight, while the
  checkpoint on disk says that the request is prepared, and then the reboot itself, while it says
  that the reboot is being requested and that the preflight authorized it. Whatever it answers, its
  state is the one a later check reads from the disk.
\<close>
theorem reboot_is_write_ahead:
  "case request_reboot W H ps reg can_list reason s of (r, s') \<Rightarrow>
     (bt_runs s' = bt_runs s \<or>
      (\<exists>a. bt_runs s' = bt_runs s @ [(True, a)] \<and> disk_state a = Some (JStr ''prepared'')) \<or>
      (\<exists>a b. bt_runs s' = bt_runs s @ [(True, a), (False, b)] \<and> disk_state a = Some (JStr ''prepared'') \<and>
         disk_state b = Some (JStr ''requesting'') \<and> authorized_on_disk b)) \<and>
     (case r of
        Inl e \<Rightarrow> True
      | Inr doc \<Rightarrow> \<exists>st. jget doc ''state'' = Some (JStr st) \<and> disk_state (read_now ps s') = Some (JStr st))"
proof -
  obtain r s' where run: "request_reboot W H ps reg can_list reason s = (r, s')" by fastforce
  let ?start = "rbind (check_reason W reason (bt_mc s)) (\<lambda>_. rbind (boot_id W (bt_mc s)) (\<lambda>boot.
      rbind (capture_expected H reg can_list) (\<lambda>expected.
        Inr (new_checkpoint ps (rw_checkpoint_id W (bt_mc s)) (rw_now W (bt_mc s)) boot reason expected))))"
  show ?thesis
  proof (cases ?start)
    case (Inl e)
    with run show ?thesis
      by (auto simp: request_reboot_def ebind_def eread_def rbind_def split: sum.splits)
  next
    case (Inr cp)
    then obtain cid now boot ds where "cp = new_checkpoint ps cid now boot reason (map (expected_instance H) ds)"
      by (auto simp: res_simps capture_expected_def managed_def split: sum.splits)
    then have good: "good cp" and st: "map_of cp ''state'' = Some (JStr ''prepared'')"
      using plain_checkpoint by (auto simp: new_checkpoint_def)
    from Inr run have "ebind (persist W ps cp) (\<lambda>cp.
        ebind (eread (\<lambda>s. Inr (rw_now W (bt_mc s), bridge_ready W ps (bt_mc s)))) (\<lambda>(at, ready).
          if \<not> ready then
            unauthorized W ps cp (authorization at False JNull (JStr ''workspace-mcp-reboot bridge is unavailable'')) JNull
              ''reboot authorization preflight did not run''
          else preflight W ps at cp)) s = (r, s')"
      by (auto simp: request_reboot_def ebind_def [of "eread _"] eread_def res_simps)
    then show ?thesis
    proof (cases rule: ebind_cases)
      case (raised e)
      with run persist_done [OF raised(1)] show ?thesis by auto
    next
      case (went_on cp' t)
      from persist_done [OF went_on(1)] good obtain at' where runs: "bt_runs t = bt_runs s" and good': "good cp'"
        and cp': "cp' = dict_set ''updated_at'' (JStr at') cp" and rec: "recorded_as cp' (read_now ps t)" by auto
      from recorded_state [OF rec, of "''prepared''"] have prep: "disk_state (read_now ps t) = Some (JStr ''prepared'')"
        by (simp add: cp' st states_unredacted)
      let ?at = "rw_now W (bt_mc t)"
      from went_on(2) have rest: "(if \<not> bridge_ready W ps (bt_mc t) then
            unauthorized W ps cp' (authorization ?at False JNull (JStr ''workspace-mcp-reboot bridge is unavailable'')) JNull
              ''reboot authorization preflight did not run''
          else preflight W ps ?at cp') t = (r, s')"
        by (simp add: ebind_def eread_def)
      have "answers_disk ps r s' \<and> (bt_runs s' = bt_runs t \<or> bt_runs s' = bt_runs t @ [(True, read_now ps t)] \<or>
          (\<exists>b. bt_runs s' = bt_runs t @ [(True, read_now ps t), (False, b)] \<and>
             disk_state b = Some (JStr ''requesting'') \<and> authorized_on_disk b))"
      proof (cases "bridge_ready W ps (bt_mc t)")
        case True
        with rest preflighted [OF good', of W ps ?at t r s'] show ?thesis by auto
      next
        case False
        with rest refused [OF good'] show ?thesis by (simp add: authorization_def)
      qed
      with runs prep run show ?thesis by (auto simp: answers_disk_def)
    qed
  qed
qed

section \<open>Checks\<close>

definition as_expected :: "reboot_world \<Rightarrow> (string \<Rightarrow> string) \<Rightarrow> registry_state \<Rightarrow> machine \<Rightarrow> json \<Rightarrow> bool" where
  "as_expected W H reg m v \<longleftrightarrow>
     (\<exists>iid d. jget v ''instance_id'' = Some (JStr iid) \<and> get reg iid = Inr d \<and>
        jget v ''desired_fingerprint'' = Some (JStr (fingerprint H d)) \<and>
        unit_active W (shown v ''mcp_unit'') m \<and> unit_active W (shown v ''tunnel_unit'') m \<and>
        http_of W (probe_url v ''tunnel_health_host'' ''tunnel_health_port'' ''/readyz'') m = (Some 200, Some ''ready''))"

lemma probe_recovered:
  "fst (probe_instance W m v iid) \<Longrightarrow> unit_active W (shown v ''mcp_unit'') m \<and> unit_active W (shown v ''tunnel_unit'') m \<and>
    http_of W (probe_url v ''tunnel_health_host'' ''tunnel_health_port'' ''/readyz'') m = (Some 200, Some ''ready'')"
  by (simp add: probe_instance_def Let_def)

lemma reconciled_instance:
  assumes "reconcile_instance W H reg m v = Inr (True, doc)" shows "as_expected W H reg m v"
proof -
  from assms obtain iid where iid: "jget v ''instance_id'' = Some (JStr iid)"
    and r: "(case get reg iid of
                 Inl e \<Rightarrow> (False, plain_result iid ''desired_missing'')
               | Inr d \<Rightarrow>
                   if jget v ''desired_fingerprint'' \<noteq> Some (JStr (fingerprint H d)) then
                     (False, plain_result iid ''desired_changed'')
                   else probe_instance W m v iid) = (True, doc)"
    unfolding reconcile_instance_def by (cases v; cases "jget v ''instance_id''"; cases "the (jget v ''instance_id'')") simp_all
  from r obtain d where "get reg iid = Inr d" "jget v ''desired_fingerprint'' = Some (JStr (fingerprint H d))"
    and "probe_instance W m v iid = (True, doc)" by (cases "get reg iid") (simp_all split: if_splits)
  with iid probe_recovered [of W m v iid] show ?thesis by (simp add: as_expected_def)
qed

lemma traverse_each: "traverse f xs = Inr ys \<Longrightarrow> x \<in> set xs \<Longrightarrow> \<exists>y \<in> set ys. f x = Inr y"
  by (induction xs arbitrary: ys) (auto simp: res_simps)

lemma reconciled_instances:
  assumes "reconcile_instances W H reg cp m = Inr (True, doc)"
  shows "\<exists>items. map_of cp ''expected_instances'' = Some (JArr items) \<and> list_all (as_expected W H reg m) items"
proof -
  from assms obtain items where items: "cp_get cp ''expected_instances'' = JArr items"
    by (cases "cp_get cp ''expected_instances''") (simp_all add: reconcile_instances_def)
  with assms obtain rs where rs: "traverse (reconcile_instance W H reg m) items = Inr rs" and ok: "list_all fst rs"
    by (auto simp: reconcile_instances_def res_simps Let_def)
  have "as_expected W H reg m v" if v: "v \<in> set items" for v
  proof -
    from traverse_each [OF rs v] obtain r where "reconcile_instance W H reg m v = Inr r" "r \<in> set rs" by blast
    with ok reconciled_instance show ?thesis by (cases r) (auto simp: list_all_iff)
  qed
  moreover from items have "map_of cp ''expected_instances'' = Some (JArr items)"
    by (cases "map_of cp ''expected_instances''") (simp_all add: cp_get_def)
  ultimately show ?thesis by (auto simp: list_all_iff)
qed

lemma public_state: "jget (public ps cp ok (Some st)) ''state'' = Some (JStr (redact_text st))"
  by (simp add: public_def jget_def open_keys)

lemma other_states:
  "redact_text ''reconciled'' = ''reconciled''"
  "redact_text ''boot_observed_waiting_recovery'' = ''boot_observed_waiting_recovery''"
  "redact_text ''pending_no_boot_change'' = ''pending_no_boot_change''"
  by code_simp+

lemma same_boot_state:
  assumes "same_boot W ps cp s = (Inr doc, s')" shows "jget doc ''state'' \<noteq> Some (JStr ''reconciled'')"
proof -
  from assms obtain cp' t where "(case cp_get cp' ''state'' of
         JStr st \<Rightarrow>
           if st \<in> {''authorization_failed'', ''request_failed''} then ereturn (public ps cp' False (Some st))
           else ereturn (public ps cp' True (Some ''pending_no_boot_change''))
       | JArr _ \<Rightarrow> eraise (Raised ''unhashable type'')
       | JObj _ \<Rightarrow> eraise (Raised ''unhashable type'')
       | _ \<Rightarrow> ereturn (public ps cp' True (Some ''pending_no_boot_change''))) t = (Inr doc, s')"
    unfolding same_boot_def ebind_Inr by blast
  then show ?thesis
    by (cases "cp_get cp' ''state''")
      (auto simp: ereturn_def eraise_def public_state other_states states_unredacted split: if_splits)
qed

text \<open>C21:
  A check reports a reboot as reconciled only when the boot identifier differs from the one before
  the request and every instance the checkpoint expects is still declared as it was, with both its
  units active and its tunnel ready.
\<close>
theorem reconciled_means_recovered:
  "case check_reboot W H ps reg s of
     (Inl e, s') \<Rightarrow> True
   | (Inr doc, s') \<Rightarrow>
       if jget doc ''state'' = Some (JStr ''reconciled'') then
         \<exists>cp boot before items. read_now ps s = Inr cp \<and> boot_id W (bt_mc s) = Inr boot \<and>
           map_of cp ''boot_id_before'' = Some (JStr before) \<and> before \<noteq> boot \<and>
           map_of cp ''expected_instances'' = Some (JArr items) \<and> list_all (as_expected W H reg (bt_mc s)) items
       else True"
proof (cases "check_reboot W H ps reg s")
  case (Pair r s')
  show ?thesis
  proof (cases "\<exists>doc. r = Inr doc \<and> jget doc ''state'' = Some (JStr ''reconciled'')")
    case False
    with Pair show ?thesis by (auto split: sum.splits)
  next
    case True
    then obtain doc where r: "r = Inr doc" and st: "jget doc ''state'' = Some (JStr ''reconciled'')" by blast
    from st have "doc \<noteq> JObj [(''ok'', JBool True), (''action'', JStr ''reboot-check''), (''state'', JStr ''no_checkpoint''),
        (''checkpoint_path'', JStr (path_str (checkpoint_path ps)))]" by auto
    with Pair r obtain cp boot where cp: "read_now ps s = Inr cp" and boot: "boot_id W (bt_mc s) = Inr boot"
      and rest: "(case cp_get (dict_set ''last_checked_at'' (JStr (rw_now W (bt_mc s))) cp) ''boot_id_before'' of
         JStr before \<Rightarrow>
           if boot = before then same_boot W ps (dict_set ''last_checked_at'' (JStr (rw_now W (bt_mc s))) cp)
           else new_boot W H ps reg boot (dict_set ''last_checked_at'' (JStr (rw_now W (bt_mc s))) cp)
       | _ \<Rightarrow> eraise (Managed (conflict_error ''reboot checkpoint boot_id_before is invalid'' []))) s = (Inr doc, s')"
      by (auto simp: check_reboot_def em_Inr read_now_def ereturn_def split: if_splits)
    let ?cp = "dict_set ''last_checked_at'' (JStr (rw_now W (bt_mc s))) cp"
    from rest obtain before where before: "cp_get cp ''boot_id_before'' = JStr before"
      and branch: "(if boot = before then same_boot W ps ?cp else new_boot W H ps reg boot ?cp) s = (Inr doc, s')"
      by (cases "cp_get cp ''boot_id_before''") (simp_all add: cp_get_def eraise_def)
    from branch same_boot_state st have "boot \<noteq> before" and new: "new_boot W H ps reg boot ?cp s = (Inr doc, s')"
      by (auto split: if_splits)
    from new obtain ok d cp2 where rec: "reconcile_instances W H reg
        (dict_set ''state'' (JStr ''boot_observed'') (dict_set ''boot_id_after'' (JStr boot) ?cp)) (bt_mc s) = Inr (ok, d)"
      and doc: "doc = public ps cp2 ok (Some (if ok then ''reconciled'' else ''boot_observed_waiting_recovery''))"
      by (auto simp: new_boot_def Let_def ebind_Inr eread_Inr ereturn_Inr split: prod.splits)
    from st have ok by (cases ok) (simp_all add: doc public_state other_states)
    with rec reconciled_instances obtain items where "map_of cp ''expected_instances'' = Some (JArr items)"
      "list_all (as_expected W H reg (bt_mc s)) items" by fastforce
    moreover from before have "map_of cp ''boot_id_before'' = Some (JStr before)"
      by (cases "map_of cp ''boot_id_before''") (simp_all add: cp_get_def)
    ultimately show ?thesis using Pair r cp boot \<open>boot \<noteq> before\<close> by auto
  qed
qed

end
