(* ===== verification/Upgrade_State.thy ===== *)
theory Upgrade_State
  imports Access_Manager HostFs
begin

text \<open>
  The journal of an instance upgrade (upgrade_state.py): its record, its document, and the
  validation every reader of it goes through. The text of a Python exception raised by a journal
  of the wrong shape is not kept, only that it is refused.
\<close>

section \<open>Equality of documents\<close>

text \<open>
  Python's \<open>==\<close> on parsed JSON: the order of keys does not matter and booleans equal 0 and 1. Two
  real literals are compared by their text.
\<close>

lemma zip_left_size [termination_simp]: "(a, b) \<in> set (zip xs ys) \<Longrightarrow> size a < Suc (size_list size xs)"
  by (auto dest!: set_zip_leftD intro: le_imp_less_Suc size_list_estimation')

fun py_eq :: "json \<Rightarrow> json \<Rightarrow> bool" where
  "py_eq JNull w = (w = JNull)"
| "py_eq (JStr s) w = (w = JStr s)"
| "py_eq (JArr xs) w =
     (case w of
        JArr ys \<Rightarrow> length xs = length ys \<and> list_all (\<lambda>(x, y). py_eq x y) (zip xs ys)
      | _ \<Rightarrow> False)"
| "py_eq (JObj kvs) w =
     (case w of
        JObj kws \<Rightarrow>
          length kvs = length kws \<and>
          list_all (\<lambda>(k, x). case map_of kws k of None \<Rightarrow> False | Some y \<Rightarrow> py_eq x y) kvs
      | _ \<Rightarrow> False)"
| "py_eq (JBool b) w = eq_int w (if b then 1 else 0)"
| "py_eq (JInt i) w = eq_int w i"
| "py_eq (JReal r) w =
     (case w of
        JReal q \<Rightarrow> r = q \<and> r \<noteq> ''nan''
      | JInt i \<Rightarrow> real_eq_int r i
      | JBool b \<Rightarrow> real_eq_int r (if b then 1 else 0)
      | _ \<Rightarrow> False)"

section \<open>Reading with unique keys\<close>

text \<open>\<open>object_pairs_hook=_unique\<close>: a key that an object already has is refused.\<close>

definition repeats_key :: "token \<Rightarrow> pstate \<Rightarrow> bool" where
  "repeats_key t s =
     (case (t, s) of
        (TStr k, (m, FObj kvs # st)) \<Rightarrow> m \<in> {WantKey, WantKeyOrEnd} \<and> k \<in> fst ` set kvs
      | _ \<Rightarrow> False)"

fun unique_run :: "token list \<Rightarrow> pstate option \<Rightarrow> pstate option" where
  "unique_run ts None = None"
| "unique_run [] (Some s) = Some s"
| "unique_run (t # ts) (Some s) = (if repeats_key t s then None else unique_run ts (pstep t s))"

definition loads_unique :: "string \<Rightarrow> json option" where
  "loads_unique s =
     (case lex s of
        None \<Rightarrow> None
      | Some ts \<Rightarrow>
          (case unique_run ts (Some (WantValue, [])) of Some (Finished v, []) \<Rightarrow> Some v | _ \<Rightarrow> None))"

section \<open>The record\<close>

datatype upgrade_phase = Pending | Updating | Applying | Completed

fun phase_value :: "upgrade_phase \<Rightarrow> string" where
  "phase_value Pending = ''pending''"
| "phase_value Updating = ''updating''"
| "phase_value Applying = ''applying''"
| "phase_value Completed = ''completed''"

definition phase_of :: "json \<Rightarrow> upgrade_phase option" where
  "phase_of v = (case v of JStr s \<Rightarrow> find (\<lambda>p. phase_value p = s) [Pending, Updating, Applying, Completed] | _ \<Rightarrow> None)"

record upgrade_row =
  ur_id :: string
  ur_original :: json
  ur_candidate :: json
  ur_original_fp :: string
  ur_candidate_fp :: string
  ur_force :: bool
  ur_plan :: "string option"
  ur_phase :: upgrade_phase
  ur_transaction :: "string option"

record upgrade =
  up_token :: string
  up_home :: string
  up_prefix :: string
  up_registry :: string
  up_target :: string
  up_release :: string
  up_backup :: string
  up_rows :: "upgrade_row list"
  up_status :: string
  up_failed :: "string option"
  up_error :: "string option"

definition row_doc :: "upgrade_row \<Rightarrow> json" where
  "row_doc r =
     JObj [(''instance_id'', JStr (ur_id r)), (''original'', ur_original r), (''candidate'', ur_candidate r),
           (''original_fingerprint'', JStr (ur_original_fp r)), (''candidate_fingerprint'', JStr (ur_candidate_fp r)),
           (''force_restart'', JBool (ur_force r)), (''plan_fingerprint'', opt_str (ur_plan r)),
           (''phase'', JStr (phase_value (ur_phase r))), (''apply_transaction'', opt_str (ur_transaction r))]"

definition upgrade_doc :: "upgrade \<Rightarrow> json" where
  "upgrade_doc u =
     JObj [(''account_home'', JStr (up_home u)), (''prefix'', JStr (up_prefix u)), (''registry_dir'', JStr (up_registry u)),
           (''target_root'', JStr (up_target u)), (''target_release'', JStr (up_release u)), (''schema_version'', JInt 1),
           (''token'', JStr (up_token u)), (''backup'', JStr (up_backup u)), (''entries'', JArr (map row_doc (up_rows u))),
           (''status'', JStr (up_status u)), (''failed'', opt_str (up_failed u)), (''error'', opt_str (up_error u))]"

section \<open>Validation\<close>

type_synonym 'a checked = "string + 'a"

definition exactly :: "string list \<Rightarrow> json \<Rightarrow> bool" where
  "exactly ks v \<longleftrightarrow> (case v of JObj kvs \<Rightarrow> set (map fst kvs) = set ks | _ \<Rightarrow> False)"

definition malformed :: string where
  "malformed = ''invalid instance upgrade journal''"

definition text_item :: "json \<Rightarrow> string \<Rightarrow> string checked" where
  "text_item v k = (case jget v k of Some (JStr s) \<Rightarrow> Inr s | _ \<Rightarrow> Inl malformed)"

definition hexadecimal :: "nat \<Rightarrow> string \<Rightarrow> bool" where
  "hexadecimal n s \<longleftrightarrow> length s = n \<and> list_all (\<lambda>c. is_digit c \<or> c \<in> set ''abcdef'') s"

definition is_release :: "string \<Rightarrow> bool" where
  "is_release s \<longleftrightarrow> prefix ''dist-'' s \<and> hexadecimal 40 (drop 5 s)"

definition row_keys :: "string list" where
  "row_keys = [''instance_id'', ''original'', ''candidate'', ''original_fingerprint'', ''candidate_fingerprint'',
     ''force_restart'', ''plan_fingerprint'', ''phase'', ''apply_transaction'']"

definition upgrade_keys :: "string list" where
  "upgrade_keys = [''schema_version'', ''token'', ''account_home'', ''prefix'', ''registry_dir'', ''target_root'',
     ''target_release'', ''backup'', ''entries'', ''status'', ''failed'', ''error'']"

definition mcp_runtime :: "ppath \<Rightarrow> ppath" where
  "mcp_runtime target = path_div target ''runtimes/coding-tools-mcp/bin/coding-tools-mcp''"

definition tunnel_runtime :: "ppath \<Rightarrow> ppath" where
  "tunnel_runtime target = path_div target ''runtimes/tunnel-client/tunnel-client''"

text \<open>\<open>v['mcp']['binary'] = mcp; v['tunnel']['binary'] = tunnel\<close>.\<close>

definition with_binaries :: "string \<Rightarrow> string \<Rightarrow> json \<Rightarrow> json" where
  "with_binaries mcp tunnel v =
     (let v1 = set_item v ''mcp'' (set_item (jitem v ''mcp'') ''binary'' (JStr mcp))
      in set_item v1 ''tunnel'' (set_item (jitem v1 ''tunnel'') ''binary'' (JStr tunnel)))"

definition running_lifecycle :: json where
  "running_lifecycle = JObj [(''deployment'', JStr ''present''), (''runtime'', JStr ''running'')]"

definition fingerprint_item :: "json \<Rightarrow> string \<Rightarrow> string checked" where
  "fingerprint_item v k =
     (case jget v k of
        Some (JStr s) \<Rightarrow> require (hexadecimal 64 s) ''invalid declaration fingerprint'' (Inr s)
      | _ \<Rightarrow> Inl ''invalid declaration fingerprint'')"

definition optional_item :: "(string \<Rightarrow> bool) \<Rightarrow> string \<Rightarrow> json \<Rightarrow> string \<Rightarrow> string option checked" where
  "optional_item ok why v k =
     (case jget_or_null v k of
        JNull \<Rightarrow> Inr None
      | JStr s \<Rightarrow> require (ok s) why (Inr (Some s))
      | _ \<Rightarrow> Inl why)"

definition transaction_name :: "string \<Rightarrow> bool" where
  "transaction_name s \<longleftrightarrow> s \<noteq> [] \<and> list_all (\<lambda>c. is_letter c \<or> is_digit c \<or> c = CHR ''_'' \<or> c = CHR ''-'') s"

definition read_row :: "ppath \<Rightarrow> json \<Rightarrow> upgrade_row checked" where
  "read_row target v =
     require (exactly row_keys v) ''invalid upgrade entry''
     (rbind (case jget v ''instance_id'' of
              Some (JStr s) \<Rightarrow> require (instance_id_ok s) ''invalid upgrade instance'' (Inr s)
            | _ \<Rightarrow> Inl ''invalid upgrade instance'') (\<lambda>iid.
      rbind (case (phase_of (jget_or_null v ''phase''), jget v ''force_restart'') of
              (Some p, Some (JBool f)) \<Rightarrow> Inr (p, f)
            | _ \<Rightarrow> Inl ''invalid instance upgrade phase'') (\<lambda>(phase, force).
      rbind (fingerprint_item v ''original_fingerprint'') (\<lambda>original_fp.
      rbind (fingerprint_item v ''candidate_fingerprint'') (\<lambda>candidate_fp.
      rbind (optional_item (hexadecimal 64) ''invalid plan fingerprint'' v ''plan_fingerprint'') (\<lambda>plan.
      rbind (optional_item transaction_name ''invalid apply transaction'' v ''apply_transaction'') (\<lambda>tx.
      let original = jget_or_null v ''original''; candidate = jget_or_null v ''candidate'' in
      require (is_obj original \<and> is_obj candidate \<and> jget original ''instance_id'' = Some (JStr iid) \<and>
               jget candidate ''instance_id'' = Some (JStr iid)) ''invalid declaration snapshot''
     (require (is_obj (jitem original ''mcp'') \<and> is_obj (jitem original ''tunnel'')) malformed
     (require (py_eq (with_binaries (path_str (mcp_runtime target)) (path_str (tunnel_runtime target)) original) candidate)
        ''upgrade changes fields other than runtime paths''
     (require (jget original ''lifecycle'' \<noteq> None) malformed
     (require (force = py_eq (jitem original ''lifecycle'') running_lifecycle) ''invalid restart policy''
      (Inr \<lparr>ur_id = iid, ur_original = original, ur_candidate = candidate, ur_original_fp = original_fp,
            ur_candidate_fp = candidate_fp, ur_force = force, ur_plan = plan, ur_phase = phase,
            ur_transaction = tx\<rparr>))))))))))))"

definition read_rows :: "ppath \<Rightarrow> json \<Rightarrow> upgrade_row list checked" where
  "read_rows target v = (case v of JArr xs \<Rightarrow> traverse (read_row target) xs | _ \<Rightarrow> Inl ''invalid upgrade progress'')"

definition journal_home :: "ppath \<Rightarrow> ppath option" where
  "journal_home p = (case drop 3 (path_parents p) of h # _ \<Rightarrow> Some h | [] \<Rightarrow> None)"

definition journal_target :: "ppath \<Rightarrow> string \<Rightarrow> ppath" where
  "journal_target pre release = path_div (path_div pre ''lib/workspace-mcp-manager/releases'') release"

text \<open>The places the journal names are those its own path and prefix give.\<close>

definition check_places :: "ppath \<Rightarrow> json \<Rightarrow> string \<Rightarrow> string \<Rightarrow> ppath checked" where
  "check_places p v token release =
     (case journal_home p of
        None \<Rightarrow> Inl malformed
      | Some home \<Rightarrow>
          rbind (text_item v ''prefix'') (\<lambda>pre.
          let target = journal_target (path_of pre) release in
          require (path_is_absolute (path_of pre) \<and> ''..'' \<notin> set (pp_parts (path_of pre)) \<and>
                   jget v ''account_home'' = Some (JStr (path_str home))) ''invalid upgrade account or prefix''
         (require (jget v ''registry_dir'' = Some (JStr (path_str (path_div home ''.config/workspace-mcp-manager/instances''))) \<and>
                   jget v ''target_root'' = Some (JStr (path_str target))) ''invalid upgrade target''
         (require (jget v ''backup'' = Some (JStr (path_str
              (path_div (path_div (path_parent p) ''backups'') (''instance-upgrade-'' @ token))))) ''invalid upgrade backup''
          (Inr target)))))"

definition check_progress :: "json \<Rightarrow> upgrade_row list \<Rightarrow> (string option \<times> string option) checked" where
  "check_progress v rows =
     (let names = map ur_id rows in
      require (sorted names \<and> distinct names) ''invalid upgrade instance sequence''
     (rbind (optional_item (\<lambda>s. s \<in> set names) ''invalid upgrade instance sequence'' v ''failed'') (\<lambda>failed.
      rbind (optional_item (\<lambda>_. True) ''invalid upgrade error'' v ''error'') (\<lambda>err.
      require (jget v ''status'' = Some (JStr ''completed'') \<longrightarrow> list_all (\<lambda>r. ur_phase r = Completed) rows)
        ''incomplete completed upgrade''
      (Inr (failed, err))))))"

definition validate_upgrade :: "ppath \<Rightarrow> json \<Rightarrow> upgrade checked" where
  "validate_upgrade p v =
     require (exactly upgrade_keys v \<and> jget v ''schema_version'' = Some (JInt 1)) ''unsupported instance upgrade journal''
     (rbind (text_item v ''token'') (\<lambda>token.
      rbind (if hexadecimal 32 token then text_item v ''target_release'' else Inl ''invalid upgrade identity'') (\<lambda>release.
      require (is_release release) ''invalid upgrade identity''
     (rbind (check_places p v token release) (\<lambda>target.
      rbind (case jget v ''status'' of
              Some (JStr s) \<Rightarrow>
                require (s \<in> {''running'', ''failed'', ''completed''}) ''invalid upgrade progress'' (Inr s)
            | Some (JArr _) \<Rightarrow> Inl malformed
            | Some (JObj _) \<Rightarrow> Inl malformed
            | _ \<Rightarrow> Inl ''invalid upgrade progress'') (\<lambda>status.
      rbind (read_rows target (jget_or_null v ''entries'')) (\<lambda>rows.
      rbind (check_progress v rows) (\<lambda>(failed, err).
      rbind (text_item v ''prefix'') (\<lambda>pre.
      rbind (text_item v ''account_home'') (\<lambda>home.
      rbind (text_item v ''registry_dir'') (\<lambda>registry.
      rbind (text_item v ''backup'') (\<lambda>backup.
      Inr \<lparr>up_token = token, up_home = home, up_prefix = pre, up_registry = registry, up_target = path_str target,
           up_release = release, up_backup = backup, up_rows = rows, up_status = status, up_failed = failed,
           up_error = err\<rparr>))))))))))))"

definition read_upgrade :: "ppath \<Rightarrow> fs \<Rightarrow> upgrade checked" where
  "read_upgrade p fs =
     require (\<not> x_is_symlink fs p \<and> x_is_file fs p) ''instance upgrade journal must be a regular file''
     (case x_text (x_follow (x_lookup fs p)) of
        TextOk t \<Rightarrow> (case loads_unique t of Some v \<Rightarrow> validate_upgrade p v | None \<Rightarrow> Inl malformed)
      | _ \<Rightarrow> Inl malformed)"

end
