(* ===== verification/Upgrade.thy ===== *)
theory Upgrade
  imports Upgrade_State Projection
begin

text \<open>
  The upgrade of all instances to the runtimes of a new release (instance_upgrade.py): a preview
  that is reviewed, an apply that checks the review and writes a backup and a journal, and the
  resumable loop over the instances, which updates each declaration and applies it.

  The registry and the machine are two views of one file system; the journal is written to both,
  because the registry refuses changes while it exists. What the distribution's own modules report
  (its runtimes, its release manifest, the state of maintenance, its locks) is an argument.
\<close>

section \<open>State\<close>

record upgrade_world =
  uw_systemd :: systemd
  uw_hash :: "string \<Rightarrow> string"
  uw_generator :: generator
  uw_write_ok :: bool
  uw_patience :: nat
  uw_names :: "string \<Rightarrow> machine \<Rightarrow> names"
  uw_token :: "machine \<Rightarrow> string"
  uw_defaults :: "machine \<Rightarrow> string + (ppath option \<times> ppath \<times> ppath)"
  uw_release :: "ppath \<Rightarrow> machine \<Rightarrow> string + json"
  uw_status :: "ppath \<Rightarrow> machine \<Rightarrow> string + json"
  uw_lock :: "machine \<Rightarrow> string + unit"
  uw_quiescent :: "string list \<Rightarrow> machine \<Rightarrow> string + unit"

definition uw_paths :: "upgrade_world \<Rightarrow> manager_paths" where
  "uw_paths W = gen_paths (uw_generator W)"

record upgrader =
  ug_mg :: manager
  ug_up :: upgrade

type_synonym 'a um = "(upgrader, exn, 'a) em"

definition with_mg :: "'a sm \<Rightarrow> 'a um" where
  "with_mg c s = (case c (ug_mg s) of (r, g) \<Rightarrow> (r, s\<lparr>ug_mg := g\<rparr>))"

definition blocked :: "string \<Rightarrow> exn" where
  "blocked msg = Managed (conflict_error msg [])"

definition stale :: "string \<Rightarrow> exn" where
  "stale msg = Managed (ManagerError STALE_STATE msg [])"

definition ensure :: "bool \<Rightarrow> exn \<Rightarrow> exn + unit" where
  "ensure c e = (if c then Inr () else Inl e)"

text \<open>What the distribution's modules raise is reported as a conflict.\<close>

definition reported :: "string + 'a \<Rightarrow> exn + 'a" where
  "reported r = (case r of Inl e \<Rightarrow> Inl (blocked e) | Inr x \<Rightarrow> Inr x)"

section \<open>Files\<close>

definition upgrade_journal :: "manager_paths \<Rightarrow> ppath" where
  "upgrade_journal ps = path_div (state_root ps) ''instance-upgrade.json''"

text \<open>\<open>json.dump\<close> with its default of ASCII output.\<close>

definition ascii_escape :: "char \<Rightarrow> string" where
  "ascii_escape c =
     (if 127 \<le> code_of c then
        [CHR 0x5C, CHR ''u'', CHR ''0'', CHR ''0'', hex_digit (code_of c div 16), hex_digit (code_of c mod 16)]
      else [c])"

definition ascii_only :: "string \<Rightarrow> string" where
  "ascii_only s = concat (map ascii_escape s)"

definition json_file :: "json \<Rightarrow> string" where
  "json_file v = ascii_only (dumps_indent2 v) @ newline"

definition digest :: "(string \<Rightarrow> string) \<Rightarrow> json \<Rightarrow> string" where
  "digest H v = H (ascii_only (dumps_compact v))"

definition write_json :: "ppath \<Rightarrow> json \<Rightarrow> unit mm" where
  "write_json p v =
     eseq (m_mkdir (path_parent p) True 448)
       (\<lambda>m. if p \<in> set (mc_refuses m) \<or> (case x_lookup (mc_fs m) p of Some (EDir k) \<Rightarrow> True | _ \<Rightarrow> False)
             then (Inl (Raised (path_str p)), m)
             else m_fs (x_put p (EFile 384 (Text (json_file v)))) m)"

definition read_json :: "ppath \<Rightarrow> fs \<Rightarrow> exn + json" where
  "read_json p fs =
     (if x_is_symlink fs p \<or> \<not> x_is_file fs p then Inl (Raised (''not a regular file: '' @ path_str p))
      else
        (case x_text (x_follow (x_lookup fs p)) of
           TextOk t \<Rightarrow>
             (case loads_unique t of
                Some (JObj kvs) \<Rightarrow> Inr (JObj kvs)
              | Some v \<Rightarrow> Inl (Raised (''JSON object required: '' @ path_name p))
              | None \<Rightarrow> Inl (Raised (''cannot read '' @ path_name p)))
         | _ \<Rightarrow> Inl (Raised (''cannot read '' @ path_name p))))"

definition in_registry :: "(files \<Rightarrow> files) \<Rightarrow> unit sm" where
  "in_registry f = emodify (\<lambda>s. s\<lparr>mg_registry := (mg_registry s)\<lparr>rs_files := f (rs_files (mg_registry s))\<rparr>\<rparr>)"

definition save_upgrade :: "upgrade_world \<Rightarrow> upgrade \<Rightarrow> unit sm" where
  "save_upgrade W u =
     (let p = upgrade_journal (uw_paths W) in
      eseq (on_machine (write_json p (upgrade_doc u)))
        (in_registry (dict_set p (FText (json_file (upgrade_doc u))))))"

definition forget_upgrade :: "upgrade_world \<Rightarrow> unit sm" where
  "forget_upgrade W =
     (let p = upgrade_journal (uw_paths W) in
      eseq (on_machine (m_unlink p)) (in_registry (filter (\<lambda>q. fst q \<noteq> p))))"

definition has_journal :: "upgrade_world \<Rightarrow> machine \<Rightarrow> bool" where
  "has_journal W m \<longleftrightarrow>
     (let p = upgrade_journal (uw_paths W) in x_exists (mc_fs m) p \<or> x_is_symlink (mc_fs m) p)"

section \<open>The target release\<close>

definition declared :: "manager \<Rightarrow> exn + desired_instance list" where
  "declared s = managed (list_instances (mg_registry s) True)"

definition pending_imports :: "manager_paths \<Rightarrow> fs \<Rightarrow> bool" where
  "pending_imports ps fs \<longleftrightarrow> list_ex (suffix ''.json'') (x_children fs (path_div (state_root ps) ''imports''))"

record release_target =
  ut_root :: ppath
  ut_prefix :: ppath
  ut_mcp :: ppath
  ut_tunnel :: ppath
  ut_manifest :: json

definition check_status :: "upgrade_world \<Rightarrow> ppath \<Rightarrow> ppath \<Rightarrow> machine \<Rightarrow> exn + unit" where
  "check_status W root pre m =
     rbind (reported (uw_status W pre m)) (\<lambda>status.
     rbind (ensure (jget status ''ownership'' = Some (JStr ''standalone_distribution'') \<and>
                    jget status ''current'' = Some (JStr (path_name root)))
              (blocked ''the executing instance-upgrade release is no longer current'')) (\<lambda>_.
     ensure (\<not> (truthy (jget_or_null status ''recovery_required'') \<and> \<not> x_exists (mc_fs m) (upgrade_journal (uw_paths W))))
       (blocked ''recover pending distribution maintenance or imports first'')))"

definition check_pending :: "upgrade_world \<Rightarrow> machine \<Rightarrow> exn + unit" where
  "check_pending W m =
     (let ps = uw_paths W; fs = mc_fs m;
          there = (\<lambda>n. let p = path_div (state_root ps) n in x_exists fs p \<or> x_is_symlink fs p) in
      rbind (ensure (\<not> list_ex there [''distribution-transaction.json'', ''maintenance-transaction.json''])
               (blocked ''recover pending distribution maintenance first'')) (\<lambda>_.
      ensure (\<not> pending_imports ps fs) (blocked ''recover pending legacy imports first'')))"

definition upgrade_target :: "upgrade_world \<Rightarrow> machine \<Rightarrow> exn + release_target" where
  "upgrade_target W m =
     (let ps = uw_paths W in
      rbind (ensure (registry_dir ps = path_div (account_home ps) ''.config/workspace-mcp-manager/instances'')
               (blocked ''instance upgrade requires the canonical account registry'')) (\<lambda>_.
      rbind (reported (uw_defaults W m)) (\<lambda>(root, mcp, tunnel).
      case root of
        None \<Rightarrow> Inl (blocked ''instance upgrade requires an installed, verified distribution'')
      | Some r \<Rightarrow>
          (case drop 3 (path_parents r) of
             [] \<Rightarrow> Inl (Raised ''3'')
           | pre # _ \<Rightarrow>
               rbind (reported (uw_release W r m)) (\<lambda>manifest.
               rbind (check_status W r pre m) (\<lambda>_.
               rbind (check_pending W m) (\<lambda>_.
               Inr \<lparr>ut_root = r, ut_prefix = pre, ut_mcp = mcp, ut_tunnel = tunnel, ut_manifest = manifest\<rparr>)))))))"

section \<open>The preview\<close>

record preview_row =
  pr_row :: upgrade_row
  pr_valid :: bool
  pr_errors :: json
  pr_operations :: json

definition view_valid :: "json \<Rightarrow> bool" where
  "view_valid v \<longleftrightarrow> truthy (jget_or_null (jitem v ''proposed_plan'') ''valid'')"

definition view_clear :: "json \<Rightarrow> bool" where
  "view_clear v \<longleftrightarrow> truthy (jget_or_null (jitem v ''collision_result'') ''clear'')"

definition view_plan :: "json \<Rightarrow> string option" where
  "view_plan v = (case jget v ''plan_fingerprint'' of Some (JStr f) \<Rightarrow> Some f | _ \<Rightarrow> None)"

definition look_at :: "upgrade_world \<Rightarrow> manager \<Rightarrow> desired_instance \<Rightarrow> exn + json option" where
  "look_at W s d =
     (if is_present d then
        rbind (preview (uw_systemd W) (uw_hash W) (uw_generator W) (mg_registry s) d (mg_machine s)) (\<lambda>v. Inr (Some v))
      else Inr None)"

definition preview_one :: "upgrade_world \<Rightarrow> manager \<Rightarrow> release_target \<Rightarrow> desired_instance \<Rightarrow> exn + preview_row" where
  "preview_one W s t d =
     (let original = to_dict d;
          candidate = with_binaries (path_str (ut_mcp t)) (path_str (ut_tunnel t)) original in
      rbind (managed (from_dict candidate)) (\<lambda>proposed.
      rbind (look_at W s proposed) (\<lambda>view.
      Inr \<lparr>pr_row = \<lparr>ur_id = di_id d, ur_original = original, ur_candidate = candidate,
              ur_original_fp = fingerprint (uw_hash W) d, ur_candidate_fp = fingerprint (uw_hash W) proposed,
              ur_force = py_eq (jitem candidate ''lifecycle'') running_lifecycle,
              ur_plan = Option.bind view view_plan, ur_phase = Pending, ur_transaction = None\<rparr>,
           pr_valid = (case view of None \<Rightarrow> True
                       | Some v \<Rightarrow> truthy (jget_or_null v ''ok'') \<and> view_valid v \<and> view_clear v),
           pr_errors = (case view of None \<Rightarrow> JArr [] | Some v \<Rightarrow> jget_or_null v ''errors''),
           pr_operations = (case view of None \<Rightarrow> JArr [] | Some v \<Rightarrow> jget_or_null v ''semantic_operations'')\<rparr>)))"

definition preview_row_doc :: "preview_row \<Rightarrow> json" where
  "preview_row_doc p =
     (let r = pr_row p in
      JObj [(''instance_id'', JStr (ur_id r)), (''original'', ur_original r), (''candidate'', ur_candidate r),
            (''original_fingerprint'', JStr (ur_original_fp r)), (''candidate_fingerprint'', JStr (ur_candidate_fp r)),
            (''force_restart'', JBool (ur_force r)), (''plan_fingerprint'', opt_str (ur_plan r)),
            (''valid'', JBool (pr_valid p)), (''errors'', pr_errors p), (''operations'', pr_operations p)])"

definition preview_body :: "upgrade_world \<Rightarrow> release_target \<Rightarrow> preview_row list \<Rightarrow> (string \<times> json) list" where
  "preview_body W t rows =
     (let ps = uw_paths W in
      [(''schema_version'', JInt 1), (''action'', JStr ''instance-upgrade''), (''ok'', JBool (list_all pr_valid rows)),
       (''account_home'', JStr (path_str (account_home ps))), (''prefix'', JStr (path_str (ut_prefix t))),
       (''registry_dir'', JStr (path_str (registry_dir ps))), (''target_root'', JStr (path_str (ut_root t))),
       (''target_release'', JStr (path_name (ut_root t))),
       (''product_version'', jget_or_null (ut_manifest t) ''product_version''),
       (''components'', jget_or_null (ut_manifest t) ''components''), (''instances'', JArr (map preview_row_doc rows))])"

definition preview_fingerprint :: "upgrade_world \<Rightarrow> release_target \<Rightarrow> preview_row list \<Rightarrow> string" where
  "preview_fingerprint W t rows = digest (uw_hash W) (JObj (preview_body W t rows))"

definition preview_doc :: "upgrade_world \<Rightarrow> release_target \<Rightarrow> preview_row list \<Rightarrow> json" where
  "preview_doc W t rows =
     JObj (preview_body W t rows @ [(''fingerprint'', JStr (preview_fingerprint W t rows))])"

definition preview_upgrade :: "upgrade_world \<Rightarrow> manager \<Rightarrow> exn + (release_target \<times> preview_row list)" where
  "preview_upgrade W s =
     rbind (ensure (\<not> has_journal W (mg_machine s)) (blocked ''recover the pending instance upgrade first'')) (\<lambda>_.
     rbind (upgrade_target W (mg_machine s)) (\<lambda>t.
     rbind (declared s) (\<lambda>ds.
     rbind (traverse (preview_one W s t) ds) (\<lambda>rows. Inr (t, rows)))))"

section \<open>Resuming\<close>

definition row_at :: "nat \<Rightarrow> upgrader \<Rightarrow> upgrade_row" where
  "row_at i s = up_rows (ug_up s) ! i"

definition set_row :: "nat \<Rightarrow> (upgrade_row \<Rightarrow> upgrade_row) \<Rightarrow> unit um" where
  "set_row i f = emodify (\<lambda>s. s\<lparr>ug_up := (ug_up s)\<lparr>up_rows := (up_rows (ug_up s))[i := f (row_at i s)]\<rparr>\<rparr>)"

definition save :: "upgrade_world \<Rightarrow> unit um" where
  "save W s = with_mg (save_upgrade W (ug_up s)) s"

definition enter_phase :: "upgrade_world \<Rightarrow> nat \<Rightarrow> upgrade_phase \<Rightarrow> unit um" where
  "enter_phase W i p = eseq (set_row i (\<lambda>r. r\<lparr>ur_phase := p\<rparr>)) (save W)"

definition verify_instance :: "upgrade_world \<Rightarrow> desired_instance \<Rightarrow> unit um" where
  "verify_instance W d =
     (if \<not> is_present d then ereturn ()
      else
        ebind (eread (\<lambda>s. preview (uw_systemd W) (uw_hash W) (uw_generator W) (mg_registry (ug_mg s)) d
                            (mg_machine (ug_mg s)))) (\<lambda>v.
        if \<not> view_valid v \<or>
           \<not> list_all is_noop (case list_at (jitem v ''proposed_plan'') ''operations'' of Some xs \<Rightarrow> xs | None \<Rightarrow> [])
        then eraise (blocked (''completed instance no longer converges: '' @ di_id d))
        else with_mg (on_machine (qualify (uw_systemd W) (uw_patience W) d))))"

text \<open>The transaction of an apply of this upgrade that had finished before the interruption.\<close>

definition committed_apply :: "upgrade_world \<Rightarrow> upgrade \<Rightarrow> upgrade_row \<Rightarrow> fs \<Rightarrow> exn + string option" where
  "committed_apply W u r fs =
     (let root = state_root (uw_paths W); p = path_div (path_div root ''applied'') (ur_id r @ ''.json'') in
      if \<not> x_exists fs p then Inr None
      else
        rbind (read_json p fs) (\<lambda>applied.
        case jget applied ''transaction_id'' of
          Some (JStr tx) \<Rightarrow>
            if \<not> transaction_name tx then Inl (blocked ''unsafe applied transaction identity'')
            else
              (let e = path_div (path_div (path_div root ''transactions'') (ur_id r)) (tx @ ''.json'') in
               if \<not> x_exists fs e then Inr None
               else
                 rbind (read_json e fs) (\<lambda>record.
                 Inr (if jget applied ''desired_fingerprint'' = Some (JStr (ur_candidate_fp r)) \<and>
                         jget record ''desired_fingerprint'' = Some (JStr (ur_candidate_fp r)) \<and>
                         jget record ''instance_id'' = Some (JStr (ur_id r)) \<and>
                         jget record ''action'' = Some (JStr (''instance-upgrade:'' @ up_token u))
                      then Some tx else None)))
        | _ \<Rightarrow> Inl (blocked ''unsafe applied transaction identity'')))"

definition allowed_fps :: "upgrade_row \<Rightarrow> string set" where
  "allowed_fps r =
     (case ur_phase r of
        Pending \<Rightarrow> {ur_original_fp r}
      | Completed \<Rightarrow> {ur_candidate_fp r}
      | _ \<Rightarrow> {ur_original_fp r, ur_candidate_fp r})"

definition current_of :: "desired_instance list \<Rightarrow> string \<Rightarrow> desired_instance option" where
  "current_of ds iid = map_of (rev (map (\<lambda>d. (di_id d, d)) ds)) iid"

definition check_row :: "upgrade_world \<Rightarrow> desired_instance list \<Rightarrow> nat \<Rightarrow> unit um" where
  "check_row W ds i =
     ebind (eread (\<lambda>s. let r = row_at i s in
       rbind (managed (from_dict (ur_original r))) (\<lambda>original.
       rbind (managed (from_dict (ur_candidate r))) (\<lambda>candidate.
       rbind (ensure (fingerprint (uw_hash W) original = ur_original_fp r \<and>
                      fingerprint (uw_hash W) candidate = ur_candidate_fp r)
                (blocked ''saved upgrade declaration fingerprint mismatch'')) (\<lambda>_.
       rbind (read_json (path_div (path_of (up_backup (ug_up s))) (ur_id r @ ''.json'')) (mc_fs (mg_machine (ug_mg s)))) (\<lambda>saved.
       rbind (ensure (py_eq saved (ur_original r)) (blocked ''instance upgrade backup changed'')) (\<lambda>_.
       rbind (ensure (case current_of ds (ur_id r) of
                        Some d \<Rightarrow> fingerprint (uw_hash W) d \<in> allowed_fps r | None \<Rightarrow> False)
                (blocked (''instance configuration changed during upgrade: '' @ ur_id r))) (\<lambda>_.
       Inr (ur_phase r, candidate)))))))))
     (\<lambda>(phase, candidate). ewhen (phase = Completed) (verify_instance W candidate))"

definition with_authority :: "upgrade_world \<Rightarrow> string \<Rightarrow> 'a um \<Rightarrow> 'a um" where
  "with_authority W iid c s =
     (let before = rs_upgrade_authority (mg_registry (ug_mg s));
          set_to = (\<lambda>xs s. s\<lparr>ug_mg := (ug_mg s)\<lparr>mg_registry := (mg_registry (ug_mg s))\<lparr>rs_upgrade_authority := xs\<rparr>\<rparr>\<rparr>)
      in case c (set_to ((state_root (uw_paths W), Some iid) # before) s) of (r, s') \<Rightarrow> (r, set_to before s'))"

definition review_again :: "upgrade_world \<Rightarrow> nat \<Rightarrow> desired_instance \<Rightarrow> upgrader \<Rightarrow> exn + (json option \<times> string)" where
  "review_again W i d s =
     (let r = row_at i s in
      rbind (look_at W (ug_mg s) d) (\<lambda>view.
      rbind (ensure (case view of None \<Rightarrow> True | Some v \<Rightarrow> view_valid v \<and> view_clear v)
               (blocked (''instance reconciliation is blocked: '' @ ur_id r))) (\<lambda>_.
      rbind (ensure (\<not> (ur_phase r = Pending \<and> view \<noteq> None \<and> Option.bind view view_plan \<noteq> ur_plan r))
               (stale (''instance plan changed since review: '' @ ur_id r))) (\<lambda>_.
      rbind (managed (get (mg_registry (ug_mg s)) (ur_id r))) (\<lambda>current.
      rbind (ensure (fingerprint (uw_hash W) current \<in> {ur_original_fp r, ur_candidate_fp r})
               (stale (''instance changed before runtime update: '' @ ur_id r))) (\<lambda>_.
      Inr (view, fingerprint (uw_hash W) current)))))))"

definition update_declaration :: "upgrade_world \<Rightarrow> desired_instance \<Rightarrow> string \<Rightarrow> unit um" where
  "update_declaration W d fp =
     with_mg (\<lambda>s. case update (uw_hash W) (uw_write_ok W) (mg_registry s) d (Some fp) of
        (r, reg) \<Rightarrow> (managed (rbind r (\<lambda>_. Inr ())), s\<lparr>mg_registry := reg\<rparr>))"

definition apply_row :: "upgrade_world \<Rightarrow> nat \<Rightarrow> json \<Rightarrow> unit um" where
  "apply_row W i view =
     ebind (\<lambda>s. with_mg (\<lambda>g. on_machine (apply_instance (uw_systemd W) (uw_hash W) (uw_generator W) (mg_registry g)
               (uw_names W (ur_id (row_at i s)) (mg_machine g)) (uw_patience W) (''instance-upgrade:'' @ up_token (ug_up s))
               (ur_force (row_at i s)) (view_plan view) (ur_id (row_at i s))) g) s) (\<lambda>result.
     if \<not> truthy (jget_or_null result ''ok'') then
       (\<lambda>s. eraise (blocked (''instance apply did not complete: '' @ ur_id (row_at i s))) s)
     else set_row i (\<lambda>r. r\<lparr>ur_transaction := (case jget result ''transaction_id'' of Some (JStr tx) \<Rightarrow> Some tx | _ \<Rightarrow> None)\<rparr>))"

definition replace_runtime :: "upgrade_world \<Rightarrow> nat \<Rightarrow> desired_instance \<Rightarrow> unit um" where
  "replace_runtime W i d =
     ebind (eread (review_again W i d)) (\<lambda>(view, fp).
     eseq (enter_phase W i Updating)
     (eseq (update_declaration W d fp)
     (eseq (enter_phase W i Applying)
       (case view of None \<Rightarrow> ereturn () | Some v \<Rightarrow> apply_row W i v))))"

definition refresh_row :: "upgrade_world \<Rightarrow> nat \<Rightarrow> unit um" where
  "refresh_row W i s =
     (let r = row_at i s in
      if ur_phase r = Completed then (Inr (), s)
      else
        ebind (eread (\<lambda>s. managed (from_dict (ur_candidate r)))) (\<lambda>d.
        with_authority W (ur_id r)
          (ebind (eread (\<lambda>s. if ur_phase r = Applying
                              then committed_apply W (ug_up s) r (mc_fs (mg_machine (ug_mg s))) else Inr None)) (\<lambda>tx.
           eseq (case tx of
                   Some t \<Rightarrow> eseq (set_row i (\<lambda>r. r\<lparr>ur_transaction := Some t\<rparr>)) (verify_instance W d)
                 | None \<Rightarrow> replace_runtime W i d)
             (enter_phase W i Completed)))) s)"

definition upgrade_backup_ok :: "upgrade_world \<Rightarrow> upgrader \<Rightarrow> exn + unit" where
  "upgrade_backup_ok W s =
     (let b = path_of (up_backup (ug_up s)); fs = mc_fs (mg_machine (ug_mg s)) in
      ensure (\<not> x_is_symlink fs b \<and> \<not> x_is_symlink fs (path_parent b) \<and> x_is_dir fs b)
        (blocked ''instance upgrade backup is missing or unsafe''))"

definition all_refreshed :: "upgrade_world \<Rightarrow> upgrader \<Rightarrow> exn + unit" where
  "all_refreshed W s =
     rbind (declared (ug_mg s)) (\<lambda>ds.
     let rows = up_rows (ug_up s) in
     ensure (set (map di_id ds) = set (map ur_id rows) \<and>
             list_all (\<lambda>r. map_option (fingerprint (uw_hash W)) (current_of ds (ur_id r)) = Some (ur_candidate_fp r)) rows)
       (stale ''instance declarations changed before upgrade completion''))"

definition conclude_upgrade :: "upgrade_world \<Rightarrow> unit um" where
  "conclude_upgrade W =
     eseq (emodify (\<lambda>s. s\<lparr>ug_up := (ug_up s)\<lparr>up_status := ''completed'', up_failed := None, up_error := None\<rparr>\<rparr>))
     (eseq (save W)
     (eseq (\<lambda>s. with_mg (on_machine (write_json (path_div (path_of (up_backup (ug_up s))) ''result.json'')
                                       (upgrade_doc (ug_up s)))) s)
       (with_mg (forget_upgrade W))))"

text \<open>The instance at work when an exception is raised is recorded as the failed one.\<close>

definition at_instance :: "nat \<Rightarrow> unit um \<Rightarrow> (upgrader, exn \<times> string option, unit) em" where
  "at_instance i c s = (case c s of (Inl e, s') \<Rightarrow> (Inl (e, Some (ur_id (row_at i s))), s') | (Inr x, s') \<Rightarrow> (Inr x, s'))"

definition at_last :: "unit um \<Rightarrow> (upgrader, exn \<times> string option, unit) em" where
  "at_last c s =
     (case c s of
        (Inl e, s') \<Rightarrow> (Inl (e, if up_rows (ug_up s) = [] then None else Some (ur_id (last (up_rows (ug_up s))))), s')
      | (Inr x, s') \<Rightarrow> (Inr x, s'))"

definition from_start :: "'a um \<Rightarrow> (upgrader, exn \<times> string option, 'a) em" where
  "from_start c s = (case c s of (Inl e, s') \<Rightarrow> (Inl (e, None), s') | (Inr x, s') \<Rightarrow> (Inr x, s'))"

definition resume_steps :: "upgrade_world \<Rightarrow> nat \<Rightarrow> (upgrader, exn \<times> string option, unit) em" where
  "resume_steps W n =
     ebind (from_start (ebind (eread (upgrade_backup_ok W)) (\<lambda>_. ebind (eread (\<lambda>s. declared (ug_mg s))) (\<lambda>ds.
       ebind (eread (\<lambda>s. ensure (set (map di_id ds) = set (map ur_id (up_rows (ug_up s))))
                (blocked ''configured instance set changed during upgrade''))) (\<lambda>_. ereturn ds))))) (\<lambda>ds.
     eseq (each_e (\<lambda>i. at_instance i (check_row W ds i)) [0..<n])
     (eseq (each_e (\<lambda>i. at_instance i (refresh_row W i)) [0..<n])
       (at_last (eseq (eread (all_refreshed W)) (conclude_upgrade W)))))"

definition upgrade_result :: "upgrade \<Rightarrow> bool \<Rightarrow> json" where
  "upgrade_result u ok =
     JObj [(''ok'', JBool ok), (''action'', JStr ''instance-upgrade''), (''target_release'', JStr (up_release u)),
           (''backup'', JStr (up_backup u)),
           (''completed'', strs (map ur_id (filter (\<lambda>r. ur_phase r = Completed) (up_rows u)))),
           (''failed'', opt_str (up_failed u)),
           (''remaining'', strs (map ur_id (filter (\<lambda>r. ur_phase r \<noteq> Completed) (up_rows u)))),
           (''error'', opt_str (up_error u)), (''recovery_required'', JBool (\<not> ok))]"

definition resume :: "upgrade_world \<Rightarrow> json um" where
  "resume W s =
     (case resume_steps W (length (up_rows (ug_up s))) s of
        (Inr _, s') \<Rightarrow> (Inr (upgrade_result (ug_up s') True), s')
      | (Inl (e, who), s') \<Rightarrow>
          (eseq (emodify (\<lambda>s. s\<lparr>ug_up := (ug_up s)\<lparr>up_status := ''failed'', up_failed := who,
                                  up_error := Some (redact_text (exn_text e))\<rparr>\<rparr>))
           (eseq (save W) (\<lambda>s. (Inr (upgrade_result (ug_up s) False), s)))) s')"

section \<open>The commands\<close>

text \<open>What is raised by the operating system, by the locks or by a reader of a journal is reported.\<close>

definition reporting :: "'a sm \<Rightarrow> 'a sm" where
  "reporting c = ecatch c (\<lambda>e. case e of Raised t \<Rightarrow> eraise (blocked t) | Managed me \<Rightarrow> eraise e)"

definition run_upgrade :: "upgrade_world \<Rightarrow> upgrade \<Rightarrow> json sm" where
  "run_upgrade W u s = (case resume W \<lparr>ug_mg = s, ug_up = u\<rparr> of (r, s') \<Rightarrow> (r, ug_mg s'))"

definition backup_dir :: "upgrade_world \<Rightarrow> string \<Rightarrow> ppath" where
  "backup_dir W token = path_div (path_div (state_root (uw_paths W)) ''backups'') (''instance-upgrade-'' @ token)"

definition new_upgrade :: "upgrade_world \<Rightarrow> release_target \<Rightarrow> preview_row list \<Rightarrow> string \<Rightarrow> upgrade" where
  "new_upgrade W t rows token =
     \<lparr>up_token = token, up_home = path_str (account_home (uw_paths W)), up_prefix = path_str (ut_prefix t),
      up_registry = path_str (registry_dir (uw_paths W)), up_target = path_str (ut_root t),
      up_release = path_name (ut_root t), up_backup = path_str (backup_dir W token), up_rows = map pr_row rows,
      up_status = ''running'', up_failed = None, up_error = None\<rparr>"

definition make_backup :: "upgrade_world \<Rightarrow> string \<Rightarrow> preview_row list \<Rightarrow> unit sm" where
  "make_backup W token rows =
     (let b = backup_dir W token; root = path_parent b in
      ebind (eread (\<lambda>s. ensure (\<not> x_is_symlink (mc_fs (mg_machine s)) root)
               (blocked ''unsafe instance upgrade backup directory''))) (\<lambda>_.
      eseq (on_machine (m_mkdir root True 448))
      (eseq (on_machine (os_mkdir b 448))
        (each_e (\<lambda>p. on_machine (write_json (path_div b (ur_id (pr_row p) @ ''.json'')) (ur_original (pr_row p)))) rows))))"

definition start_upgrade :: "upgrade_world \<Rightarrow> json \<Rightarrow> string \<Rightarrow> upgrade sm" where
  "start_upgrade W reviewed expected =
     ebind (eread (\<lambda>s. rbind (declared s) (\<lambda>ds.
        rbind (case uw_quiescent W (map di_id ds) (mg_machine s) of Inl e \<Rightarrow> Inl (Raised e) | Inr u \<Rightarrow> Inr ()) (\<lambda>_.
        rbind (preview_upgrade W s) (\<lambda>(t, rows).
        rbind (ensure (list_all pr_valid rows) (blocked ''instance upgrade preview contains blockers'')) (\<lambda>_.
        rbind (ensure (py_eq (preview_doc W t rows) reviewed \<and> expected = preview_fingerprint W t rows)
                 (stale ''instance upgrade preview is stale; review again'')) (\<lambda>_.
        Inr (t, rows, uw_token W (mg_machine s))))))))) (\<lambda>(t, rows, token).
     eseq (make_backup W token rows)
     (eseq (save_upgrade W (new_upgrade W t rows token)) (ereturn (new_upgrade W t rows token))))"

definition apply_upgrade :: "upgrade_world \<Rightarrow> json \<Rightarrow> string \<Rightarrow> json sm" where
  "apply_upgrade W reviewed expected =
     ebind (eread (\<lambda>s. upgrade_target W (mg_machine s))) (\<lambda>_.
     reporting
       (ebind (eread (\<lambda>s. case uw_lock W (mg_machine s) of Inl e \<Rightarrow> Inl (Raised e) | Inr u \<Rightarrow> Inr ())) (\<lambda>_.
        ebind (start_upgrade W reviewed expected) (run_upgrade W))))"

definition recover_upgrade :: "upgrade_world \<Rightarrow> json sm" where
  "recover_upgrade W =
     (let p = upgrade_journal (uw_paths W); journal = (\<lambda>s. read_upgrade p (mc_fs (mg_machine s))) in
      ebind (eread (\<lambda>s. reported (journal s))) (\<lambda>u.
      ebind (eread (\<lambda>s. upgrade_target W (mg_machine s))) (\<lambda>t.
      ebind (eread (\<lambda>s. ensure (up_target u = path_str (ut_root t) \<and> up_prefix u = path_str (ut_prefix t))
               (blocked ''resume instance upgrade using its recorded immutable target release''))) (\<lambda>_.
      reporting
        (ebind (eread (\<lambda>s. case uw_lock W (mg_machine s) of Inl e \<Rightarrow> Inl (Raised e) | Inr u \<Rightarrow> Inr ())) (\<lambda>_.
         ebind (eread (\<lambda>s. rbind (upgrade_target W (mg_machine s)) (\<lambda>_. reported (journal s)))) (run_upgrade W)))))))"

end
