(* ===== verification/Upgrade_Props.thy ===== *)
theory Upgrade_Props
  imports Upgrade Access_Props
begin

text \<open>
  An instance upgrade replaces the two runtime paths of declarations and nothing else, whatever fails
  on the way, and leaves its journal behind exactly when it has not finished.
\<close>

section \<open>Candidates\<close>

definition upgraded :: "release_target \<Rightarrow> desired_instance \<Rightarrow> desired_instance" where
  "upgraded t d =
     d\<lparr>di_mcp := (di_mcp d)\<lparr>mcp_binary := normpath (path_str (ut_mcp t))\<rparr>,
       di_tunnel := (di_tunnel d)\<lparr>tun_binary := normpath (path_str (ut_tunnel t))\<rparr>\<rparr>"

lemma replaced_mcp:
  assumes "valid_mcp m"
  shows "mcp_of (set_item (mcp_dict m) ''binary'' (JStr x)) =
    rbind (absolute_path (JStr x) ''mcp.binary'') (\<lambda>p. Inr (m\<lparr>mcp_binary := p\<rparr>))"
proof -
  have "absolute_path (JStr x) ''mcp.binary'' = Inr p \<Longrightarrow>
      \<lparr>mcp_binary = p, mcp_host = mcp_host m, mcp_port = mcp_port m, mcp_permission_mode = mcp_permission_mode m,
       mcp_shell_env_inherit = mcp_shell_env_inherit m, mcp_exec_path = mcp_exec_path m,
       mcp_external_roots = mcp_external_roots m\<rparr> = m\<lparr>mcp_binary := p\<rparr>" for p by (cases m) simp
  with assms show ?thesis
    by (cases "absolute_path (JStr x) ''mcp.binary''")
      (simp_all add: mcp_of_def mcp_dict_def set_item_def strict_object_exact check_exec_path_print
        valid_mcp_def strs_def array_of_def paths_print)
qed

lemma replaced_tunnel:
  assumes "valid_tunnel t"
  shows "tunnel_of (set_item (tunnel_dict t) ''binary'' (JStr x)) =
    rbind (absolute_path (JStr x) ''tunnel.binary'') (\<lambda>p. Inr (t\<lparr>tun_binary := p\<rparr>))"
proof -
  have "absolute_path (JStr x) ''tunnel.binary'' = Inr p \<Longrightarrow>
      \<lparr>tun_binary = p, tun_id = tun_id t, tun_profile = tun_profile t, tun_health_host = tun_health_host t,
       tun_health_port = tun_health_port t, tun_env_file = tun_env_file t\<rparr> = t\<lparr>tun_binary := p\<rparr>" for p by (cases t) simp
  with assms show ?thesis
    by (cases "absolute_path (JStr x) ''tunnel.binary''")
      (simp_all add: tunnel_of_def tunnel_dict_def set_item_def strict_object_exact valid_tunnel_def)
qed

lemma is_obj_iff: "is_obj v \<longleftrightarrow> (\<exists>kvs. v = JObj kvs)"
  by (cases v) (simp_all add: is_obj_def)

lemma jitem_set: "is_obj v \<Longrightarrow> jitem (set_item v key x) k = (if k = key then x else jitem v k)"
  by (auto simp: is_obj_iff set_item_def map_of_dict_set)

lemma is_obj_set: "is_obj v \<Longrightarrow> is_obj (set_item v key x)"
  by (auto simp: is_obj_iff set_item_def)

lemma keys_set: "k \<in> fst ` set kvs \<Longrightarrow> map fst (dict_set k x kvs) = map fst kvs"
  by (induction k x kvs rule: dict_set.induct) auto

lemma is_obj_to_dict: "is_obj (to_dict d)" by (simp add: is_obj_iff to_dict_def)

lemma with_binaries_items:
  "jitem (with_binaries x y (to_dict d)) k =
    (if k = ''mcp'' then set_item (mcp_dict (di_mcp d)) ''binary'' (JStr x)
     else if k = ''tunnel'' then set_item (tunnel_dict (di_tunnel d)) ''binary'' (JStr y) else jitem (to_dict d) k)"
  "is_obj (with_binaries x y (to_dict d))"
  by (simp_all add: with_binaries_def Let_def jitem_set is_obj_set is_obj_to_dict)

lemma with_binaries_keys:
  "map fst (the (as_obj (with_binaries x y (to_dict d)))) = map fst (the (as_obj (to_dict d)))"
proof -
  obtain kvs where kvs: "to_dict d = JObj kvs" "''mcp'' \<in> fst ` set kvs" "''tunnel'' \<in> fst ` set kvs"
    by (auto simp: to_dict_def)
  then show ?thesis by (simp add: with_binaries_def Let_def set_item_def keys_set keys_dict_set)
qed

lemma strict_keys:
  assumes "is_obj v" and "map fst (the (as_obj v)) = ks" shows "strict_object v f ks [] = Inr v"
  using assms by (auto simp: is_obj_iff strict_object_exact)

lemma version_with_binaries:
  assumes "di_version d \<in> {1, 2}"
  shows "version_of (with_binaries x y (to_dict d)) = Inr (di_version d)"
proof -
  obtain kvs where v: "with_binaries x y (to_dict d) = JObj kvs" using with_binaries_items(2) [of x y d] unfolding is_obj_iff by blast
  have "jitem (JObj kvs) ''config_version'' = JInt (di_version d)"
    using with_binaries_items(1) [of x y d "''config_version''"] unfolding v by (simp add: to_dict_def)
  then have "jget (JObj kvs) ''config_version'' = Some (JInt (di_version d))" by (simp add: jget_def split: option.splits)
  with assms show ?thesis by (auto simp: v version_of_def supported_versions_def)
qed

lemma replaced_binaries:
  "d\<lparr>di_mcp := m, di_tunnel := t\<rparr> =
    \<lparr>di_version = di_version d, di_id = di_id d, di_workspace = di_workspace d, di_lifecycle = di_lifecycle d,
     di_mcp = m, di_tunnel = t, di_access = di_access d, di_github = di_github d, di_git = di_git d,
     di_agent = di_agent d, di_recovery = di_recovery d\<rparr>"
  by (cases d) simp

lemma normalized_path: "absolute_path (JStr x) f = Inr p \<Longrightarrow> p = normpath x"
  by (auto simp: absolute_path_def res_simps nonempty_string_eq)

lemma candidate_parsed:
  assumes "valid_instance d" and "from_dict (with_binaries x y (to_dict d)) = Inr p"
  shows "p = d\<lparr>di_mcp := (di_mcp d)\<lparr>mcp_binary := normpath x\<rparr>, di_tunnel := (di_tunnel d)\<lparr>tun_binary := normpath y\<rparr>\<rparr>"
proof -
  note parts = github_print lifecycle_print access_print recovery_print replaced_mcp replaced_tunnel
    version_with_binaries instance_id_of_def with_binaries_items(1) replaced_binaries
  have strict: "strict_object (with_binaries x y (to_dict d)) f (instance_required (di_version d)) [] =
      Inr (with_binaries x y (to_dict d))" for f
    using assms(1) map_fst_to_dict [of d]
    by (intro strict_keys) (simp_all only: with_binaries_items with_binaries_keys valid_instance_def)
  obtain m t where m: "absolute_path (JStr x) ''mcp.binary'' = Inr m" and t: "absolute_path (JStr y) ''tunnel.binary'' = Inr t"
  proof (cases "absolute_path (JStr x) ''mcp.binary''"; cases "absolute_path (JStr y) ''tunnel.binary''")
  qed (use assms strict in \<open>auto simp: from_dict_def valid_instance_def parts res_simps\<close>)
  show ?thesis
  proof (cases "di_version d = 1")
    case True
    then have "strict_object (with_binaries x y (to_dict d)) f (instance_required 1) [] =
        Inr (with_binaries x y (to_dict d))" for f using strict [of f] by simp
    moreover from True assms(1) have "check_providers git_empty agent_none (di_github d) = Inr ()"
      by (auto simp: valid_instance_def)
    ultimately show ?thesis
      using True assms m t by (auto simp: from_dict_def valid_instance_def parts res_simps dest!: normalized_path)
  next
    case False
    with assms(1) have v: "di_version d = 2" by (simp add: valid_instance_def)
    then have "strict_object (with_binaries x y (to_dict d)) f (instance_required 2) [] =
        Inr (with_binaries x y (to_dict d))" for f using strict [of f] by simp
    with v assms m t show ?thesis
      by (auto simp: from_dict_def valid_instance_def parts git_print agent_print res_simps dest!: normalized_path)
  qed
qed

section \<open>What is declared\<close>

lemma listed_path:
  assumes "p \<in> set (json_children s)" and "instance_id_ok (path_stem p)"
  shows "p = file_of s (path_stem p)"
proof -
  from assms(1) obtain z where p: "path_parent p = rs_directory s" "p \<noteq> rs_directory s" "path_name p = z @ ''.json''"
    by (auto simp: json_children_def suffix_def)
  have r: "rpartition_on CHR ''.'' (z @ ''.json'') = Some (z, ''json'')"
    by (simp add: rpartition_on_def partition_on_append [of _ "rev ''json''", simplified])
  have "z \<noteq> []"
  proof
    assume "z = []"
    with p(3) r have "path_stem p = ''.json''" by (simp add: path_stem_def)
    with assms(2) id_no_sep(2) [of "path_stem p"] show False by simp
  qed
  with p(3) r have stem: "path_stem p = z" by (simp add: path_stem_def)
  obtain r ps where pp: "p = PPath r ps" by (cases p) simp
  with p(1,2) have "ps \<noteq> []" by (auto simp: path_parent_def)
  with p(3) pp have "ps = butlast ps @ [z @ ''.json'']" by (simp add: path_name_def) (metis append_butlast_last_id)
  with p(1) pp have "p = PPath (pp_root (rs_directory s)) (pp_parts (rs_directory s) @ [z @ ''.json''])"
    by (metis path_parent_def ppath.sel)
  with stem assms(2) show ?thesis by (metis file_of_def path_div_part wf_part_json)
qed

lemma read_instance_Inr:
  assumes "read_instance s p = Inr d" shows "valid_instance d" and "di_id d = path_stem p"
  using assms by (auto simp: read_instance_def res_simps from_json_def split: read_result.splits option.splits
      dest: from_dict_valid)

lemma listed_get:
  assumes "list_instances s b = Inr ds" and "d \<in> set ds" shows "get s (di_id d) = Inr d"
proof -
  from assms obtain p where p: "p \<in> set (json_children s)" "read_instance s p = Inr d"
    by (auto simp: list_instances_def split: if_splits dest: traverse_eq_InrD)
  from read_instance_Inr [OF p(2)] have "instance_id_ok (path_stem p)" and d: "di_id d = path_stem p"
    using valid_instance_id by metis+
  with listed_path [OF p(1)] have "path_for s (di_id d) = Inr p" by (metis path_for_ok)
  with p(2) show ?thesis by (simp add: get_def)
qed

section \<open>Confinement\<close>

text \<open>
  A step of the registry leaves every declaration as it was or makes it one of the given candidates.
  The journal has to lie outside the registry's directory.
\<close>

definition may_become :: "upgrade_world \<Rightarrow> json list \<Rightarrow> registry_state \<Rightarrow> registry_state \<Rightarrow> bool" where
  "may_become W cs s s' \<longleftrightarrow>
     rs_directory s' = rs_directory s \<and>
     (state_root (uw_paths W) = rs_directory s \<or>
      (\<forall>iid. get s' iid = get s iid \<or> (\<exists>c \<in> set cs. \<exists>d. from_dict c = Inr d \<and> di_id d = iid \<and> get s' iid = Inr d)))"

lemma may_become_refl [simp]: "may_become W cs s s"
  by (simp add: may_become_def)

lemma may_become_trans: "may_become W cs s t \<Longrightarrow> may_become W cs t u \<Longrightarrow> may_become W cs s u"
  unfolding may_become_def by (elim conjE, simp) metis

lemma may_become_mono: "may_become W cs s t \<Longrightarrow> set cs \<subseteq> set ds \<Longrightarrow> may_become W ds s t"
  unfolding may_become_def by blast

lemma get_cong:
  "rs_directory s' = rs_directory s \<Longrightarrow>
    (instance_id_ok iid \<Longrightarrow> f_read (rs_files s') (file_of s iid) = f_read (rs_files s) (file_of s iid)) \<Longrightarrow> get s' iid = get s iid"
  by (cases "instance_id_ok iid")
    (simp_all add: get_def path_for_def instance_id_of_def read_instance_def file_of_def)

lemma get_authority: "get (s\<lparr>rs_upgrade_authority := x\<rparr>) iid = get s iid"
  by (rule get_cong) simp_all

lemma may_become_authority: "may_become W cs s (s\<lparr>rs_upgrade_authority := x\<rparr>)" "may_become W cs (s\<lparr>rs_upgrade_authority := x\<rparr>) t = may_become W cs s t"
  by (simp_all add: may_become_def get_authority)

lemma journal_apart: "state_root (uw_paths W) \<noteq> rs_directory s \<Longrightarrow> instance_id_ok iid \<Longrightarrow> file_of s iid \<noteq> upgrade_journal (uw_paths W)"
proof -
  assume apart: "state_root (uw_paths W) \<noteq> rs_directory s" and i: "instance_id_ok iid"
  have "wf_part ''instance-upgrade.json''" by code_simp
  with i have "(path_div (rs_directory s) (iid @ ''.json'') = path_div (state_root (uw_paths W)) ''instance-upgrade.json'') =
      (rs_directory s = state_root (uw_paths W) \<and> iid @ ''.json'' = ''instance-upgrade.json'')"
    by (intro path_div_inject wf_part_json)
  with apart show ?thesis by (auto simp: file_of_def upgrade_journal_def)
qed

lemma may_become_files:
  assumes "\<And>p. p \<noteq> upgrade_journal (uw_paths W) \<Longrightarrow> map_of (f (rs_files s)) p = map_of (rs_files s) p"
  shows "may_become W cs s (s\<lparr>rs_files := f (rs_files s)\<rparr>)"
proof (cases "state_root (uw_paths W) = rs_directory s")
  case False
  have "get (s\<lparr>rs_files := f (rs_files s)\<rparr>) iid = get s iid" for iid
    by (rule get_cong) (use False journal_apart assms in \<open>simp_all add: f_read_def\<close>)
  then show ?thesis by (simp add: may_become_def)
qed (simp add: may_become_def)

lemma map_of_filtered: "q \<noteq> p \<Longrightarrow> map_of (filter (\<lambda>x. fst x \<noteq> p) xs) q = map_of xs q"
  by (induction xs) auto

lemma may_become_updated:
  assumes "update H w s d x = (r, s')" and "from_dict c = Inr d" and "c \<in> set cs" shows "may_become W cs s s'"
proof (cases r)
  case (Inl e)
  with assms(1) update_Inl show ?thesis by fastforce
next
  case (Inr p)
  with assms(1) have w: "wrote s d s'" by (blast elim: update_Inr)
  then have "rs_directory s' = rs_directory s" by (auto simp: wrote_def)
  with w assms(2,3) get_wrote_same [OF w from_dict_valid [OF assms(2)]] get_wrote_other [OF w] show ?thesis
    by (metis may_become_def)
qed

text \<open>The rows under upgrade keep their identity and their candidates.\<close>

definition row_key :: "upgrade_row \<Rightarrow> string \<times> json \<times> string" where
  "row_key r = (ur_id r, ur_candidate r, ur_candidate_fp r)"

definition keys_of :: "upgrader \<Rightarrow> (string \<times> json \<times> string) list" where
  "keys_of s = map row_key (up_rows (ug_up s))"

abbreviation registry_of :: "upgrader \<Rightarrow> registry_state" where
  "registry_of s \<equiv> mg_registry (ug_mg s)"

definition confined :: "upgrade_world \<Rightarrow> (string \<times> json \<times> string) list \<Rightarrow> json list \<Rightarrow> upgrader \<Rightarrow> upgrader \<Rightarrow> bool" where
  "confined W ks cs s s' \<longleftrightarrow>
     (if keys_of s = ks then keys_of s' = ks \<and> may_become W cs (registry_of s) (registry_of s') else True)"

interpretation confined: state_order "confined W ks cs" for W ks cs
  by unfold_locales (auto simp: confined_def split: if_splits elim: may_become_trans)

interpretation stays: state_order "\<lambda>s s'. may_become W cs (mg_registry s) (mg_registry s')" for W cs
  by unfold_locales (auto elim: may_become_trans)

lemma stays_on_machine: "keeps (\<lambda>s s'. may_become W cs (mg_registry s) (mg_registry s')) (on_machine c)"
  by (auto simp: keeps_def on_machine_def split: prod.splits)

lemma stays_journal:
  "keeps (\<lambda>s s'. may_become W cs (mg_registry s) (mg_registry s')) (save_upgrade W u)"
  "keeps (\<lambda>s s'. may_become W cs (mg_registry s) (mg_registry s')) (forget_upgrade W)"
proof -
  have "keeps (\<lambda>s s'. may_become W cs (mg_registry s) (mg_registry s')) (in_registry (dict_set (upgrade_journal (uw_paths W)) x))" for x
    unfolding in_registry_def by (rule stays.keeps_modify) (simp add: may_become_files)
  then show "keeps (\<lambda>s s'. may_become W cs (mg_registry s) (mg_registry s')) (save_upgrade W u)"
    unfolding save_upgrade_def Let_def by (intro stays.keeps_seq stays_on_machine)
  have "keeps (\<lambda>s s'. may_become W cs (mg_registry s) (mg_registry s')) (in_registry (filter (\<lambda>q. fst q \<noteq> upgrade_journal (uw_paths W))))"
    unfolding in_registry_def by (rule stays.keeps_modify) (simp add: may_become_files map_of_filtered)
  then show "keeps (\<lambda>s s'. may_become W cs (mg_registry s) (mg_registry s')) (forget_upgrade W)"
    unfolding forget_upgrade_def Let_def by (intro stays.keeps_seq stays_on_machine)
qed

lemma confined_with_mg:
  "keeps (\<lambda>s s'. may_become W cs (mg_registry s) (mg_registry s')) c \<Longrightarrow> keeps (confined W ks cs) (with_mg c)"
  by (auto simp: keeps_def confined_def with_mg_def keys_of_def split: prod.splits)

lemma confined_save: "keeps (confined W ks cs) (save W)"
  using keepsD [OF confined_with_mg [OF stays_journal(1)]] by (auto simp: keeps_def save_def)

lemma keys_updated: "(\<And>r. row_key (f r) = row_key r) \<Longrightarrow> map row_key (xs[i := f (xs ! i)]) = map row_key xs"
  by (cases "i < length xs") (simp_all add: map_update list_update_same_conv list_update_beyond)

lemma confined_set_row: "(\<And>r. row_key (f r) = row_key r) \<Longrightarrow> keeps (confined W ks cs) (set_row i f)"
  unfolding set_row_def
  by (rule confined.keeps_modify) (simp add: confined_def keys_of_def keys_updated row_at_def)

lemma confined_phase: "keeps (confined W ks cs) (enter_phase W i p)"
  unfolding enter_phase_def by (intro confined.keeps_seq confined_save confined_set_row) (simp add: row_key_def)

lemma confined_authority: "keeps (confined W ks cs) c \<Longrightarrow> keeps (confined W ks cs) (with_authority W iid c)"
proof (rule keepsI)
  fix s r s' assume c: "keeps (confined W ks cs) c" and run: "with_authority W iid c s = (r, s')"
  define into where "into xs s = s\<lparr>ug_mg := (ug_mg s)\<lparr>mg_registry := (registry_of s)\<lparr>rs_upgrade_authority := xs\<rparr>\<rparr>\<rparr>"
    for xs and s :: upgrader
  have into: "confined W ks cs s (into xs s)" "confined W ks cs (into xs s) s" for xs s
    by (simp_all add: into_def confined_def keys_of_def may_become_authority)
  obtain t where t: "c (into ((state_root (uw_paths W), Some iid) # rs_upgrade_authority (registry_of s)) s) = (r, t)"
    and s': "s' = into (rs_upgrade_authority (registry_of s)) t"
    using run by (auto simp: with_authority_def Let_def into_def split: prod.splits)
  from into keepsD [OF c t] show "confined W ks cs s s'" unfolding s' by (blast intro: confined.trans)
qed

section \<open>The run\<close>

text \<open>The candidates among the keys.\<close>

abbreviation candidates :: "(string \<times> json \<times> string) list \<Rightarrow> json list" where
  "candidates ks \<equiv> map (fst \<circ> snd) ks"

lemma confined_verify: "keeps (confined W ks cs) (verify_instance W d)"
  unfolding verify_instance_def
  by (intro confined.keeps_rules confined_with_mg stays_on_machine)

lemma confined_update:
  "from_dict c = Inr d \<Longrightarrow> c \<in> set cs \<Longrightarrow> keeps (confined W ks cs) (update_declaration W d fp)"
  unfolding update_declaration_def
  by (rule confined_with_mg) (auto simp: keeps_def split: prod.splits dest: may_become_updated)

lemma confined_apply: "keeps (confined W ks cs) (apply_row W i v)"
proof -
  have "keeps (confined W ks cs) (\<lambda>s. with_mg (\<lambda>g. on_machine (c s g) g) s)" for c :: "upgrader \<Rightarrow> manager \<Rightarrow> json mm"
  proof (rule keepsI)
    fix s r s' assume "with_mg (\<lambda>g. on_machine (c s g) g) s = (r, s')"
    then show "confined W ks cs s s'"
      by (auto simp: with_mg_def on_machine_def confined_def keys_of_def split: prod.splits)
  qed
  moreover have "keeps (confined W ks cs) (\<lambda>s. eraise (g s) s)" for g :: "upgrader \<Rightarrow> exn"
    by (simp add: keeps_def eraise_def confined.refl)
  ultimately show ?thesis
    unfolding apply_row_def by (intro confined.keeps_bind keeps_if confined_set_row) (simp_all add: row_key_def)
qed

lemma confined_replace:
  "from_dict c = Inr d \<Longrightarrow> c \<in> set cs \<Longrightarrow> keeps (confined W ks cs) (replace_runtime W i d)"
  unfolding replace_runtime_def
  by (auto intro!: confined.keeps_rules confined_phase confined_update confined_apply split: prod.splits)

lemma confined_refresh:
  assumes "i < length ks" shows "keeps (confined W ks (candidates ks)) (refresh_row W i)"
proof (rule keepsI)
  fix s r s' assume run: "refresh_row W i s = (r, s')"
  show "confined W ks (candidates ks) s s'"
  proof (cases "keys_of s = ks")
    case True
    define c where "c = ur_candidate (row_at i s)"
    have c: "c \<in> set (candidates ks)"
      using assms True by (force simp: c_def keys_of_def row_key_def row_at_def)
    show ?thesis
    proof (cases "ur_phase (row_at i s) = Completed")
      case True
      with run show ?thesis by (simp add: refresh_row_def confined.refl)
    next
      case False
      show ?thesis
      proof (cases "from_dict c")
        case (Inl e)
        with run False show ?thesis
          by (simp add: refresh_row_def c_def ebind_def eread_def managed_def confined.refl)
      next
        case (Inr d)
        note confined_steps = confined_authority confined_phase confined_verify confined_replace [OF Inr c] confined_set_row
        have K: "keeps (confined W ks (candidates ks)) (with_authority W iid (ebind (eread f) (\<lambda>tx.
            eseq (case tx of Some t \<Rightarrow> eseq (set_row i (\<lambda>r. r\<lparr>ur_transaction := Some t\<rparr>)) (verify_instance W d)
                  | None \<Rightarrow> replace_runtime W i d) (enter_phase W i Completed))))" for iid f
          by (intro confined.keeps_rules confined_steps) (simp add: row_key_def)
        with run False Inr show ?thesis
          by (simp add: refresh_row_def c_def ebind_def [of "eread _" _ s] eread_def [of _ s] managed_def Let_def keepsD [OF K])
      qed
    qed
  qed (simp add: confined_def)
qed

lemma confined_check: "keeps (confined W ks cs) (check_row W ds i)"
  unfolding check_row_def
  by (auto intro!: confined.keeps_rules confined_verify split: prod.splits)

lemma confined_at:
  "keeps (confined W ks cs) c \<Longrightarrow> keeps (confined W ks cs) (at_instance i c)"
  "keeps (confined W ks cs) c \<Longrightarrow> keeps (confined W ks cs) (at_last c)"
  by (auto simp: keeps_def at_instance_def at_last_def split: prod.splits sum.splits)

lemma confined_start: "keeps (confined W ks cs) c \<Longrightarrow> keeps (confined W ks cs) (from_start c)"
  by (auto simp: keeps_def from_start_def split: prod.splits sum.splits)

lemma confined_progress:
  "keeps (confined W ks cs) (emodify (\<lambda>s. s\<lparr>ug_up := (ug_up s)\<lparr>up_status := a s, up_failed := b s, up_error := e s\<rparr>\<rparr>))"
  by (rule confined.keeps_modify) (simp add: confined_def keys_of_def)

lemma confined_conclude: "keeps (confined W ks cs) (conclude_upgrade W)"
proof -
  have "keeps (confined W ks cs) (\<lambda>s. with_mg (on_machine (c s)) s)" for c :: "upgrader \<Rightarrow> unit mm"
    by (auto simp: keeps_def with_mg_def on_machine_def confined_def keys_of_def split: prod.splits)
  then show ?thesis
    unfolding conclude_upgrade_def
    by (intro confined.keeps_rules confined_progress confined_save confined_with_mg stays_journal)
qed

lemma confined_steps: "n \<le> length ks \<Longrightarrow> keeps (confined W ks (candidates ks)) (resume_steps W n)"
  unfolding resume_steps_def
  by (intro confined.keeps_rules confined_at confined_start confined_check confined_refresh confined_conclude) auto

lemma confined_resume:
  assumes "resume W s = (r, s')" shows "confined W (keys_of s) (candidates (keys_of s)) s s'"
proof (cases "resume_steps W (length (up_rows (ug_up s))) s")
  case (Pair q t)
  have steps: "confined W (keys_of s) (candidates (keys_of s)) s t"
    by (rule keepsD [OF confined_steps Pair]) (simp add: keys_of_def)
  show ?thesis
  proof (cases q)
    case (Inl ew)
    obtain e who where ew: "ew = (e, who)" by fastforce
    have "keeps (confined W (keys_of s) (candidates (keys_of s)))
        (eseq (emodify (\<lambda>s. s\<lparr>ug_up := (ug_up s)\<lparr>up_status := ''failed'', up_failed := who, up_error := Some (redact_text (exn_text e))\<rparr>\<rparr>))
         (eseq (save W) (\<lambda>s. (Inr (upgrade_result (ug_up s) False), s))))"
      by (intro confined.keeps_rules confined_progress confined_save) (simp add: keeps_def confined.refl)
    with assms Pair Inl ew steps show ?thesis
      by (auto simp: resume_def dest: keepsD intro: confined.trans)
  next
    case (Inr u)
    with assms Pair steps show ?thesis by (simp add: resume_def)
  qed
qed

section \<open>What success means\<close>

lemma at_last_Inr: "at_last c s = (Inr x, s') \<longleftrightarrow> c s = (Inr x, s')"
  by (auto simp: at_last_def split: prod.splits sum.splits)

lemma saved_journal: "save_upgrade W u s = (Inr v, s') \<Longrightarrow> has_journal W (mg_machine s')"
proof -
  assume "save_upgrade W u s = (Inr v, s')"
  then obtain m where "write_json (upgrade_journal (uw_paths W)) (upgrade_doc u) (mg_machine s) = (Inr (), m)" "mg_machine s' = m"
    by (auto simp: save_upgrade_def Let_def em_Inr on_machine_def in_registry_def split: prod.splits)
  moreover have "wf_part ''instance-upgrade.json''" by code_simp
  ultimately show ?thesis
    by (auto simp: write_json_def em_Inr m_fs_def has_journal_def Let_def x_exists_def x_lookup_def x_put_def
        upgrade_journal_def path_div_part split: if_splits)
qed

lemma changed_fs: "m_change p f m = (Inr u, m') \<Longrightarrow> mc_fs m' = f (mc_fs m)"
  by (auto simp: m_change_def m_fs_def emodify_def split: if_splits)

lemma forgotten_journal:
  assumes "forget_upgrade W s = (Inr v, s')" shows "\<not> has_journal W (mg_machine s')"
proof -
  let ?p = "upgrade_journal (uw_paths W)"
  from assms have "m_unlink ?p (mg_machine s) = (Inr (), mg_machine s')"
    by (auto simp: forget_upgrade_def Let_def em_Inr on_machine_def in_registry_def split: prod.splits)
  then have "mc_fs (mg_machine s') = x_delete ?p (mc_fs (mg_machine s))"
    by (auto simp: m_unlink_def split: option.splits entry.splits dest: changed_fs)
  moreover have "map_of (x_delete p fs) p = None" for p fs by (induction fs) (auto simp: x_delete_def)
  moreover have "pp_parts ?p \<noteq> []"
  proof -
    have "wf_part ''instance-upgrade.json''" by code_simp
    then show ?thesis by (simp add: upgrade_journal_def path_div_part)
  qed
  ultimately show ?thesis by (simp add: has_journal_def Let_def x_exists_def x_is_symlink_def x_lookup_def)
qed

lemma upgrade_finished:
  assumes "conclude_upgrade W s = (Inr u, s')" shows "\<not> has_journal W (mg_machine (ug_mg s'))"
proof -
  from assms obtain t where "with_mg (forget_upgrade W) t = (Inr u, s')"
    unfolding conclude_upgrade_def by (auto simp: eseq_Inr)
  then show ?thesis by (auto simp: with_mg_def split: prod.splits dest: forgotten_journal)
qed

text \<open>A finished run has checked every declaration against the rows, and has removed the journal.\<close>

lemma finished_steps:
  assumes "resume_steps W (length (up_rows (ug_up s))) s = (Inr u, s')"
  obtains t where "all_refreshed W t = Inr ()" and "\<not> has_journal W (mg_machine (ug_mg s'))"
    and "confined W (keys_of s) (candidates (keys_of s)) s t" and "confined W (keys_of s) [] t s'"
proof -
  let ?R = "confined W (keys_of s) (candidates (keys_of s))" and ?n = "length (up_rows (ug_up s))"
  from assms obtain ds r t where run:
      "ebind (from_start (ebind (eread (upgrade_backup_ok W)) (\<lambda>_. ebind (eread (\<lambda>s. declared (ug_mg s))) (\<lambda>ds.
         ebind (eread (\<lambda>s. ensure (set (map di_id ds) = set (map ur_id (up_rows (ug_up s))))
           (blocked ''configured instance set changed during upgrade''))) (\<lambda>_. ereturn ds)))))
       (\<lambda>ds. eseq (each_e (\<lambda>i. at_instance i (check_row W ds i)) [0..<?n])
         (each_e (\<lambda>i. at_instance i (refresh_row W i)) [0..<?n])) s = (Inr (), t)"
    and last: "eseq (eread (all_refreshed W)) (conclude_upgrade W) t = (Inr u, s')"
    unfolding resume_steps_def by (simp add: ebind_Inr eseq_Inr at_last_Inr) blast
  have "keeps ?R (ebind (from_start (ebind (eread (upgrade_backup_ok W)) (\<lambda>_. ebind (eread (\<lambda>s. declared (ug_mg s))) (\<lambda>ds.
         ebind (eread (\<lambda>s. ensure (set (map di_id ds) = set (map ur_id (up_rows (ug_up s))))
           (blocked ''configured instance set changed during upgrade''))) (\<lambda>_. ereturn ds)))))
       (\<lambda>ds. eseq (each_e (\<lambda>i. at_instance i (check_row W ds i)) [0..<?n])
         (each_e (\<lambda>i. at_instance i (refresh_row W i)) [0..<?n])))"
    by (intro confined.keeps_rules confined_at confined_start confined_check confined_refresh) (auto simp: keys_of_def)
  then have "?R s t" using run by (rule keepsD)
  moreover from last have "all_refreshed W t = Inr ()" and c: "conclude_upgrade W t = (Inr u, s')"
    by (simp_all add: eseq_Inr eread_Inr)
  moreover from c have "\<not> has_journal W (mg_machine (ug_mg s'))" by (rule upgrade_finished)
  moreover have "confined W (keys_of s) [] t s'" by (rule keepsD [OF confined_conclude c])
  ultimately show ?thesis using that by blast
qed

lemma refreshed_row:
  assumes "all_refreshed W t = Inr ()" and "(iid, c, fp) \<in> set (keys_of t)"
  obtains d where "get (registry_of t) iid = Inr d" and "fingerprint (uw_hash W) d = fp"
proof -
  from assms(1) obtain ds where ds: "list_instances (registry_of t) True = Inr ds"
    and rows: "list_all (\<lambda>r. map_option (fingerprint (uw_hash W)) (current_of ds (ur_id r)) = Some (ur_candidate_fp r)) (up_rows (ug_up t))"
    by (auto simp: all_refreshed_def declared_def managed_def ensure_def Let_def rbind_eq_Inr split: sum.splits if_splits)
  from assms(2) obtain r where r: "r \<in> set (up_rows (ug_up t))" "ur_id r = iid" "ur_candidate_fp r = fp"
    by (auto simp: keys_of_def row_key_def)
  with rows obtain d where d: "current_of ds iid = Some d" "fingerprint (uw_hash W) d = fp" by (auto simp: list_all_iff)
  from d(1) have "d \<in> set ds" "di_id d = iid" by (auto simp: current_of_def dest!: map_of_SomeD)
  with listed_get [OF ds] d(2) that show ?thesis by blast
qed

section \<open>The whole upgrade\<close>

text \<open>What the rows of a preview say.\<close>

lemma previewed:
  assumes "preview_one W s t d = Inr p"
  shows "ur_id (pr_row p) = di_id d"
    and "ur_candidate (pr_row p) = with_binaries (path_str (ut_mcp t)) (path_str (ut_tunnel t)) (to_dict d)"
    and "valid_instance d \<Longrightarrow> from_dict (ur_candidate (pr_row p)) = Inr (upgraded t d)"
    and "valid_instance d \<Longrightarrow> ur_candidate_fp (pr_row p) = fingerprint (uw_hash W) (upgraded t d)"
  using assms candidate_parsed [of d "path_str (ut_mcp t)" "path_str (ut_tunnel t)"]
  by (auto simp: preview_one_def Let_def managed_def rbind_eq_Inr upgraded_def split: sum.splits)

lemma ensure_Inr: "ensure c e = Inr u \<longleftrightarrow> c"
  by (simp add: ensure_def)

lemma lock_Inr: "(case x of Inl e \<Rightarrow> Inl (Raised e) | Inr u \<Rightarrow> Inr ()) = Inr v \<longleftrightarrow> x = Inr ()"
  by (cases x) auto

text \<open>The preview of the state is the reviewed one, is free of blockers, and has the expected fingerprint.\<close>

definition review_holds :: "upgrade_world \<Rightarrow> manager \<Rightarrow> release_target \<Rightarrow> json \<Rightarrow> string \<Rightarrow> bool" where
  "review_holds W s t reviewed expected \<longleftrightarrow>
     (\<exists>rows. preview_upgrade W s = Inr (t, rows) \<and> list_all pr_valid rows \<and>
        py_eq (preview_doc W t rows) reviewed \<and> expected = preview_fingerprint W t rows)"

lemma started:
  assumes "start_upgrade W reviewed expected s = (Inr u, s')" and "upgrade_target W (mg_machine s) = Inr t"
  obtains ds rows where "declared s = Inr ds" and "traverse (preview_one W s t) ds = Inr rows"
    and "up_rows u = map pr_row rows" and "review_holds W s t reviewed expected"
  using assms
  by (auto simp: start_upgrade_def em_Inr rbind_eq_Inr preview_upgrade_def ensure_Inr new_upgrade_def lock_Inr
      review_holds_def)

lemma not_started:
  assumes "start_upgrade W reviewed expected s = (r, s')" and "upgrade_target W (mg_machine s) = Inr t"
  shows "s' = s \<or> review_holds W s t reviewed expected"
  using assms(1) unfolding start_upgrade_def
  by (rule ebind_cases)
    (use assms(2) in \<open>auto simp: eread_def rbind_eq_Inr preview_upgrade_def ensure_Inr lock_Inr review_holds_def\<close>)

lemma start_stays: "keeps (\<lambda>s s'. may_become W cs (mg_registry s) (mg_registry s')) (start_upgrade W reviewed expected)"
  unfolding start_upgrade_def make_backup_def Let_def
  by (auto intro!: stays.keeps_rules stays_on_machine stays_journal split: prod.splits)

text \<open>What an upgrade may do to the declarations, and what it has done to them when it succeeds.\<close>

definition only_runtimes :: "upgrade_world \<Rightarrow> release_target \<Rightarrow> registry_state \<Rightarrow> registry_state \<Rightarrow> bool" where
  "only_runtimes W t s s' \<longleftrightarrow>
     state_root (uw_paths W) = rs_directory s \<or>
     (\<forall>iid. get s' iid = get s iid \<or> (\<exists>d. get s iid = Inr d \<and> get s' iid = Inr (upgraded t d)))"

definition all_upgraded :: "upgrade_world \<Rightarrow> release_target \<Rightarrow> manager \<Rightarrow> registry_state \<Rightarrow> bool" where
  "all_upgraded W t s s' \<longleftrightarrow>
     state_root (uw_paths W) = rs_directory (mg_registry s) \<or>
     (case declared s of
        Inl e \<Rightarrow> False
      | Inr ds \<Rightarrow>
          list_all (\<lambda>d. case get s' (di_id d) of
              Inl e \<Rightarrow> False
            | Inr d' \<Rightarrow> d' \<in> {d, upgraded t d} \<and> fingerprint (uw_hash W) d' = fingerprint (uw_hash W) (upgraded t d)) ds)"

lemma declared_get: "declared s = Inr ds \<Longrightarrow> d \<in> set ds \<Longrightarrow> get (mg_registry s) (di_id d) = Inr d"
  by (auto simp: declared_def managed_def split: sum.splits intro: listed_get)

lemma upgraded_id [simp]: "di_id (upgraded t d) = di_id d"
  by (simp add: upgraded_def)

lemma ran_runtimes:
  assumes ds: "declared s = Inr ds" and rows: "traverse (preview_one W s t) ds = Inr rows"
    and may: "may_become W (candidates (map (row_key \<circ> pr_row) rows)) (mg_registry s) s'"
  shows "only_runtimes W t (mg_registry s) s'"
proof -
  have step: "\<exists>d'. get (mg_registry s) iid = Inr d' \<and> get s' iid = Inr (upgraded t d')"
    if c: "c \<in> set (candidates (map (row_key \<circ> pr_row) rows))" "from_dict c = Inr d" "di_id d = iid" "get s' iid = Inr d" for c d iid
  proof -
    from c(1) obtain p where p: "p \<in> set rows" "c = ur_candidate (pr_row p)" by (auto simp: row_key_def)
    with traverse_eq_InrD [OF rows] obtain e where e: "e \<in> set ds" "preview_one W s t e = Inr p" by blast
    from declared_get [OF ds e(1)] have g: "get (mg_registry s) (di_id e) = Inr e" .
    from previewed(3) [OF e(2) got(1) [OF g]] p c(2) have "d = upgraded t e" by simp
    with g c(3,4) show ?thesis by auto
  qed
  show ?thesis
  proof (cases "state_root (uw_paths W) = rs_directory (mg_registry s)")
    case False
    have "get s' iid = get (mg_registry s) iid \<or> (\<exists>d. get (mg_registry s) iid = Inr d \<and> get s' iid = Inr (upgraded t d))" for iid
      using may False step [of _ _ iid] unfolding may_become_def by blast
    then show ?thesis by (simp add: only_runtimes_def)
  qed (simp add: only_runtimes_def)
qed

lemma traverse_image: "traverse f xs = Inr ys \<Longrightarrow> x \<in> set xs \<Longrightarrow> \<exists>y \<in> set ys. f x = Inr y"
  by (induction xs arbitrary: ys) (auto simp: rbind_eq_Inr)

lemma ran_completely:
  assumes ds: "declared s = Inr ds" and rows: "traverse (preview_one W s t) ds = Inr rows"
    and u: "all_refreshed W v = Inr ()" "keys_of v = map (row_key \<circ> pr_row) rows"
    and same: "may_become W [] (registry_of v) s'" and dir: "rs_directory (registry_of v) = rs_directory (mg_registry s)"
    and only: "only_runtimes W t (mg_registry s) s'"
  shows "all_upgraded W t s s'"
proof (cases "state_root (uw_paths W) = rs_directory (mg_registry s)")
  case False
  have "case get s' (di_id d) of Inl e \<Rightarrow> False
      | Inr d' \<Rightarrow> d' \<in> {d, upgraded t d} \<and> fingerprint (uw_hash W) d' = fingerprint (uw_hash W) (upgraded t d)"
    if d: "d \<in> set ds" for d
  proof -
    have g: "get (mg_registry s) (di_id d) = Inr d" by (rule declared_get [OF ds d])
    from traverse_image [OF rows d] obtain p where p: "p \<in> set rows" "preview_one W s t d = Inr p" by blast
    from previewed [OF p(2)] got(1) [OF g] have "row_key (pr_row p) = (di_id d, ur_candidate (pr_row p), fingerprint (uw_hash W) (upgraded t d))"
      by (simp add: row_key_def)
    with p(1) u(2) have "(di_id d, ur_candidate (pr_row p), fingerprint (uw_hash W) (upgraded t d)) \<in> set (keys_of v)"
      by (metis comp_apply image_eqI list.set_map)
    from refreshed_row [OF u(1) this] obtain d' where d': "get (registry_of v) (di_id d) = Inr d'"
      "fingerprint (uw_hash W) d' = fingerprint (uw_hash W) (upgraded t d)" by blast
    from same dir False have "get s' (di_id d) = get (registry_of v) (di_id d)" by (simp add: may_become_def)
    moreover from only False g have "get s' (di_id d) = Inr d \<or> get s' (di_id d) = Inr (upgraded t d)"
      unfolding only_runtimes_def by (metis sum.inject(2))
    ultimately show ?thesis using d' by auto
  qed
  with ds show ?thesis by (simp add: all_upgraded_def list_all_iff)
qed (simp add: all_upgraded_def)

text \<open>The run from the journal that a start leaves.\<close>

definition answers :: "upgrade_world \<Rightarrow> release_target \<Rightarrow> manager \<Rightarrow> json \<Rightarrow> manager \<Rightarrow> bool" where
  "answers W t s doc s' \<longleftrightarrow>
     (\<exists>ok. jget doc ''ok'' = Some (JBool ok) \<and> has_journal W (mg_machine s') = (\<not> ok) \<and>
        (if ok then all_upgraded W t s (mg_registry s') else True))"

lemma written_last:
  "eseq (emodify f) (eseq c (\<lambda>s. (Inr (g s), s))) w = (Inr d, v) \<Longrightarrow> \<exists>x. c x = (Inr (), v) \<and> d = g v"
  by (auto simp: em_Inr)

lemma case_agree:
  assumes "\<forall>x. r = Inr x \<longleftrightarrow> q = Inr x"
  shows "(case r of Inl e \<Rightarrow> True | Inr d \<Rightarrow> P d) = (case q of Inl e \<Rightarrow> True | Inr d \<Rightarrow> P d)"
proof (cases q)
  case (Inl e)
  with assms have "\<forall>x. r \<noteq> Inr x" by simp
  then obtain e' where "r = Inl e'" by (cases r) blast+
  with Inl show ?thesis by simp
next
  case (Inr c)
  with assms have "r = Inr c" by simp
  with Inr show ?thesis by simp
qed

lemma saved: "save W x = (Inr (), v) \<Longrightarrow> has_journal W (mg_machine (ug_mg v))"
  by (auto simp: save_def with_mg_def split: prod.splits dest: saved_journal)

lemma resumed:
  assumes run: "resume W v = (q, v')" and ds: "declared s = Inr ds" and rows: "traverse (preview_one W s t) ds = Inr rows"
    and keys: "keys_of v = map (row_key \<circ> pr_row) rows" and start: "may_become W [] (mg_registry s) (registry_of v)"
  shows "only_runtimes W t (mg_registry s) (registry_of v') \<and> (case q of Inl e \<Rightarrow> True | Inr doc \<Rightarrow> answers W t s doc (ug_mg v'))"
proof -
  have "may_become W (candidates (keys_of v)) (registry_of v) (registry_of v')"
    using confined_resume [OF run] by (simp add: confined_def)
  then have only: "only_runtimes W t (mg_registry s) (registry_of v')"
    using may_become_trans [OF may_become_mono [OF start]] keys by (simp add: ran_runtimes [OF ds rows])
  have "answers W t s doc (ug_mg v')" if q: "q = Inr doc" for doc
  proof (cases "resume_steps W (length (up_rows (ug_up v))) v")
    case (Pair r w)
    show ?thesis
    proof (cases r)
      case (Inl ew)
      obtain e who where "ew = (e, who)" by fastforce
      with run Pair Inl q have "eseq (emodify (\<lambda>s. s\<lparr>ug_up := (ug_up s)\<lparr>up_status := ''failed'', up_failed := who,
            up_error := Some (redact_text (exn_text e))\<rparr>\<rparr>)) (eseq (save W) (\<lambda>s. (Inr (upgrade_result (ug_up s) False), s))) w
          = (Inr doc, v')" by (simp add: resume_def)
      then have "\<exists>x. save W x = (Inr (), v') \<and> doc = upgrade_result (ug_up v') False"
        by (rule written_last)
      then obtain x where "save W x = (Inr (), v')" and doc: "doc = upgrade_result (ug_up v') False" by blast
      from saved [OF this(1)] show ?thesis
        unfolding answers_def doc by (intro exI [of _ False]) (simp add: upgrade_result_def)
    next
      case (Inr u)
      with run Pair q have v': "v' = w" "doc = upgrade_result (ug_up v') True" by (auto simp: resume_def)
      from Pair Inr v' have "resume_steps W (length (up_rows (ug_up v))) v = (Inr u, v')" by simp
      then obtain x where x: "all_refreshed W x = Inr ()" "\<not> has_journal W (mg_machine (ug_mg v'))"
        "confined W (keys_of v) (candidates (keys_of v)) v x" "confined W (keys_of v) [] x v'"
        by (rule finished_steps)
      from x(3,4) have "keys_of x = keys_of v" "may_become W [] (registry_of x) (registry_of v')"
        "rs_directory (registry_of x) = rs_directory (registry_of v)"
        by (simp_all add: confined_def may_become_def)
      with ran_completely [OF ds rows x(1)] keys start only have "all_upgraded W t s (registry_of v')"
        by (simp add: may_become_def)
      with x(2) show ?thesis
        unfolding answers_def v'(2) by (intro exI [of _ True]) (simp add: upgrade_result_def)
    qed
  qed
  with only show ?thesis by (simp split: sum.split)
qed

lemma reporting_state: "reporting c s = (r, s') \<Longrightarrow> \<exists>q. c s = (q, s') \<and> (\<forall>x. r = Inr x \<longleftrightarrow> q = Inr x)"
  by (auto simp: reporting_def ecatch_def eraise_def split: prod.splits sum.splits exn.splits)

text \<open>C9:
  An upgrade replaces the two runtime paths of declarations and nothing else, however it ends. Without
  a release to upgrade to it changes nothing at all. Otherwise every declaration is afterwards what it
  was or what it was with the runtimes of the release, and nothing at all has changed unless the
  preview of the state was the reviewed one, without blockers and with the expected fingerprint. An
  answer leaves the journal exactly when it reports that recovery is required, and an upgrade that
  answers \<open>ok\<close> has left for every declaration one with the fingerprint of its upgraded form. (The
  registry's directory is taken to be another than the one of the journal.)
\<close>
theorem upgrade_replaces_runtimes:
  "case apply_upgrade W reviewed expected s of (r, s') \<Rightarrow>
     (case upgrade_target W (mg_machine s) of
        Inl e \<Rightarrow> r = Inl e \<and> s' = s
      | Inr t \<Rightarrow>
          only_runtimes W t (mg_registry s) (mg_registry s') \<and>
          (s' = s \<or> review_holds W s t reviewed expected) \<and>
          (case r of Inl e \<Rightarrow> True | Inr doc \<Rightarrow> answers W t s doc s'))"
proof (cases "upgrade_target W (mg_machine s)")
  case (Inl e)
  then show ?thesis by (simp add: apply_upgrade_def ebind_def eread_def)
next
  case t: (Inr t)
  obtain r s' where run: "apply_upgrade W reviewed expected s = (r, s')" by fastforce
  with t obtain q where q: "ebind (eread (\<lambda>s. case uw_lock W (mg_machine s) of Inl e \<Rightarrow> Inl (Raised e) | Inr u \<Rightarrow> Inr ()))
      (\<lambda>_. ebind (start_upgrade W reviewed expected) (run_upgrade W)) s = (q, s')" and r: "\<forall>x. r = Inr x \<longleftrightarrow> q = Inr x"
    by (auto simp: apply_upgrade_def ebind_def [of "eread (\<lambda>s. upgrade_target W (mg_machine s))"] eread_def dest!: reporting_state)
  have same: "only_runtimes W t (mg_registry s) (mg_registry s)" by (simp add: only_runtimes_def)
  from q have "only_runtimes W t (mg_registry s) (mg_registry s') \<and> (s' = s \<or> review_holds W s t reviewed expected) \<and>
      (case q of Inl e \<Rightarrow> True | Inr doc \<Rightarrow> answers W t s doc s')"
  proof (cases rule: ebind_cases)
    case (raised e)
    with same show ?thesis by (simp add: eread_def)
  next
    case (went_on x s0)
    then have "ebind (start_upgrade W reviewed expected) (run_upgrade W) s = (q, s')" by (simp add: eread_def)
    then show ?thesis
    proof (cases rule: ebind_cases)
      case (raised e)
      from keepsD [OF start_stays [of W "[]"] raised(1)] have "only_runtimes W t (mg_registry s) (mg_registry s')"
        by (auto simp: may_become_def only_runtimes_def)
      with raised not_started [OF raised(1) t] show ?thesis by simp
    next
      case (went_on u s1)
      from went_on(1) t obtain ds rows where ds: "declared s = Inr ds" "traverse (preview_one W s t) ds = Inr rows"
        and u: "up_rows u = map pr_row rows" and holds: "review_holds W s t reviewed expected" by (rule started)
      from went_on(2) obtain v' where v': "resume W \<lparr>ug_mg = s1, ug_up = u\<rparr> = (q, v')" "s' = ug_mg v'"
        by (auto simp: run_upgrade_def split: prod.splits)
      have "keys_of \<lparr>ug_mg = s1, ug_up = u\<rparr> = map (row_key \<circ> pr_row) rows" by (simp add: keys_of_def u)
      from resumed [OF v'(1) ds this] keepsD [OF start_stays [of W "[]"] went_on(1)] holds v'(2)
      show ?thesis by (cases q) simp_all
    qed
  qed
  with run t show ?thesis by (simp add: case_agree [OF r])
qed

end
