(* ===== verification/Codex.thy ===== *)
theory Codex
  imports Systemd Registry Instant
begin

text \<open>
  Detached Codex jobs (codex_jobs.py): submitting a prompt for an instance, the worker that runs it
  in a transient unit, and the commands that report, read and cancel a job.

  A job is a directory with its request, its status, its two logs and, at the end, its result.
  Systemd, the Codex program and the clock are outside the repository. The texts of the model are
  in the characters 0 to 255; what the bytes of a log decode to is a parameter, because a log may
  hold anything.
\<close>

section \<open>The outside\<close>

datatype codex_command = Launch "string list" | Execute "string list" string | Stop string

record codex_world =
  cw_hash :: "string \<Rightarrow> string"
  cw_wall :: "machine \<Rightarrow> nat"
  cw_token :: "machine \<Rightarrow> string"
  cw_executable :: "ppath \<Rightarrow> entry option \<Rightarrow> bool"
  cw_environ :: env
  cw_version :: "string list \<Rightarrow> env \<Rightarrow> string \<Rightarrow> machine \<Rightarrow> proc_result"
  cw_show :: "string \<Rightarrow> machine \<Rightarrow> proc_result"
  cw_launch :: "string list \<Rightarrow> machine \<Rightarrow> proc_result \<times> machine"
  cw_execute :: "string list \<Rightarrow> string \<Rightarrow> env \<Rightarrow> machine \<Rightarrow> (string + int) \<times> machine"
  cw_stop :: "string \<Rightarrow> env \<Rightarrow> machine \<Rightarrow> proc_result \<times> machine"
  cw_other_time :: "string \<Rightarrow> exn + nat option"
  cw_raw :: "ppath \<Rightarrow> machine \<Rightarrow> string"
  cw_decode :: "string \<Rightarrow> string"

text \<open>\<open>cx_runs\<close>: the commands that were started, each with the machine it was started on.\<close>

record codexer =
  cx_mc :: machine
  cx_runs :: "(codex_command \<times> machine) list"

type_synonym 'a xm = "(codexer, exn, 'a) em"

type_synonym job_doc = "(string \<times> json) list"

definition on_codex :: "'a mm \<Rightarrow> 'a xm" where
  "on_codex c s = (case c (cx_mc s) of (r, m) \<Rightarrow> (r, s\<lparr>cx_mc := m\<rparr>))"

definition field :: "job_doc \<Rightarrow> string \<Rightarrow> json" where
  "field kvs k = (case map_of kvs k of Some v \<Rightarrow> v | None \<Rightarrow> JNull)"

definition job_conflict :: "string \<Rightarrow> (string \<times> json) list \<Rightarrow> exn" where
  "job_conflict msg details = Managed (conflict_error msg details)"

definition job_io :: "string \<Rightarrow> (string \<times> json) list \<Rightarrow> exn" where
  "job_io msg details = Managed (io_error msg details)"

definition inspection :: "string \<Rightarrow> (string \<times> json) list \<Rightarrow> exn" where
  "inspection msg details = Managed (ManagerError HOST_INSPECTION_FAILED msg details)"

text \<open>\<open>v in S\<close> for a set of strings: lists and objects cannot be hashed.\<close>

definition member_state :: "json \<Rightarrow> string list \<Rightarrow> exn + bool" where
  "member_state v S =
     (case v of
        JStr s \<Rightarrow> Inr (s \<in> set S)
      | JArr _ \<Rightarrow> Inl (Raised ''unhashable type'')
      | JObj _ \<Rightarrow> Inl (Raised ''unhashable type'')
      | _ \<Rightarrow> Inr False)"

definition terminal_states :: "string list" where
  "terminal_states = [''succeeded'', ''failed'', ''cancelled'', ''interrupted'']"

section \<open>Texts and bytes\<close>

definition utf8 :: "string \<Rightarrow> string" where
  "utf8 s = concat (map (\<lambda>c. if code_of c < 128 then [c] else [char_of (192 + code_of c div 64), char_of (128 + code_of c mod 64)]) s)"

definition file_bytes :: "codex_world \<Rightarrow> ppath \<Rightarrow> machine \<Rightarrow> string option" where
  "file_bytes W p m =
     (case x_follow (x_lookup (mc_fs m) p) of
        Some (EFile k (Text t)) \<Rightarrow> Some (utf8 t)
      | Some (EFile k Bytes) \<Rightarrow> Some (cw_raw W p m)
      | _ \<Rightarrow> None)"

text \<open>\<open>strftime('%Y%m%dT%H%M%SZ')\<close>.\<close>

definition stamp :: "nat \<Rightarrow> string" where
  "stamp t =
     (let (y, m, d) = ordinal_date (t div day_micros + 1); s = t mod day_micros div 1000000 in
      padded 4 y @ padded 2 m @ padded 2 d @ ''T'' @ padded 2 (s div 3600) @ padded 2 (s div 60 mod 60) @
      padded 2 (s mod 60) @ ''Z'')"

definition job_id :: "codex_world \<Rightarrow> machine \<Rightarrow> string" where
  "job_id W m = stamp (cw_wall W m) @ ''-'' @ cw_token W m"

definition job_id_ok :: "string \<Rightarrow> bool" where
  "job_id_ok s \<longleftrightarrow>
     length s = 29 \<and>
     list_all (\<lambda>(i, c).
       if i = 8 then c = CHR ''T'' else if i = 15 then c = CHR ''Z'' else if i = 16 then c = CHR ''-''
       else if i < 15 then is_digit c else is_digit c \<or> c \<in> set ''abcdef'') (zip [0..<29] s)"

definition utc_now :: "codex_world \<Rightarrow> machine \<Rightarrow> string" where
  "utc_now W m = iso (cw_wall W m)"

section \<open>Files\<close>

definition job_text :: "job_doc \<Rightarrow> string" where
  "job_text kvs = dumps_indent2 (JObj kvs) @ newline"

definition put_text :: "ppath \<Rightarrow> string \<Rightarrow> unit mm" where
  "put_text p t =
     eseq (m_mkdir (path_parent p) True 448)
       (\<lambda>m. if p \<in> set (mc_refuses m) \<or> (case x_lookup (mc_fs m) p of Some (EDir k) \<Rightarrow> True | _ \<Rightarrow> False)
             then (Inl (Raised (path_str p)), m)
             else m_fs (x_put p (EFile 384 (Text t))) m)"

definition write_job :: "ppath \<Rightarrow> job_doc \<Rightarrow> unit xm" where
  "write_job p kvs = on_codex (put_text p (job_text kvs))"

definition read_job :: "ppath \<Rightarrow> fs \<Rightarrow> exn + job_doc" where
  "read_job p fs =
     (case x_text (x_follow (x_lookup fs p)) of
        TextMissing e \<Rightarrow>
          Inl (Managed (ManagerError INSTANCE_NOT_FOUND (''Codex job state not found: '' @ path_name (path_parent p)) []))
      | TextOk t \<Rightarrow>
          (case loads t of
             Some (JObj kvs) \<Rightarrow> Inr kvs
           | Some _ \<Rightarrow> Inl (job_io (''Codex job state must be an object: '' @ path_str p) [])
           | None \<Rightarrow> Inl (job_io (''cannot read Codex job state: '' @ path_str p) []))
      | _ \<Rightarrow> Inl (job_io (''cannot read Codex job state: '' @ path_str p) []))"

text \<open>\<open>touch(mode=0o600, exist_ok=False)\<close> and \<open>open('ab')\<close>.\<close>

definition m_touch :: "ppath \<Rightarrow> nat \<Rightarrow> unit mm" where
  "m_touch p mode m =
     (if x_lookup (mc_fs m) p \<noteq> None \<or> \<not> x_is_dir (mc_fs m) (path_parent p) then (Inl (Raised (path_str p)), m)
      else m_change p (x_put p (EFile (mc_umask m mode) (Text []))) m)"

definition open_append :: "ppath \<Rightarrow> unit mm" where
  "open_append p m =
     (if x_is_file (mc_fs m) p then (if p \<in> set (mc_refuses m) then (Inl (Raised (path_str p)), m) else (Inr (), m))
      else m_touch p 438 m)"

section \<open>The program and the job's places\<close>

definition runs_at :: "codex_world \<Rightarrow> fs \<Rightarrow> ppath \<Rightarrow> bool" where
  "runs_at W fs p \<longleftrightarrow> x_is_file fs p \<and> cw_executable W p (x_follow (x_lookup fs p))"

definition resolve_from_path :: "codex_world \<Rightarrow> fs \<Rightarrow> string \<Rightarrow> string option" where
  "resolve_from_path W fs exec_path =
     map_option path_str
       (find (runs_at W fs)
         (map (\<lambda>e. path_div (path_of e) ''codex'') (filter (\<lambda>e. e \<noteq> []) (split_on CHR '':'' exec_path))))"

definition jobs_root :: "manager_paths \<Rightarrow> ppath" where
  "jobs_root ps = path_div (state_root ps) ''instances''"

definition codex_root :: "manager_paths \<Rightarrow> string \<Rightarrow> ppath" where
  "codex_root ps iid = path_div (path_div (jobs_root ps) iid) ''codex''"

definition instance_root :: "manager_paths \<Rightarrow> registry_state \<Rightarrow> string \<Rightarrow> exn + ppath" where
  "instance_root ps reg iid = managed (rbind (get reg iid) (\<lambda>d. Inr (codex_root ps (di_id d))))"

definition job_dir :: "manager_paths \<Rightarrow> registry_state \<Rightarrow> string \<Rightarrow> string \<Rightarrow> exn + ppath" where
  "job_dir ps reg iid jid =
     (if \<not> job_id_ok jid then Inl (Managed (config_error ''invalid Codex job id'' [(''job_id'', JStr jid)]))
      else rbind (instance_root ps reg iid) (\<lambda>root. Inr (path_div root jid)))"

definition codex_unit :: "string \<Rightarrow> string \<Rightarrow> string" where
  "codex_unit iid jid = ''workspace-mcp-codex-'' @ iid @ ''-'' @ jid @ ''.service''"

definition plain_env :: "codex_world \<Rightarrow> env" where
  "plain_env W = filter (\<lambda>p. fst p \<notin> set secret_env_keys) (cw_environ W)"

definition codex_home :: "manager_paths \<Rightarrow> string" where
  "codex_home ps = path_str (path_div (account_home ps) ''.codex'')"

definition execution_env :: "codex_world \<Rightarrow> manager_paths \<Rightarrow> desired_instance \<Rightarrow> env" where
  "execution_env W ps d =
     (let e0 = plain_env W;
          e1 = (if managed_github d then fold env_pop managed_github_env_remove e0 else e0);
          e2 = dict_set ''HOME'' (path_str (account_home ps)) e1;
          e3 = dict_set ''PATH'' (mcp_exec_path (di_mcp d)) e2;
          e4 = dict_set ''CODEX_HOME'' (codex_home ps) e3;
          e5 = dict_set ''GIT_TERMINAL_PROMPT'' ''0'' e4
      in env_opt ''GH_CONFIG_DIR'' (gh_config_dir (di_github d)) e5)"

definition preflight_codex :: "codex_world \<Rightarrow> manager_paths \<Rightarrow> desired_instance \<Rightarrow> machine \<Rightarrow> exn + (string \<times> string)" where
  "preflight_codex W ps d m =
     (case resolve_from_path W (mc_fs m) (mcp_exec_path (di_mcp d)) of
        None \<Rightarrow>
          Inl (inspection ''Codex executable is not resolvable from the configured MCP execution PATH''
            [(''instance_id'', JStr (di_id d)), (''path'', JStr (mcp_exec_path (di_mcp d)))])
      | Some codex \<Rightarrow>
          (case cw_version W [codex, ''--version''] (execution_env W ps d) (di_workspace d) m of
             ProcError e \<Rightarrow>
               Inl (inspection ''Codex executable preflight failed''
                 [(''path'', JStr codex), (''error'', JStr (redact_text e))])
           | ProcDone rc out err \<Rightarrow>
               if rc \<noteq> 0 then
                 Inl (inspection ''Codex executable preflight failed''
                   [(''path'', JStr codex), (''exit_code'', JInt rc), (''detail'', JStr (proc_detail out err))])
               else
                 (case lines_of (strip (first_text out err)) of
                    l # _ \<Rightarrow> Inr (codex, l)
                  | [] \<Rightarrow> Inr (codex, ''unknown''))))"

definition validate_desired :: "desired_instance \<Rightarrow> machine \<Rightarrow> exn + unit" where
  "validate_desired d m =
     (if li_deployment (di_lifecycle d) \<noteq> PRESENT then
        Inl (job_conflict ''Codex jobs require a present instance'' [])
      else if x_is_symlink (mc_fs m) (path_of (di_workspace d)) \<or> \<not> x_is_dir (mc_fs m) (path_of (di_workspace d)) then
        Inl (job_conflict ''Codex workspace is unavailable'' [(''workspace'', JStr (di_workspace d))])
      else Inr ())"

section \<open>Submitting\<close>

definition mode_sandbox :: "(string \<times> string) list" where
  "mode_sandbox = [(''read'', ''read-only''), (''write'', ''workspace-write'')]"

definition check_submission :: "string \<Rightarrow> string \<Rightarrow> exn + string" where
  "check_submission mode prompt =
     (case map_of mode_sandbox mode of
        None \<Rightarrow> Inl (Managed (config_error ''Codex mode must be read or write'' []))
      | Some sandbox \<Rightarrow>
          if prompt = [] then Inl (Managed (config_error ''Codex prompt must be a non-empty string'' []))
          else if 1048576 < length (utf8 prompt) then
            Inl (Managed (config_error ''Codex prompt exceeds the maximum persisted size'' [(''max_bytes'', JInt 1048576)]))
          else Inr sandbox)"

definition private_dir :: "ppath \<Rightarrow> bool \<Rightarrow> unit mm" where
  "private_dir p exist_ok = eseq (m_mkdir p exist_ok 448) (m_chmod p 448)"

definition make_job_dir :: "manager_paths \<Rightarrow> ppath \<Rightarrow> ppath \<Rightarrow> unit mm" where
  "make_job_dir ps root dir =
     ecatch (eseq (private_dir (jobs_root ps) True) (eseq (private_dir root True) (private_dir dir False)))
       (\<lambda>e. eraise (job_io ''cannot create Codex job state directory'' []))"

definition job_request ::
  "codex_world \<Rightarrow> manager_paths \<Rightarrow> desired_instance \<Rightarrow> string \<Rightarrow> string \<Rightarrow> string \<Rightarrow> string \<Rightarrow> string \<Rightarrow> string \<Rightarrow> string \<Rightarrow> job_doc" where
  "job_request W ps d jid mode sandbox codex version prompt now =
     [(''schema_version'', JInt 1), (''job_id'', JStr jid), (''instance_id'', JStr (di_id d)),
      (''workspace_path'', JStr (di_workspace d)), (''desired_fingerprint'', JStr (fingerprint (cw_hash W) d)),
      (''mode'', JStr mode), (''sandbox'', JStr sandbox), (''codex_path'', JStr codex), (''codex_version'', JStr version),
      (''account_home'', JStr (path_str (account_home ps))), (''codex_home'', JStr (codex_home ps)),
      (''exec_path'', JStr (mcp_exec_path (di_mcp d))), (''gh_config_dir'', opt_str (gh_config_dir (di_github d))),
      (''prompt'', JStr prompt), (''prompt_sha256'', JStr (cw_hash W prompt)), (''created_at'', JStr now)]"

definition job_status :: "job_doc \<Rightarrow> string \<Rightarrow> json \<Rightarrow> job_doc" where
  "job_status request state completed =
     [(''schema_version'', JInt 1), (''job_id'', field request ''job_id''), (''instance_id'', field request ''instance_id''),
      (''workspace_path'', field request ''workspace_path''), (''mode'', field request ''mode''), (''state'', JStr state),
      (''created_at'', field request ''created_at''), (''started_at'', JNull), (''completed_at'', completed)]"

definition touch_log :: "ppath \<Rightarrow> unit mm" where
  "touch_log p = eseq (m_touch p 384) (m_chmod p 384)"

definition worker_argv :: "manager_paths \<Rightarrow> desired_instance \<Rightarrow> string \<Rightarrow> string list" where
  "worker_argv ps d jid =
     [''systemd-run'', ''--user'', ''--no-block'', ''--collect'', ''--quiet'',
      ''--unit=workspace-mcp-codex-'' @ di_id d @ ''-'' @ jid, ''--property=Type=exec'', ''--property=UMask=0077'',
      ''--property=KillMode=control-group'', ''--property=TimeoutStopSec=10'',
      ''--property=WorkingDirectory='' @ di_workspace d, path_str (manager_executable ps), ''--registry-dir'',
      path_str (registry_dir ps), ''_runtime'', ''codex-worker'', di_id d, jid]"

definition launch_worker :: "codex_world \<Rightarrow> string list \<Rightarrow> proc_result xm" where
  "launch_worker W argv s =
     (case cw_launch W argv (cx_mc s) of
        (r, m) \<Rightarrow> (Inr r, s\<lparr>cx_mc := m, cx_runs := cx_runs s @ [(Launch argv, cx_mc s)]\<rparr>))"

definition record_launch_failure :: "codex_world \<Rightarrow> ppath \<Rightarrow> job_doc \<Rightarrow> string \<Rightarrow> unit xm" where
  "record_launch_failure W dir request detail =
     ebind (eread (\<lambda>s. Inr (JStr (utc_now W (cx_mc s))))) (\<lambda>now.
     eseq (write_job (path_div dir ''status.json'') (job_status request ''failed'' now))
       (write_job (path_div dir ''result.json'')
         [(''schema_version'', JInt 1), (''job_id'', field request ''job_id''), (''state'', JStr ''failed''),
          (''exit_code'', JNull), (''completed_at'', now), (''error'', JStr ''worker launch failed''),
          (''detail'', JStr detail), (''last_message'', JNull)]))"

definition persist_job :: "ppath \<Rightarrow> job_doc \<Rightarrow> unit xm" where
  "persist_job dir request =
     eseq (write_job (path_div dir ''request.json'') request)
     (eseq (write_job (path_div dir ''status.json'') (job_status request ''queued'' JNull))
     (eseq (on_codex (touch_log (path_div dir ''stdout.log''))) (on_codex (touch_log (path_div dir ''stderr.log'')))))"

definition launch_job :: "codex_world \<Rightarrow> manager_paths \<Rightarrow> desired_instance \<Rightarrow> string \<Rightarrow> ppath \<Rightarrow> job_doc \<Rightarrow> unit xm" where
  "launch_job W ps d jid dir request =
     ebind (launch_worker W (worker_argv ps d jid)) (\<lambda>r. case r of
       ProcError e \<Rightarrow>
         eseq (record_launch_failure W dir request (redact_text e))
           (eraise (job_io ''cannot launch detached Codex worker'' [(''job_id'', JStr jid)]))
     | ProcDone rc out err \<Rightarrow>
         if rc \<noteq> 0 then
           eseq (record_launch_failure W dir request (proc_detail out err))
             (eraise (job_io ''cannot launch detached Codex worker''
                [(''job_id'', JStr jid), (''exit_code'', JInt rc), (''detail'', JStr (proc_detail out err))]))
         else ereturn ())"

definition start_answer :: "desired_instance \<Rightarrow> string \<Rightarrow> job_doc \<Rightarrow> json" where
  "start_answer d jid request =
     JObj [(''ok'', JBool True), (''action'', JStr ''start''), (''instance_id'', JStr (di_id d)),
           (''workspace'', JStr (di_workspace d)), (''job_id'', JStr jid), (''state'', JStr ''queued''),
           (''mode'', field request ''mode''), (''sandbox'', field request ''sandbox''),
           (''unit'', JStr (codex_unit (di_id d) jid)), (''codex_path'', field request ''codex_path''),
           (''codex_version'', field request ''codex_version'')]"

definition prepared_job ::
  "codex_world \<Rightarrow> manager_paths \<Rightarrow> registry_state \<Rightarrow> string \<Rightarrow> string \<Rightarrow> string \<Rightarrow> machine \<Rightarrow>
     exn + (desired_instance \<times> string \<times> string \<times> string \<times> string \<times> ppath)" where
  "prepared_job W ps reg iid mode prompt m =
     rbind (check_submission mode prompt) (\<lambda>sandbox.
     rbind (managed (get reg iid)) (\<lambda>d.
     rbind (validate_desired d m) (\<lambda>_.
     rbind (preflight_codex W ps d m) (\<lambda>(codex, version).
     rbind (job_dir ps reg iid (job_id W m)) (\<lambda>dir.
     Inr (d, sandbox, codex, version, job_id W m, dir))))))"

definition start_job ::
  "codex_world \<Rightarrow> manager_paths \<Rightarrow> registry_state \<Rightarrow> string \<Rightarrow> string \<Rightarrow> string \<Rightarrow> json xm" where
  "start_job W ps reg iid mode prompt =
     ebind (eread (\<lambda>s. prepared_job W ps reg iid mode prompt (cx_mc s))) (\<lambda>(d, sandbox, codex, version, jid, dir).
     eseq (on_codex (make_job_dir ps (path_parent dir) dir))
     (ebind (eread (\<lambda>s. Inr (job_request W ps d jid mode sandbox codex version prompt (utc_now W (cx_mc s))))) (\<lambda>request.
      eseq (persist_job dir request)
      (eseq (launch_job W ps d jid dir request) (ereturn (start_answer d jid request))))))"

section \<open>Binding a job to its instance\<close>

fun check_fields :: "(string \<Rightarrow> exn) \<Rightarrow> job_doc \<Rightarrow> (string \<times> json) list \<Rightarrow> exn + unit" where
  "check_fields e request [] = Inr ()"
| "check_fields e request ((k, v) # ks) = (if field request k \<noteq> v then Inl (e k) else check_fields e request ks)"

definition validate_execution_binding ::
  "codex_world \<Rightarrow> manager_paths \<Rightarrow> desired_instance \<Rightarrow> job_doc \<Rightarrow> machine \<Rightarrow> exn + unit" where
  "validate_execution_binding W ps d request m =
     (case resolve_from_path W (mc_fs m) (mcp_exec_path (di_mcp d)) of
        None \<Rightarrow>
          Inl (job_conflict ''Codex executable is no longer resolvable from the configured MCP execution PATH''
            [(''job_id'', field request ''job_id'')])
      | Some codex \<Rightarrow>
          check_fields
            (\<lambda>k. job_conflict ''Codex execution environment changed after job submission''
                   [(''job_id'', field request ''job_id''), (''field'', JStr k)]) request
            [(''codex_path'', JStr codex), (''account_home'', JStr (path_str (account_home ps))),
             (''codex_home'', JStr (codex_home ps)), (''exec_path'', JStr (mcp_exec_path (di_mcp d))),
             (''gh_config_dir'', opt_str (gh_config_dir (di_github d)))])"

definition sandbox_of :: "string \<Rightarrow> job_doc \<Rightarrow> exn + string" where
  "sandbox_of jid request =
     (let bad = Inl (job_conflict ''Codex job mode is invalid'' [(''job_id'', JStr jid)]) in
      case field request ''mode'' of
        JStr mode \<Rightarrow> (case map_of mode_sandbox mode of Some sandbox \<Rightarrow> Inr sandbox | None \<Rightarrow> bad)
      | JArr _ \<Rightarrow> Inl (Raised ''unhashable type'')
      | JObj _ \<Rightarrow> Inl (Raised ''unhashable type'')
      | _ \<Rightarrow> bad)"

definition check_prompt :: "codex_world \<Rightarrow> string \<Rightarrow> job_doc \<Rightarrow> exn + unit" where
  "check_prompt W jid request =
     (case field request ''prompt'' of
        JStr prompt \<Rightarrow>
          if field request ''prompt_sha256'' = JStr (cw_hash W prompt) then Inr ()
          else Inl (job_conflict ''Codex persisted request digest is invalid'' [(''job_id'', JStr jid)])
      | _ \<Rightarrow> Inl (job_conflict ''Codex persisted request digest is invalid'' [(''job_id'', JStr jid)]))"

definition load_binding ::
  "codex_world \<Rightarrow> manager_paths \<Rightarrow> registry_state \<Rightarrow> string \<Rightarrow> string \<Rightarrow> machine \<Rightarrow>
     exn + (desired_instance \<times> ppath \<times> job_doc)" where
  "load_binding W ps reg iid jid m =
     rbind (managed (get reg iid)) (\<lambda>d.
     rbind (job_dir ps reg iid jid) (\<lambda>dir.
     rbind (read_job (path_div dir ''request.json'') (mc_fs m)) (\<lambda>request.
     rbind (if eq_int (field request ''schema_version'') 1 then Inr ()
            else Inl (job_conflict ''Codex job request schema is invalid'' [(''job_id'', JStr jid)])) (\<lambda>_.
     rbind (sandbox_of jid request) (\<lambda>sandbox.
     rbind (check_fields
              (\<lambda>k. job_conflict ''Codex job binding does not match the managed instance''
                     [(''job_id'', JStr jid), (''field'', JStr k)]) request
              [(''job_id'', JStr jid), (''instance_id'', JStr (di_id d)), (''workspace_path'', JStr (di_workspace d)),
               (''sandbox'', JStr sandbox)]) (\<lambda>_.
     rbind (check_prompt W jid request) (\<lambda>_.
     rbind (validate_execution_binding W ps d request m) (\<lambda>_.
     Inr (d, dir, request)))))))))"

section \<open>The worker\<close>

text \<open>\<open>str(v)\<close> of an item of the request.\<close>

definition text_field :: "job_doc \<Rightarrow> string \<Rightarrow> string" where
  "text_field request k = (case field request k of JStr s \<Rightarrow> s | v \<Rightarrow> repr_json v)"

definition worker_result :: "job_doc \<Rightarrow> string \<Rightarrow> json \<Rightarrow> json \<Rightarrow> json \<Rightarrow> json \<Rightarrow> job_doc" where
  "worker_result request state code now err message =
     [(''schema_version'', JInt 1), (''job_id'', field request ''job_id''), (''instance_id'', field request ''instance_id''),
      (''workspace_path'', field request ''workspace_path''), (''mode'', field request ''mode''), (''state'', JStr state),
      (''exit_code'', code), (''completed_at'', now), (''error'', err), (''last_message'', message)]"

text \<open>
  The last message is taken from its file, which is then removed; a failure of either gives no
  message.
\<close>

definition take_message :: "codex_world \<Rightarrow> ppath \<Rightarrow> json mm" where
  "take_message W p m =
     (case (if x_is_file (mc_fs m) p then file_bytes W p m else None) of
        None \<Rightarrow> (Inr JNull, m)
      | Some bytes \<Rightarrow>
          ecatch (eseq (m_unlink p) (ereturn (JStr (cw_decode W (take 65536 bytes))))) (\<lambda>e. ereturn JNull) m)"

definition finish_worker :: "codex_world \<Rightarrow> ppath \<Rightarrow> job_doc \<Rightarrow> int option \<Rightarrow> string option \<Rightarrow> unit xm" where
  "finish_worker W dir request code err =
     (let state = (if code = Some 0 \<and> err = None then ''succeeded'' else ''failed'') in
      ebind (eread (\<lambda>s. Inr (JStr (utc_now W (cx_mc s))))) (\<lambda>now.
      ebind (on_codex (take_message W (path_div dir ''last-message.txt''))) (\<lambda>message.
      ebind (eread (\<lambda>s. read_job (path_div dir ''status.json'') (mc_fs (cx_mc s)))) (\<lambda>st.
      eseq (write_job (path_div dir ''status.json'')
              (dict_set ''completed_at'' now (dict_set ''state'' (JStr state) st)))
        (write_job (path_div dir ''result.json'')
          (worker_result request state (case code of None \<Rightarrow> JNull | Some i \<Rightarrow> JInt i) now (opt_str err) message))))))"

definition codex_argv :: "desired_instance \<Rightarrow> ppath \<Rightarrow> job_doc \<Rightarrow> string list" where
  "codex_argv d dir request =
     [text_field request ''codex_path'', ''exec'', ''--color'', ''never'', ''-s'', text_field request ''sandbox'', ''-C'',
      di_workspace d, ''--output-last-message'', path_str (path_div dir ''last-message.txt''), ''-'']"

definition execute_codex :: "codex_world \<Rightarrow> string list \<Rightarrow> string \<Rightarrow> env \<Rightarrow> int xm" where
  "execute_codex W argv prompt e s =
     (case cw_execute W argv prompt e (cx_mc s) of
        (r, m) \<Rightarrow> (case r of Inl x \<Rightarrow> Inl (Raised x) | Inr rc \<Rightarrow> Inr rc,
                   s\<lparr>cx_mc := m, cx_runs := cx_runs s @ [(Execute argv prompt, cx_mc s)]\<rparr>))"

definition run_codex :: "codex_world \<Rightarrow> manager_paths \<Rightarrow> desired_instance \<Rightarrow> ppath \<Rightarrow> job_doc \<Rightarrow> int xm" where
  "run_codex W ps d dir request =
     eseq (on_codex (open_append (path_div dir ''stdout.log'')))
     (eseq (on_codex (open_append (path_div dir ''stderr.log'')))
       (execute_codex W (codex_argv d dir request) (text_field request ''prompt'') (execution_env W ps d)))"

definition mark_running :: "codex_world \<Rightarrow> ppath \<Rightarrow> unit xm" where
  "mark_running W dir =
     (let p = path_div dir ''status.json'' in
      ebind (eread (\<lambda>s. rbind (read_job p (mc_fs (cx_mc s))) (\<lambda>st.
        Inr (dict_set ''started_at'' (JStr (utc_now W (cx_mc s))) (dict_set ''state'' (JStr ''running'') st))))) (write_job p))"

text \<open>An exception of the operating system is a value, a manager's error goes on.\<close>

definition attempt_codex :: "codex_world \<Rightarrow> manager_paths \<Rightarrow> desired_instance \<Rightarrow> ppath \<Rightarrow> job_doc \<Rightarrow> (string + int) xm" where
  "attempt_codex W ps d dir request =
     ecatch (ebind (run_codex W ps d dir request) (\<lambda>rc. ereturn (Inr rc)))
       (\<lambda>e. case e of Raised x \<Rightarrow> ereturn (Inl x) | Managed me \<Rightarrow> eraise e)"

definition conclude_worker :: "codex_world \<Rightarrow> string \<Rightarrow> ppath \<Rightarrow> job_doc \<Rightarrow> string + int \<Rightarrow> unit xm" where
  "conclude_worker W jid dir request r =
     (case r of
        Inl x \<Rightarrow>
          eseq (finish_worker W dir request None (Some (redact_text x)))
            (eraise (job_io ''Codex worker execution failed'' [(''job_id'', JStr jid)]))
      | Inr rc \<Rightarrow>
          eseq (finish_worker W dir request (Some rc) None)
            (if rc \<noteq> 0 then
               eraise (job_io ''Codex worker exited unsuccessfully'' [(''job_id'', JStr jid), (''exit_code'', JInt rc)])
             else ereturn ()))"

definition run_worker :: "codex_world \<Rightarrow> manager_paths \<Rightarrow> registry_state \<Rightarrow> string \<Rightarrow> string \<Rightarrow> unit xm" where
  "run_worker W ps reg iid jid =
     ebind (eread (\<lambda>s. rbind (load_binding W ps reg iid jid (cx_mc s)) (\<lambda>(d, dir, request).
        rbind (validate_desired d (cx_mc s)) (\<lambda>_.
        rbind (validate_execution_binding W ps d request (cx_mc s)) (\<lambda>_. Inr (d, dir, request)))))) (\<lambda>(d, dir, request).
     eseq (mark_running W dir)
     (ebind (attempt_codex W ps d dir request) (conclude_worker W jid dir request)))"

section \<open>The state of a job\<close>

definition fill_in :: "string \<Rightarrow> json \<Rightarrow> job_doc \<Rightarrow> job_doc" where
  "fill_in k v kvs = (if map_of kvs k = None then kvs @ [(k, v)] else kvs)"

definition job_snapshot :: "codex_world \<Rightarrow> string \<Rightarrow> machine \<Rightarrow> job_doc" where
  "job_snapshot W unit m =
     (case cw_show W unit m of
        ProcError e \<Rightarrow>
          [(''LoadState'', JStr ''unknown''), (''ActiveState'', JStr ''unknown''), (''SubState'', JStr ''unknown''),
           (''error'', JStr (redact_text e))]
      | ProcDone rc out err \<Rightarrow>
          (let e = tail_of 1000 (redact_text (strip err));
               base = [(''query_exit_code'', JInt rc), (''query_error'', if e = [] then JNull else JStr e)];
               told = fold (\<lambda>(k, v). dict_set k (JStr v)) (property_lines out) base
           in fill_in ''SubState'' (JStr ''unknown'')
               (fill_in ''ActiveState'' (JStr ''unknown'')
                 (fill_in ''LoadState'' (JStr (if rc \<noteq> 0 then ''not-found'' else ''unknown'')) told))))"

definition persist_interrupted :: "codex_world \<Rightarrow> ppath \<Rightarrow> job_doc \<Rightarrow> job_doc \<Rightarrow> (job_doc \<times> job_doc) xm" where
  "persist_interrupted W dir request st =
     ebind (eread (\<lambda>s. Inr (JStr (utc_now W (cx_mc s))))) (\<lambda>now.
     let st' = dict_set ''completed_at'' now (dict_set ''state'' (JStr ''interrupted'') st);
         result = worker_result request ''interrupted'' JNull now
                    (JStr ''detached Codex unit is no longer active'') JNull
     in eseq (write_job (path_div dir ''status.json'') st')
        (eseq (write_job (path_div dir ''result.json'') result) (ereturn (st', result))))"

definition captured_at :: "codex_world \<Rightarrow> string \<Rightarrow> exn + nat option" where
  "captured_at W s = (case read_iso s of Some t \<Rightarrow> Inr (Some t) | None \<Rightarrow> cw_other_time W s)"

definition within_interrupt_grace :: "codex_world \<Rightarrow> job_doc \<Rightarrow> machine \<Rightarrow> exn + bool" where
  "within_interrupt_grace W st m =
     (case (if truthy (field st ''started_at'') then field st ''started_at'' else field st ''created_at'') of
        JStr s \<Rightarrow>
          rbind (captured_at W s) (\<lambda>t. Inr (case t of
            None \<Rightarrow> False
          | Some t \<Rightarrow> t \<le> cw_wall W m \<and> cw_wall W m - t < 5000000))
      | _ \<Rightarrow> Inr False)"

type_synonym job_view = "job_doc \<times> job_doc option \<times> job_doc"

definition settled_status :: "ppath \<Rightarrow> job_doc \<Rightarrow> job_doc \<Rightarrow> fs \<Rightarrow> exn + job_view" where
  "settled_status dir st snapshot fs =
     rbind (read_job (path_div dir ''result.json'') fs) (\<lambda>result.
     rbind (member_state (field result ''state'') terminal_states) (\<lambda>final.
     Inr (if final then
            dict_set ''completed_at'' (field result ''completed_at'') (dict_set ''state'' (field result ''state'') st)
          else st, Some result, snapshot)))"

definition unsettled_status :: "codex_world \<Rightarrow> ppath \<Rightarrow> job_doc \<Rightarrow> job_doc \<Rightarrow> job_doc \<Rightarrow> job_view xm" where
  "unsettled_status W dir request st snapshot =
     ebind (eread (\<lambda>s. member_state (field snapshot ''ActiveState'') [''active'', ''activating'', ''reloading'', ''deactivating'']))
       (\<lambda>active.
     ebind (eread (\<lambda>s. member_state (field st ''state'') [''queued'', ''running''])) (\<lambda>pending.
     if active then
       ereturn (if pending then st else dict_set ''state'' (JStr ''running'') st, None, snapshot)
     else
       ebind (eread (\<lambda>s. if pending then within_interrupt_grace W st (cx_mc s) else Inr False)) (\<lambda>grace.
       if grace then ereturn (st, None, snapshot)
       else ebind (persist_interrupted W dir request st) (\<lambda>(st', result). ereturn (st', Some result, snapshot)))))"

definition reconciled_status :: "codex_world \<Rightarrow> desired_instance \<Rightarrow> ppath \<Rightarrow> job_doc \<Rightarrow> job_view xm" where
  "reconciled_status W d dir request =
     ebind (eread (\<lambda>s. rbind (read_job (path_div dir ''status.json'') (mc_fs (cx_mc s))) (\<lambda>st.
        Inr (st, job_snapshot W (codex_unit (di_id d) (text_field request ''job_id'')) (cx_mc s),
             x_is_file (mc_fs (cx_mc s)) (path_div dir ''result.json''))))) (\<lambda>(st, snapshot, present).
     if present then eread (\<lambda>s. settled_status dir st snapshot (mc_fs (cx_mc s)))
     else unsettled_status W dir request st snapshot)"

definition bound_status ::
  "codex_world \<Rightarrow> manager_paths \<Rightarrow> registry_state \<Rightarrow> string \<Rightarrow> string \<Rightarrow> (desired_instance \<times> ppath \<times> job_doc \<times> job_view) xm" where
  "bound_status W ps reg iid jid =
     ebind (eread (\<lambda>s. load_binding W ps reg iid jid (cx_mc s))) (\<lambda>(d, dir, request).
     ebind (reconciled_status W d dir request) (\<lambda>v. ereturn (d, dir, request, v)))"

section \<open>The commands\<close>

definition job_status_command :: "codex_world \<Rightarrow> manager_paths \<Rightarrow> registry_state \<Rightarrow> string \<Rightarrow> string \<Rightarrow> json xm" where
  "job_status_command W ps reg iid jid =
     ebind (bound_status W ps reg iid jid) (\<lambda>(d, dir, request, st, result, snapshot).
     ereturn (JObj
       [(''ok'', JBool True), (''instance_id'', JStr (di_id d)), (''workspace'', JStr (di_workspace d)),
        (''job_id'', JStr jid), (''mode'', field request ''mode''), (''state'', field st ''state''),
        (''created_at'', field st ''created_at''), (''started_at'', field st ''started_at''),
        (''completed_at'', field st ''completed_at''), (''unit'', JStr (codex_unit (di_id d) jid)),
        (''unit_state'', JObj snapshot), (''result'', case result of None \<Rightarrow> JNull | Some r \<Rightarrow> JObj r)]))"

definition tail_bytes :: "codex_world \<Rightarrow> ppath \<Rightarrow> nat \<Rightarrow> machine \<Rightarrow> exn + json" where
  "tail_bytes W p limit m =
     (case file_bytes W p m of
        None \<Rightarrow> Inl (job_io (''cannot read Codex job output: '' @ path_name p) [])
      | Some bytes \<Rightarrow>
          (let data = take limit (drop (length bytes - limit) bytes) in
           Inr (JObj [(''content'', JStr (cw_decode W data)), (''total_bytes'', JInt (int (length bytes))),
                      (''returned_bytes'', JInt (int (length data))),
                      (''truncated'', JBool (length data < length bytes))])))"

definition final_state :: "job_doc \<Rightarrow> job_doc option \<Rightarrow> json" where
  "final_state st result = (case result of Some r \<Rightarrow> field r ''state'' | None \<Rightarrow> field st ''state'')"

definition job_output ::
  "codex_world \<Rightarrow> manager_paths \<Rightarrow> registry_state \<Rightarrow> string \<Rightarrow> string \<Rightarrow> int \<Rightarrow> json xm" where
  "job_output W ps reg iid jid limit =
     ebind (eread (\<lambda>s. rbind (load_binding W ps reg iid jid (cx_mc s)) (\<lambda>b.
        if 1 \<le> limit \<and> limit \<le> 65536 then Inr b
        else Inl (Managed (config_error ''Codex output limit is out of range'' [(''max_bytes'', JInt 65536)])))))
       (\<lambda>(d, dir, request).
     ebind (reconciled_status W d dir request) (\<lambda>(st, result, snapshot).
     ebind (eread (\<lambda>s. tail_bytes W (path_div dir ''stdout.log'') (nat limit) (cx_mc s))) (\<lambda>out.
     ebind (eread (\<lambda>s. tail_bytes W (path_div dir ''stderr.log'') (nat limit) (cx_mc s))) (\<lambda>err.
     ereturn (JObj
       [(''ok'', JBool True), (''instance_id'', JStr (di_id d)), (''workspace'', JStr (di_workspace d)),
        (''job_id'', JStr jid), (''mode'', field request ''mode''), (''state'', final_state st result),
        (''limit_bytes'', JInt limit), (''stdout'', out), (''stderr'', err)])))))"

definition cancel_answer :: "desired_instance \<Rightarrow> string \<Rightarrow> json \<Rightarrow> bool \<Rightarrow> json" where
  "cancel_answer d jid state already =
     JObj [(''ok'', JBool True), (''action'', JStr ''cancel''), (''instance_id'', JStr (di_id d)),
           (''job_id'', JStr jid), (''state'', state), (''already_terminal'', JBool already)]"

definition stop_worker :: "codex_world \<Rightarrow> string \<Rightarrow> proc_result xm" where
  "stop_worker W unit s =
     (case cw_stop W unit (plain_env W) (cx_mc s) of
        (r, m) \<Rightarrow> (Inr r, s\<lparr>cx_mc := m, cx_runs := cx_runs s @ [(Stop unit, cx_mc s)]\<rparr>))"

text \<open>A result the worker left while it was being stopped, if it is final.\<close>

definition late_result :: "ppath \<Rightarrow> fs \<Rightarrow> exn + (job_doc \<times> json option)" where
  "late_result dir fs =
     rbind (read_job (path_div dir ''status.json'') fs) (\<lambda>st.
     if x_is_file fs (path_div dir ''result.json'') then
       rbind (read_job (path_div dir ''result.json'') fs) (\<lambda>result.
       rbind (member_state (field result ''state'') terminal_states) (\<lambda>final.
       Inr (st, if final then Some (field result ''state'') else None)))
     else Inr (st, None))"

definition record_cancelled :: "codex_world \<Rightarrow> desired_instance \<Rightarrow> string \<Rightarrow> ppath \<Rightarrow> job_doc \<Rightarrow> job_doc \<Rightarrow> json xm" where
  "record_cancelled W d jid dir request st =
     ebind (eread (\<lambda>s. Inr (JStr (utc_now W (cx_mc s))))) (\<lambda>now.
     eseq (write_job (path_div dir ''status.json'')
             (dict_set ''completed_at'' now (dict_set ''state'' (JStr ''cancelled'') st)))
     (eseq (write_job (path_div dir ''result.json'')
              [(''schema_version'', JInt 1), (''job_id'', JStr jid), (''instance_id'', JStr (di_id d)),
               (''workspace_path'', JStr (di_workspace d)), (''mode'', field request ''mode''),
               (''state'', JStr ''cancelled''), (''exit_code'', JNull), (''completed_at'', now), (''error'', JNull),
               (''last_message'', JNull)])
       (ereturn (cancel_answer d jid (JStr ''cancelled'') False))))"

definition stop_job :: "codex_world \<Rightarrow> desired_instance \<Rightarrow> string \<Rightarrow> ppath \<Rightarrow> job_doc \<Rightarrow> json xm" where
  "stop_job W d jid dir request =
     ebind (stop_worker W (codex_unit (di_id d) jid)) (\<lambda>r. case r of
       ProcError e \<Rightarrow> eraise (job_io ''cannot stop detached Codex worker'' [(''job_id'', JStr jid)])
     | ProcDone rc out err \<Rightarrow>
         ebind (eread (\<lambda>s. late_result dir (mc_fs (cx_mc s)))) (\<lambda>(st, final). case final of
           Some state \<Rightarrow> ereturn (cancel_answer d jid state True)
         | None \<Rightarrow>
             if rc \<noteq> 0 then
               eraise (job_io ''cannot stop detached Codex worker''
                 [(''job_id'', JStr jid), (''exit_code'', JInt rc), (''detail'', JStr (proc_detail out err))])
             else record_cancelled W d jid dir request st))"

definition cancel_job :: "codex_world \<Rightarrow> manager_paths \<Rightarrow> registry_state \<Rightarrow> string \<Rightarrow> string \<Rightarrow> json xm" where
  "cancel_job W ps reg iid jid =
     ebind (bound_status W ps reg iid jid) (\<lambda>(d, dir, request, st, result, snapshot).
     ebind (eread (\<lambda>s. member_state (final_state st result) terminal_states)) (\<lambda>final.
     if final then ereturn (cancel_answer d jid (final_state st result) True)
     else stop_job W d jid dir request))"

end
