(* ===== verification/Codex_Props.thy ===== *)
theory Codex_Props
  imports Codex Access_Props Apply_Props Stored_Text
begin

text \<open>
  Codex jobs: a job is on disk, and bound to its instance, before its worker is launched; the worker
  runs the persisted prompt and tells the truth about it; a finished job stays finished.
\<close>

section \<open>Finished jobs\<close>

text \<open>The state of the job on disk, when it has a result with a final state.\<close>

definition finished_as :: "manager_paths \<Rightarrow> string \<Rightarrow> string \<Rightarrow> fs \<Rightarrow> string option" where
  "finished_as ps iid jid fs =
     (let p = path_div (path_div (codex_root ps iid) jid) ''result.json'' in
      if x_is_file fs p then
        (case read_job p fs of
           Inr result \<Rightarrow>
             (case field result ''state'' of
                JStr st \<Rightarrow> if st \<in> set terminal_states then Some st else None
              | _ \<Rightarrow> None)
         | Inl e \<Rightarrow> None)
      else None)"

lemma bound_dir:
  assumes "load_binding W ps reg iid jid m = Inr (d, dir, request)"
  shows "get reg iid = Inr d" and "dir = path_div (codex_root ps (di_id d)) jid" and "job_id_ok jid"
  using assms by (auto simp: load_binding_def job_dir_def instance_root_def managed_def rbind_eq_Inr split: sum.splits if_splits)

lemma field_set [simp]: "field (dict_set k v kvs) j = (if j = k then v else field kvs j)"
  by (simp add: field_def map_of_dict_set)

lemma field_Cons: "field ((j, v) # kvs) k = (if j = k then v else field kvs k)"
  by (simp add: field_def)

lemma finished_status:
  assumes "finished_as ps iid jid (mc_fs (cx_mc s)) = Some st" and "dir = path_div (codex_root ps iid) jid"
  shows "case reconciled_status W d dir request s of
      (Inl e, s') \<Rightarrow> s' = s
    | (Inr (view, result, snapshot), s') \<Rightarrow> s' = s \<and> field view ''state'' = JStr st \<and> final_state view result = JStr st"
proof -
  from assms obtain result where r: "read_job (path_div dir ''result.json'') (mc_fs (cx_mc s)) = Inr result"
    and st: "field result ''state'' = JStr st" "st \<in> set terminal_states"
    and there: "x_is_file (mc_fs (cx_mc s)) (path_div dir ''result.json'')"
    by (auto simp: finished_as_def Let_def split: if_splits sum.splits json.splits)
  show ?thesis
    by (cases "read_job (path_div dir ''status.json'') (mc_fs (cx_mc s))")
      (simp_all add: reconciled_status_def ebind_def eread_def there settled_status_def r st member_state_def final_state_def)
qed

lemma finished_bound:
  assumes "finished_as ps iid jid (mc_fs (cx_mc s)) = Some st"
  shows "case bound_status W ps reg iid jid s of
      (Inl e, s') \<Rightarrow> s' = s
    | (Inr (d, dir, request, view, result, snapshot), s') \<Rightarrow>
        s' = s \<and> field view ''state'' = JStr st \<and> final_state view result = JStr st"
proof (cases "load_binding W ps reg iid jid (cx_mc s)")
  case (Inl e)
  then show ?thesis by (simp add: bound_status_def ebind_def eread_def)
next
  case (Inr b)
  obtain d dir request where b: "b = (d, dir, request)" by (cases b) auto
  with bound_dir [of W ps reg iid jid "cx_mc s" d dir request] Inr got(2) have "dir = path_div (codex_root ps iid) jid" by auto
  from finished_status [OF assms this, of W d request] Inr b show ?thesis
    by (cases "reconciled_status W d dir request s"; cases "fst (reconciled_status W d dir request s)")
      (auto simp: bound_status_def ebind_def eread_def ereturn_def)
qed

text \<open>C24:
  A finished job stays finished. When the result on disk has a final state, the commands that report,
  read and cancel the job change nothing and start nothing, and whatever they answer names that state.
\<close>
theorem finished_job_stays:
  "case finished_as ps iid jid (mc_fs (cx_mc s)) of
     None \<Rightarrow> True
   | Some st \<Rightarrow>
       list_all (\<lambda>c. case c s of
           (Inl e, s') \<Rightarrow> s' = s
         | (Inr doc, s') \<Rightarrow> s' = s \<and> jget doc ''state'' = Some (JStr st))
         [job_status_command W ps reg iid jid, job_output W ps reg iid jid limit, cancel_job W ps reg iid jid]"
proof (cases "finished_as ps iid jid (mc_fs (cx_mc s))")
  case (Some st)
  note bound = finished_bound [OF Some, of W reg]
  have final: "st \<in> set terminal_states"
    using Some by (auto simp: finished_as_def Let_def split: if_splits sum.splits json.splits)
  have 1: "case job_status_command W ps reg iid jid s of (Inl e, s') \<Rightarrow> s' = s
      | (Inr doc, s') \<Rightarrow> s' = s \<and> jget doc ''state'' = Some (JStr st)"
    using bound by (auto simp: job_status_command_def ebind_def ereturn_def split: prod.splits sum.splits)
  have 2: "case cancel_job W ps reg iid jid s of (Inl e, s') \<Rightarrow> s' = s
      | (Inr doc, s') \<Rightarrow> s' = s \<and> jget doc ''state'' = Some (JStr st)"
    using bound final
    by (auto simp: cancel_job_def ebind_def ereturn_def eread_def member_state_def cancel_answer_def
        split: prod.splits sum.splits)
  have 3: "case job_output W ps reg iid jid limit s of (Inl e, s') \<Rightarrow> s' = s
      | (Inr doc, s') \<Rightarrow> s' = s \<and> jget doc ''state'' = Some (JStr st)"
  proof (cases "rbind (load_binding W ps reg iid jid (cx_mc s)) (\<lambda>b.
        if 1 \<le> limit \<and> limit \<le> 65536 then Inr b
        else Inl (Managed (config_error ''Codex output limit is out of range'' [(''max_bytes'', JInt 65536)])))")
    case (Inl e)
    then show ?thesis by (simp add: job_output_def ebind_def eread_def)
  next
    case (Inr b)
    then obtain d dir request where b: "b = (d, dir, request)" and load: "load_binding W ps reg iid jid (cx_mc s) = Inr (d, dir, request)"
      by (auto simp: rbind_eq_Inr split: if_splits)
    from bound_dir [OF load] got(2) have "dir = path_div (codex_root ps iid) jid" by auto
    from finished_status [OF Some this, of W d request] Inr b show ?thesis
      by (auto simp: job_output_def ebind_def eread_def ereturn_def split: prod.splits sum.splits)
  qed
  from Some 1 2 3 show ?thesis by simp
qed simp

section \<open>What a submission leaves on disk\<close>

lemma read_written:
  assumes "x_lookup fs p = Some (EFile k (Text (job_text kvs)))" and "jplain (JObj kvs)"
  obtains kvs' where "read_job p fs = Inr kvs'" and "\<And>j. field kvs' j = jsort (field kvs j)"
proof -
  obtain kvs' where kvs': "jsort (JObj kvs) = JObj kvs'" by (cases "jsort (JObj kvs)") auto
  have "read_job p fs = Inr kvs'"
    using assms loads_indent2_newline [OF assms(2)] written_text [OF assms(2)] kvs'
    by (simp add: read_job_def x_text_def job_text_def del: jsort.simps)
  moreover have "field kvs' j = jsort (field kvs j)" for j
    using jget_jsort [of "JObj kvs" j] unfolding kvs' by (auto simp: field_def split: option.splits)
  ultimately show ?thesis using that by blast
qed

text \<open>The programs named \<open>codex\<close> that a search of the path can find.\<close>

definition programs :: "fs \<Rightarrow> ppath \<Rightarrow> entry option" where
  "programs fs p = (if path_name p = ''codex'' \<and> x_is_file fs p then x_follow (x_lookup fs p) else None)"

interpretation same_programs: state_order "\<lambda>m m'. programs (mc_fs m') = programs (mc_fs m)"
  by unfold_locales auto

abbreviation keeps_programs :: "'a mm \<Rightarrow> bool" where
  "keeps_programs \<equiv> keeps (\<lambda>m m'. programs (mc_fs m') = programs (mc_fs m))"

lemma resolved_same:
  assumes "programs fs' = programs fs" shows "resolve_from_path W fs' path = resolve_from_path W fs path"
proof -
  have "runs_at W fs' p = runs_at W fs p" if "path_name p = ''codex''" for p
    using fun_cong [OF assms, of p] that
    by (cases "x_is_file fs p"; cases "x_is_file fs' p") (auto simp: programs_def runs_at_def x_is_file_def split: if_splits)
  moreover have "path_name (path_div q ''codex'') = ''codex''" for q
  proof (rule path_name_div)
    show "wf_part ''codex''" by code_simp
  qed
  ultimately have "find (runs_at W fs') (map (\<lambda>e. path_div (path_of e) ''codex'') es) =
      find (runs_at W fs) (map (\<lambda>e. path_div (path_of e) ''codex'') es)" for es
    by (induction es) auto
  then show ?thesis by (simp add: resolve_from_path_def)
qed

lemma x_lookup_put: "x_lookup (x_put q e fs) p = (if pp_parts p = [] then Some (EDir 493) else if p = q then Some e else x_lookup fs p)"
  by (simp add: x_lookup_def x_put_def map_of_dict_set)

lemma programs_put:
  assumes "path_name q \<noteq> ''codex'' \<or> \<not> x_is_file fs q \<and> \<not> x_is_file [(q, e)] q"
  shows "programs (x_put q e fs) = programs fs"
proof (rule ext)
  fix p
  show "programs (x_put q e fs) p = programs fs p"
    using assms by (cases "p = q") (auto simp: programs_def x_is_file_def x_lookup_put x_lookup_def)
qed

lemma programs_change:
  assumes "path_name q \<noteq> ''codex''" shows "keeps_programs (m_change q (x_put q e))"
  using assms by (auto simp: keeps_def m_change_def m_fs_def emodify_def programs_put)

lemma programs_os_mkdir: "keeps_programs (os_mkdir q mode)"
proof (rule keepsI)
  fix m r m' assume "os_mkdir q mode m = (r, m')"
  then have "m' = m \<or> x_lookup (mc_fs m) q = None \<and> mc_fs m' = x_put q (EDir (mc_umask m mode)) (mc_fs m)"
    by (auto simp: os_mkdir_def m_change_def m_fs_def emodify_def split: if_splits)
  then show "programs (mc_fs m') = programs (mc_fs m)"
    by (auto intro!: programs_put simp: x_is_file_def x_lookup_def split: if_splits)
qed

lemma programs_mkdir: "keeps_programs (m_mkdir p b mode)"
proof -
  have 1: "keeps_programs (\<lambda>m. if x_exists (mc_fs m) q then (Inr (), m) else os_mkdir q k m)" for q k
    using programs_os_mkdir [of q k] by (simp add: keeps_def)
  have 2: "keeps_programs (\<lambda>m. if x_exists (mc_fs m) p then
      (if b \<and> x_is_dir (mc_fs m) p then (Inr (), m) else (Inl (Raised (path_str p)), m)) else os_mkdir p mode m)"
    using programs_os_mkdir [of p mode] by (simp add: keeps_def)
  from 1 2 show ?thesis unfolding m_mkdir_def by (intro same_programs.keeps_rules)
qed

lemma made_dir: "m_mkdir p b mode m = (Inr (), m') \<Longrightarrow> x_is_dir (mc_fs m') p"
  by (auto simp: m_mkdir_def eseq_Inr os_mkdir_def m_change_def m_fs_def emodify_def x_is_dir_def x_lookup_put
      x_exists_def split: if_splits)

lemma follow_with_mode: "x_follow (Some (with_mode k e)) = map_option (with_mode k) (x_follow (Some e))"
proof (induction k e rule: with_mode.induct)
  case (3 k t)
  then show ?case by (cases t) auto
qed auto

lemma with_mode_file: "x_is_file [(p, with_mode k e)] p \<longleftrightarrow> x_is_file [(p, e)] p"
  by (cases "x_follow (Some e)") (auto simp: follow_with_mode x_is_file_def x_lookup_def split: entry.splits)

lemma programs_chmod:
  assumes "path_name p \<noteq> ''codex'' \<or> \<not> x_is_file (mc_fs m) p" and "m_chmod p mode m = (r, m')"
  shows "programs (mc_fs m') = programs (mc_fs m)"
proof -
  from assms(2) have "m' = m \<or> (\<exists>e. x_lookup (mc_fs m) p = Some e \<and> mc_fs m' = x_put p (with_mode mode e) (mc_fs m))"
    by (auto simp: m_chmod_def m_change_def m_fs_def emodify_def split: option.splits if_splits)
  then show ?thesis
  proof (elim disjE exE conjE)
    fix e assume e: "x_lookup (mc_fs m) p = Some e" and m': "mc_fs m' = x_put p (with_mode mode e) (mc_fs m)"
    have "path_name p \<noteq> ''codex'' \<or> pp_parts p \<noteq> []" by (auto simp: path_name_def)
    with e have "path_name p \<noteq> ''codex'' \<or> x_is_file [(p, e)] p = x_is_file (mc_fs m) p"
      by (auto simp: x_is_file_def x_lookup_def)
    with assms(1) have "path_name p \<noteq> ''codex'' \<or> \<not> x_is_file (mc_fs m) p \<and> \<not> x_is_file [(p, with_mode mode e)] p"
      by (auto simp: with_mode_file)
    then show ?thesis unfolding m' by (rule programs_put)
  qed simp
qed

lemma programs_private: "keeps_programs (private_dir p b)"
proof (rule keepsI)
  fix m r m' assume "private_dir p b m = (r, m')"
  then show "programs (mc_fs m') = programs (mc_fs m)" unfolding private_dir_def eseq_def
  proof (cases rule: ebind_cases)
    case (raised e)
    then show ?thesis using programs_mkdir by (auto dest: keepsD)
  next
    case (went_on x t)
    then have "x_is_dir (mc_fs t) p" by (auto dest: made_dir)
    then have "\<not> x_is_file (mc_fs t) p" by (auto simp: x_is_dir_def x_is_file_def split: option.splits entry.splits)
    from programs_chmod [OF disjI2 [OF this] went_on(2)] keepsD [OF programs_mkdir went_on(1)]
    show ?thesis by simp
  qed
qed

lemma programs_touch: "path_name p \<noteq> ''codex'' \<Longrightarrow> keeps_programs (m_touch p mode)"
  using programs_change [of p] by (simp add: keeps_def m_touch_def)

lemma programs_text: "path_name p \<noteq> ''codex'' \<Longrightarrow> keeps_programs (put_text p t)"
proof -
  assume "path_name p \<noteq> ''codex''"
  then have "keeps_programs (\<lambda>m. if p \<in> set (mc_refuses m) \<or> (case x_lookup (mc_fs m) p of Some (EDir k) \<Rightarrow> True | _ \<Rightarrow> False)
      then (Inl (Raised (path_str p)), m) else m_fs (x_put p (EFile 384 (Text t))) m)"
    by (auto simp: keeps_def m_fs_def emodify_def programs_put)
  then show ?thesis unfolding put_text_def by (intro same_programs.keeps_rules programs_mkdir)
qed

lemma programs_log: "path_name p \<noteq> ''codex'' \<Longrightarrow> keeps_programs (touch_log p)"
proof -
  assume p: "path_name p \<noteq> ''codex''"
  then have "keeps_programs (m_chmod p 384)" using programs_chmod [of p] by (auto simp: keeps_def)
  with programs_touch [OF p] show ?thesis unfolding touch_log_def by (intro same_programs.keeps_rules)
qed

lemma programs_job_dir: "keeps_programs (make_job_dir ps root dir)"
  unfolding make_job_dir_def by (intro same_programs.keeps_rules programs_private)

text \<open>An entry stays while only other entries change.\<close>

lemma other_text: "p \<noteq> p0 \<Longrightarrow> path_parent p \<noteq> p0 \<Longrightarrow>
    set (path_parents (path_parent p)) \<subseteq> - {p0} \<Longrightarrow> keeps (touches_only (- {p0})) (put_text p t)"
proof -
  assume p: "p \<noteq> p0" "path_parent p \<noteq> p0" "set (path_parents (path_parent p)) \<subseteq> - {p0}"
  have "keeps (touches_only (- {p0})) (m_fs (x_put p (EFile 384 (Text t))))"
    by (rule touch_fs) (use p in \<open>auto simp: x_put_def\<close>)
  then have "keeps (touches_only (- {p0})) (\<lambda>m. if p \<in> set (mc_refuses m) \<or> (case x_lookup (mc_fs m) p of Some (EDir k) \<Rightarrow> True | _ \<Rightarrow> False)
      then (Inl (Raised (path_str p)), m) else m_fs (x_put p (EFile 384 (Text t))) m)"
    by (auto simp: keeps_def scope.refl)
  moreover have "keeps (touches_only (- {p0})) (m_mkdir (path_parent p) True 448)"
    by (rule touch_mkdir) (use p in auto)
  ultimately show ?thesis unfolding put_text_def by (intro scope.keeps_rules)
qed

lemma other_log: "p \<noteq> p0 \<Longrightarrow> keeps (touches_only (- {p0})) (touch_log p)"
proof -
  assume p: "p \<noteq> p0"
  have c: "keeps (touches_only (- {p0})) (m_change p (x_put p e))" for e
    by (rule touch_change) (use p in \<open>auto simp: x_put_def\<close>)
  then have "keeps (touches_only (- {p0})) (m_touch p 384)" by (auto simp: keeps_def m_touch_def scope.refl)
  moreover from c have "keeps (touches_only (- {p0})) (m_chmod p 384)"
    by (auto simp: keeps_def m_chmod_def scope.refl split: option.splits)
  ultimately show ?thesis unfolding touch_log_def by (intro scope.keeps_rules)
qed

lemma kept_entry:
  assumes "touches_only (- {p0}) m m'" shows "x_lookup (mc_fs m') p0 = x_lookup (mc_fs m) p0"
  using assms by (auto simp: touches_only_def x_lookup_def)

lemma text_put: "put_text p t m = (Inr (), m') \<Longrightarrow> pp_parts p \<noteq> [] \<Longrightarrow> x_lookup (mc_fs m') p = Some (EFile 384 (Text t))"
  by (auto simp: put_text_def eseq_Inr m_fs_def emodify_def x_lookup_put split: if_splits)

text \<open>The four files of a job.\<close>

definition job_files :: "string list" where
  "job_files = [''request.json'', ''status.json'', ''stdout.log'', ''stderr.log'']"

lemma job_file:
  assumes "n \<in> set job_files"
  shows "wf_part n" and "path_name (path_div dir n) \<noteq> ''codex''" and "pp_parts (path_div dir n) \<noteq> []"
    and "path_parent (path_div dir n) = dir"
proof -
  have "list_all wf_part job_files" "list_all (\<lambda>n. n \<noteq> ''codex'') job_files" by code_simp+
  with assms show "wf_part n" "path_name (path_div dir n) \<noteq> ''codex''" by (auto simp: list_all_iff)
  then show "pp_parts (path_div dir n) \<noteq> []" "path_parent (path_div dir n) = dir" by (simp_all add: path_div_part path_parent_def)
qed

lemma job_file_apart:
  assumes "n \<in> set job_files" and "k \<in> set job_files"
  shows "(path_div dir n = path_div dir k) = (n = k)" and "dir \<noteq> path_div dir n" and "path_div dir n \<notin> set (path_parents dir)"
proof -
  note n = job_file(1) [OF assms(1)] and k = job_file(1) [OF assms(2)]
  from n k show "(path_div dir n = path_div dir k) = (n = k)" by (simp add: path_div_inject)
  from n have "pp_parts (path_div dir n) = pp_parts dir @ [n]" by (simp add: path_div_part)
  then show "dir \<noteq> path_div dir n" "path_div dir n \<notin> set (path_parents dir)" by (auto simp: path_parents_def dest: arg_cong [where f = pp_parts])
      (metis append_eq_conv_conj length_append_singleton less_irrefl length_take min.absorb2 not_less_eq ppath.sel(2) Suc_n_not_le_n le_cases take_all)
qed

lemma job_text_apart:
  assumes "n \<in> set job_files" and "k \<in> set job_files" and "n \<noteq> k"
  shows "keeps (touches_only (- {path_div dir k})) (put_text (path_div dir n) t)"
  using assms job_file_apart(1) [OF assms(1,2), of dir] job_file_apart(2,3) [OF assms(2,2), of dir] job_file(4) [OF assms(1), of dir]
  by (intro other_text) auto

lemma on_codex_Inr: "on_codex c s = (Inr x, s') \<longleftrightarrow> (\<exists>m. c (cx_mc s) = (Inr x, m) \<and> s' = s\<lparr>cx_mc := m\<rparr>)"
  by (auto simp: on_codex_def split: prod.splits)

lemma persisted:
  assumes "persist_job dir request s = (Inr (), s')"
  shows "cx_runs s' = cx_runs s"
    and "x_lookup (mc_fs (cx_mc s')) (path_div dir ''request.json'') = Some (EFile 384 (Text (job_text request)))"
    and "x_lookup (mc_fs (cx_mc s')) (path_div dir ''status.json'') =
      Some (EFile 384 (Text (job_text (job_status request ''queued'' JNull))))"
    and "programs (mc_fs (cx_mc s')) = programs (mc_fs (cx_mc s))"
proof -
  let ?p = "path_div dir"
  from assms obtain m1 m2 m3 m4 where
    1: "put_text (?p ''request.json'') (job_text request) (cx_mc s) = (Inr (), m1)" and
    2: "put_text (?p ''status.json'') (job_text (job_status request ''queued'' JNull)) m1 = (Inr (), m2)" and
    3: "touch_log (?p ''stdout.log'') m2 = (Inr (), m3)" and 4: "touch_log (?p ''stderr.log'') m3 = (Inr (), m4)" and
    s': "s' = s\<lparr>cx_mc := m4\<rparr>"
    by (auto simp: persist_job_def write_job_def eseq_Inr on_codex_Inr)
  have files: "''request.json'' \<in> set job_files" "''status.json'' \<in> set job_files" "''stdout.log'' \<in> set job_files"
    "''stderr.log'' \<in> set job_files" by (simp_all add: job_files_def)
  show "cx_runs s' = cx_runs s" by (simp add: s')
  have log: "keeps (touches_only (- {?p k})) (touch_log (?p n))" if "n \<in> set job_files" "k \<in> set job_files" "n \<noteq> k" for n k
    using that job_file_apart(1) [of n k dir] by (intro other_log) simp
  have r: "x_lookup (mc_fs m4) (?p ''request.json'') = x_lookup (mc_fs m1) (?p ''request.json'')"
    using kept_entry [OF keepsD [OF job_text_apart [OF files(2,1)] 2]] kept_entry [OF keepsD [OF log [OF files(3,1)] 3]]
      kept_entry [OF keepsD [OF log [OF files(4,1)] 4]] by simp
  then show "x_lookup (mc_fs (cx_mc s')) (?p ''request.json'') = Some (EFile 384 (Text (job_text request)))"
    using text_put [OF 1 job_file(3) [OF files(1)]] by (simp add: s')
  have "x_lookup (mc_fs m4) (?p ''status.json'') = x_lookup (mc_fs m2) (?p ''status.json'')"
    using kept_entry [OF keepsD [OF log [OF files(3,2)] 3]] kept_entry [OF keepsD [OF log [OF files(4,2)] 4]] by simp
  then show "x_lookup (mc_fs (cx_mc s')) (?p ''status.json'') =
      Some (EFile 384 (Text (job_text (job_status request ''queued'' JNull))))"
    using text_put [OF 2 job_file(3) [OF files(2)]] by (simp add: s')
  show "programs (mc_fs (cx_mc s')) = programs (mc_fs (cx_mc s))"
    using keepsD [OF programs_text [OF job_file(2) [OF files(1)]] 1] keepsD [OF programs_text [OF job_file(2) [OF files(2)]] 2]
      keepsD [OF programs_log [OF job_file(2) [OF files(3)]] 3] keepsD [OF programs_log [OF job_file(2) [OF files(4)]] 4]
    by (simp add: s')
qed

lemma plain_request: "jplain (JObj (job_request W ps d jid mode sandbox codex version prompt now))"
  by (simp add: job_request_def)

lemma plain_status: "jplain (JObj (job_status (job_request W ps d jid mode sandbox codex version prompt now) state JNull))"
  by (simp add: job_request_def job_status_def field_def)

lemma jsort_text [simp]: "jsort (JStr s) = JStr s" "jsort (JInt i) = JInt i" "jsort (opt_str x) = opt_str x"
  by (cases x; simp add: opt_str_def)+

text \<open>What is on disk when the worker is launched binds the job.\<close>

lemma request_binds:
  assumes prep: "prepared_job W ps reg iid mode prompt m0 = Inr (d, sandbox, codex, version, jid, dir)"
    and same: "programs (mc_fs m) = programs (mc_fs m0)"
    and disk: "x_lookup (mc_fs m) (path_div dir ''request.json'') =
      Some (EFile 384 (Text (job_text (job_request W ps d jid mode sandbox codex version prompt now))))"
  obtains request where "load_binding W ps reg iid jid m = Inr (d, dir, request)"
    and "field request ''prompt'' = JStr prompt" and "field request ''mode'' = JStr mode"
proof -
  let ?r = "job_request W ps d jid mode sandbox codex version prompt now"
  from prep have get: "get reg iid = Inr d" and dir: "job_dir ps reg iid jid = Inr dir"
    and mode: "map_of mode_sandbox mode = Some sandbox"
    and codex: "resolve_from_path W (mc_fs m0) (mcp_exec_path (di_mcp d)) = Some codex"
    by (auto simp: prepared_job_def rbind_eq_Inr managed_def check_submission_def preflight_codex_def
        split: sum.splits option.splits if_splits proc_result.splits list.splits)
  obtain request where request: "read_job (path_div dir ''request.json'') (mc_fs m) = Inr request"
    and field: "\<And>k. field request k = jsort (field ?r k)"
    using read_written [OF disk plain_request] by blast
  have fields: "field request ''schema_version'' = JInt 1" "field request ''job_id'' = JStr jid"
    "field request ''instance_id'' = JStr (di_id d)" "field request ''workspace_path'' = JStr (di_workspace d)"
    "field request ''mode'' = JStr mode" "field request ''sandbox'' = JStr sandbox" "field request ''codex_path'' = JStr codex"
    "field request ''account_home'' = JStr (path_str (account_home ps))" "field request ''codex_home'' = JStr (codex_home ps)"
    "field request ''exec_path'' = JStr (mcp_exec_path (di_mcp d))"
    "field request ''gh_config_dir'' = opt_str (gh_config_dir (di_github d))" "field request ''prompt'' = JStr prompt"
    "field request ''prompt_sha256'' = JStr (cw_hash W prompt)"
    by (simp_all add: field job_request_def field_Cons)
  have "resolve_from_path W (mc_fs m) (mcp_exec_path (di_mcp d)) = Some codex"
    using resolved_same [OF same] codex by simp
  then have "load_binding W ps reg iid jid m = Inr (d, dir, request)"
    by (simp add: load_binding_def managed_def get dir request fields sandbox_of_def Let_def mode check_prompt_def
        validate_execution_binding_def)
  with fields that show ?thesis by blast
qed

section \<open>Submissions\<close>

interpretation same_runs: state_order "\<lambda>s s'. cx_runs s' = cx_runs s"
  by unfold_locales auto

abbreviation starts_nothing :: "'a xm \<Rightarrow> bool" where
  "starts_nothing \<equiv> keeps (\<lambda>s s'. cx_runs s' = cx_runs s)"

lemma quiet_on_codex: "starts_nothing (on_codex c)"
  by (auto simp: keeps_def on_codex_def split: prod.splits)

lemma quiet_failure: "starts_nothing (record_launch_failure W dir request detail)"
  unfolding record_launch_failure_def write_job_def by (intro same_runs.keeps_rules quiet_on_codex)

lemma quiet_persist: "starts_nothing (persist_job dir request)"
  unfolding persist_job_def write_job_def by (intro same_runs.keeps_rules quiet_on_codex)

lemma launched:
  assumes "launch_job W ps d jid dir request s = (r, s')"
  shows "cx_runs s' = cx_runs s @ [(Launch (worker_argv ps d jid), cx_mc s)]"
proof -
  obtain res m where l: "cw_launch W (worker_argv ps d jid) (cx_mc s) = (res, m)" by fastforce
  let ?t = "s\<lparr>cx_mc := m, cx_runs := cx_runs s @ [(Launch (worker_argv ps d jid), cx_mc s)]\<rparr>"
  let ?k = "case res of
       ProcError e \<Rightarrow>
         eseq (record_launch_failure W dir request (redact_text e))
           (eraise (job_io ''cannot launch detached Codex worker'' [(''job_id'', JStr jid)]))
     | ProcDone rc out err \<Rightarrow>
         if rc \<noteq> 0 then
           eseq (record_launch_failure W dir request (proc_detail out err))
             (eraise (job_io ''cannot launch detached Codex worker''
                [(''job_id'', JStr jid), (''exit_code'', JInt rc), (''detail'', JStr (proc_detail out err))]))
         else ereturn ()"
  have "starts_nothing ?k"
    by (cases res) (auto intro!: same_runs.keeps_rules quiet_failure)
  moreover have "?k ?t = (r, s')" using assms l by (simp add: launch_job_def ebind_def launch_worker_def)
  ultimately show ?thesis by (auto dest: keepsD)
qed

text \<open>C12:
  A submission is durable before anything runs. It starts nothing, or it starts exactly one command,
  the detached worker, on a machine whose disk already binds the job to the instance: the request
  reads back with the submitted prompt and mode, its digest and environment are accepted, and the
  status is queued.
\<close>
theorem job_durable_before_launch:
  "case start_job W ps reg iid mode prompt s of (r, s') \<Rightarrow>
     cx_runs s' = cx_runs s \<or>
     (\<exists>m d dir request jid st.
        cx_runs s' = cx_runs s @ [(Launch (worker_argv ps d jid), m)] \<and>
        load_binding W ps reg iid jid m = Inr (d, dir, request) \<and>
        field request ''prompt'' = JStr prompt \<and> field request ''mode'' = JStr mode \<and>
        read_job (path_div dir ''status.json'') (mc_fs m) = Inr st \<and> field st ''state'' = JStr ''queued'')"
proof -
  obtain r s' where run: "start_job W ps reg iid mode prompt s = (r, s')" by fastforce
  show ?thesis
  proof (cases "prepared_job W ps reg iid mode prompt (cx_mc s)")
    case (Inl e)
    with run show ?thesis by (auto simp: start_job_def ebind_def eread_def)
  next
    case (Inr v)
    obtain d sandbox codex version jid dir where "v = (d, sandbox, codex, version, jid, dir)" by (cases v) auto
    with Inr have prep: "prepared_job W ps reg iid mode prompt (cx_mc s) = Inr (d, sandbox, codex, version, jid, dir)" by simp
    let ?make = "on_codex (make_job_dir ps (path_parent dir) dir)"
    obtain q t where make: "?make s = (q, t)" by fastforce
    have t: "cx_runs t = cx_runs s" by (rule keepsD [OF quiet_on_codex make])
    show ?thesis
    proof (cases q)
      case (Inl e)
      with run prep make t show ?thesis by (simp add: start_job_def ebind_def eread_def eseq_def)
    next
      case (Inr x)
      let ?r = "job_request W ps d jid mode sandbox codex version prompt (utc_now W (cx_mc t))"
      have "(eseq (persist_job dir ?r) (eseq (launch_job W ps d jid dir ?r) (ereturn (start_answer d jid ?r)))) t = (r, s')"
        using run prep make Inr by (simp add: start_job_def ebind_def [of "eread _"] eread_def eseq_def ebind_def [of ?make])
      then show ?thesis unfolding eseq_def
      proof (cases rule: ebind_cases)
        case (raised e)
        with run t keepsD [OF quiet_persist raised(1)] show ?thesis by simp
      next
        case (went_on y u)
        have p: "persist_job dir ?r t = (Inr (), u)" using went_on(1) by simp
        have "programs (mc_fs (cx_mc t)) = programs (mc_fs (cx_mc s))"
          using make by (auto simp: on_codex_def split: prod.splits dest: keepsD [OF programs_job_dir])
        with persisted(4) [OF p] have same: "programs (mc_fs (cx_mc u)) = programs (mc_fs (cx_mc s))" by simp
        obtain request where bind: "load_binding W ps reg iid jid (cx_mc u) = Inr (d, dir, request)"
          "field request ''prompt'' = JStr prompt" "field request ''mode'' = JStr mode"
          by (rule request_binds [OF prep same persisted(2) [OF p]])
        obtain st where st: "read_job (path_div dir ''status.json'') (mc_fs (cx_mc u)) = Inr st"
          "\<And>k. field st k = jsort (field (job_status ?r ''queued'' JNull) k)"
          using read_written [OF persisted(3) [OF p] plain_status] by blast
        have "cx_runs s' = cx_runs u @ [(Launch (worker_argv ps d jid), cx_mc u)]"
          using went_on(2) by (auto simp: ebind_def ereturn_def split: prod.splits sum.splits dest: launched)
        moreover have "field st ''state'' = JStr ''queued''" unfolding st(2) by (simp add: job_status_def field_Cons)
        ultimately show ?thesis using run t persisted(1) [OF p] bind st(1) by fastforce
      qed
    qed
  qed
qed

section \<open>The worker\<close>














section \<open>Reading logs\<close>

text \<open>C38:
  What a command reads of a job's logs is bounded: a command that answers was given a limit between 1 and
  65536 bytes and found the job's binding, and its answer has of the standard output and of the error
  output in the directory of that job the text of the last bytes, at most the limit, all of them
  exactly when they are not marked as truncated.
\<close>
theorem output_is_bounded:
  "case job_output W ps reg iid jid limit s of
     (Inl e, s') \<Rightarrow> True
   | (Inr doc, s') \<Rightarrow>
       1 \<le> limit \<and> limit \<le> 65536 \<and>
       (case load_binding W ps reg iid jid (cx_mc s) of
          Inl e \<Rightarrow> False
        | Inr (d, dir, request) \<Rightarrow>
            job_dir ps reg iid jid = Inr dir \<and>
            list_all (\<lambda>(stream, name). \<exists>bytes before data.
              file_bytes W (path_div dir name) (cx_mc s') = Some bytes \<and> bytes = before @ data \<and>
              int (length data) = min limit (int (length bytes)) \<and>
              jget doc stream = Some (JObj [(''content'', JStr (cw_decode W data)), (''total_bytes'', JInt (int (length bytes))),
                (''returned_bytes'', JInt (int (length data))), (''truncated'', JBool (before \<noteq> []))]))
            [(''stdout'', ''stdout.log''), (''stderr'', ''stderr.log'')])"
proof -
  have tail: "\<exists>bytes before data. file_bytes W p m = Some bytes \<and> bytes = before @ data \<and>
      int (length data) = min limit (int (length bytes)) \<and>
      doc = JObj [(''content'', JStr (cw_decode W data)), (''total_bytes'', JInt (int (length bytes))),
             (''returned_bytes'', JInt (int (length data))), (''truncated'', JBool (before \<noteq> []))]"
    if "tail_bytes W p (nat limit) m = Inr doc" "1 \<le> limit" for p m doc
  proof -
    from that(1) obtain bytes where b: "file_bytes W p m = Some bytes" by (auto simp: tail_bytes_def split: option.splits)
    let ?n = "length bytes - nat limit"
    have "length (drop ?n bytes) \<le> nat limit" by simp
    with that b have "doc = JObj [(''content'', JStr (cw_decode W (drop ?n bytes))), (''total_bytes'', JInt (int (length bytes))),
             (''returned_bytes'', JInt (int (length (drop ?n bytes)))), (''truncated'', JBool (take ?n bytes \<noteq> []))]"
      by (auto simp: tail_bytes_def Let_def)
    moreover have "int (length (drop ?n bytes)) = min limit (int (length bytes))" using that(2) by auto
    ultimately show ?thesis using b append_take_drop_id [of ?n bytes] by metis
  qed
  show ?thesis
  proof (cases "job_output W ps reg iid jid limit s")
    case (Pair r s')
    show ?thesis
    proof (cases r)
      case (Inr doc)
      with Pair obtain d dir request out err where b: "load_binding W ps reg iid jid (cx_mc s) = Inr (d, dir, request)"
        and l: "1 \<le> limit" "limit \<le> 65536"
        and t: "tail_bytes W (path_div dir ''stdout.log'') (nat limit) (cx_mc s') = Inr out"
          "tail_bytes W (path_div dir ''stderr.log'') (nat limit) (cx_mc s') = Inr err"
        and j: "jget doc ''stdout'' = Some out" "jget doc ''stderr'' = Some err"
        by (auto simp: job_output_def em_Inr rbind_eq_Inr split: if_splits prod.splits)
      from b have "job_dir ps reg iid jid = Inr dir" by (auto simp: load_binding_def rbind_eq_Inr)
      with b l tail [OF t(1) l(1)] tail [OF t(2) l(1)] j Pair Inr show ?thesis by auto
    qed (use Pair in simp)
  qed
qed

end
