(* ===== verification/Distribution.thy ===== *)
theory Distribution
  imports Upgrade Codex
begin

text \<open>
  The installed distribution as maintenance.py inspects it: the inventory of a directory, the
  validation of a release against its manifest, the entry points, the declarations as documents, and
  the status.

  Beside the machine the model keeps what \<open>HostFs\<close> does not: for a link the text \<open>readlink\<close> gives, and
  for a file that is not a text its bytes. The registry and the machine are two views
  of one file system, as in \<open>Upgrade\<close>. The digest, the resolution of a path through several links,
  the other programs of a release, locks, the clock and random tokens are arguments; a digest and a
  token are numbers, printed in hexadecimal.
\<close>

section \<open>The outside\<close>

type_synonym marks = "(ppath \<times> string) list"

record keep_world =
  kw_systemd :: systemd
  kw_sha :: "string \<Rightarrow> nat"
  kw_curl :: string
  kw_uid :: nat
  kw_write_ok :: bool
  kw_patience :: nat
  kw_names :: "string \<Rightarrow> machine \<Rightarrow> names"
  kw_module :: ppath
  kw_token :: "machine \<Rightarrow> nat"
  kw_now :: "machine \<Rightarrow> string"
  kw_lock :: "ppath \<Rightarrow> machine \<Rightarrow> bool"
  kw_resolve :: "ppath \<Rightarrow> machine \<Rightarrow> ppath"
  kw_executable :: "ppath \<Rightarrow> machine \<Rightarrow> bool"
  kw_replaced :: "ppath \<Rightarrow> machine \<Rightarrow> string"
  kw_command :: "string list \<Rightarrow> machine \<Rightarrow> proc_result"
  kw_parses :: "string list \<Rightarrow> json \<Rightarrow> machine \<Rightarrow> proc_result"
  kw_imports :: "manager \<Rightarrow> (exn + json) \<times> manager"

definition hex_text :: "nat \<Rightarrow> nat \<Rightarrow> string" where
  "hex_text n k = map (\<lambda>i. hex_digit (k div 16 ^ i mod 16)) (rev [0..<n])"

definition keep_hash :: "keep_world \<Rightarrow> string \<Rightarrow> string" where
  "keep_hash W t = hex_text 64 (kw_sha W (utf8 t))"

text \<open>The service object: its account, its prefix, and whether the installer holds the lock for it.\<close>

record maintenance =
  mt_home :: ppath
  mt_prefix :: ppath
  mt_lock_held :: bool

definition mt_root :: "maintenance \<Rightarrow> ppath" where
  "mt_root K = path_div (mt_prefix K) ''lib/workspace-mcp-manager''"

definition mt_state :: "maintenance \<Rightarrow> ppath" where
  "mt_state K = path_div (mt_home K) ''.local/state/workspace-mcp-manager''"

definition mt_config :: "maintenance \<Rightarrow> ppath" where
  "mt_config K = path_div (mt_home K) ''.config/workspace-mcp-manager''"

definition mt_registry :: "maintenance \<Rightarrow> ppath" where
  "mt_registry K = path_div (mt_config K) ''instances''"

definition mt_journal :: "maintenance \<Rightarrow> ppath" where
  "mt_journal K = path_div (mt_state K) ''maintenance-transaction.json''"

definition mt_receipt :: "maintenance \<Rightarrow> ppath" where
  "mt_receipt K = path_div (mt_state K) ''distribution.json''"

definition mt_current :: "maintenance \<Rightarrow> ppath" where
  "mt_current K = path_div (mt_root K) ''current''"

definition mt_bin :: "maintenance \<Rightarrow> string \<Rightarrow> ppath" where
  "mt_bin K name = path_div (path_div (mt_prefix K) ''bin'') name"

definition mt_release :: "maintenance \<Rightarrow> string \<Rightarrow> ppath" where
  "mt_release K name = path_div (path_div (mt_root K) ''releases'') name"

definition mt_paths :: "maintenance \<Rightarrow> manager_paths" where
  "mt_paths K =
     \<lparr>account_home = mt_home K, config_root = mt_config K, registry_dir = mt_registry K, state_root = mt_state K,
      user_unit_dir = path_div (mt_home K) ''.config/systemd/user'',
      tunnel_profile_dir = path_div (mt_config K) ''tunnel-profiles'',
      manager_executable = path_div (mt_prefix K) ''bin/workspace-mcp-manager''\<rparr>"

definition mt_generator :: "keep_world \<Rightarrow> maintenance \<Rightarrow> generator" where
  "mt_generator W K = \<lparr>gen_paths = mt_paths K, gen_curl = kw_curl W, gen_uid = kw_uid W\<rparr>"

definition refuse :: "string \<Rightarrow> exn + 'a" where
  "refuse msg = Inl (Raised msg)"

text \<open>\<open>p.exists() or p.is_symlink()\<close>.\<close>

definition entry_at :: "fs \<Rightarrow> ppath \<Rightarrow> bool" where
  "entry_at fs p \<longleftrightarrow> x_exists fs p \<or> x_is_symlink fs p"

definition mark :: "marks \<Rightarrow> ppath \<Rightarrow> string" where
  "mark L p = (case map_of L p of Some t \<Rightarrow> t | None \<Rightarrow> [])"

section \<open>The inventory of a directory\<close>

definition below :: "ppath \<Rightarrow> ppath \<Rightarrow> bool" where
  "below root p \<longleftrightarrow> root \<in> set (path_parents p)"

text \<open>\<open>os.walk(root, followlinks=False)\<close> reaches an entry through directories only.\<close>

definition walked :: "fs \<Rightarrow> ppath \<Rightarrow> ppath \<Rightarrow> bool" where
  "walked fs root p \<longleftrightarrow>
     below root p \<and>
     list_all (\<lambda>q. case x_lookup fs q of Some (EDir k) \<Rightarrow> True | _ \<Rightarrow> False)
       (filter (below root) (path_parents p))"

definition entries_below :: "fs \<Rightarrow> ppath \<Rightarrow> ppath list" where
  "entries_below fs root = filter (walked fs root) (remdups (map fst fs))"

definition relative :: "ppath \<Rightarrow> ppath \<Rightarrow> string" where
  "relative root p = join_with ''/'' (drop (length (pp_parts root)) (pp_parts p))"

definition four_digits :: "nat \<Rightarrow> string" where
  "four_digits k = replicate (4 - length (oct_digits k)) CHR ''0'' @ oct_digits k"

definition file_digest :: "keep_world \<Rightarrow> marks \<Rightarrow> ppath \<Rightarrow> content \<Rightarrow> string" where
  "file_digest W L p c = hex_text 64 (kw_sha W (case c of Text t \<Rightarrow> utf8 t | Bytes \<Rightarrow> mark L p))"

definition entry_item :: "keep_world \<Rightarrow> marks \<Rightarrow> machine \<Rightarrow> ppath \<Rightarrow> (string \<times> json) list" where
  "entry_item W L m p =
     (case x_lookup (mc_fs m) p of
        Some (ELink t) \<Rightarrow>
          [(''mode'', JStr ''0777''), (''type'', JStr ''symlink''), (''target'', JStr (mark L p))]
      | Some (EFile k c) \<Rightarrow>
          [(''mode'', JStr (four_digits k)), (''type'', JStr ''file''), (''sha256'', JStr (file_digest W L p c))]
      | Some (EDir k) \<Rightarrow> [(''mode'', JStr (four_digits k)), (''type'', JStr ''directory'')]
      | None \<Rightarrow> [])"

definition inventory_of :: "keep_world \<Rightarrow> marks \<Rightarrow> machine \<Rightarrow> ppath \<Rightarrow> (string \<times> json) list" where
  "inventory_of W L m root =
     map (\<lambda>p. (relative root p, JObj (entry_item W L m p))) (entries_below (mc_fs m) root)"

definition inventory :: "keep_world \<Rightarrow> marks \<Rightarrow> machine \<Rightarrow> ppath \<Rightarrow> exn + (string \<times> json) list" where
  "inventory W L m root =
     (if x_is_symlink (mc_fs m) root \<or> \<not> x_is_dir (mc_fs m) root then refuse (''not an owned directory: '' @ path_str root)
      else Inr (inventory_of W L m root))"

section \<open>Releases\<close>

definition install_keys :: "string list" where
  "install_keys =
     [''schema_version'', ''product_version'', ''repository'', ''release_ref'', ''release_commit'', ''distribution_id'',
      ''manager_source_digest'', ''locked_inputs'', ''components'', ''manifest_scope'', ''content_manifest'']"

definition manifest_scope :: string where
  "manifest_scope =
     ''all-immutable-files-except-install.json; install.json-sha256-is-anchored-by-receipt''"

definition json_items :: "json \<Rightarrow> json list" where
  "json_items v = (case v of JArr xs \<Rightarrow> xs | _ \<Rightarrow> [])"

definition json_pairs :: "json \<Rightarrow> (string \<times> json) list" where
  "json_pairs v = (case v of JObj kvs \<Rightarrow> kvs | _ \<Rightarrow> [])"

text \<open>A path of a manifest or a journal that stays below its directory.\<close>

definition safe_name :: "string \<Rightarrow> bool" where
  "safe_name s \<longleftrightarrow> s \<noteq> [] \<and> \<not> path_is_absolute (path_of s) \<and> ''..'' \<notin> set (pp_parts (path_of s))"

fun expected_content :: "json list \<Rightarrow> (string \<times> json) list \<Rightarrow> exn + (string \<times> json) list" where
  "expected_content [] acc = Inr acc"
| "expected_content (v # vs) acc =
     (case jget v ''path'' of
        Some (JStr s) \<Rightarrow>
          if \<not> safe_name s \<or> s \<in> fst ` set acc then refuse ''unsafe/duplicate manifest entry''
          else expected_content vs (acc @ [(s, v)])
      | _ \<Rightarrow> refuse ''unsafe/duplicate manifest entry'')"

definition actual_content :: "(string \<times> json) list \<Rightarrow> (string \<times> json) list" where
  "actual_content ents =
     map (\<lambda>(k, v). (k, JObj ((''path'', JStr k) # json_pairs v)))
       (filter (\<lambda>(k, v). jget v ''type'' \<noteq> Some (JStr ''directory'') \<and> k \<noteq> ''install.json'') ents)"

definition manifest_ok :: "ppath \<Rightarrow> json \<Rightarrow> exn + unit" where
  "manifest_ok p data =
     rbind (ensure (exactly install_keys data \<and> eq_int (jitem data ''schema_version'') 3 \<and> is_release (path_name p))
       (Raised (''unsupported release: '' @ path_name p @ ''; migrate historical installations before maintenance''))) (\<lambda>_.
     rbind (ensure (jget data ''distribution_id'' = Some (JStr (path_name p)) \<and>
                    (case jget data ''release_commit'' of Some (JStr c) \<Rightarrow> path_name p = ''dist-'' @ c | _ \<Rightarrow> False))
       (Raised ''release identity mismatch'')) (\<lambda>_.
     rbind (ensure (jget data ''manifest_scope'' = Some (JStr manifest_scope))
       (Raised ''unsupported manifest scope'')) (\<lambda>_.
     rbind (ensure (case jget data ''content_manifest'' of Some (JArr xs) \<Rightarrow> list_all is_obj xs | _ \<Rightarrow> False)
       (Raised ''invalid release manifest'')) (\<lambda>_.
     ensure (case jget data ''components'' of
               Some (JObj kvs) \<Rightarrow> list_all (\<lambda>(k, v). is_obj v \<and> (case jget v ''version'' of Some (JStr s) \<Rightarrow> True | _ \<Rightarrow> False)) kvs
             | _ \<Rightarrow> False)
       (Raised ''invalid release components'')))))"

definition validate_release :: "keep_world \<Rightarrow> marks \<Rightarrow> machine \<Rightarrow> ppath \<Rightarrow> exn + json" where
  "validate_release W L m p =
     rbind (read_json (path_div p ''install.json'') (mc_fs m)) (\<lambda>data.
     rbind (manifest_ok p data) (\<lambda>_.
     rbind (inventory W L m p) (\<lambda>ents.
     rbind (expected_content (json_items (jitem data ''content_manifest'')) []) (\<lambda>expected.
     rbind (ensure (py_eq (JObj (actual_content ents)) (JObj expected))
       (Raised (''immutable release content changed: '' @ path_name p))) (\<lambda>_.
     Inr data)))))"

section \<open>Declarations and entry points\<close>

definition read_declaration :: "files \<Rightarrow> ppath \<Rightarrow> exn + json" where
  "read_declaration fs p =
     (if f_is_symlink fs p \<or> \<not> f_is_file fs p then refuse (''not a regular file: '' @ path_str p)
      else
        (case f_read fs p of
           ReadText t \<Rightarrow>
             (case loads_unique t of
                Some (JObj kvs) \<Rightarrow> Inr (JObj kvs)
              | Some v \<Rightarrow> refuse (''JSON object required: '' @ path_name p)
              | None \<Rightarrow> refuse (''cannot read '' @ path_name p))
         | _ \<Rightarrow> refuse (''cannot read '' @ path_name p)))"

definition declarations :: "maintenance \<Rightarrow> registry_state \<Rightarrow> exn + (string \<times> json) list" where
  "declarations K reg =
     (if f_is_symlink (rs_files reg) (mt_registry K) then refuse ''registry is a symlink''
      else if f_exists (rs_files reg) (mt_registry K) then
        traverse (\<lambda>p. rbind (read_declaration (rs_files reg) p) (\<lambda>v.
            if jget v ''instance_id'' = Some (JStr (path_stem p)) then Inr (path_stem p, v)
            else refuse ''declaration identity mismatch''))
          (json_children (reg\<lparr>rs_directory := mt_registry K\<rparr>))
      else Inr [])"

definition commands :: "string list" where
  "commands = [''workspace-mcp-manager'', ''workspace-mcp-manager-tui'', ''workspace-mcp-reboot'', ''workspace-mcp-manager-upgrade'']"

definition setup_command :: string where
  "setup_command = ''workspace-mcp-manager-setup''"

definition command_target :: "string \<Rightarrow> string" where
  "command_target name = ''../lib/workspace-mcp-manager/current/bin/'' @ name"

definition setup_target :: "string \<Rightarrow> bool" where
  "setup_target t \<longleftrightarrow>
     (let pre = ''../lib/workspace-mcp-manager/releases/'' in
      prefix pre t \<and> is_release (take 45 (drop (length pre) t)) \<and>
      drop (length pre + 45) t = ''/bin/workspace-mcp-manager-setup'')"

text \<open>The reboot command of the older toolkit is left alone while no distribution is installed.\<close>

definition toolkit_reboot :: "keep_world \<Rightarrow> maintenance \<Rightarrow> string \<Rightarrow> machine \<Rightarrow> bool" where
  "toolkit_reboot W K name m \<longleftrightarrow>
     (let fs = mc_fs m; toolkit = path_div (mt_prefix K) ''lib/workspace-mcp'';
          version = path_div toolkit ''VERSION''; helper = path_div toolkit name in
      name = ''workspace-mcp-reboot'' \<and> \<not> x_exists fs (mt_root K) \<and> x_is_symlink fs (mt_bin K name) \<and>
      \<not> x_is_symlink fs toolkit \<and> x_is_file fs version \<and> \<not> x_is_symlink fs version \<and>
      (case x_text (x_lookup fs version) of TextOk t \<Rightarrow> strip t = ''0.3.2'' | _ \<Rightarrow> False) \<and>
      x_is_file fs helper \<and> \<not> x_is_symlink fs helper \<and> kw_resolve W (mt_bin K name) m = helper)"

definition entrypoint :: "keep_world \<Rightarrow> maintenance \<Rightarrow> bool \<Rightarrow> marks \<Rightarrow> machine \<Rightarrow> string \<Rightarrow> exn + string option" where
  "entrypoint W K predecessor L m name =
     (let fs = mc_fs m; p = mt_bin K name; target = mark L p in
      if predecessor \<and> name = commands ! 3 then
        (if entry_at fs p then refuse (''unexpected predecessor entry point: '' @ name) else Inr None)
      else if \<not> entry_at fs p then
        (if name \<noteq> setup_command \<and> x_exists fs (mt_root K) then refuse (''missing entry point: '' @ name) else Inr None)
      else if toolkit_reboot W K name m then Inr None
      else if \<not> x_is_symlink fs p then refuse (''foreign entry point: '' @ path_str p)
      else if name = setup_command then
        (if \<not> setup_target target then refuse ''foreign setup entry point''
         else if \<not> x_exists fs (mt_journal K) \<and> \<not> x_is_file fs p then refuse ''setup entry point is incomplete''
         else Inr (Some target))
      else if target \<noteq> command_target name then refuse (''foreign entry point: '' @ name)
      else Inr (Some target))"

definition entrypoints :: "keep_world \<Rightarrow> maintenance \<Rightarrow> bool \<Rightarrow> marks \<Rightarrow> machine \<Rightarrow> exn + (string \<times> json) list" where
  "entrypoints W K predecessor L m =
     rbind (traverse (\<lambda>name. rbind (entrypoint W K predecessor L m name) (\<lambda>t. Inr (name, t))) (commands @ [setup_command]))
       (\<lambda>found. Inr (List.map_filter (\<lambda>(name, t). map_option (\<lambda>t. (name, JStr t)) t) found))"

section \<open>Status\<close>

definition is_legacy_release :: "string \<Rightarrow> bool" where
  "is_legacy_release s \<longleftrightarrow> hexadecimal 64 s"

definition releases_name :: "string \<Rightarrow> string option" where
  "releases_name t = (if prefix ''releases/'' t then Some (drop 9 t) else None)"

definition is_predecessor :: "maintenance \<Rightarrow> marks \<Rightarrow> machine \<Rightarrow> bool" where
  "is_predecessor K L m \<longleftrightarrow>
     x_is_symlink (mc_fs m) (mt_current K) \<and>
     (case releases_name (mark L (mt_current K)) of Some n \<Rightarrow> is_legacy_release n | None \<Rightarrow> False)"

definition current_name :: "maintenance \<Rightarrow> marks \<Rightarrow> string" where
  "current_name K L = path_name (path_of (mark L (mt_current K)))"

definition is_pending :: "maintenance \<Rightarrow> machine \<Rightarrow> bool" where
  "is_pending K m \<longleftrightarrow>
     entry_at (mc_fs m) (mt_journal K) \<or> entry_at (mc_fs m) (path_div (mt_state K) ''distribution-transaction.json'') \<or>
     pending_imports (mt_paths K) (mc_fs m)"

definition upgrade_status :: "keep_world \<Rightarrow> maintenance \<Rightarrow> machine \<Rightarrow> exn + (string \<times> json) list" where
  "upgrade_status W K m =
     (let fs = mc_fs m; p = path_div (mt_state K) ''instance-upgrade.json'';
          helper = path_div (path_parent (kw_module W)) ''upgrade_state.py'' in
      if \<not> entry_at fs p then Inr []
      else if \<not> x_is_file fs helper \<or> x_is_symlink fs helper then refuse ''instance upgrade inspector is unavailable''
      else
        (case read_upgrade p fs of
           Inl e \<Rightarrow> refuse e
         | Inr u \<Rightarrow>
             if up_prefix u \<noteq> path_str (mt_prefix K) then refuse ''instance upgrade belongs to a different prefix''
             else Inr
               [(''recovery_required'', JBool True),
                (''instance_upgrade'', JObj
                  [(''target_release'', JStr (up_release u)), (''target_root'', JStr (up_target u)),
                   (''completed'', strs (map ur_id (filter (\<lambda>r. ur_phase r = Completed) (up_rows u)))),
                   (''failed'', opt_str (up_failed u)),
                   (''remaining'', strs (map ur_id (filter (\<lambda>r. ur_phase r \<noteq> Completed) (up_rows u))))])]))"

definition legacy_ok :: "keep_world \<Rightarrow> bool \<Rightarrow> marks \<Rightarrow> machine \<Rightarrow> ppath \<Rightarrow> exn + unit" where
  "legacy_ok W current L m p =
     (let fs = mc_fs m; lock = path_div p ''requirements-tui.lock''; bins = map (\<lambda>n. path_div (path_div p ''bin'') n) (take 3 commands) in
      rbind (read_json (path_div p ''install.json'') fs) (\<lambda>data.
      rbind (ensure (\<not> x_is_symlink fs p \<and> eq_int (jitem data ''schema_version'') 2 \<and>
                     list_all (\<lambda>n. let q = path_div p n in x_is_dir fs q \<and> \<not> x_is_symlink fs q)
                       [''src/workspace_mcp_manager'', ''tui-runtime/site-packages/textual''])
               (Raised ''unrecognized historical release'')) (\<lambda>_.
      rbind (ensure (list_all (x_is_file fs) bins) (Raised ''incomplete historical release'')) (\<lambda>_.
      rbind (ensure (x_is_file fs lock) (Raised ''incomplete historical dependency lock'')) (\<lambda>_.
      rbind (ensure (current \<longrightarrow> \<not> x_is_symlink fs lock \<and> list_all (\<lambda>q. kw_executable W q m) bins)
               (Raised ''incomplete predecessor release'')) (\<lambda>_.
      rbind (inventory W L m p) (\<lambda>_. Inr ())))))))"

definition release_item :: "string \<Rightarrow> json \<Rightarrow> json" where
  "release_item name data =
     JObj [(''id'', JStr name), (''version'', jitem data ''product_version''),
           (''components'', JObj (map (\<lambda>(k, v). (k, jitem v ''version'')) (json_pairs (jitem data ''components''))))]"

text \<open>One entry of the releases directory: a historical release by name, or a validated one.\<close>

definition inspect_release ::
  "keep_world \<Rightarrow> maintenance \<Rightarrow> bool \<Rightarrow> marks \<Rightarrow> machine \<Rightarrow> string \<Rightarrow> exn + (string + json)" where
  "inspect_release W K predecessor L m name =
     (if is_legacy_release name then
        rbind (legacy_ok W (predecessor \<and> name = current_name K L) L m (mt_release K name)) (\<lambda>_. Inr (Inl name))
      else rbind (validate_release W L m (mt_release K name)) (\<lambda>data. Inr (Inr (release_item name data))))"

definition check_layout :: "maintenance \<Rightarrow> marks \<Rightarrow> machine \<Rightarrow> exn + unit" where
  "check_layout K L m =
     (let fs = mc_fs m in
      rbind (ensure (\<not> x_is_symlink fs (mt_root K) \<and> set (x_children fs (mt_root K)) = {''current'', ''releases''})
               (Raised ''foreign or ambiguous installation contents'')) (\<lambda>_.
      rbind (ensure (x_is_symlink fs (mt_current K) \<and>
                     (case releases_name (mark L (mt_current K)) of
                        Some n \<Rightarrow> is_release n \<or> is_legacy_release n | None \<Rightarrow> False))
               (Raised ''invalid current release'')) (\<lambda>_.
      ensure (let r = path_div (mt_root K) ''releases'' in \<not> x_is_symlink fs r \<and> x_is_dir fs r)
        (Raised ''invalid releases directory''))))"

definition installed_status ::
  "keep_world \<Rightarrow> maintenance \<Rightarrow> bool \<Rightarrow> (string \<times> json) list \<Rightarrow> marks \<Rightarrow> machine \<Rightarrow> exn + (string \<times> json) list" where
  "installed_status W K predecessor base L m =
     rbind (check_layout K L m) (\<lambda>_.
     rbind (traverse (inspect_release W K predecessor L m) (sort (x_children (mc_fs m) (path_div (mt_root K) ''releases''))))
       (\<lambda>found.
     let legacy = List.map_filter (\<lambda>r. case r of Inl n \<Rightarrow> Some n | Inr v \<Rightarrow> None) found;
         items = List.map_filter (\<lambda>r. case r of Inl n \<Rightarrow> None | Inr v \<Rightarrow> Some v) found;
         cur = current_name K L;
         told = (\<lambda>ownership. dict_set ''retained_legacy'' (strs legacy)
                  (dict_set ''current'' (JStr cur) (dict_set ''ownership'' (JStr ownership) base))) in
     if predecessor then
       (if cur \<notin> set legacy then refuse ''current predecessor release is missing''
        else Inr (told ''recognized_existing''))
     else if \<not> list_ex (\<lambda>v. jget v ''id'' = Some (JStr cur)) items then refuse ''current release is missing''
     else Inr (dict_set ''releases'' (JArr items) (told ''standalone_distribution''))))"

definition maintenance_status ::
  "keep_world \<Rightarrow> maintenance \<Rightarrow> registry_state \<Rightarrow> marks \<Rightarrow> machine \<Rightarrow> exn + (string \<times> json) list" where
  "maintenance_status W K reg L m =
     rbind (declarations K reg) (\<lambda>instances.
     let predecessor = is_predecessor K L m in
     rbind (entrypoints W K predecessor L m) (\<lambda>entries.
     rbind (upgrade_status W K m) (\<lambda>upgrade.
     let base = fold (\<lambda>(k, v). dict_set k v) upgrade
           [(''ok'', JBool True), (''ownership'', JStr ''absent''), (''current'', JNull), (''releases'', JArr []),
            (''instances'', JObj instances), (''recovery_required'', JBool (is_pending K m)),
            (''entrypoints'', JObj entries)] in
     if \<not> entry_at (mc_fs m) (mt_root K) then
       (if entries \<noteq> [] \<and> \<not> x_exists (mc_fs m) (mt_journal K)
        then refuse ''entry points exist without an owned distribution''
        else Inr base)
     else installed_status W K predecessor base L m)))"

end
