(* ===== verification/Maintenance.thy ===== *)
theory Maintenance
  imports Distribution
begin

text \<open>
  Maintenance of the installed distribution (maintenance.py): the preview that is reviewed, the
  rollback to a retained release, the uninstallation, which removes every deployment and then moves
  the program tree away before it deletes it, and the recovery of an interrupted one of either.
\<close>

section \<open>State\<close>

text \<open>
  \<open>kp_commits\<close>: the states in which the program tree was moved away, the point of no return of an
  uninstallation.
\<close>

record keeper =
  kp_mg :: manager
  kp_marks :: marks
  kp_commits :: "(manager \<times> marks) list"

type_synonym 'a km = "(keeper, exn, 'a) em"

abbreviation kp_mc :: "keeper \<Rightarrow> machine" where
  "kp_mc s \<equiv> mg_machine (kp_mg s)"

abbreviation kp_reg :: "keeper \<Rightarrow> registry_state" where
  "kp_reg s \<equiv> mg_registry (kp_mg s)"

definition on_manager :: "'a sm \<Rightarrow> 'a km" where
  "on_manager c s = (case c (kp_mg s) of (r, g) \<Rightarrow> (r, s\<lparr>kp_mg := g\<rparr>))"

definition on_keep :: "'a mm \<Rightarrow> 'a km" where
  "on_keep c = on_manager (on_machine c)"

definition look :: "(marks \<Rightarrow> machine \<Rightarrow> exn + 'a) \<Rightarrow> 'a km" where
  "look f = eread (\<lambda>s. f (kp_marks s) (kp_mc s))"

definition demand :: "(fs \<Rightarrow> bool) \<Rightarrow> string \<Rightarrow> unit km" where
  "demand ok msg = look (\<lambda>L m. ensure (ok (mc_fs m)) (Raised msg))"

section \<open>Files\<close>

definition save_journal :: "maintenance \<Rightarrow> json \<Rightarrow> unit km" where
  "save_journal K v =
     eseq (on_keep (write_json (mt_journal K) v)) (on_manager (in_registry (dict_set (mt_journal K) (FText (json_file v)))))"

text \<open>\<open>unlink(missing_ok=True)\<close>.\<close>

definition m_discard :: "ppath \<Rightarrow> unit mm" where
  "m_discard p m = (if x_lookup (mc_fs m) p = None then (Inr (), m) else m_unlink p m)"

definition clear_journal :: "maintenance \<Rightarrow> unit km" where
  "clear_journal K =
     eseq (on_keep (m_discard (mt_journal K))) (on_manager (in_registry (filter (\<lambda>q. fst q \<noteq> mt_journal K))))"

text \<open>\<open>p.symlink_to(text)\<close> and \<open>os.replace\<close> of a link; \<open>e\<close> is what the link resolves to.\<close>

definition m_symlink :: "ppath \<Rightarrow> string \<Rightarrow> entry option \<Rightarrow> unit km" where
  "m_symlink p t e s =
     (if x_lookup (mc_fs (kp_mc s)) p \<noteq> None \<or> \<not> x_is_dir (mc_fs (kp_mc s)) (path_parent p)
      then (Inl (Raised (path_str p)), s)
      else eseq (on_keep (m_change p (x_put p (ELink e)))) (emodify (\<lambda>s. s\<lparr>kp_marks := dict_set p t (kp_marks s)\<rparr>)) s)"

definition replace_link :: "ppath \<Rightarrow> ppath \<Rightarrow> unit km" where
  "replace_link p q s =
     (case x_lookup (mc_fs (kp_mc s)) p of
        Some (ELink e) \<Rightarrow>
          if (case x_lookup (mc_fs (kp_mc s)) q of Some (EDir k) \<Rightarrow> True | _ \<Rightarrow> False) then (Inl (Raised (path_str q)), s)
          else
            eseq (on_keep (m_change q (\<lambda>fs. x_put q (ELink e) (x_delete p fs))))
              (emodify (\<lambda>s. s\<lparr>kp_marks := dict_set q (mark (kp_marks s) p) (filter (\<lambda>l. fst l \<noteq> p) (kp_marks s))\<rparr>)) s
      | _ \<Rightarrow> (Inl (Raised (path_str p)), s))"

definition moved :: "ppath \<Rightarrow> ppath \<Rightarrow> ppath \<Rightarrow> ppath" where
  "moved p q r = (if r = p \<or> below p r then PPath (pp_root q) (pp_parts q @ drop (length (pp_parts p)) (pp_parts r)) else r)"

text \<open>\<open>os.rename\<close> of a directory: onto nothing, or onto an empty directory.\<close>

definition rename_tree :: "ppath \<Rightarrow> ppath \<Rightarrow> unit km" where
  "rename_tree p q s =
     (let fs = mc_fs (kp_mc s) in
      if \<not> (case x_lookup fs p of Some (EDir k) \<Rightarrow> True | _ \<Rightarrow> False) \<or>
         \<not> (case x_lookup fs q of None \<Rightarrow> True | Some (EDir k) \<Rightarrow> x_children fs q = [] | _ \<Rightarrow> False) \<or>
         q \<in> set (mc_refuses (kp_mc s))
      then (Inl (Raised (path_str p)), s)
      else
        eseq (on_keep (m_change p (\<lambda>fs. map (\<lambda>(r, e). (moved p q r, e)) (x_delete q fs))))
          (emodify (\<lambda>s. s\<lparr>kp_marks := map (\<lambda>(r, t). (moved p q r, t)) (kp_marks s)\<rparr>)) s)"

text \<open>\<open>shutil.rmtree\<close>: the content of a directory before the directory.\<close>

definition remove_tree :: "ppath \<Rightarrow> unit mm" where
  "remove_tree p m =
     each_e (\<lambda>q. m_change q (x_delete q))
       (rev (sort_by (\<lambda>q. length (pp_parts q)) (entries_below (mc_fs m) p)) @ [p]) m"

text \<open>\<open>shutil.copytree(src, dst, symlinks=True)\<close>.\<close>

definition copy_tree :: "ppath \<Rightarrow> ppath \<Rightarrow> unit km" where
  "copy_tree src dst s =
     (let fs = mc_fs (kp_mc s); to = moved src dst in
      eseq (on_keep (m_mkdir dst False 511))
      (eseq (each_e (\<lambda>p. on_keep (\<lambda>m. case x_lookup fs p of
                          Some e \<Rightarrow> m_change (to p) (x_put (to p) e) m | None \<Rightarrow> (Inr (), m)))
              (src # sort_by (\<lambda>q. length (pp_parts q)) (entries_below fs src)))
        (emodify (\<lambda>s. s\<lparr>kp_marks := map (\<lambda>(r, t). (to r, t)) (filter (\<lambda>l. fst l = src \<or> below src (fst l)) (kp_marks s)) @ kp_marks s\<rparr>))) s)"

section \<open>Locks\<close>

definition hold_lock :: "keep_world \<Rightarrow> ppath \<Rightarrow> string \<Rightarrow> unit km" where
  "hold_lock W p msg =
     eseq (on_keep (open_append p)) (look (\<lambda>L m. ensure (kw_lock W p m) (Raised msg)))"

definition locked :: "keep_world \<Rightarrow> maintenance \<Rightarrow> 'a km \<Rightarrow> 'a km" where
  "locked W K c =
     (if mt_lock_held K then c
      else
        (let p = path_div (mt_state K) ''distribution.lock'' in
         eseq (on_keep (m_mkdir (mt_state K) True 448))
        (eseq (demand (\<lambda>fs. \<not> x_is_symlink fs p) ''symlinked distribution lock'')
        (eseq (hold_lock W p ''another distribution mutation holds the account-level lock'') c))))"

definition lock_name :: "string \<Rightarrow> bool" where
  "lock_name s \<longleftrightarrow> transaction_name s"

definition quiescent_instances :: "keep_world \<Rightarrow> maintenance \<Rightarrow> string list \<Rightarrow> unit km" where
  "quiescent_instances W K names =
     (let gates = path_div (mt_registry K) ''.locks'' in
      eseq (on_keep (m_mkdir gates True 448))
     (eseq (hold_lock W (path_div gates ''.registry.lock'') ''a registry write is still in progress'')
       (each_e (\<lambda>name.
          if \<not> lock_name name then eraise (Raised ''unsafe instance lock name'')
          else
            each_e (\<lambda>dir.
              eseq (on_keep (m_mkdir dir True 448))
                (hold_lock W (path_div dir (name @ ''.lock'')) ''an instance operation is still in progress''))
              [path_div (mt_state K) ''locks'', gates])
          (sort names))))"

section \<open>What still uses the installation\<close>

definition uses_installation :: "maintenance \<Rightarrow> string \<Rightarrow> bool" where
  "uses_installation K t \<longleftrightarrow>
     list_ex (\<lambda>needle. contains needle t)
       [path_str (mt_root K), path_str (path_div (mt_prefix K) ''bin/workspace-mcp-manager''),
        path_str (path_div (mt_prefix K) ''bin/workspace-mcp-reboot'')]"

definition path_suffix :: "ppath \<Rightarrow> string" where
  "path_suffix p = drop (length (path_stem p)) (path_name p)"

definition unit_files :: "keep_world \<Rightarrow> maintenance \<Rightarrow> machine \<Rightarrow> string list" where
  "unit_files W K m =
     (let dir = user_unit_dir (mt_paths K); fs = mc_fs m;
          unit_text = (\<lambda>p. case x_follow (x_lookup fs p) of
            Some (EFile k (Text t)) \<Rightarrow> universal_newlines t | Some (EFile k Bytes) \<Rightarrow> kw_replaced W p m | _ \<Rightarrow> []) in
      if \<not> x_exists fs dir then []
      else map path_str (filter (\<lambda>p. path_suffix p \<in> {''.service'', ''.timer''} \<and> x_is_file fs p \<and> uses_installation K (unit_text p))
             (entries_below fs dir)))"

text \<open>\<open>text.split('\\n\\n')\<close>.\<close>

fun blocks_of :: "string \<Rightarrow> string \<Rightarrow> string list" where
  "blocks_of acc [] = [rev acc]"
| "blocks_of acc [c] = [rev (c # acc)]"
| "blocks_of acc (c # d # s) =
     (if c = CHR 0x0A \<and> d = CHR 0x0A then rev acc # blocks_of [] s else blocks_of (c # acc) (d # s))"

definition block_id :: "string \<Rightarrow> string" where
  "block_id b = (case find (prefix ''Id='') (lines_of b) of Some l \<Rightarrow> drop 3 l | None \<Rightarrow> ''loaded service'')"

definition loaded_units :: "keep_world \<Rightarrow> maintenance \<Rightarrow> machine \<Rightarrow> exn + string list" where
  "loaded_units W K m =
     (case kw_command W [''systemctl'', ''--user'', ''list-units'', ''--all'', ''--type=service'', ''--no-legend'', ''--plain''] m of
        ProcError e \<Rightarrow> refuse e
      | ProcDone rc out err \<Rightarrow>
          if rc \<noteq> 0 then refuse ''cannot inspect user services; user systemd must be available''
          else
            (let names = List.map_filter (\<lambda>l. case words_of l of w # ws \<Rightarrow> Some w | [] \<Rightarrow> None) (lines_of out) in
             if names = [] then Inr []
             else
               (case kw_command W ([''systemctl'', ''--user'', ''show'', ''--property=Id,ExecStart'', ''--''] @ names) m of
                  ProcError e \<Rightarrow> refuse e
                | ProcDone rc out err \<Rightarrow>
                    if rc \<noteq> 0 then refuse ''cannot inspect loaded user service commands''
                    else Inr (map block_id (filter (uses_installation K) (blocks_of [] out))))))"

definition remaining_units :: "keep_world \<Rightarrow> maintenance \<Rightarrow> machine \<Rightarrow> exn + string list" where
  "remaining_units W K m =
     rbind (loaded_units W K m) (\<lambda>loaded. Inr (sort (remdups (unit_files W K m @ loaded))))"

definition instance_units :: "string \<Rightarrow> string list" where
  "instance_units n = [mcp_unit_name n, tunnel_unit_name n, agent_unit_name n, guard_unit_name n, guard_timer_name n]"

definition removal_item :: "plan_item \<Rightarrow> json" where
  "removal_item i = JObj [(''operation'', JStr (plan_op_value (pi_op i))), (''target'', JStr (pi_target i))]"

definition removal_preview :: "keep_world \<Rightarrow> maintenance \<Rightarrow> registry_state \<Rightarrow> machine \<Rightarrow> exn + json" where
  "removal_preview W K reg m =
     rbind (managed (list_instances reg True)) (\<lambda>ds.
     rbind (traverse (\<lambda>d.
        rbind (fst (planned (kw_systemd W) (keep_hash W) (mt_generator W K) reg (with_intent ABSENT STOPPED d) m)) (\<lambda>p.
        if \<not> pl_valid p then refuse (''deployment removal has conflicts: '' @ di_id d)
        else Inr (JObj [(''instance_id'', JStr (di_id d)),
                        (''operations'', JArr (map removal_item (filter (\<lambda>i. pi_op i \<noteq> P_NOOP) (pl_items p))))]))) ds)
       (\<lambda>rows. Inr (JArr rows)))"

section \<open>The preview\<close>

definition observed_identity :: "json \<Rightarrow> string \<Rightarrow> json" where
  "observed_identity data name = jitem (jitem (jitem data ''components'') name) ''expected_observable_identity''"

definition command_tells :: "keep_world \<Rightarrow> machine \<Rightarrow> string list \<Rightarrow> json \<Rightarrow> string \<Rightarrow> exn + unit" where
  "command_tells W m argv expected msg =
     (case kw_command W argv m of
        ProcError e \<Rightarrow> refuse e
      | ProcDone rc out err \<Rightarrow> ensure (rc = 0 \<and> expected = JStr (strip out)) (Raised msg))"

definition version_code :: string where
  "version_code =
     ''import importlib.metadata,sys; sys.path.insert(0,sys.argv[1]); print(importlib.metadata.version('' @ dq @
     ''coding-tools-mcp'' @ dq @ ''))''"

definition validate_runtime :: "keep_world \<Rightarrow> ppath \<Rightarrow> machine \<Rightarrow> exn + unit" where
  "validate_runtime W r m =
     rbind (read_json (path_div r ''install.json'') (mc_fs m)) (\<lambda>data.
     rbind (traverse (\<lambda>(name, binary). command_tells W m [path_str (path_div r binary), ''--version'']
              (observed_identity data name) (''rollback runtime validation failed: '' @ name))
        [(''python'', ''runtimes/python/bin/python3''), (''uv'', ''tools/uv/uv''),
         (''tunnel_client'', ''runtimes/tunnel-client/tunnel-client'')]) (\<lambda>_.
     rbind (command_tells W m
        [path_str (path_div r ''runtimes/python/bin/python3''), ''-B'', ''-I'', ''-S'', ''-c'', version_code,
         path_str (path_div r ''runtimes/coding-tools-mcp/site-packages'')]
        (observed_identity data ''coding_tools_mcp'') ''rollback coding-tools identity mismatch'') (\<lambda>_.
     rbind (traverse (\<lambda>name.
        case kw_command W [path_str (path_div (path_div r ''bin'') name), ''--help''] m of
          ProcError e \<Rightarrow> refuse e
        | ProcDone rc out err \<Rightarrow> ensure (rc = 0) (Raised (''rollback wrapper validation failed: '' @ name)))
        (take 2 commands)) (\<lambda>_. Inr ()))))"

definition parse_code :: string where
  "parse_code =
     ''import sys; sys.path.insert(0,sys.argv[1]); from workspace_mcp_manager.domain import DesiredInstance; DesiredInstance.from_json(sys.stdin.read())''"

definition validate_compatibility :: "keep_world \<Rightarrow> maintenance \<Rightarrow> registry_state \<Rightarrow> ppath \<Rightarrow> machine \<Rightarrow> exn + unit" where
  "validate_compatibility W K reg r m =
     rbind (declarations K reg) (\<lambda>ds.
     rbind (traverse (\<lambda>(name, v).
        case kw_parses W [path_str (path_div r ''runtimes/python/bin/python3''), ''-B'', ''-I'', ''-S'', ''-c'', parse_code,
               path_str (path_div r ''manager/src'')] v m of
          ProcError e \<Rightarrow> refuse e
        | ProcDone rc out err \<Rightarrow> ensure (rc = 0) (Raised (''rollback release cannot parse declaration '' @ name))) ds)
       (\<lambda>_. Inr ()))"

definition check_target :: "keep_world \<Rightarrow> maintenance \<Rightarrow> registry_state \<Rightarrow> json \<Rightarrow> string option \<Rightarrow> marks \<Rightarrow> machine \<Rightarrow> exn + unit" where
  "check_target W K reg cur target L m =
     (case target of
        None \<Rightarrow> refuse ''choose a different validated retained release''
      | Some t \<Rightarrow>
          if t = [] \<or> \<not> is_release t \<or> JStr t = cur then refuse ''choose a different validated retained release''
          else
            rbind (validate_release W L m (mt_release K t)) (\<lambda>_.
            rbind (validate_runtime W (mt_release K t) m) (\<lambda>_.
            validate_compatibility W K reg (mt_release K t) m)))"

text \<open>The digest of a file, links followed, or \<open>None\<close>.\<close>

definition digest_at :: "keep_world \<Rightarrow> marks \<Rightarrow> ppath \<Rightarrow> machine \<Rightarrow> string option" where
  "digest_at W L p m =
     (case x_follow (x_lookup (mc_fs m) p) of Some (EFile k c) \<Rightarrow> Some (file_digest W L p c) | _ \<Rightarrow> None)"

definition recovery_command :: "maintenance \<Rightarrow> string" where
  "recovery_command K =
     join_with '' '' (map shell_quote
       [''bash'', path_str (path_div (mt_state K) ''setup-recovery/setup.sh''), ''--interactive'', ''--account-home'',
        path_str (mt_home K), ''--prefix'', path_str (mt_prefix K)])"

definition check_units :: "(string \<times> json) list \<Rightarrow> string list \<Rightarrow> exn + unit" where
  "check_units instances units =
     ensure (list_all (\<lambda>u. path_name (path_of u) \<in> set (concat (map (instance_units \<circ> fst) instances))) units)
       (Raised ''unregistered services reference this installation; resolve them before uninstall'')"

record keep_preview =
  kv_status :: "(string \<times> json) list"
  kv_receipt :: "string option"
  kv_payload :: "(string \<times> json) list"
  kv_fingerprint :: string

definition kv_instances :: "keep_preview \<Rightarrow> (string \<times> json) list" where
  "kv_instances v = json_pairs (jitem (JObj (kv_status v)) ''instances'')"

definition preview_payload ::
  "maintenance \<Rightarrow> string \<Rightarrow> string option \<Rightarrow> (string \<times> json) list \<Rightarrow> string list \<Rightarrow> string option \<Rightarrow> json \<Rightarrow> (string \<times> json) list" where
  "preview_payload K action target told units receipt removal =
     [(''ok'', JBool True), (''action'', JStr action), (''target'', opt_str target), (''status'', JObj told),
      (''remaining_units'', strs units), (''receipt_sha256'', opt_str receipt), (''deployment_removal'', removal),
      (''recovery_command'', JStr (recovery_command K)),
      (''preserved'', strs [''configuration'', ''declaration records'', ''profiles'', ''credentials'', ''workspaces'', ''logs''])]"

definition preview_status ::
  "keep_world \<Rightarrow> maintenance \<Rightarrow> string \<Rightarrow> keeper \<Rightarrow> exn + (string \<times> json) list" where
  "preview_status W K action s =
     rbind (ensure (\<not> pending_imports (mt_paths K) (mc_fs (kp_mc s)))
       (Raised ''recover pending legacy imports before distribution maintenance'')) (\<lambda>_.
     rbind (ensure (action \<in> {''rollback'', ''uninstall''}) (Raised ''unsupported maintenance action'')) (\<lambda>_.
     rbind (maintenance_status W K (kp_reg s) (kp_marks s) (kp_mc s)) (\<lambda>told.
     rbind (ensure (\<not> truthy (jitem (JObj told) ''recovery_required'')) (Raised ''recover the pending transaction first'')) (\<lambda>_.
     rbind (ensure (jget (JObj told) ''ownership'' = Some (JStr ''standalone_distribution''))
       (Raised ''maintenance requires a validated standalone installation'')) (\<lambda>_. Inr told)))))"

definition preview_maintenance :: "keep_world \<Rightarrow> maintenance \<Rightarrow> string \<Rightarrow> string option \<Rightarrow> keeper \<Rightarrow> exn + keep_preview" where
  "preview_maintenance W K action target s =
     (let m = kp_mc s; L = kp_marks s; reg = kp_reg s; uninstall = (action = ''uninstall'') in
      rbind (preview_status W K action s) (\<lambda>told.
      rbind (if action = ''rollback'' then check_target W K reg (jitem (JObj told) ''current'') target L m else Inr ()) (\<lambda>_.
      rbind (inventory W L m (mt_root K)) (\<lambda>snapshot.
      rbind (ensure (\<not> x_is_symlink (mc_fs m) (mt_receipt K)) (Raised ''foreign receipt blocks maintenance'')) (\<lambda>_.
      rbind (if uninstall then removal_preview W K reg m else Inr (JArr [])) (\<lambda>removal.
      rbind (if uninstall then remaining_units W K m else Inr []) (\<lambda>units.
      rbind (check_units (json_pairs (jitem (JObj told) ''instances'')) units) (\<lambda>_.
      let payload = preview_payload K action target told units (digest_at W L (mt_receipt K) m) removal in
      Inr \<lparr>kv_status = told, kv_receipt = digest_at W L (mt_receipt K) m, kv_payload = payload,
           kv_fingerprint = digest (keep_hash W) (JObj [(''preview'', JObj payload), (''inventory'', JObj snapshot)])\<rparr>))))))))"

section \<open>The journal\<close>

record keep_journal =
  kj_operation :: string
  kj_phase :: string
  kj_token :: string
  kj_previous :: string
  kj_target :: "string option"
  kj_inventory :: "(string \<times> json) list"
  kj_entrypoints :: "(string \<times> json) list"
  kj_receipt :: "string option"
  kj_completed :: "string list"

definition keep_journal_doc :: "keep_journal \<Rightarrow> json" where
  "keep_journal_doc j =
     JObj [(''schema_version'', JInt 1), (''operation'', JStr (kj_operation j)), (''phase'', JStr (kj_phase j)),
           (''token'', JStr (kj_token j)), (''previous'', JStr (kj_previous j)), (''target'', opt_str (kj_target j)),
           (''inventory'', JObj (kj_inventory j)), (''entrypoints'', JObj (kj_entrypoints j)),
           (''receipt_sha256'', opt_str (kj_receipt j)), (''completed_instances'', strs (kj_completed j))]"

definition keep_journal_keys :: "string list" where
  "keep_journal_keys =
     [''schema_version'', ''operation'', ''phase'', ''token'', ''previous'', ''target'', ''inventory'', ''entrypoints'',
      ''receipt_sha256'', ''completed_instances'']"

definition keep_phases :: "string list" where
  "keep_phases = [''prepared'', ''removing-instances'', ''ready-to-quarantine'']"

definition journal_text :: "json \<Rightarrow> string \<Rightarrow> (string \<Rightarrow> bool) \<Rightarrow> string \<Rightarrow> exn + string" where
  "journal_text v k ok msg = (case jget v k of Some (JStr s) \<Rightarrow> (if ok s then Inr s else refuse msg) | _ \<Rightarrow> refuse msg)"

definition journal_object :: "json \<Rightarrow> string \<Rightarrow> exn + (string \<times> json) list" where
  "journal_object v k = (case jget v k of Some (JObj kvs) \<Rightarrow> Inr kvs | _ \<Rightarrow> refuse ''invalid journal inventory'')"

definition journal_target_of :: "json \<Rightarrow> string \<Rightarrow> exn + string option" where
  "journal_target_of v operation =
     (case jget_or_null v ''target'' of
        JStr s \<Rightarrow> if operation = ''rollback'' \<and> \<not> is_release s then refuse ''unsafe rollback target'' else Inr (Some s)
      | _ \<Rightarrow> if operation = ''rollback'' then refuse ''unsafe rollback target'' else Inr None)"

definition journal_receipt :: "json \<Rightarrow> exn + string option" where
  "journal_receipt v =
     (case jget_or_null v ''receipt_sha256'' of
        JNull \<Rightarrow> Inr None
      | JStr s \<Rightarrow> if hexadecimal 64 s then Inr (Some s) else refuse ''invalid receipt digest''
      | _ \<Rightarrow> refuse ''invalid receipt digest'')"

definition journal_completed :: "json \<Rightarrow> exn + string list" where
  "journal_completed v =
     (case jget v ''completed_instances'' of
        Some (JArr xs) \<Rightarrow>
          (let names = List.map_filter as_str xs in
           if length names = length xs \<and> list_all instance_id_re names \<and> distinct names then Inr names
           else refuse ''invalid completed instance list'')
      | _ \<Rightarrow> refuse ''invalid completed instance list'')"

definition entry_allowed :: "string \<times> json \<Rightarrow> bool" where
  "entry_allowed e \<longleftrightarrow>
     (case e of (name, v) \<Rightarrow>
        name \<in> set (commands @ [setup_command]) \<and>
        (case v of JStr t \<Rightarrow> if name = setup_command then setup_target t else t = command_target name | _ \<Rightarrow> False))"

definition validate_journal :: "json \<Rightarrow> exn + keep_journal" where
  "validate_journal v =
     rbind (ensure (exactly keep_journal_keys v \<and> eq_int (jitem v ''schema_version'') 1) (Raised ''malformed maintenance journal'')) (\<lambda>_.
     rbind (journal_text v ''operation'' (\<lambda>s. s \<in> {''rollback'', ''uninstall''}) ''malformed maintenance journal'') (\<lambda>operation.
     rbind (journal_text v ''token'' (hexadecimal 32) ''unsafe journal token'') (\<lambda>token.
     rbind (journal_text v ''previous'' is_release ''unsafe previous release'') (\<lambda>previous.
     rbind (journal_target_of v operation) (\<lambda>target.
     rbind (journal_text v ''phase'' (\<lambda>s. s \<in> set keep_phases) ''unknown maintenance phase'') (\<lambda>phase.
     rbind (journal_object v ''inventory'') (\<lambda>ents.
     rbind (journal_object v ''entrypoints'') (\<lambda>entries.
     rbind (journal_receipt v) (\<lambda>receipt.
     rbind (journal_completed v) (\<lambda>completed.
     rbind (ensure (list_all (safe_name \<circ> fst) ents) (Raised ''unsafe journal path'')) (\<lambda>_.
     rbind (ensure (list_all entry_allowed entries) (Raised ''unsafe journal entry point'')) (\<lambda>_.
     Inr \<lparr>kj_operation = operation, kj_phase = phase, kj_token = token, kj_previous = previous, kj_target = target,
          kj_inventory = ents, kj_entrypoints = entries, kj_receipt = receipt, kj_completed = completed\<rparr>))))))))))))"

definition load_journal :: "maintenance \<Rightarrow> fs \<Rightarrow> exn + keep_journal" where
  "load_journal K fs = rbind (read_json (mt_journal K) fs) validate_journal"

definition quarantine :: "maintenance \<Rightarrow> string \<Rightarrow> ppath" where
  "quarantine K token = path_div (path_parent (mt_root K)) (''.workspace-mcp-manager-uninstall-'' @ token)"

definition temporary_link :: "maintenance \<Rightarrow> string \<Rightarrow> ppath" where
  "temporary_link K token = path_div (mt_root K) (''.maintenance-current-'' @ token)"

definition uninstall_backup :: "maintenance \<Rightarrow> string \<Rightarrow> ppath" where
  "uninstall_backup K token = path_div (path_div (mt_state K) ''backups'') (''uninstall-'' @ token)"

section \<open>The receipt, the recovery capsule and the backup\<close>

definition receipt_keys :: "string list" where
  "receipt_keys = [''distribution_id'', ''release_commit'', ''repository'', ''release_ref'', ''product_version'']"

definition receipt_doc :: "keep_world \<Rightarrow> marks \<Rightarrow> ppath \<Rightarrow> machine \<Rightarrow> exn + json" where
  "receipt_doc W L r m =
     (let p = path_div r ''install.json'' in
      rbind (read_json p (mc_fs m)) (\<lambda>data.
      rbind (traverse (\<lambda>k. case jget data k of Some x \<Rightarrow> Inr (k, x) | None \<Rightarrow> refuse k) receipt_keys) (\<lambda>told.
      case digest_at W L p m of
        None \<Rightarrow> refuse (path_str p)
      | Some d \<Rightarrow>
          Inr (JObj ([(''schema_version'', JInt 1)] @ told @
                 [(''release_path'', JStr (path_str r)), (''verified_at'', JStr (kw_now W m)), (''install_json_sha256'', JStr d)])))))"

definition write_receipt :: "keep_world \<Rightarrow> maintenance \<Rightarrow> ppath \<Rightarrow> unit km" where
  "write_receipt W K r = ebind (look (\<lambda>L m. receipt_doc W L r m)) (\<lambda>v. on_keep (write_json (mt_receipt K) v))"

definition capsule_sources :: "keep_world \<Rightarrow> fs \<Rightarrow> (ppath \<times> string) list" where
  "capsule_sources W fs =
     (let dir = path_parent (kw_module W); repo = path_parent (path_parent dir); here = x_is_file fs (path_div dir ''install.sh'') in
      [(if here then path_div dir ''install.sh'' else path_div repo ''scripts/install.sh'', ''install.sh''),
       (if here then path_div dir ''setup.sh'' else path_div repo ''bootstrap.sh'', ''setup.sh''),
       (kw_module W, ''maintenance.py''), (path_div dir ''upgrade_state.py'', ''upgrade_state.py'')])"

text \<open>\<open>shutil.copyfile\<close> to a temporary file and \<open>os.replace\<close>, as one step.\<close>

definition put_capsule :: "ppath \<Rightarrow> ppath \<times> string \<Rightarrow> unit mm" where
  "put_capsule dir e m =
     (let (source, name) = e; fs = mc_fs m; target = path_div dir name in
      case x_follow (x_lookup fs source) of
        Some (EFile k c) \<Rightarrow>
          if x_is_symlink fs target then (Inl (Raised ''foreign recovery capsule file''), m)
          else if (case x_lookup fs target of Some (EDir k) \<Rightarrow> True | _ \<Rightarrow> False) then (Inl (Raised (path_str target)), m)
          else m_change target (x_put target (EFile 448 c)) m
      | _ \<Rightarrow> (Inl (Raised ''cannot prepare offline recovery capsule''), m))"

definition prepare_recovery_capsule :: "keep_world \<Rightarrow> maintenance \<Rightarrow> unit km" where
  "prepare_recovery_capsule W K =
     (let dir = path_div (mt_state K) ''setup-recovery'' in
      ebind (look (\<lambda>L m. Inr (capsule_sources W (mc_fs m)))) (\<lambda>sources.
      eseq (demand (\<lambda>fs. \<not> x_is_symlink fs dir) ''foreign recovery capsule'')
     (eseq (on_keep (m_mkdir dir True 448))
       (each_e (\<lambda>e. on_keep (put_capsule dir e)) sources))))"

definition backup_sources :: "maintenance \<Rightarrow> (string \<times> ppath) list" where
  "backup_sources K =
     [(''declarations'', mt_registry K), (''tunnel-profiles'', path_div (mt_config K) ''tunnel-profiles''),
      (''instances'', path_div (mt_state K) ''instances'')]"

definition backup_user_data :: "maintenance \<Rightarrow> ppath \<Rightarrow> unit km" where
  "backup_user_data K dest =
     eseq (on_keep (m_mkdir dest False 448))
    (eseq (each_e (\<lambda>(label, source).
        eseq (demand (\<lambda>fs. \<not> x_is_symlink fs source) (''cannot back up symlinked data directory: '' @ path_str source))
          (\<lambda>s. if x_is_dir (mc_fs (kp_mc s)) source then copy_tree source (path_div dest label) s else (Inr (), s)))
        (backup_sources K))
      (\<lambda>s. each_e (\<lambda>name.
          if is_legacy_release name
          then copy_tree (mt_release K name) (path_div (path_div dest ''legacy-releases'') name) else ereturn ())
        (x_children (mc_fs (kp_mc s)) (path_div (mt_root K) ''releases'')) s))"

section \<open>Rollback\<close>

definition switch_link :: "maintenance \<Rightarrow> string \<Rightarrow> string \<Rightarrow> unit km" where
  "switch_link K token target s =
     m_symlink (temporary_link K token) (''releases/'' @ target) (x_follow (x_lookup (mc_fs (kp_mc s)) (mt_release K target))) s"

text \<open>The steps of a rollback, each atomic: the process may stop between any two.\<close>

definition switch_steps :: "keep_world \<Rightarrow> maintenance \<Rightarrow> keep_journal \<Rightarrow> string \<Rightarrow> unit km list" where
  "switch_steps W K j target =
     [save_journal K (keep_journal_doc j),
      switch_link K (kj_token j) target,
      replace_link (temporary_link K (kj_token j)) (mt_current K),
      write_receipt W K (mt_release K target),
      clear_journal K]"

definition declared_as :: "maintenance \<Rightarrow> (string \<times> json) list \<Rightarrow> string \<Rightarrow> unit km" where
  "declared_as K instances msg =
     eread (\<lambda>s. rbind (declarations K (kp_reg s)) (\<lambda>ds. ensure (py_eq (JObj ds) (JObj instances)) (Raised msg)))"

definition asked_target :: "json \<Rightarrow> string option" where
  "asked_target request = (case jget request ''target'' of Some (JStr t) \<Rightarrow> Some t | _ \<Rightarrow> None)"

definition asked_action :: "json \<Rightarrow> string" where
  "asked_action request = (case jget request ''action'' of Some (JStr t) \<Rightarrow> t | _ \<Rightarrow> [])"

definition check_confirmation :: "string \<Rightarrow> string option \<Rightarrow> exn + unit" where
  "check_confirmation action confirmation =
     ensure (confirmation = Some (if action = ''uninstall'' then ''UNINSTALL'' else ''yes'')) (Raised ''confirmation required'')"

definition first_record :: "keep_world \<Rightarrow> maintenance \<Rightarrow> json \<Rightarrow> keep_preview \<Rightarrow> keeper \<Rightarrow> exn + keep_journal" where
  "first_record W K request fresh s =
     rbind (inventory W (kp_marks s) (kp_mc s) (mt_root K)) (\<lambda>ents.
     let told = JObj (kv_status fresh) in
     Inr \<lparr>kj_operation = asked_action request, kj_phase = ''prepared'', kj_token = hex_text 32 (kw_token W (kp_mc s)),
          kj_previous = (case jget told ''current'' of Some (JStr c) \<Rightarrow> c | _ \<Rightarrow> []), kj_target = asked_target request,
          kj_inventory = ents, kj_entrypoints = json_pairs (jitem told ''entrypoints''), kj_receipt = kv_receipt fresh,
          kj_completed = []\<rparr>)"

text \<open>The preview is made again under the lock and must have the reviewed fingerprint.\<close>

definition review_maintenance :: "keep_world \<Rightarrow> maintenance \<Rightarrow> json \<Rightarrow> keeper \<Rightarrow> exn + keep_preview" where
  "review_maintenance W K request s =
     rbind (preview_maintenance W K (asked_action request) (asked_target request) s) (\<lambda>fresh.
     rbind (ensure (jget request ''fingerprint'' = Some (JStr (kv_fingerprint fresh)))
       (Raised ''preview is stale; inspect and confirm again'')) (\<lambda>_. Inr fresh))"

definition run_rollback :: "keep_world \<Rightarrow> maintenance \<Rightarrow> (unit km list \<Rightarrow> unit km list) \<Rightarrow> keep_preview \<Rightarrow> keep_journal \<Rightarrow> json km" where
  "run_rollback W K part fresh j =
     (case kj_target j of
        None \<Rightarrow> eraise (Raised ''target'')
      | Some target \<Rightarrow>
          eseq (quiescent_instances W K (map fst (kv_instances fresh)))
         (eseq (declared_as K (kv_instances fresh) ''instance declarations changed; preview again'')
         (eseq (each_e (\<lambda>c. c) (part (switch_steps W K j target)))
           (ereturn (JObj [(''ok'', JBool True), (''action'', JStr (kj_operation j)), (''current'', JStr target),
                           (''instances_changed'', JBool False)])))))"

section \<open>Uninstallation\<close>

definition discard_entries :: "maintenance \<Rightarrow> string list \<Rightarrow> unit km" where
  "discard_entries K names = each_e (\<lambda>name. on_keep (m_discard (mt_bin K name))) names"

text \<open>What is left must be what the journal recorded before the tree was moved.\<close>

definition check_remains :: "keep_world \<Rightarrow> maintenance \<Rightarrow> keep_journal \<Rightarrow> marks \<Rightarrow> machine \<Rightarrow> exn + unit" where
  "check_remains W K j L m =
     (let fs = mc_fs m; q = quarantine K (kj_token j); receipt = mt_receipt K in
      rbind (ensure (\<not> entry_at fs (mt_root K)) (Raised ''new distribution exists; cannot finish old uninstall'')) (\<lambda>_.
      rbind (if entry_at fs q then inventory W L m q else Inr []) (\<lambda>remaining.
      rbind (ensure (list_all (\<lambda>(name, v). case map_of (kj_inventory j) name of Some w \<Rightarrow> py_eq w v | None \<Rightarrow> False) remaining)
        (Raised ''quarantine changed; refusing cleanup'')) (\<lambda>_.
      rbind (ensure (\<not> x_is_symlink fs receipt) (Raised ''foreign receipt blocks uninstall'')) (\<lambda>_.
      rbind (ensure (\<not> x_exists fs receipt \<or> digest_at W L receipt m \<noteq> None \<and> digest_at W L receipt m = kj_receipt j)
        (Raised ''receipt changed during uninstall'')) (\<lambda>_.
      ensure (list_all (\<lambda>(name, t). let p = mt_bin K name in
                 entry_at fs p \<longrightarrow> x_is_symlink fs p \<and> JStr (mark L p) = t) (kj_entrypoints j))
        (Raised ''entry point changed during uninstall'')))))))"

definition finish_uninstall :: "keep_world \<Rightarrow> maintenance \<Rightarrow> keep_journal \<Rightarrow> unit km" where
  "finish_uninstall W K j =
     (let q = quarantine K (kj_token j) in
      eseq (look (check_remains W K j))
     (eseq (discard_entries K (map fst (kj_entrypoints j)))
     (eseq (demand (\<lambda>fs. \<not> x_is_symlink fs (mt_receipt K)) ''foreign receipt blocks uninstall'')
     (eseq (on_keep (m_discard (mt_receipt K)))
     (eseq (on_keep (\<lambda>m. if x_exists (mc_fs m) q then remove_tree q m else (Inr (), m)))
       (clear_journal K))))))"

definition remove_instance :: "keep_world \<Rightarrow> maintenance \<Rightarrow> string \<Rightarrow> unit km" where
  "remove_instance W K name s =
     ebind (on_manager (run_lifecycle (kw_systemd W) (keep_hash W) (mt_generator W K) (kw_write_ok W)
              (kw_names W name (kp_mc s)) (kw_patience W) ''remove'' name None))
       (\<lambda>result. if jget result ''ok'' = Some (JBool False) then eraise (Raised (''instance removal failed: '' @ name))
                 else ereturn ()) s"

text \<open>An exception is reported with the instances that were removed before it.\<close>

definition noting :: "'n \<Rightarrow> 'a km \<Rightarrow> (keeper, exn \<times> 'n, 'a) em" where
  "noting n c s = (case c s of (Inl e, s') \<Rightarrow> (Inl (e, n), s') | (Inr x, s') \<Rightarrow> (Inr x, s'))"

fun remove_instances :: "keep_world \<Rightarrow> maintenance \<Rightarrow> string list \<Rightarrow> keep_journal \<Rightarrow> (keeper, exn \<times> string list, keep_journal) em" where
  "remove_instances W K [] j = ereturn j"
| "remove_instances W K (name # names) j =
     ebind (noting (kj_completed j) (remove_instance W K name)) (\<lambda>_.
     let j' = j\<lparr>kj_completed := kj_completed j @ [name], kj_phase := ''removing-instances''\<rparr> in
     ebind (noting (kj_completed j') (save_journal K (keep_journal_doc j'))) (\<lambda>_.
     remove_instances W K names j'))"

definition stopped_lifecycle :: json where
  "stopped_lifecycle = JObj [(''deployment'', JStr ''absent''), (''runtime'', JStr ''stopped'')]"

definition all_removed :: "maintenance \<Rightarrow> registry_state \<Rightarrow> exn + unit" where
  "all_removed K reg =
     rbind (declarations K reg) (\<lambda>ds.
     ensure (list_all (\<lambda>(name, v). py_eq (jget_or_null v ''lifecycle'') stopped_lifecycle) ds)
       (Raised ''instance deployments remain; manager retained''))"

definition check_unused :: "keep_world \<Rightarrow> maintenance \<Rightarrow> keep_journal \<Rightarrow> keeper \<Rightarrow> exn + unit" where
  "check_unused W K j s =
     rbind (all_removed K (kp_reg s)) (\<lambda>_.
     rbind (remaining_units W K (kp_mc s)) (\<lambda>units.
     rbind (ensure (units = []) (Raised ''services still reference this installation; manager retained'')) (\<lambda>_.
     rbind (inventory W (kp_marks s) (kp_mc s) (mt_root K)) (\<lambda>ents.
     rbind (if py_eq (JObj ents) (JObj (kj_inventory j)) then entrypoints W K False (kp_marks s) (kp_mc s)
            else refuse ''program files changed during removal; manager retained'') (\<lambda>entries.
     ensure (py_eq (JObj entries) (JObj (kj_entrypoints j)))
       (Raised ''program files changed during removal; manager retained''))))))"

definition commit_removal :: "maintenance \<Rightarrow> string \<Rightarrow> unit km" where
  "commit_removal K token s =
     (case rename_tree (mt_root K) (quarantine K token) s of
        (Inr x, s') \<Rightarrow> (Inr x, s'\<lparr>kp_commits := kp_commits s' @ [(kp_mg s, kp_marks s)]\<rparr>)
      | (Inl e, s') \<Rightarrow> (Inl e, s'))"

definition quarantine_program :: "keep_world \<Rightarrow> maintenance \<Rightarrow> string list \<Rightarrow> keep_journal \<Rightarrow> unit km" where
  "quarantine_program W K names j =
     eseq (quiescent_instances W K names)
    (eseq (eread (check_unused W K j))
    (eseq (save_journal K (keep_journal_doc (j\<lparr>kj_phase := ''ready-to-quarantine''\<rparr>)))
      (commit_removal K (kj_token j))))"

definition uninstall_steps :: "keep_world \<Rightarrow> maintenance \<Rightarrow> string list \<Rightarrow> keep_journal \<Rightarrow> (keeper, exn \<times> string list, string list) em" where
  "uninstall_steps W K names j0 =
     ebind (remove_instances W K names j0) (\<lambda>j.
     noting (kj_completed j)
       (eseq (quarantine_program W K names j)
       (eseq (finish_uninstall W K (j\<lparr>kj_phase := ''ready-to-quarantine''\<rparr>))
         (ereturn (kj_completed j)))))"

definition or_none :: "string list \<Rightarrow> string" where
  "or_none names = (if names = [] then ''none'' else join_with '', '' names)"

definition explained :: "maintenance \<Rightarrow> string list \<Rightarrow> keep_journal \<Rightarrow> exn \<times> string list \<Rightarrow> exn" where
  "explained K names j e =
     Raised (exn_text (fst e) @ ''; completed removals: '' @ or_none (snd e) @ ''; remaining: '' @
       or_none (filter (\<lambda>n. n \<notin> set (snd e)) names) @ ''; backup: '' @ path_str (uninstall_backup K (kj_token j)) @
       ''; recovery: '' @ recovery_command K)"

definition run_uninstall :: "keep_world \<Rightarrow> maintenance \<Rightarrow> keep_preview \<Rightarrow> keep_journal \<Rightarrow> json km" where
  "run_uninstall W K fresh j =
     (let names = map fst (kv_instances fresh); dest = uninstall_backup K (kj_token j) in
      eseq (save_journal K (keep_journal_doc j))
     (eseq (quiescent_instances W K names)
     (eseq (declared_as K (kv_instances fresh) ''instance declarations changed; recover and preview again'')
     (eseq (backup_user_data K dest)
     (ebind (ecatch (ebind (uninstall_steps W K names j) (\<lambda>completed. ereturn completed)) (\<lambda>e. eraise (explained K names j e))) (\<lambda>completed.
      ereturn (JObj [(''ok'', JBool True), (''action'', JStr (kj_operation j)), (''backup'', JStr (path_str dest)),
                     (''instances'', JStr ''absent/stopped''), (''completed_instances'', strs completed)])))))))"

section \<open>The commands\<close>

text \<open>\<open>part\<close> is what an interruption leaves of the steps of a rollback; the command runs all of them.\<close>

definition interrupted_maintenance ::
  "keep_world \<Rightarrow> maintenance \<Rightarrow> (unit km list \<Rightarrow> unit km list) \<Rightarrow> json \<Rightarrow> string option \<Rightarrow> json km" where
  "interrupted_maintenance W K part request confirmation =
     eseq (eread (\<lambda>s. check_confirmation (asked_action request) confirmation))
       (locked W K
         (ebind (eread (review_maintenance W K request)) (\<lambda>fresh.
          ebind (eread (first_record W K request fresh)) (\<lambda>j.
          eseq (prepare_recovery_capsule W K)
            (if kj_operation j = ''rollback'' then run_rollback W K part fresh j else run_uninstall W K fresh j)))))"

definition apply_maintenance :: "keep_world \<Rightarrow> maintenance \<Rightarrow> json \<Rightarrow> string option \<Rightarrow> json km" where
  "apply_maintenance W K request confirmation = interrupted_maintenance W K (\<lambda>steps. steps) request confirmation"

section \<open>Recovery\<close>

definition recovered :: "string \<Rightarrow> (string \<times> json) list \<Rightarrow> json" where
  "recovered result extra =
     JObj ([(''ok'', JBool True), (''action'', JStr ''recover''), (''result'', JStr result)] @ extra)"

definition retained :: "maintenance \<Rightarrow> keep_journal \<Rightarrow> (string \<times> json) list \<Rightarrow> json" where
  "retained K j ds =
     recovered ''manager-retained''
       [(''remaining_instances'', strs (filter (\<lambda>n. n \<notin> set (kj_completed j)) (map fst ds))),
        (''completed_instances'', strs (kj_completed j)),
        (''backup'', JStr (path_str (uninstall_backup K (kj_token j))))]"

definition recover_uninstall :: "keep_world \<Rightarrow> maintenance \<Rightarrow> keep_journal \<Rightarrow> json km" where
  "recover_uninstall W K j s =
     (let fs = mc_fs (kp_mc s); q = quarantine K (kj_token j) in
      if x_is_symlink fs q then (refuse ''foreign uninstall quarantine'', s)
      else if (x_exists fs q \<or> \<not> x_exists fs (mt_root K)) \<and> kj_phase j \<noteq> ''ready-to-quarantine'' then
        (refuse ''uninstall commit authority is ambiguous'', s)
      else if x_exists fs q \<or> \<not> x_exists fs (mt_root K) then
        eseq (finish_uninstall W K j) (ereturn (recovered ''uninstall-completed'' [])) s
      else
        ebind (eread (\<lambda>s.
          rbind (inventory W (kp_marks s) (kp_mc s) (mt_root K)) (\<lambda>ents.
          rbind (ensure (py_eq (JObj ents) (JObj (kj_inventory j)))
            (Raised ''uncommitted distribution changed during uninstall'')) (\<lambda>_.
          rbind (entrypoints W K False (kp_marks s) (kp_mc s)) (\<lambda>_.
          declarations K (kp_reg s)))))) (\<lambda>ds.
        eseq (clear_journal K) (ereturn (retained K j ds))) s)"

text \<open>The inventory of the journal, with the link to the release in use as it is now.\<close>

definition with_current :: "(string \<times> json) list \<Rightarrow> string \<Rightarrow> exn + (string \<times> json) list" where
  "with_current ents name =
     (case map_of ents ''current'' of
        Some (JObj kvs) \<Rightarrow> Inr (dict_set ''current'' (JObj (dict_set ''target'' (JStr (''releases/'' @ name)) kvs)) ents)
      | _ \<Rightarrow> refuse ''current'')"

definition check_switched :: "keep_world \<Rightarrow> maintenance \<Rightarrow> keep_journal \<Rightarrow> marks \<Rightarrow> machine \<Rightarrow> exn + string" where
  "check_switched W K j L m =
     (let actual = current_name K L; allowed = kj_previous j # (case kj_target j of Some n \<Rightarrow> [n] | None \<Rightarrow> []) in
      rbind (ensure (x_is_symlink (mc_fs m) (mt_current K) \<and>
                     mark L (mt_current K) \<in> set (map (\<lambda>n. ''releases/'' @ n) allowed))
        (Raised ''ambiguous rollback authority'')) (\<lambda>_.
      rbind (with_current (kj_inventory j) actual) (\<lambda>expected.
      rbind (inventory W L m (mt_root K)) (\<lambda>ents.
      rbind (ensure (py_eq (JObj (filter (\<lambda>e. fst e \<noteq> ''.maintenance-current-'' @ kj_token j) ents)) (JObj expected))
        (Raised ''distribution changed during rollback recovery'')) (\<lambda>_.
      rbind (validate_release W L m (mt_release K actual)) (\<lambda>_.
      rbind (entrypoints W K False L m) (\<lambda>_. Inr actual)))))))"

definition recover_rollback :: "keep_world \<Rightarrow> maintenance \<Rightarrow> keep_journal \<Rightarrow> json km" where
  "recover_rollback W K j =
     ebind (look (check_switched W K j)) (\<lambda>actual.
     eseq (write_receipt W K (mt_release K actual))
    (eseq (on_keep (m_discard (temporary_link K (kj_token j))))
    (eseq (clear_journal K)
      (ereturn (recovered ''rollback-converged'' [(''current'', JStr actual)])))))"

definition recover_maintenance :: "keep_world \<Rightarrow> maintenance \<Rightarrow> json km" where
  "recover_maintenance W K =
     locked W K (\<lambda>s.
       if \<not> entry_at (mc_fs (kp_mc s)) (mt_journal K) then
         (if pending_imports (mt_paths K) (mc_fs (kp_mc s)) then on_manager (kw_imports W) s
          else (Inr (recovered ''no-maintenance-transaction'' []), s))
       else
         ebind (eread (\<lambda>s. load_journal K (mc_fs (kp_mc s)))) (\<lambda>j.
           if kj_operation j = ''uninstall'' then recover_uninstall W K j else recover_rollback W K j) s)"

text \<open>The service is not opened over links.\<close>

definition open_maintenance :: "maintenance \<Rightarrow> fs \<Rightarrow> exn + maintenance" where
  "open_maintenance K fs =
     rbind (ensure (list_all (\<lambda>p. \<not> x_is_symlink fs p) [mt_state K, mt_config K, path_div (mt_prefix K) ''bin''])
       (Raised ''symlinked manager state/configuration root'')) (\<lambda>_. Inr K)"

end
