(* ===== verification/Json_Unique.thy ===== *)
theory Json_Unique
  imports Upgrade Stored_Text
begin

text \<open>
  Documents written in ASCII and read with unique keys (\<open>atomic_json\<close> and \<open>read_json\<close> of
  maintenance.py): what is written reads back as the document with its keys sorted.
\<close>

section \<open>ASCII output\<close>

declare lex.simps [simp del] lex_Nil [simp]

lemma ascii_only_append [simp]: "ascii_only (a @ b) = ascii_only a @ ascii_only b"
  by (simp add: ascii_only_def)

lemma ascii_only_Nil [simp]: "ascii_only [] = []"
  by (simp add: ascii_only_def)

lemma ascii_only_Cons: "code_of c < 127 \<Longrightarrow> ascii_only (c # s) = c # ascii_only s"
  by (simp add: ascii_only_def ascii_escape_def)

lemma ascii_only_id: "list_all (\<lambda>c. code_of c < 127) s \<Longrightarrow> ascii_only s = s"
  by (induction s) (auto simp: ascii_only_Cons)

lemma ascii_only_join: "ascii_only (join_with sep xs) = join_with (ascii_only sep) (map ascii_only xs)"
  by (induction sep xs rule: join_with.induct) auto

lemma white_ascii: "list_all json_ws w \<Longrightarrow> list_all (\<lambda>c. code_of c < 127) w"
proof (induction w)
  case (Cons c w)
  have "json_ws c \<Longrightarrow> code_of c < 127"
    by (elim json_ws_def [THEN iffD1, elim_format]) (auto simp: code_of_def)
  with Cons show ?case by simp
qed simp

lemma hex_digit_ascii: "n < 16 \<Longrightarrow> code_of (hex_digit n) < 127"
  by (simp add: hex_digit_def digit_char_def code_of_def)

lemma scan_high:
  assumes "127 \<le> code_of c" shows "scan_string (ascii_escape c @ t) = cons_fst c (scan_string t)"
proof -
  have z: "hex_val (CHR ''0'') = Some 0" by (simp add: hex_val_def code_of_def)
  have "code_of c div 16 < 16" using code_of_less [of c] by (simp add: less_mult_imp_div_less)
  then have "hex4 (CHR ''0'') (CHR ''0'') (hex_digit (code_of c div 16)) (hex_digit (code_of c mod 16)) = Some (code_of c)"
    by (simp add: hex4_def z hex_val_hex_digit)
  with assms show ?thesis by (simp add: ascii_escape_def)
qed

lemma escape_ascii: "ascii_only (escape_char c) = (if 127 \<le> code_of c then ascii_escape c else escape_char c)"
proof (cases "127 \<le> code_of c")
  case True
  have "code_of (CHR 0x22) < 127" "code_of (CHR 0x5C) < 127" "code_of (CHR 0x0A) < 127" "code_of (CHR 0x0D) < 127"
    "code_of (CHR 0x09) < 127" "code_of (CHR 0x0C) < 127" "code_of (CHR 0x08) < 127"
    by (simp_all add: code_of_def)
  with True have "c \<noteq> CHR 0x22" "c \<noteq> CHR 0x5C" "c \<noteq> CHR 0x0A" "c \<noteq> CHR 0x0D" "c \<noteq> CHR 0x09" "c \<noteq> CHR 0x0C"
    "c \<noteq> CHR 0x08" "\<not> code_of c < 32" by force+
  then have "escape_char c = [c]" by (simp only: escape_char_def if_False)
  with True show ?thesis by (simp add: ascii_only_def)
next
  case False
  have "code_of c div 16 < 16" using code_of_less [of c] by (simp add: less_mult_imp_div_less)
  then have "code_of (hex_digit (code_of c div 16)) < 127" "code_of (hex_digit (code_of c mod 16)) < 127"
    by (simp_all add: hex_digit_ascii)
  moreover have "code_of (CHR 0x5C) < 127" "code_of (CHR 0x22) < 127" "code_of (CHR ''n'') < 127"
      "code_of (CHR ''r'') < 127" "code_of (CHR ''t'') < 127" "code_of (CHR ''f'') < 127" "code_of (CHR ''b'') < 127"
      "code_of (CHR ''u'') < 127" "code_of (CHR ''0'') < 127"
    by (simp_all add: code_of_def)
  ultimately have "list_all (\<lambda>c. code_of c < 127) (escape_char c)"
    using False by (simp add: escape_char_def)
  with False show ?thesis by (simp add: ascii_only_id)
qed

lemma scan_ascii: "scan_string (ascii_only (concat (map escape_char s)) @ CHR 0x22 # t) = Some (s, t)"
proof (induction s)
  case (Cons c s)
  then show ?case by (cases "127 \<le> code_of c") (simp_all add: escape_ascii scan_high scan_escape cons_fst_def)
qed simp

lemma lex_ascii_string: "lex (ascii_only (dump_string s) @ t) = cons_opt (TStr s) (lex t)"
proof -
  have q: "code_of (CHR 0x22) < 127" by (simp add: code_of_def)
  show ?thesis by (simp add: dump_string_def ascii_only_Cons [OF q] scan_ascii lex.simps json_ws_def)
qed

lemma ascii_struct:
  "ascii_only (CHR ''{'' # s) = CHR ''{'' # ascii_only s" "ascii_only (CHR ''}'' # s) = CHR ''}'' # ascii_only s"
  "ascii_only (CHR ''['' # s) = CHR ''['' # ascii_only s" "ascii_only (CHR '']'' # s) = CHR '']'' # ascii_only s"
  "ascii_only (CHR '','' # s) = CHR '','' # ascii_only s" "ascii_only (CHR '':'' # s) = CHR '':'' # ascii_only s"
  by (rule ascii_only_Cons, simp add: code_of_def)+

lemma ascii_white: "list_all json_ws w \<Longrightarrow> ascii_only w = w"
  by (rule ascii_only_id) (rule white_ascii)

lemma digit_ascii: "is_digit c \<Longrightarrow> code_of c < 127"
  by (simp add: is_digit_def)

lemma ascii_int: "ascii_only (show_int i) = show_int i"
proof (rule ascii_only_id)
  have "code_of (CHR ''-'') < 127" by (simp add: code_of_def)
  then show "list_all (\<lambda>c. code_of c < 127) (show_int i)"
    using show_nat_digits by (auto simp: show_int_def list_all_iff intro: digit_ascii)
qed

lemma ascii_words: "ascii_only ''null'' = ''null''" "ascii_only ''true'' = ''true''" "ascii_only ''false'' = ''false''"
  by (rule ascii_only_id, simp add: code_of_def)+

lemma lex_ascii_dumps:
  "(\<And>l. list_all json_ws (nl l)) \<Longrightarrow> list_all json_ws ks \<Longrightarrow> jplain v \<Longrightarrow> num_stop t \<Longrightarrow>
    lex (ascii_only (dumps_with nl ks lvl v) @ t) = map_option (append (tokens v)) (lex t)"
proof (induction nl ks lvl v arbitrary: t rule: dumps_with.induct)
  case (6 nl ks lvl xs)
  note white = "6.prems"(1,2) and plain = ascii_white [OF "6.prems"(1)]
  show ?case
  proof (cases "xs = []")
    case True
    then show ?thesis by (cases "lex t") (auto simp: cons_opt_def ascii_struct)
  next
    case False
    have items: "lex (join_with (CHR '','' # nl (Suc lvl)) (map (\<lambda>x. ascii_only (dumps_with nl ks (Suc lvl) x)) xs) @
        nl lvl @ CHR '']'' # t) =
      map_option (append (join_with [TComma] (map tokens xs))) (lex (nl lvl @ CHR '']'' # t))"
    proof (rule lex_joined)
      fix p u assume "p \<in> set xs" "num_stop u"
      with "6.IH" [OF False] "6.prems"
      show "lex (ascii_only (dumps_with nl ks (Suc lvl) p) @ u) = map_option (append (tokens p)) (lex u)"
        by (auto simp: list_all_iff)
    qed (use white in \<open>auto intro: num_stop_white\<close>)
    show ?thesis
      using False white
      by (cases "lex t") (simp_all add: items lex_white cons_opt_def ascii_struct ascii_only_join plain comp_def)
  qed
next
  case (7 nl ks lvl kvs)
  note white = "7.prems"(1,2) and plain = ascii_white [OF "7.prems"(1)] ascii_white [OF "7.prems"(2)]
  show ?case
  proof (cases "kvs = []")
    case True
    then show ?thesis by (cases "lex t") (auto simp: cons_opt_def ascii_struct)
  next
    case False
    let ?f = "\<lambda>p. ascii_only (case p of (k, x) \<Rightarrow> dump_string k @ CHR '':'' # ks @ dumps_with nl ks (Suc lvl) x)"
    have items: "lex (join_with (CHR '','' # nl (Suc lvl)) (map ?f kvs) @ nl lvl @ CHR ''}'' # t) =
      map_option (append (join_with [TComma] (map (\<lambda>(k, x). TStr k # TColon # tokens x) kvs)))
        (lex (nl lvl @ CHR ''}'' # t))"
    proof (rule lex_joined)
      fix p u assume p: "p \<in> set kvs" "num_stop u"
      obtain k x where kx: "p = (k, x)" by (cases p)
      have "jplain x" using "7.prems"(3) p kx by (auto simp: list_all_iff)
      then have "lex (ascii_only (dumps_with nl ks (Suc lvl) x) @ u) = map_option (append (tokens x)) (lex u)"
        using "7.IH" [OF False] "7.prems"(1,2) p kx by auto
      then show "lex (?f p @ u) = map_option (append (case p of (k, x) \<Rightarrow> TStr k # TColon # tokens x)) (lex u)"
        using white by (simp add: kx lex_ascii_string lex_white cons_opt_append ascii_struct plain)
    qed (use white in \<open>auto intro: num_stop_white\<close>)
    show ?thesis
      using False white
      by (cases "lex t") (simp_all add: items lex_white cons_opt_def ascii_struct ascii_only_join plain comp_def)
  qed
qed (simp_all add: ascii_words lex_words [simplified] ascii_int lex_int lex_ascii_string cons_opt_alt)

section \<open>Unique keys\<close>

text \<open>The machine that refuses repeated keys, on the tokens of a document without any.\<close>

lemma repeats_no_key: "m \<notin> {WantKey, WantKeyOrEnd} \<Longrightarrow> \<not> repeats_key t (m, st)"
  by (auto simp: repeats_key_def split: token.splits list.splits frame.splits)

lemma repeats_no_string: "(\<And>k. t \<noteq> TStr k) \<Longrightarrow> \<not> repeats_key t s"
  by (auto simp: repeats_key_def split: token.splits)

lemmas never_repeats = repeats_no_key repeats_no_string

lemma unique_value_or_end:
  "unique_run (tokens v @ ts) (Some (WantValueOrEnd, st)) = unique_run (tokens v @ ts) (Some (WantValue, st))"
  using hd_tokens_not_close [of v] by (cases "tokens v") (auto simp: never_repeats)

lemma unique_items:
  assumes "\<And>x st ts. x \<in> set xs \<Longrightarrow>
      unique_run (tokens x @ ts) (Some (WantValue, st)) = unique_run ts (deliver x st)" and "xs \<noteq> []"
  shows "unique_run (join_with [TComma] (map tokens xs) @ TRBrack # ts) (Some (WantValue, FArr acc # st)) =
    unique_run ts (deliver (JArr (acc @ xs)) st)"
  using assms
proof (induction xs arbitrary: acc)
  case (Cons x xs)
  show ?case
  proof (cases xs)
    case Nil
    with Cons.prems(1) [of x "TRBrack # ts"] show ?thesis by (simp add: never_repeats)
  next
    case (Cons y ys)
    have "unique_run (join_with [TComma] (map tokens (x # xs)) @ TRBrack # ts) (Some (WantValue, FArr acc # st))
        = unique_run (join_with [TComma] (map tokens xs) @ TRBrack # ts) (Some (WantValue, FArr (acc @ [x]) # st))"
      using Cons.prems(1) [of x] Cons by (simp add: never_repeats)
    also have "\<dots> = unique_run ts (deliver (JArr ((acc @ [x]) @ xs)) st)"
      by (rule Cons.IH) (use Cons.prems Cons in auto)
    finally show ?thesis by simp
  qed
qed simp

lemma unique_members:
  assumes "\<And>k x st ts. (k, x) \<in> set kvs \<Longrightarrow>
      unique_run (tokens x @ ts) (Some (WantValue, st)) = unique_run ts (deliver x st)"
    and "kvs \<noteq> []" and "distinct (map fst (acc @ kvs))" and "m = WantKey \<or> m = WantKeyOrEnd"
  shows "unique_run (join_with [TComma] (map (\<lambda>(k, x). TStr k # TColon # tokens x) kvs) @ TRBrace # ts)
      (Some (m, FObj acc # st)) = unique_run ts (deliver (JObj (acc @ kvs)) st)"
  using assms
proof (induction kvs arbitrary: acc m)
  case (Cons p kvs)
  obtain k x where p: "p = (k, x)" by (cases p)
  have fresh: "k \<notin> fst ` set acc" using Cons.prems(3) p by auto
  then have new: "dict_set k x acc = acc @ [(k, x)]" by (rule dict_set_new)
  have head: "unique_run (TStr k # TColon # tokens x @ us) (Some (m, FObj acc # st)) =
      unique_run us (Some (AfterItem, FObj (acc @ [(k, x)]) # st))" for us
    using Cons.prems(1) [of k x us] Cons.prems(4) p new fresh
    by (auto simp: never_repeats) (auto simp: repeats_key_def)
  show ?case
  proof (cases kvs)
    case Nil
    then show ?thesis by (simp add: p head [simplified] never_repeats)
  next
    case (Cons q qs)
    have "unique_run (join_with [TComma] (map (\<lambda>(k, x). TStr k # TColon # tokens x) (p # kvs)) @ TRBrace # ts)
        (Some (m, FObj acc # st))
      = unique_run (join_with [TComma] (map (\<lambda>(k, x). TStr k # TColon # tokens x) kvs) @ TRBrace # ts)
        (Some (WantKey, FObj (acc @ [(k, x)]) # st))"
      using Cons by (simp add: p head [simplified] never_repeats)
    also have "\<dots> = unique_run ts (deliver (JObj ((acc @ [(k, x)]) @ kvs)) st)"
      by (rule Cons.IH) (use Cons.prems Cons p in auto)
    finally show ?thesis by (simp add: p)
  qed
qed simp

lemma unique_tokens:
  "jplain v \<Longrightarrow> unique_run (tokens v @ ts) (Some (WantValue, st)) = unique_run ts (deliver v st)"
proof (induction v arbitrary: st ts)
  case (JArr xs)
  show ?case
  proof (cases xs)
    case (Cons y ys)
    have "unique_run (join_with [TComma] (map tokens xs) @ TRBrack # ts) (Some (WantValue, FArr [] # st)) =
        unique_run ts (deliver (JArr ([] @ xs)) st)"
      by (rule unique_items) (use JArr Cons in \<open>auto simp: list_all_iff\<close>)
    moreover have "unique_run (join_with [TComma] (map tokens xs) @ TRBrack # ts) (Some (WantValueOrEnd, FArr [] # st))
        = unique_run (join_with [TComma] (map tokens xs) @ TRBrack # ts) (Some (WantValue, FArr [] # st))"
      using Cons unique_value_or_end [of y] by (cases ys) auto
    ultimately show ?thesis by (simp add: never_repeats)
  qed (simp add: never_repeats)
next
  case (JObj kvs)
  show ?case
  proof (cases kvs)
    case (Cons q qs)
    have "unique_run (join_with [TComma] (map (\<lambda>(k, x). TStr k # TColon # tokens x) kvs) @ TRBrace # ts)
        (Some (WantKeyOrEnd, FObj [] # st)) = unique_run ts (deliver (JObj ([] @ kvs)) st)"
    proof (rule unique_members)
      fix k x st' ts' assume m: "(k, x) \<in> set kvs"
      then have "jplain x" using JObj.prems by (auto simp: list_all_iff)
      with JObj.IH m show "unique_run (tokens x @ ts') (Some (WantValue, st')) = unique_run ts' (deliver x st')"
        by (metis snd_conv snds.intros)
    qed (use JObj.prems Cons in auto)
    then show ?thesis by (simp add: never_repeats)
  qed (simp add: never_repeats)
qed (auto simp: never_repeats)

section \<open>The round trip\<close>

lemma loads_unique_written: "jplain v \<Longrightarrow> loads_unique (json_file v) = Some (jsort v)"
proof -
  assume v: "jplain v"
  have w: "list_all json_ws newline" by (simp add: json_ws_def newline_def)
  have "lex (json_file v) = map_option (append (tokens (jsort v))) (lex newline)"
    unfolding json_file_def dumps_indent2_def
  proof (rule lex_ascii_dumps)
    have "list_all json_ws (replicate n CHR '' '')" for n by (induction n) (simp_all add: json_ws_def)
    with w show "list_all json_ws (newline @ replicate (2 * l) CHR '' '')" for l by simp
  qed (simp_all add: jplain_jsort [OF v] num_stop_blank [OF w] json_ws_def)
  moreover have "lex newline = Some []" using lex_white [OF w, of "[]"] by simp
  moreover have "unique_run (tokens (jsort v) @ []) (Some (WantValue, [])) = unique_run [] (deliver (jsort v) [])"
    by (rule unique_tokens) (rule jplain_jsort [OF v])
  ultimately show ?thesis by (simp add: loads_unique_def)
qed

lemma ascii_only_cr: "CHR 0x0D \<notin> set s \<Longrightarrow> CHR 0x0D \<notin> set (ascii_only s)"
proof (induction s)
  case (Cons c s)
  have "code_of c div 16 < 16" using code_of_less [of c] by (simp add: less_mult_imp_div_less)
  then have "hex_digit (code_of c div 16) \<noteq> CHR 0x0D" "hex_digit (code_of c mod 16) \<noteq> CHR 0x0D"
    by (simp_all add: hex_digit_cr)
  with Cons.prems have "CHR 0x0D \<notin> set (ascii_escape c)" by (simp add: ascii_escape_def)
  with Cons show ?case by (simp add: ascii_only_def)
qed simp

lemma written_ascii: "jplain v \<Longrightarrow> universal_newlines (json_file v) = json_file v"
proof (rule universal_id)
  assume v: "jplain v"
  have "CHR 0x0D \<notin> set (dumps_indent2 v)"
    unfolding dumps_indent2_def by (rule dumps_cr) (simp_all only: newline_def jplain_jsort [OF v], auto)
  with ascii_only_cr show "CHR 0x0D \<notin> set (json_file v)" by (simp add: json_file_def newline_def)
qed

lemma read_written_json:
  "x_lookup fs p = Some (EFile k (Text (json_file (JObj kvs)))) \<Longrightarrow> jplain (JObj kvs) \<Longrightarrow>
    read_json p fs = Inr (jsort (JObj kvs))"
  by (simp add: read_json_def x_is_symlink_def x_is_file_def x_text_def written_ascii loads_unique_written
      del: jplain.simps)

end
