(* ===== verification/Maintenance_Props.thy ===== *)
theory Maintenance_Props
  imports Maintenance Json_Unique Apply_Props Codex_Props
begin

text \<open>
  What the maintenance of the distribution guarantees: an uninstallation erases only what its journal
  recorded, the program tree is moved away only when nothing uses it and the journal says so, and a
  rollback interrupted anywhere is brought to an end by the recovery.
\<close>

section \<open>Erasing\<close>

text \<open>The evidence the journal gives for an entry of the state in which the removal is checked.\<close>

definition evidenced_by :: "keep_world \<Rightarrow> maintenance \<Rightarrow> keep_journal \<Rightarrow> keeper \<Rightarrow> ppath \<Rightarrow> bool" where
  "evidenced_by W K j s p \<longleftrightarrow>
     (let fs = mc_fs (kp_mc s); L = kp_marks s; q = quarantine K (kj_token j) in
      p = mt_journal K \<or> p = q \<or>
      walked fs q p \<and>
        (case map_of (kj_inventory j) (relative q p) of
           Some v \<Rightarrow> py_eq v (JObj (entry_item W L (kp_mc s) p)) | None \<Rightarrow> False) \<or>
      p = mt_receipt K \<and> digest_at W L p (kp_mc s) = kj_receipt j \<or>
      (\<exists>name. p = mt_bin K name \<and> x_is_symlink fs p \<and> (name, JStr (mark L p)) \<in> set (kj_entrypoints j)))"

definition fs_erases :: "(ppath \<Rightarrow> bool) \<Rightarrow> fs \<Rightarrow> fs \<Rightarrow> bool" where
  "fs_erases P fs fs' \<longleftrightarrow> (\<forall>p. map_of fs' p = map_of fs p \<or> P p \<and> map_of fs' p = None)"

definition erases_only :: "(ppath \<Rightarrow> bool) \<Rightarrow> keeper \<Rightarrow> keeper \<Rightarrow> bool" where
  "erases_only P s s' \<longleftrightarrow>
     (\<exists>fs. kp_mc s' = (kp_mc s)\<lparr>mc_fs := fs\<rparr> \<and> fs_erases P (mc_fs (kp_mc s)) fs) \<and>
     kp_marks s' = kp_marks s \<and> kp_commits s' = kp_commits s"

lemma fs_erases_delete:
  assumes "fs_erases P fs fs'" and "map_of fs p \<noteq> None \<Longrightarrow> P p" shows "fs_erases P fs (x_delete p fs')"
  unfolding fs_erases_def
proof
  fix q
  show "map_of (x_delete p fs') q = map_of fs q \<or> P q \<and> map_of (x_delete p fs') q = None"
    using assms(1) [unfolded fs_erases_def, rule_format, of q] assms(2) by (cases "q = p"; cases "map_of fs p") auto
qed

lemma erases_refl [simp]: "erases_only P s s"
proof -
  have "kp_mc s = (kp_mc s)\<lparr>mc_fs := mc_fs (kp_mc s)\<rparr>" by simp
  moreover have "fs_erases P (mc_fs (kp_mc s)) (mc_fs (kp_mc s))" by (simp add: fs_erases_def)
  ultimately show ?thesis unfolding erases_only_def by blast
qed

lemma erases_step:
  assumes "erases_only P s t" and "map_of (mc_fs (kp_mc s)) p \<noteq> None \<Longrightarrow> P p"
    and "on_keep (m_change p (x_delete p)) t = (r, u)"
  shows "erases_only P s u"
proof -
  from assms(3) consider "u = t" | "kp_mc u = (kp_mc t)\<lparr>mc_fs := x_delete p (mc_fs (kp_mc t))\<rparr>" "kp_marks u = kp_marks t"
      "kp_commits u = kp_commits t"
    by (auto simp: on_keep_def on_manager_def on_machine_def m_change_def m_fs_def emodify_def split: prod.splits if_splits)
  then show ?thesis
  proof cases
    case 1
    with assms(1) show ?thesis by simp
  next
    case 2
    from assms(1) obtain fs where fs: "kp_mc t = (kp_mc s)\<lparr>mc_fs := fs\<rparr>" "fs_erases P (mc_fs (kp_mc s)) fs"
      "kp_marks t = kp_marks s" "kp_commits t = kp_commits s" by (auto simp: erases_only_def)
    with 2 have u: "kp_mc u = (kp_mc s)\<lparr>mc_fs := x_delete p fs\<rparr>" by simp
    show ?thesis unfolding erases_only_def
      by (intro conjI exI [of _ "x_delete p fs"]) (use u fs_erases_delete [OF fs(2) assms(2)] 2 fs(3,4) in auto)
  qed
qed

lemma on_keep_pair: "on_keep c s = (case c (kp_mc s) of (r, m) \<Rightarrow> (r, s\<lparr>kp_mg := (kp_mg s)\<lparr>mg_machine := m\<rparr>\<rparr>))"
  by (simp add: on_keep_def on_manager_def on_machine_def split: prod.splits)

lemma discard_change:
  "m_discard p m = (r, m') \<Longrightarrow> m' = m \<or> map_of (mc_fs m) p \<noteq> None \<and> m_change p (x_delete p) m = (r, m')"
  by (auto simp: m_discard_def m_unlink_def x_lookup_def split: if_splits option.splits entry.splits)

lemma erases_discard:
  assumes "erases_only P s t" and "map_of (mc_fs (kp_mc s)) p \<noteq> None \<Longrightarrow> P p" and "on_keep (m_discard p) t = (r, u)"
  shows "erases_only P s u"
proof -
  obtain m where d: "m_discard p (kp_mc t) = (r, m)" and u: "u = t\<lparr>kp_mg := (kp_mg t)\<lparr>mg_machine := m\<rparr>\<rparr>"
    using assms(3) by (auto simp: on_keep_pair split: prod.splits)
  from discard_change [OF d] show ?thesis
  proof (elim disjE conjE)
    assume "m = kp_mc t"
    with u assms(1) show ?thesis by simp
  next
    assume "m_change p (x_delete p) (kp_mc t) = (r, m)"
    then have "on_keep (m_change p (x_delete p)) t = (r, u)" by (simp add: on_keep_pair u)
    with assms(1,2) show ?thesis by (rule erases_step)
  qed
qed

text \<open>Entries that are still reached from a directory were reached before.\<close>

lemma erased_lookup:
  assumes "fs_erases P fs fs'" and "x_lookup fs' r = Some e" shows "x_lookup fs r = Some e"
  using assms(1) [unfolded fs_erases_def, rule_format, of r] assms(2) by (auto simp: x_lookup_def split: if_splits)

lemma walked_before: assumes "fs_erases P fs fs'" and "walked fs' q p" shows "walked fs q p"
proof -
  have "(case x_lookup fs' r of Some (EDir k) \<Rightarrow> True | _ \<Rightarrow> False) \<Longrightarrow> (case x_lookup fs r of Some (EDir k) \<Rightarrow> True | _ \<Rightarrow> False)" for r
    using erased_lookup [OF assms(1), of r] by (auto split: option.splits entry.splits)
  with assms(2) show ?thesis unfolding walked_def by (auto simp: list_all_iff)
qed

lemma entries_below_iff: "p \<in> set (entries_below fs q) \<longleftrightarrow> walked fs q p \<and> map_of fs p \<noteq> None"
  by (auto simp: entries_below_def map_of_eq_None_iff)

lemma erases_tree:
  assumes "erases_only P s t" and "P q" and "\<And>p. walked (mc_fs (kp_mc s)) q p \<Longrightarrow> map_of (mc_fs (kp_mc s)) p \<noteq> None \<Longrightarrow> P p"
    and "on_keep (remove_tree q) t = (r, u)"
  shows "erases_only P s u"
proof -
  let ?ps = "rev (sort_by (\<lambda>q. length (pp_parts q)) (entries_below (mc_fs (kp_mc t)) q)) @ [q]"
  have steps: "erases_only P s u" if "on_keep (each_e (\<lambda>q. m_change q (x_delete q)) ps) t = (r, u)"
      "erases_only P s t" "\<forall>p \<in> set ps. map_of (mc_fs (kp_mc s)) p \<noteq> None \<longrightarrow> P p" for ps t
    using that
  proof (induction ps arbitrary: t)
    case Nil
    then show ?case by (simp add: on_keep_pair ereturn_def)
  next
    case (Cons p ps)
    obtain x m where c: "m_change p (x_delete p) (kp_mc t) = (x, m)" by fastforce
    let ?t = "t\<lparr>kp_mg := (kp_mg t)\<lparr>mg_machine := m\<rparr>\<rparr>"
    have "on_keep (m_change p (x_delete p)) t = (x, ?t)" using c by (simp add: on_keep_pair)
    with Cons.prems(2,3) have t: "erases_only P s ?t" by (auto intro: erases_step)
    show ?case
    proof (cases x)
      case (Inl e)
      with c Cons.prems(1) t show ?thesis by (simp add: on_keep_pair ebind_def)
    next
      case (Inr y)
      with c Cons.prems(1) have "on_keep (each_e (\<lambda>q. m_change q (x_delete q)) ps) ?t = (r, u)"
        by (auto simp: on_keep_pair ebind_def split: prod.splits)
      from Cons.IH [OF this t] Cons.prems(3) show ?thesis by simp
    qed
  qed
  from assms(1) obtain fs where fs: "kp_mc t = (kp_mc s)\<lparr>mc_fs := fs\<rparr>" "fs_erases P (mc_fs (kp_mc s)) fs"
    by (auto simp: erases_only_def)
  have "\<forall>p \<in> set ?ps. map_of (mc_fs (kp_mc s)) p \<noteq> None \<longrightarrow> P p"
    using assms(2,3) walked_before [OF fs(2)] by (auto simp: set_sort_by entries_below_iff fs(1))
  with steps [of ?ps t] assms(1,4) show ?thesis by (simp add: on_keep_pair remove_tree_def)
qed

lemma erases_drop_journal:
  "erases_only P s t \<Longrightarrow> on_manager (in_registry f) t = (r, u) \<Longrightarrow> erases_only P s u"
  by (auto simp: erases_only_def on_manager_def in_registry_def emodify_def)

lemma evidence_of_check:
  assumes "check_remains W K j (kp_marks s) (kp_mc s) = Inr ()"
  shows "map_of (mc_fs (kp_mc s)) (mt_receipt K) \<noteq> None \<Longrightarrow> evidenced_by W K j s (mt_receipt K)"
    and "name \<in> set (map fst (kj_entrypoints j)) \<Longrightarrow> map_of (mc_fs (kp_mc s)) (mt_bin K name) \<noteq> None \<Longrightarrow>
      evidenced_by W K j s (mt_bin K name)"
    and "entry_at (mc_fs (kp_mc s)) (quarantine K (kj_token j)) \<Longrightarrow> walked (mc_fs (kp_mc s)) (quarantine K (kj_token j)) p \<Longrightarrow>
      map_of (mc_fs (kp_mc s)) p \<noteq> None \<Longrightarrow> evidenced_by W K j s p"
proof -
  let ?fs = "mc_fs (kp_mc s)" and ?q = "quarantine K (kj_token j)"
  obtain remaining where rem: "(if entry_at ?fs ?q then inventory W (kp_marks s) (kp_mc s) ?q else Inr []) = Inr remaining"
    and all: "list_all (\<lambda>(name, v). case map_of (kj_inventory j) name of Some w \<Rightarrow> py_eq w v | None \<Rightarrow> False) remaining"
    and receipt: "\<not> x_is_symlink ?fs (mt_receipt K)"
      "x_exists ?fs (mt_receipt K) \<Longrightarrow> digest_at W (kp_marks s) (mt_receipt K) (kp_mc s) = kj_receipt j"
    and entries: "list_all (\<lambda>(name, t). let p = mt_bin K name in
                 entry_at ?fs p \<longrightarrow> x_is_symlink ?fs p \<and> JStr (mark (kp_marks s) p) = t) (kj_entrypoints j)"
    using assms unfolding check_remains_def by (auto simp: Let_def rbind_eq_Inr ensure_def split: if_splits)
  have there: "entry_at ?fs p" if "map_of ?fs p \<noteq> None" for p
  proof -
    from that obtain e where "x_lookup ?fs p = Some e" by (cases "pp_parts p = []") (auto simp: x_lookup_def)
    then show ?thesis by (cases e) (auto simp: entry_at_def x_exists_def x_is_symlink_def)
  qed
  show "evidenced_by W K j s (mt_receipt K)" if "map_of ?fs (mt_receipt K) \<noteq> None"
    using there [OF that] receipt by (auto simp: evidenced_by_def entry_at_def Let_def)
  show "evidenced_by W K j s (mt_bin K name)" if "name \<in> set (map fst (kj_entrypoints j))" "map_of ?fs (mt_bin K name) \<noteq> None"
    using there [OF that(2)] that(1) entries by (fastforce simp: evidenced_by_def Let_def list_all_iff)
  show "evidenced_by W K j s p" if "entry_at ?fs ?q" "walked ?fs ?q p" "map_of ?fs p \<noteq> None"
  proof -
    from rem that have "(relative ?q p, JObj (entry_item W (kp_marks s) (kp_mc s) p)) \<in> set remaining"
      by (auto simp: inventory_def inventory_of_def refuse_def entries_below_iff split: if_splits)
    with all that(2) show ?thesis by (auto simp: evidenced_by_def Let_def list_all_iff)
  qed
qed

lemma erases_entries:
  "erases_only P s t \<Longrightarrow> (\<And>n. n \<in> set names \<Longrightarrow> map_of (mc_fs (kp_mc s)) (mt_bin K n) \<noteq> None \<Longrightarrow> P (mt_bin K n)) \<Longrightarrow>
    discard_entries K names t = (r, u) \<Longrightarrow> erases_only P s u"
proof (induction names arbitrary: t)
  case Nil
  then show ?case by (simp add: discard_entries_def ereturn_def)
next
  case (Cons n names)
  from Cons.prems(3) show ?case unfolding discard_entries_def each_e.simps
  proof (cases rule: ebind_cases)
    case (raised e)
    with Cons.prems(1,2) show ?thesis by (auto intro: erases_discard)
  next
    case (went_on x v)
    from Cons.prems(1,2) went_on(1) have "erases_only P s v" by (auto intro: erases_discard)
    from Cons.IH [OF this] Cons.prems(2) went_on(2) show ?thesis by (simp add: discard_entries_def)
  qed
qed

text \<open>C15:
  An uninstallation is finished by erasing only what its journal recorded. It does nothing at all when
  the check fails; otherwise the only entries that are gone afterwards are the journal, the directory
  the program was moved to and those of its entries whose kind, mode and content are as recorded, the
  receipt with the recorded digest, and the links of the recorded entry points with their recorded
  targets, however it ends.
\<close>
theorem uninstall_erases_recorded_only:
  "case finish_uninstall W K j s of (r, s') \<Rightarrow>
     (\<exists>e. r = Inl e) \<and> s' = s \<or>
     check_remains W K j (kp_marks s) (kp_mc s) = Inr () \<and> erases_only (evidenced_by W K j s) s s'"
proof -
  obtain r s' where run: "finish_uninstall W K j s = (r, s')" by fastforce
  let ?P = "evidenced_by W K j s" and ?q = "quarantine K (kj_token j)"
  have own: "?P (mt_journal K)" "?P ?q" by (simp_all add: evidenced_by_def)
  show ?thesis
  proof (cases "check_remains W K j (kp_marks s) (kp_mc s)")
    case (Inl e)
    with run have "r = Inl e" "s' = s" by (auto simp: finish_uninstall_def Let_def eseq_def ebind_def look_def eread_def)
    with run show ?thesis by simp
  next
    case (Inr u)
    then have ok: "check_remains W K j (kp_marks s) (kp_mc s) = Inr ()" by simp
    note ev = evidence_of_check [OF ok]
    have tree: "erases_only ?P s v" if "erases_only ?P s t"
      "on_keep (\<lambda>m. if x_exists (mc_fs m) ?q then remove_tree ?q m else (Inr (), m)) t = (x, v)" for t v x
    proof (cases "x_exists (mc_fs (kp_mc t)) ?q")
      case True
      from that(1) obtain fs where fs: "kp_mc t = (kp_mc s)\<lparr>mc_fs := fs\<rparr>" "fs_erases ?P (mc_fs (kp_mc s)) fs"
        by (auto simp: erases_only_def)
      with True have "entry_at (mc_fs (kp_mc s)) ?q"
        using erased_lookup [OF fs(2), of ?q] by (cases "x_lookup fs ?q") (auto simp: entry_at_def x_exists_def)
      with True that ev(3) own(2) show ?thesis
        by (intro erases_tree [of ?P s t ?q x v]) (auto simp: on_keep_pair)
    qed (use that in \<open>simp add: on_keep_pair\<close>)
    have clear: "erases_only ?P s v" if "erases_only ?P s t" "clear_journal K t = (x, v)" for t v x
      using that(2) unfolding clear_journal_def eseq_def
      by (cases rule: ebind_cases) (use that(1) own(1) in \<open>auto intro: erases_discard erases_drop_journal\<close>)
    from run ok have run': "(eseq (discard_entries K (map fst (kj_entrypoints j)))
     (eseq (demand (\<lambda>fs. \<not> x_is_symlink fs (mt_receipt K)) ''foreign receipt blocks uninstall'')
     (eseq (on_keep (m_discard (mt_receipt K)))
     (eseq (on_keep (\<lambda>m. if x_exists (mc_fs m) ?q then remove_tree ?q m else (Inr (), m)))
       (clear_journal K))))) s = (r, s')"
      by (simp add: finish_uninstall_def Let_def eseq_def ebind_def look_def eread_def)
    have "erases_only ?P s s'"
      using run' unfolding eseq_def
    proof (cases rule: ebind_cases)
      case (raised e)
      show ?thesis by (rule erases_entries [OF erases_refl _ raised(1)]) (rule ev(2))
    next
      case (went_on x t1)
      have t1: "erases_only ?P s t1" by (rule erases_entries [OF erases_refl _ went_on(1)]) (rule ev(2))
      from went_on(2) show ?thesis
      proof (cases rule: ebind_cases)
        case (raised e)
        with t1 show ?thesis by (auto simp: demand_def look_def eread_def)
      next
        case (went_on x t2)
        with t1 have t2: "erases_only ?P s t2" by (auto simp: demand_def look_def eread_def)
        from went_on(2) show ?thesis
        proof (cases rule: ebind_cases)
          case (raised e)
          with t2 ev(1) show ?thesis by (auto intro: erases_discard)
        next
          case (went_on x t3)
          with t2 ev(1) have t3: "erases_only ?P s t3" by (auto intro: erases_discard)
          from went_on(2) show ?thesis
            by (cases rule: ebind_cases) (use t3 tree clear in blast)+
        qed
      qed
    qed
    with run ok show ?thesis by simp
  qed
qed

section \<open>The point of no return\<close>




































end
