(* ===== verification/Maintenance_Frames.thy ===== *)
theory Maintenance_Frames
  imports Maintenance_Props "HOL-Library.Multiset"
begin

text \<open>
  What the recovery of a rollback rests on: which steps of a maintenance command leave the program
  alone, what an accepted review established, and on which entries the checks of maintenance.py depend.
\<close>

section \<open>Digests and documents\<close>

lemma hex_digit_small: "d < 16 \<Longrightarrow> is_digit (hex_digit d) \<or> hex_digit d \<in> set ''abcdef''"
proof -
  assume d: "d < 16"
  show ?thesis
  proof (cases "d < 10")
    case True
    then show ?thesis by (simp add: hex_digit_def digit_char_def is_digit_def code_of_def)
  next
    case False
    with d have "d \<in> {10, 11, 12, 13, 14, 15}" by auto
    then have "hex_digit d \<in> set (map hex_digit [10, 11, 12, 13, 14, 15])" by auto
    moreover have "map hex_digit [10, 11, 12, 13, 14, 15] = ''abcdef''" by code_simp
    ultimately show ?thesis by metis
  qed
qed

lemma hexadecimal_text: "hexadecimal n (hex_text n k)"
  using hex_digit_small by (auto simp: hexadecimal_def hex_text_def list_all_iff)

lemma py_eq_sorted: "jplain v \<Longrightarrow> py_eq v (jsort v)"
proof (induction v)
  case (JArr xs)
  then show ?case by (auto simp: list_all_iff zip_map2 zip_same_conv_map)
next
  case (JObj kvs)
  have "py_eq x y" if "(k, x) \<in> set kvs" "map_of (sort_by fst (map (\<lambda>(k, x). (k, jsort x)) kvs)) k = Some y" for k x y
  proof -
    have "map_of kvs k = Some x" using JObj.prems that(1) by simp
    then have "y = jsort x" using jget_jsort [of "JObj kvs" k] that(2) by (simp add: jget_def)
    moreover have "jplain x" using JObj.prems that(1) by (auto simp: list_all_iff)
    ultimately show ?thesis using JObj.IH that(1) by (metis snds.intros snd_conv)
  qed
  moreover have "map_of (sort_by fst (map (\<lambda>(k, x). (k, jsort x)) kvs)) k \<noteq> None" if "(k, x) \<in> set kvs" for k x
    using that by (auto simp: map_of_eq_None_iff image_iff) force
  ultimately show ?case by (fastforce simp: list_all_iff sort_by_def split: option.splits)
qed auto

section \<open>Places\<close>

lemma maintenance_parts:
  "wf_part ''current'' \<and> wf_part ''releases'' \<and> wf_part ''bin'' \<and> wf_part ''install.json'' \<and>
   wf_part ''maintenance-transaction.json'' \<and> wf_part ''distribution.json'' \<and> wf_part ''distribution.lock'' \<and>
   wf_part ''setup-recovery'' \<and> wf_part ''locks'' \<and> wf_part ''.locks'' \<and> wf_part ''.registry.lock'' \<and>
   list_all wf_part (commands @ [setup_command])"
  by code_simp

lemma below_iff: "below a p \<longleftrightarrow> pp_root a = pp_root p \<and> (\<exists>t. t \<noteq> [] \<and> pp_parts p = pp_parts a @ t)"
  by (simp add: below_def in_path_parents)

lemma below_trans: "below a b \<Longrightarrow> below b c \<Longrightarrow> below a c"
  by (auto simp: below_iff)

lemma below_irrefl [simp]: "\<not> below a a"
  by (auto simp: below_iff)

lemma below_div: "wf_part n \<Longrightarrow> below p (path_div p n)"
  by (simp add: below_iff path_div_part)

lemma below_linear: "below a p \<Longrightarrow> below b p \<Longrightarrow> a = b \<or> below a b \<or> below b a"
  by (cases a; cases b) (auto simp: below_iff append_eq_append_conv2)

lemma below_child: "wf_part n \<Longrightarrow> below a (path_div p n) \<longleftrightarrow> a = p \<or> below a p"
  by (cases a; cases p) (auto simp: below_iff path_div_part append_eq_append_conv2 Cons_eq_append_conv)

text \<open>The program and the account's data lie apart.\<close>

definition apart :: "maintenance \<Rightarrow> bool" where
  "apart K \<longleftrightarrow>
     list_all (\<lambda>(a, b). a \<noteq> b \<and> \<not> below a b \<and> \<not> below b a)
       [(mt_root K, mt_state K), (mt_root K, mt_registry K),
        (path_div (mt_prefix K) ''bin'', mt_state K), (path_div (mt_prefix K) ''bin'', mt_registry K)]"

text \<open>What a directory and everything in it can be changed with: itself, its content and its ancestors.\<close>

definition reach :: "ppath \<Rightarrow> ppath set" where
  "reach b = {p. p = b \<or> below b p \<or> below p b}"

definition data_area :: "maintenance \<Rightarrow> ppath set" where
  "data_area K = reach (mt_state K) \<union> reach (mt_registry K)"

lemma reach_apart:
  assumes "a \<noteq> b" "\<not> below a b" "\<not> below b a" "p = a \<or> below a p" shows "p \<notin> reach b"
  using assms below_linear [of a p b] below_trans by (auto simp: reach_def)

lemma reach_parents: "p = b \<or> below b p \<Longrightarrow> insert p (set (path_parents p)) \<subseteq> reach b"
proof -
  assume p: "p = b \<or> below b p"
  have "q \<in> reach b" if "below q p" for q
    using p that below_linear [of q p b] by (auto simp: reach_def)
  with p show ?thesis by (auto simp: reach_def below_def)
qed

definition bin_names :: "string list" where
  "bin_names = commands @ [setup_command]"

lemma program_outside:
  assumes "apart K" and "p = mt_root K \<or> below (mt_root K) p \<or> p \<in> set (map (mt_bin K) bin_names)"
  shows "p \<notin> data_area K"
proof -
  have bins: "below (path_div (mt_prefix K) ''bin'') p" if "p \<in> set (map (mt_bin K) bin_names)"
    using that maintenance_parts by (auto simp: mt_bin_def bin_names_def list_all_iff intro!: below_div)
  from assms(2) show ?thesis
  proof (elim disjE)
    assume "p \<in> set (map (mt_bin K) bin_names)"
    with bins show ?thesis
      using assms(1) reach_apart [of "path_div (mt_prefix K) ''bin''" _ p] by (auto simp: apart_def data_area_def)
  qed (use assms(1) reach_apart [of "mt_root K" _ p] in \<open>auto simp: apart_def data_area_def\<close>)
qed

lemma current_below: "below (mt_root K) (mt_current K)" "below (mt_root K) (temporary_link K (hex_text n k))"
  "wf_part r \<Longrightarrow> below (mt_root K) (mt_release K r)"
proof -
  note w = maintenance_parts
  show "below (mt_root K) (mt_current K)" using w by (simp add: mt_current_def below_div)
  show "wf_part r \<Longrightarrow> below (mt_root K) (mt_release K r)" using w by (simp add: mt_release_def below_child)
  have "wf_part (''.maintenance-current-'' @ hex_text n k)"
  proof -
    have "CHR ''/'' \<notin> set (hex_text n k)"
      using hexadecimal_text [of n k] by (auto simp: hexadecimal_def list_all_iff is_digit_def code_of_def)
    then show ?thesis by (simp add: wf_part_def)
  qed
  then show "below (mt_root K) (temporary_link K (hex_text n k))" by (simp add: temporary_link_def below_div)
qed

section \<open>Steps that leave the program alone\<close>

text \<open>Only the account's data may differ.\<close>

definition data_only :: "maintenance \<Rightarrow> keeper \<Rightarrow> keeper \<Rightarrow> bool" where
  "data_only K s s' \<longleftrightarrow> touches_only (data_area K) (kp_mc s) (kp_mc s') \<and> kp_marks s' = kp_marks s"

interpretation data_only: state_order "data_only K" for K
  by unfold_locales (auto simp: data_only_def scope.refl intro: scope.trans)

abbreviation keeps_program :: "maintenance \<Rightarrow> (keeper, 'e, 'a) em \<Rightarrow> bool" where
  "keeps_program K \<equiv> keeps (data_only K)"

lemma program_on_keep: "keeps (touches_only (data_area K)) c \<Longrightarrow> keeps_program K (on_keep c)"
  by (auto simp: keeps_def on_keep_pair data_only_def split: prod.splits)

lemma program_registry: "keeps_program K (on_manager (in_registry f))"
  by (auto simp: keeps_def on_manager_def in_registry_def emodify_def data_only_def scope.refl)

lemma area_mkdir: "p = b \<or> below b p \<Longrightarrow> reach b \<subseteq> data_area K \<Longrightarrow> keeps (touches_only (data_area K)) (m_mkdir p e mode)"
  using reach_parents [of p b] by (intro touch_mkdir) auto

lemma area_change: "p = b \<or> below b p \<Longrightarrow> reach b \<subseteq> data_area K \<Longrightarrow>
    (\<And>fs q. q \<noteq> p \<Longrightarrow> map_of (f fs) q = map_of fs q) \<Longrightarrow> keeps (touches_only (data_area K)) (m_change p f)"
proof (rule touch_change)
  fix fs q assume "p = b \<or> below b p" "reach b \<subseteq> data_area K" "q \<notin> data_area K"
  then have "q \<noteq> p" by (auto simp: reach_def)
  then show "(\<And>fs q. q \<noteq> p \<Longrightarrow> map_of (f fs) q = map_of fs q) \<Longrightarrow> map_of (f fs) q = map_of fs q" by blast
qed

lemma area_append: "p = b \<or> below b p \<Longrightarrow> reach b \<subseteq> data_area K \<Longrightarrow> keeps (touches_only (data_area K)) (open_append p)"
proof -
  assume p: "p = b \<or> below b p" "reach b \<subseteq> data_area K"
  have "keeps (touches_only (data_area K)) (m_change p (x_put p e))" for e
    by (rule area_change [OF p]) auto
  then show ?thesis by (auto simp: keeps_def open_append_def m_touch_def scope.refl)
qed

lemma area_write: "path_parent p = b \<Longrightarrow> below b p \<Longrightarrow> reach b \<subseteq> data_area K \<Longrightarrow> keeps (touches_only (data_area K)) (write_json p v)"
proof -
  assume p: "path_parent p = b" "below b p" "reach b \<subseteq> data_area K"
  have "p \<in> data_area K" using p by (auto simp: reach_def)
  then have "keeps (touches_only (data_area K)) (m_fs (x_put p e))" for e by (intro touch_fs) auto
  then have "keeps (touches_only (data_area K)) (\<lambda>m. if p \<in> set (mc_refuses m) \<or> (case x_lookup (mc_fs m) p of Some (EDir k) \<Rightarrow> True | _ \<Rightarrow> False)
      then (Inl (Raised (path_str p)), m) else m_fs (x_put p e) m)" for e
    by (auto simp: keeps_def scope.refl)
  with p show ?thesis unfolding write_json_def
    by (intro scope.keeps_seq area_mkdir [of _ b]) auto
qed

lemma areas: "reach (mt_state K) \<subseteq> data_area K" "reach (mt_registry K) \<subseteq> data_area K"
  by (auto simp: data_area_def)

lemma program_look: "keeps_program K (look f)" "keeps_program K (demand ok msg)"
  by (simp_all add: look_def demand_def data_only.keeps_pure)

lemma program_lock: "p = b \<or> below b p \<Longrightarrow> reach b \<subseteq> data_area K \<Longrightarrow> keeps_program K (hold_lock W p msg)"
  unfolding hold_lock_def by (intro data_only.keeps_seq program_on_keep area_append program_look)

lemma lock_part: "lock_name name \<Longrightarrow> wf_part (name @ ''.lock'')"
proof -
  assume "lock_name name"
  then have "name \<noteq> []" "list_all (\<lambda>c. is_letter c \<or> is_digit c \<or> c = CHR ''_'' \<or> c = CHR ''-'') name"
    by (auto simp: lock_name_def transaction_name_def)
  moreover have "\<not> is_letter CHR ''/''" "\<not> is_digit CHR ''/''"
    by (simp_all add: is_letter_def is_digit_def is_lower_def is_upper_def code_of_def)
  ultimately show ?thesis by (auto simp: wf_part_def list_all_iff append_eq_Cons_conv)
qed

lemma program_quiescent: "keeps_program K (quiescent_instances W K names)"
proof -
  note w = maintenance_parts
  let ?gates = "path_div (mt_registry K) ''.locks''" and ?locks = "path_div (mt_state K) ''locks''"
  have g: "below (mt_registry K) ?gates" and l: "below (mt_state K) ?locks" using w by (simp_all add: below_div)
  have r: "below (mt_registry K) (path_div ?gates ''.registry.lock'')" using w g by (simp add: below_child)
  have one: "keeps_program K (eseq (on_keep (m_mkdir dir True 448)) (hold_lock W (path_div dir (name @ ''.lock'')) msg))"
    if "dir \<in> set [?locks, ?gates]" "lock_name name" for dir name msg
  proof -
    from that(1) g l obtain b where b: "below b dir" "reach b \<subseteq> data_area K" using areas by auto
    then have "below b (path_div dir (name @ ''.lock''))" by (simp add: below_child lock_part [OF that(2)])
    with b show ?thesis by (intro data_only.keeps_seq program_on_keep area_mkdir program_lock) auto
  qed
  have each: "keeps_program K (if \<not> lock_name name then eraise (Raised ''unsafe instance lock name'')
      else each_e (\<lambda>dir. eseq (on_keep (m_mkdir dir True 448)) (hold_lock W (path_div dir (name @ ''.lock'')) msg)) [?locks, ?gates])"
    for name msg
    by (intro keeps_if data_only.keeps_each data_only.keeps_pure one) auto
  show ?thesis unfolding quiescent_instances_def Let_def
    by (intro data_only.keeps_seq data_only.keeps_each program_on_keep area_mkdir [OF disjI2 [OF g] areas(2)]
        program_lock [OF disjI2 [OF r] areas(2)] each)
qed

lemma program_capsule: "keeps_program K (prepare_recovery_capsule W K)"
proof -
  note w = maintenance_parts
  let ?dir = "path_div (mt_state K) ''setup-recovery''"
  have d: "below (mt_state K) ?dir" using w by (simp add: below_div)
  have put: "keeps_program K (on_keep (put_capsule ?dir e))" if "e \<in> set (capsule_sources W fs)" for e fs
  proof (rule program_on_keep)
    obtain source name where e: "e = (source, name)" by (cases e)
    have "list_all wf_part [''install.sh'', ''setup.sh'', ''maintenance.py'', ''upgrade_state.py'']" by code_simp
    with that e have "wf_part name" by (auto simp: capsule_sources_def Let_def)
    with d have b: "below (mt_state K) (path_div ?dir name)" by (simp add: below_child)
    have "keeps (touches_only (data_area K)) (m_change (path_div ?dir name) (x_put (path_div ?dir name) (EFile 448 c)))" for c
      by (rule area_change [OF disjI2 [OF b] areas(1)]) auto
    then show "keeps (touches_only (data_area K)) (put_capsule ?dir e)"
      by (auto simp: keeps_def put_capsule_def e Let_def scope.refl split: option.splits entry.splits)
  qed
  show ?thesis unfolding prepare_recovery_capsule_def Let_def
  proof (rule keepsI)
    fix s r s'
    assume "ebind (look (\<lambda>L m. Inr (capsule_sources W (mc_fs m)))) (\<lambda>sources.
        eseq (demand (\<lambda>fs. \<not> x_is_symlink fs ?dir) ''foreign recovery capsule'')
       (eseq (on_keep (m_mkdir ?dir True 448)) (each_e (\<lambda>e. on_keep (put_capsule ?dir e)) sources))) s = (r, s')"
    then have "eseq (demand (\<lambda>fs. \<not> x_is_symlink fs ?dir) ''foreign recovery capsule'')
       (eseq (on_keep (m_mkdir ?dir True 448)) (each_e (\<lambda>e. on_keep (put_capsule ?dir e)) (capsule_sources W (mc_fs (kp_mc s))))) s = (r, s')"
      by (simp add: ebind_def look_def eread_def)
    moreover have "keeps_program K (eseq (demand (\<lambda>fs. \<not> x_is_symlink fs ?dir) ''foreign recovery capsule'')
       (eseq (on_keep (m_mkdir ?dir True 448)) (each_e (\<lambda>e. on_keep (put_capsule ?dir e)) (capsule_sources W (mc_fs (kp_mc s))))))"
      by (intro data_only.keeps_seq program_look data_only.keeps_each put program_on_keep area_mkdir [OF disjI2 [OF d] areas(1)])
    ultimately show "data_only K s s'" by (rule keepsD [rotated])
  qed
qed

lemma program_save: "keeps_program K (save_journal K v)"
proof -
  note w = maintenance_parts
  have "path_parent (mt_journal K) = mt_state K" "below (mt_state K) (mt_journal K)"
    using w by (simp_all add: mt_journal_def below_div)
  with areas show ?thesis unfolding save_journal_def
    by (intro data_only.keeps_seq program_on_keep area_write program_registry)
qed

text \<open>The way to the first step of a rollback.\<close>

definition lock_file :: "maintenance \<Rightarrow> ppath" where
  "lock_file K = path_div (mt_state K) ''distribution.lock''"

lemma locked_cases:
  assumes "locked W K c s = (Inr x, s')" obtains t where "data_only K s t" and "c t = (Inr x, s')"
proof (cases "mt_lock_held K")
  case True
  with assms that [of s] show ?thesis by (simp add: locked_def data_only.refl)
next
  case False
  note w = maintenance_parts
  have l: "below (mt_state K) (path_div (mt_state K) ''distribution.lock'')" using w by (simp add: below_div)
  from False assms obtain a b t where "on_keep (m_mkdir (mt_state K) True 448) s = (Inr (), a)"
    "demand (\<lambda>fs. \<not> x_is_symlink fs (path_div (mt_state K) ''distribution.lock'')) ''symlinked distribution lock'' a = (Inr (), b)"
    "hold_lock W (path_div (mt_state K) ''distribution.lock'') ''another distribution mutation holds the account-level lock'' b = (Inr (), t)"
    and c: "c t = (Inr x, s')" by (auto simp: locked_def Let_def eseq_Inr)
  then have "data_only K s t"
    using keepsD [OF program_on_keep [OF area_mkdir [OF disjI1 [OF refl] areas(1)]]] keepsD [OF program_look(2)]
      keepsD [OF program_lock [OF disjI2 [OF l] areas(1)]]
    by (blast intro: data_only.trans)
  with c that show ?thesis by blast
qed

lemma rollback_reached:
  assumes "interrupted_maintenance W K part request confirmation s = (Inr doc, s')" and "asked_action request = ''rollback''"
  obtains fresh j t0 t1 target where "data_only K s t0" and "review_maintenance W K request t0 = Inr fresh"
    and "first_record W K request fresh t0 = Inr j" and "kj_target j = Some target" and "data_only K t0 t1"
    and "each_e (\<lambda>c. c) (part (switch_steps W K j target)) t1 = (Inr (), s')"
proof -
  from assms(1) obtain x where "locked W K (ebind (eread (review_maintenance W K request)) (\<lambda>fresh.
          ebind (eread (first_record W K request fresh)) (\<lambda>j.
          eseq (prepare_recovery_capsule W K)
            (if kj_operation j = ''rollback'' then run_rollback W K part fresh j else run_uninstall W K fresh j)))) s = (Inr doc, s')"
    by (auto simp: interrupted_maintenance_def em_Inr)
  then obtain t0 where t0: "data_only K s t0" and body: "ebind (eread (review_maintenance W K request)) (\<lambda>fresh.
          ebind (eread (first_record W K request fresh)) (\<lambda>j.
          eseq (prepare_recovery_capsule W K)
            (if kj_operation j = ''rollback'' then run_rollback W K part fresh j else run_uninstall W K fresh j))) t0 = (Inr doc, s')"
    by (rule locked_cases)
  from body obtain fresh j a where f: "review_maintenance W K request t0 = Inr fresh" and j: "first_record W K request fresh t0 = Inr j"
    and a: "prepare_recovery_capsule W K t0 = (Inr (), a)"
    and r: "(if kj_operation j = ''rollback'' then run_rollback W K part fresh j else run_uninstall W K fresh j) a = (Inr doc, s')"
    by (auto simp: ebind_Inr eseq_Inr eread_Inr)
  from j assms(2) have "kj_operation j = ''rollback''" by (auto simp: first_record_def rbind_eq_Inr Let_def)
  with r obtain target b c where t: "kj_target j = Some target" and b: "quiescent_instances W K (map fst (kv_instances fresh)) a = (Inr (), b)"
    and c: "declared_as K (kv_instances fresh) ''instance declarations changed; preview again'' b = (Inr (), c)"
    and e: "each_e (\<lambda>c. c) (part (switch_steps W K j target)) c = (Inr (), s')"
    by (auto simp: run_rollback_def eseq_Inr ereturn_Inr eraise_Inr split: option.splits)
  have "data_only K b c" using c by (auto simp: declared_as_def eread_Inr data_only.refl)
  with keepsD [OF program_capsule a] keepsD [OF program_quiescent b] have "data_only K t0 c" by (blast intro: data_only.trans)
  with that t0 f j t e show ?thesis by blast
qed

section \<open>What the review established\<close>

lemma release_parts: "is_release n \<Longrightarrow> wf_part n"
proof -
  assume "is_release n"
  then obtain h where n: "n = ''dist-'' @ h" and h: "hexadecimal 40 h" by (auto simp: is_release_def prefix_def)
  have "CHR ''/'' \<notin> set h" using h by (auto simp: hexadecimal_def list_all_iff is_digit_def code_of_def)
  with n show ?thesis by (simp add: wf_part_def)
qed

lemma release_path: "is_release n \<Longrightarrow> path_name (path_of (''releases/'' @ n)) = n"
proof -
  assume "is_release n"
  then have "list_all wf_part [''releases'', n]" using maintenance_parts by (simp add: release_parts)
  from clean_parts_join [OF this] show ?thesis by (simp add: path_of_def path_name_def)
qed


lemma upgrade_keys_told:
  "upgrade_status W K m = Inr up \<Longrightarrow> k \<notin> {''recovery_required'', ''instance_upgrade''} \<Longrightarrow>
    map_of (fold (\<lambda>(k, v). dict_set k v) up base) k = map_of base k"
  by (auto simp: upgrade_status_def Let_def refuse_def split: if_splits sum.splits)

lemma installed_parts:
  assumes "installed_status W K pre base L m = Inr told"
  obtains found where "check_layout K L m = Inr ()"
    and "traverse (inspect_release W K pre L m) (sort (x_children (mc_fs m) (path_div (mt_root K) ''releases''))) = Inr found"
    and "(let legacy = List.map_filter (\<lambda>r. case r of Inl n \<Rightarrow> Some n | Inr v \<Rightarrow> None) found;
         items = List.map_filter (\<lambda>r. case r of Inl n \<Rightarrow> None | Inr v \<Rightarrow> Some v) found;
         cur = current_name K L;
         told = (\<lambda>ownership. dict_set ''retained_legacy'' (strs legacy)
                  (dict_set ''current'' (JStr cur) (dict_set ''ownership'' (JStr ownership) base))) in
     if pre then
       (if cur \<notin> set legacy then refuse ''current predecessor release is missing''
        else Inr (told ''recognized_existing''))
     else if \<not> list_ex (\<lambda>v. jget v ''id'' = Some (JStr cur)) items then refuse ''current release is missing''
     else Inr (dict_set ''releases'' (JArr items) (told ''standalone_distribution''))) = Inr told"
proof (cases "check_layout K L m")
  case (Inr u)
  with assms that show ?thesis
    by (cases "traverse (inspect_release W K pre L m) (sort (x_children (mc_fs m) (path_div (mt_root K) ''releases'')))")
      (simp_all add: installed_status_def rbind_def)
qed (use assms in \<open>simp add: installed_status_def rbind_def\<close>)

lemma standalone_status:
  assumes "maintenance_status W K reg L m = Inr told" and "jget (JObj told) ''ownership'' = Some (JStr ''standalone_distribution'')"
  shows "check_layout K L m = Inr ()"
    and "\<exists>n d. mark L (mt_current K) = ''releases/'' @ n \<and> is_release n \<and> jget (JObj told) ''current'' = Some (JStr n) \<and>
      validate_release W L m (mt_release K n) = Inr d"
    and "entrypoints W K False L m = Inr (json_pairs (jitem (JObj told) ''entrypoints''))"
proof -
  let ?pre = "is_predecessor K L m" and ?cur = "current_name K L"
  obtain instances entries up where e: "entrypoints W K ?pre L m = Inr entries" and u: "upgrade_status W K m = Inr up"
    and told: "(let base = fold (\<lambda>(k, v). dict_set k v) up
           [(''ok'', JBool True), (''ownership'', JStr ''absent''), (''current'', JNull), (''releases'', JArr []),
            (''instances'', JObj instances), (''recovery_required'', JBool (is_pending K m)),
            (''entrypoints'', JObj entries)] in
     if \<not> entry_at (mc_fs m) (mt_root K) then
       (if entries \<noteq> [] \<and> \<not> x_exists (mc_fs m) (mt_journal K)
        then refuse ''entry points exist without an owned distribution''
        else Inr base)
     else installed_status W K ?pre base L m) = Inr told"
    using assms(1) by (auto simp: maintenance_status_def rbind_eq_Inr Let_def)
  let ?base = "fold (\<lambda>(k, v). dict_set k v) up
           [(''ok'', JBool True), (''ownership'', JStr ''absent''), (''current'', JNull), (''releases'', JArr []),
            (''instances'', JObj instances), (''recovery_required'', JBool (is_pending K m)), (''entrypoints'', JObj entries)]"
  let ?legacy = "List.map_filter (\<lambda>r. case r of Inl n \<Rightarrow> Some n | Inr v \<Rightarrow> None)"
    and ?items = "List.map_filter (\<lambda>r. case r of Inl n \<Rightarrow> None | Inr v \<Rightarrow> Some v)"
  let ?told = "\<lambda>found ownership. dict_set ''retained_legacy'' (strs (?legacy found))
      (dict_set ''current'' (JStr ?cur) (dict_set ''ownership'' (JStr ownership) ?base))"
  note base = upgrade_keys_told [OF u]
  have "told \<noteq> ?base"
  proof
    assume "told = ?base"
    with assms(2) show False by (simp add: jget_def base)
  qed
  with told have inst: "installed_status W K ?pre ?base L m = Inr told"
    by (auto simp: Let_def refuse_def split: if_splits)
  then obtain found where layout: "check_layout K L m = Inr ()"
    and found: "traverse (inspect_release W K ?pre L m) (sort (x_children (mc_fs m) (path_div (mt_root K) ''releases''))) = Inr found"
    and rest: "(if ?pre then
       (if ?cur \<notin> set (?legacy found) then refuse ''current predecessor release is missing''
        else Inr (?told found ''recognized_existing''))
     else if \<not> list_ex (\<lambda>v. jget v ''id'' = Some (JStr ?cur)) (?items found) then refuse ''current release is missing''
     else Inr (dict_set ''releases'' (JArr (?items found)) (?told found ''standalone_distribution''))) = Inr told"
    by (rule installed_parts [unfolded Let_def])
  show "check_layout K L m = Inr ()" by (rule layout)
  have pre: "\<not> ?pre"
  proof
    assume "?pre"
    with rest have "jget (JObj told) ''ownership'' = Some (JStr ''recognized_existing'')"
      by (auto simp: Let_def refuse_def jget_def map_of_dict_set split: if_splits)
    with assms(2) show False by simp
  qed
  with rest have ex: "list_ex (\<lambda>v. jget v ''id'' = Some (JStr ?cur)) (?items found)"
    and told': "told = dict_set ''releases'' (JArr (?items found)) (?told found ''standalone_distribution'')"
    by (simp_all add: refuse_def split: if_splits)
  then obtain r v where "r \<in> set found" "(case r of Inl n \<Rightarrow> None | Inr v \<Rightarrow> Some v) = Some v" and id: "jget v ''id'' = Some (JStr ?cur)"
    by (auto simp: list_ex_iff map_filter_def)
  then have v: "Inr v \<in> set found" "jget v ''id'' = Some (JStr ?cur)" by (auto split: sum.splits)
  have ep: "map_of told ''entrypoints'' = Some (JObj entries)" and cu: "map_of told ''current'' = Some (JStr ?cur)"
    by (simp_all add: told' map_of_dict_set base)
  show "entrypoints W K False L m = Inr (json_pairs (jitem (JObj told) ''entrypoints''))"
    using e pre ep by (simp add: jitem_def jget_or_null_def jget_def json_pairs_def)
  from layout obtain n where sym: "x_is_symlink (mc_fs m) (mt_current K)" and n: "mark L (mt_current K) = ''releases/'' @ n"
    and rel: "is_release n \<or> is_legacy_release n"
    by (auto simp: check_layout_def Let_def rbind_eq_Inr ensure_def releases_name_def prefix_def split: if_splits)
  with pre have rn: "is_release n" by (auto simp: is_predecessor_def releases_name_def)
  have cur: "?cur = n" unfolding current_name_def n by (rule release_path [OF rn])
  from found v(1) obtain name where "inspect_release W K ?pre L m name = Inr (Inr v)"
    using traverse_eq_Inr_all2 [OF found] by (auto simp: list_all2_conv_all_nth in_set_conv_nth)
  then obtain d where "validate_release W L m (mt_release K name) = Inr d" "v = release_item name d"
    by (auto simp: inspect_release_def rbind_eq_Inr split: if_splits)
  moreover from this(2) v(2) cur have "name = n" by (simp add: release_item_def jget_def)
  ultimately show "\<exists>n d. mark L (mt_current K) = ''releases/'' @ n \<and> is_release n \<and> jget (JObj told) ''current'' = Some (JStr n) \<and>
      validate_release W L m (mt_release K n) = Inr d"
    using n rn cu cur by (auto simp: jget_def)
qed

text \<open>What an accepted rollback knows of the installation before its first step.\<close>

lemma reviewed_rollback:
  assumes "review_maintenance W K request s = Inr fresh" and "asked_action request = ''rollback''"
    and "first_record W K request fresh s = Inr j" and "kj_target j = Some target"
  shows "asked_target request = Some target" and "is_release target"
    and "x_is_dir (mc_fs (kp_mc s)) (mt_root K)" and "\<not> x_is_symlink (mc_fs (kp_mc s)) (mt_root K)"
    and "kj_inventory j = inventory_of W (kp_marks s) (kp_mc s) (mt_root K)"
    and "set (x_children (mc_fs (kp_mc s)) (mt_root K)) = {''current'', ''releases''}"
    and "x_is_symlink (mc_fs (kp_mc s)) (mt_current K)"
    and "mark (kp_marks s) (mt_current K) = ''releases/'' @ kj_previous j" and "is_release (kj_previous j)"
    and "\<exists>d. validate_release W (kp_marks s) (kp_mc s) (mt_release K (kj_previous j)) = Inr d"
    and "\<exists>d. validate_release W (kp_marks s) (kp_mc s) (mt_release K target) = Inr d"
    and "entrypoints W K False (kp_marks s) (kp_mc s) = Inr (kj_entrypoints j)"
    and "kj_operation j = ''rollback''" and "kj_phase j = ''prepared''" and "\<exists>k. kj_token j = hex_text 32 k"
    and "kj_completed j = []" and "kj_receipt j = None \<or> (\<exists>d. kj_receipt j = Some d \<and> hexadecimal 64 d)"
proof -
  let ?L = "kp_marks s" and ?m = "kp_mc s"
  have fresh: "preview_maintenance W K ''rollback'' (asked_target request) s = Inr fresh"
    using assms(1,2) by (auto simp: review_maintenance_def rbind_eq_Inr)
  then obtain told u ents where told: "preview_status W K ''rollback'' s = Inr told"
    and target: "check_target W K (kp_reg s) (jitem (JObj told) ''current'') (asked_target request) ?L ?m = Inr u"
    and kv: "kv_status fresh = told" "kv_receipt fresh = digest_at W ?L (mt_receipt K) ?m"
    by (auto simp: preview_maintenance_def Let_def rbind_eq_Inr)
  from told have st: "maintenance_status W K (kp_reg s) ?L ?m = Inr told"
    "jget (JObj told) ''ownership'' = Some (JStr ''standalone_distribution'')"
    by (auto simp: preview_status_def rbind_eq_Inr ensure_def split: if_splits)
  note status = standalone_status [OF st]
  from assms(3) obtain ents where ents: "inventory W ?L ?m (mt_root K) = Inr ents"
    and j: "j = \<lparr>kj_operation = asked_action request, kj_phase = ''prepared'', kj_token = hex_text 32 (kw_token W ?m),
          kj_previous = (case jget (JObj told) ''current'' of Some (JStr c) \<Rightarrow> c | _ \<Rightarrow> []), kj_target = asked_target request,
          kj_inventory = ents, kj_entrypoints = json_pairs (jitem (JObj told) ''entrypoints''), kj_receipt = kv_receipt fresh,
          kj_completed = []\<rparr>"
    by (auto simp: first_record_def rbind_eq_Inr Let_def kv)
  show t: "asked_target request = Some target" using assms(4) j by simp
  from target t show "is_release target" "\<exists>d. validate_release W ?L ?m (mt_release K target) = Inr d"
    by (auto simp: check_target_def rbind_eq_Inr refuse_def split: if_splits)
  from ents show "x_is_dir (mc_fs ?m) (mt_root K)" "\<not> x_is_symlink (mc_fs ?m) (mt_root K)"
    "kj_inventory j = inventory_of W ?L ?m (mt_root K)"
    by (auto simp: inventory_def refuse_def j split: if_splits)
  from status(1) show "set (x_children (mc_fs ?m) (mt_root K)) = {''current'', ''releases''}" "x_is_symlink (mc_fs ?m) (mt_current K)"
    by (auto simp: check_layout_def Let_def rbind_eq_Inr ensure_def split: if_splits)
  from status(2) obtain n d where n: "mark ?L (mt_current K) = ''releases/'' @ n" "is_release n" "jget (JObj told) ''current'' = Some (JStr n)"
    "validate_release W ?L ?m (mt_release K n) = Inr d" by blast
  then have "kj_previous j = n" by (simp add: j)
  with n show "mark ?L (mt_current K) = ''releases/'' @ kj_previous j" "is_release (kj_previous j)"
    "\<exists>d. validate_release W ?L ?m (mt_release K (kj_previous j)) = Inr d" by simp_all
  from status(3) show "entrypoints W K False ?L ?m = Inr (kj_entrypoints j)" by (simp add: j)
  show "kj_operation j = ''rollback''" "kj_phase j = ''prepared''" "\<exists>k. kj_token j = hex_text 32 k" "kj_completed j = []"
    using assms(2) by (auto simp: j)
  show "kj_receipt j = None \<or> (\<exists>d. kj_receipt j = Some d \<and> hexadecimal 64 d)"
    by (auto simp: j kv digest_at_def file_digest_def hexadecimal_text split: option.splits entry.splits)
qed

section \<open>What the checks depend on\<close>

text \<open>The same entries, and the same marks.\<close>

definition agree :: "ppath set \<Rightarrow> fs \<Rightarrow> marks \<Rightarrow> fs \<Rightarrow> marks \<Rightarrow> bool" where
  "agree S fs L fs' L' \<longleftrightarrow> (\<forall>p \<in> S. map_of fs' p = map_of fs p \<and> map_of L' p = map_of L p)"

definition within :: "ppath \<Rightarrow> ppath set" where
  "within r = {p. p = r \<or> below r p}"

lemma agreeD: "agree S fs L fs' L' \<Longrightarrow> p \<in> S \<Longrightarrow> x_lookup fs' p = x_lookup fs p \<and> mark L' p = mark L p"
  by (simp add: agree_def x_lookup_def mark_def)

lemma agree_subset: "agree S fs L fs' L' \<Longrightarrow> T \<subseteq> S \<Longrightarrow> agree T fs L fs' L'"
  by (auto simp: agree_def)

lemma walked_agree:
  assumes "\<And>q. below r q \<Longrightarrow> below q p \<Longrightarrow> x_lookup fs' q = x_lookup fs q" shows "walked fs' r p = walked fs r p"
  using assms by (auto simp: walked_def list_all_iff below_def)

lemma entry_item_agree:
  "x_lookup (mc_fs m') p = x_lookup (mc_fs m) p \<Longrightarrow> mark L' p = mark L p \<Longrightarrow> entry_item W L' m' p = entry_item W L m p"
  by (simp add: entry_item_def file_digest_def split: option.splits entry.splits content.splits)

lemma distinct_entries [simp]: "distinct (entries_below fs r)"
  by (simp add: entries_below_def)

lemma inventory_agree:
  assumes "agree (within r) (mc_fs m) L (mc_fs m') L'"
  shows "mset (inventory_of W L' m' r) = mset (inventory_of W L m r)"
proof -
  have "set (entries_below (mc_fs m') r) = set (entries_below (mc_fs m) r)"
  proof (rule set_eqI)
    fix p
    have "walked (mc_fs m') r p = walked (mc_fs m) r p"
      by (rule walked_agree) (use agreeD [OF assms] in \<open>auto simp: within_def\<close>)
    moreover have "walked (mc_fs m) r p \<Longrightarrow> map_of (mc_fs m') p = map_of (mc_fs m) p"
      using assms by (auto simp: walked_def agree_def within_def)
    ultimately show "p \<in> set (entries_below (mc_fs m') r) \<longleftrightarrow> p \<in> set (entries_below (mc_fs m) r)"
      by (cases "walked (mc_fs m) r p") (simp_all add: entries_below_iff)
  qed
  then have "mset (entries_below (mc_fs m') r) = mset (entries_below (mc_fs m) r)" by (simp add: set_eq_iff_mset_eq_distinct)
  moreover have "entry_item W L' m' p = entry_item W L m p" if "p \<in> set (entries_below (mc_fs m) r)" for p
  proof -
    from that have "p \<in> within r" by (auto simp: entries_below_iff walked_def within_def)
    with agreeD [OF assms] show ?thesis by (intro entry_item_agree) auto
  qed
  ultimately show ?thesis
    unfolding inventory_of_def mset_map by (simp only:) (rule image_mset_cong, simp)
qed

lemma py_eq_object: "py_eq (JObj kvs) (JObj kws) \<longleftrightarrow>
    length kvs = length kws \<and> (\<forall>(k, x) \<in> set kvs. case map_of kws k of None \<Rightarrow> False | Some y \<Rightarrow> py_eq x y)"
  by (auto simp: list_all_iff)

lemma py_eq_mset: "mset kvs = mset kvs' \<Longrightarrow> py_eq (JObj kvs) (JObj kws) = py_eq (JObj kvs') (JObj kws)"
  unfolding py_eq_object by (metis mset_eq_setD mset_eq_length)

lemma read_json_agree: "x_lookup fs' p = x_lookup fs p \<Longrightarrow> read_json p fs' = read_json p fs"
  by (simp add: read_json_def x_is_symlink_def x_is_file_def)

lemma inside_agree:
  assumes "agree (within r) fs L fs' L'"
  shows "x_is_dir fs' r = x_is_dir fs r" "x_is_symlink fs' r = x_is_symlink fs r"
    "wf_part n \<Longrightarrow> x_lookup fs' (path_div r n) = x_lookup fs (path_div r n)"
    "wf_part n \<Longrightarrow> mark L' (path_div r n) = mark L (path_div r n)"
  using agreeD [OF assms] below_div [of n r] by (auto simp: within_def x_is_dir_def x_is_symlink_def)

lemma validate_release_agree:
  assumes "agree (within r) (mc_fs m) L (mc_fs m') L'"
  shows "validate_release W L' m' r = validate_release W L m r"
proof -
  note in_r = inside_agree [OF assms]
  have "mset (actual_content (inventory_of W L' m' r)) = mset (actual_content (inventory_of W L m r))"
    by (simp add: actual_content_def inventory_agree [OF assms])
  from py_eq_mset [OF this] show ?thesis
    using in_r(1,2) in_r(3) [of "''install.json''"] maintenance_parts
    by (simp add: validate_release_def read_json_agree [of "mc_fs m'" _ "mc_fs m"] inventory_def rbind_def refuse_def
        split: sum.splits)
qed

lemma entrypoint_agree:
  assumes "agree (set (map (mt_bin K) bin_names)) (mc_fs m) L (mc_fs m') L'" and "name \<in> set bin_names"
    and "x_exists (mc_fs m) (mt_root K)" "x_exists (mc_fs m') (mt_root K)" "x_exists (mc_fs m') (mt_journal K)"
    and "entrypoint W K False L m name = Inr t"
  shows "entrypoint W K False L' m' name = Inr t"
proof -
  have "mt_bin K name \<in> set (map (mt_bin K) bin_names)" using assms(2) by simp
  from agreeD [OF assms(1) this] have "x_lookup (mc_fs m') (mt_bin K name) = x_lookup (mc_fs m) (mt_bin K name)"
    "mark L' (mt_bin K name) = mark L (mt_bin K name)" by auto
  then have same: "entry_at (mc_fs m') (mt_bin K name) = entry_at (mc_fs m) (mt_bin K name)"
    "x_is_symlink (mc_fs m') (mt_bin K name) = x_is_symlink (mc_fs m) (mt_bin K name)"
    "mark L' (mt_bin K name) = mark L (mt_bin K name)"
    by (simp_all add: entry_at_def x_exists_def x_is_symlink_def)
  have no: "\<not> toolkit_reboot W K name m" "\<not> toolkit_reboot W K name m'"
    using assms(3,4) by (simp_all add: toolkit_reboot_def Let_def)
  from assms(6) show ?thesis
    unfolding entrypoint_def Let_def same using no assms(3-5) by (auto simp: refuse_def split: if_splits)
qed

lemma entrypoints_agree:
  assumes "agree (set (map (mt_bin K) bin_names)) (mc_fs m) L (mc_fs m') L'"
    and "x_exists (mc_fs m) (mt_root K)" "x_exists (mc_fs m') (mt_root K)" "x_exists (mc_fs m') (mt_journal K)"
    and "entrypoints W K False L m = Inr es"
  shows "entrypoints W K False L' m' = Inr es"
proof -
  let ?f = "\<lambda>L m name. rbind (entrypoint W K False L m name) (\<lambda>t. Inr (name, t))"
  from assms(5) obtain found where f: "traverse (?f L m) bin_names = Inr found"
    and es: "es = List.map_filter (\<lambda>(name, t). map_option (\<lambda>t. (name, JStr t)) t) found"
    by (auto simp: entrypoints_def rbind_eq_Inr bin_names_def)
  have "traverse (?f L' m') ns = Inr ys" if "traverse (?f L m) ns = Inr ys" "set ns \<subseteq> set bin_names" for ns ys
    using that
  proof (induction ns arbitrary: ys)
    case (Cons n ns)
    then obtain t zs where "entrypoint W K False L m n = Inr t" "traverse (?f L m) ns = Inr zs" "ys = (n, t) # zs"
      by (auto simp: rbind_eq_Inr)
    with Cons entrypoint_agree [OF assms(1) _ assms(2-4), of n] show ?case by (simp add: rbind_def)
  qed simp
  from this [OF f] es show ?thesis by (simp add: entrypoints_def rbind_def bin_names_def)
qed

section \<open>Directories that are there\<close>

definition made :: "ppath \<Rightarrow> fs \<Rightarrow> bool" where
  "made p fs \<longleftrightarrow> x_is_dir fs p \<and> (\<forall>q \<in> set (path_parents p). x_exists fs q)"

lemma mkdir_made: "made p (mc_fs m) \<Longrightarrow> m_mkdir p True mode m = (Inr (), m)"
proof -
  assume made: "made p (mc_fs m)"
  have "each_e (\<lambda>q m. if x_exists (mc_fs m) q then (Inr (), m) else os_mkdir q 511 m) qs m = (Inr (), m)"
    if "\<forall>q \<in> set qs. x_exists (mc_fs m) q" for qs
    using that by (induction qs) (auto simp: ereturn_def ebind_def)
  moreover have "x_exists (mc_fs m) p" using made by (auto simp: made_def x_is_dir_def x_exists_def split: option.splits)
  ultimately show ?thesis using made by (simp add: m_mkdir_def eseq_def ebind_def made_def)
qed

lemma exists_mkdir: "os_mkdir q mode m = (Inr (), m') \<Longrightarrow> x_exists (mc_fs m') q \<and> (x_exists (mc_fs m) r \<longrightarrow> x_exists (mc_fs m') r)"
  by (auto simp: os_mkdir_def m_change_def m_fs_def emodify_def x_exists_def x_lookup_put split: if_splits)

lemma made_mkdir: assumes "m_mkdir p b mode m = (Inr (), m')" shows "made p (mc_fs m')"
proof -
  let ?f = "\<lambda>q m. if x_exists (mc_fs m) q then (Inr (), m) else os_mkdir q 511 m"
  have each: "(\<forall>q \<in> set qs. x_exists (mc_fs v) q) \<and> (\<forall>r. x_exists (mc_fs u) r \<longrightarrow> x_exists (mc_fs v) r)"
    if "each_e ?f qs u = (Inr (), v)" for qs u v
    using that
  proof (induction qs arbitrary: u)
    case (Cons q qs)
    then obtain w where w: "?f q u = (Inr (), w)" "each_e ?f qs w = (Inr (), v)" by (auto simp: ebind_Inr)
    from w(1) have "x_exists (mc_fs w) q" "\<forall>r. x_exists (mc_fs u) r \<longrightarrow> x_exists (mc_fs w) r"
      using exists_mkdir by (auto split: if_splits)
    with Cons.IH [OF w(2)] show ?case by auto
  qed (simp add: ereturn_def)
  from assms obtain u where u: "each_e ?f (rev (path_parents p)) m = (Inr (), u)"
    and v: "(if x_exists (mc_fs u) p then (if b \<and> x_is_dir (mc_fs u) p then (Inr (), u) else (Inl (Raised (path_str p)), u))
        else os_mkdir p mode u) = (Inr (), m')"
    by (auto simp: m_mkdir_def eseq_Inr)
  have "\<forall>r. x_exists (mc_fs u) r \<longrightarrow> x_exists (mc_fs m') r" using v exists_mkdir by (auto split: if_splits)
  with each [OF u] made_dir [OF assms] show ?thesis by (auto simp: made_def)
qed

lemma made_same: "made p fs \<Longrightarrow> (\<And>q. q = p \<or> below q p \<Longrightarrow> x_lookup fs' q = x_lookup fs q) \<Longrightarrow> made p fs'"
  by (auto simp: made_def x_is_dir_def x_exists_def below_def)

lemma written_json:
  assumes "write_json p v m = (Inr (), m')" and "pp_parts p \<noteq> []"
  shows "map_of (mc_fs m') p = Some (EFile 384 (Text (json_file v)))" and "made (path_parent p) (mc_fs m')"
    and "made (path_parent p) (mc_fs m) \<Longrightarrow> mc_fs m' = x_put p (EFile 384 (Text (json_file v))) (mc_fs m)"
proof -
  from assms obtain u where u: "m_mkdir (path_parent p) True 448 m = (Inr (), u)"
    and m': "m' = u\<lparr>mc_fs := x_put p (EFile 384 (Text (json_file v))) (mc_fs u)\<rparr>"
    by (auto simp: write_json_def eseq_Inr m_fs_def emodify_def split: if_splits)
  show "map_of (mc_fs m') p = Some (EFile 384 (Text (json_file v)))" by (simp add: m')
  have "below (path_parent p) p" using path_parent_in [OF assms(2)] by (simp add: below_def)
  then have "p \<noteq> path_parent p" "\<not> below p (path_parent p)" using below_trans below_irrefl by metis+
  then show "made (path_parent p) (mc_fs m')"
    by (intro made_same [OF made_mkdir [OF u]]) (auto simp: m' x_lookup_put x_lookup_def)
  show "made (path_parent p) (mc_fs m) \<Longrightarrow> mc_fs m' = x_put p (EFile 384 (Text (json_file v))) (mc_fs m)"
    using mkdir_made u m' by auto
qed

lemma write_json_made:
  "made (path_parent p) (mc_fs m) \<Longrightarrow> mc_refuses m = [] \<Longrightarrow> (\<And>k. x_lookup (mc_fs m) p \<noteq> Some (EDir k)) \<Longrightarrow>
    write_json p v m = (Inr (), m\<lparr>mc_fs := x_put p (EFile 384 (Text (json_file v))) (mc_fs m)\<rparr>)"
  by (simp add: write_json_def eseq_def ebind_def mkdir_made m_fs_def emodify_def split: option.splits entry.splits)

end
