(* ===== verification/Maintenance_Journal.thy ===== *)
theory Maintenance_Journal
  imports Maintenance_Frames
begin

text \<open>
  The journal of a maintenance command, read back: the names in an inventory are distinct and safe when
  the entries have proper names, and a written journal is accepted with the fields it was written with.
\<close>

section \<open>The names of an inventory\<close>

definition proper_path :: "ppath \<Rightarrow> bool" where
  "proper_path p \<longleftrightarrow> list_all wf_part (pp_parts p) \<and> ''..'' \<notin> set (pp_parts p)"

definition proper_names :: "ppath \<Rightarrow> fs \<Rightarrow> bool" where
  "proper_names r fs \<longleftrightarrow> list_all (\<lambda>p. below r p \<longrightarrow> proper_path p) (map fst fs)"

lemma relative_tail:
  assumes "below r p" and "proper_path p"
  obtains t where "pp_parts p = pp_parts r @ t" "t \<noteq> []" "list_all wf_part t" "''..'' \<notin> set t" "relative r p = join_with ''/'' t"
proof -
  from assms(1) obtain t where "pp_parts p = pp_parts r @ t" "t \<noteq> []" by (auto simp: below_iff)
  with assms(2) that show ?thesis by (auto simp: proper_path_def relative_def)
qed

lemma relative_inject:
  assumes "below r p" "below r q" "proper_path p" "proper_path q" and "relative r p = relative r q" shows "p = q"
proof -
  obtain t where t: "pp_parts p = pp_parts r @ t" "list_all wf_part t" "relative r p = join_with ''/'' t"
    using relative_tail [OF assms(1,3)] by metis
  obtain u where u: "pp_parts q = pp_parts r @ u" "list_all wf_part u" "relative r q = join_with ''/'' u"
    using relative_tail [OF assms(2,4)] by metis
  have "clean_parts (join_with ''/'' t) = clean_parts (join_with ''/'' u)" using t u assms(5) by simp
  then have "t = u" using t(2) u(2) by (simp add: clean_parts_join)
  moreover have "pp_root p = pp_root q" using assms(1,2) by (simp add: below_iff)
  ultimately show ?thesis using t(1) u(1) by (cases p; cases q) simp
qed

lemma relative_safe: "below r p \<Longrightarrow> proper_path p \<Longrightarrow> safe_name (relative r p)"
proof -
  assume "below r p" "proper_path p"
  then obtain t where t: "t \<noteq> []" "list_all wf_part t" "''..'' \<notin> set t" "relative r p = join_with ''/'' t" by (rule relative_tail)
  have "t \<noteq> [[]]" using t(2) by (auto simp: wf_part_def)
  with t show ?thesis
    by (simp add: safe_name_def join_with_eq_Nil path_is_absolute_def path_of_def root_of_def leading_join clean_parts_join)
qed

lemma relative_child: "wf_part n \<Longrightarrow> relative r (path_div r n) = n"
  by (simp add: relative_def path_div_part)

lemma relative_name:
  assumes "below r p" "proper_path p" "wf_part n" shows "relative r p = n \<longleftrightarrow> p = path_div r n"
proof
  assume n: "relative r p = n"
  obtain t where t: "pp_parts p = pp_parts r @ t" "list_all wf_part t" "relative r p = join_with ''/'' t"
    using relative_tail [OF assms(1,2)] by metis
  have "clean_parts (join_with ''/'' t) = t" by (rule clean_parts_join [OF t(2)])
  with n t(3) have "t = [n]" using clean_parts_part [OF assms(3)] by simp
  with t(1) assms(1) show "p = path_div r n" by (cases p) (simp add: path_div_part [OF assms(3)] below_iff)
qed (simp add: relative_child [OF assms(3)])

lemma entries_proper: "proper_names r fs \<Longrightarrow> p \<in> set (entries_below fs r) \<Longrightarrow> below r p \<and> proper_path p"
  by (auto simp: proper_names_def entries_below_def walked_def list_all_iff)

lemma inventory_names:
  assumes "proper_names r (mc_fs m)"
  shows "distinct (map fst (inventory_of W L m r))" and "list_all (safe_name \<circ> fst) (inventory_of W L m r)"
    and "jplain (JObj (inventory_of W L m r))"
proof -
  have keys: "map fst (inventory_of W L m r) = map (relative r) (entries_below (mc_fs m) r)"
    by (simp add: inventory_of_def)
  have "inj_on (relative r) (set (entries_below (mc_fs m) r))"
    by (intro inj_onI) (metis entries_proper [OF assms] relative_inject)
  then show d: "distinct (map fst (inventory_of W L m r))" by (simp add: keys distinct_map)
  show "list_all (safe_name \<circ> fst) (inventory_of W L m r)"
    using entries_proper [OF assms] by (auto simp: inventory_of_def list_all_iff intro: relative_safe)
  have "jplain (JObj (entry_item W L m p))" for p
    by (simp add: entry_item_def split: option.splits entry.splits)
  then have "list_all (\<lambda>(k, x). jplain x) (inventory_of W L m r)"
    by (simp add: inventory_of_def list_all_iff del: jplain.simps)
  with d show "jplain (JObj (inventory_of W L m r))" by simp
qed

section \<open>The entry points\<close>

lemma entrypoint_told: "entrypoint W K False L m n = Inr (Some t) \<Longrightarrow> if n = setup_command then setup_target t else t = command_target n"
  by (auto simp: entrypoint_def Let_def refuse_def split: if_splits)

lemma entrypoints_told:
  assumes "entrypoints W K False L m = Inr es" shows "list_all entry_allowed es" and "jplain (JObj es)"
proof -
  let ?f = "\<lambda>name. rbind (entrypoint W K False L m name) (\<lambda>t. Inr (name, t))"
    and ?g = "\<lambda>(name, t). map_option (\<lambda>t. (name, JStr t)) t"
  from assms obtain found where f: "traverse ?f bin_names = Inr found" and es: "es = List.map_filter ?g found"
    by (auto simp: entrypoints_def rbind_eq_Inr bin_names_def)
  have each: "\<exists>n t. e = (n, JStr t) \<and> n \<in> set bin_names \<and> entrypoint W K False L m n = Inr (Some t)" if "e \<in> set es" for e
  proof -
    from that obtain n t where "(n, Some t) \<in> set found" "e = (n, JStr t)" by (auto simp: es map_filter_def)
    with traverse_eq_InrD [OF f] show ?thesis by (force simp: rbind_eq_Inr)
  qed
  then show "list_all entry_allowed es" using entrypoint_told by (fastforce simp: list_all_iff entry_allowed_def bin_names_def)
  have "map fst ys = xs" if "traverse ?f xs = Inr ys" for xs ys
    using that by (induction xs arbitrary: ys) (auto simp: rbind_eq_Inr)
  from this [OF f] have "map fst found = bin_names" .
  moreover have "distinct bin_names" by code_simp
  ultimately have "distinct (map fst found)" by simp
  then have "distinct (map fst es)" unfolding es
    by (induction found) (force simp: map_filter_def split: option.splits)+
  with each show "jplain (JObj es)" by (force simp: list_all_iff)
qed

section \<open>The journal\<close>

definition sorted_object :: "(string \<times> json) list \<Rightarrow> (string \<times> json) list" where
  "sorted_object kvs = sort_by fst (map (\<lambda>(k, x). (k, jsort x)) kvs)"

lemma text_sorted: "jsort (opt_str x) = opt_str x" "jsort (strs xs) = strs xs"
  by (simp_all add: opt_str_def strs_def comp_def split: option.splits)

lemma keep_journal_items:
  "jget (jsort (keep_journal_doc j)) ''schema_version'' = Some (JInt 1)"
  "jget (jsort (keep_journal_doc j)) ''operation'' = Some (JStr (kj_operation j))"
  "jget (jsort (keep_journal_doc j)) ''phase'' = Some (JStr (kj_phase j))"
  "jget (jsort (keep_journal_doc j)) ''token'' = Some (JStr (kj_token j))"
  "jget (jsort (keep_journal_doc j)) ''previous'' = Some (JStr (kj_previous j))"
  "jget (jsort (keep_journal_doc j)) ''target'' = Some (opt_str (kj_target j))"
  "jget (jsort (keep_journal_doc j)) ''inventory'' = Some (JObj (sorted_object (kj_inventory j)))"
  "jget (jsort (keep_journal_doc j)) ''entrypoints'' = Some (JObj (sorted_object (kj_entrypoints j)))"
  "jget (jsort (keep_journal_doc j)) ''receipt_sha256'' = Some (opt_str (kj_receipt j))"
  "jget (jsort (keep_journal_doc j)) ''completed_instances'' = Some (strs (kj_completed j))"
  unfolding jget_jsort
  by (simp_all add: keep_journal_doc_def sorted_object_def text_sorted)

lemma keep_journal_exact: "exactly keep_journal_keys (jsort (keep_journal_doc j))"
  by (simp add: keep_journal_doc_def exactly_def keep_journal_keys_def)

text \<open>A journal whose fields pass the validation, as a rollback or an uninstallation makes one.\<close>

definition journal_ready :: "keep_journal \<Rightarrow> bool" where
  "journal_ready j \<longleftrightarrow>
     kj_operation j \<in> {''rollback'', ''uninstall''} \<and> kj_phase j \<in> set keep_phases \<and> hexadecimal 32 (kj_token j) \<and>
     is_release (kj_previous j) \<and> (case kj_target j of None \<Rightarrow> kj_operation j = ''uninstall'' | Some t \<Rightarrow> is_release t) \<and>
     jplain (JObj (kj_inventory j)) \<and> list_all (safe_name \<circ> fst) (kj_inventory j) \<and>
     jplain (JObj (kj_entrypoints j)) \<and> list_all entry_allowed (kj_entrypoints j) \<and>
     (case kj_receipt j of None \<Rightarrow> True | Some d \<Rightarrow> hexadecimal 64 d) \<and>
     list_all instance_id_re (kj_completed j) \<and> distinct (kj_completed j)"

lemma entry_sorted: "entry_allowed (k, jsort v) = entry_allowed (k, v)"
  by (cases v) (simp_all add: entry_allowed_def)

lemma sorted_all: "(\<And>k x. P (k, jsort x) = P (k, x)) \<Longrightarrow> list_all P (sorted_object kvs) = list_all P kvs"
  by (auto simp: sorted_object_def list_all_iff image_iff)

lemma keep_journal_roundtrip:
  assumes "journal_ready j" and "x_lookup fs (mt_journal K) = Some (EFile k (Text (json_file (keep_journal_doc j))))"
  shows "load_journal K fs =
    Inr (j\<lparr>kj_inventory := sorted_object (kj_inventory j), kj_entrypoints := sorted_object (kj_entrypoints j)\<rparr>)"
proof -
  have "jplain (keep_journal_doc j)"
    using assms(1) by (simp add: journal_ready_def keep_journal_doc_def)
  then have read: "read_json (mt_journal K) fs = Inr (jsort (keep_journal_doc j))"
    using assms(2) read_written_json unfolding keep_journal_doc_def by blast
  note items = keep_journal_items [of j]
  have names: "List.map_filter as_str (map JStr xs) = xs" for xs
    by (induction xs) (simp_all add: map_filter_def)
  have completed: "journal_completed (jsort (keep_journal_doc j)) = Inr (kj_completed j)"
    using assms(1) by (simp add: journal_completed_def items strs_def names journal_ready_def)
  have receipt: "journal_receipt (jsort (keep_journal_doc j)) = Inr (kj_receipt j)"
    using assms(1) by (simp add: journal_receipt_def items jget_or_null_def opt_str_def journal_ready_def split: option.splits)
  have target: "journal_target_of (jsort (keep_journal_doc j)) (kj_operation j) = Inr (kj_target j)"
    using assms(1) by (auto simp: journal_target_of_def items jget_or_null_def opt_str_def journal_ready_def refuse_def split: option.splits)
  have inv: "list_all (safe_name \<circ> fst) (sorted_object (kj_inventory j))"
    using assms(1) by (subst sorted_all) (simp_all add: journal_ready_def)
  have ent: "list_all entry_allowed (sorted_object (kj_entrypoints j))"
    using assms(1) by (subst sorted_all [OF entry_sorted]) (simp add: journal_ready_def)
  show ?thesis
    using assms(1) keep_journal_exact [of j]
    by (simp add: load_journal_def read validate_journal_def rbind_def items completed receipt target inv ent ensure_def
        journal_text_def journal_object_def jitem_def jget_or_null_def journal_ready_def)
qed

end
