(* ===== verification/Maintenance_Recovery.thy ===== *)
theory Maintenance_Recovery
  imports Maintenance_Journal
begin

text \<open>
  The recovery of an interrupted rollback: whatever step it was interrupted before, the recovery
  accepts the state that was left, ends with one of the two releases in use and its receipt written,
  and leaves no trace of the transaction.
\<close>

section \<open>What an interruption leaves\<close>

lemma bins_apart: "p \<in> set (map (mt_bin K) bin_names) \<Longrightarrow> p \<notin> within (mt_root K)"
proof
  assume p: "p \<in> set (map (mt_bin K) bin_names)" and r: "p \<in> within (mt_root K)"
  have root: "root_of ''lib/workspace-mcp-manager'' = [] \<and> clean_parts ''lib/workspace-mcp-manager'' = [''lib'', ''workspace-mcp-manager'']"
    by code_simp
  have parts: "pp_parts (mt_root K) = pp_parts (mt_prefix K) @ [''lib'', ''workspace-mcp-manager'']"
    using root by (simp add: mt_root_def path_div_def)
  from p obtain n where "wf_part n" "p = mt_bin K n" using maintenance_parts by (auto simp: bin_names_def list_all_iff)
  then have "pp_parts p = pp_parts (mt_prefix K) @ [''bin'', n]" using maintenance_parts by (simp add: mt_bin_def path_div_part)
  with parts r show False by (auto simp: within_def below_iff)
qed

lemma journal_places:
  "path_parent (mt_journal K) = mt_state K" "path_parent (mt_receipt K) = mt_state K" "mt_journal K \<noteq> mt_receipt K"
  "below (mt_state K) (mt_journal K)" "below (mt_state K) (mt_receipt K)"
  "pp_parts (mt_journal K) \<noteq> []" "pp_parts (mt_receipt K) \<noteq> []"
proof -
  note w = maintenance_parts
  show b: "below (mt_state K) (mt_journal K)" "below (mt_state K) (mt_receipt K)"
    using w by (simp_all add: mt_journal_def mt_receipt_def below_div)
  show "path_parent (mt_journal K) = mt_state K" "path_parent (mt_receipt K) = mt_state K"
    using w by (simp_all add: mt_journal_def mt_receipt_def)
  show "mt_journal K \<noteq> mt_receipt K" using w by (simp add: mt_journal_def mt_receipt_def path_div_inject)
  from b show "pp_parts (mt_journal K) \<noteq> []" "pp_parts (mt_receipt K) \<noteq> []" by (auto simp: below_iff)
qed

definition left_by :: "maintenance \<Rightarrow> keep_journal \<Rightarrow> string \<Rightarrow> keeper \<Rightarrow> keeper \<Rightarrow> bool" where
  "left_by K j now s0 s \<longleftrightarrow>
     (let fs = mc_fs (kp_mc s); temp = temporary_link K (kj_token j) in
      agree (within (mt_root K) - {mt_current K, temp}) (mc_fs (kp_mc s0)) (kp_marks s0) fs (kp_marks s) \<and>
      agree (set (map (mt_bin K) bin_names)) (mc_fs (kp_mc s0)) (kp_marks s0) fs (kp_marks s) \<and>
      (\<exists>e. map_of fs (mt_current K) = Some (ELink e)) \<and> mark (kp_marks s) (mt_current K) = ''releases/'' @ now \<and>
      (map_of fs temp = None \<or> (\<exists>e. map_of fs temp = Some (ELink e))) \<and>
      map_of fs (mt_journal K) = Some (EFile 384 (Text (json_file (keep_journal_doc j)))) \<and> made (mt_state K) fs)"

lemma left_byD:
  assumes "left_by K j now s0 s"
  shows "agree (within (mt_root K) - {mt_current K, temporary_link K (kj_token j)})
      (mc_fs (kp_mc s0)) (kp_marks s0) (mc_fs (kp_mc s)) (kp_marks s)"
    and "agree (set (map (mt_bin K) bin_names)) (mc_fs (kp_mc s0)) (kp_marks s0) (mc_fs (kp_mc s)) (kp_marks s)"
    and "\<exists>e. map_of (mc_fs (kp_mc s)) (mt_current K) = Some (ELink e)"
    and "mark (kp_marks s) (mt_current K) = ''releases/'' @ now"
    and "map_of (mc_fs (kp_mc s)) (temporary_link K (kj_token j)) = None \<or>
      (\<exists>e. map_of (mc_fs (kp_mc s)) (temporary_link K (kj_token j)) = Some (ELink e))"
    and "map_of (mc_fs (kp_mc s)) (mt_journal K) = Some (EFile 384 (Text (json_file (keep_journal_doc j))))"
    and "made (mt_state K) (mc_fs (kp_mc s))"
  using assms by (simp_all add: left_by_def Let_def)

lemma data_only_outside:
  "data_only K s t \<Longrightarrow> p \<notin> data_area K \<Longrightarrow> map_of (mc_fs (kp_mc t)) p = map_of (mc_fs (kp_mc s)) p \<and> kp_marks t = kp_marks s"
  by (auto simp: data_only_def touches_only_def)

lemma on_keep_done: "on_keep c s = (Inr x, s') \<longleftrightarrow> (\<exists>m. c (kp_mc s) = (Inr x, m) \<and> s' = s\<lparr>kp_mg := (kp_mg s)\<lparr>mg_machine := m\<rparr>\<rparr>)"
  by (auto simp: on_keep_pair split: prod.splits)

lemma saved_first:
  assumes "save_journal K (keep_journal_doc j) s = (Inr (), t)" and "data_only K s0 s" and "apart K"
    and "\<exists>k. kj_token j = hex_text 32 k"
    and "map_of (mc_fs (kp_mc s0)) (mt_current K) = Some (ELink e)" and "mark (kp_marks s0) (mt_current K) = ''releases/'' @ now"
    and "map_of (mc_fs (kp_mc s0)) (temporary_link K (kj_token j)) = None"
  shows "left_by K j now s0 t"
proof -
  have d: "data_only K s0 t" using data_only.trans [OF assms(2) keepsD [OF program_save assms(1)]] .
  have out: "map_of (mc_fs (kp_mc t)) p = map_of (mc_fs (kp_mc s0)) p"
    if "p \<in> within (mt_root K) \<or> p \<in> set (map (mt_bin K) bin_names)" for p
    using data_only_outside [OF d program_outside [OF assms(3)]] that by (auto simp: within_def)
  have marks: "kp_marks t = kp_marks s0" using d by (simp add: data_only_def)
  from assms(1) obtain m where "write_json (mt_journal K) (keep_journal_doc j) (kp_mc s) = (Inr (), m)" "mc_fs (kp_mc t) = mc_fs m"
    by (auto simp: save_journal_def eseq_Inr on_keep_done on_manager_def in_registry_def emodify_def)
  with written_json(1,2) [OF this(1) journal_places(6)] journal_places(1)
  have "map_of (mc_fs (kp_mc t)) (mt_journal K) = Some (EFile 384 (Text (json_file (keep_journal_doc j))))" "made (mt_state K) (mc_fs (kp_mc t))"
    by simp_all
  moreover obtain k where "kj_token j = hex_text 32 k" using assms(4) by blast
  then have "temporary_link K (kj_token j) \<in> within (mt_root K)" "mt_current K \<in> within (mt_root K)"
    using current_below(1,2) by (simp_all add: within_def)
  ultimately show ?thesis using out assms(5-7) by (auto simp: left_by_def Let_def agree_def marks)
qed

lemma journal_outside: "apart K \<Longrightarrow> mt_journal K \<notin> within (mt_root K) \<and> mt_receipt K \<notin> within (mt_root K)"
  using program_outside [of K "mt_journal K"] program_outside [of K "mt_receipt K"] journal_places(4,5)
  by (auto simp: within_def data_area_def reach_def)

lemma left_changed:
  assumes "left_by K j now s0 s" and "apart K" and "\<exists>k. kj_token j = hex_text 32 k"
    and other: "\<And>p. p \<notin> {mt_current K, temporary_link K (kj_token j), mt_receipt K} \<Longrightarrow>
      map_of (mc_fs (kp_mc t)) p = map_of (mc_fs (kp_mc s)) p \<and> map_of (kp_marks t) p = map_of (kp_marks s) p"
    and "\<exists>e. map_of (mc_fs (kp_mc t)) (mt_current K) = Some (ELink e)"
    and "mark (kp_marks t) (mt_current K) = ''releases/'' @ now'"
    and "map_of (mc_fs (kp_mc t)) (temporary_link K (kj_token j)) = None \<or>
      (\<exists>e. map_of (mc_fs (kp_mc t)) (temporary_link K (kj_token j)) = Some (ELink e))"
  shows "left_by K j now' s0 t"
proof -
  let ?temp = "temporary_link K (kj_token j)"
  have cur: "mt_current K \<in> within (mt_root K)" using current_below(1) by (simp add: within_def)
  have temp: "?temp \<in> within (mt_root K)" using assms(3) current_below(2) by (auto simp: within_def)
  note out = journal_outside [OF assms(2)]
  have bins: "p \<notin> {mt_current K, ?temp, mt_receipt K}" if "p \<in> set (map (mt_bin K) bin_names)" for p
    using bins_apart [OF that] program_outside [OF assms(2), of p] that cur temp journal_places(5)
    by (auto simp: data_area_def reach_def)
  have journal: "mt_journal K \<notin> {mt_current K, ?temp, mt_receipt K}" using out cur temp journal_places(3) by auto
  have "made (mt_state K) (mc_fs (kp_mc t))"
  proof (rule made_same)
    show "made (mt_state K) (mc_fs (kp_mc s))" using assms(1) by (simp add: left_by_def Let_def)
    fix q assume q: "q = mt_state K \<or> below q (mt_state K)"
    then have "q \<in> data_area K" by (auto simp: data_area_def reach_def)
    then have "q \<notin> within (mt_root K)" using program_outside [OF assms(2), of q] by (auto simp: within_def)
    moreover have "q \<noteq> mt_receipt K" using q journal_places(5) [of K] below_trans below_irrefl by metis
    ultimately show "x_lookup (mc_fs (kp_mc t)) q = x_lookup (mc_fs (kp_mc s)) q"
      using other [of q] cur temp by (auto simp: x_lookup_def)
  qed
  moreover have "p \<notin> {mt_current K, ?temp, mt_receipt K}" if "p \<in> within (mt_root K) - {mt_current K, ?temp}" for p
    using that out by auto
  ultimately show ?thesis
    using assms(1,5-7) other bins other [OF journal]
    unfolding left_by_def Let_def agree_def by metis
qed

lemma linked_next:
  assumes "switch_link K (kj_token j) target s = (Inr (), t)" and "left_by K j now s0 s" and "apart K"
    and "\<exists>k. kj_token j = hex_text 32 k"
  shows "left_by K j now s0 t" and "mark (kp_marks t) (temporary_link K (kj_token j)) = ''releases/'' @ target"
proof -
  let ?temp = "temporary_link K (kj_token j)"
  from assms(1) obtain e where fs: "mc_fs (kp_mc t) = x_put ?temp (ELink e) (mc_fs (kp_mc s))"
    and L: "kp_marks t = dict_set ?temp (''releases/'' @ target) (kp_marks s)"
    and none: "x_lookup (mc_fs (kp_mc s)) ?temp = None"
    by (auto simp: switch_link_def m_symlink_def eseq_Inr emodify_Inr on_keep_done m_change_def m_fs_def emodify_def split: if_splits)
  from none have "map_of (mc_fs (kp_mc s)) ?temp = None" by (auto simp: x_lookup_def split: if_splits)
  moreover from assms(2) have cur: "\<exists>e. map_of (mc_fs (kp_mc s)) (mt_current K) = Some (ELink e)"
    "mark (kp_marks s) (mt_current K) = ''releases/'' @ now" by (simp_all add: left_by_def Let_def)
  ultimately have "mt_current K \<noteq> ?temp" by auto
  with cur show "left_by K j now s0 t"
    by (intro left_changed [OF assms(2-4)]) (auto simp: fs L mark_def map_of_dict_set)
  show "mark (kp_marks t) ?temp = ''releases/'' @ target" by (simp add: L mark_def map_of_dict_set)
qed

lemma replaced_next:
  assumes "replace_link (temporary_link K (kj_token j)) (mt_current K) s = (Inr (), t)" and "left_by K j now s0 s" and "apart K"
    and "\<exists>k. kj_token j = hex_text 32 k" and "mark (kp_marks s) (temporary_link K (kj_token j)) = ''releases/'' @ target"
    and "temporary_link K (kj_token j) \<noteq> mt_current K"
  shows "left_by K j target s0 t"
proof -
  let ?temp = "temporary_link K (kj_token j)"
  from assms(1) obtain e where fs: "mc_fs (kp_mc t) = x_put (mt_current K) (ELink e) (x_delete ?temp (mc_fs (kp_mc s)))"
    and L: "kp_marks t = dict_set (mt_current K) (mark (kp_marks s) ?temp) (filter (\<lambda>l. fst l \<noteq> ?temp) (kp_marks s))"
    by (auto simp: replace_link_def eseq_Inr emodify_Inr on_keep_done m_change_def m_fs_def emodify_def
        split: if_splits option.splits entry.splits)
  have "map_of (mc_fs (kp_mc t)) ?temp = None" using assms(6) by (simp add: fs)
  then show ?thesis
    using assms(5) by (intro left_changed [OF assms(2-4)]) (auto simp: fs L mark_def map_of_dict_set map_of_filter_key)
qed

lemma receipt_next:
  assumes "write_receipt W K r s = (Inr (), t)" and "left_by K j now s0 s" and "apart K"
    and "\<exists>k. kj_token j = hex_text 32 k"
  shows "left_by K j now s0 t"
proof -
  from assms(1) obtain v m where w: "write_json (mt_receipt K) v (kp_mc s) = (Inr (), m)" and t: "kp_mc t = m" "kp_marks t = kp_marks s"
    by (auto simp: write_receipt_def ebind_Inr look_def eread_Inr on_keep_done)
  have made: "made (mt_state K) (mc_fs (kp_mc s))" using assms(2) by (simp add: left_by_def Let_def)
  with written_json(3) [OF w journal_places(7)] journal_places(2)
  have fs: "mc_fs (kp_mc t) = x_put (mt_receipt K) (EFile 384 (Text (json_file v))) (mc_fs (kp_mc s))" by (simp add: t)
  have "mt_receipt K \<notin> {mt_current K, temporary_link K (kj_token j)}"
    using journal_outside [OF assms(3)] current_below(1,2) assms(4) by (auto simp: within_def)
  then show ?thesis
    using assms(2) by (intro left_changed [OF assms(2-4)]) (auto simp: fs t(2) left_by_def Let_def)
qed

section \<open>The inventory after an interruption\<close>

lemma walked_dirs:
  assumes "\<And>q. below r q \<Longrightarrow> below q p \<Longrightarrow>
      (\<exists>k. x_lookup fs' q = Some (EDir k)) \<longleftrightarrow> (\<exists>k. x_lookup fs q = Some (EDir k))"
  shows "walked fs' r p = walked fs r p"
proof -
  have one: "(case x of Some (EDir k) \<Rightarrow> True | _ \<Rightarrow> False) \<longleftrightarrow> (\<exists>k. x = Some (EDir k))" for x
    by (simp split: option.splits entry.splits)
  show ?thesis unfolding walked_def one using assms by (auto simp: list_all_iff below_def)
qed

lemma walked_child: "wf_part n \<Longrightarrow> walked fs r (path_div r n)"
proof -
  assume n: "wf_part n"
  have "\<not> (below r q \<and> below q (path_div r n))" for q
    using below_child [OF n, of q r] below_trans below_irrefl by metis
  then show ?thesis using below_div [OF n, of r] by (auto simp: walked_def list_all_iff below_def)
qed

lemma token_part: "wf_part (''.maintenance-current-'' @ hex_text n k)"
proof -
  have "CHR ''/'' \<notin> set (hex_text n k)"
    using hexadecimal_text [of n k] by (auto simp: hexadecimal_def list_all_iff is_digit_def code_of_def)
  then show ?thesis by (simp add: wf_part_def)
qed

lemma switched_entries:
  assumes "left_by K j now s0 t" and "kj_token j = hex_text 32 k"
    and "map_of (mc_fs (kp_mc s0)) (mt_current K) = Some (ELink e)" and "map_of (mc_fs (kp_mc s0)) (temporary_link K (kj_token j)) = None"
  shows "set (entries_below (mc_fs (kp_mc s0)) (mt_root K)) =
      set (entries_below (mc_fs (kp_mc t)) (mt_root K)) - {temporary_link K (kj_token j)}"
    and "mt_current K \<in> set (entries_below (mc_fs (kp_mc s0)) (mt_root K))"
proof -
  let ?r = "mt_root K" and ?temp = "temporary_link K (kj_token j)" and ?a = "mc_fs (kp_mc s0)" and ?b = "mc_fs (kp_mc t)"
  from assms(1) have same: "\<And>p. p \<in> within ?r \<Longrightarrow> p \<noteq> mt_current K \<Longrightarrow> p \<noteq> ?temp \<Longrightarrow> map_of ?b p = map_of ?a p"
    and cur: "\<exists>e. map_of ?b (mt_current K) = Some (ELink e)"
    and temp: "map_of ?b ?temp = None \<or> (\<exists>e. map_of ?b ?temp = Some (ELink e))"
    using left_byD [OF assms(1)] by (auto simp: agree_def)
  have dirs: "(\<exists>k. x_lookup ?b q = Some (EDir k)) \<longleftrightarrow> (\<exists>k. x_lookup ?a q = Some (EDir k))" if "below ?r q" for q
    using same [of q] that cur temp assms(3,4) by (cases "q = mt_current K \<or> q = ?temp") (auto simp: x_lookup_def within_def)
  have walk: "walked ?b ?r p = walked ?a ?r p" for p by (rule walked_dirs) (rule dirs)
  have "map_of ?a p \<noteq> None \<longleftrightarrow> map_of ?b p \<noteq> None \<and> p \<noteq> ?temp" if "walked ?a ?r p" for p
    using same [of p] that cur assms(3,4) by (cases "p = mt_current K"; cases "p = ?temp") (auto simp: walked_def within_def)
  then show "set (entries_below ?a ?r) = set (entries_below ?b ?r) - {?temp}"
    unfolding set_eq_iff Diff_iff entries_below_iff walk by blast
  show "mt_current K \<in> set (entries_below ?a ?r)"
    using walked_child [of "''current''" ?a ?r] maintenance_parts assms(3) by (simp add: entries_below_iff mt_current_def)
qed

lemma map_of_sorted_object: "map_of (sorted_object kvs) k = map_option jsort (map_of kvs k)"
  using jget_jsort [of "JObj kvs" k] by (simp add: sorted_object_def)

lemma length_sorted_object: "length (sorted_object kvs) = length kvs"
  by (simp add: sorted_object_def sort_by_def)

lemma length_dict_set: "map_of kvs k \<noteq> None \<Longrightarrow> length (dict_set k v kvs) = length kvs"
  by (induction kvs) (auto split: if_splits)

text \<open>An object equals its sorted self with one value replaced on both sides.\<close>

lemma py_eq_replaced:
  assumes "distinct (map fst kvs)" and "list_all (\<lambda>(k, x). jplain x) kvs" and "map_of kvs k \<noteq> None" and "py_eq v w"
  shows "py_eq (JObj (dict_set k v kvs)) (JObj (dict_set k w (sorted_object kvs)))"
  unfolding py_eq_object
proof (intro conjI ballI)
  have "map_of (sorted_object kvs) k \<noteq> None" using assms(3) by (simp add: map_of_sorted_object)
  then show "length (dict_set k v kvs) = length (dict_set k w (sorted_object kvs))"
    using assms(3) by (simp add: length_dict_set length_sorted_object)
  fix e assume "e \<in> set (dict_set k v kvs)"
  moreover have "distinct (map fst (dict_set k v kvs))" using assms(1) by (simp add: distinct_dict_set)
  ultimately have "map_of (dict_set k v kvs) (fst e) = Some (snd e)" by simp
  then have e: "fst e = k \<and> snd e = v \<or> fst e \<noteq> k \<and> map_of kvs (fst e) = Some (snd e)"
    by (auto simp: map_of_dict_set split: if_splits)
  then have "jplain (snd e)" if "fst e \<noteq> k" using that assms(2) by (auto simp: list_all_iff dest: map_of_SomeD)
  with e assms(4) show "case e of (k', x) \<Rightarrow> case map_of (dict_set k w (sorted_object kvs)) k' of None \<Rightarrow> False | Some y \<Rightarrow> py_eq x y"
    by (cases e) (auto simp: map_of_dict_set map_of_sorted_object py_eq_sorted)
qed

lemma dict_set_map:
  "distinct (map g ps) \<Longrightarrow> c \<in> set ps \<Longrightarrow>
    dict_set (g c) v (map (\<lambda>p. (g p, h p)) ps) = map (\<lambda>p. (g p, if p = c then v else h p)) ps"
  by (induction ps) (auto simp: image_iff)

lemma current_item:
  assumes "map_of (mc_fs m) (mt_current K) = Some (ELink e)"
  shows "entry_item W L m (mt_current K) =
    [(''mode'', JStr ''0777''), (''type'', JStr ''symlink''), (''target'', JStr (mark L (mt_current K)))]"
proof -
  have "pp_parts (mt_current K) \<noteq> []" using maintenance_parts by (simp add: mt_current_def path_div_part)
  with assms show ?thesis by (simp add: entry_item_def x_lookup_def)
qed

lemma switched_inventory:
  assumes left: "left_by K j now s0 t" and token: "kj_token j = hex_text 32 k"
    and cur: "map_of (mc_fs (kp_mc s0)) (mt_current K) = Some (ELink e)" and temp: "map_of (mc_fs (kp_mc s0)) (temporary_link K (kj_token j)) = None"
    and inv: "kj_inventory j = inventory_of W (kp_marks s0) (kp_mc s0) (mt_root K)"
    and proper: "proper_names (mt_root K) (mc_fs (kp_mc s0))" "proper_names (mt_root K) (mc_fs (kp_mc t))"
  obtains expected where "with_current (sorted_object (kj_inventory j)) now = Inr expected"
    and "py_eq (JObj (filter (\<lambda>e. fst e \<noteq> ''.maintenance-current-'' @ kj_token j) (inventory_of W (kp_marks t) (kp_mc t) (mt_root K)))) (JObj expected)"
proof -
  let ?r = "mt_root K" and ?temp = "temporary_link K (kj_token j)"
  let ?L = "kp_marks s0" and ?m = "kp_mc s0" and ?target = "JStr (''releases/'' @ now)"
  let ?E = "entries_below (mc_fs ?m) ?r" and ?F = "entries_below (mc_fs (kp_mc t)) ?r"
  let ?item = "\<lambda>p. JObj (entry_item W ?L ?m p)" and ?items = "entry_item W ?L ?m (mt_current K)"
  let ?now = "JObj (dict_set ''target'' ?target ?items)"
  let ?expected = "dict_set ''current'' (JObj (dict_set ''target'' ?target (sorted_object ?items))) (sorted_object (kj_inventory j))"
  note names = inventory_names [OF proper(1), of W ?L]
  note entries = switched_entries [OF left token cur temp]
  have rc: "relative ?r (mt_current K) = ''current''" using maintenance_parts by (simp add: mt_current_def relative_child)
  have rt: "relative ?r ?temp = ''.maintenance-current-'' @ kj_token j"
    using token_part [of 32 k] by (simp add: temporary_link_def relative_child token)
  have keys: "distinct (map (relative ?r) ?E)" using names(1) by (simp add: inventory_of_def comp_def)
  have at_cur: "map_of (kj_inventory j) ''current'' = Some (JObj ?items)"
  proof (rule map_of_is_SomeI)
    show "distinct (map fst (kj_inventory j))" using names(1) by (simp add: inv)
    show "(''current'', JObj ?items) \<in> set (kj_inventory j)" using entries(2) rc by (force simp: inv inventory_of_def)
  qed
  have "with_current (sorted_object (kj_inventory j)) now = Inr ?expected"
    by (simp add: with_current_def map_of_sorted_object at_cur) (simp add: sorted_object_def)
  moreover have "mset (filter (\<lambda>e. fst e \<noteq> ''.maintenance-current-'' @ kj_token j) (inventory_of W (kp_marks t) (kp_mc t) ?r)) =
      mset (dict_set ''current'' ?now (kj_inventory j))"
  proof -
    have off: "relative ?r p \<noteq> ''.maintenance-current-'' @ kj_token j \<longleftrightarrow> p \<noteq> ?temp" if "p \<in> set ?F" for p
      using relative_name [of ?r p] entries_proper [OF proper(2) that] token_part [of 32 k] by (simp add: temporary_link_def token)
    then have found: "filter (\<lambda>e. fst e \<noteq> ''.maintenance-current-'' @ kj_token j) (inventory_of W (kp_marks t) (kp_mc t) ?r) =
        map (\<lambda>p. (relative ?r p, JObj (entry_item W (kp_marks t) (kp_mc t) p))) (filter (\<lambda>p. p \<noteq> ?temp) ?F)"
      by (simp add: inventory_of_def filter_map comp_def cong: filter_cong)
    have told: "dict_set ''current'' ?now (kj_inventory j) =
        map (\<lambda>p. (relative ?r p, if p = mt_current K then ?now else ?item p)) ?E"
      using dict_set_map [OF keys entries(2), of ?now ?item] by (simp add: inv inventory_of_def rc)
    have same: "mset (filter (\<lambda>p. p \<noteq> ?temp) ?F) = mset ?E"
      using entries(1) by (subst set_eq_iff_mset_eq_distinct [symmetric]) auto
    have item: "JObj (entry_item W (kp_marks t) (kp_mc t) p) = (if p = mt_current K then ?now else ?item p)" if "p \<in> set ?E" for p
    proof (cases "p = mt_current K")
      case True
      from left_byD(3) [OF left] obtain f where "map_of (mc_fs (kp_mc t)) (mt_current K) = Some (ELink f)" by blast
      with True left_byD(4) [OF left] show ?thesis by (simp add: current_item current_item [OF cur])
    next
      case False
      have "p \<in> within ?r" "p \<noteq> ?temp" using that entries(1) by (auto simp: entries_below_iff walked_def within_def)
      with False agreeD [OF left_byD(1) [OF left], of p]
      have "x_lookup (mc_fs (kp_mc t)) p = x_lookup (mc_fs ?m) p \<and> mark (kp_marks t) p = mark ?L p" by simp
      then have "entry_item W (kp_marks t) (kp_mc t) p = entry_item W ?L ?m p" by (intro entry_item_agree) simp_all
      with False show ?thesis by (simp only: if_False)
    qed
    show ?thesis unfolding found told mset_map same
    proof (rule image_mset_cong)
      fix p assume "p \<in># mset ?E"
      then have "p \<in> set ?E" by (simp only: set_mset_mset)
      from item [OF this] show "(relative ?r p, JObj (entry_item W (kp_marks t) (kp_mc t) p)) =
          (relative ?r p, if p = mt_current K then ?now else ?item p)" by (simp only:)
    qed
  qed
  moreover have "py_eq (JObj (dict_set ''current'' ?now (kj_inventory j))) (JObj ?expected)"
  proof (rule py_eq_replaced)
    show "distinct (map fst (kj_inventory j))" "list_all (\<lambda>(k, x). jplain x) (kj_inventory j)"
      using names(3) by (simp_all add: inv)
    show "map_of (kj_inventory j) ''current'' \<noteq> None" by (simp add: at_cur)
    show "py_eq ?now (JObj (dict_set ''target'' ?target (sorted_object ?items)))"
      by (rule py_eq_replaced) (simp_all add: current_item [OF cur])
  qed
  ultimately show ?thesis using that py_eq_mset by blast
qed

section \<open>The recovery\<close>

definition undisturbed :: "keep_world \<Rightarrow> maintenance \<Rightarrow> keeper \<Rightarrow> bool" where
  "undisturbed W K s \<longleftrightarrow>
     (let fs = mc_fs (kp_mc s) in
      mc_refuses (kp_mc s) = [] \<and> proper_names (mt_root K) fs \<and>
      (mt_lock_held K \<or>
        kw_lock W (lock_file K) (kp_mc s) \<and> x_is_file fs (lock_file K) \<and> \<not> x_is_symlink fs (lock_file K)) \<and>
      (case x_lookup fs (mt_receipt K) of Some (EDir k) \<Rightarrow> False | _ \<Rightarrow> True))"

lemma on_keep_run: "c (kp_mc s) = (r, m) \<Longrightarrow> on_keep c s = (r, s\<lparr>kp_mg := (kp_mg s)\<lparr>mg_machine := m\<rparr>\<rparr>)"
  by (simp add: on_keep_pair)

lemma on_keep_same: "c (kp_mc s) = (r, kp_mc s) \<Longrightarrow> on_keep c s = (r, s)"
  by (simp add: on_keep_pair)

lemma recovery_locked:
  assumes "undisturbed W K s" and "made (mt_state K) (mc_fs (kp_mc s))" shows "locked W K c s = c s"
proof (cases "mt_lock_held K")
  case False
  let ?p = "lock_file K"
  from False assms(1) have u: "mc_refuses (kp_mc s) = []" "kw_lock W ?p (kp_mc s)" "x_is_file (mc_fs (kp_mc s)) ?p"
    "\<not> x_is_symlink (mc_fs (kp_mc s)) ?p" by (auto simp: undisturbed_def Let_def)
  have a: "on_keep (m_mkdir (mt_state K) True 448) s = (Inr (), s)" by (rule on_keep_same) (rule mkdir_made [OF assms(2)])
  have b: "on_keep (open_append ?p) s = (Inr (), s)" by (rule on_keep_same) (simp add: open_append_def u)
  show ?thesis
    using False by (simp add: locked_def Let_def eseq_def ebind_def a hold_lock_def lock_file_def [symmetric] b
        demand_def look_def eread_def ensure_def u)
qed (simp add: locked_def)

lemma receipt_written:
  assumes "validate_release W L m r = Inr d"
  obtains v where "receipt_doc W L r m = Inr v" and "jget v ''release_path'' = Some (JStr (path_str r))"
    and "jget v ''distribution_id'' = Some (JStr (path_name r))"
proof -
  let ?p = "path_div r ''install.json''"
  from assms have read: "read_json ?p (mc_fs m) = Inr d" and keys: "exactly install_keys d"
    and id: "jget d ''distribution_id'' = Some (JStr (path_name r))"
    by (auto simp: validate_release_def manifest_ok_def rbind_eq_Inr ensure_def split: if_splits)
  from keys have "jget d k \<noteq> None" if "k \<in> set install_keys" for k
    using that by (cases d) (auto simp: exactly_def map_of_eq_None_iff)
  moreover have "set receipt_keys \<subseteq> set install_keys" by code_simp
  ultimately have has: "jget d k \<noteq> None" if "k \<in> set receipt_keys" for k using that by blast
  have "(case jget d k of Some x \<Rightarrow> Inr (k, x) | None \<Rightarrow> refuse k) = (Inr (k, the (jget d k)) :: exn + (string \<times> json))"
    if "k \<in> set receipt_keys" for k using has [OF that] by auto
  then have told: "traverse (\<lambda>k. case jget d k of Some x \<Rightarrow> Inr (k, x) | None \<Rightarrow> refuse k) receipt_keys =
      (Inr (map (\<lambda>k. (k, the (jget d k))) receipt_keys) :: exn + (string \<times> json) list)"
    by (rule traverse_all_Inr)
  from read obtain k c where "x_follow (x_lookup (mc_fs m) ?p) = Some (EFile k c)"
    by (auto simp: read_json_def x_is_file_def split: if_splits option.splits entry.splits)
  then have "digest_at W L ?p m = Some (file_digest W L ?p c)" by (simp add: digest_at_def)
  then have "receipt_doc W L r m = Inr (JObj ([(''schema_version'', JInt 1)] @ map (\<lambda>k. (k, the (jget d k))) receipt_keys @
      [(''release_path'', JStr (path_str r)), (''verified_at'', JStr (kw_now W m)),
       (''install_json_sha256'', JStr (file_digest W L ?p c))]))" (is "_ = Inr ?v")
    by (simp add: receipt_doc_def read rbind_def told Let_def)
  moreover have "jget ?v ''release_path'' = Some (JStr (path_str r))" "jget ?v ''distribution_id'' = Some (JStr (path_name r))"
    by (simp_all add: receipt_keys_def id)
  ultimately show ?thesis by (rule that)
qed

lemma release_within:
  assumes "wf_part n" and "kj_token j = hex_text 32 k"
  shows "within (mt_release K n) \<subseteq> within (mt_root K) - {mt_current K, temporary_link K (kj_token j)}"
proof
  fix p assume p: "p \<in> within (mt_release K n)"
  have parts: "pp_parts (mt_release K n) = pp_parts (mt_root K) @ [''releases'', n]"
    "pp_parts (path_div (mt_root K) x) = pp_parts (mt_root K) @ [x]" if "wf_part x" for x
    using assms(1) maintenance_parts that by (simp_all add: mt_release_def path_div_part)
  from p have "\<exists>t. pp_parts p = pp_parts (mt_release K n) @ t" by (auto simp: within_def below_iff)
  then have "p \<noteq> path_div (mt_root K) x" if "wf_part x" for x using parts [OF that] by auto
  moreover have "below (mt_root K) p" using p current_below(3) [OF assms(1)] below_trans by (auto simp: within_def)
  ultimately show "p \<in> within (mt_root K) - {mt_current K, temporary_link K (kj_token j)}"
    using maintenance_parts token_part [of 32 k] assms(2) by (simp add: within_def mt_current_def temporary_link_def)
qed

lemma switched_accepted:
  assumes left: "left_by K j now s0 t" and token: "kj_token j = hex_text 32 k"
    and cur: "map_of (mc_fs (kp_mc s0)) (mt_current K) = Some (ELink e)" and temp: "map_of (mc_fs (kp_mc s0)) (temporary_link K (kj_token j)) = None"
    and inv: "kj_inventory j = inventory_of W (kp_marks s0) (kp_mc s0) (mt_root K)"
    and proper: "proper_names (mt_root K) (mc_fs (kp_mc s0))" "proper_names (mt_root K) (mc_fs (kp_mc t))"
    and now: "is_release now" "now = kj_previous j \<or> kj_target j = Some now"
    and root: "x_is_dir (mc_fs (kp_mc s0)) (mt_root K)" "\<not> x_is_symlink (mc_fs (kp_mc s0)) (mt_root K)"
    and release: "validate_release W (kp_marks s0) (kp_mc s0) (mt_release K now) = Inr d"
    and entries: "entrypoints W K False (kp_marks s0) (kp_mc s0) = Inr es"
  shows "check_switched W K (j\<lparr>kj_inventory := sorted_object (kj_inventory j), kj_entrypoints := es'\<rparr>) (kp_marks t) (kp_mc t) = Inr now"
    and "validate_release W (kp_marks t) (kp_mc t) (mt_release K now) = Inr d"
proof -
  let ?r = "mt_root K"
  have name: "current_name K (kp_marks t) = now" 
    unfolding current_name_def left_byD(4) [OF left] by (rule release_path [OF now(1)])
  have in_root: "x_lookup (mc_fs (kp_mc t)) ?r = x_lookup (mc_fs (kp_mc s0)) ?r"
    using agreeD [OF left_byD(1) [OF left], of ?r] current_below(1) [of K] current_below(2) [of K 32 k] token below_irrefl
    by (metis (mono_tags, lifting) Diff_iff insert_iff empty_iff mem_Collect_eq within_def)
  have link: "x_is_symlink (mc_fs (kp_mc t)) (mt_current K)"
    using left_byD(3) [OF left] maintenance_parts by (auto simp: x_is_symlink_def x_lookup_def mt_current_def path_div_part)
  have "within (mt_release K now) \<subseteq> within ?r - {mt_current K, temporary_link K (kj_token j)}"
    by (rule release_within [OF release_parts [OF now(1)] token])
  from agree_subset [OF left_byD(1) [OF left] this]
  show valid: "validate_release W (kp_marks t) (kp_mc t) (mt_release K now) = Inr d"
    using release by (simp add: validate_release_agree)
  have "x_exists (mc_fs (kp_mc t)) (mt_journal K)" using left_byD(6) [OF left] by (simp add: x_exists_def x_lookup_def)
  moreover have "x_exists (mc_fs (kp_mc s0)) ?r" using root(1) by (auto simp: x_is_dir_def x_exists_def split: option.splits)
  ultimately have ents: "entrypoints W K False (kp_marks t) (kp_mc t) = Inr es"
    using entrypoints_agree [OF left_byD(2) [OF left] _ _ _ entries] in_root by (simp add: x_exists_def)
  have found: "inventory W (kp_marks t) (kp_mc t) ?r = Inr (inventory_of W (kp_marks t) (kp_mc t) ?r)"
    using root in_root by (simp add: inventory_def x_is_dir_def x_is_symlink_def)
  obtain expected where "with_current (sorted_object (kj_inventory j)) now = Inr expected"
    "py_eq (JObj (filter (\<lambda>e. fst e \<noteq> ''.maintenance-current-'' @ kj_token j) (inventory_of W (kp_marks t) (kp_mc t) ?r))) (JObj expected)"
    by (rule switched_inventory [OF left token cur temp inv proper])
  then show "check_switched W K (j\<lparr>kj_inventory := sorted_object (kj_inventory j), kj_entrypoints := es'\<rparr>) (kp_marks t) (kp_mc t) = Inr now"
    using now(2) by (auto simp: check_switched_def Let_def name link left_byD(4) [OF left] rbind_def ensure_def valid ents found
        simp del: py_eq.simps)
qed

lemma discarded:
  assumes "mc_refuses m = []" and "\<And>k. x_lookup (mc_fs m) p \<noteq> Some (EDir k)"
  obtains m' where "m_discard p m = (Inr (), m')" and "mc_refuses m' = []"
    and "\<And>q. map_of (mc_fs m') q = (if q = p then None else map_of (mc_fs m) q)"
proof (cases "x_lookup (mc_fs m) p")
  case None
  then have "map_of (mc_fs m) p = None" by (auto simp: x_lookup_def split: if_splits)
  with None that [of m] assms show ?thesis by (simp add: m_discard_def)
next
  case (Some e)
  with assms(2) have "m_unlink p m = (Inr (), m\<lparr>mc_fs := x_delete p (mc_fs m)\<rparr>)"
    by (cases e) (auto simp: m_unlink_def m_change_def m_fs_def emodify_def assms(1))
  with Some that [of "m\<lparr>mc_fs := x_delete p (mc_fs m)\<rparr>"] assms(1) show ?thesis by (simp add: m_discard_def)
qed

lemma rollback_recovered:
  assumes left: "left_by K j now s0 t" and token: "kj_token j = hex_text 32 k" "kj_token j' = kj_token j"
    and calm: "undisturbed W K t" "apart K"
    and checked: "check_switched W K j' (kp_marks t) (kp_mc t) = Inr now"
    and release: "validate_release W (kp_marks t) (kp_mc t) (mt_release K now) = Inr d"
  obtains v u where "recover_rollback W K j' t = (Inr (recovered ''rollback-converged'' [(''current'', JStr now)]), u)"
    and "kp_marks u = kp_marks t"
    and "\<And>q. map_of (mc_fs (kp_mc u)) q =
      (if q = mt_journal K \<or> q = temporary_link K (kj_token j) then None
       else if q = mt_receipt K then Some (EFile 384 (Text (json_file v))) else map_of (mc_fs (kp_mc t)) q)"
    and "jget v ''release_path'' = Some (JStr (path_str (mt_release K now)))"
    and "jget v ''distribution_id'' = Some (JStr (path_name (mt_release K now)))"
proof -
  let ?temp = "temporary_link K (kj_token j)" and ?m = "kp_mc t"
  obtain v where v: "receipt_doc W (kp_marks t) (mt_release K now) ?m = Inr v"
    "jget v ''release_path'' = Some (JStr (path_str (mt_release K now)))"
    "jget v ''distribution_id'' = Some (JStr (path_name (mt_release K now)))" by (rule receipt_written [OF release])
  have temp: "?temp \<in> within (mt_root K)" using current_below(2) [of K 32 k] by (simp add: within_def token)
  with journal_outside [OF calm(2)] journal_places(3) have apart: "?temp \<noteq> mt_receipt K" "?temp \<noteq> mt_journal K" "mt_journal K \<noteq> mt_receipt K"
    by auto
  define m1 where "m1 = ?m\<lparr>mc_fs := x_put (mt_receipt K) (EFile 384 (Text (json_file v))) (mc_fs ?m)\<rparr>"
  define s1 where "s1 = t\<lparr>kp_mg := (kp_mg t)\<lparr>mg_machine := m1\<rparr>\<rparr>"
  have "write_json (mt_receipt K) v ?m = (Inr (), m1)" unfolding m1_def
    using left_byD(7) [OF left] calm(1) journal_places(2) by (intro write_json_made) (auto simp: undisturbed_def Let_def)
  then have a: "write_receipt W K (mt_release K now) t = (Inr (), s1)"
    by (simp add: write_receipt_def ebind_def look_def eread_def v(1) on_keep_run s1_def)
  have m1: "mc_refuses m1 = []" using calm(1) by (simp add: m1_def undisturbed_def Let_def)
  have "x_lookup (mc_fs m1) ?temp \<noteq> Some (EDir i)" for i
    using left_byD(5) [OF left] apart(1) token_part [of 32 k]
    by (auto simp: m1_def x_lookup_def map_of_dict_set x_put_def temporary_link_def token path_div_part)
  then obtain m2 where m2: "m_discard ?temp m1 = (Inr (), m2)" "mc_refuses m2 = []"
    "\<And>q. map_of (mc_fs m2) q = (if q = ?temp then None else map_of (mc_fs m1) q)" using discarded [OF m1] by blast
  define s2 where "s2 = s1\<lparr>kp_mg := (kp_mg s1)\<lparr>mg_machine := m2\<rparr>\<rparr>"
  have b: "on_keep (m_discard ?temp) s1 = (Inr (), s2)" by (simp add: on_keep_run m2(1) s1_def s2_def)
  have "x_lookup (mc_fs m2) (mt_journal K) \<noteq> Some (EDir i)" for i
    using left_byD(6) [OF left] apart journal_places(6) by (simp add: m2(3) m1_def x_lookup_def map_of_dict_set x_put_def)
  then obtain m3 where m3: "m_discard (mt_journal K) m2 = (Inr (), m3)" "mc_refuses m3 = []"
    "\<And>q. map_of (mc_fs m3) q = (if q = mt_journal K then None else map_of (mc_fs m2) q)" using discarded [OF m2(2)] by blast
  obtain u where c: "clear_journal K s2 = (Inr (), u)" "kp_mc u = m3" "kp_marks u = kp_marks t"
    by (simp add: clear_journal_def eseq_def ebind_def on_keep_run m3(1) s2_def s1_def on_manager_def in_registry_def emodify_def)
  have "recover_rollback W K j' t = (Inr (recovered ''rollback-converged'' [(''current'', JStr now)]), u)"
    by (simp add: recover_rollback_def eseq_def ebind_def look_def eread_def checked a b c(1) ereturn_def token(2))
  moreover have "map_of (mc_fs (kp_mc u)) q =
      (if q = mt_journal K \<or> q = ?temp then None
       else if q = mt_receipt K then Some (EFile 384 (Text (json_file v))) else map_of (mc_fs ?m) q)" for q
    by (simp add: c(2) m3(3) m2(3) m1_def map_of_dict_set x_put_def)
  ultimately show ?thesis using that c(3) v(2,3) by blast
qed

section \<open>An interruption anywhere\<close>

lemma interrupted_steps:
  assumes "each_e (\<lambda>c. c) (take n (switch_steps W K j target)) s = (Inr (), t)" and "0 < n" and "n < 5"
    and first: "data_only K s0 s" "apart K" "\<exists>k. kj_token j = hex_text 32 k"
      "map_of (mc_fs (kp_mc s0)) (mt_current K) = Some (ELink e)" "mark (kp_marks s0) (mt_current K) = ''releases/'' @ now"
      "map_of (mc_fs (kp_mc s0)) (temporary_link K (kj_token j)) = None"
  shows "left_by K j (if n < 3 then now else target) s0 t"
proof -
  have apart: "temporary_link K (kj_token j) \<noteq> mt_current K" using first(4,6) by auto
  have n: "n = 1 \<or> n = 2 \<or> n = 3 \<or> n = 4" using assms(2,3) by linarith
  from assms(1) n obtain a where a: "save_journal K (keep_journal_doc j) s = (Inr (), a)"
    and rest: "each_e (\<lambda>c. c) (take (n - 1) (tl (switch_steps W K j target))) a = (Inr (), t)"
    by (auto simp: switch_steps_def ebind_Inr eseq_Inr)
  have la: "left_by K j now s0 a" by (rule saved_first [OF a first])
  show ?thesis
  proof (cases "n = 1")
    case True
    with rest la show ?thesis by (simp add: ereturn_def)
  next
    case False
    with rest n obtain b where b: "switch_link K (kj_token j) target a = (Inr (), b)"
      and rest: "each_e (\<lambda>c. c) (take (n - 2) (tl (tl (switch_steps W K j target)))) b = (Inr (), t)"
      by (auto simp: switch_steps_def ebind_Inr eseq_Inr)
    note lb = linked_next [OF b la first(2,3)]
    show ?thesis
    proof (cases "n = 2")
      case True
      with rest lb(1) show ?thesis by (simp add: ereturn_def)
    next
      case False
      with rest n \<open>n \<noteq> 1\<close> obtain c where c: "replace_link (temporary_link K (kj_token j)) (mt_current K) b = (Inr (), c)"
        and rest: "each_e (\<lambda>c. c) (take (n - 3) (tl (tl (tl (switch_steps W K j target))))) c = (Inr (), t)"
        by (auto simp: switch_steps_def ebind_Inr eseq_Inr)
      note lc = replaced_next [OF c lb(1) first(2,3) lb(2) apart]
      show ?thesis
      proof (cases "n = 3")
        case True
        with rest lc show ?thesis by (simp add: ereturn_def)
      next
        case False
        with n \<open>n \<noteq> 1\<close> \<open>n \<noteq> 2\<close> have "n = 4" by simp
        with rest have "write_receipt W K (mt_release K target) c = (Inr (), t)"
          by (auto simp: switch_steps_def ebind_Inr eseq_Inr ereturn_Inr)
        from receipt_next [OF this lc first(2,3)] \<open>n = 4\<close> show ?thesis by simp
      qed
    qed
  qed
qed

lemma proper_before:
  assumes "left_by K j now s0 t" and "proper_names (mt_root K) (mc_fs (kp_mc t))"
    and "map_of (mc_fs (kp_mc s0)) (temporary_link K (kj_token j)) = None"
  shows "proper_names (mt_root K) (mc_fs (kp_mc s0))"
  unfolding proper_names_def list_all_iff
proof (intro ballI impI)
  fix p assume p: "p \<in> set (map fst (mc_fs (kp_mc s0)))" "below (mt_root K) p"
  then have "map_of (mc_fs (kp_mc s0)) p \<noteq> None" by (auto simp: map_of_eq_None_iff)
  with assms(3) p(2) left_byD(1,3) [OF assms(1)] have "map_of (mc_fs (kp_mc t)) p \<noteq> None"
    by (cases "p = mt_current K"; cases "p = temporary_link K (kj_token j)") (auto simp: agree_def within_def)
  then have "p \<in> set (map fst (mc_fs (kp_mc t)))" by (auto simp: map_of_eq_None_iff)
  with assms(2) p(2) show "proper_path p" unfolding proper_names_def list_all_iff by blast
qed

lemma no_temporary:
  assumes "set (x_children fs (mt_root K)) = {''current'', ''releases''}" and "kj_token j = hex_text 32 k"
  shows "map_of fs (temporary_link K (kj_token j)) = None"
proof (rule ccontr)
  let ?n = "''.maintenance-current-'' @ kj_token j" and ?p = "temporary_link K (kj_token j)"
  have w: "wf_part ?n" using token_part [of 32 k] by (simp add: assms(2))
  have p: "pp_parts ?p \<noteq> []" "path_parent ?p = mt_root K" "path_name ?p = ?n"
    unfolding temporary_link_def using path_parent_div [OF w] path_name_div [OF w]
    by (simp_all only: path_div_part [OF w]) simp
  assume "map_of fs ?p \<noteq> None"
  then have "?p \<in> set (map fst fs)" by (simp add: map_of_eq_None_iff)
  with p have "?n \<in> set (x_children fs (mt_root K))" by (force simp: x_children_def)
  with assms(1) show False by simp
qed

end
