(* ===== verification/Maintenance_Interrupted.thy ===== *)
theory Maintenance_Interrupted
  imports Maintenance_Recovery Rollback_Props
begin

text \<open>
  An interrupted rollback is finished by its recovery, and an example: an installation with two releases
  and a rollback from the one to the other that stops before its receipt is written.
\<close>

section \<open>The installation\<close>

definition release_name :: "char \<Rightarrow> string" where
  "release_name c = ''dist-'' @ replicate 40 c"

definition install_doc :: "char \<Rightarrow> json" where
  "install_doc c =
     (let part = JObj [(''expected_observable_identity'', JStr ''1''), (''version'', JStr ''1'')] in
      JObj [(''components'', JObj [(''coding_tools_mcp'', part), (''python'', part), (''tunnel_client'', part), (''uv'', part)]),
        (''content_manifest'', JArr []), (''distribution_id'', JStr (release_name c)), (''locked_inputs'', JNull),
        (''manager_source_digest'', JNull), (''manifest_scope'', JStr manifest_scope), (''product_version'', JStr ''1''),
        (''release_commit'', JStr (replicate 40 c)), (''release_ref'', JStr ''v1''), (''repository'', JStr ''r''), (''schema_version'', JInt 3)])"

definition two_maintenance :: maintenance where
  "two_maintenance = \<lparr>mt_home = path_of ''/h'', mt_prefix = path_of ''/p'', mt_lock_held = False\<rparr>"

definition two_world :: keep_world where
  "two_world = \<lparr>kw_systemd = refusing_systemd, kw_sha = \<lambda>_. 0, kw_curl = [], kw_uid = 0, kw_write_ok = True, kw_patience = 0,
     kw_names = \<lambda>_ _. example_names, kw_module = path_of ''/m/maintenance.py'', kw_token = \<lambda>_. 0, kw_now = \<lambda>_. ''now'',
     kw_lock = \<lambda>_ _. True, kw_resolve = \<lambda>p _. p, kw_executable = \<lambda>_ _. True, kw_replaced = \<lambda>_ _. [],
     kw_command = \<lambda>_ _. ProcDone 0 ''1'' [], kw_parses = \<lambda>_ _ _. ProcDone 0 [] [], kw_imports = \<lambda>s. (refuse [], s)\<rparr>"

definition two_marks :: marks where
  "two_marks = (path_of ''/p/lib/workspace-mcp-manager/current'', ''releases/'' @ release_name CHR ''a'') #
     map (\<lambda>n. (mt_bin two_maintenance n, command_target n)) commands"

text \<open>The files, with the texts of the two manifests.\<close>

definition two_fs :: "string \<Rightarrow> string \<Rightarrow> fs" where
  "two_fs x y =
     map (\<lambda>t. (path_of t, EDir 493))
       [''/h'', ''/h/.local'', ''/h/.local/state'', ''/h/.local/state/workspace-mcp-manager'',
        ''/h/.local/state/workspace-mcp-manager/setup-recovery'',
        ''/h/.config'', ''/h/.config/workspace-mcp-manager'', ''/h/.config/workspace-mcp-manager/instances'',
        ''/h/.config/workspace-mcp-manager/instances/.locks'',
        ''/p'', ''/p/lib'', ''/p/lib/workspace-mcp-manager'', ''/p/lib/workspace-mcp-manager/releases''] @
     map (\<lambda>(c, t). (path_of (''/p/lib/workspace-mcp-manager/releases/'' @ release_name c), EDir 493)) [(CHR ''a'', x), (CHR ''b'', y)] @
     map (\<lambda>(c, t). (path_of (''/p/lib/workspace-mcp-manager/releases/'' @ release_name c @ ''/install.json''), EFile 420 (Text t))) [(CHR ''a'', x), (CHR ''b'', y)] @
     [(path_of ''/p/lib/workspace-mcp-manager/current'', ELink (Some (EDir 493)))] @
     map (\<lambda>n. (mt_bin two_maintenance n, ELink (Some (EFile 420 (Text []))))) commands @
     map (\<lambda>t. (path_of t, EFile 448 (Text [])))
       [''/m/install.sh'', ''/m/setup.sh'', ''/m/maintenance.py'', ''/m/upgrade_state.py'',
        ''/h/.local/state/workspace-mcp-manager/setup-recovery/install.sh'', ''/h/.local/state/workspace-mcp-manager/setup-recovery/setup.sh'',
        ''/h/.local/state/workspace-mcp-manager/setup-recovery/maintenance.py'',
        ''/h/.local/state/workspace-mcp-manager/setup-recovery/upgrade_state.py'',
        ''/h/.local/state/workspace-mcp-manager/distribution.lock'',
        ''/h/.config/workspace-mcp-manager/instances/.locks/.registry.lock'']"

definition two_machine :: "string \<Rightarrow> string \<Rightarrow> machine" where
  "two_machine x y = \<lparr>mc_fs = two_fs x y, mc_umask = \<lambda>k. k, mc_refuses = [], mc_git = sample_git, mc_active = [],
     mc_enabled = [], mc_clock = 0\<rparr>"

definition two_registry :: registry_state where
  "two_registry = \<lparr>rs_directory = path_of ''/h/.config/workspace-mcp-manager/instances'', rs_files = [], rs_import_locks = [],
     rs_import_authority = [], rs_upgrade_authority = []\<rparr>"

definition two_keeper :: "string \<Rightarrow> string \<Rightarrow> keeper" where
  "two_keeper x y = \<lparr>kp_mg = \<lparr>mg_registry = two_registry, mg_machine = two_machine x y\<rparr>, kp_marks = two_marks, kp_commits = []\<rparr>"

definition two_request :: json where
  "two_request = JObj [(''action'', JStr ''rollback''), (''target'', JStr (release_name CHR ''b'')), (''fingerprint'', JStr (replicate 64 CHR ''0''))]"

section \<open>What a command sees of it\<close>

lemma two_layout: "check_layout two_maintenance two_marks (two_machine x y) = Inr () \<and> \<not> is_predecessor two_maintenance two_marks (two_machine x y)"
  by code_simp

lemma two_entrypoints: "entrypoints two_world two_maintenance False two_marks (two_machine x y) =
    Inr (map (\<lambda>n. (n, JStr (command_target n))) commands)"
  by code_simp

lemma two_clear: "upgrade_status two_world two_maintenance (two_machine x y) = Inr [] \<and> \<not> is_pending two_maintenance (two_machine x y) \<and>
    declarations two_maintenance two_registry = Inr [] \<and> \<not> pending_imports (mt_paths two_maintenance) (two_fs x y)"
  by code_simp

lemma two_releases: "sort (x_children (two_fs x y) (path_div (mt_root two_maintenance) ''releases'')) = [release_name CHR ''a'', release_name CHR ''b'']"
  by code_simp

lemma two_inside:
  "list_all (\<lambda>c. entries_below (two_fs x y) (mt_release two_maintenance (release_name c)) =
     [path_div (mt_release two_maintenance (release_name c)) ''install.json'']) [CHR ''a'', CHR ''b'']"
  by code_simp

lemma two_manifests:
  "x_lookup (two_fs x y) (path_div (mt_release two_maintenance (release_name CHR ''a'')) ''install.json'') = Some (EFile 420 (Text x))"
  "x_lookup (two_fs x y) (path_div (mt_release two_maintenance (release_name CHR ''b'')) ''install.json'') = Some (EFile 420 (Text y))"
  by code_simp+

lemma two_dirs: "list_all (\<lambda>c. \<not> x_is_symlink (two_fs x y) (mt_release two_maintenance (release_name c)) \<and>
    x_is_dir (two_fs x y) (mt_release two_maintenance (release_name c))) [CHR ''a'', CHR ''b'']"
  by code_simp

lemma two_root: "x_is_dir (two_fs x y) (mt_root two_maintenance) \<and> entry_at (two_fs x y) (mt_root two_maintenance) \<and>
    \<not> x_is_symlink (two_fs x y) (mt_root two_maintenance) \<and> \<not> x_is_symlink (two_fs x y) (mt_receipt two_maintenance)"
  by code_simp

lemma two_names: "current_name two_maintenance two_marks = release_name CHR ''a'' \<and>
    list_all (\<lambda>c. is_release (release_name c) \<and> \<not> is_legacy_release (release_name c)) [CHR ''a'', CHR ''b''] \<and>
    release_name CHR ''a'' \<noteq> release_name CHR ''b''"
  by code_simp

definition manifest_text :: "char \<Rightarrow> string" where
  "manifest_text c = json_file (install_doc c)"

abbreviation two_state :: keeper where
  "two_state \<equiv> two_keeper (manifest_text CHR ''a'') (manifest_text CHR ''b'')"

lemma manifest_sorted: "jsort (install_doc CHR ''a'') = install_doc CHR ''a'' \<and> jsort (install_doc CHR ''b'') = install_doc CHR ''b'' \<and>
    jplain (install_doc CHR ''a'') \<and> jplain (install_doc CHR ''b'')"
  by code_simp

lemma manifest_read:
  assumes "x_lookup fs p = Some (EFile k (Text (manifest_text c)))" and "c \<in> {CHR ''a'', CHR ''b''}"
  shows "read_json p fs = Inr (install_doc c)"
proof -
  obtain kvs where "install_doc c = JObj kvs" by (simp add: install_doc_def Let_def)
  with assms manifest_sorted read_written_json [of fs p k kvs] show ?thesis by (auto simp: manifest_text_def)
qed

lemma manifest_accepted:
  "list_all (\<lambda>c. manifest_ok (mt_release two_maintenance (release_name c)) (install_doc c) = Inr () \<and>
      jitem (install_doc c) ''content_manifest'' = JArr []) [CHR ''a'', CHR ''b'']"
  by code_simp

lemma two_validated:
  assumes "c \<in> {CHR ''a'', CHR ''b''}"
  shows "validate_release two_world two_marks (two_machine (manifest_text CHR ''a'') (manifest_text CHR ''b''))
    (mt_release two_maintenance (release_name c)) = Inr (install_doc c)"
proof -
  let ?r = "mt_release two_maintenance (release_name c)" and ?m = "two_machine (manifest_text CHR ''a'') (manifest_text CHR ''b'')"
  have fs: "mc_fs ?m = two_fs (manifest_text CHR ''a'') (manifest_text CHR ''b'')" by (simp add: two_machine_def)
  have "read_json (path_div ?r ''install.json'') (mc_fs ?m) = Inr (install_doc c)"
    using assms two_manifests by (auto simp: fs intro!: manifest_read)
  moreover have "manifest_ok ?r (install_doc c) = Inr ()" "jitem (install_doc c) ''content_manifest'' = JArr []"
    using assms manifest_accepted by auto
  moreover have "entries_below (mc_fs ?m) ?r = [path_div ?r ''install.json'']"
    using assms two_inside by (auto simp: fs)
  then have "actual_content (inventory_of two_world two_marks ?m ?r) = []"
    using maintenance_parts by (simp add: inventory_of_def actual_content_def relative_child)
  moreover have "\<not> x_is_symlink (mc_fs ?m) ?r \<and> x_is_dir (mc_fs ?m) ?r"
    using assms two_dirs by (auto simp: fs)
  ultimately show ?thesis
    by (simp add: validate_release_def inventory_def json_items_def ensure_def)
qed

lemma two_status:
  obtains told where "maintenance_status two_world two_maintenance two_registry two_marks
      (two_machine (manifest_text CHR ''a'') (manifest_text CHR ''b'')) = Inr told"
    and "jget (JObj told) ''ownership'' = Some (JStr ''standalone_distribution'')"
    and "jitem (JObj told) ''recovery_required'' = JBool False"
    and "jitem (JObj told) ''current'' = JStr (release_name CHR ''a'')"
    and "jitem (JObj told) ''instances'' = JObj []"
proof -
  let ?m = "two_machine (manifest_text CHR ''a'') (manifest_text CHR ''b'')"
  have fs: "mc_fs ?m = two_fs (manifest_text CHR ''a'') (manifest_text CHR ''b'')" by (simp add: two_machine_def)
  let ?items = "map (\<lambda>c. release_item (release_name c) (install_doc c)) [CHR ''a'', CHR ''b'']"
  have one: "inspect_release two_world two_maintenance False two_marks ?m (release_name c) =
      Inr (Inr (release_item (release_name c) (install_doc c)))" if "c \<in> {CHR ''a'', CHR ''b''}" for c
    using that two_names two_validated [OF that] by (auto simp: inspect_release_def)
  have found: "traverse (inspect_release two_world two_maintenance False two_marks ?m)
      (sort (x_children (mc_fs ?m) (path_div (mt_root two_maintenance) ''releases''))) = Inr (map Inr ?items)"
    by (simp add: fs two_releases one del: sort_key_simps)
  let ?base = "[(''ok'', JBool True), (''ownership'', JStr ''absent''), (''current'', JNull), (''releases'', JArr []),
      (''instances'', JObj []), (''recovery_required'', JBool False),
      (''entrypoints'', JObj (map (\<lambda>n. (n, JStr (command_target n))) commands))]"
  let ?told = "dict_set ''releases'' (JArr ?items) (dict_set ''retained_legacy'' (strs []) (dict_set ''current'' (JStr (release_name CHR ''a''))
      (dict_set ''ownership'' (JStr ''standalone_distribution'') ?base)))"
  note names = two_names [simplified]
  have "installed_status two_world two_maintenance False ?base two_marks ?m = Inr ?told"
    unfolding installed_status_def found
    by (simp add: two_layout names Let_def map_filter_def release_item_def jget_def)
  then have "maintenance_status two_world two_maintenance two_registry two_marks ?m = Inr ?told"
    by (simp add: maintenance_status_def two_clear two_layout two_entrypoints two_root fs)
  moreover have "jget (JObj ?told) ''ownership'' = Some (JStr ''standalone_distribution'')"
    "jitem (JObj ?told) ''recovery_required'' = JBool False" "jitem (JObj ?told) ''current'' = JStr (release_name CHR ''a'')"
    "jitem (JObj ?told) ''instances'' = JObj []"
    by (simp_all add: jitem_def jget_or_null_def jget_def)
  ultimately show ?thesis by (rule that)
qed

section \<open>The rollback\<close>

lemma two_asked: "asked_action two_request = ''rollback'' \<and> asked_target two_request = Some (release_name CHR ''b'')"
  by code_simp

lemma two_identities:
  "list_all (\<lambda>n. observed_identity (install_doc CHR ''b'') n = JStr (strip ''1''))
     [''python'', ''uv'', ''tunnel_client'', ''coding_tools_mcp'']"
  by code_simp

lemma zero_text: "hex_text n 0 = replicate n CHR ''0''"
proof -
  have "hex_digit 0 = CHR ''0''" by code_simp
  then show ?thesis by (simp add: hex_text_def map_replicate_const)
qed

lemma two_hash: "keep_hash two_world t = replicate 64 CHR ''0''"
  by (simp add: keep_hash_def two_world_def zero_text)

lemma two_target:
  "check_target two_world two_maintenance two_registry (JStr (release_name CHR ''a'')) (Some (release_name CHR ''b'')) two_marks
     (two_machine (manifest_text CHR ''a'') (manifest_text CHR ''b'')) = Inr ()"
proof -
  let ?m = "two_machine (manifest_text CHR ''a'') (manifest_text CHR ''b'')"
  have fs: "mc_fs ?m = two_fs (manifest_text CHR ''a'') (manifest_text CHR ''b'')" by (simp add: two_machine_def)
  have read: "read_json (path_div (mt_release two_maintenance (release_name CHR ''b'')) ''install.json'') (mc_fs ?m) = Inr (install_doc CHR ''b'')"
    using two_manifests by (auto simp: fs intro!: manifest_read)
  have run: "kw_command two_world argv m = ProcDone 0 ''1'' []" for argv m by (simp add: two_world_def)
  have told: "command_tells two_world m argv (observed_identity (install_doc CHR ''b'') n) msg = Inr ()"
    if "n \<in> set [''python'', ''uv'', ''tunnel_client'', ''coding_tools_mcp'']" for m argv n msg
  proof -
    have "observed_identity (install_doc CHR ''b'') n = JStr (strip ''1'')"
      using two_identities that unfolding list_all_iff by blast
    then show ?thesis by (simp only: command_tells_def run proc_result.case ensure_def if_True simp_thms)
  qed
  have "validate_runtime two_world (mt_release two_maintenance (release_name CHR ''b'')) ?m = Inr ()"
    by (simp add: validate_runtime_def read told run ensure_def commands_def)
  moreover have "release_name CHR ''b'' \<noteq> []" by (simp add: release_name_def)
  ultimately show ?thesis
    using two_names [simplified] by (auto simp: check_target_def two_validated validate_compatibility_def two_clear)
qed

lemma two_reviewed:
  obtains fresh where "review_maintenance two_world two_maintenance two_request two_state = Inr fresh" and "kv_instances fresh = []"
proof -
  let ?m = "two_machine (manifest_text CHR ''a'') (manifest_text CHR ''b'')"
  have fs: "mc_fs ?m = two_fs (manifest_text CHR ''a'') (manifest_text CHR ''b'')" by (simp add: two_machine_def)
  have parts: "kp_mc two_state = ?m" "kp_reg two_state = two_registry" "kp_marks two_state = two_marks"
    by (simp_all add: two_keeper_def)
  obtain told where status: "maintenance_status two_world two_maintenance two_registry two_marks ?m = Inr told"
    and told: "jget (JObj told) ''ownership'' = Some (JStr ''standalone_distribution'')"
      "jitem (JObj told) ''recovery_required'' = JBool False" "jitem (JObj told) ''current'' = JStr (release_name CHR ''a'')"
      "jitem (JObj told) ''instances'' = JObj []"
    by (rule two_status)
  have "preview_status two_world two_maintenance ''rollback'' two_state = Inr told"
    using told(1,2) by (simp only: preview_status_def parts fs two_clear status ensure_def rbind_Inr if_True simp_thms)
       simp
  then obtain payload fingerprint where "preview_maintenance two_world two_maintenance ''rollback'' (Some (release_name CHR ''b'')) two_state =
      Inr \<lparr>kv_status = told, kv_receipt = digest_at two_world two_marks (mt_receipt two_maintenance) ?m, kv_payload = payload,
        kv_fingerprint = replicate 64 CHR ''0''\<rparr>"
    by (simp add: preview_maintenance_def parts told [simplified] two_target inventory_def fs two_root ensure_def json_pairs_def check_units_def
        digest_def two_hash Let_def)
  moreover have "jget two_request ''fingerprint'' = Some (JStr (replicate 64 CHR ''0''))"
    by (simp add: two_request_def jget_def)
  ultimately show ?thesis
    using that by (simp add: review_maintenance_def two_asked ensure_def kv_instances_def told [simplified] json_pairs_def)
qed

definition two_journaled :: "string \<Rightarrow> string \<Rightarrow> string \<Rightarrow> keeper" where
  "two_journaled x y t =
     (let p = mt_journal two_maintenance; s = two_keeper x y in
      s\<lparr>kp_mg := \<lparr>mg_registry = two_registry\<lparr>rs_files := dict_set p (FText t) []\<rparr>,
        mg_machine = (two_machine x y)\<lparr>mc_fs := x_put p (EFile 384 (Text t)) (two_fs x y)\<rparr>\<rparr>\<rparr>)"

lemma two_made: "list_all (\<lambda>p. x_is_dir (two_fs x y) p \<and> list_all (x_exists (two_fs x y)) (path_parents p))
    [mt_state two_maintenance, path_div (mt_state two_maintenance) ''setup-recovery'', path_div (mt_registry two_maintenance) ''.locks''] \<and>
  apart two_maintenance \<and> undisturbed two_world two_maintenance (two_keeper x y) \<and>
  x_is_file (two_fs x y) (path_div (path_div (mt_registry two_maintenance) ''.locks'') ''.registry.lock'') \<and>
  x_lookup (two_fs x y) (mt_journal two_maintenance) = None"
  by code_simp

lemma two_capsule:
  "capsule_sources two_world (two_fs x y) =
     map (\<lambda>n. (path_div (path_of ''/m'') n, n)) [''install.sh'', ''setup.sh'', ''maintenance.py'', ''upgrade_state.py''] \<and>
   list_all (\<lambda>n. x_lookup (two_fs x y) (path_div (path_of ''/m'') n) = Some (EFile 448 (Text [])) \<and>
       map_of (two_fs x y) (path_div (path_div (mt_state two_maintenance) ''setup-recovery'') n) = Some (EFile 448 (Text [])) \<and>
       pp_parts (path_div (path_div (mt_state two_maintenance) ''setup-recovery'') n) \<noteq> [])
     [''install.sh'', ''setup.sh'', ''maintenance.py'', ''upgrade_state.py''] \<and>
   \<not> x_is_symlink (two_fs x y) (path_div (mt_state two_maintenance) ''setup-recovery'')"
  by code_simp

lemma two_switched:
  "case each_e (\<lambda>c. c) [switch_link two_maintenance (replicate 32 CHR ''0'') (release_name CHR ''b''),
       replace_link (temporary_link two_maintenance (replicate 32 CHR ''0'')) (mt_current two_maintenance)] (two_journaled x y t) of
     (Inl e, s) \<Rightarrow> False
   | (Inr u, s) \<Rightarrow> undisturbed two_world two_maintenance s"
  by code_simp

lemma dict_set_same: "map_of kvs k = Some v \<Longrightarrow> dict_set k v kvs = kvs"
  by (induction kvs) (auto split: if_splits)

lemma capsule_kept: "prepare_recovery_capsule two_world two_maintenance (two_keeper x y) = (Inr (), two_keeper x y)"
proof -
  let ?dir = "path_div (mt_state two_maintenance) ''setup-recovery''" and ?m = "two_machine x y"
    and ?names = "[''install.sh'', ''setup.sh'', ''maintenance.py'', ''upgrade_state.py'']"
  have parts: "kp_mc (two_keeper x y) = ?m" "mc_fs ?m = two_fs x y" "mc_refuses ?m = []"
    by (simp_all add: two_keeper_def two_machine_def)
  have put: "put_capsule ?dir (path_div (path_of ''/m'') n, n) ?m = (Inr (), ?m)" if "n \<in> set ?names" for n
  proof -
    let ?p = "path_div ?dir n"
    have "x_lookup (two_fs x y) (path_div (path_of ''/m'') n) = Some (EFile 448 (Text []))"
      "map_of (two_fs x y) ?p = Some (EFile 448 (Text []))" "pp_parts ?p \<noteq> []"
      using two_capsule [of x y] that by (auto simp: list_all_iff)
    then show ?thesis
      by (simp add: put_capsule_def parts Let_def x_is_symlink_def x_lookup_def m_change_def m_fs_def emodify_def x_put_def dict_set_same)
  qed
  have "each_e (\<lambda>e. on_keep (put_capsule ?dir e)) (map (\<lambda>n. (path_div (path_of ''/m'') n, n)) ns) (two_keeper x y) = (Inr (), two_keeper x y)"
    if "set ns \<subseteq> set ?names" for ns
    using that by (induction ns) (auto simp: ereturn_def ebind_def on_keep_same parts put)
  from this [of ?names] have "each_e (\<lambda>e. on_keep (put_capsule ?dir e)) (capsule_sources two_world (two_fs x y)) (two_keeper x y) =
      (Inr (), two_keeper x y)" using two_capsule [of x y] by simp
  moreover have "on_keep (m_mkdir ?dir True 448) (two_keeper x y) = (Inr (), two_keeper x y)"
    using two_made [of x y] by (intro on_keep_same mkdir_made) (simp add: parts made_def list_all_iff)
  ultimately show ?thesis
    using two_capsule [of x y]
    by (simp add: prepare_recovery_capsule_def Let_def ebind_def eseq_def look_def eread_def demand_def ensure_def parts)
qed

lemma quiescent_kept: "quiescent_instances two_world two_maintenance [] (two_keeper x y) = (Inr (), two_keeper x y)"
proof -
  let ?gates = "path_div (mt_registry two_maintenance) ''.locks''" and ?m = "two_machine x y"
  have parts: "kp_mc (two_keeper x y) = ?m" "mc_fs ?m = two_fs x y" "mc_refuses ?m = []" "kw_lock two_world p ?m" for p
    by (simp_all add: two_keeper_def two_machine_def two_world_def)
  have "on_keep (m_mkdir ?gates True 448) (two_keeper x y) = (Inr (), two_keeper x y)"
    using two_made [of x y] by (intro on_keep_same mkdir_made) (simp add: parts made_def list_all_iff)
  moreover have "on_keep (open_append (path_div ?gates ''.registry.lock'')) (two_keeper x y) = (Inr (), two_keeper x y)"
    using two_made [of x y] by (intro on_keep_same) (simp add: open_append_def parts)
  ultimately show ?thesis
    by (simp add: quiescent_instances_def Let_def eseq_def ebind_def hold_lock_def look_def eread_def ensure_def parts ereturn_def)
qed

lemma two_saved: "save_journal two_maintenance v (two_keeper x y) = (Inr (), two_journaled x y (json_file v))"
proof -
  let ?p = "mt_journal two_maintenance" and ?m = "two_machine x y"
  have "made (path_parent ?p) (mc_fs ?m)" "mc_refuses ?m = []" "x_lookup (mc_fs ?m) ?p \<noteq> Some (EDir k)" for k
    using two_made [of x y] by (simp_all add: journal_places made_def two_machine_def list_all_iff)
  from write_json_made [OF this] have "on_keep (write_json ?p v) (two_keeper x y) =
      (Inr (), (two_keeper x y)\<lparr>kp_mg := (kp_mg (two_keeper x y))\<lparr>mg_machine := ?m\<lparr>mc_fs := x_put ?p (EFile 384 (Text (json_file v))) (two_fs x y)\<rparr>\<rparr>\<rparr>)"
    by (simp add: on_keep_pair two_keeper_def two_machine_def)
  then show ?thesis
    by (simp add: save_journal_def eseq_def ebind_def on_manager_def in_registry_def emodify_def two_journaled_def two_keeper_def two_registry_def Let_def)
qed

lemma two_interrupted:
  obtains doc t where "interrupted_maintenance two_world two_maintenance (take 3) two_request (Some ''yes'') two_state = (Inr doc, t)"
    and "undisturbed two_world two_maintenance t"
proof -
  let ?x = "manifest_text CHR ''a''" and ?y = "manifest_text CHR ''b''"
  have calm: "undisturbed two_world two_maintenance two_state" "made (mt_state two_maintenance) (mc_fs (kp_mc two_state))"
    using two_made [of ?x ?y] by (simp_all add: made_def two_keeper_def two_machine_def list_all_iff)
  obtain fresh where fresh: "review_maintenance two_world two_maintenance two_request two_state = Inr fresh" "kv_instances fresh = []"
    by (rule two_reviewed)
  have "inventory two_world (kp_marks two_state) (kp_mc two_state) (mt_root two_maintenance) =
      Inr (inventory_of two_world (kp_marks two_state) (kp_mc two_state) (mt_root two_maintenance))"
    using two_root [of ?x ?y] by (simp add: inventory_def two_keeper_def two_machine_def)
  then obtain j where j: "first_record two_world two_maintenance two_request fresh two_state = Inr j"
    and kj: "kj_operation j = ''rollback''" "kj_target j = Some (release_name CHR ''b'')" "kj_token j = replicate 32 CHR ''0''"
    by (simp add: first_record_def Let_def two_asked zero_text two_world_def)
  obtain t where switched: "each_e (\<lambda>c. c) [switch_link two_maintenance (replicate 32 CHR ''0'') (release_name CHR ''b''),
       replace_link (temporary_link two_maintenance (replicate 32 CHR ''0'')) (mt_current two_maintenance)]
       (two_journaled ?x ?y (json_file (keep_journal_doc j))) = (Inr (), t)" and t: "undisturbed two_world two_maintenance t"
    using two_switched [of ?x ?y "json_file (keep_journal_doc j)"] by (auto split: prod.splits sum.splits)
  have take3: "take 3 (switch_steps two_world two_maintenance j target) =
      [save_journal two_maintenance (keep_journal_doc j), switch_link two_maintenance (kj_token j) target,
       replace_link (temporary_link two_maintenance (kj_token j)) (mt_current two_maintenance)]" for target
    by (simp add: switch_steps_def)
  have "each_e (\<lambda>c. c) (take 3 (switch_steps two_world two_maintenance j (release_name CHR ''b''))) two_state = (Inr (), t)"
    using switched by (simp add: take3 kj two_saved ebind_def)
  moreover have "declared_as two_maintenance [] msg two_state = (Inr (), two_state)" for msg
    by (simp add: declared_as_def eread_def two_keeper_def two_clear ensure_def)
  ultimately have "\<exists>doc. run_rollback two_world two_maintenance (take 3) fresh j two_state = (Inr doc, t)"
    by (simp add: run_rollback_def kj fresh(2) quiescent_kept eseq_def ebind_def ereturn_def)
  moreover have "check_confirmation ''rollback'' (Some ''yes'') = Inr ()" by (simp add: check_confirmation_def ensure_def)
  ultimately have "\<exists>doc. interrupted_maintenance two_world two_maintenance (take 3) two_request (Some ''yes'') two_state = (Inr doc, t)"
    by (simp add: interrupted_maintenance_def recovery_locked [OF calm] eseq_def ebind_def eread_def two_asked fresh(1) j kj capsule_kept)
  with that t show ?thesis by blast
qed

section \<open>The property\<close>

text \<open>C14:
  A rollback that was accepted and then interrupted between any two of its five steps, by a crash, is
  finished by one recovery: the release in use is the earlier one when the link had not been replaced
  yet and the requested one afterwards, the receipt names it, neither the journal nor the temporary link
  is left, and everything else below the installation is as it was before the rollback. The conditions:
  the program lies apart from the account's data (\<open>apart\<close>), and when the recovery starts no file operation
  is refused, the names below the installation are proper path components, the lock can be taken
  and no directory stands in the receipt's place (\<open>undisturbed\<close>).
\<close>

theorem interrupted_rollback_recovers:
  assumes run: "interrupted_maintenance W K (take n) request confirmation s = (Inr doc, t)"
    and action: "asked_action request = ''rollback''" and n: "0 < n" "n < 5"
    and calm: "apart K" "undisturbed W K t"
  shows "\<exists>now v u. recover_maintenance W K t = (Inr (recovered ''rollback-converged'' [(''current'', JStr now)]), u) \<and>
    (if n < 3 then mark (kp_marks s) (mt_current K) = ''releases/'' @ now else asked_target request = Some now) \<and>
    mark (kp_marks u) (mt_current K) = ''releases/'' @ now \<and> x_is_symlink (mc_fs (kp_mc u)) (mt_current K) \<and>
    \<not> entry_at (mc_fs (kp_mc u)) (mt_journal K) \<and>
    (\<forall>p. below (mt_root K) p \<and> p \<noteq> mt_current K \<longrightarrow> map_of (mc_fs (kp_mc u)) p = map_of (mc_fs (kp_mc s)) p) \<and>
    map_of (mc_fs (kp_mc u)) (mt_receipt K) = Some (EFile 384 (Text (json_file v))) \<and>
    jget v ''release_path'' = Some (JStr (path_str (mt_release K now))) \<and>
    jget v ''distribution_id'' = Some (JStr (path_name (mt_release K now)))"
proof -
  obtain fresh j t0 t1 target where a: "data_only K s t0" and fresh: "review_maintenance W K request t0 = Inr fresh"
    and j: "first_record W K request fresh t0 = Inr j" and target: "kj_target j = Some target" and b: "data_only K t0 t1"
    and steps: "each_e (\<lambda>c. c) (take n (switch_steps W K j target)) t1 = (Inr (), t)"
    by (rule rollback_reached [OF run action])
  note known = reviewed_rollback [OF fresh action j target]
  let ?now = "if n < 3 then kj_previous j else target" and ?temp = "temporary_link K (kj_token j)"
  obtain k where k: "kj_token j = hex_text 32 k" using known(15) by blast
  obtain e where cur: "map_of (mc_fs (kp_mc t0)) (mt_current K) = Some (ELink e)"
    using known(7) maintenance_parts
    by (auto simp: x_is_symlink_def x_lookup_def mt_current_def path_div_part split: if_splits option.splits entry.splits)
  have temp: "map_of (mc_fs (kp_mc t0)) ?temp = None" by (rule no_temporary [OF known(6) k])
  have left: "left_by K j ?now t0 t"
    by (rule interrupted_steps [OF steps n b calm(1) known(15) cur known(8) temp])
  have proper: "proper_names (mt_root K) (mc_fs (kp_mc t))" using calm(2) by (simp add: undisturbed_def Let_def)
  have proper0: "proper_names (mt_root K) (mc_fs (kp_mc t0))" by (rule proper_before [OF left proper temp])
  have ready: "journal_ready j"
    using known(2,9,13,14,16,17) inventory_names [OF proper0, of W "kp_marks t0"] entrypoints_told [OF known(12)] k hexadecimal_text target
    by (auto simp: journal_ready_def known(5) keep_phases_def)
  obtain d where release: "validate_release W (kp_marks t0) (kp_mc t0) (mt_release K ?now) = Inr d"
    using known(10,11) by (cases "n < 3") auto
  let ?j = "j\<lparr>kj_inventory := sorted_object (kj_inventory j), kj_entrypoints := sorted_object (kj_entrypoints j)\<rparr>"
  have accepted: "check_switched W K ?j (kp_marks t) (kp_mc t) = Inr ?now" "validate_release W (kp_marks t) (kp_mc t) (mt_release K ?now) = Inr d"
    by (rule switched_accepted [OF left k cur temp known(5) proper0 proper _ _ known(3,4) release known(12)];
        simp add: known(2,9) target)+
  have tok: "kj_token ?j = kj_token j" by simp
  obtain v u where u: "recover_rollback W K ?j t = (Inr (recovered ''rollback-converged'' [(''current'', JStr ?now)]), u)"
    and marks: "kp_marks u = kp_marks t"
    and fs: "\<And>q. map_of (mc_fs (kp_mc u)) q =
      (if q = mt_journal K \<or> q = ?temp then None
       else if q = mt_receipt K then Some (EFile 384 (Text (json_file v))) else map_of (mc_fs (kp_mc t)) q)"
    and v: "jget v ''release_path'' = Some (JStr (path_str (mt_release K ?now)))"
      "jget v ''distribution_id'' = Some (JStr (path_name (mt_release K ?now)))"
    by (rule rollback_recovered [OF left k tok calm(2,1) accepted]) (rule that)
  have there: "x_lookup (mc_fs (kp_mc t)) (mt_journal K) = Some (EFile 384 (Text (json_file (keep_journal_doc j))))"
    using left_byD(6) [OF left] journal_places(6) by (simp add: x_lookup_def)
  have "recover_maintenance W K t = recover_rollback W K ?j t"
    using keep_journal_roundtrip [OF ready there] there known(13)
    by (simp add: recover_maintenance_def recovery_locked [OF calm(2) left_byD(7) [OF left]] entry_at_def x_exists_def
        ebind_def eread_def)
  moreover have "\<not> entry_at (mc_fs (kp_mc u)) (mt_journal K)"
    using fs [of "mt_journal K"] journal_places(6) by (simp add: entry_at_def x_exists_def x_is_symlink_def x_lookup_def)
  moreover have temp_in: "?temp \<in> within (mt_root K)" using current_below(2) [of K 32 k] by (simp add: within_def k)
  moreover note out = journal_outside [OF calm(1)]
  have cur_in: "mt_current K \<in> within (mt_root K)" using current_below(1) by (simp add: within_def)
  have cur_temp: "mt_current K \<noteq> ?temp" using cur temp by auto
  have "x_is_symlink (mc_fs (kp_mc u)) (mt_current K)"
    using left_byD(3) [OF left] fs [of "mt_current K"] cur_in cur_temp out maintenance_parts
    by (auto simp: x_is_symlink_def x_lookup_def mt_current_def path_div_part)
  moreover have "map_of (mc_fs (kp_mc u)) p = map_of (mc_fs (kp_mc s)) p" if p: "below (mt_root K) p" "p \<noteq> mt_current K" for p
  proof -
    have s: "map_of (mc_fs (kp_mc s)) p = map_of (mc_fs (kp_mc t0)) p"
      using data_only_outside [OF a program_outside [OF calm(1)]] p(1) by simp
    have "p \<in> within (mt_root K)" using p(1) by (simp add: within_def)
    then have "p \<noteq> mt_journal K" "p \<noteq> mt_receipt K" and "p \<noteq> ?temp \<Longrightarrow> map_of (mc_fs (kp_mc t)) p = map_of (mc_fs (kp_mc t0)) p"
      using out left_byD(1) [OF left] p(2) by (auto simp: agree_def)
    then show ?thesis using s temp fs [of p] by auto
  qed
  moreover have "mt_receipt K \<noteq> ?temp" using out temp_in by auto
  then have "map_of (mc_fs (kp_mc u)) (mt_receipt K) = Some (EFile 384 (Text (json_file v)))"
    using fs [of "mt_receipt K"] journal_places(3) [of K] by metis
  moreover have "if n < 3 then mark (kp_marks s) (mt_current K) = ''releases/'' @ ?now else asked_target request = Some ?now"
    using known(1,8) a by (simp add: data_only_def)
  moreover have "mark (kp_marks u) (mt_current K) = ''releases/'' @ ?now" using left_byD(4) [OF left] marks by simp
  ultimately show ?thesis using u v by metis
qed

theorem interrupted_rollback_recovers_witness:
  "\<exists>doc t v u. interrupted_maintenance two_world two_maintenance (take 3) two_request (Some ''yes'') two_state = (Inr doc, t) \<and>
    recover_maintenance two_world two_maintenance t =
      (Inr (recovered ''rollback-converged'' [(''current'', JStr (release_name CHR ''b''))]), u) \<and>
    mark (kp_marks u) (mt_current two_maintenance) = ''releases/'' @ release_name CHR ''b'' \<and>
    jget v ''distribution_id'' = Some (JStr (path_name (mt_release two_maintenance (release_name CHR ''b''))))"
proof -
  obtain doc t where t: "interrupted_maintenance two_world two_maintenance (take 3) two_request (Some ''yes'') two_state = (Inr doc, t)"
    "undisturbed two_world two_maintenance t" by (rule two_interrupted)
  have "apart two_maintenance" using two_made by blast
  with interrupted_rollback_recovers [OF t(1) conjunct1 [OF two_asked] _ _ _ t(2)] two_asked t(1)
  show ?thesis by auto
qed

end
