(* ===== verification/Spec2Isabelle.thy ===== *)
theory Spec2Isabelle
  imports Endpoint_Props Generation_Props Planning_Effects Transport_Props Lifecycle Journal_Props Layout Apply_Props Rollback_Props Operator_Props Tunnel Guard_Props Cleanup_Props Access_Props Projection Reboot_Props Upgrade_Props
    Codex_Props Maintenance_Interrupted
begin

text \<open>
  A verification development for the workspace MCP manager (src/src/workspace_mcp_manager), a program
  that keeps, for every declared instance, a coding-tools MCP server and a tunnel client running as
  systemd user services, with the files, access mounts and Git settings the declaration asks for.

  PARTS AND HOW THEY INTERACT. A declaration is a JSON document, parsed and validated by domain.py and
  kept by registry.py, one file per instance. generation.py turns a declaration into a bundle of
  resources (units, launchers, profiles, marker files); planning.py observes the host and compares it
  with the bundle, giving a plan; host_apply.py and lifecycle.py run a plan as a journaled transaction
  with rollback and qualification; operator_contracts.py and operator_projection.py show declarations,
  plans and states for review. Beside them run the workers of runtime.py (tunnel and admission guard),
  and the commands of access.py, cleanup.py, reboot.py, instance_upgrade.py and codex_jobs.py;
  maintenance.py rolls the installed program back to a retained release, uninstalls it, and recovers
  from an interruption of either.

  THEORIES AND SOURCES, in the order of their dependencies:
  Prelude: results, traversals, dictionaries, strings, numbers, shared by all.
  Json, Json_Roundtrip: json.loads and the three forms of json.dumps the program uses.
  Errors (errors.py), Paths (paths.py, pathlib and os.path.normpath).
  Domain, Domain_Parse, Domain_Valid, Domain_Roundtrip, Declaration (domain.py).
  Endpoint, Endpoint_Props (endpoint_projection.py).
  Files, Registry, Registry_Props (registry.py).
  Generation, Generation_Props (generation.py).
  Applied (admission_recovery.py and the applied evidence of access.py), RecoveryPlan
  (recovery_planning.py).
  Effects: computations with a state and exceptions, and the relations they keep.
  Redaction (redaction.py), DevEnv, DevEnv_Props, Transport_Props (development_environment.py).
  Observer, Planning, Plan_Parts, Planning_Props, Planning_Effects (planning.py).
  Operator, Operator_Props (operator_contracts.py), Projection (operator_projection.py).
  HostFs, Systemd, Transaction, HostApply, Apply, Rollback (host_apply.py); Layout, Rollback_Run,
  Journal_Props, Apply_Props, Rollback_Props are their proofs; Lifecycle (lifecycle.py).
  Tunnel, Instant, Guard, Guard_Props (runtime.py), Stored_Text (texts read back from disk).
  Cleanup, Cleanup_Apply, Cleanup_Props (cleanup.py).
  Access_Manager, Access_Props (the commands of access.py).
  Reboot, Reboot_Props (reboot.py).
  Upgrade_State, Upgrade, Upgrade_Props (upgrade_state.py, instance_upgrade.py and the readers and
  writers of maintenance.py they use).
  Codex, Codex_Props (codex_jobs.py).
  Distribution, Maintenance, Json_Unique, Maintenance_Props, Maintenance_Frames, Maintenance_Journal,
  Maintenance_Recovery, Maintenance_Interrupted (maintenance.py).

  STATE. The registry is a \<open>registry_state\<close>: its directory, an association list of files, locks and
  authorities. The host is a \<open>machine\<close>: a file system of files, directories and links, the paths the
  kernel refuses to change, the Git settings, the active and enabled units and a clock. A
  \<open>manager\<close> pairs both; \<open>worker\<close>, \<open>booter\<close>, \<open>upgrader\<close>, \<open>codexer\<close>, \<open>keeper\<close> and the like add what one process keeps or
  what a property observes (commands that were started, with the state they started in). Operations
  are functions from a state to a result or an exception and the state that is left
  (\<open>em\<close> in Effects); an exception keeps the changes made before it, as in Python. An operation that
  holds a lock for its whole run is one transition.

  OUTSIDE THE REPOSITORY. systemd, the network, other processes, the clock, random tokens and the
  SHA-256 digest are arguments (\<open>systemd\<close>, \<open>guard_world\<close>, \<open>cleanup_world\<close>, \<open>reboot_world\<close>,
  \<open>upgrade_world\<close>, \<open>codex_world\<close>, \<open>keep_world\<close>, the digest \<open>H\<close>), arbitrary in the theorems unless one names a hypothesis and its
  witness shows an instance. Git is modelled by the documented behaviour of \<open>git config --local\<close>.

  WHAT THE LEMMAS SHOW. Declarations: the parser yields exactly the valid declarations, printing and parsing are
  inverse, fingerprints identify, accepted folders are disjoint from the workspace. Registry:
  optimistic concurrency, frames, freezing by a pending maintenance (all but a removal during an
  uninstallation), and an interface (locale) of a store interpreted on it.
  Generation: no value can add a line to a file, every removable resource has its evidence. Planning:
  what a plan touches is a resource of the bundle, or a recorded one, that was observed as owned, a
  valid plan has no collision and meets the preconditions, an empty plan means the host is as declared,
  a removal stops every active unit first. Apply: the journal is written ahead; on a host that refuses no
  file operation, a failure restores the files, up to line endings, and the Git settings
  (\<open>failed_apply_rolls_back\<close> names the exceptions); success was qualified and converged, a review is binding,
  a retirement runs in order. Git: claims of plain repositories converge, and a release restores what
  a claim found, under the conditions the two theorems state. Workers and commands: restarts are spaced by the cool-down, cleanup removes only what
  carries the evidence of the old installation and removes all of it, access commands implement the
  abstract edits, a reboot is requested only after it is recorded, an upgrade changes runtimes only,
  a Codex job is durable before its worker is launched, runs the submitted prompt once at most per
  worker and stays as it ended, and a read of its logs is bounded; the program is moved away only when
  nothing uses it, an uninstallation erases only what its journal recorded, and a rollback that a
  crash interrupts is finished by its recovery.

  BOUNDS AND FUEL. There is no fuel: every function is total. The waiting loop recurses on the time
  left to its deadline, on any clock that advances by at least the time slept, and \<open>waiting_is_bounded\<close>
  bounds its rounds; the other recursions are structural or have a measure. Integers are Python's, unbounded; ports, counters and
  intervals carry the ranges the code checks; instants are microseconds below year 10000, and the
  overflow of \<open>timedelta\<close> is an exception. Texts are lists of the characters 0 to 255.

  NOT MODELLED. The command line and the screens (cli.py, tui.py, tui_textual.py), which parse
  arguments and draw; github_access.py, github_auth_helper.py and the diagnostics, which drive the
  GitHub CLI or collect logs; legacy_import.py and setup_projection.py; the lookup of
  the installed runtimes (distribution_runtime.py); the temporary files,
  file descriptors and fsync calls behind an atomic write, which is one step here; the position of a
  JSON syntax error and the texts of operating-system exceptions beyond the path they name. Git's
  configuration file is taken as decodable when a rollback restores it; \<open>git remote get-url\<close> reads the
  repository's own url, rewritten, and not one of the user's or the system's configuration; a remote
  address on which \<open>urlparse\<close> raises counts as an unsupported address. The code writes announcing, action and
  record of a journaled step out at every place; the model has one combinator (\<open>journaled\<close>) for them.
\<close>

end
